(* ===== verification/Prelude.thy ===== *)
theory Prelude
  imports Main "HOL-Library.Word" "HOL-Library.Char_ord" "HOL-Library.List_Lexorder"
begin

text \<open>
  The vocabulary shared by every component of the development.

  \<^item> Machine integers. \<open>u64\<close>, \<open>u32\<close> and \<open>usize\<close> of the Rust sources are words; the
    saturating and checked operations of the Rust standard library that the sources call
    are defined here once, each with the lemma that reads it as arithmetic on \<open>nat\<close>
    (collection \<open>unat_simps\<close>).
  \<^item> Results. \<open>Result<T, E>\<close> is \<open>'e + 'a\<close> with \<open>Inl\<close> for \<open>Err\<close>; \<open>bind_result\<close> is the
    \<open>?\<close> operator.
  \<^item> Strings. A Rust \<open>String\<close> is its sequence of UTF-8 bytes, so \<open>length\<close> is \<open>str::len\<close>;
    \<open>chars\<close> cuts it at character boundaries.
  \<^item> The locale \<open>invariant_system\<close>: what it takes for a property to hold in every state
    a transition system reaches.
\<close>

named_theorems unat_simps
named_theorems keeps_intros
named_theorems fails_intros

type_synonym u64 = "64 word"
type_synonym u32 = "32 word"
type_synonym usize = "64 word"

section \<open>Machine integers\<close>

definition saturating_sub :: "'a::len word \<Rightarrow> 'a word \<Rightarrow> 'a word" where
  "saturating_sub a b = (if b \<le> a then a - b else 0)"

definition saturating_add :: "'a::len word \<Rightarrow> 'a word \<Rightarrow> 'a word" where
  "saturating_add a b = (if unat a + unat b < 2 ^ LENGTH('a) then a + b else - 1)"

definition saturating_mul :: "'a::len word \<Rightarrow> 'a word \<Rightarrow> 'a word" where
  "saturating_mul a b = (if unat a * unat b < 2 ^ LENGTH('a) then a * b else - 1)"

definition checked_add :: "'a::len word \<Rightarrow> 'a word \<Rightarrow> 'a word option" where
  "checked_add a b = (if unat a + unat b < 2 ^ LENGTH('a) then Some (a + b) else None)"

lemma unat_saturating_sub [unat_simps]: "unat (saturating_sub a b) = unat a - unat b"
proof (cases "b \<le> a")
  case True
  then show ?thesis by (simp add: saturating_sub_def unat_sub)
next
  case False
  then have "unat a < unat b" by (simp add: word_less_nat_alt not_le)
  with False show ?thesis by (simp add: saturating_sub_def)
qed

lemma unat_max_word: "unat (- 1 :: 'a::len word) = 2 ^ LENGTH('a) - 1"
  by (simp add: unsigned_minus_1_eq_mask mask_eq_exp_minus_1)

lemma unat_saturating_add [unat_simps]:
  fixes a :: "'a::len word"
  shows "unat (saturating_add a b) = min (unat a + unat b) (2 ^ LENGTH('a) - 1)"
  by (simp add: saturating_add_def unat_word_ariths unat_max_word)

lemma unat_saturating_mul [unat_simps]:
  fixes a :: "'a::len word"
  shows "unat (saturating_mul a b) = min (unat a * unat b) (2 ^ LENGTH('a) - 1)"
  by (simp add: saturating_mul_def unat_word_ariths unat_max_word)

lemma unat_add_below:
  fixes a :: "'a::len word"
  assumes "unat a + unat b < 2 ^ LENGTH('a)"
  shows "unat (a + b) = unat a + unat b"
  using assms by (simp add: unat_word_ariths)

lemma unat_sub_below: "unat b \<le> unat a \<Longrightarrow> unat (a - b) = unat a - unat b"
  by (rule unat_sub) (simp add: word_le_nat_alt)

lemma word_min_unat [unat_simps]: "unat (min a b) = min (unat a) (unat b)"
  by (simp add: min_def word_le_nat_alt)

lemma unat_ucast_u32 [unat_simps]: "unat (ucast (w :: u32) :: u64) = unat w"
proof -
  have "unat w < 2 ^ 64" using unsigned_less[of w, where 'a = nat] by simp
  then show ?thesis by (simp add: unsigned_ucast_eq take_bit_nat_eq_self)
qed

lemma checked_add_Some: "checked_add a b = Some c \<Longrightarrow> unat c = unat a + unat b"
  by (auto simp: checked_add_def unat_add_below split: if_splits)

section \<open>Results\<close>

type_synonym ('e, 'a) result = "'e + 'a"

fun bind_result :: "('e, 'a) result \<Rightarrow> ('a \<Rightarrow> ('e, 'b) result) \<Rightarrow> ('e, 'b) result" where
  "bind_result (Inl e) f = Inl e"
| "bind_result (Inr x) f = f x"

fun ok_or :: "'a option \<Rightarrow> 'e \<Rightarrow> ('e, 'a) result" where
  "ok_or None e = Inl e"
| "ok_or (Some x) e = Inr x"

fun map_err :: "('e, 'a) result \<Rightarrow> ('e \<Rightarrow> 'f) \<Rightarrow> ('f, 'a) result" where
  "map_err (Inl e) f = Inl (f e)"
| "map_err (Inr x) f = Inr x"

fun is_ok :: "('e, 'a) result \<Rightarrow> bool" where
  "is_ok (Inl e) = False"
| "is_ok (Inr x) = True"

lemma bind_result_Inr [simp]: "bind_result r f = Inr y \<longleftrightarrow> (\<exists>x. r = Inr x \<and> f x = Inr y)"
  by (cases r) auto

lemma bind_result_Inl:
  "bind_result r f = Inl e \<longleftrightarrow> r = Inl e \<or> (\<exists>x. r = Inr x \<and> f x = Inl e)"
  by (cases r) auto

lemma ok_or_Inr [simp]: "ok_or r e = Inr x \<longleftrightarrow> r = Some x"
  by (cases r) auto

lemma map_err_Inr [simp]: "map_err r f = Inr x \<longleftrightarrow> r = Inr x"
  by (cases r) auto

text \<open>
  Fallible code that changes a state: the state is returned whether or not the operation
  fails, as an \<open>Err\<close> of the sources does not undo what was done before it.
\<close>

type_synonym ('s, 'e, 'a) action = "'s \<Rightarrow> ('e, 'a) result \<times> 's"

definition ret_action :: "'a \<Rightarrow> ('s, 'e, 'a) action" where
  "ret_action x s = (Inr x, s)"

definition lift_action :: "('e, 'a) result \<Rightarrow> ('s, 'e, 'a) action" where
  "lift_action r s = (r, s)"

definition bind_action :: "('s, 'e, 'a) action \<Rightarrow> ('a \<Rightarrow> ('s, 'e, 'b) action) \<Rightarrow> ('s, 'e, 'b) action" where
  "bind_action m f s = (case m s of (Inl e, s') \<Rightarrow> (Inl e, s') | (Inr x, s') \<Rightarrow> f x s')"

definition with_state :: "('s \<Rightarrow> ('s, 'e, 'a) action) \<Rightarrow> ('s, 'e, 'a) action" where
  "with_state g s = g s s"

lemma bind_action_Inr:
  "bind_action m f s = (Inr y, s') \<longleftrightarrow> (\<exists>x s1. m s = (Inr x, s1) \<and> f x s1 = (Inr y, s'))"
  by (auto simp: bind_action_def split: prod.splits sum.splits)

lemma lift_action_eq: "lift_action r s = (x, s') \<longleftrightarrow> r = x \<and> s' = s"
  by (auto simp: lift_action_def)

lemma ret_action_eq: "ret_action y s = (x, s') \<longleftrightarrow> x = Inr y \<and> s' = s"
  by (auto simp: ret_action_def)

lemma bind_action_lift [simp]:
  "bind_action (lift_action (Inr x)) f s = f x s" "bind_action (lift_action (Inl e)) f s = (Inl e, s)"
  by (simp_all add: bind_action_def lift_action_def)

lemma bind_action_step:
  "m s = (Inr x, s1) \<Longrightarrow> bind_action m f s = f x s1"
  "m s = (Inl e, s1) \<Longrightarrow> bind_action m f s = (Inl e, s1)"
  by (simp_all add: bind_action_def)

text \<open>
  \<open>keeps f m\<close>: the action leaves the part \<open>f\<close> of the state alone, whether it fails or not.
  \<open>fails_only P m\<close>: every error of the action satisfies \<open>P\<close>. Both are proved by following the
  structure of the action (collections \<open>keeps_intros\<close> and \<open>fails_intros\<close>).
\<close>

definition keeps :: "('s \<Rightarrow> 'b) \<Rightarrow> ('s, 'e, 'a) action \<Rightarrow> bool" where
  "keeps f m \<longleftrightarrow> (\<forall>s. f (snd (m s)) = f s)"

definition fails_only :: "('e \<Rightarrow> bool) \<Rightarrow> ('s, 'e, 'a) action \<Rightarrow> bool" where
  "fails_only P m \<longleftrightarrow> (\<forall>s e s'. m s = (Inl e, s') \<longrightarrow> P e)"

lemma keepsD: "keeps f m \<Longrightarrow> m s = (r, s') \<Longrightarrow> f s' = f s"
  by (metis keeps_def snd_conv)

lemma keeps_bind [keeps_intros]:
  assumes "keeps f m" "\<And>x. keeps f (k x)"
  shows "keeps f (bind_action m k)"
  unfolding keeps_def
proof
  fix s
  obtain r s1 where r: "m s = (r, s1)" by fastforce
  then show "f (snd (bind_action m k s)) = f s"
    using keepsD[OF assms(1) r] assms(2) by (cases r) (auto simp: bind_action_def keeps_def)
qed

lemma keeps_basic [keeps_intros]: "keeps f (ret_action x)" "keeps f (lift_action r)"
  by (simp_all add: keeps_def ret_action_def lift_action_def)

lemma keeps_if [keeps_intros]: "keeps f a \<Longrightarrow> keeps f b \<Longrightarrow> keeps f (if c then a else b)"
  by simp

lemma keeps_with_state [keeps_intros]: "(\<And>s. keeps f (g s)) \<Longrightarrow> keeps f (with_state g)"
  by (simp add: keeps_def with_state_def)

lemma fails_with_state [fails_intros]: "(\<And>s. fails_only P (g s)) \<Longrightarrow> fails_only P (with_state g)"
  by (simp add: fails_only_def with_state_def)

lemma fails_bind [fails_intros]:
  assumes "fails_only P m" "\<And>x. fails_only P (k x)"
  shows "fails_only P (bind_action m k)"
  using assms by (auto simp: fails_only_def bind_action_def split: prod.splits sum.splits)

lemma fails_ret [fails_intros]: "fails_only P (ret_action x)"
  by (simp add: fails_only_def ret_action_def)

lemma fails_lift [fails_intros]: "(\<And>e. r = Inl e \<Longrightarrow> P e) \<Longrightarrow> fails_only P (lift_action r)"
  by (auto simp: fails_only_def lift_action_def)

lemma fails_if [fails_intros]: "fails_only P a \<Longrightarrow> fails_only P b \<Longrightarrow> fails_only P (if c then a else b)"
  by simp

text \<open>A predicate on the state that a computation keeps, whether it succeeds or fails.\<close>

named_theorems maintains_intros

definition maintains :: "('s \<Rightarrow> bool) \<Rightarrow> ('s, 'e, 'a) action \<Rightarrow> bool" where
  "maintains P m \<longleftrightarrow> (\<forall>s. P s \<longrightarrow> P (snd (m s)))"

lemma maintainsD: "maintains P m \<Longrightarrow> P s \<Longrightarrow> P (snd (m s))"
  by (simp add: maintains_def)

lemma maintains_bind [maintains_intros]:
  "maintains P m \<Longrightarrow> (\<And>x. maintains P (f x)) \<Longrightarrow> maintains P (bind_action m f)"
  unfolding maintains_def bind_action_def by (force split: prod.splits sum.splits)

lemma maintains_pure [maintains_intros]: "maintains P (ret_action x)" "maintains P (lift_action r)"
  by (simp_all add: maintains_def ret_action_def lift_action_def)

lemma maintains_lift_bind:
  "(\<And>x. r = Inr x \<Longrightarrow> maintains P (f x)) \<Longrightarrow> maintains P (bind_action (lift_action r) f)"
  by (cases r) (simp_all add: maintains_def bind_action_def lift_action_def)

lemma maintains_if [maintains_intros]: "maintains P a \<Longrightarrow> maintains P b \<Longrightarrow> maintains P (if c then a else b)"
  by simp

lemma maintains_list [maintains_intros]:
  "maintains P a \<Longrightarrow> (\<And>x xs. maintains P (b x xs)) \<Longrightarrow> maintains P (case l of [] \<Rightarrow> a | x # xs \<Rightarrow> b x xs)"
  by (cases l) simp_all

text \<open>A computation of the Rust code that may panic.\<close>

datatype 'a may_panic = Ret 'a | Panic

fun bind_panic :: "'a may_panic \<Rightarrow> ('a \<Rightarrow> 'b may_panic) \<Rightarrow> 'b may_panic" where
  "bind_panic Panic f = Panic"
| "bind_panic (Ret x) f = f x"

lemma bind_panic_Ret [simp]: "bind_panic r f = Ret y \<longleftrightarrow> (\<exists>x. r = Ret x \<and> f x = Ret y)"
  by (cases r) auto

text \<open>The minimum of the limits that are present, as \<open>into_iter().flatten().min()\<close>.\<close>

definition min_some :: "'a::linorder option list \<Rightarrow> 'a option" where
  "min_some xs = (case List.map_filter id xs of [] \<Rightarrow> None | y # ys \<Rightarrow> Some (fold min ys y))"

lemma in_set_map_filter_id: "x \<in> set (List.map_filter id xs) \<longleftrightarrow> Some x \<in> set xs"
  by (force simp: List.map_filter_def)

lemma min_some_Min:
  "min_some xs = (if List.map_filter id xs = [] then None else Some (Min (set (List.map_filter id xs))))"
  by (auto simp: min_some_def Min.set_eq_fold simp del: set_simps split: list.splits)

lemma min_some_le: "Some x \<in> set xs \<Longrightarrow> min_some xs = Some m \<Longrightarrow> m \<le> x"
  by (auto simp: min_some_Min in_set_map_filter_id[symmetric] split: if_splits)

lemma min_some_in: "min_some xs = Some m \<Longrightarrow> Some m \<in> set xs"
  using Min_in[of "set (List.map_filter id xs)"]
  by (auto simp: min_some_Min in_set_map_filter_id[symmetric] split: if_splits)

lemma min_some_None: "min_some xs = None \<longleftrightarrow> (\<forall>x. Some x \<notin> set xs)"
proof -
  have "List.map_filter id xs = [] \<longleftrightarrow> (\<forall>x. x \<notin> set (List.map_filter id xs))"
    by (cases "List.map_filter id xs") auto
  then show ?thesis by (simp add: min_some_Min in_set_map_filter_id)
qed

section \<open>Strings\<close>

text \<open>
  A byte is a continuation byte of a multi-byte character when its two top bits are
  \<open>10\<close>; every other byte starts a character.
\<close>

definition is_cont :: "char \<Rightarrow> bool" where
  "is_cont c \<longleftrightarrow> 128 \<le> (of_char c :: nat) \<and> (of_char c :: nat) < 192"

function chars :: "string \<Rightarrow> string list" where
  "chars [] = []"
| "chars (b # bs) = (b # takeWhile is_cont bs) # chars (dropWhile is_cont bs)"
  by pat_completeness auto
termination
  by (relation "measure length") (auto simp: le_imp_less_Suc length_dropWhile_le)

lemma concat_chars [simp]: "concat (chars s) = s"
  by (induction s rule: chars.induct) auto

lemma chars_Nil_iff [simp]: "chars s = [] \<longleftrightarrow> s = []"
  by (cases s) auto

lemma chars_nonempty: "c \<in> set (chars s) \<Longrightarrow> c \<noteq> []"
  by (induction s rule: chars.induct) auto

definition char_count :: "string \<Rightarrow> nat" where
  "char_count s = length (chars s)"

definition take_chars :: "nat \<Rightarrow> string \<Rightarrow> string" where
  "take_chars n s = concat (take n (chars s))"

lemma length_concat_ge: "(\<And>c. c \<in> set cs \<Longrightarrow> c \<noteq> []) \<Longrightarrow> length cs \<le> length (concat cs)"
proof (induction cs)
  case Nil
  then show ?case by simp
next
  case (Cons c cs)
  then have "length cs \<le> length (concat cs)" and "0 < length c" by auto
  then show ?case by (simp del: length_greater_0_conv)
qed

lemma char_count_le_length: "char_count s \<le> length s"
  using length_concat_ge[of "chars s"] chars_nonempty by (fastforce simp: char_count_def)

definition is_char_boundary :: "string \<Rightarrow> nat \<Rightarrow> bool" where
  "is_char_boundary s i \<longleftrightarrow> i = 0 \<or> i = length s \<or> (i < length s \<and> \<not> is_cont (s ! i))"

lemma is_char_boundary_append_char:
  assumes "\<forall>c\<in>set cs. is_cont c" "rest = [] \<or> \<not> is_cont (hd rest)" "Suc (length cs) \<le> i"
  shows "is_char_boundary (b # cs @ rest) i \<longleftrightarrow> is_char_boundary rest (i - Suc (length cs))"
proof -
  obtain j where i: "i = Suc (length cs) + j" using assms(3) le_Suc_ex by blast
  then have "(b # cs @ rest) ! i = rest ! j" by (simp add: nth_append)
  then show ?thesis using assms(2) i by (cases rest; cases j) (auto simp: is_char_boundary_def)
qed

text \<open>The boundaries of a string are the ends of its leading groups of characters.\<close>

lemma is_char_boundary_iff:
  "is_char_boundary s i \<longleftrightarrow> (\<exists>k\<le>length (chars s). i = length (concat (take k (chars s))))"
proof (induction s arbitrary: i rule: chars.induct)
  case 1
  then show ?case by (auto simp: is_char_boundary_def)
next
  case (2 b bs)
  define cs rest where d: "cs = takeWhile is_cont bs" "rest = dropWhile is_cont bs"
  have bs: "b # bs = b # cs @ rest" by (simp add: d)
  have chars: "chars (b # bs) = (b # cs) # chars rest" by (simp add: d)
  have cont: "\<forall>c\<in>set cs. is_cont c" using set_takeWhileD by (fastforce simp: d)
  have hd: "rest = [] \<or> \<not> is_cont (hd rest)" by (metis d(2) hd_dropWhile)
  consider "i = 0" | "0 < i" "i < Suc (length cs)" | "Suc (length cs) \<le> i" by linarith
  then show ?case
  proof cases
    case 1
    then show ?thesis by (auto simp: is_char_boundary_def)
  next
    case 2
    then have "is_cont ((b # cs @ rest) ! i)" using cont by (cases i) (auto simp: nth_append)
    then have "\<not> is_char_boundary (b # bs) i" using 2 unfolding bs by (auto simp: is_char_boundary_def)
    moreover have "i \<noteq> length (concat (take k (chars (b # bs))))" for k
      using 2 unfolding chars by (cases k) auto
    ultimately show ?thesis by blast
  next
    case 3
    have "is_char_boundary (b # bs) i \<longleftrightarrow> is_char_boundary rest (i - Suc (length cs))"
      unfolding bs using is_char_boundary_append_char[OF cont hd 3] .
    also have "\<dots> \<longleftrightarrow> (\<exists>k\<le>length (chars rest). i - Suc (length cs) = length (concat (take k (chars rest))))"
      using 2 by (simp add: d)
    also have "\<dots> \<longleftrightarrow> (\<exists>k\<le>length (chars (b # bs)). i = length (concat (take k (chars (b # bs)))))"
    proof
      assume "\<exists>k\<le>length (chars rest). i - Suc (length cs) = length (concat (take k (chars rest)))"
      then obtain k where "k \<le> length (chars rest)" "i - Suc (length cs) = length (concat (take k (chars rest)))"
        by blast
      with 3 show "\<exists>k\<le>length (chars (b # bs)). i = length (concat (take k (chars (b # bs))))"
        unfolding chars by (intro exI[of _ "Suc k"]) simp
    next
      assume "\<exists>k\<le>length (chars (b # bs)). i = length (concat (take k (chars (b # bs))))"
      then obtain k where k: "k \<le> length (chars (b # bs))" "i = length (concat (take k (chars (b # bs))))"
        by blast
      with 3 have "k \<noteq> 0" by (intro notI) simp
      then obtain k' where "k = Suc k'" using not0_implies_Suc by blast
      with k show "\<exists>k\<le>length (chars rest). i - Suc (length cs) = length (concat (take k (chars rest)))"
        unfolding chars by (intro exI[of _ k']) simp
    qed
    finally show ?thesis .
  qed
qed

text \<open>
  \<open>char::is_whitespace\<close>: the characters with the Unicode property \<open>White_Space\<close>, each as
  its UTF-8 bytes.
\<close>

definition ws_char :: "string \<Rightarrow> bool" where
  "ws_char c \<longleftrightarrow>
     c \<in> {[CHR 0x09], [CHR 0x0A], [CHR 0x0B], [CHR 0x0C], [CHR 0x0D], '' '',
         [CHR 0xC2, CHR 0x85], [CHR 0xC2, CHR 0xA0], [CHR 0xE1, CHR 0x9A, CHR 0x80],
         [CHR 0xE2, CHR 0x80, CHR 0x80], [CHR 0xE2, CHR 0x80, CHR 0x81],
         [CHR 0xE2, CHR 0x80, CHR 0x82], [CHR 0xE2, CHR 0x80, CHR 0x83],
         [CHR 0xE2, CHR 0x80, CHR 0x84], [CHR 0xE2, CHR 0x80, CHR 0x85],
         [CHR 0xE2, CHR 0x80, CHR 0x86], [CHR 0xE2, CHR 0x80, CHR 0x87],
         [CHR 0xE2, CHR 0x80, CHR 0x88], [CHR 0xE2, CHR 0x80, CHR 0x89],
         [CHR 0xE2, CHR 0x80, CHR 0x8A], [CHR 0xE2, CHR 0x80, CHR 0xA8],
         [CHR 0xE2, CHR 0x80, CHR 0xA9], [CHR 0xE2, CHR 0x80, CHR 0xAF],
         [CHR 0xE2, CHR 0x81, CHR 0x9F], [CHR 0xE3, CHR 0x80, CHR 0x80]}"

definition trim_start :: "string \<Rightarrow> string" where
  "trim_start s = concat (dropWhile ws_char (chars s))"

definition trim_end :: "string \<Rightarrow> string" where
  "trim_end s = concat (rev (dropWhile ws_char (rev (chars s))))"

definition trim :: "string \<Rightarrow> string" where
  "trim s = concat (rev (dropWhile ws_char (rev (dropWhile ws_char (chars s)))))"

text \<open>\<open>str::split_whitespace\<close>: the maximal runs of non-whitespace characters.\<close>

function words_of :: "string list \<Rightarrow> string list" where
  "words_of [] = []"
| "words_of (c # cs) =
     (if ws_char c then words_of cs
      else concat (c # takeWhile (\<lambda>d. \<not> ws_char d) cs) # words_of (dropWhile (\<lambda>d. \<not> ws_char d) cs))"
  by pat_completeness auto
termination
  by (relation "measure length") (auto simp: le_imp_less_Suc length_dropWhile_le)

definition split_whitespace :: "string \<Rightarrow> string list" where
  "split_whitespace s = words_of (chars s)"

lemma chars_suffix: "chars s = as @ bs \<Longrightarrow> chars (concat bs) = bs"
proof (induction as arbitrary: s)
  case Nil
  then show ?case by (metis append_Nil concat_chars)
next
  case (Cons a as)
  then obtain b r where s: "s = b # r" by (cases s) auto
  with Cons.prems have "chars (dropWhile is_cont r) = as @ bs" by simp
  then show ?case by (rule Cons.IH)
qed

lemma chars_head_not_cont: "chars (dropWhile is_cont r) = as @ bs \<Longrightarrow> takeWhile is_cont (concat as) = []"
proof (cases "dropWhile is_cont r")
  case (Cons d ds)
  moreover assume "chars (dropWhile is_cont r) = as @ bs"
  ultimately have "as = [] \<or> (\<exists>as'. as = (d # takeWhile is_cont ds) # as')" by (cases as) auto
  moreover have "\<not> is_cont d" using hd_dropWhile[of is_cont r] Cons by simp
  ultimately show ?thesis by auto
qed auto

lemma chars_prefix: "chars s = as @ bs \<Longrightarrow> chars (concat as) = as"
proof (induction as arbitrary: s)
  case (Cons a as)
  then obtain b r where s: "s = b # r" by (cases s) auto
  with Cons.prems have a: "a = b # takeWhile is_cont r" and *: "chars (dropWhile is_cont r) = as @ bs"
    by simp_all
  have head: "takeWhile is_cont (concat as) = []" using * by (rule chars_head_not_cont)
  then have "dropWhile is_cont (concat as) = concat as"
    by (metis append_Nil takeWhile_dropWhile_id)
  moreover have "takeWhile is_cont (takeWhile is_cont r @ concat as) = takeWhile is_cont r @ takeWhile is_cont (concat as)"
    "dropWhile is_cont (takeWhile is_cont r @ concat as) = dropWhile is_cont (concat as)"
    by (meson takeWhile_append2 set_takeWhileD, meson dropWhile_append2 set_takeWhileD)
  ultimately have "chars (concat (a # as)) = a # chars (concat as)"
    using head by (simp only: a concat.simps append_Cons chars.simps append_Nil2)
  with Cons.IH[OF *] show ?case by simp
qed simp

lemma words_of_drop_leading [simp]: "words_of (dropWhile ws_char cs) = words_of cs"
  by (induction cs) auto

lemma words_of_drop_trailing: "(\<forall>w\<in>set ws. ws_char w) \<Longrightarrow> words_of (cs @ ws) = words_of cs"
proof (induction cs rule: words_of.induct)
  case 1
  then show ?case by (induction ws) auto
next
  case (2 c cs)
  show ?case
  proof (cases "ws_char c")
    case False
    let ?n = "\<lambda>d. \<not> ws_char d"
    have "takeWhile ?n (cs @ ws) = takeWhile ?n cs"
      using 2(3) by (cases ws) (auto simp: takeWhile_append takeWhile_eq_all_conv[THEN iffD2])
    moreover have "words_of (dropWhile ?n (cs @ ws)) = words_of (dropWhile ?n cs)"
    proof (cases "\<forall>x\<in>set cs. ?n x")
      case True
      then have "dropWhile ?n (cs @ ws) = dropWhile ?n ws" "dropWhile ?n cs = []"
        by (auto simp: dropWhile_append dropWhile_eq_Nil_conv)
      moreover have "words_of ws = []" using 2(3) by (induction ws) auto
      moreover have "dropWhile ?n ws = ws" using 2(3) by (cases ws) auto
      ultimately show ?thesis by (simp only: words_of.simps)
    next
      case some: False
      then have "dropWhile ?n (cs @ ws) = dropWhile ?n cs @ ws" by (auto simp: dropWhile_append)
      with 2(2)[OF False 2(3)] show ?thesis by simp
    qed
    ultimately show ?thesis using False by simp
  qed (use 2 in simp)
qed

lemma chars_trim: "chars (trim s) = rev (dropWhile ws_char (rev (dropWhile ws_char (chars s))))"
proof -
  let ?d = "dropWhile ws_char (chars s)"
  have "chars s = takeWhile ws_char (chars s) @ ?d" by simp
  then have d: "chars (concat ?d) = ?d" by (rule chars_suffix)
  have "?d = rev (dropWhile ws_char (rev ?d)) @ rev (takeWhile ws_char (rev ?d))"
    by (metis rev_append rev_rev_ident takeWhile_dropWhile_id)
  with d have "chars (concat ?d) = rev (dropWhile ws_char (rev ?d)) @ rev (takeWhile ws_char (rev ?d))"
    by simp
  then show ?thesis unfolding trim_def by (rule chars_prefix)
qed

lemma split_whitespace_trim [simp]: "split_whitespace (trim s) = split_whitespace s"
proof -
  let ?d = "dropWhile ws_char (chars s)"
  have "words_of (chars s) = words_of ?d" by simp
  also have "?d = rev (dropWhile ws_char (rev ?d)) @ rev (takeWhile ws_char (rev ?d))"
    by (metis rev_append rev_rev_ident takeWhile_dropWhile_id)
  also have "words_of \<dots> = words_of (rev (dropWhile ws_char (rev ?d)))"
    by (rule words_of_drop_trailing) (auto dest: set_takeWhileD)
  finally show ?thesis by (simp add: split_whitespace_def chars_trim)
qed

lemma words_of_Nil_iff: "words_of cs = [] \<longleftrightarrow> (\<forall>c\<in>set cs. ws_char c)"
  by (induction cs rule: words_of.induct) auto

lemma trim_Nil_iff: "trim s = [] \<longleftrightarrow> split_whitespace s = []"
proof -
  have "trim s = [] \<longleftrightarrow> chars (trim s) = []" by simp
  also have "\<dots> \<longleftrightarrow> (\<forall>c\<in>set (chars s). ws_char c)"
    by (auto simp: chars_trim dropWhile_eq_Nil_conv dest: set_dropWhileD)
       (metis dropWhile_eq_Nil_conv hd_dropWhile hd_in_set)
  finally show ?thesis by (simp add: split_whitespace_def words_of_Nil_iff)
qed

lemma words_of_nonempty: "(\<forall>c\<in>set cs. c \<noteq> []) \<Longrightarrow> w \<in> set (words_of cs) \<Longrightarrow> w \<noteq> []"
  by (induction cs rule: words_of.induct) (auto split: if_splits dest: set_dropWhileD)

lemma split_whitespace_nonempty: "w \<in> set (split_whitespace s) \<Longrightarrow> w \<noteq> []"
  using words_of_nonempty chars_nonempty by (metis split_whitespace_def)

fun join :: "string \<Rightarrow> string list \<Rightarrow> string" where
  "join sep [] = []"
| "join sep [x] = x"
| "join sep (x # y # ys) = x @ sep @ join sep (y # ys)"

fun starts_with :: "string \<Rightarrow> string \<Rightarrow> bool" where
  "starts_with s [] = True"
| "starts_with [] (p # ps) = False"
| "starts_with (c # cs) (p # ps) = (c = p \<and> starts_with cs ps)"

lemma starts_with_iff: "starts_with s p \<longleftrightarrow> (\<exists>r. s = p @ r)"
  by (induction s p rule: starts_with.induct) auto

lemma starts_with_append [simp]: "starts_with (p @ r) p"
  by (auto simp: starts_with_iff)

definition ends_with :: "string \<Rightarrow> string \<Rightarrow> bool" where
  "ends_with s p = starts_with (rev s) (rev p)"

lemma ends_with_iff: "ends_with s p \<longleftrightarrow> (\<exists>r. s = r @ p)"
  by (auto simp: ends_with_def starts_with_iff) (metis rev_append rev_rev_ident)

fun contains :: "string \<Rightarrow> string \<Rightarrow> bool" where
  "contains [] p = (p = [])"
| "contains (c # cs) p = (starts_with (c # cs) p \<or> contains cs p)"

lemma contains_iff: "contains s p \<longleftrightarrow> (\<exists>a b. s = a @ p @ b)"
proof (induction s)
  case Nil
  then show ?case by auto
next
  case (Cons c cs)
  show ?case
  proof
    assume "contains (c # cs) p"
    then consider "starts_with (c # cs) p" | "contains cs p" by auto
    then show "\<exists>a b. c # cs = a @ p @ b"
    proof cases
      case 1
      then show ?thesis by (metis append_Nil starts_with_iff)
    next
      case 2
      with Cons.IH show ?thesis by (metis append_Cons)
    qed
  next
    assume "\<exists>a b. c # cs = a @ p @ b"
    then obtain a b where ab: "c # cs = a @ p @ b" by blast
    show "contains (c # cs) p"
    proof (cases a)
      case Nil
      with ab have "starts_with (c # cs) p" by (simp add: starts_with_iff)
      then show ?thesis by simp
    next
      case (Cons d ds)
      with ab have "cs = ds @ p @ b" by simp
      with Cons.IH show ?thesis by auto
    qed
  qed
qed

text \<open>Decimal output of an unsigned integer, as \<open>format!("{n}")\<close>.\<close>

fun nat_to_string :: "nat \<Rightarrow> string" where
  "nat_to_string n =
     (if n < 10 then [char_of (48 + n)] else nat_to_string (n div 10) @ [char_of (48 + n mod 10)])"

declare nat_to_string.simps [simp del]

lemma nat_to_string_nonempty [simp]: "nat_to_string n \<noteq> []"
  by (subst nat_to_string.simps) simp

definition to_ascii_lowercase :: "string \<Rightarrow> string" where
  "to_ascii_lowercase s =
     map (\<lambda>c. if 65 \<le> (of_char c :: nat) \<and> (of_char c :: nat) \<le> 90 then char_of (of_char c + 32 :: nat) else c) s"

lemma to_ascii_lowercase_idem [simp]:
  "to_ascii_lowercase (to_ascii_lowercase s) = to_ascii_lowercase s"
  by (auto simp: to_ascii_lowercase_def)

section \<open>Ordered maps\<close>

text \<open>
  A \<open>BTreeMap\<close> is the list of its entries in ascending key order, which is the order in
  which \<open>iter\<close> and \<open>values\<close> visit them.
\<close>

fun bt_insert :: "'k::linorder \<Rightarrow> 'v \<Rightarrow> ('k \<times> 'v) list \<Rightarrow> ('k \<times> 'v) list" where
  "bt_insert k v [] = [(k, v)]"
| "bt_insert k v ((k', v') # kvs) =
     (if k < k' then (k, v) # (k', v') # kvs
      else if k = k' then (k, v) # kvs
      else (k', v') # bt_insert k v kvs)"

definition bt_remove :: "'k \<Rightarrow> ('k \<times> 'v) list \<Rightarrow> ('k \<times> 'v) list" where
  "bt_remove k kvs = filter (\<lambda>(k', _). k' \<noteq> k) kvs"

definition bt_sorted :: "('k::linorder \<times> 'v) list \<Rightarrow> bool" where
  "bt_sorted kvs \<longleftrightarrow> sorted_wrt (<) (map fst kvs)"

lemma set_bt_insert: "set (map fst (bt_insert k v kvs)) = insert k (set (map fst kvs))"
  by (induction k v kvs rule: bt_insert.induct) auto

lemma bt_sorted_insert: "bt_sorted kvs \<Longrightarrow> bt_sorted (bt_insert k v kvs)"
proof (induction k v kvs rule: bt_insert.induct)
  case (2 k v k' v' kvs)
  then show ?case
    using set_bt_insert[of k v kvs] by (fastforce simp: bt_sorted_def)
qed (simp add: bt_sorted_def)

lemma bt_sorted_remove: "bt_sorted kvs \<Longrightarrow> bt_sorted (bt_remove k kvs)"
  unfolding bt_sorted_def bt_remove_def
  by (induction kvs) (auto simp: case_prod_beta)

lemma map_of_bt_insert: "map_of (bt_insert k v kvs) = (map_of kvs)(k \<mapsto> v)"
  by (induction k v kvs rule: bt_insert.induct) (auto simp: fun_upd_twist)

lemma map_of_bt_remove: "map_of (bt_remove k kvs) = (map_of kvs)(k := None)"
  by (induction kvs) (auto simp: bt_remove_def)

lemma bt_sorted_distinct: "bt_sorted kvs \<Longrightarrow> distinct (map fst kvs)"
  by (simp add: bt_sorted_def strict_sorted_iff)

text \<open>
  What a component may rely on in a keyed store it writes to and reads from.
\<close>

locale keyed_store =
  fixes lookup :: "'s \<Rightarrow> 'k \<Rightarrow> 'v option" and put :: "'k \<Rightarrow> 'v \<Rightarrow> 's \<Rightarrow> 's" and valid :: "'s \<Rightarrow> bool"
  assumes lookup_put: "valid s \<Longrightarrow> lookup (put k v s) = (lookup s)(k \<mapsto> v)"
    and valid_put: "valid s \<Longrightarrow> valid (put k v s)"
begin

lemma lookup_puts:
  "valid s \<Longrightarrow> lookup (fold (\<lambda>(k, v). put k v) kvs s) = lookup s ++ map_of (rev kvs) \<and>
     valid (fold (\<lambda>(k, v). put k v) kvs s)"
proof (induction kvs arbitrary: s)
  case Nil
  then show ?case by simp
next
  case (Cons kv kvs)
  obtain k v where kv: "kv = (k, v)" by fastforce
  have step: "lookup (put k v s) = (lookup s)(k \<mapsto> v)" "valid (put k v s)"
    using Cons.prems by (auto simp: lookup_put valid_put)
  have "map_of (rev (kv # kvs)) = [k \<mapsto> v] ++ map_of (rev kvs)"
    by (simp add: kv map_add_def)
  moreover have "lookup s ++ ([k \<mapsto> v] ++ map_of (rev kvs)) = (lookup s)(k \<mapsto> v) ++ map_of (rev kvs)"
    by (rule ext) (simp add: map_add_def split: option.splits)
  moreover have "fold (\<lambda>(k, v). put k v) (kv # kvs) s = fold (\<lambda>(k, v). put k v) kvs (put k v s)"
    by (simp add: kv)
  ultimately show ?case
    using Cons.IH[OF step(2)] step(1) by metis
qed

lemma lookup_last_put: "valid s \<Longrightarrow> lookup (put k v s) k = Some v"
  by (simp add: lookup_put)

lemma lookup_other_put: "valid s \<Longrightarrow> k' \<noteq> k \<Longrightarrow> lookup (put k v s) k' = lookup s k'"
  by (simp add: lookup_put)

end

interpretation btree: keyed_store map_of bt_insert bt_sorted
  by unfold_locales (auto simp: map_of_bt_insert bt_sorted_insert)

section \<open>Transition systems\<close>

text \<open>
  A property that holds initially and that every step keeps holds in every reachable
  state. The components with a step relation interpret this locale with their own
  relation and invariant.
\<close>

inductive reach :: "('s \<Rightarrow> bool) \<Rightarrow> ('s \<Rightarrow> 's \<Rightarrow> bool) \<Rightarrow> 's \<Rightarrow> bool"
  for ini :: "'s \<Rightarrow> bool" and stp :: "'s \<Rightarrow> 's \<Rightarrow> bool" where
  reach_init: "ini s \<Longrightarrow> reach ini stp s"
| reach_step: "reach ini stp s \<Longrightarrow> stp s t \<Longrightarrow> reach ini stp t"

locale invariant_system =
  fixes ini :: "'s \<Rightarrow> bool" and stp :: "'s \<Rightarrow> 's \<Rightarrow> bool" and inv :: "'s \<Rightarrow> bool"
  assumes inv_init: "ini s \<Longrightarrow> inv s"
    and inv_step: "inv s \<Longrightarrow> stp s t \<Longrightarrow> inv t"
begin

lemma inv_reach: "reach ini stp s \<Longrightarrow> inv s"
  by (induction rule: reach.induct) (auto intro: inv_init inv_step)

lemma inv_run: "stp\<^sup>*\<^sup>* s t \<Longrightarrow> inv s \<Longrightarrow> inv t"
  by (induction rule: rtranclp_induct) (auto intro: inv_step)

end

end
