(* ===== verification/Float64.thy ===== *)
theory Float64
  imports Prelude Complex_Main "HOL-Library.Log_Nat"
begin

text \<open>
  IEEE 754 binary64, the type \<open>f64\<close> of the Rust sources, as far as the sources use it:
  conversion from unsigned integers, addition, multiplication, division, comparison,
  \<open>floor\<close>, \<open>is_finite\<close> and the saturating cast \<open>as u64\<close> (and \<open>as u8\<close>).
  A finite number is the rational it denotes; the two zeros are one value, which none of
  the operations above can tell apart on the operands the sources give them.
  Rounding is to nearest, ties to even, with subnormals and overflow to infinity.
\<close>

datatype f64 = F_NaN | F_PInf | F_NInf | F_Fin rat

definition pow2 :: "int \<Rightarrow> rat" where
  "pow2 e = (if 0 \<le> e then 2 ^ nat e else 1 / 2 ^ nat (- e))"

definition round_half_even :: "rat \<Rightarrow> int" where
  "round_half_even x =
     (let f = \<lfloor>x\<rfloor>; d = x - of_int f
      in if d < 1 / 2 then f else if 1 / 2 < d then f + 1 else if even f then f else f + 1)"

text \<open>The exponent of the last place of a positive number: 53 significant bits, not below
  the subnormal exponent.\<close>

definition ulp_exp :: "rat \<Rightarrow> int" where
  "ulp_exp x =
     (case quotient_of x of (p, q) \<Rightarrow>
        let e0 = int (floorlog 2 (nat p)) - int (floorlog 2 (nat q)) - 53
        in max (- 1074) (if pow2 (e0 + 53) \<le> x then e0 + 1 else e0))"

definition f64_round :: "rat \<Rightarrow> f64" where
  "f64_round x =
     (if x = 0 then F_Fin 0
      else let e = ulp_exp \<bar>x\<bar>; y = of_int (round_half_even (x / pow2 e)) * pow2 e
           in if pow2 1024 \<le> y then F_PInf else if y \<le> - pow2 1024 then F_NInf else F_Fin y)"

definition f64_of_nat :: "nat \<Rightarrow> f64" where
  "f64_of_nat n = f64_round (of_nat n)"

definition f64_sign :: "f64 \<Rightarrow> int" where
  "f64_sign a = (case a of F_NaN \<Rightarrow> 0 | F_PInf \<Rightarrow> 1 | F_NInf \<Rightarrow> - 1
     | F_Fin x \<Rightarrow> if x < 0 then - 1 else if x = 0 then 0 else 1)"

definition f64_inf :: "int \<Rightarrow> f64" where
  "f64_inf s = (if 0 < s then F_PInf else if s < 0 then F_NInf else F_NaN)"

fun f64_add :: "f64 \<Rightarrow> f64 \<Rightarrow> f64" where
  "f64_add (F_Fin x) (F_Fin y) = f64_round (x + y)"
| "f64_add F_NaN b = F_NaN"
| "f64_add a F_NaN = F_NaN"
| "f64_add F_PInf F_NInf = F_NaN"
| "f64_add F_NInf F_PInf = F_NaN"
| "f64_add F_PInf b = F_PInf"
| "f64_add F_NInf b = F_NInf"
| "f64_add (F_Fin x) b = b"

fun f64_mul :: "f64 \<Rightarrow> f64 \<Rightarrow> f64" where
  "f64_mul (F_Fin x) (F_Fin y) = f64_round (x * y)"
| "f64_mul F_NaN b = F_NaN"
| "f64_mul a F_NaN = F_NaN"
| "f64_mul a b = f64_inf (f64_sign a * f64_sign b)"

fun f64_div :: "f64 \<Rightarrow> f64 \<Rightarrow> f64" where
  "f64_div F_NaN b = F_NaN"
| "f64_div a F_NaN = F_NaN"
| "f64_div (F_Fin x) (F_Fin y) = (if y = 0 then f64_inf (f64_sign (F_Fin x)) else f64_round (x / y))"
| "f64_div (F_Fin x) b = F_Fin 0"
| "f64_div a (F_Fin y) = f64_inf (f64_sign a * (if y < 0 then - 1 else 1))"
| "f64_div a b = F_NaN"

fun f64_less :: "f64 \<Rightarrow> f64 \<Rightarrow> bool" where
  "f64_less F_NaN b = False"
| "f64_less a F_NaN = False"
| "f64_less (F_Fin x) (F_Fin y) = (x < y)"
| "f64_less F_NInf b = (b \<noteq> F_NInf)"
| "f64_less a F_NInf = False"
| "f64_less F_PInf b = False"
| "f64_less (F_Fin x) F_PInf = True"

definition f64_le :: "f64 \<Rightarrow> f64 \<Rightarrow> bool" where
  "f64_le a b \<longleftrightarrow> f64_less a b \<or> (a = b \<and> a \<noteq> F_NaN)"

definition f64_is_finite :: "f64 \<Rightarrow> bool" where
  "f64_is_finite a = (case a of F_Fin _ \<Rightarrow> True | _ \<Rightarrow> False)"

definition f64_floor :: "f64 \<Rightarrow> f64" where
  "f64_floor a = (case a of F_Fin x \<Rightarrow> F_Fin (of_int \<lfloor>x\<rfloor>) | _ \<Rightarrow> a)"

text \<open>The cast \<open>as uN\<close>: truncation towards zero, saturating at the bounds, NaN to zero.\<close>

definition f64_to_nat_sat :: "nat \<Rightarrow> f64 \<Rightarrow> nat" where
  "f64_to_nat_sat bound a =
     (case a of F_NaN \<Rightarrow> 0 | F_PInf \<Rightarrow> bound | F_NInf \<Rightarrow> 0
        | F_Fin x \<Rightarrow> if x \<le> 0 then 0 else min bound (nat \<lfloor>x\<rfloor>))"

definition f64_to_u64 :: "f64 \<Rightarrow> u64" where
  "f64_to_u64 a = of_nat (f64_to_nat_sat (2 ^ 64 - 1) a)"

definition f64_to_u8 :: "f64 \<Rightarrow> nat" where
  "f64_to_u8 a = f64_to_nat_sat 255 a"

section \<open>Exactness on small integers\<close>

lemma round_half_even_int [simp]: "round_half_even (of_int n) = n"
  by (simp add: round_half_even_def)

lemma pow2_nonneg_neg: "0 \<le> e \<Longrightarrow> pow2 (- e) = 1 / 2 ^ nat e"
  by (cases "e = 0") (auto simp: pow2_def)

lemma quotient_of_nat: "quotient_of (of_nat n) = (int n, 1)"
proof -
  have "(of_nat n :: rat) = Fract (int n) 1" by (metis of_int_of_nat_eq of_int_rat)
  then show ?thesis by (simp add: quotient_of_Fract normalize_def)
qed

lemma ulp_exp_nat:
  assumes "0 < n" "n < 2 ^ 53"
  shows "ulp_exp (of_nat n) = int (floorlog 2 n) - 53" and "floorlog 2 n \<le> 53"
proof -
  define l where "l = floorlog 2 n"
  have le: "l \<le> 53"
    using assms by (simp add: l_def floorlog_le_iff)
  have pos: "0 < l"
    using assms(1) by (simp add: l_def floorlog_def)
  have lower: "2 ^ (l - 1) \<le> n"
    using floorlog_bounds[of n 2] assms(1) by (simp add: l_def)
  have one: "floorlog 2 (Suc 0) = 1" by (simp add: floorlog_def)
  have "pow2 (int l - 1) \<le> (of_nat n :: rat)"
  proof -
    have "pow2 (int l - 1) = (2 ^ (l - 1) :: rat)"
      using pos by (simp add: pow2_def nat_diff_distrib)
    also have "\<dots> = of_nat (2 ^ (l - 1))" by simp
    also have "\<dots> \<le> of_nat n" using lower by (simp only: of_nat_le_iff)
    finally show ?thesis .
  qed
  then show "ulp_exp (of_nat n) = int (floorlog 2 n) - 53"
    using le by (simp add: ulp_exp_def quotient_of_nat one Let_def l_def[symmetric])
  show "floorlog 2 n \<le> 53" using le by (simp add: l_def)
qed

lemma f64_round_nat: 
  assumes "n < 2 ^ 53"
  shows "f64_round (of_nat n) = F_Fin (of_nat n)"
proof (cases "n = 0")
  case True
  then show ?thesis by (simp add: f64_round_def)
next
  case False
  define k where "k = 53 - floorlog 2 n"
  have e: "ulp_exp (of_nat n) = - int k"
    using ulp_exp_nat[of n] assms False by (simp add: k_def)
  have q: "(of_nat n :: rat) / pow2 (- int k) = of_int (int n * 2 ^ k)"
    using pow2_nonneg_neg[of "int k"] by simp
  have whole: "of_int (int n * 2 ^ k) * pow2 (- int k) = (of_nat n :: rat)"
    using pow2_nonneg_neg[of "int k"] by simp
  have "(of_nat n :: rat) < pow2 1024"
  proof -
    have "n < 2 ^ 1024" using assms by (rule order_less_le_trans) simp
    then have "(of_nat n :: rat) < of_nat (2 ^ 1024)" by (simp only: of_nat_less_iff)
    then show ?thesis by (simp add: pow2_def)
  qed
  moreover have "- pow2 1024 < (of_nat n :: rat)"
    by (rule order_less_le_trans[of _ 0]) (simp_all add: pow2_def)
  ultimately show ?thesis
    using False by (simp add: f64_round_def Let_def e q whole del: of_int_mult)
qed

lemma f64_of_nat_exact: "n < 2 ^ 53 \<Longrightarrow> f64_of_nat n = F_Fin (of_nat n)"
  by (simp add: f64_of_nat_def f64_round_nat)

lemma f64_mul_nat: "m * n < 2 ^ 53 \<Longrightarrow> f64_mul (F_Fin (of_nat m)) (F_Fin (of_nat n)) = F_Fin (of_nat (m * n))"
  using f64_round_nat[of "m * n"] by simp

lemma f64_add_nat: "m + n < 2 ^ 53 \<Longrightarrow> f64_add (F_Fin (of_nat m)) (F_Fin (of_nat n)) = F_Fin (of_nat (m + n))"
  using f64_round_nat[of "m + n"] by simp

lemma f64_to_nat_sat_nat: "f64_to_nat_sat b (F_Fin (of_nat n)) = min b n"
  by (simp add: f64_to_nat_sat_def)

lemma f64_to_nat_sat_le: "f64_to_nat_sat b a \<le> b"
  by (auto simp: f64_to_nat_sat_def split: f64.splits)

end
