(* ===== verification/Core_Types.thy ===== *)
theory Core_Types
  imports Prelude Float64
begin

text \<open>
  The data of crate \<open>types\<close>: JSON values, conversation messages, tool declarations,
  provider responses, stream events, the error hierarchy, the run-policy records and the
  channel capabilities. Every enum is a datatype with the source's variants, every struct
  a record whose fields carry a short prefix (HOL record fields share one name space).
  Opaque texts that a third-party formatter produces are kept as strings.
\<close>

section \<open>JSON values\<close>

text \<open>
  \<open>serde_json::Value\<close>, built without the feature \<open>preserve_order\<close>: an object is a map
  ordered by key. A number is kept as its literal.
\<close>

datatype json = JNull | JBool bool | JNum string | JStr string | JArr "json list"
  | JObj "(string \<times> json) list"

fun as_object :: "json \<Rightarrow> (string \<times> json) list option" where
  "as_object (JObj kvs) = Some kvs"
| "as_object j = None"

fun as_str :: "json \<Rightarrow> string option" where
  "as_str (JStr s) = Some s"
| "as_str j = None"

fun as_array :: "json \<Rightarrow> json list option" where
  "as_array (JArr xs) = Some xs"
| "as_array j = None"

definition json_get :: "json \<Rightarrow> string \<Rightarrow> json option" where
  "json_get j k = Option.bind (as_object j) (\<lambda>kvs. map_of kvs k)"

section \<open>Messages, tools, responses\<close>

datatype message_role = RSystem | RUser | RAssistant | RTool

record tool_call =
  tc_id :: string
  tc_name :: string
  tc_arguments :: json
  tc_metadata :: "json option"

record inline_media =
  im_mime_type :: string
  im_data :: string

record message =
  msg_role :: message_role
  msg_content :: "string option"
  msg_tool_calls :: "tool_call list"
  msg_tool_call_id :: "string option"
  msg_attachments :: "inline_media list"

text \<open>The struct literal with the three empty fields that the sources build everywhere.\<close>

definition plain_message :: "message_role \<Rightarrow> string \<Rightarrow> message" where
  "plain_message r c = \<lparr>msg_role = r, msg_content = Some c, msg_tool_calls = [],
     msg_tool_call_id = None, msg_attachments = []\<rparr>"

record function_decl =
  fd_name :: string
  fd_description :: "string option"
  fd_parameters :: json

record llm_context =
  ctx_provider :: string
  ctx_model :: string
  ctx_tools :: "function_decl list"
  ctx_messages :: "message list"

record usage_update =
  prompt_tokens :: "u64 option"
  completion_tokens :: "u64 option"
  total_tokens :: "u64 option"

record response =
  rsp_message :: message
  rsp_tool_calls :: "tool_call list"
  rsp_finish_reason :: "string option"
  rsp_usage :: "usage_update option"

record tool_call_delta =
  tcd_index :: nat
  tcd_id :: "string option"
  tcd_name :: "string option"
  tcd_arguments :: "string option"
  tcd_metadata :: "json option"

record provider_caps =
  supports_streaming :: bool
  supports_tools :: bool
  supports_json_mode :: bool
  supports_reasoning_traces :: bool
  max_input_tokens :: "u32 option"
  max_output_tokens :: "u32 option"
  max_context_tokens :: "u32 option"

record provider_selection =
  sel_provider :: string
  sel_model :: string

datatype safety_tier = ReadOnly | SideEffecting | Privileged

section \<open>Run policies\<close>

text \<open>A UTC timestamp, in nanoseconds since the epoch.\<close>

type_synonym datetime = int

datatype stop_reason = Completed | StopCancelled | MaxTurns | MaxRuntimeExceeded
  | MaxBudgetExceeded | ToolDisallowed | ToolPermissionDenied | ProviderTimedOut | StopError string

datatype rollout_mode = Enforce | SoftFail | ObserveOnly

record tool_policy_input =
  tp_toolset :: "string list option"
  tp_auto_approve_tools :: "string list option"
  tp_disallowed_tools :: "string list option"

text \<open>A \<open>std::time::Duration\<close>: whole seconds and the nanoseconds below one second.\<close>

record duration =
  dur_secs :: u64
  dur_subsec_nanos :: u32

text \<open>\<open>Duration\<close> printed with \<open>{:?}\<close>: the largest unit that is not zero, its fraction without trailing zeros.\<close>

definition padded_digits :: "nat \<Rightarrow> nat \<Rightarrow> string" where
  "padded_digits w n = (let d = nat_to_string n in replicate (w - length d) (CHR ''0'') @ d)"

definition fraction_digits :: "nat \<Rightarrow> nat \<Rightarrow> string" where
  "fraction_digits w n =
     (if n = 0 then [] else CHR ''.'' # rev (dropWhile (\<lambda>c. c = CHR ''0'') (rev (padded_digits w n))))"

definition duration_debug :: "duration \<Rightarrow> string" where
  "duration_debug d =
     (let secs = unat (dur_secs d); nanos = unat (dur_subsec_nanos d) in
      if 0 < secs then nat_to_string secs @ fraction_digits 9 nanos @ ''s''
      else if 1000000 \<le> nanos
        then nat_to_string (nanos div 1000000) @ fraction_digits 6 (nanos mod 1000000) @ ''ms''
      else if 1000 \<le> nanos
        then nat_to_string (nanos div 1000) @ fraction_digits 3 (nanos mod 1000) @ [CHR 0xC2, CHR 0xB5] @ ''s''
      else nat_to_string nanos @ ''ns'')"

record run_policy_input =
  rp_max_runtime :: "duration option"
  rp_max_budget_microusd :: "u64 option"
  rp_max_turns :: "u32 option"
  rp_tool_policy :: "tool_policy_input option"

record effective_run_policy =
  started_at :: datetime
  deadline :: "datetime option"
  initial_budget_microusd :: u64
  remaining_budget_microusd :: u64
  toolset :: "function_decl list"
  auto_approve_tools :: "string set"
  disallowed_tools :: "string set"
  parent_run_id :: "string option"
  pol_max_turns :: "u32 option"
  rollout_mode :: rollout_mode

record runtime_config =
  rc_turn_timeout_secs :: u64
  rc_max_turns :: u32
  rc_max_cost :: "f64 option"

record agent_definition =
  ad_system_prompt :: "string option"
  ad_system_prompt_file :: "string option"
  ad_selection :: "provider_selection option"
  ad_tools :: "string list option"
  ad_max_turns :: "u32 option"
  ad_max_cost :: "f64 option"

section \<open>Stream events and errors\<close>

datatype policy_stream_event = BudgetWarning u64 nat | PolicyStop stop_reason | BudgetUpdate u64

datatype runtime_progress_kind = ProviderCall | ToolExecution "string list" | RollingSummary
  | ToolHeartbeat "string list" u64

record runtime_progress_event =
  pe_kind :: runtime_progress_kind
  pe_message :: string
  pe_turn :: nat
  pe_max_turns :: nat

datatype media_type = Photo | Audio | Document | Voice | Video

record media_attachment =
  ma_file_path :: string
  ma_media_type :: media_type
  ma_caption :: "string option"
  ma_data :: string
  ma_file_name :: "string option"

datatype stream_item = SText string | SToolCallDelta tool_call_delta | SReasoningDelta string
  | SUsageUpdate usage_update | SConnectionLost string | SFinishReason string
  | SProgress runtime_progress_event | SMedia media_attachment | SPolicyEvent policy_stream_event

datatype provider_error = UnknownModel string string | MissingApiKey string
  | Transport string string | HttpStatus string nat string | ResponseParse string string
  | RequestFailed string string | ProviderSerialization string

datatype tool_error = InvalidArguments string string | ExecutionFailed string string
  | PolicyViolation stop_reason | ToolSerialization string

datatype memory_error = MemConnection string | MemInitialization string | MemMigration string
  | MemQuery string | MemSerialization string | MemNotFound string

datatype scheduler_error = InvalidCronExpression string string | InvalidCadence string
  | SchedNotFound string | SchedStore string | SchedExecution string
  | LimitExceeded string nat | Unauthorized string string

datatype runtime_error = EProvider provider_error | ETool tool_error | EMemory memory_error
  | EScheduler scheduler_error | ECancelled | EBudgetExceeded | ETurnLimitExceeded
  | EDeadlineExceeded

section \<open>Channel capabilities\<close>

record media_capabilities =
  mc_photo :: bool
  mc_audio :: bool
  mc_document :: bool
  mc_voice :: bool
  mc_video :: bool

record channel_capabilities =
  cc_channel_type :: string
  cc_media :: media_capabilities

definition media_any :: "media_capabilities \<Rightarrow> bool" where
  "media_any m \<longleftrightarrow> mc_photo m \<or> mc_audio m \<or> mc_document m \<or> mc_voice m \<or> mc_video m"

definition caps_tui :: channel_capabilities where
  "caps_tui = \<lparr>cc_channel_type = ''tui'',
     cc_media = \<lparr>mc_photo = False, mc_audio = False, mc_document = False, mc_voice = False, mc_video = False\<rparr>\<rparr>"

definition caps_telegram :: channel_capabilities where
  "caps_telegram = \<lparr>cc_channel_type = ''telegram'',
     cc_media = \<lparr>mc_photo = True, mc_audio = True, mc_document = True, mc_voice = True, mc_video = True\<rparr>\<rparr>"

definition from_channel_origin :: "string \<Rightarrow> channel_capabilities" where
  "from_channel_origin origin = (if origin = ''telegram'' then caps_telegram else caps_tui)"

definition nl :: string where
  "nl = [CHR 0x0A]"

definition system_prompt_section :: "channel_capabilities \<Rightarrow> string option" where
  "system_prompt_section c =
     (if \<not> media_any (cc_media c) then None
      else
        let m = cc_media c;
            types = (if mc_photo m then [''photos/images (JPEG, PNG, GIF)''] else []) @
              (if mc_audio m then [''audio files (MP3, OGG)''] else []) @
              (if mc_voice m then [''voice messages (OGG/OPUS)''] else []) @
              (if mc_video m then [''videos (MP4)''] else []) @
              (if mc_document m then [''documents/files (PDF, CSV, TXT, etc.)''] else [])
        in Some (''## Channel Media Capabilities'' @ nl @ nl @
             ''You are connected to the user via **'' @ cc_channel_type c @
             ''** which supports sending rich media.'' @ nl @
             ''You can send the following media types directly to the user: '' @ join '', '' types @
             ''.'' @ nl @ nl @
             ''To send a file, first prepare it in the workspace (e.g. `/shared/output.png`) using '' @
             ''file tools or shell commands, then use the `send_media` tool to deliver it to the user.'' @ nl @
             ''The `send_media` tool takes a `path` (workspace file path), a `media_type` '' @
             ''(one of: photo, audio, document, voice, video), and an optional `caption`.'' @ nl @ nl @
             ''When the user asks for something that would be better as a file (charts, reports, '' @
             ''audio, images, etc.), prefer generating and sending the actual file rather than '' @
             ''just describing it in text.''))"

end
