(* ===== verification/Sandbox_Policy.thy ===== *)
theory Sandbox_Policy
  imports Core_Types
begin

text \<open>
  The workspace security policy of crate \<open>tools\<close> (\<open>sandbox/policy.rs\<close>, \<open>path_spec.rs\<close>):
  which file paths and which shell commands a tool call may name.

  Paths are the strings the code holds; \<open>components\<close>, \<open>parent\<close>, \<open>file_name\<close> and
  \<open>path_join\<close> are \<open>std::path\<close> on Unix, and two paths are compared component-wise as
  \<open>Path\<close> does. What the operating system answers (\<open>fs::canonicalize\<close>, \<open>Path::exists\<close>,
  \<open>env::current_dir\<close>) is the parameter \<open>os_env\<close>.

  The lemmas show that an accepted file argument resolves to a location below an allowed
  root and below no denied one, that the vault is never writable, that a command is
  accepted exactly when its executable name is allowed, and that the hand-written glob
  matcher agrees with the usual meaning of \<open>*\<close>.
\<close>

section \<open>Paths\<close>

datatype path_component = RootDir | CurDir | ParentDir | Normal string

definition slash :: char where
  "slash = CHR ''/''"

fun split_slash :: "string \<Rightarrow> string list" where
  "split_slash [] = [[]]"
| "split_slash (c # cs) =
     (if c = slash then [] # split_slash cs
      else case split_slash cs of [] \<Rightarrow> [[c]] | s # ss \<Rightarrow> (c # s) # ss)"

definition is_absolute :: "string \<Rightarrow> bool" where
  "is_absolute p = starts_with p [slash]"

text \<open>
  The component a segment stands for: an empty segment and an inner \<open>.\<close> stand for none, a
  \<open>.\<close> that opens a relative path is kept.
\<close>

definition seg_comp :: "bool \<Rightarrow> string \<Rightarrow> path_component option" where
  "seg_comp opens s =
     (if s = [] then None
      else if s = ''.'' then (if opens then Some CurDir else None)
      else if s = ''..'' then Some ParentDir
      else Some (Normal s))"

text \<open>The segments after the root, each with whether it opens a relative path.\<close>

definition body_segs :: "string \<Rightarrow> (bool \<times> string) list" where
  "body_segs p =
     (if is_absolute p then map (Pair False) (tl (split_slash p))
      else case split_slash p of [] \<Rightarrow> [] | s # ss \<Rightarrow> (True, s) # map (Pair False) ss)"

definition components :: "string \<Rightarrow> path_component list" where
  "components p = (if is_absolute p then [RootDir] else []) @ List.map_filter (\<lambda>(f, s). seg_comp f s) (body_segs p)"

definition path_eq :: "string \<Rightarrow> string \<Rightarrow> bool" where
  "path_eq p q \<longleftrightarrow> components p = components q"

definition path_starts_with :: "string \<Rightarrow> string \<Rightarrow> bool" where
  "path_starts_with p q \<longleftrightarrow> take (length (components q)) (components p) = components q"

definition file_name :: "string \<Rightarrow> string option" where
  "file_name p =
     (case rev (components p) of Normal s # _ \<Rightarrow> Some s | _ \<Rightarrow> None)"

definition parent :: "string \<Rightarrow> string option" where
  "parent p =
     (let skip = dropWhile (\<lambda>(f, s). seg_comp f s = None) in
      case skip (rev (body_segs p)) of
        [] \<Rightarrow> None
      | _ # rest \<Rightarrow> Some ((if is_absolute p then [slash] else []) @ join [slash] (map snd (rev (skip rest)))))"

definition path_join :: "string \<Rightarrow> string \<Rightarrow> string" where
  "path_join p q =
     (if is_absolute q then q
      else if p = [] \<or> last p = slash then p @ q
      else p @ [slash] @ q)"

section \<open>Which arguments are paths\<close>

datatype path_access_mode = PathReadOnly | PathReadWrite

record tool_path_field =
  field_name :: string
  field_access_mode :: path_access_mode

definition READ_ONLY_PATH_FIELD :: "tool_path_field list" where
  "READ_ONLY_PATH_FIELD = [\<lparr>field_name = ''path'', field_access_mode = PathReadOnly\<rparr>]"

definition READ_WRITE_PATH_FIELD :: "tool_path_field list" where
  "READ_WRITE_PATH_FIELD = [\<lparr>field_name = ''path'', field_access_mode = PathReadWrite\<rparr>]"

definition VAULT_COPYTO_FIELDS :: "tool_path_field list" where
  "VAULT_COPYTO_FIELDS =
     [\<lparr>field_name = ''source_path'', field_access_mode = PathReadOnly\<rparr>,
      \<lparr>field_name = ''destination_path'', field_access_mode = PathReadWrite\<rparr>]"

definition tool_path_fields :: "string \<Rightarrow> tool_path_field list" where
  "tool_path_fields tool_name =
     (if tool_name \<in> {''file_read'', ''file_search'', ''file_list'', ''send_media''} then READ_ONLY_PATH_FIELD
      else if tool_name \<in> {''file_write'', ''file_edit'', ''file_delete'', ''attachment_save''}
        then READ_WRITE_PATH_FIELD
      else if tool_name = ''vault_copyto'' then VAULT_COPYTO_FIELDS
      else [])"

section \<open>The policy\<close>

datatype violation_reason = ViolInvalidArguments | PathResolutionFailed | PathOutsideAllowedRoots
  | CommandNotAllowed

record security_policy_violation =
  viol_reason :: violation_reason
  viol_detail :: string

definition violation :: "violation_reason \<Rightarrow> string \<Rightarrow> security_policy_violation" where
  "violation r d = \<lparr>viol_reason = r, viol_detail = d\<rparr>"

record workspace_policy =
  read_only_roots :: "string list"
  read_write_roots :: "string list"
  denied_roots :: "string list"
  shell_command_allowlist :: "string set"
  shell_command_allow_globs :: "string list"
  allow_shell_operators :: bool

datatype file_access_mode = FileReadOnly | FileReadWrite

record shell_config =
  sc_enabled :: "bool option"
  sc_allow :: "string list option"
  sc_deny :: "string list option"
  sc_replace_defaults :: "bool option"
  sc_allow_operators :: "bool option"
  sc_env_keys :: "string list option"
  sc_command_timeout_secs :: "u64 option"

text \<open>The answers of the operating system. An error is its text.\<close>

record os_env =
  os_canonicalize :: "string \<Rightarrow> (string, string) result"
  os_exists :: "string \<Rightarrow> bool"
  os_current_dir :: "string option"

definition normalize_absolute :: "os_env \<Rightarrow> string \<Rightarrow> string" where
  "normalize_absolute os p =
     (if is_absolute p then p
      else case os_current_dir os of Some cwd \<Rightarrow> path_join cwd p | None \<Rightarrow> p)"

definition canonical_root :: "os_env \<Rightarrow> string \<Rightarrow> string" where
  "canonical_root os rt =
     (let normalized = normalize_absolute os rt
      in case os_canonicalize os normalized of Inr c \<Rightarrow> c | Inl _ \<Rightarrow> normalized)"

fun canonicalize_roots_from :: "os_env \<Rightarrow> string list \<Rightarrow> string list \<Rightarrow> string list" where
  "canonicalize_roots_from os canonical_roots [] = canonical_roots"
| "canonicalize_roots_from os canonical_roots (rt # roots) =
     (let canonical = canonical_root os rt
      in canonicalize_roots_from os
           (if \<exists>existing\<in>set canonical_roots. path_eq existing canonical then canonical_roots
            else canonical_roots @ [canonical]) roots)"

definition canonicalize_roots :: "os_env \<Rightarrow> string list \<Rightarrow> string list" where
  "canonicalize_roots os roots = canonicalize_roots_from os [] roots"

definition default_shell_command_allowlist :: "string set" where
  "default_shell_command_allowlist =
     {''awk'', ''cat'', ''cargo'', ''cp'', ''curl'', ''cut'', ''echo'', ''env'', ''find'', ''git'', ''go'', ''grep'',
      ''head'', ''jq'', ''ls'', ''mkdir'', ''mv'', ''node'', ''printf'', ''pwd'', ''python'', ''python3'', ''rustc'',
      ''sed'', ''sleep'', ''sort'', ''stat'', ''tail'', ''touch'', ''tr'', ''uniq'', ''wc'', ''which''}"

definition policy_new :: "os_env \<Rightarrow> string list \<Rightarrow> string list \<Rightarrow> string list \<Rightarrow> workspace_policy" where
  "policy_new os ro rw denied =
     \<lparr>read_only_roots = canonicalize_roots os ro,
      read_write_roots = canonicalize_roots os rw,
      denied_roots = canonicalize_roots os denied,
      shell_command_allowlist = default_shell_command_allowlist,
      shell_command_allow_globs = [],
      allow_shell_operators = True\<rparr>"

definition for_mount_roots :: "os_env \<Rightarrow> string \<Rightarrow> string \<Rightarrow> string \<Rightarrow> string list \<Rightarrow> workspace_policy" where
  "for_mount_roots os shared tmp vault denied = policy_new os [shared, tmp, vault] [shared, tmp] denied"

definition for_bootstrap_workspace :: "os_env \<Rightarrow> string \<Rightarrow> workspace_policy" where
  "for_bootstrap_workspace os workspace_root =
     for_mount_roots os (path_join workspace_root ''shared'') (path_join workspace_root ''tmp'')
       (path_join workspace_root ''vault'') [path_join workspace_root ''.oxydra'']"

section \<open>Shell configuration\<close>

definition star :: char where
  "star = CHR ''*''"

definition glob_matches :: "string \<Rightarrow> string \<Rightarrow> bool" where
  "glob_matches pattern candidate =
     (if pattern = [star] then True
      else case (starts_with pattern [star], ends_with pattern [star]) of
        (True, True) \<Rightarrow> contains candidate (take (length pattern - 2) (drop 1 pattern))
      | (True, False) \<Rightarrow> ends_with candidate (drop 1 pattern)
      | (False, True) \<Rightarrow> starts_with candidate (take (length pattern - 1) pattern)
      | (False, False) \<Rightarrow> candidate = pattern)"

definition allow_entry :: "string \<Rightarrow> workspace_policy \<Rightarrow> workspace_policy" where
  "allow_entry entry p =
     (if star \<in> set entry
      then p\<lparr>shell_command_allow_globs := shell_command_allow_globs p @ [to_ascii_lowercase entry]\<rparr>
      else p\<lparr>shell_command_allowlist := insert (to_ascii_lowercase entry) (shell_command_allowlist p)\<rparr>)"

definition deny_entry :: "string \<Rightarrow> workspace_policy \<Rightarrow> workspace_policy" where
  "deny_entry entry p =
     (if star \<in> set entry
      then let pattern = to_ascii_lowercase entry in
        p\<lparr>shell_command_allowlist := Set.filter (\<lambda>cmd. \<not> glob_matches pattern cmd) (shell_command_allowlist p),
          shell_command_allow_globs :=
            filter (\<lambda>g. \<not> glob_matches pattern (dropWhile (\<lambda>c. c = CHR ''!'') g)) (shell_command_allow_globs p)\<rparr>
      else p\<lparr>shell_command_allowlist := shell_command_allowlist p - {to_ascii_lowercase entry}\<rparr>)"

definition with_shell_config :: "workspace_policy \<Rightarrow> shell_config option \<Rightarrow> workspace_policy" where
  "with_shell_config p config =
     (case config of
        None \<Rightarrow> p
      | Some c \<Rightarrow>
        let p = (if sc_replace_defaults c = Some True
                 then p\<lparr>shell_command_allowlist := {}, shell_command_allow_globs := []\<rparr> else p);
            p = (case sc_allow c of Some allow \<Rightarrow> fold allow_entry allow p | None \<Rightarrow> p);
            p = (case sc_deny c of Some deny \<Rightarrow> fold deny_entry deny p | None \<Rightarrow> p)
        in p\<lparr>allow_shell_operators := (case sc_allow_operators c of Some b \<Rightarrow> b | None \<Rightarrow> True)\<rparr>)"

section \<open>Enforcement\<close>

definition canonicalize_target_path ::
    "os_env \<Rightarrow> string \<Rightarrow> bool \<Rightarrow> (security_policy_violation, string) result" where
  "canonicalize_target_path os raw_path allow_missing_leaf =
     (let path = trim raw_path in
      if path = [] then Inl (violation ViolInvalidArguments ''path argument must not be empty'')
      else
        let target_path = normalize_absolute os path in
        if \<not> allow_missing_leaf \<or> os_exists os target_path
        then map_err (os_canonicalize os target_path) (\<lambda>e. violation PathResolutionFailed
               (''failed to canonicalize `'' @ target_path @ ''`: '' @ e))
        else
          bind_result (ok_or (parent target_path) (violation PathResolutionFailed
            (''path `'' @ target_path @ ''` does not include a canonicalizable parent directory''))) (\<lambda>par.
          bind_result (map_err (os_canonicalize os par) (\<lambda>e. violation PathResolutionFailed
            (''failed to canonicalize parent `'' @ par @ ''` for `'' @ target_path @ ''`: '' @ e))) (\<lambda>canonical_parent.
          bind_result (ok_or (file_name target_path) (violation PathResolutionFailed
            (''path `'' @ target_path @ ''` must include a terminal file name for write/edit operations''))) (\<lambda>leaf.
          Inr (path_join canonical_parent leaf)))))"

definition enforce_file_path ::
    "os_env \<Rightarrow> workspace_policy \<Rightarrow> string \<Rightarrow> file_access_mode \<Rightarrow> (security_policy_violation, unit) result" where
  "enforce_file_path os p path access_mode =
     bind_result (canonicalize_target_path os path (access_mode = FileReadWrite)) (\<lambda>canonical_target.
       if \<exists>rt\<in>set (denied_roots p). path_eq canonical_target rt \<or> path_starts_with canonical_target rt
       then Inl (violation PathOutsideAllowedRoots
         (''path `'' @ path @ ''` resolved to `'' @ canonical_target @
          ''` which is inside a restricted internal directory''))
       else
         let allowed_roots = (case access_mode of FileReadOnly \<Rightarrow> read_only_roots p
                              | FileReadWrite \<Rightarrow> read_write_roots p) in
         if \<exists>rt\<in>set allowed_roots. path_eq canonical_target rt \<or> path_starts_with canonical_target rt
         then Inr ()
         else Inl (violation PathOutsideAllowedRoots
           (''path `'' @ path @ ''` resolved to `'' @ canonical_target @ ''` outside allowed roots ['' @
            join '', '' allowed_roots @ '']'')))"

definition contains_disallowed_shell_syntax :: "string \<Rightarrow> bool" where
  "contains_disallowed_shell_syntax command \<longleftrightarrow>
     contains command ''&&'' \<or> contains command ''||'' \<or> contains command '';'' \<or> contains command ''|'' \<or>
     contains command ''>'' \<or> contains command ''<'' \<or> contains command ''`'' \<or> contains command ''$('' \<or>
     contains command [CHR 0x0A] \<or> contains command [CHR 0x0D]"

definition parse_command_name :: "string \<Rightarrow> bool \<Rightarrow> (security_policy_violation, string) result" where
  "parse_command_name command allow_operators =
     (let trimmed = trim command in
      if trimmed = [] then Inl (violation ViolInvalidArguments ''command argument must not be empty'')
      else if \<not> allow_operators \<and> contains_disallowed_shell_syntax trimmed
      then Inl (violation CommandNotAllowed
        ''command contains shell control operators; only a single allowlisted command is permitted'')
      else case split_whitespace trimmed of
        [] \<Rightarrow> Inl (violation ViolInvalidArguments ''command argument must include an executable name'')
      | first_token # _ \<Rightarrow>
        let command_name = to_ascii_lowercase (case file_name first_token of Some n \<Rightarrow> n | None \<Rightarrow> first_token) in
        if command_name = []
        then Inl (violation ViolInvalidArguments ''command executable name must not be empty'')
        else Inr command_name)"

definition enforce_shell_command :: "workspace_policy \<Rightarrow> string \<Rightarrow> (security_policy_violation, unit) result" where
  "enforce_shell_command p command =
     bind_result (parse_command_name command (allow_shell_operators p)) (\<lambda>command_name.
       if command_name \<in> shell_command_allowlist p then Inr ()
       else if \<exists>pattern\<in>set (shell_command_allow_globs p). glob_matches pattern command_name then Inr ()
       else
         let allowed = sorted_list_of_set (shell_command_allowlist p) @ shell_command_allow_globs p in
         Inl (violation CommandNotAllowed
           (''command `'' @ command_name @ ''` is not in shell allowlist ['' @ join '', '' allowed @ '']'')))"

fun file_access_mode_from_path_spec :: "path_access_mode \<Rightarrow> file_access_mode" where
  "file_access_mode_from_path_spec PathReadOnly = FileReadOnly"
| "file_access_mode_from_path_spec PathReadWrite = FileReadWrite"

definition is_shell_tool :: "string \<Rightarrow> bool" where
  "is_shell_tool tool_name \<longleftrightarrow> tool_name = ''shell_exec''"

fun enforce_fields ::
    "os_env \<Rightarrow> workspace_policy \<Rightarrow> string \<Rightarrow> json \<Rightarrow> tool_path_field list \<Rightarrow>
     (security_policy_violation, unit) result" where
  "enforce_fields os p tool_name arguments [] = Inr ()"
| "enforce_fields os p tool_name arguments (field # flds) =
     (case json_get arguments (field_name field) of
        None \<Rightarrow> enforce_fields os p tool_name arguments flds
      | Some path_arg \<Rightarrow>
        bind_result (ok_or (as_str path_arg) (violation ViolInvalidArguments
          (''tool `'' @ tool_name @ ''` requires string argument `'' @ field_name field @ ''`''))) (\<lambda>path.
        bind_result (enforce_file_path os p path (file_access_mode_from_path_spec (field_access_mode field))) (\<lambda>_.
        enforce_fields os p tool_name arguments flds)))"

definition enforce ::
    "os_env \<Rightarrow> workspace_policy \<Rightarrow> string \<Rightarrow> safety_tier \<Rightarrow> json \<Rightarrow> (security_policy_violation, unit) result" where
  "enforce os p tool_name safety_tier arguments =
     bind_result (enforce_fields os p tool_name arguments (tool_path_fields tool_name)) (\<lambda>_.
       if is_shell_tool tool_name
       then bind_result (ok_or (Option.bind (json_get arguments ''command'') as_str)
              (violation ViolInvalidArguments (''tool `'' @ tool_name @ ''` requires string argument `command`'')))
              (enforce_shell_command p)
       else Inr ())"

section \<open>Path lemmas\<close>

lemma split_slash_Cons: "\<exists>x xs. split_slash s = x # xs"
  by (induction s) (auto split: list.splits)

lemma split_slash_append: "split_slash (a @ slash # b) = split_slash a @ split_slash b"
proof (induction a)
  case (Cons c a)
  then show ?case using split_slash_Cons[of a] by (auto split: list.splits)
qed simp

lemma split_slash_plain: "slash \<notin> set s \<Longrightarrow> split_slash s = [s]"
  by (induction s) auto

lemma split_slash_segs: "x \<in> set (split_slash s) \<Longrightarrow> slash \<notin> set x"
  by (induction s arbitrary: x) (auto split: if_splits list.splits)

lemma is_absolute_Cons: "is_absolute p \<longleftrightarrow> (\<exists>r. p = slash # r)"
  by (auto simp: is_absolute_def starts_with_iff)

lemma components_absolute:
  "components (slash # r) = RootDir # List.map_filter (seg_comp False) (split_slash r)"
  by (simp add: components_def body_segs_def is_absolute_Cons map_filter_map_filter[symmetric] comp_def
      List.map_filter_def filter_map)

definition plain_name :: "string \<Rightarrow> bool" where
  "plain_name s \<longleftrightarrow> slash \<notin> set s \<and> s \<noteq> [] \<and> s \<noteq> ''.'' \<and> s \<noteq> ''..''"

lemma seg_comp_plain: "plain_name s \<Longrightarrow> seg_comp f s = Some (Normal s)"
  by (simp add: plain_name_def seg_comp_def)

lemma seg_comp_Normal: "seg_comp f s = Some (Normal t) \<Longrightarrow> t = s \<and> s \<noteq> [] \<and> s \<noteq> ''.'' \<and> s \<noteq> ''..''"
  by (auto simp: seg_comp_def split: if_splits)

lemma file_name_plain: "file_name p = Some leaf \<Longrightarrow> plain_name leaf"
proof -
  assume "file_name p = Some leaf"
  then have "Normal leaf \<in> set (components p)"
    by (auto simp: file_name_def in_set_conv_decomp split: list.splits path_component.splits)
  then obtain f s where s: "(f, s) \<in> set (body_segs p)" "seg_comp f s = Some (Normal leaf)"
    by (auto simp: components_def List.map_filter_def split: if_splits)
  have "s \<in> set (split_slash p)"
    using s(1) list.set_sel(2)[of "split_slash p" s] split_slash_Cons[of p]
    by (auto simp: body_segs_def split: if_splits list.splits)
  then have "slash \<notin> set s" by (rule split_slash_segs)
  with seg_comp_Normal[OF s(2)] show ?thesis by (auto simp: plain_name_def)
qed

text \<open>Joining a file name to an absolute path adds one component.\<close>

lemma components_join_leaf:
  assumes "is_absolute p" and leaf: "plain_name leaf"
  shows "components (path_join p leaf) = components p @ [Normal leaf]"
proof -
  obtain r where p: "p = slash # r" using assms(1) by (auto simp: is_absolute_Cons)
  have rel: "\<not> is_absolute leaf" "split_slash leaf = [leaf]"
    using leaf by (auto simp: plain_name_def is_absolute_Cons intro: split_slash_plain)
  note seg = seg_comp_plain[OF leaf]
  consider "r = []" | r' where "r = r' @ [slash]" | "r \<noteq> []" "last r \<noteq> slash"
    by (metis append_butlast_last_id)
  then show ?thesis
  proof cases
    case 1
    then show ?thesis using rel seg
      by (simp add: p path_join_def components_absolute List.map_filter_def seg_comp_def)
  next
    case (2 r')
    have "path_join p leaf = slash # r' @ slash # leaf" using rel by (simp add: p 2 path_join_def)
    then show ?thesis using rel seg split_slash_append[of r' "[]"]
      by (simp add: p 2 components_absolute split_slash_append List.map_filter_def seg_comp_def)
  next
    case 3
    have "path_join p leaf = slash # r @ slash # leaf" using rel 3 by (simp add: p path_join_def)
    then show ?thesis using rel seg
      by (simp add: p components_absolute split_slash_append List.map_filter_def)
  qed
qed

lemma path_starts_with_trans:
  "path_starts_with a b \<Longrightarrow> path_starts_with b c \<Longrightarrow> path_starts_with a c"
  by (auto simp: path_starts_with_def min_def dest: arg_cong[where f = "take (length (components c))"] split: if_splits)

lemma path_starts_with_linear:
  "path_starts_with a b \<Longrightarrow> path_starts_with a c \<Longrightarrow> path_starts_with b c \<or> path_starts_with c b"
  unfolding path_starts_with_def
  by (metis min.absorb1 min.absorb2 nle_le take_take)

lemma path_eq_starts_with: "path_eq a b \<Longrightarrow> path_starts_with a b"
  by (simp add: path_eq_def path_starts_with_def)

lemma path_eq_congs:
  assumes "path_eq a b"
  shows "path_starts_with x a \<longleftrightarrow> path_starts_with x b"
  using assms by (simp add: path_eq_def path_starts_with_def)

section \<open>File arguments\<close>

text \<open>
  Where a path argument leads: the canonical location of an existing file, or, for a file
  that is still to be created, one component below its canonical parent directory.
\<close>

definition resolves_to :: "os_env \<Rightarrow> string \<Rightarrow> file_access_mode \<Rightarrow> string \<Rightarrow> bool" where
  "resolves_to os raw mode target \<longleftrightarrow>
     (let abs = normalize_absolute os (trim raw) in
      os_canonicalize os abs = Inr target \<or>
      (mode = FileReadWrite \<and> \<not> os_exists os abs \<and>
       (\<exists>par dir leaf. parent abs = Some par \<and> os_canonicalize os par = Inr dir \<and> file_name abs = Some leaf \<and>
          components target = components dir @ [Normal leaf])))"

definition allowed_roots :: "workspace_policy \<Rightarrow> file_access_mode \<Rightarrow> string list" where
  "allowed_roots p mode = (case mode of FileReadOnly \<Rightarrow> read_only_roots p | FileReadWrite \<Rightarrow> read_write_roots p)"

lemma canonicalize_target_resolves:
  assumes os: "\<And>q c. os_canonicalize os q = Inr c \<Longrightarrow> is_absolute c"
    and ok: "canonicalize_target_path os raw (mode = FileReadWrite) = Inr target"
  shows "resolves_to os raw mode target"
proof (cases "mode = FileReadWrite \<and> \<not> os_exists os (normalize_absolute os (trim raw))")
  case True
  with ok obtain par dir leaf where
    "parent (normalize_absolute os (trim raw)) = Some par" "os_canonicalize os par = Inr dir"
    "file_name (normalize_absolute os (trim raw)) = Some leaf" "target = path_join dir leaf"
    by (auto simp: canonicalize_target_path_def Let_def split: if_splits)
  with True os components_join_leaf file_name_plain show ?thesis
    by (auto simp: resolves_to_def Let_def)
next
  case False
  with ok show ?thesis
    by (auto simp: canonicalize_target_path_def resolves_to_def Let_def split: if_splits)
qed

lemma enforce_file_path_Inr:
  "enforce_file_path os p path mode = Inr () \<longleftrightarrow>
     (\<exists>target. canonicalize_target_path os path (mode = FileReadWrite) = Inr target \<and>
        (\<forall>d\<in>set (denied_roots p). \<not> path_starts_with target d) \<and>
        (\<exists>r\<in>set (allowed_roots p mode). path_starts_with target r))"
  by (auto simp: enforce_file_path_def Let_def allowed_roots_def path_eq_starts_with
      split: if_splits file_access_mode.splits dest: path_eq_starts_with)

lemma enforce_fields_each:
  assumes "enforce_fields os p tool args flds = Inr ()" "f \<in> set flds"
    and "json_get args (field_name f) = Some v"
  shows "\<exists>path. v = JStr path \<and>
     enforce_file_path os p path (file_access_mode_from_path_spec (field_access_mode f)) = Inr ()"
  using assms
proof (induction flds)
  case (Cons g gs)
  then show ?case by (cases v) (auto split: option.splits)
qed simp

lemma enforce_Inr:
  "enforce os p tool tier args = Inr () \<longleftrightarrow>
     enforce_fields os p tool args (tool_path_fields tool) = Inr () \<and>
     (tool = ''shell_exec'' \<longrightarrow>
        (\<exists>cmd. json_get args ''command'' = Some (JStr cmd) \<and> enforce_shell_command p cmd = Inr ()))"
  by (auto simp: enforce_def is_shell_tool_def elim!: as_str.elims split: bind_splits)

lemma canonicalize_roots_from_set:
  "x \<in> set (canonicalize_roots_from os acc rs) \<Longrightarrow> x \<in> set acc \<or> (\<exists>r\<in>set rs. x = canonical_root os r)"
  by (induction os acc rs rule: canonicalize_roots_from.induct) (auto simp: Let_def split: if_splits)

lemma canonicalize_roots_set: "x \<in> set (canonicalize_roots os rs) \<Longrightarrow> \<exists>r\<in>set rs. x = canonical_root os r"
  using canonicalize_roots_from_set[of x os "[]" rs] by (simp add: canonicalize_roots_def)

lemma below_one_of_disjoint_roots:
  assumes "path_starts_with target r" "\<not> path_starts_with r v" "\<not> path_starts_with v r"
  shows "\<not> path_starts_with target v"
  using assms path_starts_with_linear by blast

lemma enforce_field_confined:
  assumes os: "\<forall>q c. os_canonicalize os q = Inr c \<longrightarrow> is_absolute c"
    and ok: "enforce os p tool tier args = Inr ()"
    and f: "f \<in> set (tool_path_fields tool)" "json_get args (field_name f) = Some v"
    and mode: "mode = file_access_mode_from_path_spec (field_access_mode f)"
  shows "\<exists>path target. v = JStr path \<and> resolves_to os path mode target \<and>
    (\<exists>r\<in>set (allowed_roots p mode). path_starts_with target r) \<and>
    (\<forall>d\<in>set (denied_roots p). \<not> path_starts_with target d)"
proof -
  obtain path where path: "v = JStr path" "enforce_file_path os p path mode = Inr ()"
    using enforce_fields_each[OF _ f, of os p tool] ok by (auto simp: enforce_Inr mode)
  then obtain target where t: "canonicalize_target_path os path (mode = FileReadWrite) = Inr target"
    and *: "\<exists>r\<in>set (allowed_roots p mode). path_starts_with target r"
      "\<forall>d\<in>set (denied_roots p). \<not> path_starts_with target d"
    unfolding enforce_file_path_Inr by blast
  have "resolves_to os path mode target"
    by (rule canonicalize_target_resolves[OF _ t]) (use os in blast)
  with path(1) * show ?thesis by blast
qed


definition ex_os :: os_env where
  "ex_os = \<lparr>os_canonicalize = (\<lambda>p. if is_absolute p then Inr p else Inl ''not found''),
     os_exists = (\<lambda>p. p = ''/w/shared/a''), os_current_dir = Some ''/w''\<rparr>"

lemma ex_os_absolute: "\<forall>q c. os_canonicalize ex_os q = Inr c \<longrightarrow> is_absolute c"
  by (simp add: ex_os_def)

definition ex_args :: json where
  "ex_args = JObj [(''path'', JStr '' shared/new.txt '')]"

lemma ex_write_accepted: "enforce ex_os (for_bootstrap_workspace ex_os ''/w'') ''file_write'' SideEffecting ex_args = Inr ()"
  by code_simp

lemma ex_write_field: "\<lparr>field_name = ''path'', field_access_mode = PathReadWrite\<rparr> \<in> set (tool_path_fields ''file_write'')"
  by code_simp


text \<open>With the roots of a bootstrapped workspace, no accepted call may write below the
  vault: when the canonical vault is neither inside nor around the shared and temporary
  directories, every read-write path argument of an accepted call resolves outside it.\<close>

theorem vault_never_writable:
  assumes "\<forall>q c. os_canonicalize os q = Inr c \<longrightarrow> is_absolute c"
    and "\<forall>r\<in>{shared, tmp}. \<not> path_starts_with (canonical_root os r) (canonical_root os vault) \<and>
           \<not> path_starts_with (canonical_root os vault) (canonical_root os r)"
    and "enforce os (for_mount_roots os shared tmp vault denied) tool tier args = Inr ()"
    and "f \<in> set (tool_path_fields tool)" and "field_access_mode f = PathReadWrite"
    and "json_get args (field_name f) = Some v"
  shows "\<exists>path target. v = JStr path \<and> resolves_to os path FileReadWrite target \<and>
     \<not> path_starts_with target (canonical_root os vault)"
proof -
  let ?p = "for_mount_roots os shared tmp vault denied"
  have mode: "file_access_mode_from_path_spec (field_access_mode f) = FileReadWrite" using assms(5) by simp
  obtain path target r where "v = JStr path" "resolves_to os path FileReadWrite target"
    and r: "r \<in> set (allowed_roots ?p FileReadWrite)" "path_starts_with target r"
    using enforce_field_confined[OF assms(1,3,4,6) mode[symmetric]] by blast
  moreover have "r \<in> canonical_root os ` {shared, tmp}"
    using r(1) canonicalize_roots_set[of r os "[shared, tmp]"]
    by (auto simp: allowed_roots_def for_mount_roots_def policy_new_def)
  then have "\<not> path_starts_with target (canonical_root os vault)"
    using r(2) assms(2) below_one_of_disjoint_roots by blast
  ultimately show ?thesis by blast
qed

theorem vault_never_writable_witness:
  "\<exists>path target. JStr '' shared/new.txt '' = JStr path \<and> resolves_to ex_os path FileReadWrite target \<and>
     \<not> path_starts_with target (canonical_root ex_os ''/w/vault'')"
proof -
  have get: "json_get ex_args ''path'' = Some (JStr '' shared/new.txt '')" by code_simp
  have roots: "\<forall>r\<in>{''/w/shared'', ''/w/tmp''}.
      \<not> path_starts_with (canonical_root ex_os r) (canonical_root ex_os ''/w/vault'') \<and>
      \<not> path_starts_with (canonical_root ex_os ''/w/vault'') (canonical_root ex_os r)"
    by code_simp
  have "enforce ex_os (for_mount_roots ex_os ''/w/shared'' ''/w/tmp'' ''/w/vault'' [''/w/.oxydra''])
      ''file_write'' SideEffecting ex_args = Inr ()"
    by code_simp
  from vault_never_writable[OF ex_os_absolute roots this ex_write_field] get show ?thesis by simp
qed

section \<open>Shell commands\<close>

lemma contains_char: "contains s [c] \<longleftrightarrow> c \<in> set s"
  by (auto simp: contains_iff in_set_conv_decomp)

lemma contains_append: "contains s (a @ b) \<Longrightarrow> contains s a"
  by (auto simp: contains_iff)

lemma disallowed_syntax_iff:
  "contains_disallowed_shell_syntax s \<longleftrightarrow>
     set s \<inter> set [CHR '';'', CHR ''|'', CHR ''>'', CHR ''<'', CHR ''`'', CHR 0x0A, CHR 0x0D] \<noteq> {} \<or>
     contains s ''&&'' \<or> contains s ''$(''"
  using contains_append[of s "''|''" "''|''"]
  unfolding contains_disallowed_shell_syntax_def by (auto simp: contains_char)

text \<open>The executable a command line starts, in lower case and without its directory.\<close>

definition executable_name :: "string \<Rightarrow> string" where
  "executable_name tok = to_ascii_lowercase (case file_name tok of Some n \<Rightarrow> n | None \<Rightarrow> tok)"

lemma executable_name_nonempty: "tok \<noteq> [] \<Longrightarrow> executable_name tok \<noteq> []"
  using file_name_plain by (auto simp: executable_name_def to_ascii_lowercase_def plain_name_def split: option.splits)

lemma parse_command_name_Inr:
  "parse_command_name cmd ops = Inr n \<longleftrightarrow>
     (\<exists>tok toks. split_whitespace cmd = tok # toks \<and> n = executable_name tok) \<and>
     (ops \<or> \<not> contains_disallowed_shell_syntax (trim cmd))"
proof (cases "split_whitespace cmd")
  case (Cons tok toks)
  then have "tok \<noteq> []" using split_whitespace_nonempty[of tok cmd] by simp
  then have "executable_name tok \<noteq> []" by (rule executable_name_nonempty)
  with Cons show ?thesis
    by (auto simp: parse_command_name_def Let_def trim_Nil_iff executable_name_def[symmetric])
qed (simp add: parse_command_name_def trim_Nil_iff)

definition name_allowed :: "workspace_policy \<Rightarrow> string \<Rightarrow> bool" where
  "name_allowed p n \<longleftrightarrow> n \<in> shell_command_allowlist p \<or> (\<exists>g\<in>set (shell_command_allow_globs p). glob_matches g n)"

text \<open>A shell command is accepted exactly when it has a first word, the base name of that
  word in lower case is on the allowlist or matches an allow pattern, and, where operators
  are forbidden, the trimmed line contains none of the separators, redirections,
  backquotes and line breaks and neither \<open>&&\<close> nor \<open>$(\<close>.\<close>

theorem enforce_shell_command_spec:
  "enforce_shell_command p cmd = Inr () \<longleftrightarrow>
     (\<exists>tok toks. split_whitespace cmd = tok # toks \<and> name_allowed p (executable_name tok)) \<and>
     (allow_shell_operators p \<or>
      set (trim cmd) \<inter> set [CHR '';'', CHR ''|'', CHR ''>'', CHR ''<'', CHR ''`'', CHR 0x0A, CHR 0x0D] = {} \<and>
      \<not> contains (trim cmd) ''&&'' \<and> \<not> contains (trim cmd) ''$('')"
  unfolding enforce_shell_command_def bind_result_Inr parse_command_name_Inr disallowed_syntax_iff name_allowed_def
  by (auto simp: Let_def split: if_splits)

section \<open>Patterns and the deny list\<close>

text \<open>The usual meaning of a pattern: \<open>*\<close> stands for any text, every other character for itself.\<close>

function glob_ref :: "string \<Rightarrow> string \<Rightarrow> bool" where
  "glob_ref [] s = (s = [])"
| "glob_ref (p # ps) [] = (p = star \<and> glob_ref ps [])"
| "glob_ref (p # ps) (c # cs) =
     (if p = star then glob_ref ps (c # cs) \<or> glob_ref (p # ps) cs else p = c \<and> glob_ref ps cs)"
  by pat_completeness auto
termination
  by (relation "measure (\<lambda>(p, s). length p + length s)") auto

lemma glob_ref_star: "glob_ref (star # ps) s \<longleftrightarrow> (\<exists>a r. s = a @ r \<and> glob_ref ps r)"
proof (induction s)
  case (Cons c cs)
  have "(\<exists>a r. c # cs = a @ r \<and> glob_ref ps r) \<longleftrightarrow>
      glob_ref ps (c # cs) \<or> (\<exists>a r. cs = a @ r \<and> glob_ref ps r)"
    by (auto simp: Cons_eq_append_conv)
  with Cons show ?case by simp
qed simp

lemma glob_ref_literal:
  "star \<notin> set lit \<Longrightarrow> glob_ref (lit @ ps) s \<longleftrightarrow> (\<exists>r. s = lit @ r \<and> glob_ref ps r)"
proof (induction lit arbitrary: s)
  case (Cons l lit)
  then show ?case by (cases s) auto
qed simp

lemmas glob_ref_word = glob_ref_literal[where ps = "[]", simplified]

lemma ends_with_snoc: "ends_with (xs @ [x]) [y] \<longleftrightarrow> x = y"
  by (auto simp: ends_with_iff)



lemma fold_allow_globs:
  "\<forall>e\<in>set es. star \<notin> set e \<Longrightarrow> shell_command_allow_globs (fold allow_entry es p) = shell_command_allow_globs p"
  by (induction es arbitrary: p) (auto simp: allow_entry_def)

lemma fold_deny_mono:
  "shell_command_allowlist (fold deny_entry es p) \<subseteq> shell_command_allowlist p \<and>
   set (shell_command_allow_globs (fold deny_entry es p)) \<subseteq> set (shell_command_allow_globs p)"
proof (induction es arbitrary: p)
  case (Cons e es)
  have "shell_command_allowlist (deny_entry e p) \<subseteq> shell_command_allowlist p \<and>
      set (shell_command_allow_globs (deny_entry e p)) \<subseteq> set (shell_command_allow_globs p)"
    by (auto simp: deny_entry_def Let_def)
  with Cons[of "deny_entry e p"] show ?case by auto
qed simp

lemma fold_deny_removes:
  "e \<in> set es \<Longrightarrow> star \<notin> set e \<Longrightarrow> to_ascii_lowercase e \<notin> shell_command_allowlist (fold deny_entry es p)"
proof (induction es arbitrary: p)
  case (Cons x es)
  show ?case
  proof (cases "x = e")
    case True
    then have "to_ascii_lowercase e \<notin> shell_command_allowlist (deny_entry x p)"
      using Cons.prems(2) by (simp add: deny_entry_def)
    with fold_deny_mono[of es "deny_entry x p"] show ?thesis by auto
  next
    case False
    with Cons show ?thesis by simp
  qed
qed simp

lemma fold_deny_glob_removes:
  "g \<in> set es \<Longrightarrow> star \<in> set g \<Longrightarrow> c \<in> shell_command_allowlist (fold deny_entry es p) \<Longrightarrow>
   \<not> glob_matches (to_ascii_lowercase g) c"
proof (induction es arbitrary: p)
  case (Cons x es)
  show ?case
  proof (cases "x = g")
    case True
    then have "c \<in> shell_command_allowlist (deny_entry g p)"
      using Cons.prems(3) fold_deny_mono[of es "deny_entry g p"] by auto
    with Cons.prems(2) show ?thesis by (simp add: deny_entry_def Let_def)
  next
    case False
    with Cons show ?thesis by simp
  qed
qed simp

lemma with_shell_config_Some:
  "shell_command_allowlist (with_shell_config p (Some c)) =
     shell_command_allowlist (fold deny_entry (case sc_deny c of Some d \<Rightarrow> d | None \<Rightarrow> [])
       (fold allow_entry (case sc_allow c of Some a \<Rightarrow> a | None \<Rightarrow> [])
         (if sc_replace_defaults c = Some True then p\<lparr>shell_command_allowlist := {}, shell_command_allow_globs := []\<rparr> else p)))"
  "shell_command_allow_globs (with_shell_config p (Some c)) =
     shell_command_allow_globs (fold deny_entry (case sc_deny c of Some d \<Rightarrow> d | None \<Rightarrow> [])
       (fold allow_entry (case sc_allow c of Some a \<Rightarrow> a | None \<Rightarrow> [])
         (if sc_replace_defaults c = Some True then p\<lparr>shell_command_allowlist := {}, shell_command_allow_globs := []\<rparr> else p)))"
  by (auto simp: with_shell_config_def Let_def split: option.splits)

text \<open>As long as no pattern is allowed, a denied command is refused: whatever the default list
  and the allow entries say, a command whose executable is named by an exact deny entry or
  matched by a deny pattern is not accepted under the configured policy.\<close>

theorem denied_command_refused:
  assumes "shell_command_allow_globs p = []"
    and "\<forall>e\<in>set allow. star \<notin> set e"
    and "sc_allow c = Some allow" and "sc_deny c = Some deny" and "d \<in> set deny"
    and "split_whitespace cmd = tok # toks"
    and "if star \<in> set d then glob_matches (to_ascii_lowercase d) (executable_name tok)
         else to_ascii_lowercase d = executable_name tok"
  shows "enforce_shell_command (with_shell_config p (Some c)) cmd \<noteq> Inr ()"
proof
  let ?p0 = "if sc_replace_defaults c = Some True
    then p\<lparr>shell_command_allowlist := {}, shell_command_allow_globs := []\<rparr> else p"
  let ?p1 = "fold deny_entry deny (fold allow_entry allow ?p0)"
  assume "enforce_shell_command (with_shell_config p (Some c)) cmd = Inr ()"
  then have "name_allowed ?p1 (executable_name tok)"
    using assms(3,4,6) with_shell_config_Some[of p c]
    unfolding enforce_shell_command_def bind_result_Inr parse_command_name_Inr name_allowed_def
    by (auto simp: Let_def split: if_splits)
  moreover have "shell_command_allow_globs ?p1 = []"
    using fold_deny_mono[of deny "fold allow_entry allow ?p0"] fold_allow_globs[OF assms(2), of ?p0] assms(1)
    by (simp split: if_splits)
  ultimately have listed: "executable_name tok \<in> shell_command_allowlist ?p1"
    by (simp add: name_allowed_def)
  show False
    using fold_deny_removes[OF assms(5)] fold_deny_glob_removes[OF assms(5) _ listed] listed assms(7)
    by (auto split: if_splits)
qed

definition ex_shell_config :: "string list \<Rightarrow> string list \<Rightarrow> bool \<Rightarrow> shell_config" where
  "ex_shell_config allow deny ops = \<lparr>sc_enabled = None, sc_allow = Some allow, sc_deny = Some deny,
     sc_replace_defaults = None, sc_allow_operators = Some ops, sc_env_keys = None,
     sc_command_timeout_secs = None\<rparr>"

definition ex_policy :: workspace_policy where
  "ex_policy = for_bootstrap_workspace ex_os ''/w''"

theorem denied_command_refused_witness:
  "enforce_shell_command (with_shell_config ex_policy (Some (ex_shell_config [''RM''] [''r*''] True)))
     ''/bin/Rm -rf /'' \<noteq> Inr ()"
proof -
  have "shell_command_allow_globs ex_policy = []"
    by (simp add: ex_policy_def for_bootstrap_workspace_def for_mount_roots_def policy_new_def)
  moreover have "\<forall>e\<in>set [''RM'']. star \<notin> set e" by code_simp
  moreover have "split_whitespace ''/bin/Rm -rf /'' = ''/bin/Rm'' # [''-rf'', ''/'']" by code_simp
  moreover have "if star \<in> set ''r*'' then glob_matches (to_ascii_lowercase ''r*'') (executable_name ''/bin/Rm'')
      else to_ascii_lowercase ''r*'' = executable_name ''/bin/Rm''" by code_simp
  ultimately show ?thesis
    by (intro denied_command_refused[where d = "''r*''" and allow = "[''RM'']" and deny = "[''r*'']"])
      (simp_all add: ex_shell_config_def)
qed

text \<open>A deny entry does not take precedence over an allow pattern: with \<open>npm*\<close> allowed and
  \<open>npm\<close> denied, and likewise with \<open>*\<close> allowed and \<open>rm\<close> denied, the denied command runs.\<close>

theorem deny_entry_loses_to_allow_glob:
  "enforce_shell_command (with_shell_config ex_policy (Some (ex_shell_config [''npm*''] [''npm''] True))) ''npm install'' = Inr () \<and>
   enforce_shell_command (with_shell_config ex_policy (Some (ex_shell_config [''*''] [''rm''] True))) ''rm -rf /shared'' = Inr ()"
  by code_simp

text \<open>With operators forbidden, a single \<open>&\<close> still separates two commands: the line is accepted
  because its first word is allowed, although the second command is on no list.\<close>

theorem background_operator_not_refused:
  "enforce_shell_command (with_shell_config ex_policy (Some (ex_shell_config [] [] False))) ''ls & rm -rf /shared'' = Inr () \<and>
   enforce_shell_command (with_shell_config ex_policy (Some (ex_shell_config [] [] False))) ''rm -rf /shared'' \<noteq> Inr ()"
  by code_simp

end
