(* ===== verification/Tool_Registry.thy ===== *)
theory Tool_Registry
  imports Sandbox_Policy
begin

text \<open>
  The tool registry of crate \<open>tools\<close> (\<open>registry.rs\<close> and the helpers of \<open>lib.rs\<close> it calls):
  registration, schemas, and the dispatch of one tool call through the run policy, the
  permission handler, the safety gate, the security policy, the timeout and the
  truncation of the output; and the start-up report.

  A tool is the record of its trait methods. Running one may change the outside world,
  of the type \<open>'w\<close> that stays a parameter, and may send stream events, which are recorded
  in the order of sending. JSON text conversion (crate \<open>serde_json\<close>) is the parameter
  \<open>json_codec\<close>.
\<close>

section \<open>State\<close>

record 'w host =
  sent_events :: "stream_item list"
  outside :: 'w

record json_codec =
  from_str :: "string \<Rightarrow> (string, json) result"
  to_json_string :: "json \<Rightarrow> (string, string) result"

record tool_permission_context =
  perm_session_id :: string
  perm_user_id :: string
  perm_turn :: u32
  perm_remaining_budget :: u64

datatype tool_permission_decision = Allow | Deny string | AllowWithModification json

type_synonym 'w permission_handler =
  "string \<Rightarrow> json \<Rightarrow> tool_permission_context \<Rightarrow> 'w host \<Rightarrow> tool_permission_decision \<times> 'w host"

text \<open>\<open>event_sender\<close> is the sender attached, as what it turns an item into on its way to the listener.\<close>

record 'w tool_execution_context =
  te_user_id :: "string option"
  te_session_id :: "string option"
  te_provider :: "string option"
  te_model :: "string option"
  te_channel_capabilities :: "channel_capabilities option"
  te_event_sender :: "(stream_item \<Rightarrow> stream_item) option"
  te_channel_id :: "string option"
  te_channel_context_id :: "string option"
  te_inbound_attachments :: "inline_media list option"
  te_policy :: "effective_run_policy option"
  te_permission_handler :: "'w permission_handler option"
  te_turn :: "u32 option"
  te_remaining_budget :: "u64 option"

text \<open>\<open>run_tool\<close> answers \<open>None\<close> when the tool is still running at its timeout.\<close>

record 'w tool =
  tool_schema :: function_decl
  tool_timeout :: duration
  tool_safety_tier :: safety_tier
  run_tool :: "string \<Rightarrow> 'w tool_execution_context \<Rightarrow> 'w host \<Rightarrow> (tool_error, string) result option \<times> 'w host"

type_synonym enforcer = "string \<Rightarrow> safety_tier \<Rightarrow> json \<Rightarrow> (security_policy_violation, unit) result"

record 'w tool_registry =
  reg_tools :: "(string \<times> 'w tool) list"
  reg_max_output_bytes :: nat
  reg_security_policy :: "enforcer option"

definition DEFAULT_MAX_OUTPUT_BYTES :: nat where
  "DEFAULT_MAX_OUTPUT_BYTES = 16 * 1024"

definition registry_new :: "nat \<Rightarrow> 'w tool_registry" where
  "registry_new max_bytes = \<lparr>reg_tools = [], reg_max_output_bytes = max_bytes, reg_security_policy = None\<rparr>"

definition registry_default :: "'w tool_registry" where
  "registry_default = registry_new DEFAULT_MAX_OUTPUT_BYTES"

definition register :: "string \<Rightarrow> 'w tool \<Rightarrow> 'w tool_registry \<Rightarrow> 'w tool_registry" where
  "register name t reg = reg\<lparr>reg_tools := bt_insert name t (reg_tools reg)\<rparr>"

definition registry_get :: "'w tool_registry \<Rightarrow> string \<Rightarrow> 'w tool option" where
  "registry_get reg name = map_of (reg_tools reg) name"

definition schemas :: "'w tool_registry \<Rightarrow> function_decl list" where
  "schemas reg = map (\<lambda>(_, t). tool_schema t) (reg_tools reg)"

definition filtered_schemas :: "'w tool_registry \<Rightarrow> string set option \<Rightarrow> string set \<Rightarrow> function_decl list" where
  "filtered_schemas reg effective_toolset disallowed =
     List.map_filter (\<lambda>(_, t).
       let schema = tool_schema t;
           is_allowed = (case effective_toolset of None \<Rightarrow> True | Some ts \<Rightarrow> fd_name schema \<in> ts);
           is_disallowed = fd_name schema \<in> disallowed
       in if is_allowed \<and> \<not> is_disallowed then Some schema else None) (reg_tools reg)"

definition set_security_policy :: "enforcer \<Rightarrow> 'w tool_registry \<Rightarrow> 'w tool_registry" where
  "set_security_policy p reg = reg\<lparr>reg_security_policy := Some p\<rparr>"

section \<open>Helpers\<close>

definition execution_failed :: "string \<Rightarrow> string \<Rightarrow> tool_error" where
  "execution_failed t m = ExecutionFailed t m"

definition invalid_args :: "string \<Rightarrow> string \<Rightarrow> tool_error" where
  "invalid_args t m = InvalidArguments t m"

definition parse_policy_args :: "json_codec \<Rightarrow> string \<Rightarrow> string \<Rightarrow> (tool_error, json) result" where
  "parse_policy_args jc tool args =
     map_err (from_str jc args) (\<lambda>e. invalid_args tool (''invalid JSON arguments payload: '' @ e))"

text \<open>The search for a character boundary at or below a position.\<close>

fun boundary_at_or_below :: "string \<Rightarrow> nat \<Rightarrow> nat" where
  "boundary_at_or_below s cutoff =
     (if 0 < cutoff \<and> \<not> is_char_boundary s cutoff then boundary_at_or_below s (cutoff - 1) else cutoff)"

declare boundary_at_or_below.simps [simp del]

definition truncation_mark :: "nat \<Rightarrow> string" where
  "truncation_mark n = nl @ ''...[output truncated: '' @ nat_to_string n @ '' bytes total]''"

definition truncate_output :: "string \<Rightarrow> nat \<Rightarrow> string" where
  "truncate_output out max_output_bytes =
     (if length out \<le> max_output_bytes then out
      else let original_bytes = length out;
               cutoff = boundary_at_or_below out (min max_output_bytes original_bytes)
           in take cutoff out @ truncation_mark original_bytes)"

fun violation_reason_debug :: "violation_reason \<Rightarrow> string" where
  "violation_reason_debug ViolInvalidArguments = ''InvalidArguments''"
| "violation_reason_debug PathResolutionFailed = ''PathResolutionFailed''"
| "violation_reason_debug PathOutsideAllowedRoots = ''PathOutsideAllowedRoots''"
| "violation_reason_debug CommandNotAllowed = ''CommandNotAllowed''"

section \<open>Dispatch\<close>

definition send_event :: "'w tool_execution_context \<Rightarrow> stream_item \<Rightarrow> 'w host \<Rightarrow> 'w host" where
  "send_event ctx e w =
     (case te_event_sender ctx of Some deliver \<Rightarrow> w\<lparr>sent_events := sent_events w @ [deliver e]\<rparr> | None \<Rightarrow> w)"

definition check_disallowed ::
    "'w tool_execution_context \<Rightarrow> string \<Rightarrow> ('w host, tool_error, unit) action" where
  "check_disallowed ctx name w =
     (case te_policy ctx of
        None \<Rightarrow> (Inr (), w)
      | Some policy \<Rightarrow>
        if name \<in> disallowed_tools policy
        then (case rollout_mode policy of
                Enforce \<Rightarrow> (Inl (PolicyViolation ToolDisallowed), w)
              | SoftFail \<Rightarrow> (Inr (), send_event ctx (SPolicyEvent (PolicyStop ToolDisallowed)) w)
              | ObserveOnly \<Rightarrow> (Inr (), w))
        else (Inr (), w))"

definition is_auto_approved :: "'w tool_execution_context \<Rightarrow> string \<Rightarrow> bool" where
  "is_auto_approved ctx name = (case te_policy ctx of None \<Rightarrow> False | Some p \<Rightarrow> name \<in> auto_approve_tools p)"

definition permission_context :: "'w tool_execution_context \<Rightarrow> tool_permission_context" where
  "permission_context ctx =
     \<lparr>perm_session_id = (case te_session_id ctx of Some s \<Rightarrow> s | None \<Rightarrow> []),
      perm_user_id = (case te_user_id ctx of Some s \<Rightarrow> s | None \<Rightarrow> []),
      perm_turn = (case te_turn ctx of Some n \<Rightarrow> n | None \<Rightarrow> 0),
      perm_remaining_budget = (case te_remaining_budget ctx of Some n \<Rightarrow> n | None \<Rightarrow> 0)\<rparr>"

definition ask_permission ::
    "json_codec \<Rightarrow> 'w tool_execution_context \<Rightarrow> string \<Rightarrow> string \<Rightarrow> ('w host, tool_error, string) action" where
  "ask_permission jc ctx name args w =
     (case te_permission_handler ctx of
        None \<Rightarrow> (Inr args, w)
      | Some handler \<Rightarrow>
        if is_auto_approved ctx name then (Inr args, w)
        else
          let parsed_args = (case from_str jc args of Inr v \<Rightarrow> v | Inl _ \<Rightarrow> JNull) in
          case handler name parsed_args (permission_context ctx) w of
            (Allow, w') \<Rightarrow> (Inr args, w')
          | (Deny _, w') \<Rightarrow> (Inl (PolicyViolation ToolPermissionDenied), w')
          | (AllowWithModification modified_args, w') \<Rightarrow>
              (map_err (to_json_string jc modified_args) ToolSerialization, w'))"

definition check_security ::
    "json_codec \<Rightarrow> 'w tool_registry \<Rightarrow> string \<Rightarrow> safety_tier \<Rightarrow> string \<Rightarrow> (tool_error, unit) result" where
  "check_security jc reg name tier final_args =
     (case reg_security_policy reg of
        None \<Rightarrow> Inr ()
      | Some policy \<Rightarrow>
        bind_result (parse_policy_args jc name final_args) (\<lambda>arguments.
          map_err (policy name tier arguments) (\<lambda>v. execution_failed name
            (''blocked by security policy ('' @ violation_reason_debug (viol_reason v) @ ''): '' @ viol_detail v))))"

definition run_with_timeout ::
    "string \<Rightarrow> 'w tool \<Rightarrow> string \<Rightarrow> 'w tool_execution_context \<Rightarrow> ('w host, tool_error, string) action" where
  "run_with_timeout name t final_args ctx w =
     (case run_tool t final_args ctx w of
        (None, w') \<Rightarrow> (Inl (execution_failed name (''tool timed out after '' @ duration_debug (tool_timeout t))), w')
      | (Some r, w') \<Rightarrow> (r, w'))"

definition execute_with_policy_and_context ::
    "json_codec \<Rightarrow> 'w tool_registry \<Rightarrow> string \<Rightarrow> string \<Rightarrow> (safety_tier \<Rightarrow> (tool_error, unit) result) \<Rightarrow>
     'w tool_execution_context \<Rightarrow> ('w host, tool_error, string) action" where
  "execute_with_policy_and_context jc reg name args safety_gate ctx =
     bind_action (lift_action (ok_or (registry_get reg name)
         (execution_failed name (''unknown tool `'' @ name @ ''`'')))) (\<lambda>t.
     bind_action (check_disallowed ctx name) (\<lambda>_.
     bind_action (ask_permission jc ctx name args) (\<lambda>final_args.
     bind_action (lift_action (safety_gate (tool_safety_tier t))) (\<lambda>_.
     bind_action (lift_action (check_security jc reg name (tool_safety_tier t) final_args)) (\<lambda>_.
     bind_action (run_with_timeout name t final_args ctx) (\<lambda>out.
     ret_action (truncate_output out (reg_max_output_bytes reg))))))))"

definition default_tool_context :: "'w tool_execution_context" where
  "default_tool_context =
     \<lparr>te_user_id = None, te_session_id = None, te_provider = None, te_model = None,
      te_channel_capabilities = None, te_event_sender = None, te_channel_id = None,
      te_channel_context_id = None, te_inbound_attachments = None, te_policy = None,
      te_permission_handler = None, te_turn = None, te_remaining_budget = None\<rparr>"

definition execute_with_context ::
    "json_codec \<Rightarrow> 'w tool_registry \<Rightarrow> string \<Rightarrow> string \<Rightarrow> 'w tool_execution_context \<Rightarrow>
     ('w host, tool_error, string) action" where
  "execute_with_context jc reg name args ctx = execute_with_policy_and_context jc reg name args (\<lambda>_. Inr ()) ctx"

definition execute_with_policy ::
    "json_codec \<Rightarrow> 'w tool_registry \<Rightarrow> string \<Rightarrow> string \<Rightarrow> (safety_tier \<Rightarrow> (tool_error, unit) result) \<Rightarrow>
     ('w host, tool_error, string) action" where
  "execute_with_policy jc reg name args safety_gate =
     execute_with_policy_and_context jc reg name args safety_gate default_tool_context"

definition registry_execute ::
    "json_codec \<Rightarrow> 'w tool_registry \<Rightarrow> string \<Rightarrow> string \<Rightarrow> ('w host, tool_error, string) action" where
  "registry_execute jc reg name args =
     execute_with_policy_and_context jc reg name args (\<lambda>_. Inr ()) default_tool_context"

section \<open>Start-up report\<close>

datatype sandbox_tier = MicroVm | Container | Process

datatype startup_degraded_reason_code = InsecureProcessTier | ProcessHardeningLimited | SidecarUnavailable
  | SidecarTransportUnsupported | SidecarEndpointInvalid | SidecarConnectionFailed | SidecarProtocolError
  | RuntimeShutdown

record startup_degraded_reason =
  sdr_code :: startup_degraded_reason_code
  sdr_detail :: string

record startup_status_report =
  ss_sandbox_tier :: sandbox_tier
  ss_sidecar_available :: bool
  ss_shell_available :: bool
  ss_browser_available :: bool
  ss_degraded_reasons :: "startup_degraded_reason list"

definition has_reason_code :: "startup_status_report \<Rightarrow> startup_degraded_reason_code \<Rightarrow> bool" where
  "has_reason_code s code = list_ex (\<lambda>r. sdr_code r = code) (ss_degraded_reasons s)"

definition push_reason ::
    "startup_degraded_reason_code \<Rightarrow> string \<Rightarrow> startup_status_report \<Rightarrow> startup_status_report" where
  "push_reason code detail s =
     (if has_reason_code s code then s
      else s\<lparr>ss_degraded_reasons := ss_degraded_reasons s @ [\<lparr>sdr_code = code, sdr_detail = detail\<rparr>]\<rparr>)"

definition is_degraded :: "startup_status_report \<Rightarrow> bool" where
  "is_degraded s \<longleftrightarrow> ss_degraded_reasons s \<noteq> []"

datatype session_unavailable_reason = MissingSidecarEndpoint | UnsupportedTransport | InvalidAddress
  | ConnectionFailed | ProtocolError | Disabled

datatype sidecar_transport = Unix | Vsock

datatype session_connection = Sidecar sidecar_transport string | LocalProcess

record session_unavailable =
  su_reason :: session_unavailable_reason
  su_detail :: string

datatype session_status = Ready session_connection | Unavailable session_unavailable

fun is_ready :: "session_status \<Rightarrow> bool" where
  "is_ready (Ready _) = True"
| "is_ready (Unavailable _) = False"

fun map_session_unavailable_reason ::
    "session_unavailable_reason \<Rightarrow> sandbox_tier \<Rightarrow> startup_degraded_reason_code" where
  "map_session_unavailable_reason MissingSidecarEndpoint tier =
     (if tier = Process then InsecureProcessTier else SidecarUnavailable)"
| "map_session_unavailable_reason Disabled tier =
     (if tier = Process then InsecureProcessTier else SidecarUnavailable)"
| "map_session_unavailable_reason UnsupportedTransport tier = SidecarTransportUnsupported"
| "map_session_unavailable_reason InvalidAddress tier = SidecarEndpointInvalid"
| "map_session_unavailable_reason ConnectionFailed tier = SidecarConnectionFailed"
| "map_session_unavailable_reason ProtocolError tier = SidecarProtocolError"

text \<open>Of the bootstrap envelope, the fields the tool crate reads.\<close>

record mounts =
  mnt_shared :: string
  mnt_tmp :: string
  mnt_vault :: string

record bootstrap_envelope =
  be_sandbox_tier :: sandbox_tier
  be_workspace_root :: string
  be_runtime_mounts :: "mounts option"
  be_startup_status :: "startup_status_report option"

record tool_availability =
  av_shell :: session_status
  av_browser :: session_status

fun push_unavailable :: "sandbox_tier \<Rightarrow> session_status \<Rightarrow> startup_status_report \<Rightarrow> startup_status_report" where
  "push_unavailable tier (Unavailable u) s = push_reason (map_session_unavailable_reason (su_reason u) tier) (su_detail u) s"
| "push_unavailable tier (Ready _) s = s"

definition startup_status :: "tool_availability \<Rightarrow> bootstrap_envelope option \<Rightarrow> startup_status_report" where
  "startup_status av bootstrap =
     (let fallback_tier = (case bootstrap of None \<Rightarrow> Process | Some b \<Rightarrow> be_sandbox_tier b);
          s0 = (case Option.bind bootstrap be_startup_status of
                  Some s \<Rightarrow> s
                | None \<Rightarrow> \<lparr>ss_sandbox_tier = fallback_tier, ss_sidecar_available = False,
                    ss_shell_available = False, ss_browser_available = False, ss_degraded_reasons = []\<rparr>);
          s1 = s0\<lparr>ss_sandbox_tier := fallback_tier,
                  ss_shell_available := is_ready (av_shell av),
                  ss_browser_available := is_ready (av_browser av),
                  ss_sidecar_available := is_ready (av_shell av) \<or> is_ready (av_browser av)\<rparr>;
          s2 = fold (push_unavailable fallback_tier) [av_shell av, av_browser av] s1
      in if fallback_tier = Process
         then push_reason InsecureProcessTier ''process tier is insecure; shell/browser tools are disabled'' s2
         else s2)"

definition workspace_security_policy ::
    "os_env \<Rightarrow> bootstrap_envelope option \<Rightarrow> shell_config option \<Rightarrow> workspace_policy" where
  "workspace_security_policy os bootstrap config =
     (let policy = (case bootstrap of
          Some b \<Rightarrow> (case be_runtime_mounts b of
              Some m \<Rightarrow> for_mount_roots os (mnt_shared m) (mnt_tmp m) (mnt_vault m) []
            | None \<Rightarrow> for_bootstrap_workspace os (be_workspace_root b))
        | None \<Rightarrow> for_bootstrap_workspace os (case os_current_dir os of Some d \<Rightarrow> d | None \<Rightarrow> ''.''))
      in with_shell_config policy config)"

text \<open>
  Registration of the runtime tools. The tool objects come from \<open>kit\<close>, by name;
  \<open>browser_ready\<close> is whether both a browser configuration and a shared shell session exist.
\<close>

record runtime_tool_exposure =
  shell_enabled :: bool
  browser_enabled :: bool

definition register_runtime_tools ::
    "(string \<Rightarrow> 'w tool) \<Rightarrow> bool \<Rightarrow> runtime_tool_exposure \<Rightarrow> 'w tool_registry \<Rightarrow> 'w tool_registry" where
  "register_runtime_tools kit browser_ready exposure reg =
     (let reg = fold (\<lambda>n. register n (kit n))
            [''file_read'', ''file_search'', ''file_list'', ''file_write'', ''file_edit'', ''file_delete'',
             ''attachment_save'', ''web_fetch'', ''web_search'', ''vault_copyto'', ''send_media''] reg;
          reg = (if shell_enabled exposure then register ''shell_exec'' (kit ''shell_exec'') reg else reg)
      in if browser_enabled exposure \<and> browser_ready then register ''browser'' (kit ''browser'') reg else reg)"

definition register_core_tools :: "(string \<Rightarrow> 'w tool) \<Rightarrow> 'w tool_registry \<Rightarrow> 'w tool_registry" where
  "register_core_tools kit reg = register_runtime_tools kit False \<lparr>shell_enabled = True, browser_enabled = False\<rparr> reg"

definition register_skill_tools :: "(string \<Rightarrow> 'w tool) \<Rightarrow> 'w tool_registry \<Rightarrow> 'w tool_registry" where
  "register_skill_tools kit reg = register ''skill_update'' (kit ''skill_update'') (register ''skill_create'' (kit ''skill_create'') reg)"

definition exposure_of :: "bootstrap_envelope option \<Rightarrow> runtime_tool_exposure" where
  "exposure_of bootstrap =
     \<lparr>shell_enabled = (case Option.bind bootstrap be_startup_status of Some s \<Rightarrow> ss_shell_available s | None \<Rightarrow> True),
      browser_enabled = (case Option.bind bootstrap be_startup_status of Some s \<Rightarrow> ss_browser_available s | None \<Rightarrow> True)\<rparr>"

definition bootstrap_registry ::
    "os_env \<Rightarrow> (string \<Rightarrow> 'w tool) \<Rightarrow> bool \<Rightarrow> bootstrap_envelope option \<Rightarrow> shell_config option \<Rightarrow> 'w tool_registry" where
  "bootstrap_registry os kit browser_ready bootstrap config =
     (let reg = register_runtime_tools kit browser_ready (exposure_of bootstrap) registry_default;
          reg = (case bootstrap of Some b \<Rightarrow> register_skill_tools kit reg | None \<Rightarrow> reg)
      in set_security_policy (enforce os (workspace_security_policy os bootstrap config)) reg)"

section \<open>Registry lemmas\<close>

text \<open>
  The registry is well formed: its entries are in key order and every tool is registered
  under the name its schema declares.
\<close>

definition registry_wf :: "'w tool_registry \<Rightarrow> bool" where
  "registry_wf reg \<longleftrightarrow> bt_sorted (reg_tools reg) \<and> (\<forall>(n, t)\<in>set (reg_tools reg). fd_name (tool_schema t) = n)"

lemma set_bt_insert_subset: "set (bt_insert k v kvs) \<subseteq> insert (k, v) (set kvs)"
  by (induction k v kvs rule: bt_insert.induct) auto

lemma registry_wf_register:
  "registry_wf reg \<Longrightarrow> fd_name (tool_schema t) = n \<Longrightarrow> registry_wf (register n t reg)"
  using set_bt_insert_subset[of n t "reg_tools reg"]
  by (fastforce simp: registry_wf_def register_def bt_sorted_insert)

lemma registry_wf_new [simp]: "registry_wf (registry_new m)" "registry_wf registry_default"
  by (simp_all add: registry_wf_def registry_new_def registry_default_def bt_sorted_def)

interpretation tools: keyed_store registry_get register "\<lambda>reg. bt_sorted (reg_tools reg)"
  by unfold_locales (auto simp: registry_get_def register_def map_of_bt_insert bt_sorted_insert fun_eq_iff)

lemma registry_get_in: "registry_get reg n = Some t \<Longrightarrow> (n, t) \<in> set (reg_tools reg)"
  by (simp add: registry_get_def map_of_SomeD)

lemma registry_get_iff:
  "registry_wf reg \<Longrightarrow> registry_get reg n = Some t \<longleftrightarrow> (n, t) \<in> set (reg_tools reg)"
  by (simp add: registry_get_def registry_wf_def bt_sorted_distinct)

lemma filtered_schemas_filter:
  "filtered_schemas reg ts dis =
     filter (\<lambda>d. (case ts of None \<Rightarrow> True | Some s \<Rightarrow> fd_name d \<in> s) \<and> fd_name d \<notin> dis) (schemas reg)"
proof -
  have "List.map_filter (\<lambda>(_, t). let schema = tool_schema t;
           is_allowed = (case ts of None \<Rightarrow> True | Some s \<Rightarrow> fd_name schema \<in> s);
           is_disallowed = fd_name schema \<in> dis
       in if is_allowed \<and> \<not> is_disallowed then Some schema else None) kvs =
     filter (\<lambda>d. (case ts of None \<Rightarrow> True | Some s \<Rightarrow> fd_name d \<in> s) \<and> fd_name d \<notin> dis)
       (map (\<lambda>(_, t). tool_schema t) kvs)" for kvs :: "(string \<times> 'a tool) list"
    by (induction kvs) (auto simp: Let_def List.map_filter_simps)
  then show ?thesis by (simp add: filtered_schemas_def schemas_def)
qed

lemma schema_names:
  "registry_wf reg \<Longrightarrow> map fd_name (schemas reg) = map fst (reg_tools reg)"
  by (auto simp: registry_wf_def schemas_def)

text \<open>The tool declarations offered to the model are exactly those of the registered tools that
  the policy's toolset names (all, when it names none) and that are not disallowed, each
  once and in the order of their names.\<close>

theorem filtered_schemas_exact:
  assumes "registry_wf reg"
  shows "set (filtered_schemas reg ts dis) =
       {tool_schema t | n t. registry_get reg n = Some t \<and> (ts = None \<or> n \<in> the ts) \<and> n \<notin> dis} \<and>
     sorted_wrt (<) (map fd_name (filtered_schemas reg ts dis))"
proof
  have names: "fd_name (tool_schema t) = n" if "(n, t) \<in> set (reg_tools reg)" for n t
    using assms that by (auto simp: registry_wf_def)
  show "set (filtered_schemas reg ts dis) =
       {tool_schema t | n t. registry_get reg n = Some t \<and> (ts = None \<or> n \<in> the ts) \<and> n \<notin> dis}"
  proof (rule set_eqI)
    fix d
    have "d \<in> set (filtered_schemas reg ts dis) \<longleftrightarrow>
        (\<exists>n t. (n, t) \<in> set (reg_tools reg) \<and> d = tool_schema t) \<and>
        (ts = None \<or> fd_name d \<in> the ts) \<and> fd_name d \<notin> dis"
      by (cases ts) (auto simp: filtered_schemas_filter schemas_def)
    then show "d \<in> set (filtered_schemas reg ts dis) \<longleftrightarrow>
        d \<in> {tool_schema t | n t. registry_get reg n = Some t \<and> (ts = None \<or> n \<in> the ts) \<and> n \<notin> dis}"
      using names registry_get_iff[OF assms] by auto
  qed
  have "sorted_wrt (<) (map fd_name (schemas reg))"
    using assms by (simp add: schema_names registry_wf_def bt_sorted_def)
  then show "sorted_wrt (<) (map fd_name (filtered_schemas reg ts dis))"
    by (simp add: filtered_schemas_filter sorted_wrt_map sorted_wrt_filter)
qed

definition ex_tool :: "string \<Rightarrow> nat tool" where
  "ex_tool n = \<lparr>tool_schema = \<lparr>fd_name = n, fd_description = None, fd_parameters = JNull\<rparr>,
     tool_timeout = \<lparr>dur_secs = 30, dur_subsec_nanos = 0\<rparr>, tool_safety_tier = ReadOnly,
     run_tool = (\<lambda>args ctx w. (Some (Inr ''done''), w\<lparr>outside := outside w + 1\<rparr>))\<rparr>"

definition ex_registry :: "nat tool_registry" where
  "ex_registry = register ''file_write'' (ex_tool ''file_write'') (register ''file_read'' (ex_tool ''file_read'') registry_default)"

lemma ex_registry_wf: "registry_wf ex_registry"
  unfolding ex_registry_def by (intro registry_wf_register registry_wf_new) (simp_all add: ex_tool_def)

theorem filtered_schemas_exact_witness:
  "sorted_wrt (<) (map fd_name (filtered_schemas ex_registry None {''file_write''})) \<and>
   map fd_name (filtered_schemas ex_registry None {''file_write''}) = [''file_read'']"
proof
  show "sorted_wrt (<) (map fd_name (filtered_schemas ex_registry None {''file_write''}))"
    using filtered_schemas_exact[OF ex_registry_wf] by blast
  show "map fd_name (filtered_schemas ex_registry None {''file_write''}) = [''file_read'']"
    by code_simp
qed

section \<open>Output truncation\<close>

lemma boundary_at_or_below_props:
  "is_char_boundary s (boundary_at_or_below s n) \<and> boundary_at_or_below s n \<le> n \<and>
   (\<forall>i. boundary_at_or_below s n < i \<and> i \<le> n \<longrightarrow> \<not> is_char_boundary s i)"
proof (induction s n rule: boundary_at_or_below.induct)
  case (1 s n)
  show ?case
  proof (cases "0 < n \<and> \<not> is_char_boundary s n")
    case True
    then have eq: "boundary_at_or_below s n = boundary_at_or_below s (n - 1)"
      by (simp add: boundary_at_or_below.simps)
    have "\<not> is_char_boundary s i" if "boundary_at_or_below s (n - 1) < i" "i \<le> n" for i
      using that 1 True by (cases "i = n") auto
    with 1 True show ?thesis unfolding eq by auto
  next
    case False
    then have "boundary_at_or_below s n = n" by (subst boundary_at_or_below.simps) auto
    with False show ?thesis by (auto simp: is_char_boundary_def)
  qed
qed

text \<open>Tool output within the limit is returned as it is; longer output is cut to the longest
  sequence of whole characters that fits in the limit, followed by a mark with the
  original size. No character is ever split.\<close>

theorem truncate_output_spec:
  "if length s \<le> m then truncate_output s m = s
   else \<exists>k < char_count s. truncate_output s m = take_chars k s @ truncation_mark (length s) \<and>
          length (take_chars k s) \<le> m \<and> m < length (take_chars (Suc k) s)"
proof (cases "length s \<le> m")
  case False
  define c where "c = boundary_at_or_below s m"
  have c: "is_char_boundary s c" "c \<le> m" "\<And>i. c < i \<Longrightarrow> i \<le> m \<Longrightarrow> \<not> is_char_boundary s i"
    using boundary_at_or_below_props[of s m] by (auto simp: c_def)
  obtain k where k: "k \<le> length (chars s)" "c = length (take_chars k s)"
    using c(1) by (auto simp: is_char_boundary_iff take_chars_def)
  have "k \<noteq> length (chars s)"
    using k c(2) False by (intro notI) (simp add: take_chars_def)
  with k(1) have lt: "k < length (chars s)" by simp
  have split: "take_chars (Suc k) s = take_chars k s @ chars s ! k"
    using lt by (simp add: take_chars_def take_Suc_conv_app_nth)
  have "chars s ! k \<noteq> []" using lt chars_nonempty nth_mem by blast
  then have longer: "c < length (take_chars (Suc k) s)" by (simp add: split k(2))
  have "is_char_boundary s (length (take_chars (Suc k) s))"
    using lt by (auto simp: is_char_boundary_iff take_chars_def intro!: exI[of _ "Suc k"])
  with c(3) longer have "m < length (take_chars (Suc k) s)" by (meson not_le)
  moreover have "take c s = take_chars k s"
  proof -
    have "s = take_chars k s @ concat (drop k (chars s))"
      by (metis append_take_drop_id concat_append concat_chars take_chars_def)
    then show ?thesis by (metis append_eq_conv_conj k(2))
  qed
  ultimately show ?thesis
    using False lt c(2) k(2) by (auto simp: truncate_output_def Let_def c_def[symmetric] char_count_def)
qed (simp add: truncate_output_def)

section \<open>Dispatch lemmas\<close>

definition disallowed_by :: "'w tool_execution_context \<Rightarrow> string \<Rightarrow> bool" where
  "disallowed_by ctx name \<longleftrightarrow>
     (\<exists>p. te_policy ctx = Some p \<and> name \<in> disallowed_tools p \<and> rollout_mode p = Enforce)"

lemma check_disallowed_Inl:
  "disallowed_by ctx name \<Longrightarrow> check_disallowed ctx name w = (Inl (PolicyViolation ToolDisallowed), w)"
  by (auto simp: disallowed_by_def check_disallowed_def)

lemma check_disallowed_Inr:
  "\<not> disallowed_by ctx name \<Longrightarrow> \<exists>w1. check_disallowed ctx name w = (Inr (), w1) \<and> outside w1 = outside w"
  by (auto simp: disallowed_by_def check_disallowed_def send_event_def split: option.splits rollout_mode.splits)

lemma run_with_timeout_Inr:
  "run_with_timeout name t final ctx w = (Inr raw, w') \<longleftrightarrow> run_tool t final ctx w = (Some (Inr raw), w')"
  by (auto simp: run_with_timeout_def split: prod.splits option.splits)

lemma execute_steps:
  "execute_with_policy_and_context jc reg name args gate ctx w = (Inr out, w') \<longleftrightarrow>
     (\<exists>t w1 final w2 raw. registry_get reg name = Some t \<and>
        check_disallowed ctx name w = (Inr (), w1) \<and>
        ask_permission jc ctx name args w1 = (Inr final, w2) \<and>
        gate (tool_safety_tier t) = Inr () \<and>
        check_security jc reg name (tool_safety_tier t) final = Inr () \<and>
        run_tool t final ctx w2 = (Some (Inr raw), w') \<and>
        out = truncate_output raw (reg_max_output_bytes reg))"
  unfolding execute_with_policy_and_context_def bind_action_Inr lift_action_eq ret_action_eq run_with_timeout_Inr
    ok_or_Inr
  by auto

lemma check_security_Inr:
  "check_security jc reg name tier final = Inr () \<longleftrightarrow>
     (\<forall>enf. reg_security_policy reg = Some enf \<longrightarrow>
        (\<exists>v. from_str jc final = Inr v \<and> enf name tier v = Inr ()))"
  by (auto simp: check_security_def parse_policy_args_def split: option.splits)

definition handler_decision ::
    "json_codec \<Rightarrow> 'w tool_execution_context \<Rightarrow> string \<Rightarrow> string \<Rightarrow> 'w host \<Rightarrow> tool_permission_decision" where
  "handler_decision jc ctx name args w =
     (case te_permission_handler ctx of
        None \<Rightarrow> Allow
      | Some h \<Rightarrow> if is_auto_approved ctx name then Allow
                  else fst (h name (case from_str jc args of Inr v \<Rightarrow> v | Inl _ \<Rightarrow> JNull) (permission_context ctx) w))"

lemma ask_permission_Inr:
  "ask_permission jc ctx name args w = (Inr final, w') \<Longrightarrow>
     (case handler_decision jc ctx name args w of
        Allow \<Rightarrow> final = args | Deny _ \<Rightarrow> False | AllowWithModification m \<Rightarrow> to_json_string jc m = Inr final)"
  by (auto simp: ask_permission_def handler_decision_def
      split: option.splits prod.splits tool_permission_decision.splits if_splits)

text \<open>C12: A tool call that succeeds has passed every gate, and its output is the truncated output of
  the registered tool on the arguments that passed: the tool is not disallowed by an
  enforced policy, the permission handler (asked unless the tool is auto-approved) did not
  deny it, the safety gate admits its tier, the security policy accepted exactly the
  arguments the tool received, which are the caller's unless the handler replaced them.\<close>

theorem execute_passes_all_gates:
  assumes "execute_with_policy_and_context jc reg name args gate ctx w = (Inr out, w')"
  shows "\<exists>t final w1 w2 raw. registry_get reg name = Some t \<and> \<not> disallowed_by ctx name \<and>
     outside w1 = outside w \<and>
     (case handler_decision jc ctx name args w1 of
        Allow \<Rightarrow> final = args | Deny _ \<Rightarrow> False | AllowWithModification m \<Rightarrow> to_json_string jc m = Inr final) \<and>
     gate (tool_safety_tier t) = Inr () \<and>
     (\<forall>enf. reg_security_policy reg = Some enf \<longrightarrow>
        (\<exists>v. from_str jc final = Inr v \<and> enf name (tool_safety_tier t) v = Inr ())) \<and>
     run_tool t final ctx w2 = (Some (Inr raw), w') \<and>
     out = truncate_output raw (reg_max_output_bytes reg)"
proof -
  obtain t w1 final w2 raw where
    1: "registry_get reg name = Some t" and 2: "check_disallowed ctx name w = (Inr (), w1)"
    and 3: "ask_permission jc ctx name args w1 = (Inr final, w2)" and 4: "gate (tool_safety_tier t) = Inr ()"
    and 5: "check_security jc reg name (tool_safety_tier t) final = Inr ()"
    and 6: "run_tool t final ctx w2 = (Some (Inr raw), w')" "out = truncate_output raw (reg_max_output_bytes reg)"
    using assms unfolding execute_steps by blast
  have "\<not> disallowed_by ctx name" using 2 check_disallowed_Inl[of ctx name w] by auto
  moreover from this have "outside w1 = outside w" using check_disallowed_Inr[of ctx name w] 2 by auto
  ultimately show ?thesis
    using 1 4 5[unfolded check_security_Inr] 6 ask_permission_Inr[OF 3] by blast
qed

definition ex_codec :: json_codec where
  "ex_codec = \<lparr>from_str = (\<lambda>s. if s = ''{}'' then Inr (JObj []) else Inl ''bad''),
     to_json_string = (\<lambda>_. Inr ''{}'')\<rparr>"

definition ex_host :: "nat host" where
  "ex_host = \<lparr>sent_events = [], outside = 0\<rparr>"

theorem execute_passes_all_gates_witness:
  "execute_with_policy_and_context ex_codec ex_registry ''file_read'' ''{}'' (\<lambda>_. Inr ()) default_tool_context ex_host =
     (Inr ''done'', \<lparr>sent_events = [], outside = 1\<rparr>) \<and>
   \<not> disallowed_by (default_tool_context :: nat tool_execution_context) ''file_read''"
proof -
  have run: "execute_with_policy_and_context ex_codec ex_registry ''file_read'' ''{}'' (\<lambda>_. Inr ()) default_tool_context ex_host =
     (Inr ''done'', \<lparr>sent_events = [], outside = 1\<rparr>)"
    by code_simp
  with execute_passes_all_gates[OF run] show ?thesis by blast
qed

text \<open>A refused call has no effect: under an enforced policy a call of a disallowed tool returns
  the policy violation, and a call that the security policy rejects returns the reason
  for the rejection; in both cases nothing outside the runtime has changed.\<close>

theorem refused_call_has_no_effect:
  assumes "registry_get reg name = Some t" and "te_permission_handler ctx = None"
  shows "(disallowed_by ctx name \<longrightarrow>
       execute_with_policy_and_context jc reg name args gate ctx w = (Inl (PolicyViolation ToolDisallowed), w)) \<and>
     (\<forall>enf v viol. \<not> disallowed_by ctx name \<and> gate (tool_safety_tier t) = Inr () \<and>
        reg_security_policy reg = Some enf \<and> from_str jc args = Inr v \<and>
        enf name (tool_safety_tier t) v = Inl viol \<longrightarrow>
       (\<exists>w'. execute_with_policy_and_context jc reg name args gate ctx w =
          (Inl (ExecutionFailed name (''blocked by security policy ('' @
             violation_reason_debug (viol_reason viol) @ ''): '' @ viol_detail viol)), w') \<and>
          outside w' = outside w))"
proof (intro conjI impI allI)
  assume "disallowed_by ctx name"
  then show "execute_with_policy_and_context jc reg name args gate ctx w = (Inl (PolicyViolation ToolDisallowed), w)"
    using assms(1) check_disallowed_Inl[of ctx name w]
    by (simp add: execute_with_policy_and_context_def bind_action_step)
next
  fix enf v viol
  assume a: "\<not> disallowed_by ctx name \<and> gate (tool_safety_tier t) = Inr () \<and>
      reg_security_policy reg = Some enf \<and> from_str jc args = Inr v \<and> enf name (tool_safety_tier t) v = Inl viol"
  obtain w1 where w1: "check_disallowed ctx name w = (Inr (), w1)" "outside w1 = outside w"
    using check_disallowed_Inr[of ctx name w] a by blast
  have "ask_permission jc ctx name args w1 = (Inr args, w1)" using assms(2) by (simp add: ask_permission_def)
  then show "\<exists>w'. execute_with_policy_and_context jc reg name args gate ctx w =
          (Inl (ExecutionFailed name (''blocked by security policy ('' @
             violation_reason_debug (viol_reason viol) @ ''): '' @ viol_detail viol)), w') \<and>
          outside w' = outside w"
    using a assms(1) w1
    by (simp add: execute_with_policy_and_context_def bind_action_step check_security_def parse_policy_args_def
        execution_failed_def)
qed

theorem refused_call_has_no_effect_witness:
  "\<exists>w'. execute_with_policy_and_context ex_codec (set_security_policy (\<lambda>_ _ _. Inl (violation CommandNotAllowed ''no'')) ex_registry)
     ''file_read'' ''{}'' (\<lambda>_. Inr ()) default_tool_context ex_host =
       (Inl (ExecutionFailed ''file_read'' ''blocked by security policy (CommandNotAllowed): no''), w') \<and> outside w' = 0"
proof -
  let ?reg = "set_security_policy (\<lambda>_ _ _. Inl (violation CommandNotAllowed ''no'')) ex_registry"
  have "registry_get ?reg ''file_read'' = Some (ex_tool ''file_read'')"
    by (simp add: registry_get_def set_security_policy_def ex_registry_def register_def registry_default_def registry_new_def)
  moreover have "te_permission_handler (default_tool_context :: nat tool_execution_context) = None"
    by (simp add: default_tool_context_def)
  ultimately show ?thesis
    using refused_call_has_no_effect[of ?reg "''file_read''" _ default_tool_context ex_codec "''{}''" "\<lambda>_. Inr ()" ex_host]
    by (simp add: disallowed_by_def default_tool_context_def set_security_policy_def ex_codec_def violation_def ex_host_def)
qed

section \<open>Start-up lemmas\<close>

lemma push_reason_codes:
  "sdr_code ` set (ss_degraded_reasons (push_reason c d s)) = insert c (sdr_code ` set (ss_degraded_reasons s))"
  "distinct (map sdr_code (ss_degraded_reasons s)) \<Longrightarrow> distinct (map sdr_code (ss_degraded_reasons (push_reason c d s)))"
  by (auto simp: push_reason_def has_reason_code_def list_ex_iff)

lemma push_reason_other [simp]:
  "ss_sandbox_tier (push_reason c d s) = ss_sandbox_tier s"
  "ss_sidecar_available (push_reason c d s) = ss_sidecar_available s"
  "ss_shell_available (push_reason c d s) = ss_shell_available s"
  "ss_browser_available (push_reason c d s) = ss_browser_available s"
  by (simp_all add: push_reason_def)

definition reported_codes :: "startup_status_report \<Rightarrow> startup_degraded_reason_code set" where
  "reported_codes s = sdr_code ` set (ss_degraded_reasons s)"

text \<open>The start-up report is consistent: the sidecar is available exactly when the shell or the
  browser is, the flags are those of the two sessions, each unavailable session and the
  process tier are reported under their reason code, and no code is reported twice when
  the runner's own report has none twice.\<close>

theorem startup_status_consistent:
  assumes "\<forall>b s. bootstrap = Some b \<and> be_startup_status b = Some s \<longrightarrow> distinct (map sdr_code (ss_degraded_reasons s))"
    and "tier = (case bootstrap of None \<Rightarrow> Process | Some b \<Rightarrow> be_sandbox_tier b)"
    and "r = startup_status av bootstrap"
  shows "ss_sandbox_tier r = tier \<and> ss_shell_available r = is_ready (av_shell av) \<and>
     ss_browser_available r = is_ready (av_browser av) \<and>
     ss_sidecar_available r = (ss_shell_available r \<or> ss_browser_available r) \<and>
     distinct (map sdr_code (ss_degraded_reasons r)) \<and>
     (\<forall>u. Unavailable u \<in> {av_shell av, av_browser av} \<longrightarrow>
        map_session_unavailable_reason (su_reason u) tier \<in> reported_codes r) \<and>
     (tier = Process \<longrightarrow> InsecureProcessTier \<in> reported_codes r)"
  using assms(1) unfolding assms(2,3) startup_status_def Let_def reported_codes_def
  by (cases "av_shell av"; cases "av_browser av"; cases bootstrap)
     (auto simp: push_reason_codes intro!: push_reason_codes(2) split: option.splits)

theorem startup_status_consistent_witness:
  "InsecureProcessTier \<in> reported_codes
     (startup_status \<lparr>av_shell = Ready LocalProcess, av_browser = Ready LocalProcess\<rparr> None)"
  using startup_status_consistent[of None Process _ "\<lparr>av_shell = Ready LocalProcess, av_browser = Ready LocalProcess\<rparr>"]
  by simp

end
