(* ===== verification/Scrubbing.thy ===== *)
theory Scrubbing
  imports Sandbox_Policy
begin

text \<open>
  Output scrubbing and path translation of crate \<open>runtime\<close> (\<open>scrubbing.rs\<close>): host paths are
  replaced by virtual ones in what the model sees, virtual paths by host ones in what the
  tools get, and tokens that look like secrets are redacted.

  The token pattern \<open>[A-Za-z0-9+/_-]{24,512}={0,2}\<close> and the identifier patterns are written
  out as list functions. The keyword patterns (crate \<open>regex\<close>) and the entropy, a sum of
  floating-point logarithms, are parameters.
\<close>

section \<open>Host paths\<close>

record path_scrub_mapping =
  host_prefix :: string
  virtual_path :: string

text \<open>\<open>str::replace\<close>: all occurrences from left to right, without overlap.\<close>

function replace_all :: "string \<Rightarrow> string \<Rightarrow> string \<Rightarrow> string" where
  "replace_all from to [] = []"
| "replace_all from to (c # cs) =
     (if from \<noteq> [] \<and> starts_with (c # cs) from
      then to @ replace_all from to (drop (length from) (c # cs))
      else c # replace_all from to cs)"
  by pat_completeness auto
termination
  by (relation "measure (\<lambda>(_, _, s). length s)") auto

definition str_replace :: "string \<Rightarrow> string \<Rightarrow> string \<Rightarrow> string" where
  "str_replace s from to =
     (if from = [] then to @ concat (map (\<lambda>c. c @ to) (chars s)) else replace_all from to s)"

definition scrub_host_paths :: "string \<Rightarrow> path_scrub_mapping list \<Rightarrow> string" where
  "scrub_host_paths out mappings =
     (if mappings = [] \<or> out = [] then out
      else fold (\<lambda>m result. str_replace result (host_prefix m) (virtual_path m))
             (sort_key (\<lambda>m. - int (length (host_prefix m))) mappings) out)"

fun first_prefix_match :: "string \<Rightarrow> path_scrub_mapping list \<Rightarrow> string option" where
  "first_prefix_match input [] = None"
| "first_prefix_match input (m # ms) =
     (if starts_with input (virtual_path m) \<and>
         (let remainder = drop (length (virtual_path m)) input in remainder = [] \<or> starts_with remainder [slash])
      then Some (host_prefix m @ drop (length (virtual_path m)) input)
      else first_prefix_match input ms)"

definition resolve_virtual_prefix :: "string \<Rightarrow> path_scrub_mapping list \<Rightarrow> string" where
  "resolve_virtual_prefix input mappings =
     (let sorted = sort_key (\<lambda>m. - int (length (virtual_path m))) (filter (\<lambda>m. virtual_path m \<noteq> []) mappings)
      in case first_prefix_match input sorted of Some r \<Rightarrow> r | None \<Rightarrow> input)"

fun json_set :: "json \<Rightarrow> string \<Rightarrow> json \<Rightarrow> json" where
  "json_set (JObj kvs) k v = JObj (bt_insert k v kvs)"
| "json_set j k v = j"

definition translate_field :: "path_scrub_mapping list \<Rightarrow> string \<Rightarrow> json \<Rightarrow> json" where
  "translate_field mappings field args =
     (case Option.bind (json_get args field) as_str of
        Some value \<Rightarrow> json_set args field (JStr (resolve_virtual_prefix value mappings))
      | None \<Rightarrow> args)"

definition translate_tool_arg_paths :: "string \<Rightarrow> json \<Rightarrow> path_scrub_mapping list \<Rightarrow> json" where
  "translate_tool_arg_paths tool_name args mappings =
     (if mappings = [] then args
      else
        let translated = (if tool_name = ''file_list'' \<and> json_get args ''path'' = None
                          then json_set args ''path'' (JStr ''/shared'') else args)
        in if tool_name \<noteq> ''shell_exec''
           then fold (\<lambda>f. translate_field mappings (field_name f)) (tool_path_fields tool_name) translated
           else translated)"

section \<open>Secrets\<close>

definition REDACTION_MARKER :: string where
  "REDACTION_MARKER = ''[REDACTED]''"

definition MIN_ENTROPY_TOKEN_LENGTH :: nat where
  "MIN_ENTROPY_TOKEN_LENGTH = 24"

definition MAX_ENTROPY_TOKEN_LENGTH :: nat where
  "MAX_ENTROPY_TOKEN_LENGTH = 512"

definition code_of :: "char \<Rightarrow> nat" where
  "code_of c = of_char c"

definition is_ascii_digit :: "char \<Rightarrow> bool" where
  "is_ascii_digit c \<longleftrightarrow> 48 \<le> code_of c \<and> code_of c \<le> 57"

definition is_ascii_alphabetic :: "char \<Rightarrow> bool" where
  "is_ascii_alphabetic c \<longleftrightarrow> 65 \<le> code_of c \<and> code_of c \<le> 90 \<or> 97 \<le> code_of c \<and> code_of c \<le> 122"

definition is_lower_hex :: "char \<Rightarrow> bool" where
  "is_lower_hex c \<longleftrightarrow> is_ascii_digit c \<or> 97 \<le> code_of c \<and> code_of c \<le> 102"

definition is_ascii_hexdigit :: "char \<Rightarrow> bool" where
  "is_ascii_hexdigit c \<longleftrightarrow> is_lower_hex c \<or> 65 \<le> code_of c \<and> code_of c \<le> 70"

text \<open>The character class of the token pattern.\<close>

definition token_char :: "char \<Rightarrow> bool" where
  "token_char c \<longleftrightarrow> is_ascii_alphabetic c \<or> is_ascii_digit c \<or> c \<in> set ''+/_-''"

text \<open>The pattern \<open>[0-9a-f]{8}-[0-9a-f]{4}-[0-9a-f]{4}-[0-9a-f]{4}-[0-9a-f]{12}\<close> on a whole string.\<close>

fun hex_groups :: "nat list \<Rightarrow> string \<Rightarrow> bool" where
  "hex_groups [] s = False"
| "hex_groups [n] s = (length s = n \<and> list_all is_lower_hex s)"
| "hex_groups (n # ns) s =
     (n < length s \<and> list_all is_lower_hex (take n s) \<and> s ! n = CHR ''-'' \<and> hex_groups ns (drop (Suc n) s))"

definition is_uuid :: "string \<Rightarrow> bool" where
  "is_uuid s = hex_groups [8, 4, 4, 4, 12] s"

definition is_known_internal_identifier :: "string \<Rightarrow> bool" where
  "is_known_internal_identifier token \<longleftrightarrow>
     starts_with token ''note-'' \<and> is_uuid (drop 5 token) \<or> is_uuid token"

definition looks_like_filesystem_path :: "string \<Rightarrow> bool" where
  "looks_like_filesystem_path token \<longleftrightarrow> starts_with token [slash] \<and> 3 \<le> count_list token slash"

text \<open>\<open>entropy_high\<close> stands for \<open>shannon_entropy(token) >= HIGH_ENTROPY_THRESHOLD\<close>.\<close>

definition looks_like_secret_token :: "(string \<Rightarrow> bool) \<Rightarrow> string \<Rightarrow> bool" where
  "looks_like_secret_token entropy_high token =
     (if length token < MIN_ENTROPY_TOKEN_LENGTH \<or> length token > MAX_ENTROPY_TOKEN_LENGTH then False
      else if is_known_internal_identifier token then False
      else if looks_like_filesystem_path token then False
      else if list_all is_ascii_hexdigit token then False
      else
        let has_letter = list_ex is_ascii_alphabetic token;
            has_digit = list_ex is_ascii_digit token;
            has_symbol = list_ex (\<lambda>c. c \<in> set ''+/=_-'') token
        in if \<not> (has_letter \<and> (has_digit \<or> has_symbol)) then False
           else if card (set (chars token)) < 8 then False
           else entropy_high token)"

text \<open>The length of the match of the token pattern at the start of the string, 0 for no match.\<close>

definition token_match :: "string \<Rightarrow> nat" where
  "token_match s =
     (let n = min 512 (length (takeWhile token_char s)) in
      if n < 24 then 0 else n + min 2 (length (takeWhile (\<lambda>c. c = CHR ''='') (drop n s))))"

lemma token_match_le: "token_match s \<le> length s"
proof -
  define n where "n = min 512 (length (takeWhile token_char s))"
  have "n \<le> length s" by (simp add: n_def min.coboundedI2 length_takeWhile_le)
  moreover have "length (takeWhile (\<lambda>c. c = CHR ''='') (drop n s)) \<le> length (drop n s)"
    by (rule length_takeWhile_le)
  ultimately show ?thesis by (auto simp: token_match_def n_def[symmetric] Let_def)
qed

text \<open>\<open>replace_all\<close> of the token pattern: the leftmost longest matches from left to right.\<close>

function redact_tokens :: "(string \<Rightarrow> bool) \<Rightarrow> string \<Rightarrow> string" where
  "redact_tokens secret [] = []"
| "redact_tokens secret (c # cs) =
     (let n = token_match (c # cs) in
      if 0 < n
      then (let candidate = take n (c # cs) in
            (if secret candidate then REDACTION_MARKER else candidate) @ redact_tokens secret (drop n (c # cs)))
      else c # redact_tokens secret cs)"
  by pat_completeness auto
termination
  by (relation "measure (\<lambda>(_, s). length s)") auto

definition redact_high_entropy_tokens :: "(string \<Rightarrow> bool) \<Rightarrow> string \<Rightarrow> string" where
  "redact_high_entropy_tokens entropy_high input = redact_tokens (looks_like_secret_token entropy_high) input"

text \<open>
  The keyword patterns: whether one of the keywords occurs, and the replacement of the
  values that follow them.
\<close>

record keyword_patterns =
  kw_is_match :: "string \<Rightarrow> bool"
  kw_redact :: "string \<Rightarrow> string"

definition scrub_tool_output :: "keyword_patterns \<Rightarrow> (string \<Rightarrow> bool) \<Rightarrow> string \<Rightarrow> string" where
  "scrub_tool_output kw entropy_high out =
     (let scrubbed = (if kw_is_match kw out then kw_redact kw out else out)
      in redact_high_entropy_tokens entropy_high scrubbed)"

section \<open>No secret token survives\<close>

text \<open>The tokens that the pattern finds in a text.\<close>

function token_candidates :: "string \<Rightarrow> string list" where
  "token_candidates [] = []"
| "token_candidates (c # cs) =
     (let n = token_match (c # cs) in
      if 0 < n then take n (c # cs) # token_candidates (drop n (c # cs)) else token_candidates cs)"
  by pat_completeness auto
termination
  by (relation "measure length") auto

lemma token_match_run: "token_match s = 0 \<longleftrightarrow> length (takeWhile token_char s) < 24"
  by (auto simp: token_match_def Let_def)

lemma token_match_no_char: "\<not> token_char c \<Longrightarrow> token_match (c # s) = 0"
  by (simp add: token_match_run)

lemma redact_head:
  "redact_tokens secret s = [] \<and> s = [] \<or>
   s \<noteq> [] \<and> redact_tokens secret s \<noteq> [] \<and> (hd (redact_tokens secret s) = hd s \<or> hd (redact_tokens secret s) = CHR ''['')"
  by (cases s) (auto simp: Let_def REDACTION_MARKER_def take_Cons')

lemma redact_takeWhile_Nil:
  assumes "\<not> P (CHR ''['')" and "takeWhile P s = []"
  shows "takeWhile P (redact_tokens secret s) = []"
  using redact_head[of secret s] assms by (auto simp: takeWhile_eq_Nil_iff)

lemma redact_short_run:
  "length (takeWhile token_char s) < 24 \<Longrightarrow> takeWhile token_char (redact_tokens secret s) = takeWhile token_char s"
proof (induction s)
  case (Cons c cs)
  then have "token_match (c # cs) = 0" by (simp only: token_match_run)
  with Cons show ?case by (simp add: Let_def split: if_splits)
qed simp

lemma all_take_takeWhile: "k \<le> length (takeWhile P s) \<Longrightarrow> \<forall>x\<in>set (take k s). P x"
proof -
  assume "k \<le> length (takeWhile P s)"
  then have "take k s = take k (takeWhile P s)"
    by (subst takeWhile_eq_take) simp
  then show ?thesis by (metis in_set_takeD set_takeWhileD)
qed

lemma takeWhile_after_takeWhile: "takeWhile P (drop (length (takeWhile P s)) s) = []"
  by (induction s) auto

lemma takeWhile_take_append:
  assumes "\<forall>x\<in>set xs. P x" "takeWhile P ys = []"
  shows "takeWhile P (xs @ ys) = xs"
  using assms by simp

text \<open>A token that is kept is found again in front of whatever the rest became.\<close>

lemma token_match_kept:
  assumes n: "n = token_match s" "0 < n"
  shows "token_match (take n s @ redact_tokens secret (drop n s)) = n"
proof -
  define k where "k = min 512 (length (takeWhile token_char s))"
  define eqs where "eqs = takeWhile (\<lambda>c. c = CHR ''='') (drop k s)"
  define m where "m = min 2 (length eqs)"
  let ?X = "redact_tokens secret (drop n s)"
  have k: "24 \<le> k" "k \<le> 512" "k \<le> length s" "\<forall>x\<in>set (take k s). token_char x" "n = k + m"
  proof -
    show "24 \<le> k" "n = k + m" using n by (auto simp: token_match_def k_def m_def eqs_def Let_def split: if_splits)
    show "k \<le> 512" by (simp add: k_def)
    show "k \<le> length s" by (simp add: k_def min.coboundedI2 length_takeWhile_le)
    show "\<forall>x\<in>set (take k s). token_char x" by (rule all_take_takeWhile) (simp add: k_def)
  qed
  have m: "m \<le> 2" "m \<le> length eqs" "\<forall>x\<in>set (take m (drop k s)). x = CHR ''=''"
  proof -
    show "m \<le> 2" "m \<le> length eqs" by (simp_all add: m_def)
    show "\<forall>x\<in>set (take m (drop k s)). x = CHR ''=''"
      by (rule all_take_takeWhile) (simp add: m_def eqs_def)
  qed
  have split: "take n s = take k s @ take m (drop k s)" by (simp add: k(5) take_add)
  have len: "length (take m (drop k s)) = m"
    using m(2) length_takeWhile_le[of "\<lambda>c. c = CHR ''=''" "drop k s"] by (simp add: eqs_def)
  have runX: "min 512 (length (takeWhile token_char (take n s @ ?X))) = k"
  proof (cases "k = 512")
    case True
    have "takeWhile token_char (take n s @ ?X) = take k s @ takeWhile token_char (take m (drop k s) @ ?X)"
      unfolding split append_assoc using k(4) by (simp add: takeWhile_append2)
    then show ?thesis using True k(3) by simp
  next
    case False
    then have "k = length (takeWhile token_char s)" using k(2) by (auto simp: k_def min_def split: if_splits)
    then have stop: "takeWhile token_char (drop k s) = []" by (simp only: takeWhile_after_takeWhile)
    have "takeWhile token_char (take m (drop k s) @ ?X) = []"
    proof (cases m)
      case 0
      then show ?thesis using stop k(5) redact_takeWhile_Nil[of token_char "drop k s" secret]
        by (simp add: token_char_def is_ascii_alphabetic_def is_ascii_digit_def code_of_def)
    next
      case (Suc i)
      then have ne: "take m (drop k s) \<noteq> []" using len by (intro notI) simp
      then have "hd (take m (drop k s)) = CHR ''=''" using m(3) hd_in_set by blast
      with ne obtain r where "take m (drop k s) = CHR ''='' # r" by (cases "take m (drop k s)") auto
      moreover have "\<not> token_char (CHR ''='')"
        by (simp add: token_char_def is_ascii_alphabetic_def is_ascii_digit_def code_of_def)
      ultimately show ?thesis by (auto simp: takeWhile_eq_Nil_iff)
    qed
    then have "takeWhile token_char (take n s @ ?X) = take k s"
      unfolding split append_assoc using k(4) takeWhile_take_append by blast
    then show ?thesis using k(2,3) by simp
  qed
  have "drop k (take n s @ ?X) = take m (drop k s) @ ?X"
    using k(3) by (simp add: split)
  moreover have "min 2 (length (takeWhile (\<lambda>c. c = CHR ''='') (take m (drop k s) @ ?X))) = m"
  proof (cases "m = 2")
    case True
    then show ?thesis using m(3) len by (simp add: takeWhile_append2)
  next
    case False
    then have "m = length eqs" using m(1) by (auto simp: m_def min_def split: if_splits)
    then have "takeWhile (\<lambda>c. c = CHR ''='') (drop n s) = []"
      using takeWhile_after_takeWhile[of "\<lambda>c. c = CHR ''=''" "drop k s"]
      by (simp add: eqs_def k(5) add.commute)
    then have "takeWhile (\<lambda>c. c = CHR ''='') ?X = []"
      by (intro redact_takeWhile_Nil) auto
    then show ?thesis using m(1,3) len by (simp add: takeWhile_append2)
  qed
  ultimately show ?thesis
    using runX k(1,5) by (simp add: token_match_def Let_def)
qed

lemma candidates_marker: "token_candidates (REDACTION_MARKER @ s) = token_candidates s"
proof -
  have brackets: "\<not> token_char (CHR ''['')" "\<not> token_char (CHR '']'')"
    by (simp_all add: token_char_def is_ascii_alphabetic_def is_ascii_digit_def code_of_def)
  have skip: "token_candidates (w @ CHR '']'' # s) = token_candidates s" if "length w < 24" for w
    using that
  proof (induction w)
    case Nil
    then show ?case using brackets by (simp add: token_match_no_char)
  next
    case (Cons c w)
    have "length (takeWhile token_char (c # w @ CHR '']'' # s)) < 24"
    proof -
      have "length (takeWhile token_char ((c # w) @ CHR '']'' # s)) \<le> length (c # w)"
        using brackets by (auto simp: takeWhile_append length_takeWhile_le)
      with Cons.prems show ?thesis by simp
    qed
    then have "token_match (c # w @ CHR '']'' # s) = 0" by (simp only: token_match_run)
    with Cons show ?case by (simp add: Let_def)
  qed
  have "token_candidates (REDACTION_MARKER @ s) = token_candidates (''REDACTED'' @ CHR '']'' # s)"
    using brackets by (simp add: REDACTION_MARKER_def token_match_no_char)
  also have "\<dots> = token_candidates s" by (rule skip) simp
  finally show ?thesis .
qed

lemma token_candidates_match:
  "n = token_match s \<Longrightarrow> 0 < n \<Longrightarrow> token_candidates s = take n s # token_candidates (drop n s)"
  by (cases s) (auto simp: Let_def token_match_def)

lemma token_candidates_skip: "token_match (c # cs) = 0 \<Longrightarrow> token_candidates (c # cs) = token_candidates cs"
  by (simp add: Let_def)

lemma candidates_redact:
  "token_candidates (redact_tokens secret s) = filter (\<lambda>t. \<not> secret t) (token_candidates s)"
proof (induction secret s rule: redact_tokens.induct)
  case (2 secret c cs)
  let ?s = "c # cs"
  define n where "n = token_match ?s"
  show ?case
  proof (cases "0 < n")
    case True
    let ?X = "redact_tokens secret (drop n ?s)"
    have red: "redact_tokens secret ?s = (if secret (take n ?s) then REDACTION_MARKER else take n ?s) @ ?X"
      using True by (simp only: redact_tokens.simps(2) n_def[symmetric] Let_def if_True)
    have IH: "token_candidates ?X = filter (\<lambda>t. \<not> secret t) (token_candidates (drop n ?s))"
      using 2(1)[OF refl] True unfolding n_def by simp
    have cand: "token_candidates ?s = take n ?s # token_candidates (drop n ?s)"
      using n_def True by (rule token_candidates_match)
    have len: "length (take n ?s) = n" using token_match_le[of ?s] by (simp add: n_def)
    have kept: "token_candidates (take n ?s @ ?X) = take n ?s # token_candidates ?X"
      using token_candidates_match[OF token_match_kept[OF n_def True, symmetric] True, of secret] len
      by (simp only: append_eq_conv_conj[THEN iffD1, OF refl] take_append drop_append diff_self_eq_0 take0 drop0
          append_Nil2 drop_all take_all le_refl append_Nil)
    show ?thesis unfolding red cand using kept IH by (simp add: candidates_marker del: token_candidates.simps)
  next
    case False
    then have n0: "token_match ?s = 0" by (simp add: n_def)
    have red: "redact_tokens secret ?s = c # redact_tokens secret cs" using n0 by (simp add: Let_def)
    have "length (takeWhile token_char ?s) < 24" using n0 by (simp only: token_match_run)
    then have "takeWhile token_char (redact_tokens secret ?s) = takeWhile token_char ?s" by (rule redact_short_run)
    then have "token_match (c # redact_tokens secret cs) = 0"
      using n0 unfolding red token_match_run by simp
    moreover have "token_candidates (redact_tokens secret cs) = filter (\<lambda>t. \<not> secret t) (token_candidates cs)"
      using 2(2)[OF refl] n0 by simp
    ultimately show ?thesis using n0 unfolding red by (simp add: token_candidates_skip del: token_candidates.simps)
  qed
qed simp

text \<open>C39: After redaction no token of the output that the pattern finds is judged a secret, and the
  tokens it finds are exactly the harmless ones of the input, in their order; redacting
  once more finds nothing new.\<close>

theorem redaction_complete:
  "token_candidates (redact_high_entropy_tokens e s) =
     filter (\<lambda>t. \<not> looks_like_secret_token e t) (token_candidates s) \<and>
   list_all (\<lambda>t. \<not> looks_like_secret_token e t) (token_candidates (redact_high_entropy_tokens e s))"
  by (simp add: redact_high_entropy_tokens_def candidates_redact list_all_iff)

section \<open>Path translation\<close>

lemma replace_all_absent: "\<not> contains s from \<Longrightarrow> replace_all from to s = s"
  by (induction s) auto

lemma replace_all_front: "from \<noteq> [] \<Longrightarrow> replace_all from to (from @ r) = to @ replace_all from to r"
  using starts_with_append[of "from" r] by (cases "from") auto

definition matches_at_boundary :: "string \<Rightarrow> path_scrub_mapping \<Rightarrow> bool" where
  "matches_at_boundary v m \<longleftrightarrow>
     virtual_path m \<noteq> [] \<and> (\<exists>rest. v = virtual_path m @ rest \<and> (rest = [] \<or> starts_with rest [slash]))"

lemma first_prefix_match_only:
  assumes "\<forall>m'\<in>set ms. virtual_path m' \<noteq> [] \<and> (m' \<noteq> m \<longrightarrow> \<not> matches_at_boundary v m')"
    and "m \<in> set ms" "v = virtual_path m @ rest" "rest = [] \<or> starts_with rest [slash]"
  shows "first_prefix_match v ms = Some (host_prefix m @ rest)"
  using assms(1,2)
proof (induction ms)
  case (Cons a ms)
  show ?case
  proof (cases "a = m")
    case True
    then show ?thesis using assms(3,4) by (auto simp: Let_def)
  next
    case False
    then have "\<not> matches_at_boundary v a" "virtual_path a \<noteq> []" using Cons.prems(1) by auto
    then have "\<not> (starts_with v (virtual_path a) \<and>
        (let remainder = drop (length (virtual_path a)) v in remainder = [] \<or> starts_with remainder [slash]))"
      by (auto simp: matches_at_boundary_def starts_with_iff Let_def)
    then have "first_prefix_match v (a # ms) = first_prefix_match v ms" by (simp only: first_prefix_match.simps if_False)
    with Cons False show ?thesis by simp
  qed
qed simp

lemma scrub_keeps:
  "\<forall>m'\<in>set ms. host_prefix m' \<noteq> [] \<and> \<not> contains s (host_prefix m') \<Longrightarrow>
     fold (\<lambda>m result. str_replace result (host_prefix m) (virtual_path m)) ms s = s"
  by (induction ms) (auto simp: str_replace_def replace_all_absent)

lemma scrub_finds:
  assumes "m \<in> set ms" "\<not> contains rest (host_prefix m)"
    and "\<forall>m'\<in>set ms. host_prefix m' \<noteq> [] \<and> \<not> contains (virtual_path m @ rest) (host_prefix m') \<and>
           (m' \<noteq> m \<longrightarrow> \<not> contains (host_prefix m @ rest) (host_prefix m'))"
  shows "fold (\<lambda>m result. str_replace result (host_prefix m) (virtual_path m)) ms (host_prefix m @ rest) =
     virtual_path m @ rest"
  using assms(1,3)
proof (induction ms)
  case (Cons a ms)
  show ?case
  proof (cases "a = m")
    case True
    then have "str_replace (host_prefix m @ rest) (host_prefix a) (virtual_path a) = virtual_path m @ rest"
      using Cons.prems(2) assms(2) by (simp add: str_replace_def replace_all_front replace_all_absent)
    then show ?thesis using scrub_keeps[of ms "virtual_path m @ rest"] Cons.prems(2) by simp
  next
    case False
    then have "str_replace (host_prefix m @ rest) (host_prefix a) (virtual_path a) = host_prefix m @ rest"
      using Cons.prems(2) by (simp add: str_replace_def replace_all_absent)
    with Cons False show ?thesis by simp
  qed
qed simp

text \<open>Translating a virtual path for a tool and scrubbing the host path out of what the tool
  reports gives the virtual path back, for every list of mappings in which only one
  virtual path is a prefix of the input at a path boundary and the host prefixes do not
  occur by chance in the two paths.\<close>

theorem path_translation_roundtrip:
  assumes "m \<in> set mappings" and "v = virtual_path m @ rest" and "rest = [] \<or> starts_with rest [slash]"
    and "virtual_path m \<noteq> []"
    and "\<forall>m'\<in>set mappings. m' \<noteq> m \<longrightarrow> \<not> matches_at_boundary v m'"
    and "\<not> contains rest (host_prefix m)"
    and "\<forall>m'\<in>set mappings. host_prefix m' \<noteq> [] \<and> \<not> contains v (host_prefix m') \<and>
           (m' \<noteq> m \<longrightarrow> \<not> contains (host_prefix m @ rest) (host_prefix m'))"
  shows "resolve_virtual_prefix v mappings = host_prefix m @ rest \<and>
     scrub_host_paths (resolve_virtual_prefix v mappings) mappings = v"
proof
  let ?sorted = "sort_key (\<lambda>m. - int (length (virtual_path m))) (filter (\<lambda>m. virtual_path m \<noteq> []) mappings)"
  have "first_prefix_match v ?sorted = Some (host_prefix m @ rest)"
    by (rule first_prefix_match_only) (use assms(1-5) in auto)
  then show res: "resolve_virtual_prefix v mappings = host_prefix m @ rest"
    by (simp add: resolve_virtual_prefix_def Let_def)
  have "fold (\<lambda>m result. str_replace result (host_prefix m) (virtual_path m))
      (sort_key (\<lambda>m. - int (length (host_prefix m))) mappings) (host_prefix m @ rest) = virtual_path m @ rest"
    by (rule scrub_finds) (use assms in auto)
  then show "scrub_host_paths (resolve_virtual_prefix v mappings) mappings = v"
    unfolding res scrub_host_paths_def using assms(1,2,7) by auto
qed

definition ex_mappings :: "path_scrub_mapping list" where
  "ex_mappings = [\<lparr>host_prefix = ''/home/u/w/shared'', virtual_path = ''/shared''\<rparr>,
     \<lparr>host_prefix = ''/home/u/w/tmp'', virtual_path = ''/tmp''\<rparr>]"

theorem path_translation_roundtrip_witness:
  "resolve_virtual_prefix ''/shared/a.txt'' ex_mappings = ''/home/u/w/shared/a.txt'' \<and>
   scrub_host_paths ''/home/u/w/shared/a.txt'' ex_mappings = ''/shared/a.txt''"
proof -
  let ?m = "\<lparr>host_prefix = ''/home/u/w/shared'', virtual_path = ''/shared''\<rparr>"
  have "resolve_virtual_prefix ''/shared/a.txt'' ex_mappings = host_prefix ?m @ ''/a.txt'' \<and>
      scrub_host_paths (resolve_virtual_prefix ''/shared/a.txt'' ex_mappings) ex_mappings = ''/shared/a.txt''"
    by (rule path_translation_roundtrip[of ?m]) (simp_all add: ex_mappings_def slash_def matches_at_boundary_def)
  then show ?thesis by auto
qed

end
