(* ===== verification/Runtime_Base.thy ===== *)
theory Runtime_Base
  imports Tool_Registry Scrubbing
begin

text \<open>
  The agent runtime object of crate \<open>runtime\<close> (\<open>lib.rs\<close>): its limits, its providers and
  their routing, its memory, and the libraries it calls.

  Providers and the memory backend are records of the operations of their traits, acting
  on the host state. Waiting for an answer can end in three ways (\<open>tokio::select!\<close> over the
  cancellation token and a timeout), which the datatype \<open>awaited\<close> lists. The libraries
  (JSON, the tokenizer, the JSON-schema validator, the patterns of the scrubber) are the
  parameter \<open>libs\<close>.
\<close>

datatype 'a awaited = WaitCancelled | WaitTimedOut | Done 'a

section \<open>Limits\<close>

record context_budget_limits =
  trigger_ratio :: f64
  safety_buffer_tokens :: u64
  fallback_max_context_tokens :: u32

record retrieval_limits =
  rl_top_k :: nat
  rl_vector_weight :: f64
  rl_fts_weight :: f64

record summarization_limits =
  target_ratio :: f64
  min_turns :: nat

record runtime_limits =
  turn_timeout :: duration
  max_turns :: nat
  max_cost :: "f64 option"
  context_budget :: context_budget_limits
  retrieval :: retrieval_limits
  summarization :: summarization_limits

section \<open>Providers and memory\<close>

type_synonym stream_event_result = "(provider_error, stream_item) result awaited"

record 'w provider =
  capabilities :: "string \<Rightarrow> (provider_error, provider_caps) result"
  open_stream :: "llm_context \<Rightarrow> nat \<Rightarrow> 'w host \<Rightarrow> (provider_error, stream_event_result list) result awaited \<times> 'w host"
  complete :: "llm_context \<Rightarrow> 'w host \<Rightarrow> (provider_error, response) result awaited \<times> 'w host"

record memory_record =
  mr_sequence :: u64
  mr_payload :: json

record memory_summary_state =
  mss_epoch :: u64
  mss_upper_sequence :: u64
  mss_summary :: string

record memory_snippet =
  sn_chunk_id :: string
  sn_text :: string
  sn_score :: string

record memory_summary_write =
  sw_expected_epoch :: u64
  sw_next_epoch :: u64
  sw_upper_sequence :: u64
  sw_summary :: string

record 'w memory =
  mem_recall :: "string \<Rightarrow> u64 option \<Rightarrow> 'w host \<Rightarrow> (memory_error, memory_record list) result \<times> 'w host"
  mem_store :: "string \<Rightarrow> u64 \<Rightarrow> json \<Rightarrow> 'w host \<Rightarrow> (memory_error, unit) result \<times> 'w host"

record 'w memory_retrieval =
  mem_read_summary :: "string \<Rightarrow> 'w host \<Rightarrow> (memory_error, memory_summary_state option) result \<times> 'w host"
  mem_write_summary :: "string \<Rightarrow> memory_summary_write \<Rightarrow> 'w host \<Rightarrow> (memory_error, bool) result \<times> 'w host"
  mem_hybrid_query :: "string \<Rightarrow> string \<Rightarrow> retrieval_limits \<Rightarrow> 'w host \<Rightarrow> (memory_error, memory_snippet list) result \<times> 'w host"

record libs =
  lib_json :: json_codec
  lib_message_text :: "message \<Rightarrow> string option"
  lib_message_value :: "message \<Rightarrow> (string, json) result"
  lib_value_message :: "json \<Rightarrow> (string, message) result"
  lib_tools_text :: "function_decl list \<Rightarrow> string option"
  lib_token_count :: "string \<Rightarrow> u64 option"
  lib_validator :: "json \<Rightarrow> (string, json \<Rightarrow> string list) result"
  lib_json_objects :: "string \<Rightarrow> json list"
  lib_keywords :: keyword_patterns
  lib_entropy_high :: "string \<Rightarrow> bool"

section \<open>The runtime\<close>

record 'w agent_runtime =
  rt_provider :: "'w provider"
  rt_primary_selection :: "provider_selection option"
  rt_selection_providers :: "(string \<times> 'w provider) list"
  rt_tool_registry :: "'w tool_registry"
  rt_limits :: runtime_limits
  rt_stream_buffer_size :: nat
  rt_memory :: "'w memory option"
  rt_memory_retrieval :: "'w memory_retrieval option"
  rt_path_scrub_mappings :: "path_scrub_mapping list"
  rt_system_prompt :: "string option"
  rt_permission_handler :: "'w permission_handler option"

definition DEFAULT_STREAM_BUFFER_SIZE :: nat where
  "DEFAULT_STREAM_BUFFER_SIZE = 64"

definition runtime_new :: "'w provider \<Rightarrow> 'w tool_registry \<Rightarrow> runtime_limits \<Rightarrow> 'w agent_runtime" where
  "runtime_new p reg limits =
     \<lparr>rt_provider = p, rt_primary_selection = None, rt_selection_providers = [], rt_tool_registry = reg,
      rt_limits = limits, rt_stream_buffer_size = DEFAULT_STREAM_BUFFER_SIZE, rt_memory = None,
      rt_memory_retrieval = None, rt_path_scrub_mappings = [], rt_system_prompt = None,
      rt_permission_handler = None\<rparr>"

definition with_memory :: "'w memory \<Rightarrow> 'w agent_runtime \<Rightarrow> 'w agent_runtime" where
  "with_memory m rt = rt\<lparr>rt_memory := Some m, rt_memory_retrieval := None\<rparr>"

definition with_memory_retrieval :: "'w memory \<Rightarrow> 'w memory_retrieval \<Rightarrow> 'w agent_runtime \<Rightarrow> 'w agent_runtime" where
  "with_memory_retrieval m r rt = rt\<lparr>rt_memory := Some m, rt_memory_retrieval := Some r\<rparr>"

definition with_stream_buffer_size :: "nat \<Rightarrow> 'w agent_runtime \<Rightarrow> 'w agent_runtime" where
  "with_stream_buffer_size n rt = rt\<lparr>rt_stream_buffer_size := max n 1\<rparr>"

definition with_path_scrub_mappings :: "path_scrub_mapping list \<Rightarrow> 'w agent_runtime \<Rightarrow> 'w agent_runtime" where
  "with_path_scrub_mappings ms rt = rt\<lparr>rt_path_scrub_mappings := ms\<rparr>"

definition with_system_prompt :: "string \<Rightarrow> 'w agent_runtime \<Rightarrow> 'w agent_runtime" where
  "with_system_prompt prompt rt = rt\<lparr>rt_system_prompt := Some prompt\<rparr>"

definition with_permission_handler :: "'w permission_handler \<Rightarrow> 'w agent_runtime \<Rightarrow> 'w agent_runtime" where
  "with_permission_handler h rt = rt\<lparr>rt_permission_handler := Some h\<rparr>"

definition with_primary_selection :: "provider_selection \<Rightarrow> 'w agent_runtime \<Rightarrow> 'w agent_runtime" where
  "with_primary_selection s rt = rt\<lparr>rt_primary_selection := Some s\<rparr>"

definition selection_route_key :: "string \<Rightarrow> string \<Rightarrow> string" where
  "selection_route_key prov model = prov @ ''::'' @ model"

definition with_selection_provider :: "provider_selection \<Rightarrow> 'w provider \<Rightarrow> 'w agent_runtime \<Rightarrow> 'w agent_runtime" where
  "with_selection_provider s p rt =
     rt\<lparr>rt_selection_providers :=
       bt_insert (selection_route_key (sel_provider s) (sel_model s)) p (rt_selection_providers rt)\<rparr>"

definition provider_for_context :: "'w agent_runtime \<Rightarrow> llm_context \<Rightarrow> (runtime_error, 'w provider) result" where
  "provider_for_context rt ctx =
     (case map_of (rt_selection_providers rt) (selection_route_key (ctx_provider ctx) (ctx_model ctx)) of
        Some p \<Rightarrow> Inr p
      | None \<Rightarrow>
        (case rt_primary_selection rt of
           Some sel \<Rightarrow>
             if sel_provider sel \<noteq> ctx_provider ctx \<or> sel_model sel \<noteq> ctx_model ctx
             then Inl (EProvider (RequestFailed (ctx_provider ctx)
               (''provider/model route `'' @ ctx_provider ctx @ ''`/`'' @ ctx_model ctx @ ''` is not configured'')))
             else Inr (rt_provider rt)
         | None \<Rightarrow> Inr (rt_provider rt)))"

definition runtime_tool_schemas :: "'w agent_runtime \<Rightarrow> function_decl list" where
  "runtime_tool_schemas rt = schemas (rt_tool_registry rt)"

text \<open>An operation of the memory backend whose error becomes a runtime error.\<close>

definition memory_action :: "('w host \<Rightarrow> (memory_error, 'a) result \<times> 'w host) \<Rightarrow> ('w host, runtime_error, 'a) action" where
  "memory_action m w = (case m w of (r, w') \<Rightarrow> (map_err r EMemory, w'))"

section \<open>Routing\<close>

text \<open>
  The routes of a runtime are those registered by \<open>with_selection_provider\<close>: a keyed store
  whose keys are pairs written as \<open>provider::model\<close>.
\<close>

interpretation routes: keyed_store
  "\<lambda>rt. map_of (rt_selection_providers rt)"
  "\<lambda>k p rt. rt\<lparr>rt_selection_providers := bt_insert k p (rt_selection_providers rt)\<rparr>"
  "\<lambda>rt. bt_sorted (rt_selection_providers rt)"
  by unfold_locales (auto simp: map_of_bt_insert bt_sorted_insert)

text \<open>With a primary selection set, a turn is routed to the provider registered for exactly its
  provider and model, to the default provider when they are the primary selection, and to
  no provider otherwise: there is no silent fallback to another route.\<close>

theorem provider_routing:
  assumes "bt_sorted (rt_selection_providers rt)" and "rt_primary_selection rt = Some sel"
  shows "provider_for_context (with_selection_provider s p rt) ctx =
     (if selection_route_key (sel_provider s) (sel_model s) = selection_route_key (ctx_provider ctx) (ctx_model ctx)
      then Inr p
      else case map_of (rt_selection_providers rt) (selection_route_key (ctx_provider ctx) (ctx_model ctx)) of
        Some q \<Rightarrow> Inr q
      | None \<Rightarrow> if sel_provider sel = ctx_provider ctx \<and> sel_model sel = ctx_model ctx then Inr (rt_provider rt)
        else Inl (EProvider (RequestFailed (ctx_provider ctx)
               (''provider/model route `'' @ ctx_provider ctx @ ''`/`'' @ ctx_model ctx @ ''` is not configured''))))"
  using assms routes.lookup_put[OF assms(1)]
  by (simp add: provider_for_context_def with_selection_provider_def split: option.splits)

definition ex_caps_provider :: "unit provider" where
  "ex_caps_provider = \<lparr>capabilities = (\<lambda>_. Inl (MissingApiKey ''k'')), open_stream = (\<lambda>_ _ w. (WaitCancelled, w)),
     complete = (\<lambda>_ w. (WaitCancelled, w))\<rparr>"

definition ex_routed_runtime :: "unit agent_runtime" where
  "ex_routed_runtime = with_primary_selection \<lparr>sel_provider = ''a'', sel_model = ''m''\<rparr>
     (runtime_new ex_caps_provider registry_default
       \<lparr>turn_timeout = \<lparr>dur_secs = 60, dur_subsec_nanos = 0\<rparr>, max_turns = 2, max_cost = None,
        context_budget = \<lparr>trigger_ratio = F_Fin (1/2), safety_buffer_tokens = 0, fallback_max_context_tokens = 1\<rparr>,
        retrieval = \<lparr>rl_top_k = 1, rl_vector_weight = F_Fin 1, rl_fts_weight = F_Fin 0\<rparr>,
        summarization = \<lparr>target_ratio = F_Fin (1/2), min_turns = 6\<rparr>\<rparr>)"

theorem provider_routing_witness:
  "\<exists>e. provider_for_context (with_selection_provider \<lparr>sel_provider = ''b'', sel_model = ''m''\<rparr> ex_caps_provider ex_routed_runtime)
     \<lparr>ctx_provider = ''c'', ctx_model = ''m'', ctx_tools = [], ctx_messages = []\<rparr> = Inl e"
  using provider_routing[of ex_routed_runtime "\<lparr>sel_provider = ''a'', sel_model = ''m''\<rparr>"
      "\<lparr>sel_provider = ''b'', sel_model = ''m''\<rparr>" ex_caps_provider
      "\<lparr>ctx_provider = ''c'', ctx_model = ''m'', ctx_tools = [], ctx_messages = []\<rparr>"]
  by (simp add: ex_routed_runtime_def with_primary_selection_def runtime_new_def bt_sorted_def selection_route_key_def)

end
