(* ===== verification/Provider_Response.thy ===== *)
theory Provider_Response
  imports Runtime_Base
begin

text \<open>
  Asking a provider for a response (crate \<open>runtime\<close>, \<open>provider_response.rs\<close> and the tool-call
  accumulator of \<open>lib.rs\<close>): the streaming path collects text, tool-call fragments, usage
  and the finish reason from the items the provider sends, forwards them to the listener,
  and falls back to the non-streaming path on a failure.

  The items of a stream are the finite list of what the receiver yields until the sender
  closes the channel, each with how the wait for it ended.
\<close>

section \<open>Tool-call fragments\<close>

definition INVALID_TOOL_ARGS_RAW_KEY :: string where
  "INVALID_TOOL_ARGS_RAW_KEY = ''__oxydra_invalid_tool_args_raw''"

definition INVALID_TOOL_ARGS_ERROR_KEY :: string where
  "INVALID_TOOL_ARGS_ERROR_KEY = ''__oxydra_invalid_tool_args_error''"

record accumulator_entry =
  ae_id :: "string option"
  ae_name :: "string option"
  ae_arguments :: string
  ae_metadata :: "json option"

type_synonym accumulator = "(nat \<times> accumulator_entry) list"

definition default_entry :: accumulator_entry where
  "default_entry = \<lparr>ae_id = None, ae_name = None, ae_arguments = [], ae_metadata = None\<rparr>"

definition merge_entry :: "tool_call_delta \<Rightarrow> accumulator_entry \<Rightarrow> accumulator_entry" where
  "merge_entry d e =
     \<lparr>ae_id = (case tcd_id d of Some i \<Rightarrow> Some i | None \<Rightarrow> ae_id e),
      ae_name = (case tcd_name d of Some n \<Rightarrow> Some n | None \<Rightarrow> ae_name e),
      ae_arguments = ae_arguments e @ (case tcd_arguments d of Some a \<Rightarrow> a | None \<Rightarrow> []),
      ae_metadata = (case ae_metadata e of Some m \<Rightarrow> Some m | None \<Rightarrow> tcd_metadata d)\<rparr>"

definition accumulator_merge :: "tool_call_delta \<Rightarrow> accumulator \<Rightarrow> accumulator" where
  "accumulator_merge d acc =
     bt_insert (tcd_index d)
       (merge_entry d (case map_of acc (tcd_index d) of Some e \<Rightarrow> e | None \<Rightarrow> default_entry)) acc"

text \<open>
  \<open>objects\<close> is the stream deserializer of \<open>serde_json\<close>: the values it yields before its
  first error, which ends the stream.
\<close>

definition try_extract_concatenated_json_objects :: "(string \<Rightarrow> json list) \<Rightarrow> string \<Rightarrow> json list option" where
  "try_extract_concatenated_json_objects objects raw =
     (let trimmed = trim raw in
      if \<not> starts_with trimmed ''{'' then None
      else let os = objects trimmed in if length os \<le> 1 then None else Some os)"

definition entry_arguments :: "accumulator_entry \<Rightarrow> string" where
  "entry_arguments e = (if trim (ae_arguments e) = [] then ''{}'' else ae_arguments e)"

definition invalid_arguments_payload :: "string \<Rightarrow> string \<Rightarrow> json" where
  "invalid_arguments_payload arguments err =
     JObj (bt_insert INVALID_TOOL_ARGS_ERROR_KEY (JStr err) (bt_insert INVALID_TOOL_ARGS_RAW_KEY (JStr arguments) []))"

text \<open>The tool calls one entry stands for.\<close>

definition build_entry :: "libs \<Rightarrow> string \<Rightarrow> nat \<Rightarrow> accumulator_entry \<Rightarrow> (provider_error, tool_call list) result" where
  "build_entry lib prov idx e =
     bind_result (ok_or (ae_id e) (ResponseParse prov
       (''streamed tool-call at index '' @ nat_to_string idx @ '' is missing id''))) (\<lambda>i.
     bind_result (ok_or (ae_name e) (ResponseParse prov
       (''streamed tool-call at index '' @ nat_to_string idx @ '' is missing function name''))) (\<lambda>n.
     Inr (case from_str (lib_json lib) (entry_arguments e) of
            Inr parsed \<Rightarrow> [\<lparr>tc_id = i, tc_name = n, tc_arguments = parsed, tc_metadata = ae_metadata e\<rparr>]
          | Inl err \<Rightarrow>
            (case try_extract_concatenated_json_objects (lib_json_objects lib) (entry_arguments e) of
               Some objects \<Rightarrow>
                 map (\<lambda>(k, obj). \<lparr>tc_id = i @ ''_'' @ nat_to_string k, tc_name = n, tc_arguments = obj,
                        tc_metadata = ae_metadata e\<rparr>) (List.enumerate 0 objects)
             | None \<Rightarrow> [\<lparr>tc_id = i, tc_name = n,
                 tc_arguments = invalid_arguments_payload (entry_arguments e) err, tc_metadata = ae_metadata e\<rparr>]))))"

fun accumulator_build :: "libs \<Rightarrow> string \<Rightarrow> accumulator \<Rightarrow> (provider_error, tool_call list) result" where
  "accumulator_build lib prov [] = Inr []"
| "accumulator_build lib prov ((idx, e) # acc) =
     bind_result (build_entry lib prov idx e) (\<lambda>calls.
     bind_result (accumulator_build lib prov acc) (\<lambda>rest. Inr (calls @ rest)))"

section \<open>Usage\<close>

definition default_usage :: usage_update where
  "default_usage = \<lparr>prompt_tokens = None, completion_tokens = None, total_tokens = None\<rparr>"

definition merge_usage :: "usage_update option \<Rightarrow> usage_update \<Rightarrow> usage_update" where
  "merge_usage existing update =
     (let merged = (case existing of Some u \<Rightarrow> u | None \<Rightarrow> default_usage);
          merged = (if prompt_tokens update \<noteq> None then merged\<lparr>prompt_tokens := prompt_tokens update\<rparr> else merged);
          merged = (if completion_tokens update \<noteq> None then merged\<lparr>completion_tokens := completion_tokens update\<rparr> else merged)
      in if total_tokens update \<noteq> None then merged\<lparr>total_tokens := total_tokens update\<rparr> else merged)"

section \<open>Collecting a stream\<close>

datatype stream_collect_error = SCProvider provider_error | SCConnectionLost string | SCCancelled | SCTurnTimedOut

record collected =
  col_text :: string
  col_calls :: accumulator
  col_finish :: "string option"
  col_usage :: "usage_update option"

definition collected_empty :: collected where
  "collected_empty = \<lparr>col_text = [], col_calls = [], col_finish = None, col_usage = None\<rparr>"

definition forward :: "bool \<Rightarrow> stream_item \<Rightarrow> 'w host \<Rightarrow> 'w host" where
  "forward listening item w = (if listening then w\<lparr>sent_events := sent_events w @ [item]\<rparr> else w)"

fun collect_stream ::
    "bool \<Rightarrow> stream_event_result list \<Rightarrow> collected \<Rightarrow> ('w host, stream_collect_error, collected) action" where
  "collect_stream listening [] c w = (Inr c, w)"
| "collect_stream listening (WaitCancelled # items) c w = (Inl SCCancelled, w)"
| "collect_stream listening (WaitTimedOut # items) c w = (Inl SCTurnTimedOut, w)"
| "collect_stream listening (Done (Inl e) # items) c w = (Inl (SCProvider e), w)"
| "collect_stream listening (Done (Inr item) # items) c w =
     (case item of
        SText t \<Rightarrow> collect_stream listening items (c\<lparr>col_text := col_text c @ t\<rparr>) (forward listening item w)
      | SToolCallDelta d \<Rightarrow>
          collect_stream listening items (c\<lparr>col_calls := accumulator_merge d (col_calls c)\<rparr>) (forward listening item w)
      | SFinishReason r \<Rightarrow> collect_stream listening items (c\<lparr>col_finish := Some r\<rparr>) (forward listening item w)
      | SUsageUpdate u \<Rightarrow>
          collect_stream listening items (c\<lparr>col_usage := Some (merge_usage (col_usage c) u)\<rparr>) (forward listening item w)
      | SConnectionLost m \<Rightarrow> (Inl (SCConnectionLost m), forward listening item w)
      | SReasoningDelta d \<Rightarrow> collect_stream listening items c (forward listening item w)
      | SProgress p \<Rightarrow> collect_stream listening items c w
      | SMedia m \<Rightarrow> collect_stream listening items c w
      | SPolicyEvent p \<Rightarrow> collect_stream listening items c w)"

definition finish_stream :: "libs \<Rightarrow> string \<Rightarrow> collected \<Rightarrow> (stream_collect_error, response) result" where
  "finish_stream lib prov c =
     bind_result (map_err (accumulator_build lib prov (col_calls c)) SCProvider) (\<lambda>calls.
       Inr \<lparr>rsp_message = \<lparr>msg_role = RAssistant,
              msg_content = (if col_text c \<noteq> [] then Some (col_text c) else None),
              msg_tool_calls = calls, msg_tool_call_id = None, msg_attachments = []\<rparr>,
            rsp_tool_calls = calls, rsp_finish_reason = col_finish c, rsp_usage = col_usage c\<rparr>)"

text \<open>\<open>is_cancelled\<close> reads the cancellation token.\<close>

definition stream_response ::
    "libs \<Rightarrow> 'w agent_runtime \<Rightarrow> ('w host \<Rightarrow> bool) \<Rightarrow> 'w provider \<Rightarrow> llm_context \<Rightarrow> bool \<Rightarrow>
     ('w host, stream_collect_error, response) action" where
  "stream_response lib rt is_cancelled p ctx listening w =
     (if is_cancelled w then (Inl SCCancelled, w)
      else case open_stream p ctx (rt_stream_buffer_size rt) w of
        (WaitCancelled, w') \<Rightarrow> (Inl SCCancelled, w')
      | (WaitTimedOut, w') \<Rightarrow> (Inl SCTurnTimedOut, w')
      | (Done (Inl e), w') \<Rightarrow> (Inl (SCProvider e), w')
      | (Done (Inr items), w') \<Rightarrow>
          bind_action (collect_stream listening items collected_empty)
            (\<lambda>c. lift_action (finish_stream lib (ctx_provider ctx) c)) w')"

definition provider_timeout_error :: "string \<Rightarrow> duration \<Rightarrow> runtime_error" where
  "provider_timeout_error prov timeout =
     EProvider (RequestFailed prov (''provider response timed out after '' @ duration_debug timeout))"

definition complete_response ::
    "'w agent_runtime \<Rightarrow> ('w host \<Rightarrow> bool) \<Rightarrow> 'w provider \<Rightarrow> llm_context \<Rightarrow> ('w host, runtime_error, response) action" where
  "complete_response rt is_cancelled p ctx w =
     (if is_cancelled w then (Inl ECancelled, w)
      else case complete p ctx w of
        (WaitCancelled, w') \<Rightarrow> (Inl ECancelled, w')
      | (WaitTimedOut, w') \<Rightarrow> (Inl (provider_timeout_error (ctx_provider ctx) (turn_timeout (rt_limits rt))), w')
      | (Done r, w') \<Rightarrow> (map_err r EProvider, w'))"

definition request_context_for :: "provider_caps \<Rightarrow> llm_context \<Rightarrow> llm_context" where
  "request_context_for caps ctx = (if supports_tools caps \<or> ctx_tools ctx = [] then ctx else ctx\<lparr>ctx_tools := []\<rparr>)"

definition request_provider_response ::
    "libs \<Rightarrow> 'w agent_runtime \<Rightarrow> ('w host \<Rightarrow> bool) \<Rightarrow> llm_context \<Rightarrow> bool \<Rightarrow>
     ('w host, runtime_error, response) action" where
  "request_provider_response lib rt is_cancelled ctx listening =
     bind_action (lift_action (provider_for_context rt ctx)) (\<lambda>p.
     bind_action (lift_action (map_err (capabilities p (ctx_model ctx)) EProvider)) (\<lambda>caps w.
       let request_context = request_context_for caps ctx in
       if supports_streaming caps \<and> supports_tools caps
       then (case stream_response lib rt is_cancelled p request_context listening w of
               (Inr r, w') \<Rightarrow> (Inr r, w')
             | (Inl SCCancelled, w') \<Rightarrow> (Inl ECancelled, w')
             | (Inl SCTurnTimedOut, w') \<Rightarrow>
                 (Inl (provider_timeout_error (ctx_provider request_context) (turn_timeout (rt_limits rt))), w')
             | (Inl _, w') \<Rightarrow> complete_response rt is_cancelled p request_context w')
       else complete_response rt is_cancelled p request_context w))"

section \<open>Fragments are assembled per call\<close>

text \<open>What the fragments of one call should add up to.\<close>

fun last_some :: "'a option list \<Rightarrow> 'a option" where
  "last_some [] = None"
| "last_some (x # xs) = (case last_some xs of Some y \<Rightarrow> Some y | None \<Rightarrow> x)"

fun first_some :: "'a option list \<Rightarrow> 'a option" where
  "first_some [] = None"
| "first_some (x # xs) = (case x of Some y \<Rightarrow> Some y | None \<Rightarrow> first_some xs)"

lemma last_some_snoc: "last_some (xs @ [x]) = (case x of Some y \<Rightarrow> Some y | None \<Rightarrow> last_some xs)"
  by (induction xs) (auto split: option.splits)

lemma first_some_snoc: "first_some (xs @ [x]) = (case first_some xs of Some y \<Rightarrow> Some y | None \<Rightarrow> x)"
  by (induction xs) (auto split: option.splits)

definition assembled :: "tool_call_delta list \<Rightarrow> accumulator_entry" where
  "assembled ds =
     \<lparr>ae_id = last_some (map tcd_id ds), ae_name = last_some (map tcd_name ds),
      ae_arguments = concat (map (\<lambda>d. case tcd_arguments d of Some a \<Rightarrow> a | None \<Rightarrow> []) ds),
      ae_metadata = first_some (map tcd_metadata ds)\<rparr>"

lemma assembled_Nil: "assembled [] = default_entry"
  by (simp add: assembled_def default_entry_def)

lemma assembled_snoc: "assembled (ds @ [d]) = merge_entry d (assembled ds)"
  by (simp add: assembled_def merge_entry_def last_some_snoc first_some_snoc split: option.splits)

lemma accumulator_sorted: "bt_sorted (fold accumulator_merge ds [])"
  by (induction ds rule: rev_induct) (simp_all add: bt_sorted_def[of "[]"] accumulator_merge_def bt_sorted_insert)

lemma accumulator_lookup:
  "map_of (fold accumulator_merge ds []) i =
     (let mine = filter (\<lambda>d. tcd_index d = i) ds in if mine = [] then None else Some (assembled mine))"
proof (induction ds rule: rev_induct)
  case (snoc d ds)
  let ?acc = "fold accumulator_merge ds []"
  let ?e = "merge_entry d (case map_of ?acc (tcd_index d) of Some e \<Rightarrow> e | None \<Rightarrow> default_entry)"
  have upd: "map_of (fold accumulator_merge (ds @ [d]) []) = (map_of ?acc)(tcd_index d \<mapsto> ?e)"
    by (simp add: accumulator_merge_def btree.lookup_put[OF accumulator_sorted])
  show ?case
  proof (cases "tcd_index d = i")
    case True
    then show ?thesis unfolding upd using snoc
      by (cases "filter (\<lambda>d. tcd_index d = i) ds = []")
         (simp_all add: Let_def assembled_snoc assembled_snoc[of "[]", simplified] assembled_Nil)
  next
    case False
    then show ?thesis unfolding upd using snoc by (simp add: Let_def)
  qed
qed simp

text \<open>Tool calls are assembled per index whatever way their fragments are cut and interleaved:
  the accumulated entry of an index has the arguments of all its fragments concatenated
  in order, the last id and the last name that were given and the first metadata; an
  index without fragments has no entry, and the entries are in index order.\<close>

theorem tool_call_assembly:
  "map_of (fold accumulator_merge ds []) i =
     (let mine = filter (\<lambda>d. tcd_index d = i) ds in
      if mine = [] then None
      else Some \<lparr>ae_id = last_some (map tcd_id mine), ae_name = last_some (map tcd_name mine),
        ae_arguments = concat (map (\<lambda>d. case tcd_arguments d of Some a \<Rightarrow> a | None \<Rightarrow> []) mine),
        ae_metadata = first_some (map tcd_metadata mine)\<rparr>) \<and>
   sorted_wrt (<) (map fst (fold accumulator_merge ds []))"
  using accumulator_lookup[of ds i] accumulator_sorted[of ds] unfolding assembled_def bt_sorted_def Let_def by simp

section \<open>A complete stream is collected completely\<close>

definition deltas_of :: "stream_item list \<Rightarrow> tool_call_delta list" where
  "deltas_of its = List.map_filter (\<lambda>it. case it of SToolCallDelta d \<Rightarrow> Some d | _ \<Rightarrow> None) its"

definition texts_of :: "stream_item list \<Rightarrow> string list" where
  "texts_of its = List.map_filter (\<lambda>it. case it of SText t \<Rightarrow> Some t | _ \<Rightarrow> None) its"

definition finish_of :: "stream_item list \<Rightarrow> string option" where
  "finish_of its = last_some (map (\<lambda>it. case it of SFinishReason r \<Rightarrow> Some r | _ \<Rightarrow> None) its)"

fun provider_item :: "stream_item \<Rightarrow> bool" where
  "provider_item (SProgress _) = False"
| "provider_item (SMedia _) = False"
| "provider_item (SPolicyEvent _) = False"
| "provider_item _ = True"

fun is_lost :: "stream_item \<Rightarrow> bool" where
  "is_lost (SConnectionLost _) = True"
| "is_lost _ = False"

definition usage_step :: "stream_item \<Rightarrow> usage_update option \<Rightarrow> usage_update option" where
  "usage_step it u = (case it of SUsageUpdate x \<Rightarrow> Some (merge_usage u x) | _ \<Rightarrow> u)"

lemmas stream_parts = deltas_of_def texts_of_def finish_of_def usage_step_def forward_def List.map_filter_simps

lemma collect_complete:
  "\<forall>it\<in>set its. \<not> is_lost it \<Longrightarrow>
   collect_stream listening (map (\<lambda>it. Done (Inr it)) its) c w =
     (Inr \<lparr>col_text = col_text c @ concat (texts_of its),
           col_calls = fold accumulator_merge (deltas_of its) (col_calls c),
           col_finish = (case finish_of its of Some r \<Rightarrow> Some r | None \<Rightarrow> col_finish c),
           col_usage = fold usage_step its (col_usage c)\<rparr>,
      w\<lparr>sent_events := sent_events w @ (if listening then filter provider_item its else [])\<rparr>)"
proof (induction its arbitrary: c w)
  case Nil
  then show ?case by (simp add: stream_parts)
next
  case (Cons it its)
  have rest: "\<forall>it\<in>set its. \<not> is_lost it" using Cons.prems by simp
  note IH = Cons.IH[OF rest]
  show ?case
    using Cons.prems by (cases it) (simp_all add: IH stream_parts split: option.splits)
qed

lemma col_calls_sorted_build:
  "accumulator_build lib prov acc = Inr calls \<Longrightarrow>
     \<exists>css. list_all2 (\<lambda>(i, e) cs. build_entry lib prov i e = Inr cs) acc css \<and> calls = concat css"
proof (induction acc arbitrary: calls)
  case (Cons ie acc)
  obtain i e where ie: "ie = (i, e)" by fastforce
  from Cons.prems obtain cs rest where
    *: "build_entry lib prov i e = Inr cs" "accumulator_build lib prov acc = Inr rest" "calls = cs @ rest"
    by (auto simp: ie)
  from Cons.IH[OF *(2)] obtain css where
    "list_all2 (\<lambda>(i, e) cs. build_entry lib prov i e = Inr cs) acc css" "rest = concat css" by blast
  with * show ?case by (intro exI[of _ "cs # css"]) (simp add: ie)
qed simp

text \<open>When a provider's stream ends normally, the response has all of its text in order, the tool
  calls built from all of its fragments, its last finish reason and the merged usage, and
  the listener has received every item of the provider in order, once.\<close>

theorem stream_collected_completely:
  assumes "\<not> is_cancelled w"
    and "open_stream p ctx (rt_stream_buffer_size rt) w = (Done (Inr (map (\<lambda>it. Done (Inr it)) its)), w1)"
    and "\<forall>it\<in>set its. \<not> is_lost it"
    and "accumulator_build lib (ctx_provider ctx) (fold accumulator_merge (deltas_of its) []) = Inr calls"
  shows "stream_response lib rt is_cancelled p ctx listening w =
     (Inr \<lparr>rsp_message = \<lparr>msg_role = RAssistant,
              msg_content = (if concat (texts_of its) \<noteq> [] then Some (concat (texts_of its)) else None),
              msg_tool_calls = calls, msg_tool_call_id = None, msg_attachments = []\<rparr>,
           rsp_tool_calls = calls, rsp_finish_reason = finish_of its, rsp_usage = fold usage_step its None\<rparr>,
      w1\<lparr>sent_events := sent_events w1 @ (if listening then filter provider_item its else [])\<rparr>)"
  using assms
  by (simp add: stream_response_def bind_action_step(1)[OF collect_complete[OF assms(3)]] lift_action_def
      finish_stream_def collected_empty_def option.case_eq_if)

definition ex_libs :: libs where
  "ex_libs = \<lparr>lib_json = ex_codec, lib_message_text = (\<lambda>m. msg_content m), lib_message_value = (\<lambda>_. Inr JNull),
     lib_value_message = (\<lambda>_. Inl ''no message''), lib_tools_text = (\<lambda>_. Some []),
     lib_token_count = (\<lambda>s. Some (of_nat (length s))), lib_validator = (\<lambda>_. Inr (\<lambda>_. [])),
     lib_json_objects = (\<lambda>_. []), lib_keywords = \<lparr>kw_is_match = (\<lambda>_. False), kw_redact = id\<rparr>,
     lib_entropy_high = (\<lambda>_. False)\<rparr>"

definition ex_delta :: tool_call_delta where
  "ex_delta = \<lparr>tcd_index = 0, tcd_id = Some ''c1'', tcd_name = Some ''file_read'', tcd_arguments = Some ''{}'', tcd_metadata = None\<rparr>"

definition ex_stream :: "stream_item list" where
  "ex_stream = [SText ''he'', SText ''llo'', SToolCallDelta ex_delta, SFinishReason ''stop'']"

definition ex_provider :: "nat provider" where
  "ex_provider = \<lparr>capabilities = (\<lambda>_. Inr \<lparr>supports_streaming = True, supports_tools = True, supports_json_mode = False, supports_reasoning_traces = False,
       max_input_tokens = None, max_output_tokens = None, max_context_tokens = None\<rparr>),
     open_stream = (\<lambda>_ _ w. (Done (Inr (map (\<lambda>it. Done (Inr it)) ex_stream)), w)),
     complete = (\<lambda>_ w. (WaitTimedOut, w))\<rparr>"

definition ex_limits :: runtime_limits where
  "ex_limits = \<lparr>turn_timeout = \<lparr>dur_secs = 60, dur_subsec_nanos = 0\<rparr>, max_turns = 2, max_cost = None,
     context_budget = \<lparr>trigger_ratio = F_Fin (17/20), safety_buffer_tokens = 1024, fallback_max_context_tokens = 128000\<rparr>,
     retrieval = \<lparr>rl_top_k = 8, rl_vector_weight = F_Fin (7/10), rl_fts_weight = F_Fin (3/10)\<rparr>,
     summarization = \<lparr>target_ratio = F_Fin (1/2), min_turns = 6\<rparr>\<rparr>"

definition ex_runtime :: "nat agent_runtime" where
  "ex_runtime = runtime_new ex_provider ex_registry ex_limits"

definition ex_context :: llm_context where
  "ex_context = \<lparr>ctx_provider = ''p'', ctx_model = ''m'', ctx_tools = [], ctx_messages = [plain_message RUser ''hi'']\<rparr>"

theorem stream_collected_completely_witness:
  "msg_content (rsp_message (projr (fst (stream_response ex_libs ex_runtime (\<lambda>_. False) ex_provider ex_context True ex_host)))) =
     Some ''hello''"
proof -
  have calls: "accumulator_build ex_libs (ctx_provider ex_context) (fold accumulator_merge (deltas_of ex_stream) []) =
     Inr [\<lparr>tc_id = ''c1'', tc_name = ''file_read'', tc_arguments = JObj [], tc_metadata = None\<rparr>]"
    by code_simp
  have open_it: "open_stream ex_provider ex_context (rt_stream_buffer_size ex_runtime) ex_host =
     (Done (Inr (map (\<lambda>it. Done (Inr it)) ex_stream)), ex_host)"
    by (simp add: ex_provider_def)
  have "\<forall>it\<in>set ex_stream. \<not> is_lost it" by (simp add: ex_stream_def)
  from stream_collected_completely[OF _ open_it this calls, of "\<lambda>_. False" True]
  show ?thesis by (simp add: texts_of_def ex_stream_def List.map_filter_simps)
qed

end
