(* ===== verification/Retry.thy ===== *)
theory Retry
  imports Provider_Response
begin

text \<open>
  The retrying provider, \<open>provider/src/retry.rs\<close>: the retry policy and its backoff, completion
  with retries, and the task that feeds a stream with retries.

  The wrapped provider is a parameter: its \<open>complete\<close> and its \<open>stream\<close>, which answers an error
  or the finite list of items it delivers. \<open>sleep\<close> is the timer.
\<close>

section \<open>Durations\<close>

definition as_millis :: "duration \<Rightarrow> nat" where
  "as_millis d = unat (dur_secs d) * 1000 + unat (dur_subsec_nanos d) div 1000000"

definition as_nanos :: "duration \<Rightarrow> nat" where
  "as_nanos d = unat (dur_secs d) * 1000000000 + unat (dur_subsec_nanos d)"

definition from_millis :: "u64 \<Rightarrow> duration" where
  "from_millis ms = \<lparr>dur_secs = ms div 1000, dur_subsec_nanos = of_nat (unat (ms mod 1000) * 1000000)\<rparr>"

definition from_secs :: "u64 \<Rightarrow> duration" where
  "from_secs s = \<lparr>dur_secs = s, dur_subsec_nanos = 0\<rparr>"

section \<open>The policy\<close>

record retry_policy =
  max_attempts :: u32
  backoff_base :: duration
  backoff_max :: duration

definition retry_policy_default :: retry_policy where
  "retry_policy_default = \<lparr>max_attempts = 3, backoff_base = from_millis 250, backoff_max = from_secs 2\<rparr>"

definition normalized :: "retry_policy \<Rightarrow> retry_policy" where
  "normalized p =
     (let base = (if as_nanos (backoff_base p) = 0 then from_millis 1 else backoff_base p)
      in \<lparr>max_attempts = max (max_attempts p) 1, backoff_base = base,
          backoff_max = (if as_nanos (backoff_max p) < as_nanos base then base else backoff_max p)\<rparr>)"

text \<open>The product is saturated at the width of \<open>u128\<close>, the conversion at the width of \<open>u64\<close>.\<close>

definition backoff_delay_for_attempt :: "retry_policy \<Rightarrow> u32 \<Rightarrow> duration" where
  "backoff_delay_for_attempt p attempt =
     (let shift = min (saturating_sub attempt 1) 31;
          factor = 2 ^ unat shift;
          base = as_millis (backoff_base p);
          mx = as_millis (backoff_max p);
          delay_ms = min (min (base * factor) (2 ^ 128 - 1)) mx;
          delay_ms_u64 = (if delay_ms < 2 ^ 64 then of_nat delay_ms else (- 1 :: u64))
      in from_millis delay_ms_u64)"

fun is_retriable_provider_error :: "provider_error \<Rightarrow> bool" where
  "is_retriable_provider_error (Transport _ _) = True"
| "is_retriable_provider_error (HttpStatus _ status _) \<longleftrightarrow> status = 429 \<or> 500 \<le> status"
| "is_retriable_provider_error _ = False"

section \<open>The provider\<close>

record 'w inner_provider =
  ip_complete :: "llm_context \<Rightarrow> 'w \<Rightarrow> (provider_error, response) result \<times> 'w"
  ip_stream :: "llm_context \<Rightarrow> nat \<Rightarrow> 'w \<Rightarrow> (provider_error, (provider_error, stream_item) result list) result \<times> 'w"

record 'w reliable_provider =
  rp_inner :: "'w inner_provider"
  rp_retry_policy :: retry_policy

definition from_arc :: "'w inner_provider \<Rightarrow> retry_policy \<Rightarrow> 'w reliable_provider" where
  "from_arc inner p = \<lparr>rp_inner = inner, rp_retry_policy = normalized p\<rparr>"

definition with_defaults :: "'w inner_provider \<Rightarrow> 'w reliable_provider" where
  "with_defaults inner = from_arc inner retry_policy_default"

lemma attempts_left: "attempt < (n :: u32) \<Longrightarrow> unat (n - attempt) = Suc (unat (n - (attempt + 1)))"
proof -
  assume a: "attempt < n"
  then have "unat attempt < unat n" by (simp add: word_less_nat_alt)
  then have "unat (attempt + 1) = unat attempt + 1" using unsigned_less[of n, where 'a = nat] unat_add_below[of attempt 1] by simp
  then show ?thesis using \<open>unat attempt < unat n\<close> by (simp add: unat_sub_below)
qed

text \<open>The loop of \<open>complete_with_retry\<close>, entered with the number of the attempt.\<close>

function retry_complete ::
    "(duration \<Rightarrow> 'w \<Rightarrow> 'w) \<Rightarrow> 'w reliable_provider \<Rightarrow> llm_context \<Rightarrow> u32 \<Rightarrow> 'w \<Rightarrow> (provider_error, response) result \<times> 'w" where
  "retry_complete sleep rp ctx attempt w =
     (case ip_complete (rp_inner rp) ctx w of
        (Inr response, w1) \<Rightarrow> (Inr response, w1)
      | (Inl error, w1) \<Rightarrow>
          if \<not> is_retriable_provider_error error \<or> attempt \<ge> max_attempts (rp_retry_policy rp) then (Inl error, w1)
          else retry_complete sleep rp ctx (attempt + 1) (sleep (backoff_delay_for_attempt (rp_retry_policy rp) attempt) w1))"
  by pat_completeness auto
termination
  by (relation "measure (\<lambda>(_, rp, _, attempt, _). unat (max_attempts (rp_retry_policy rp) - attempt))")
     (auto simp: attempts_left not_le)

declare retry_complete.simps [simp del]

definition complete_with_retry ::
    "(duration \<Rightarrow> 'w \<Rightarrow> 'w) \<Rightarrow> 'w reliable_provider \<Rightarrow> llm_context \<Rightarrow> 'w \<Rightarrow> (provider_error, response) result \<times> 'w" where
  "complete_with_retry sleep rp ctx w = retry_complete sleep rp ctx 1 w"

definition is_connection_lost :: "(provider_error, stream_item) result \<Rightarrow> bool" where
  "is_connection_lost item = (case item of Inr (SConnectionLost _) \<Rightarrow> True | _ \<Rightarrow> False)"

text \<open>
  The task behind \<open>stream\<close>: what it sends to a receiver that keeps listening. Items are
  passed on as they come up to a lost connection; the next attempt starts a new stream.
\<close>

function retry_stream ::
    "(duration \<Rightarrow> 'w \<Rightarrow> 'w) \<Rightarrow> 'w reliable_provider \<Rightarrow> llm_context \<Rightarrow> nat \<Rightarrow> u32 \<Rightarrow> 'w \<Rightarrow>
     (provider_error, stream_item) result list \<times> 'w" where
  "retry_stream sleep rp ctx buffer_size attempt w =
     (case ip_stream (rp_inner rp) ctx buffer_size w of
        (Inl error, w1) \<Rightarrow>
          if \<not> is_retriable_provider_error error \<or> attempt \<ge> max_attempts (rp_retry_policy rp) then ([Inl error], w1)
          else retry_stream sleep rp ctx buffer_size (attempt + 1)
                 (sleep (backoff_delay_for_attempt (rp_retry_policy rp) attempt) w1)
      | (Inr items, w1) \<Rightarrow>
          (case dropWhile (\<lambda>i. \<not> is_connection_lost i) items of
             [] \<Rightarrow> (items, w1)
           | lost # _ \<Rightarrow>
               if attempt \<ge> max_attempts (rp_retry_policy rp)
               then (takeWhile (\<lambda>i. \<not> is_connection_lost i) items @ [lost], w1)
               else (case retry_stream sleep rp ctx buffer_size (attempt + 1)
                            (sleep (backoff_delay_for_attempt (rp_retry_policy rp) attempt) w1) of
                       (rest, w2) \<Rightarrow> (takeWhile (\<lambda>i. \<not> is_connection_lost i) items @ rest, w2))))"
  by pat_completeness auto
termination
  by (relation "measure (\<lambda>(_, rp, _, _, attempt, _). unat (max_attempts (rp_retry_policy rp) - attempt))")
     (auto simp: attempts_left not_le)

declare retry_stream.simps [simp del]

definition reliable_stream ::
    "(duration \<Rightarrow> 'w \<Rightarrow> 'w) \<Rightarrow> 'w reliable_provider \<Rightarrow> llm_context \<Rightarrow> nat \<Rightarrow> 'w \<Rightarrow>
     (provider_error, stream_item) result list \<times> 'w" where
  "reliable_stream sleep rp ctx buffer_size w = retry_stream sleep rp ctx buffer_size 1 w"

section \<open>Backoff\<close>

lemma as_millis_from_millis: "as_millis (from_millis ms) = unat ms"
proof -
  have "unat (ms mod 1000) < 1000" by (simp add: unat_mod)
  then have "unat (of_nat (unat (ms mod 1000) * 1000000) :: u32) = unat (ms mod 1000) * 1000000"
    by (subst unat_of_nat, intro mod_less) simp
  then have "as_millis (from_millis ms) = unat (ms div 1000) * 1000 + unat (ms mod 1000)"
    by (simp add: as_millis_def from_millis_def)
  then show ?thesis by (simp add: unat_div unat_mod)
qed

lemma as_millis_bound: "as_millis d < 2 ^ 75"
proof -
  have "unat (dur_secs d) < 2 ^ 64" "unat (dur_subsec_nanos d) < 2 ^ 32"
    using unsigned_less[of "dur_secs d", where 'a = nat] unsigned_less[of "dur_subsec_nanos d", where 'a = nat] by simp_all
  then show ?thesis unfolding as_millis_def by simp
qed

lemma clamped_millis:
  "as_millis (from_millis (if d < 2 ^ 64 then of_nat d else - 1)) = min d (2 ^ 64 - 1)"
  by (auto simp: as_millis_from_millis unat_of_nat unat_max_word)

lemma backoff_exact:
  "as_millis (backoff_delay_for_attempt p attempt) =
     min (min (as_millis (backoff_base p) * 2 ^ min (unat attempt - 1) 31) (as_millis (backoff_max p))) (2 ^ 64 - 1)"
proof -
  let ?e = "min (unat attempt - 1) 31"
  let ?b = "as_millis (backoff_base p)"
  have e: "unat (min (saturating_sub attempt 1) 31) = ?e" by (simp add: unat_simps)
  have "?b * 2 ^ ?e < 2 ^ 75 * 2 ^ 31"
  proof (rule mult_less_le_imp_less)
    show "(2 :: nat) ^ ?e \<le> 2 ^ 31" by (rule power_increasing) simp_all
  qed (simp_all add: as_millis_bound del: power_numeral)
  then have "min (?b * 2 ^ ?e) (2 ^ 128 - 1) = ?b * 2 ^ ?e" by simp
  then show ?thesis unfolding backoff_delay_for_attempt_def Let_def e clamped_millis by simp
qed

text \<open>The backoff is exponential and capped. The pause after attempt n is \<open>base * 2^(n - 1)\<close>
  milliseconds, the exponent capped at 31, never more than \<open>backoff_max\<close>, and it does not
  shrink from one attempt to the next; the arithmetic does not saturate below the cap of a
  64-bit count of milliseconds.\<close>

theorem backoff_exponential_capped:
  "as_millis (backoff_delay_for_attempt p attempt) =
     min (min (as_millis (backoff_base p) * 2 ^ min (unat attempt - 1) 31) (as_millis (backoff_max p))) (2 ^ 64 - 1) \<and>
   as_millis (backoff_delay_for_attempt p attempt) \<le> as_millis (backoff_max p) \<and>
   (unat attempt \<le> unat attempt' \<longrightarrow>
     as_millis (backoff_delay_for_attempt p attempt) \<le> as_millis (backoff_delay_for_attempt p attempt'))"
proof -
  have "as_millis (backoff_delay_for_attempt p attempt) \<le> as_millis (backoff_delay_for_attempt p attempt')"
    if "unat attempt \<le> unat attempt'"
  proof -
    have "as_millis (backoff_base p) * 2 ^ min (unat attempt - 1) 31 \<le> as_millis (backoff_base p) * (2::nat) ^ min (unat attempt' - 1) 31"
      by (rule mult_le_mono2, rule power_increasing) (use that in auto)
    then show ?thesis unfolding backoff_exact by (intro min.mono) simp_all
  qed
  then show ?thesis by (auto simp: backoff_exact)
qed

theorem backoff_exponential_capped_witness:
  "as_millis (backoff_delay_for_attempt retry_policy_default 1) \<le> as_millis (backoff_delay_for_attempt retry_policy_default 2)"
  using backoff_exponential_capped[of retry_policy_default 1 2] by simp

section \<open>Attempts\<close>

text \<open>The state in which attempt \<open>k + 1\<close> starts, when all before it failed.\<close>

fun attempt_state :: "(duration \<Rightarrow> 'w \<Rightarrow> 'w) \<Rightarrow> 'w reliable_provider \<Rightarrow> llm_context \<Rightarrow> u32 \<Rightarrow> nat \<Rightarrow> 'w \<Rightarrow> 'w" where
  "attempt_state sleep rp ctx attempt 0 w = w"
| "attempt_state sleep rp ctx attempt (Suc k) w =
     attempt_state sleep rp ctx (attempt + 1) k
       (sleep (backoff_delay_for_attempt (rp_retry_policy rp) attempt) (snd (ip_complete (rp_inner rp) ctx w)))"

abbreviation call_at :: "(duration \<Rightarrow> 'w \<Rightarrow> 'w) \<Rightarrow> 'w reliable_provider \<Rightarrow> llm_context \<Rightarrow> u32 \<Rightarrow> nat \<Rightarrow> 'w \<Rightarrow>
    (provider_error, response) result \<times> 'w" where
  "call_at sleep rp ctx attempt k w \<equiv> ip_complete (rp_inner rp) ctx (attempt_state sleep rp ctx attempt k w)"

definition final_answer :: "(provider_error, response) result \<Rightarrow> bool" where
  "final_answer r = (case r of Inr _ \<Rightarrow> True | Inl e \<Rightarrow> \<not> is_retriable_provider_error e)"

lemma retry_complete_first:
  assumes "attempt \<le> max_attempts (rp_retry_policy rp)"
  shows "\<exists>k. k \<le> unat (max_attempts (rp_retry_policy rp) - attempt) \<and>
     retry_complete sleep rp ctx attempt w = call_at sleep rp ctx attempt k w \<and>
     (\<forall>j<k. \<not> final_answer (fst (call_at sleep rp ctx attempt j w))) \<and>
     (final_answer (fst (call_at sleep rp ctx attempt k w)) \<or> k = unat (max_attempts (rp_retry_policy rp) - attempt))"
  using assms
proof (induction sleep rp ctx attempt w rule: retry_complete.induct)
  case (1 sleep rp ctx attempt w)
  let ?n = "max_attempts (rp_retry_policy rp)"
  obtain r w1 where call: "ip_complete (rp_inner rp) ctx w = (r, w1)" by fastforce
  show ?case
  proof (cases "final_answer r \<or> attempt \<ge> ?n")
    case True
    then have "retry_complete sleep rp ctx attempt w = (r, w1)"
      by (subst retry_complete.simps) (auto simp: call final_answer_def split: sum.splits)
    then show ?thesis using True 1(2) by (intro exI[of _ 0]) (auto simp: call)
  next
    case False
    then obtain e where e: "r = Inl e" "is_retriable_provider_error e" "attempt < ?n"
      by (auto simp: final_answer_def split: sum.splits)
    let ?w = "sleep (backoff_delay_for_attempt (rp_retry_policy rp) attempt) w1"
    have step: "retry_complete sleep rp ctx attempt w = retry_complete sleep rp ctx (attempt + 1) ?w"
      by (subst retry_complete.simps) (use e call in \<open>auto dest: leD\<close>)
    have le: "attempt + 1 \<le> ?n" using e(3) by (rule inc_le)
    have left: "unat (?n - attempt) = Suc (unat (?n - (attempt + 1)))" using e(3) by (rule attempts_left)
    from 1(1)[OF call[symmetric], of e] e le False obtain k where k: "k \<le> unat (?n - (attempt + 1))"
      "retry_complete sleep rp ctx (attempt + 1) ?w = call_at sleep rp ctx (attempt + 1) k ?w"
      "\<forall>j<k. \<not> final_answer (fst (call_at sleep rp ctx (attempt + 1) j ?w))"
      "final_answer (fst (call_at sleep rp ctx (attempt + 1) k ?w)) \<or> k = unat (?n - (attempt + 1))" by auto
    have shift: "call_at sleep rp ctx attempt (Suc j) w = call_at sleep rp ctx (attempt + 1) j ?w" for j
      by (simp add: call)
    have "\<not> final_answer (fst (call_at sleep rp ctx attempt j w))" if "j < Suc k" for j
      using that k(3) e False by (cases j) (auto simp: shift call simp del: attempt_state.simps(2))
    then show ?thesis using k left step shift by (intro exI[of _ "Suc k"]) (auto simp del: attempt_state.simps(2))
  qed
qed


text \<open>A provider that fails once with status 503, counting its calls.\<close>

definition ex_response :: response where
  "ex_response = \<lparr>rsp_message = plain_message RAssistant ''hi'', rsp_tool_calls = [], rsp_finish_reason = None, rsp_usage = None\<rparr>"

definition ex_flaky :: "nat inner_provider" where
  "ex_flaky = \<lparr>ip_complete = (\<lambda>_ n. (if n = 0 then Inl (HttpStatus ''p'' 503 ''busy'') else Inr ex_response, Suc n)),
     ip_stream = (\<lambda>_ _ n. (Inr [], n))\<rparr>"


section \<open>Streams\<close>

lemma forwarded_prefix:
  assumes "\<forall>i\<in>set pre. \<not> is_connection_lost i" and "is_connection_lost l"
  shows "takeWhile (\<lambda>i. \<not> is_connection_lost i) (pre @ l # post) = pre"
    and "dropWhile (\<lambda>i. \<not> is_connection_lost i) (pre @ l # post) = l # post"
  using assms by (simp_all add: takeWhile_tail)

text \<open>A receiver sees the items of a stream without loss, in order, and a stream that is never
  interrupted is passed on unchanged; a lost connection is reported only when no attempt is left.\<close>

theorem stream_retry_faithful:
  "ip_stream (rp_inner rp) ctx n w = (Inr items, w1) \<Longrightarrow> \<forall>i\<in>set items. \<not> is_connection_lost i \<Longrightarrow>
     retry_stream sleep rp ctx n attempt w = (items, w1)"
  by (subst retry_stream.simps) (simp add: dropWhile_eq_Nil_conv[THEN iffD2])

text \<open>What a stream delivered before its connection was lost stays delivered, and the next attempt
  delivers its items from the start: the receiver sees the beginning twice.\<close>

theorem stream_retry_repeats_prefix:
  assumes "ip_stream (rp_inner rp) ctx n w = (Inr (pre @ lost # post), w1)"
    and "is_connection_lost lost" and "\<forall>i\<in>set pre. \<not> is_connection_lost i"
    and "attempt < max_attempts (rp_retry_policy rp)"
    and "ip_stream (rp_inner rp) ctx n (sleep (backoff_delay_for_attempt (rp_retry_policy rp) attempt) w1) = (Inr items, w2)"
    and "\<forall>i\<in>set items. \<not> is_connection_lost i"
  shows "retry_stream sleep rp ctx n attempt w = (pre @ items, w2)"
proof -
  have again: "retry_stream sleep rp ctx n (attempt + 1) (sleep (backoff_delay_for_attempt (rp_retry_policy rp) attempt) w1) = (items, w2)"
    by (subst retry_stream.simps) (simp add: assms dropWhile_eq_Nil_conv[THEN iffD2])
  show ?thesis
    by (subst retry_stream.simps) (use assms again in \<open>auto simp: forwarded_prefix dest: leD\<close>)
qed

text \<open>For a streamed tool call this doubles the arguments: the accumulator appends what it receives.\<close>

theorem repeated_delta_doubles_arguments:
  assumes "tcd_arguments d = Some a"
  shows "map (ae_arguments \<circ> snd) (fold accumulator_merge [d, d] []) = [a @ a]"
  using assms by (simp add: accumulator_merge_def merge_entry_def default_entry_def)

end
