(* ===== verification/Context_Budget.thy ===== *)
theory Context_Budget
  imports Provider_Response "HOL-Library.Sublist"
begin

text \<open>
  The context budget of crate \<open>runtime\<close> (\<open>budget.rs\<close>): which messages of a conversation are
  sent to the provider so that they fit in its context window, when the older ones are
  condensed into a rolling summary, and the guards on turns and cost.

  Token counts are 64-bit words with the saturating additions of the source. The
  tokenizer and the JSON texts are library functions; the memory backend is the one of
  the runtime object.
\<close>

section \<open>Token estimates\<close>

definition ROLLING_SUMMARY_PREFIX :: string where
  "ROLLING_SUMMARY_PREFIX = ''Rolling session summary:''"

record context_budget_breakdown =
  bd_max_context_tokens :: u64
  bd_system_tokens :: u64
  bd_retrieved_memory_tokens :: u64
  bd_history_tokens :: u64
  bd_tool_schema_tokens :: u64
  bd_safety_buffer_tokens :: u64

definition breakdown_total_tokens :: "context_budget_breakdown \<Rightarrow> u64" where
  "breakdown_total_tokens b =
     saturating_add (saturating_add (saturating_add (saturating_add (bd_system_tokens b)
       (bd_retrieved_memory_tokens b)) (bd_history_tokens b)) (bd_tool_schema_tokens b)) (bd_safety_buffer_tokens b)"

definition estimate_text_tokens :: "libs \<Rightarrow> string \<Rightarrow> (runtime_error, u64) result" where
  "estimate_text_tokens lib text = ok_or (lib_token_count lib text) EBudgetExceeded"

definition estimate_message_tokens :: "libs \<Rightarrow> message \<Rightarrow> (runtime_error, u64) result" where
  "estimate_message_tokens lib m =
     bind_result (ok_or (lib_message_text lib m) EBudgetExceeded) (estimate_text_tokens lib)"

definition estimate_tool_schema_tokens :: "libs \<Rightarrow> llm_context \<Rightarrow> (runtime_error, u64) result" where
  "estimate_tool_schema_tokens lib ctx =
     bind_result (ok_or (lib_tools_text lib (ctx_tools ctx)) EBudgetExceeded) (estimate_text_tokens lib)"

fun estimate_messages_from :: "libs \<Rightarrow> u64 \<Rightarrow> message list \<Rightarrow> (runtime_error, u64) result" where
  "estimate_messages_from lib accumulator [] = Inr accumulator"
| "estimate_messages_from lib accumulator (m # ms) =
     bind_result (estimate_message_tokens lib m) (\<lambda>tokens.
       estimate_messages_from lib (saturating_add accumulator tokens) ms)"

definition estimate_messages_tokens :: "libs \<Rightarrow> message list \<Rightarrow> (runtime_error, u64) result" where
  "estimate_messages_tokens lib ms = estimate_messages_from lib 0 ms"

definition resolve_max_context_tokens :: "'w agent_runtime \<Rightarrow> llm_context \<Rightarrow> (runtime_error, u64) result" where
  "resolve_max_context_tokens rt ctx =
     bind_result (provider_for_context rt ctx) (\<lambda>p.
     bind_result (map_err (capabilities p (ctx_model ctx)) EProvider) (\<lambda>caps.
       Inr (ucast (case max_context_tokens caps of Some n \<Rightarrow> n
                   | None \<Rightarrow> fallback_max_context_tokens (context_budget (rt_limits rt))))))"

definition content_length :: "message \<Rightarrow> nat" where
  "content_length m = (case msg_content m of Some c \<Rightarrow> length c | None \<Rightarrow> 0)"

definition is_obviously_within_budget :: "libs \<Rightarrow> llm_context \<Rightarrow> u64 \<Rightarrow> u64 \<Rightarrow> bool" where
  "is_obviously_within_budget lib ctx max_tokens safety_tokens =
     (if \<exists>m\<in>set (ctx_messages ctx). msg_attachments m \<noteq> [] then False
      else let available_tokens = saturating_sub max_tokens safety_tokens in
        if available_tokens = 0 then False
        else
          let rough_char_budget = unat (saturating_mul available_tokens 3);
              message_chars = sum_list (map content_length (ctx_messages ctx))
          in case lib_tools_text lib (ctx_tools ctx) of
               Some text \<Rightarrow> min (message_chars + length text) (2 ^ 64 - 1) \<le> rough_char_budget
             | None \<Rightarrow> 2 ^ 64 - 1 \<le> rough_char_budget)"

section \<open>Selection of messages\<close>

text \<open>The loop over the messages from the newest to the oldest; \<open>ms\<close> is that reversed list.\<close>

fun select_rev :: "libs \<Rightarrow> u64 \<Rightarrow> u64 \<Rightarrow> u64 \<Rightarrow> message list \<Rightarrow> message list \<Rightarrow> (runtime_error, message list \<times> u64) result" where
  "select_rev lib budget already_used used selected_rev [] = Inr (rev selected_rev, used)"
| "select_rev lib budget already_used used selected_rev (m # ms) =
     bind_result (estimate_message_tokens lib m) (\<lambda>message_tokens.
       let next_total = saturating_add (saturating_add already_used used) message_tokens in
       if next_total \<le> budget
       then select_rev lib budget already_used (saturating_add used message_tokens) (selected_rev @ [m]) ms
       else select_rev lib budget already_used used selected_rev ms)"

definition select_messages_within_budget ::
    "libs \<Rightarrow> message list \<Rightarrow> u64 \<Rightarrow> u64 \<Rightarrow> (runtime_error, message list \<times> u64) result" where
  "select_messages_within_budget lib ms budget already_used =
     (if already_used \<ge> budget then Inr ([], 0)
      else select_rev lib budget already_used 0 [] (rev ms))"

section \<open>Summaries and retrieval\<close>

definition sequence_from_index :: "nat \<Rightarrow> u64" where
  "sequence_from_index index = saturating_add (if index < 2 ^ 64 then of_nat index else - 1) 1"

definition is_summarized_sequence :: "memory_summary_state option \<Rightarrow> nat \<Rightarrow> bool" where
  "is_summarized_sequence summary_state index =
     (case summary_state of
        Some s \<Rightarrow> 0 < mss_upper_sequence s \<and> sequence_from_index index \<le> mss_upper_sequence s
      | None \<Rightarrow> False)"

definition summary_state_message :: "memory_summary_state \<Rightarrow> message option" where
  "summary_state_message s =
     (let summary = trim (mss_summary s) in
      if summary = [] then None
      else Some (plain_message RSystem (ROLLING_SUMMARY_PREFIX @ nl @ summary)))"

fun message_role_label :: "message_role \<Rightarrow> string" where
  "message_role_label RSystem = ''system''"
| "message_role_label RUser = ''user''"
| "message_role_label RAssistant = ''assistant''"
| "message_role_label RTool = ''tool''"

definition summary_message_content :: "message \<Rightarrow> string" where
  "summary_message_content m =
     (let normalized = join '' '' (split_whitespace (case msg_content m of Some c \<Rightarrow> c | None \<Rightarrow> []));
          content = (if normalized = []
            then (let tool_calls = map tc_name (msg_tool_calls m) in
                  if tool_calls = [] then ''[no text]''
                  else ''[tool calls: '' @ join '', '' tool_calls @ '']'')
            else normalized)
      in if char_count content > 180 then take_chars 180 content @ ''...'' else content)"

definition compose_rolling_summary :: "memory_summary_state option \<Rightarrow> (u64 \<times> message \<times> u64) list \<Rightarrow> string" where
  "compose_rolling_summary previous summarized_entries =
     (let existing = (case previous of Some p \<Rightarrow> trim (mss_summary p) | None \<Rightarrow> []);
          summary = (if existing \<noteq> [] then existing @ nl else []) @ ''Recent condensed turns:'' @ nl;
          summary = summary @ concat (map (\<lambda>(sequence, m, _).
            ''- ['' @ nat_to_string (unat sequence) @ ''] '' @ message_role_label (msg_role m) @ '': '' @
            summary_message_content m @ nl) (take 24 summarized_entries));
          summary = (if ends_with summary nl then butlast summary else summary)
      in if char_count summary > 4000 then take_chars 4000 summary @ ''...'' else summary)"

definition load_summary_state ::
    "'w agent_runtime \<Rightarrow> string option \<Rightarrow> ('w host, runtime_error, memory_summary_state option) action" where
  "load_summary_state rt session_id =
     (case (rt_memory_retrieval rt, session_id) of
        (Some mem, Some sid) \<Rightarrow> memory_action (mem_read_summary mem sid)
      | _ \<Rightarrow> ret_action None)"

fun find_map :: "('a \<Rightarrow> 'b option) \<Rightarrow> 'a list \<Rightarrow> 'b option" where
  "find_map f [] = None"
| "find_map f (x # xs) = (case f x of Some y \<Rightarrow> Some y | None \<Rightarrow> find_map f xs)"

definition latest_retrieval_query :: "llm_context \<Rightarrow> string option" where
  "latest_retrieval_query ctx =
     (let from_latest_user = find_map (\<lambda>m.
            if msg_role m = RUser
            then (let content = trim (case msg_content m of Some c \<Rightarrow> c | None \<Rightarrow> []) in
                  if content \<noteq> [] then Some content else None)
            else None) (rev (ctx_messages ctx))
      in case from_latest_user of
           Some q \<Rightarrow> Some q
         | None \<Rightarrow> find_map (\<lambda>m. case msg_content m of
               Some c \<Rightarrow> if trim c \<noteq> [] then Some (trim c) else None
             | None \<Rightarrow> None) (rev (ctx_messages ctx)))"

definition snippet_line :: "memory_snippet \<Rightarrow> string" where
  "snippet_line sn =
     (let normalized = join '' '' (split_whitespace (sn_text sn));
          truncated = (if char_count normalized > 240 then take_chars 240 normalized @ ''...'' else normalized)
      in ''- ['' @ sn_chunk_id sn @ '' score='' @ sn_score sn @ ''] '' @ truncated @ nl)"

definition fetch_retrieved_memory_message ::
    "'w agent_runtime \<Rightarrow> string option \<Rightarrow> llm_context \<Rightarrow> ('w host, runtime_error, message option) action" where
  "fetch_retrieved_memory_message rt session_id ctx =
     (case (rt_memory_retrieval rt, session_id) of
        (Some mem, Some sid) \<Rightarrow>
          (case latest_retrieval_query ctx of
             None \<Rightarrow> ret_action None
           | Some query \<Rightarrow>
             bind_action (memory_action (mem_hybrid_query mem sid query (retrieval (rt_limits rt)))) (\<lambda>snippets.
               ret_action (if snippets = [] then None
                 else Some (plain_message RSystem
                   (trim_end (''Retrieved memory snippets:'' @ nl @ concat (map snippet_line snippets)))))))
      | _ \<Rightarrow> ret_action None)"

section \<open>The provider context\<close>

definition history_messages_of :: "memory_summary_state option \<Rightarrow> llm_context \<Rightarrow> message list" where
  "history_messages_of summary_state ctx =
     map snd (filter (\<lambda>(index, _). \<not> is_summarized_sequence summary_state index)
       (filter (\<lambda>(_, m). msg_role m \<noteq> RSystem) (List.enumerate 0 (ctx_messages ctx))))"

definition system_messages_of :: "memory_summary_state option \<Rightarrow> llm_context \<Rightarrow> message list" where
  "system_messages_of summary_state ctx =
     filter (\<lambda>m. msg_role m = RSystem) (ctx_messages ctx) @
     (case Option.bind summary_state summary_state_message of Some m \<Rightarrow> [m] | None \<Rightarrow> [])"

definition fit_retrieved :: "libs \<Rightarrow> u64 \<Rightarrow> u64 \<Rightarrow> message option \<Rightarrow> (runtime_error, message list \<times> u64) result" where
  "fit_retrieved lib static_tokens max_tokens retrieval_message =
     (case retrieval_message of
        None \<Rightarrow> Inr ([], 0)
      | Some m \<Rightarrow>
        bind_result (estimate_message_tokens lib m) (\<lambda>candidate_tokens.
          Inr (if saturating_add static_tokens candidate_tokens \<le> max_tokens then ([m], candidate_tokens) else ([], 0))))"

definition assemble_provider_context ::
    "libs \<Rightarrow> llm_context \<Rightarrow> u64 \<Rightarrow> u64 \<Rightarrow> u64 \<Rightarrow> memory_summary_state option \<Rightarrow> message list \<Rightarrow> u64 \<Rightarrow>
     (runtime_error, llm_context) result" where
  "assemble_provider_context lib ctx max_tokens safety_tokens tool_schema_tokens summary_state
       retrieved_messages retrieved_memory_tokens =
     (let static_tokens = saturating_add tool_schema_tokens safety_tokens;
          system_messages = system_messages_of summary_state ctx;
          history_messages = history_messages_of summary_state ctx;
          message_budget = saturating_sub (saturating_sub max_tokens static_tokens) retrieved_memory_tokens
      in
      bind_result (select_messages_within_budget lib system_messages message_budget 0) (\<lambda>(selected_system, system_tokens).
      bind_result (select_messages_within_budget lib history_messages message_budget system_tokens) (\<lambda>(selected_history, history_tokens).
        if (case List.find (\<lambda>m. msg_role m = RUser) (rev history_messages) of
              Some latest_user \<Rightarrow> latest_user \<notin> set selected_history
            | None \<Rightarrow> False)
        then Inl EBudgetExceeded
        else
          let breakdown = \<lparr>bd_max_context_tokens = max_tokens, bd_system_tokens = system_tokens,
                bd_retrieved_memory_tokens = retrieved_memory_tokens, bd_history_tokens = history_tokens,
                bd_tool_schema_tokens = tool_schema_tokens, bd_safety_buffer_tokens = safety_tokens\<rparr>
          in if breakdown_total_tokens breakdown > max_tokens then Inl EBudgetExceeded
             else Inr (ctx\<lparr>ctx_messages := selected_system @ retrieved_messages @ selected_history\<rparr>))))"

definition prepare_provider_context ::
    "libs \<Rightarrow> 'w agent_runtime \<Rightarrow> string option \<Rightarrow> llm_context \<Rightarrow> ('w host, runtime_error, llm_context) action" where
  "prepare_provider_context lib rt session_id ctx =
     bind_action (lift_action (resolve_max_context_tokens rt ctx)) (\<lambda>max_tokens.
     let safety_tokens = safety_buffer_tokens (context_budget (rt_limits rt)) in
     bind_action (load_summary_state rt session_id) (\<lambda>summary_state.
       if Option.is_none (rt_memory_retrieval rt) \<and> summary_state = None \<and>
          is_obviously_within_budget lib ctx max_tokens safety_tokens
       then ret_action ctx
       else
         bind_action (lift_action (estimate_tool_schema_tokens lib ctx)) (\<lambda>tool_schema_tokens.
         let static_tokens = saturating_add tool_schema_tokens safety_tokens in
         if static_tokens > max_tokens then lift_action (Inl EBudgetExceeded)
         else
           bind_action (fetch_retrieved_memory_message rt session_id ctx) (\<lambda>retrieval_message.
           bind_action (lift_action (fit_retrieved lib static_tokens max_tokens retrieval_message))
             (\<lambda>(retrieved_messages, retrieved_memory_tokens).
           lift_action (assemble_provider_context lib ctx max_tokens safety_tokens tool_schema_tokens
             summary_state retrieved_messages retrieved_memory_tokens))))))"

section \<open>The rolling summary\<close>

text \<open>The messages that are not yet summarised, each with its sequence number and its tokens.\<close>

fun unsummarized_history_from ::
    "libs \<Rightarrow> memory_summary_state option \<Rightarrow> nat \<Rightarrow> message list \<Rightarrow> (runtime_error, (u64 \<times> message \<times> u64) list) result" where
  "unsummarized_history_from lib summary_state index [] = Inr []"
| "unsummarized_history_from lib summary_state index (m # ms) =
     (if msg_role m = RSystem \<or> is_summarized_sequence summary_state index
      then unsummarized_history_from lib summary_state (Suc index) ms
      else bind_result (estimate_message_tokens lib m) (\<lambda>message_tokens.
           bind_result (unsummarized_history_from lib summary_state (Suc index) ms) (\<lambda>rest.
             Inr ((sequence_from_index index, m, message_tokens) # rest))))"

text \<open>
  The loop that decides how many of the oldest messages to condense: until the estimate is
  below the target or only two messages remain.
\<close>

fun summarize_count_from :: "u64 \<Rightarrow> u64 \<Rightarrow> (u64 \<times> message \<times> u64) list \<Rightarrow> nat" where
  "summarize_count_from target_tokens remaining_total [] = 0"
| "summarize_count_from target_tokens remaining_total ((s, m, message_tokens) # rest) =
     (if remaining_total > target_tokens \<and> length rest + 1 > 2
      then Suc (summarize_count_from target_tokens (saturating_sub remaining_total message_tokens) rest)
      else 0)"

definition maybe_trigger_rolling_summary ::
    "libs \<Rightarrow> 'w agent_runtime \<Rightarrow> string option \<Rightarrow> llm_context \<Rightarrow> ('w host, runtime_error, unit) action" where
  "maybe_trigger_rolling_summary lib rt session_id ctx =
     (case (rt_memory_retrieval rt, session_id) of
        (Some mem, Some sid) \<Rightarrow>
          if length (ctx_messages ctx) < min_turns (summarization (rt_limits rt)) then ret_action ()
          else
            bind_action (load_summary_state rt (Some sid)) (\<lambda>summary_state.
            bind_action (lift_action (unsummarized_history_from lib summary_state 0 (ctx_messages ctx))) (\<lambda>unsummarized_history.
            if length unsummarized_history < min_turns (summarization (rt_limits rt)) then ret_action ()
            else
              bind_action (lift_action (estimate_messages_tokens lib (system_messages_of summary_state ctx))) (\<lambda>system_tokens.
              let history_tokens = fold (\<lambda>(_, _, t) accumulator. saturating_add accumulator t) unsummarized_history 0 in
              bind_action (fetch_retrieved_memory_message rt (Some sid) ctx) (\<lambda>retrieval_message.
              bind_action (lift_action (case retrieval_message of None \<Rightarrow> Inr 0
                  | Some m \<Rightarrow> estimate_message_tokens lib m)) (\<lambda>retrieved_memory_tokens.
              bind_action (lift_action (estimate_tool_schema_tokens lib ctx)) (\<lambda>tool_schema_tokens.
              bind_action (lift_action (resolve_max_context_tokens rt ctx)) (\<lambda>max_tokens.
              let total = saturating_add (saturating_add (saturating_add (saturating_add system_tokens history_tokens)
                    retrieved_memory_tokens) tool_schema_tokens) (safety_buffer_tokens (context_budget (rt_limits rt)));
                  utilization = (if max_tokens = 0 then F_Fin 0
                    else f64_div (f64_of_nat (unat total)) (f64_of_nat (unat max_tokens)))
              in if f64_le utilization (trigger_ratio (context_budget (rt_limits rt))) then ret_action ()
                 else
                   let target_tokens = f64_to_u64 (f64_floor (f64_mul (f64_of_nat (unat max_tokens))
                         (target_ratio (summarization (rt_limits rt)))));
                       summarize_count = summarize_count_from target_tokens total unsummarized_history
                   in if summarize_count = 0 then ret_action ()
                      else
                        let summarized_entries = take summarize_count unsummarized_history;
                            upper_sequence = fst (last summarized_entries);
                            expected_epoch = (case summary_state of Some s \<Rightarrow> mss_epoch s | None \<Rightarrow> 0)
                        in bind_action (lift_action (ok_or (checked_add expected_epoch 1) EBudgetExceeded)) (\<lambda>next_epoch.
                           bind_action (memory_action (mem_write_summary mem sid
                             \<lparr>sw_expected_epoch = expected_epoch, sw_next_epoch = next_epoch,
                              sw_upper_sequence = upper_sequence,
                              sw_summary = compose_rolling_summary summary_state summarized_entries\<rparr>)) (\<lambda>_.
                           ret_action ())))))))))
      | _ \<Rightarrow> ret_action ())"

section \<open>Guards\<close>

definition duration_is_zero :: "duration \<Rightarrow> bool" where
  "duration_is_zero d \<longleftrightarrow> dur_secs d = 0 \<and> dur_subsec_nanos d = 0"

definition validate_guard_preconditions :: "'w agent_runtime \<Rightarrow> (runtime_error, unit) result" where
  "validate_guard_preconditions rt =
     (if duration_is_zero (turn_timeout (rt_limits rt)) \<or> max_turns (rt_limits rt) = 0 then Inl EBudgetExceeded
      else case max_cost (rt_limits rt) of
        Some c \<Rightarrow> if \<not> f64_is_finite c \<or> f64_le c (F_Fin 0) then Inl EBudgetExceeded else Inr ()
      | None \<Rightarrow> Inr ())"

definition usage_total_tokens :: "usage_update \<Rightarrow> u64 option" where
  "usage_total_tokens u =
     (case total_tokens u of
        Some t \<Rightarrow> Some t
      | None \<Rightarrow>
        let prompt = (case prompt_tokens u of Some n \<Rightarrow> n | None \<Rightarrow> 0);
            completion = (case completion_tokens u of Some n \<Rightarrow> n | None \<Rightarrow> 0);
            aggregated = saturating_add prompt completion
        in if aggregated > 0 then Some aggregated else None)"

definition usage_to_cost :: "usage_update \<Rightarrow> f64 option" where
  "usage_to_cost u = map_option (\<lambda>t. f64_of_nat (unat t)) (usage_total_tokens u)"

definition enforce_cost_budget ::
    "'w agent_runtime \<Rightarrow> usage_update option \<Rightarrow> f64 \<Rightarrow> (runtime_error, unit) result \<times> f64" where
  "enforce_cost_budget rt usage accumulated_cost =
     (case max_cost (rt_limits rt) of
        None \<Rightarrow> (Inr (), accumulated_cost)
      | Some limit \<Rightarrow>
        (case Option.bind usage usage_to_cost of
           None \<Rightarrow> (Inl EBudgetExceeded, accumulated_cost)
         | Some turn_cost \<Rightarrow>
           let accumulated = f64_add accumulated_cost turn_cost
           in (if f64_less limit accumulated then Inl EBudgetExceeded else Inr (), accumulated)))"

section \<open>The context fits\<close>

definition message_tokens :: "libs \<Rightarrow> message \<Rightarrow> nat" where
  "message_tokens lib m = (case estimate_message_tokens lib m of Inr n \<Rightarrow> unat n | Inl _ \<Rightarrow> 0)"

definition messages_tokens :: "libs \<Rightarrow> message list \<Rightarrow> nat" where
  "messages_tokens lib ms = sum_list (map (message_tokens lib) ms)"

lemma messages_tokens_simps [simp]:
  "messages_tokens lib [] = 0" "messages_tokens lib (m # ms) = message_tokens lib m + messages_tokens lib ms"
  "messages_tokens lib (as @ bs) = messages_tokens lib as + messages_tokens lib bs"
  "messages_tokens lib (rev ms) = messages_tokens lib ms"
  by (simp_all add: messages_tokens_def rev_map[symmetric])

lemma saturating_add_exact:
  fixes a b :: u64
  assumes "unat (saturating_add a b) < 2 ^ 64 - 1"
  shows "unat (saturating_add a b) = unat a + unat b"
  using assms by (simp add: unat_saturating_add min_def split: if_splits)

lemma select_rev_spec:
  assumes "select_rev lib budget already used sel ms = Inr (out, tot)"
    and "unat budget < 2 ^ 64 - 1" and "unat used = messages_tokens lib sel"
    and "unat already + unat used \<le> unat budget"
  shows "\<exists>kept. out = rev kept @ rev sel \<and> subseq kept ms \<and> unat tot = messages_tokens lib out \<and>
     unat already + unat tot \<le> unat budget"
  using assms
proof (induction ms arbitrary: used sel)
  case Nil
  then show ?case by (intro exI[of _ "[]"]) auto
next
  case (Cons m ms)
  obtain t where t: "estimate_message_tokens lib m = Inr t" using Cons.prems(1) by auto
  let ?next = "saturating_add (saturating_add already used) t"
  show ?case
  proof (cases "?next \<le> budget")
    case True
    then have le: "unat ?next \<le> unat budget" by (simp add: word_le_nat_alt)
    with Cons.prems(2) have "unat ?next = unat (saturating_add already used) + unat t"
      by (intro saturating_add_exact) simp
    moreover have "unat (saturating_add already used) = unat already + unat used"
      using calculation le Cons.prems(2) by (intro saturating_add_exact) simp
    ultimately have sum: "unat already + unat used + unat t \<le> unat budget" using le by simp
    have used': "unat (saturating_add used t) = unat used + unat t"
      using sum Cons.prems(2) by (simp add: unat_saturating_add)
    have tok: "message_tokens lib m = unat t" by (simp add: message_tokens_def t)
    have rec: "select_rev lib budget already (saturating_add used t) (sel @ [m]) ms = Inr (out, tot)"
      using Cons.prems(1) True by (simp add: t Let_def)
    obtain kept where "out = rev kept @ rev (sel @ [m])" "subseq kept ms"
      "unat tot = messages_tokens lib out" "unat already + unat tot \<le> unat budget"
      using Cons.IH[OF rec Cons.prems(2)] used' tok Cons.prems(3) sum by auto
    then show ?thesis by (intro exI[of _ "m # kept"]) auto
  next
    case False
    then have rec: "select_rev lib budget already used sel ms = Inr (out, tot)"
      using Cons.prems(1) by (simp add: t Let_def)
    from Cons.IH[OF rec Cons.prems(2-4)] show ?thesis by (metis list_emb_Cons)
  qed
qed

lemma subseq_revI: "subseq xs ys \<Longrightarrow> subseq (rev xs) (rev ys)"
  by (induction rule: list_emb.induct) (auto intro: list_emb_append_mono subseq_rev_drop_many)

lemma select_messages_spec:
  assumes "select_messages_within_budget lib ms budget already = Inr (out, tot)"
    and "unat budget < 2 ^ 64 - 1"
  shows "subseq out ms \<and> unat tot = messages_tokens lib out \<and> (out = [] \<or> unat already + unat tot \<le> unat budget)"
proof (cases "already \<ge> budget")
  case True
  with assms(1) show ?thesis by (simp add: select_messages_within_budget_def)
next
  case False
  then have sel: "select_rev lib budget already 0 [] (rev ms) = Inr (out, tot)"
    using assms(1) by (simp add: select_messages_within_budget_def)
  have "unat already \<le> unat budget" using False by (simp add: word_le_nat_alt)
  then obtain kept where "out = rev kept" "subseq kept (rev ms)" "unat tot = messages_tokens lib out"
    "unat already + unat tot \<le> unat budget"
    using select_rev_spec[OF sel assms(2)] by auto
  moreover have "subseq (rev kept) (rev (rev ms))" using calculation(2) by (rule subseq_revI)
  ultimately show ?thesis by simp
qed

lemma resolve_max_below: "resolve_max_context_tokens rt ctx = Inr n \<Longrightarrow> unat n < 2 ^ 32"
proof -
  assume "resolve_max_context_tokens rt ctx = Inr n"
  then obtain k :: u32 where "n = ucast k" by (auto simp: resolve_max_context_tokens_def)
  then show ?thesis using unsigned_less[of k, where 'a = nat] by (simp add: unat_ucast_u32)
qed

text \<open>What the provider gets instead of the whole conversation.\<close>

definition context_fits ::
    "libs \<Rightarrow> llm_context \<Rightarrow> u64 \<Rightarrow> u64 \<Rightarrow> u64 \<Rightarrow> memory_summary_state option \<Rightarrow> message list \<Rightarrow> llm_context \<Rightarrow> bool" where
  "context_fits lib ctx max_tokens safety tools_tokens st retrieved pc \<longleftrightarrow>
     (\<exists>sys hist. pc = ctx\<lparr>ctx_messages := sys @ retrieved @ hist\<rparr> \<and>
        subseq sys (system_messages_of st ctx) \<and> subseq hist (history_messages_of st ctx) \<and>
        messages_tokens lib (sys @ retrieved @ hist) + unat tools_tokens + unat safety \<le> unat max_tokens \<and>
        (\<forall>u. List.find (\<lambda>m. msg_role m = RUser) (rev (history_messages_of st ctx)) = Some u \<longrightarrow> u \<in> set hist))"

lemma assemble_fits:
  assumes ok: "assemble_provider_context lib ctx max_tokens safety tools_tokens st retrieved rtok = Inr pc"
    and max: "unat max_tokens < 2 ^ 32" and rtok: "unat rtok = messages_tokens lib retrieved"
  shows "context_fits lib ctx max_tokens safety tools_tokens st retrieved pc"
proof -
  let ?static = "saturating_add tools_tokens safety"
  let ?budget = "saturating_sub (saturating_sub max_tokens ?static) rtok"
  obtain sys stok hist htok where
    sys: "select_messages_within_budget lib (system_messages_of st ctx) ?budget 0 = Inr (sys, stok)"
    and hist: "select_messages_within_budget lib (history_messages_of st ctx) ?budget stok = Inr (hist, htok)"
    and user: "\<not> (case List.find (\<lambda>m. msg_role m = RUser) (rev (history_messages_of st ctx)) of
              Some u \<Rightarrow> u \<notin> set hist | None \<Rightarrow> False)"
    and total: "\<not> breakdown_total_tokens \<lparr>bd_max_context_tokens = max_tokens, bd_system_tokens = stok,
                bd_retrieved_memory_tokens = rtok, bd_history_tokens = htok,
                bd_tool_schema_tokens = tools_tokens, bd_safety_buffer_tokens = safety\<rparr> > max_tokens"
    and pc: "pc = ctx\<lparr>ctx_messages := sys @ retrieved @ hist\<rparr>"
    using ok by (auto simp: assemble_provider_context_def Let_def split: if_splits)
  have budget: "unat ?budget < 2 ^ 64 - 1" using max by (simp add: unat_saturating_sub)
  have "unat (breakdown_total_tokens \<lparr>bd_max_context_tokens = max_tokens, bd_system_tokens = stok,
      bd_retrieved_memory_tokens = rtok, bd_history_tokens = htok,
      bd_tool_schema_tokens = tools_tokens, bd_safety_buffer_tokens = safety\<rparr>) \<le> unat max_tokens"
    using total by (simp add: word_le_nat_alt not_less)
  then have "unat stok + unat rtok + unat htok + unat tools_tokens + unat safety \<le> unat max_tokens"
    using max by (simp add: breakdown_total_tokens_def unat_saturating_add min_def split: if_splits)
  then show ?thesis
    using select_messages_spec[OF sys budget] select_messages_spec[OF hist budget] user rtok
    unfolding context_fits_def pc by (intro exI[of _ sys] exI[of _ hist]) (auto split: option.splits)
qed

lemma fit_retrieved_tokens:
  "fit_retrieved lib s m rm = Inr (ms, t) \<Longrightarrow>
     unat t = messages_tokens lib ms \<and> ms = (if ms = [] then [] else [the rm]) \<and> (ms \<noteq> [] \<longrightarrow> rm \<noteq> None)"
  by (auto simp: fit_retrieved_def message_tokens_def split: option.splits if_splits)


definition ex_tight_runtime :: "nat agent_runtime" where
  "ex_tight_runtime = runtime_new ex_provider ex_registry
     (ex_limits\<lparr>context_budget := \<lparr>trigger_ratio = F_Fin (17/20), safety_buffer_tokens = 2, fallback_max_context_tokens = 5\<rparr>\<rparr>)"

definition ex_long_context :: llm_context where
  "ex_long_context = ex_context\<lparr>ctx_messages :=
     [plain_message RUser ''a long message'', plain_message RUser ''hi'']\<rparr>"


text \<open>The rough size check does not look at tool calls: whatever the arguments of the tool calls
  in a conversation weigh, it gives the same answer, so that a conversation whose size is
  in its tool calls is sent whole.\<close>

theorem rough_check_ignores_tool_calls:
  "is_obviously_within_budget lib (ctx\<lparr>ctx_messages := map (\<lambda>m. m\<lparr>msg_tool_calls := calls m\<rparr>) (ctx_messages ctx)\<rparr>) a b =
   is_obviously_within_budget lib ctx a b"
proof -
  have "map content_length (map (\<lambda>m. m\<lparr>msg_tool_calls := calls m\<rparr>) ms) = map content_length ms" for ms
    by (simp add: content_length_def)
  then show ?thesis by (simp add: is_obviously_within_budget_def del: map_map)
qed

text \<open>A tokenizer under which a message weighs the characters of its text and of its tool-call names.\<close>

definition ex_weighing_libs :: libs where
  "ex_weighing_libs = ex_libs\<lparr>lib_message_text :=
     (\<lambda>m. Some ((case msg_content m of Some c \<Rightarrow> c | None \<Rightarrow> []) @ concat (map tc_name (msg_tool_calls m))))\<rparr>"

definition ex_call_message :: message where
  "ex_call_message = \<lparr>msg_role = RAssistant, msg_content = Some ''let me look at the files'',
     msg_tool_calls = [\<lparr>tc_id = ''c1'', tc_name = ''file_read'', tc_arguments = JNull, tc_metadata = None\<rparr>],
     msg_tool_call_id = None, msg_attachments = []\<rparr>"

definition ex_result_message :: message where
  "ex_result_message = \<lparr>msg_role = RTool, msg_content = Some ''ok'', msg_tool_calls = [],
     msg_tool_call_id = Some ''c1'', msg_attachments = []\<rparr>"

text \<open>The selection skips a message that does not fit and goes on with older ones, so a tool result
  can be sent without the assistant message whose tool call it answers.\<close>

theorem selection_can_orphan_tool_result:
  "select_messages_within_budget ex_weighing_libs
     [plain_message RUser ''hi'', ex_call_message, ex_result_message] 10 0 =
   Inr ([plain_message RUser ''hi'', ex_result_message], 4)"
  by (simp add: select_messages_within_budget_def ex_weighing_libs_def ex_libs_def ex_call_message_def
      ex_result_message_def plain_message_def estimate_message_tokens_def estimate_text_tokens_def
      saturating_add_def)

section \<open>Progress of the rolling summary\<close>

lemma summarize_count_leaves_two: "summarize_count_from t r h \<le> length h - 2"
  by (induction t r h rule: summarize_count_from.induct) auto

lemma summarize_count_bound: "0 < summarize_count_from t r h \<Longrightarrow> summarize_count_from t r h + 2 \<le> length h"
  using summarize_count_leaves_two[of t r h] by linarith

lemma summarize_count_stops:
  assumes "n = summarize_count_from t r h" "n + 2 < length h"
  shows "unat r \<le> unat t + sum_list (map (\<lambda>(_, _, k). unat k) (take n h))"
  using assms
proof (induction t r h arbitrary: n rule: summarize_count_from.induct)
  case (2 t r s m k rest)
  show ?case
  proof (cases "t < r \<and> 1 < length rest")
    case True
    then obtain n' where n': "n = Suc n'" "n' = summarize_count_from t (saturating_sub r k) rest"
      using "2.prems"(1) by auto
    then have "unat (saturating_sub r k) \<le> unat t + sum_list (map (\<lambda>(_, _, k). unat k) (take n' rest))"
      using 2(1)[of n'] True "2.prems"(2) by simp
    then show ?thesis using n'(1) by (simp add: unat_saturating_sub)
  next
    case False
    then have "n = 0" using "2.prems"(1) by auto
    with False "2.prems"(2) have "r \<le> t" by auto
    with \<open>n = 0\<close> show ?thesis by (simp add: word_le_nat_alt)
  qed
qed simp

lemma unsummarized_indices:
  "unsummarized_history_from lib st i ms = Inr h \<Longrightarrow>
     \<exists>js. map fst h = map sequence_from_index js \<and> sorted_wrt (<) js \<and>
       set js = {j. i \<le> j \<and> j < i + length ms \<and> msg_role (ms ! (j - i)) \<noteq> RSystem \<and> \<not> is_summarized_sequence st j}"
proof (induction ms arbitrary: i h)
  case (Cons m ms)
  let ?J = "\<lambda>i ms. {j. i \<le> j \<and> j < i + length ms \<and> msg_role (ms ! (j - i)) \<noteq> RSystem \<and> \<not> is_summarized_sequence st j}"
  let ?skip = "msg_role m = RSystem \<or> is_summarized_sequence st i"
  have step: "?J i (m # ms) = (if ?skip then {} else {i}) \<union> ?J (Suc i) ms"
    by (auto simp: nth_Cons' Suc_le_eq)
  show ?case
  proof (cases ?skip)
    case True
    with Cons.prems have "unsummarized_history_from lib st (Suc i) ms = Inr h" by auto
    from Cons.IH[OF this] True step show ?thesis by auto
  next
    case False
    then obtain k rest where rest: "unsummarized_history_from lib st (Suc i) ms = Inr rest"
      "h = (sequence_from_index i, m, k) # rest"
      using Cons.prems by auto
    from Cons.IH[OF rest(1)] obtain js where js: "map fst rest = map sequence_from_index js" "sorted_wrt (<) js"
      "set js = ?J (Suc i) ms" by blast
    have "\<forall>j\<in>set js. i < j" using js(3) by auto
    with js rest(2) False step show ?thesis by (intro exI[of _ "i # js"]) auto
  qed
qed simp

lemma sequence_from_index_unat: "i < 2 ^ 64 - 1 \<Longrightarrow> unat (sequence_from_index i) = Suc i"
  by (simp add: sequence_from_index_def unat_saturating_add unsigned_of_nat take_bit_nat_eq_self)

text \<open>A rolling summary makes progress: when any messages are condensed, at least two
  unsummarised ones remain, the new upper sequence is above the old one, and either the
  estimate has come down to the target or exactly two messages remain.\<close>

theorem rolling_summary_progress:
  assumes "unsummarized_history_from lib st 0 ms = Inr h" and "length ms < 2 ^ 64 - 1"
    and "n = summarize_count_from target estimate h" and "0 < n"
  shows "n + 2 \<le> length h \<and>
     (\<forall>s. st = Some s \<longrightarrow> mss_upper_sequence s < fst (last (take n h))) \<and>
     (n + 2 = length h \<or> unat estimate \<le> unat target + sum_list (map (\<lambda>(_, _, k). unat k) (take n h)))"
proof (intro conjI allI impI)
  show bound: "n + 2 \<le> length h" using assms(3,4) summarize_count_bound by blast
  show "n + 2 = length h \<or> unat estimate \<le> unat target + sum_list (map (\<lambda>(_, _, k). unat k) (take n h))"
    using summarize_count_stops[OF assms(3)] bound by linarith
  fix s assume st: "st = Some s"
  obtain js where js: "map fst h = map sequence_from_index js"
    "set js = {j. 0 \<le> j \<and> j < 0 + length ms \<and> msg_role (ms ! (j - 0)) \<noteq> RSystem \<and> \<not> is_summarized_sequence st j}"
    using unsummarized_indices[OF assms(1)] by blast
  have "take n h \<noteq> []" using assms(4) bound by auto
  then have "last (take n h) \<in> set h" by (meson in_set_takeD last_in_set)
  then have "fst (last (take n h)) \<in> set (map fst h)" by simp
  then obtain j where j: "j \<in> set js" "fst (last (take n h)) = sequence_from_index j" unfolding js(1) by auto
  have "0 < unat (sequence_from_index j)" using j(1) js(2) assms(2) by (simp add: sequence_from_index_unat)
  moreover have "\<not> is_summarized_sequence st j" using j(1) unfolding js(2) by blast
  ultimately show "mss_upper_sequence s < fst (last (take n h))"
    unfolding j(2) st is_summarized_sequence_def by (simp add: word_less_nat_alt word_le_nat_alt) linarith
qed

definition ex_summary :: memory_summary_state where
  "ex_summary = \<lparr>mss_epoch = 1, mss_upper_sequence = 1, mss_summary = ''s''\<rparr>"

definition ex_history :: "message list" where
  "ex_history = [plain_message RUser ''a'', plain_message RUser ''bbb'', plain_message RAssistant ''ccc'', plain_message RUser ''d'']"

theorem rolling_summary_progress_witness:
  "\<exists>h. unsummarized_history_from ex_libs (Some ex_summary) 0 ex_history = Inr h \<and>
     mss_upper_sequence ex_summary < fst (last (take 1 h))"
proof -
  let ?h = "[(2, plain_message RUser ''bbb'', 3), (3, plain_message RAssistant ''ccc'', 3), (4, plain_message RUser ''d'', 1)]"
  have h: "unsummarized_history_from ex_libs (Some ex_summary) 0 ex_history = Inr ?h"
    by (simp add: ex_history_def ex_summary_def ex_libs_def plain_message_def is_summarized_sequence_def
        sequence_from_index_def saturating_add_def estimate_message_tokens_def estimate_text_tokens_def word_le_nat_alt)
  have n: "1 = summarize_count_from 4 7 ?h" by (simp add: saturating_sub_def)
  from rolling_summary_progress[OF h _ n] show ?thesis using h by (auto simp: ex_history_def)
qed

section \<open>The cost limit\<close>

text \<open>The cost checks of successive turns, until one fails.\<close>

fun run_cost_checks :: "'w agent_runtime \<Rightarrow> usage_update option list \<Rightarrow> f64 \<Rightarrow> (runtime_error, unit) result \<times> f64" where
  "run_cost_checks rt [] acc = (Inr (), acc)"
| "run_cost_checks rt (u # us) acc =
     (case enforce_cost_budget rt u acc of (Inl e, acc') \<Rightarrow> (Inl e, acc') | (Inr _, acc') \<Rightarrow> run_cost_checks rt us acc')"

definition turn_tokens :: "usage_update option \<Rightarrow> nat" where
  "turn_tokens u = (case Option.bind u usage_total_tokens of Some t \<Rightarrow> unat t | None \<Rightarrow> 0)"

lemma enforce_cost_step:
  assumes "max_cost (rt_limits rt) = Some (F_Fin limit)" "n + turn_tokens u < 2 ^ 53"
  shows "enforce_cost_budget rt u (F_Fin (of_nat n)) =
     (case Option.bind u usage_total_tokens of
        None \<Rightarrow> (Inl EBudgetExceeded, F_Fin (of_nat n))
      | Some t \<Rightarrow> (if limit < of_nat (n + unat t) then Inl EBudgetExceeded else Inr (), F_Fin (of_nat (n + unat t))))"
proof (cases "Option.bind u usage_total_tokens")
  case None
  then have "Option.bind u usage_to_cost = None" by (cases u) (auto simp: usage_to_cost_def)
  with None assms(1) show ?thesis by (simp add: enforce_cost_budget_def)
next
  case (Some t)
  then have "Option.bind u usage_to_cost = Some (f64_of_nat (unat t))" by (cases u) (auto simp: usage_to_cost_def)
  moreover have "turn_tokens u = unat t" by (simp add: turn_tokens_def Some)
  ultimately show ?thesis
    using assms Some f64_add_nat[of n "unat t"]
    by (simp add: enforce_cost_budget_def f64_of_nat_exact Let_def del: of_nat_unat of_nat_add)
qed

lemma run_cost_checks_sum:
  assumes "max_cost (rt_limits rt) = Some (F_Fin limit)" "n + sum_list (map turn_tokens us) < 2 ^ 53"
    and "run_cost_checks rt us (F_Fin (of_nat n)) = (Inr (), acc)"
  shows "acc = F_Fin (of_nat (n + sum_list (map turn_tokens us))) \<and>
     (us = [] \<or> (of_nat (n + sum_list (map turn_tokens us)) :: rat) \<le> limit)"
  using assms(2,3)
proof (induction us arbitrary: n)
  case (Cons u us)
  obtain t where t: "Option.bind u usage_total_tokens = Some t" and le: "\<not> limit < of_nat (n + unat t)"
    and rest: "run_cost_checks rt us (F_Fin (of_nat (n + unat t))) = (Inr (), acc)"
    using Cons.prems enforce_cost_step[OF assms(1), of n u] by (auto split: option.splits if_splits)
  have tok: "turn_tokens u = unat t" by (simp add: turn_tokens_def t)
  have "n + unat t + sum_list (map turn_tokens us) < 2 ^ 53" using Cons.prems(1) tok by simp
  from Cons.IH[OF this rest] le tok show ?case by (cases us) (auto simp: add.assoc)
qed simp

text \<open>Without a run policy, a session whose turns all pass the cost check has spent at most the
  configured limit, and every turn has reported its usage; the floating-point sum is the
  exact number of tokens as long as that is below \<open>2^53\<close>.\<close>

theorem cost_limit_respected:
  assumes "max_cost (rt_limits rt) = Some (F_Fin limit)" and "us \<noteq> []"
    and "sum_list (map turn_tokens us) < 2 ^ 53"
    and "run_cost_checks rt us (F_Fin 0) = (Inr (), acc)"
  shows "acc = F_Fin (of_nat (sum_list (map turn_tokens us))) \<and>
     (of_nat (sum_list (map turn_tokens us)) :: rat) \<le> limit"
  using run_cost_checks_sum[OF assms(1), of 0 us acc] assms(2-4) by auto

definition ex_costed_runtime :: "nat agent_runtime" where
  "ex_costed_runtime = runtime_new ex_provider ex_registry (ex_limits\<lparr>max_cost := Some (F_Fin 100)\<rparr>)"

definition ex_usage :: "nat \<Rightarrow> usage_update option" where
  "ex_usage n = Some \<lparr>prompt_tokens = None, completion_tokens = None, total_tokens = Some (of_nat n)\<rparr>"

theorem cost_limit_respected_witness:
  "fst (run_cost_checks ex_costed_runtime [ex_usage 40, ex_usage 50] (F_Fin 0)) = Inr () \<and>
   (of_nat (sum_list (map turn_tokens [ex_usage 40, ex_usage 50])) :: rat) \<le> 100"
proof -
  have cost: "max_cost (rt_limits ex_costed_runtime) = Some (F_Fin 100)"
    by (simp add: ex_costed_runtime_def runtime_new_def)
  have t: "turn_tokens (ex_usage 40) = 40" "turn_tokens (ex_usage 50) = 50"
    "Option.bind (ex_usage 40) usage_total_tokens = Some 40" "Option.bind (ex_usage 50) usage_total_tokens = Some 50"
    by (simp_all add: turn_tokens_def ex_usage_def usage_total_tokens_def)
  have run: "run_cost_checks ex_costed_runtime [ex_usage 40, ex_usage 50] (F_Fin 0) = (Inr (), F_Fin (of_nat 90))"
    using enforce_cost_step[OF cost, of 0 "ex_usage 40"] enforce_cost_step[OF cost, of 40 "ex_usage 50"] t by simp
  from cost_limit_respected[OF cost _ _ run] t run show ?thesis by simp
qed

end
