(* ===== verification/Tool_Execution.thy ===== *)
theory Tool_Execution
  imports Context_Budget
begin

text \<open>
  Execution of one tool call by the runtime (crate \<open>runtime\<close>, \<open>tool_execution.rs\<close>): the
  arguments are checked against the tool's schema, loosened for what models send, virtual
  paths are translated, the call is dispatched to the registry under the turn timeout and
  the cancellation token, and the outcome becomes a tool message, scrubbed of host paths
  and secrets. And the session memory (\<open>memory.rs\<close>, \<open>restore_session\<close> of \<open>lib.rs\<close>): the
  messages of a conversation are stored under consecutive sequence numbers.

  \<open>call_env\<close> is what happens around a call: whether the cancellation token is set, whether a
  running call is interrupted by it or by the turn timeout (and the state it leaves
  behind), and the clock.
\<close>

section \<open>Loosening a schema\<close>

lemma json_member_size: "(k, v) \<in> set kvs \<Longrightarrow> size v < size (JObj kvs)"
  by (induction kvs) auto

function (sequential) strip_additional_properties :: "json \<Rightarrow> json" and strip_values :: "json \<Rightarrow> json" where
  "strip_additional_properties (JObj kvs) =
     JObj (bt_remove ''additionalProperties'' (map (\<lambda>(k, v).
       (k, if k = ''properties'' then strip_values v
           else if k = ''items'' then strip_additional_properties v else v)) kvs))"
| "strip_additional_properties j = j"
| "strip_values (JObj kvs) = JObj (map (\<lambda>(k, v). (k, strip_additional_properties v)) kvs)"
| "strip_values j = j"
  by pat_completeness auto
termination
  by (relation "measure (case_sum size size)") (auto dest: json_member_size)

definition strip_null_optional_fields :: "json \<Rightarrow> json \<Rightarrow> json" where
  "strip_null_optional_fields args schema =
     (case (args, as_object schema) of
        (JObj obj, Some schema_obj) \<Rightarrow>
          let required = (case Option.bind (map_of schema_obj ''required'') as_array of
                Some arr \<Rightarrow> List.map_filter as_str arr | None \<Rightarrow> []);
              null_optional_keys = map fst (filter (\<lambda>(k, v). v = JNull \<and> k \<notin> set required) obj)
          in JObj (fold bt_remove null_optional_keys obj)
      | _ \<Rightarrow> args)"

section \<open>One tool call\<close>

record 'w call_env =
  env_is_cancelled :: "'w host \<Rightarrow> bool"
  env_interrupt :: "string \<Rightarrow> string \<Rightarrow> 'w host \<Rightarrow> (bool \<times> 'w host) option"
  env_now :: "'w host \<Rightarrow> datetime"

definition invalid_streamed_arguments :: "json \<Rightarrow> string option" where
  "invalid_streamed_arguments arguments =
     Option.bind (as_object arguments) (\<lambda>obj.
     Option.bind (Option.bind (map_of obj INVALID_TOOL_ARGS_RAW_KEY) as_str) (\<lambda>raw_payload.
     Option.bind (Option.bind (map_of obj INVALID_TOOL_ARGS_ERROR_KEY) as_str) (\<lambda>parse_error.
       Some (''invalid JSON arguments payload: '' @ parse_error @ ''; raw payload: '' @ raw_payload))))"

text \<open>The arguments as the registry gets them, or why the call is refused before it.\<close>

definition check_call_arguments ::
    "libs \<Rightarrow> 'w agent_runtime \<Rightarrow> string \<Rightarrow> json \<Rightarrow> (runtime_error, string) result" where
  "check_call_arguments lib rt name arguments =
     bind_result (ok_or (registry_get (rt_tool_registry rt) name)
       (ETool (ExecutionFailed name (''unknown tool `'' @ name @ ''`'')))) (\<lambda>t.
     case invalid_streamed_arguments arguments of
       Some m \<Rightarrow> Inl (ETool (InvalidArguments name m))
     | None \<Rightarrow>
       let schema_json = strip_additional_properties (fd_parameters (tool_schema t));
           validation_args = strip_null_optional_fields arguments schema_json
       in bind_result (map_err (lib_validator lib schema_json) (\<lambda>e.
            ETool (ExecutionFailed name (''failed to compile validation schema: '' @ e)))) (\<lambda>errors_of.
          let errors = errors_of validation_args in
          if errors \<noteq> []
          then Inl (ETool (InvalidArguments name (''schema validation failed:'' @ nl @
                 join nl (map (\<lambda>e. ''- '' @ e) errors))))
          else map_err (to_json_string (lib_json lib)
                 (translate_tool_arg_paths name validation_args (rt_path_scrub_mappings rt)))
                 (\<lambda>e. ETool (ToolSerialization e))))"

definition execute_tool_call ::
    "libs \<Rightarrow> 'w agent_runtime \<Rightarrow> 'w call_env \<Rightarrow> string \<Rightarrow> json \<Rightarrow> 'w tool_execution_context \<Rightarrow>
     ('w host, runtime_error, string) action" where
  "execute_tool_call lib rt env name arguments tool_context =
     bind_action (lift_action (check_call_arguments lib rt name arguments)) (\<lambda>arg_str w.
       case env_interrupt env name arg_str w of
         Some (True, w') \<Rightarrow> (Inl ECancelled, w')
       | Some (False, w') \<Rightarrow>
           (Inl (ETool (ExecutionFailed name (''tool execution timed out after '' @
             duration_debug (turn_timeout (rt_limits rt))))), w')
       | None \<Rightarrow>
           (case execute_with_context (lib_json lib) (rt_tool_registry rt) name arg_str tool_context w of
              (r, w') \<Rightarrow> (map_err r ETool, w')))"

text \<open>Printing of errors. \<open>{:?}\<close> of a text escapes quotes, backslashes and control characters.\<close>

definition hex_digit :: "nat \<Rightarrow> char" where
  "hex_digit d = (if d < 10 then char_of (48 + d) else char_of (87 + d))"

definition debug_char :: "char \<Rightarrow> string" where
  "debug_char c =
     (if c = CHR 0x22 then [CHR 0x5C, CHR 0x22]
      else if c = CHR 0x5C then [CHR 0x5C, CHR 0x5C]
      else if c = CHR 0x0A then [CHR 0x5C, CHR ''n'']
      else if c = CHR 0x0D then [CHR 0x5C, CHR ''r'']
      else if c = CHR 0x09 then [CHR 0x5C, CHR ''t'']
      else if c = CHR 0x00 then [CHR 0x5C, CHR ''0'']
      else if code_of c < 16 then [CHR 0x5C] @ ''u{'' @ [hex_digit (code_of c)] @ ''}''
      else if code_of c < 32 \<or> code_of c = 127
        then [CHR 0x5C] @ ''u{'' @ [hex_digit (code_of c div 16), hex_digit (code_of c mod 16)] @ ''}''
      else [c])"

fun stop_reason_debug :: "stop_reason \<Rightarrow> string" where
  "stop_reason_debug Completed = ''Completed''"
| "stop_reason_debug StopCancelled = ''Cancelled''"
| "stop_reason_debug MaxTurns = ''MaxTurns''"
| "stop_reason_debug MaxRuntimeExceeded = ''MaxRuntimeExceeded''"
| "stop_reason_debug MaxBudgetExceeded = ''MaxBudgetExceeded''"
| "stop_reason_debug ToolDisallowed = ''ToolDisallowed''"
| "stop_reason_debug ToolPermissionDenied = ''ToolPermissionDenied''"
| "stop_reason_debug ProviderTimedOut = ''ProviderTimedOut''"
| "stop_reason_debug (StopError e) = ''Error('' @ [CHR 0x22] @ concat (map debug_char e) @ [CHR 0x22] @ '')''"

fun tool_error_display :: "tool_error \<Rightarrow> string" where
  "tool_error_display (InvalidArguments t m) = ''invalid arguments for tool '' @ t @ '': '' @ m"
| "tool_error_display (ExecutionFailed t m) = ''tool execution failed for '' @ t @ '': '' @ m"
| "tool_error_display (PolicyViolation r) = ''tool execution blocked by policy: '' @ stop_reason_debug r"
| "tool_error_display (ToolSerialization e) = ''tool serialization failed: '' @ e"

fun provider_error_display :: "provider_error \<Rightarrow> string" where
  "provider_error_display (UnknownModel p m) = ''unknown model id `'' @ m @ ''` for provider `'' @ p @ ''`''"
| "provider_error_display (MissingApiKey p) = ''missing API key for provider `'' @ p @ ''`''"
| "provider_error_display (Transport p m) = ''provider transport failed for `'' @ p @ ''`: '' @ m"
| "provider_error_display (HttpStatus p n m) =
     ''provider `'' @ p @ ''` returned HTTP '' @ nat_to_string n @ '': '' @ m"
| "provider_error_display (ResponseParse p m) = ''provider response parsing failed for `'' @ p @ ''`: '' @ m"
| "provider_error_display (RequestFailed p m) = ''provider request failed for '' @ p @ '': '' @ m"
| "provider_error_display (ProviderSerialization e) = ''provider serialization failed: '' @ e"

fun memory_error_display :: "memory_error \<Rightarrow> string" where
  "memory_error_display (MemConnection m) = ''memory connection failed: '' @ m"
| "memory_error_display (MemInitialization m) = ''memory initialization failed: '' @ m"
| "memory_error_display (MemMigration m) = ''memory migration failed: '' @ m"
| "memory_error_display (MemQuery m) = ''memory query failed: '' @ m"
| "memory_error_display (MemSerialization e) = ''memory serialization failed: '' @ e"
| "memory_error_display (MemNotFound s) = ''memory item not found for session `'' @ s @ ''`''"

fun scheduler_error_display :: "scheduler_error \<Rightarrow> string" where
  "scheduler_error_display (InvalidCronExpression e r) = ''invalid cron expression: '' @ e @ '': '' @ r"
| "scheduler_error_display (InvalidCadence r) = ''invalid schedule cadence: '' @ r"
| "scheduler_error_display (SchedNotFound s) = ''schedule not found: '' @ s"
| "scheduler_error_display (SchedStore m) = ''schedule store error: '' @ m"
| "scheduler_error_display (SchedExecution m) = ''schedule execution failed: '' @ m"
| "scheduler_error_display (LimitExceeded u n) =
     ''user '' @ u @ '' has reached the maximum number of schedules ('' @ nat_to_string n @ '')''"
| "scheduler_error_display (Unauthorized s u) =
     ''unauthorized: schedule '' @ s @ '' does not belong to user '' @ u"

fun runtime_error_display :: "runtime_error \<Rightarrow> string" where
  "runtime_error_display (EProvider e) = provider_error_display e"
| "runtime_error_display (ETool e) = tool_error_display e"
| "runtime_error_display (EMemory e) = memory_error_display e"
| "runtime_error_display (EScheduler e) = scheduler_error_display e"
| "runtime_error_display ECancelled = ''turn cancelled''"
| "runtime_error_display EBudgetExceeded = ''turn budget exceeded''"
| "runtime_error_display ETurnLimitExceeded = ''turn limit exceeded''"
| "runtime_error_display EDeadlineExceeded = ''deadline exceeded''"

definition scrub_output :: "libs \<Rightarrow> 'w agent_runtime \<Rightarrow> string \<Rightarrow> string" where
  "scrub_output lib rt out =
     scrub_tool_output (lib_keywords lib) (lib_entropy_high lib) (scrub_host_paths out (rt_path_scrub_mappings rt))"

definition tool_result_message :: "string \<Rightarrow> string \<Rightarrow> message" where
  "tool_result_message call_id out = \<lparr>msg_role = RTool, msg_content = Some out, msg_tool_calls = [],
     msg_tool_call_id = Some call_id, msg_attachments = []\<rparr>"

definition execute_tool_and_format ::
    "libs \<Rightarrow> 'w agent_runtime \<Rightarrow> 'w call_env \<Rightarrow> tool_call \<Rightarrow> 'w tool_execution_context \<Rightarrow>
     ('w host, runtime_error, message) action" where
  "execute_tool_and_format lib rt env tc tool_context w =
     (case execute_tool_call lib rt env (tc_name tc) (tc_arguments tc) tool_context w of
        (Inr out, w') \<Rightarrow> (Inr (tool_result_message (tc_id tc) (scrub_output lib rt out)), w')
      | (Inl (ETool err), w') \<Rightarrow>
          (Inr (tool_result_message (tc_id tc)
             (scrub_output lib rt (''Tool execution failed: '' @ tool_error_display err))), w')
      | (Inl e, w') \<Rightarrow> (Inl e, w'))"

section \<open>Session memory\<close>

definition next_memory_sequence :: "'w agent_runtime \<Rightarrow> string option \<Rightarrow> ('w host, runtime_error, u64) action" where
  "next_memory_sequence rt session_id w =
     (case (rt_memory rt, session_id) of
        (Some mem, Some sid) \<Rightarrow>
          (case mem_recall mem sid (Some 1) w of
             (Inr records, w') \<Rightarrow>
               (Inr (if records = [] then 1 else saturating_add (mr_sequence (last records)) 1), w')
           | (Inl (MemNotFound _), w') \<Rightarrow> (Inr 1, w')
           | (Inl e, w') \<Rightarrow> (Inl (EMemory e), w'))
      | _ \<Rightarrow> (Inr 1, w))"

definition message_for_memory :: "message \<Rightarrow> message" where
  "message_for_memory m = m\<lparr>msg_attachments := map (\<lambda>a. a\<lparr>im_data := []\<rparr>) (msg_attachments m)\<rparr>"

definition persist_message_if_needed ::
    "libs \<Rightarrow> 'w agent_runtime \<Rightarrow> string option \<Rightarrow> message \<Rightarrow> u64 \<Rightarrow> ('w host, runtime_error, u64) action" where
  "persist_message_if_needed lib rt session_id m next_sequence =
     (case (rt_memory rt, session_id) of
        (Some mem, Some sid) \<Rightarrow>
          bind_action (lift_action (map_err (lib_message_value lib (message_for_memory m))
              (\<lambda>e. EMemory (MemSerialization e)))) (\<lambda>payload.
          bind_action (memory_action (mem_store mem sid next_sequence payload)) (\<lambda>_.
          ret_action (saturating_add next_sequence 1)))
      | _ \<Rightarrow> ret_action next_sequence)"

fun persist_all ::
    "libs \<Rightarrow> 'w agent_runtime \<Rightarrow> string option \<Rightarrow> message list \<Rightarrow> u64 \<Rightarrow> ('w host, runtime_error, u64) action" where
  "persist_all lib rt session_id [] next_sequence = ret_action next_sequence"
| "persist_all lib rt session_id (m # ms) next_sequence =
     bind_action (persist_message_if_needed lib rt session_id m next_sequence) (persist_all lib rt session_id ms)"

definition persist_context_tail_if_needed ::
    "libs \<Rightarrow> 'w agent_runtime \<Rightarrow> string option \<Rightarrow> u64 \<Rightarrow> llm_context \<Rightarrow> ('w host, runtime_error, u64) action" where
  "persist_context_tail_if_needed lib rt session_id next_sequence ctx =
     (if session_id = None \<or> Option.is_none (rt_memory rt) then ret_action next_sequence
      else persist_all lib rt session_id (drop (unat (saturating_sub next_sequence 1)) (ctx_messages ctx)) next_sequence)"

fun messages_of_records :: "libs \<Rightarrow> memory_record list \<Rightarrow> (runtime_error, message list) result" where
  "messages_of_records lib [] = Inr []"
| "messages_of_records lib (r # rs) =
     bind_result (map_err (lib_value_message lib (mr_payload r)) (\<lambda>e. EMemory (MemSerialization e))) (\<lambda>m.
     bind_result (messages_of_records lib rs) (\<lambda>ms. Inr (m # ms)))"

definition restore_session ::
    "libs \<Rightarrow> 'w agent_runtime \<Rightarrow> string \<Rightarrow> llm_context \<Rightarrow> u64 option \<Rightarrow> ('w host, runtime_error, llm_context) action" where
  "restore_session lib rt sid ctx limit w =
     (case rt_memory rt of
        None \<Rightarrow> (Inr ctx, w)
      | Some mem \<Rightarrow>
        (case mem_recall mem sid limit w of
           (Inr records, w') \<Rightarrow>
             (bind_result (messages_of_records lib records) (\<lambda>ms. Inr (ctx\<lparr>ctx_messages := ms\<rparr>)), w')
         | (Inl (MemNotFound _), w') \<Rightarrow> (Inr ctx, w')
         | (Inl e, w') \<Rightarrow> (Inl (EMemory e), w')))"

section \<open>Lemmas on tool calls\<close>

lemma fold_bt_remove: "map_of (fold bt_remove ks kvs) k = (if k \<in> set ks then None else map_of kvs k)"
  by (induction ks arbitrary: kvs) (auto simp: map_of_bt_remove)

text \<open>Before validation exactly the null-valued arguments that the schema does not require are
  dropped; every other argument is passed on unchanged.\<close>

theorem strip_null_optional_exact:
  assumes "distinct (map fst obj)" and "as_object schema = Some sch"
    and "required = (case Option.bind (map_of sch ''required'') as_array of
           Some arr \<Rightarrow> List.map_filter as_str arr | None \<Rightarrow> [])"
  shows "json_get (strip_null_optional_fields (JObj obj) schema) k =
     (if map_of obj k = Some JNull \<and> k \<notin> set required then None else map_of obj k)"
proof -
  let ?ks = "map fst (filter (\<lambda>(k, v). v = JNull \<and> k \<notin> set required) obj)"
  have "k \<in> set ?ks \<longleftrightarrow> map_of obj k = Some JNull \<and> k \<notin> set required"
    using assms(1) by (force simp: map_of_eq_Some_iff)
  then show ?thesis
    using fold_bt_remove[of ?ks obj k] assms(2,3)
    by (simp add: strip_null_optional_fields_def json_get_def Let_def)
qed

theorem strip_null_optional_exact_witness:
  "json_get (strip_null_optional_fields (JObj [(''a'', JNull), (''b'', JNull)])
     (JObj [(''required'', JArr [JStr ''b''])])) ''a'' = None \<and>
   json_get (strip_null_optional_fields (JObj [(''a'', JNull), (''b'', JNull)])
     (JObj [(''required'', JArr [JStr ''b''])])) ''b'' = Some JNull"
  using strip_null_optional_exact[of "[(''a'', JNull), (''b'', JNull)]" "JObj [(''required'', JArr [JStr ''b''])]"
      "[(''required'', JArr [JStr ''b''])]"]
  by (simp add: List.map_filter_simps)

lemma check_call_arguments_ETool: "check_call_arguments lib rt name args = Inl e \<Longrightarrow> \<exists>t. e = ETool t"
  by (auto simp: check_call_arguments_def bind_result_Inl Let_def split: option.splits if_splits
      elim!: ok_or.elims map_err.elims)

lemma execute_tool_call_error:
  assumes "execute_tool_call lib rt env name args ctx w = (Inl e, w')"
  shows "(\<exists>t. e = ETool t) \<or> e = ECancelled \<and> (\<exists>a. env_interrupt env name a w = Some (True, w'))"
proof (cases "check_call_arguments lib rt name args")
  case (Inl e')
  with assms show ?thesis using check_call_arguments_ETool[OF Inl] by (auto simp: execute_tool_call_def)
next
  case (Inr a)
  then show ?thesis using assms
    by (auto simp: execute_tool_call_def split: option.splits bool.splits prod.splits elim!: map_err.elims)
qed

lemma tool_call_answered:
  "case execute_tool_and_format lib rt env tc ctx w of
     (Inr m, w') \<Rightarrow> msg_role m = RTool \<and> msg_tool_call_id m = Some (tc_id tc) \<and> msg_tool_calls m = [] \<and>
       (\<exists>out. msg_content m = Some out \<and>
          list_all (\<lambda>t. \<not> looks_like_secret_token (lib_entropy_high lib) t) (token_candidates out))
   | (Inl e, w') \<Rightarrow> e = ECancelled \<and> (\<exists>a. env_interrupt env (tc_name tc) a w = Some (True, w'))"
proof -
  have clean: "list_all (\<lambda>t. \<not> looks_like_secret_token (lib_entropy_high lib) t) (token_candidates (scrub_output lib rt out))"
    for out
    by (simp add: scrub_output_def scrub_tool_output_def Let_def redact_high_entropy_tokens_def candidates_redact
        list_all_iff)
  obtain r w' where r: "execute_tool_call lib rt env (tc_name tc) (tc_arguments tc) ctx w = (r, w')" by fastforce
  show ?thesis
  proof (cases r)
    case (Inl e)
    then consider t where "e = ETool t"
      | a where "e = ECancelled" "env_interrupt env (tc_name tc) a w = Some (True, w')"
      using r execute_tool_call_error by blast
    then show ?thesis
      by cases (use r Inl clean in \<open>auto simp: execute_tool_and_format_def tool_result_message_def intro: exI\<close>)
  next
    case (Inr out)
    with r clean show ?thesis by (simp add: execute_tool_and_format_def tool_result_message_def)
  qed
qed


section \<open>Lemmas on the session memory\<close>

text \<open>
  A memory that stores what it is given: \<open>stored\<close> shows the records of a session, and a
  store appends one.
\<close>

definition appends :: "'w memory \<Rightarrow> string \<Rightarrow> ('w host \<Rightarrow> (u64 \<times> json) list) \<Rightarrow> bool" where
  "appends mem sid stored \<longleftrightarrow>
     (\<forall>n j w. \<exists>w'. mem_store mem sid n j w = (Inr (), w') \<and> stored w' = stored w @ [(n, j)])"

definition payload_of :: "libs \<Rightarrow> message \<Rightarrow> json" where
  "payload_of lib m = (case lib_message_value lib (message_for_memory m) of Inr j \<Rightarrow> j | Inl _ \<Rightarrow> JNull)"

definition serializable :: "libs \<Rightarrow> message \<Rightarrow> bool" where
  "serializable lib m = is_ok (lib_message_value lib (message_for_memory m))"

lemma is_ok_iff: "is_ok r \<longleftrightarrow> (\<exists>x. r = Inr x)"
  by (cases r) auto

lemma persist_one:
  assumes "rt_memory rt = Some mem" "appends mem sid stored" "serializable lib m"
  shows "\<exists>w'. persist_message_if_needed lib rt (Some sid) m n w = (Inr (saturating_add n 1), w') \<and>
     stored w' = stored w @ [(n, payload_of lib m)]"
proof -
  obtain j where j: "lib_message_value lib (message_for_memory m) = Inr j"
    using assms(3) by (auto simp: serializable_def is_ok_iff)
  obtain w' where w': "mem_store mem sid n j w = (Inr (), w')" "stored w' = stored w @ [(n, j)]"
    using assms(2) unfolding appends_def by blast
  then have "memory_action (mem_store mem sid n j) w = (Inr (), w')" by (simp add: memory_action_def)
  then show ?thesis
    using w'(2) by (simp add: persist_message_if_needed_def assms(1) j payload_of_def bind_action_step ret_action_def)
qed

lemma persist_all_stores:
  assumes "rt_memory rt = Some mem" "appends mem sid stored" "\<forall>m\<in>set ms. serializable lib m"
    and "unat n + length ms < 2 ^ 64"
  shows "\<exists>w'. persist_all lib rt (Some sid) ms n w = (Inr (n + of_nat (length ms)), w') \<and>
     stored w' = stored w @ map (\<lambda>(i, m). (n + of_nat i, payload_of lib m)) (List.enumerate 0 ms)"
  using assms(3,4)
proof (induction ms arbitrary: n w)
  case Nil
  then show ?case by (simp add: ret_action_def)
next
  case (Cons m ms)
  obtain w1 where w1: "persist_message_if_needed lib rt (Some sid) m n w = (Inr (saturating_add n 1), w1)"
    "stored w1 = stored w @ [(n, payload_of lib m)]"
    using persist_one[OF assms(1,2), of lib m n w] Cons.prems(1) by auto
  have n1: "saturating_add n 1 = n + 1" "unat (n + 1) = unat n + 1"
    using Cons.prems(2) unat_add_below[of n 1] by (simp_all add: saturating_add_def)
  obtain w2 where w2: "persist_all lib rt (Some sid) ms (n + 1) w1 = (Inr (n + 1 + of_nat (length ms)), w2)"
    "stored w2 = stored w1 @ map (\<lambda>(i, m). (n + 1 + of_nat i, payload_of lib m)) (List.enumerate 0 ms)"
    using Cons.IH[of "n + 1" w1] Cons.prems n1 by auto
  have "map (\<lambda>(i, m). (n + 1 + of_nat i, payload_of lib m)) (List.enumerate 0 ms) =
      map (\<lambda>(i, m). (n + of_nat i, payload_of lib m)) (List.enumerate 1 ms)"
    by (simp add: enumerate_Suc_eq comp_def case_prod_beta add.assoc)
  with w1 w2 n1 show ?case by (simp add: bind_action_step add.assoc)
qed

text \<open>The memory of a session mirrors its conversation: when the records of the first \<open>k\<close> messages
  are stored, persisting the tail stores exactly the records of the remaining ones, in
  order, under the sequence numbers \<open>k + 1\<close> onwards, with attachment data left out.\<close>

theorem context_tail_persisted:
  assumes "rt_memory rt = Some mem" and "appends mem sid stored"
    and "\<forall>m\<in>set (ctx_messages ctx). serializable lib m" and "length (ctx_messages ctx) < 2 ^ 64 - 1"
    and "k \<le> length (ctx_messages ctx)"
    and "stored w = map (\<lambda>(i, m). (of_nat (Suc i), payload_of lib m)) (List.enumerate 0 (take k (ctx_messages ctx)))"
  shows "\<exists>w'. persist_context_tail_if_needed lib rt (Some sid) (of_nat (Suc k)) ctx w =
       (Inr (of_nat (Suc (length (ctx_messages ctx)))), w') \<and>
     stored w' = map (\<lambda>(i, m). (of_nat (Suc i), payload_of lib m)) (List.enumerate 0 (ctx_messages ctx))"
proof -
  let ?ms = "ctx_messages ctx"
  have uk: "unat (of_nat (Suc k) :: u64) = Suc k"
    using assms(4,5) by (simp add: unsigned_of_nat take_bit_nat_eq_self del: of_nat_Suc)
  have start: "unat (saturating_sub (of_nat (Suc k) :: u64) 1) = k"
    by (simp add: unat_saturating_sub uk del: of_nat_Suc)
  have fits: "unat (of_nat (Suc k) :: u64) + length (drop k ?ms) < 2 ^ 64" using uk assms(4,5) by simp
  have ser: "\<forall>m\<in>set (drop k ?ms). serializable lib m" using assms(3) by (meson in_set_dropD)
  obtain w' where w': "persist_all lib rt (Some sid) (drop k ?ms) (of_nat (Suc k)) w =
      (Inr (of_nat (Suc k) + of_nat (length (drop k ?ms))), w')"
    "stored w' = stored w @ map (\<lambda>(i, m). (of_nat (Suc k) + of_nat i, payload_of lib m)) (List.enumerate 0 (drop k ?ms))"
    using persist_all_stores[OF assms(1,2) ser fits] by blast
  have shift: "map (\<lambda>(i, m). (of_nat (Suc k) + of_nat i :: u64, payload_of lib m)) (List.enumerate 0 (drop k ?ms)) =
      map (\<lambda>(i, m). (of_nat (Suc i), payload_of lib m)) (List.enumerate k (drop k ?ms))"
    by (rule nth_equalityI) (auto simp: nth_enumerate_eq add.assoc)
  have "List.enumerate 0 ?ms = List.enumerate 0 (take k ?ms) @ List.enumerate k (drop k ?ms)"
    using enumerate_append_eq[of 0 "take k ?ms" "drop k ?ms"] assms(5) by simp
  then have "stored w' = map (\<lambda>(i, m). (of_nat (Suc i), payload_of lib m)) (List.enumerate 0 ?ms)"
    unfolding w'(2) assms(6) shift by simp
  moreover have "(of_nat (Suc k) :: u64) + of_nat (length (drop k ?ms)) = of_nat (Suc (length ?ms))"
    using assms(5) by (simp flip: of_nat_add)
  ultimately show ?thesis
    using w'(1) start assms(1) by (simp add: persist_context_tail_if_needed_def del: of_nat_Suc)
qed

definition ex_list_memory :: "(u64 \<times> json) list memory" where
  "ex_list_memory = \<lparr>mem_recall = (\<lambda>_ _ w. (Inr (map (\<lambda>(n, j). \<lparr>mr_sequence = n, mr_payload = j\<rparr>) (outside w)), w)),
     mem_store = (\<lambda>_ n j w. (Inr (), w\<lparr>outside := outside w @ [(n, j)]\<rparr>))\<rparr>"

definition ex_list_provider :: "(u64 \<times> json) list provider" where
  "ex_list_provider = \<lparr>capabilities = (\<lambda>_. Inl (MissingApiKey ''k'')), open_stream = (\<lambda>_ _ w. (WaitCancelled, w)),
     complete = (\<lambda>_ w. (WaitCancelled, w))\<rparr>"

definition ex_list_runtime :: "(u64 \<times> json) list agent_runtime" where
  "ex_list_runtime = with_memory ex_list_memory (runtime_new ex_list_provider registry_default ex_limits)"

theorem context_tail_persisted_witness:
  "\<exists>w'. persist_context_tail_if_needed ex_libs ex_list_runtime (Some ''s'') (of_nat (Suc 0)) ex_context
       \<lparr>sent_events = [], outside = []\<rparr> = (Inr (of_nat (Suc (length (ctx_messages ex_context)))), w') \<and>
     outside w' = map (\<lambda>(i, m). (of_nat (Suc i), payload_of ex_libs m)) (List.enumerate 0 (ctx_messages ex_context))"
proof (rule context_tail_persisted)
  show "rt_memory ex_list_runtime = Some ex_list_memory" by (simp add: ex_list_runtime_def with_memory_def)
  show "appends ex_list_memory ''s'' outside" by (simp add: appends_def ex_list_memory_def)
  show "\<forall>m\<in>set (ctx_messages ex_context). serializable ex_libs m" by (simp add: serializable_def ex_libs_def)
qed (simp_all add: ex_context_def)

end
