(* ===== verification/Policy.thy ===== *)
theory Policy
  imports Core_Types
begin

text \<open>
  Run policies: the merge of the three layers of constraints (\<open>types/src/policy_merge.rs\<close>)
  and the admission check (\<open>runtime/src/policy_guard.rs\<close>).

  The clock is read three times on the way to an admitted policy; each reading is an
  argument (\<open>t_deadline\<close> in \<open>merge_deadline\<close>, \<open>t_merge\<close> in \<open>merge_policy\<close>, \<open>t_admit\<close> in
  \<open>resolve_policy\<close>). The addition \<open>now + chrono::Duration::seconds(n)\<close> of crate \<open>chrono\<close>
  is the parameter \<open>plus_secs\<close>: \<open>None\<close> is its panic on a duration or a date out of range.
\<close>

named_theorems policy_simps

section \<open>Merging the constraint layers\<close>

text \<open>\<open>(c * 1_000_000.0) as u64\<close>\<close>

definition to_microusd :: "f64 \<Rightarrow> u64" where
  "to_microusd c = f64_to_u64 (f64_mul c (F_Fin 1000000))"

definition merge_max_turns :: "runtime_config \<Rightarrow> agent_definition \<Rightarrow> run_policy_input \<Rightarrow> u32 option" where
  "merge_max_turns global agent per_run =
     (let r0 = Some (rc_max_turns global);
          r1 = (case ad_max_turns agent of Some m \<Rightarrow> map_option (\<lambda>r. min r m) r0 | None \<Rightarrow> r0)
      in case rp_max_turns per_run of Some m \<Rightarrow> map_option (\<lambda>r. min r m) r1 | None \<Rightarrow> r1)"

definition merge_max_budget :: "runtime_config \<Rightarrow> agent_definition \<Rightarrow> run_policy_input \<Rightarrow> u64" where
  "merge_max_budget global agent per_run =
     (let global_budget = map_option to_microusd (rc_max_cost global);
          agent_budget = map_option to_microusd (ad_max_cost agent);
          per_run_budget = rp_max_budget_microusd per_run
      in case min_some [global_budget, agent_budget, per_run_budget] of None \<Rightarrow> 0 | Some m \<Rightarrow> m)"

definition runtime_secs :: "runtime_config \<Rightarrow> run_policy_input \<Rightarrow> u32 option \<Rightarrow> u64" where
  "runtime_secs global per_run effective_max_turns =
     (let max_turns = (case effective_max_turns of Some m \<Rightarrow> m | None \<Rightarrow> rc_max_turns global);
          global_runtime_secs = saturating_mul (rc_turn_timeout_secs global) (ucast max_turns)
      in case rp_max_runtime per_run of
           Some d \<Rightarrow> min global_runtime_secs (dur_secs d)
         | None \<Rightarrow> global_runtime_secs)"

definition merge_deadline ::
  "(datetime \<Rightarrow> int \<Rightarrow> datetime option) \<Rightarrow> datetime \<Rightarrow> runtime_config \<Rightarrow> run_policy_input \<Rightarrow> u32 option
   \<Rightarrow> datetime option may_panic" where
  "merge_deadline plus_secs t_deadline global per_run effective_max_turns =
     (let secs = runtime_secs global per_run effective_max_turns
      in if 0 < secs
         then (case plus_secs t_deadline (sint secs) of Some d \<Rightarrow> Ret (Some d) | None \<Rightarrow> Panic)
         else Ret None)"

definition retain_allowed :: "string list option \<Rightarrow> function_decl list \<Rightarrow> function_decl list" where
  "retain_allowed allowlist tools =
     (case allowlist of
        Some names \<Rightarrow> if names \<noteq> [] then filter (\<lambda>t. fd_name t \<in> set names) tools else tools
      | None \<Rightarrow> tools)"

definition merge_tool_policies ::
  "function_decl list \<Rightarrow> string list option \<Rightarrow> tool_policy_input option
   \<Rightarrow> function_decl list \<times> string set \<times> string set" where
  "merge_tool_policies available agent_allowlist per_run_tool_policy =
     (let tools0 = retain_allowed agent_allowlist available;
          tools = (case per_run_tool_policy of None \<Rightarrow> tools0
            | Some tp \<Rightarrow> retain_allowed (tp_toolset tp) tools0);
          disallowed = (case per_run_tool_policy of None \<Rightarrow> {}
            | Some tp \<Rightarrow> (case tp_disallowed_tools tp of None \<Rightarrow> {} | Some ds \<Rightarrow> set ds));
          auto = (case per_run_tool_policy of None \<Rightarrow> {}
            | Some tp \<Rightarrow> (case tp_auto_approve_tools tp of None \<Rightarrow> {}
                | Some as \<Rightarrow> if as \<noteq> [] then set (map fd_name tools) \<inter> set as else {}));
          final_tools = filter (\<lambda>t. fd_name t \<notin> disallowed) tools;
          final_auto = auto \<inter> set (map fd_name final_tools)
      in (final_tools, disallowed, final_auto))"

definition merge_policy ::
  "(datetime \<Rightarrow> int \<Rightarrow> datetime option) \<Rightarrow> datetime \<Rightarrow> datetime \<Rightarrow> runtime_config \<Rightarrow> agent_definition
   \<Rightarrow> run_policy_input \<Rightarrow> function_decl list \<Rightarrow> effective_run_policy may_panic" where
  "merge_policy plus_secs t_deadline t_merge global agent per_run available =
     (let max_turns = merge_max_turns global agent per_run;
          budget = merge_max_budget global agent per_run
      in bind_panic (merge_deadline plus_secs t_deadline global per_run max_turns) (\<lambda>dl.
         case merge_tool_policies available (ad_tools agent) (rp_tool_policy per_run) of
           (tools, dis, auto) \<Rightarrow>
             Ret \<lparr>started_at = t_merge, deadline = dl,
                  initial_budget_microusd = budget, remaining_budget_microusd = budget,
                  toolset = tools, auto_approve_tools = auto, disallowed_tools = dis,
                  parent_run_id = None, pol_max_turns = max_turns, rollout_mode = Enforce\<rparr>))"

section \<open>Admission\<close>

datatype policy_validation_error = ZeroBudget | NegativeMaxTurns | NegativeMaxBudget
  | NegativeMaxRuntime | EmptyToolset | UnknownTool string | PastDeadline

definition validate_per_run_constraints :: "run_policy_input \<Rightarrow> (policy_validation_error, unit) result" where
  "validate_per_run_constraints per_run =
     (if rp_max_turns per_run = Some (- 1) then Inl NegativeMaxTurns
      else if rp_max_budget_microusd per_run = Some 0 then Inl ZeroBudget
      else if (case rp_max_budget_microusd per_run of Some b \<Rightarrow> b > (- 1) div 2 | None \<Rightarrow> False)
        then Inl NegativeMaxBudget
      else if (case rp_max_runtime per_run of Some d \<Rightarrow> dur_secs d > 0x7FFFFFFFFFFFFFFF | None \<Rightarrow> False)
        then Inl NegativeMaxRuntime
      else Inr ())"

fun check_names :: "string set \<Rightarrow> string list \<Rightarrow> (policy_validation_error, unit) result" where
  "check_names known [] = Inr ()"
| "check_names known (n # ns) = (if n \<notin> known then Inl (UnknownTool n) else check_names known ns)"

definition validate_tool_references ::
  "run_policy_input \<Rightarrow> function_decl list \<Rightarrow> (policy_validation_error, unit) result" where
  "validate_tool_references per_run available =
     (let names = set (map fd_name available)
      in case rp_tool_policy per_run of None \<Rightarrow> Inr ()
         | Some tp \<Rightarrow>
             bind_result (case tp_toolset tp of Some ts \<Rightarrow> check_names names ts | None \<Rightarrow> Inr ())
               (\<lambda>_. case tp_auto_approve_tools tp of Some as \<Rightarrow> check_names names as | None \<Rightarrow> Inr ()))"

definition validate_effective_policy :: "effective_run_policy \<Rightarrow> (policy_validation_error, unit) result" where
  "validate_effective_policy policy =
     (if initial_budget_microusd policy > 0 \<and> remaining_budget_microusd policy > initial_budget_microusd policy
        then Inl NegativeMaxBudget
      else if toolset policy = [] then Inl EmptyToolset
      else if (case deadline policy of Some d \<Rightarrow> d \<le> started_at policy | None \<Rightarrow> False) then Inl PastDeadline
      else Inr ())"

definition resolve_policy ::
  "(datetime \<Rightarrow> int \<Rightarrow> datetime option) \<Rightarrow> datetime \<Rightarrow> datetime \<Rightarrow> datetime \<Rightarrow> runtime_config
   \<Rightarrow> agent_definition \<Rightarrow> run_policy_input \<Rightarrow> function_decl list
   \<Rightarrow> (policy_validation_error, effective_run_policy) result may_panic" where
  "resolve_policy plus_secs t_deadline t_merge t_admit global agent per_run available =
     (case bind_result (validate_per_run_constraints per_run)
             (\<lambda>_. validate_tool_references per_run available) of
        Inl e \<Rightarrow> Ret (Inl e)
      | Inr _ \<Rightarrow>
          bind_panic (merge_policy plus_secs t_deadline t_merge global agent per_run available) (\<lambda>p0.
            let policy = p0\<lparr>started_at := t_admit\<rparr>
            in Ret (bind_result (validate_effective_policy policy) (\<lambda>_. Inr policy))))"

section \<open>Strictness\<close>

text \<open>
  A limit \<open>None\<close> is no limit. \<open>limit_le a b\<close>: the limit \<open>a\<close> is at least as strict as \<open>b\<close>.
\<close>

fun limit_le :: "'a::linorder option \<Rightarrow> 'a option \<Rightarrow> bool" where
  "limit_le a None = True"
| "limit_le None (Some b) = False"
| "limit_le (Some a) (Some b) = (a \<le> b)"

lemma limit_le_refl [simp]: "limit_le a a"
  by (cases a) auto

lemma limit_le_trans: "limit_le a b \<Longrightarrow> limit_le b c \<Longrightarrow> limit_le a c"
  by (cases a; cases b; cases c) auto

lemma limit_le_min_some: "a \<in> set xs \<Longrightarrow> limit_le (min_some xs) a"
proof (cases a)
  case None
  then show ?thesis by simp
next
  case (Some x)
  assume "a \<in> set xs"
  with Some obtain m where "min_some xs = Some m" by (cases "min_some xs") (auto simp: min_some_None)
  with Some \<open>a \<in> set xs\<close> show ?thesis by (simp add: min_some_le)
qed

text \<open>
  One policy restricts another: it has no tool, no automatic approval, no budget, no turn
  and no time that the other does not have, and it forbids whatever the other forbids.
\<close>

definition policy_le :: "effective_run_policy \<Rightarrow> effective_run_policy \<Rightarrow> bool" where
  "policy_le p q \<longleftrightarrow>
     set (toolset p) \<subseteq> set (toolset q) \<and> auto_approve_tools p \<subseteq> auto_approve_tools q \<and>
     disallowed_tools q \<subseteq> disallowed_tools p \<and>
     remaining_budget_microusd p \<le> remaining_budget_microusd q \<and>
     limit_le (pol_max_turns p) (pol_max_turns q) \<and> limit_le (deadline p) (deadline q)"

lemma policy_le_refl: "policy_le p p"
  by (simp add: policy_le_def)

lemma policy_le_trans: "policy_le p q \<Longrightarrow> policy_le q r \<Longrightarrow> policy_le p r"
  by (auto simp: policy_le_def intro: limit_le_trans order_trans)

text \<open>The shape every admitted policy and every policy narrowed from it keeps.\<close>

definition policy_wf :: "effective_run_policy \<Rightarrow> bool" where
  "policy_wf p \<longleftrightarrow>
     auto_approve_tools p \<subseteq> set (map fd_name (toolset p)) \<and>
     disallowed_tools p \<inter> set (map fd_name (toolset p)) = {} \<and>
     remaining_budget_microusd p \<le> initial_budget_microusd p"

section \<open>Lemmas\<close>

lemma merge_max_turns_min:
  "merge_max_turns g a r = min_some [Some (rc_max_turns g), ad_max_turns a, rp_max_turns r]"
  by (auto simp: merge_max_turns_def min_some_def List.map_filter_def min.commute min.left_commute
      split: option.splits)

lemma retain_allowed_filter:
  "retain_allowed al ts = filter (\<lambda>t. al = None \<or> al = Some [] \<or> fd_name t \<in> set (the al)) ts"
  by (auto simp: retain_allowed_def split: option.splits)

lemma merge_tools_disjoint:
  assumes "merge_tool_policies av al tp = (ts, dis, auto)"
  shows "auto \<subseteq> set (map fd_name ts)" and "dis \<inter> set (map fd_name ts) = {}"
  using assms by (auto simp: merge_tool_policies_def Let_def)

lemma merge_policy_Ret:
  assumes "merge_policy ps td tm g a r av = Ret p"
  shows "policy_wf p"
    and "initial_budget_microusd p = merge_max_budget g a r"
    and "remaining_budget_microusd p = merge_max_budget g a r"
    and "pol_max_turns p = merge_max_turns g a r"
    and "merge_deadline ps td g r (merge_max_turns g a r) = Ret (deadline p)"
    and "merge_tool_policies av (ad_tools a) (rp_tool_policy r) = (toolset p, disallowed_tools p, auto_approve_tools p)"
    and "rollout_mode p = Enforce"
proof -
  obtain dl ts dis auto where dl: "merge_deadline ps td g r (merge_max_turns g a r) = Ret dl"
    and ts: "merge_tool_policies av (ad_tools a) (rp_tool_policy r) = (ts, dis, auto)"
    and p: "p = \<lparr>started_at = tm, deadline = dl,
                  initial_budget_microusd = merge_max_budget g a r,
                  remaining_budget_microusd = merge_max_budget g a r,
                  toolset = ts, auto_approve_tools = auto, disallowed_tools = dis,
                  parent_run_id = None, pol_max_turns = merge_max_turns g a r, rollout_mode = Enforce\<rparr>"
    using assms
    by (cases "merge_tool_policies av (ad_tools a) (rp_tool_policy r)") (auto simp: merge_policy_def Let_def)
  show "policy_wf p" using merge_tools_disjoint[OF ts] by (simp add: p policy_wf_def)
  show "initial_budget_microusd p = merge_max_budget g a r"
    and "remaining_budget_microusd p = merge_max_budget g a r"
    and "pol_max_turns p = merge_max_turns g a r"
    and "merge_deadline ps td g r (merge_max_turns g a r) = Ret (deadline p)"
    and "merge_tool_policies av (ad_tools a) (rp_tool_policy r) = (toolset p, disallowed_tools p, auto_approve_tools p)"
    and "rollout_mode p = Enforce"
    by (simp_all add: p dl ts)
qed

lemma resolve_policy_Ok:
  assumes "resolve_policy ps td tm ta g a r av = Ret (Inr p)"
  obtains p0 where "merge_policy ps td tm g a r av = Ret p0" and "p = p0\<lparr>started_at := ta\<rparr>"
    and "validate_effective_policy p = Inr ()" and "validate_per_run_constraints r = Inr ()"
    and "validate_tool_references r av = Inr ()"
  using assms by (auto simp: resolve_policy_def Let_def split: sum.splits)

lemma validate_effective_policy_Ok:
  "validate_effective_policy p = Inr () \<longleftrightarrow>
     (initial_budget_microusd p > 0 \<longrightarrow> remaining_budget_microusd p \<le> initial_budget_microusd p) \<and>
     toolset p \<noteq> [] \<and> (\<forall>d. deadline p = Some d \<longrightarrow> started_at p < d)"
  by (auto simp: validate_effective_policy_def split: option.splits)

lemma check_names_Ok: "check_names known ns = Inr () \<longleftrightarrow> set ns \<subseteq> known"
  by (induction known ns rule: check_names.induct) auto

lemma check_names_Err: "check_names known ns = Inl e \<Longrightarrow> \<exists>n \<in> set ns. n \<notin> known \<and> e = UnknownTool n"
  by (induction known ns rule: check_names.induct) (auto split: if_splits)

lemma merge_max_budget_le:
  assumes "Some b \<in> {map_option to_microusd (rc_max_cost g), map_option to_microusd (ad_max_cost a), rp_max_budget_microusd r}"
  shows "merge_max_budget g a r \<le> b"
proof -
  let ?xs = "[map_option to_microusd (rc_max_cost g), map_option to_microusd (ad_max_cost a), rp_max_budget_microusd r]"
  from assms have mem: "Some b \<in> set ?xs" by auto
  then obtain m where "min_some ?xs = Some m" by (cases "min_some ?xs") (auto simp: min_some_None)
  with mem show ?thesis using min_some_le[OF mem] by (simp add: merge_max_budget_def Let_def)
qed

lemma merge_tools_filter:
  assumes "merge_tool_policies av al tp = (ts, dis, auto)"
  shows "ts = filter (\<lambda>t.
      (al = None \<or> al = Some [] \<or> fd_name t \<in> set (the al)) \<and>
      (case tp of None \<Rightarrow> True | Some q \<Rightarrow>
         tp_toolset q = None \<or> tp_toolset q = Some [] \<or> fd_name t \<in> set (the (tp_toolset q))) \<and>
      fd_name t \<notin> dis) av"
  using assms
  by (auto simp: merge_tool_policies_def Let_def retain_allowed_filter filter_filter split: option.splits
      intro!: filter_cong)

lemma resolve_policy_merge:
  assumes "resolve_policy ps td tm ta g a r av = Ret (Inr p)"
  shows "policy_wf p"
    and "initial_budget_microusd p = merge_max_budget g a r"
    and "remaining_budget_microusd p = merge_max_budget g a r"
    and "pol_max_turns p = min_some [Some (rc_max_turns g), ad_max_turns a, rp_max_turns r]"
    and "merge_deadline ps td g r (merge_max_turns g a r) = Ret (deadline p)"
    and "merge_tool_policies av (ad_tools a) (rp_tool_policy r) = (toolset p, disallowed_tools p, auto_approve_tools p)"
    and "rollout_mode p = Enforce" and "started_at p = ta" and "toolset p \<noteq> []"
    and "\<forall>d. deadline p = Some d \<longrightarrow> ta < d"
proof -
  from assms obtain p0 where m: "merge_policy ps td tm g a r av = Ret p0"
    and p: "p = p0\<lparr>started_at := ta\<rparr>" and v: "validate_effective_policy p = Inr ()"
    by (rule resolve_policy_Ok)
  show "policy_wf p" using merge_policy_Ret(1)[OF m] by (simp add: p policy_wf_def)
  show "initial_budget_microusd p = merge_max_budget g a r"
    and "remaining_budget_microusd p = merge_max_budget g a r"
    and "pol_max_turns p = min_some [Some (rc_max_turns g), ad_max_turns a, rp_max_turns r]"
    and "merge_deadline ps td g r (merge_max_turns g a r) = Ret (deadline p)"
    and "merge_tool_policies av (ad_tools a) (rp_tool_policy r) = (toolset p, disallowed_tools p, auto_approve_tools p)"
    and "rollout_mode p = Enforce" and "started_at p = ta"
    using merge_policy_Ret(2-7)[OF m] by (simp_all add: p merge_max_turns_min)
  show "toolset p \<noteq> []" and "\<forall>d. deadline p = Some d \<longrightarrow> ta < d"
    using v by (auto simp: validate_effective_policy_Ok p)
qed

lemma merge_tools_sets:
  assumes "merge_tool_policies av al tp = (ts, dis, auto)"
  shows "dis = (case tp of None \<Rightarrow> {} | Some q \<Rightarrow> set (case tp_disallowed_tools q of None \<Rightarrow> [] | Some ds \<Rightarrow> ds))"
    and "auto = (case tp of None \<Rightarrow> {} | Some q \<Rightarrow>
      set (case tp_auto_approve_tools q of None \<Rightarrow> [] | Some as \<Rightarrow> as) \<inter> set (map fd_name ts))"
  using assms by (auto simp: merge_tool_policies_def Let_def split: option.splits if_splits)

lemma merge_deadline_cases:
  "merge_deadline ps td g r mt = Ret dl \<longleftrightarrow>
     (let secs = runtime_secs g r mt
      in (secs = 0 \<and> dl = None) \<or> (0 < secs \<and> dl \<noteq> None \<and> ps td (sint secs) = dl))"
  by (auto simp: merge_deadline_def Let_def word_gt_0 split: option.splits if_splits)

lemma sint_le_unat: "sint (w :: u64) \<le> int (unat w)"
proof (cases "0 \<le> sint w")
  case True
  have "sint w < 2 ^ 63" using sint_lt[of w] by simp
  with True have "uint w = sint w" by (subst uint_sint) (simp add: take_bit_eq_mod)
  then show ?thesis by simp
next
  case False
  then show ?thesis by linarith
qed

section \<open>Properties\<close>

text \<open>C13: strictest wins on turns and budget. The turn limit of an admitted policy is the
  smallest of the limits that the global configuration, the agent definition and the run
  set, and its budget is no larger than any budget one of the three layers sets.\<close>

theorem resolve_policy_strictest:
  assumes "resolve_policy plus_secs td tm ta g a r av = Ret (Inr p)"
  shows "pol_max_turns p = min_some [Some (rc_max_turns g), ad_max_turns a, rp_max_turns r] \<and>
    (\<forall>l \<in> {Some (rc_max_turns g), ad_max_turns a, rp_max_turns r}. limit_le (pol_max_turns p) l) \<and>
    (\<forall>b. Some b \<in> {map_option to_microusd (rc_max_cost g), map_option to_microusd (ad_max_cost a),
           rp_max_budget_microusd r} \<longrightarrow> initial_budget_microusd p \<le> b) \<and>
    remaining_budget_microusd p = initial_budget_microusd p"
proof -
  note f = resolve_policy_merge[OF assms]
  have "\<forall>l \<in> {Some (rc_max_turns g), ad_max_turns a, rp_max_turns r}. limit_le (pol_max_turns p) l"
    by (auto simp: f intro!: limit_le_min_some)
  moreover have "\<forall>b. Some b \<in> {map_option to_microusd (rc_max_cost g), map_option to_microusd (ad_max_cost a),
           rp_max_budget_microusd r} \<longrightarrow> initial_budget_microusd p \<le> b"
    using merge_max_budget_le by (simp add: f)
  ultimately show ?thesis by (simp add: f)
qed

text \<open>the toolset of an admitted policy. It is, in order, every available tool that the
  agent's allowlist (if any), the run's toolset (if any) and the run's list of disallowed
  tools let through; it is not empty; and the tools approved without asking are exactly
  those of the run's list that are in it.\<close>

theorem resolve_policy_tools:
  assumes "resolve_policy plus_secs td tm ta g a r av = Ret (Inr p)"
  shows "toolset p = filter (\<lambda>t.
      (ad_tools a = None \<or> ad_tools a = Some [] \<or> fd_name t \<in> set (the (ad_tools a))) \<and>
      (case rp_tool_policy r of None \<Rightarrow> True | Some q \<Rightarrow>
         tp_toolset q = None \<or> tp_toolset q = Some [] \<or> fd_name t \<in> set (the (tp_toolset q))) \<and>
      fd_name t \<notin> disallowed_tools p) av \<and>
    toolset p \<noteq> [] \<and>
    disallowed_tools p = (case rp_tool_policy r of None \<Rightarrow> {}
      | Some q \<Rightarrow> set (case tp_disallowed_tools q of None \<Rightarrow> [] | Some ds \<Rightarrow> ds)) \<and>
    auto_approve_tools p = (case rp_tool_policy r of None \<Rightarrow> {}
      | Some q \<Rightarrow> set (case tp_auto_approve_tools q of None \<Rightarrow> [] | Some as \<Rightarrow> as) \<inter> set (map fd_name (toolset p)))"
proof -
  note m = resolve_policy_merge(6)[OF assms]
  show ?thesis
    using merge_tools_filter[OF m] merge_tools_sets[OF m] resolve_policy_merge(9)[OF assms] by blast
qed

text \<open>the deadline of an admitted policy. There is one unless the runtime limit in whole
  seconds is zero; it lies in the future at admission, and no later than the run's own
  limit and than the product of the turn timeout and the turn limit after the moment it
  was computed. The hypothesis on \<open>plus_secs\<close> is what \<open>chrono\<close> documents of the sum of a
  date and a number of seconds where it does not panic.\<close>

theorem resolve_policy_deadline:
  assumes "resolve_policy plus_secs td tm ta g a r av = Ret (Inr p)"
    and chrono: "\<And>t s d. plus_secs t s = Some d \<Longrightarrow> d = t + s * 1000000000"
  shows "(deadline p = None \<longleftrightarrow> runtime_secs g r (pol_max_turns p) = 0) \<and>
    (\<forall>d. deadline p = Some d \<longrightarrow>
       ta < d \<and>
       d \<le> td + int (unat (rc_turn_timeout_secs g) * unat (the (pol_max_turns p))) * 1000000000 \<and>
       (\<forall>m. rp_max_runtime r = Some m \<longrightarrow> d \<le> td + int (unat (dur_secs m)) * 1000000000))"
proof -
  note f = resolve_policy_merge[OF assms(1)]
  define secs where "secs = runtime_secs g r (pol_max_turns p)"
  have "merge_deadline plus_secs td g r (pol_max_turns p) = Ret (deadline p)"
    using f(4,5) by (simp add: merge_max_turns_min)
  then have dl: "(secs = 0 \<and> deadline p = None) \<or>
      (0 < secs \<and> deadline p \<noteq> None \<and> plus_secs td (sint secs) = deadline p)"
    by (simp add: merge_deadline_cases Let_def secs_def)
  obtain mt where turns: "pol_max_turns p = Some mt"
    by (cases "pol_max_turns p") (auto simp: f min_some_None)
  have le: "unat secs \<le> unat (rc_turn_timeout_secs g) * unat (the (pol_max_turns p))"
    "\<And>m. rp_max_runtime r = Some m \<Longrightarrow> unat secs \<le> unat (dur_secs m)"
    by (auto simp: secs_def runtime_secs_def Let_def turns unat_simps split: option.splits)
  have bound: "sint secs * 1000000000 \<le> int (unat secs) * 1000000000"
    using sint_le_unat by simp
  show ?thesis
  proof (intro conjI allI impI)
    show "deadline p = None \<longleftrightarrow> runtime_secs g r (pol_max_turns p) = 0"
      using dl by (auto simp: secs_def)
  next
    fix d assume d: "deadline p = Some d"
    then show "ta < d" using f(10) by simp
    from d dl have eq: "d = td + sint secs * 1000000000" by (metis chrono option.distinct(1))
    show "d \<le> td + int (unat (rc_turn_timeout_secs g) * unat (the (pol_max_turns p))) * 1000000000"
      using eq bound le(1) by linarith
    fix m assume "rp_max_runtime r = Some m"
    then show "d \<le> td + int (unat (dur_secs m)) * 1000000000"
      using eq bound le(2)[of m] by linarith
  qed
qed

text \<open>a run that names a tool the system does not have is refused. When the run's numeric
  limits are acceptable and its toolset or its list of automatically approved tools names
  an unknown tool, the admission ends with the error that names such a tool.\<close>

theorem resolve_policy_unknown_tool:
  assumes "validate_per_run_constraints r = Inr ()" and "rp_tool_policy r = Some tp"
    and "n \<in> set (case tp_toolset tp of None \<Rightarrow> [] | Some ts \<Rightarrow> ts) \<union>
         set (case tp_auto_approve_tools tp of None \<Rightarrow> [] | Some as \<Rightarrow> as)"
    and "n \<notin> set (map fd_name av)"
  shows "\<exists>m. m \<notin> set (map fd_name av) \<and>
    resolve_policy plus_secs td tm ta g a r av = Ret (Inl (UnknownTool m))"
proof -
  have "validate_tool_references r av \<noteq> Inr ()"
    using assms(2-4) by (auto simp: validate_tool_references_def Let_def check_names_Ok split: option.splits)
  then obtain e where e: "validate_tool_references r av = Inl e"
    by (cases "validate_tool_references r av") auto
  then obtain m where "m \<notin> set (map fd_name av)" "e = UnknownTool m"
    using assms(2)
    by (auto simp: validate_tool_references_def Let_def bind_result_Inl dest!: check_names_Err split: option.splits)
  with e assms(1) show ?thesis by (auto simp: resolve_policy_def)
qed

text \<open>A runtime limit below one second is no limit. Whatever the other layers say, an
  admitted policy whose run asks for less than a second of runtime has no deadline.\<close>

theorem subsecond_runtime_has_no_deadline:
  assumes "resolve_policy plus_secs td tm ta g a r av = Ret (Inr p)"
    and "rp_max_runtime r = Some m" and "dur_secs m = 0"
  shows "deadline p = None"
proof -
  have "runtime_secs g r (merge_max_turns g a r) = 0"
    using assms(2,3) by (simp add: runtime_secs_def Let_def)
  then show ?thesis
    using resolve_policy_merge(5)[OF assms(1)] by (simp add: merge_deadline_cases)
qed

section \<open>Witnesses\<close>

definition ex_tool :: "string \<Rightarrow> function_decl" where
  "ex_tool n = \<lparr>fd_name = n, fd_description = None, fd_parameters = JObj []\<rparr>"

definition ex_tools :: "function_decl list" where
  "ex_tools = [ex_tool ''tool_a'', ex_tool ''tool_b'', ex_tool ''tool_c'']"

definition ex_global :: runtime_config where
  "ex_global = \<lparr>rc_turn_timeout_secs = 60, rc_max_turns = 100, rc_max_cost = None\<rparr>"

definition ex_agent :: agent_definition where
  "ex_agent = \<lparr>ad_system_prompt = None, ad_system_prompt_file = None, ad_selection = None,
     ad_tools = None, ad_max_turns = Some 50, ad_max_cost = None\<rparr>"

definition ex_run :: "duration option \<Rightarrow> string list \<Rightarrow> run_policy_input" where
  "ex_run d ts = \<lparr>rp_max_runtime = d, rp_max_budget_microusd = Some 20000000, rp_max_turns = Some 25,
     rp_tool_policy = Some \<lparr>tp_toolset = Some ts, tp_auto_approve_tools = Some [''tool_a''],
       tp_disallowed_tools = Some [''tool_b'']\<rparr>\<rparr>"

definition ex_plus_secs :: "datetime \<Rightarrow> int \<Rightarrow> datetime option" where
  "ex_plus_secs t s = (if \<bar>s\<bar> \<le> 9223372036854775 then Some (t + s * 1000000000) else None)"

definition ex_policy :: "datetime option \<Rightarrow> effective_run_policy" where
  "ex_policy dl = \<lparr>started_at = 7, deadline = dl, initial_budget_microusd = 20000000,
     remaining_budget_microusd = 20000000, toolset = [ex_tool ''tool_a''],
     auto_approve_tools = {''tool_a''}, disallowed_tools = {''tool_b''}, parent_run_id = None,
     pol_max_turns = Some 25, rollout_mode = Enforce\<rparr>"

lemmas ex_policy_defs = ex_tool_def ex_tools_def ex_global_def ex_agent_def ex_run_def
  ex_plus_secs_def ex_policy_def

lemma ex_resolve:
  "resolve_policy ex_plus_secs 5 6 7 ex_global ex_agent
     (ex_run (Some \<lparr>dur_secs = 600, dur_subsec_nanos = 0\<rparr>) [''tool_a'', ''tool_b'']) ex_tools
   = Ret (Inr (ex_policy (Some 600000000005)))"
  by (simp add: resolve_policy_def validate_per_run_constraints_def validate_tool_references_def
      merge_policy_def merge_deadline_def merge_max_turns_def merge_max_budget_def merge_tool_policies_def
      runtime_secs_def retain_allowed_def validate_effective_policy_def min_some_def Let_def
      ex_policy_defs saturating_mul_def del: set_filter)

lemma ex_resolve_subsecond:
  "resolve_policy ex_plus_secs 5 6 7 ex_global ex_agent
     (ex_run (Some \<lparr>dur_secs = 0, dur_subsec_nanos = 500000000\<rparr>) [''tool_a'']) ex_tools
   = Ret (Inr (ex_policy None))"
  by (simp add: resolve_policy_def validate_per_run_constraints_def validate_tool_references_def
      merge_policy_def merge_deadline_def merge_max_turns_def merge_max_budget_def merge_tool_policies_def
      runtime_secs_def retain_allowed_def validate_effective_policy_def min_some_def Let_def
      ex_policy_defs saturating_mul_def del: set_filter)

lemma ex_plus_secs_chrono: "ex_plus_secs t s = Some d \<Longrightarrow> d = t + s * 1000000000"
  by (auto simp: ex_plus_secs_def split: if_splits)

theorem resolve_policy_strictest_witness:
  "pol_max_turns (ex_policy (Some 600000000005)) =
     min_some [Some (rc_max_turns ex_global), ad_max_turns ex_agent, Some 25] \<and>
   initial_budget_microusd (ex_policy (Some 600000000005)) \<le> 20000000"
  using resolve_policy_strictest[OF ex_resolve] by (simp add: ex_run_def)

theorem resolve_policy_tools_witness:
  "toolset (ex_policy (Some 600000000005)) = [ex_tool ''tool_a''] \<and>
   disallowed_tools (ex_policy (Some 600000000005)) = {''tool_b''}"
  using resolve_policy_tools[OF ex_resolve] by (simp add: ex_policy_defs)

theorem resolve_policy_deadline_witness:
  "(7::int) < 600000000005 \<and> (600000000005::int) \<le> 5 + 600 * 1000000000"
  using resolve_policy_deadline[OF ex_resolve ex_plus_secs_chrono] by (simp add: ex_run_def ex_policy_def)

theorem resolve_policy_unknown_tool_witness:
  "\<exists>m. m \<notin> set (map fd_name ex_tools) \<and>
     resolve_policy ex_plus_secs 5 6 7 ex_global ex_agent (ex_run None [''tool_z'']) ex_tools
       = Ret (Inl (UnknownTool m))"
  by (rule resolve_policy_unknown_tool[where n = "''tool_z''" and tp = "the (rp_tool_policy (ex_run None [''tool_z'']))"])
    (simp_all add: validate_per_run_constraints_def ex_policy_defs)

theorem subsecond_runtime_has_no_deadline_witness: "deadline (ex_policy None) = None"
  by (rule subsecond_runtime_has_no_deadline[OF ex_resolve_subsecond, where m = "\<lparr>dur_secs = 0, dur_subsec_nanos = 500000000\<rparr>"]) (simp_all add: ex_run_def)

end
