(* ===== verification/Budget_Ledger.thy ===== *)
theory Budget_Ledger
  imports Prelude "HOL-Library.Multiset"
begin

text \<open>
  The session budget ledger, \<open>runtime/src/budget_ledger.rs\<close>.

  \<^item> The shared cells \<open>Arc<BudgetLedgerInner>\<close> live in a store, a list of cells that ledger
    handles and reservations point into by index; a child's cell points at its parent's.
  \<^item> The operations are modelled on the store as they run without interference; the
    atomic counters are 64-bit words, on which \<open>fetch_add\<close> and \<open>fetch_sub\<close> wrap.
  \<^item> The compare-and-swap loop of \<open>try_reserve\<close> and the two separate updates of \<open>settle\<close>
    are modelled a second time as a step relation over any number of threads, one atomic
    access per step.
\<close>

section \<open>The ledger and its operations\<close>

record ledger_inner =
  li_initial :: u64
  li_reserved :: u64
  li_settled :: u64
  li_parent :: "nat option"

record budget_snapshot =
  sn_initial :: u64
  sn_reserved :: u64
  sn_settled :: u64
  sn_remaining :: u64

record budget_exhausted =
  be_requested :: u64
  be_remaining :: u64

record reservation =
  res_ledger :: nat
  res_amount :: u64
  res_settled :: bool

type_synonym ledger_store = "ledger_inner list"

definition snapshot_is_exhausted :: "budget_snapshot \<Rightarrow> bool" where
  "snapshot_is_exhausted s \<longleftrightarrow> sn_remaining s = 0"

definition snapshot_spent :: "budget_snapshot \<Rightarrow> u64" where
  "snapshot_spent s = sn_settled s"

definition snapshot_pending :: "budget_snapshot \<Rightarrow> u64" where
  "snapshot_pending s = saturating_sub (sn_reserved s) (sn_settled s)"

definition inner_new :: "u64 \<Rightarrow> nat option \<Rightarrow> ledger_inner" where
  "inner_new initial parent = \<lparr>li_initial = initial, li_reserved = 0, li_settled = 0, li_parent = parent\<rparr>"

definition remaining_of :: "u64 \<Rightarrow> u64 \<Rightarrow> u64 \<Rightarrow> u64" where
  "remaining_of initial reserved settled = saturating_sub (saturating_sub initial reserved) settled"

definition inner_remaining :: "ledger_inner \<Rightarrow> u64" where
  "inner_remaining l = remaining_of (li_initial l) (li_reserved l) (li_settled l)"

definition inner_snapshot :: "ledger_inner \<Rightarrow> budget_snapshot" where
  "inner_snapshot l = \<lparr>sn_initial = li_initial l, sn_reserved = li_reserved l,
     sn_settled = li_settled l, sn_remaining = inner_remaining l\<rparr>"

definition inner_try_reserve :: "ledger_inner \<Rightarrow> u64 \<Rightarrow> bool \<times> ledger_inner" where
  "inner_try_reserve l amount =
     (if amount > inner_remaining l then (False, l)
      else (True, l\<lparr>li_reserved := li_reserved l + amount\<rparr>))"

definition inner_settle :: "ledger_inner \<Rightarrow> u64 \<Rightarrow> u64 \<Rightarrow> int \<times> ledger_inner" where
  "inner_settle l reserved_amount actual_cost =
     (sint (reserved_amount - actual_cost),
      l\<lparr>li_settled := li_settled l + actual_cost, li_reserved := li_reserved l - reserved_amount\<rparr>)"

definition inner_cancel :: "ledger_inner \<Rightarrow> u64 \<Rightarrow> ledger_inner" where
  "inner_cancel l amount = l\<lparr>li_reserved := li_reserved l - amount\<rparr>"

definition ledger_new :: "ledger_store \<Rightarrow> u64 \<Rightarrow> ledger_store \<times> nat" where
  "ledger_new st initial = (st @ [inner_new initial None], length st)"

definition create_child :: "ledger_store \<Rightarrow> nat \<Rightarrow> u64 \<Rightarrow> (ledger_store \<times> nat) option" where
  "create_child st h allocation =
     (if allocation > inner_remaining (st ! h) then None
      else let p = st ! h;
               st' = st[h := p\<lparr>li_settled := li_settled p + allocation\<rparr>]
           in Some (st' @ [inner_new allocation (Some h)], length st'))"

definition release_unused :: "ledger_store \<Rightarrow> nat \<Rightarrow> ledger_store" where
  "release_unused st h =
     (case li_parent (st ! h) of
        None \<Rightarrow> st
      | Some q \<Rightarrow>
          let unused = saturating_sub (li_initial (st ! h)) (li_settled (st ! h))
          in if unused > 0 then st[q := (st ! q)\<lparr>li_settled := li_settled (st ! q) - unused\<rparr>] else st)"

definition ledger_reserve :: "ledger_store \<Rightarrow> nat \<Rightarrow> u64 \<Rightarrow> (budget_exhausted, reservation) result \<times> ledger_store" where
  "ledger_reserve st h estimated_cost =
     (if estimated_cost = 0
      then (Inr \<lparr>res_ledger = h, res_amount = 0, res_settled = False\<rparr>, st)
      else case inner_try_reserve (st ! h) estimated_cost of
             (True, l) \<Rightarrow> (Inr \<lparr>res_ledger = h, res_amount = estimated_cost, res_settled = False\<rparr>, st[h := l])
           | (False, l) \<Rightarrow> (Inl \<lparr>be_requested = estimated_cost, be_remaining = inner_remaining (st ! h)\<rparr>, st))"

text \<open>\<open>settle\<close> and \<open>cancel\<close> consume the reservation: it is dropped as settled, so that
  \<open>drop\<close> does nothing more. A reservation dropped unsettled is cancelled.\<close>

definition reservation_drop :: "ledger_store \<Rightarrow> reservation \<Rightarrow> ledger_store" where
  "reservation_drop st r =
     (if \<not> res_settled r then st[res_ledger r := inner_cancel (st ! res_ledger r) (res_amount r)] else st)"

definition reservation_settle :: "ledger_store \<Rightarrow> reservation \<Rightarrow> u64 \<Rightarrow> int \<times> ledger_store" where
  "reservation_settle st r actual_cost =
     (let r' = r\<lparr>res_settled := True\<rparr>
      in case inner_settle (st ! res_ledger r) (res_amount r) actual_cost of
           (diff, l) \<Rightarrow> (diff, reservation_drop (st[res_ledger r := l]) r'))"

definition reservation_cancel :: "ledger_store \<Rightarrow> reservation \<Rightarrow> ledger_store" where
  "reservation_cancel st r =
     (let r' = r\<lparr>res_settled := True\<rparr>
      in reservation_drop (st[res_ledger r := inner_cancel (st ! res_ledger r) (res_amount r)]) r')"

definition ledger_remaining :: "ledger_store \<Rightarrow> nat \<Rightarrow> budget_snapshot" where
  "ledger_remaining st h = inner_snapshot (st ! h)"

definition initial_budget :: "ledger_store \<Rightarrow> nat \<Rightarrow> u64" where
  "initial_budget st h = li_initial (st ! h)"

definition ledger_is_exhausted :: "ledger_store \<Rightarrow> nat \<Rightarrow> bool" where
  "ledger_is_exhausted st h \<longleftrightarrow> inner_remaining (st ! h) = 0"

definition force_settle :: "ledger_store \<Rightarrow> nat \<Rightarrow> u64 \<Rightarrow> u64 \<times> ledger_store" where
  "force_settle st h cost =
     (let l = st ! h;
          actual = min cost (inner_remaining l);
          st1 = st[h := l\<lparr>li_settled := li_settled l + actual\<rparr>]
      in (actual, case li_parent l of
            None \<Rightarrow> st1
          | Some q \<Rightarrow> st1[q := (st1 ! q)\<lparr>li_settled := li_settled (st1 ! q) + actual\<rparr>]))"

lemmas ledger_defs = ledger_reserve_def inner_try_reserve_def inner_settle_def inner_cancel_def
  reservation_settle_def reservation_cancel_def reservation_drop_def ledger_remaining_def
  inner_snapshot_def ledger_is_exhausted_def create_child_def release_unused_def force_settle_def
  inner_new_def

section \<open>Sequential behaviour\<close>

lemma unat_remaining_of [unat_simps]: "unat (remaining_of i r s) = unat i - unat r - unat s"
  by (simp add: remaining_of_def unat_simps)

lemma unat_inner_remaining [unat_simps]:
  "unat (inner_remaining l) = unat (li_initial l) - unat (li_reserved l) - unat (li_settled l)"
  by (simp add: inner_remaining_def unat_simps)

text \<open>A reservation that succeeds never overflows the counter: it stays within the budget.\<close>

lemma reserve_no_wrap:
  assumes "0 < a" and "a \<le> remaining_of i r s"
  shows "unat (r + a) = unat r + unat a" and "unat r + unat a + unat s \<le> unat i"
proof -
  have "0 < unat a" using assms(1) by (simp add: word_less_nat_alt)
  moreover have "unat a \<le> unat i - unat r - unat s"
    using assms(2) by (simp add: word_le_nat_alt unat_simps)
  ultimately show le: "unat r + unat a + unat s \<le> unat i" by linarith
  have "unat i < 2 ^ 64" using unsigned_less[of i, where 'a = nat] by simp
  with le show "unat (r + a) = unat r + unat a" by (intro unat_add_below) simp
qed

lemma try_reserve_spec:
  assumes "0 < a"
  shows "inner_try_reserve l a = (True, l') \<longleftrightarrow>
      unat a \<le> unat (inner_remaining l) \<and> l' = l\<lparr>li_reserved := li_reserved l + a\<rparr>"
  by (auto simp: inner_try_reserve_def word_le_nat_alt word_less_nat_alt)

lemma try_reserve_remaining:
  assumes "0 < a" and "inner_try_reserve l a = (True, l')"
  shows "unat (inner_remaining l') = unat (inner_remaining l) - unat a"
    and "unat (li_reserved l') = unat (li_reserved l) + unat a"
proof -
  have "a \<le> remaining_of (li_initial l) (li_reserved l) (li_settled l)"
    using assms try_reserve_spec by (simp add: inner_remaining_def word_le_nat_alt)
  note nw = reserve_no_wrap[OF assms(1) this]
  have l': "l' = l\<lparr>li_reserved := li_reserved l + a\<rparr>" using assms try_reserve_spec by blast
  show "unat (li_reserved l') = unat (li_reserved l) + unat a" by (simp add: l' nw)
  then show "unat (inner_remaining l') = unat (inner_remaining l) - unat a"
    by (simp add: unat_simps l')
qed

text \<open>One provider call: reserve the estimate (or nothing, when the budget cannot cover it),
  then settle the actual cost.\<close>

definition turn_charge :: "ledger_inner \<Rightarrow> u64 \<Rightarrow> u64 \<Rightarrow> ledger_inner" where
  "turn_charge l estimate cost =
     (if estimate = 0 \<or> estimate > inner_remaining l then snd (inner_settle l 0 cost)
      else snd (inner_settle (l\<lparr>li_reserved := li_reserved l + estimate\<rparr>) estimate cost))"

lemma turn_charge_settled: "turn_charge l e c = l\<lparr>li_settled := li_settled l + c\<rparr>"
  by (simp add: turn_charge_def inner_settle_def)

text \<open>
  What a client of a meter may rely on: paying a price lowers what is left by that price,
  as long as the meter's counter has room for it. The lemma on whole runs is proved once,
  for any meter.
\<close>

locale metered =
  fixes left :: "'l \<Rightarrow> nat" and room :: "'l \<Rightarrow> nat" and pay :: "'c \<Rightarrow> 'l \<Rightarrow> 'l" and price :: "'c \<Rightarrow> nat"
  assumes left_pay: "price c \<le> room l \<Longrightarrow> left (pay c l) = left l - price c"
    and room_pay: "price c \<le> room l \<Longrightarrow> room (pay c l) = room l - price c"
begin

lemma left_run:
  "sum_list (map price cs) \<le> room l \<Longrightarrow> left (fold pay cs l) = left l - sum_list (map price cs)"
proof (induction cs arbitrary: l)
  case Nil
  then show ?case by simp
next
  case (Cons c cs)
  then have "price c \<le> room l" and "sum_list (map price cs) \<le> room (pay c l)"
    by (auto simp: room_pay)
  with Cons.IH[of "pay c l"] show ?case by (simp add: left_pay)
qed

lemma exhausted_run:
  assumes "sum_list (map price cs) \<le> room l"
  shows "left (fold pay cs l) = 0 \<longleftrightarrow> left l \<le> sum_list (map price cs)"
  using left_run[OF assms] by simp

end

definition counter_room :: "ledger_inner \<Rightarrow> nat" where
  "counter_room l = 2 ^ 64 - 1 - unat (li_settled l)"

definition pay_turn :: "u64 \<times> u64 \<Rightarrow> ledger_inner \<Rightarrow> ledger_inner" where
  "pay_turn ec l = turn_charge l (fst ec) (snd ec)"

definition turn_price :: "u64 \<times> u64 \<Rightarrow> nat" where
  "turn_price ec = unat (snd ec)"

lemma unat_settled_add:
  assumes "unat c \<le> counter_room l"
  shows "unat (li_settled l + c) = unat (li_settled l) + unat c"
proof -
  have "unat (li_settled l) < 2 ^ 64" using unsigned_less[of "li_settled l", where 'a = nat] by simp
  with assms show ?thesis by (intro unat_add_below) (simp add: counter_room_def)
qed

interpretation meter: metered "\<lambda>l. unat (inner_remaining l)" counter_room pay_turn turn_price
proof
  fix c and l :: ledger_inner
  assume fits: "turn_price c \<le> counter_room l"
  have eq: "unat (li_settled l + snd c) = unat (li_settled l) + unat (snd c)"
    using fits unat_settled_add by (simp add: turn_price_def)
  show "unat (inner_remaining (pay_turn c l)) = unat (inner_remaining l) - turn_price c"
    by (simp add: pay_turn_def turn_charge_settled turn_price_def unat_simps eq)
  show "counter_room (pay_turn c l) = counter_room l - turn_price c"
    by (simp add: pay_turn_def turn_charge_settled turn_price_def counter_room_def eq)
qed

section \<open>Parent and child\<close>

lemma create_child_Some:
  assumes "create_child st h a = Some (st', k)" and "h < length st"
  shows "k = length st" and "length st' = Suc (length st)"
    and "st' ! k = inner_new a (Some h)"
    and "st' ! h = (st ! h)\<lparr>li_settled := li_settled (st ! h) + a\<rparr>"
    and "unat a \<le> unat (inner_remaining (st ! h))"
  using assms by (auto simp: create_child_def Let_def nth_append word_le_nat_alt word_less_nat_alt split: if_splits)

lemma release_unused_eq:
  assumes "li_parent (st ! k) = Some h" and "h < length st" and "h \<noteq> k"
  shows "release_unused st k =
    st[h := (st ! h)\<lparr>li_settled := li_settled (st ! h) - saturating_sub (li_initial (st ! k)) (li_settled (st ! k))\<rparr>]"
  using assms by (auto simp: release_unused_def Let_def word_gt_0)

section \<open>Concurrent reservations\<close>

text \<open>
  What a thread is about to do. \<open>LoadReserved a\<close> to \<open>Compare a r s\<close> are the three points
  inside the loop of \<open>try_reserve a\<close>; \<open>Held a\<close> owns a reservation of \<open>a\<close>; \<open>Settling a\<close>
  has added its cost to \<open>settled\<close> and not yet lowered \<open>reserved\<close>.
\<close>

datatype thread = Idle | LoadReserved u64 | LoadSettled u64 u64 | Compare u64 u64 u64
  | Held u64 | Settling u64

record ledger_sys =
  sys_initial :: u64
  sys_reserved :: u64
  sys_settled :: u64
  sys_threads :: "thread list"

text \<open>
  \<open>allowed a c\<close> says which cost \<open>c\<close> a reservation of \<open>a\<close> may be settled with. A reservation
  of zero takes no atomic access.
\<close>

inductive ledger_step :: "(u64 \<Rightarrow> u64 \<Rightarrow> bool) \<Rightarrow> ledger_sys \<Rightarrow> ledger_sys \<Rightarrow> bool"
  for allowed :: "u64 \<Rightarrow> u64 \<Rightarrow> bool" where
  reserve_zero: "i < length (sys_threads s) \<Longrightarrow> sys_threads s ! i = Idle \<Longrightarrow>
     ledger_step allowed s (s\<lparr>sys_threads := (sys_threads s)[i := Held 0]\<rparr>)"
| reserve_start: "i < length (sys_threads s) \<Longrightarrow> sys_threads s ! i = Idle \<Longrightarrow> 0 < a \<Longrightarrow>
     ledger_step allowed s (s\<lparr>sys_threads := (sys_threads s)[i := LoadReserved a]\<rparr>)"
| load_reserved: "i < length (sys_threads s) \<Longrightarrow> sys_threads s ! i = LoadReserved a \<Longrightarrow>
     ledger_step allowed s (s\<lparr>sys_threads := (sys_threads s)[i := LoadSettled a (sys_reserved s)]\<rparr>)"
| load_settled: "i < length (sys_threads s) \<Longrightarrow> sys_threads s ! i = LoadSettled a r \<Longrightarrow>
     ledger_step allowed s (s\<lparr>sys_threads := (sys_threads s)[i := Compare a r (sys_settled s)]\<rparr>)"
| refuse: "i < length (sys_threads s) \<Longrightarrow> sys_threads s ! i = Compare a r t \<Longrightarrow>
     a > remaining_of (sys_initial s) r t \<Longrightarrow>
     ledger_step allowed s (s\<lparr>sys_threads := (sys_threads s)[i := Idle]\<rparr>)"
| cas_success: "i < length (sys_threads s) \<Longrightarrow> sys_threads s ! i = Compare a r t \<Longrightarrow>
     a \<le> remaining_of (sys_initial s) r t \<Longrightarrow> sys_reserved s = r \<Longrightarrow>
     ledger_step allowed s (s\<lparr>sys_reserved := r + a, sys_threads := (sys_threads s)[i := Held a]\<rparr>)"
| cas_failure: "i < length (sys_threads s) \<Longrightarrow> sys_threads s ! i = Compare a r t \<Longrightarrow>
     a \<le> remaining_of (sys_initial s) r t \<Longrightarrow> sys_reserved s \<noteq> r \<Longrightarrow>
     ledger_step allowed s (s\<lparr>sys_threads := (sys_threads s)[i := LoadReserved a]\<rparr>)"
| settle_add: "i < length (sys_threads s) \<Longrightarrow> sys_threads s ! i = Held a \<Longrightarrow> allowed a c \<Longrightarrow>
     ledger_step allowed s (s\<lparr>sys_settled := sys_settled s + c, sys_threads := (sys_threads s)[i := Settling a]\<rparr>)"
| settle_sub: "i < length (sys_threads s) \<Longrightarrow> sys_threads s ! i = Settling a \<Longrightarrow>
     ledger_step allowed s (s\<lparr>sys_reserved := sys_reserved s - a, sys_threads := (sys_threads s)[i := Idle]\<rparr>)"
| cancel: "i < length (sys_threads s) \<Longrightarrow> sys_threads s ! i = Held a \<Longrightarrow>
     ledger_step allowed s (s\<lparr>sys_reserved := sys_reserved s - a, sys_threads := (sys_threads s)[i := Idle]\<rparr>)"

definition ledger_start :: "ledger_sys \<Rightarrow> bool" where
  "ledger_start s \<longleftrightarrow> sys_reserved s = 0 \<and> sys_settled s = 0 \<and> (\<forall>t \<in> set (sys_threads s). t = Idle)"

fun held :: "thread \<Rightarrow> nat" where
  "held (Held a) = unat a"
| "held (Settling a) = unat a"
| "held _ = 0"

fun wants_something :: "thread \<Rightarrow> bool" where
  "wants_something (LoadReserved a) = (0 < a)"
| "wants_something (LoadSettled a r) = (0 < a)"
| "wants_something (Compare a r t) = (0 < a)"
| "wants_something _ = True"

definition outstanding :: "ledger_sys \<Rightarrow> nat" where
  "outstanding s = sum_list (map held (sys_threads s))"

definition ledger_inv :: "ledger_sys \<Rightarrow> bool" where
  "ledger_inv s \<longleftrightarrow> unat (sys_reserved s) = outstanding s \<and> unat (sys_reserved s) \<le> unat (sys_initial s) \<and>
     list_all wants_something (sys_threads s)"

lemma outstanding_update:
  assumes "i < length ts"
  shows "sum_list (map held (ts[i := t])) + held (ts ! i) = sum_list (map held ts) + held t"
  using assms
proof (induction ts arbitrary: i)
  case Nil
  then show ?case by simp
next
  case (Cons u us)
  then show ?case by (cases i) auto
qed

lemma held_le_sum: "i < length ts \<Longrightarrow> held (ts ! i) \<le> sum_list (map held ts)"
  using elem_le_sum_list[of i "map held ts"] by simp

lemma wants_update:
  "list_all wants_something ts \<Longrightarrow> wants_something t \<Longrightarrow> list_all wants_something (ts[i := t])"
  by (auto simp: list_all_iff dest: set_update_subset_insert[THEN subsetD])

lemma wants_nth: "list_all wants_something ts \<Longrightarrow> i < length ts \<Longrightarrow> wants_something (ts ! i)"
  by (simp add: list_all_length)

lemma release_keeps_inv:
  assumes "ledger_inv s" and "i < length (sys_threads s)" and "held (sys_threads s ! i) = unat a"
  shows "ledger_inv (s\<lparr>sys_reserved := sys_reserved s - a, sys_threads := (sys_threads s)[i := Idle]\<rparr>)"
proof -
  have le: "unat a \<le> unat (sys_reserved s)"
    using assms held_le_sum by (fastforce simp: ledger_inv_def outstanding_def)
  have "unat (sys_reserved s - a) = unat (sys_reserved s) - unat a"
    using le by (rule unat_sub_below)
  moreover have "sum_list (map held ((sys_threads s)[i := Idle])) + unat a = outstanding s"
    using outstanding_update[OF assms(2), of Idle] assms(3) by (simp add: outstanding_def)
  ultimately show ?thesis
    using assms(1) le by (auto simp: ledger_inv_def outstanding_def intro: wants_update)
qed

lemma ledger_step_inv:
  assumes "ledger_inv s" and "ledger_step allowed s t"
  shows "ledger_inv t"
  using assms(2,1)
proof (induction rule: ledger_step.induct)
  case (cas_success i s a r t)
  have "0 < a" using cas_success wants_nth[of "sys_threads s" i] by (simp add: ledger_inv_def)
  note nw = reserve_no_wrap[OF this cas_success(3)]
  have "sum_list (map held ((sys_threads s)[i := Held a])) = outstanding s + unat a"
    using outstanding_update[OF cas_success(1), of "Held a"] cas_success(2) by (simp add: outstanding_def)
  with cas_success nw show ?case
    by (auto simp: ledger_inv_def outstanding_def intro: wants_update)
next
  case (settle_sub i s a)
  then show ?case by (intro release_keeps_inv) simp_all
next
  case (cancel i s a)
  then show ?case by (intro release_keeps_inv) simp_all
next
  case (settle_add i s a c)
  then show ?case
    using outstanding_update[OF settle_add(1), of "Settling a"]
    by (auto simp: ledger_inv_def outstanding_def intro: wants_update)
next
  case (reserve_zero i s)
  then show ?case
    using outstanding_update[OF reserve_zero(1), of "Held 0"]
    by (auto simp: ledger_inv_def outstanding_def intro: wants_update)
qed (use outstanding_update wants_nth in \<open>fastforce simp: ledger_inv_def outstanding_def intro!: wants_update\<close>)+

lemma ledger_start_inv: "ledger_start s \<Longrightarrow> ledger_inv s"
  by (auto simp: ledger_start_def ledger_inv_def outstanding_def list_all_iff sum_list_eq_0_iff)

interpretation ledger_conc: invariant_system ledger_start "ledger_step allowed" ledger_inv
  by unfold_locales (auto intro: ledger_start_inv ledger_step_inv)

section \<open>Properties\<close>

text \<open>C30: no interleaving over-reserves. However many threads reserve, settle (at any cost)
  and cancel concurrently, the counter \<open>reserved\<close> is exactly the sum of the reservations
  held, and that sum never exceeds the initial budget.\<close>

theorem concurrent_reservations_within_budget:
  assumes "reach ledger_start (ledger_step allowed) s"
  shows "unat (sys_reserved s) = outstanding s \<and> outstanding s \<le> unat (sys_initial s)"
  using ledger_conc.inv_reach[OF assms] by (simp add: ledger_inv_def)

text \<open>The compare-and-swap of \<open>try_reserve\<close> does not protect \<open>settled\<close>. Two threads that
  each reserve the whole budget of 100 and each settle exactly what they reserved can
  both succeed, so that 200 is spent: the second thread read \<open>settled\<close> before the first
  one reserved and settled, and the value of \<open>reserved\<close> it compares with has come back.\<close>

theorem concurrent_overspend_reachable:
  "\<exists>s. reach ledger_start (ledger_step (\<lambda>a c. c \<le> a)) s \<and> sys_initial s = 100 \<and>
       sys_settled s = 200 \<and> sys_threads s = [Idle, Idle]"
proof -
  let ?R = "reach ledger_start (ledger_step (\<lambda>a c. c \<le> a))"
  let ?s = "\<lambda>r st ts. \<lparr>sys_initial = 100, sys_reserved = r, sys_settled = st, sys_threads = ts\<rparr>"
  have "?R (?s 0 0 [Idle, Idle])" by (rule reach_init) (simp add: ledger_start_def)
  then have "?R (?s 0 0 [LoadReserved 100, Idle])"
    by (rule reach_step) (use reserve_start[of 0 "?s 0 0 [Idle, Idle]" 100] in simp)
  then have "?R (?s 0 0 [LoadSettled 100 0, Idle])"
    by (rule reach_step) (use load_reserved[of 0 "?s 0 0 [LoadReserved 100, Idle]" 100] in simp)
  then have "?R (?s 0 0 [Compare 100 0 0, Idle])"
    by (rule reach_step) (use load_settled[of 0 "?s 0 0 [LoadSettled 100 0, Idle]" 100 0] in simp)
  then have "?R (?s 0 0 [Compare 100 0 0, LoadReserved 100])"
    by (rule reach_step) (use reserve_start[of 1 "?s 0 0 [Compare 100 0 0, Idle]" 100] in simp)
  then have "?R (?s 0 0 [Compare 100 0 0, LoadSettled 100 0])"
    by (rule reach_step) (use load_reserved[of 1 "?s 0 0 [Compare 100 0 0, LoadReserved 100]" 100] in simp)
  then have "?R (?s 0 0 [Compare 100 0 0, Compare 100 0 0])"
    by (rule reach_step) (use load_settled[of 1 "?s 0 0 [Compare 100 0 0, LoadSettled 100 0]" 100 0] in simp)
  then have "?R (?s 100 0 [Compare 100 0 0, Held 100])"
    by (rule reach_step)
      (use cas_success[of 1 "?s 0 0 [Compare 100 0 0, Compare 100 0 0]" 100 0 0]
        in \<open>simp add: remaining_of_def saturating_sub_def\<close>)
  then have "?R (?s 100 100 [Compare 100 0 0, Settling 100])"
    by (rule reach_step) (use settle_add[of 1 "?s 100 0 [Compare 100 0 0, Held 100]" 100 "\<lambda>a c. c \<le> a" 100] in simp)
  then have "?R (?s 0 100 [Compare 100 0 0, Idle])"
    by (rule reach_step) (use settle_sub[of 1 "?s 100 100 [Compare 100 0 0, Settling 100]" 100] in simp)
  then have "?R (?s 100 100 [Held 100, Idle])"
    by (rule reach_step)
      (use cas_success[of 0 "?s 0 100 [Compare 100 0 0, Idle]" 100 0 0]
        in \<open>simp add: remaining_of_def saturating_sub_def\<close>)
  then have "?R (?s 100 200 [Settling 100, Idle])"
    by (rule reach_step) (use settle_add[of 0 "?s 100 100 [Held 100, Idle]" 100 "\<lambda>a c. c \<le> a" 100] in simp)
  then have "?R (?s 0 200 [Idle, Idle])"
    by (rule reach_step) (use settle_sub[of 0 "?s 100 200 [Settling 100, Idle]" 100] in simp)
  then show ?thesis by (intro exI conjI) auto
qed

text \<open>a session's calls are charged exactly. Over any sequence of provider calls, each
  with an estimate and an actual cost, the budget left is what was left before minus the
  sum of the actual costs, never below zero, whatever the estimates were; and the ledger
  is exhausted exactly when the costs reach what was left. (The hypothesis is that the
  64-bit counter of settled costs does not wrap.)\<close>

theorem ledger_run_charges_exactly:
  assumes "(\<Sum>ec \<leftarrow> calls. unat (snd ec)) \<le> 2 ^ 64 - 1 - unat (li_settled l)"
  shows "unat (inner_remaining (fold pay_turn calls l)) =
      unat (inner_remaining l) - (\<Sum>ec \<leftarrow> calls. unat (snd ec)) \<and>
    (inner_remaining (fold pay_turn calls l) = 0 \<longleftrightarrow>
      unat (inner_remaining l) \<le> (\<Sum>ec \<leftarrow> calls. unat (snd ec)))"
proof -
  have price: "turn_price = (\<lambda>ec. unat (snd ec))" by (rule ext) (simp add: turn_price_def)
  have "sum_list (map turn_price calls) \<le> counter_room l"
    using assms by (simp add: counter_room_def price)
  note run = meter.left_run[OF this] and ex = meter.exhausted_run[OF this]
  show ?thesis using run ex[unfolded unat_eq_0] by (simp only: price)
qed

text \<open>what \<open>reserve\<close> does, on every branch. A reservation of zero always succeeds and
  touches nothing; a positive one succeeds exactly when the budget left covers it, and
  then lowers the budget left by its amount; otherwise the error carries the amount asked
  for and the budget left, and the ledger is as before.\<close>

theorem ledger_reserve_spec:
  assumes "h < length st"
  shows "(case ledger_reserve st h c of
      (Inr r, st') \<Rightarrow> r = \<lparr>res_ledger = h, res_amount = c, res_settled = False\<rparr> \<and>
        unat c \<le> unat (inner_remaining (st ! h)) \<and>
        st' = st[h := (st ! h)\<lparr>li_reserved := li_reserved (st ! h) + c\<rparr>] \<and>
        unat (inner_remaining (st' ! h)) = unat (inner_remaining (st ! h)) - unat c
    | (Inl e, st') \<Rightarrow> e = \<lparr>be_requested = c, be_remaining = inner_remaining (st ! h)\<rparr> \<and>
        unat (inner_remaining (st ! h)) < unat c \<and> st' = st)"
proof (cases "0 < c")
  case False
  then have "c = 0" by (simp add: word_gt_0)
  then show ?thesis by (simp add: ledger_reserve_def)
next
  case True
  show ?thesis
  proof (cases "inner_remaining (st ! h) < c")
    case refused: True
    with \<open>0 < c\<close> show ?thesis
      by (auto simp: ledger_reserve_def inner_try_reserve_def word_less_nat_alt)
  next
    case False
    let ?l = "(st ! h)\<lparr>li_reserved := li_reserved (st ! h) + c\<rparr>"
    have "inner_try_reserve (st ! h) c = (True, ?l)" using False by (simp add: inner_try_reserve_def)
    with \<open>0 < c\<close> False try_reserve_remaining(1)[OF True this] assms show ?thesis
      by (auto simp: ledger_reserve_def word_less_nat_alt)
  qed
qed

text \<open>a reservation that is cancelled, or dropped without being settled, leaves no
  trace: the ledger is what it was before the reservation. Settling it at \<open>cost\<close> leaves
  exactly \<open>cost\<close> added to the settled amount.\<close>

theorem reservation_roundtrip:
  assumes "ledger_reserve st h c = (Inr r, st')" and "h < length st"
  shows "reservation_cancel st' r = st \<and> reservation_drop st' r = st \<and>
    reservation_settle st' r cost =
      (sint (c - cost), st[h := (st ! h)\<lparr>li_settled := li_settled (st ! h) + cost\<rparr>])"
proof -
  have r: "r = \<lparr>res_ledger = h, res_amount = c, res_settled = False\<rparr>"
    and st': "st' = st[h := (st ! h)\<lparr>li_reserved := li_reserved (st ! h) + c\<rparr>]"
    using assms by (auto simp: ledger_reserve_def inner_try_reserve_def split: if_splits)
  show ?thesis using assms(2)
    by (auto simp: r st' reservation_cancel_def reservation_drop_def reservation_settle_def
        inner_cancel_def inner_settle_def Let_def)
qed

text \<open>a child's allocation is conserved. When a child ledger is created, spends through
  one settled reservation no more than its allocation, and gives the rest back, the
  parent's settled amount has grown by exactly what the child spent.\<close>

theorem child_spend_and_release:
  assumes "h < length st" and "create_child st h allocation = Some (st1, k)"
    and "ledger_reserve st1 k estimate = (Inr r, st2)"
    and "reservation_settle st2 r cost = (diff, st3)" and "cost \<le> allocation"
  shows "release_unused st3 k ! h = (st ! h)\<lparr>li_settled := li_settled (st ! h) + cost\<rparr>"
proof -
  note ch = create_child_Some[OF assms(2,1)]
  have k: "k < length st1" "h \<noteq> k" using ch assms(1) by auto
  have "st3 = st1[k := (st1 ! k)\<lparr>li_settled := li_settled (st1 ! k) + cost\<rparr>]"
    using reservation_roundtrip[OF assms(3) k(1), of cost] assms(4) by simp
  then have par: "st3 ! h = (st ! h)\<lparr>li_settled := li_settled (st ! h) + allocation\<rparr>"
    and kid: "st3 ! k = \<lparr>li_initial = allocation, li_reserved = 0, li_settled = cost, li_parent = Some h\<rparr>"
    and len: "h < length st3"
    using k ch assms(1) by (simp_all add: inner_new_def)
  have "saturating_sub allocation cost = allocation - cost"
    using assms(5) by (simp add: saturating_sub_def)
  then show ?thesis using release_unused_eq[of st3 k h] par kid len k(2) by simp
qed

text \<open>A child's forced settlement is charged to the parent twice. After a child is
  created with an allocation, settles \<open>cost\<close> within it by \<open>force_settle\<close> and gives the rest
  back, the parent's settled amount has grown by twice \<open>cost\<close>.\<close>

theorem child_force_settle_charged_twice:
  assumes "h < length st" and "create_child st h allocation = Some (st1, k)"
    and "cost \<le> allocation" and "force_settle st1 k cost = (paid, st2)"
  shows "paid = cost \<and>
    release_unused st2 k ! h = (st ! h)\<lparr>li_settled := li_settled (st ! h) + cost + cost\<rparr>"
proof -
  note ch = create_child_Some[OF assms(2,1)]
  have k: "k < length st1" "h \<noteq> k" "h < length st1" using ch assms(1) by auto
  have rem: "inner_remaining (st1 ! k) = allocation"
    by (simp add: ch(3) inner_new_def inner_remaining_def remaining_of_def saturating_sub_def)
  then have paid: "paid = cost" and st2: "st2 =
      (st1[k := (st1 ! k)\<lparr>li_settled := cost\<rparr>])
        [h := (st ! h)\<lparr>li_settled := li_settled (st ! h) + allocation + cost\<rparr>]"
    using assms(3,4) k by (auto simp: force_settle_def Let_def ch(3,4) inner_new_def min_def)
  have "saturating_sub allocation cost = allocation - cost"
    using assms(3) by (simp add: saturating_sub_def)
  then have "release_unused st2 k ! h = (st ! h)\<lparr>li_settled := li_settled (st ! h) + cost + cost\<rparr>"
    using release_unused_eq[of st2 k h] k by (simp add: st2 ch(3) inner_new_def)
  with paid show ?thesis by simp
qed

section \<open>Witnesses\<close>

definition ex_sys :: ledger_sys where
  "ex_sys = \<lparr>sys_initial = 100, sys_reserved = 0, sys_settled = 0, sys_threads = [Held 0, Idle]\<rparr>"

theorem concurrent_reservations_within_budget_witness:
  "unat (sys_reserved ex_sys) = outstanding ex_sys \<and> outstanding ex_sys \<le> unat (sys_initial ex_sys)"
proof (rule concurrent_reservations_within_budget)
  let ?s = "ex_sys\<lparr>sys_threads := [Idle, Idle]\<rparr>"
  have "reach ledger_start (ledger_step (\<lambda>_ _. True)) ?s"
    by (rule reach_init) (simp add: ledger_start_def ex_sys_def)
  then show "reach ledger_start (ledger_step (\<lambda>_ _. True)) ex_sys"
    by (rule reach_step) (use reserve_zero[of 0 ?s] in \<open>simp add: ex_sys_def\<close>)
qed

definition ex_store :: ledger_store where
  "ex_store = [inner_new 1000 None]"

theorem ledger_run_charges_exactly_witness:
  "unat (inner_remaining (fold pay_turn [(100, 80), (5000, 950)] (inner_new 1000 None))) =
     unat (inner_remaining (inner_new 1000 None)) - (\<Sum>ec \<leftarrow> [(100, 80), (5000, 950 :: u64)]. unat (snd ec)) \<and>
   (\<Sum>ec \<leftarrow> [(100 :: u64, 80), (5000, 950 :: u64)]. unat (snd ec)) = 1030"
  using ledger_run_charges_exactly[of "[(100, 80), (5000, 950)]" "inner_new 1000 None"]
  by (simp add: inner_new_def)

theorem ledger_reserve_spec_witness:
  "ledger_reserve ex_store 0 1001 = (Inl \<lparr>be_requested = 1001, be_remaining = 1000\<rparr>, ex_store)"
  using ledger_reserve_spec[of 0 ex_store 1001]
  by (simp add: ex_store_def ledger_defs inner_remaining_def remaining_of_def saturating_sub_def)

lemma ex_reserve:
  "ledger_reserve ex_store 0 100 = (Inr \<lparr>res_ledger = 0, res_amount = 100, res_settled = False\<rparr>,
     [\<lparr>li_initial = 1000, li_reserved = 100, li_settled = 0, li_parent = None\<rparr>])"
  by (simp add: ex_store_def ledger_defs inner_remaining_def remaining_of_def saturating_sub_def)

theorem reservation_roundtrip_witness:
  "reservation_cancel [\<lparr>li_initial = 1000, li_reserved = 100, li_settled = 0, li_parent = None\<rparr>]
     \<lparr>res_ledger = 0, res_amount = 100, res_settled = False\<rparr> = ex_store"
  using reservation_roundtrip[OF ex_reserve] by (simp add: ex_store_def)

definition ex_child_store :: "u64 \<Rightarrow> u64 \<Rightarrow> ledger_store" where
  "ex_child_store r c =
     [\<lparr>li_initial = 1000, li_reserved = 0, li_settled = 400, li_parent = None\<rparr>,
      \<lparr>li_initial = 400, li_reserved = r, li_settled = c, li_parent = Some 0\<rparr>]"

lemma ex_create_child: "create_child ex_store 0 400 = Some (ex_child_store 0 0, 1)"
  by (simp add: ex_store_def ex_child_store_def ledger_defs inner_remaining_def remaining_of_def saturating_sub_def)

theorem child_spend_and_release_witness:
  "release_unused (ex_child_store 0 120) 1 ! 0 = \<lparr>li_initial = 1000, li_reserved = 0, li_settled = 120, li_parent = None\<rparr>"
proof -
  have r: "ledger_reserve (ex_child_store 0 0) 1 100 =
      (Inr \<lparr>res_ledger = 1, res_amount = 100, res_settled = False\<rparr>, ex_child_store 100 0)"
    by (simp add: ex_child_store_def ledger_defs inner_remaining_def remaining_of_def saturating_sub_def)
  have s: "reservation_settle (ex_child_store 100 0) \<lparr>res_ledger = 1, res_amount = 100, res_settled = False\<rparr> 120
      = (- 20, ex_child_store 0 120)"
    by (simp add: ex_child_store_def ledger_defs)
  show ?thesis
    using child_spend_and_release[OF _ ex_create_child r s] by (simp add: ex_store_def inner_new_def)
qed

theorem child_force_settle_charged_twice_witness:
  "fst (force_settle (ex_child_store 0 0) 1 120) = 120 \<and>
   release_unused (snd (force_settle (ex_child_store 0 0) 1 120)) 1 ! 0 =
     \<lparr>li_initial = 1000, li_reserved = 0, li_settled = 240, li_parent = None\<rparr>"
  using child_force_settle_charged_twice[OF _ ex_create_child, of 120
      "fst (force_settle (ex_child_store 0 0) 1 120)" "snd (force_settle (ex_child_store 0 0) 1 120)"]
  by (simp add: ex_store_def inner_new_def)

end
