(* ===== verification/Agent_Loop.thy ===== *)
theory Agent_Loop
  imports Tool_Execution Policy Budget_Ledger
begin

text \<open>
  The agent loop of crate \<open>runtime\<close> (\<open>run_session_internal\<close> of \<open>lib.rs\<close>): a session asks the
  provider, charges the turn, executes the tool calls of the answer and goes round again
  until the provider answers without tool calls, a limit is hit or an error occurs.

  A session's state is the host state together with the loop's local variables: the
  conversation, the next memory sequence, the turn counter, the accumulated cost and the
  budget ledger. Every step is an action on that state, so an error leaves what was done
  before it in place, as the \<open>&mut Context\<close> of the source does. The loop has no bound of its
  own; it is run with fuel, and \<open>None\<close> means that the fuel did not suffice.

  A batch of read-only calls (\<open>join_all\<close>) is executed in list order, which is one of the
  interleavings the executor may choose; the heartbeat timer task sends only progress
  items and is left out.
\<close>

section \<open>State\<close>

record 'w session =
  ses_host :: "'w host"
  ses_context :: llm_context
  ses_next_sequence :: u64
  ses_turn :: nat
  ses_cost :: f64
  ses_ledger :: "ledger_store option"

type_synonym ('w, 'a) step = "('w session, runtime_error, 'a) action"

definition on_host :: "('w host, runtime_error, 'a) action \<Rightarrow> ('w, 'a) step" where
  "on_host m s = (case m (ses_host s) of (r, w) \<Rightarrow> (r, s\<lparr>ses_host := w\<rparr>))"

text \<open>What a run of the loop is given.\<close>

record 'w run_args =
  ra_libs :: libs
  ra_runtime :: "'w agent_runtime"
  ra_env :: "'w call_env"
  ra_session_id :: "string option"
  ra_listening :: bool
  ra_policy :: "effective_run_policy option"
  ra_tool_context :: "'w tool_execution_context"

definition emit :: "'w run_args \<Rightarrow> stream_item \<Rightarrow> ('w, unit) step" where
  "emit ra item s = (Inr (), s\<lparr>ses_host := forward (ra_listening ra) item (ses_host s)\<rparr>)"

definition persist_message :: "'w run_args \<Rightarrow> message \<Rightarrow> ('w, unit) step" where
  "persist_message ra m s =
     (case persist_message_if_needed (ra_libs ra) (ra_runtime ra) (ra_session_id ra) m (ses_next_sequence s) (ses_host s) of
        (Inr n, w) \<Rightarrow> (Inr (), s\<lparr>ses_host := w, ses_next_sequence := n\<rparr>)
      | (Inl e, w) \<Rightarrow> (Inl e, s\<lparr>ses_host := w\<rparr>))"

definition append_message :: "message \<Rightarrow> 'w session \<Rightarrow> 'w session" where
  "append_message m s = s\<lparr>ses_context := (ses_context s)\<lparr>ctx_messages := ctx_messages (ses_context s) @ [m]\<rparr>\<rparr>"

definition push_message :: "'w run_args \<Rightarrow> message \<Rightarrow> ('w, unit) step" where
  "push_message ra m s = persist_message ra m (append_message m s)"

section \<open>Before the loop\<close>

definition offer_tools :: "'w agent_runtime \<Rightarrow> effective_run_policy option \<Rightarrow> llm_context \<Rightarrow> llm_context" where
  "offer_tools rt policy ctx =
     (if ctx_tools ctx = []
      then (case policy of
              Some p \<Rightarrow> ctx\<lparr>ctx_tools := filtered_schemas (rt_tool_registry rt)
                (Some (fd_name ` set (toolset p))) (disallowed_tools p)\<rparr>
            | None \<Rightarrow> ctx\<lparr>ctx_tools := schemas (rt_tool_registry rt)\<rparr>)
      else ctx)"

definition inject_system_prompt :: "'w agent_runtime \<Rightarrow> channel_capabilities option \<Rightarrow> llm_context \<Rightarrow> llm_context" where
  "inject_system_prompt rt caps ctx =
     (case rt_system_prompt rt of
        None \<Rightarrow> ctx
      | Some prompt \<Rightarrow>
        if list_ex (\<lambda>m. msg_role m = RSystem) (ctx_messages ctx) then ctx
        else
          let augmented_prompt = (case Option.bind caps system_prompt_section of
                Some sect \<Rightarrow> prompt @ nl @ nl @ sect
              | None \<Rightarrow> prompt)
          in ctx\<lparr>ctx_messages := plain_message RSystem augmented_prompt # ctx_messages ctx\<rparr>)"

definition scrubbing_event_sender :: "path_scrub_mapping list \<Rightarrow> stream_item \<Rightarrow> stream_item" where
  "scrubbing_event_sender mappings item =
     (case item of
        SMedia a \<Rightarrow> SMedia (a\<lparr>ma_file_path := scrub_host_paths (ma_file_path a) mappings\<rparr>)
      | other \<Rightarrow> other)"

definition session_tool_context ::
    "'w agent_runtime \<Rightarrow> bool \<Rightarrow> effective_run_policy option \<Rightarrow> llm_context \<Rightarrow> 'w tool_execution_context \<Rightarrow>
     'w tool_execution_context" where
  "session_tool_context rt listening policy ctx tool_context =
     tool_context\<lparr>te_provider := Some (ctx_provider ctx), te_model := Some (ctx_model ctx), te_policy := policy,
       te_permission_handler := rt_permission_handler rt,
       te_event_sender :=
         (if Option.is_none (te_event_sender tool_context) \<and> listening
          then Some (if rt_path_scrub_mappings rt = [] then (\<lambda>item. item)
                     else scrubbing_event_sender (rt_path_scrub_mappings rt))
          else te_event_sender tool_context)\<rparr>"

section \<open>One turn\<close>

definition turn_limit :: "'w agent_runtime \<Rightarrow> effective_run_policy option \<Rightarrow> nat" where
  "turn_limit rt policy =
     (case Option.bind policy pol_max_turns of Some m \<Rightarrow> unat m | None \<Rightarrow> max_turns (rt_limits rt))"

definition effective_max_turns :: "'w run_args \<Rightarrow> nat" where
  "effective_max_turns ra = turn_limit (ra_runtime ra) (ra_policy ra)"

definition should_block :: "effective_run_policy option \<Rightarrow> bool" where
  "should_block policy = (case policy of None \<Rightarrow> True | Some p \<Rightarrow> rollout_mode p = Enforce)"

definition emit_soft_fail :: "'w run_args \<Rightarrow> stop_reason \<Rightarrow> ('w, unit) step" where
  "emit_soft_fail ra reason =
     (if map_option rollout_mode (ra_policy ra) = Some SoftFail
      then emit ra (SPolicyEvent (PolicyStop reason)) else ret_action ())"

definition check_cancelled :: "'w run_args \<Rightarrow> ('w, unit) step" where
  "check_cancelled ra s =
     (if env_is_cancelled (ra_env ra) (ses_host s) then (Inl ECancelled, s) else (Inr (), s))"

definition check_turn_limit :: "'w run_args \<Rightarrow> ('w, unit) step" where
  "check_turn_limit ra s =
     (if ses_turn s \<ge> effective_max_turns ra
      then if should_block (ra_policy ra) then (Inl ETurnLimitExceeded, s)
           else emit_soft_fail ra MaxTurns s
      else (Inr (), s))"

definition check_deadline :: "'w run_args \<Rightarrow> ('w, unit) step" where
  "check_deadline ra s =
     (case Option.bind (ra_policy ra) deadline of
        None \<Rightarrow> (Inr (), s)
      | Some d \<Rightarrow>
        if env_now (ra_env ra) (ses_host s) \<ge> d
        then if should_block (ra_policy ra) then (Inl EDeadlineExceeded, s)
             else emit_soft_fail ra MaxRuntimeExceeded s
        else (Inr (), s))"

definition progress_label :: "'w run_args \<Rightarrow> 'w session \<Rightarrow> string" where
  "progress_label ra s =
     ''['' @ nat_to_string (ses_turn s) @ ''/'' @ nat_to_string (max_turns (rt_limits (ra_runtime ra))) @ ''] ''"

definition announce_provider_call :: "'w run_args \<Rightarrow> ('w, unit) step" where
  "announce_provider_call ra s =
     emit ra (SProgress \<lparr>pe_kind = ProviderCall, pe_message = progress_label ra s @ ''Calling provider'',
       pe_turn = ses_turn s, pe_max_turns = max_turns (rt_limits (ra_runtime ra))\<rparr>) s"

definition COST_PER_M_TOKENS_MICROUSD :: u64 where
  "COST_PER_M_TOKENS_MICROUSD = 10000000"

text \<open>The multiplication is the wrapping one of a release build.\<close>

definition tokens_to_microusd :: "u64 \<Rightarrow> u64" where
  "tokens_to_microusd t = t * COST_PER_M_TOKENS_MICROUSD div 1000000"

definition estimated_cost :: "llm_context \<Rightarrow> u64" where
  "estimated_cost ctx =
     tokens_to_microusd (of_nat (sum_list (map content_length (ctx_messages ctx))) div 4)"

definition reserve_for_turn :: "u64 \<Rightarrow> ('w, reservation option) step" where
  "reserve_for_turn cost s =
     (case ses_ledger s of
        None \<Rightarrow> (Inr None, s)
      | Some st \<Rightarrow>
        (case ledger_reserve st 0 cost of
           (Inr r, st') \<Rightarrow> (Inr (Some r), s\<lparr>ses_ledger := Some st'\<rparr>)
         | (Inl _, st') \<Rightarrow>
           (case ledger_reserve st' 0 0 of
              (Inr r, st'') \<Rightarrow> (Inr (Some r), s\<lparr>ses_ledger := Some st''\<rparr>)
            | (Inl _, st'') \<Rightarrow> (Inr None, s\<lparr>ses_ledger := Some st''\<rparr>))))"

definition turn_cost_microusd :: "usage_update option \<Rightarrow> u64" where
  "turn_cost_microusd usage =
     (case Option.bind usage usage_total_tokens of Some t \<Rightarrow> tokens_to_microusd t | None \<Rightarrow> 0)"

definition used_pct :: "u64 \<Rightarrow> u64 \<Rightarrow> nat" where
  "used_pct remaining initial =
     100 - f64_to_u8 (f64_mul (f64_div (f64_of_nat (unat remaining)) (f64_of_nat (unat initial))) (F_Fin 100))"

definition budget_events :: "budget_snapshot \<Rightarrow> budget_snapshot \<Rightarrow> stream_item list" where
  "budget_events old new =
     SPolicyEvent (BudgetUpdate (sn_remaining new)) #
     (if sn_initial new > 0
      then let old_used = used_pct (sn_remaining old) (sn_initial new);
               new_used = used_pct (sn_remaining new) (sn_initial new)
           in if old_used < 80 \<and> new_used \<ge> 80 then [SPolicyEvent (BudgetWarning (sn_remaining new) 80)]
              else if old_used < 95 \<and> new_used \<ge> 95 then [SPolicyEvent (BudgetWarning (sn_remaining new) 95)]
              else []
      else [])"

fun emit_all :: "'w run_args \<Rightarrow> stream_item list \<Rightarrow> ('w, unit) step" where
  "emit_all ra [] = ret_action ()"
| "emit_all ra (i # is) = bind_action (emit ra i) (\<lambda>_. emit_all ra is)"

text \<open>Settlement of the reservation and the budget events; the answer is whether the budget is used up.\<close>

definition settle_turn ::
    "'w run_args \<Rightarrow> budget_snapshot option \<Rightarrow> reservation option \<Rightarrow> usage_update option \<Rightarrow> ('w, bool) step" where
  "settle_turn ra before reserved usage s =
     (case ses_ledger s of
        None \<Rightarrow> (Inr False, s)
      | Some st \<Rightarrow>
        let st' = (case reserved of
              Some r \<Rightarrow> snd (reservation_settle st r (turn_cost_microusd usage))
            | None \<Rightarrow> st);
            old_snapshot = (case before of Some b \<Rightarrow> b | None \<Rightarrow> ledger_remaining st' 0);
            new_snapshot = ledger_remaining st' 0
        in bind_action (emit_all ra (budget_events old_snapshot new_snapshot))
             (\<lambda>_. ret_action (ledger_is_exhausted st' 0)) (s\<lparr>ses_ledger := Some st'\<rparr>))"

text \<open>\<open>Some\<close> response ends the session; otherwise the tool calls are to be executed.\<close>

definition charge_turn ::
    "'w run_args \<Rightarrow> budget_snapshot option \<Rightarrow> reservation option \<Rightarrow> response \<Rightarrow> ('w, response option) step" where
  "charge_turn ra before reserved rsp =
     (if ra_policy ra \<noteq> None
      then bind_action (settle_turn ra before reserved (rsp_usage rsp)) (\<lambda>exhausted.
             if exhausted
             then if should_block (ra_policy ra)
                  then bind_action (push_message ra (rsp_message rsp)) (\<lambda>_. ret_action (Some rsp))
                  else bind_action (emit_soft_fail ra MaxBudgetExceeded) (\<lambda>_. ret_action None)
             else ret_action None)
      else (\<lambda>s. case enforce_cost_budget (ra_runtime ra) (rsp_usage rsp) (ses_cost s) of
              (Inr _, c) \<Rightarrow> (Inr None, s\<lparr>ses_cost := c\<rparr>)
            | (Inl e, c) \<Rightarrow> (Inl e, s\<lparr>ses_cost := c\<rparr>)))"

section \<open>Tool calls of a turn\<close>

definition turn_tool_context :: "'w run_args \<Rightarrow> 'w session \<Rightarrow> 'w tool_execution_context" where
  "turn_tool_context ra s =
     (ra_tool_context ra)\<lparr>te_turn := Some (of_nat (ses_turn s)),
       te_remaining_budget := map_option (\<lambda>st. sn_remaining (ledger_remaining st 0)) (ses_ledger s)\<rparr>"

text \<open>\<open>join_all\<close>: every call of the batch is run before any of the results is looked at.\<close>

fun run_batch ::
    "'w run_args \<Rightarrow> 'w tool_execution_context \<Rightarrow> tool_call list \<Rightarrow> 'w host \<Rightarrow> (runtime_error, message) result list \<times> 'w host" where
  "run_batch ra tctx [] w = ([], w)"
| "run_batch ra tctx (tc # tcs) w =
     (case execute_tool_and_format (ra_libs ra) (ra_runtime ra) (ra_env ra) tc tctx w of
        (r, w1) \<Rightarrow> (case run_batch ra tctx tcs w1 of (rs, w2) \<Rightarrow> (r # rs, w2)))"

fun push_results :: "'w run_args \<Rightarrow> (runtime_error, message) result list \<Rightarrow> ('w, unit) step" where
  "push_results ra [] = ret_action ()"
| "push_results ra (r # rs) = bind_action (lift_action r) (\<lambda>m. bind_action (push_message ra m) (\<lambda>_. push_results ra rs))"

definition flush_batch :: "'w run_args \<Rightarrow> 'w tool_execution_context \<Rightarrow> tool_call list \<Rightarrow> ('w, unit) step" where
  "flush_batch ra tctx batch s =
     (case run_batch ra tctx batch (ses_host s) of (rs, w) \<Rightarrow> push_results ra rs (s\<lparr>ses_host := w\<rparr>))"

definition is_read_only_call :: "'w run_args \<Rightarrow> tool_call \<Rightarrow> bool" where
  "is_read_only_call ra tc \<longleftrightarrow>
     map_option tool_safety_tier (registry_get (rt_tool_registry (ra_runtime ra)) (tc_name tc)) = Some ReadOnly"

fun run_tool_calls ::
    "'w run_args \<Rightarrow> 'w tool_execution_context \<Rightarrow> tool_call list \<Rightarrow> tool_call list \<Rightarrow> ('w, unit) step" where
  "run_tool_calls ra tctx batch [] = (if batch \<noteq> [] then flush_batch ra tctx batch else ret_action ())"
| "run_tool_calls ra tctx batch (tc # tcs) =
     (if is_read_only_call ra tc then run_tool_calls ra tctx (batch @ [tc]) tcs
      else
        bind_action (if batch \<noteq> [] then flush_batch ra tctx batch else ret_action ()) (\<lambda>_.
        bind_action (check_cancelled ra) (\<lambda>_.
        bind_action (on_host (execute_tool_and_format (ra_libs ra) (ra_runtime ra) (ra_env ra) tc tctx)) (\<lambda>m.
        bind_action (push_message ra m) (\<lambda>_.
        run_tool_calls ra tctx [] tcs)))))"

definition announce_tools :: "'w run_args \<Rightarrow> tool_call list \<Rightarrow> ('w, unit) step" where
  "announce_tools ra calls s =
     (let names = map tc_name calls in
      emit ra (SProgress \<lparr>pe_kind = ToolExecution names,
        pe_message = progress_label ra s @ ''Executing tools: '' @ join '', '' names,
        pe_turn = ses_turn s, pe_max_turns = max_turns (rt_limits (ra_runtime ra))\<rparr>) s)"

section \<open>The loop\<close>

definition next_turn :: "('w, unit) step" where
  "next_turn s = (Inr (), s\<lparr>ses_turn := Suc (ses_turn s)\<rparr>)"

text \<open>The provider call, with the reservation made before it.\<close>

definition ask_provider ::
    "'w run_args \<Rightarrow> ('w, budget_snapshot option \<times> reservation option \<times> response) step" where
  "ask_provider ra =
     bind_action (with_state (\<lambda>s. on_host (maybe_trigger_rolling_summary (ra_libs ra) (ra_runtime ra)
       (ra_session_id ra) (ses_context s)))) (\<lambda>_.
     bind_action (with_state (\<lambda>s. on_host (prepare_provider_context (ra_libs ra) (ra_runtime ra)
       (ra_session_id ra) (ses_context s)))) (\<lambda>provider_context.
     bind_action (with_state (\<lambda>s. ret_action (map_option (\<lambda>st. ledger_remaining st 0) (ses_ledger s)))) (\<lambda>before.
     bind_action (reserve_for_turn (estimated_cost provider_context)) (\<lambda>reserved.
     bind_action (on_host (request_provider_response (ra_libs ra) (ra_runtime ra) (env_is_cancelled (ra_env ra))
       provider_context (ra_listening ra))) (\<lambda>rsp.
     ret_action (before, reserved, rsp))))))"

definition normalize_response :: "response \<Rightarrow> response" where
  "normalize_response rsp =
     (let calls = (if msg_tool_calls (rsp_message rsp) = [] then rsp_tool_calls rsp else msg_tool_calls (rsp_message rsp))
      in rsp\<lparr>rsp_message := (rsp_message rsp)\<lparr>msg_tool_calls := calls\<rparr>, rsp_tool_calls := calls\<rparr>)"

definition answer_turn :: "'w run_args \<Rightarrow> response \<Rightarrow> ('w, response option) step" where
  "answer_turn ra rsp =
     bind_action (push_message ra (rsp_message rsp)) (\<lambda>_.
       if rsp_tool_calls rsp = [] then ret_action (Some rsp)
       else bind_action (announce_tools ra (rsp_tool_calls rsp)) (\<lambda>_.
            bind_action (with_state (\<lambda>s. run_tool_calls ra (turn_tool_context ra s) [] (rsp_tool_calls rsp))) (\<lambda>_.
            ret_action None)))"

definition run_turn :: "'w run_args \<Rightarrow> ('w, response option) step" where
  "run_turn ra =
     bind_action (check_cancelled ra) (\<lambda>_.
     bind_action (check_turn_limit ra) (\<lambda>_.
     bind_action next_turn (\<lambda>_.
     bind_action (check_deadline ra) (\<lambda>_.
     bind_action (announce_provider_call ra) (\<lambda>_.
     bind_action (ask_provider ra) (\<lambda>(before, reserved, raw).
     let rsp = normalize_response raw in
     bind_action (charge_turn ra before reserved rsp) (\<lambda>stop.
     case stop of
       Some r \<Rightarrow> ret_action (Some r)
     | None \<Rightarrow> answer_turn ra rsp)))))))"

fun run_loop :: "'w run_args \<Rightarrow> nat \<Rightarrow> 'w session \<Rightarrow> ((runtime_error, response) result \<times> 'w session) option" where
  "run_loop ra 0 s = None"
| "run_loop ra (Suc fuel) s =
     (case run_turn ra s of
        (Inl e, s') \<Rightarrow> Some (Inl e, s')
      | (Inr (Some r), s') \<Rightarrow> Some (Inr r, s')
      | (Inr None, s') \<Rightarrow> run_loop ra fuel s')"

definition start_session ::
    "libs \<Rightarrow> 'w agent_runtime \<Rightarrow> string option \<Rightarrow> llm_context \<Rightarrow> 'w tool_execution_context \<Rightarrow>
     effective_run_policy option \<Rightarrow> 'w host \<Rightarrow> (runtime_error, unit) result \<times> 'w session" where
  "start_session lib rt session_id ctx tool_context policy w =
     (let ctx1 = inject_system_prompt rt (te_channel_capabilities tool_context) (offer_tools rt policy ctx);
          s0 = \<lparr>ses_host = w, ses_context = ctx1, ses_next_sequence = 1, ses_turn = 0, ses_cost = F_Fin 0,
                ses_ledger = map_option (\<lambda>p. [inner_new (remaining_budget_microusd p) None]) policy\<rparr>
      in bind_action (on_host (next_memory_sequence rt session_id)) (\<lambda>n.
         bind_action (on_host (persist_context_tail_if_needed lib rt session_id n ctx1)) (\<lambda>n'.
         bind_action (\<lambda>s. (Inr (), s\<lparr>ses_next_sequence := n'\<rparr>)) (\<lambda>_.
         lift_action (validate_guard_preconditions rt)))) s0)"

definition run_session_internal ::
    "libs \<Rightarrow> 'w agent_runtime \<Rightarrow> 'w call_env \<Rightarrow> nat \<Rightarrow> string option \<Rightarrow> llm_context \<Rightarrow> bool \<Rightarrow>
     'w tool_execution_context \<Rightarrow> effective_run_policy option \<Rightarrow> 'w host \<Rightarrow>
     ((runtime_error, response) result \<times> 'w session) option" where
  "run_session_internal lib rt env fuel session_id ctx listening tool_context policy w =
     (case start_session lib rt session_id ctx tool_context policy w of
        (Inl e, s) \<Rightarrow> Some (Inl e, s)
      | (Inr _, s) \<Rightarrow>
          run_loop \<lparr>ra_libs = lib, ra_runtime = rt, ra_env = env, ra_session_id = session_id,
            ra_listening = listening, ra_policy = policy,
            ra_tool_context = session_tool_context rt listening policy ctx tool_context\<rparr> fuel s)"

section \<open>What a step leaves alone\<close>

lemma keeps_on_host [keeps_intros]:
  "(\<And>s w. f (s\<lparr>ses_host := w\<rparr>) = f s) \<Longrightarrow> keeps f (on_host m)"
  by (auto simp: keeps_def on_host_def split: prod.splits)

lemma keeps_emit [keeps_intros]: "(\<And>s w. f (s\<lparr>ses_host := w\<rparr>) = f s) \<Longrightarrow> keeps f (emit ra i)"
  by (simp add: keeps_def emit_def)

lemma keeps_emit_all [keeps_intros]: "(\<And>s w. f (s\<lparr>ses_host := w\<rparr>) = f s) \<Longrightarrow> keeps f (emit_all ra is)"
  by (induction "is") (auto intro!: keeps_intros)

lemma keeps_emit_soft_fail [keeps_intros]: "(\<And>s w. f (s\<lparr>ses_host := w\<rparr>) = f s) \<Longrightarrow> keeps f (emit_soft_fail ra r)"
  by (simp add: emit_soft_fail_def keeps_intros)

lemma keeps_checks [keeps_intros]:
  assumes "\<And>s w. f (s\<lparr>ses_host := w\<rparr>) = f s"
  shows "keeps f (check_cancelled ra)" "keeps f (check_turn_limit ra)" "keeps f (check_deadline ra)"
    "keeps f (announce_provider_call ra)" "keeps f (announce_tools ra calls)"
  using keeps_emit_soft_fail[of f ra, OF assms] keeps_emit[of f ra, OF assms]
  by (auto simp: keeps_def check_cancelled_def check_turn_limit_def check_deadline_def announce_provider_call_def
      announce_tools_def Let_def split: option.splits)

lemma keeps_turn_push [keeps_intros]: "keeps ses_turn (push_message ra m)"
  by (auto simp: keeps_def push_message_def persist_message_def append_message_def split: prod.splits sum.splits)

lemma keeps_ledger_push [keeps_intros]: "keeps ses_ledger (push_message ra m)"
  by (auto simp: keeps_def push_message_def persist_message_def append_message_def split: prod.splits sum.splits)

lemma keeps_push_results [keeps_intros]:
  "keeps ses_turn (push_results ra rs)" "keeps ses_ledger (push_results ra rs)"
  by (induction rs) (auto intro!: keeps_intros)

lemma keeps_flush [keeps_intros]:
  "keeps ses_turn (flush_batch ra tctx b)" "keeps ses_ledger (flush_batch ra tctx b)"
  using keeps_push_results[of ra]
  by (auto simp: keeps_def flush_batch_def split: prod.splits)

lemma keeps_run_tool_calls [keeps_intros]:
  "keeps ses_turn (run_tool_calls ra tctx b calls)" "keeps ses_ledger (run_tool_calls ra tctx b calls)"
  by (induction ra tctx b calls rule: run_tool_calls.induct) (auto intro!: keeps_intros)

lemma keeps_answer_turn [keeps_intros]:
  "keeps ses_turn (answer_turn ra rsp)" "keeps ses_ledger (answer_turn ra rsp)"
  by (auto simp: answer_turn_def intro!: keeps_intros)

lemma keeps_turn_reserve [keeps_intros]: "keeps ses_turn (reserve_for_turn c)"
  by (auto simp: keeps_def reserve_for_turn_def split: option.splits prod.splits sum.splits)

lemma keeps_turn_ask [keeps_intros]: "keeps ses_turn (ask_provider ra)"
  by (auto simp: ask_provider_def intro!: keeps_intros)

lemma emit_all_eq: "emit_all ra is s = (Inr (), s\<lparr>ses_host := fold (forward (ra_listening ra)) is (ses_host s)\<rparr>)"
  by (induction "is" arbitrary: s) (simp_all add: ret_action_def bind_action_def emit_def)

text \<open>The ledger after the settlement of a turn.\<close>

definition settled_ledger :: "ledger_store \<Rightarrow> reservation option \<Rightarrow> usage_update option \<Rightarrow> ledger_store" where
  "settled_ledger st reserved usage =
     (case reserved of Some r \<Rightarrow> snd (reservation_settle st r (turn_cost_microusd usage)) | None \<Rightarrow> st)"

lemma settle_turn_eq:
  "ses_ledger s = Some st \<Longrightarrow> \<exists>w. settle_turn ra before reserved usage s =
     (Inr (ledger_is_exhausted (settled_ledger st reserved usage) 0),
      s\<lparr>ses_ledger := Some (settled_ledger st reserved usage), ses_host := w\<rparr>)"
  by (simp add: settle_turn_def Let_def bind_action_def emit_all_eq ret_action_def settled_ledger_def)
     (rule exI, rule refl)

lemma keeps_turn_settle [keeps_intros]: "keeps ses_turn (settle_turn ra b r u)"
  unfolding keeps_def
proof
  fix s :: "'a session"
  show "ses_turn (snd (settle_turn ra b r u s)) = ses_turn s"
  proof (cases "ses_ledger s")
    case None
    then show ?thesis by (simp add: settle_turn_def)
  next
    case (Some st)
    from settle_turn_eq[OF this, of ra b r u] show ?thesis by auto
  qed
qed

lemma keeps_turn_charge [keeps_intros]: "keeps ses_turn (charge_turn ra b r rsp)"
proof (cases "ra_policy ra")
  case None
  then show ?thesis by (auto simp: charge_turn_def keeps_def split: prod.splits sum.splits)
next
  case (Some p)
  then show ?thesis by (auto simp: charge_turn_def intro!: keeps_intros)
qed

section \<open>The loop ends\<close>

lemma run_turn_unfold:
  "run_turn ra s = (case check_cancelled ra s of (Inl e, s1) \<Rightarrow> (Inl e, s1) | (Inr _, s1) \<Rightarrow>
     (case check_turn_limit ra s1 of (Inl e, s2) \<Rightarrow> (Inl e, s2) | (Inr _, s2) \<Rightarrow>
       bind_action (check_deadline ra) (\<lambda>_.
       bind_action (announce_provider_call ra) (\<lambda>_.
       bind_action (ask_provider ra) (\<lambda>(before, reserved, raw).
       let rsp = normalize_response raw in
       bind_action (charge_turn ra before reserved rsp) (\<lambda>stop.
       case stop of Some r \<Rightarrow> ret_action (Some r) | None \<Rightarrow> answer_turn ra rsp))))
       (s2\<lparr>ses_turn := Suc (ses_turn s2)\<rparr>)))"
  by (simp add: run_turn_def bind_action_def next_turn_def split: prod.splits sum.splits)

definition rest_of_turn :: "'w run_args \<Rightarrow> ('w, response option) step" where
  "rest_of_turn ra =
     bind_action (check_deadline ra) (\<lambda>_.
     bind_action (announce_provider_call ra) (\<lambda>_.
     bind_action (ask_provider ra) (\<lambda>(before, reserved, raw).
     let rsp = normalize_response raw in
     bind_action (charge_turn ra before reserved rsp) (\<lambda>stop.
     case stop of Some r \<Rightarrow> ret_action (Some r) | None \<Rightarrow> answer_turn ra rsp))))"

lemma keeps_turn_rest: "keeps ses_turn (rest_of_turn ra)"
  unfolding rest_of_turn_def
  by (auto intro!: keeps_intros simp: Let_def split: prod.splits option.splits)

lemma run_turn_counts:
  assumes "run_turn ra s = (r, s')" "should_block (ra_policy ra)"
  shows "(\<exists>e. r = Inl e) \<and> ses_turn s' = ses_turn s \<or>
     ses_turn s < effective_max_turns ra \<and> ses_turn s' = Suc (ses_turn s)"
proof -
  obtain s1 where s1: "check_cancelled ra s = (Inl ECancelled, s1) \<or> check_cancelled ra s = (Inr (), s1)" "s1 = s"
    by (simp add: check_cancelled_def)
  show ?thesis
  proof (cases "check_cancelled ra s = (Inr (), s)")
    case False
    with s1 assms(1) show ?thesis by (auto simp: run_turn_unfold)
  next
    case ok: True
    show ?thesis
    proof (cases "ses_turn s \<ge> effective_max_turns ra")
      case True
      then show ?thesis using ok assms by (auto simp: run_turn_unfold check_turn_limit_def)
    next
      case False
      then have "rest_of_turn ra (s\<lparr>ses_turn := Suc (ses_turn s)\<rparr>) = (r, s')"
        using ok assms(1) by (simp add: run_turn_unfold check_turn_limit_def rest_of_turn_def)
      from keepsD[OF keeps_turn_rest this] False show ?thesis by simp
    qed
  qed
qed

lemma run_loop_ends:
  assumes "should_block (ra_policy ra)" "effective_max_turns ra < fuel + ses_turn s"
    and "ses_turn s \<le> effective_max_turns ra"
  shows "\<exists>r s'. run_loop ra fuel s = Some (r, s') \<and> ses_turn s' \<le> effective_max_turns ra"
  using assms(2,3)
proof (induction fuel arbitrary: s)
  case (Suc fuel)
  obtain r s1 where turn: "run_turn ra s = (r, s1)" by fastforce
  from run_turn_counts[OF turn assms(1)] Suc.prems have le: "ses_turn s1 \<le> effective_max_turns ra" by auto
  show ?case
  proof (cases "r = Inr None")
    case True
    with run_turn_counts[OF turn assms(1)] have "ses_turn s1 = Suc (ses_turn s)" by auto
    with Suc.IH[of s1] Suc.prems le True turn show ?thesis by simp
  next
    case False
    with turn le show ?thesis by (cases r) (auto split: option.splits)
  qed
qed simp

lemma start_session_turn:
  assumes start: "start_session lib rt sid ctx tctx policy w = (r, s)"
  shows "ses_turn s = 0"
proof -
  have "keeps ses_turn (bind_action (on_host (next_memory_sequence rt sid)) (\<lambda>n.
         bind_action (on_host (persist_context_tail_if_needed lib rt sid n c)) (\<lambda>n'.
         bind_action (\<lambda>s. (Inr (), s\<lparr>ses_next_sequence := n'\<rparr>)) (\<lambda>_.
         lift_action (validate_guard_preconditions rt)))))" for c
    by (auto intro!: keeps_intros) (simp add: keeps_def)
  from keepsD[OF this start[unfolded start_session_def Let_def]] show ?thesis by simp
qed

lemma session_returns:
  assumes "should_block policy" and "turn_limit rt policy < fuel"
  shows "\<exists>r s. run_session_internal lib rt env fuel sid ctx listening tctx policy w = Some (r, s) \<and>
     ses_turn s \<le> turn_limit rt policy"
proof -
  let ?ra = "\<lparr>ra_libs = lib, ra_runtime = rt, ra_env = env, ra_session_id = sid, ra_listening = listening,
      ra_policy = policy, ra_tool_context = session_tool_context rt listening policy ctx tctx\<rparr>"
  have limit: "effective_max_turns ?ra = turn_limit rt policy" by (simp add: effective_max_turns_def)
  obtain r s where start: "start_session lib rt sid ctx tctx policy w = (r, s)" by fastforce
  have turn: "ses_turn s = 0" using start by (rule start_session_turn)
  show ?thesis
  proof (cases r)
    case (Inl e)
    then show ?thesis using start turn by (simp add: run_session_internal_def)
  next
    case (Inr u)
    have "\<exists>r s'. run_loop ?ra fuel s = Some (r, s') \<and> ses_turn s' \<le> effective_max_turns ?ra"
      by (rule run_loop_ends) (use assms turn limit in auto)
    then show ?thesis using start Inr limit by (auto simp: run_session_internal_def)
  qed
qed

text \<open>C2: A session ends. Under an enforced policy, or without one, the loop returns after at most as
  many turns as the policy (or else the runtime) allows, whatever the provider and the
  tools answer: one more iteration of fuel is always enough, and the turn counter never
  exceeds the limit.\<close>

theorem session_ends_within_max_turns:
  assumes "should_block policy" and "turn_limit rt policy < fuel"
  shows "\<exists>r s. run_session_internal lib rt env fuel sid ctx listening tctx policy w = Some (r, s) \<and>
     ses_turn s \<le> turn_limit rt policy"
  using assms by (rule session_returns)

definition ex_env :: "nat call_env" where
  "ex_env = \<lparr>env_is_cancelled = (\<lambda>_. False), env_interrupt = (\<lambda>_ _ _. None), env_now = (\<lambda>_. 0)\<rparr>"

theorem session_ends_within_max_turns_witness:
  "\<exists>r s. run_session_internal ex_libs ex_runtime ex_env 3 None ex_context True default_tool_context None ex_host = Some (r, s) \<and>
     ses_turn s \<le> 2"
proof -
  have "turn_limit ex_runtime None = 2" by (simp add: turn_limit_def ex_runtime_def runtime_new_def ex_limits_def)
  then show ?thesis
    using session_ends_within_max_turns[of None ex_runtime 3 ex_libs ex_env None ex_context True default_tool_context ex_host]
    by (simp add: should_block_def)
qed

section \<open>Steps of a successful turn\<close>

lemma keeps_context_reserve [keeps_intros]: "keeps ses_context (reserve_for_turn c)"
  by (auto simp: keeps_def reserve_for_turn_def split: option.splits prod.splits sum.splits)

lemma keeps_context_ask [keeps_intros]: "keeps ses_context (ask_provider ra)"
  by (auto simp: ask_provider_def intro!: keeps_intros)

lemma keeps_ledger_host: "keeps ses_ledger (on_host m)"
  by (rule keeps_on_host) simp

lemma ask_provider_reserves:
  fixes s :: "'w session"
  assumes "ask_provider ra s = (Inr (b, ro, raw), s2)"
  shows "\<exists>c (s1 :: 'w session) s1'. reserve_for_turn c s1 = (Inr ro, s1') \<and> ses_ledger s1 = ses_ledger s \<and> ses_ledger s2 = ses_ledger s1'"
proof -
  from assms obtain x1 s1 pc s2' s3 c ro' s4 rsp where
    1: "with_state (\<lambda>s. on_host (maybe_trigger_rolling_summary (ra_libs ra) (ra_runtime ra) (ra_session_id ra) (ses_context s))) s = (Inr x1, s1)"
    and 2: "with_state (\<lambda>s. on_host (prepare_provider_context (ra_libs ra) (ra_runtime ra) (ra_session_id ra) (ses_context s))) s1 = (Inr pc, s2')"
    and 3: "reserve_for_turn (estimated_cost pc) s2' = (Inr ro, s3)"
    and 4: "on_host (request_provider_response (ra_libs ra) (ra_runtime ra) (env_is_cancelled (ra_env ra)) pc (ra_listening ra)) s3 = (Inr raw, s2)"
    by (auto simp: ask_provider_def bind_action_Inr ret_action_eq with_state_def)
  have "ses_ledger s1 = ses_ledger s" using 1 keepsD[OF keeps_ledger_host] by (simp add: with_state_def)
  moreover have "ses_ledger s2' = ses_ledger s1" using 2 keepsD[OF keeps_ledger_host] by (simp add: with_state_def)
  moreover have "ses_ledger s2 = ses_ledger s3" using keepsD[OF keeps_ledger_host 4] .
  ultimately show ?thesis using 3 by metis
qed

text \<open>Reserving and settling on a fresh reservation charges the turn's cost and nothing else.\<close>

lemma reserve_then_settle:
  assumes "reserve_for_turn c s = (Inr ro, s1)" "ses_ledger s = Some [l]"
  shows "\<exists>l1. ses_ledger s1 = Some [l1] \<and>
     settled_ledger [l1] ro u = [l\<lparr>li_settled := li_settled l + turn_cost_microusd u\<rparr>]"
  using assms
  by (auto simp: reserve_for_turn_def ledger_reserve_def settled_ledger_def reservation_settle_def inner_settle_def
      reservation_drop_def inner_try_reserve_def Let_def split: if_splits)

lemma ask_then_settle:
  fixes s :: "'w session"
  assumes "ask_provider ra s = (Inr (b, ro, raw), s2)" "ses_ledger s = Some [l]"
  shows "\<exists>l1. ses_ledger s2 = Some [l1] \<and>
     settled_ledger [l1] ro u = [l\<lparr>li_settled := li_settled l + turn_cost_microusd u\<rparr>]"
proof -
  obtain c and s1 s1' :: "'w session" where res: "reserve_for_turn c s1 = (Inr ro, s1')"
    "ses_ledger s1 = ses_ledger s" "ses_ledger s2 = ses_ledger s1'"
    using ask_provider_reserves[OF assms(1)] by blast
  show ?thesis using reserve_then_settle[OF res(1)] res(2,3) assms(2) by metis
qed

lemma run_turn_steps:
  assumes "run_turn ra s = (Inr x, s')"
  shows "\<exists>before reserved raw s1 s2 stop s3. ses_context s1 = ses_context s \<and> ses_ledger s1 = ses_ledger s \<and>
     ask_provider ra s1 = (Inr (before, reserved, raw), s2) \<and>
     charge_turn ra before reserved (normalize_response raw) s2 = (Inr stop, s3) \<and>
     (case stop of Some r \<Rightarrow> x = Some r \<and> s' = s3
      | None \<Rightarrow> answer_turn ra (normalize_response raw) s3 = (Inr x, s'))"
proof -
  let ?pre = "bind_action (check_cancelled ra) (\<lambda>_. bind_action (check_turn_limit ra) (\<lambda>_.
     bind_action next_turn (\<lambda>_. bind_action (check_deadline ra) (\<lambda>_. announce_provider_call ra))))"
  have next_t: "keeps ses_context next_turn" "keeps ses_ledger next_turn" by (simp_all add: keeps_def next_turn_def)
  have pre: "keeps ses_context ?pre" "keeps ses_ledger ?pre" by (auto intro!: keeps_intros next_t)
  from assms obtain before reserved raw s1 s2 stop s3 where
    1: "?pre s = (Inr (), s1)" and 2: "ask_provider ra s1 = (Inr (before, reserved, raw), s2)"
    and 3: "charge_turn ra before reserved (normalize_response raw) s2 = (Inr stop, s3)"
    and 4: "(case stop of Some r \<Rightarrow> ret_action (Some r) | None \<Rightarrow> answer_turn ra (normalize_response raw)) s3 = (Inr x, s')"
    by (auto simp: run_turn_def bind_action_Inr Let_def)
  have "case stop of Some r \<Rightarrow> x = Some r \<and> s' = s3
      | None \<Rightarrow> answer_turn ra (normalize_response raw) s3 = (Inr x, s')"
    using 4 by (auto simp: ret_action_eq split: option.splits)
  then show ?thesis using 2 3 keepsD[OF pre(1) 1] keepsD[OF pre(2) 1] by blast
qed

lemma charge_turn_policy:
  assumes "charge_turn ra before reserved rsp s = (Inr stop, s')" "ra_policy ra \<noteq> None" "ses_ledger s = Some st"
  shows "ses_ledger s' = Some (settled_ledger st reserved (rsp_usage rsp)) \<and>
     (if ledger_is_exhausted (settled_ledger st reserved (rsp_usage rsp)) 0 \<and> should_block (ra_policy ra)
      then stop = Some rsp \<and> ctx_messages (ses_context s') = ctx_messages (ses_context s) @ [rsp_message rsp]
      else stop = None \<and> ses_context s' = ses_context s)"
proof -
  let ?st = "settled_ledger st reserved (rsp_usage rsp)"
  obtain w where w: "settle_turn ra before reserved (rsp_usage rsp) s =
      (Inr (ledger_is_exhausted ?st 0), s\<lparr>ses_ledger := Some ?st, ses_host := w\<rparr>)"
    using settle_turn_eq[OF assms(3)] by blast
  let ?s = "s\<lparr>ses_ledger := Some ?st, ses_host := w\<rparr>"
  have rest: "(if ledger_is_exhausted ?st 0
      then if should_block (ra_policy ra) then bind_action (push_message ra (rsp_message rsp)) (\<lambda>_. ret_action (Some rsp))
           else bind_action (emit_soft_fail ra MaxBudgetExceeded) (\<lambda>_. ret_action None)
      else ret_action None) ?s = (Inr stop, s')"
    using assms(1) unfolding charge_turn_def if_P[OF assms(2)]
      bind_action_step(1)[where m = "settle_turn ra before reserved (rsp_usage rsp)", OF w] .
  have soft: "keeps ses_ledger (emit_soft_fail ra MaxBudgetExceeded)" "keeps ses_context (emit_soft_fail ra MaxBudgetExceeded)"
    by (auto intro!: keeps_intros)
  have push: "push_message ra m ?s = (Inr y, s1) \<Longrightarrow> ses_ledger s1 = Some ?st \<and>
      ctx_messages (ses_context s1) = ctx_messages (ses_context s) @ [m]" for m y s1
    by (auto simp: push_message_def persist_message_def append_message_def split: prod.splits sum.splits)
  show ?thesis
    using rest push keepsD[OF soft(1), of ?s] keepsD[OF soft(2), of ?s]
    by (fastforce simp: bind_action_Inr ret_action_eq split: if_splits)
qed


text \<open>A budget of zero, which is what a policy without any budget limit resolves to, does not mean
  \<open>no limit\<close>: the session ends with the first answer of the provider, and if that answer
  asks for tools, none of them is executed.\<close>

theorem zero_budget_ends_after_first_answer:
  assumes "ra_policy ra = Some p" and "rollout_mode p = Enforce"
    and "ses_ledger s = Some [inner_new 0 None]" and "run_turn ra s = (Inr x, s')"
  shows "\<exists>r. x = Some r \<and>
     ctx_messages (ses_context s') = ctx_messages (ses_context s) @ [rsp_message r] \<and>
     msg_tool_calls (rsp_message r) = rsp_tool_calls r \<and>
     merge_max_budget \<lparr>rc_turn_timeout_secs = t, rc_max_turns = m, rc_max_cost = None\<rparr>
       (a\<lparr>ad_max_cost := None\<rparr>) (q\<lparr>rp_max_budget_microusd := None\<rparr>) = 0"
proof -
  let ?l = "inner_new 0 None"
  obtain before reserved raw s1 s2 stop s3 where
    s1: "ses_context s1 = ses_context s" "ses_ledger s1 = ses_ledger s"
    and ask: "ask_provider ra s1 = (Inr (before, reserved, raw), s2)"
    and charge: "charge_turn ra before reserved (normalize_response raw) s2 = (Inr stop, s3)"
    and fin: "case stop of Some r \<Rightarrow> x = Some r \<and> s' = s3
      | None \<Rightarrow> answer_turn ra (normalize_response raw) s3 = (Inr x, s')"
    using run_turn_steps[OF assms(4)] by blast
  let ?u = "rsp_usage (normalize_response raw)"
  obtain l1 where l1: "ses_ledger s2 = Some [l1]"
    "settled_ledger [l1] reserved ?u = [?l\<lparr>li_settled := li_settled ?l + turn_cost_microusd ?u\<rparr>]"
    using ask_then_settle[OF ask] s1 assms(3) by metis
  have "ledger_is_exhausted (settled_ledger [l1] reserved ?u) 0"
    by (simp add: l1(2) ledger_is_exhausted_def inner_remaining_def remaining_of_def inner_new_def saturating_sub_def)
  then have "stop = Some (normalize_response raw)"
    "ctx_messages (ses_context s3) = ctx_messages (ses_context s2) @ [rsp_message (normalize_response raw)]"
    using charge_turn_policy[OF charge _ l1(1)] assms(1,2) by (auto simp: should_block_def)
  moreover have "ses_context s2 = ses_context s1" using keepsD[OF keeps_context_ask ask] .
  ultimately show ?thesis
    using fin s1(1) by (auto simp: normalize_response_def Let_def merge_max_budget_def min_some_def List.map_filter_simps)
qed

section \<open>Tool calls are answered in order\<close>

definition answers :: "tool_call \<Rightarrow> message \<Rightarrow> bool" where
  "answers tc m \<longleftrightarrow> msg_role m = RTool \<and> msg_tool_call_id m = Some (tc_id tc) \<and> msg_tool_calls m = []"

abbreviation conversation :: "'w session \<Rightarrow> message list" where
  "conversation s \<equiv> ctx_messages (ses_context s)"

lemma push_message_conversation: "push_message ra m s = (r, s') \<Longrightarrow> conversation s' = conversation s @ [m]"
  by (auto simp: push_message_def persist_message_def append_message_def split: prod.splits sum.splits)

lemma push_results_conversation:
  "push_results ra rs s = (Inr u, s') \<Longrightarrow> \<exists>ms. rs = map Inr ms \<and> conversation s' = conversation s @ ms"
proof (induction rs arbitrary: s)
  case Nil
  then show ?case by (simp add: ret_action_eq)
next
  case (Cons r rs)
  then obtain m s1 where m: "r = Inr m" and push: "push_message ra m s = (Inr (), s1)"
    and rest: "push_results ra rs s1 = (Inr u, s')"
    by (auto simp: bind_action_Inr lift_action_eq)
  from Cons.IH[OF rest] push_message_conversation[OF push] m show ?case
    by (metis append_Cons append_Nil append_assoc list.simps(9))
qed

lemma execute_answers:
  "execute_tool_and_format lib rt env tc ctx w = (Inr m, w') \<Longrightarrow> answers tc m"
  using tool_call_answered[where lib = lib and rt = rt and env = env and tc = tc and ctx = ctx and w = w] by (simp add: answers_def)

lemma run_batch_answers:
  "run_batch ra tctx tcs w = (map Inr ms, w') \<Longrightarrow> list_all2 answers tcs ms"
proof (induction tcs arbitrary: ms w)
  case (Cons tc tcs)
  then obtain m ms' w1 where "ms = m # ms'" "run_batch ra tctx tcs w1 = (map Inr ms', w')"
    and exec: "execute_tool_and_format (ra_libs ra) (ra_runtime ra) (ra_env ra) tc tctx w = (Inr m, w1)"
    by (auto split: prod.splits)
  with Cons.IH execute_answers[OF exec] show ?case by auto
qed simp

lemma flush_batch_answers:
  assumes "flush_batch ra tctx b s = (Inr u, s')"
  shows "\<exists>ms. conversation s' = conversation s @ ms \<and> list_all2 answers b ms"
proof -
  obtain rs w where rs: "run_batch ra tctx b (ses_host s) = (rs, w)" by fastforce
  then obtain ms where "rs = map Inr ms" "conversation s' = conversation (s\<lparr>ses_host := w\<rparr>) @ ms"
    using assms push_results_conversation by (fastforce simp: flush_batch_def)
  with rs run_batch_answers show ?thesis by fastforce
qed

lemma run_tool_calls_answers:
  "run_tool_calls ra tctx b calls s = (Inr u, s') \<Longrightarrow>
     \<exists>ms. conversation s' = conversation s @ ms \<and> list_all2 answers (b @ calls) ms"
proof (induction ra tctx b calls arbitrary: s rule: run_tool_calls.induct)
  case (1 ra tctx b)
  then show ?case using flush_batch_answers[of ra tctx b s] by (auto simp: ret_action_eq split: if_splits)
next
  case (2 ra tctx b tc tcs)
  show ?case
  proof (cases "is_read_only_call ra tc")
    case True
    with 2(1)[OF True] 2(3) show ?thesis by auto
  next
    case False
    with 2(3) obtain s1 s2 m s3 s4 where
      b: "(if b \<noteq> [] then flush_batch ra tctx b else ret_action ()) s = (Inr (), s1)"
      and c: "check_cancelled ra s1 = (Inr (), s2)"
      and ex: "on_host (execute_tool_and_format (ra_libs ra) (ra_runtime ra) (ra_env ra) tc tctx) s2 = (Inr m, s3)"
      and p: "push_message ra m s3 = (Inr (), s4)" and r: "run_tool_calls ra tctx [] tcs s4 = (Inr u, s')"
      by (auto simp: bind_action_Inr)
    obtain ms1 where ms1: "conversation s1 = conversation s @ ms1" "list_all2 answers b ms1"
      using b flush_batch_answers[of ra tctx b s] by (auto simp: ret_action_eq split: if_splits)
    have s2: "conversation s2 = conversation s1" using c by (auto simp: check_cancelled_def split: if_splits)
    have s3: "conversation s3 = conversation s2" "answers tc m"
      using ex execute_answers by (fastforce simp: on_host_def split: prod.splits)+
    obtain ms2 where ms2: "conversation s' = conversation s4 @ ms2" "list_all2 answers tcs ms2"
      using 2(2)[OF False, of s4] r by auto
    show ?thesis
      using ms1 ms2 s2 s3 push_message_conversation[OF p]
      by (intro exI[of _ "ms1 @ m # ms2"]) (simp add: list_all2_appendI)
  qed
qed

text \<open>
  A sequence of messages in which every message that asks for tool calls is followed at
  once by the answers to exactly those calls, in their order.
\<close>

function answered :: "message list \<Rightarrow> bool" where
  "answered [] = True"
| "answered (m # ms) =
     (let n = length (msg_tool_calls m) in
      list_all2 answers (msg_tool_calls m) (take n ms) \<and> answered (drop n ms))"
  by pat_completeness auto
termination
  by (relation "measure length") auto

lemma answered_turn:
  "list_all2 answers (msg_tool_calls m) ms \<Longrightarrow> answered rest \<Longrightarrow> answered (m # ms @ rest)"
  by (simp add: Let_def list_all2_lengthD)

lemma charge_turn_continues:
  assumes "charge_turn ra before reserved rsp s = (Inr stop, s')"
  shows "stop = None \<and> ses_context s' = ses_context s \<or>
     stop = Some rsp \<and> conversation s' = conversation s @ [rsp_message rsp]"
proof (cases "ra_policy ra")
  case None
  then show ?thesis using assms by (auto simp: charge_turn_def split: prod.splits sum.splits)
next
  case (Some p)
  have soft: "keeps ses_context (emit_soft_fail ra MaxBudgetExceeded)" by (auto intro!: keeps_intros)
  have settle: "keeps ses_context (settle_turn ra before reserved (rsp_usage rsp))"
    by (auto simp: keeps_def settle_turn_def Let_def bind_action_def emit_all_eq ret_action_def split: option.splits)
  obtain ex s1 where s1: "settle_turn ra before reserved (rsp_usage rsp) s = (Inr ex, s1)"
    and rest: "(if ex then if should_block (ra_policy ra)
          then bind_action (push_message ra (rsp_message rsp)) (\<lambda>_. ret_action (Some rsp))
          else bind_action (emit_soft_fail ra MaxBudgetExceeded) (\<lambda>_. ret_action None)
        else ret_action None) s1 = (Inr stop, s')"
    using assms Some by (auto simp: charge_turn_def bind_action_Inr)
  show ?thesis
    using rest keepsD[OF settle s1] keepsD[OF soft, of s1] push_message_conversation[of ra "rsp_message rsp" s1]
    by (fastforce simp: bind_action_Inr ret_action_eq split: if_splits)
qed

lemma answer_turn_conversation:
  assumes "answer_turn ra rsp s = (Inr x, s')" "msg_tool_calls (rsp_message rsp) = rsp_tool_calls rsp"
  shows "\<exists>ms. conversation s' = conversation s @ rsp_message rsp # ms \<and>
     list_all2 answers (msg_tool_calls (rsp_message rsp)) ms \<and>
     (if rsp_tool_calls rsp = [] then x = Some rsp else x = None)"
proof -
  obtain s1 where push: "push_message ra (rsp_message rsp) s = (Inr (), s1)"
    and rest: "(if rsp_tool_calls rsp = [] then ret_action (Some rsp)
       else bind_action (announce_tools ra (rsp_tool_calls rsp)) (\<lambda>_.
            bind_action (with_state (\<lambda>s. run_tool_calls ra (turn_tool_context ra s) [] (rsp_tool_calls rsp))) (\<lambda>_.
            ret_action None))) s1 = (Inr x, s')"
    using assms(1) by (auto simp: answer_turn_def bind_action_Inr)
  show ?thesis
  proof (cases "rsp_tool_calls rsp = []")
    case True
    then show ?thesis using rest push_message_conversation[OF push] assms(2) by (simp add: ret_action_eq)
  next
    case False
    then obtain s2 s3 where ann: "announce_tools ra (rsp_tool_calls rsp) s1 = (Inr (), s2)"
      and run: "run_tool_calls ra (turn_tool_context ra s2) [] (rsp_tool_calls rsp) s2 = (Inr (), s3)"
      and x: "x = None" "s' = s3"
      using rest by (auto simp: bind_action_Inr ret_action_eq with_state_def)
    have "ses_context s2 = ses_context s1"
      using ann by (auto simp: announce_tools_def Let_def emit_def)
    with run_tool_calls_answers[OF run] push_message_conversation[OF push] False x assms(2) show ?thesis by auto
  qed
qed

lemma run_turn_conversation:
  assumes "run_turn ra s = (Inr x, s')"
  shows "case x of
     None \<Rightarrow> \<exists>m ms. conversation s' = conversation s @ m # ms \<and> list_all2 answers (msg_tool_calls m) ms
   | Some r \<Rightarrow> conversation s' = conversation s @ [rsp_message r] \<and> msg_tool_calls (rsp_message r) = rsp_tool_calls r"
proof -
  obtain before reserved raw s1 s2 stop s3 where
    s1: "ses_context s1 = ses_context s" and ask: "ask_provider ra s1 = (Inr (before, reserved, raw), s2)"
    and charge: "charge_turn ra before reserved (normalize_response raw) s2 = (Inr stop, s3)"
    and fin: "case stop of Some r \<Rightarrow> x = Some r \<and> s' = s3
      | None \<Rightarrow> answer_turn ra (normalize_response raw) s3 = (Inr x, s')"
    using run_turn_steps[OF assms] by blast
  have s2: "ses_context s2 = ses_context s" using keepsD[OF keeps_context_ask ask] s1 by simp
  have calls: "msg_tool_calls (rsp_message (normalize_response raw)) = rsp_tool_calls (normalize_response raw)"
    by (simp add: normalize_response_def Let_def)
  from charge_turn_continues[OF charge] show ?thesis
  proof
    assume stop: "stop = None \<and> ses_context s3 = ses_context s2"
    then have ans: "answer_turn ra (normalize_response raw) s3 = (Inr x, s')" using fin by simp
    from answer_turn_conversation[OF ans calls] stop s2 calls show ?thesis
      by (cases "rsp_tool_calls (normalize_response raw) = []") auto
  next
    assume "stop = Some (normalize_response raw) \<and>
      conversation s3 = conversation s2 @ [rsp_message (normalize_response raw)]"
    then show ?thesis using fin s2 calls by simp
  qed
qed

lemma run_loop_conversation:
  "run_loop ra fuel s = Some (Inr r, s') \<Longrightarrow>
     \<exists>new. conversation s' = conversation s @ new @ [rsp_message r] \<and> answered new \<and>
       msg_tool_calls (rsp_message r) = rsp_tool_calls r"
proof (induction fuel arbitrary: s)
  case (Suc fuel)
  obtain x s1 where turn: "run_turn ra s = (x, s1)" by fastforce
  show ?case
  proof (cases x)
    case (Inl e)
    with Suc.prems turn show ?thesis by simp
  next
    case (Inr y)
    note conv = run_turn_conversation[OF turn[unfolded Inr]]
    show ?thesis
    proof (cases y)
      case (Some r')
      then show ?thesis using Suc.prems turn Inr conv by (intro exI[of _ "[]"]) auto
    next
      case None
      then obtain m ms where m: "conversation s1 = conversation s @ m # ms" "list_all2 answers (msg_tool_calls m) ms"
        using conv by auto
      from Suc.IH[of s1] Suc.prems turn Inr None obtain new where
        "conversation s' = conversation s1 @ new @ [rsp_message r]" "answered new"
        "msg_tool_calls (rsp_message r) = rsp_tool_calls r" by auto
      with m answered_turn[OF m(2)] show ?thesis by (intro exI[of _ "m # ms @ new"]) simp
    qed
  qed
qed simp


section \<open>Modes that do not enforce\<close>

definition limit_error :: "runtime_error \<Rightarrow> bool" where
  "limit_error e \<longleftrightarrow> e \<in> {ETurnLimitExceeded, EDeadlineExceeded}"

abbreviation no_limit_errors :: "('s, runtime_error, 'a) action \<Rightarrow> bool" where
  "no_limit_errors \<equiv> fails_only (\<lambda>e. \<not> limit_error e)"

lemma limit_error_simps [simp]:
  "\<not> limit_error (EProvider p)" "\<not> limit_error (ETool t)" "\<not> limit_error (EMemory m)" "\<not> limit_error ECancelled"
  "\<not> limit_error EBudgetExceeded"
  by (simp_all add: limit_error_def)

lemma fails_on_host [fails_intros]: "fails_only P m \<Longrightarrow> fails_only P (on_host m)"
  by (auto simp: fails_only_def on_host_def split: prod.splits)

lemma fails_memory [fails_intros]: "no_limit_errors (memory_action m)"
  by (auto simp: fails_only_def memory_action_def split: prod.splits elim!: map_err.elims)

lemma fails_emit [fails_intros]: "fails_only P (emit ra i)" "fails_only P (emit_soft_fail ra rs)" "fails_only P (emit_all ra is)"
  by (auto simp: fails_only_def emit_def emit_soft_fail_def emit_all_eq ret_action_def)

lemma Inl_mono: "bind_result r f = Inl e \<Longrightarrow> (\<And>e. r = Inl e \<Longrightarrow> P e) \<Longrightarrow> (\<And>x e. f x = Inl e \<Longrightarrow> P e) \<Longrightarrow> P e"
  by (cases r) auto

lemma ok_or_Inl [simp]: "ok_or x e = Inl e' \<longleftrightarrow> x = None \<and> e' = e"
  by (cases x) auto

lemma map_err_Inl [simp]: "map_err r f = Inl e \<longleftrightarrow> (\<exists>e'. r = Inl e' \<and> e = f e')"
  by (cases r) auto

lemma provider_for_context_error: "provider_for_context rt ctx = Inl e \<Longrightarrow> \<not> limit_error e"
  by (auto simp: provider_for_context_def split: option.splits if_splits)

lemma estimate_errors:
  "estimate_message_tokens lib m = Inl e \<Longrightarrow> \<not> limit_error e"
  "estimate_tool_schema_tokens lib ctx = Inl e \<Longrightarrow> \<not> limit_error e"
  "resolve_max_context_tokens rt ctx = Inl e \<Longrightarrow> \<not> limit_error e"
  using provider_for_context_error
  by (auto simp: estimate_message_tokens_def estimate_tool_schema_tokens_def estimate_text_tokens_def
      resolve_max_context_tokens_def bind_result_Inl)

lemma estimate_messages_error: "estimate_messages_from lib n ms = Inl e \<Longrightarrow> \<not> limit_error e"
  by (induction lib n ms rule: estimate_messages_from.induct) (auto simp: bind_result_Inl estimate_errors)

lemma select_rev_error: "select_rev lib b a u sel ms = Inl e \<Longrightarrow> \<not> limit_error e"
  by (induction lib b a u sel ms rule: select_rev.induct)
     (auto simp: bind_result_Inl estimate_errors Let_def split: if_splits)

lemma select_messages_error: "select_messages_within_budget lib ms b a = Inl e \<Longrightarrow> \<not> limit_error e"
  using select_rev_error by (auto simp: select_messages_within_budget_def split: if_splits)

lemma unsummarized_error: "unsummarized_history_from lib st i ms = Inl e \<Longrightarrow> \<not> limit_error e"
  by (induction lib st i ms rule: unsummarized_history_from.induct)
     (auto simp: bind_result_Inl estimate_errors split: if_splits)

lemma assemble_error: "assemble_provider_context lib ctx a b c st rs t = Inl e \<Longrightarrow> \<not> limit_error e"
  using select_messages_error
  by (auto simp: assemble_provider_context_def Let_def bind_result_Inl split: if_splits)

lemma fit_error: "fit_retrieved lib a b rm = Inl e \<Longrightarrow> \<not> limit_error e"
  using estimate_errors(1) by (auto simp: fit_retrieved_def bind_result_Inl split: option.splits)

lemma fails_load [fails_intros]: "no_limit_errors (load_summary_state rt sid)"
  by (auto simp: load_summary_state_def intro!: fails_intros split: option.splits)

lemma fails_fetch [fails_intros]: "no_limit_errors (fetch_retrieved_memory_message rt sid ctx)"
  by (auto simp: fetch_retrieved_memory_message_def intro!: fails_intros split: option.splits)

lemma fails_prepare [fails_intros]: "no_limit_errors (prepare_provider_context lib rt sid ctx)"
  unfolding prepare_provider_context_def Let_def
  by (auto intro!: fails_intros simp: estimate_errors assemble_error fit_error split: prod.splits)

lemma fails_summary [fails_intros]: "no_limit_errors (maybe_trigger_rolling_summary lib rt sid ctx)"
  unfolding maybe_trigger_rolling_summary_def Let_def estimate_messages_tokens_def
  by (auto intro!: fails_intros simp: estimate_errors estimate_messages_error unsummarized_error
      split: option.splits prod.splits)

lemma fails_reserve [fails_intros]: "fails_only P (reserve_for_turn c)"
  by (auto simp: fails_only_def reserve_for_turn_def split: option.splits prod.splits sum.splits)

lemma complete_response_error: "complete_response rt c p ctx w = (Inl e, w') \<Longrightarrow> \<not> limit_error e"
  by (auto simp: complete_response_def provider_timeout_error_def split: if_splits prod.splits awaited.splits)

lemma fails_request [fails_intros]: "no_limit_errors (request_provider_response lib rt c ctx l)"
  unfolding request_provider_response_def
proof (intro fails_bind fails_lift)
  show "\<And>e. provider_for_context rt ctx = Inl e \<Longrightarrow> \<not> limit_error e" by (rule provider_for_context_error)
  show "\<And>x e. map_err (capabilities x (ctx_model ctx)) EProvider = Inl e \<Longrightarrow> \<not> limit_error e" by auto
  show "no_limit_errors (\<lambda>w. let request_context = request_context_for caps ctx in
       if supports_streaming caps \<and> supports_tools caps
       then (case stream_response lib rt c p request_context l w of
               (Inr r, w') \<Rightarrow> (Inr r, w')
             | (Inl SCCancelled, w') \<Rightarrow> (Inl ECancelled, w')
             | (Inl SCTurnTimedOut, w') \<Rightarrow>
                 (Inl (provider_timeout_error (ctx_provider request_context) (turn_timeout (rt_limits rt))), w')
             | (Inl _, w') \<Rightarrow> complete_response rt c p request_context w')
       else complete_response rt c p request_context w)" for p caps
    using complete_response_error[of rt c p]
    by (auto simp: fails_only_def Let_def provider_timeout_error_def
        split: prod.splits sum.splits stream_collect_error.splits)
qed

lemma fails_push [fails_intros]: "no_limit_errors (push_message ra m)"
proof -
  have "no_limit_errors (persist_message_if_needed lib rt sid m n)" for lib rt sid n
    by (auto simp: persist_message_if_needed_def intro!: fails_intros split: option.splits)
  then show ?thesis
    by (fastforce simp: fails_only_def push_message_def persist_message_def split: prod.splits sum.splits)
qed

lemma execute_format_error:
  "execute_tool_and_format lib rt env tc ctx w = (Inl e, w') \<Longrightarrow> \<not> limit_error e"
  using tool_call_answered[where lib = lib and rt = rt and env = env and tc = tc and ctx = ctx and w = w] by simp

lemma run_batch_error: "run_batch ra tctx tcs w = (rs, w') \<Longrightarrow> Inl e \<in> set rs \<Longrightarrow> \<not> limit_error e"
proof (induction tcs arbitrary: rs w)
  case (Cons tc tcs)
  obtain r w1 where r: "execute_tool_and_format (ra_libs ra) (ra_runtime ra) (ra_env ra) tc tctx w = (r, w1)" by fastforce
  obtain rs1 w2 where rest: "run_batch ra tctx tcs w1 = (rs1, w2)" by fastforce
  have "r = Inl e \<or> Inl e \<in> set rs1" "w' = w2" using Cons.prems r rest by auto
  then show ?case using Cons.IH[of w1 rs1] rest execute_format_error r by blast
qed simp

lemma fails_push_results: "\<forall>e. Inl e \<in> set rs \<longrightarrow> \<not> limit_error e \<Longrightarrow> no_limit_errors (push_results ra rs)"
  by (induction rs) (auto intro!: fails_intros)

lemma fails_flush [fails_intros]: "no_limit_errors (flush_batch ra tctx b)"
  unfolding fails_only_def
proof (intro allI impI)
  fix s e s' assume f: "flush_batch ra tctx b s = (Inl e, s')"
  obtain rs w where rs: "run_batch ra tctx b (ses_host s) = (rs, w)" by fastforce
  have "no_limit_errors (push_results ra rs)" by (rule fails_push_results) (use run_batch_error[OF rs] in blast)
  then show "\<not> limit_error e" using f rs by (auto simp: flush_batch_def fails_only_def)
qed

lemma fails_check_cancelled [fails_intros]: "no_limit_errors (check_cancelled ra)"
  by (auto simp: fails_only_def check_cancelled_def split: if_splits)

lemma fails_tool_calls [fails_intros]: "no_limit_errors (run_tool_calls ra tctx b calls)"
proof (induction ra tctx b calls rule: run_tool_calls.induct)
  case (1 ra tctx b)
  then show ?case by (auto intro!: fails_intros)
next
  case (2 ra tctx b tc tcs)
  have "no_limit_errors (execute_tool_and_format (ra_libs ra) (ra_runtime ra) (ra_env ra) tc tctx)"
    unfolding fails_only_def by (intro allI impI) (erule execute_format_error)
  with 2 show ?case by (cases "is_read_only_call ra tc") (auto intro!: fails_intros)
qed

lemma fails_announce [fails_intros]: "fails_only P (announce_provider_call ra)" "fails_only P (announce_tools ra calls)"
  by (auto simp: fails_only_def announce_provider_call_def announce_tools_def emit_def Let_def)

lemma fails_settle [fails_intros]: "fails_only P (settle_turn ra b r u)"
  by (auto simp: fails_only_def settle_turn_def Let_def bind_action_def emit_all_eq ret_action_def split: option.splits)

lemma fails_charge [fails_intros]: "no_limit_errors (charge_turn ra b r rsp)"
proof (cases "ra_policy ra")
  case None
  then show ?thesis
    by (auto simp: charge_turn_def fails_only_def enforce_cost_budget_def Let_def split: option.splits prod.splits if_splits)
next
  case (Some p)
  then show ?thesis by (auto simp: charge_turn_def intro!: fails_intros)
qed

lemma fails_next [fails_intros]: "fails_only P next_turn"
  by (simp add: fails_only_def next_turn_def)

lemma fails_soft_checks:
  assumes "\<not> should_block (ra_policy ra)"
  shows "no_limit_errors (check_turn_limit ra)" "no_limit_errors (check_deadline ra)"
  using assms fails_emit(2)[of "\<lambda>e. \<not> limit_error e" ra]
  by (auto simp: fails_only_def check_turn_limit_def check_deadline_def split: option.splits if_splits)

text \<open>Under a policy in mode \<open>SoftFail\<close> or \<open>ObserveOnly\<close> no limit of the policy stops a turn: it
  never fails with the turn-limit or the deadline error, and an exhausted budget does not
  end the session as long as the provider asks for tools.\<close>

theorem soft_modes_never_block:
  assumes "ra_policy ra = Some p" and "rollout_mode p \<noteq> Enforce" and "run_turn ra s = (x, s')"
  shows "x \<noteq> Inl ETurnLimitExceeded \<and> x \<noteq> Inl EDeadlineExceeded \<and>
     (\<forall>r. x = Inr (Some r) \<longrightarrow> rsp_tool_calls r = [])"
proof -
  have soft: "\<not> should_block (ra_policy ra)" using assms(1,2) by (simp add: should_block_def)
  have "no_limit_errors (run_turn ra)"
    unfolding run_turn_def ask_provider_def answer_turn_def
    by (auto intro!: fails_intros fails_soft_checks[OF soft] simp: Let_def split: prod.splits option.splits)
  then have errors: "x \<noteq> Inl e" if "limit_error e" for e
    using assms(3) that by (auto simp: fails_only_def)
  have "rsp_tool_calls r = []" if x: "x = Inr (Some r)" for r
  proof -
    obtain before reserved raw s1 s2 stop s3 where
      charge: "charge_turn ra before reserved (normalize_response raw) s2 = (Inr stop, s3)"
      and fin: "case stop of Some r' \<Rightarrow> Some r = Some r' \<and> s' = s3
        | None \<Rightarrow> answer_turn ra (normalize_response raw) s3 = (Inr (Some r), s')"
      using run_turn_steps assms(3) x by blast
    have "stop = None"
      using charge soft assms(1) by (auto simp: charge_turn_def bind_action_Inr ret_action_eq split: if_splits)
    with fin have "answer_turn ra (normalize_response raw) s3 = (Inr (Some r), s')" by simp
    moreover have "msg_tool_calls (rsp_message (normalize_response raw)) = rsp_tool_calls (normalize_response raw)"
      by (simp add: normalize_response_def Let_def)
    ultimately show ?thesis using answer_turn_conversation[of ra "normalize_response raw" s3] by (auto split: if_splits)
  qed
  with errors show ?thesis by (auto simp: limit_error_def)
qed

section \<open>An example session\<close>

definition ex_run_policy :: "u64 \<Rightarrow> effective_run_policy" where
  "ex_run_policy b = \<lparr>started_at = 0, deadline = None, initial_budget_microusd = b, remaining_budget_microusd = b,
     toolset = [], auto_approve_tools = {}, disallowed_tools = {}, parent_run_id = None, pol_max_turns = None,
     rollout_mode = Enforce\<rparr>"

definition ex_run_args :: "u64 \<Rightarrow> nat run_args" where
  "ex_run_args b = \<lparr>ra_libs = ex_libs, ra_runtime = ex_runtime, ra_env = ex_env, ra_session_id = None,
     ra_listening = False, ra_policy = Some (ex_run_policy b), ra_tool_context = default_tool_context\<lparr>te_policy := Some (ex_run_policy b)\<rparr>\<rparr>"

definition ex_session :: "u64 \<Rightarrow> nat session" where
  "ex_session b = \<lparr>ses_host = ex_host, ses_context = ex_context, ses_next_sequence = 1, ses_turn = 0, ses_cost = F_Fin 0,
     ses_ledger = Some [inner_new b None]\<rparr>"

definition ex_call :: tool_call where
  "ex_call = \<lparr>tc_id = ''c1'', tc_name = ''file_read'', tc_arguments = JObj [], tc_metadata = None\<rparr>"

definition ex_answer :: response where
  "ex_answer = \<lparr>rsp_message = \<lparr>msg_role = RAssistant, msg_content = Some ''hello'', msg_tool_calls = [ex_call],
       msg_tool_call_id = None, msg_attachments = []\<rparr>,
     rsp_tool_calls = [ex_call], rsp_finish_reason = Some ''stop'', rsp_usage = None\<rparr>"

lemmas action_defs = bind_action_def lift_action_def ret_action_def with_state_def on_host_def

lemma ex_response: "request_provider_response ex_libs ex_runtime (\<lambda>_. False) ex_context False w = (Inr ex_answer, w)"
proof -
  have "accumulator_build ex_libs ''p'' (fold accumulator_merge (deltas_of ex_stream) []) = Inr [ex_call]"
    by code_simp
  moreover have "\<forall>it\<in>set ex_stream. \<not> is_lost it" by (simp add: ex_stream_def)
  note collect_complete[OF this, of False collected_empty w]
  moreover have "texts_of ex_stream = [''he'', ''llo'']" "finish_of ex_stream = Some ''stop''"
    "fold usage_step ex_stream None = None" by (simp_all add: stream_parts ex_stream_def)
  ultimately show ?thesis
    by (simp add: request_provider_response_def provider_for_context_def ex_runtime_def runtime_new_def ex_provider_def
       ex_context_def request_context_for_def stream_response_def action_defs collected_empty_def finish_stream_def ex_answer_def)
qed

lemma ex_prepared: "prepare_provider_context ex_libs ex_runtime None ex_context w = (Inr ex_context, w)"
  by (simp add: prepare_provider_context_def ex_runtime_def runtime_new_def ex_context_def
        ex_limits_def ex_provider_def ex_libs_def resolve_max_context_tokens_def provider_for_context_def
        load_summary_state_def is_obviously_within_budget_def plain_message_def
        saturating_sub_def saturating_mul_def content_length_def action_defs)

definition ex_after :: "u64 \<Rightarrow> nat session" where
  "ex_after b = (ex_session b)\<lparr>ses_turn := 1\<rparr>"

lemma ex_ask: "ask_provider (ex_run_args b) (ex_after b) =
   (Inr (Some (inner_snapshot (inner_new b None)), Some \<lparr>res_ledger = 0, res_amount = 0, res_settled = False\<rparr>, ex_answer), ex_after b)"
  by (simp add: ask_provider_def action_defs ex_run_args_def ex_session_def ex_after_def maybe_trigger_rolling_summary_def
     ex_runtime_def[THEN arg_cong[where f = rt_memory_retrieval]] runtime_new_def ex_prepared ex_response reserve_for_turn_def
    ex_env_def ledger_remaining_def ledger_reserve_def estimated_cost_def content_length_def ex_context_def[THEN arg_cong[where f=ctx_messages]] plain_message_def tokens_to_microusd_def)

lemma ex_normalized: "normalize_response ex_answer = ex_answer"
  by (simp add: normalize_response_def ex_answer_def Let_def)

lemma ex_emits: "emit_all (ex_run_args b) is s = (Inr (), s)"
  by (induction "is") (simp_all add: action_defs emit_def ex_run_args_def forward_def)

lemma ex_emit: "emit (ex_run_args b) i s = (Inr (), s)"
  by (simp add: emit_def ex_run_args_def forward_def)

lemma ex_settle: "settle_turn (ex_run_args b) before (Some \<lparr>res_ledger = 0, res_amount = 0, res_settled = False\<rparr>) None (ex_after b) =
    (Inr (b = 0), ex_after b)"
  by (simp add: settle_turn_def ex_after_def ex_session_def reservation_settle_def inner_settle_def inner_new_def
     reservation_drop_def turn_cost_microusd_def action_defs ex_emits ledger_is_exhausted_def inner_remaining_def remaining_of_def
     saturating_sub_def)

lemma ex_push: "push_message (ex_run_args b) m s = (Inr (), append_message m s)"
  by (simp add: push_message_def persist_message_def persist_message_if_needed_def ex_run_args_def ex_runtime_def runtime_new_def
    ret_action_def append_message_def)


lemma ex_arguments: "check_call_arguments ex_libs ex_runtime ''file_read'' (JObj []) = Inr ''{}''"
  by (simp add: check_call_arguments_def ex_runtime_def runtime_new_def ex_registry_def register_def registry_default_def
    registry_new_def registry_get_def Tool_Registry.ex_tool_def invalid_streamed_arguments_def strip_null_optional_fields_def
    ex_libs_def translate_tool_arg_paths_def ex_codec_def Let_def)

lemma ex_executed:
  assumes "te_policy tctx = Some (ex_run_policy b)" "te_permission_handler tctx = None"
  shows "execute_with_context ex_codec ex_registry ''file_read'' ''{}'' tctx w = (Inr ''done'', w\<lparr>outside := outside w + 1\<rparr>)"
  using assms
  by (simp add: execute_with_context_def execute_with_policy_and_context_def action_defs check_disallowed_def ask_permission_def
    check_security_def run_with_timeout_def ex_registry_def register_def registry_default_def
    registry_new_def registry_get_def Tool_Registry.ex_tool_def ex_run_policy_def truncate_output_def DEFAULT_MAX_OUTPUT_BYTES_def)

lemma ex_scrub: "scrub_output ex_libs ex_runtime ''done'' = ''done''"
  by (simp add: scrub_output_def scrub_host_paths_def ex_runtime_def runtime_new_def scrub_tool_output_def ex_libs_def
    redact_high_entropy_tokens_def token_match_def Let_def)

lemma ex_exec:
  assumes "te_policy tctx = Some (ex_run_policy b)" "te_permission_handler tctx = None"
  shows "execute_tool_and_format ex_libs ex_runtime ex_env ex_call tctx w =
   (Inr (tool_result_message ''c1'' ''done''), w\<lparr>outside := outside w + 1\<rparr>)"
proof -
  have "rt_tool_registry ex_runtime = ex_registry" "lib_json ex_libs = ex_codec"
    by (simp_all add: ex_runtime_def runtime_new_def ex_libs_def)
  then show ?thesis
    using ex_executed[OF assms] by (simp add: execute_tool_and_format_def execute_tool_call_def ex_call_def ex_arguments ex_env_def
      lift_action_def bind_action_def ex_scrub)
qed

definition ex_turn_end :: "u64 \<Rightarrow> nat session" where
  "ex_turn_end b = append_message (tool_result_message ''c1'' ''done'')
     (append_message (rsp_message ex_answer) ((ex_after b)\<lparr>ses_host := ex_host\<lparr>outside := 1\<rparr>\<rparr>))"

lemma ex_read_only: "is_read_only_call (ex_run_args b) ex_call"
  by (simp add: is_read_only_call_def ex_run_args_def ex_runtime_def runtime_new_def ex_registry_def register_def registry_default_def
    registry_new_def registry_get_def Tool_Registry.ex_tool_def ex_call_def)


lemma ex_answered: "answer_turn (ex_run_args b) ex_answer (ex_after b) = (Inr None, ex_turn_end b)"
proof -
  let ?ra = "ex_run_args b"
  let ?s = "append_message (rsp_message ex_answer) (ex_after b)"
  have ann: "announce_tools ?ra calls s = (Inr (), s)" for calls s by (simp add: announce_tools_def Let_def ex_emit)
  have ctx: "te_policy (turn_tool_context ?ra s) = Some (ex_run_policy b)" "te_permission_handler (turn_tool_context ?ra s) = None" for s
    by (simp_all add: turn_tool_context_def ex_run_args_def default_tool_context_def)
  have parts: "ra_libs ?ra = ex_libs" "ra_runtime ?ra = ex_runtime" "ra_env ?ra = ex_env" by (simp_all add: ex_run_args_def)
  have "run_tool_calls ?ra (turn_tool_context ?ra ?s) [] [ex_call] ?s = (Inr (), ex_turn_end b)"
    using ex_exec[OF ctx]
    by (simp add: ex_read_only flush_batch_def parts action_defs ex_push ex_turn_end_def append_message_def ex_after_def ex_session_def ex_host_def)
  moreover have "rsp_tool_calls ex_answer = [ex_call]" by (simp add: ex_answer_def)
  ultimately show ?thesis by (simp add: answer_turn_def bind_action_def ex_push ann with_state_def ret_action_def del: run_tool_calls.simps)
qed

lemma ex_turn: "run_turn (ex_run_args b) (ex_session b) =
   (if b = 0 then (Inr (Some ex_answer), append_message (rsp_message ex_answer) (ex_after b)) else (Inr None, ex_turn_end b))"
proof -
  have pre: "check_cancelled (ex_run_args b) s = (Inr (), s)" "check_deadline (ex_run_args b) s = (Inr (), s)"
    "announce_provider_call (ex_run_args b) s = (Inr (), s)" for s
    by (simp_all add: check_cancelled_def check_deadline_def announce_provider_call_def ex_emit)
       (simp_all add: ex_run_args_def ex_env_def ex_run_policy_def)
  have lim: "check_turn_limit (ex_run_args b) (ex_session b) = (Inr (), ex_session b)" "next_turn (ex_session b) = (Inr (), ex_after b)"
    by (simp_all add: check_turn_limit_def effective_max_turns_def turn_limit_def ex_run_args_def ex_run_policy_def ex_session_def
      ex_runtime_def runtime_new_def ex_limits_def next_turn_def ex_after_def)
  have pol: "ra_policy (ex_run_args b) \<noteq> None" "rsp_usage ex_answer = None" "should_block (ra_policy (ex_run_args b))" for b
    by (simp_all add: ex_run_args_def ex_answer_def should_block_def ex_run_policy_def)
  have "charge_turn (ex_run_args b) bf (Some \<lparr>res_ledger = 0, res_amount = 0, res_settled = False\<rparr>) ex_answer (ex_after b)
     = (if b = 0 then (Inr (Some ex_answer), append_message (rsp_message ex_answer) (ex_after b)) else (Inr None, ex_after b))" for bf
    unfolding charge_turn_def if_P[OF pol(1)] pol(2) 
      bind_action_step(1)[where m = "settle_turn (ex_run_args b) bf (Some \<lparr>res_ledger = 0, res_amount = 0, res_settled = False\<rparr>) None",
        OF ex_settle]
    by (simp add: pol(3) bind_action_def ret_action_def ex_push)
  then show ?thesis
    by (simp add: run_turn_def bind_action_def pre lim ex_ask ex_normalized ex_answered ret_action_def)
qed


theorem zero_budget_ends_after_first_answer_witness:
  "\<exists>r. fst (run_turn (ex_run_args 0) (ex_session 0)) = Inr (Some r) \<and> rsp_tool_calls r = [ex_call] \<and>
     conversation (snd (run_turn (ex_run_args 0) (ex_session 0))) = conversation (ex_session 0) @ [rsp_message r]"
proof -
  let ?s = "append_message (rsp_message ex_answer) (ex_after 0)"
  have run: "run_turn (ex_run_args 0) (ex_session 0) = (Inr (Some ex_answer), ?s)" by (simp add: ex_turn)
  have "conversation ?s = conversation (ex_session 0) @ [rsp_message ex_answer]"
    using zero_budget_ends_after_first_answer[OF _ _ _ run, where p = "ex_run_policy 0"]
    by (simp add: ex_run_args_def ex_run_policy_def ex_session_def)
  with run show ?thesis by (simp add: ex_answer_def)
qed


theorem soft_modes_never_block_witness:
  "fst (run_turn ((ex_run_args 0)\<lparr>ra_policy := Some ((ex_run_policy 0)\<lparr>rollout_mode := SoftFail\<rparr>)\<rparr>) (ex_session 0))
     \<noteq> Inl ETurnLimitExceeded"
  using soft_modes_never_block[of "(ex_run_args 0)\<lparr>ra_policy := Some ((ex_run_policy 0)\<lparr>rollout_mode := SoftFail\<rparr>)\<rparr>"
      "(ex_run_policy 0)\<lparr>rollout_mode := SoftFail\<rparr>" "ex_session 0"]
  by (cases "run_turn ((ex_run_args 0)\<lparr>ra_policy := Some ((ex_run_policy 0)\<lparr>rollout_mode := SoftFail\<rparr>)\<rparr>) (ex_session 0)") simp

end
