(* ===== verification/Delegation.thy ===== *)
theory Delegation
  imports Agent_Loop
begin

text \<open>
  Delegation to a subagent: the executor of \<open>runtime/src/delegation.rs\<close> and the tool that
  calls it, \<open>tools/src/delegation_tools.rs\<close>.

  The fresh UUID of a subagent session is an argument; the clock is the one of the run. The
  executor runs the loop of \<open>Agent_Loop\<close> with its fuel. The events of a run under a child
  policy go to a channel that a background task empties: they are left out of the
  events of the host that receives the result.
\<close>

section \<open>Requests and results\<close>

record delegation_request =
  dq_parent_session_id :: string
  dq_parent_user_id :: string
  dq_agent_name :: string
  dq_goal :: string
  dq_caller_selection :: "provider_selection option"
  dq_key_facts :: "string list"
  dq_max_turns :: "u32 option"
  dq_max_cost :: "f64 option"
  dq_parent_policy :: "effective_run_policy option"

datatype delegation_status = DelCompleted | DelBudgetExhausted string | DelFailed string

record delegation_result =
  dr_output :: string
  dr_attachments :: "inline_media list"
  dr_turns_used :: nat
  dr_cost_used :: f64
  dr_status :: delegation_status

record 'w delegation_executor =
  de_runtime :: "'w agent_runtime"
  de_agents :: "(string \<times> agent_definition) list"
  de_root_selection :: provider_selection

section \<open>Depth\<close>

definition MAX_DELEGATION_DEPTH :: nat where
  "MAX_DELEGATION_DEPTH = 5"

text \<open>\<open>str::matches(p).count()\<close> for a pattern that is not empty: from left to right, without overlap.\<close>

function match_count :: "string \<Rightarrow> string \<Rightarrow> nat" where
  "match_count [] p = 0"
| "match_count (c # cs) p =
     (if p \<noteq> [] \<and> starts_with (c # cs) p then Suc (match_count (drop (length p) (c # cs)) p)
      else match_count cs p)"
  by pat_completeness auto
termination
  by (relation "measure (\<lambda>(s, _). length s)") auto

definition SUBAGENT_PREFIX :: string where
  "SUBAGENT_PREFIX = ''subagent:''"

definition calculate_delegation_depth :: "string \<Rightarrow> nat" where
  "calculate_delegation_depth session_id = match_count session_id SUBAGENT_PREFIX"

definition child_session_id :: "string \<Rightarrow> string \<Rightarrow> string" where
  "child_session_id parent_session_id uuid = SUBAGENT_PREFIX @ parent_session_id @ '':'' @ uuid"

section \<open>The policy of a child\<close>

definition narrowed_tool_names :: "effective_run_policy \<Rightarrow> agent_definition \<Rightarrow> string set option" where
  "narrowed_tool_names parent_policy child_agent =
     (let parent_tool_names = set (map fd_name (toolset parent_policy)) in
      case map_option set (ad_tools child_agent) of
        Some child_tools \<Rightarrow>
          (let both = parent_tool_names \<inter> child_tools in if both = {} then None else Some both)
      | None \<Rightarrow> Some parent_tool_names)"

definition narrow_child_policy ::
    "datetime \<Rightarrow> effective_run_policy \<Rightarrow> agent_definition \<Rightarrow> delegation_request \<Rightarrow> effective_run_policy" where
  "narrow_child_policy now parent_policy child_agent child_request =
     (let child_agent_budget = map_option to_microusd (ad_max_cost child_agent);
          child_requested_budget = map_option to_microusd (dq_max_cost child_request);
          narrowed_budget =
            (case min_some [child_agent_budget, child_requested_budget,
                Some (remaining_budget_microusd parent_policy)] of
               Some b \<Rightarrow> b | None \<Rightarrow> remaining_budget_microusd parent_policy);
          narrowed_max_turns =
            min_some [pol_max_turns parent_policy, ad_max_turns child_agent, dq_max_turns child_request];
          names = narrowed_tool_names parent_policy child_agent
      in \<lparr>started_at = now, deadline = deadline parent_policy,
          initial_budget_microusd = narrowed_budget, remaining_budget_microusd = narrowed_budget,
          toolset = filter (\<lambda>t. case names of None \<Rightarrow> False | Some allowed \<Rightarrow> fd_name t \<in> allowed)
            (toolset parent_policy),
          auto_approve_tools = auto_approve_tools parent_policy \<inter> (case names of None \<Rightarrow> {} | Some a \<Rightarrow> a),
          disallowed_tools = disallowed_tools parent_policy,
          parent_run_id = Some (dq_parent_session_id child_request),
          pol_max_turns = narrowed_max_turns, rollout_mode = rollout_mode parent_policy\<rparr>)"

definition resolve_delegation_selection ::
    "provider_selection \<Rightarrow> string \<Rightarrow> agent_definition \<Rightarrow> provider_selection option \<Rightarrow> provider_selection" where
  "resolve_delegation_selection root_selection agent_name agent_def caller_selection =
     (if agent_name = ''default'' then root_selection
      else case ad_selection agent_def of
        Some selection \<Rightarrow> selection
      | None \<Rightarrow> (case caller_selection of Some sel \<Rightarrow> sel | None \<Rightarrow> root_selection))"

section \<open>The executor\<close>

definition DELEGATE_TO_AGENT_TOOL_NAME :: string where
  "DELEGATE_TO_AGENT_TOOL_NAME = ''delegate_to_agent''"

definition delegation_error :: "string \<Rightarrow> runtime_error" where
  "delegation_error message = ETool (ExecutionFailed DELEGATE_TO_AGENT_TOOL_NAME message)"

definition check_delegation_depth ::
    "(stream_item \<Rightarrow> 'w host \<Rightarrow> 'w host) option \<Rightarrow> delegation_request \<Rightarrow> ('w host, runtime_error, unit) action" where
  "check_delegation_depth progress_sender request w =
     (let current_depth = calculate_delegation_depth (dq_parent_session_id request) in
      if current_depth \<ge> MAX_DELEGATION_DEPTH
      then case map_option rollout_mode (dq_parent_policy request) of
             None \<Rightarrow> (Inl (delegation_error (''maximum delegation depth exceeded ('' @ nat_to_string current_depth @
               '' >= '' @ nat_to_string MAX_DELEGATION_DEPTH @ '')'')), w)
           | Some Enforce \<Rightarrow> (Inl (delegation_error (''maximum delegation depth exceeded ('' @ nat_to_string current_depth @
               '' >= '' @ nat_to_string MAX_DELEGATION_DEPTH @ '')'')), w)
           | Some SoftFail \<Rightarrow>
               (Inr (), (case progress_sender of
                  Some send \<Rightarrow> send (SPolicyEvent (PolicyStop (StopError ''MaxDelegationDepthExceeded''))) w
                | None \<Rightarrow> w))
           | Some ObserveOnly \<Rightarrow> (Inr (), w)
      else (Inr (), w))"

definition delegation_messages :: "agent_definition \<Rightarrow> delegation_request \<Rightarrow> message list" where
  "delegation_messages agent_def request =
     (case (case ad_system_prompt agent_def of Some p \<Rightarrow> Some p | None \<Rightarrow> ad_system_prompt_file agent_def) of
        Some system_prompt \<Rightarrow> [plain_message RSystem system_prompt] | None \<Rightarrow> []) @
     map (plain_message RSystem) (dq_key_facts request) @
     [plain_message RUser (dq_goal request)]"

definition delegation_tools ::
    "'w tool_registry \<Rightarrow> effective_run_policy option \<Rightarrow> function_decl list" where
  "delegation_tools reg child_policy =
     (case child_policy of
        Some policy \<Rightarrow> filtered_schemas reg (Some (set (map fd_name (toolset policy)))) (disallowed_tools policy)
      | None \<Rightarrow> schemas reg)"

definition delegation_context ::
    "'w delegation_executor \<Rightarrow> agent_definition \<Rightarrow> delegation_request \<Rightarrow> effective_run_policy option \<Rightarrow> llm_context" where
  "delegation_context ex agent_def request child_policy =
     (let selection = resolve_delegation_selection (de_root_selection ex) (dq_agent_name request) agent_def
            (dq_caller_selection request)
      in \<lparr>ctx_provider = sel_provider selection, ctx_model = sel_model selection,
          ctx_tools = delegation_tools (rt_tool_registry (de_runtime ex)) child_policy,
          ctx_messages = delegation_messages agent_def request\<rparr>)"

definition delegation_tool_context :: "delegation_request \<Rightarrow> string \<Rightarrow> llm_context \<Rightarrow> 'w tool_execution_context" where
  "delegation_tool_context request session_id ctx =
     default_tool_context\<lparr>te_user_id := Some (dq_parent_user_id request), te_session_id := Some session_id,
       te_provider := Some (ctx_provider ctx), te_model := Some (ctx_model ctx)\<rparr>"

definition run_session_for_session_with_policy ::
    "libs \<Rightarrow> 'w agent_runtime \<Rightarrow> 'w call_env \<Rightarrow> nat \<Rightarrow> string \<Rightarrow> llm_context \<Rightarrow> 'w tool_execution_context \<Rightarrow>
     effective_run_policy \<Rightarrow> 'w host \<Rightarrow> ((runtime_error, response) result \<times> 'w session) option" where
  "run_session_for_session_with_policy lib rt env fuel session_id ctx tool_context policy w =
     run_session_internal lib rt env fuel (Some session_id) ctx True tool_context (Some policy) w"

definition run_session_for_session_with_tool_context ::
    "libs \<Rightarrow> 'w agent_runtime \<Rightarrow> 'w call_env \<Rightarrow> nat \<Rightarrow> string \<Rightarrow> llm_context \<Rightarrow> 'w tool_execution_context \<Rightarrow>
     'w host \<Rightarrow> ((runtime_error, response) result \<times> 'w session) option" where
  "run_session_for_session_with_tool_context lib rt env fuel session_id ctx tool_context w =
     run_session_internal lib rt env fuel (Some session_id) ctx False tool_context None w"

definition run_session_for_session ::
    "libs \<Rightarrow> 'w agent_runtime \<Rightarrow> 'w call_env \<Rightarrow> nat \<Rightarrow> string \<Rightarrow> llm_context \<Rightarrow>
     'w host \<Rightarrow> ((runtime_error, response) result \<times> 'w session) option" where
  "run_session_for_session lib rt env fuel session_id ctx w =
     run_session_for_session_with_tool_context lib rt env fuel session_id ctx
       (default_tool_context\<lparr>te_session_id := Some session_id\<rparr>) w"

definition run_session_for_session_with_stream_events ::
    "libs \<Rightarrow> 'w agent_runtime \<Rightarrow> 'w call_env \<Rightarrow> nat \<Rightarrow> string \<Rightarrow> llm_context \<Rightarrow> 'w tool_execution_context \<Rightarrow>
     'w host \<Rightarrow> ((runtime_error, response) result \<times> 'w session) option" where
  "run_session_for_session_with_stream_events lib rt env fuel session_id ctx tool_context w =
     run_session_internal lib rt env fuel (Some session_id) ctx True tool_context None w"

definition run_session ::
    "libs \<Rightarrow> 'w agent_runtime \<Rightarrow> 'w call_env \<Rightarrow> nat \<Rightarrow> llm_context \<Rightarrow> 'w host \<Rightarrow>
     ((runtime_error, response) result \<times> 'w session) option" where
  "run_session lib rt env fuel ctx w = run_session_internal lib rt env fuel None ctx False default_tool_context None w"

definition delegation_answer :: "response \<Rightarrow> delegation_result" where
  "delegation_answer resp =
     \<lparr>dr_output = (case msg_content (rsp_message resp) of Some c \<Rightarrow> c | None \<Rightarrow> []),
      dr_attachments = msg_attachments (rsp_message resp), dr_turns_used = 1, dr_cost_used = F_Fin 0,
      dr_status = DelCompleted\<rparr>"

definition run_child ::
    "libs \<Rightarrow> 'w agent_runtime \<Rightarrow> 'w call_env \<Rightarrow> nat \<Rightarrow> string \<Rightarrow> llm_context \<Rightarrow> 'w tool_execution_context \<Rightarrow>
     effective_run_policy option \<Rightarrow> 'w host \<Rightarrow> ((runtime_error, response) result \<times> 'w host) option" where
  "run_child lib rt env fuel session_id ctx tool_context child_policy w =
     (case child_policy of
        Some policy \<Rightarrow>
          map_option (\<lambda>(r, s). (r, (ses_host s)\<lparr>sent_events := sent_events w\<rparr>))
            (run_session_for_session_with_policy lib rt env fuel session_id ctx tool_context policy w)
      | None \<Rightarrow>
          map_option (\<lambda>(r, s). (r, ses_host s))
            (run_session_for_session_with_tool_context lib rt env fuel session_id ctx tool_context w))"

definition delegate ::
    "libs \<Rightarrow> 'w delegation_executor \<Rightarrow> 'w call_env \<Rightarrow> nat \<Rightarrow> string \<Rightarrow> delegation_request \<Rightarrow>
     (stream_item \<Rightarrow> 'w host \<Rightarrow> 'w host) option \<Rightarrow> 'w host \<Rightarrow>
     ((runtime_error, delegation_result) result \<times> 'w host) option" where
  "delegate lib ex env fuel uuid request progress_sender w =
     (case check_delegation_depth progress_sender request w of
        (Inl e, w1) \<Rightarrow> Some (Inl e, w1)
      | (Inr _, w1) \<Rightarrow>
        (case map_of (de_agents ex) (dq_agent_name request) of
           None \<Rightarrow> Some (Inl (delegation_error (''unknown agent `'' @ dq_agent_name request @ ''`'')), w1)
         | Some agent_def \<Rightarrow>
           let session_id = child_session_id (dq_parent_session_id request) uuid;
               child_policy = map_option (\<lambda>p. narrow_child_policy (env_now env w1) p agent_def request)
                 (dq_parent_policy request);
               ctx = delegation_context ex agent_def request child_policy
           in map_option (\<lambda>(r, w2). (map_sum id delegation_answer r, w2))
                (run_child lib (de_runtime ex) env fuel session_id ctx
                  (delegation_tool_context request session_id ctx) child_policy w1)))"

section \<open>The tool\<close>

text \<open>The arguments of a call, as the deserializer (a parameter) reads them.\<close>

record delegate_args =
  da_agent_name :: string
  da_goal :: string
  da_key_facts :: "string list option"
  da_max_turns :: "u32 option"
  da_max_cost :: "f64 option"

definition media_type_from_mime :: "string \<Rightarrow> media_type" where
  "media_type_from_mime mime_type =
     (if starts_with mime_type ''image/'' then Photo
      else if starts_with mime_type ''audio/'' then Audio
      else if starts_with mime_type ''video/'' then Video
      else Document)"

definition extension_from_mime :: "string \<Rightarrow> string" where
  "extension_from_mime mime_type =
     (if mime_type = ''image/png'' then ''png''
      else if mime_type = ''image/jpeg'' then ''jpg''
      else if mime_type = ''image/webp'' then ''webp''
      else if mime_type = ''image/gif'' then ''gif''
      else if mime_type = ''audio/mpeg'' then ''mp3''
      else if mime_type = ''audio/ogg'' then ''ogg''
      else if mime_type = ''video/mp4'' then ''mp4''
      else ''bin'')"

definition delegated_media :: "nat \<Rightarrow> inline_media \<Rightarrow> media_attachment" where
  "delegated_media index attachment =
     (let file_name = ''delegated-output-'' @ nat_to_string (index + 1) @ ''.'' @
            extension_from_mime (im_mime_type attachment)
      in \<lparr>ma_file_path = ''/tmp/'' @ file_name, ma_media_type = media_type_from_mime (im_mime_type attachment),
          ma_caption = None, ma_data = im_data attachment, ma_file_name = Some file_name\<rparr>)"

definition delegation_notice :: "nat \<Rightarrow> string" where
  "delegation_notice n =
     ''Delegated agent completed with '' @ nat_to_string n @
     '' attachment(s), and they have already been delivered to the user. Do not call send_media for these '' @
     ''delegated outputs, and do not re-delegate the same goal unless the user asks for more variants.''"

definition delegation_output :: "delegation_result \<Rightarrow> string" where
  "delegation_output result =
     (if dr_attachments result \<noteq> []
      then let notice = delegation_notice (length (dr_attachments result)) in
           if trim (dr_output result) = [] then notice
           else notice @ nl @ nl @ ''Subagent summary:'' @ nl @ dr_output result
      else dr_output result)"

definition delegation_request_of ::
    "string \<Rightarrow> delegate_args \<Rightarrow> 'w tool_execution_context \<Rightarrow> delegation_request" where
  "delegation_request_of user_id request ctx =
     \<lparr>dq_parent_session_id = (case te_session_id ctx of Some s \<Rightarrow> s | None \<Rightarrow> []),
      dq_parent_user_id = user_id, dq_agent_name = da_agent_name request, dq_goal = da_goal request,
      dq_caller_selection = (case (te_provider ctx, te_model ctx) of
         (Some p, Some m) \<Rightarrow> Some \<lparr>sel_provider = p, sel_model = m\<rparr> | _ \<Rightarrow> None),
      dq_key_facts = (case da_key_facts request of Some fs \<Rightarrow> fs | None \<Rightarrow> []),
      dq_max_turns = da_max_turns request, dq_max_cost = da_max_cost request,
      dq_parent_policy = te_policy ctx\<rparr>"

text \<open>
  \<open>execute\<close> of the tool: \<open>parse\<close> is the deserializer, \<open>executor\<close> the globally registered
  executor, whose \<open>delegate\<close> may not return (\<open>None\<close>).
\<close>

definition delegate_to_agent_execute ::
    "(string \<Rightarrow> (string, delegate_args) result) \<Rightarrow>
     (delegation_request \<Rightarrow> 'w host \<Rightarrow> ((runtime_error, delegation_result) result \<times> 'w host) option) option \<Rightarrow>
     string \<Rightarrow> 'w tool_execution_context \<Rightarrow> 'w host \<Rightarrow> ((tool_error, string) result \<times> 'w host) option" where
  "delegate_to_agent_execute parse executor args ctx w =
     (case parse args of
        Inl e \<Rightarrow> Some (Inl (invalid_args DELEGATE_TO_AGENT_TOOL_NAME e), w)
      | Inr request \<Rightarrow>
        (case te_user_id ctx of
           None \<Rightarrow> Some (Inl (execution_failed DELEGATE_TO_AGENT_TOOL_NAME ''user context not available''), w)
         | Some user_id \<Rightarrow>
           (case executor of
              None \<Rightarrow> Some (Inl (execution_failed DELEGATE_TO_AGENT_TOOL_NAME ''delegation executor not available''), w)
            | Some ex \<Rightarrow>
              (case ex (delegation_request_of user_id request ctx) w of
                 None \<Rightarrow> None
               | Some (Inl e, w1) \<Rightarrow>
                   Some (Inl (execution_failed DELEGATE_TO_AGENT_TOOL_NAME
                     (''delegation failed: '' @ runtime_error_display e)), w1)
               | Some (Inr result, w1) \<Rightarrow>
                   Some (Inr (delegation_output result),
                     fold (\<lambda>(i, a). send_event ctx (SMedia (delegated_media i a)))
                       (List.enumerate 0 (dr_attachments result)) w1)))))"

section \<open>Depth along a chain of delegations\<close>

lemma match_count_short: "length s < length p \<Longrightarrow> match_count s p = 0"
proof (induction s p rule: match_count.induct)
  case (2 c cs p)
  then have "\<not> starts_with (c # cs) p" by (auto simp: starts_with_iff dest: arg_cong[where f = length])
  with 2 show ?case by simp
qed simp

lemma match_count_append: "match_count s p \<le> match_count (s @ r) p"
proof (induction s p rule: match_count.induct)
  case (2 c cs p)
  show ?case
  proof (cases "p \<noteq> [] \<and> starts_with (c # cs) p")
    case True
    then obtain x where x: "c # cs = p @ x" "p \<noteq> []" by (auto simp: starts_with_iff)
    then have "starts_with (c # cs @ r) p" by (metis append_Cons append_assoc starts_with_append)
    moreover have "drop (length p) (c # cs @ r) = drop (length p) (c # cs) @ r" using x by (simp flip: append_Cons)
    ultimately show ?thesis using 2(1)[OF True] True by (simp del: drop_Cons')
  next
    case no: False
    show ?thesis
    proof (cases "p \<noteq> [] \<and> starts_with (c # cs @ r) p")
      case True
      with no have "length (c # cs) < length p" unfolding starts_with_iff
        by (metis append_Cons append_eq_append_conv_if append_take_drop_id linorder_not_le)
      then have "match_count cs p = 0" by (intro match_count_short) simp
      with no True show ?thesis by auto
    next
      case False
      with 2(2)[OF no] no show ?thesis by auto
    qed
  qed
qed simp

lemma depth_child: "Suc (calculate_delegation_depth sid) \<le> calculate_delegation_depth (child_session_id sid uuid)"
  using match_count_append[of sid SUBAGENT_PREFIX "'':'' @ uuid"]
  by (simp add: calculate_delegation_depth_def child_session_id_def SUBAGENT_PREFIX_def)

section \<open>Narrowing\<close>

lemma min_some_limit:
  assumes "Some b \<in> set xs"
  shows "\<exists>m. min_some xs = Some m \<and> m \<le> b"
  using assms min_some_le[of b xs] by (cases "min_some xs") (auto simp: min_some_None)

lemma narrowed_budget_min:
  "min_some [a, b, Some c] = Some (remaining_budget_microusd (narrow_child_policy now p agent req))"
  if "a = map_option to_microusd (ad_max_cost agent)" "b = map_option to_microusd (dq_max_cost req)"
    "c = remaining_budget_microusd p"
  using min_some_limit[of c "[a, b, Some c]"] that by (auto simp: narrow_child_policy_def Let_def)

lemma narrow_names:
  "names = narrowed_tool_names p a \<Longrightarrow>
     (case names of None \<Rightarrow> False | Some allowed \<Rightarrow> n \<in> allowed) \<longleftrightarrow>
     n \<in> set (map fd_name (toolset p)) \<and> (case ad_tools a of None \<Rightarrow> True | Some ts \<Rightarrow> n \<in> set ts)"
  by (auto simp: narrowed_tool_names_def Let_def split: option.splits if_splits)

lemma narrow_le: "policy_le (narrow_child_policy now p agent req) p"
proof -
  let ?c = "narrow_child_policy now p agent req"
  have "remaining_budget_microusd ?c \<le> remaining_budget_microusd p"
    using min_some_le[of "remaining_budget_microusd p", OF _ narrowed_budget_min[OF refl refl refl]] by simp
  moreover have "limit_le (pol_max_turns ?c) (pol_max_turns p)"
    by (simp add: narrow_child_policy_def Let_def limit_le_min_some)
  ultimately show ?thesis by (auto simp: policy_le_def narrow_child_policy_def Let_def)
qed

lemma narrow_wf: "policy_wf p \<Longrightarrow> policy_wf (narrow_child_policy now p agent req)"
  unfolding policy_wf_def narrow_child_policy_def Let_def
  using narrow_names[of "narrowed_tool_names p agent" p agent, OF refl]
  by (auto split: option.splits)

lemma narrow_keeps [simp]:
  "rollout_mode (narrow_child_policy now p agent req) = rollout_mode p"
  "deadline (narrow_child_policy now p agent req) = deadline p"
  "disallowed_tools (narrow_child_policy now p agent req) = disallowed_tools p"
  by (simp_all add: narrow_child_policy_def Let_def)

text \<open>One delegation: from the session and policy of a run to those of the run it starts.\<close>

inductive delegates :: "string \<times> effective_run_policy \<Rightarrow> string \<times> effective_run_policy \<Rightarrow> bool" where
  delegates_step: "dq_parent_session_id req = sid \<Longrightarrow> dq_parent_policy req = Some p \<Longrightarrow>
     delegates (sid, p) (child_session_id sid uuid, narrow_child_policy now p agent req)"

inductive_cases delegatesE: "delegates (sid, p) t"

definition confined_by :: "effective_run_policy \<Rightarrow> string \<times> effective_run_policy \<Rightarrow> bool" where
  "confined_by p t \<longleftrightarrow> policy_le (snd t) p \<and> policy_wf (snd t) \<and> rollout_mode (snd t) = rollout_mode p"

interpretation delegation: invariant_system "\<lambda>s. policy_wf p \<and> snd s = p" delegates "confined_by p" for p
proof (unfold_locales)
  show "policy_wf p \<and> snd s = p \<Longrightarrow> confined_by p s" for s :: "string \<times> effective_run_policy"
    by (auto simp: confined_by_def policy_le_refl)
  show "confined_by p s \<Longrightarrow> delegates s t \<Longrightarrow> confined_by p t" for s t
    by (cases s) (auto simp: confined_by_def elim!: delegatesE intro: policy_le_trans[OF narrow_le] narrow_wf)
qed

lemma delegates_depth:
  "(delegates ^^ n) s t \<Longrightarrow> calculate_delegation_depth (fst s) + n \<le> calculate_delegation_depth (fst t)"
proof (induction n arbitrary: t)
  case (Suc n)
  then obtain u where u: "(delegates ^^ n) s u" "delegates u t" by auto
  from u(2) have "Suc (calculate_delegation_depth (fst u)) \<le> calculate_delegation_depth (fst t)"
    by cases (simp add: depth_child)
  with Suc.IH[OF u(1)] show ?case by simp
qed simp

section \<open>Properties\<close>

text \<open>C4: Delegation never widens what a run may do. Along any chain of delegations that starts from a
  well-formed policy, the policy of the last subagent has no tool, no automatic approval,
  no budget, no turn and no time that the first one does not have, forbids whatever it
  forbids, is well formed, and keeps its rollout mode; and its session id records at least
  as many levels as the chain has.\<close>

theorem delegation_chain_confined:
  assumes "policy_wf p" and chain: "(delegates ^^ n) (sid, p) (sid', q)"
  shows "policy_le q p \<and> policy_wf q \<and> rollout_mode q = rollout_mode p \<and>
     calculate_delegation_depth sid + n \<le> calculate_delegation_depth sid'"
proof -
  have "confined_by p (sid', q)"
  proof (rule delegation.inv_run)
    show "delegates\<^sup>*\<^sup>* (sid, p) (sid', q)" using chain by (rule relpowp_imp_rtranclp)
    show "confined_by p (sid, p)" by (rule delegation.inv_init) (simp add: assms(1))
  qed
  with delegates_depth[OF chain] show ?thesis by (simp add: confined_by_def)
qed

definition ex_parent_policy :: effective_run_policy where
  "ex_parent_policy = (ex_run_policy 5)\<lparr>pol_max_turns := Some 3\<rparr>"

definition ex_agent :: agent_definition where
  "ex_agent = \<lparr>ad_system_prompt = Some ''You research.'', ad_system_prompt_file = None, ad_selection = None,
     ad_tools = Some [''file_read''], ad_max_turns = Some 2, ad_max_cost = None\<rparr>"

definition ex_request :: delegation_request where
  "ex_request = \<lparr>dq_parent_session_id = ''main'', dq_parent_user_id = ''alice'', dq_agent_name = ''researcher'',
     dq_goal = ''look it up'', dq_caller_selection = None, dq_key_facts = [], dq_max_turns = Some 7,
     dq_max_cost = None, dq_parent_policy = Some ex_parent_policy\<rparr>"

lemma ex_parent_wf: "policy_wf ex_parent_policy"
  by (simp add: policy_wf_def ex_parent_policy_def ex_run_policy_def)

theorem delegation_chain_confined_witness:
  "policy_le (narrow_child_policy 0 ex_parent_policy ex_agent ex_request) ex_parent_policy \<and>
   1 \<le> calculate_delegation_depth (child_session_id ''main'' ''u1'')"
proof -
  have "(delegates ^^ 1) (''main'', ex_parent_policy)
      (child_session_id ''main'' ''u1'', narrow_child_policy 0 ex_parent_policy ex_agent ex_request)"
    unfolding relpowp_1 by (rule delegates_step) (simp_all add: ex_request_def)
  from delegation_chain_confined[OF ex_parent_wf this] show ?thesis by simp
qed

text \<open>The depth of delegation is bounded. When a chain of \<open>MAX_DELEGATION_DEPTH\<close> or more
  delegations leads to a session under an enforced policy, a further delegation from that session fails and
  leaves the host untouched, whatever agent it names and whatever fuel it is given.\<close>

theorem delegation_depth_bounded:
  assumes "(delegates ^^ n) (sid, p) (sid', q)" "MAX_DELEGATION_DEPTH \<le> n" "rollout_mode q = Enforce"
    and "dq_parent_session_id request = sid'" "dq_parent_policy request = Some q"
  shows "\<exists>e. delegate lib ex env fuel uuid request sender w = Some (Inl e, w)"
proof -
  have "MAX_DELEGATION_DEPTH \<le> calculate_delegation_depth sid'"
    using delegates_depth[OF assms(1)] assms(2) by simp
  with assms(3-5) show ?thesis
    by (auto simp: delegate_def check_delegation_depth_def Let_def)
qed

lemma iterated_delegation:
  "\<exists>sid' q. (delegates ^^ n) (sid, p) (sid', q) \<and> rollout_mode q = rollout_mode p"
proof (induction n)
  case (Suc n)
  then obtain sid' q where q: "(delegates ^^ n) (sid, p) (sid', q)" "rollout_mode q = rollout_mode p" by blast
  let ?req = "ex_request\<lparr>dq_parent_session_id := sid', dq_parent_policy := Some q\<rparr>"
  have "delegates (sid', q) (child_session_id sid' ''u'', narrow_child_policy 0 q ex_agent ?req)"
    by (rule delegates_step) simp_all
  with q have "(delegates ^^ Suc n) (sid, p) (child_session_id sid' ''u'', narrow_child_policy 0 q ex_agent ?req)"
    by auto
  with q show ?case using narrow_keeps(1) by metis
qed auto

definition ex_executor :: "nat delegation_executor" where
  "ex_executor = \<lparr>de_runtime = ex_runtime, de_agents = [(''researcher'', ex_agent)],
     de_root_selection = \<lparr>sel_provider = ''p'', sel_model = ''m''\<rparr>\<rparr>"

theorem delegation_depth_bounded_witness:
  "\<exists>sid q e. delegate ex_libs ex_executor ex_env 9 ''u''
     (ex_request\<lparr>dq_parent_session_id := sid, dq_parent_policy := Some q\<rparr>) None ex_host = Some (Inl e, ex_host)"
proof -
  obtain sid q where q: "(delegates ^^ 5) (''main'', ex_parent_policy) (sid, q)" "rollout_mode q = rollout_mode ex_parent_policy"
    using iterated_delegation by blast
  have "rollout_mode q = Enforce" using q(2) by (simp add: ex_parent_policy_def ex_run_policy_def)
  from delegation_depth_bounded[OF q(1) _ this, of "ex_request\<lparr>dq_parent_session_id := sid, dq_parent_policy := Some q\<rparr>"
      ex_libs ex_executor ex_env 9 "''u''" None ex_host]
  show ?thesis by (auto simp: MAX_DELEGATION_DEPTH_def)
qed

text \<open>A delegation returns. Under an enforced parent policy with a turn limit (every admitted policy
  has one), the executor answers with a result or an error after at most as many turns of
  the subagent as the parent itself is allowed: fuel above that limit is always enough.\<close>

theorem delegation_returns:
  assumes "dq_parent_policy request = Some p" "rollout_mode p = Enforce"
    and "pol_max_turns p = Some m" "unat m < fuel"
  shows "\<exists>r w'. delegate lib ex env fuel uuid request sender w = Some (r, w')"
proof (cases "fst (check_delegation_depth sender request w)")
  case (Inl e)
  then show ?thesis by (cases "check_delegation_depth sender request w") (simp add: delegate_def)
next
  case (Inr u)
  then obtain w1 where w1: "check_delegation_depth sender request w = (Inr u, w1)" by (metis prod.collapse)
  show ?thesis
  proof (cases "map_of (de_agents ex) (dq_agent_name request)")
    case None
    then show ?thesis using w1 by (simp add: delegate_def)
  next
    case (Some agent)
    let ?c = "narrow_child_policy (env_now env w1) p agent request"
    have "\<exists>m'. pol_max_turns ?c = Some m' \<and> m' \<le> m"
      using min_some_limit[of m "[pol_max_turns p, ad_max_turns agent, dq_max_turns request]"] assms(3)
      by (simp add: narrow_child_policy_def Let_def)
    then have "turn_limit (de_runtime ex) (Some ?c) < fuel"
      using assms(4) by (auto simp: turn_limit_def word_le_nat_alt)
    moreover have "should_block (Some ?c)" using assms(2) by (simp add: should_block_def)
    ultimately have "\<exists>r s. run_session_internal lib (de_runtime ex) env fuel (Some sid) ctx True tctx (Some ?c) w1 = Some (r, s)"
      for sid ctx tctx using session_returns by blast
    then show ?thesis using w1 Some assms(1)
      by (fastforce simp: delegate_def Let_def run_child_def run_session_for_session_with_policy_def)
  qed
qed

theorem delegation_returns_witness:
  "\<exists>r w'. delegate ex_libs ex_executor ex_env 4 ''u'' ex_request None ex_host = Some (r, w')"
  by (rule delegation_returns[where p = ex_parent_policy and m = 3])
     (simp_all add: ex_request_def ex_parent_policy_def ex_run_policy_def)

section \<open>Limits of the enforcement\<close>

text \<open>The policy a delegation starts from is the one its session was started with: what the session
  has already spent is not taken off the budget of the subagent.\<close>

theorem delegated_budget_ignores_spending:
  fixes s :: "'w session"
  assumes "ra_tool_context ra = session_tool_context rt listening (Some p) ctx tctx"
    and "request = delegation_request_of user args (turn_tool_context ra s)"
    and "da_max_cost args = None" "ad_max_cost agent = None"
  shows "dq_parent_policy request = Some p"
    and "remaining_budget_microusd (narrow_child_policy now p agent request) = remaining_budget_microusd p"
  using assms by (simp_all add: delegation_request_of_def turn_tool_context_def session_tool_context_def
    narrow_child_policy_def Let_def min_some_def List.map_filter_def)

text \<open>The toolset of a policy is not looked at when a call is dispatched: a registered tool that the
  toolset leaves out runs when it is called by name, unless it is also on the list of disallowed tools.\<close>

theorem toolset_not_enforced_at_dispatch:
  assumes "registry_get reg name = Some t" "te_policy ctx = Some p"
    and "name \<notin> fd_name ` set (toolset p)" "name \<notin> disallowed_tools p"
    and "te_permission_handler ctx = None" "reg_security_policy reg = None"
    and "run_tool t args ctx w = (Some (Inr out), w')"
  shows "execute_with_context jc reg name args ctx w = (Inr (truncate_output out (reg_max_output_bytes reg)), w')"
  using assms by (simp add: execute_with_context_def execute_with_policy_and_context_def action_defs check_disallowed_def
    ask_permission_def check_security_def run_with_timeout_def)

end
