(* ===== verification/Scheduler_Store.thy ===== *)
theory Scheduler_Store
  imports Tool_Execution
begin

text \<open>
  The durable store of schedules and their runs, \<open>memory/src/scheduler_store.rs\<close>, with the types of
  \<open>types/src/scheduler.rs\<close> and \<open>types/src/proactive.rs\<close>.

  The database is the state: the rows of the two tables the statements name, the copy a
  transaction falls back to, and a list of faults that says for each statement to come
  whether the connection fails and with which message. Each SQL statement of the source is
  one function on the tables, with the constraints of the migrations (the primary keys,
  the foreign key with its cascade). Rows with equal sort keys come in an order SQL leaves
  open; the model takes the order of insertion. The JSON texts of cadences and policies are
  written and read by a codec, which is a parameter.
\<close>

section \<open>Types\<close>

datatype schedule_cadence = Once string | Cron string string | Interval u64

datatype notification_policy = NotifyAlways | NotifyConditional | NotifyNever

datatype schedule_status = SchedActive | SchedPaused | SchedCompleted | SchedDisabled

datatype schedule_run_status = RunSuccess | RunFailed | RunCancelled

record schedule_definition =
  sd_schedule_id :: string
  sd_user_id :: string
  sd_name :: "string option"
  sd_goal :: string
  sd_cadence :: schedule_cadence
  sd_notification_policy :: notification_policy
  sd_status :: schedule_status
  sd_created_at :: string
  sd_updated_at :: string
  sd_next_run_at :: "string option"
  sd_last_run_at :: "string option"
  sd_last_run_status :: "schedule_run_status option"
  sd_consecutive_failures :: u32
  sd_channel_id :: "string option"
  sd_channel_context_id :: "string option"
  sd_policy :: "run_policy_input option"

record schedule_run_record =
  rr_run_id :: string
  rr_schedule_id :: string
  rr_started_at :: string
  rr_finished_at :: string
  rr_status :: schedule_run_status
  rr_output_summary :: "string option"
  rr_turn_count :: u32
  rr_cost :: f64
  rr_notified :: bool
  rr_output :: "string option"

record schedule_search_filters =
  sf_name_contains :: "string option"
  sf_status :: "schedule_status option"
  sf_cadence_type :: "string option"
  sf_notification_policy :: "notification_policy option"
  sf_limit :: nat
  sf_offset :: nat

record schedule_search_result =
  ss_schedules :: "schedule_definition list"
  ss_total_count :: nat
  ss_offset :: nat
  ss_limit :: nat

record schedule_patch =
  sp_name :: "string option option"
  sp_goal :: "string option"
  sp_cadence :: "schedule_cadence option"
  sp_notification_policy :: "notification_policy option"
  sp_status :: "schedule_status option"
  sp_next_run_at :: "string option option"
  sp_updated_at :: "string option"
  sp_consecutive_failures :: "u32 option"

datatype route_delivery_outcome = PrimaryRouteSucceeded
  | PrimaryRouteNotFoundFallbackSucceeded string | PrimaryRouteNotFoundFallbackFailed

section \<open>Texts of the enumerations\<close>

fun notification_policy_to_str :: "notification_policy \<Rightarrow> string" where
  "notification_policy_to_str NotifyAlways = ''always''"
| "notification_policy_to_str NotifyConditional = ''conditional''"
| "notification_policy_to_str NotifyNever = ''never''"

definition notification_policy_from_str :: "string \<Rightarrow> (scheduler_error, notification_policy) result" where
  "notification_policy_from_str s =
     (if s = ''always'' then Inr NotifyAlways
      else if s = ''conditional'' then Inr NotifyConditional
      else if s = ''never'' then Inr NotifyNever
      else Inl (SchedStore (''unknown notification policy: '' @ s)))"

fun schedule_status_to_str :: "schedule_status \<Rightarrow> string" where
  "schedule_status_to_str SchedActive = ''active''"
| "schedule_status_to_str SchedPaused = ''paused''"
| "schedule_status_to_str SchedCompleted = ''completed''"
| "schedule_status_to_str SchedDisabled = ''disabled''"

definition schedule_status_from_str :: "string \<Rightarrow> (scheduler_error, schedule_status) result" where
  "schedule_status_from_str s =
     (if s = ''active'' then Inr SchedActive
      else if s = ''paused'' then Inr SchedPaused
      else if s = ''completed'' then Inr SchedCompleted
      else if s = ''disabled'' then Inr SchedDisabled
      else Inl (SchedStore (''unknown schedule status: '' @ s)))"

fun run_status_to_str :: "schedule_run_status \<Rightarrow> string" where
  "run_status_to_str RunSuccess = ''success''"
| "run_status_to_str RunFailed = ''failed''"
| "run_status_to_str RunCancelled = ''cancelled''"

definition run_status_from_str :: "string \<Rightarrow> (scheduler_error, schedule_run_status) result" where
  "run_status_from_str s =
     (if s = ''success'' then Inr RunSuccess
      else if s = ''failed'' then Inr RunFailed
      else if s = ''cancelled'' then Inr RunCancelled
      else Inl (SchedStore (''unknown run status: '' @ s)))"

section \<open>Tables\<close>

record schedule_row =
  row_schedule_id :: string
  row_user_id :: string
  row_name :: "string option"
  row_goal :: string
  row_cadence_json :: string
  row_notification_policy :: string
  row_status :: string
  row_created_at :: string
  row_updated_at :: string
  row_next_run_at :: "string option"
  row_last_run_at :: "string option"
  row_last_run_status :: "string option"
  row_consecutive_failures :: int
  row_channel_id :: "string option"
  row_channel_context_id :: "string option"
  row_policy_json :: "string option"
  row_streak :: int

record run_row =
  run_run_id :: string
  run_schedule_id :: string
  run_started_at :: string
  run_finished_at :: string
  run_status :: string
  run_output_summary :: "string option"
  run_turn_count :: int
  run_cost :: f64
  run_notified :: bool
  run_output :: "string option"

record sched_db =
  db_schedules :: "schedule_row list"
  db_runs :: "run_row list"
  db_backup :: "(schedule_row list \<times> run_row list) option"
  db_faults :: "string option list"

record sched_codec =
  cadence_to_json :: "schedule_cadence \<Rightarrow> (string, string) result"
  cadence_of_json :: "string \<Rightarrow> (string, schedule_cadence) result"
  policy_to_json :: "run_policy_input \<Rightarrow> (string, string) result"
  policy_of_json :: "string \<Rightarrow> (string, run_policy_input) result"
  cadence_type_of_json :: "string \<Rightarrow> string option"

definition store_error :: "string \<Rightarrow> scheduler_error" where
  "store_error message = SchedStore message"

text \<open>One statement sent to the connection.\<close>

definition sql :: "(sched_db \<Rightarrow> (string, 'a \<times> sched_db) result) \<Rightarrow> (sched_db, scheduler_error, 'a) action" where
  "sql stmt d =
     (let d0 = d\<lparr>db_faults := tl (db_faults d)\<rparr> in
      case db_faults d of
        Some e # _ \<Rightarrow> (Inl (store_error e), d0)
      | _ \<Rightarrow> (case stmt d0 of Inl e \<Rightarrow> (Inl (store_error e), d0) | Inr (x, d') \<Rightarrow> (Inr x, d')))"

text \<open>\<open>LIMIT n\<close>, the number cast to a signed 64-bit integer: a negative limit is none.\<close>

definition sql_limit :: "nat \<Rightarrow> 'a list \<Rightarrow> 'a list" where
  "sql_limit n xs = (if n < 2 ^ 63 then take n xs else xs)"

definition sql_offset :: "nat \<Rightarrow> 'a list \<Rightarrow> 'a list" where
  "sql_offset n xs = (if n < 2 ^ 63 then drop n xs else xs)"

text \<open>\<open>LIKE\<close>: any run of characters for a percent sign, one character for an underscore, ASCII letters
  without regard to case.\<close>

fun like_chars :: "string list \<Rightarrow> string list \<Rightarrow> bool" where
  "like_chars [] s = (s = [])"
| "like_chars (p # ps) [] = (if p = ''%'' then like_chars ps [] else False)"
| "like_chars (p # ps) (c # cs) =
     (if p = ''%'' then like_chars ps (c # cs) \<or> like_chars (p # ps) cs
      else (p = ''_'' \<or> to_ascii_lowercase p = to_ascii_lowercase c) \<and> like_chars ps cs)"

definition sql_like :: "string \<Rightarrow> string option \<Rightarrow> bool" where
  "sql_like pattern value = (case value of None \<Rightarrow> False | Some v \<Rightarrow> like_chars (chars pattern) (chars v))"

section \<open>Rows and definitions\<close>

definition option_result :: "('a \<Rightarrow> ('e, 'b) result) \<Rightarrow> 'a option \<Rightarrow> ('e, 'b option) result" where
  "option_result f v = (case v of None \<Rightarrow> Inr None | Some x \<Rightarrow> bind_result (f x) (\<lambda>y. Inr (Some y)))"

definition schedule_from_row :: "sched_codec \<Rightarrow> schedule_row \<Rightarrow> (scheduler_error, schedule_definition) result" where
  "schedule_from_row codec row =
     bind_result (map_err (cadence_of_json codec (row_cadence_json row)) store_error) (\<lambda>cadence.
     bind_result (notification_policy_from_str (row_notification_policy row)) (\<lambda>notification.
     bind_result (schedule_status_from_str (row_status row)) (\<lambda>status.
     bind_result (option_result run_status_from_str (row_last_run_status row)) (\<lambda>last_run_status.
     bind_result (map_err (option_result (policy_of_json codec) (row_policy_json row))
         (\<lambda>e. store_error (''failed to deserialize policy_json: '' @ e))) (\<lambda>policy.
     Inr \<lparr>sd_schedule_id = row_schedule_id row, sd_user_id = row_user_id row, sd_name = row_name row,
          sd_goal = row_goal row, sd_cadence = cadence, sd_notification_policy = notification,
          sd_status = status, sd_created_at = row_created_at row, sd_updated_at = row_updated_at row,
          sd_next_run_at = row_next_run_at row, sd_last_run_at = row_last_run_at row,
          sd_last_run_status = last_run_status,
          sd_consecutive_failures = word_of_int (row_consecutive_failures row),
          sd_channel_id = row_channel_id row, sd_channel_context_id = row_channel_context_id row,
          sd_policy = policy\<rparr>)))))"

definition run_record_from_row :: "run_row \<Rightarrow> (scheduler_error, schedule_run_record) result" where
  "run_record_from_row row =
     bind_result (run_status_from_str (run_status row)) (\<lambda>status.
     Inr \<lparr>rr_run_id = run_run_id row, rr_schedule_id = run_schedule_id row, rr_started_at = run_started_at row,
          rr_finished_at = run_finished_at row, rr_status = status, rr_output_summary = run_output_summary row,
          rr_turn_count = word_of_int (run_turn_count row), rr_cost = run_cost row,
          rr_notified = run_notified row, rr_output = run_output row\<rparr>)"

fun all_results :: "('a \<Rightarrow> ('e, 'b) result) \<Rightarrow> 'a list \<Rightarrow> ('e, 'b list) result" where
  "all_results f [] = Inr []"
| "all_results f (x # xs) = bind_result (f x) (\<lambda>y. bind_result (all_results f xs) (\<lambda>ys. Inr (y # ys)))"

definition row_of_schedule :: "schedule_definition \<Rightarrow> string \<Rightarrow> string option \<Rightarrow> schedule_row" where
  "row_of_schedule def cadence_json policy_json =
     \<lparr>row_schedule_id = sd_schedule_id def, row_user_id = sd_user_id def, row_name = sd_name def,
      row_goal = sd_goal def, row_cadence_json = cadence_json,
      row_notification_policy = notification_policy_to_str (sd_notification_policy def),
      row_status = schedule_status_to_str (sd_status def), row_created_at = sd_created_at def,
      row_updated_at = sd_updated_at def, row_next_run_at = sd_next_run_at def,
      row_last_run_at = sd_last_run_at def,
      row_last_run_status = map_option run_status_to_str (sd_last_run_status def),
      row_consecutive_failures = uint (sd_consecutive_failures def), row_channel_id = sd_channel_id def,
      row_channel_context_id = sd_channel_context_id def, row_policy_json = policy_json, row_streak = 0\<rparr>"

section \<open>Operations\<close>

definition insert_schedule :: "schedule_row \<Rightarrow> sched_db \<Rightarrow> (string, unit \<times> sched_db) result" where
  "insert_schedule row d =
     (if row_schedule_id row \<in> row_schedule_id ` set (db_schedules d)
      then Inl ''UNIQUE constraint failed: schedules.schedule_id''
      else Inr ((), d\<lparr>db_schedules := db_schedules d @ [row]\<rparr>))"

definition create_schedule :: "sched_codec \<Rightarrow> schedule_definition \<Rightarrow> (sched_db, scheduler_error, unit) action" where
  "create_schedule codec def =
     bind_action (lift_action (map_err (cadence_to_json codec (sd_cadence def)) store_error)) (\<lambda>cadence_json.
     bind_action (lift_action (map_err (option_result (policy_to_json codec) (sd_policy def)) store_error)) (\<lambda>policy_json.
     sql (insert_schedule (row_of_schedule def cadence_json policy_json))))"

definition select_schedules :: "(schedule_row \<Rightarrow> bool) \<Rightarrow> sched_db \<Rightarrow> (string, schedule_row list \<times> sched_db) result" where
  "select_schedules P d = Inr (filter P (db_schedules d), d)"

definition get_schedule :: "sched_codec \<Rightarrow> string \<Rightarrow> (sched_db, scheduler_error, schedule_definition) action" where
  "get_schedule codec schedule_id =
     bind_action (sql (select_schedules (\<lambda>r. row_schedule_id r = schedule_id))) (\<lambda>rows.
     case rows of
       [] \<Rightarrow> lift_action (Inl (SchedNotFound schedule_id))
     | row # _ \<Rightarrow> lift_action (schedule_from_row codec row))"

definition matches_filters :: "sched_codec \<Rightarrow> string \<Rightarrow> schedule_search_filters \<Rightarrow> schedule_row \<Rightarrow> bool" where
  "matches_filters codec user_id filters r \<longleftrightarrow>
     row_user_id r = user_id \<and>
     (case sf_name_contains filters of None \<Rightarrow> True | Some n \<Rightarrow> sql_like (''%'' @ n @ ''%'') (row_name r)) \<and>
     (case sf_status filters of None \<Rightarrow> True | Some s \<Rightarrow> row_status r = schedule_status_to_str s) \<and>
     (case sf_cadence_type filters of None \<Rightarrow> True | Some t \<Rightarrow> cadence_type_of_json codec (row_cadence_json r) = Some t) \<and>
     (case sf_notification_policy filters of None \<Rightarrow> True
      | Some n \<Rightarrow> row_notification_policy r = notification_policy_to_str n)"

definition search_schedules ::
    "sched_codec \<Rightarrow> string \<Rightarrow> schedule_search_filters \<Rightarrow> (sched_db, scheduler_error, schedule_search_result) action" where
  "search_schedules codec user_id filters =
     (let limit = min (sf_limit filters) 50; offset = sf_offset filters in
      bind_action (sql (select_schedules (matches_filters codec user_id filters))) (\<lambda>counted.
      bind_action (sql (\<lambda>d. Inr (sql_limit limit (sql_offset offset
          (rev (sort_key row_created_at (filter (matches_filters codec user_id filters) (db_schedules d))))), d))) (\<lambda>rows.
      bind_action (lift_action (all_results (schedule_from_row codec) rows)) (\<lambda>schedules.
      ret_action \<lparr>ss_schedules = schedules, ss_total_count = length counted, ss_offset = offset, ss_limit = limit\<rparr>))))"

definition count_schedules :: "string \<Rightarrow> (sched_db, scheduler_error, nat) action" where
  "count_schedules user_id =
     bind_action (sql (select_schedules (\<lambda>r. row_user_id r = user_id))) (\<lambda>rows. ret_action (length rows))"

definition delete_schedule :: "string \<Rightarrow> (sched_db, scheduler_error, bool) action" where
  "delete_schedule schedule_id =
     sql (\<lambda>d. Inr (list_ex (\<lambda>r. row_schedule_id r = schedule_id) (db_schedules d),
       d\<lparr>db_schedules := filter (\<lambda>r. row_schedule_id r \<noteq> schedule_id) (db_schedules d),
         db_runs := (if list_ex (\<lambda>r. row_schedule_id r = schedule_id) (db_schedules d)
            then filter (\<lambda>r. run_schedule_id r \<noteq> schedule_id) (db_runs d) else db_runs d)\<rparr>))"

text \<open>An \<open>UPDATE\<close> and the number of rows it affected.\<close>

definition update_rows ::
    "(schedule_row \<Rightarrow> bool) \<Rightarrow> (schedule_row \<Rightarrow> schedule_row) \<Rightarrow> sched_db \<Rightarrow> (string, nat \<times> sched_db) result" where
  "update_rows P f d =
     Inr (length (filter P (db_schedules d)), d\<lparr>db_schedules := map (\<lambda>r. if P r then f r else r) (db_schedules d)\<rparr>)"

definition set_if :: "'a option \<Rightarrow> ('a \<Rightarrow> 'r \<Rightarrow> 'r) \<Rightarrow> 'r \<Rightarrow> 'r" where
  "set_if v f r = (case v of None \<Rightarrow> r | Some x \<Rightarrow> f x r)"

definition patched_row :: "schedule_patch \<Rightarrow> string option \<Rightarrow> string \<Rightarrow> schedule_row \<Rightarrow> schedule_row" where
  "patched_row patch cadence_json now r =
     (set_if (sp_name patch) (\<lambda>v r. r\<lparr>row_name := v\<rparr>)
      (set_if (sp_goal patch) (\<lambda>v r. r\<lparr>row_goal := v\<rparr>)
      (set_if cadence_json (\<lambda>v r. r\<lparr>row_cadence_json := v\<rparr>)
      (set_if (sp_notification_policy patch) (\<lambda>v r. r\<lparr>row_notification_policy := notification_policy_to_str v\<rparr>)
      (set_if (sp_status patch) (\<lambda>v r. r\<lparr>row_status := schedule_status_to_str v\<rparr>)
      (set_if (sp_next_run_at patch) (\<lambda>v r. r\<lparr>row_next_run_at := v\<rparr>)
      (set_if (sp_consecutive_failures patch) (\<lambda>v r. r\<lparr>row_consecutive_failures := uint v\<rparr>) r)))))))
     \<lparr>row_updated_at := (case sp_updated_at patch of Some t \<Rightarrow> t | None \<Rightarrow> now)\<rparr>"

definition update_schedule ::
    "sched_codec \<Rightarrow> string \<Rightarrow> string \<Rightarrow> schedule_patch \<Rightarrow> (sched_db, scheduler_error, schedule_definition) action" where
  "update_schedule codec now schedule_id patch =
     bind_action (lift_action (map_err (option_result (cadence_to_json codec) (sp_cadence patch)) store_error)) (\<lambda>cadence_json.
     bind_action (sql (update_rows (\<lambda>r. row_schedule_id r = schedule_id) (patched_row patch cadence_json now))) (\<lambda>affected.
     if affected = 0 then lift_action (Inl (SchedNotFound schedule_id)) else get_schedule codec schedule_id))"

definition is_due :: "string \<Rightarrow> schedule_row \<Rightarrow> bool" where
  "is_due now r \<longleftrightarrow> row_status r = ''active'' \<and> (case row_next_run_at r of None \<Rightarrow> False | Some t \<Rightarrow> t \<le> now)"

definition due_rows :: "string \<Rightarrow> nat \<Rightarrow> schedule_row list \<Rightarrow> schedule_row list" where
  "due_rows now limit rows = sql_limit limit (sort_key (\<lambda>r. the (row_next_run_at r)) (filter (is_due now) rows))"

definition due_schedules ::
    "sched_codec \<Rightarrow> string \<Rightarrow> nat \<Rightarrow> (sched_db, scheduler_error, schedule_definition list) action" where
  "due_schedules codec now limit =
     bind_action (sql (\<lambda>d. Inr (due_rows now limit (db_schedules d), d))) (\<lambda>rows.
     lift_action (all_results (schedule_from_row codec) rows))"

subsection \<open>Recording a run\<close>

definition begin_transaction :: "sched_db \<Rightarrow> (string, unit \<times> sched_db) result" where
  "begin_transaction d =
     (case db_backup d of
        Some _ \<Rightarrow> Inl ''cannot start a transaction within a transaction''
      | None \<Rightarrow> Inr ((), d\<lparr>db_backup := Some (db_schedules d, db_runs d)\<rparr>))"

definition rollback_transaction :: "sched_db \<Rightarrow> (string, unit \<times> sched_db) result" where
  "rollback_transaction d =
     (case db_backup d of
        None \<Rightarrow> Inl ''cannot rollback - no transaction is active''
      | Some (ss, rs) \<Rightarrow> Inr ((), d\<lparr>db_schedules := ss, db_runs := rs, db_backup := None\<rparr>))"

definition commit_transaction :: "sched_db \<Rightarrow> (string, unit \<times> sched_db) result" where
  "commit_transaction d =
     (case db_backup d of
        None \<Rightarrow> Inl ''cannot commit - no transaction is active''
      | Some _ \<Rightarrow> Inr ((), d\<lparr>db_backup := None\<rparr>))"

definition run_row_of :: "schedule_run_record \<Rightarrow> run_row" where
  "run_row_of run =
     \<lparr>run_run_id = rr_run_id run, run_schedule_id = rr_schedule_id run, run_started_at = rr_started_at run,
      run_finished_at = rr_finished_at run, run_status = run_status_to_str (rr_status run),
      run_output_summary = rr_output_summary run, run_turn_count = uint (rr_turn_count run),
      run_cost = rr_cost run, run_notified = rr_notified run, run_output = rr_output run\<rparr>"

definition insert_run :: "run_row \<Rightarrow> sched_db \<Rightarrow> (string, unit \<times> sched_db) result" where
  "insert_run row d =
     (if run_run_id row \<in> run_run_id ` set (db_runs d) then Inl ''UNIQUE constraint failed: schedule_runs.run_id''
      else if run_schedule_id row \<notin> row_schedule_id ` set (db_schedules d) then Inl ''FOREIGN KEY constraint failed''
      else Inr ((), d\<lparr>db_runs := db_runs d @ [row]\<rparr>))"

definition rescheduled_row ::
    "schedule_run_record \<Rightarrow> string option \<Rightarrow> schedule_status option \<Rightarrow> string \<Rightarrow> schedule_row \<Rightarrow> schedule_row" where
  "rescheduled_row run next_run_at new_status now r =
     r\<lparr>row_last_run_at := Some (rr_finished_at run),
       row_last_run_status := Some (run_status_to_str (rr_status run)),
       row_consecutive_failures := (if rr_status run = RunFailed then row_consecutive_failures r + 1 else 0),
       row_next_run_at := next_run_at,
       row_status := (case new_status of Some s \<Rightarrow> schedule_status_to_str s | None \<Rightarrow> row_status r),
       row_updated_at := now\<rparr>"

definition record_statements ::
    "string \<Rightarrow> string \<Rightarrow> schedule_run_record \<Rightarrow> string option \<Rightarrow> schedule_status option \<Rightarrow> (sched_db, scheduler_error, nat) action" where
  "record_statements now schedule_id run next_run_at new_status =
     bind_action (sql (insert_run (run_row_of run))) (\<lambda>_.
     sql (update_rows (\<lambda>r. row_schedule_id r = schedule_id) (rescheduled_row run next_run_at new_status now)))"

definition record_run_and_reschedule ::
    "string \<Rightarrow> string \<Rightarrow> schedule_run_record \<Rightarrow> string option \<Rightarrow> schedule_status option \<Rightarrow> (sched_db, scheduler_error, unit) action" where
  "record_run_and_reschedule now schedule_id run next_run_at new_status =
     bind_action (sql begin_transaction) (\<lambda>_ d.
     case record_statements now schedule_id run next_run_at new_status d of
       (Inl error, d1) \<Rightarrow> (Inl error, snd (sql rollback_transaction d1))
     | (Inr _, d1) \<Rightarrow> sql commit_transaction d1)"

definition newest_runs :: "string \<Rightarrow> nat \<Rightarrow> run_row list \<Rightarrow> run_row list" where
  "newest_runs schedule_id limit rows =
     sql_limit limit (rev (sort_key run_started_at (filter (\<lambda>r. run_schedule_id r = schedule_id) rows)))"

definition prune_run_history :: "string \<Rightarrow> nat \<Rightarrow> (sched_db, scheduler_error, unit) action" where
  "prune_run_history schedule_id keep =
     sql (\<lambda>d. Inr ((), d\<lparr>db_runs := filter (\<lambda>r. \<not> (run_schedule_id r = schedule_id \<and>
        run_run_id r \<notin> run_run_id ` set (newest_runs schedule_id keep (db_runs d)))) (db_runs d)\<rparr>))"

definition get_run_history :: "string \<Rightarrow> nat \<Rightarrow> (sched_db, scheduler_error, schedule_run_record list) action" where
  "get_run_history schedule_id limit =
     bind_action (sql (\<lambda>d. Inr (newest_runs schedule_id limit (db_runs d), d))) (\<lambda>rows.
     lift_action (all_results run_record_from_row rows))"

definition get_run_by_id :: "string \<Rightarrow> (sched_db, scheduler_error, schedule_run_record) action" where
  "get_run_by_id run_id =
     bind_action (sql (\<lambda>d. Inr (filter (\<lambda>r. run_run_id r = run_id) (db_runs d), d))) (\<lambda>rows.
     case rows of
       [] \<Rightarrow> lift_action (Inl (store_error (''run not found: '' @ run_id)))
     | row # _ \<Rightarrow> lift_action (run_record_from_row row))"

subsection \<open>Delivery streaks\<close>

definition ROUTE_NOT_FOUND_REMAP_THRESHOLD :: u32 where
  "ROUTE_NOT_FOUND_REMAP_THRESHOLD = 3"

definition on_route :: "string \<Rightarrow> string \<Rightarrow> schedule_row \<Rightarrow> bool" where
  "on_route schedule_id route r \<longleftrightarrow> row_schedule_id r = schedule_id \<and> row_channel_context_id r = Some route"

definition increment_streak :: "string \<Rightarrow> string \<Rightarrow> sched_db \<Rightarrow> (string, int list \<times> sched_db) result" where
  "increment_streak schedule_id route d =
     Inr (map (\<lambda>r. row_streak r + 1) (filter (on_route schedule_id route) (db_schedules d)),
       d\<lparr>db_schedules := map (\<lambda>r. if on_route schedule_id route r then r\<lparr>row_streak := row_streak r + 1\<rparr> else r) (db_schedules d)\<rparr>)"

definition report_outcome :: "string \<Rightarrow> string \<Rightarrow> route_delivery_outcome \<Rightarrow> (sched_db, scheduler_error, unit) action" where
  "report_outcome schedule_id attempted outcome =
     (case outcome of
        PrimaryRouteSucceeded \<Rightarrow>
          bind_action (sql (update_rows (on_route schedule_id attempted) (\<lambda>r. r\<lparr>row_streak := 0\<rparr>))) (\<lambda>_. ret_action ())
      | PrimaryRouteNotFoundFallbackSucceeded fallback \<Rightarrow>
          bind_action (sql (increment_streak schedule_id attempted)) (\<lambda>streaks.
          case streaks of
            [] \<Rightarrow> ret_action ()
          | new_streak # _ \<Rightarrow>
              if (word_of_int new_streak :: u32) \<ge> ROUTE_NOT_FOUND_REMAP_THRESHOLD
              then bind_action (sql (update_rows (on_route schedule_id attempted)
                     (\<lambda>r. r\<lparr>row_channel_context_id := Some fallback, row_streak := 0\<rparr>))) (\<lambda>_. ret_action ())
              else ret_action ())
      | PrimaryRouteNotFoundFallbackFailed \<Rightarrow>
          bind_action (sql (increment_streak schedule_id attempted)) (\<lambda>_. ret_action ()))"

section \<open>Reading back\<close>

text \<open>What the code relies on of the codec: a text it wrote is read back as the same value.\<close>

definition codec_ok :: "sched_codec \<Rightarrow> bool" where
  "codec_ok codec \<longleftrightarrow>
     (\<forall>c t. cadence_to_json codec c = Inr t \<longrightarrow> cadence_of_json codec t = Inr c) \<and>
     (\<forall>p t. policy_to_json codec p = Inr t \<longrightarrow> policy_of_json codec t = Inr p)"

lemma enum_texts [simp]:
  "notification_policy_from_str (notification_policy_to_str n) = Inr n"
  "schedule_status_from_str (schedule_status_to_str s) = Inr s"
  "run_status_from_str (run_status_to_str r) = Inr r"
  by (cases n; cases s; cases r; simp add: notification_policy_from_str_def schedule_status_from_str_def run_status_from_str_def)+

lemma option_result_roundtrip:
  assumes "\<And>x t. f x = Inr t \<Longrightarrow> g t = Inr x" and "option_result f v = Inr u"
  shows "option_result g u = Inr v"
  using assms by (auto simp: option_result_def split: option.splits)

lemma option_result_texts [simp]: "option_result run_status_from_str (map_option run_status_to_str v) = Inr v"
  by (cases v) (simp_all add: option_result_def)

lemma decode_row:
  assumes "codec_ok codec" and "cadence_to_json codec (sd_cadence def) = Inr cj"
    and "option_result (policy_to_json codec) (sd_policy def) = Inr pj"
  shows "schedule_from_row codec (row_of_schedule def cj pj) = Inr def"
proof -
  have "option_result (policy_of_json codec) pj = Inr (sd_policy def)"
    by (rule option_result_roundtrip[OF _ assms(3)]) (use assms(1) in \<open>simp add: codec_ok_def\<close>)
  moreover have "cadence_of_json codec cj = Inr (sd_cadence def)" using assms(1,2) by (simp add: codec_ok_def)
  ultimately show ?thesis by (simp add: schedule_from_row_def row_of_schedule_def)
qed

lemma sql_no_fault:
  "db_faults d = [] \<Longrightarrow> sql stmt d = (case stmt d of Inl e \<Rightarrow> (Inl (store_error e), d) | Inr (x, d') \<Rightarrow> (Inr x, d'))"
  by (cases d) (auto simp: sql_def Let_def split: sum.splits)

text \<open>A schedule that was stored is read back unchanged. When the definition has been inserted
  (its texts could be written, its id was new, and the connection does not fail), looking
  it up under its id gives the same definition.\<close>

theorem schedule_roundtrip:
  assumes "codec_ok codec" and "db_faults d = []"
    and "create_schedule codec def d = (Inr (), d')"
  shows "get_schedule codec (sd_schedule_id def) d' = (Inr def, d')"
proof -
  obtain cj pj where texts: "cadence_to_json codec (sd_cadence def) = Inr cj"
      "option_result (policy_to_json codec) (sd_policy def) = Inr pj"
    and ins: "sql (insert_schedule (row_of_schedule def cj pj)) d = (Inr (), d')"
    using assms(3) by (auto simp: create_schedule_def bind_action_Inr lift_action_eq)
  have row: "row_schedule_id (row_of_schedule def cj pj) = sd_schedule_id def" by (simp add: row_of_schedule_def)
  have fresh: "sd_schedule_id def \<notin> row_schedule_id ` set (db_schedules d)"
    and d': "d' = d\<lparr>db_schedules := db_schedules d @ [row_of_schedule def cj pj]\<rparr>"
    using ins by (auto simp: sql_no_fault[OF assms(2)] insert_schedule_def row split: if_splits)
  have "filter (\<lambda>r. row_schedule_id r = sd_schedule_id def) (db_schedules d) = []"
    using fresh by (intro filter_False) (metis image_eqI)
  moreover have "db_faults d' = []" by (simp add: d' assms(2))
  ultimately show ?thesis
    using decode_row[OF assms(1) texts]
    by (simp add: get_schedule_def bind_action_def sql_no_fault select_schedules_def d' row lift_action_def)
qed

definition ex_sched_codec :: sched_codec where
  "ex_sched_codec = \<lparr>
     cadence_to_json = (\<lambda>c. case c of Once t \<Rightarrow> Inr (CHR ''o'' # t) | _ \<Rightarrow> Inl ''unsupported''),
     cadence_of_json = (\<lambda>s. case s of [] \<Rightarrow> Inl ''empty'' | c # t \<Rightarrow> if c = CHR ''o'' then Inr (Once t) else Inl ''unknown''),
     policy_to_json = (\<lambda>_. Inl ''unsupported''), policy_of_json = (\<lambda>_. Inl ''unsupported''),
     cadence_type_of_json = (\<lambda>_. Some ''once'')\<rparr>"

definition ex_schedule :: schedule_definition where
  "ex_schedule = \<lparr>sd_schedule_id = ''s1'', sd_user_id = ''alice'', sd_name = None, sd_goal = ''report'',
     sd_cadence = Once ''2030'', sd_notification_policy = NotifyAlways, sd_status = SchedActive,
     sd_created_at = ''2026'', sd_updated_at = ''2026'', sd_next_run_at = Some ''2030'', sd_last_run_at = None,
     sd_last_run_status = None, sd_consecutive_failures = 0, sd_channel_id = None, sd_channel_context_id = None,
     sd_policy = None\<rparr>"

definition empty_db :: "string option list \<Rightarrow> sched_db" where
  "empty_db faults = \<lparr>db_schedules = [], db_runs = [], db_backup = None, db_faults = faults\<rparr>"

lemma ex_sched_codec_ok: "codec_ok ex_sched_codec"
  by (auto simp: codec_ok_def ex_sched_codec_def split: schedule_cadence.splits)

lemma ex_created:
  "create_schedule ex_sched_codec ex_schedule (empty_db []) =
     (Inr (), (empty_db [])\<lparr>db_schedules := [row_of_schedule ex_schedule ''o2030'' None]\<rparr>)"
  by (simp add: create_schedule_def bind_action_def lift_action_def sql_no_fault empty_db_def insert_schedule_def
      ex_sched_codec_def ex_schedule_def option_result_def)

theorem schedule_roundtrip_witness:
  "fst (get_schedule ex_sched_codec ''s1'' (snd (create_schedule ex_sched_codec ex_schedule (empty_db [])))) = Inr ex_schedule"
proof -
  have "sd_schedule_id ex_schedule = ''s1''" by (simp add: ex_schedule_def)
  then show ?thesis
    using schedule_roundtrip[OF ex_sched_codec_ok _ ex_created] by (simp add: ex_created) (simp add: empty_db_def)
qed

section \<open>Well-formed tables\<close>

text \<open>
  The tables of the store: no two schedules and no two runs share an id, every run belongs to a
  schedule, and every row can be read back. A transaction keeps such tables to fall back to.
\<close>

definition row_ok :: "sched_codec \<Rightarrow> schedule_row \<Rightarrow> bool" where
  "row_ok codec r \<longleftrightarrow>
     is_ok (cadence_of_json codec (row_cadence_json r)) \<and>
     row_notification_policy r \<in> range notification_policy_to_str \<and>
     row_status r \<in> range schedule_status_to_str \<and>
     (\<forall>s. row_last_run_status r = Some s \<longrightarrow> s \<in> range run_status_to_str) \<and>
     (\<forall>j. row_policy_json r = Some j \<longrightarrow> is_ok (policy_of_json codec j))"

definition tables_wf :: "sched_codec \<Rightarrow> schedule_row list \<Rightarrow> run_row list \<Rightarrow> bool" where
  "tables_wf codec ss rs \<longleftrightarrow>
     distinct (map row_schedule_id ss) \<and> distinct (map run_run_id rs) \<and>
     (\<forall>r\<in>set rs. run_schedule_id r \<in> set (map row_schedule_id ss)) \<and>
     (\<forall>r\<in>set ss. row_ok codec r) \<and> (\<forall>r\<in>set rs. run_status r \<in> range run_status_to_str)"

definition db_wf :: "sched_codec \<Rightarrow> sched_db \<Rightarrow> bool" where
  "db_wf codec d \<longleftrightarrow> tables_wf codec (db_schedules d) (db_runs d) \<and>
     (case db_backup d of None \<Rightarrow> True | Some (ss, rs) \<Rightarrow> tables_wf codec ss rs)"

lemma row_ok_decodes: "row_ok codec r \<Longrightarrow> \<exists>def. schedule_from_row codec r = Inr def"
  by (cases "row_last_run_status r"; cases "row_policy_json r")
     (auto simp: row_ok_def schedule_from_row_def is_ok_iff option_result_def)

lemma row_ok_of_decoded: "schedule_from_row codec r = Inr def \<Longrightarrow> row_ok codec r"
proof -
  assume dec: "schedule_from_row codec r = Inr def"
  have texts: "notification_policy_from_str s = Inr n \<Longrightarrow> s \<in> range notification_policy_to_str"
    "schedule_status_from_str s = Inr st \<Longrightarrow> s \<in> range schedule_status_to_str"
    "run_status_from_str s = Inr rs \<Longrightarrow> s \<in> range run_status_to_str" for s n st rs
    by (auto simp: notification_policy_from_str_def schedule_status_from_str_def run_status_from_str_def image_iff
      split: if_splits intro: notification_policy_to_str.simps[symmetric] schedule_status_to_str.simps[symmetric]
        run_status_to_str.simps[symmetric])
  from dec show ?thesis
    by (auto simp: schedule_from_row_def row_ok_def is_ok_iff option_result_def intro: texts split: option.splits)
qed

lemma db_wf_faults [simp]: "db_wf codec (d\<lparr>db_faults := fs\<rparr>) = db_wf codec d"
  by (simp add: db_wf_def)

lemma maintains_sql [maintains_intros]:
  assumes "\<And>d x d'. db_wf codec d \<Longrightarrow> stmt d = Inr (x, d') \<Longrightarrow> db_wf codec d'"
  shows "maintains (db_wf codec) (sql stmt)"
proof -
  have "db_wf codec (snd (sql stmt d))" if "db_wf codec d" for d
  proof (cases "stmt (d\<lparr>db_faults := tl (db_faults d)\<rparr>)")
    case (Inr y)
    then have "db_wf codec (snd y)"
      using assms[of "d\<lparr>db_faults := tl (db_faults d)\<rparr>" "fst y" "snd y"] that by simp
    with that Inr show ?thesis by (auto simp: sql_def Let_def split: list.splits option.splits prod.splits)
  qed (use that in \<open>auto simp: sql_def Let_def split: list.splits option.splits\<close>)
  then show ?thesis by (simp add: maintains_def)
qed

lemma wf_select [intro]: "db_wf codec d \<Longrightarrow> select_schedules P d = Inr (x, d') \<Longrightarrow> db_wf codec d'"
  by (simp add: select_schedules_def)

lemma tables_wf_map:
  assumes "\<And>r. row_schedule_id (g r) = row_schedule_id r" "\<And>r. row_ok codec r \<Longrightarrow> row_ok codec (g r)"
    and "tables_wf codec ss rs"
  shows "tables_wf codec (map g ss) rs"
proof -
  have ids: "map row_schedule_id (map g ss) = map row_schedule_id ss" using assms(1) by simp
  show ?thesis unfolding tables_wf_def ids using assms(2,3) by (auto simp: tables_wf_def)
qed

lemma wf_update_rows:
  assumes "db_wf codec d" "update_rows P f d = Inr (x, d')"
    and "\<And>r. row_ok codec r \<Longrightarrow> row_ok codec (f r)" "\<And>r. row_schedule_id (f r) = row_schedule_id r"
  shows "db_wf codec d'"
proof -
  have "tables_wf codec (map (\<lambda>r. if P r then f r else r) (db_schedules d)) (db_runs d)"
    by (rule tables_wf_map) (use assms in \<open>auto simp: db_wf_def\<close>)
  then show ?thesis using assms(1,2) by (auto simp: update_rows_def db_wf_def)
qed

lemma wf_increment:
  "db_wf codec d \<Longrightarrow> increment_streak sid route d = Inr (x, d') \<Longrightarrow> db_wf codec d'"
  using wf_update_rows[of codec d "on_route sid route" "\<lambda>r. r\<lparr>row_streak := row_streak r + 1\<rparr>" "length (filter (on_route sid route) (db_schedules d))" d']
  by (simp add: increment_streak_def update_rows_def row_ok_def)

lemma tables_wf_delete:
  assumes "tables_wf codec ss rs"
  shows "tables_wf codec (filter (\<lambda>r. row_schedule_id r \<noteq> sid) ss)
     (if list_ex (\<lambda>r. row_schedule_id r = sid) ss then filter (\<lambda>r. run_schedule_id r \<noteq> sid) rs else rs)"
proof (cases "list_ex (\<lambda>r. row_schedule_id r = sid) ss")
  case True
  have "run_schedule_id r \<in> row_schedule_id ` {x \<in> set ss. row_schedule_id x \<noteq> sid}"
    if "r \<in> set rs" "run_schedule_id r \<noteq> sid" for r
    using that assms by (force simp: tables_wf_def)
  with True assms show ?thesis by (auto simp: tables_wf_def distinct_map_filter)
next
  case False
  then have "filter (\<lambda>r. row_schedule_id r \<noteq> sid) ss = ss" by (intro filter_True) (auto simp: list_ex_iff)
  with False assms show ?thesis by simp
qed

lemma wf_delete: "maintains (db_wf codec) (delete_schedule sid)"
proof -
  have "db_wf codec d'"
    if "db_wf codec d" and "d' = d\<lparr>db_schedules := filter (\<lambda>r. row_schedule_id r \<noteq> sid) (db_schedules d),
         db_runs := (if list_ex (\<lambda>r. row_schedule_id r = sid) (db_schedules d)
            then filter (\<lambda>r. run_schedule_id r \<noteq> sid) (db_runs d) else db_runs d)\<rparr>" for d d'
    using that tables_wf_delete[of codec "db_schedules d" "db_runs d" sid] by (simp add: db_wf_def)
  then show ?thesis unfolding delete_schedule_def by (intro maintains_sql) blast
qed

lemma patched_ok:
  assumes "row_ok codec r" "\<And>j. cj = Some j \<Longrightarrow> is_ok (cadence_of_json codec j)"
  shows "row_ok codec (patched_row p cj now r)" and "row_schedule_id (patched_row p cj now r) = row_schedule_id r"
  using assms unfolding patched_row_def set_if_def row_ok_def by (auto split: option.splits)

lemma rescheduled_ok:
  "row_ok codec r \<Longrightarrow> row_ok codec (rescheduled_row run n st now r)"
  "row_schedule_id (rescheduled_row run n st now r) = row_schedule_id r"
  by (auto simp: rescheduled_row_def row_ok_def split: option.splits)

lemma wf_create:
  assumes "codec_ok codec"
  shows "maintains (db_wf codec) (create_schedule codec def)"
  unfolding create_schedule_def
proof (rule maintains_lift_bind, rule maintains_lift_bind, rule maintains_sql)
  fix cj pj d x d'
  assume texts: "map_err (cadence_to_json codec (sd_cadence def)) store_error = Inr cj"
      "map_err (option_result (policy_to_json codec) (sd_policy def)) store_error = Inr pj"
    and d: "db_wf codec d" "insert_schedule (row_of_schedule def cj pj) d = Inr (x, d')"
  have "row_ok codec (row_of_schedule def cj pj)"
    using texts by (intro row_ok_of_decoded[OF decode_row[OF assms]]) simp_all
  with d show "db_wf codec d'"
    by (auto simp: insert_schedule_def db_wf_def tables_wf_def split: if_splits)
qed

lemma wf_get: "maintains (db_wf codec) (get_schedule codec' sid)"
  unfolding get_schedule_def by (intro maintains_intros) auto

lemma wf_update:
  assumes "codec_ok codec"
  shows "maintains (db_wf codec) (update_schedule codec now sid patch)"
  unfolding update_schedule_def
proof (rule maintains_lift_bind, intro maintains_intros wf_get)
  fix cj d x d'
  assume written: "map_err (option_result (cadence_to_json codec) (sp_cadence patch)) store_error = Inr cj"
    and "db_wf codec d" "update_rows (\<lambda>r. row_schedule_id r = sid) (patched_row patch cj now) d = Inr (x, d')"
  then show "db_wf codec d'"
  proof (elim wf_update_rows)
    show "row_ok codec r \<Longrightarrow> row_ok codec (patched_row patch cj now r)" for r
      by (rule patched_ok) (use written assms in \<open>auto simp: option_result_def codec_ok_def is_ok_iff split: option.splits\<close>)
    show "row_schedule_id (patched_row patch cj now r) = row_schedule_id r" for r
      unfolding patched_row_def set_if_def by (auto split: option.splits)
  qed
qed

lemma wf_record: "maintains (db_wf codec) (record_run_and_reschedule now sid run next st)"
proof -
  have body: "maintains (db_wf codec) (record_statements now sid run next st)"
    unfolding record_statements_def
  proof (intro maintains_intros)
    show "db_wf codec d'" if "db_wf codec d" "insert_run (run_row_of run) d = Inr (x, d')" for d d' x
      using that by (auto simp: insert_run_def run_row_of_def db_wf_def tables_wf_def split: if_splits)
    show "db_wf codec d'" if "db_wf codec d"
      "update_rows (\<lambda>r. row_schedule_id r = sid) (rescheduled_row run next st now) d = Inr (x, d')" for d d' x
      using that by (rule wf_update_rows) (simp_all add: rescheduled_ok)
  qed
  have "maintains (db_wf codec) (sql begin_transaction)" "maintains (db_wf codec) (sql rollback_transaction)"
    "maintains (db_wf codec) (sql commit_transaction)"
    by (rule maintains_sql;
        auto simp: begin_transaction_def rollback_transaction_def commit_transaction_def db_wf_def split: option.splits)+
  with body show ?thesis
    unfolding record_run_and_reschedule_def
    by (intro maintains_bind) (auto simp: maintains_def split: prod.splits sum.splits; metis snd_conv)+
qed

lemma wf_prune: "maintains (db_wf codec) (prune_run_history sid keep)"
  unfolding prune_run_history_def
  by (rule maintains_sql) (auto simp: db_wf_def tables_wf_def distinct_map_filter)

lemma wf_outcome: "maintains (db_wf codec) (report_outcome sid route outcome)"
  unfolding report_outcome_def
  by (cases outcome; simp only: route_delivery_outcome.case; intro maintains_intros)
     (erule (1) wf_update_rows wf_increment; simp add: row_ok_def)+

section \<open>Properties\<close>

text \<open>Any call of the store that can change its tables.\<close>

inductive store_step :: "sched_codec \<Rightarrow> sched_db \<Rightarrow> sched_db \<Rightarrow> bool" for codec where
  step_create: "store_step codec d (snd (create_schedule codec def d))"
| step_update: "store_step codec d (snd (update_schedule codec now sid patch d))"
| step_delete: "store_step codec d (snd (delete_schedule sid d))"
| step_record: "store_step codec d (snd (record_run_and_reschedule now sid run next st d))"
| step_prune: "store_step codec d (snd (prune_run_history sid keep d))"
| step_outcome: "store_step codec d (snd (report_outcome sid route outcome d))"

definition store_start :: "sched_codec \<Rightarrow> sched_db \<Rightarrow> bool" where
  "store_start codec d \<longleftrightarrow> codec_ok codec \<and> (\<exists>faults. d = empty_db faults)"

definition store_inv :: "sched_codec \<Rightarrow> sched_db \<Rightarrow> bool" where
  "store_inv codec d \<longleftrightarrow> codec_ok codec \<and> db_wf codec d"

interpretation store: invariant_system "store_start codec" "store_step codec" "store_inv codec" for codec
proof (unfold_locales)
  show "store_start codec d \<Longrightarrow> store_inv codec d" for d
    by (auto simp: store_start_def store_inv_def empty_db_def db_wf_def tables_wf_def)
  show "store_inv codec d \<Longrightarrow> store_step codec d d' \<Longrightarrow> store_inv codec d'" for d d'
    by (auto simp: store_inv_def elim!: store_step.cases
      intro: maintainsD[OF wf_create] maintainsD[OF wf_update] maintainsD[OF wf_delete] maintainsD[OF wf_record]
        maintainsD[OF wf_prune] maintainsD[OF wf_outcome])
qed

lemma all_results_ok: "(\<forall>x\<in>set xs. \<exists>y. f x = Inr y) \<Longrightarrow> \<exists>ys. all_results f xs = Inr ys"
  by (induction xs) auto

lemma all_results_Inr: "all_results f xs = Inr ys \<longleftrightarrow> list_all2 (\<lambda>x y. f x = Inr y) xs ys"
proof (induction xs arbitrary: ys)
  case (Cons x xs)
  then show ?case by (cases ys) auto
qed auto

lemma set_sql_limit: "set (sql_limit n xs) \<subseteq> set xs"
  by (auto simp: sql_limit_def dest: in_set_takeD)

text \<open>C24: The tables stay well typed. Whatever sequence of store operations is run from an empty
  database, with connection failures at any statement, no two schedules and no two runs
  share an id, every run belongs to a stored schedule, and every row can be read back: a
  query for due schedules on a connection that works is answered, never refused for a row.\<close>

theorem store_rows_readable:
  assumes "reach (store_start codec) (store_step codec) d"
  shows "db_wf codec d \<and> (db_faults d = [] \<longrightarrow> (\<exists>defs. due_schedules codec now limit d = (Inr defs, d)))"
proof -
  have wf: "db_wf codec d" using store.inv_reach[OF assms] by (simp add: store_inv_def)
  then have "\<forall>r\<in>set (db_schedules d). \<exists>def. schedule_from_row codec r = Inr def"
    by (auto simp: db_wf_def tables_wf_def intro: row_ok_decodes)
  moreover have "set (due_rows now limit (db_schedules d)) \<subseteq> set (db_schedules d)"
    unfolding due_rows_def using set_sql_limit by fastforce
  ultimately obtain defs where "all_results (schedule_from_row codec) (due_rows now limit (db_schedules d)) = Inr defs"
    using all_results_ok by blast
  then show ?thesis using wf by (simp add: due_schedules_def bind_action_def sql_no_fault lift_action_def)
qed

theorem store_rows_readable_witness:
  "\<exists>defs. due_schedules ex_sched_codec ''2031'' 5 (snd (create_schedule ex_sched_codec ex_schedule (empty_db []))) =
     (Inr defs, snd (create_schedule ex_sched_codec ex_schedule (empty_db [])))"
proof -
  have "reach (store_start ex_sched_codec) (store_step ex_sched_codec)
      (snd (create_schedule ex_sched_codec ex_schedule (empty_db [])))"
  proof (rule reach_step)
    show "reach (store_start ex_sched_codec) (store_step ex_sched_codec) (empty_db [])"
      by (rule reach_init) (auto simp: store_start_def ex_sched_codec_ok)
  qed (rule step_create)
  from store_rows_readable[OF this, of "''2031''" 5] show ?thesis by (simp add: ex_created) (simp add: empty_db_def)
qed

lemma sorted_sql_limit: "sorted (map f xs) \<Longrightarrow> sorted (map f (sql_limit n xs))"
  by (auto simp: sql_limit_def take_map[symmetric] intro: sorted_wrt_take)

lemma length_sql_limit: "n < 2 ^ 63 \<Longrightarrow> length (sql_limit n xs) = min n (length xs)"
  by (simp add: sql_limit_def)

text \<open>The scheduler is given the schedules that are due, and only those, the longest overdue first. The
  rows that a query returns are active and their next run is not after the given time,
  they come in the order of that time, there are as many as the limit allows, and every
  due row that is left out is not due earlier than any row that is returned.\<close>

theorem due_rows_spec:
  assumes "limit < 2 ^ 63" and "rows = due_rows now limit all"
  shows "set rows \<subseteq> {r \<in> set all. is_due now r} \<and>
     sorted (map (the \<circ> row_next_run_at) rows) \<and>
     length rows = min limit (length (filter (is_due now) all)) \<and>
     (\<forall>r\<in>set all. is_due now r \<longrightarrow> r \<notin> set rows \<longrightarrow>
        (\<forall>r'\<in>set rows. the (row_next_run_at r') \<le> the (row_next_run_at r)))"
proof (intro conjI)
  let ?s = "sort_key (\<lambda>r. the (row_next_run_at r)) (filter (is_due now) all)"
  have rows: "rows = take limit ?s" using assms by (simp add: due_rows_def sql_limit_def)
  show "set rows \<subseteq> {r \<in> set all. is_due now r}" using rows by (auto dest: in_set_takeD)
  have "sorted (map (\<lambda>r. the (row_next_run_at r)) ?s)" by simp
  then show "sorted (map (the \<circ> row_next_run_at) rows)"
    using sorted_sql_limit[of "\<lambda>r. the (row_next_run_at r)" ?s limit] assms by (simp add: due_rows_def o_def)
  show "length rows = min limit (length (filter (is_due now) all))" using rows by simp
  show "\<forall>r\<in>set all. is_due now r \<longrightarrow> r \<notin> set rows \<longrightarrow>
        (\<forall>r'\<in>set rows. the (row_next_run_at r') \<le> the (row_next_run_at r))"
  proof (intro ballI impI)
    fix r r' assume r: "r \<in> set all" "is_due now r" "r \<notin> set rows" and r': "r' \<in> set rows"
    have "set ?s = set rows \<union> set (drop limit ?s)" unfolding rows by (metis append_take_drop_id set_append)
    moreover have "r \<in> set ?s" using r by simp
    ultimately have "r \<in> set (drop limit ?s)" using r(3) by blast
    moreover have "sorted_wrt (\<lambda>a b. the (row_next_run_at a) \<le> the (row_next_run_at b)) (take limit ?s @ drop limit ?s)"
      using \<open>sorted (map (\<lambda>r. the (row_next_run_at r)) ?s)\<close> by (simp add: sorted_wrt_map)
    ultimately show "the (row_next_run_at r') \<le> the (row_next_run_at r)"
      using r' rows unfolding sorted_wrt_append by blast
  qed
qed

theorem due_rows_spec_witness:
  "sorted (map (the \<circ> row_next_run_at) (due_rows ''2031'' 1 [row_of_schedule ex_schedule ''o2030'' None])) \<and>
   length (due_rows ''2031'' 1 [row_of_schedule ex_schedule ''o2030'' None]) =
     min 1 (length (filter (is_due ''2031'') [row_of_schedule ex_schedule ''o2030'' None]))"
  using due_rows_spec[OF _ refl, of 1 "''2031''" "[row_of_schedule ex_schedule ''o2030'' None]"] by simp

lemma sql_Inl: "sql stmt x = (Inl e, y) \<Longrightarrow> y = x\<lparr>db_faults := tl (db_faults x)\<rparr>"
  by (auto simp: sql_def Let_def split: list.splits option.splits sum.splits prod.splits)

lemma sql_Inr: "sql stmt x = (Inr v, y) \<Longrightarrow> stmt (x\<lparr>db_faults := tl (db_faults x)\<rparr>) = Inr (v, y)"
  by (auto simp: sql_def Let_def split: list.splits option.splits sum.splits prod.splits)

lemma record_statements_Inr:
  assumes "record_statements now sid run next st d = (Inr n, d')"
  shows "db_backup d' = db_backup d \<and> db_runs d' = db_runs d @ [run_row_of run] \<and>
     db_schedules d' = map (\<lambda>x. if row_schedule_id x = sid then rescheduled_row run next st now x else x) (db_schedules d)"
  using assms unfolding record_statements_def
  by (auto simp: bind_action_Inr insert_run_def update_rows_def dest!: sql_Inr split: if_splits)

lemma record_statements_backup:
  assumes "record_statements now sid run next st d = (r, d')"
  shows "db_backup d' = db_backup d"
proof (cases r)
  case (Inr n)
  with record_statements_Inr assms show ?thesis by blast
next
  case (Inl e)
  obtain r1 d1 where ins: "sql (insert_run (run_row_of run)) d = (r1, d1)" by fastforce
  have "db_backup d1 = db_backup d"
    by (cases r1) (use ins in \<open>auto simp: insert_run_def dest!: sql_Inl sql_Inr split: if_splits\<close>)
  with Inl ins assms show ?thesis
    by (cases r1) (auto simp: record_statements_def bind_action_def dest!: sql_Inl)
qed


definition ex_run :: schedule_run_record where
  "ex_run = \<lparr>rr_run_id = ''r1'', rr_schedule_id = ''s1'', rr_started_at = ''2030'', rr_finished_at = ''2030'',
     rr_status = RunFailed, rr_output_summary = None, rr_turn_count = 0, rr_cost = F_Fin 0, rr_notified = False,
     rr_output = None\<rparr>"

definition ex_db :: "string option list \<Rightarrow> sched_db" where
  "ex_db faults = (empty_db faults)\<lparr>db_schedules := [row_of_schedule ex_schedule ''o2030'' None]\<rparr>"


subsection \<open>Delivery routes\<close>

text \<open>
  The contract of the streak tracking, on the route of a schedule and the number of times in
  a row that it was not found: reports on another route are ignored, a success clears the
  count, and the third miss in a row with a working fallback moves the schedule to it.
\<close>

definition route_state :: "schedule_row \<Rightarrow> string option \<times> int" where
  "route_state r = (row_channel_context_id r, row_streak r)"

fun route_step :: "string \<Rightarrow> route_delivery_outcome \<Rightarrow> string option \<times> int \<Rightarrow> string option \<times> int" where
  "route_step attempted outcome (route, n) =
     (if route \<noteq> Some attempted then (route, n)
      else case outcome of
        PrimaryRouteSucceeded \<Rightarrow> (route, 0)
      | PrimaryRouteNotFoundFallbackSucceeded fallback \<Rightarrow> if n + 1 \<ge> 3 then (Some fallback, 0) else (route, n + 1)
      | PrimaryRouteNotFoundFallbackFailed \<Rightarrow> (route, n + 1))"

lemma threshold_reached:
  assumes "0 \<le> n" "n < 2 ^ 32 - 1"
  shows "ROUTE_NOT_FOUND_REMAP_THRESHOLD \<le> word_of_int n + 1 \<longleftrightarrow> 3 \<le> n + 1"
proof -
  have "uint (word_of_int (n + 1) :: u32) = n + 1"
    unfolding uint_word_of_int by (rule mod_pos_pos_trivial) (use assms in simp_all)
  then have "uint (word_of_int n + 1 :: u32) = n + 1" by simp
  then show ?thesis by (simp only: word_le_def ROUTE_NOT_FOUND_REMAP_THRESHOLD_def) simp
qed

lemma one_on_route:
  assumes "distinct (map row_schedule_id ss)" "r \<in> set ss" "on_route sid route r"
  shows "filter (on_route sid route) ss = [r]"
  using assms
proof (induction ss)
  case (Cons x ss)
  show ?case
  proof (cases "x = r")
    case True
    with Cons.prems have "\<forall>y\<in>set ss. \<not> on_route sid route y" by (auto simp: on_route_def) (metis image_eqI)
    with True Cons.prems show ?thesis by (simp add: filter_empty_conv)
  next
    case False
    with Cons have "filter (on_route sid route) ss = [r]" by simp
    moreover have "\<not> on_route sid route x" using Cons.prems False by (auto simp: on_route_def)
    ultimately show ?thesis by simp
  qed
qed simp

definition tracked :: "sched_db \<Rightarrow> (string \<times> string option \<times> int) list" where
  "tracked d = map (\<lambda>r. (row_schedule_id r, route_state r)) (db_schedules d)"

lemma tracked_update:
  assumes "\<And>r. r \<in> set (db_schedules d) \<Longrightarrow> P r \<Longrightarrow> row_schedule_id (f r) = row_schedule_id r"
    and "\<And>r. r \<in> set (db_schedules d) \<Longrightarrow>
      (if P r then route_state (f r) else route_state r) =
      (if row_schedule_id r = sid then route_step route outcome (route_state r) else route_state r)"
  shows "tracked (d\<lparr>db_schedules := map (\<lambda>r. if P r then f r else r) (db_schedules d)\<rparr>) =
     map (\<lambda>(i, s). (i, if i = sid then route_step route outcome s else s)) (tracked d)"
  using assms by (auto simp: tracked_def) metis+

lemma fallback_succeeded_refines:
  assumes "db_faults d = []" "distinct (map row_schedule_id (db_schedules d))"
    and range: "\<forall>r\<in>set (db_schedules d). 0 \<le> row_streak r \<and> row_streak r < 2 ^ 32 - 1"
    and outcome: "outcome = PrimaryRouteNotFoundFallbackSucceeded fallback"
  shows "\<exists>d'. report_outcome sid route outcome d = (Inr (), d') \<and>
     tracked d' = map (\<lambda>(i, s). (i, if i = sid then route_step route outcome s else s)) (tracked d)"
proof -
  let ?inc = "\<lambda>r. r\<lparr>row_streak := row_streak r + 1\<rparr>"
  let ?d1 = "d\<lparr>db_schedules := map (\<lambda>r. if on_route sid route r then ?inc r else r) (db_schedules d)\<rparr>"
  note call = report_outcome_def outcome bind_action_def sql_no_fault assms(1)
      increment_streak_def ret_action_def update_rows_def
  show ?thesis
  proof (cases "\<exists>r\<in>set (db_schedules d). on_route sid route r")
    case False
    then have none: "filter (on_route sid route) (db_schedules d) = []" by (simp add: filter_empty_conv)
    have "tracked ?d1 = map (\<lambda>(i, s). (i, if i = sid then route_step route outcome s else s)) (tracked d)"
      by (rule tracked_update) (use False in \<open>auto simp: on_route_def route_state_def\<close>)
    then show ?thesis by (simp add: call none)
  next
    case True
    then obtain r where r: "r \<in> set (db_schedules d)" "on_route sid route r" by blast
    note one = one_on_route[OF assms(2) r]
    have same: "x \<in> set (db_schedules d) \<Longrightarrow> on_route sid route x \<Longrightarrow> x = r" for x
    proof -
      assume "x \<in> set (db_schedules d)" "on_route sid route x"
      then have "x \<in> set (filter (on_route sid route) (db_schedules d))" by simp
      then show ?thesis by (simp add: one)
    qed
    have streak: "0 \<le> row_streak r" "row_streak r < 2 ^ 32 - 1" using range r by auto
    show ?thesis
    proof (cases "3 \<le> row_streak r + 1")
      case True
      let ?remap = "\<lambda>r. r\<lparr>row_channel_context_id := Some fallback, row_streak := 0\<rparr>"
      have both: "map ((\<lambda>x. if on_route sid route x then ?remap x else x) \<circ> (\<lambda>r. if on_route sid route r then ?inc r else r)) (db_schedules d) =
          map (\<lambda>x. if on_route sid route x then ?remap (?inc x) else x) (db_schedules d)"
        by (auto simp: on_route_def)
      have "tracked (d\<lparr>db_schedules := map ((\<lambda>x. if on_route sid route x then ?remap x else x) \<circ>
            (\<lambda>r. if on_route sid route r then ?inc r else r)) (db_schedules d)\<rparr>) =
          map (\<lambda>(i, s). (i, if i = sid then route_step route outcome s else s)) (tracked d)"
        unfolding both
        by (rule tracked_update)
           (use True same in \<open>auto simp: on_route_def route_state_def outcome\<close>)
      then show ?thesis using True by (simp add: call one threshold_reached[OF streak])
    next
      case False
      have "tracked ?d1 = map (\<lambda>(i, s). (i, if i = sid then route_step route outcome s else s)) (tracked d)"
        by (rule tracked_update)
           (use False same in \<open>auto simp: on_route_def route_state_def outcome\<close>)
      then show ?thesis using False by (simp add: call one threshold_reached[OF streak])
    qed
  qed
qed

text \<open>C15: Streak tracking implements its contract. When the connection works, a report of a delivery
  changes the route and the streak of the schedule it names exactly as the contract says,
  including the move to the fallback route at the third miss in a row, and nothing of any
  other schedule.\<close>

theorem report_outcome_refines:
  assumes "db_faults d = []" "distinct (map row_schedule_id (db_schedules d))"
    and range: "\<forall>r\<in>set (db_schedules d). 0 \<le> row_streak r \<and> row_streak r < 2 ^ 32 - 1"
  shows "\<exists>d'. report_outcome sid route outcome d = (Inr (), d') \<and>
     tracked d' = map (\<lambda>(i, s). (i, if i = sid then route_step route outcome s else s)) (tracked d)"
proof (cases outcome)
  case PrimaryRouteSucceeded
  have "tracked (d\<lparr>db_schedules := map (\<lambda>r. if on_route sid route r then r\<lparr>row_streak := 0\<rparr> else r) (db_schedules d)\<rparr>) =
     map (\<lambda>(i, s). (i, if i = sid then route_step route outcome s else s)) (tracked d)"
    by (rule tracked_update) (auto simp: on_route_def route_state_def PrimaryRouteSucceeded)
  then show ?thesis
    by (simp add: report_outcome_def PrimaryRouteSucceeded bind_action_def sql_no_fault[OF assms(1)] update_rows_def ret_action_def)
next
  case PrimaryRouteNotFoundFallbackFailed
  have "tracked (d\<lparr>db_schedules := map (\<lambda>r. if on_route sid route r then r\<lparr>row_streak := row_streak r + 1\<rparr> else r) (db_schedules d)\<rparr>) =
     map (\<lambda>(i, s). (i, if i = sid then route_step route outcome s else s)) (tracked d)"
    by (rule tracked_update) (auto simp: on_route_def route_state_def PrimaryRouteNotFoundFallbackFailed)
  then show ?thesis
    by (simp add: report_outcome_def PrimaryRouteNotFoundFallbackFailed bind_action_def sql_no_fault[OF assms(1)]
      increment_streak_def ret_action_def)
next
  case (PrimaryRouteNotFoundFallbackSucceeded fallback)
  then show ?thesis by (rule fallback_succeeded_refines[OF assms])
qed

theorem report_outcome_refines_witness:
  "\<exists>d'. report_outcome ''s1'' ''chat'' PrimaryRouteSucceeded (ex_db []) = (Inr (), d') \<and>
     tracked d' = map (\<lambda>(i, s). (i, if i = ''s1'' then route_step ''chat'' PrimaryRouteSucceeded s else s)) (tracked (ex_db []))"
  by (rule report_outcome_refines) (simp_all add: ex_db_def empty_db_def row_of_schedule_def)

end
