(* ===== verification/Gateway_Types.thy ===== *)
theory Gateway_Types
  imports Tool_Execution
begin

text \<open>
  The frames of the gateway protocol (\<open>types/src/channel.rs\<close>), the records of sessions
  (\<open>types/src/session.rs\<close>) and their durable store (\<open>memory/src/session_store.rs\<close>).

  A frame that the source wraps in a struct of its own is a constructor with the fields of
  the struct. The store is the two tables its statements name, with the constraints of the
  migrations, and a list of faults that says for each statement to come whether the connection fails.
  \<open>datetime('now')\<close> is an argument.
\<close>

section \<open>Frames\<close>

definition GATEWAY_PROTOCOL_VERSION :: nat where
  "GATEWAY_PROTOCOL_VERSION = 2"

record gateway_session =
  gsn_user_id :: string
  gsn_session_id :: string

datatype gateway_turn_state = TurnRunning | TurnCompleted | TurnCancelled | TurnFailed

record gateway_turn_status =
  ts_turn_id :: string
  ts_state :: gateway_turn_state

record client_hello =
  ch_request_id :: string
  ch_protocol_version :: nat
  ch_user_id :: string
  ch_session_id :: "string option"
  ch_create_new_session :: bool

record send_turn =
  st_request_id :: string
  st_session_id :: string
  st_turn_id :: string
  st_prompt :: string
  st_attachments :: "inline_media list"

datatype client_frame =
    CHello client_hello
  | CSendTurn send_turn
  | CCancelActiveTurn string string string
  | CCancelAllActiveTurns string
  | CHealthCheck string
  | CCreateSession string "string option" "string option"
  | CListSessions string bool bool
  | CSwitchSession string string

record session_summary =
  su_session_id :: string
  su_agent_name :: string
  su_display_name :: "string option"
  su_channel_origin :: string
  su_created_at :: string
  su_last_active_at :: string
  su_archived :: bool

datatype server_frame =
    FHelloAck string nat gateway_session "gateway_turn_status option"
  | FTurnStarted string gateway_session gateway_turn_status
  | FAssistantDelta string gateway_session gateway_turn_status string
  | FTurnCompleted string gateway_session gateway_turn_status response
  | FTurnCancelled string gateway_session gateway_turn_status
  | FError "string option" "gateway_session option" "gateway_turn_status option" string
  | FHealthStatus string bool "gateway_session option" "gateway_turn_status option" "startup_status_report option" "string option"
  | FTurnProgress string gateway_session gateway_turn_status runtime_progress_event
  | FScheduledNotification string "string option" string
  | FSessionCreated string gateway_session "string option" string
  | FSessionList string "session_summary list"
  | FSessionSwitched string gateway_session "gateway_turn_status option"
  | FMediaAttachment string gateway_session media_attachment "string option"
  | FPolicyNotification string gateway_session gateway_turn_status policy_stream_event

section \<open>Session records\<close>

record session_status =
  sst_turn :: nat
  sst_budget_remaining :: "u64 option"
  sst_is_active :: bool
  sst_stop_reason :: "stop_reason option"

record session_record =
  sr_session_id :: string
  sr_user_id :: string
  sr_agent_name :: string
  sr_display_name :: "string option"
  sr_channel_origin :: string
  sr_parent_session_id :: "string option"
  sr_created_at :: string
  sr_last_active_at :: string
  sr_archived :: bool

record session_db =
  sdb_sessions :: "session_record list"
  sdb_mappings :: "((string \<times> string) \<times> string) list"
  sdb_faults :: "string option list"

definition query_error :: "string \<Rightarrow> memory_error" where
  "query_error message = MemQuery message"

definition session_sql ::
    "string \<Rightarrow> (session_db \<Rightarrow> (string, 'a \<times> session_db) result) \<Rightarrow> (session_db, memory_error, 'a) action" where
  "session_sql what stmt d =
     (let d0 = d\<lparr>sdb_faults := tl (sdb_faults d)\<rparr> in
      case sdb_faults d of
        Some e # _ \<Rightarrow> (Inl (query_error (what @ '': '' @ e)), d0)
      | _ \<Rightarrow> (case stmt d0 of Inl e \<Rightarrow> (Inl (query_error (what @ '': '' @ e)), d0) | Inr (x, d') \<Rightarrow> (Inr x, d')))"

section \<open>The session store\<close>

definition insert_session_row :: "string \<Rightarrow> session_record \<Rightarrow> session_db \<Rightarrow> (string, unit \<times> session_db) result" where
  "insert_session_row now rec d =
     (if sr_session_id rec \<in> sr_session_id ` set (sdb_sessions d) then Inr ((), d)
      else if (case sr_parent_session_id rec of None \<Rightarrow> False | Some p \<Rightarrow> p \<notin> insert (sr_session_id rec) (sr_session_id ` set (sdb_sessions d)))
      then Inl ''FOREIGN KEY constraint failed''
      else Inr ((), d\<lparr>sdb_sessions := sdb_sessions d @ [rec\<lparr>sr_created_at := now, sr_last_active_at := now\<rparr>]\<rparr>))"

definition store_create_session :: "string \<Rightarrow> session_record \<Rightarrow> (session_db, memory_error, unit) action" where
  "store_create_session now rec = session_sql ''failed to create gateway session'' (insert_session_row now rec)"

definition store_get_session :: "string \<Rightarrow> (session_db, memory_error, session_record option) action" where
  "store_get_session session_id =
     session_sql ''failed to get gateway session'' (\<lambda>d. Inr (find (\<lambda>r. sr_session_id r = session_id) (sdb_sessions d), d))"

definition store_list_sessions :: "string \<Rightarrow> bool \<Rightarrow> (session_db, memory_error, session_record list) action" where
  "store_list_sessions user_id include_archived =
     session_sql ''failed to list gateway sessions'' (\<lambda>d. Inr (rev (sort_key sr_last_active_at
       (filter (\<lambda>r. sr_user_id r = user_id \<and> (include_archived \<or> \<not> sr_archived r)) (sdb_sessions d))), d))"

definition update_session_row :: "string \<Rightarrow> (session_record \<Rightarrow> session_record) \<Rightarrow> session_db \<Rightarrow> (string, unit \<times> session_db) result" where
  "update_session_row session_id f d =
     Inr ((), d\<lparr>sdb_sessions := map (\<lambda>r. if sr_session_id r = session_id then f r else r) (sdb_sessions d)\<rparr>)"

definition store_touch_session :: "string \<Rightarrow> string \<Rightarrow> (session_db, memory_error, unit) action" where
  "store_touch_session now session_id =
     session_sql ''failed to touch gateway session'' (update_session_row session_id (\<lambda>r. r\<lparr>sr_last_active_at := now\<rparr>))"

definition store_archive_session :: "string \<Rightarrow> string \<Rightarrow> (session_db, memory_error, unit) action" where
  "store_archive_session now session_id =
     session_sql ''failed to archive gateway session''
       (update_session_row session_id (\<lambda>r. r\<lparr>sr_archived := True, sr_last_active_at := now\<rparr>))"

definition store_update_display_name :: "string \<Rightarrow> string \<Rightarrow> string \<Rightarrow> (session_db, memory_error, unit) action" where
  "store_update_display_name now session_id display_name =
     session_sql ''failed to update session display_name''
       (update_session_row session_id (\<lambda>r. r\<lparr>sr_display_name := Some display_name, sr_last_active_at := now\<rparr>))"

definition store_get_channel_session :: "string \<Rightarrow> string \<Rightarrow> (session_db, memory_error, string option) action" where
  "store_get_channel_session channel_id channel_context_id =
     session_sql ''failed to get channel session mapping'' (\<lambda>d. Inr (map_of (sdb_mappings d) (channel_id, channel_context_id), d))"

definition store_set_channel_session :: "string \<Rightarrow> string \<Rightarrow> string \<Rightarrow> (session_db, memory_error, unit) action" where
  "store_set_channel_session channel_id channel_context_id session_id =
     session_sql ''failed to set channel session mapping'' (\<lambda>d.
       if session_id \<notin> sr_session_id ` set (sdb_sessions d) then Inl ''FOREIGN KEY constraint failed''
       else Inr ((), d\<lparr>sdb_mappings := ((channel_id, channel_context_id), session_id) #
          filter (\<lambda>m. fst m \<noteq> (channel_id, channel_context_id)) (sdb_mappings d)\<rparr>))"

section \<open>Facts about the store\<close>

lemma session_sql_no_fault:
  "sdb_faults d = [] \<Longrightarrow> session_sql what stmt d =
     (case stmt d of Inl e \<Rightarrow> (Inl (query_error (what @ '': '' @ e)), d) | Inr (x, d') \<Rightarrow> (Inr x, d'))"
  by (cases d) (auto simp: session_sql_def Let_def split: sum.splits)

lemma session_sql_Inr: "session_sql what stmt d = (Inr x, d') \<Longrightarrow> stmt (d\<lparr>sdb_faults := tl (sdb_faults d)\<rparr>) = Inr (x, d')"
  by (auto simp: session_sql_def Let_def split: list.splits option.splits sum.splits prod.splits)

lemma store_get_session_found:
  "store_get_session sid d = (Inr (Some rec), d') \<Longrightarrow> sr_session_id rec = sid \<and> rec \<in> set (sdb_sessions d)"
  by (auto simp: store_get_session_def find_Some_iff dest!: session_sql_Inr)

lemma store_list_sessions_own:
  "store_list_sessions user arch d = (Inr recs, d') \<Longrightarrow> set recs = {r \<in> set (sdb_sessions d). sr_user_id r = user \<and> (arch \<or> \<not> sr_archived r)}"
  by (auto simp: store_list_sessions_def dest!: session_sql_Inr)

text \<open>A channel context leads to the session it was last set to, and no other context is touched.\<close>

lemma channel_session_set_get:
  assumes "sdb_faults d = []" and "store_set_channel_session ch ctx sid d = (Inr (), d')"
  shows "store_get_channel_session ch' ctx' d' =
     (Inr (if (ch', ctx') = (ch, ctx) then Some sid else map_of (sdb_mappings d) (ch', ctx')), d')"
proof -
  have d': "d' = d\<lparr>sdb_mappings := ((ch, ctx), sid) # filter (\<lambda>m. fst m \<noteq> (ch, ctx)) (sdb_mappings d)\<rparr>"
    using assms by (auto simp: store_set_channel_session_def session_sql_no_fault split: if_splits)
  have "map_of (filter (\<lambda>m. fst m \<noteq> (ch, ctx)) ms) k = map_of ms k" if "k \<noteq> (ch, ctx)" for ms :: "((string \<times> string) \<times> string) list" and k
    using that by (induction ms) auto
  with assms(1) d' show ?thesis by (auto simp: store_get_channel_session_def session_sql_no_fault)
qed

end
