(* ===== verification/Scheduler.thy ===== *)
theory Scheduler
  imports Scheduler_Store Gateway_Types Policy
begin

text \<open>
  The scheduler: cadences (\<open>memory/src/cadence.rs\<close>) and the executor that polls the store, runs
  the due schedules and reschedules them (\<open>runtime/src/scheduler_executor.rs\<close>).

  Parsing and printing of timestamps, time zones and cron expressions belong to the crates
  \<open>chrono\<close>, \<open>chrono_tz\<close> and \<open>cron\<close> and are parameters (\<open>cadence_libs\<close>). The runner of a turn is a
  parameter, the store is the one of \<open>Scheduler_Store\<close>, and what is sent to users is the list
  \<open>es_frames\<close>. Slicing a text inside a character panics. The due schedules of a tick run one
  after another in the model; the source polls them concurrently.
\<close>

section \<open>Cadences\<close>

record cadence_libs =
  cl_parse_timestamp :: "string \<Rightarrow> (string, datetime) result"
  cl_to_rfc3339 :: "datetime \<Rightarrow> string"
  cl_plus_secs :: "datetime \<Rightarrow> int \<Rightarrow> datetime option"
  cl_timezone_ok :: "string \<Rightarrow> bool"
  cl_cron_error :: "string \<Rightarrow> string option"
  cl_cron_nth :: "string \<Rightarrow> string \<Rightarrow> datetime \<Rightarrow> nat \<Rightarrow> datetime option"
  cl_format_local :: "string \<Rightarrow> datetime \<Rightarrow> string"

definition parse_utc_timestamp :: "cadence_libs \<Rightarrow> string \<Rightarrow> (scheduler_error, datetime) result" where
  "parse_utc_timestamp cl s =
     map_err (cl_parse_timestamp cl s) (\<lambda>e. InvalidCadence (''invalid timestamp '' @ [CHR 0x27] @ s @ [CHR 0x27] @ '': '' @ e))"

definition check_cron :: "cadence_libs \<Rightarrow> string \<Rightarrow> string \<Rightarrow> (scheduler_error, string) result" where
  "check_cron cl expression timezone =
     (if \<not> cl_timezone_ok cl timezone then Inl (InvalidCadence (''invalid timezone: '' @ timezone))
      else let full_expression = ''0 '' @ expression in
        case cl_cron_error cl full_expression of
          Some e \<Rightarrow> Inl (InvalidCronExpression expression e)
        | None \<Rightarrow> Inr full_expression)"

definition next_run_for_cadence ::
    "cadence_libs \<Rightarrow> schedule_cadence \<Rightarrow> datetime \<Rightarrow> (scheduler_error, datetime option) result may_panic" where
  "next_run_for_cadence cl cadence after =
     (case cadence of
        Once ts \<Rightarrow> Ret (bind_result (parse_utc_timestamp cl ts) (\<lambda>at_dt. Inr (if at_dt > after then Some at_dt else None)))
      | Cron expression timezone \<Rightarrow>
          Ret (bind_result (check_cron cl expression timezone) (\<lambda>full. Inr (cl_cron_nth cl full timezone after 0)))
      | Interval every_secs \<Rightarrow>
          (case cl_plus_secs cl after (sint every_secs) of Some t \<Rightarrow> Ret (Inr (Some t)) | None \<Rightarrow> Panic))"

text \<open>Whole seconds of a difference of two timestamps, rounded towards zero.\<close>

definition num_seconds :: "int \<Rightarrow> int" where
  "num_seconds ns = (if 0 \<le> ns then ns div 1000000000 else - ((- ns) div 1000000000))"

definition int_to_string :: "int \<Rightarrow> string" where
  "int_to_string i = (if 0 \<le> i then nat_to_string (nat i) else ''-'' @ nat_to_string (nat (- i)))"

definition validate_cadence ::
    "cadence_libs \<Rightarrow> datetime \<Rightarrow> schedule_cadence \<Rightarrow> u64 \<Rightarrow> (scheduler_error, unit) result" where
  "validate_cadence cl now cadence min_interval_secs =
     (case cadence of
        Once ts \<Rightarrow> bind_result (parse_utc_timestamp cl ts) (\<lambda>at_dt.
          if at_dt \<le> now then Inl (InvalidCadence ''one-off time must be in the future'') else Inr ())
      | Cron expression timezone \<Rightarrow> bind_result (check_cron cl expression timezone) (\<lambda>full.
          case (cl_cron_nth cl full timezone now 0, cl_cron_nth cl full timezone now 1) of
            (Some a, Some b) \<Rightarrow>
              let gap = num_seconds (b - a) in
              if gap < sint min_interval_secs
              then Inl (InvalidCadence (''cron fires every '' @ int_to_string gap @ ''s, minimum is '' @
                nat_to_string (unat min_interval_secs) @ ''s''))
              else Inr ()
          | _ \<Rightarrow> Inr ())
      | Interval every_secs \<Rightarrow>
          if every_secs < min_interval_secs
          then Inl (InvalidCadence (''interval '' @ nat_to_string (unat every_secs) @ ''s is below minimum '' @
            nat_to_string (unat min_interval_secs) @ ''s''))
          else Inr ())"

text \<open>\<open>str::parse::<u64>()\<close>: an optional plus sign and at least one digit, below \<open>2^64\<close>.\<close>

fun digits_value :: "nat \<Rightarrow> string \<Rightarrow> nat option" where
  "digits_value acc [] = Some acc"
| "digits_value acc (c # cs) =
     (if is_ascii_digit c then digits_value (acc * 10 + (of_char c - 48)) cs else None)"

definition parse_u64 :: "string \<Rightarrow> u64 option" where
  "parse_u64 s =
     (let ds = (if starts_with s ''+'' then tl s else s) in
      if ds = [] then None
      else case digits_value 0 ds of None \<Rightarrow> None | Some n \<Rightarrow> if n < 2 ^ 64 then Some (of_nat n) else None)"

definition parse_cadence :: "string \<Rightarrow> string \<Rightarrow> string \<Rightarrow> (scheduler_error, schedule_cadence) result" where
  "parse_cadence cadence_type cadence_value timezone =
     (if cadence_type = ''once'' then Inr (Once cadence_value)
      else if cadence_type = ''cron'' then Inr (Cron cadence_value timezone)
      else if cadence_type = ''interval''
      then (case parse_u64 cadence_value of
              Some every_secs \<Rightarrow> Inr (Interval every_secs)
            | None \<Rightarrow> Inl (InvalidCadence (''interval value must be a positive integer: '' @ cadence_value)))
      else Inl (InvalidCadence (''unknown cadence type: '' @ cadence_type)))"

definition format_in_timezone :: "cadence_libs \<Rightarrow> string \<Rightarrow> schedule_cadence \<Rightarrow> string option" where
  "format_in_timezone cl utc_timestamp cadence =
     (case parse_utc_timestamp cl utc_timestamp of
        Inl _ \<Rightarrow> None
      | Inr utc_dt \<Rightarrow>
        (case cadence of
           Cron _ timezone \<Rightarrow> if cl_timezone_ok cl timezone then Some (cl_format_local cl timezone utc_dt) else None
         | _ \<Rightarrow> None))"

section \<open>The executor\<close>

record scheduler_config =
  sc_enabled :: bool
  sc_poll_interval_secs :: u64
  sc_max_concurrent :: nat
  sc_max_schedules_per_user :: nat
  sc_max_turns :: nat
  sc_max_cost :: f64
  sc_max_run_history :: nat
  sc_min_interval_secs :: u64
  sc_default_timezone :: string
  sc_auto_disable_after_failures :: u32
  sc_notify_after_failures :: u32

definition scheduler_config_default :: scheduler_config where
  "scheduler_config_default = \<lparr>sc_enabled = True, sc_poll_interval_secs = 15, sc_max_concurrent = 2,
     sc_max_schedules_per_user = 50, sc_max_turns = 10, sc_max_cost = F_Fin (1 / 2), sc_max_run_history = 20,
     sc_min_interval_secs = 60, sc_default_timezone = ''Asia/Kolkata'', sc_auto_disable_after_failures = 5,
     sc_notify_after_failures = 3\<rparr>"

record 'w turn_runner =
  tr_run_scheduled_turn :: "string \<Rightarrow> string \<Rightarrow> string \<Rightarrow> channel_capabilities option \<Rightarrow> effective_run_policy option \<Rightarrow>
     'w \<Rightarrow> (runtime_error, string \<times> media_attachment list) result \<times> 'w"
  tr_tool_schemas :: "function_decl list"
  tr_now :: "'w \<Rightarrow> datetime"
  tr_uuid :: "'w \<Rightarrow> string \<times> 'w"

record 'w executor_state =
  es_world :: 'w
  es_db :: sched_db
  es_frames :: "(string \<times> server_frame) list"

record 'w scheduler_executor =
  se_runner :: "'w turn_runner"
  se_config :: scheduler_config
  se_codec :: sched_codec
  se_cadence :: cadence_libs

text \<open>\<open>&s[..n]\<close>\<close>

definition slice_to :: "string \<Rightarrow> nat \<Rightarrow> string may_panic" where
  "slice_to s n = (if is_char_boundary s n then Ret (take n s) else Panic)"

definition NOTIFY_MARKER :: string where
  "NOTIFY_MARKER = ''[NOTIFY]''"

definition schedule_prompt :: "schedule_definition \<Rightarrow> string" where
  "schedule_prompt schedule =
     (if sd_notification_policy schedule = NotifyConditional
      then sd_goal schedule @ nl @ nl @ ''---'' @ nl @
        ''You are executing a scheduled task. If the result warrants notifying '' @
        ''the user, begin your response with [NOTIFY] followed by the notification message. '' @
        ''If no notification is needed, respond normally without [NOTIFY].''
      else sd_goal schedule)"

definition schedule_clean_text :: "schedule_definition \<Rightarrow> string \<Rightarrow> string" where
  "schedule_clean_text schedule response_text =
     (if sd_notification_policy schedule = NotifyConditional \<and> starts_with response_text NOTIFY_MARKER
      then trim_start (drop (length NOTIFY_MARKER) response_text)
      else response_text)"

definition summary_of_output :: "string \<Rightarrow> string option may_panic" where
  "summary_of_output clean_text =
     (if clean_text = [] then Ret None
      else if length clean_text > 500
      then bind_panic (slice_to clean_text 497) (\<lambda>s. Ret (Some (s @ ''...'')))
      else Ret (Some clean_text))"

definition notify_user :: "schedule_definition \<Rightarrow> server_frame \<Rightarrow> 'w executor_state \<Rightarrow> 'w executor_state" where
  "notify_user schedule frame s = s\<lparr>es_frames := es_frames s @ [(sd_schedule_id schedule, frame)]\<rparr>"

definition notify_media ::
    "'w turn_runner \<Rightarrow> schedule_definition \<Rightarrow> string \<Rightarrow> media_attachment \<Rightarrow> 'w executor_state \<Rightarrow> 'w executor_state" where
  "notify_media tr schedule session_id attachment s =
     (case tr_uuid tr (es_world s) of (request_id, w) \<Rightarrow>
        notify_user schedule (FMediaAttachment request_id \<lparr>gsn_user_id = sd_user_id schedule, gsn_session_id = session_id\<rparr> attachment
          (Some (sd_schedule_id schedule))) (s\<lparr>es_world := w\<rparr>))"

definition should_notify :: "schedule_definition \<Rightarrow> string \<Rightarrow> bool" where
  "should_notify schedule response_text =
     (case sd_notification_policy schedule of
        NotifyAlways \<Rightarrow> True
      | NotifyConditional \<Rightarrow> starts_with response_text NOTIFY_MARKER
      | NotifyNever \<Rightarrow> False)"

definition handle_notification ::
    "'w turn_runner \<Rightarrow> schedule_definition \<Rightarrow> string \<Rightarrow> schedule_run_status \<Rightarrow> string \<Rightarrow> string \<Rightarrow>
     media_attachment list \<Rightarrow> 'w executor_state \<Rightarrow> bool \<times> 'w executor_state" where
  "handle_notification tr schedule session_id status response_text clean_text media_items s =
     (if status \<noteq> RunSuccess then (False, s)
      else if should_notify schedule response_text
      then (True, notify_user schedule (FScheduledNotification (sd_schedule_id schedule) (sd_name schedule) clean_text)
              (fold (notify_media tr schedule session_id) media_items s))
      else (False, s))"

definition failure_summary :: "string \<Rightarrow> string may_panic" where
  "failure_summary clean_text =
     (if length clean_text > 200 then bind_panic (slice_to clean_text 197) (\<lambda>s. Ret (s @ ''...'')) else Ret clean_text)"

definition quote :: string where
  "quote = [CHR 0x27]"

definition handle_failure_notifications ::
    "scheduler_config \<Rightarrow> schedule_definition \<Rightarrow> schedule_run_status \<Rightarrow> string \<Rightarrow> 'w executor_state \<Rightarrow>
     'w executor_state may_panic" where
  "handle_failure_notifications config schedule status clean_text s =
     (if status = RunSuccess \<or> status = RunCancelled then Ret s
      else
        let new_consecutive_failures = sd_consecutive_failures schedule + 1;
            name = (case sd_name schedule of Some n \<Rightarrow> n | None \<Rightarrow> sd_schedule_id schedule)
        in bind_panic (failure_summary clean_text) (\<lambda>error_summary.
           let s1 = (if sc_notify_after_failures config > 0 \<and> new_consecutive_failures = sc_notify_after_failures config
                 then notify_user schedule (FScheduledNotification (sd_schedule_id schedule) (sd_name schedule)
                   ([CHR 0xE2, CHR 0x9D, CHR 0x8C] @ '' Scheduled task '' @ quote @ name @ quote @ '' has failed '' @
                    nat_to_string (unat new_consecutive_failures) @ '' times in a row. Latest error: '' @ error_summary)) s
                 else s);
               s2 = (if new_consecutive_failures \<ge> sc_auto_disable_after_failures config
                 then notify_user schedule (FScheduledNotification (sd_schedule_id schedule) (sd_name schedule)
                   ([CHR 0xE2, CHR 0x9B, CHR 0x94] @ '' Scheduled task '' @ quote @ name @ quote @ '' was disabled after '' @
                    nat_to_string (unat new_consecutive_failures) @ '' consecutive failures.'')) s1
                 else s1)
           in Ret s2))"

definition is_one_shot :: "schedule_cadence \<Rightarrow> bool" where
  "is_one_shot c = (case c of Once _ \<Rightarrow> True | _ \<Rightarrow> False)"

definition compute_reschedule ::
    "cadence_libs \<Rightarrow> scheduler_config \<Rightarrow> datetime \<Rightarrow> schedule_definition \<Rightarrow> schedule_run_status \<Rightarrow>
     (string option \<times> schedule_status option) may_panic" where
  "compute_reschedule cl config now schedule status =
     (if is_one_shot (sd_cadence schedule) \<and> status = RunSuccess then Ret (None, Some SchedCompleted)
      else
        let consecutive_failures = (if status = RunSuccess then 0 else sd_consecutive_failures schedule + 1) in
        if consecutive_failures \<ge> sc_auto_disable_after_failures config then Ret (None, Some SchedDisabled)
        else bind_panic (next_run_for_cadence cl (sd_cadence schedule) now) (\<lambda>r.
          Ret (case r of
                 Inr (Some next) \<Rightarrow> (Some (cl_to_rfc3339 cl next), None)
               | Inr None \<Rightarrow> (None, Some SchedCompleted)
               | Inl _ \<Rightarrow> (None, Some SchedDisabled))))"

subsection \<open>The policy of a scheduled run\<close>

definition default_policy_input :: run_policy_input where
  "default_policy_input = \<lparr>rp_max_runtime = None, rp_max_budget_microusd = None, rp_max_turns = None, rp_tool_policy = None\<rparr>"

definition schedule_global_config :: "scheduler_config \<Rightarrow> runtime_config" where
  "schedule_global_config config =
     \<lparr>rc_turn_timeout_secs = 60, rc_max_turns = of_nat (sc_max_turns config), rc_max_cost = Some (sc_max_cost config)\<rparr>"

definition schedule_agent :: agent_definition where
  "schedule_agent = \<lparr>ad_system_prompt = None, ad_system_prompt_file = None, ad_selection = None, ad_tools = None,
     ad_max_turns = None, ad_max_cost = None\<rparr>"

definition config_budget :: "scheduler_config \<Rightarrow> u64 option" where
  "config_budget config = (if f64_less (F_Fin 0) (sc_max_cost config) then Some (to_microusd (sc_max_cost config)) else None)"

definition merged_policy_input :: "scheduler_config \<Rightarrow> run_policy_input \<Rightarrow> run_policy_input" where
  "merged_policy_input config per_run =
     \<lparr>rp_max_runtime = rp_max_runtime per_run,
      rp_max_budget_microusd = (case rp_max_budget_microusd per_run of Some b \<Rightarrow> Some b | None \<Rightarrow> config_budget config),
      rp_max_turns = Some (case rp_max_turns per_run of Some t \<Rightarrow> min t (of_nat (sc_max_turns config))
        | None \<Rightarrow> of_nat (sc_max_turns config)),
      rp_tool_policy = rp_tool_policy per_run\<rparr>"

definition fallback_policy_input :: "scheduler_config \<Rightarrow> run_policy_input" where
  "fallback_policy_input config =
     \<lparr>rp_max_runtime = None, rp_max_budget_microusd = config_budget config,
      rp_max_turns = Some (of_nat (sc_max_turns config)), rp_tool_policy = None\<rparr>"

definition resolve_schedule_policy ::
    "cadence_libs \<Rightarrow> scheduler_config \<Rightarrow> function_decl list \<Rightarrow> datetime \<Rightarrow> schedule_definition \<Rightarrow>
     effective_run_policy option may_panic" where
  "resolve_schedule_policy cl config available_tools now schedule =
     (let per_run = (case sd_policy schedule of Some p \<Rightarrow> p | None \<Rightarrow> default_policy_input);
          resolve = (\<lambda>input. resolve_policy (cl_plus_secs cl) now now now (schedule_global_config config) schedule_agent
            input available_tools)
      in bind_panic (resolve (merged_policy_input config per_run)) (\<lambda>r.
         case r of
           Inr policy \<Rightarrow> Ret (Some policy)
         | Inl _ \<Rightarrow> bind_panic (resolve (fallback_policy_input config)) (\<lambda>r2.
             Ret (case r2 of Inr policy \<Rightarrow> Some policy | Inl _ \<Rightarrow> None))))"

subsection \<open>Running a schedule\<close>

definition outcome_of_turn ::
    "(runtime_error, string \<times> media_attachment list) result \<Rightarrow> schedule_run_status \<times> string \<times> media_attachment list" where
  "outcome_of_turn r =
     (case r of
        Inr (t, media) \<Rightarrow> (RunSuccess, t, media)
      | Inl ECancelled \<Rightarrow> (RunCancelled, [], [])
      | Inl e \<Rightarrow> (RunFailed, ''Error: '' @ runtime_error_display e, []))"

definition on_db :: "(sched_db, scheduler_error, 'a) action \<Rightarrow> 'w executor_state \<Rightarrow> (scheduler_error, 'a) result \<times> 'w executor_state" where
  "on_db m s = (case m (es_db s) of (r, d) \<Rightarrow> (r, s\<lparr>es_db := d\<rparr>))"

definition execute_schedule :: "'w scheduler_executor \<Rightarrow> schedule_definition \<Rightarrow> 'w executor_state \<Rightarrow> 'w executor_state may_panic" where
  "execute_schedule ex schedule s0 =
     (let tr = se_runner ex; config = se_config ex; cl = se_cadence ex;
          sid = sd_schedule_id schedule;
          session_id = ''scheduled:'' @ sid
      in case tr_uuid tr (es_world s0) of (run_id, w1) \<Rightarrow>
         let started_at = cl_to_rfc3339 cl (tr_now tr w1) in
         bind_panic (resolve_schedule_policy cl config (tr_tool_schemas tr) (tr_now tr w1) schedule) (\<lambda>policy.
         case tr_run_scheduled_turn tr (sd_user_id schedule) session_id (schedule_prompt schedule)
             (map_option from_channel_origin (sd_channel_id schedule)) policy w1 of (result, w2) \<Rightarrow>
         let finished_at = cl_to_rfc3339 cl (tr_now tr w2) in
         case outcome_of_turn result of (status, response_text, media_items) \<Rightarrow>
         let clean_text = schedule_clean_text schedule response_text in
         bind_panic (summary_of_output clean_text) (\<lambda>output_summary.
         case handle_notification tr schedule session_id status response_text clean_text media_items (s0\<lparr>es_world := w2\<rparr>) of
           (notified, s1) \<Rightarrow>
         bind_panic (compute_reschedule cl config (tr_now tr (es_world s1)) schedule status) (\<lambda>(next_run_at, new_status).
         bind_panic (handle_failure_notifications config schedule status clean_text s1) (\<lambda>s2.
         let run_record = \<lparr>rr_run_id = run_id, rr_schedule_id = sid, rr_started_at = started_at, rr_finished_at = finished_at,
               rr_status = status, rr_output_summary = output_summary, rr_turn_count = 0, rr_cost = F_Fin 0,
               rr_notified = notified, rr_output = (if clean_text = [] then None else Some clean_text)\<rparr>;
             s3 = snd (on_db (record_run_and_reschedule (cl_to_rfc3339 cl (tr_now tr (es_world s2))) sid run_record next_run_at new_status) s2)
         in Ret (snd (on_db (prune_run_history sid (sc_max_run_history config)) s3)))))))"

fun execute_all :: "'w scheduler_executor \<Rightarrow> schedule_definition list \<Rightarrow> 'w executor_state \<Rightarrow> 'w executor_state may_panic" where
  "execute_all ex [] s = Ret s"
| "execute_all ex (x # xs) s = bind_panic (execute_schedule ex x s) (execute_all ex xs)"

definition tick :: "'w scheduler_executor \<Rightarrow> 'w executor_state \<Rightarrow> 'w executor_state may_panic" where
  "tick ex s =
     (case on_db (due_schedules (se_codec ex) (cl_to_rfc3339 (se_cadence ex) (tr_now (se_runner ex) (es_world s)))
         (sc_max_concurrent (se_config ex))) s of
        (Inl _, s1) \<Rightarrow> Ret s1
      | (Inr due, s1) \<Rightarrow> if due = [] then Ret s1 else execute_all ex due s1)"

section \<open>The policy of a scheduled run stays within the configuration\<close>

lemma resolve_schedule_policy_cases:
  assumes "resolve_schedule_policy cl config tools now schedule = Ret (Some p)"
  obtains r where "r = merged_policy_input config (case sd_policy schedule of Some p \<Rightarrow> p | None \<Rightarrow> default_policy_input) \<or>
      r = fallback_policy_input config"
    and "resolve_policy (cl_plus_secs cl) now now now (schedule_global_config config) schedule_agent r tools = Ret (Inr p)"
proof -
  let ?resolve = "\<lambda>r. resolve_policy (cl_plus_secs cl) now now now (schedule_global_config config) schedule_agent r tools"
  let ?r = "merged_policy_input config (case sd_policy schedule of Some p \<Rightarrow> p | None \<Rightarrow> default_policy_input)"
  note eq = assms[unfolded resolve_schedule_policy_def Let_def]
  from eq obtain x where x: "?resolve ?r = Ret x" by auto
  show ?thesis
  proof (cases x)
    case (Inl e)
    with eq x obtain y where y: "?resolve (fallback_policy_input config) = Ret y" by auto
    with Inl eq x have "y = Inr p" by (cases y) simp_all
    with y that show ?thesis by blast
  next
    case (Inr q)
    with eq x that[of ?r] show ?thesis by simp
  qed
qed


text \<open>When a schedule's own limits name a tool the runner does not have, the run goes ahead with every
  tool: the toolset and also the list of forbidden tools of the schedule are dropped.\<close>

lemma refused_tool_policy_allows_all:
  assumes "sd_policy schedule = Some per_run" and "rp_tool_policy per_run = Some tp"
    and "tp_toolset tp = Some names" and "n \<in> set names" and "n \<notin> set (map fd_name tools)"
    and "resolve_schedule_policy cl config tools now schedule = Ret (Some p)"
  shows "toolset p = tools \<and> disallowed_tools p = {}"
proof -
  have "check_names (set (map fd_name tools)) names \<noteq> Inr ()" using assms(4,5) by (auto simp: check_names_Ok)
  then have "validate_tool_references (merged_policy_input config per_run) tools \<noteq> Inr ()"
    using assms(2,3) by (cases "check_names (set (map fd_name tools)) names")
      (auto simp: validate_tool_references_def merged_policy_input_def Let_def)
  then have no: "resolve_policy (cl_plus_secs cl) now now now (schedule_global_config config) schedule_agent
      (merged_policy_input config per_run) tools \<noteq> Ret (Inr p)"
    by (metis resolve_policy_Ok)
  from assms(6) show ?thesis
  proof (rule resolve_schedule_policy_cases)
    fix r
    assume "r = merged_policy_input config (case sd_policy schedule of Some p \<Rightarrow> p | None \<Rightarrow> default_policy_input) \<or>
      r = fallback_policy_input config"
      and r: "resolve_policy (cl_plus_secs cl) now now now (schedule_global_config config) schedule_agent r tools = Ret (Inr p)"
    with no assms(1) have "r = fallback_policy_input config" by auto
    with resolve_policy_merge(6)[OF r] show ?thesis
      by (simp add: merge_tool_policies_def retain_allowed_def schedule_agent_def fallback_policy_input_def)
  qed
qed

section \<open>Failing schedules\<close>

text \<open>What the runner may answer: a turn that fails, and not because it was cancelled.\<close>

definition always_fails :: "'w turn_runner \<Rightarrow> bool" where
  "always_fails tr \<longleftrightarrow> (\<forall>u sid prompt caps policy w. \<exists>e. e \<noteq> ECancelled \<and>
     fst (tr_run_scheduled_turn tr u sid prompt caps policy w) = Inl e)"

text \<open>One run of the stored schedule \<open>sid\<close>, which is active, under a run id that is not in use.\<close>

inductive stored_run :: "'w scheduler_executor \<Rightarrow> string \<Rightarrow> 'w executor_state \<Rightarrow> 'w executor_state \<Rightarrow> bool"
  for ex sid where
  stored_run: "get_schedule (se_codec ex) sid (es_db s) = (Inr schedule, es_db s) \<Longrightarrow>
    sd_status schedule = SchedActive \<Longrightarrow>
    fst (tr_uuid (se_runner ex) (es_world s)) \<notin> run_run_id ` set (db_runs (es_db s)) \<Longrightarrow>
    execute_schedule ex schedule s = Ret s' \<Longrightarrow> stored_run ex sid s s'"

definition rows_of :: "string \<Rightarrow> sched_db \<Rightarrow> schedule_row list" where
  "rows_of sid d = filter (\<lambda>r. row_schedule_id r = sid) (db_schedules d)"

definition db_ready :: "sched_db \<Rightarrow> bool" where
  "db_ready d \<longleftrightarrow> db_faults d = [] \<and> db_backup d = None"

lemma notify_db [simp]:
  "es_db (notify_user sch f s) = es_db s" "es_db (fold (notify_media tr sch sid) ms s) = es_db s"
proof -
  show "es_db (notify_user sch f s) = es_db s" by (simp add: notify_user_def)
  show "es_db (fold (notify_media tr sch sid) ms s) = es_db s"
    by (induction ms arbitrary: s) (simp_all add: notify_media_def notify_user_def split: prod.splits)
qed

lemma handle_notification_db [simp]: "es_db (snd (handle_notification tr sch sid st t c ms s)) = es_db s"
  by (simp add: handle_notification_def)

lemma handle_failure_db: "handle_failure_notifications config sch st t s = Ret s' \<Longrightarrow> es_db s' = es_db s"
  by (auto simp: handle_failure_notifications_def Let_def split: if_splits)

lemma record_run_ready:
  assumes "db_ready d" and "rr_run_id run \<notin> run_run_id ` set (db_runs d)" and "rr_schedule_id run \<in> row_schedule_id ` set (db_schedules d)"
  shows "record_run_and_reschedule now sid run next st d =
     (Inr (), d\<lparr>db_runs := db_runs d @ [run_row_of run],
        db_schedules := map (\<lambda>r. if row_schedule_id r = sid then rescheduled_row run next st now r else r) (db_schedules d)\<rparr>)"
  using assms
  by (cases d) (simp add: record_run_and_reschedule_def record_statements_def bind_action_def db_ready_def sql_no_fault
      begin_transaction_def commit_transaction_def insert_run_def update_rows_def run_row_of_def)

lemma outcome_always_fails:
  assumes "always_fails tr"
  shows "fst (outcome_of_turn (fst (tr_run_scheduled_turn tr u sid prompt caps policy w))) = RunFailed"
proof -
  obtain e where "e \<noteq> ECancelled" "fst (tr_run_scheduled_turn tr u sid prompt caps policy w) = Inl e"
    using assms unfolding always_fails_def by blast
  then show ?thesis by (cases e) (simp_all add: outcome_of_turn_def)
qed

lemma filter_map_if:
  assumes "\<And>r. P (f r) = P r"
  shows "filter P (map (\<lambda>r. if P r then f r else r) xs) = map f (filter P xs)"
  using assms by (induction xs) simp_all

text \<open>What a run of a schedule leaves in the store.\<close>

lemma execute_schedule_db:
  assumes "execute_schedule ex sch s = Ret s'" and "db_ready (es_db s)"
    and "fst (tr_uuid (se_runner ex) (es_world s)) \<notin> run_run_id ` set (db_runs (es_db s))"
    and "sd_schedule_id sch \<in> row_schedule_id ` set (db_schedules (es_db s))"
  obtains run nxt st now t where "db_ready (es_db s')"
    and "rows_of (sd_schedule_id sch) (es_db s') = map (rescheduled_row run nxt st now) (rows_of (sd_schedule_id sch) (es_db s))"
    and "compute_reschedule (se_cadence ex) (se_config ex) t sch (rr_status run) = Ret (nxt, st)"
    and "always_fails (se_runner ex) \<Longrightarrow> rr_status run = RunFailed"
proof -
  let ?tr = "se_runner ex" and ?sid = "sd_schedule_id sch"
  obtain run_id w1 where uuid: "tr_uuid ?tr (es_world s) = (run_id, w1)" by fastforce
  obtain policy where policy: "resolve_schedule_policy (se_cadence ex) (se_config ex) (tr_tool_schemas ?tr) (tr_now ?tr w1) sch = Ret policy"
    using assms(1) by (auto simp: execute_schedule_def Let_def uuid)
  obtain result w2 where turn: "tr_run_scheduled_turn ?tr (sd_user_id sch) (''scheduled:'' @ ?sid) (schedule_prompt sch)
      (map_option from_channel_origin (sd_channel_id sch)) policy w1 = (result, w2)" by fastforce
  obtain status text_r media where outcome: "outcome_of_turn result = (status, text_r, media)" by (cases "outcome_of_turn result") auto
  obtain notified s1 where sent: "handle_notification ?tr sch (''scheduled:'' @ ?sid) status text_r
      (schedule_clean_text sch text_r) media (s\<lparr>es_world := w2\<rparr>) = (notified, s1)" by fastforce
  then have s1: "es_db s1 = es_db s"
    using handle_notification_db[of ?tr sch "''scheduled:'' @ ?sid" status text_r "schedule_clean_text sch text_r" media "s\<lparr>es_world := w2\<rparr>"]
    by simp
  note eq = assms(1)[unfolded execute_schedule_def Let_def, simplified uuid policy turn outcome sent prod.case bind_panic.simps]
  from eq obtain summary where summary: "summary_of_output (schedule_clean_text sch text_r) = Ret summary" by auto
  from eq obtain nxt st where resched: "compute_reschedule (se_cadence ex) (se_config ex) (tr_now ?tr (es_world s1)) sch status = Ret (nxt, st)"
    by (auto simp: summary)
  from eq obtain s2 where fail: "handle_failure_notifications (se_config ex) sch status (schedule_clean_text sch text_r) s1 = Ret s2"
    by (auto simp: summary resched)
  have s2: "es_db s2 = es_db s" using handle_failure_db[OF fail] s1 by simp
  let ?now = "cl_to_rfc3339 (se_cadence ex) (tr_now ?tr (es_world s2))"
  define run where "run = \<lparr>rr_run_id = run_id, rr_schedule_id = ?sid,
      rr_started_at = cl_to_rfc3339 (se_cadence ex) (tr_now ?tr w1), rr_finished_at = cl_to_rfc3339 (se_cadence ex) (tr_now ?tr w2),
      rr_status = status, rr_output_summary = summary, rr_turn_count = 0, rr_cost = F_Fin 0, rr_notified = notified,
      rr_output = (if schedule_clean_text sch text_r = [] then None else Some (schedule_clean_text sch text_r))\<rparr>"
  then have run: "rr_status run = status" "rr_run_id run = run_id" "rr_schedule_id run = ?sid" by simp_all
  from eq have s': "s' = snd (on_db (prune_run_history ?sid (sc_max_run_history (se_config ex)))
       (snd (on_db (record_run_and_reschedule ?now ?sid run nxt st) s2)))"
    by (simp add: summary resched fail Let_def run_def)
  have recorded: "record_run_and_reschedule ?now ?sid run nxt st (es_db s2) = (Inr (), (es_db s)\<lparr>
      db_runs := db_runs (es_db s) @ [run_row_of run],
      db_schedules := map (\<lambda>r. if row_schedule_id r = ?sid then rescheduled_row run nxt st ?now r else r) (db_schedules (es_db s))\<rparr>)"
    unfolding s2 by (rule record_run_ready) (use assms run uuid in simp_all)
  show ?thesis
  proof (rule that)
    show "db_ready (es_db s')"
      using assms(2) by (simp add: s' on_db_def recorded prune_run_history_def sql_no_fault db_ready_def)
    show "rows_of ?sid (es_db s') = map (rescheduled_row run nxt st ?now) (rows_of ?sid (es_db s))"
      using assms(2) by (simp add: s' on_db_def recorded prune_run_history_def sql_no_fault db_ready_def rows_of_def filter_map_if[where P = "\<lambda>r. row_schedule_id r = ?sid"] rescheduled_ok(2))
    show "compute_reschedule (se_cadence ex) (se_config ex) (tr_now ?tr (es_world s1)) sch (rr_status run) = Ret (nxt, st)"
      using resched run(1) by simp
    show "always_fails ?tr \<Longrightarrow> rr_status run = RunFailed"
      using outcome_always_fails[of ?tr] turn outcome run(1) by (metis fst_conv)
  qed
qed

lemma word_succ_less:
  assumes "0 \<le> k" "k < 2 ^ 32 - 1" "\<not> auto_after \<le> (word_of_int k + 1 :: u32)"
  shows "k + 1 < uint auto_after"
proof -
  have "uint (word_of_int (k + 1) :: u32) = k + 1"
    unfolding uint_word_of_int by (rule mod_pos_pos_trivial) (use assms(1,2) in simp_all)
  with assms(3) show ?thesis by (simp add: word_le_def)
qed

lemma get_schedule_row:
  assumes "db_ready d" and "get_schedule codec sid d = (Inr sch, d)"
  obtains r rest where "rows_of sid d = r # rest" and "schedule_from_row codec r = Inr sch" and "row_schedule_id r = sid"
    and "r \<in> set (db_schedules d)"
proof -
  obtain r rest where rows: "rows_of sid d = r # rest" and dec: "schedule_from_row codec r = Inr sch"
    using assms by (auto simp: get_schedule_def bind_action_def sql_no_fault select_schedules_def db_ready_def
      lift_action_def rows_of_def split: list.splits)
  moreover from rows have "r \<in> set (rows_of sid d)" by simp
  then have "row_schedule_id r = sid" "r \<in> set (db_schedules d)" by (simp_all add: rows_of_def)
  ultimately show ?thesis by (rule that)
qed

lemma decoded_fields:
  assumes "schedule_from_row codec r = Inr sch"
  shows "sd_schedule_id sch = row_schedule_id r" and "sd_consecutive_failures sch = word_of_int (row_consecutive_failures r)"
    and "schedule_status_from_str (row_status r) = Inr (sd_status sch)"
  using assms by (auto simp: schedule_from_row_def)

lemma compute_reschedule_failed:
  assumes "compute_reschedule cl config t sch RunFailed = Ret (nxt, st)"
  shows "st \<in> {Some SchedDisabled, Some SchedCompleted} \<or>
     st = None \<and> \<not> sc_auto_disable_after_failures config \<le> sd_consecutive_failures sch + 1"
proof (cases "sc_auto_disable_after_failures config \<le> sd_consecutive_failures sch + 1")
  case False
  with assms obtain x where "next_run_for_cadence cl (sd_cadence sch) t = Ret x" by (auto simp: compute_reschedule_def)
  with False assms show ?thesis
    by (cases x) (auto simp: compute_reschedule_def split: option.split_asm)
qed (use assms in \<open>simp add: compute_reschedule_def\<close>)

lemma stored_run_active:
  assumes "stored_run ex sid s s'" and "db_ready (es_db s)" and "rows_of sid (es_db s) = r # rest"
  shows "row_status r = ''active''"
  using assms(1)
proof cases
  case (stored_run sch)
  then obtain r0 rest0 where "rows_of sid (es_db s) = r0 # rest0" "schedule_from_row (se_codec ex) r0 = Inr sch"
    using get_schedule_row[OF assms(2)] by metis
  with assms(3) decoded_fields(3) have "schedule_status_from_str (row_status r) = Inr SchedActive"
    using stored_run(2) by force
  then show ?thesis by (auto simp: schedule_status_from_str_def split: if_splits)
qed

text \<open>One failed run: the schedule is no longer active, or its count of failures has grown and is
  still below the threshold.\<close>

lemma failed_run_step:
  assumes run: "stored_run ex sid s s'" and fails: "always_fails (se_runner ex)" and ready: "db_ready (es_db s)"
    and row: "rows_of sid (es_db s) = r # rest" "0 \<le> row_consecutive_failures r" "row_consecutive_failures r < 2 ^ 32 - 1"
  shows "db_ready (es_db s') \<and> (\<exists>r' rest'. rows_of sid (es_db s') = r' # rest' \<and>
     (row_status r' \<noteq> ''active'' \<or>
      row_consecutive_failures r' = row_consecutive_failures r + 1 \<and>
      row_consecutive_failures r' < uint (sc_auto_disable_after_failures (se_config ex))))"
  using run
proof cases
  case (stored_run sch)
  obtain r0 rest0 where r0: "rows_of sid (es_db s) = r0 # rest0" "schedule_from_row (se_codec ex) r0 = Inr sch"
    "row_schedule_id r0 = sid" "r0 \<in> set (db_schedules (es_db s))"
    using get_schedule_row[OF ready stored_run(1)] .
  then have [simp]: "r0 = r" using row(1) by simp
  note fields = decoded_fields[OF r0(2)]
  have sid: "sd_schedule_id sch = sid" using fields(1) r0(3) by simp
  have stored: "sd_schedule_id sch \<in> row_schedule_id ` set (db_schedules (es_db s))" unfolding sid using r0(3,4) by blast
  obtain run nxt st now t where "db_ready (es_db s')"
    and rows: "rows_of sid (es_db s') = map (rescheduled_row run nxt st now) (rows_of sid (es_db s))"
    and resched: "compute_reschedule (se_cadence ex) (se_config ex) t sch (rr_status run) = Ret (nxt, st)"
    and failed: "rr_status run = RunFailed"
    using execute_schedule_db[OF stored_run(4) ready stored_run(3) stored] fails unfolding sid by metis
  let ?auto = "sc_auto_disable_after_failures (se_config ex)"
  have "(\<exists>x. st = Some x \<and> schedule_status_to_str x \<noteq> ''active'') \<or> st = None \<and> row_consecutive_failures r + 1 < uint ?auto"
    using compute_reschedule_failed[OF resched[unfolded failed]] word_succ_less[OF row(2,3)] fields(2) by auto
  then show ?thesis using \<open>db_ready (es_db s')\<close> rows failed row(1)
    by (auto simp: rescheduled_row_def)
qed

lemma failed_runs:
  assumes "always_fails (se_runner ex)" and "db_ready (es_db s)"
    and "rows_of sid (es_db s) = r # rest" "row_consecutive_failures r = int k" "k < 2 ^ 32 - 1"
    and "(stored_run ex sid ^^ n) s s'"
  shows "db_ready (es_db s') \<and> (\<exists>r' rest'. rows_of sid (es_db s') = r' # rest' \<and>
     (0 < n \<and> row_status r' \<noteq> ''active'' \<or>
      row_consecutive_failures r' = int (k + n) \<and>
      (0 < n \<longrightarrow> k + n < unat (sc_auto_disable_after_failures (se_config ex)))))"
  using assms(6)
proof (induction n arbitrary: s')
  case 0
  with assms(2-4) show ?case by simp
next
  case (Suc n)
  let ?auto = "sc_auto_disable_after_failures (se_config ex)"
  from Suc.prems obtain s1 where s1: "(stored_run ex sid ^^ n) s s1" "stored_run ex sid s1 s'" by auto
  from Suc.IH[OF s1(1)] obtain r1 rest1 where ready: "db_ready (es_db s1)" and r1: "rows_of sid (es_db s1) = r1 # rest1"
    "0 < n \<and> row_status r1 \<noteq> ''active'' \<or> row_consecutive_failures r1 = int (k + n) \<and> (0 < n \<longrightarrow> k + n < unat ?auto)"
    by blast
  have fails: "row_consecutive_failures r1 = int (k + n)" "0 < n \<longrightarrow> k + n < unat ?auto"
    using r1(2) stored_run_active[OF s1(2) ready r1(1)] by auto
  have "k + n < 2 ^ 32 - 1" using fails(2) assms(5) unsigned_less[of ?auto, where 'a = nat] by (cases n) auto
  then have "0 \<le> row_consecutive_failures r1" "row_consecutive_failures r1 < 2 ^ 32 - 1" using fails(1) by simp_all
  note step = failed_run_step[OF s1(2) assms(1) ready r1(1) this]
  have auto_nat: "row_consecutive_failures x = row_consecutive_failures r1 + 1 \<Longrightarrow> row_consecutive_failures x < uint ?auto \<Longrightarrow>
      row_consecutive_failures x = int (k + Suc n) \<and> k + Suc n < unat ?auto" for x
    using fails(1) of_nat_unat[of ?auto, where 'a = int] by linarith
  from step auto_nat show ?case by blast
qed

text \<open>C14: A schedule whose turns keep failing is taken out of service. Start from a stored schedule with
  \<open>k\<close> failures counted so far, a connection that works and a runner whose turns fail. After any
  number of runs of the schedule (each started only while it is active), it is no
  longer active or it has failed fewer times in all than the configured number; so it is
  started at most that many times, less the failures already counted, and at least once.\<close>

theorem failing_schedule_disabled:
  assumes "always_fails (se_runner ex)" and "db_ready (es_db s)"
    and "rows_of sid (es_db s) = r # rest" "row_consecutive_failures r = int k" "k < 2 ^ 32 - 1"
    and "(stored_run ex sid ^^ n) s s'"
  shows "(0 < n \<longrightarrow> (\<exists>r' rest'. rows_of sid (es_db s') = r' # rest' \<and>
       (row_status r' \<noteq> ''active'' \<or> k + n < unat (sc_auto_disable_after_failures (se_config ex))))) \<and>
     n \<le> max 1 (unat (sc_auto_disable_after_failures (se_config ex)) - k)"
proof -
  let ?auto = "sc_auto_disable_after_failures (se_config ex)"
  note runs = failed_runs[OF assms(1-5)]
  have "n \<le> max 1 (unat ?auto - k)"
  proof (cases n)
    case (Suc m)
    with assms(6) obtain s1 where s1: "(stored_run ex sid ^^ m) s s1" "stored_run ex sid s1 s'" by auto
    from runs[OF s1(1)] stored_run_active[OF s1(2)] have "0 < m \<longrightarrow> k + m < unat ?auto" by fastforce
    with Suc show ?thesis by (cases m) auto
  qed simp
  with runs[OF assms(6)] show ?thesis by auto
qed

section \<open>What the executor does to unlucky schedules\<close>

text \<open>A cancelled run counts as a failure when the executor decides whether to disable the schedule, while
  the store sets the count back to zero: the schedule ends up disabled with no failures.\<close>

lemma cancelled_run_disables:
  assumes "sc_auto_disable_after_failures config \<le> sd_consecutive_failures sch + 1"
  shows "compute_reschedule cl config t sch RunCancelled = Ret (None, Some SchedDisabled)"
    and "rr_status run = RunCancelled \<Longrightarrow> row_consecutive_failures (rescheduled_row run nxt st now r) = 0"
  using assms by (simp_all add: compute_reschedule_def rescheduled_row_def)

text \<open>A long answer with a character of two bytes across the cut: the executor panics.\<close>

lemma long_output_panics:
  "summary_of_output (replicate 496 (CHR ''a'') @ [CHR 0xC3, CHR 0xA9] @ replicate 10 (CHR ''a'')) = Panic"
  by (simp add: summary_of_output_def slice_to_def is_char_boundary_def is_cont_def nth_append numeral_eq_Suc)

section \<open>Witnesses\<close>

definition ex_cadence_libs :: cadence_libs where
  "ex_cadence_libs = \<lparr>cl_parse_timestamp = (\<lambda>_. Inr 0), cl_to_rfc3339 = (\<lambda>_. ''2030''), cl_plus_secs = ex_plus_secs,
     cl_timezone_ok = (\<lambda>_. True), cl_cron_error = (\<lambda>_. None), cl_cron_nth = (\<lambda>_ _ t n. Some (t + int n)),
     cl_format_local = (\<lambda>_ _. [])\<rparr>"

definition ex_sched_config :: scheduler_config where
  "ex_sched_config = scheduler_config_default\<lparr>sc_max_cost := F_Fin 0, sc_auto_disable_after_failures := 1\<rparr>"

definition ex_run_limits :: run_policy_input where
  "ex_run_limits = \<lparr>rp_max_runtime = None, rp_max_budget_microusd = Some 5, rp_max_turns = Some 40, rp_tool_policy = None\<rparr>"

text \<open>A runner whose turns always hit the turn limit; the world counts the ids handed out.\<close>

definition ex_runner :: "nat turn_runner" where
  "ex_runner = \<lparr>tr_run_scheduled_turn = (\<lambda>_ _ _ _ _ w. (Inl ETurnLimitExceeded, w)), tr_tool_schemas = ex_tools,
     tr_now = int, tr_uuid = (\<lambda>w. (replicate w (CHR ''x''), Suc w))\<rparr>"

definition ex_executor :: "nat scheduler_executor" where
  "ex_executor = \<lparr>se_runner = ex_runner, se_config = ex_sched_config, se_codec = ex_sched_codec, se_cadence = ex_cadence_libs\<rparr>"

definition ex_limited :: schedule_definition where
  "ex_limited = ex_schedule\<lparr>sd_policy := Some ex_run_limits\<rparr>"

definition ex_state :: "nat executor_state" where
  "ex_state = \<lparr>es_world = 0, es_db = ex_db [], es_frames = []\<rparr>"

lemmas ex_resolve_defs = resolve_schedule_policy_def resolve_policy_def validate_per_run_constraints_def
  validate_tool_references_def merge_policy_def merge_deadline_def merge_max_turns_def merge_max_budget_def
  merge_tool_policies_def runtime_secs_def retain_allowed_def validate_effective_policy_def min_some_def Let_def
  saturating_mul_def schedule_global_config_def schedule_agent_def merged_policy_input_def ex_cadence_libs_def
  ex_sched_config_def scheduler_config_default_def ex_run_limits_def ex_plus_secs_def

lemma ex_limited_resolves:
  "\<exists>p. resolve_schedule_policy ex_cadence_libs ex_sched_config ex_tools 0 ex_limited = Ret (Some p)"
  by (simp add: ex_resolve_defs ex_limited_def ex_tools_def)


lemma ex_executes: "\<exists>s'. execute_schedule ex_executor ex_schedule ex_state = Ret s'"
proof -
  have "\<exists>p. resolve_schedule_policy ex_cadence_libs ex_sched_config ex_tools 1 ex_schedule = Ret (Some p)"
    by (simp add: ex_resolve_defs ex_schedule_def ex_tools_def default_policy_input_def config_budget_def)
  then obtain p where p: "resolve_schedule_policy ex_cadence_libs ex_sched_config ex_tools 1 ex_schedule = Ret (Some p)" ..
  have "outcome_of_turn (Inl ETurnLimitExceeded) = (RunFailed, ''Error: turn limit exceeded'', [])"
    by (simp add: outcome_of_turn_def)
  moreover have "schedule_clean_text ex_schedule t = t" for t by (simp add: schedule_clean_text_def ex_schedule_def)
  moreover have "summary_of_output ''Error: turn limit exceeded'' = Ret (Some ''Error: turn limit exceeded'')"
    by (simp add: summary_of_output_def)
  moreover have "handle_notification tr sch sid RunFailed a b c s = (False, s)" for tr sch sid a b c and s :: "nat executor_state"
    by (simp add: handle_notification_def)
  moreover have "compute_reschedule ex_cadence_libs ex_sched_config t ex_schedule RunFailed = Ret (None, Some SchedDisabled)" for t
    by (simp add: compute_reschedule_def ex_sched_config_def ex_schedule_def)
  moreover have "\<exists>s'. handle_failure_notifications ex_sched_config ex_schedule RunFailed ''Error: turn limit exceeded'' s = Ret s'" for s :: "nat executor_state"
    by (simp add: handle_failure_notifications_def failure_summary_def Let_def)
  ultimately show ?thesis using p
    by (simp add: execute_schedule_def ex_executor_def ex_runner_def ex_state_def Let_def)
qed

lemma ex_stored_run: "\<exists>s'. stored_run ex_executor ''s1'' ex_state s'"
proof -
  have "get_schedule (se_codec ex_executor) ''s1'' (es_db ex_state) = (Inr ex_schedule, es_db ex_state)"
    by (simp add: get_schedule_def bind_action_def sql_no_fault select_schedules_def ex_db_def empty_db_def
      ex_state_def ex_executor_def lift_action_def row_of_schedule_def ex_schedule_def schedule_from_row_def
      ex_sched_codec_def option_result_def notification_policy_from_str_def schedule_status_from_str_def)
  moreover have "sd_status ex_schedule = SchedActive" by (simp add: ex_schedule_def)
  moreover have "db_runs (es_db ex_state) = []" by (simp add: ex_state_def ex_db_def empty_db_def)
  ultimately show ?thesis using ex_executes stored_run.stored_run[of ex_executor "''s1''" ex_state ex_schedule] by auto
qed

theorem failing_schedule_disabled_witness:
  "\<exists>s'. stored_run ex_executor ''s1'' ex_state s' \<and>
     (\<exists>r rest. rows_of ''s1'' (es_db s') = r # rest \<and> row_status r \<noteq> ''active'')"
proof -
  obtain s' where run: "stored_run ex_executor ''s1'' ex_state s'" using ex_stored_run by blast
  have "always_fails (se_runner ex_executor)" by (simp add: always_fails_def ex_executor_def ex_runner_def)
  moreover have "db_ready (es_db ex_state)" by (simp add: db_ready_def ex_state_def ex_db_def empty_db_def)
  moreover have "rows_of ''s1'' (es_db ex_state) = [row_of_schedule ex_schedule ''o2030'' None]"
    by (simp add: rows_of_def ex_state_def ex_db_def empty_db_def row_of_schedule_def ex_schedule_def)
  moreover have "row_consecutive_failures (row_of_schedule ex_schedule ''o2030'' None) = int 0"
    by (simp add: row_of_schedule_def ex_schedule_def)
  moreover have "(stored_run ex_executor ''s1'' ^^ 1) ex_state s'" using run by (simp only: relpowp_1)
  ultimately have "\<exists>r rest. rows_of ''s1'' (es_db s') = r # rest \<and> row_status r \<noteq> ''active''"
    using failing_schedule_disabled[of ex_executor ex_state "''s1''" "row_of_schedule ex_schedule ''o2030'' None" "[]" 0 1 s']
    by (auto simp: ex_executor_def ex_sched_config_def scheduler_config_default_def)
  with run show ?thesis by blast
qed

end
