(* ===== verification/Turn_Runner.thy ===== *)
theory Turn_Runner
  imports Delegation Scheduler
begin

text \<open>
  The turn runner behind the gateway and the scheduler, \<open>gateway/src/turn_runner.rs\<close>: it keeps the
  conversation of every session in memory, runs one turn on the agent runtime and stores
  the conversation again, rolled back when the turn failed.

  The state is the map of contexts and the world outside. The channel of stream events of a
  run is empty when it starts; what the runtime sent is read from the host at the end. How
  many of these events the forwarding loop has received when the run ends is up to the
  scheduling of the tasks and is the parameter \<open>received\<close>; the rest is drained afterwards.
  Policies are resolved with one reading of the clock. Fuel bounds the turns of the agent loop.
\<close>

section \<open>State\<close>

record user_turn_input =
  ut_prompt :: string
  ut_attachments :: "inline_media list"

record turn_origin =
  to_channel_id :: "string option"
  to_channel_context_id :: "string option"
  to_agent_name :: "string option"
  to_channel_capabilities :: "channel_capabilities option"

record 'w gateway_runner =
  gr_runtime :: "'w agent_runtime"
  gr_default_selection :: provider_selection
  gr_agent_selections :: "(string \<times> provider_selection) list"
  gr_agent_definitions :: "(string \<times> agent_definition) list"

record 'w runner_state =
  rs_contexts :: "string \<rightharpoonup> llm_context"
  rs_outside :: 'w

definition add_agent :: "string \<times> agent_definition \<Rightarrow> 'w gateway_runner \<Rightarrow> 'w gateway_runner" where
  "add_agent entry gr =
     (case entry of (agent_name, definition) \<Rightarrow>
        if agent_name = ''default'' then gr
        else gr\<lparr>gr_agent_selections := (case ad_selection definition of
                  Some s \<Rightarrow> bt_insert agent_name s (gr_agent_selections gr) | None \<Rightarrow> gr_agent_selections gr),
                gr_agent_definitions := bt_insert agent_name definition (gr_agent_definitions gr)\<rparr>)"

definition gateway_runner_new ::
    "'w agent_runtime \<Rightarrow> provider_selection \<Rightarrow> (string \<times> agent_definition) list \<Rightarrow> 'w gateway_runner" where
  "gateway_runner_new runtime default_selection agents =
     fold add_agent agents \<lparr>gr_runtime = runtime, gr_default_selection = default_selection,
       gr_agent_selections = [], gr_agent_definitions = []\<rparr>"

definition selection_for_agent :: "'w gateway_runner \<Rightarrow> string \<Rightarrow> provider_selection" where
  "selection_for_agent gr agent_name =
     (if agent_name = ''default'' then gr_default_selection gr
      else case map_of (gr_agent_selections gr) agent_name of
        Some s \<Rightarrow> s | None \<Rightarrow> gr_default_selection gr)"

definition base_context :: "'w gateway_runner \<Rightarrow> string \<Rightarrow> llm_context" where
  "base_context gr agent_name =
     (let selection = selection_for_agent gr agent_name in
      \<lparr>ctx_provider = sel_provider selection, ctx_model = sel_model selection, ctx_tools = [], ctx_messages = []\<rparr>)"

section \<open>The prompt of a turn with attachments\<close>

text \<open>Sizes below \<open>2^53\<close> and their quotients by powers of two are exact as \<open>f64\<close>. \<open>round\<close> rounds halves up,
  \<open>{:.1}\<close> rounds halves to the even digit.\<close>

definition tenths_of_mb :: "nat \<Rightarrow> nat" where
  "tenths_of_mb bytes =
     (let q = bytes * 10 div 1048576; r = bytes * 10 mod 1048576
      in if 524288 < r \<or> r = 524288 \<and> odd q then q + 1 else q)"

definition format_attachment_size :: "nat \<Rightarrow> string" where
  "format_attachment_size bytes =
     (if bytes < 1024 then ''~'' @ nat_to_string bytes @ ''B''
      else if bytes < 1048576 then ''~'' @ nat_to_string ((bytes + 512) div 1024) @ ''KB''
      else ''~'' @ nat_to_string (tenths_of_mb bytes div 10) @ ''.'' @ nat_to_string (tenths_of_mb bytes mod 10) @ ''MB'')"

definition MAX_MIME_TYPE_LEN :: nat where
  "MAX_MIME_TYPE_LEN = 150"

text \<open>\<open>char::is_control\<close>: U+0000 to U+001F and U+007F to U+009F, the latter of two bytes from U+0080 on.\<close>

definition is_control_char :: "string \<Rightarrow> bool" where
  "is_control_char ch \<longleftrightarrow>
     (case ch of
        [c] \<Rightarrow> code_of c < 32 \<or> code_of c = 127
      | [c, d] \<Rightarrow> code_of c = 0xC2 \<and> code_of d < 0xA0
      | _ \<Rightarrow> False)"

definition safe_mime :: "string \<Rightarrow> string" where
  "safe_mime mime = concat (take MAX_MIME_TYPE_LEN (filter (\<lambda>ch. \<not> is_control_char ch) (chars mime)))"

definition attachment_descriptor :: "nat \<Rightarrow> inline_media \<Rightarrow> string" where
  "attachment_descriptor index attachment =
     ''['' @ nat_to_string index @ ''] '' @ safe_mime (im_mime_type attachment) @ '' ('' @
     format_attachment_size (length (im_data attachment)) @ '')''"

definition attachment_prompt_addendum :: "inline_media list \<Rightarrow> string option" where
  "attachment_prompt_addendum attachments =
     (if attachments = [] then None
      else Some (''User sent '' @ nat_to_string (length attachments) @ '' '' @
        (if length attachments = 1 then ''attachment'' else ''attachments'') @ '': '' @
        join '', '' (map (\<lambda>(i, a). attachment_descriptor i a) (enumerate 0 attachments)) @ ''.'' @ nl @
        ''Use attachment_save(index, path) to persist any of them to /shared or /tmp.''))"

definition augment_prompt_with_attachment_metadata :: "string \<Rightarrow> inline_media list \<Rightarrow> string" where
  "augment_prompt_with_attachment_metadata prompt attachments =
     (case attachment_prompt_addendum attachments of
        Some addendum \<Rightarrow> if trim prompt = [] then addendum else prompt @ nl @ nl @ addendum
      | None \<Rightarrow> prompt)"

section \<open>Policy of a session\<close>

fun policy_validation_error_display :: "policy_validation_error \<Rightarrow> string" where
  "policy_validation_error_display ZeroBudget = ''budget cannot be zero''"
| "policy_validation_error_display NegativeMaxTurns = ''max_turns cannot be negative''"
| "policy_validation_error_display NegativeMaxBudget = ''max_budget cannot be negative''"
| "policy_validation_error_display NegativeMaxRuntime = ''max_runtime cannot be negative''"
| "policy_validation_error_display EmptyToolset = ''no tools available after applying policy constraints''"
| "policy_validation_error_display (UnknownTool n) = ''unknown tool: '' @ n"
| "policy_validation_error_display PastDeadline = ''deadline is in the past''"

definition session_global_config :: "runtime_limits \<Rightarrow> runtime_config" where
  "session_global_config limits =
     \<lparr>rc_turn_timeout_secs = dur_secs (turn_timeout limits), rc_max_turns = of_nat (max_turns limits),
      rc_max_cost = max_cost limits\<rparr>"

definition resolve_session_policy ::
    "(datetime \<Rightarrow> int \<Rightarrow> datetime option) \<Rightarrow> datetime \<Rightarrow> 'w gateway_runner \<Rightarrow> string \<Rightarrow> run_policy_input \<Rightarrow>
     (policy_validation_error, effective_run_policy) result may_panic" where
  "resolve_session_policy plus_secs now gr agent_name per_run =
     (let agent_def = (case map_of (gr_agent_definitions gr) agent_name of
            Some d \<Rightarrow> d
          | None \<Rightarrow> \<lparr>ad_system_prompt = None, ad_system_prompt_file = None, ad_selection = None, ad_tools = None,
               ad_max_turns = None, ad_max_cost = None\<rparr>)
      in resolve_policy plus_secs now now now (session_global_config (rt_limits (gr_runtime gr))) agent_def per_run
           (runtime_tool_schemas (gr_runtime gr)))"

section \<open>Turns\<close>

definition user_message :: "string \<Rightarrow> inline_media list \<Rightarrow> message" where
  "user_message prompt attachments = \<lparr>msg_role = RUser, msg_content = Some prompt, msg_tool_calls = [],
     msg_tool_call_id = None, msg_attachments = attachments\<rparr>"

definition strip_old_attachments :: "message \<Rightarrow> message" where
  "strip_old_attachments m =
     (if msg_role m = RUser \<and> msg_attachments m \<noteq> [] then m\<lparr>msg_attachments := []\<rparr> else m)"

definition push_user :: "message \<Rightarrow> llm_context \<Rightarrow> llm_context" where
  "push_user m ctx = ctx\<lparr>ctx_messages := ctx_messages ctx @ [m]\<rparr>"

definition context_for :: "'w gateway_runner \<Rightarrow> string \<Rightarrow> string \<Rightarrow> 'w runner_state \<Rightarrow> llm_context" where
  "context_for gr session_id agent_name st =
     (case rs_contexts st session_id of Some ctx \<Rightarrow> ctx | None \<Rightarrow> base_context gr agent_name)"

definition turn_tool_context_of ::
    "string \<Rightarrow> string \<Rightarrow> llm_context \<Rightarrow> turn_origin \<Rightarrow> inline_media list option \<Rightarrow> 'w tool_execution_context" where
  "turn_tool_context_of user_id session_id ctx origin inbound =
     default_tool_context\<lparr>te_user_id := Some user_id, te_session_id := Some session_id,
       te_provider := Some (ctx_provider ctx), te_model := Some (ctx_model ctx),
       te_channel_capabilities := to_channel_capabilities origin, te_channel_id := to_channel_id origin,
       te_channel_context_id := to_channel_context_id origin, te_inbound_attachments := inbound\<rparr>"

definition is_media :: "stream_item \<Rightarrow> bool" where
  "is_media item = (case item of SMedia _ \<Rightarrow> True | _ \<Rightarrow> False)"

definition is_forwarded :: "stream_item \<Rightarrow> bool" where
  "is_forwarded item = (case item of SText _ \<Rightarrow> True | SProgress _ \<Rightarrow> True | SMedia _ \<Rightarrow> True | _ \<Rightarrow> False)"

text \<open>What reaches the gateway of the events of a run.\<close>

definition forwarded_events :: "nat \<Rightarrow> stream_item list \<Rightarrow> stream_item list" where
  "forwarded_events received events =
     filter is_forwarded (take received events) @ filter is_media (drop received events)"

definition run_with_optional_policy ::
    "libs \<Rightarrow> 'w gateway_runner \<Rightarrow> 'w call_env \<Rightarrow> nat \<Rightarrow> string \<Rightarrow> llm_context \<Rightarrow> 'w tool_execution_context \<Rightarrow>
     effective_run_policy option \<Rightarrow> 'w \<Rightarrow> ((runtime_error, response) result \<times> 'w session) option" where
  "run_with_optional_policy lib gr env fuel session_id ctx tool_context policy w =
     (let host = \<lparr>sent_events = [], outside = w\<rparr> in
      case policy of
        Some p \<Rightarrow> run_session_for_session_with_policy lib (gr_runtime gr) env fuel session_id ctx tool_context p host
      | None \<Rightarrow> run_session_for_session_with_stream_events lib (gr_runtime gr) env fuel session_id ctx tool_context host)"

definition resolved_turn_policy ::
    "(datetime \<Rightarrow> int \<Rightarrow> datetime option) \<Rightarrow> datetime \<Rightarrow> 'w gateway_runner \<Rightarrow> string \<Rightarrow> run_policy_input option \<Rightarrow>
     (runtime_error, effective_run_policy option) result may_panic" where
  "resolved_turn_policy plus_secs now gr agent_name policy =
     (case policy of
        None \<Rightarrow> Ret (Inr None)
      | Some per_run \<Rightarrow> bind_panic (resolve_session_policy plus_secs now gr agent_name per_run) (\<lambda>r.
          Ret (case r of
                 Inr p \<Rightarrow> Inr (Some p)
               | Inl e \<Rightarrow> Inl (EProvider (RequestFailed ''policy_guard''
                   (''policy validation failed: '' @ policy_validation_error_display e))))))"

definition roll_back :: "nat \<Rightarrow> (runtime_error, response) result \<Rightarrow> llm_context \<Rightarrow> llm_context" where
  "roll_back pre_turn_message_count result ctx =
     (if is_ok result then ctx else ctx\<lparr>ctx_messages := take pre_turn_message_count (ctx_messages ctx)\<rparr>)"

definition gateway_run_turn ::
    "libs \<Rightarrow> (datetime \<Rightarrow> int \<Rightarrow> datetime option) \<Rightarrow> 'w gateway_runner \<Rightarrow> 'w call_env \<Rightarrow> nat \<Rightarrow> nat \<Rightarrow> string \<Rightarrow> string \<Rightarrow>
     user_turn_input \<Rightarrow> turn_origin \<Rightarrow> run_policy_input option \<Rightarrow> 'w runner_state \<Rightarrow>
     ((runtime_error, response) result \<times> stream_item list \<times> 'w runner_state) option may_panic" where
  "gateway_run_turn lib plus_secs gr env fuel received user_id session_id input origin policy st =
     (let attachments = ut_attachments input;
          agent_name = (case to_agent_name origin of Some a \<Rightarrow> a | None \<Rightarrow> ''default'');
          prompt = augment_prompt_with_attachment_metadata (ut_prompt input) attachments;
          inbound = (if attachments = [] then None else Some attachments);
          ctx0 = context_for gr session_id agent_name st;
          st1 = st\<lparr>rs_contexts := (rs_contexts st)(session_id \<mapsto> ctx0)\<rparr>;
          tool_context = turn_tool_context_of user_id session_id ctx0 origin inbound;
          ctx1 = ctx0\<lparr>ctx_messages := map strip_old_attachments (ctx_messages ctx0)\<rparr>;
          pre_turn_message_count = length (ctx_messages ctx1);
          ctx2 = push_user (user_message prompt attachments) ctx1;
          now = env_now env \<lparr>sent_events = [], outside = rs_outside st\<rparr>
      in bind_panic (resolved_turn_policy plus_secs now gr agent_name policy) (\<lambda>resolved.
         Ret (case resolved of
           Inl e \<Rightarrow> Some (Inl e, [], st1)
         | Inr resolved_policy \<Rightarrow>
             map_option (\<lambda>(result, s).
                 (result, forwarded_events received (sent_events (ses_host s)),
                  \<lparr>rs_contexts = (rs_contexts st1)(session_id \<mapsto> roll_back pre_turn_message_count result (ses_context s)),
                   rs_outside = outside (ses_host s)\<rparr>))
               (run_with_optional_policy lib gr env fuel session_id ctx2 tool_context resolved_policy (rs_outside st)))))"

definition drop_session_context :: "string \<Rightarrow> 'w runner_state \<Rightarrow> 'w runner_state" where
  "drop_session_context session_id st = st\<lparr>rs_contexts := (rs_contexts st)(session_id := None)\<rparr>"

definition media_of :: "stream_item list \<Rightarrow> media_attachment list" where
  "media_of items = List.map_filter (\<lambda>i. case i of SMedia a \<Rightarrow> Some a | _ \<Rightarrow> None) items"

definition run_scheduled_turn ::
    "libs \<Rightarrow> 'w gateway_runner \<Rightarrow> 'w call_env \<Rightarrow> nat \<Rightarrow> string \<Rightarrow> string \<Rightarrow> string \<Rightarrow> channel_capabilities option \<Rightarrow>
     effective_run_policy option \<Rightarrow> 'w runner_state \<Rightarrow>
     ((runtime_error, string \<times> media_attachment list) result \<times> 'w runner_state) option" where
  "run_scheduled_turn lib gr env fuel user_id session_id prompt caps policy st =
     (let origin = \<lparr>to_channel_id = None, to_channel_context_id = None, to_agent_name = None,
            to_channel_capabilities = caps\<rparr>;
          ctx0 = context_for gr session_id ''default'' st;
          st1 = st\<lparr>rs_contexts := (rs_contexts st)(session_id \<mapsto> ctx0)\<rparr>;
          tool_context = turn_tool_context_of user_id session_id ctx0 origin None;
          ctx1 = push_user (user_message prompt []) ctx0
      in map_option (\<lambda>(result, s).
           case result of
             Inl e \<Rightarrow> (Inl e, st1\<lparr>rs_outside := outside (ses_host s)\<rparr>)
           | Inr response \<Rightarrow>
               (Inr (case msg_content (rsp_message response) of Some c \<Rightarrow> c | None \<Rightarrow> [], media_of (sent_events (ses_host s))),
                \<lparr>rs_contexts = (rs_contexts st1)(session_id \<mapsto> ses_context s), rs_outside = outside (ses_host s)\<rparr>))
         (run_with_optional_policy lib gr env fuel session_id ctx1 tool_context policy (rs_outside st)))"

section \<open>A run only adds to the conversation\<close>

definition grown :: "message list \<Rightarrow> 'w session \<Rightarrow> bool" where
  "grown base s \<longleftrightarrow> take (length base) (conversation s) = base"

lemma grown_append: "grown base s \<Longrightarrow> conversation s' = conversation s @ ms \<Longrightarrow> grown base s'"
  unfolding grown_def by (metis append_take_drop_id append.assoc append_eq_conv_conj)

lemma maintains_keeps_context: "keeps ses_context m \<Longrightarrow> maintains (grown base) m"
  by (simp add: keeps_def maintains_def grown_def)

lemma maintains_with_state [maintains_intros]: "(\<And>s. maintains P (g s)) \<Longrightarrow> maintains P (with_state g)"
  by (simp add: maintains_def with_state_def)

lemma maintains_push [maintains_intros]: "maintains (grown base) (push_message ra m)"
  unfolding maintains_def using grown_append push_message_conversation by (metis prod.collapse)

lemma maintains_context [maintains_intros]:
  "maintains (grown base) (on_host m)" "maintains (grown base) (check_cancelled ra)"
  "maintains (grown base) (check_turn_limit ra)" "maintains (grown base) (check_deadline ra)"
  "maintains (grown base) (announce_provider_call ra)" "maintains (grown base) (announce_tools ra calls)"
  "maintains (grown base) (ask_provider ra)" "maintains (grown base) (emit_soft_fail ra r)" "maintains (grown base) next_turn"
  by (rule maintains_keeps_context; intro keeps_intros; simp)+ (simp add: maintains_def next_turn_def grown_def)

lemma maintains_settle [maintains_intros]: "maintains (grown base) (settle_turn ra b r u)"
  unfolding maintains_def
proof (intro allI impI)
  fix s :: "'a session" assume "grown base s"
  then show "grown base (snd (settle_turn ra b r u s))"
    using settle_turn_eq[of s _ ra b r u] by (cases "ses_ledger s") (auto simp: settle_turn_def grown_def)
qed

lemma maintains_charge [maintains_intros]: "maintains (grown base) (charge_turn ra b r rsp)"
proof (cases "ra_policy ra")
  case None
  then show ?thesis by (auto simp: charge_turn_def maintains_def grown_def split: prod.splits sum.splits)
next
  case (Some p)
  then show ?thesis by (auto simp: charge_turn_def intro!: maintains_intros)
qed

lemma maintains_push_results [maintains_intros]: "maintains (grown base) (push_results ra rs)"
  by (induction rs) (auto intro!: maintains_intros)

lemma maintains_flush [maintains_intros]: "maintains (grown base) (flush_batch ra tctx batch)"
  unfolding maintains_def
proof (intro allI impI)
  fix s :: "'a session" assume "grown base s"
  then have "grown base (s\<lparr>ses_host := w\<rparr>)" for w by (simp add: grown_def)
  then show "grown base (snd (flush_batch ra tctx batch s))"
    unfolding flush_batch_def by (auto split: prod.splits intro: maintainsD[OF maintains_push_results])
qed

lemma maintains_tool_calls [maintains_intros]: "maintains (grown base) (run_tool_calls ra tctx batch tcs)"
  by (induction tcs arbitrary: batch) (auto intro!: maintains_intros)

lemma maintains_turn: "maintains (grown base) (run_turn ra)"
  unfolding run_turn_def answer_turn_def Let_def
  by (intro maintains_intros) (auto split: option.splits prod.splits intro!: maintains_intros)

lemma run_loop_grows: "run_loop ra fuel s = Some (r, s') \<Longrightarrow> grown base s \<Longrightarrow> grown base s'"
proof (induction fuel arbitrary: s)
  case (Suc fuel)
  obtain x s1 where turn: "run_turn ra s = (x, s1)" by fastforce
  have "grown base s1" using maintainsD[OF maintains_turn Suc.prems(2), of ra] turn by simp
  with Suc turn show ?case by (auto split: sum.splits option.splits)
qed simp

definition started_context :: "'w agent_runtime \<Rightarrow> channel_capabilities option \<Rightarrow> effective_run_policy option \<Rightarrow> llm_context \<Rightarrow> llm_context" where
  "started_context rt caps policy ctx = inject_system_prompt rt caps (offer_tools rt policy ctx)"

lemma start_session_context:
  "ses_context (snd (start_session lib rt sid ctx tctx policy w)) = started_context rt (te_channel_capabilities tctx) policy ctx"
proof -
  let ?m = "bind_action (on_host (next_memory_sequence rt sid)) (\<lambda>n.
         bind_action (on_host (persist_context_tail_if_needed lib rt sid n (started_context rt (te_channel_capabilities tctx) policy ctx))) (\<lambda>n'.
         bind_action (\<lambda>s. (Inr (), s\<lparr>ses_next_sequence := n'\<rparr>)) (\<lambda>_.
         lift_action (validate_guard_preconditions rt))))"
  have "keeps ses_context ?m" by (intro keeps_intros) (simp_all add: keeps_def)
  then show ?thesis by (simp add: start_session_def Let_def started_context_def keeps_def)
qed

lemma session_grows:
  assumes "run_session_internal lib rt env fuel sid ctx listening tctx policy w = Some (r, s)"
  shows "grown (ctx_messages (started_context rt (te_channel_capabilities tctx) policy ctx)) s"
proof -
  obtain x s0 where start: "start_session lib rt sid ctx tctx policy w = (x, s0)" by fastforce
  have "grown (ctx_messages (started_context rt (te_channel_capabilities tctx) policy ctx)) s0"
    using start_session_context[of lib rt sid ctx tctx policy w] start by (simp add: grown_def)
  with assms start show ?thesis
    by (auto simp: run_session_internal_def intro: run_loop_grows split: sum.splits)
qed

section \<open>Failed turns are rolled back\<close>

definition has_system :: "message list \<Rightarrow> bool" where
  "has_system ms \<longleftrightarrow> list_ex (\<lambda>m. msg_role m = RSystem) ms"

text \<open>A stored conversation is empty, or it has its system message (when one is configured). So a run
  never inserts one before messages that were there already.\<close>

definition context_ok :: "'w agent_runtime \<Rightarrow> llm_context \<Rightarrow> bool" where
  "context_ok rt ctx \<longleftrightarrow> ctx_messages ctx = [] \<or> rt_system_prompt rt = None \<or> has_system (ctx_messages ctx)"

definition contexts_ok :: "'w gateway_runner \<Rightarrow> 'w runner_state \<Rightarrow> bool" where
  "contexts_ok gr st \<longleftrightarrow> (\<forall>sid ctx. rs_contexts st sid = Some ctx \<longrightarrow> context_ok (gr_runtime gr) ctx)"

inductive runner_step :: "libs \<Rightarrow> 'w gateway_runner \<Rightarrow> 'w runner_state \<Rightarrow> 'w runner_state \<Rightarrow> bool" for lib gr where
  step_turn: "gateway_run_turn lib plus_secs gr env fuel received user sid input origin policy st = Ret (Some (r, items, st')) \<Longrightarrow>
    runner_step lib gr st st'"
| step_scheduled: "run_scheduled_turn lib gr env fuel user sid prompt caps policy st = Some (r, st') \<Longrightarrow> runner_step lib gr st st'"
| step_drop: "runner_step lib gr st (drop_session_context sid st)"

definition runner_start :: "'w runner_state \<Rightarrow> bool" where
  "runner_start st \<longleftrightarrow> rs_contexts st = (\<lambda>_. None)"

lemma has_system_append [simp]: "has_system (xs @ ys) \<longleftrightarrow> has_system xs \<or> has_system ys"
  by (auto simp: has_system_def)

lemma strip_role [simp]: "msg_role (strip_old_attachments m) = msg_role m"
  by (simp add: strip_old_attachments_def)

lemma strip_idem [simp]: "strip_old_attachments (strip_old_attachments m) = strip_old_attachments m"
  by (simp add: strip_old_attachments_def)

lemma has_system_strip [simp]: "has_system (map strip_old_attachments ms) = has_system ms"
  by (induction ms) (auto simp: has_system_def)

lemma offer_tools_messages [simp]: "ctx_messages (offer_tools rt policy ctx) = ctx_messages ctx"
  by (simp add: offer_tools_def split: option.splits)

lemma started_has_system: "rt_system_prompt rt \<noteq> None \<Longrightarrow> has_system (ctx_messages (started_context rt caps policy ctx))"
  by (auto simp: started_context_def inject_system_prompt_def has_system_def plain_message_def Let_def split: option.splits)

lemma started_keeps: "rt_system_prompt rt = None \<or> has_system (ctx_messages ctx) \<Longrightarrow>
    ctx_messages (started_context rt caps policy ctx) = ctx_messages ctx"
  by (auto simp: started_context_def inject_system_prompt_def has_system_def split: option.splits)

lemma grown_has_system: "grown base s \<Longrightarrow> has_system base \<Longrightarrow> has_system (conversation s)"
  unfolding grown_def has_system_def list_ex_iff by (metis in_set_takeD)

lemma take_grown: "grown (xs @ ys) s \<Longrightarrow> take (length xs) (conversation s) = xs"
  unfolding grown_def by (metis append_eq_conv_conj append_take_drop_id append.assoc)

lemma rolled_back_messages:
  assumes "grown (ctx_messages (started_context rt caps policy (push_user m ctx))) s" and "context_ok rt ctx"
  shows "take (length (ctx_messages ctx)) (conversation s) = ctx_messages ctx"
proof (cases "ctx_messages ctx = []")
  case False
  then have "ctx_messages (started_context rt caps policy (push_user m ctx)) = ctx_messages ctx @ [m]"
    using assms(2) by (subst started_keeps) (auto simp: context_ok_def push_user_def)
  with assms(1) take_grown show ?thesis by metis
qed simp

lemma run_with_optional_policy_grows:
  assumes "run_with_optional_policy lib gr env fuel sid ctx tctx policy w = Some (r, s)"
  shows "\<exists>caps. grown (ctx_messages (started_context (gr_runtime gr) caps policy ctx)) s"
  using assms session_grows
  by (force simp: run_with_optional_policy_def run_session_for_session_with_policy_def
    run_session_for_session_with_stream_events_def Let_def split: option.splits)

lemma context_ok_after:
  assumes "grown (ctx_messages (started_context rt caps policy ctx)) s"
  shows "context_ok rt (ses_context s)"
  using grown_has_system[OF assms started_has_system] by (cases "rt_system_prompt rt") (auto simp: context_ok_def)

lemma context_ok_messages:
  "context_ok rt ctx \<Longrightarrow> ctx_messages ctx' = map strip_old_attachments (ctx_messages ctx) \<Longrightarrow> context_ok rt ctx'"
  by (auto simp: context_ok_def)

lemma context_for_ok: "contexts_ok gr st \<Longrightarrow> context_ok (gr_runtime gr) (context_for gr sid agent st)"
  by (auto simp: context_for_def contexts_ok_def context_ok_def base_context_def Let_def split: option.splits)

text \<open>The outcome of a turn: refused by the policy guard, or run and then stored.\<close>

lemma gateway_run_turn_cases:
  fixes gr :: "'w gateway_runner"
  assumes "gateway_run_turn lib plus_secs gr env fuel received user sid input origin policy st = Ret (Some (r, items, st'))"
  obtains (refused) e agent where "r = Inl e" "items = []"
      "rs_contexts st' = (rs_contexts st)(sid \<mapsto> context_for gr sid agent st)"
  | (run) agent m caps p and s :: "'w session" where
      "grown (ctx_messages (started_context (gr_runtime gr) caps p (push_user m ((context_for gr sid agent st)
         \<lparr>ctx_messages := map strip_old_attachments (ctx_messages (context_for gr sid agent st))\<rparr>)))) s"
      "items = forwarded_events received (sent_events (ses_host s))"
      "rs_contexts st' = (rs_contexts st)(sid \<mapsto> roll_back (length (ctx_messages (context_for gr sid agent st))) r (ses_context s))"
      "agent = (case to_agent_name origin of Some a \<Rightarrow> a | None \<Rightarrow> ''default'')"
proof -
  let ?agent = "case to_agent_name origin of Some a \<Rightarrow> a | None \<Rightarrow> ''default''"
  note eq = assms[unfolded gateway_run_turn_def Let_def]
  from eq obtain x where x: "resolved_turn_policy plus_secs (env_now env \<lparr>sent_events = [], outside = rs_outside st\<rparr>) gr ?agent policy = Ret x"
    by auto
  show ?thesis
  proof (cases x)
    case (Inl e)
    with eq x show ?thesis by (intro refused) auto
  next
    case (Inr p)
    with eq x obtain s ctx tctx where
      ran: "run_with_optional_policy lib gr env fuel sid ctx tctx p (rs_outside st) = Some (r, s)"
      and ctx: "ctx = push_user (user_message (augment_prompt_with_attachment_metadata (ut_prompt input) (ut_attachments input)) (ut_attachments input))
        ((context_for gr sid ?agent st)\<lparr>ctx_messages := map strip_old_attachments (ctx_messages (context_for gr sid ?agent st))\<rparr>)"
      and st': "items = forwarded_events received (sent_events (ses_host s))"
        "rs_contexts st' = (rs_contexts st)(sid \<mapsto> roll_back (length (ctx_messages (context_for gr sid ?agent st))) r (ses_context s))"
      by auto
    obtain caps where "grown (ctx_messages (started_context (gr_runtime gr) caps p ctx)) s"
      using run_with_optional_policy_grows[OF ran] ..
    from run[OF this[unfolded ctx] st' refl] show ?thesis .
  qed
qed

lemma roll_back_ok:
  assumes "grown (ctx_messages (started_context rt caps p (push_user m (ctx
       \<lparr>ctx_messages := map strip_old_attachments (ctx_messages ctx)\<rparr>)))) s" and "context_ok rt ctx"
  shows "context_ok rt (roll_back (length (ctx_messages ctx)) r (ses_context s))"
    and "r = Inl e \<Longrightarrow> ctx_messages (roll_back (length (ctx_messages ctx)) r (ses_context s)) =
      map strip_old_attachments (ctx_messages ctx)"
proof -
  let ?ctx = "ctx\<lparr>ctx_messages := map strip_old_attachments (ctx_messages ctx)\<rparr>"
  have ok: "context_ok rt ?ctx" using assms(2) by (rule context_ok_messages) simp
  have taken: "take (length (ctx_messages ctx)) (conversation s) = map strip_old_attachments (ctx_messages ctx)"
    using rolled_back_messages[OF assms(1) ok] by simp
  show "context_ok rt (roll_back (length (ctx_messages ctx)) r (ses_context s))"
    using context_ok_after[OF assms(1)] assms(2) taken by (cases r) (auto simp: roll_back_def context_ok_def)
  show "r = Inl e \<Longrightarrow> ctx_messages (roll_back (length (ctx_messages ctx)) r (ses_context s)) =
      map strip_old_attachments (ctx_messages ctx)" using taken by (simp add: roll_back_def)
qed

lemma contexts_ok_upd: "contexts_ok gr st \<Longrightarrow> context_ok (gr_runtime gr) ctx \<Longrightarrow>
    rs_contexts st' = (rs_contexts st)(sid \<mapsto> ctx) \<Longrightarrow> contexts_ok gr st'"
  by (auto simp: contexts_ok_def)

lemma contexts_ok_turn:
  assumes "contexts_ok gr st"
    and "gateway_run_turn lib plus_secs gr env fuel received user sid input origin policy st = Ret (Some (r, items, st'))"
  shows "contexts_ok gr st'"
  using assms(2)
proof (cases rule: gateway_run_turn_cases)
  case (refused e agent)
  then show ?thesis using contexts_ok_upd[OF assms(1) context_for_ok[OF assms(1)]] by blast
next
  case (run agent m caps p s)
  show ?thesis
    by (rule contexts_ok_upd[OF assms(1) roll_back_ok(1)[OF run(1) context_for_ok[OF assms(1)]] run(3)])
qed

lemma contexts_ok_scheduled:
  assumes "contexts_ok gr st"
    and "run_scheduled_turn lib gr env fuel user sid prompt caps policy st = Some (r, st')"
  shows "contexts_ok gr st'"
proof -
  let ?ctx = "context_for gr sid ''default'' st"
  let ?tctx = "turn_tool_context_of user sid ?ctx \<lparr>to_channel_id = None, to_channel_context_id = None, to_agent_name = None,
      to_channel_capabilities = caps\<rparr> None"
  obtain x s where ran: "run_with_optional_policy lib gr env fuel sid (push_user (user_message prompt []) ?ctx) ?tctx policy (rs_outside st) = Some (x, s)"
    using assms(2) by (auto simp: run_scheduled_turn_def Let_def)
  have st': "rs_contexts st' = (rs_contexts st)(sid \<mapsto> (case x of Inl _ \<Rightarrow> ?ctx | Inr _ \<Rightarrow> ses_context s))"
    using assms(2) ran by (cases x) (auto simp: run_scheduled_turn_def Let_def)
  obtain c where "grown (ctx_messages (started_context (gr_runtime gr) c policy (push_user (user_message prompt []) ?ctx))) s"
    using run_with_optional_policy_grows[OF ran] ..
  then have "context_ok (gr_runtime gr) (ses_context s)" by (rule context_ok_after)
  with st' context_for_ok[OF assms(1), of sid "''default''"] show ?thesis
    by (cases x) (auto intro: contexts_ok_upd[OF assms(1)])
qed

interpretation runner: invariant_system runner_start "runner_step lib gr" "contexts_ok gr" for lib gr
proof (unfold_locales)
  show "runner_start st \<Longrightarrow> contexts_ok gr st" for st by (simp add: runner_start_def contexts_ok_def)
  show "contexts_ok gr st \<Longrightarrow> runner_step lib gr st st' \<Longrightarrow> contexts_ok gr st'" for st st'
  proof -
    assume ok: "contexts_ok gr st" and step: "runner_step lib gr st st'"
    from step show ?thesis
    proof cases
      case step_turn
      then show ?thesis by (rule contexts_ok_turn[OF ok])
    next
      case step_scheduled
      then show ?thesis by (rule contexts_ok_scheduled[OF ok])
    next
      case step_drop
      then show ?thesis using ok by (simp add: contexts_ok_def drop_session_context_def)
    qed
  qed
qed

text \<open>C8: A failed turn leaves no trace in the conversation. In every state that turns, scheduled turns
  and evictions can lead to, a turn that ends in an error (of the policy guard, the provider, a tool, a
  limit or a cancellation) leaves the stored conversation of its session with exactly the
  messages it had, up to the bytes of old attachments, and every other session as it was.\<close>

theorem failed_turn_rolled_back:
  assumes "reach runner_start (runner_step lib gr) st"
    and "gateway_run_turn lib plus_secs gr env fuel received user sid input origin policy st = Ret (Some (Inl e, items, st'))"
  shows "(\<exists>ctx. rs_contexts st' sid = Some ctx \<and>
       map strip_old_attachments (ctx_messages ctx) =
       map strip_old_attachments (case rs_contexts st sid of Some c \<Rightarrow> ctx_messages c | None \<Rightarrow> [])) \<and>
     (\<forall>other. other \<noteq> sid \<longrightarrow> rs_contexts st' other = rs_contexts st other)"
proof -
  have ok: "contexts_ok gr st" using runner.inv_reach[OF assms(1)] .
  have msgs: "ctx_messages (context_for gr sid agent st) = (case rs_contexts st sid of Some c \<Rightarrow> ctx_messages c | None \<Rightarrow> [])" for agent
    by (simp add: context_for_def base_context_def Let_def split: option.splits)
  from assms(2) show ?thesis
  proof (cases rule: gateway_run_turn_cases)
    case (refused e' agent)
    then show ?thesis by (simp add: msgs)
  next
    case (run agent m caps p s)
    from roll_back_ok(2)[OF run(1) context_for_ok[OF ok] refl] run(3) show ?thesis
      by (simp add: msgs[of agent] o_def)
  qed
qed

definition ex_gateway_runner :: "nat gateway_runner" where
  "ex_gateway_runner = gateway_runner_new ex_runtime \<lparr>sel_provider = ''p'', sel_model = ''m''\<rparr> []"

definition ex_cancelled_env :: "nat call_env" where
  "ex_cancelled_env = ex_env\<lparr>env_is_cancelled := (\<lambda>_. True)\<rparr>"

definition ex_runner_state :: "nat runner_state" where
  "ex_runner_state = \<lparr>rs_contexts = (\<lambda>_. None), rs_outside = 0\<rparr>"

definition ex_origin :: turn_origin where
  "ex_origin = \<lparr>to_channel_id = None, to_channel_context_id = None, to_agent_name = None, to_channel_capabilities = None\<rparr>"

lemma ex_cancelled_turn:
  "\<exists>items st'. gateway_run_turn Provider_Response.ex_libs ex_plus_secs ex_gateway_runner ex_cancelled_env (Suc 0) 0 ''alice'' ''s1''
     \<lparr>ut_prompt = ''hi'', ut_attachments = []\<rparr> ex_origin None ex_runner_state = Ret (Some (Inl ECancelled, items, st'))"
proof -
  have "\<exists>s. run_session_internal Provider_Response.ex_libs ex_runtime ex_cancelled_env (Suc 0) (Some ''s1'') ctx True tctx None w = Some (Inl ECancelled, s)" for ctx tctx w
    by (simp add: run_session_internal_def start_session_def Let_def bind_action_def on_host_def next_memory_sequence_def
      persist_context_tail_if_needed_def ret_action_def lift_action_def validate_guard_preconditions_def duration_is_zero_def
      ex_runtime_def runtime_new_def Provider_Response.ex_limits_def run_turn_def check_cancelled_def
      ex_cancelled_env_def)
  then show ?thesis
    by (simp add: gateway_run_turn_def Let_def resolved_turn_policy_def run_with_optional_policy_def
      run_session_for_session_with_stream_events_def ex_gateway_runner_def gateway_runner_new_def)
qed

theorem failed_turn_rolled_back_witness:
  "\<exists>items st' ctx. gateway_run_turn Provider_Response.ex_libs ex_plus_secs ex_gateway_runner ex_cancelled_env (Suc 0) 0 ''alice'' ''s1''
     \<lparr>ut_prompt = ''hi'', ut_attachments = []\<rparr> ex_origin None ex_runner_state = Ret (Some (Inl ECancelled, items, st')) \<and>
     rs_contexts st' ''s1'' = Some ctx \<and> ctx_messages ctx = []"
proof -
  obtain items st' where turn: "gateway_run_turn Provider_Response.ex_libs ex_plus_secs ex_gateway_runner ex_cancelled_env (Suc 0) 0
      ''alice'' ''s1'' \<lparr>ut_prompt = ''hi'', ut_attachments = []\<rparr> ex_origin None ex_runner_state = Ret (Some (Inl ECancelled, items, st'))"
    using ex_cancelled_turn by blast
  have "reach runner_start (runner_step Provider_Response.ex_libs ex_gateway_runner) ex_runner_state"
    by (rule reach_init) (simp add: runner_start_def ex_runner_state_def)
  from failed_turn_rolled_back[OF this turn] turn show ?thesis by (auto simp: ex_runner_state_def)
qed

section \<open>What is forwarded\<close>

text \<open>No media is lost and no order is changed on the way to the gateway, whenever the run ends; text and
  progress that the loop has not received by then are dropped.\<close>

lemma forwarded_media: "media_of (forwarded_events received events) = media_of events"
proof -
  have media: "media_of (filter P xs) = media_of xs" if "\<And>a. P (SMedia a)" for P and xs
    using that by (induction xs) (auto simp: media_of_def List.map_filter_simps split: stream_item.splits)
  have app: "media_of (xs @ ys) = media_of xs @ media_of ys" for xs ys by (simp add: media_of_def List.map_filter_def)
  have "media_of (forwarded_events received events) = media_of (take received events @ drop received events)"
    unfolding forwarded_events_def app using media[of is_forwarded] media[of is_media]
    by (simp add: is_forwarded_def is_media_def)
  then show ?thesis by simp
qed

text \<open>Budget updates and policy stops never reach the gateway, which has code to record them.\<close>

lemma policy_events_not_forwarded: "SPolicyEvent e \<notin> set (forwarded_events received events)"
  by (auto simp: forwarded_events_def is_forwarded_def is_media_def)

text \<open>The tools offered in the first run of a session stay: once a stored conversation has a list of tools,
  the policy of a later run does not change what is offered.\<close>

lemma stored_tools_outlive_policy:
  "ctx_tools ctx \<noteq> [] \<Longrightarrow> ctx_tools (started_context rt caps policy (push_user m ctx)) = ctx_tools ctx"
  by (simp add: started_context_def offer_tools_def push_user_def inject_system_prompt_def Let_def split: option.splits)

section \<open>Scheduled turns end\<close>

lemma run_with_policy_returns:
  assumes "rollout_mode p = Enforce" and "pol_max_turns p = Some m" and "unat m < fuel"
  shows "\<exists>r s. run_with_optional_policy lib gr env fuel sid ctx tctx (Some p) w = Some (r, s) \<and> ses_turn s \<le> unat m"
proof -
  have "should_block (Some p)" "turn_limit (gr_runtime gr) (Some p) = unat m"
    using assms(1,2) by (simp_all add: should_block_def turn_limit_def)
  with session_returns[of "Some p" "gr_runtime gr" fuel] assms(3) show ?thesis
    by (fastforce simp: run_with_optional_policy_def run_session_for_session_with_policy_def Let_def)
qed

end
