(* ===== verification/Gateway.thy ===== *)
theory Gateway
  imports Turn_Runner
begin

text \<open>
  The gateway server, \<open>gateway/src/lib.rs\<close> and \<open>gateway/src/session.rs\<close>: users and their sessions, the
  admission of turns with its per-user queue and permits, the task that runs a turn, cancellation,
  eviction, the frames of a connection and the routing of scheduled notifications.

  Sessions are shared: the map of a user, the connections and the running tasks hold
  references to the same object. So the sessions live in a heap (a list, the reference is the index)
  and the maps hold references. A hash map is a list sorted by key, which stands for
  the order the source leaves open. The tasks spawned for turns are the list \<open>gw_tasks\<close>; the cancellation
  token of a turn is a flag of its task. One call of an operation is one function, and \<open>gateway_step\<close> (in
  \<open>Gateway_Turns\<close>) lets the operations and the steps of the tasks happen in any order; waiting for a lock or for the store
  inside a call is not a point where another call may come in between. The clock, new ids and what the turn
  runner sends and returns are arguments. Sending to a socket that has failed ends
  the connection and is not modelled.
\<close>

section \<open>Sessions\<close>

record active_turn_state =
  at_turn_id :: string
  at_task :: nat

record session_state =
  gs_session_id :: string
  gs_user_id :: string
  gs_agent_name :: string
  gs_parent_session_id :: "string option"
  gs_channel_origin :: string
  gs_receivers :: nat
  gs_published :: "server_frame list"
  gs_active_turn :: "active_turn_state option"
  gs_latest_terminal_frame :: "server_frame option"
  gs_last_activity :: u64
  gs_turn_count :: nat
  gs_budget_remaining :: "u64 option"
  gs_stop_reason :: "stop_reason option"

definition session_new :: "u64 \<Rightarrow> string \<Rightarrow> string \<Rightarrow> string \<Rightarrow> string option \<Rightarrow> string \<Rightarrow> session_state" where
  "session_new now session_id user_id agent_name parent_session_id channel_origin =
     \<lparr>gs_session_id = session_id, gs_user_id = user_id, gs_agent_name = agent_name,
      gs_parent_session_id = parent_session_id, gs_channel_origin = channel_origin, gs_receivers = 0, gs_published = [],
      gs_active_turn = None, gs_latest_terminal_frame = None, gs_last_activity = now, gs_turn_count = 0,
      gs_budget_remaining = None, gs_stop_reason = None\<rparr>"

definition gateway_session_of :: "session_state \<Rightarrow> gateway_session" where
  "gateway_session_of s = \<lparr>gsn_user_id = gs_user_id s, gsn_session_id = gs_session_id s\<rparr>"

definition active_turn_status :: "session_state \<Rightarrow> gateway_turn_status option" where
  "active_turn_status s = map_option (\<lambda>a. \<lparr>ts_turn_id = at_turn_id a, ts_state = TurnRunning\<rparr>) (gs_active_turn s)"

definition mark_active :: "u64 \<Rightarrow> session_state \<Rightarrow> session_state" where
  "mark_active now s = s\<lparr>gs_last_activity := now\<rparr>"

definition idle_for_at_least :: "u64 \<Rightarrow> u64 \<Rightarrow> session_state \<Rightarrow> bool" where
  "idle_for_at_least now ttl s \<longleftrightarrow> saturating_sub now (gs_last_activity s) \<ge> ttl"

text \<open>A broadcast is received by whoever has subscribed; without a receiver it fails.\<close>

definition try_publish :: "server_frame \<Rightarrow> session_state \<Rightarrow> bool \<times> session_state" where
  "try_publish frame s =
     (if gs_receivers s = 0 then (False, s) else (True, s\<lparr>gs_published := gs_published s @ [frame]\<rparr>))"

definition publish :: "server_frame \<Rightarrow> session_state \<Rightarrow> session_state" where
  "publish frame s = snd (try_publish frame s)"

section \<open>Users, tasks, server\<close>

record user_state =
  us_sessions :: "(string \<times> nat) list"
  us_available :: nat
  us_queued :: nat
  us_max_queued :: nat

definition user_new :: "nat \<Rightarrow> nat \<Rightarrow> user_state" where
  "user_new max_concurrent_turns max_queued_turns =
     \<lparr>us_sessions = [], us_available = max_concurrent_turns, us_queued = 0, us_max_queued = max_queued_turns\<rparr>"

definition try_enqueue_turn :: "user_state \<Rightarrow> bool \<times> user_state" where
  "try_enqueue_turn u = (if us_queued u \<ge> us_max_queued u then (False, u) else (True, u\<lparr>us_queued := us_queued u + 1\<rparr>))"

datatype task_phase = Queued | Running | Ended

record turn_task =
  tk_session :: nat
  tk_user :: string
  tk_send :: send_turn
  tk_origin :: turn_origin
  tk_phase :: task_phase
  tk_cancelled :: bool

record gateway_config =
  gc_max_sessions_per_user :: nat
  gc_max_concurrent_turns_per_user :: nat
  gc_session_idle_ttl_hours :: u64

definition gateway_config_default :: gateway_config where
  "gateway_config_default = \<lparr>gc_max_sessions_per_user = 50, gc_max_concurrent_turns_per_user = 10, gc_session_idle_ttl_hours = 48\<rparr>"

datatype config_error = InvalidGatewayLimit string u64

definition gateway_config_validate :: "gateway_config \<Rightarrow> (config_error, unit) result" where
  "gateway_config_validate config =
     (if gc_max_sessions_per_user config = 0 then Inl (InvalidGatewayLimit ''max_sessions_per_user'' 0)
      else if gc_max_concurrent_turns_per_user config = 0 then Inl (InvalidGatewayLimit ''max_concurrent_turns_per_user'' 0)
      else if gc_session_idle_ttl_hours config = 0 then Inl (InvalidGatewayLimit ''session_idle_ttl_hours'' 0)
      else Inr ())"

record gateway =
  gw_startup_status :: "startup_status_report option"
  gw_users :: "(string \<times> user_state) list"
  gw_heap :: "session_state list"
  gw_tasks :: "turn_task list"
  gw_store :: "session_db option"
  gw_max_sessions_per_user :: nat
  gw_max_concurrent_turns :: nat
  gw_max_queued_turns :: nat
  gw_session_idle_ttl :: u64
  gw_proactive_senders :: "string list"
  gw_proactive_sent :: "(string \<times> string \<times> server_frame) list"
  gw_dropped_contexts :: "string list"

definition with_gateway_config :: "startup_status_report option \<Rightarrow> session_db option \<Rightarrow> gateway_config \<Rightarrow> gateway" where
  "with_gateway_config status session_store config =
     \<lparr>gw_startup_status = status, gw_users = [], gw_heap = [], gw_tasks = [], gw_store = session_store,
      gw_max_sessions_per_user = gc_max_sessions_per_user config,
      gw_max_concurrent_turns = gc_max_concurrent_turns_per_user config,
      gw_max_queued_turns = gc_max_sessions_per_user config,
      gw_session_idle_ttl = saturating_mul (gc_session_idle_ttl_hours config) 3600,
      gw_proactive_senders = [], gw_proactive_sent = [], gw_dropped_contexts = []\<rparr>"

definition register_proactive_sender :: "string \<Rightarrow> gateway \<Rightarrow> gateway" where
  "register_proactive_sender channel_id g = g\<lparr>gw_proactive_senders := List.insert channel_id (gw_proactive_senders g)\<rparr>"

definition GATEWAY_CHANNEL_ID :: string where
  "GATEWAY_CHANNEL_ID = ''tui''"

text \<open>Reading and changing a session through its reference.\<close>

definition session_at :: "gateway \<Rightarrow> nat \<Rightarrow> session_state" where
  "session_at g r = gw_heap g ! r"

definition upd_session :: "nat \<Rightarrow> (session_state \<Rightarrow> session_state) \<Rightarrow> gateway \<Rightarrow> gateway" where
  "upd_session r f g = g\<lparr>gw_heap := (gw_heap g)[r := f (gw_heap g ! r)]\<rparr>"

definition upd_task :: "nat \<Rightarrow> (turn_task \<Rightarrow> turn_task) \<Rightarrow> gateway \<Rightarrow> gateway" where
  "upd_task k f g = g\<lparr>gw_tasks := (gw_tasks g)[k := f (gw_tasks g ! k)]\<rparr>"

definition set_user :: "string \<Rightarrow> user_state \<Rightarrow> gateway \<Rightarrow> gateway" where
  "set_user user_id u g = g\<lparr>gw_users := bt_insert user_id u (gw_users g)\<rparr>"

definition get_or_create_user :: "string \<Rightarrow> gateway \<Rightarrow> user_state \<times> gateway" where
  "get_or_create_user user_id g =
     (case map_of (gw_users g) user_id of
        Some u \<Rightarrow> (u, g)
      | None \<Rightarrow> let u = user_new (gw_max_concurrent_turns g) (gw_max_queued_turns g) in (u, set_user user_id u g))"

text \<open>A call of the session store; \<open>None\<close> without a store.\<close>

definition on_store :: "(session_db, memory_error, 'a) action \<Rightarrow> gateway \<Rightarrow> (memory_error, 'a) result option \<times> gateway" where
  "on_store m g =
     (case gw_store g of
        None \<Rightarrow> (None, g)
      | Some d \<Rightarrow> (case m d of (r, d') \<Rightarrow> (Some r, g\<lparr>gw_store := Some d'\<rparr>)))"

definition add_session :: "string \<Rightarrow> string \<Rightarrow> session_state \<Rightarrow> gateway \<Rightarrow> nat \<times> gateway" where
  "add_session user_id key s g =
     (case get_or_create_user user_id g of (u, g1) \<Rightarrow>
        let r = length (gw_heap g1) in
        (r, set_user user_id (u\<lparr>us_sessions := bt_insert key r (us_sessions u)\<rparr>) (g1\<lparr>gw_heap := gw_heap g1 @ [s]\<rparr>)))"

section \<open>Creating and finding sessions\<close>

definition not_found :: "string \<Rightarrow> string \<Rightarrow> string" where
  "not_found sid user_id = ''session `'' @ sid @ ''` not found for user `'' @ user_id @ ''`''"

definition sessions_reached :: "gateway \<Rightarrow> string" where
  "sessions_reached g = ''maximum sessions reached (limit: '' @ nat_to_string (gw_max_sessions_per_user g) @ '')''"

definition ensure_session_capacity :: "string \<Rightarrow> gateway \<Rightarrow> (string, unit) result \<times> gateway" where
  "ensure_session_capacity user_id g =
     (case get_or_create_user user_id g of (u, g1) \<Rightarrow>
        let in_memory_count = length (us_sessions u) in
        case on_store (store_list_sessions user_id False) g1 of (r, g2) \<Rightarrow>
          let persisted_count = (case r of Some (Inr records) \<Rightarrow> length records | _ \<Rightarrow> in_memory_count) in
          (if max in_memory_count persisted_count \<ge> gw_max_sessions_per_user g then Inl (sessions_reached g) else Inr (), g2))"

definition new_record :: "u64 \<Rightarrow> string \<Rightarrow> string \<Rightarrow> string \<Rightarrow> string \<Rightarrow> session_record" where
  "new_record now session_id user_id agent_name channel_origin =
     \<lparr>sr_session_id = session_id, sr_user_id = user_id, sr_agent_name = agent_name, sr_display_name = None,
      sr_channel_origin = channel_origin, sr_parent_session_id = None, sr_created_at = nat_to_string (unat now),
      sr_last_active_at = nat_to_string (unat now), sr_archived = False\<rparr>"

definition session_of_record :: "u64 \<Rightarrow> session_record \<Rightarrow> session_state" where
  "session_of_record now rec =
     session_new now (sr_session_id rec) (sr_user_id rec) (sr_agent_name rec) (sr_parent_session_id rec) (sr_channel_origin rec)"

definition find_session :: "u64 \<Rightarrow> string \<Rightarrow> string \<Rightarrow> gateway \<Rightarrow> (string, nat) result \<times> gateway" where
  "find_session now user_id sid g =
     (case get_or_create_user user_id g of (u, g1) \<Rightarrow>
        case map_of (us_sessions u) sid of
          Some r \<Rightarrow> (Inr r, g1)
        | None \<Rightarrow>
          (case on_store (store_get_session sid) g1 of
             (Some (Inr (Some rec)), g2) \<Rightarrow>
               (case add_session user_id (sr_session_id rec) (session_of_record now rec) g2 of (r, g3) \<Rightarrow> (Inr r, g3))
           | (_, g2) \<Rightarrow> (Inl (not_found sid user_id), g2)))"

definition create_session :: "u64 \<Rightarrow> string \<Rightarrow> string \<Rightarrow> string \<Rightarrow> string \<Rightarrow> string \<Rightarrow> gateway \<Rightarrow> (string, nat) result \<times> gateway" where
  "create_session now db_now new_session_id user_id agent_name channel_origin g =
     (case ensure_session_capacity user_id g of
        (Inl e, g1) \<Rightarrow> (Inl e, g1)
      | (Inr _, g1) \<Rightarrow>
        (case get_or_create_user user_id g1 of (u, g2) \<Rightarrow>
           if length (us_sessions u) \<ge> gw_max_sessions_per_user g2 then (Inl (sessions_reached g2), g2)
           else case add_session user_id new_session_id (session_new now new_session_id user_id agent_name None channel_origin) g2 of
             (r, g3) \<Rightarrow>
               (Inr r, snd (on_store (store_create_session db_now (new_record now new_session_id user_id agent_name channel_origin)) g3))))"

definition create_or_get_session ::
    "u64 \<Rightarrow> string \<Rightarrow> string \<Rightarrow> string \<Rightarrow> string option \<Rightarrow> string \<Rightarrow> string \<Rightarrow> gateway \<Rightarrow> (string, nat) result \<times> gateway" where
  "create_or_get_session now db_now uuid user_id session_id agent_name channel_origin g =
     (case session_id of
        Some sid \<Rightarrow> find_session now user_id sid g
      | None \<Rightarrow> create_session now db_now uuid user_id agent_name channel_origin g)"

definition ambiguous :: "string \<Rightarrow> nat \<Rightarrow> string" where
  "ambiguous pre n = ''ambiguous session prefix `'' @ pre @ ''`: matches '' @ nat_to_string n @ '' sessions''"

text \<open>The part of \<open>resolve_session_by_prefix\<close> that looks into the store.\<close>

definition resolve_prefix_in_store :: "u64 \<Rightarrow> string \<Rightarrow> string \<Rightarrow> gateway \<Rightarrow> (string, nat) result \<times> gateway" where
  "resolve_prefix_in_store now user_id pre g =
     (case on_store (store_get_session pre) g of
        (Some (Inr (Some rec)), g1) \<Rightarrow> find_session now user_id (sr_session_id rec) g1
      | (_, g1) \<Rightarrow>
        (case on_store (store_list_sessions user_id False) g1 of
           (Some (Inr all), g2) \<Rightarrow>
             (case filter (\<lambda>r. starts_with (sr_session_id r) pre) all of
                [] \<Rightarrow> (Inl (not_found pre user_id), g2)
              | [rec] \<Rightarrow> find_session now user_id (sr_session_id rec) g2
              | ms \<Rightarrow> (Inl (ambiguous pre (length ms)), g2))
         | (_, g2) \<Rightarrow> (Inl (not_found pre user_id), g2)))"

definition resolve_session_by_prefix :: "u64 \<Rightarrow> string \<Rightarrow> string \<Rightarrow> gateway \<Rightarrow> (string, nat) result \<times> gateway" where
  "resolve_session_by_prefix now user_id pre g =
     (case map_of (gw_users g) user_id of
        None \<Rightarrow> (Inl (not_found pre user_id), g)
      | Some u \<Rightarrow>
        (case map_of (us_sessions u) pre of
           Some r \<Rightarrow> (Inr r, g)
         | None \<Rightarrow>
           (case filter (\<lambda>(key, _). starts_with key pre) (us_sessions u) of
              [] \<Rightarrow> if gw_store g = None then (Inl (not_found pre user_id), g) else resolve_prefix_in_store now user_id pre g
            | [(_, r)] \<Rightarrow> (Inr r, g)
            | ms \<Rightarrow> (Inl (ambiguous pre (length ms)), g))))"

definition is_ascii_alphanumeric :: "char \<Rightarrow> bool" where
  "is_ascii_alphanumeric c \<longleftrightarrow> is_ascii_alphabetic c \<or> is_ascii_digit c"

definition default_session_id :: "string \<Rightarrow> string" where
  "default_session_id user_id =
     ''runtime-'' @ concat (map (\<lambda>ch. case ch of [c] \<Rightarrow> if is_ascii_alphanumeric c \<or> c = CHR ''_'' \<or> c = CHR ''-'' then [c] else ''-''
        | _ \<Rightarrow> ''-'') (chars user_id))"

definition default_session :: "u64 \<Rightarrow> string \<Rightarrow> string \<Rightarrow> gateway \<Rightarrow> (string, nat) result \<times> gateway" where
  "default_session now db_now user_id g =
     (let default_id = default_session_id user_id in
      case get_or_create_user user_id g of (u, g1) \<Rightarrow>
        case map_of (us_sessions u) default_id of
          Some r \<Rightarrow> (Inr r, g1)
        | None \<Rightarrow>
          (case on_store (store_get_session default_id) g1 of
             (Some (Inr (Some rec)), g2) \<Rightarrow>
               (case add_session user_id default_id (session_of_record now rec) g2 of (r, g3) \<Rightarrow> (Inr r, g3))
           | (_, g2) \<Rightarrow>
             (case ensure_session_capacity user_id g2 of
                (Inl e, g3) \<Rightarrow> (Inl e, g3)
              | (Inr _, g3) \<Rightarrow>
                (case add_session user_id default_id (session_new now default_id user_id ''default'' None GATEWAY_CHANNEL_ID) g3 of
                   (r, g4) \<Rightarrow>
                     (Inr r, snd (on_store (store_create_session db_now (new_record now default_id user_id ''default'' GATEWAY_CHANNEL_ID)) g4))))))"

definition resolve_session :: "u64 \<Rightarrow> string \<Rightarrow> string \<Rightarrow> client_hello \<Rightarrow> gateway \<Rightarrow> (string, nat) result \<times> gateway" where
  "resolve_session now db_now uuid hello g =
     (if ch_create_new_session hello
      then create_or_get_session now db_now uuid (ch_user_id hello) None ''default'' GATEWAY_CHANNEL_ID g
      else case ch_session_id hello of
        Some session_id \<Rightarrow> create_or_get_session now db_now uuid (ch_user_id hello) (Some session_id) ''default'' GATEWAY_CHANNEL_ID g
      | None \<Rightarrow> default_session now db_now (ch_user_id hello) g)"

definition list_user_sessions :: "string \<Rightarrow> bool \<Rightarrow> gateway \<Rightarrow> (string, session_record list) result \<times> gateway" where
  "list_user_sessions user_id include_archived g =
     (case on_store (store_list_sessions user_id include_archived) g of
        (Some r, g1) \<Rightarrow> (map_err r memory_error_display, g1)
      | (None, g1) \<Rightarrow>
        (Inr (case map_of (gw_users g1) user_id of
           None \<Rightarrow> []
         | Some u \<Rightarrow> map (\<lambda>(_, r). let s = session_at g1 r in
             \<lparr>sr_session_id = gs_session_id s, sr_user_id = gs_user_id s, sr_agent_name = gs_agent_name s, sr_display_name = None,
              sr_channel_origin = gs_channel_origin s, sr_parent_session_id = gs_parent_session_id s, sr_created_at = [],
              sr_last_active_at = [], sr_archived = False\<rparr>) (us_sessions u)), g1))"

section \<open>Admission of a turn\<close>

definition MAX_INLINE_ATTACHMENTS_PER_TURN :: nat where
  "MAX_INLINE_ATTACHMENTS_PER_TURN = 4"

definition MAX_INLINE_ATTACHMENT_BYTES :: nat where
  "MAX_INLINE_ATTACHMENT_BYTES = 10 * 1024 * 1024"

definition MAX_INLINE_ATTACHMENT_TOTAL_BYTES :: nat where
  "MAX_INLINE_ATTACHMENT_TOTAL_BYTES = MAX_INLINE_ATTACHMENTS_PER_TURN * MAX_INLINE_ATTACHMENT_BYTES"

definition is_valid_mime_type :: "string \<Rightarrow> bool" where
  "is_valid_mime_type value =
     (let trimmed = trim value in
      if trimmed = [] \<or> length trimmed > 255 then False
      else if CHR ''/'' \<notin> set trimmed then False
      else let kind = takeWhile (\<lambda>c. c \<noteq> CHR ''/'') trimmed; subtype = tl (dropWhile (\<lambda>c. c \<noteq> CHR ''/'') trimmed) in
        if kind = [] \<or> subtype = [] then False
        else list_all (\<lambda>c. is_ascii_alphanumeric c \<or> c \<in> set ''/-.+_'') trimmed)"

fun validate_attachments_from :: "nat \<Rightarrow> inline_media list \<Rightarrow> (string, unit) result" where
  "validate_attachments_from acc [] = Inr ()"
| "validate_attachments_from acc (a # as) =
     (if \<not> is_valid_mime_type (im_mime_type a) then Inl (''invalid attachment mime_type `'' @ im_mime_type a @ ''`'')
      else if length (im_data a) > MAX_INLINE_ATTACHMENT_BYTES
      then Inl (''attachment too large ('' @ nat_to_string (length (im_data a)) @ '' bytes, limit: '' @
        nat_to_string MAX_INLINE_ATTACHMENT_BYTES @ '' bytes)'')
      else if acc + length (im_data a) > MAX_INLINE_ATTACHMENT_TOTAL_BYTES
      then Inl (''total attachment payload too large ('' @ nat_to_string (acc + length (im_data a)) @ '' bytes, limit: '' @
        nat_to_string MAX_INLINE_ATTACHMENT_TOTAL_BYTES @ '' bytes)'')
      else validate_attachments_from (acc + length (im_data a)) as)"

definition validate_inline_attachments :: "inline_media list \<Rightarrow> (string, unit) result" where
  "validate_inline_attachments attachments =
     (if length attachments > MAX_INLINE_ATTACHMENTS_PER_TURN
      then Inl (''too many attachments (limit: '' @ nat_to_string MAX_INLINE_ATTACHMENTS_PER_TURN @ '')'')
      else validate_attachments_from 0 attachments)"

definition turn_error :: "send_turn \<Rightarrow> session_state \<Rightarrow> gateway_turn_status option \<Rightarrow> string \<Rightarrow> server_frame" where
  "turn_error send s turn message = FError (Some (st_request_id send)) (Some (gateway_session_of s)) turn message"

definition start_turn_with_origin :: "nat \<Rightarrow> send_turn \<Rightarrow> turn_origin \<Rightarrow> gateway \<Rightarrow> server_frame option \<times> gateway" where
  "start_turn_with_origin r send origin g =
     (let s = session_at g r in
      case validate_inline_attachments (st_attachments send) of
        Inl message \<Rightarrow> (Some (turn_error send s None message), g)
      | Inr _ \<Rightarrow>
        (case gs_active_turn s of
           Some a \<Rightarrow> (Some (turn_error send s (Some \<lparr>ts_turn_id = at_turn_id a, ts_state = TurnRunning\<rparr>)
             ''an active turn is already running''), g)
         | None \<Rightarrow>
           let k = length (gw_tasks g);
               g1 = upd_session r (\<lambda>s. s\<lparr>gs_active_turn := Some \<lparr>at_turn_id = st_turn_id send, at_task = k\<rparr>,
                      gs_latest_terminal_frame := None\<rparr>) g
           in case get_or_create_user (gs_user_id s) g1 of (u, g2) \<Rightarrow>
              (case try_enqueue_turn u of
                 (False, _) \<Rightarrow>
                   (Some (turn_error send s None (''too many queued turns (queue limit: '' @ nat_to_string (gw_max_queued_turns g2) @ '')'')),
                    upd_session r (\<lambda>s. s\<lparr>gs_active_turn := None\<rparr>) g2)
               | (True, u') \<Rightarrow>
                   (None, (set_user (gs_user_id s) u' g2)\<lparr>gw_tasks := gw_tasks g2 @ [\<lparr>tk_session = r, tk_user = gs_user_id s,
                      tk_send = send, tk_origin = origin, tk_phase = Queued, tk_cancelled = False\<rparr>]\<rparr>))))"

definition tui_origin :: "session_state \<Rightarrow> turn_origin" where
  "tui_origin s = \<lparr>to_channel_id = Some GATEWAY_CHANNEL_ID, to_channel_context_id = Some (gs_session_id s),
     to_agent_name = Some (gs_agent_name s), to_channel_capabilities = None\<rparr>"

definition submit_turn :: "nat \<Rightarrow> send_turn \<Rightarrow> gateway \<Rightarrow> server_frame option \<times> gateway" where
  "submit_turn r send g = start_turn_with_origin r send (tui_origin (session_at g r)) g"

definition submit_turn_from_channel :: "nat \<Rightarrow> send_turn \<Rightarrow> string \<Rightarrow> string option \<Rightarrow> gateway \<Rightarrow> server_frame option \<times> gateway" where
  "submit_turn_from_channel r send origin_channel_id origin_channel_context_id g =
     start_turn_with_origin r send \<lparr>to_channel_id = Some origin_channel_id, to_channel_context_id = origin_channel_context_id,
       to_agent_name = Some (gs_agent_name (session_at g r)), to_channel_capabilities = None\<rparr> g"

section \<open>The task of a turn\<close>

text \<open>Waiting for a permit ends with a permit or, once the turn is cancelled, without one; either way the
  turn leaves the queue.\<close>

definition leave_queue :: "nat \<Rightarrow> bool \<Rightarrow> gateway \<Rightarrow> gateway" where
  "leave_queue k permit g =
     (let user_id = tk_user (gw_tasks g ! k) in
      case get_or_create_user user_id g of (u, g1) \<Rightarrow>
        set_user user_id (u\<lparr>us_queued := us_queued u - 1, us_available := us_available u - (if permit then 1 else 0)\<rparr>) g1)"

definition release_permit :: "nat \<Rightarrow> gateway \<Rightarrow> gateway" where
  "release_permit k g =
     (let user_id = tk_user (gw_tasks g ! k) in
      case get_or_create_user user_id g of (u, g1) \<Rightarrow> set_user user_id (u\<lparr>us_available := us_available u + 1\<rparr>) g1)"

definition end_turn :: "send_turn \<Rightarrow> server_frame \<Rightarrow> session_state \<Rightarrow> session_state" where
  "end_turn send terminal_frame s =
     publish terminal_frame (s\<lparr>gs_active_turn := (case gs_active_turn s of
            Some a \<Rightarrow> if at_turn_id a = st_turn_id send then None else Some a | None \<Rightarrow> None),
         gs_latest_terminal_frame := Some terminal_frame\<rparr>)"

definition cancelled_frame :: "send_turn \<Rightarrow> session_state \<Rightarrow> server_frame" where
  "cancelled_frame send s = FTurnCancelled (st_request_id send) (gateway_session_of s)
     \<lparr>ts_turn_id = st_turn_id send, ts_state = TurnCancelled\<rparr>"

definition running_status :: "send_turn \<Rightarrow> gateway_turn_status" where
  "running_status send = \<lparr>ts_turn_id = st_turn_id send, ts_state = TurnRunning\<rparr>"

definition task_without_permit :: "nat \<Rightarrow> gateway \<Rightarrow> gateway" where
  "task_without_permit k g =
     (let t = gw_tasks g ! k; r = tk_session t in
      upd_session r (\<lambda>s. end_turn (tk_send t) (cancelled_frame (tk_send t) s) s)
        (upd_task k (\<lambda>t. t\<lparr>tk_phase := Ended\<rparr>) (leave_queue k False g)))"

definition task_with_permit :: "u64 \<Rightarrow> nat \<Rightarrow> gateway \<Rightarrow> gateway" where
  "task_with_permit now k g =
     (let t = gw_tasks g ! k; r = tk_session t; g1 = leave_queue k True g in
      if tk_cancelled t
      then release_permit k (upd_session r (\<lambda>s. end_turn (tk_send t) (cancelled_frame (tk_send t) s) s)
             (upd_task k (\<lambda>t. t\<lparr>tk_phase := Ended\<rparr>) g1))
      else upd_session r (\<lambda>s. publish (FTurnStarted (st_request_id (tk_send t)) (gateway_session_of s) (running_status (tk_send t)))
             (mark_active now s)) (upd_task k (\<lambda>t. t\<lparr>tk_phase := Running\<rparr>) g1))"

definition session_event :: "send_turn \<Rightarrow> stream_item \<Rightarrow> session_state \<Rightarrow> session_state" where
  "session_event send item s =
     (case item of
        SText delta \<Rightarrow> publish (FAssistantDelta (st_request_id send) (gateway_session_of s) (running_status send) delta) s
      | SProgress progress \<Rightarrow>
          publish (FTurnProgress (st_request_id send) (gateway_session_of s) (running_status send) progress)
            (s\<lparr>gs_turn_count := pe_turn progress\<rparr>)
      | SPolicyEvent (BudgetUpdate remaining) \<Rightarrow> s\<lparr>gs_budget_remaining := Some remaining\<rparr>
      | SPolicyEvent (PolicyStop reason) \<Rightarrow> s\<lparr>gs_stop_reason := Some reason\<rparr>
      | SMedia attachment \<Rightarrow> publish (FMediaAttachment (st_request_id send) (gateway_session_of s) attachment None) s
      | _ \<Rightarrow> s)"

definition task_event :: "nat \<Rightarrow> stream_item \<Rightarrow> gateway \<Rightarrow> gateway" where
  "task_event k item g = (let t = gw_tasks g ! k in upd_session (tk_session t) (session_event (tk_send t) item) g)"

text \<open>How a turn ended: with a result of the runner, or with a panic, which the task catches.\<close>

datatype turn_end = Returned "(runtime_error, response) result" | Panicked string

fun stop_reason_of :: "turn_end \<Rightarrow> stop_reason" where
  "stop_reason_of (Returned (Inr _)) = Completed"
| "stop_reason_of (Returned (Inl ECancelled)) = StopCancelled"
| "stop_reason_of (Returned (Inl EBudgetExceeded)) = MaxBudgetExceeded"
| "stop_reason_of (Returned (Inl ETurnLimitExceeded)) = MaxTurns"
| "stop_reason_of (Returned (Inl EDeadlineExceeded)) = MaxRuntimeExceeded"
| "stop_reason_of (Returned (Inl e)) = StopError (runtime_error_display e)"
| "stop_reason_of (Panicked message) = StopError (''internal error: turn panicked: '' @ message)"

definition failed_frame :: "send_turn \<Rightarrow> session_state \<Rightarrow> string \<Rightarrow> server_frame" where
  "failed_frame send s message = turn_error send s (Some \<lparr>ts_turn_id = st_turn_id send, ts_state = TurnFailed\<rparr>) message"

fun terminal_frame :: "send_turn \<Rightarrow> session_state \<Rightarrow> turn_end \<Rightarrow> server_frame" where
  "terminal_frame send s (Returned (Inr rsp)) = FTurnCompleted (st_request_id send) (gateway_session_of s)
     \<lparr>ts_turn_id = st_turn_id send, ts_state = TurnCompleted\<rparr> rsp"
| "terminal_frame send s (Returned (Inl e)) =
     (if e = ECancelled then cancelled_frame send s else failed_frame send s (runtime_error_display e))"
| "terminal_frame send s (Panicked message) = failed_frame send s (''internal error: turn panicked: '' @ message)"

definition task_finish :: "u64 \<Rightarrow> string \<Rightarrow> nat \<Rightarrow> turn_end \<Rightarrow> gateway \<Rightarrow> gateway" where
  "task_finish now db_now k fin g =
     (let t = gw_tasks g ! k; r = tk_session t; s0 = session_at g r;
          g1 = upd_session r (\<lambda>s. mark_active now (end_turn (tk_send t) (terminal_frame (tk_send t) s fin)
                 (s\<lparr>gs_stop_reason := Some (stop_reason_of fin)\<rparr>))) g;
          g2 = snd (on_store (store_touch_session db_now (gs_session_id s0)) g1)
      in release_permit k (upd_task k (\<lambda>t. t\<lparr>tk_phase := Ended\<rparr>) g2))"

text \<open>The call of the turn runner, and a task from the first event of its run to its end. The loop of the task ends
  as soon as it sees that the run has returned, so of the events the run has sent it handles the first \<open>delivered\<close>.\<close>

definition origin_with_caps :: "turn_origin \<Rightarrow> turn_origin" where
  "origin_with_caps origin = origin\<lparr>to_channel_capabilities := map_option from_channel_origin (to_channel_id origin)\<rparr>"

definition run_task ::
    "libs \<Rightarrow> (datetime \<Rightarrow> int \<Rightarrow> datetime option) \<Rightarrow> 'w gateway_runner \<Rightarrow> 'w call_env \<Rightarrow> nat \<Rightarrow> nat \<Rightarrow> nat \<Rightarrow> gateway \<Rightarrow> 'w runner_state \<Rightarrow>
     ((runtime_error, response) result \<times> stream_item list \<times> 'w runner_state) option may_panic" where
  "run_task lib plus_secs gr env fuel received k g st =
     (let t = gw_tasks g ! k; s = session_at g (tk_session t) in
      gateway_run_turn lib plus_secs gr env fuel received (gs_user_id s) (gs_session_id s)
        \<lparr>ut_prompt = st_prompt (tk_send t), ut_attachments = st_attachments (tk_send t)\<rparr>
        (origin_with_caps (tk_origin t)) None st)"

definition run_task_to_end ::
    "libs \<Rightarrow> (datetime \<Rightarrow> int \<Rightarrow> datetime option) \<Rightarrow> 'w gateway_runner \<Rightarrow> 'w call_env \<Rightarrow> nat \<Rightarrow> nat \<Rightarrow> nat \<Rightarrow> u64 \<Rightarrow> string \<Rightarrow> string \<Rightarrow> nat \<Rightarrow>
     gateway \<times> 'w runner_state \<Rightarrow> (gateway \<times> 'w runner_state) option" where
  "run_task_to_end lib plus_secs gr env fuel received delivered now db_now panic_message k gs =
     (case gs of (g, st) \<Rightarrow>
        case run_task lib plus_secs gr env fuel received k g st of
          Panic \<Rightarrow> Some (task_finish now db_now k (Panicked panic_message) g, st)
        | Ret None \<Rightarrow> None
        | Ret (Some (r, items, st')) \<Rightarrow>
            Some (task_finish now db_now k (Returned r) (fold (task_event k) (take delivered items) g), st'))"

section \<open>Cancellation and status\<close>

definition cancel_session_active_turn :: "nat \<Rightarrow> gateway \<Rightarrow> bool \<times> gateway" where
  "cancel_session_active_turn r g =
     (case gs_active_turn (session_at g r) of
        Some a \<Rightarrow> (True, upd_task (at_task a) (\<lambda>t. t\<lparr>tk_cancelled := True\<rparr>) g)
      | None \<Rightarrow> (False, g))"

definition cancel_turn :: "nat \<Rightarrow> string \<Rightarrow> gateway \<Rightarrow> server_frame option \<times> gateway" where
  "cancel_turn r request_id g =
     (case cancel_session_active_turn r g of
        (True, g1) \<Rightarrow> (None, g1)
      | (False, g1) \<Rightarrow> (Some (FError (Some request_id) (Some (gateway_session_of (session_at g r))) None ''no active turn to cancel''), g1))"

fun cancel_each :: "nat list \<Rightarrow> gateway \<Rightarrow> nat \<times> gateway" where
  "cancel_each [] g = (0, g)"
| "cancel_each (r # rs) g =
     (case cancel_session_active_turn r g of (hit, g1) \<Rightarrow>
        (case cancel_each rs g1 of (n, g2) \<Rightarrow> ((if hit then 1 else 0) + n, g2)))"

definition cancel_all_user_turns :: "string \<Rightarrow> gateway \<Rightarrow> nat \<times> gateway" where
  "cancel_all_user_turns user_id g =
     (case map_of (gw_users g) user_id of
        None \<Rightarrow> (0, g)
      | Some u \<Rightarrow> cancel_each (map snd (us_sessions u)) g)"

definition cancel_session :: "u64 \<Rightarrow> string \<Rightarrow> string \<Rightarrow> gateway \<Rightarrow> (string, unit) result \<times> gateway" where
  "cancel_session now user_id session_id g =
     (case find_session now user_id session_id g of
        (Inl e, g1) \<Rightarrow> (Inl e, g1)
      | (Inr r, g1) \<Rightarrow> (case cancel_session_active_turn r g1 of
          (True, g2) \<Rightarrow> (Inr (), g2)
        | (False, g2) \<Rightarrow> (Inl ''no active turn to cancel'', g2)))"

definition get_session_status :: "u64 \<Rightarrow> string \<Rightarrow> string \<Rightarrow> gateway \<Rightarrow> (string, session_status) result \<times> gateway" where
  "get_session_status now user_id session_id g =
     (case find_session now user_id session_id g of
        (Inl e, g1) \<Rightarrow> (Inl e, g1)
      | (Inr r, g1) \<Rightarrow> let s = session_at g1 r in
          (Inr \<lparr>sst_turn = gs_turn_count s, sst_budget_remaining = gs_budget_remaining s,
             sst_is_active = (gs_active_turn s \<noteq> None), sst_stop_reason = gs_stop_reason s\<rparr>, g1))"

definition health_status :: "nat \<Rightarrow> string \<Rightarrow> gateway \<Rightarrow> server_frame" where
  "health_status r request_id g =
     (let s = session_at g r;
          message = (case gw_startup_status g of
              Some st \<Rightarrow> if is_degraded st
                then GATEWAY_CHANNEL_ID @ '' gateway ready with degraded startup: '' @ join '' | '' (map sdr_detail (ss_degraded_reasons st))
                else GATEWAY_CHANNEL_ID @ '' gateway ready''
            | None \<Rightarrow> GATEWAY_CHANNEL_ID @ '' gateway ready'')
      in FHealthStatus request_id True (Some (gateway_session_of s)) (active_turn_status s) (gw_startup_status g) (Some message))"

section \<open>Eviction\<close>

definition is_stale :: "u64 \<Rightarrow> gateway \<Rightarrow> nat \<Rightarrow> bool" where
  "is_stale now g r \<longleftrightarrow> gs_receivers (session_at g r) = 0 \<and> idle_for_at_least now (gw_session_idle_ttl g) (session_at g r)"

definition evict_session :: "u64 \<Rightarrow> string \<Rightarrow> string \<Rightarrow> string \<Rightarrow> gateway \<Rightarrow> gateway" where
  "evict_session now db_now user_id session_id g =
     (case map_of (gw_users g) user_id of
        None \<Rightarrow> g
      | Some u \<Rightarrow>
          if (case map_of (us_sessions u) session_id of Some r \<Rightarrow> is_stale now g r | None \<Rightarrow> False)
          then let g1 = set_user user_id (u\<lparr>us_sessions := bt_remove session_id (us_sessions u)\<rparr>) g;
                   g2 = snd (on_store (store_archive_session db_now session_id) g1)
               in g2\<lparr>gw_dropped_contexts := gw_dropped_contexts g2 @ [session_id]\<rparr>
          else g)"

definition cleanup_user :: "u64 \<Rightarrow> string \<Rightarrow> string \<times> user_state \<Rightarrow> gateway \<Rightarrow> gateway" where
  "cleanup_user now db_now entry g =
     (case entry of (user_id, u) \<Rightarrow>
        fold (evict_session now db_now user_id) (map fst (filter (\<lambda>(_, r). is_stale now g r) (us_sessions u))) g)"

definition cleanup_sessions_once :: "u64 \<Rightarrow> string \<Rightarrow> gateway \<Rightarrow> gateway" where
  "cleanup_sessions_once now db_now g = fold (cleanup_user now db_now) (gw_users g) g"

section \<open>Connections\<close>

record connection =
  cn_session :: nat
  cn_sent :: "server_frame list"

definition subscribe :: "nat \<Rightarrow> gateway \<Rightarrow> gateway" where
  "subscribe r = upd_session r (\<lambda>s. s\<lparr>gs_receivers := gs_receivers s + 1\<rparr>)"

definition unsubscribe :: "nat \<Rightarrow> gateway \<Rightarrow> gateway" where
  "unsubscribe r = upd_session r (\<lambda>s. s\<lparr>gs_receivers := gs_receivers s - 1\<rparr>)"

definition send_frame :: "server_frame \<Rightarrow> connection \<Rightarrow> connection" where
  "send_frame frame c = c\<lparr>cn_sent := cn_sent c @ [frame]\<rparr>"

definition send_error :: "string option \<Rightarrow> gateway \<Rightarrow> string \<Rightarrow> connection \<Rightarrow> connection" where
  "send_error request_id g message c =
     send_frame (FError request_id (Some (gateway_session_of (session_at g (cn_session c)))) None message) c"

definition send_opt :: "server_frame option \<Rightarrow> connection \<Rightarrow> connection" where
  "send_opt frame c = (case frame of Some f \<Rightarrow> send_frame f c | None \<Rightarrow> c)"

definition switch_to :: "nat \<Rightarrow> connection \<Rightarrow> gateway \<Rightarrow> connection \<times> gateway" where
  "switch_to r c g = (c\<lparr>cn_session := r\<rparr>, unsubscribe (cn_session c) (subscribe r g))"

definition summary_of_record :: "session_record \<Rightarrow> session_summary" where
  "summary_of_record r = \<lparr>su_session_id = sr_session_id r, su_agent_name = sr_agent_name r, su_display_name = sr_display_name r,
     su_channel_origin = sr_channel_origin r, su_created_at = sr_created_at r, su_last_active_at = sr_last_active_at r,
     su_archived = sr_archived r\<rparr>"

text \<open>The handshake: the first frame of a connection.\<close>

definition handle_hello :: "u64 \<Rightarrow> string \<Rightarrow> string \<Rightarrow> client_frame \<Rightarrow> gateway \<Rightarrow> (server_frame, connection) result \<times> gateway" where
  "handle_hello now db_now uuid frame g =
     (case frame of
        CHello hello \<Rightarrow>
          if ch_protocol_version hello \<noteq> GATEWAY_PROTOCOL_VERSION
          then (Inl (FError (Some (ch_request_id hello)) None None (''unsupported protocol version '' @
                 nat_to_string (ch_protocol_version hello) @ ''; expected '' @ nat_to_string GATEWAY_PROTOCOL_VERSION)), g)
          else (case resolve_session now db_now uuid hello g of
             (Inl message, g1) \<Rightarrow> (Inl (FError (Some (ch_request_id hello)) None None message), g1)
           | (Inr r, g1) \<Rightarrow>
               let g2 = subscribe r g1; s = session_at g2 r;
                   ack = FHelloAck (ch_request_id hello) GATEWAY_PROTOCOL_VERSION (gateway_session_of s) (active_turn_status s);
                   outcome = (if gs_active_turn s = None then gs_latest_terminal_frame s else None)
               in (Inr (send_opt outcome \<lparr>cn_session = r, cn_sent = [ack]\<rparr>), g2))
      | _ \<Rightarrow> (Inl (FError None None None ''expected hello as first frame''), g))"

definition handle_send_turn :: "send_turn \<Rightarrow> connection \<Rightarrow> gateway \<Rightarrow> connection \<times> gateway" where
  "handle_send_turn send c g =
     (if st_session_id send \<noteq> gs_session_id (session_at g (cn_session c))
      then (send_error (Some (st_request_id send)) g ''session_id does not match active session'' c, g)
      else case submit_turn (cn_session c) send g of (f, g1) \<Rightarrow> (send_opt f c, g1))"

definition handle_cancel :: "string \<Rightarrow> string \<Rightarrow> connection \<Rightarrow> gateway \<Rightarrow> connection \<times> gateway" where
  "handle_cancel request_id session_id c g =
     (if session_id \<noteq> gs_session_id (session_at g (cn_session c))
      then (send_error (Some request_id) g ''session_id does not match active session'' c, g)
      else case cancel_turn (cn_session c) request_id g of (f, g1) \<Rightarrow> (send_opt f c, g1))"

definition handle_create :: "u64 \<Rightarrow> string \<Rightarrow> string \<Rightarrow> string \<Rightarrow> string option \<Rightarrow> string option \<Rightarrow> connection \<Rightarrow> gateway \<Rightarrow> connection \<times> gateway" where
  "handle_create now db_now uuid request_id display_name agent_name c g =
     (let user_id = gs_user_id (session_at g (cn_session c));
          agent = (case agent_name of Some a \<Rightarrow> a | None \<Rightarrow> ''default'')
      in case create_or_get_session now db_now uuid user_id None agent GATEWAY_CHANNEL_ID g of
           (Inl message, g1) \<Rightarrow> (send_error (Some request_id) g1 message c, g1)
         | (Inr r, g1) \<Rightarrow>
             let g2 = (case display_name of
                   Some name \<Rightarrow> snd (on_store (store_update_display_name db_now (gs_session_id (session_at g1 r)) name) g1)
                 | None \<Rightarrow> g1)
             in case switch_to r c g2 of (c1, g3) \<Rightarrow>
                  let s = session_at g3 r in
                  (send_frame (FSessionCreated request_id (gateway_session_of s) display_name (gs_agent_name s)) c1, g3))"

definition handle_list :: "string \<Rightarrow> bool \<Rightarrow> bool \<Rightarrow> connection \<Rightarrow> gateway \<Rightarrow> connection \<times> gateway" where
  "handle_list request_id include_archived include_subagent_sessions c g =
     (case list_user_sessions (gs_user_id (session_at g (cn_session c))) include_archived g of
        (Inl message, g1) \<Rightarrow> (send_error (Some request_id) g1 message c, g1)
      | (Inr records, g1) \<Rightarrow>
          (send_frame (FSessionList request_id (map summary_of_record
             (filter (\<lambda>r. include_subagent_sessions \<or> sr_parent_session_id r = None) records))) c, g1))"

definition handle_switch :: "u64 \<Rightarrow> string \<Rightarrow> string \<Rightarrow> connection \<Rightarrow> gateway \<Rightarrow> connection \<times> gateway" where
  "handle_switch now request_id session_id c g =
     (case resolve_session_by_prefix now (gs_user_id (session_at g (cn_session c))) session_id g of
        (Inl message, g1) \<Rightarrow> (send_error (Some request_id) g1 message c, g1)
      | (Inr r, g1) \<Rightarrow>
          (case switch_to r c g1 of (c1, g2) \<Rightarrow>
             let s = session_at g2 r in
             (send_frame (FSessionSwitched request_id (gateway_session_of s) (active_turn_status s)) c1, g2)))"

definition handle_client_frame ::
    "u64 \<Rightarrow> string \<Rightarrow> string \<Rightarrow> client_frame \<Rightarrow> connection \<Rightarrow> gateway \<Rightarrow> connection \<times> gateway" where
  "handle_client_frame now db_now uuid frame c g =
     (case frame of
        CHello _ \<Rightarrow> (send_error None g ''hello already negotiated for this websocket connection'' c, g)
      | CSendTurn send \<Rightarrow> handle_send_turn send c g
      | CCancelActiveTurn request_id session_id _ \<Rightarrow> handle_cancel request_id session_id c g
      | CCancelAllActiveTurns request_id \<Rightarrow>
          (case cancel_all_user_turns (gs_user_id (session_at g (cn_session c))) g of (n, g1) \<Rightarrow>
             (if n = 0 then send_error (Some request_id) g1 ''no active turns to cancel'' c else c, g1))
      | CHealthCheck request_id \<Rightarrow> (send_frame (health_status (cn_session c) request_id g) c, g)
      | CCreateSession request_id display_name agent_name \<Rightarrow> handle_create now db_now uuid request_id display_name agent_name c g
      | CListSessions request_id include_archived include_subagent_sessions \<Rightarrow>
          handle_list request_id include_archived include_subagent_sessions c g
      | CSwitchSession request_id session_id \<Rightarrow> handle_switch now request_id session_id c g)"

section \<open>Scheduled notifications\<close>

definition is_connected_tui :: "session_state \<Rightarrow> bool" where
  "is_connected_tui s \<longleftrightarrow> gs_channel_origin s = GATEWAY_CHANNEL_ID \<and> gs_parent_session_id s = None \<and> gs_receivers s > 0"

definition publish_to :: "server_frame \<Rightarrow> nat list \<Rightarrow> gateway \<Rightarrow> gateway" where
  "publish_to frame rs g = fold (\<lambda>r. upd_session r (publish frame)) rs g"

definition notify_tui :: "user_state \<Rightarrow> string \<Rightarrow> server_frame \<Rightarrow> gateway \<Rightarrow> gateway" where
  "notify_tui u session_id frame g =
     (case map_of (us_sessions u) session_id of
        Some r \<Rightarrow>
          if gs_channel_origin (session_at g r) = GATEWAY_CHANNEL_ID \<and> fst (try_publish frame (session_at g r))
          then upd_session r (publish frame) g
          else publish_to frame (filter (\<lambda>r. is_connected_tui (session_at g r)) (map snd (us_sessions u))) g
      | None \<Rightarrow> publish_to frame (filter (\<lambda>r. is_connected_tui (session_at g r)) (map snd (us_sessions u))) g)"

definition gateway_notify_user :: "schedule_definition \<Rightarrow> server_frame \<Rightarrow> gateway \<Rightarrow> gateway" where
  "gateway_notify_user schedule frame g =
     (case sd_channel_id schedule of
        Some channel_id \<Rightarrow>
          if channel_id = GATEWAY_CHANNEL_ID
          then (case (sd_channel_context_id schedule, map_of (gw_users g) (sd_user_id schedule)) of
                  (Some session_id, Some u) \<Rightarrow> notify_tui u session_id frame g
                | _ \<Rightarrow> g)
          else (case sd_channel_context_id schedule of
                  Some ctx_id \<Rightarrow>
                    if channel_id \<in> set (gw_proactive_senders g)
                    then g\<lparr>gw_proactive_sent := gw_proactive_sent g @ [(channel_id, ctx_id, frame)]\<rparr> else g
                | None \<Rightarrow> g)
      | None \<Rightarrow>
          (case map_of (gw_users g) (sd_user_id schedule) of
             Some u \<Rightarrow> publish_to frame (map snd (us_sessions u)) g
           | None \<Rightarrow> g))"

end
