(* ===== verification/Gateway_Turns.thy ===== *)
theory Gateway_Turns
  imports Gateway
begin

text \<open>
  Turns of the gateway under any interleaving of its operations: the limits on running and queued turns of a
  user, and at most one turn per session. What matters of a state is its projection: the
  active turn of every session, and session, user, turn id and phase of every task,
  and the three counters of every user. Operations that do not start, move or end a turn are
  \<open>calm\<close>.
\<close>

section \<open>Projection\<close>

type_synonym task_view = "nat \<times> string \<times> string \<times> task_phase"

definition task_view :: "turn_task \<Rightarrow> task_view" where
  "task_view t = (tk_session t, tk_user t, st_turn_id (tk_send t), tk_phase t)"

definition active_view :: "gateway \<Rightarrow> active_turn_state option list" where
  "active_view g = map gs_active_turn (gw_heap g)"

definition tasks_view :: "gateway \<Rightarrow> task_view list" where
  "tasks_view g = map task_view (gw_tasks g)"

text \<open>Queued turns, free permits and queue limit of a user; a user that has no state yet counts as new.\<close>

definition counts_view :: "gateway \<Rightarrow> string \<Rightarrow> nat \<times> nat \<times> nat" where
  "counts_view g user =
     (let u = (case map_of (gw_users g) user of Some u \<Rightarrow> u | None \<Rightarrow> user_new (gw_max_concurrent_turns g) (gw_max_queued_turns g))
      in (us_queued u, us_available u, us_max_queued u))"

definition in_phase :: "string \<Rightarrow> task_phase \<Rightarrow> task_view \<Rightarrow> bool" where
  "in_phase user ph v \<longleftrightarrow> (case v of (_, u, _, p) \<Rightarrow> u = user \<and> p = ph)"

definition cnt :: "task_view list \<Rightarrow> string \<Rightarrow> task_phase \<Rightarrow> nat" where
  "cnt T user ph = length (filter (in_phase user ph) T)"

text \<open>A task that has not ended holds its session; a turn of a session is a task that has not ended; the counters count.\<close>

definition tasks_hold :: "active_turn_state option list \<Rightarrow> task_view list \<Rightarrow> bool" where
  "tasks_hold A T \<longleftrightarrow> (\<forall>k<length T. case T ! k of (r, _, tid, ph) \<Rightarrow>
     r < length A \<and> (ph \<noteq> Ended \<longrightarrow> A ! r = Some \<lparr>at_turn_id = tid, at_task = k\<rparr>))"

definition turns_live :: "active_turn_state option list \<Rightarrow> task_view list \<Rightarrow> bool" where
  "turns_live A T \<longleftrightarrow> (\<forall>r<length A. \<forall>a. A ! r = Some a \<longrightarrow> at_task a < length T \<and>
     (case T ! at_task a of (r', _, _, ph) \<Rightarrow> r' = r \<and> ph \<noteq> Ended))"

definition counters_count :: "nat \<Rightarrow> nat \<Rightarrow> task_view list \<Rightarrow> (string \<Rightarrow> nat \<times> nat \<times> nat) \<Rightarrow> bool" where
  "counters_count mc mq T C \<longleftrightarrow> (\<forall>user. case C user of (q, av, m) \<Rightarrow>
     q = cnt T user Queued \<and> av + cnt T user Running = mc \<and> m = mq \<and> q \<le> mq)"

definition turn_inv ::
    "nat \<Rightarrow> nat \<Rightarrow> active_turn_state option list \<Rightarrow> task_view list \<Rightarrow> (string \<Rightarrow> nat \<times> nat \<times> nat) \<Rightarrow> bool" where
  "turn_inv mc mq A T C \<longleftrightarrow> tasks_hold A T \<and> turns_live A T \<and> counters_count mc mq T C"

lemmas turn_inv_defs = turn_inv_def tasks_hold_def turns_live_def counters_count_def

section \<open>Moves of the projection\<close>

lemma length_filter_update:
  "i < length xs \<Longrightarrow> length (filter P (xs[i := x])) + (if P (xs ! i) then 1 else 0) = length (filter P xs) + (if P x then 1 else (0::nat))"
proof (induction xs arbitrary: i)
  case (Cons y ys)
  then show ?case by (cases i) (auto simp: nth_Cons split: if_splits)
qed simp

lemma cnt_append: "cnt (T @ [v]) user ph = cnt T user ph + (if in_phase user ph v then 1 else 0)"
  by (simp add: cnt_def)

lemma cnt_update: "k < length T \<Longrightarrow>
    cnt (T[k := v]) user ph + (if in_phase user ph (T ! k) then 1 else 0) = cnt T user ph + (if in_phase user ph v then 1 else 0)"
  unfolding cnt_def by (rule length_filter_update)

lemma cnt_pos: "k < length T \<Longrightarrow> T ! k = (r, user, tid, ph) \<Longrightarrow> 0 < cnt T user ph"
  using nth_mem[of k T] by (force simp: cnt_def in_phase_def filter_empty_conv)

lemma turn_inv_grow:
  assumes "turn_inv mc mq A T C"
  shows "turn_inv mc mq (A @ replicate n None) T C"
  using assms unfolding turn_inv_defs
  by (auto simp: nth_append split: prod.splits if_splits)

lemma turn_inv_enqueue:
  assumes inv: "turn_inv mc mq A T C" and r: "r < length A" "A ! r = None"
    and q: "C user = (q, av, m)" "q < m"
  shows "turn_inv mc mq (A[r := Some \<lparr>at_turn_id = tid, at_task = length T\<rparr>]) (T @ [(r, user, tid, Queued)]) (C(user := (q + 1, av, m)))"
proof -
  have "\<forall>k<length T. case T ! k of (r', _, tid, ph) \<Rightarrow> ph \<noteq> Ended \<longrightarrow> r' \<noteq> r"
    using inv r(2) by (fastforce simp: turn_inv_defs split: prod.splits)
  with inv r q show ?thesis
    unfolding turn_inv_defs
    by (auto simp: nth_append nth_list_update cnt_append in_phase_def less_Suc_eq split: prod.splits if_splits)
qed

lemma turn_inv_counts:
  assumes "turn_inv mc mq A T C" and "C user = (q, av, m)"
  shows "q = cnt T user Queued" "av + cnt T user Running = mc" "m = mq" "q \<le> mq"
  using assms by (auto simp: turn_inv_defs dest!: spec[where x = user])

lemma tasks_hold_active:
  assumes "tasks_hold A T" and "k < length T" "T ! k = (r, user, tid, ph)"
  shows "r < length A" "ph \<noteq> Ended \<longrightarrow> A ! r = Some \<lparr>at_turn_id = tid, at_task = k\<rparr>"
  using assms by (auto simp: tasks_hold_def dest!: spec[where x = k])

lemma turn_inv_active:
  assumes "turn_inv mc mq A T C" and "k < length T" "T ! k = (r, user, tid, ph)" "ph \<noteq> Ended"
  shows "r < length A" "A ! r = Some \<lparr>at_turn_id = tid, at_task = k\<rparr>"
  using tasks_hold_active[OF _ assms(2,3)] assms(1,4) by (auto simp: turn_inv_def)

text \<open>A live task moves to another phase; its session is free again when the task has ended.\<close>

lemma tasks_hold_move:
  assumes hold: "tasks_hold A T" and k: "k < length T" "T ! k = (r, user, tid, ph)" "ph \<noteq> Ended"
  shows "tasks_hold (if ph' = Ended then A[r := None] else A) (T[k := (r, user, tid, ph')])"
    (is "tasks_hold ?A ?T")
  unfolding tasks_hold_def
proof (intro allI impI)
  fix j assume j: "j < length ?T"
  have act: "r < length A" "A ! r = Some \<lparr>at_turn_id = tid, at_task = k\<rparr>" using tasks_hold_active[OF hold k(1,2)] k(3) by auto
  show "case ?T ! j of (r', _, tid', p) \<Rightarrow> r' < length ?A \<and> (p \<noteq> Ended \<longrightarrow> ?A ! r' = Some \<lparr>at_turn_id = tid', at_task = j\<rparr>)"
  proof (cases "j = k")
    case True
    with act k(1) show ?thesis by simp
  next
    case False
    obtain r' u' tid' p where v: "T ! j = (r', u', tid', p)" by (metis prod.collapse)
    with tasks_hold_active[OF hold _ v] j False act show ?thesis by (auto simp: nth_list_update)
  qed
qed

lemma turns_live_move:
  assumes live: "turns_live A T" and k: "k < length T" "T ! k = (r, user, tid, ph)" and r: "r < length A"
  shows "turns_live (if ph' = Ended then A[r := None] else A) (T[k := (r, user, tid, ph')])"
    (is "turns_live ?A ?T")
  unfolding turns_live_def
proof (intro allI impI)
  fix r0 a assume a: "r0 < length ?A" "?A ! r0 = Some a"
  have old: "A ! r0 = Some a" "r0 < length A" and fresh: "r0 = r \<longrightarrow> ph' \<noteq> Ended"
    using a r by (auto split: if_splits simp: nth_list_update)
  then have "at_task a < length T \<and> (case T ! at_task a of (r', _, _, p) \<Rightarrow> r' = r0 \<and> p \<noteq> Ended)"
    using live by (simp add: turns_live_def)
  then show "at_task a < length ?T \<and> (case ?T ! at_task a of (r', _, _, p) \<Rightarrow> r' = r0 \<and> p \<noteq> Ended)"
    using k fresh by (auto simp: nth_list_update split: prod.splits)
qed

lemma turn_inv_move:
  assumes inv: "turn_inv mc mq A T C" and k: "k < length T" "T ! k = (r, user, tid, ph)" "ph \<noteq> Ended"
    and q: "q' + (if ph = Queued then 1 else 0) = cnt T user Queued + (if ph' = Queued then 1 else 0)" "q' \<le> mq"
    and av: "av' + cnt T user Running + (if ph' = Running then 1 else 0) = mc + (if ph = Running then 1 else 0)"
  shows "turn_inv mc mq (if ph' = Ended then A[r := None] else A) (T[k := (r, user, tid, ph')]) (C(user := (q', av', mq)))"
proof -
  let ?T = "T[k := (r, user, tid, ph')]"
  have c: "cnt ?T u p + (if u = user \<and> p = ph then 1 else 0) = cnt T u p + (if u = user \<and> p = ph' then 1 else 0)" for u p
    using cnt_update[OF k(1), of "(r, user, tid, ph')" u p] by (auto simp: k(2) in_phase_def)
  have "case (C(user := (q', av', mq))) u of (q, av, m) \<Rightarrow>
      q = cnt ?T u Queued \<and> av + cnt ?T u Running = mc \<and> m = mq \<and> q \<le> mq" for u
  proof (cases "u = user")
    case True
    then show ?thesis using c[of user Queued] c[of user Running] q av k(3) by (cases ph; cases ph') auto
  next
    case False
    obtain q av m where "C u = (q, av, m)" by (metis prod.collapse)
    from turn_inv_counts[OF inv this] this False show ?thesis using c[of u Queued] c[of u Running] by simp
  qed
  then have "counters_count mc mq ?T (C(user := (q', av', mq)))" by (simp add: counters_count_def)
  with inv show ?thesis
    using tasks_hold_move[OF _ k] turns_live_move[OF _ k(1,2) turn_inv_active(1)[OF inv k]] by (simp add: turn_inv_def)
qed

lemma turn_inv_start:
  assumes inv: "turn_inv mc mq A T C" and k: "k < length T" "T ! k = (r, user, tid, Queued)"
    and q: "C user = (q, av, m)" "0 < av"
  shows "turn_inv mc mq A (T[k := (r, user, tid, Running)]) (C(user := (q - 1, av - 1, m)))"
proof -
  have "0 < cnt T user Queued" using cnt_pos[OF k(1)] k(2) by simp
  with turn_inv_counts[OF inv q(1)] q(2) show ?thesis
    using turn_inv_move[OF inv k, of "q - 1" Running "av - 1"] by simp
qed

lemma turn_inv_drop:
  assumes inv: "turn_inv mc mq A T C" and k: "k < length T" "T ! k = (r, user, tid, Queued)"
    and q: "C user = (q, av, m)"
  shows "turn_inv mc mq (A[r := None]) (T[k := (r, user, tid, Ended)]) (C(user := (q - 1, av, m)))"
proof -
  have "0 < cnt T user Queued" using cnt_pos[OF k(1)] k(2) by simp
  with turn_inv_counts[OF inv q(1)] show ?thesis
    using turn_inv_move[OF inv k, of "q - 1" Ended av] by simp
qed

lemma turn_inv_finish:
  assumes inv: "turn_inv mc mq A T C" and k: "k < length T" "T ! k = (r, user, tid, Running)"
    and q: "C user = (q, av, m)"
  shows "turn_inv mc mq (A[r := None]) (T[k := (r, user, tid, Ended)]) (C(user := (q, av + 1, m)))"
  using turn_inv_counts[OF inv q(1)] turn_inv_move[OF inv k, of q Ended "av + 1"] by simp

section \<open>Operations on the projection\<close>

lemma counts_view_cong:
  "gw_users g' = gw_users g \<Longrightarrow> gw_max_concurrent_turns g' = gw_max_concurrent_turns g \<Longrightarrow> gw_max_queued_turns g' = gw_max_queued_turns g \<Longrightarrow>
   counts_view g' = counts_view g"
  by (rule ext) (auto simp: counts_view_def Let_def split: option.splits)

lemma counts_view_set_user: "counts_view (set_user user u g) = (counts_view g)(user := (us_queued u, us_available u, us_max_queued u))"
  by (rule ext) (auto simp: counts_view_def set_user_def map_of_bt_insert Let_def split: option.splits)

lemma counts_view_user: "get_or_create_user user g = (u, g1) \<Longrightarrow> counts_view g user = (us_queued u, us_available u, us_max_queued u)"
  by (auto simp: get_or_create_user_def counts_view_def Let_def split: option.splits)

lemma heap_view [simp]:
  "active_view (set_user user u g) = active_view g" "tasks_view (set_user user u g) = tasks_view g"
  "gw_heap (set_user user u g) = gw_heap g" "gw_tasks (set_user user u g) = gw_tasks g"
  "gw_max_concurrent_turns (set_user user u g) = gw_max_concurrent_turns g" "gw_max_queued_turns (set_user user u g) = gw_max_queued_turns g"
  by (simp_all add: set_user_def active_view_def tasks_view_def)

lemma upd_session_view [simp]:
  "tasks_view (upd_session r f g) = tasks_view g" "counts_view (upd_session r f g) = counts_view g"
  "active_view (upd_session r f g) = (active_view g)[r := gs_active_turn (f (gw_heap g ! r))]"
  "gw_tasks (upd_session r f g) = gw_tasks g" "gw_users (upd_session r f g) = gw_users g"
  "length (gw_heap (upd_session r f g)) = length (gw_heap g)"
  "gw_max_concurrent_turns (upd_session r f g) = gw_max_concurrent_turns g" "gw_max_queued_turns (upd_session r f g) = gw_max_queued_turns g"
  by (auto simp: upd_session_def active_view_def tasks_view_def map_update intro!: counts_view_cong)

lemma upd_task_view [simp]:
  "active_view (upd_task k f g) = active_view g" "counts_view (upd_task k f g) = counts_view g"
  "tasks_view (upd_task k f g) = (tasks_view g)[k := task_view (f (gw_tasks g ! k))]"
  "gw_heap (upd_task k f g) = gw_heap g" "gw_users (upd_task k f g) = gw_users g"
  "gw_tasks (upd_task k f g) = (gw_tasks g)[k := f (gw_tasks g ! k)]"
  "gw_max_concurrent_turns (upd_task k f g) = gw_max_concurrent_turns g" "gw_max_queued_turns (upd_task k f g) = gw_max_queued_turns g"
  by (auto simp: upd_task_def active_view_def tasks_view_def map_update intro!: counts_view_cong)

text \<open>An operation is calm when it moves no task and changes no counter; it may add sessions, without a turn.\<close>

definition calm :: "gateway \<Rightarrow> gateway \<Rightarrow> bool" where
  "calm g g' \<longleftrightarrow> tasks_view g' = tasks_view g \<and> counts_view g' = counts_view g \<and>
     gw_max_concurrent_turns g' = gw_max_concurrent_turns g \<and> gw_max_queued_turns g' = gw_max_queued_turns g \<and>
     (\<exists>n. active_view g' = active_view g @ replicate n None)"

lemma calm_refl [simp, intro]: "calm g g"
  by (auto simp: calm_def intro: exI[of _ 0])

lemma calm_trans: "calm g g' \<Longrightarrow> calm g' g'' \<Longrightarrow> calm g g''"
  unfolding calm_def by (metis append.assoc replicate_add)

lemma calm_set_user:
  assumes "get_or_create_user user g = (u, g1)" "us_queued u' = us_queued u" "us_available u' = us_available u" "us_max_queued u' = us_max_queued u"
  shows "calm g1 (set_user user u' g1)" "calm g g1" "calm g (set_user user u' g1)"
proof -
  have g1: "calm g g1"
    using assms(1) counts_view_user[OF assms(1)]
    by (auto simp: get_or_create_user_def Let_def calm_def counts_view_set_user fun_upd_idem split: option.splits intro: exI[of _ 0])
  moreover from this have "counts_view g1 user = (us_queued u', us_available u', us_max_queued u')"
    using counts_view_user[OF assms(1)] assms(2-) by (simp add: calm_def)
  ultimately show "calm g1 (set_user user u' g1)" by (auto simp: calm_def counts_view_set_user fun_upd_idem intro: exI[of _ 0])
  with g1 show "calm g (set_user user u' g1)" by (rule calm_trans)
  show "calm g g1" by (rule g1)
qed

lemma calm_get_or_create_user: "calm g (snd (get_or_create_user user g))"
  using calm_set_user(2)[of user g _ _ "fst (get_or_create_user user g)"] by (metis prod.collapse)

lemma calm_upd_session: "gs_active_turn (f (gw_heap g ! r)) = gs_active_turn (gw_heap g ! r) \<Longrightarrow> calm g (upd_session r f g)"
  by (cases "r < length (gw_heap g)")
    (auto simp: calm_def active_view_def upd_session_view(3)[unfolded active_view_def] list_update_same_conv list_update_beyond intro!: exI[of _ 0])

lemma calm_upd_task: "task_view (f (gw_tasks g ! k)) = task_view (gw_tasks g ! k) \<Longrightarrow> calm g (upd_task k f g)"
  by (cases "k < length (gw_tasks g)")
    (auto simp: calm_def tasks_view_def map_update list_update_same_conv list_update_beyond intro!: exI[of _ 0])

lemma calm_on_store: "calm g (snd (on_store m g))"
  by (auto simp: on_store_def calm_def active_view_def tasks_view_def split: option.splits prod.splits intro: exI[of _ 0] counts_view_cong)

lemma calm_alloc: "gs_active_turn s = None \<Longrightarrow> calm g (g\<lparr>gw_heap := gw_heap g @ [s]\<rparr>)"
  by (auto simp: calm_def active_view_def tasks_view_def intro!: counts_view_cong exI[of _ 1])

lemma calm_other:
  "gw_users g' = gw_users g \<Longrightarrow> gw_heap g' = gw_heap g \<Longrightarrow> gw_tasks g' = gw_tasks g \<Longrightarrow>
   gw_max_concurrent_turns g' = gw_max_concurrent_turns g \<Longrightarrow> gw_max_queued_turns g' = gw_max_queued_turns g \<Longrightarrow> calm g g'"
  by (auto simp: calm_def active_view_def tasks_view_def intro!: counts_view_cong exI[of _ 0])

lemma calm_add_session:
  assumes "gs_active_turn s = None" "add_session user key s g = (r, g')"
  shows "calm g g'"
proof -
  obtain u g1 where u: "get_or_create_user user g = (u, g1)" by fastforce
  let ?g2 = "set_user user (u\<lparr>us_sessions := bt_insert key (length (gw_heap g1)) (us_sessions u)\<rparr>) g1"
  have "g' = ?g2\<lparr>gw_heap := gw_heap ?g2 @ [s]\<rparr>"
    using assms(2) by (auto simp: add_session_def u Let_def set_user_def)
  moreover have "calm g ?g2" by (rule calm_set_user(3)[OF u]) simp_all
  ultimately show ?thesis using calm_alloc[OF assms(1)] by (blast intro: calm_trans)
qed

lemma session_new_idle [simp]: "gs_active_turn (session_new now sid user agent par chan) = None"
  by (simp add: session_new_def)

lemma session_of_record_idle [simp]: "gs_active_turn (session_of_record now rec) = None"
  by (simp add: session_of_record_def)

text \<open>The operations that look up, create and list sessions.\<close>

lemma calm_user: "get_or_create_user user g = (u, g') \<Longrightarrow> calm g g'"
  using calm_get_or_create_user[of g user] by simp

lemma calm_store: "on_store m g = (x, g') \<Longrightarrow> calm g g'"
  using calm_on_store[of g m] by simp

lemmas calm_then_store = calm_trans[OF _ calm_on_store]

lemmas calm_basic = calm_user calm_store calm_add_session[OF session_new_idle] calm_add_session[OF session_of_record_idle]

lemma calm_capacity: "ensure_session_capacity user g = (x, g') \<Longrightarrow> calm g g'"
  by (auto simp: ensure_session_capacity_def Let_def split: prod.splits dest!: calm_basic intro: calm_trans)

lemma calm_find_session: "find_session now user sid g = (x, g') \<Longrightarrow> calm g g'"
  by (auto simp: find_session_def split: prod.splits option.splits sum.splits dest!: calm_basic intro: calm_trans)

lemma calm_create_session: "create_session now db_now uuid user agent chan g = (x, g') \<Longrightarrow> calm g g'"
  by (auto simp: create_session_def split: prod.splits sum.splits if_splits dest!: calm_basic calm_capacity intro!: calm_then_store intro: calm_trans)

lemma calm_create_or_get: "create_or_get_session now db_now uuid user sid agent chan g = (x, g') \<Longrightarrow> calm g g'"
  by (auto simp: create_or_get_session_def split: option.splits dest: calm_find_session calm_create_session)

lemma calm_prefix_in_store: "resolve_prefix_in_store now user pre g = (x, g') \<Longrightarrow> calm g g'"
  by (auto simp: resolve_prefix_in_store_def split: prod.splits option.splits sum.splits list.splits
      dest!: calm_basic calm_find_session intro: calm_trans)

lemma calm_resolve_prefix: "resolve_session_by_prefix now user pre g = (x, g') \<Longrightarrow> calm g g'"
  by (auto simp: resolve_session_by_prefix_def split: prod.splits option.splits list.splits if_splits dest: calm_prefix_in_store)

lemma calm_default_session: "default_session now db_now user g = (x, g') \<Longrightarrow> calm g g'"
  by (auto simp: default_session_def Let_def split: prod.splits option.splits sum.splits
      dest!: calm_basic calm_capacity intro!: calm_then_store intro: calm_trans)

lemma calm_resolve_session: "resolve_session now db_now uuid hello g = (x, g') \<Longrightarrow> calm g g'"
  by (auto simp: resolve_session_def split: if_splits option.splits dest: calm_create_or_get calm_default_session)

lemma calm_list: "list_user_sessions user arch g = (x, g') \<Longrightarrow> calm g g'"
  by (auto simp: list_user_sessions_def split: prod.splits option.splits dest: calm_store)

text \<open>Publishing, cancelling, evicting and the frames of a connection.\<close>

lemma publish_keeps [simp]: "gs_active_turn (publish frame s) = gs_active_turn s"
  by (simp add: publish_def try_publish_def)

lemma session_event_keeps [simp]: "gs_active_turn (session_event send item s) = gs_active_turn s"
  by (auto simp: session_event_def split: stream_item.splits policy_stream_event.splits)

lemma calm_event: "calm g (task_event k item g)"
  by (auto simp: task_event_def Let_def intro: calm_upd_session)

lemma calm_cancel: "cancel_session_active_turn r g = (b, g') \<Longrightarrow> calm g g'"
  by (auto simp: cancel_session_active_turn_def task_view_def split: option.splits intro!: calm_upd_task)

lemma calm_cancel_each: "cancel_each rs g = (n, g') \<Longrightarrow> calm g g'"
  by (induction rs arbitrary: g n) (auto split: prod.splits dest!: calm_cancel intro: calm_trans)

lemma calm_cancel_all: "cancel_all_user_turns user g = (n, g') \<Longrightarrow> calm g g'"
  by (auto simp: cancel_all_user_turns_def split: option.splits dest: calm_cancel_each)

lemma calm_cancel_session: "cancel_session now user sid g = (x, g') \<Longrightarrow> calm g g'"
  by (auto simp: cancel_session_def split: prod.splits sum.splits bool.splits dest!: calm_find_session calm_cancel intro: calm_trans)

lemma calm_status: "get_session_status now user sid g = (x, g') \<Longrightarrow> calm g g'"
  by (auto simp: get_session_status_def Let_def split: prod.splits sum.splits dest!: calm_find_session)

lemma calm_evict: "calm g (evict_session now db_now user sid g)"
proof (cases "map_of (gw_users g) user")
  case (Some u)
  let ?g1 = "set_user user (u\<lparr>us_sessions := bt_remove sid (us_sessions u)\<rparr>) g"
  have "calm g ?g1" by (rule calm_set_user(3)) (auto simp: get_or_create_user_def Some)
  then have "calm g (snd (on_store (store_archive_session db_now sid) ?g1))" by (rule calm_then_store)
  then have "calm g ((snd (on_store (store_archive_session db_now sid) ?g1))\<lparr>gw_dropped_contexts := dropped\<rparr>)" for dropped
    by (rule calm_trans) (rule calm_other, simp_all)
  then show ?thesis unfolding evict_session_def Some option.case Let_def by (auto split: if_splits)
qed (simp add: evict_session_def)

lemma calm_fold: "(\<And>x g. calm g (f x g)) \<Longrightarrow> calm g (fold f xs g)"
  by (induction xs arbitrary: g) (auto intro: calm_trans)

lemma calm_cleanup: "calm g (cleanup_sessions_once now db_now g)"
  unfolding cleanup_sessions_once_def
  by (rule calm_fold) (auto simp: cleanup_user_def split: prod.splits intro: calm_fold calm_evict)

lemma calm_publish_to: "calm g (publish_to frame rs g)"
  unfolding publish_to_def by (rule calm_fold) (rule calm_upd_session, simp)

lemma calm_notify: "calm g (gateway_notify_user schedule frame g)"
  by (auto simp: gateway_notify_user_def notify_tui_def split: option.splits
      intro: calm_publish_to calm_upd_session calm_other)

lemma calm_subscribe: "calm g (subscribe r g)"
  by (simp add: subscribe_def calm_upd_session)

lemma calm_unsubscribe: "calm g (unsubscribe r g)"
  by (simp add: unsubscribe_def calm_upd_session)

lemma calm_switch: "switch_to r c g = (c', g') \<Longrightarrow> calm g g'"
  by (auto simp: switch_to_def intro: calm_trans[OF calm_subscribe calm_unsubscribe])

lemma calm_hello: "handle_hello now db_now uuid frame g = (x, g') \<Longrightarrow> calm g g'"
  by (auto simp: handle_hello_def Let_def split: client_frame.splits if_splits prod.splits sum.splits
      dest!: calm_resolve_session intro: calm_trans[OF _ calm_subscribe])

lemma calm_handle_cancel: "handle_cancel req sid c g = (c', g') \<Longrightarrow> calm g g'"
  by (auto simp: handle_cancel_def cancel_turn_def split: if_splits prod.splits bool.splits dest: calm_cancel)

lemma calm_handle_create: "handle_create now db_now uuid req name agent c g = (c', g') \<Longrightarrow> calm g g'"
  by (auto simp: handle_create_def Let_def split: prod.splits sum.splits option.splits
      dest!: calm_create_or_get calm_switch intro: calm_trans calm_then_store)

lemma calm_handle_list: "handle_list req arch subs c g = (c', g') \<Longrightarrow> calm g g'"
  by (auto simp: handle_list_def split: prod.splits sum.splits dest: calm_list)

lemma calm_handle_switch: "handle_switch now req sid c g = (c', g') \<Longrightarrow> calm g g'"
  by (auto simp: handle_switch_def Let_def split: prod.splits sum.splits dest!: calm_resolve_prefix calm_switch intro: calm_trans)

lemma calm_client_frame:
  "handle_client_frame now db_now uuid frame c g = (c', g') \<Longrightarrow> calm g g' \<or> (\<exists>send. frame = CSendTurn send \<and> handle_send_turn send c g = (c', g'))"
  by (cases frame) (auto simp: handle_client_frame_def split: prod.splits
      dest: calm_handle_cancel calm_cancel_all calm_handle_create calm_handle_list calm_handle_switch)

section \<open>Turns\<close>

definition gateway_inv :: "gateway_config \<Rightarrow> gateway \<Rightarrow> bool" where
  "gateway_inv config g \<longleftrightarrow>
     gw_max_concurrent_turns g = gc_max_concurrent_turns_per_user config \<and> gw_max_queued_turns g = gc_max_sessions_per_user config \<and>
     turn_inv (gc_max_concurrent_turns_per_user config) (gc_max_sessions_per_user config) (active_view g) (tasks_view g) (counts_view g)"

lemma gateway_inv_turn: "gateway_inv config g \<Longrightarrow>
    turn_inv (gc_max_concurrent_turns_per_user config) (gc_max_sessions_per_user config) (active_view g) (tasks_view g) (counts_view g)"
  by (simp add: gateway_inv_def)

lemma gateway_inv_calm: "gateway_inv config g \<Longrightarrow> calm g g' \<Longrightarrow> gateway_inv config g'"
  by (auto simp: gateway_inv_def calm_def intro: turn_inv_grow)

lemma user_keeps:
  assumes "get_or_create_user user g = (u, g')"
  shows "gw_heap g' = gw_heap g" "gw_tasks g' = gw_tasks g" "active_view g' = active_view g" "tasks_view g' = tasks_view g"
    "gw_max_concurrent_turns g' = gw_max_concurrent_turns g" "gw_max_queued_turns g' = gw_max_queued_turns g" "counts_view g' = counts_view g"
  using assms calm_user[OF assms]
  by (auto simp: get_or_create_user_def Let_def active_view_def tasks_view_def calm_def split: option.splits)

lemma spawn_view [simp]:
  "active_view (g\<lparr>gw_tasks := gw_tasks g @ [t]\<rparr>) = active_view g" "counts_view (g\<lparr>gw_tasks := gw_tasks g @ [t]\<rparr>) = counts_view g"
  "tasks_view (g\<lparr>gw_tasks := gw_tasks g @ [t]\<rparr>) = tasks_view g @ [task_view t]"
  by (auto simp: active_view_def tasks_view_def intro: counts_view_cong)

lemma gateway_inv_start:
  assumes inv: "gateway_inv config g" and r: "r < length (gw_heap g)" and st: "start_turn_with_origin r send origin g = (f, g')"
  shows "gateway_inv config g'"
proof (cases "validate_inline_attachments (st_attachments send) = Inr () \<and> gs_active_turn (session_at g r) = None")
  case False
  then have "g' = g" using st by (auto simp: start_turn_with_origin_def Let_def split: sum.splits option.splits)
  with inv show ?thesis by simp
next
  case True
  define user where "user = gs_user_id (session_at g r)"
  define a where "a = \<lparr>at_turn_id = st_turn_id send, at_task = length (gw_tasks g)\<rparr>"
  define g1 where "g1 = upd_session r (\<lambda>s. s\<lparr>gs_active_turn := Some a, gs_latest_terminal_frame := None\<rparr>) g"
  obtain u g2 where u: "get_or_create_user user g1 = (u, g2)" by fastforce
  have idle: "r < length (active_view g)" "active_view g ! r = None" and len: "length (tasks_view g) = length (gw_tasks g)"
    using True r by (auto simp: active_view_def session_at_def tasks_view_def)
  have g2: "active_view g2 = (active_view g)[r := Some a]" "tasks_view g2 = tasks_view g" "counts_view g2 = counts_view g"
    "gw_max_concurrent_turns g2 = gw_max_concurrent_turns g" "gw_max_queued_turns g2 = gw_max_queued_turns g"
    by (simp_all add: user_keeps[OF u] g1_def)
  have c: "counts_view g user = (us_queued u, us_available u, us_max_queued u)" using counts_view_user[OF u] by (simp add: g1_def)
  show ?thesis
  proof (cases "us_queued u \<ge> us_max_queued u")
    case full: True
    then have "g' = upd_session r (\<lambda>s. s\<lparr>gs_active_turn := None\<rparr>) g2"
      using st True u by (simp add: start_turn_with_origin_def Let_def user_def[symmetric] g1_def[symmetric, unfolded a_def] try_enqueue_turn_def)
    then have "active_view g' = active_view g" "tasks_view g' = tasks_view g" "counts_view g' = counts_view g"
        "gw_max_concurrent_turns g' = gw_max_concurrent_turns g" "gw_max_queued_turns g' = gw_max_queued_turns g"
      using idle by (simp_all add: g2 list_update_same_conv)
    with inv show ?thesis by (simp add: gateway_inv_def)
  next
    case False
    let ?t = "\<lparr>tk_session = r, tk_user = user, tk_send = send, tk_origin = origin, tk_phase = Queued, tk_cancelled = False\<rparr>"
    define g3 where "g3 = set_user user (u\<lparr>us_queued := us_queued u + 1\<rparr>) g2"
    have "g' = g3\<lparr>gw_tasks := gw_tasks g3 @ [?t]\<rparr>"
      using st True u False
      by (simp add: start_turn_with_origin_def Let_def user_def[symmetric] g1_def[symmetric, unfolded a_def] try_enqueue_turn_def g3_def)
    then have g': "active_view g' = (active_view g)[r := Some a]" "tasks_view g' = tasks_view g @ [(r, user, st_turn_id send, Queued)]"
        "counts_view g' = (counts_view g)(user := (us_queued u + 1, us_available u, us_max_queued u))"
        "gw_max_concurrent_turns g' = gw_max_concurrent_turns g" "gw_max_queued_turns g' = gw_max_queued_turns g"
      by (simp_all add: g2 g3_def task_view_def counts_view_set_user del: heap_view(4))
    show ?thesis
      using turn_inv_enqueue[OF gateway_inv_turn[OF inv], OF idle c] inv False by (simp add: gateway_inv_def g' a_def len[symmetric])
  qed
qed

text \<open>The steps of a task.\<close>

lemma leave_queue_view:
  assumes "counts_view g (tk_user (gw_tasks g ! k)) = (q, av, m)"
  shows "counts_view (leave_queue k permit g) = (counts_view g)(tk_user (gw_tasks g ! k) := (q - 1, av - (if permit then 1 else 0), m)) \<and>
    active_view (leave_queue k permit g) = active_view g \<and> tasks_view (leave_queue k permit g) = tasks_view g \<and>
    gw_heap (leave_queue k permit g) = gw_heap g \<and> gw_tasks (leave_queue k permit g) = gw_tasks g \<and>
    gw_max_concurrent_turns (leave_queue k permit g) = gw_max_concurrent_turns g \<and> gw_max_queued_turns (leave_queue k permit g) = gw_max_queued_turns g"
proof -
  obtain u g1 where u: "get_or_create_user (tk_user (gw_tasks g ! k)) g = (u, g1)" by fastforce
  show ?thesis using counts_view_user[OF u, unfolded assms] by (simp add: leave_queue_def u counts_view_set_user user_keeps[OF u])
qed

lemma release_permit_view:
  assumes "counts_view g (tk_user (gw_tasks g ! k)) = (q, av, m)"
  shows "counts_view (release_permit k g) = (counts_view g)(tk_user (gw_tasks g ! k) := (q, av + 1, m)) \<and>
    active_view (release_permit k g) = active_view g \<and> tasks_view (release_permit k g) = tasks_view g \<and>
    gw_max_concurrent_turns (release_permit k g) = gw_max_concurrent_turns g \<and> gw_max_queued_turns (release_permit k g) = gw_max_queued_turns g"
proof -
  obtain u g1 where u: "get_or_create_user (tk_user (gw_tasks g ! k)) g = (u, g1)" by fastforce
  show ?thesis using counts_view_user[OF u, unfolded assms] by (simp add: release_permit_def u counts_view_set_user user_keeps[OF u])
qed

lemma end_turn_active: "gs_active_turn s = Some a \<Longrightarrow> at_turn_id a = st_turn_id send \<Longrightarrow> gs_active_turn (end_turn send frame s) = None"
  by (simp add: end_turn_def)

text \<open>A task \<open>k\<close> of session \<open>r\<close> and user \<open>user\<close> that has not ended.\<close>

definition task_in :: "gateway \<Rightarrow> nat \<Rightarrow> task_phase \<Rightarrow> bool" where
  "task_in g k ph \<longleftrightarrow> k < length (gw_tasks g) \<and> tk_phase (gw_tasks g ! k) = ph"

lemma task_in_view:
  assumes "task_in g k ph"
  shows "k < length (tasks_view g)"
    "tasks_view g ! k = (tk_session (gw_tasks g ! k), tk_user (gw_tasks g ! k), st_turn_id (tk_send (gw_tasks g ! k)), ph)"
  using assms by (auto simp: task_in_def tasks_view_def task_view_def)

lemma task_in_active:
  assumes "gateway_inv config g" "task_in g k ph" "ph \<noteq> Ended"
  shows "gs_active_turn (gw_heap g ! tk_session (gw_tasks g ! k)) = Some \<lparr>at_turn_id = st_turn_id (tk_send (gw_tasks g ! k)), at_task = k\<rparr>"
  using turn_inv_active[OF gateway_inv_turn[OF assms(1)], OF task_in_view[OF assms(2)] assms(3)] by (simp add: active_view_def)

lemma gateway_inv_without_permit:
  assumes inv: "gateway_inv config g" and k: "task_in g k Queued"
  shows "gateway_inv config (task_without_permit k g)"
proof -
  let ?t = "gw_tasks g ! k" and ?g = "task_without_permit k g"
  obtain q av m where c: "counts_view g (tk_user ?t) = (q, av, m)" by (metis prod.collapse)
  note lq = leave_queue_view[OF c, where permit = False]
  have "active_view ?g = (active_view g)[tk_session ?t := None]"
      "tasks_view ?g = (tasks_view g)[k := (tk_session ?t, tk_user ?t, st_turn_id (tk_send ?t), Ended)]"
      "counts_view ?g = (counts_view g)(tk_user ?t := (q - 1, av, m))"
      "gw_max_concurrent_turns ?g = gw_max_concurrent_turns g" "gw_max_queued_turns ?g = gw_max_queued_turns g"
    using task_in_active[OF inv k] lq
    by (simp_all add: task_without_permit_def Let_def task_view_def end_turn_active)
  with turn_inv_drop[OF gateway_inv_turn[OF inv], OF task_in_view[OF k] c] inv show ?thesis by (simp add: gateway_inv_def)
qed

lemma gateway_inv_with_permit:
  assumes inv: "gateway_inv config g" and k: "task_in g k Queued" and c: "counts_view g (tk_user (gw_tasks g ! k)) = (q, av, m)" "0 < av"
  shows "gateway_inv config (task_with_permit now k g)"
proof (cases "tk_cancelled (gw_tasks g ! k)")
  case False
  let ?t = "gw_tasks g ! k" and ?g = "task_with_permit now k g"
  note lq = leave_queue_view[OF c(1), where permit = True]
  have "gs_active_turn (mark_active now s) = gs_active_turn s" for s by (simp add: mark_active_def)
  moreover have "(active_view g)[tk_session ?t := gs_active_turn (gw_heap g ! tk_session ?t)] = active_view g"
    by (metis active_view_def list_update_beyond list_update_id nth_map length_map not_le)
  ultimately have "active_view ?g = active_view g"
      "tasks_view ?g = (tasks_view g)[k := (tk_session ?t, tk_user ?t, st_turn_id (tk_send ?t), Running)]"
      "counts_view ?g = (counts_view g)(tk_user ?t := (q - 1, av - 1, m))"
      "gw_max_concurrent_turns ?g = gw_max_concurrent_turns g" "gw_max_queued_turns ?g = gw_max_queued_turns g"
    using False lq by (simp_all add: task_with_permit_def Let_def task_view_def)
  with turn_inv_start[OF gateway_inv_turn[OF inv], OF task_in_view[OF k] c] inv show ?thesis by (simp add: gateway_inv_def)
next
  case True
  let ?t = "gw_tasks g ! k" and ?g = "task_with_permit now k g"
  define g2 where "g2 = upd_session (tk_session ?t) (\<lambda>s. end_turn (tk_send ?t) (cancelled_frame (tk_send ?t) s) s)
             (upd_task k (\<lambda>t. t\<lparr>tk_phase := Ended\<rparr>) (leave_queue k True g))"
  note lq = leave_queue_view[OF c(1), where permit = True]
  have user: "tk_user (gw_tasks g2 ! k) = tk_user ?t" using lq k by (simp add: g2_def upd_task_def task_in_def)
  have g2: "active_view g2 = (active_view g)[tk_session ?t := None]"
      "tasks_view g2 = (tasks_view g)[k := (tk_session ?t, tk_user ?t, st_turn_id (tk_send ?t), Ended)]"
      "counts_view g2 = (counts_view g)(tk_user ?t := (q - 1, av - 1, m))"
      "gw_max_concurrent_turns g2 = gw_max_concurrent_turns g" "gw_max_queued_turns g2 = gw_max_queued_turns g"
    using task_in_active[OF inv k] lq by (simp_all add: g2_def task_view_def end_turn_active)
  have "?g = release_permit k g2" using True by (simp add: task_with_permit_def g2_def Let_def)
  then have "active_view ?g = active_view g2" "tasks_view ?g = tasks_view g2" "counts_view ?g = (counts_view g)(tk_user ?t := (q - 1, av, m))"
      "gw_max_concurrent_turns ?g = gw_max_concurrent_turns g" "gw_max_queued_turns ?g = gw_max_queued_turns g"
    using release_permit_view[of g2 k "q - 1" "av - 1" m] c(2) by (simp_all add: user g2)
  with turn_inv_drop[OF gateway_inv_turn[OF inv], OF task_in_view[OF k] c(1)] inv show ?thesis by (simp add: gateway_inv_def g2)
qed

lemma gateway_inv_finish:
  assumes inv: "gateway_inv config g" and k: "task_in g k Running"
  shows "gateway_inv config (task_finish now db_now k fin g)"
proof -
  let ?t = "gw_tasks g ! k" and ?g = "task_finish now db_now k fin g"
  obtain q av m where c: "counts_view g (tk_user ?t) = (q, av, m)" by (metis prod.collapse)
  define g1 where "g1 = upd_session (tk_session ?t) (\<lambda>s. mark_active now (end_turn (tk_send ?t) (terminal_frame (tk_send ?t) s fin)
                 (s\<lparr>gs_stop_reason := Some (stop_reason_of fin)\<rparr>))) g"
  define g2 where "g2 = snd (on_store (store_touch_session db_now (gs_session_id (session_at g (tk_session ?t)))) g1)"
  define g3 where "g3 = upd_task k (\<lambda>t. t\<lparr>tk_phase := Ended\<rparr>) g2"
  have g1: "active_view g1 = (active_view g)[tk_session ?t := None]"
    using task_in_active[OF inv k] by (simp add: g1_def mark_active_def end_turn_active)
  have "gw_tasks g2 = gw_tasks g" "active_view g2 = active_view g1" "tasks_view g2 = tasks_view g" "counts_view g2 = counts_view g"
      "gw_max_concurrent_turns g2 = gw_max_concurrent_turns g" "gw_max_queued_turns g2 = gw_max_queued_turns g"
    unfolding g2_def using calm_on_store[of g1 "store_touch_session db_now (gs_session_id (session_at g (tk_session ?t)))"]
    by (auto simp: calm_def g1_def on_store_def active_view_def split: option.splits prod.splits)
  then have g3: "active_view g3 = (active_view g)[tk_session ?t := None]" "tk_user (gw_tasks g3 ! k) = tk_user ?t"
      "tasks_view g3 = (tasks_view g)[k := (tk_session ?t, tk_user ?t, st_turn_id (tk_send ?t), Ended)]" "counts_view g3 = counts_view g"
      "gw_max_concurrent_turns g3 = gw_max_concurrent_turns g" "gw_max_queued_turns g3 = gw_max_queued_turns g"
    using k by (simp_all add: g1 g3_def task_in_def task_view_def)
  have "?g = release_permit k g3" by (simp add: task_finish_def Let_def g1_def g2_def g3_def)
  then show ?thesis
    using release_permit_view[of g3 k q av m] turn_inv_finish[OF gateway_inv_turn[OF inv], OF task_in_view[OF k] c] inv
    by (simp add: gateway_inv_def g3 c)
qed

section \<open>All interleavings\<close>

text \<open>One step of the server: a frame of a connection, a call of a channel adapter or of the
  scheduler, the clean-up, or a step of the task of a turn. A connection and a channel hold a reference to a session that exists.\<close>

inductive gateway_step :: "gateway \<Rightarrow> gateway \<Rightarrow> bool" where
  step_hello: "handle_hello now db_now uuid frame g = (x, g') \<Longrightarrow> gateway_step g g'"
| step_frame: "cn_session c < length (gw_heap g) \<Longrightarrow> handle_client_frame now db_now uuid frame c g = (c', g') \<Longrightarrow> gateway_step g g'"
| step_disconnect: "gateway_step g (unsubscribe r g)"
| step_session: "create_or_get_session now db_now uuid user sid agent chan g = (x, g') \<Longrightarrow> gateway_step g g'"
| step_channel_subscribe: "gateway_step g (subscribe r g)"
| step_channel_turn: "r < length (gw_heap g) \<Longrightarrow> submit_turn_from_channel r send chan ctx g = (f, g') \<Longrightarrow> gateway_step g g'"
| step_list: "list_user_sessions user arch g = (x, g') \<Longrightarrow> gateway_step g g'"
| step_cancel: "cancel_session now user sid g = (y, g') \<Longrightarrow> gateway_step g g'"
| step_cancel_all: "cancel_all_user_turns user g = (n, g') \<Longrightarrow> gateway_step g g'"
| step_status: "get_session_status now user sid g = (z, g') \<Longrightarrow> gateway_step g g'"
| step_sender: "gateway_step g (register_proactive_sender chan g)"
| step_notify: "gateway_step g (gateway_notify_user schedule frame' g)"
| step_cleanup: "gateway_step g (cleanup_sessions_once now db_now g)"
| step_permit: "task_in g k Queued \<Longrightarrow> counts_view g (tk_user (gw_tasks g ! k)) = (q, av, m) \<Longrightarrow> 0 < av \<Longrightarrow>
    gateway_step g (task_with_permit now k g)"
| step_no_permit: "task_in g k Queued \<Longrightarrow> tk_cancelled (gw_tasks g ! k) \<Longrightarrow> gateway_step g (task_without_permit k g)"
| step_event: "task_in g k Running \<Longrightarrow> gateway_step g (task_event k item g)"
| step_finish: "task_in g k Running \<Longrightarrow> gateway_step g (task_finish now db_now k fin g)"

definition gateway_start :: "gateway_config \<Rightarrow> gateway \<Rightarrow> bool" where
  "gateway_start config g \<longleftrightarrow> (\<exists>status session_store. g = with_gateway_config status session_store config)"

lemma gateway_inv_init: "gateway_start config g \<Longrightarrow> gateway_inv config g"
  by (auto simp: gateway_start_def with_gateway_config_def gateway_inv_def turn_inv_defs active_view_def tasks_view_def counts_view_def
      user_new_def cnt_def)

lemma gateway_inv_frame:
  assumes "gateway_inv config g" "cn_session c < length (gw_heap g)" "handle_client_frame now db_now uuid frame c g = (c', g')"
  shows "gateway_inv config g'"
  using calm_client_frame[OF assms(3)] assms(1,2)
  by (auto simp: handle_send_turn_def submit_turn_def split: if_splits prod.splits intro: gateway_inv_calm gateway_inv_start)

lemma gateway_inv_step: "gateway_step g g' \<Longrightarrow> gateway_inv config g \<Longrightarrow> gateway_inv config g'"
proof (induction rule: gateway_step.induct)
  case (step_sender g chan)
  then show ?case by (rule gateway_inv_calm) (rule calm_other; simp add: register_proactive_sender_def)
qed (auto intro: gateway_inv_frame gateway_inv_with_permit gateway_inv_without_permit gateway_inv_finish gateway_inv_start
    gateway_inv_calm[OF _ calm_hello] gateway_inv_calm[OF _ calm_unsubscribe] gateway_inv_calm[OF _ calm_subscribe]
    gateway_inv_calm[OF _ calm_create_or_get] gateway_inv_calm[OF _ calm_list] gateway_inv_calm[OF _ calm_cancel_session]
    gateway_inv_calm[OF _ calm_cancel_all] gateway_inv_calm[OF _ calm_status] gateway_inv_calm[OF _ calm_notify]
    gateway_inv_calm[OF _ calm_cleanup] gateway_inv_calm[OF _ calm_event] simp: submit_turn_from_channel_def)

interpretation turns: invariant_system "gateway_start config" gateway_step "gateway_inv config" for config
  by unfold_locales (auto intro: gateway_inv_init gateway_inv_step)

text \<open>What the steps of a task do to the tasks, and the frame a turn ends with.\<close>

lemma user_ops_keep [simp]:
  "gw_tasks (leave_queue k permit g) = gw_tasks g" "gw_heap (leave_queue k permit g) = gw_heap g"
  "gw_tasks (release_permit k g) = gw_tasks g" "gw_heap (release_permit k g) = gw_heap g"
  by (auto simp: leave_queue_def release_permit_def Let_def user_keeps(1,2) split: prod.splits)

lemma on_store_keeps [simp]: "gw_tasks (snd (on_store m g)) = gw_tasks g" "gw_heap (snd (on_store m g)) = gw_heap g"
  by (auto simp: on_store_def split: option.splits prod.splits)

lemma finish_tasks: "gw_tasks (task_finish now db_now k fin g) = (gw_tasks g)[k := (gw_tasks g ! k)\<lparr>tk_phase := Ended\<rparr>]"
  by (simp add: task_finish_def Let_def)

lemma permit_tasks: "gw_tasks (task_with_permit now k g) =
    (gw_tasks g)[k := (gw_tasks g ! k)\<lparr>tk_phase := (if tk_cancelled (gw_tasks g ! k) then Ended else Running)\<rparr>]"
  by (simp add: task_with_permit_def Let_def)

lemma end_turn_latest [simp]: "gs_latest_terminal_frame (end_turn send frame s) = Some frame"
  by (simp add: end_turn_def publish_def try_publish_def)

definition turn_over :: "gateway \<Rightarrow> nat \<Rightarrow> bool" where
  "turn_over g k \<longleftrightarrow> task_in g k Ended \<and> gs_active_turn (session_at g (tk_session (gw_tasks g ! k))) = None \<and>
     gs_latest_terminal_frame (session_at g (tk_session (gw_tasks g ! k))) \<noteq> None"

lemma heap_upd_session: "r < length (gw_heap g) \<Longrightarrow> gw_heap (upd_session r f g) ! r = f (gw_heap g ! r)"
  by (simp add: upd_session_def)

lemma task_session_exists: "gateway_inv config g \<Longrightarrow> task_in g k ph \<Longrightarrow> tk_session (gw_tasks g ! k) < length (gw_heap g)"
  using gateway_inv_turn[of config g] tasks_hold_active(1)[of "active_view g" "tasks_view g" k] task_in_view[of g k ph]
  by (auto simp: turn_inv_def active_view_def)

lemma finish_over:
  assumes "gateway_inv config g" "task_in g k Running"
  shows "turn_over (task_finish now db_now k fin g) k"
  using assms task_session_exists[OF assms] task_in_active[OF assms]
  by (simp add: turn_over_def task_in_def finish_tasks session_at_def)
     (simp add: task_finish_def Let_def heap_upd_session mark_active_def end_turn_active)

lemma permit_over:
  assumes "gateway_inv config g" "task_in g k Queued" "tk_cancelled (gw_tasks g ! k)"
  shows "turn_over (task_with_permit now k g) k"
  using assms task_session_exists[OF assms(1,2)] task_in_active[OF assms(1,2)]
  by (simp add: turn_over_def task_in_def permit_tasks session_at_def)
     (simp add: task_with_permit_def Let_def heap_upd_session mark_active_def end_turn_active)

lemma running_can_end:
  assumes "gateway_inv config g" "task_in g k Running"
  shows "\<exists>g'. gateway_step g g' \<and> turn_over g' k"
  using finish_over[OF assms, of 0 "[]" "Panicked []"] step_finish[OF assms(2)] by blast

lemma permitted_can_end:
  assumes inv: "gateway_inv config g" and k: "task_in g k Queued"
    and c: "counts_view g (tk_user (gw_tasks g ! k)) = (q, av, m)" "0 < av"
  shows "\<exists>g'. gateway_step\<^sup>*\<^sup>* g g' \<and> turn_over g' k"
proof -
  let ?g = "task_with_permit 0 k g"
  have step: "gateway_step g ?g" by (rule step_permit[OF k c])
  show ?thesis
  proof (cases "tk_cancelled (gw_tasks g ! k)")
    case True
    from permit_over[OF inv k this] step show ?thesis by blast
  next
    case False
    then have "task_in ?g k Running" using k by (simp add: task_in_def permit_tasks)
    from running_can_end[OF gateway_inv_step[OF step inv] this] step show ?thesis
      by (meson converse_rtranclp_into_rtranclp r_into_rtranclp)
  qed
qed

lemma other_task_kept: "j \<noteq> k \<Longrightarrow> task_in g j ph \<Longrightarrow> task_in (task_finish now db_now k fin g) j ph"
  by (simp add: task_in_def finish_tasks)

lemma cnt_witness: "0 < cnt (tasks_view g) user ph \<Longrightarrow> \<exists>k. task_in g k ph \<and> tk_user (gw_tasks g ! k) = user"
  by (auto simp: cnt_def in_phase_def tasks_view_def task_view_def task_in_def filter_empty_conv in_set_conv_nth split: prod.splits)

lemma finish_frees_permit:
  assumes "gateway_inv config g" "gateway_inv config (task_finish now db_now k fin g)" "task_in g k Running"
    "counts_view (task_finish now db_now k fin g) (tk_user (gw_tasks g ! k)) = (q, av, m)"
  shows "0 < av"
proof -
  let ?u = "tk_user (gw_tasks g ! k)" and ?v = "task_view ((gw_tasks g ! k)\<lparr>tk_phase := Ended\<rparr>)"
  have "tasks_view (task_finish now db_now k fin g) = (tasks_view g)[k := ?v]" by (simp add: tasks_view_def finish_tasks map_update)
  moreover have "cnt ((tasks_view g)[k := ?v]) ?u Running + 1 = cnt (tasks_view g) ?u Running"
    using cnt_update[OF task_in_view(1)[OF assms(3)], of ?v ?u Running] by (simp add: task_in_view(2)[OF assms(3)] in_phase_def task_view_def)
  moreover obtain q0 av0 m0 where c: "counts_view g ?u = (q0, av0, m0)" by (metis prod.collapse)
  ultimately show ?thesis
    using turn_inv_counts(2)[OF gateway_inv_turn[OF assms(2)] assms(4)] turn_inv_counts(2)[OF gateway_inv_turn[OF assms(1)] c] by simp
qed

section \<open>Properties\<close>


text \<open>No turn is stuck: with a configuration that passes its validation, from every reachable state the server can go on so that a given turn that
  waits or runs ends, its session is free again and holds the frame the turn ended with.\<close>

theorem turn_can_end:
  assumes "reach (gateway_start config) gateway_step g" "gateway_config_validate config = Inr ()"
    and "task_in g k ph" "ph \<noteq> Ended"
  shows "\<exists>g'. gateway_step\<^sup>*\<^sup>* g g' \<and> turn_over g' k"
proof -
  have inv: "gateway_inv config g" by (rule turns.inv_reach[OF assms(1)])
  let ?u = "tk_user (gw_tasks g ! k)"
  obtain q av m where c: "counts_view g ?u = (q, av, m)" by (metis prod.collapse)
  consider "ph = Running" | "ph = Queued" "0 < av" | "ph = Queued" "av = 0" using assms(4) by (cases ph) auto
  then show ?thesis
  proof cases
    case 1
    with running_can_end[OF inv] assms(3) show ?thesis by blast
  next
    case 2
    with permitted_can_end[OF inv _ c] assms(3) show ?thesis by blast
  next
    case 3
    then obtain j where j: "task_in g j Running" "tk_user (gw_tasks g ! j) = ?u"
      using turn_inv_counts(2)[OF gateway_inv_turn[OF inv] c] cnt_witness[of g ?u Running] assms(2)
      by (auto simp: gateway_config_validate_def split: if_splits)
    let ?g = "task_finish 0 [] j (Panicked []) g"
    have step: "gateway_step g ?g" by (rule step_finish[OF j(1)])
    then have inv': "gateway_inv config ?g" using inv by (rule gateway_inv_step)
    have jk: "j \<noteq> k" using j(1) assms(3) 3(1) by (auto simp: task_in_def)
    then have k: "task_in ?g k Queued" "tk_user (gw_tasks ?g ! k) = ?u" using assms(3) 3(1) by (auto simp: other_task_kept finish_tasks)
    obtain q' av' m' where c': "counts_view ?g ?u = (q', av', m')" by (metis prod.collapse)
    with finish_frees_permit[OF inv inv' j(1)] j(2) have "0 < av'" by simp
    from permitted_can_end[OF inv' k(1) c'[folded k(2)] this] step show ?thesis by (meson converse_rtranclp_into_rtranclp)
  qed
qed

section \<open>A run\<close>

definition ex_hello :: client_hello where
  "ex_hello = \<lparr>ch_request_id = ''r1'', ch_protocol_version = GATEWAY_PROTOCOL_VERSION, ch_user_id = ''alice'', ch_session_id = None,
     ch_create_new_session = False\<rparr>"

definition ex_send :: send_turn where
  "ex_send = \<lparr>st_request_id = ''r2'', st_session_id = ''runtime-alice'', st_turn_id = ''t1'', st_prompt = ''hi'', st_attachments = []\<rparr>"

definition ex_greeted :: gateway where
  "ex_greeted = snd (handle_hello 0 [] [] (CHello ex_hello) (with_gateway_config None None gateway_config_default))"

definition ex_queued :: gateway where
  "ex_queued = snd (handle_client_frame 0 [] [] (CSendTurn ex_send) \<lparr>cn_session = 0, cn_sent = []\<rparr> ex_greeted)"

definition ex_running :: gateway where
  "ex_running = task_with_permit 5 0 ex_queued"

lemmas ex_ops = handle_hello_def ex_hello_def resolve_session_def default_session_def Let_def get_or_create_user_def with_gateway_config_def
  on_store_def set_user_def user_new_def ensure_session_capacity_def gateway_config_default_def add_session_def subscribe_def upd_session_def
  session_new_def

lemma default_session_id_alice: "default_session_id ''alice'' = ''runtime-alice''"
  by code_simp

lemma ex_greeted:
  "ex_greeted = (with_gateway_config None None gateway_config_default)
     \<lparr>gw_users := [(''alice'', \<lparr>us_sessions = [(''runtime-alice'', 0)], us_available = 10, us_queued = 0, us_max_queued = 50\<rparr>)],
      gw_heap := [(session_new 0 ''runtime-alice'' ''alice'' ''default'' None ''tui'')\<lparr>gs_receivers := 1\<rparr>]\<rparr>"
  by (simp add: ex_greeted_def ex_ops default_session_id_alice GATEWAY_CHANNEL_ID_def)

lemma ex_queued:
  "gw_heap ex_queued = [(session_new 0 ''runtime-alice'' ''alice'' ''default'' None ''tui'')
     \<lparr>gs_receivers := 1, gs_active_turn := Some \<lparr>at_turn_id = ''t1'', at_task = 0\<rparr>\<rparr>]"
  "gw_users ex_queued = [(''alice'', \<lparr>us_sessions = [(''runtime-alice'', 0)], us_available = 10, us_queued = 1, us_max_queued = 50\<rparr>)]"
  "\<exists>t. gw_tasks ex_queued = [t] \<and> tk_user t = ''alice'' \<and> tk_session t = 0 \<and> tk_phase t = Queued \<and> \<not> tk_cancelled t"
  "gw_store ex_queued = None" "gw_session_idle_ttl ex_queued = saturating_mul 48 3600"
  by (simp_all add: ex_queued_def ex_greeted ex_ops handle_client_frame_def handle_send_turn_def submit_turn_def session_at_def ex_send_def
      start_turn_with_origin_def validate_inline_attachments_def try_enqueue_turn_def)

lemma ex_phases:
  "task_in ex_queued 0 Queued" "counts_view ex_queued (tk_user (gw_tasks ex_queued ! 0)) = (1, 10, 50)" "task_in ex_running 0 Running"
  "length (filter (\<lambda>t. tk_user t = ''alice'' \<and> tk_phase t = Running) (gw_tasks ex_running)) = 1"
  using ex_queued by (auto simp: task_in_def counts_view_def Let_def ex_running_def permit_tasks)

lemma ex_reach: "reach (gateway_start gateway_config_default) gateway_step ex_queued" "reach (gateway_start gateway_config_default) gateway_step ex_running"
proof -
  have "gateway_step (with_gateway_config None None gateway_config_default) ex_greeted"
    unfolding ex_greeted_def by (rule step_hello) (rule prod.collapse[symmetric])
  moreover have "gateway_step ex_greeted ex_queued"
    unfolding ex_queued_def by (rule step_frame[OF _ prod.collapse[symmetric]]) (simp add: ex_greeted)
  ultimately show queued: "reach (gateway_start gateway_config_default) gateway_step ex_queued"
    by (blast intro: reach_step reach_init gateway_start_def[THEN iffD2])
  have "gateway_step ex_queued ex_running"
    unfolding ex_running_def by (rule step_permit[OF ex_phases(1,2)]) simp
  with queued show "reach (gateway_start gateway_config_default) gateway_step ex_running" by (rule reach_step)
qed


theorem turn_can_end_witness: "\<exists>g'. gateway_step\<^sup>*\<^sup>* ex_queued g' \<and> turn_over g' 0"
  by (rule turn_can_end[OF ex_reach(1) _ ex_phases(1)]) (simp_all add: gateway_config_default_def gateway_config_validate_def)

end
