(* ===== verification/Gateway_Sessions.thy ===== *)
theory Gateway_Sessions
  imports Gateway_Turns
begin

text \<open>
  Sessions of the gateway: the limit on their number, what is accepted as an attachment, whom a
  scheduled notification reaches, and what resuming a stored session and the clean-up do not check.
\<close>

section \<open>Attachments\<close>

lemma validate_from_ok:
  assumes "acc + length as * MAX_INLINE_ATTACHMENT_BYTES \<le> MAX_INLINE_ATTACHMENT_TOTAL_BYTES"
  shows "validate_attachments_from acc as = Inr () \<longleftrightarrow>
    (\<forall>a \<in> set as. is_valid_mime_type (im_mime_type a) \<and> length (im_data a) \<le> MAX_INLINE_ATTACHMENT_BYTES)"
  using assms
proof (induction as arbitrary: acc)
  case (Cons a as)
  show ?case
  proof (cases "is_valid_mime_type (im_mime_type a) \<and> length (im_data a) \<le> MAX_INLINE_ATTACHMENT_BYTES")
    case True
    then have "\<not> acc + length (im_data a) > MAX_INLINE_ATTACHMENT_TOTAL_BYTES"
      "acc + length (im_data a) + length as * MAX_INLINE_ATTACHMENT_BYTES \<le> MAX_INLINE_ATTACHMENT_TOTAL_BYTES"
      using Cons.prems by simp_all
    with Cons.IH[of "acc + length (im_data a)"] True show ?thesis by simp
  qed auto
qed simp

text \<open>The attachments of a turn are accepted exactly when there are at most four, each with a well-formed media type and
  of at most ten MiB; the check of their total size never refuses anything the other two have let
  through.\<close>

theorem attachments_accepted_iff:
  "validate_inline_attachments as = Inr () \<longleftrightarrow> length as \<le> 4 \<and>
     list_all (\<lambda>a. is_valid_mime_type (im_mime_type a) \<and> length (im_data a) \<le> 10485760) as"
proof (cases "length as \<le> 4")
  case True
  then have "0 + length as * MAX_INLINE_ATTACHMENT_BYTES \<le> MAX_INLINE_ATTACHMENT_TOTAL_BYTES"
    by (simp add: MAX_INLINE_ATTACHMENT_BYTES_def MAX_INLINE_ATTACHMENT_TOTAL_BYTES_def MAX_INLINE_ATTACHMENTS_PER_TURN_def)
  from validate_from_ok[OF this] True show ?thesis
    by (simp add: validate_inline_attachments_def MAX_INLINE_ATTACHMENTS_PER_TURN_def MAX_INLINE_ATTACHMENT_BYTES_def list_all_iff)
qed (simp add: validate_inline_attachments_def MAX_INLINE_ATTACHMENTS_PER_TURN_def)

section \<open>The number of sessions\<close>

definition sessions_of :: "gateway \<Rightarrow> string \<Rightarrow> (string \<times> nat) list" where
  "sessions_of g user = (case map_of (gw_users g) user of Some u \<Rightarrow> us_sessions u | None \<Rightarrow> [])"

lemma user_sessions: "get_or_create_user user g = (u, g') \<Longrightarrow> us_sessions u = sessions_of g user \<and> sessions_of g' user = sessions_of g user \<and>
    map_of (gw_users g') user = Some u \<and> gw_max_sessions_per_user g' = gw_max_sessions_per_user g \<and> gw_store g' = gw_store g"
  by (auto simp: get_or_create_user_def sessions_of_def Let_def user_new_def set_user_def map_of_bt_insert split: option.splits)

lemma length_bt_insert: "length (bt_insert k v kvs) \<le> Suc (length kvs)"
  by (induction k v kvs rule: bt_insert.induct) auto

lemma store_sessions_kept: "on_store m g = (x, g') \<Longrightarrow> gw_users g' = gw_users g \<and> gw_max_sessions_per_user g' = gw_max_sessions_per_user g"
  by (auto simp: on_store_def split: option.splits prod.splits)

lemma capacity_checks:
  assumes "ensure_session_capacity user g = (Inr x, g')"
  shows "length (sessions_of g user) < gw_max_sessions_per_user g" "sessions_of g' user = sessions_of g user"
    "gw_max_sessions_per_user g' = gw_max_sessions_per_user g"
proof -
  obtain u g1 where u: "get_or_create_user user g = (u, g1)" by fastforce
  obtain r g2 where r: "on_store (store_list_sessions user False) g1 = (r, g2)" by fastforce
  have "g' = g2" "length (us_sessions u) < gw_max_sessions_per_user g"
    using assms by (auto simp: ensure_session_capacity_def u r Let_def split: if_splits)
  with user_sessions[OF u] store_sessions_kept[OF r] show "length (sessions_of g user) < gw_max_sessions_per_user g"
    "sessions_of g' user = sessions_of g user" "gw_max_sessions_per_user g' = gw_max_sessions_per_user g"
    by (auto simp: sessions_of_def)
qed

lemma add_session_sessions:
  assumes "add_session user key s g = (r, g')"
  shows "sessions_of g' user = bt_insert key r (sessions_of g user)" "gw_heap g' ! r = s" "r < length (gw_heap g')"
proof -
  obtain u g1 where u: "get_or_create_user user g = (u, g1)" by fastforce
  from assms show "sessions_of g' user = bt_insert key r (sessions_of g user)" "gw_heap g' ! r = s" "r < length (gw_heap g')"
    using user_sessions[OF u] by (auto simp: add_session_def u Let_def sessions_of_def set_user_def map_of_bt_insert)
qed


definition ex_tight :: gateway where
  "ex_tight = with_gateway_config None None (gateway_config_default\<lparr>gc_max_sessions_per_user := 1\<rparr>)"


section \<open>Scheduled notifications\<close>

lemma publish_to_other: "r \<notin> set rs \<Longrightarrow> gw_heap (publish_to frame rs g) ! r = gw_heap g ! r"
  unfolding publish_to_def by (induction rs arbitrary: g) (auto simp: upd_session_def)

lemma publish_to_length [simp]: "length (gw_heap (publish_to frame rs g)) = length (gw_heap g)"
  unfolding publish_to_def by (induction rs arbitrary: g) auto

lemma publish_to_users [simp]: "gw_users (publish_to frame rs g) = gw_users g" "gw_tasks (publish_to frame rs g) = gw_tasks g"
  unfolding publish_to_def by (induction rs arbitrary: g) auto

text \<open>C36: A notification of a schedule reaches only the sessions held for the user the schedule belongs to:
  every other session stays as it is, and no user, task or turn changes.\<close>

theorem notification_stays_with_user:
  "(r \<notin> snd ` set (sessions_of g (sd_user_id schedule)) \<longrightarrow>
     session_at (gateway_notify_user schedule frame g) r = session_at g r) \<and>
   gw_users (gateway_notify_user schedule frame g) = gw_users g \<and> gw_tasks (gateway_notify_user schedule frame g) = gw_tasks g"
proof -
  have one: "gw_heap (upd_session r' f g) ! r = gw_heap g ! r" if "r' \<noteq> r" for r' f using that by (simp add: upd_session_def)
  show ?thesis
  proof (cases "map_of (gw_users g) (sd_user_id schedule)")
    case None
    then show ?thesis by (simp add: gateway_notify_user_def session_at_def split: option.splits)
  next
    case (Some u)
    have sub: "map_of (us_sessions u) sid = Some r' \<Longrightarrow> r \<notin> snd ` set (us_sessions u) \<Longrightarrow> r' \<noteq> r" for sid r'
      by (metis image_eqI map_of_SomeD snd_conv)
    show ?thesis
      using Some sub publish_to_other one
      by (auto simp: gateway_notify_user_def notify_tui_def sessions_of_def session_at_def split: option.splits)
  qed
qed

theorem notification_stays_with_user_witness:
  "session_at (gateway_notify_user (ex_schedule\<lparr>sd_user_id := ''bob''\<rparr>) (FError None None None []) ex_greeted) 0 = session_at ex_greeted 0"
  using notification_stays_with_user[of 0 ex_greeted "ex_schedule\<lparr>sd_user_id := ''bob''\<rparr>" "FError None None None []"]
  by (simp add: ex_greeted sessions_of_def)

section \<open>What is not checked\<close>

text \<open>A session found in the store is resumed for whoever names it: neither its owner nor whether it is archived is looked
  at, and neither is the limit on sessions. It keeps its owner, so the turns started on it are that
  user's.\<close>

lemma resume_ignores_owner:
  assumes "get_or_create_user user g = (u, g1)" "map_of (us_sessions u) sid = None"
    and st: "on_store (store_get_session sid) g1 = (Some (Inr (Some rec)), g2)"
  shows "\<exists>r g'. find_session now user sid g = (Inr r, g') \<and> gs_user_id (session_at g' r) = sr_user_id rec \<and>
    map_of (sessions_of g' user) (sr_session_id rec) = Some r"
proof -
  obtain r g' where add: "add_session user (sr_session_id rec) (session_of_record now rec) g2 = (r, g')" by fastforce
  show ?thesis
    using assms add add_session_sessions[OF add]
    by (auto simp: find_session_def session_at_def session_of_record_def session_new_def map_of_bt_insert)
qed

definition ex_bobs_session :: session_record where
  "ex_bobs_session = \<lparr>sr_session_id = ''s1'', sr_user_id = ''bob'', sr_agent_name = ''default'', sr_display_name = None,
     sr_channel_origin = ''tui'', sr_parent_session_id = None, sr_created_at = ''1'', sr_last_active_at = ''1'', sr_archived = True\<rparr>"

lemma cross_user_resume:
  "\<exists>r g'. find_session 0 ''alice'' ''s1''
       (with_gateway_config None (Some \<lparr>sdb_sessions = [ex_bobs_session], sdb_mappings = [], sdb_faults = []\<rparr>) gateway_config_default) = (Inr r, g') \<and>
     gs_user_id (session_at g' r) = ''bob''"
proof -
  let ?g = "with_gateway_config None (Some \<lparr>sdb_sessions = [ex_bobs_session], sdb_mappings = [], sdb_faults = []\<rparr>) gateway_config_default"
  obtain u g1 where u: "get_or_create_user ''alice'' ?g = (u, g1)" by fastforce
  have "us_sessions u = []" "gw_store g1 = Some \<lparr>sdb_sessions = [ex_bobs_session], sdb_mappings = [], sdb_faults = []\<rparr>"
    using user_sessions[OF u] by (simp_all add: sessions_of_def with_gateway_config_def)
  then show ?thesis
    using resume_ignores_owner[OF u, of "''s1''" ex_bobs_session _ 0]
    by (fastforce simp: on_store_def store_get_session_def session_sql_no_fault ex_bobs_session_def)
qed

text \<open>Two users whose names differ only in characters that are replaced share the id of the default session.\<close>

lemma default_session_id_collides: "default_session_id ''a.b'' = default_session_id ''a-b''"
  by code_simp

text \<open>The clean-up looks at connections and the time of the last activity, not at the turn: a session whose turn
  runs for longer than the limit with nobody connected is archived and its context dropped while the turn runs.\<close>

lemma cleanup_evicts_running:
  "sessions_of (cleanup_sessions_once 172805 [] (unsubscribe 0 ex_running)) ''alice'' = [] \<and>
   task_in (cleanup_sessions_once 172805 [] (unsubscribe 0 ex_running)) 0 Running"
proof -
  obtain t where t: "gw_tasks ex_queued = [t]" "tk_user t = ''alice''" "tk_session t = 0" "tk_phase t = Queued" "\<not> tk_cancelled t"
    using ex_queued(3) by blast
  have run: "gw_users ex_running = [(''alice'', \<lparr>us_sessions = [(''runtime-alice'', 0)], us_available = 9, us_queued = 0, us_max_queued = 50\<rparr>)]"
      "gs_receivers (gw_heap ex_running ! 0) = 1" "gs_last_activity (gw_heap ex_running ! 0) = 5" "length (gw_heap ex_running) = 1"
      "gw_session_idle_ttl ex_running = 172800" "gw_store ex_running = None"
    using t ex_queued(1,2,4,5)
    by (simp_all add: ex_running_def task_with_permit_def leave_queue_def Let_def get_or_create_user_def set_user_def upd_session_def upd_task_def
        mark_active_def publish_def try_publish_def saturating_mul_def)
  then show ?thesis
    using ex_phases(3)
    by (simp add: cleanup_sessions_once_def cleanup_user_def is_stale_def session_at_def unsubscribe_def heap_upd_session idle_for_at_least_def saturating_sub_def
        evict_session_def Let_def sessions_of_def set_user_def on_store_def bt_remove_def task_in_def upd_session_def)
qed

end
