(* ===== verification/Web_Egress.thy ===== *)
theory Web_Egress
  imports Scrubbing Tool_Registry
begin

unbundle bit_operations_syntax

text \<open>
  Access of tools to the web: which destinations may be contacted (the web part of \<open>tools/src/sandbox/wasm_runner.rs\<close>) and
  the tool \<open>web_fetch\<close> (\<open>tools/src/sandbox/web_fetch.rs\<close>).

  The environment variables, the URL parser, the name resolution, the HTTP client, the conversion of HTML
  to text, the replacement of invalid UTF-8 and the texts of JSON values, addresses and status codes are the
  parameter \<open>web_env\<close>. A response is its head and the list of chunks its body arrives in, each of which may fail.

  Shown: a URL that is accepted leads only to addresses outside the blocked ranges, unless its destination is on the
  allowlist, and in strict mode only to destinations on the allowlist; the blocked ranges are the ones of the usual prefix notation; the
  body that is read is a prefix of the response within the limit; texts are cut at characters.
\<close>

section \<open>Addresses\<close>

datatype ip_addr = V4 "32 word" | V6 "128 word"

definition octet :: "32 word \<Rightarrow> nat \<Rightarrow> nat" where
  "octet w i = unat (drop_bit (24 - 8 * i) w AND 255)"

definition segment0 :: "128 word \<Rightarrow> 16 word" where
  "segment0 w = ucast (drop_bit 112 w)"

fun blocked_ip_reason :: "ip_addr \<Rightarrow> string option" where
  "blocked_ip_reason (V4 v4) =
     (if v4 = 0xA9FEA9FE then Some ''metadata endpoint is blocked''
      else if octet v4 0 = 127 then Some ''loopback range 127.0.0.0/8 is blocked''
      else if octet v4 0 = 169 \<and> octet v4 1 = 254 then Some ''link-local range 169.254.0.0/16 is blocked''
      else if octet v4 0 = 10 then Some ''private range 10.0.0.0/8 is blocked''
      else if octet v4 0 = 172 \<and> 16 \<le> octet v4 1 \<and> octet v4 1 \<le> 31 then Some ''private range 172.16.0.0/12 is blocked''
      else if octet v4 0 = 192 \<and> octet v4 1 = 168 then Some ''private range 192.168.0.0/16 is blocked''
      else None)"
| "blocked_ip_reason (V6 v6) =
     (if v6 = 1 then Some ''loopback IPv6 addresses are blocked''
      else if segment0 v6 AND 0xfe00 = 0xfc00 then Some ''unique-local IPv6 range fc00::/7 is blocked''
      else if segment0 v6 AND 0xffc0 = 0xfe80 then Some ''link-local IPv6 range fe80::/10 is blocked''
      else None)"

section \<open>The egress policy\<close>

record url =
  url_text :: string
  url_scheme :: string
  url_host :: "string option"
  url_port :: "nat option"
  url_port_or_known_default :: "nat option"

record http_response =
  hr_status :: nat
  hr_content_type :: "string option"
  hr_content_length :: "u64 option"
  hr_chunks :: "(string, string) result list"

record 'w web_env =
  env_var :: "string \<Rightarrow> string option"
  parse_url :: "string \<Rightarrow> (string, url) result"
  lookup_host :: "string \<Rightarrow> nat \<Rightarrow> (string, ip_addr list) result"
  ip_text :: "ip_addr \<Rightarrow> string"
  http_get :: "url \<Rightarrow> 'w \<Rightarrow> (string, http_response) result \<times> 'w"
  status_text :: "nat \<Rightarrow> string"
  utf8_lossy :: "string \<Rightarrow> string"
  html_to_text :: "string \<Rightarrow> nat \<Rightarrow> string option"
  json_text :: "json \<Rightarrow> string"

datatype web_egress_mode = DefaultSafe | StrictAllowlistProxy

record web_egress_policy =
  eg_mode :: web_egress_mode
  eg_allowlist :: "string set"

definition read_non_empty_env :: "'w web_env \<Rightarrow> string \<Rightarrow> string option" where
  "read_non_empty_env env name =
     (case env_var env name of
        None \<Rightarrow> None
      | Some value \<Rightarrow> let value = trim value in if value = [] then None else Some value)"

fun trim_end_dots :: "string \<Rightarrow> string" where
  "trim_end_dots s = rev (dropWhile (\<lambda>c. c = CHR ''.'') (rev s))"

definition normalize_host_for_allowlist :: "string \<Rightarrow> string" where
  "normalize_host_for_allowlist host = to_ascii_lowercase (trim_end_dots (trim host))"

definition host_with_port :: "string \<Rightarrow> nat \<Rightarrow> string" where
  "host_with_port host port = host @ '':'' @ nat_to_string port"

definition normalize_allowlist_entry :: "'w web_env \<Rightarrow> string \<Rightarrow> string option" where
  "normalize_allowlist_entry env entry0 =
     (let entry = trim entry0 in
      if entry = [] then None
      else case parse_url env entry of
        Inr u \<Rightarrow>
          (case map_option normalize_host_for_allowlist (url_host u) of
             None \<Rightarrow> None
           | Some host \<Rightarrow> if host = [] then None
               else Some (case url_port u of Some port \<Rightarrow> host_with_port host port | None \<Rightarrow> host))
      | Inl _ \<Rightarrow> Some (normalize_host_for_allowlist entry))"

definition validate_proxy_url :: "'w web_env \<Rightarrow> string \<Rightarrow> (string, unit) result" where
  "validate_proxy_url env proxy_url =
     bind_result (map_err (parse_url env proxy_url) (\<lambda>e. ''invalid web egress proxy url `'' @ proxy_url @ ''`: '' @ e)) (\<lambda>parsed.
     if url_scheme parsed \<noteq> ''http'' \<and> url_scheme parsed \<noteq> ''https''
     then Inl (''web egress proxy url `'' @ proxy_url @ ''` must use http or https scheme'')
     else if url_host parsed = None then Inl (''web egress proxy url `'' @ proxy_url @ ''` must include a hostname'')
     else Inr ())"

fun split_on :: "char \<Rightarrow> string \<Rightarrow> string list" where
  "split_on d [] = [[]]"
| "split_on d (c # cs) =
     (if c = d then [] # split_on d cs
      else case split_on d cs of [] \<Rightarrow> [[c]] | s # ss \<Rightarrow> (c # s) # ss)"

definition egress_mode_of :: "string option \<Rightarrow> (string, web_egress_mode) result" where
  "egress_mode_of value =
     (case map_option to_ascii_lowercase value of
        None \<Rightarrow> Inr DefaultSafe
      | Some v \<Rightarrow>
          if v = ''default'' \<or> v = ''safe'' then Inr DefaultSafe
          else if v = ''strict'' \<or> v = ''strict_allowlist_proxy'' then Inr StrictAllowlistProxy
          else Inl (''unsupported web egress mode `'' @ v @ ''`; expected default or strict''))"

definition egress_from_environment :: "'w web_env \<Rightarrow> (string, web_egress_policy) result" where
  "egress_from_environment env =
     bind_result (egress_mode_of (read_non_empty_env env ''OXYDRA_WEB_EGRESS_MODE'')) (\<lambda>mode.
     let allowlist = (case read_non_empty_env env ''OXYDRA_WEB_EGRESS_ALLOWLIST'' of
           Some raw \<Rightarrow> set (List.map_filter (normalize_allowlist_entry env) (split_on (CHR '','') raw))
         | None \<Rightarrow> {});
         proxy_url = read_non_empty_env env ''OXYDRA_WEB_EGRESS_PROXY_URL'';
         policy = \<lparr>eg_mode = mode, eg_allowlist = allowlist\<rparr>
     in if mode = StrictAllowlistProxy
        then if allowlist = {}
             then Inl ''strict web egress mode requires `OXYDRA_WEB_EGRESS_ALLOWLIST` with one or more destinations''
             else bind_result (ok_or proxy_url ''strict web egress mode requires `OXYDRA_WEB_EGRESS_PROXY_URL` to be set'') (\<lambda>p.
                  bind_result (validate_proxy_url env p) (\<lambda>_. Inr policy))
        else case proxy_url of
               Some p \<Rightarrow> bind_result (validate_proxy_url env p) (\<lambda>_. Inr policy)
             | None \<Rightarrow> Inr policy)"

definition destination_allowlisted :: "web_egress_policy \<Rightarrow> string \<Rightarrow> nat \<Rightarrow> bool" where
  "destination_allowlisted policy host0 port =
     (if eg_allowlist policy = {} then False
      else let host = normalize_host_for_allowlist host0
           in host \<in> eg_allowlist policy \<or> host_with_port host port \<in> eg_allowlist policy)"

text \<open>The addresses of a \<open>BTreeSet\<close>: the IPv4 ones first, each family in ascending order.\<close>

definition unique_ips :: "ip_addr list \<Rightarrow> ip_addr list" where
  "unique_ips ips =
     map V4 (sort (remdups (List.map_filter (\<lambda>ip. case ip of V4 w \<Rightarrow> Some w | V6 _ \<Rightarrow> None) ips))) @
     map V6 (sort (remdups (List.map_filter (\<lambda>ip. case ip of V6 w \<Rightarrow> Some w | V4 _ \<Rightarrow> None) ips)))"

definition resolve_host_ips :: "'w web_env \<Rightarrow> string \<Rightarrow> nat \<Rightarrow> (string, ip_addr list) result" where
  "resolve_host_ips env host port =
     bind_result (map_err (lookup_host env host port) (\<lambda>e. ''failed to resolve host `'' @ host @ ''`: '' @ e)) (\<lambda>resolved.
     let ips = unique_ips resolved in
     if ips = [] then Inl (''host `'' @ host @ ''` resolved to no IP addresses'') else Inr ips)"

fun enforce_web_target_ips :: "'w web_env \<Rightarrow> string \<Rightarrow> ip_addr list \<Rightarrow> bool \<Rightarrow> (string, unit) result" where
  "enforce_web_target_ips env host [] allowlisted = Inr ()"
| "enforce_web_target_ips env host (ip # ips) allowlisted =
     (case blocked_ip_reason ip of
        None \<Rightarrow> enforce_web_target_ips env host ips allowlisted
      | Some reason \<Rightarrow>
          if allowlisted then enforce_web_target_ips env host ips allowlisted
          else Inl (''web target `'' @ host @ ''` resolved to blocked address `'' @ ip_text env ip @ ''` ('' @ reason @ '')''))"

definition parse_and_validate_web_url :: "'w web_env \<Rightarrow> string \<Rightarrow> (string, url) result" where
  "parse_and_validate_web_url env raw_url =
     bind_result (map_err (parse_url env raw_url) (\<lambda>e. ''invalid url `'' @ raw_url @ ''`: '' @ e)) (\<lambda>parsed_url.
     if url_scheme parsed_url \<noteq> ''http'' \<and> url_scheme parsed_url \<noteq> ''https''
     then Inl (''web fetch only supports http/https URLs, got scheme `'' @ url_scheme parsed_url @ ''`'')
     else
       bind_result (ok_or (url_host parsed_url) (''url `'' @ raw_url @ ''` does not include a hostname'')) (\<lambda>host.
       bind_result (ok_or (url_port_or_known_default parsed_url)
         (''url `'' @ raw_url @ ''` is missing a known port for scheme `'' @ url_scheme parsed_url @ ''`'')) (\<lambda>port.
       bind_result (egress_from_environment env) (\<lambda>policy.
       let allowlisted = destination_allowlisted policy host port in
       if eg_mode policy = StrictAllowlistProxy \<and> \<not> allowlisted
       then Inl (''strict web egress policy blocked destination `'' @ host_with_port host port @ ''` because it is not allowlisted'')
       else bind_result (resolve_host_ips env host port) (\<lambda>resolved_ips.
            bind_result (enforce_web_target_ips env host resolved_ips allowlisted) (\<lambda>_. Inr parsed_url))))))"

section \<open>Reading a response\<close>

fun read_response_bytes :: "nat \<Rightarrow> string \<Rightarrow> (string, string) result list \<Rightarrow> (string, string \<times> bool) result" where
  "read_response_bytes max_bytes out [] = Inr (out, False)"
| "read_response_bytes max_bytes out (Inl e # chunks) = Inl (''failed to read response chunk: '' @ e)"
| "read_response_bytes max_bytes out (Inr chunk # chunks) =
     (if length out \<ge> max_bytes then Inr (out, True)
      else let remaining = max_bytes - length out in
        if length chunk > remaining then Inr (out @ take remaining chunk, True)
        else read_response_bytes max_bytes (out @ chunk) chunks)"

definition truncate_web_body :: "string \<Rightarrow> string" where
  "truncate_web_body body =
     (if length body \<le> 256 then body else take (boundary_at_or_below body 256) body @ ''...[truncated]'')"

text \<open>The loop of \<open>truncate_text\<close> over the characters and their byte positions: count and end.\<close>

fun scan_chars :: "nat \<Rightarrow> nat \<Rightarrow> nat \<Rightarrow> nat \<Rightarrow> string list \<Rightarrow> nat \<times> nat" where
  "scan_chars max_chars len count index [] = (count, len)"
| "scan_chars max_chars len count index (c # cs) =
     (if count = max_chars then (count, index) else scan_chars max_chars len (count + 1) (index + length c) cs)"

definition truncate_text :: "string \<Rightarrow> nat \<Rightarrow> string \<times> bool" where
  "truncate_text value max_chars =
     (if max_chars = 0 then ([], True)
      else case scan_chars max_chars (length value) 0 0 (chars value) of (count, fin) \<Rightarrow>
        if count < max_chars \<or> fin = length value then (value, False)
        else (take fin value @ nl @ nl @ ''[truncated]'', True))"

section \<open>The tool \<open>web_fetch\<close>\<close>

definition required_string :: "json \<Rightarrow> string \<Rightarrow> string \<Rightarrow> (string, string) result" where
  "required_string arguments field tool_name =
     ok_or (Option.bind (json_get arguments field) as_str) (''tool `'' @ tool_name @ ''` requires string argument `'' @ field @ ''`'')"

datatype fetch_output_format = FmtAuto | FmtRaw | FmtText | FmtMetadataOnly

definition fetch_output_format_parse :: "json option \<Rightarrow> (string, fetch_output_format) result" where
  "fetch_output_format_parse raw =
     (let value = (case Option.bind raw as_str of Some v \<Rightarrow> v | None \<Rightarrow> ''auto''); v = to_ascii_lowercase value in
      if v = ''auto'' then Inr FmtAuto
      else if v = ''raw'' then Inr FmtRaw
      else if v = ''text'' then Inr FmtText
      else if v = ''metadata_only'' then Inr FmtMetadataOnly
      else Inl (''invalid output_format `'' @ value @ ''`; expected one of auto, raw, text, metadata_only''))"

fun fetch_output_format_str :: "fetch_output_format \<Rightarrow> string" where
  "fetch_output_format_str FmtAuto = ''auto''"
| "fetch_output_format_str FmtRaw = ''raw''"
| "fetch_output_format_str FmtText = ''text''"
| "fetch_output_format_str FmtMetadataOnly = ''metadata_only''"

datatype fetch_body_mode = BodyRaw | BodyText | BodyMetadataOnly

fun fetch_body_mode_str :: "fetch_body_mode \<Rightarrow> string" where
  "fetch_body_mode_str BodyRaw = ''raw''"
| "fetch_body_mode_str BodyText = ''text''"
| "fetch_body_mode_str BodyMetadataOnly = ''metadata_only''"

text \<open>\<open>Value::as_u64\<close>: a number literal without sign, fraction and exponent that fits.\<close>

fun json_as_u64 :: "json \<Rightarrow> nat option" where
  "json_as_u64 (JNum s) =
     (let n = foldl (\<lambda>a c. a * 10 + (of_char c - 48)) 0 s in
      if s \<noteq> [] \<and> list_all is_ascii_digit s \<and> n < 2 ^ 64 then Some n else None)"
| "json_as_u64 _ = None"

definition parse_optional_usize :: "json option \<Rightarrow> nat \<Rightarrow> string \<Rightarrow> (string, nat) result" where
  "parse_optional_usize value default_value field =
     (case value of
        None \<Rightarrow> Inr default_value
      | Some JNull \<Rightarrow> Inr default_value
      | Some v \<Rightarrow> ok_or (json_as_u64 v) (''`'' @ field @ ''` must be a non-negative integer''))"

definition normalize_content_type :: "string \<Rightarrow> string" where
  "normalize_content_type value = to_ascii_lowercase (trim (hd (split_on (CHR '';'') value)))"

definition is_html_content_type :: "string \<Rightarrow> bool" where
  "is_html_content_type ct \<longleftrightarrow> ct = ''text/html'' \<or> ct = ''application/xhtml+xml''"

definition is_text_content_type :: "string \<Rightarrow> bool" where
  "is_text_content_type ct \<longleftrightarrow> starts_with ct ''text/'' \<or>
     ct \<in> {''application/json'', ''application/xml'', ''application/xhtml+xml'', ''application/javascript'',
           ''application/x-www-form-urlencoded'', ''text/xml'', ''text/javascript''} \<or>
     ends_with ct ''+json'' \<or> ends_with ct ''+xml''"

definition is_binary_content_type :: "string \<Rightarrow> bool" where
  "is_binary_content_type ct =
     (if is_text_content_type ct then False
      else starts_with ct ''image/'' \<or> starts_with ct ''audio/'' \<or> starts_with ct ''video/'' \<or> starts_with ct ''application/'')"

definition plan_fetch_body_mode :: "fetch_output_format \<Rightarrow> string option \<Rightarrow> (string, fetch_body_mode \<times> bool) result" where
  "plan_fetch_body_mode requested content_type =
     (let has = (\<lambda>P. case content_type of Some ct \<Rightarrow> P ct | None \<Rightarrow> False) in
      if requested = FmtMetadataOnly then Inr (BodyMetadataOnly, False)
      else if has is_binary_content_type \<and> requested = FmtText then Inl ''binary content is not supported for text output''
      else if has is_binary_content_type \<and> requested = FmtAuto then Inr (BodyMetadataOnly, False)
      else if requested = FmtRaw then Inr (BodyRaw, False)
      else if has is_html_content_type then Inr (BodyText, True)
      else if has is_text_content_type then Inr (BodyText, False)
      else if requested = FmtText then Inr (BodyText, False)
      else Inr (BodyRaw, False))"

definition find_sub :: "string \<Rightarrow> string \<Rightarrow> nat option" where
  "find_sub s p = find (\<lambda>i. starts_with (drop i s) p) [0..<Suc (length s)]"

definition extract_html_title :: "string \<Rightarrow> string option" where
  "extract_html_title html =
     (let lower = to_ascii_lowercase html in
      Option.bind (find_sub lower ''<title'') (\<lambda>start.
      Option.bind (find_sub (drop start lower) ''>'') (\<lambda>i. let start_tag_end = i + start + 1 in
      Option.bind (find_sub (drop start_tag_end lower) ''</title>'') (\<lambda>j.
      let title = trim (take j (drop start_tag_end html)) in if title = [] then None else Some title))))"

text \<open>\<open>str::lines\<close>: the pieces between line feeds, without a final empty one and without the carriage return before a line feed.\<close>

definition strip_cr :: "string \<Rightarrow> string" where
  "strip_cr l = (if l \<noteq> [] \<and> last l = CHR 0x0D then butlast l else l)"

definition str_lines :: "string \<Rightarrow> string list" where
  "str_lines s =
     (let ps = split_on (CHR 0x0A) s in map strip_cr (butlast ps) @ (if last ps = [] then [] else [last ps]))"

definition normalize_line :: "string \<Rightarrow> string \<times> bool \<Rightarrow> string \<times> bool" where
  "normalize_line line st =
     (case st of (out, last_blank) \<Rightarrow>
        let trimmed = trim line in
        if trimmed = [] then if \<not> last_blank \<and> out \<noteq> [] then (out @ nl @ nl, True) else (out, last_blank)
        else let out = (if out \<noteq> [] \<and> \<not> ends_with out nl then out @ nl else out) in (out @ trimmed @ nl, False))"

definition normalize_text :: "string \<Rightarrow> string" where
  "normalize_text value = trim (fst (fold normalize_line (str_lines value) ([], False)))"

definition HTML_TEXT_WIDTH :: nat where
  "HTML_TEXT_WIDTH = 120"

definition extract_html_content :: "'w web_env \<Rightarrow> string \<Rightarrow> string \<times> string option" where
  "extract_html_content env bytes =
     (let html = utf8_lossy env bytes;
          body = (case html_to_text env bytes HTML_TEXT_WIDTH of Some t \<Rightarrow> t | None \<Rightarrow> html)
      in (normalize_text body, extract_html_title html))"

record web_fetch_payload =
  wp_url :: string
  wp_status :: nat
  wp_content_type :: "string option"
  wp_content_length :: "u64 option"
  wp_output_format :: fetch_output_format
  wp_mode :: fetch_body_mode
  wp_body :: "string option"
  wp_truncated :: bool
  wp_title :: "string option"
  wp_note :: "string option"

definition opt_str :: "string option \<Rightarrow> json" where
  "opt_str s = (case s of Some x \<Rightarrow> JStr x | None \<Rightarrow> JNull)"

definition build_web_fetch_response :: "web_fetch_payload \<Rightarrow> json" where
  "build_web_fetch_response p =
     JObj (filter (\<lambda>(k, v). v \<noteq> JNull \<and> \<not> (k = ''truncated'' \<and> v = JBool False))
       [(''body'', opt_str (wp_body p)),
        (''content_length'', case wp_content_length p of Some n \<Rightarrow> JNum (nat_to_string (unat n)) | None \<Rightarrow> JNull),
        (''content_type'', opt_str (wp_content_type p)),
        (''mode'', JStr (fetch_body_mode_str (wp_mode p))),
        (''note'', opt_str (wp_note p)),
        (''output_format'', JStr (fetch_output_format_str (wp_output_format p))),
        (''status'', JNum (nat_to_string (wp_status p))),
        (''title'', opt_str (wp_title p)),
        (''truncated'', JBool (wp_truncated p)),
        (''url'', JStr (wp_url p))])"

definition WEB_FETCH_MAX_RESPONSE_BYTES :: nat where
  "WEB_FETCH_MAX_RESPONSE_BYTES = 5 * 1024 * 1024"

definition WEB_FETCH_DEFAULT_MAX_BODY_CHARS :: nat where
  "WEB_FETCH_DEFAULT_MAX_BODY_CHARS = 50000"

definition WEB_FETCH_ERROR_PREVIEW_BYTES :: nat where
  "WEB_FETCH_ERROR_PREVIEW_BYTES = 8 * 1024"

text \<open>What becomes of a response.\<close>

definition fetched_payload :: "'w web_env \<Rightarrow> string \<Rightarrow> fetch_output_format \<Rightarrow> nat \<Rightarrow> http_response \<Rightarrow> (string, web_fetch_payload) result" where
  "fetched_payload env target_url output_format max_body_chars rsp =
     (if \<not> (200 \<le> hr_status rsp \<and> hr_status rsp < 300)
      then bind_result (read_response_bytes WEB_FETCH_ERROR_PREVIEW_BYTES [] (hr_chunks rsp)) (\<lambda>(error_body, _).
           let preview = fst (truncate_text (utf8_lossy env error_body) 512) in
           Inl (''web fetch returned status '' @ status_text env (hr_status rsp) @ '' for `'' @ target_url @ ''`: '' @ truncate_web_body preview))
      else bind_result (plan_fetch_body_mode output_format (map_option normalize_content_type (hr_content_type rsp))) (\<lambda>(mode, extract_html).
        let payload = \<lparr>wp_url = target_url, wp_status = hr_status rsp, wp_content_type = hr_content_type rsp,
              wp_content_length = hr_content_length rsp, wp_output_format = output_format, wp_mode = mode, wp_body = None,
              wp_truncated = False, wp_title = None, wp_note = None\<rparr> in
        if mode = BodyMetadataOnly
        then Inr (payload\<lparr>wp_note := Some (if output_format = FmtMetadataOnly then ''metadata_only requested; body omitted''
               else ''binary content omitted to reduce token usage'')\<rparr>)
        else bind_result (read_response_bytes WEB_FETCH_MAX_RESPONSE_BYTES [] (hr_chunks rsp)) (\<lambda>(body_bytes, truncated_by_bytes).
             let content = (if mode = BodyText \<and> extract_html then extract_html_content env body_bytes else (utf8_lossy env body_bytes, None));
                 shown = truncate_text (fst content) max_body_chars
             in Inr (payload\<lparr>wp_body := Some (fst shown), wp_truncated := truncated_by_bytes \<or> snd shown, wp_title := snd content\<rparr>))))"

definition web_fetch_execute :: "'w web_env \<Rightarrow> json \<Rightarrow> ('w, string, string) action" where
  "web_fetch_execute env arguments =
     bind_action (lift_action (required_string arguments ''url'' ''web_fetch'')) (\<lambda>url.
     bind_action (lift_action (fetch_output_format_parse (json_get arguments ''output_format''))) (\<lambda>output_format.
     bind_action (lift_action (parse_optional_usize (json_get arguments ''max_body_chars'') WEB_FETCH_DEFAULT_MAX_BODY_CHARS ''max_body_chars'')) (\<lambda>max_body_chars.
     bind_action (lift_action (parse_and_validate_web_url env url)) (\<lambda>parsed_url.
     bind_action (\<lambda>w. case http_get env parsed_url w of (r, w') \<Rightarrow>
         (map_err r (\<lambda>e. ''web fetch request failed for `'' @ url_text parsed_url @ ''`: '' @ e), w')) (\<lambda>rsp.
     lift_action (bind_result (fetched_payload env (url_text parsed_url) output_format max_body_chars rsp)
       (\<lambda>payload. Inr (json_text env (build_web_fetch_response payload)))))))))"

section \<open>Lemmas\<close>

text \<open>A network prefix: the addresses that agree with it in the first \<open>n\<close> bits.\<close>

definition in_prefix :: "'a::len word \<Rightarrow> nat \<Rightarrow> 'a word \<Rightarrow> bool" where
  "in_prefix net n w \<longleftrightarrow> drop_bit (LENGTH('a) - n) w = drop_bit (LENGTH('a) - n) net"

lemma unat_and_255: "unat (x AND 255) = unat x mod 256" for x :: "32 word"
proof -
  have "x AND 255 = take_bit 8 x" unfolding take_bit_eq_mask by (simp add: mask_eq_exp_minus_1)
  then have "unat (x AND 255) = take_bit 8 (unat x)" by (simp only: unsigned_take_bit_eq)
  then show ?thesis by (simp add: take_bit_eq_mod)
qed

lemma unat_drop_bit_div: "unat (drop_bit n w) = unat w div 2 ^ n" for w :: "'a::len word"
proof -
  have "unat (drop_bit n w) = drop_bit n (unat w)" by (rule unat_drop_bit_eq)
  then show ?thesis by (simp only: drop_bit_eq_div[of n "unat w"])
qed

lemma octet_div: "octet w i = unat w div 2 ^ (24 - 8 * i) mod 256"
  by (simp only: octet_def unat_and_255 unat_drop_bit_div)

lemma in_prefix_div: "in_prefix net n w \<longleftrightarrow> unat w div 2 ^ (32 - n) = unat net div 2 ^ (32 - n)" for w :: "32 word"
  by (simp only: in_prefix_def word_unat_eq_iff unat_drop_bit_div len_bit0 len_num1) simp

lemma div_mod_256_iff:
  fixes m a b :: nat
  assumes "b < 256"
  shows "m div 256 = a \<and> m mod 256 = b \<longleftrightarrow> m = a * 256 + b"
  using assms div_mult_mod_eq[of m 256] by auto

lemma blocked_v4_iff:
  "blocked_ip_reason (V4 w) \<noteq> None \<longleftrightarrow>
     in_prefix 0x7F000000 8 w \<or> in_prefix 0xA9FE0000 16 w \<or> in_prefix 0x0A000000 8 w \<or> in_prefix 0xAC100000 12 w \<or> in_prefix 0xC0A80000 16 w"
proof -
  define m where "m = unat w div 65536"
  have m: "m < 65536" unfolding m_def using unsigned_less[of w, where 'a = nat] by (simp add: less_mult_imp_div_less)
  have d: "unat w div 16777216 = m div 256" "unat w div 1048576 = m div 16" by (simp_all add: m_def div_mult2_eq[symmetric])
  have o: "octet w 0 = m div 256" "octet w (Suc 0) = m mod 256"
    using m by (simp_all add: octet_div d m_def[symmetric])
  have meta: "w = 0xA9FEA9FE \<longrightarrow> m = 43518" by (auto simp: m_def)
  have p: "in_prefix 0x7F000000 8 w \<longleftrightarrow> m div 256 = 127" "in_prefix 0xA9FE0000 16 w \<longleftrightarrow> m = 43518"
    "in_prefix 0x0A000000 8 w \<longleftrightarrow> m div 256 = 10" "in_prefix 0xAC100000 12 w \<longleftrightarrow> m div 16 = 2753"
    "in_prefix 0xC0A80000 16 w \<longleftrightarrow> m = 49320"
    by (simp_all add: in_prefix_div d m_def[symmetric])
  obtain q r where qr: "m = q * 256 + r" "r < 256" "m div 256 = q" "m mod 256 = r"
    using div_mult_mod_eq[of m 256] by (metis mod_less_divisor zero_less_numeral)
  have "m div 16 = 2753 \<longleftrightarrow> 2753 \<le> m div 16 \<and> m div 16 < 2754" by auto
  also have "\<dots> \<longleftrightarrow> 44048 \<le> m \<and> m < 44064" by (simp add: less_eq_div_iff_mult_less_eq div_less_iff_less_mult)
  also have "\<dots> \<longleftrightarrow> q = 172 \<and> 16 \<le> r \<and> r \<le> 31"
  proof (cases "q = 172")
    case True
    then show ?thesis using qr(1,2) by auto
  next
    case False
    then have "q < 172 \<or> 172 < q" by linarith
    then show ?thesis using False qr(1,2) by linarith
  qed
  finally have "q = 172 \<and> 16 \<le> r \<and> r \<le> 31 \<longleftrightarrow> m div 16 = 2753" ..
  moreover have "q = 169 \<and> r = 254 \<longleftrightarrow> m = 43518"
    using div_mod_256_iff[of 254 m 169] by (simp add: qr(3,4))
  moreover have "q = 192 \<and> r = 168 \<longleftrightarrow> m = 49320"
    using div_mod_256_iff[of 168 m 192] by (simp add: qr(3,4))
  ultimately show ?thesis unfolding p using meta by (auto simp: o qr(3,4))
qed

lemma and_prefix_mask:
  fixes x c :: "16 word"
  assumes "k + n = 16"
  shows "x AND push_bit k (mask n) = push_bit k c \<longleftrightarrow> drop_bit k x = take_bit n c"
proof
  assume eq: "x AND push_bit k (mask n) = push_bit k c"
  show "drop_bit k x = take_bit n c"
  proof (rule bit_word_eqI)
    fix i assume "i < LENGTH(16)"
    show "bit (drop_bit k x) i \<longleftrightarrow> bit (take_bit n c) i"
      using arg_cong[OF eq, of "\<lambda>v. bit v (k + i)"] assms bit_imp_le_length[of x "k + i"]
      by (auto simp: bit_simps)
  qed
next
  assume eq: "drop_bit k x = take_bit n c"
  show "x AND push_bit k (mask n) = push_bit k c"
  proof (rule bit_word_eqI)
    fix i assume "i < LENGTH(16)"
    then show "bit (x AND push_bit k (mask n)) i \<longleftrightarrow> bit (push_bit k c) i"
      using arg_cong[OF eq, of "\<lambda>v. bit v (i - k)"] assms by (auto simp: bit_simps)
  qed
qed

lemma segment0_prefix:
  assumes "k + n = 16" "n < 16"
  shows "segment0 w AND push_bit k (mask n) = push_bit k c \<longleftrightarrow> unat w div 2 ^ (112 + k) = unat (take_bit n c)"
proof -
  have "unat w < 2 ^ 128" using unsigned_less[of w, where 'a = nat] by simp
  then have "unat w div 2 ^ 112 < 2 ^ 16" by (simp add: less_mult_imp_div_less)
  then have "unat (segment0 w) = unat w div 2 ^ 112"
    by (simp add: segment0_def unsigned_ucast_eq unat_drop_bit_div take_bit_eq_mod del: power_numeral)
  then have "unat (drop_bit k (segment0 w)) = unat w div 2 ^ (112 + k)" by (simp only: unat_drop_bit_div power_add div_mult2_eq)
  then have "drop_bit k (segment0 w) = take_bit n c \<longleftrightarrow> unat w div 2 ^ (112 + k) = unat (take_bit n c)"
    by (simp only: word_unat_eq_iff[of "drop_bit k (segment0 w)"])
  then show ?thesis by (simp only: and_prefix_mask[OF assms(1)])
qed

lemma in_prefix_div6: "in_prefix net n w \<longleftrightarrow> unat w div 2 ^ (128 - n) = unat net div 2 ^ (128 - n)" for w :: "128 word"
  by (simp only: in_prefix_def word_unat_eq_iff unat_drop_bit_div len_bit0 len_num1) simp

lemma blocked_v6_iff:
  "blocked_ip_reason (V6 w) \<noteq> None \<longleftrightarrow> w = 1 \<or> in_prefix 0xFC000000000000000000000000000000 7 w \<or> in_prefix 0xFE800000000000000000000000000000 10 w"
proof -
  have ul: "segment0 w AND 0xfe00 = 0xfc00 \<longleftrightarrow> unat w div 2 ^ 121 = 126"
    using segment0_prefix[where k = 9 and n = 7 and w = w and c = "0x7e"] by (simp add: mask_eq_exp_minus_1 take_bit_eq_mod)
  have ll: "segment0 w AND 0xffc0 = 0xfe80 \<longleftrightarrow> unat w div 2 ^ 118 = 1018"
    using segment0_prefix[where k = 6 and n = 10 and w = w and c = "0x3fa"] by (simp add: mask_eq_exp_minus_1 take_bit_eq_mod)
  have p: "in_prefix 0xFC000000000000000000000000000000 7 w \<longleftrightarrow> unat w div 2 ^ 121 = 126"
    "in_prefix 0xFE800000000000000000000000000000 10 w \<longleftrightarrow> unat w div 2 ^ 118 = 1018"
    by (simp_all add: in_prefix_div6)
  show ?thesis unfolding p by (simp only: blocked_ip_reason.simps ul ll) simp
qed

text \<open>C40: An IPv4 address is blocked exactly when it lies in the loopback, link-local or one of the three private networks, an
  IPv6 address when it is the loopback address or lies in the unique-local or the link-local network.\<close>

theorem blocked_ip_iff:
  "(blocked_ip_reason (V4 v) \<noteq> None \<longleftrightarrow>
      in_prefix 0x7F000000 8 v \<or> in_prefix 0xA9FE0000 16 v \<or> in_prefix 0x0A000000 8 v \<or> in_prefix 0xAC100000 12 v \<or> in_prefix 0xC0A80000 16 v) \<and>
   (blocked_ip_reason (V6 w) \<noteq> None \<longleftrightarrow> w = 1 \<or> in_prefix 0xFC000000000000000000000000000000 7 w \<or> in_prefix 0xFE800000000000000000000000000000 10 w)"
  using blocked_v4_iff[of v] blocked_v6_iff[of w] by blast

lemma enforce_web_target_ips_Inr:
  "enforce_web_target_ips env host ips allowlisted = Inr () \<longleftrightarrow> allowlisted \<or> (\<forall>ip\<in>set ips. blocked_ip_reason ip = None)"
  by (induction env host ips allowlisted rule: enforce_web_target_ips.induct) (auto split: option.splits)

lemma set_unique_ips: "set (unique_ips ips) = set ips"
proof (rule set_eqI)
  have v4: "v \<in> set (List.map_filter (\<lambda>ip. case ip of V4 w \<Rightarrow> Some w | V6 _ \<Rightarrow> None) ips) \<longleftrightarrow> V4 v \<in> set ips" for v
    by (induction ips) (auto simp: List.map_filter_simps split: ip_addr.splits)
  have v6: "v \<in> set (List.map_filter (\<lambda>ip. case ip of V6 w \<Rightarrow> Some w | V4 _ \<Rightarrow> None) ips) \<longleftrightarrow> V6 v \<in> set ips" for v
    by (induction ips) (auto simp: List.map_filter_simps split: ip_addr.splits)
  show "x \<in> set (unique_ips ips) \<longleftrightarrow> x \<in> set ips" for x
    by (cases x) (auto simp: unique_ips_def v4 v6)
qed

lemma resolve_host_ips_Inr:
  assumes "resolve_host_ips env host port = Inr ips"
  obtains resolved where "lookup_host env host port = Inr resolved" "set ips = set resolved" "resolved \<noteq> []"
proof -
  from assms obtain resolved where "lookup_host env host port = Inr resolved" "ips = unique_ips resolved" "ips \<noteq> []"
    by (auto simp: resolve_host_ips_def Let_def split: if_splits)
  moreover from this(2,3) have "set ips = set resolved" "resolved \<noteq> []" using set_unique_ips[of resolved] by fastforce+
  ultimately show ?thesis using that by blast
qed

text \<open>The promise of the egress policy: what holds of a destination that may be contacted.\<close>

definition egress_allowed :: "'w web_env \<Rightarrow> url \<Rightarrow> bool" where
  "egress_allowed env u \<longleftrightarrow>
     url_scheme u \<in> {''http'', ''https''} \<and>
     (\<exists>host port policy ips. url_host u = Some host \<and> url_port_or_known_default u = Some port \<and> egress_from_environment env = Inr policy \<and>
        lookup_host env host port = Inr ips \<and> ips \<noteq> [] \<and>
        (eg_mode policy = StrictAllowlistProxy \<longrightarrow> destination_allowlisted policy host port) \<and>
        (\<not> destination_allowlisted policy host port \<longrightarrow> (\<forall>ip\<in>set ips. blocked_ip_reason ip = None)))"

lemma validated_url_allowed:
  assumes "parse_and_validate_web_url env raw = Inr u"
  shows "parse_url env raw = Inr u \<and> egress_allowed env u"
proof -
  from assms obtain host port policy ips where
    u: "parse_url env raw = Inr u" "url_scheme u \<in> {''http'', ''https''}" "url_host u = Some host" "url_port_or_known_default u = Some port"
      "egress_from_environment env = Inr policy"
      "eg_mode policy = StrictAllowlistProxy \<longrightarrow> destination_allowlisted policy host port"
      "resolve_host_ips env host port = Inr ips" "enforce_web_target_ips env host ips (destination_allowlisted policy host port) = Inr ()"
    unfolding parse_and_validate_web_url_def by (auto simp: Let_def split: if_splits)
  from resolve_host_ips_Inr[OF u(7)] obtain resolved where
    r: "lookup_host env host port = Inr resolved" "set ips = set resolved" "resolved \<noteq> []" .
  have "\<not> destination_allowlisted policy host port \<longrightarrow> (\<forall>ip\<in>set resolved. blocked_ip_reason ip = None)"
    using u(8) r(2) by (auto simp: enforce_web_target_ips_Inr)
  then show ?thesis using u r by (auto simp: egress_allowed_def)
qed

text \<open>C10: The tool \<open>web_fetch\<close> contacts a host only when the URL of its arguments parses, has the scheme http or https, and its destination is
  allowed: no address the host resolves to is in a blocked range unless the destination is on the allowlist, and in strict mode it is on the
  allowlist. One request is made, for that URL, and none when the tool refuses.
\<close>

theorem web_fetch_contacts_allowed:
  assumes "web_fetch_execute env arguments w = (r, w')" "w' \<noteq> w"
  shows "\<exists>raw u. json_get arguments ''url'' = Some (JStr raw) \<and> parse_url env raw = Inr u \<and> egress_allowed env u \<and> w' = snd (http_get env u w)"
proof -
  have "\<exists>raw u. required_string arguments ''url'' ''web_fetch'' = Inr raw \<and> parse_and_validate_web_url env raw = Inr u \<and> w' = snd (http_get env u w)"
    using assms unfolding web_fetch_execute_def
    by (auto simp: bind_action_def lift_action_def split: prod.splits sum.splits)
  then obtain raw u where "required_string arguments ''url'' ''web_fetch'' = Inr raw" "parse_and_validate_web_url env raw = Inr u"
    "w' = snd (http_get env u w)" by blast
  moreover from this(1) have "json_get arguments ''url'' = Some (JStr raw)"
    by (auto simp: required_string_def bind_eq_Some_conv elim: as_str.elims)
  ultimately show ?thesis using validated_url_allowed by blast
qed

definition received :: "(string, string) result list \<Rightarrow> string" where
  "received chunks = concat (map (\<lambda>c. case c of Inr b \<Rightarrow> b | Inl _ \<Rightarrow> []) chunks)"

lemma received_simps [simp]: "received [] = []" "received (Inr b # cs) = b @ received cs"
  by (simp_all add: received_def)

lemma read_response_bytes_Inr:
  assumes "read_response_bytes n out chunks = Inr (body, truncated)" "length out \<le> n"
  shows "body = take n (out @ received chunks) \<and>
    (if truncated then length body = n else list_all is_ok chunks \<and> length (received chunks) + length out \<le> n)"
  using assms
proof (induction n out chunks rule: read_response_bytes.induct)
  case (1 n out)
  then show ?case by simp
next
  case (2 n out e chunks)
  then show ?case by simp
next
  case (3 n out chunk chunks)
  consider (full) "n \<le> length out" | (cut) "length out < n" "n - length out < length chunk" | (more) "length out < n" "length chunk \<le> n - length out"
    by linarith
  then show ?case
  proof cases
    case full
    then show ?thesis using 3(2,3) by simp
  next
    case cut
    then show ?thesis using 3(2) by (auto simp: Let_def)
  next
    case more
    then have fits: "length (out @ chunk) \<le> n" by simp
    from more have unread: "\<not> n \<le> length out" "\<not> n - length out < length chunk" by auto
    then have "read_response_bytes n (out @ chunk) chunks = Inr (body, truncated)" using 3(2) by simp
    from 3(1)[OF unread(1) refl unread(2) this fits] show ?thesis by (cases truncated) (auto simp del: take_append length_take)
  qed
qed

text \<open>Reading the body of a response gives the first \<open>n\<close> bytes of what was received, never more; when it is not reported as cut, every chunk
  arrived and nothing is missing.
\<close>

theorem read_response_bytes_bounded:
  assumes "read_response_bytes n [] chunks = Inr (body, truncated)"
  shows "body = take n (received chunks) \<and> length body \<le> n \<and> (\<not> truncated \<longrightarrow> list_all is_ok chunks \<and> body = received chunks)"
  using read_response_bytes_Inr[OF assms] by (auto split: if_splits)

text \<open>A response of two chunks against a limit of three bytes.\<close>

theorem read_response_bytes_bounded_witness:
  "''abc'' = take 3 (received [Inr ''ab'', Inr ''cd'']) \<and> length ''abc'' \<le> 3 \<and>
     (\<not> True \<longrightarrow> list_all is_ok [Inr ''ab'', Inr ''cd'' :: (string, string) result] \<and> ''abc'' = received [Inr ''ab'', Inr ''cd''])"
  by (rule read_response_bytes_bounded) simp

text \<open>A world that counts the requests, with one public host and one that resolves to a private address.\<close>

definition ex_url :: "string \<Rightarrow> url" where
  "ex_url h = \<lparr>url_text = ''http://'' @ h, url_scheme = ''http'', url_host = Some h, url_port = None, url_port_or_known_default = Some 80\<rparr>"

definition ex_web :: "nat web_env" where
  "ex_web = \<lparr>env_var = (\<lambda>_. None), parse_url = (\<lambda>s. Inr (ex_url s)),
     lookup_host = (\<lambda>h _. Inr [if h = ''pub'' then V4 0x08080808 else V4 0x0A000001]), ip_text = (\<lambda>_. ''ip''),
     http_get = (\<lambda>_ n. (Inr \<lparr>hr_status = 200, hr_content_type = None, hr_content_length = None, hr_chunks = [Inr ''hi'']\<rparr>, Suc n)),
     status_text = (\<lambda>_. []), utf8_lossy = (\<lambda>s. s), html_to_text = (\<lambda>_ _. None), json_text = (\<lambda>_. ''{}'')\<rparr>"

definition ex_fetch :: "string \<Rightarrow> json" where
  "ex_fetch u = JObj [(''url'', JStr u)]"

lemmas ex_web_simps = ex_web_def ex_url_def ex_fetch_def web_fetch_execute_def bind_action_def lift_action_def required_string_def json_get_def
  fetch_output_format_parse_def to_ascii_lowercase_def parse_optional_usize_def parse_and_validate_web_url_def
  egress_from_environment_def egress_mode_of_def read_non_empty_env_def destination_allowlisted_def resolve_host_ips_def unique_ips_def
  octet_def List.map_filter_def

lemma ex_fetch_public: "snd (web_fetch_execute ex_web (ex_fetch ''pub'') 0) = 1"
  by (simp add: ex_web_simps)

lemma ex_fetch_private:
  "web_fetch_execute ex_web (ex_fetch ''lan'') n =
     (Inl ''web target `lan` resolved to blocked address `ip` (private range 10.0.0.0/8 is blocked)'', n)"
  by (simp add: ex_web_simps)

theorem web_fetch_contacts_allowed_witness:
  "\<exists>raw u. json_get (ex_fetch ''pub'') ''url'' = Some (JStr raw) \<and> parse_url ex_web raw = Inr u \<and> egress_allowed ex_web u \<and>
     snd (web_fetch_execute ex_web (ex_fetch ''pub'') 0) = snd (http_get ex_web u 0)"
  using web_fetch_contacts_allowed[OF surjective_pairing, of ex_web "ex_fetch ''pub''" 0] ex_fetch_public by simp

lemma scan_chars_spec:
  "count \<le> n \<Longrightarrow> len = index + length (concat cs) \<Longrightarrow>
     scan_chars n len count index cs = (min n (count + length cs), index + length (concat (take (n - count) cs)))"
  by (induction n len count index cs rule: scan_chars.induct) (auto simp: take_Cons' min_def)

text \<open>\<open>truncate_text\<close> cuts after the given number of characters, and only when there are more.\<close>

lemma truncate_text_spec:
  "truncate_text value n =
     (if n = 0 then ([], True)
      else if char_count value \<le> n then (value, False)
      else (take_chars n value @ nl @ nl @ ''[truncated]'', True))"
proof -
  have prefix: "take (length (concat (take n (chars value)))) value = take_chars n value"
    using append_take_drop_id[of n "chars value"] concat_append[of "take n (chars value)" "drop n (chars value)"]
    by (metis append_eq_conv_conj concat_chars take_chars_def)
  have short: "length (concat (take n (chars value))) = length value \<longleftrightarrow> length (chars value) \<le> n"
  proof
    assume eq: "length (concat (take n (chars value))) = length value"
    have "length (concat (take n (chars value))) + length (concat (drop n (chars value))) = length value"
      by (metis append_take_drop_id concat_append concat_chars length_append)
    with eq have "concat (drop n (chars value)) = []" by simp
    then have "drop n (chars value) = []" using chars_nonempty in_set_dropD by (metis concat_eq_Nil_conv list.set_sel(1))
    then show "length (chars value) \<le> n" by simp
  qed simp
  show ?thesis using scan_chars_spec[of 0 n "length value" 0 "chars value"] short prefix
    by (auto simp: truncate_text_def char_count_def min_def)
qed

text \<open>
  Addresses the checks let through although they lead to the machine itself: the IPv4-mapped form of \<open>127.0.0.1\<close>, the unspecified
  IPv4 address and the unspecified IPv6 address.
\<close>

lemma unblocked_local_addresses:
  "blocked_ip_reason (V6 0xFFFF7F000001) = None" "blocked_ip_reason (V4 0) = None" "blocked_ip_reason (V6 0) = None"
  by (simp_all add: octet_def segment0_def)

end
