(* ===== verification/Web_Search.thy ===== *)
theory Web_Search
  imports Web_Egress
begin

text \<open>
  The tool \<open>web_search\<close> (\<open>tools/src/sandbox/web_search.rs\<close>): the search providers and their configuration from the environment, the
  requests, the fallback from one base URL to the next, and the readers of the four kinds of answers.

  A request is the record of what the builder was given. The URL a request is sent to, the sending and the reading of JSON are
  the parameter \<open>search_env\<close>, which contains the \<open>web_env\<close> of the egress policy.

  Shown: every request goes to a destination the egress policy allows, one per base URL at most; whatever a provider answers, there are no
  more results than asked for, ten at most, and the results of DuckDuckGo and of HTML pages have distinct URLs; the loop over the page ends.
\<close>

section \<open>Providers\<close>

datatype search_provider_kind = DuckDuckGo | Google | Searxng | Exa

definition search_provider_kind_parse :: "string \<Rightarrow> (string, search_provider_kind) result" where
  "search_provider_kind_parse raw =
     (let v = to_ascii_lowercase (trim raw) in
      if v = ''duckduckgo'' then Inr DuckDuckGo
      else if v = ''google'' then Inr Google
      else if v = ''searxng'' then Inr Searxng
      else if v = ''exa'' then Inr Exa
      else Inl (''unsupported web search provider `'' @ raw @ ''`; expected duckduckgo, google, searxng, or exa''))"

fun search_provider_kind_str :: "search_provider_kind \<Rightarrow> string" where
  "search_provider_kind_str DuckDuckGo = ''duckduckgo''"
| "search_provider_kind_str Google = ''google''"
| "search_provider_kind_str Searxng = ''searxng''"
| "search_provider_kind_str Exa = ''exa''"

record search_provider_config =
  sp_kind :: search_provider_kind
  sp_base_urls :: "string list"
  sp_google_api_key :: "string option"
  sp_google_engine_id :: "string option"
  sp_searxng_engines :: "string option"
  sp_searxng_categories :: "string option"
  sp_searxng_safesearch :: "nat option"
  sp_query_params :: "(string \<times> string) list"
  sp_exa_api_key :: "string option"

datatype search_payload = PayloadJson json | PayloadText string

datatype http_method = GET | POST

record http_request =
  rq_method :: http_method
  rq_url :: string
  rq_query :: "(string \<times> string) list"
  rq_headers :: "(string \<times> string) list"
  rq_body :: "string option"

record 'w search_env =
  se_web :: "'w web_env"
  se_built_url :: "http_request \<Rightarrow> string option"
  se_send :: "http_request \<Rightarrow> 'w \<Rightarrow> (string, http_response) result \<times> 'w"
  se_json_parse :: "string \<Rightarrow> (string, json) result"

definition WEB_SEARCH_DEFAULT_COUNT :: nat where
  "WEB_SEARCH_DEFAULT_COUNT = 5"

definition WEB_SEARCH_MAX_COUNT :: nat where
  "WEB_SEARCH_MAX_COUNT = 10"

definition WEB_SEARCH_DEFAULT_MAX_SNIPPET_CHARS :: nat where
  "WEB_SEARCH_DEFAULT_MAX_SNIPPET_CHARS = 2000"

definition WEB_SEARCH_RESPONSE_BYTES :: nat where
  "WEB_SEARCH_RESPONSE_BYTES = 1024 * 1024"

definition trim_end_slashes :: "string \<Rightarrow> string" where
  "trim_end_slashes s = rev (dropWhile (\<lambda>c. c = slash) (rev s))"

fun dedupe_urls_from :: "string set \<Rightarrow> string list \<Rightarrow> string list" where
  "dedupe_urls_from seen [] = []"
| "dedupe_urls_from seen (entry # entries) =
     (let normalized = trim_end_slashes (trim entry) in
      if normalized = [] \<or> normalized \<in> seen then dedupe_urls_from seen entries
      else normalized # dedupe_urls_from (insert normalized seen) entries)"

definition dedupe_base_urls :: "string list \<Rightarrow> string list" where
  "dedupe_base_urls base_urls = dedupe_urls_from {} base_urls"

definition collect_base_urls :: "'w web_env \<Rightarrow> string \<Rightarrow> string \<Rightarrow> string option \<Rightarrow> string list" where
  "collect_base_urls env single_env list_env default_url =
     (let single = (case read_non_empty_env env single_env of Some s \<Rightarrow> [s] | None \<Rightarrow> []);
          multiple = (case read_non_empty_env env list_env of
              Some m \<Rightarrow> filter (\<lambda>e. e \<noteq> []) (map trim (split_on (CHR '','') m)) | None \<Rightarrow> []);
          entries = single @ multiple
      in dedupe_base_urls (if entries = [] then (case default_url of Some d \<Rightarrow> [d] | None \<Rightarrow> []) else entries))"

definition provider_base_urls_from_env :: "'w web_env \<Rightarrow> search_provider_kind \<Rightarrow> string list" where
  "provider_base_urls_from_env env kind =
     (case kind of
        DuckDuckGo \<Rightarrow> collect_base_urls env ''OXYDRA_WEB_SEARCH_DUCKDUCKGO_BASE_URL'' ''OXYDRA_WEB_SEARCH_DUCKDUCKGO_BASE_URLS''
          (Some ''https://api.duckduckgo.com/'')
      | Google \<Rightarrow> collect_base_urls env ''OXYDRA_WEB_SEARCH_GOOGLE_BASE_URL'' ''OXYDRA_WEB_SEARCH_GOOGLE_BASE_URLS''
          (Some ''https://www.googleapis.com/customsearch/v1'')
      | Searxng \<Rightarrow> collect_base_urls env ''OXYDRA_WEB_SEARCH_SEARXNG_BASE_URL'' ''OXYDRA_WEB_SEARCH_SEARXNG_BASE_URLS'' None
      | Exa \<Rightarrow> collect_base_urls env ''OXYDRA_WEB_SEARCH_EXA_BASE_URL'' ''OXYDRA_WEB_SEARCH_EXA_BASE_URLS''
          (Some ''https://api.exa.ai/search''))"

text \<open>One piece of \<open>OXYDRA_WEB_SEARCH_QUERY_PARAMS\<close>, split at the first equals sign.\<close>

definition query_param_entry :: "string \<Rightarrow> (string \<times> string) list \<Rightarrow> (string \<times> string) list" where
  "query_param_entry entry0 query_params =
     (let entry = trim entry0 in
      if entry = [] then query_params
      else let key = trim (takeWhile (\<lambda>c. c \<noteq> CHR ''='') entry); value = trim (drop 1 (dropWhile (\<lambda>c. c \<noteq> CHR ''='') entry))
           in if key = [] then query_params else bt_insert key value query_params)"

text \<open>\<open>str::parse::<u8>\<close>: decimal digits after an optional plus sign, at most 255.\<close>

definition parse_u8 :: "string \<Rightarrow> nat option" where
  "parse_u8 s =
     (let ds = (if starts_with s ''+'' then drop 1 s else s); n = foldl (\<lambda>a c. a * 10 + (of_char c - 48)) 0 ds in
      if ds \<noteq> [] \<and> list_all is_ascii_digit ds \<and> n < 256 then Some n else None)"

definition search_provider_from_env :: "'w web_env \<Rightarrow> (string, search_provider_config) result" where
  "search_provider_from_env env =
     (let provider_name = (case read_non_empty_env env ''OXYDRA_WEB_SEARCH_PROVIDER'' of Some n \<Rightarrow> n | None \<Rightarrow> ''duckduckgo'') in
      bind_result (search_provider_kind_parse provider_name) (\<lambda>kind.
      let base_urls = provider_base_urls_from_env env kind in
      if kind = Searxng \<and> base_urls = []
      then Inl ''searxng search provider requires OXYDRA_WEB_SEARCH_SEARXNG_BASE_URL or OXYDRA_WEB_SEARCH_SEARXNG_BASE_URLS''
      else Inr \<lparr>sp_kind = kind, sp_base_urls = base_urls,
        sp_google_api_key = read_non_empty_env env ''OXYDRA_WEB_SEARCH_GOOGLE_API_KEY'',
        sp_google_engine_id = read_non_empty_env env ''OXYDRA_WEB_SEARCH_GOOGLE_CX'',
        sp_searxng_engines = read_non_empty_env env ''OXYDRA_WEB_SEARCH_SEARXNG_ENGINES'',
        sp_searxng_categories = read_non_empty_env env ''OXYDRA_WEB_SEARCH_SEARXNG_CATEGORIES'',
        sp_searxng_safesearch = Option.bind (read_non_empty_env env ''OXYDRA_WEB_SEARCH_SEARXNG_SAFESEARCH'') parse_u8,
        sp_query_params = (case read_non_empty_env env ''OXYDRA_WEB_SEARCH_QUERY_PARAMS'' of
            Some raw \<Rightarrow> fold query_param_entry (split_on (CHR ''&'') raw) [] | None \<Rightarrow> []),
        sp_exa_api_key = (case read_non_empty_env env ''OXYDRA_WEB_SEARCH_EXA_API_KEY'' of
            Some k \<Rightarrow> Some k | None \<Rightarrow> read_non_empty_env env ''EXA_API_KEY'')\<rparr>))"

section \<open>Requests\<close>

definition default_headers :: "(string \<times> string) list" where
  "default_headers =
     [(''user-agent'', ''oxydra/0.1 (+https://github.com/shantanugoel/oxydra)''),
      (''accept'', ''application/json,text/html,application/xhtml+xml,text/plain;q=0.9,*/*;q=0.8''),
      (''accept-language'', ''en-US,en;q=0.9'')]"

definition get_request :: "string \<Rightarrow> (string \<times> string) list \<Rightarrow> http_request" where
  "get_request url params = \<lparr>rq_method = GET, rq_url = url, rq_query = params, rq_headers = default_headers, rq_body = None\<rparr>"

fun set_first :: "string \<Rightarrow> string \<Rightarrow> (string \<times> string) list \<Rightarrow> (string \<times> string) list" where
  "set_first k v [] = [(k, v)]"
| "set_first k v ((k', v') # kvs) = (if k' = k then (k', v) # kvs else (k', v') # set_first k v kvs)"

definition merge_query_params :: "(string \<times> string) list \<Rightarrow> (string \<times> string) list \<Rightarrow> (string \<times> string) list" where
  "merge_query_params params extras = fold (\<lambda>(k, v). set_first k v) extras params"

definition build_duckduckgo_search_request :: "search_provider_config \<Rightarrow> string \<Rightarrow> string \<Rightarrow> http_request" where
  "build_duckduckgo_search_request provider base_url query =
     get_request base_url (merge_query_params
       [(''q'', query), (''format'', ''json''), (''no_html'', ''1''), (''no_redirect'', ''1''), (''skip_disambig'', ''1''), (''t'', ''oxydra'')]
       (sp_query_params provider))"

definition google_sort_value :: "string \<Rightarrow> string option" where
  "google_sort_value freshness =
     (if freshness = ''day'' then Some ''date:r:1d''
      else if freshness = ''week'' then Some ''date:r:7d''
      else if freshness = ''month'' then Some ''date:r:30d''
      else if freshness = ''year'' then Some ''date:r:365d''
      else None)"

definition build_google_search_request ::
  "search_provider_config \<Rightarrow> string \<Rightarrow> string \<Rightarrow> nat \<Rightarrow> string option \<Rightarrow> (string, http_request) result" where
  "build_google_search_request provider base_url query count freshness =
     bind_result (ok_or (sp_google_api_key provider) ''google search provider requires OXYDRA_WEB_SEARCH_GOOGLE_API_KEY'') (\<lambda>api_key.
     bind_result (ok_or (sp_google_engine_id provider) ''google search provider requires OXYDRA_WEB_SEARCH_GOOGLE_CX'') (\<lambda>engine_id.
     let params = [(''key'', api_key), (''cx'', engine_id), (''q'', query), (''num'', nat_to_string count)] @
           (case Option.bind freshness google_sort_value of Some s \<Rightarrow> [(''sort'', s)] | None \<Rightarrow> [])
     in Inr (get_request base_url (merge_query_params params (sp_query_params provider)))))"

definition opt_param :: "string \<Rightarrow> string option \<Rightarrow> (string \<times> string) list" where
  "opt_param name v = (case v of Some x \<Rightarrow> [(name, x)] | None \<Rightarrow> [])"

definition build_searxng_search_request :: "search_provider_config \<Rightarrow> string \<Rightarrow> string \<Rightarrow> nat \<Rightarrow> string option \<Rightarrow> http_request" where
  "build_searxng_search_request provider base_url query count freshness =
     (let url = trim_end_slashes base_url @ ''/search'';
          params = [(''q'', query), (''format'', ''json''), (''pageno'', ''1''), (''count'', nat_to_string count)] @
            opt_param ''engines'' (sp_searxng_engines provider) @
            opt_param ''categories'' (sp_searxng_categories provider) @
            opt_param ''safesearch'' (map_option nat_to_string (sp_searxng_safesearch provider)) @
            opt_param ''time_range'' (Option.bind freshness (\<lambda>f. if f \<in> {''day'', ''week'', ''month'', ''year''} then Some f else None))
      in get_request url (merge_query_params params (sp_query_params provider)))"

definition clamp :: "nat \<Rightarrow> nat \<Rightarrow> nat \<Rightarrow> nat" where
  "clamp x lo hi = (if x < lo then lo else if x > hi then hi else x)"

definition build_exa_search_request :: "'w web_env \<Rightarrow> search_provider_config \<Rightarrow> string \<Rightarrow> string \<Rightarrow> nat \<Rightarrow> (string, http_request) result" where
  "build_exa_search_request env provider base_url query count =
     bind_result (ok_or (sp_exa_api_key provider) ''exa search provider requires OXYDRA_WEB_SEARCH_EXA_API_KEY or EXA_API_KEY'') (\<lambda>api_key.
     Inr \<lparr>rq_method = POST, rq_url = base_url, rq_query = [],
        rq_headers = default_headers @ [(''Authorization'', ''Bearer '' @ api_key), (''Content-Type'', ''application/json'')],
        rq_body = Some (json_text env (JObj [(''numResults'', JNum (nat_to_string (clamp count 1 10))), (''query'', JStr query)]))\<rparr>)"

definition build_search_request ::
  "'w web_env \<Rightarrow> search_provider_config \<Rightarrow> string \<Rightarrow> string \<Rightarrow> nat \<Rightarrow> string option \<Rightarrow> (string, http_request) result" where
  "build_search_request env provider base_url query count freshness =
     (case sp_kind provider of
        DuckDuckGo \<Rightarrow> Inr (build_duckduckgo_search_request provider base_url query)
      | Google \<Rightarrow> build_google_search_request provider base_url query count freshness
      | Searxng \<Rightarrow> Inr (build_searxng_search_request provider base_url query count freshness)
      | Exa \<Rightarrow> build_exa_search_request env provider base_url query count)"

definition is_json_content_type :: "string option \<Rightarrow> bool" where
  "is_json_content_type content_type =
     (case content_type of Some v \<Rightarrow> v = ''application/json'' \<or> ends_with v ''+json'' | None \<Rightarrow> False)"

definition is_ascii_ws :: "char \<Rightarrow> bool" where
  "is_ascii_ws c \<longleftrightarrow> c \<in> {CHR 0x20, CHR 0x09, CHR 0x0A, CHR 0x0C, CHR 0x0D}"

definition body_looks_like_json :: "string \<Rightarrow> bool" where
  "body_looks_like_json bytes =
     (case dropWhile is_ascii_ws bytes of c # _ \<Rightarrow> c = CHR 0x7B \<or> c = CHR ''['' | [] \<Rightarrow> False)"

text \<open>What becomes of the response of a base URL.\<close>

definition search_response :: "'w search_env \<Rightarrow> string \<Rightarrow> http_response \<Rightarrow> (string, search_payload) result" where
  "search_response env base_url rsp =
     (if \<not> (200 \<le> hr_status rsp \<and> hr_status rsp < 300)
      then bind_result (read_response_bytes WEB_FETCH_ERROR_PREVIEW_BYTES [] (hr_chunks rsp)) (\<lambda>(error_bytes, _).
           let preview = fst (truncate_text (utf8_lossy (se_web env) error_bytes) 512) in
           Inl (''web search request to `'' @ base_url @ ''` failed with status '' @ status_text (se_web env) (hr_status rsp) @ '': '' @
             truncate_web_body preview))
      else let content_type = map_option normalize_content_type (hr_content_type rsp) in
        bind_result (read_response_bytes WEB_SEARCH_RESPONSE_BYTES [] (hr_chunks rsp)) (\<lambda>(body_bytes, _).
        if is_json_content_type content_type \<or> body_looks_like_json body_bytes
        then bind_result (map_err (se_json_parse env body_bytes)
               (\<lambda>e. ''web search response from `'' @ base_url @ ''` is not valid JSON: '' @ e)) (\<lambda>payload. Inr (PayloadJson payload))
        else Inr (PayloadText (utf8_lossy (se_web env) body_bytes))))"

definition fetch_search_payload_from_base_url ::
  "'w search_env \<Rightarrow> search_provider_config \<Rightarrow> string \<Rightarrow> string \<Rightarrow> nat \<Rightarrow> string option \<Rightarrow> ('w, string, search_payload) action" where
  "fetch_search_payload_from_base_url env provider base_url query count freshness =
     bind_action (lift_action (build_search_request (se_web env) provider base_url query count freshness)) (\<lambda>request.
     let request_url = (case se_built_url env request of Some u \<Rightarrow> u | None \<Rightarrow> base_url) in
     bind_action (lift_action (parse_and_validate_web_url (se_web env) request_url)) (\<lambda>_.
     bind_action (\<lambda>w. case se_send env request w of (r, w') \<Rightarrow>
         (map_err r (\<lambda>e. ''web search request failed against `'' @ base_url @ ''`: '' @ e), w')) (\<lambda>rsp.
     lift_action (search_response env base_url rsp))))"

fun fetch_search_payload_with_fallbacks ::
  "'w search_env \<Rightarrow> search_provider_config \<Rightarrow> string \<Rightarrow> nat \<Rightarrow> string option \<Rightarrow> string option \<Rightarrow> string list \<Rightarrow>
     ('w, string, string \<times> search_payload) action" where
  "fetch_search_payload_with_fallbacks env provider query count freshness last_error [] w =
     (Inl (case last_error of Some e \<Rightarrow> e | None \<Rightarrow> ''web search failed''), w)"
| "fetch_search_payload_with_fallbacks env provider query count freshness last_error (base_url # base_urls) w =
     (case fetch_search_payload_from_base_url env provider base_url query count freshness w of
        (Inr payload, w') \<Rightarrow> (Inr (base_url, payload), w')
      | (Inl error, w') \<Rightarrow> fetch_search_payload_with_fallbacks env provider query count freshness (Some error) base_urls w')"

section \<open>Results\<close>

fun strip_tags_from :: "bool \<Rightarrow> string list \<Rightarrow> string" where
  "strip_tags_from in_tag [] = []"
| "strip_tags_from in_tag (c # cs) =
     (if c = ''<'' then strip_tags_from True cs
      else if c = ''>'' then strip_tags_from False cs
      else if \<not> in_tag then c @ strip_tags_from in_tag cs
      else strip_tags_from in_tag cs)"

definition strip_html_tags :: "string \<Rightarrow> string" where
  "strip_html_tags value = strip_tags_from False (chars value)"

definition decode_html_entities :: "string \<Rightarrow> string" where
  "decode_html_entities value =
     str_replace (str_replace (str_replace (str_replace (str_replace (str_replace value
       ''&nbsp;'' '' '') ''&amp;'' ''&'') ''&quot;'' [CHR 0x22]) ''&#39;'' [CHR 0x27]) ''&lt;'' ''<'') ''&gt;'' ''>''"

definition collapse_whitespace :: "string \<Rightarrow> string" where
  "collapse_whitespace value = join '' '' (split_whitespace value)"

definition clean_search_snippet :: "string \<Rightarrow> string" where
  "clean_search_snippet value =
     fst (truncate_text (collapse_whitespace (decode_html_entities (strip_html_tags value))) WEB_SEARCH_DEFAULT_MAX_SNIPPET_CHARS)"

definition get_str :: "json \<Rightarrow> string \<Rightarrow> string option" where
  "get_str j k = Option.bind (json_get j k) as_str"

definition get_array :: "json \<Rightarrow> string \<Rightarrow> json list option" where
  "get_array j k = Option.bind (json_get j k) as_array"

definition or_else :: "'a option \<Rightarrow> 'a option \<Rightarrow> 'a option" where
  "or_else a b = (case a of Some x \<Rightarrow> Some x | None \<Rightarrow> b)"

definition or_empty :: "string option \<Rightarrow> string" where
  "or_empty v = (case v of Some x \<Rightarrow> x | None \<Rightarrow> [])"

definition search_row :: "nat \<Rightarrow> string \<Rightarrow> string \<Rightarrow> string option \<Rightarrow> string \<Rightarrow> json" where
  "search_row index title url display_url snippet =
     JObj [(''display_url'', opt_str display_url), (''index'', JNum (nat_to_string index)), (''snippet'', JStr snippet),
           (''title'', JStr title), (''url'', JStr url)]"

text \<open>The readers of Google, SearXNG and Exa differ in the names of the fields only.\<close>

definition numbered_rows :: "(json \<Rightarrow> string) \<Rightarrow> (json \<Rightarrow> string) \<Rightarrow> (json \<Rightarrow> string option) \<Rightarrow> (json \<Rightarrow> string) \<Rightarrow> json list \<Rightarrow> json list" where
  "numbered_rows title url display_url snippet items =
     map (\<lambda>(index, item). search_row (index + 1) (title item) (url item) (display_url item) (snippet item)) (enumerate 0 items)"

definition parse_google_search_results :: "json \<Rightarrow> nat \<Rightarrow> json list" where
  "parse_google_search_results payload count =
     (case get_array payload ''items'' of
        None \<Rightarrow> []
      | Some items \<Rightarrow> numbered_rows (\<lambda>item. or_empty (get_str item ''title'')) (\<lambda>item. or_empty (get_str item ''link''))
          (\<lambda>item. get_str item ''displayLink'')
          (\<lambda>item. or_empty (map_option clean_search_snippet (or_else (get_str item ''snippet'') (get_str item ''htmlSnippet'')))) (take count items))"

definition parse_searxng_search_results :: "json \<Rightarrow> nat \<Rightarrow> json list" where
  "parse_searxng_search_results payload count =
     (case get_array payload ''results'' of
        None \<Rightarrow> []
      | Some items \<Rightarrow> numbered_rows (\<lambda>item. or_empty (get_str item ''title'')) (\<lambda>item. or_empty (get_str item ''url''))
          (\<lambda>item. get_str item ''pretty_url'')
          (\<lambda>item. or_empty (map_option clean_search_snippet (or_else (get_str item ''content'') (get_str item ''snippet'')))) (take count items))"

definition parse_exa_search_results :: "json \<Rightarrow> nat \<Rightarrow> json list" where
  "parse_exa_search_results payload count =
     (case get_array payload ''results'' of
        None \<Rightarrow> []
      | Some items \<Rightarrow> numbered_rows (\<lambda>item. or_empty (get_str item ''title'')) (\<lambda>item. or_empty (get_str item ''url''))
          (\<lambda>_. None) (\<lambda>item. or_empty (map_option clean_search_snippet (get_str item ''snippet''))) (take count items))"

text \<open>The topics of an answer of DuckDuckGo may be groups of topics. The state is the rows so far and the URLs seen.\<close>

definition topic_title :: "string \<Rightarrow> string" where
  "topic_title txt =
     (let title = trim (case find_sub txt '' - '' of Some i \<Rightarrow> take i txt | None \<Rightarrow> txt) in
      if title = [] then ''DuckDuckGo result'' else title)"

definition push_topic :: "json \<Rightarrow> json list \<times> string set \<Rightarrow> json list \<times> string set" where
  "push_topic topic st =
     (case (get_str topic ''FirstURL'', st) of
        (None, _) \<Rightarrow> st
      | (Some url, rows, seen) \<Rightarrow>
          if trim url = [] \<or> url \<in> seen then st
          else let txt = trim (or_empty (get_str topic ''Text'')) in
               (rows @ [search_row 0 (topic_title txt) url None (clean_search_snippet txt)], insert url seen))"

lemma get_array_smaller:
  assumes "get_array j k = Some xs"
  shows "size_list size xs < size j"
proof -
  from assms obtain kvs where j: "j = JObj kvs" "map_of kvs k = Some (JArr xs)"
    by (auto simp: get_array_def json_get_def bind_eq_Some_conv elim!: as_array.elims as_object.elims)
  then have "(k, JArr xs) \<in> set kvs" by (simp add: map_of_SomeD)
  from size_list_estimation'[OF this order_refl, of "size_prod (\<lambda>_. 0) size"] show ?thesis by (simp add: j)
qed

function collect_duckduckgo_related_topics :: "nat \<Rightarrow> json list \<Rightarrow> json list \<times> string set \<Rightarrow> json list \<times> string set" where
  "collect_duckduckgo_related_topics count [] st = st"
| "collect_duckduckgo_related_topics count (topic # topics) st =
     (if count \<le> length (fst st) then st
      else case get_array topic ''Topics'' of
        Some nested \<Rightarrow> collect_duckduckgo_related_topics count topics (collect_duckduckgo_related_topics count nested st)
      | None \<Rightarrow> collect_duckduckgo_related_topics count topics (push_topic topic st))"
  by pat_completeness auto
termination
  by (relation "measure (\<lambda>(_, topics, _). size_list size topics)") (auto dest: get_array_smaller)

definition duckduckgo_abstract :: "string \<Rightarrow> json \<Rightarrow> json list \<times> string set" where
  "duckduckgo_abstract query payload =
     (case get_str payload ''AbstractURL'' of
        None \<Rightarrow> ([], {})
      | Some url \<Rightarrow>
          if trim url = [] then ([], {})
          else let heading = (case get_str payload ''Heading'' of Some h \<Rightarrow> if trim h = [] then query else h | None \<Rightarrow> query);
                   snippet = or_empty (map_option clean_search_snippet (or_else (get_str payload ''AbstractText'') (get_str payload ''Abstract'')))
               in ([search_row 0 heading url (get_str payload ''AbstractSource'') snippet], {url}))"

definition parse_duckduckgo_search_results :: "string \<Rightarrow> json \<Rightarrow> nat \<Rightarrow> json list" where
  "parse_duckduckgo_search_results query payload count =
     (let st = duckduckgo_abstract query payload;
          rows = fst (case get_array payload ''RelatedTopics'' of
              Some topics \<Rightarrow> collect_duckduckgo_related_topics count topics st | None \<Rightarrow> st)
      in map (\<lambda>(index, row). json_set row ''index'' (JNum (nat_to_string (index + 1)))) (enumerate 0 (take count rows)))"

definition non_empty :: "string \<Rightarrow> string option" where
  "non_empty value = (let v = trim value in if v = [] then None else Some v)"

text \<open>The text up to the first character that satisfies \<open>P\<close>.\<close>

definition take_chars_until :: "(string \<Rightarrow> bool) \<Rightarrow> string \<Rightarrow> string" where
  "take_chars_until P s = concat (takeWhile (\<lambda>c. \<not> P c) (chars s))"

definition extract_html_attribute :: "string \<Rightarrow> string \<Rightarrow> string option" where
  "extract_html_attribute tag attribute =
     (let lower = to_ascii_lowercase tag; needle = attribute @ ''='' in
      Option.bind (find_sub lower needle) (\<lambda>i. let start = i + length needle in
      if length tag \<le> start then None
      else let quote = tag ! start in
        if quote = CHR 0x22 \<or> quote = CHR 0x27
        then let remainder = drop (start + 1) tag in Option.bind (find_sub remainder [quote]) (\<lambda>value_end. non_empty (take value_end remainder))
        else non_empty (take_chars_until (\<lambda>c. ws_char c \<or> c = ''>'') (drop start tag))))"

lemma find_sub_Some:
  assumes "find_sub s p = Some i"
  shows "starts_with (drop i s) p" "i + length p \<le> length s"
proof -
  from assms show sw: "starts_with (drop i s) p" by (auto simp: find_sub_def find_Some_iff)
  from assms have "i \<le> length s" by (auto simp: find_sub_def find_Some_iff simp del: upt_Suc)
  then show "i + length p \<le> length s" using sw by (auto simp: starts_with_iff dest!: arg_cong[of _ _ length])
qed

function parse_anchors :: "nat \<Rightarrow> string \<Rightarrow> nat \<Rightarrow> json list \<Rightarrow> string set \<Rightarrow> json list" where
  "parse_anchors count html cursor results seen_urls =
     (let lower = to_ascii_lowercase html in
      case find_sub (drop cursor lower) ''<a'' of
        None \<Rightarrow> results
      | Some anchor_start_rel \<Rightarrow>
          if count \<le> length results then results
          else let anchor_start = cursor + anchor_start_rel in
            case find_sub (drop anchor_start lower) ''>'' of
              None \<Rightarrow> results
            | Some tag_end_rel \<Rightarrow>
                let tag_end = anchor_start + tag_end_rel; tag = take (Suc tag_end_rel) (drop anchor_start html) in
                (case extract_html_attribute tag ''href'' of
                   None \<Rightarrow> parse_anchors count html (tag_end + 1) results seen_urls
                 | Some href \<Rightarrow>
                     if \<not> starts_with href ''http://'' \<and> \<not> starts_with href ''https://''
                     then parse_anchors count html (tag_end + 1) results seen_urls
                     else case find_sub (drop (tag_end + 1) lower) ''</a>'' of
                       None \<Rightarrow> results
                     | Some close_rel \<Rightarrow>
                         let close_start = tag_end + 1 + close_rel;
                             anchor_text = strip_html_tags (take close_rel (drop (tag_end + 1) html));
                             title = collapse_whitespace (decode_html_entities (trim anchor_text))
                         in if title = [] \<or> href \<in> seen_urls then parse_anchors count html (close_start + 4) results seen_urls
                            else parse_anchors count html (close_start + 4)
                                   (results @ [search_row (length results + 1) title href None (clean_search_snippet anchor_text)]) (insert href seen_urls)))"
  by pat_completeness auto
termination
proof (relation "measure (\<lambda>(_, html, cursor, _, _). length html - cursor)", goal_cases)
qed (auto dest!: find_sub_Some(2) simp: to_ascii_lowercase_def)

declare parse_anchors.simps [simp del]

definition parse_searxng_html_results :: "string \<Rightarrow> nat \<Rightarrow> json list" where
  "parse_searxng_html_results html count = parse_anchors count html 0 [] {}"

definition parse_search_results :: "search_provider_config \<Rightarrow> string \<Rightarrow> search_payload \<Rightarrow> nat \<Rightarrow> (string, json list) result" where
  "parse_search_results provider query payload count =
     (case (sp_kind provider, payload) of
        (Google, PayloadJson j) \<Rightarrow> Inr (parse_google_search_results j count)
      | (Google, PayloadText _) \<Rightarrow> Inl ''google search did not return JSON response; verify provider endpoint''
      | (DuckDuckGo, PayloadJson j) \<Rightarrow> Inr (parse_duckduckgo_search_results query j count)
      | (DuckDuckGo, PayloadText _) \<Rightarrow> Inl ''duckduckgo search did not return JSON response; verify provider endpoint''
      | (Searxng, PayloadJson j) \<Rightarrow> Inr (parse_searxng_search_results j count)
      | (Searxng, PayloadText t) \<Rightarrow>
          let results = parse_searxng_html_results t count in
          if results = []
          then Inl ''searxng returned non-JSON response with no parseable link results; set config.query_params.format=json''
          else Inr results
      | (Exa, PayloadJson j) \<Rightarrow> Inr (parse_exa_search_results j count)
      | (Exa, PayloadText _) \<Rightarrow> Inl ''exa search did not return JSON response; verify provider endpoint'')"

definition check_freshness :: "string option \<Rightarrow> (string, unit) result" where
  "check_freshness freshness =
     (case freshness of
        Some v \<Rightarrow> if v \<in> {''day'', ''week'', ''month'', ''year''} then Inr ()
          else Inl (''invalid freshness `'' @ v @ ''`; expected one of day, week, month, year'')
      | None \<Rightarrow> Inr ())"

definition web_search_execute :: "'w search_env \<Rightarrow> json \<Rightarrow> ('w, string, string) action" where
  "web_search_execute env arguments =
     bind_action (lift_action (required_string arguments ''query'' ''web_search'')) (\<lambda>raw.
     let query = trim raw in
     if query = [] then lift_action (Inl ''query must not be empty'')
     else
       bind_action (lift_action (parse_optional_usize (json_get arguments ''count'') WEB_SEARCH_DEFAULT_COUNT ''count'')) (\<lambda>n.
       let count = clamp n 1 WEB_SEARCH_MAX_COUNT; freshness = get_str arguments ''freshness'' in
       bind_action (lift_action (check_freshness freshness)) (\<lambda>_.
       bind_action (lift_action (search_provider_from_env (se_web env))) (\<lambda>provider.
       bind_action (fetch_search_payload_with_fallbacks env provider query count freshness None (sp_base_urls provider)) (\<lambda>(base_url, payload).
       lift_action (bind_result (parse_search_results provider query payload count) (\<lambda>results.
         Inr (json_text (se_web env) (JObj [(''base_url'', JStr base_url), (''provider'', JStr (search_provider_kind_str (sp_kind provider))),
           (''query'', JStr query), (''result_count'', JNum (nat_to_string (length results))), (''results'', JArr results)])))))))))"

section \<open>Requests go to allowed destinations\<close>

definition search_target :: "'w search_env \<Rightarrow> http_request \<Rightarrow> string \<Rightarrow> string" where
  "search_target env request base_url = (case se_built_url env request of Some u \<Rightarrow> u | None \<Rightarrow> base_url)"

text \<open>A request may be sent: its target parses to a URL that the egress policy allows.\<close>

definition request_allowed :: "'w search_env \<Rightarrow> http_request \<times> string \<Rightarrow> bool" where
  "request_allowed env rb \<longleftrightarrow> (\<exists>u. parse_url (se_web env) (search_target env (fst rb) (snd rb)) = Inr u \<and> egress_allowed (se_web env) u)"

definition send_all :: "'w search_env \<Rightarrow> (http_request \<times> string) list \<Rightarrow> 'w \<Rightarrow> 'w" where
  "send_all env requests w = fold (\<lambda>rb w. snd (se_send env (fst rb) w)) requests w"

lemma send_all_simps [simp]: "send_all env [] w = w" "send_all env (rb # rbs) w = send_all env rbs (snd (se_send env (fst rb) w))"
  by (simp_all add: send_all_def)

lemma fetch_one_allowed:
  assumes "fetch_search_payload_from_base_url env provider base_url query count freshness w = (r, w')"
  shows "\<exists>requests. w' = send_all env requests w \<and> list_all (request_allowed env) requests \<and> length requests \<le> 1"
proof (cases "w' = w")
  case True
  then show ?thesis by (intro exI[of _ "[]"]) simp
next
  case False
  with assms have "\<exists>request u. parse_and_validate_web_url (se_web env) (search_target env request base_url) = Inr u \<and> w' = snd (se_send env request w)"
    unfolding fetch_search_payload_from_base_url_def
    by (auto simp: bind_action_def lift_action_def Let_def search_target_def split: prod.splits sum.splits)
  then obtain request u where "parse_and_validate_web_url (se_web env) (search_target env request base_url) = Inr u" "w' = snd (se_send env request w)"
    by blast
  then show ?thesis using validated_url_allowed
    by (intro exI[of _ "[(request, base_url)]"]) (auto simp: request_allowed_def)
qed

lemma fetch_fallbacks_allowed:
  "fetch_search_payload_with_fallbacks env provider query count freshness last_error base_urls w = (r, w') \<Longrightarrow>
     \<exists>requests. w' = send_all env requests w \<and> list_all (request_allowed env) requests \<and> length requests \<le> length base_urls"
proof (induction env provider query count freshness last_error base_urls w rule: fetch_search_payload_with_fallbacks.induct)
  case (1 env provider query count freshness last_error w)
  then show ?case by (intro exI[of _ "[]"]) simp
next
  case (2 env provider query count freshness last_error base_url base_urls w)
  obtain r1 w1 where one: "fetch_search_payload_from_base_url env provider base_url query count freshness w = (r1, w1)" by fastforce
  from fetch_one_allowed[OF this] obtain first where
    first: "w1 = send_all env first w" "list_all (request_allowed env) first" "length first \<le> 1" by blast
  show ?case
  proof (cases r1)
    case (Inr payload)
    with 2 one first show ?thesis by (intro exI[of _ first]) auto
  next
    case (Inl e)
    with 2 one obtain rest where "w' = send_all env rest w1" "list_all (request_allowed env) rest" "length rest \<le> length base_urls" by fastforce
    with first show ?thesis by (intro exI[of _ "first @ rest"]) (auto simp: send_all_def)
  qed
qed

text \<open>The tool \<open>web_search\<close> sends nothing but requests whose target the egress policy allows, at most one for each base URL of the configured
  provider, and nothing at all when the provider is not configured.
\<close>

theorem web_search_contacts_allowed:
  assumes "web_search_execute env arguments w = (r, w')"
  shows "\<exists>requests. w' = send_all env requests w \<and> list_all (request_allowed env) requests \<and>
    (case search_provider_from_env (se_web env) of Inr provider \<Rightarrow> length requests \<le> length (sp_base_urls provider) | Inl _ \<Rightarrow> requests = [])"
proof (cases "w' = w")
  case True
  then show ?thesis by (intro exI[of _ "[]"]) (simp split: sum.splits)
next
  case False
  with assms obtain provider query count freshness r1 where
    "search_provider_from_env (se_web env) = Inr provider"
    "fetch_search_payload_with_fallbacks env provider query count freshness None (sp_base_urls provider) w = (r1, w')"
    unfolding web_search_execute_def
    by (auto simp: bind_action_def lift_action_def Let_def split: prod.splits sum.splits if_splits)
  then show ?thesis using fetch_fallbacks_allowed by fastforce
qed

section \<open>The number of results\<close>

lemma length_numbered_rows [simp]: "length (numbered_rows t u d sn items) = length items"
  by (simp add: numbered_rows_def)

lemma parse_anchors_bound: "length results \<le> count \<Longrightarrow> length (parse_anchors count html cursor results seen) \<le> count"
proof (induction count html cursor results seen rule: parse_anchors.induct)
  case (1 count html cursor results seen)
  show ?case
    using 1 by (subst parse_anchors.simps) (simp add: Let_def split: option.splits)
qed

definition row_url :: "json \<Rightarrow> string option" where
  "row_url row = get_str row ''url''"

lemma row_url_search_row [simp]: "row_url (search_row n t u d sn) = Some u"
  by (simp add: row_url_def get_str_def json_get_def search_row_def)

text \<open>What the collectors keep: the URLs of the rows are distinct and have been seen.\<close>

definition rows_distinct :: "json list \<Rightarrow> string set \<Rightarrow> bool" where
  "rows_distinct rows seen \<longleftrightarrow> distinct (map row_url rows) \<and> set (map row_url rows) \<subseteq> Some ` seen"

lemma rows_distinct_push: "rows_distinct rows seen \<Longrightarrow> u \<notin> seen \<Longrightarrow> rows_distinct (rows @ [search_row n t u d sn]) (insert u seen)"
  by (auto simp: rows_distinct_def)

lemma parse_anchors_distinct:
  "rows_distinct results seen \<Longrightarrow> distinct (map row_url (parse_anchors count html cursor results seen))"
proof (induction count html cursor results seen rule: parse_anchors.induct)
  case (1 count html cursor results seen)
  then have "distinct (map row_url results)" by (simp add: rows_distinct_def)
  then show ?case
    using 1 by (subst parse_anchors.simps) (simp add: Let_def rows_distinct_push split: option.splits)
qed

lemma push_topic_distinct: "rows_distinct (fst st) (snd st) \<Longrightarrow> rows_distinct (fst (push_topic t st)) (snd (push_topic t st))"
  by (cases st) (auto simp: push_topic_def Let_def rows_distinct_push split: option.splits)

lemma collect_topics_distinct:
  "rows_distinct (fst st) (snd st) \<Longrightarrow>
     rows_distinct (fst (collect_duckduckgo_related_topics count topics st)) (snd (collect_duckduckgo_related_topics count topics st))"
  by (induction count topics st rule: collect_duckduckgo_related_topics.induct)
     (auto simp: push_topic_distinct split: option.splits)

lemma row_url_index [simp]: "row_url (json_set row ''index'' v) = row_url row"
  by (cases row) (simp_all add: row_url_def get_str_def json_get_def map_of_bt_insert)

lemma duckduckgo_rows:
  "length (parse_duckduckgo_search_results query payload count) \<le> count \<and> distinct (map row_url (parse_duckduckgo_search_results query payload count))"
proof -
  let ?st = "duckduckgo_abstract query payload"
  let ?rows = "fst (case get_array payload ''RelatedTopics'' of Some topics \<Rightarrow> collect_duckduckgo_related_topics count topics ?st | None \<Rightarrow> ?st)"
  have "rows_distinct (fst ?st) (snd ?st)" by (auto simp: duckduckgo_abstract_def Let_def rows_distinct_def split: option.splits)
  then have "distinct (map row_url ?rows)"
    using collect_topics_distinct[of ?st count] by (auto simp: rows_distinct_def split: option.splits)
  then have "distinct (map row_url (take count ?rows))" by (simp add: take_map[symmetric])
  moreover have "map row_url (parse_duckduckgo_search_results query payload count) = map row_url (take count ?rows)"
    unfolding parse_duckduckgo_search_results_def Let_def map_map by (rule nth_equalityI) (simp_all add: nth_enumerate_eq)
  moreover have "length (parse_duckduckgo_search_results query payload count) \<le> count"
    by (simp add: parse_duckduckgo_search_results_def Let_def)
  ultimately show ?thesis by simp
qed

text \<open>Whatever a search provider answers, the results that are read from it are at most as many as asked for, and those of DuckDuckGo and of an HTML
  page have pairwise distinct URLs.
\<close>

theorem search_results_bounded:
  assumes "parse_search_results provider query payload count = Inr results"
  shows "length results \<le> count \<and>
    (sp_kind provider = DuckDuckGo \<or> (\<exists>html. payload = PayloadText html) \<longrightarrow> distinct (map row_url results))"
  using assms duckduckgo_rows parse_anchors_bound[of "[]"] parse_anchors_distinct[of "[]" "{}"]
  by (auto simp: parse_search_results_def parse_google_search_results_def parse_searxng_search_results_def parse_exa_search_results_def
      parse_searxng_html_results_def rows_distinct_def Let_def split: search_provider_kind.splits search_payload.splits option.splits if_splits)

definition ex_page :: string where
  "ex_page = ''<a href=http://x>one</a><a href=http://x>two</a><a href=http://y>three</a>''"

definition ex_searxng :: search_provider_config where
  "ex_searxng = \<lparr>sp_kind = Searxng, sp_base_urls = [''http://pub''], sp_google_api_key = None, sp_google_engine_id = None, sp_searxng_engines = None,
     sp_searxng_categories = None, sp_searxng_safesearch = None, sp_query_params = [], sp_exa_api_key = None\<rparr>"

lemma ex_page_results:
  "parse_search_results ex_searxng ''q'' (PayloadText ex_page) 5 = Inr [search_row 1 ''one'' ''http://x'' None ''one'', search_row 2 ''three'' ''http://y'' None ''three'']"
  by code_simp

theorem search_results_bounded_witness:
  "length [search_row 1 ''one'' ''http://x'' None ''one'', search_row 2 ''three'' ''http://y'' None ''three''] \<le> 5 \<and>
    distinct (map row_url [search_row 1 ''one'' ''http://x'' None ''one'', search_row 2 ''three'' ''http://y'' None ''three''])"
  using search_results_bounded[OF ex_page_results] by simp

text \<open>Entities are decoded twice: the text \<open>&lt;\<close> written as \<open>&amp;lt;\<close> becomes a less-than sign.\<close>

lemma entities_decoded_twice: "decode_html_entities ''&amp;lt;b&amp;gt;'' = ''<b>''"
  by code_simp

definition ex_search :: "nat search_env" where
  "ex_search = \<lparr>se_web = ex_web\<lparr>env_var := (\<lambda>n. if n = ''OXYDRA_WEB_SEARCH_DUCKDUCKGO_BASE_URLS'' then Some ''lan,pub'' else None)\<rparr>,
     se_built_url = (\<lambda>rq. Some (rq_url rq)), se_send = (\<lambda>_ n. (Inl ''down'', Suc n)), se_json_parse = (\<lambda>_. Inr JNull)\<rparr>"

theorem web_search_contacts_allowed_witness:
  "\<exists>requests. snd (web_search_execute ex_search (JObj [(''query'', JStr ''q'')]) 0) = send_all ex_search requests 0 \<and>
    list_all (request_allowed ex_search) requests \<and>
    (case search_provider_from_env (se_web ex_search) of Inr provider \<Rightarrow> length requests \<le> length (sp_base_urls provider) | Inl _ \<Rightarrow> requests = [])"
  by (rule web_search_contacts_allowed[OF surjective_pairing])

text \<open>There the first base URL resolves to a private address and is passed over, and one request is sent to the second.\<close>

lemma ex_search_one_request: "web_search_execute ex_search (JObj [(''query'', JStr ''q'')]) 0 = (Inl ''web search request failed against `pub`: down'', 1)"
  by code_simp

end
