(* ===== verification/Wasm_Runner.thy ===== *)
theory Wasm_Runner
  imports Web_Search Sandbox_Policy
begin

text \<open>
  The runner of the file, web and vault operations (\<open>HostWasmToolRunner\<close> of \<open>tools/src/sandbox/wasm_runner.rs\<close>): capability profiles and the
  directories each of them mounts, the check of the paths an invocation names, and the operations.

  The file system is the parameter \<open>fs_env\<close>: the calls of \<open>std::fs\<close> on a state of the outside world, those that only read answer from the
  state. Base64 and the clock are part of it. A symbolic link is seen through \<open>os_canonicalize\<close> only.

  Shown: an invocation changes files only by a tool whose profile it has and on a path whose resolved form lies in a mounted directory
  that is not read-only, so never in the vault; a refused invocation changes nothing; every invocation is in the audit log with a
  number of its own; the search of a tree returns, and with at most 200 lines. The lemmas on findings show two paths that pass the check and
  lead elsewhere.
\<close>

section \<open>Profiles and mounts\<close>

datatype wasm_capability_profile = ProfileFileReadOnly | ProfileFileReadWrite | ProfileWeb | ProfileVaultReadStep | ProfileVaultWriteStep

fun wasm_capability_profile_debug :: "wasm_capability_profile \<Rightarrow> string" where
  "wasm_capability_profile_debug ProfileFileReadOnly = ''FileReadOnly''"
| "wasm_capability_profile_debug ProfileFileReadWrite = ''FileReadWrite''"
| "wasm_capability_profile_debug ProfileWeb = ''Web''"
| "wasm_capability_profile_debug ProfileVaultReadStep = ''VaultReadStep''"
| "wasm_capability_profile_debug ProfileVaultWriteStep = ''VaultWriteStep''"

record wasm_workspace_mounts =
  ws_shared :: string
  ws_tmp :: string
  ws_vault :: string

record wasm_mount =
  wm_label :: string
  wm_path :: string
  wm_read_only :: bool

definition wasm_mount_new :: "string \<Rightarrow> string \<Rightarrow> bool \<Rightarrow> wasm_mount" where
  "wasm_mount_new label path read_only = \<lparr>wm_label = label, wm_path = path, wm_read_only = read_only\<rparr>"

fun mount_profile :: "wasm_capability_profile \<Rightarrow> wasm_workspace_mounts \<Rightarrow> wasm_mount list" where
  "mount_profile ProfileFileReadOnly mounts =
     [wasm_mount_new ''shared'' (ws_shared mounts) True, wasm_mount_new ''tmp'' (ws_tmp mounts) True, wasm_mount_new ''vault'' (ws_vault mounts) True]"
| "mount_profile ProfileFileReadWrite mounts =
     [wasm_mount_new ''shared'' (ws_shared mounts) False, wasm_mount_new ''tmp'' (ws_tmp mounts) False]"
| "mount_profile ProfileWeb mounts = []"
| "mount_profile ProfileVaultReadStep mounts = [wasm_mount_new ''vault'' (ws_vault mounts) True]"
| "mount_profile ProfileVaultWriteStep mounts =
     [wasm_mount_new ''shared'' (ws_shared mounts) False, wasm_mount_new ''tmp'' (ws_tmp mounts) False]"

definition workspace_mounts_for_bootstrap :: "string \<Rightarrow> wasm_workspace_mounts" where
  "workspace_mounts_for_bootstrap workspace_root =
     \<lparr>ws_shared = path_join workspace_root ''shared'', ws_tmp = path_join workspace_root ''tmp'', ws_vault = path_join workspace_root ''vault''\<rparr>"

record wasm_invocation_metadata =
  im_request_id :: string
  im_operation_id :: "string option"
  im_tool_name :: string
  im_profile :: wasm_capability_profile
  im_mounts :: "wasm_mount list"

record wasm_invocation_result =
  ir_metadata :: wasm_invocation_metadata
  ir_output :: string

section \<open>The file system\<close>

datatype file_kind = KindDir | KindFile | KindOther

datatype io_error = AlreadyExists string | OtherError string

fun io_error_text :: "io_error \<Rightarrow> string" where
  "io_error_text (AlreadyExists e) = e"
| "io_error_text (OtherError e) = e"

record 'w fs_env =
  fs_os :: "'w \<Rightarrow> os_env"
  fs_metadata :: "string \<Rightarrow> 'w \<Rightarrow> (string, file_kind) result"
  fs_read_to_string :: "string \<Rightarrow> 'w \<Rightarrow> (string, string) result"
  fs_read :: "string \<Rightarrow> 'w \<Rightarrow> (string, string) result"
  fs_read_dir :: "string \<Rightarrow> 'w \<Rightarrow> (string, (string, string) result list) result"
  fs_nanos :: "'w \<Rightarrow> nat"
  fs_write :: "string \<Rightarrow> string \<Rightarrow> ('w, string, unit) action"
  fs_rename :: "string \<Rightarrow> string \<Rightarrow> ('w, string, unit) action"
  fs_remove_file :: "string \<Rightarrow> ('w, string, unit) action"
  fs_remove_dir_all :: "string \<Rightarrow> ('w, string, unit) action"
  fs_create_dir_all :: "string \<Rightarrow> ('w, string, unit) action"
  fs_create_new :: "string \<Rightarrow> ('w, io_error, unit) action"
  fs_write_all :: "string \<Rightarrow> string \<Rightarrow> ('w, string, unit) action"
  process_id :: nat
  base64_encode :: "string \<Rightarrow> string"
  base64_decode :: "string \<Rightarrow> (string, string) result"

text \<open>A call that reads the state, and a call whose error gets a text around it.\<close>

definition reading :: "('w \<Rightarrow> ('e, 'a) result) \<Rightarrow> ('w, 'e, 'a) action" where
  "reading f w = (f w, w)"

definition map_err_action :: "('w, 'e, 'a) action \<Rightarrow> ('e \<Rightarrow> 'f) \<Rightarrow> ('w, 'f, 'a) action" where
  "map_err_action m f w = (case m w of (r, w') \<Rightarrow> (map_err r f, w'))"

section \<open>Resolving paths\<close>

lemma join_Cons_char: "join sep ((c # x) # xs) = c # join sep (x # xs)"
  by (cases xs) simp_all

lemma join_split_slash: "join [slash] (split_slash p) = p"
proof (induction p)
  case (Cons c p)
  then show ?case using split_slash_Cons[of p] by (auto simp: join_Cons_char)
qed simp

lemma length_join_le: "length (concat xs) \<le> length (join sep xs)"
  by (induction sep xs rule: join.induct) auto

lemma length_join_append: "concat ys \<noteq> [] \<Longrightarrow> length (join sep xs) < length (join sep (xs @ ys))"
proof (induction sep xs rule: join.induct)
  case (1 sep)
  then show ?case using length_join_le[of ys sep] by (metis append_Nil join.simps(1) length_greater_0_conv list.size(3) order_less_le_trans)
next
  case (2 sep x)
  then obtain y ys' where ys: "ys = y # ys'" by (cases ys) auto
  have "0 < length (concat ys)" using 2 by blast
  then have "0 < length (join sep ys)" using length_join_le[of ys sep] by linarith
  then show ?case by (simp add: ys)
qed simp

lemma body_segs_join: "p = (if is_absolute p then [slash] else []) @ join [slash] (map snd (body_segs p))"
proof (cases "is_absolute p")
  case True
  then obtain r where p: "p = slash # r" by (auto simp: is_absolute_Cons)
  then show ?thesis by (simp add: body_segs_def is_absolute_Cons join_split_slash comp_def)
next
  case False
  then show ?thesis using join_split_slash[of p] split_slash_Cons[of p] by (auto simp: body_segs_def comp_def split: list.splits)
qed

lemma seg_comp_nonempty: "seg_comp f s \<noteq> None \<Longrightarrow> s \<noteq> []"
  by (auto simp: seg_comp_def)

lemma parent_shorter:
  assumes "parent p = Some q"
  shows "length q < length p"
proof -
  let ?skip = "dropWhile (\<lambda>(f, s). seg_comp f s = None)"
  from assms obtain f s rest where sk: "?skip (rev (body_segs p)) = (f, s) # rest"
    and q: "q = (if is_absolute p then [slash] else []) @ join [slash] (map snd (rev (?skip rest)))"
    by (auto simp: parent_def Let_def split: list.splits)
  from sk have "seg_comp f s \<noteq> None" by (auto simp: dropWhile_eq_Cons_conv)
  then have "s \<noteq> []" by (rule seg_comp_nonempty)
  obtain d where "rev (body_segs p) = d @ (f, s) # rest" using sk by (metis takeWhile_dropWhile_id)
  moreover obtain d' where "rest = d' @ ?skip rest" by (metis takeWhile_dropWhile_id)
  ultimately have "rev (body_segs p) = (d @ (f, s) # d') @ ?skip rest" by simp
  then have "body_segs p = rev (?skip rest) @ rev (d @ (f, s) # d')" by (metis rev_append rev_rev_ident)
  then have "map snd (body_segs p) = map snd (rev (?skip rest)) @ map snd (rev (d @ (f, s) # d'))" by simp
  then have "length (join [slash] (map snd (rev (?skip rest)))) < length (join [slash] (map snd (body_segs p)))"
    using length_join_append[of "map snd (rev (d @ (f, s) # d'))" "[slash]" "map snd (rev (?skip rest))"] \<open>s \<noteq> []\<close> by simp
  then show ?thesis using body_segs_join[of p] q by (metis (no_types, lifting) length_append nat_add_left_cancel_less)
qed

text \<open>The nearest ancestor that exists.\<close>

function existing_ancestor :: "os_env \<Rightarrow> string \<Rightarrow> string option" where
  "existing_ancestor os path =
     (if os_exists os path then Some path
      else case parent path of None \<Rightarrow> None | Some par \<Rightarrow> existing_ancestor os par)"
  by pat_completeness auto
termination
  by (relation "measure (\<lambda>(_, p). length p)") (auto dest: parent_shorter)

declare existing_ancestor.simps [simp del]

text \<open>\<open>Path::strip_prefix\<close>: the text after the components of the prefix, without the separators at its ends.\<close>

fun skip_comps :: "nat \<Rightarrow> (bool \<times> string) list \<Rightarrow> (bool \<times> string) list" where
  "skip_comps 0 segs = segs"
| "skip_comps (Suc n) [] = []"
| "skip_comps (Suc n) ((f, s) # segs) = (if seg_comp f s = None then skip_comps (Suc n) segs else skip_comps n segs)"

definition strip_prefix :: "string \<Rightarrow> string \<Rightarrow> string option" where
  "strip_prefix p base =
     (let skip = dropWhile (\<lambda>(f, s). seg_comp f s = None) in
      if \<not> path_starts_with p base then None
      else if components base = [] then Some p
      else Some (join [slash] (map snd (rev (skip (rev (skip
             (skip_comps (length (components base) - (if is_absolute p then 1 else 0)) (body_segs p)))))))))"

definition canonicalize_invocation_path :: "os_env \<Rightarrow> string \<Rightarrow> bool \<Rightarrow> (string, string) result" where
  "canonicalize_invocation_path os raw_path allow_missing_leaf =
     (let path = trim raw_path in
      if path = [] then Inl ''path argument must not be empty''
      else
        let target_path = normalize_absolute os path in
        if \<not> allow_missing_leaf \<or> os_exists os target_path
        then map_err (os_canonicalize os target_path) (\<lambda>e. ''failed to canonicalize `'' @ target_path @ ''`: '' @ e)
        else
          bind_result (ok_or (existing_ancestor os target_path)
            (''path `'' @ target_path @ ''` does not include a canonicalizable parent directory'')) (\<lambda>ancestor.
          bind_result (map_err (os_canonicalize os ancestor)
            (\<lambda>e. ''failed to canonicalize parent `'' @ ancestor @ ''` for `'' @ target_path @ ''`: '' @ e)) (\<lambda>canonical_ancestor.
          bind_result (ok_or (strip_prefix target_path ancestor)
            (''failed to normalize `'' @ target_path @ ''` from canonical ancestor `'' @ ancestor @ ''`: prefix not found'')) (\<lambda>suffix.
          Inr (path_join canonical_ancestor suffix)))))"

definition path_within_mount :: "os_env \<Rightarrow> string \<Rightarrow> string \<Rightarrow> bool" where
  "path_within_mount os path mount_root =
     (let canonical_mount = canonical_root os mount_root in path_eq path canonical_mount \<or> path_starts_with path canonical_mount)"

definition format_mount_roots :: "wasm_mount list \<Rightarrow> string" where
  "format_mount_roots mounts = join '', '' (map (\<lambda>m. wm_label m @ ''='' @ wm_path m) mounts)"

definition enforce_mounted_path ::
  "os_env \<Rightarrow> wasm_workspace_mounts \<Rightarrow> wasm_capability_profile \<Rightarrow> string \<Rightarrow> bool \<Rightarrow> (string, unit) result" where
  "enforce_mounted_path os mounts0 profile path write_access =
     bind_result (canonicalize_invocation_path os path True) (\<lambda>canonical_target.
     let mounts = mount_profile profile mounts0 in
     case find (\<lambda>m. path_within_mount os canonical_target (wm_path m)) mounts of
       Some m \<Rightarrow>
         if write_access \<and> wm_read_only m
         then Inl (''path `'' @ path @ ''` resolved to `'' @ canonical_target @ ''` requires write access, but mount `'' @ wm_label m @ ''` is read-only'')
         else Inr ()
     | None \<Rightarrow> Inl (''path `'' @ path @ ''` resolved to `'' @ canonical_target @ ''` outside capability mounts ['' @ format_mount_roots mounts @ '']''))"

definition expected_capability_profile :: "string \<Rightarrow> wasm_capability_profile option" where
  "expected_capability_profile tool_name =
     (if tool_name \<in> {''file_read'', ''file_read_bytes'', ''file_search'', ''file_list''} then Some ProfileFileReadOnly
      else if tool_name \<in> {''file_write'', ''file_write_bytes'', ''file_edit'', ''file_delete''} then Some ProfileFileReadWrite
      else if tool_name \<in> {''web_fetch'', ''web_search''} then Some ProfileWeb
      else if tool_name = ''vault_copyto_read'' then Some ProfileVaultReadStep
      else if tool_name = ''vault_copyto_write'' then Some ProfileVaultWriteStep
      else None)"

definition unknown_operation :: "string \<Rightarrow> string" where
  "unknown_operation tool_name = ''unknown wasm tool operation `'' @ tool_name @ ''`''"

definition optional_bool :: "json \<Rightarrow> string \<Rightarrow> bool option" where
  "optional_bool arguments field = (case json_get arguments field of Some (JBool b) \<Rightarrow> Some b | _ \<Rightarrow> None)"

definition enforce_capability_profile ::
  "os_env \<Rightarrow> wasm_workspace_mounts \<Rightarrow> string \<Rightarrow> wasm_capability_profile \<Rightarrow> json \<Rightarrow> (string, unit) result" where
  "enforce_capability_profile os mounts tool_name profile arguments =
     bind_result (ok_or (expected_capability_profile tool_name) (unknown_operation tool_name)) (\<lambda>expected_profile.
     if expected_profile \<noteq> profile
     then Inl (''tool `'' @ tool_name @ ''` requires capability profile `'' @ wasm_capability_profile_debug expected_profile @ ''`, got `'' @
            wasm_capability_profile_debug profile @ ''`'')
     else if tool_name \<in> {''file_read'', ''file_read_bytes'', ''file_search''}
     then bind_result (required_string arguments ''path'' tool_name) (\<lambda>path. enforce_mounted_path os mounts profile path False)
     else if tool_name = ''file_list''
     then enforce_mounted_path os mounts profile (case get_str arguments ''path'' of Some path \<Rightarrow> path | None \<Rightarrow> ws_shared mounts) False
     else if tool_name \<in> {''file_write'', ''file_write_bytes'', ''file_edit'', ''file_delete''}
     then bind_result (required_string arguments ''path'' tool_name) (\<lambda>path. enforce_mounted_path os mounts profile path True)
     else if tool_name = ''vault_copyto_read''
     then bind_result (required_string arguments ''source_path'' tool_name) (\<lambda>source_path. enforce_mounted_path os mounts profile source_path False)
     else if tool_name = ''vault_copyto_write''
     then bind_result (required_string arguments ''destination_path'' tool_name) (\<lambda>destination_path.
            enforce_mounted_path os mounts profile destination_path True)
     else if tool_name \<in> {''web_fetch'', ''web_search''} then Inr ()
     else Inl (unknown_operation tool_name))"

section \<open>Operations\<close>

definition file_read :: "'w fs_env \<Rightarrow> json \<Rightarrow> ('w, string, string) action" where
  "file_read fs arguments =
     bind_action (lift_action (required_string arguments ''path'' ''file_read'')) (\<lambda>path.
     reading (\<lambda>w. map_err (fs_read_to_string fs path w) (\<lambda>e. ''failed to read `'' @ path @ ''`: '' @ e)))"

definition file_read_bytes :: "'w fs_env \<Rightarrow> json \<Rightarrow> ('w, string, string) action" where
  "file_read_bytes fs arguments =
     bind_action (lift_action (required_string arguments ''path'' ''file_read_bytes'')) (\<lambda>path.
     bind_action (reading (\<lambda>w. map_err (fs_read fs path w) (\<lambda>e. ''failed to read `'' @ path @ ''`: '' @ e))) (\<lambda>bytes.
     ret_action (base64_encode fs bytes)))"

definition wrote_text :: "nat \<Rightarrow> string \<Rightarrow> string" where
  "wrote_text n path = ''wrote '' @ nat_to_string n @ '' bytes to '' @ path"

definition file_write :: "'w fs_env \<Rightarrow> json \<Rightarrow> ('w, string, string) action" where
  "file_write fs arguments =
     bind_action (lift_action (required_string arguments ''path'' ''file_write'')) (\<lambda>path.
     bind_action (lift_action (required_string arguments ''content'' ''file_write'')) (\<lambda>content.
     bind_action (map_err_action (fs_write fs path content) (\<lambda>e. ''failed to write `'' @ path @ ''`: '' @ e)) (\<lambda>_.
     ret_action (wrote_text (length content) path))))"

text \<open>\<open>Path::with_file_name\<close>.\<close>

definition with_file_name :: "string \<Rightarrow> string \<Rightarrow> string" where
  "with_file_name path name =
     path_join (if file_name path = None then path else case parent path of Some par \<Rightarrow> par | None \<Rightarrow> path) name"

definition atomic_temp_path :: "'w fs_env \<Rightarrow> string \<Rightarrow> 'w \<Rightarrow> string" where
  "atomic_temp_path fs target w =
     with_file_name target (''.'' @ (case file_name target of Some name \<Rightarrow> name | None \<Rightarrow> ''attachment.bin'') @ ''.oxydra-write-'' @
       nat_to_string (process_id fs) @ ''-'' @ nat_to_string (fs_nanos fs w) @ ''.tmp'')"

definition write_bytes_atomic_replace :: "'w fs_env \<Rightarrow> string \<Rightarrow> string \<Rightarrow> ('w, string, unit) action" where
  "write_bytes_atomic_replace fs target bytes =
     with_state (\<lambda>w0. let temp_path = atomic_temp_path fs target w0 in
     bind_action (fs_write fs temp_path bytes) (\<lambda>_ w.
       case fs_rename fs temp_path target w of
         (Inr u, w') \<Rightarrow> (Inr (), w')
       | (Inl e, w') \<Rightarrow> (Inl e, snd (fs_remove_file fs temp_path w'))))"

definition write_bytes_with_overwrite_policy :: "'w fs_env \<Rightarrow> string \<Rightarrow> string \<Rightarrow> bool \<Rightarrow> ('w, string, unit) action" where
  "write_bytes_with_overwrite_policy fs path bytes overwrite =
     bind_action
       (case parent path of
          Some par \<Rightarrow> if par \<noteq> []
            then map_err_action (fs_create_dir_all fs par) (\<lambda>e. ''failed to create directories for `'' @ path @ ''`: '' @ e) else ret_action ()
        | None \<Rightarrow> ret_action ()) (\<lambda>_.
     if overwrite
     then map_err_action (write_bytes_atomic_replace fs path bytes) (\<lambda>e. ''failed to write `'' @ path @ ''`: '' @ e)
     else bind_action (map_err_action (fs_create_new fs path) (\<lambda>e. case e of
              AlreadyExists _ \<Rightarrow> ''destination `'' @ path @ ''` already exists; set overwrite=true to replace it''
            | OtherError t \<Rightarrow> ''failed to create `'' @ path @ ''`: '' @ t)) (\<lambda>_.
          map_err_action (fs_write_all fs path bytes) (\<lambda>e. ''failed to write `'' @ path @ ''`: '' @ e)))"

definition file_write_bytes :: "'w fs_env \<Rightarrow> json \<Rightarrow> ('w, string, string) action" where
  "file_write_bytes fs arguments =
     bind_action (lift_action (required_string arguments ''path'' ''file_write_bytes'')) (\<lambda>path.
     bind_action (lift_action (required_string arguments ''content_base64'' ''file_write_bytes'')) (\<lambda>content_base64.
     let overwrite = (case optional_bool arguments ''overwrite'' of Some b \<Rightarrow> b | None \<Rightarrow> False) in
     bind_action (lift_action (map_err (base64_decode fs content_base64) (\<lambda>e. ''failed to decode `content_base64`: '' @ e))) (\<lambda>bytes.
     bind_action (write_bytes_with_overwrite_policy fs path bytes overwrite) (\<lambda>_.
     ret_action (wrote_text (length bytes) path)))))"

text \<open>\<open>str::matches\<close> counted: the occurrences from left to right, without overlap.\<close>

function count_matches :: "string \<Rightarrow> string \<Rightarrow> nat" where
  "count_matches s [] = length (chars s) + 1"
| "count_matches [] (p # ps) = 0"
| "count_matches (c # cs) (p # ps) =
     (if starts_with (c # cs) (p # ps) then Suc (count_matches (drop (length (p # ps)) (c # cs)) (p # ps))
      else count_matches cs (p # ps))"
  by pat_completeness auto
termination
  by (relation "measure (\<lambda>(s, _). length s)") auto

definition replace_first :: "string \<Rightarrow> string \<Rightarrow> string \<Rightarrow> string" where
  "replace_first s old new =
     (case find_sub s old of Some i \<Rightarrow> take i s @ new @ drop (i + length old) s | None \<Rightarrow> s)"

definition file_edit :: "'w fs_env \<Rightarrow> json \<Rightarrow> ('w, string, string) action" where
  "file_edit fs arguments =
     bind_action (lift_action (required_string arguments ''path'' ''file_edit'')) (\<lambda>path.
     bind_action (lift_action (required_string arguments ''old_text'' ''file_edit'')) (\<lambda>old_text.
     bind_action (lift_action (required_string arguments ''new_text'' ''file_edit'')) (\<lambda>new_text.
     if old_text = [] then lift_action (Inl ''old_text must not be empty'')
     else bind_action (reading (\<lambda>w. map_err (fs_read_to_string fs path w) (\<lambda>e. ''failed to read `'' @ path @ ''`: '' @ e))) (\<lambda>content.
       let occurrences = count_matches content old_text in
       if occurrences = 0 then lift_action (Inl ''old_text was not found in target file'')
       else if occurrences > 1
       then lift_action (Inl (''old_text matched '' @ nat_to_string occurrences @ '' locations; provide a more specific snippet''))
       else bind_action (map_err_action (fs_write fs path (replace_first content old_text new_text))
                (\<lambda>e. ''failed to write `'' @ path @ ''`: '' @ e)) (\<lambda>_.
            ret_action (''updated '' @ path))))))"

definition file_delete :: "'w fs_env \<Rightarrow> json \<Rightarrow> ('w, string, string) action" where
  "file_delete fs arguments =
     bind_action (lift_action (required_string arguments ''path'' ''file_delete'')) (\<lambda>path.
     bind_action (reading (\<lambda>w. map_err (fs_metadata fs path w) (\<lambda>e. ''failed to stat `'' @ path @ ''`: '' @ e))) (\<lambda>kind.
     if kind = KindDir
     then bind_action (map_err_action (fs_remove_dir_all fs path) (\<lambda>e. ''failed to remove `'' @ path @ ''`: '' @ e)) (\<lambda>_.
          ret_action (''deleted directory '' @ path))
     else bind_action (map_err_action (fs_remove_file fs path) (\<lambda>e. ''failed to remove `'' @ path @ ''`: '' @ e)) (\<lambda>_.
          ret_action (''deleted file '' @ path))))"

fun list_entries :: "'w fs_env \<Rightarrow> 'w \<Rightarrow> string \<Rightarrow> (string, string) result list \<Rightarrow> (string, string list) result" where
  "list_entries fs w path [] = Inr []"
| "list_entries fs w path (Inl e # entries) = Inl (''failed to read entry in `'' @ path @ ''`: '' @ e)"
| "list_entries fs w path (Inr name # entries) =
     bind_result (list_entries fs w path entries) (\<lambda>labels. Inr ((if fs_metadata fs (path_join path name) w = Inr KindDir then name @ ''/'' else name) # labels))"

definition file_list :: "'w fs_env \<Rightarrow> wasm_workspace_mounts \<Rightarrow> json \<Rightarrow> ('w, string, string) action" where
  "file_list fs mounts arguments =
     (let path = (case get_str arguments ''path'' of Some p \<Rightarrow> p | None \<Rightarrow> ws_shared mounts) in
      reading (\<lambda>w.
        bind_result (map_err (fs_read_dir fs path w) (\<lambda>e. ''failed to list `'' @ path @ ''`: '' @ e)) (\<lambda>directory.
        bind_result (list_entries fs w path directory) (\<lambda>entries.
        if entries = [] then Inr ''no entries found'' else Inr (join nl (sort entries))))))"

definition MAX_SEARCH_MATCHES :: nat where
  "MAX_SEARCH_MATCHES = 200"

fun search_lines :: "string \<Rightarrow> string \<Rightarrow> nat \<Rightarrow> string list \<Rightarrow> string list \<Rightarrow> string list" where
  "search_lines path query line_index [] ms = ms"
| "search_lines path query line_index (line # lines) ms =
     (if contains line query
      then let ms' = ms @ [path @ '':'' @ nat_to_string (line_index + 1) @ '':'' @ line] in
           if MAX_SEARCH_MATCHES \<le> length ms' then ms' else search_lines path query (line_index + 1) lines ms'
      else search_lines path query (line_index + 1) lines ms)"

fun search_entries ::
  "(string \<Rightarrow> string list \<Rightarrow> (string, string list) result option) \<Rightarrow> string \<Rightarrow> (string, string) result list \<Rightarrow> string list \<Rightarrow>
     (string, string list) result option" where
  "search_entries visit path [] ms = Some (Inr ms)"
| "search_entries visit path (Inl e # entries) ms = Some (Inl (''failed to read entry in `'' @ path @ ''`: '' @ e))"
| "search_entries visit path (Inr name # entries) ms =
     (case visit (path_join path name) ms of
        None \<Rightarrow> None
      | Some (Inl e) \<Rightarrow> Some (Inl e)
      | Some (Inr ms') \<Rightarrow> if MAX_SEARCH_MATCHES \<le> length ms' then Some (Inr ms') else search_entries visit path entries ms')"

text \<open>The fuel is the number of directories on the way down; \<open>None\<close> is a search that has not come to its end.\<close>

fun collect_search_matches ::
  "'w fs_env \<Rightarrow> 'w \<Rightarrow> string \<Rightarrow> nat \<Rightarrow> string \<Rightarrow> string list \<Rightarrow> (string, string list) result option" where
  "collect_search_matches fs w query 0 path ms = None"
| "collect_search_matches fs w query (Suc fuel) path ms =
     (if MAX_SEARCH_MATCHES \<le> length ms then Some (Inr ms)
      else case fs_metadata fs path w of
        Inl e \<Rightarrow> Some (Inl (''failed to inspect `'' @ path @ ''`: '' @ e))
      | Inr KindDir \<Rightarrow>
          (case fs_read_dir fs path w of
             Inl e \<Rightarrow> Some (Inl (''failed to list `'' @ path @ ''`: '' @ e))
           | Inr entries \<Rightarrow> search_entries (collect_search_matches fs w query fuel) path entries ms)
      | Inr KindOther \<Rightarrow> Some (Inr ms)
      | Inr KindFile \<Rightarrow>
          (case fs_read_to_string fs path w of
             Inl _ \<Rightarrow> Some (Inr ms)
           | Inr content \<Rightarrow> Some (Inr (search_lines path query 0 (str_lines content) ms))))"

definition file_search :: "'w fs_env \<Rightarrow> nat \<Rightarrow> json \<Rightarrow> 'w \<Rightarrow> (string, string) result option" where
  "file_search fs fuel arguments w =
     (case required_string arguments ''path'' ''file_search'' of
        Inl e \<Rightarrow> Some (Inl e)
      | Inr path \<Rightarrow>
     (case required_string arguments ''query'' ''file_search'' of
        Inl e \<Rightarrow> Some (Inl e)
      | Inr query \<Rightarrow>
          if query = [] then Some (Inl ''query must not be empty'')
          else map_option (\<lambda>r. bind_result r (\<lambda>ms. Inr (if ms = [] then ''no matches found'' else join nl ms)))
                 (collect_search_matches fs w query fuel path [])))"

definition vault_copyto_read :: "'w fs_env \<Rightarrow> json \<Rightarrow> ('w, string, string) action" where
  "vault_copyto_read fs arguments =
     bind_action (lift_action (required_string arguments ''source_path'' ''vault_copyto_read'')) (\<lambda>source_path.
     reading (\<lambda>w. map_err (fs_read_to_string fs source_path w) (\<lambda>e. ''failed to read vault source `'' @ source_path @ ''`: '' @ e)))"

definition vault_copyto_write :: "'w fs_env \<Rightarrow> json \<Rightarrow> ('w, string, string) action" where
  "vault_copyto_write fs arguments =
     bind_action (lift_action (required_string arguments ''destination_path'' ''vault_copyto_write'')) (\<lambda>destination_path.
     bind_action (lift_action (required_string arguments ''content'' ''vault_copyto_write'')) (\<lambda>content.
     bind_action (map_err_action (fs_write fs destination_path content) (\<lambda>e. ''failed to write destination `'' @ destination_path @ ''`: '' @ e)) (\<lambda>_.
     ret_action (''copied '' @ nat_to_string (length content) @ '' bytes to '' @ destination_path))))"

section \<open>Invocations\<close>

record 'w runner_env =
  re_fs :: "'w fs_env"
  re_search :: "'w search_env"

definition run_to_end :: "('w, string, string) action \<Rightarrow> 'w \<Rightarrow> (string, string) result option \<times> 'w" where
  "run_to_end m w = (case m w of (r, w') \<Rightarrow> (Some r, w'))"

definition execute_operation ::
  "'w runner_env \<Rightarrow> wasm_workspace_mounts \<Rightarrow> nat \<Rightarrow> string \<Rightarrow> json \<Rightarrow> 'w \<Rightarrow> (string, string) result option \<times> 'w" where
  "execute_operation env mounts fuel tool_name arguments =
     (let fs = re_fs env in
      if tool_name = ''file_read'' then run_to_end (file_read fs arguments)
      else if tool_name = ''file_read_bytes'' then run_to_end (file_read_bytes fs arguments)
      else if tool_name = ''file_write'' then run_to_end (file_write fs arguments)
      else if tool_name = ''file_write_bytes'' then run_to_end (file_write_bytes fs arguments)
      else if tool_name = ''file_edit'' then run_to_end (file_edit fs arguments)
      else if tool_name = ''file_delete'' then run_to_end (file_delete fs arguments)
      else if tool_name = ''file_list'' then run_to_end (file_list fs mounts arguments)
      else if tool_name = ''file_search'' then (\<lambda>w. (file_search fs fuel arguments w, w))
      else if tool_name = ''web_fetch'' then run_to_end (web_fetch_execute (se_web (re_search env)) arguments)
      else if tool_name = ''web_search'' then run_to_end (web_search_execute (re_search env) arguments)
      else if tool_name = ''vault_copyto_read'' then run_to_end (vault_copyto_read fs arguments)
      else if tool_name = ''vault_copyto_write'' then run_to_end (vault_copyto_write fs arguments)
      else run_to_end (lift_action (Inl (unknown_operation tool_name))))"

record 'w wasm_runner =
  wr_mounts :: wasm_workspace_mounts
  wr_request_counter :: u64
  wr_audit_records :: "wasm_invocation_metadata list"
  wr_world :: 'w

definition wasm_runner_new :: "wasm_workspace_mounts \<Rightarrow> 'w \<Rightarrow> 'w wasm_runner" where
  "wasm_runner_new mounts w = \<lparr>wr_mounts = mounts, wr_request_counter = 0, wr_audit_records = [], wr_world = w\<rparr>"

definition next_request_id :: "string \<Rightarrow> 'w wasm_runner \<Rightarrow> string \<times> 'w wasm_runner" where
  "next_request_id tool_name r =
     (let request_number = wr_request_counter r + 1
      in (tool_name @ ''-'' @ nat_to_string (unat request_number), r\<lparr>wr_request_counter := request_number\<rparr>))"

definition record_audit :: "wasm_invocation_metadata \<Rightarrow> 'w wasm_runner \<Rightarrow> 'w wasm_runner" where
  "record_audit metadata r = r\<lparr>wr_audit_records := wr_audit_records r @ [metadata]\<rparr>"

definition audit_log :: "'w wasm_runner \<Rightarrow> wasm_invocation_metadata list" where
  "audit_log r = wr_audit_records r"

text \<open>The texts of the errors \<open>SandboxError::WasmInvocationFailed\<close>, the only ones of an invocation.\<close>

definition wasm_invocation_failed :: "string \<Rightarrow> string \<Rightarrow> string \<Rightarrow> string" where
  "wasm_invocation_failed tool request_id message =
     ''wasm tool invocation failed for `'' @ tool @ ''` request `'' @ request_id @ ''`: '' @ message"

definition invoke ::
  "'w runner_env \<Rightarrow> nat \<Rightarrow> string \<Rightarrow> wasm_capability_profile \<Rightarrow> json \<Rightarrow> string option \<Rightarrow> 'w wasm_runner \<Rightarrow>
     (string, wasm_invocation_result) result option \<times> 'w wasm_runner" where
  "invoke env fuel tool_name profile arguments operation_id r0 =
     (case next_request_id tool_name r0 of (request_id, r1) \<Rightarrow>
      let metadata = \<lparr>im_request_id = request_id, im_operation_id = operation_id, im_tool_name = tool_name, im_profile = profile,
            im_mounts = mount_profile profile (wr_mounts r1)\<rparr>;
          r2 = record_audit metadata r1;
          failed = wasm_invocation_failed tool_name request_id
      in case enforce_capability_profile (fs_os (re_fs env) (wr_world r2)) (wr_mounts r2) tool_name profile arguments of
           Inl message \<Rightarrow> (Some (Inl (failed message)), r2)
         | Inr _ \<Rightarrow>
             (case execute_operation env (wr_mounts r2) fuel tool_name arguments (wr_world r2) of (out, w) \<Rightarrow>
                (map_option (\<lambda>res. bind_result (map_err res failed) (\<lambda>output. Inr \<lparr>ir_metadata = metadata, ir_output = output\<rparr>)) out,
                 r2\<lparr>wr_world := w\<rparr>)))"

section \<open>What an invocation may change\<close>

lemma keeps_reading [keeps_intros]: "keeps f (reading g)"
  by (simp add: keeps_def reading_def)

lemma keeps_map_err [keeps_intros]: "keeps f m \<Longrightarrow> keeps f (map_err_action m g)"
  unfolding keeps_def map_err_action_def by (metis (no_types, lifting) prod.case_eq_if snd_conv)

lemma run_to_end_world: "snd (run_to_end m w) = snd (m w)"
  by (simp add: run_to_end_def split: prod.splits)

lemma readers_keep:
  "keeps f (file_read fs arguments)" "keeps f (file_read_bytes fs arguments)" "keeps f (file_list fs mounts arguments)"
  "keeps f (vault_copyto_read fs arguments)"
  unfolding file_read_def file_read_bytes_def file_list_def vault_copyto_read_def Let_def
  by (intro keeps_intros)+

definition WRITE_TOOLS :: "string set" where
  "WRITE_TOOLS = {''file_write'', ''file_write_bytes'', ''file_edit'', ''file_delete'', ''vault_copyto_write''}"

lemma other_tools_keep:
  assumes "tool \<notin> WRITE_TOOLS" "tool \<notin> {''web_fetch'', ''web_search''}"
  shows "snd (execute_operation env mounts fuel tool arguments w) = w"
proof -
  have "snd (m w) = w" if "keeps (\<lambda>w. w) m" for m :: "('a, string, string) action" using that by (simp add: keeps_def)
  note kept = this[OF readers_keep(1)] this[OF readers_keep(2)] this[OF readers_keep(3)] this[OF readers_keep(4)]
    this[OF keeps_basic(2)]
  show ?thesis using assms
    by (simp add: execute_operation_def WRITE_TOOLS_def Let_def run_to_end_world kept)
qed

text \<open>The argument that names the file a tool writes to, and when the mounts let a path be written to.\<close>

definition write_field :: "string \<Rightarrow> string" where
  "write_field tool = (if tool = ''vault_copyto_write'' then ''destination_path'' else ''path'')"

definition mounted :: "os_env \<Rightarrow> wasm_workspace_mounts \<Rightarrow> wasm_capability_profile \<Rightarrow> bool \<Rightarrow> string \<Rightarrow> bool" where
  "mounted os mounts profile write path \<longleftrightarrow>
     (\<exists>target m. canonicalize_invocation_path os path True = Inr target \<and> m \<in> set (mount_profile profile mounts) \<and>
        path_within_mount os target (wm_path m) \<and> (write \<longrightarrow> \<not> wm_read_only m))"

lemma enforce_mounted_path_mounted:
  assumes "enforce_mounted_path os mounts profile path write = Inr u"
  shows "mounted os mounts profile write path"
proof -
  from assms obtain target m where t: "canonicalize_invocation_path os path True = Inr target"
    "find (\<lambda>m. path_within_mount os target (wm_path m)) (mount_profile profile mounts) = Some m" "write \<longrightarrow> \<not> wm_read_only m"
    by (auto simp: enforce_mounted_path_def Let_def split: option.splits if_splits)
  from t(2) have "m \<in> set (mount_profile profile mounts)" "path_within_mount os target (wm_path m)"
    by (auto simp: find_Some_iff)
  with t show ?thesis unfolding mounted_def by blast
qed

lemma required_string_Inr: "required_string arguments field tool = Inr s \<longleftrightarrow> json_get arguments field = Some (JStr s)"
  by (auto simp: required_string_def bind_eq_Some_conv elim: as_str.elims)

lemma enforced_write_mounted:
  assumes "enforce_capability_profile os mounts tool profile arguments = Inr u" "tool \<in> WRITE_TOOLS"
  shows "\<exists>path. json_get arguments (write_field tool) = Some (JStr path) \<and> mounted os mounts profile True path"
proof -
  have "bind_result (required_string arguments (write_field tool) tool) (\<lambda>path. enforce_mounted_path os mounts profile path True) = Inr u"
    using assms(2)[unfolded WRITE_TOOLS_def] assms(1)
    by (elim insertE emptyE) (simp_all add: enforce_capability_profile_def write_field_def expected_capability_profile_def split: if_splits)
  then show ?thesis by (auto simp: required_string_Inr dest: enforce_mounted_path_mounted)
qed

lemma enforced_profile:
  "enforce_capability_profile os mounts tool profile arguments = Inr u \<Longrightarrow> expected_capability_profile tool = Some profile"
  by (auto simp: enforce_capability_profile_def split: if_splits)

lemma invoke_world:
  assumes "invoke env fuel tool profile arguments op r = (out, r')" "wr_world r' \<noteq> wr_world r"
  shows "\<exists>u. enforce_capability_profile (fs_os (re_fs env) (wr_world r)) (wr_mounts r) tool profile arguments = Inr u"
    and "wr_world r' = snd (execute_operation env (wr_mounts r) fuel tool arguments (wr_world r))"
  using assms by (auto simp: invoke_def next_request_id_def record_audit_def Let_def split: sum.splits prod.splits)

text \<open>The mounts that may be written to are the shared and the temporary directory.\<close>

lemma writable_mounts:
  "m \<in> set (mount_profile profile mounts) \<Longrightarrow> \<not> wm_read_only m \<Longrightarrow> wm_path m \<in> {ws_shared mounts, ws_tmp mounts}"
  by (cases profile) (auto simp: wasm_mount_new_def)

lemma invocation_writes:
  assumes "invoke env fuel tool profile arguments op r = (out, r')" "wr_world r' \<noteq> wr_world r"
  shows "expected_capability_profile tool = Some profile \<and>
    (tool \<in> {''web_fetch'', ''web_search''} \<or>
     tool \<in> WRITE_TOOLS \<and>
     (\<exists>path target rt. json_get arguments (write_field tool) = Some (JStr path) \<and>
        canonicalize_invocation_path (fs_os (re_fs env) (wr_world r)) path True = Inr target \<and>
        rt \<in> {ws_shared (wr_mounts r), ws_tmp (wr_mounts r)} \<and> path_within_mount (fs_os (re_fs env) (wr_world r)) target rt))"
proof -
  let ?os = "fs_os (re_fs env) (wr_world r)"
  from invoke_world(1)[OF assms] obtain u where ok: "enforce_capability_profile ?os (wr_mounts r) tool profile arguments = Inr u" by blast
  have "tool \<in> {''web_fetch'', ''web_search''} \<or> tool \<in> WRITE_TOOLS"
    using other_tools_keep[of tool env "wr_mounts r" fuel arguments "wr_world r"] invoke_world(2)[OF assms] assms(2) by auto
  moreover have "\<exists>path target rt. json_get arguments (write_field tool) = Some (JStr path) \<and> canonicalize_invocation_path ?os path True = Inr target \<and>
      rt \<in> {ws_shared (wr_mounts r), ws_tmp (wr_mounts r)} \<and> path_within_mount ?os target rt" if "tool \<in> WRITE_TOOLS"
  proof -
    from enforced_write_mounted[OF ok that] obtain path target m where
      "json_get arguments (write_field tool) = Some (JStr path)" "canonicalize_invocation_path ?os path True = Inr target"
      "m \<in> set (mount_profile profile (wr_mounts r))" "path_within_mount ?os target (wm_path m)" "\<not> wm_read_only m"
      by (auto simp: mounted_def)
    then show ?thesis using writable_mounts by blast
  qed
  ultimately show ?thesis using enforced_profile[OF ok] by blast
qed


text \<open>Every invocation, also a refused one, adds one record with the number of the request to the audit log; a refused one leaves the outside world as it is and
  answers with an error that names the request.
\<close>

theorem invocation_audited:
  assumes "invoke env fuel tool profile arguments op r = (out, r')"
  shows "wr_request_counter r' = wr_request_counter r + 1 \<and>
    audit_log r' = audit_log r @
      [\<lparr>im_request_id = tool @ ''-'' @ nat_to_string (unat (wr_request_counter r + 1)), im_operation_id = op, im_tool_name = tool,
        im_profile = profile, im_mounts = mount_profile profile (wr_mounts r)\<rparr>] \<and>
    (case enforce_capability_profile (fs_os (re_fs env) (wr_world r)) (wr_mounts r) tool profile arguments of
       Inl message \<Rightarrow> wr_world r' = wr_world r \<and>
         out = Some (Inl (wasm_invocation_failed tool (tool @ ''-'' @ nat_to_string (unat (wr_request_counter r + 1))) message))
     | Inr _ \<Rightarrow> True)"
  using assms by (auto simp: invoke_def next_request_id_def record_audit_def audit_log_def Let_def split: sum.splits prod.splits)

section \<open>Searching a tree\<close>

text \<open>No path below is deeper than the given number of directories.\<close>

fun shallow :: "'w fs_env \<Rightarrow> 'w \<Rightarrow> nat \<Rightarrow> string \<Rightarrow> bool" where
  "shallow fs w 0 path = False"
| "shallow fs w (Suc n) path =
     (case (fs_metadata fs path w, fs_read_dir fs path w) of
        (Inr KindDir, Inr entries) \<Rightarrow> list_all (\<lambda>e. case e of Inr name \<Rightarrow> shallow fs w n (path_join path name) | Inl _ \<Rightarrow> True) entries
      | _ \<Rightarrow> True)"

lemma search_lines_bound:
  "length ms < MAX_SEARCH_MATCHES \<Longrightarrow> length (search_lines path query i lines ms) \<le> MAX_SEARCH_MATCHES"
  by (induction path query i lines ms rule: search_lines.induct) (auto simp: Let_def)

lemma search_entries_returns:
  assumes "\<And>p ms. p \<in> path_join path ` {name. Inr name \<in> set entries} \<Longrightarrow> length ms \<le> MAX_SEARCH_MATCHES \<Longrightarrow>
      \<exists>r. visit p ms = Some r \<and> (\<forall>ms'. r = Inr ms' \<longrightarrow> length ms' \<le> MAX_SEARCH_MATCHES)"
    and "length ms \<le> MAX_SEARCH_MATCHES"
  shows "\<exists>r. search_entries visit path entries ms = Some r \<and> (\<forall>ms'. r = Inr ms' \<longrightarrow> length ms' \<le> MAX_SEARCH_MATCHES)"
  using assms
proof (induction visit path entries ms rule: search_entries.induct)
  case (3 visit path name entries ms)
  obtain r where r: "visit (path_join path name) ms = Some r" "\<forall>ms'. r = Inr ms' \<longrightarrow> length ms' \<le> MAX_SEARCH_MATCHES"
    using 3(2)[of "path_join path name" ms] 3(3) by auto
  show ?case
  proof (cases r)
    case (Inl e)
    with r show ?thesis by simp
  next
    case (Inr ms')
    have "\<exists>r. search_entries visit path entries ms' = Some r \<and> (\<forall>ms'. r = Inr ms' \<longrightarrow> length ms' \<le> MAX_SEARCH_MATCHES)"
      if "\<not> MAX_SEARCH_MATCHES \<le> length ms'"
    proof (rule 3(1)[OF r(1) Inr that])
      show "\<exists>r. visit p ms = Some r \<and> (\<forall>ms'. r = Inr ms' \<longrightarrow> length ms' \<le> MAX_SEARCH_MATCHES)"
        if "p \<in> path_join path ` {name. Inr name \<in> set entries}" "length ms \<le> MAX_SEARCH_MATCHES" for p ms
        using 3(2)[OF _ that(2), of p] that(1) by auto
      show "length ms' \<le> MAX_SEARCH_MATCHES" using r(2) Inr by blast
    qed
    with r Inr show ?thesis by auto
  qed
qed auto

lemma collect_returns:
  "shallow fs w fuel path \<Longrightarrow> length ms \<le> MAX_SEARCH_MATCHES \<Longrightarrow>
     \<exists>r. collect_search_matches fs w query fuel path ms = Some r \<and> (\<forall>ms'. r = Inr ms' \<longrightarrow> length ms' \<le> MAX_SEARCH_MATCHES)"
proof (induction fuel arbitrary: path ms)
  case (Suc fuel)
  show ?case
  proof (cases "fs_metadata fs path w")
    case (Inr kind)
    show ?thesis
    proof (cases kind)
      case KindDir
      show ?thesis
      proof (cases "fs_read_dir fs path w")
        case (Inr entries)
        have "shallow fs w fuel p" if "p \<in> path_join path ` {name. Inr name \<in> set entries}" for p
          using Suc.prems(1) that by (auto simp: \<open>fs_metadata fs path w = Inr kind\<close> KindDir Inr list_all_iff)
        with Suc.IH have "\<exists>r. search_entries (collect_search_matches fs w query fuel) path entries ms = Some r \<and>
            (\<forall>ms'. r = Inr ms' \<longrightarrow> length ms' \<le> MAX_SEARCH_MATCHES)"
          by (intro search_entries_returns[OF _ Suc.prems(2)]) blast
        then show ?thesis using Suc.prems(2) by (simp add: \<open>fs_metadata fs path w = Inr kind\<close> KindDir Inr)
      qed (use Suc.prems in \<open>simp add: Inr KindDir\<close>)
    qed (use Suc.prems in \<open>auto simp: Inr search_lines_bound split: sum.splits\<close>)
  qed (use Suc.prems in simp)
qed simp

text \<open>The search of a directory tree comes to its end: when no path below is deeper than \<open>n\<close> directories, \<open>n\<close> units of fuel are enough, and at most
  200 lines are found.
\<close>

theorem search_returns:
  assumes "shallow fs w n path"
  shows "\<exists>r. collect_search_matches fs w query n path [] = Some r \<and> (\<forall>ms. r = Inr ms \<longrightarrow> length ms \<le> 200)"
  using collect_returns[OF assms, of "[]" query] by (simp add: MAX_SEARCH_MATCHES_def)

section \<open>An example file system\<close>

text \<open>
  The state is the list of files with their contents; a directory exists when a file lies below it, and \<open>/shared\<close>, \<open>/tmp\<close>, \<open>/vault\<close> always do.
  There are no links: the canonical form of a path is its normal components, with the ones before \<open>..\<close> removed. A path with \<open>..\<close> exists
  only when the directory before it does.
\<close>

type_synonym ex_files = "(string \<times> string) list"

definition path_of :: "string list \<Rightarrow> string" where
  "path_of names = concat (map (\<lambda>s. slash # s) names)"

fun walk :: "string list \<Rightarrow> path_component list \<Rightarrow> string list" where
  "walk names [] = names"
| "walk names (Normal s # cs) = walk (names @ [s]) cs"
| "walk names (ParentDir # cs) = walk (butlast names) cs"
| "walk names (_ # cs) = walk names cs"

definition ex_canonical :: "string \<Rightarrow> string" where
  "ex_canonical p = path_of (walk [] (components p))"

definition ex_is_dir :: "ex_files \<Rightarrow> string \<Rightarrow> bool" where
  "ex_is_dir files p \<longleftrightarrow> p \<in> {[], ''/shared'', ''/tmp'', ''/vault''} \<or> list_ex (\<lambda>(q, _). starts_with q (p @ [slash])) files"

fun dirs_ok :: "ex_files \<Rightarrow> string list \<Rightarrow> path_component list \<Rightarrow> bool" where
  "dirs_ok files names [] = True"
| "dirs_ok files names (ParentDir # cs) = (ex_is_dir files (path_of names) \<and> dirs_ok files (butlast names) cs)"
| "dirs_ok files names (Normal s # cs) = dirs_ok files (names @ [s]) cs"
| "dirs_ok files names (_ # cs) = dirs_ok files names cs"

definition ex_exists :: "ex_files \<Rightarrow> string \<Rightarrow> bool" where
  "ex_exists files p \<longleftrightarrow>
     dirs_ok files [] (components p) \<and> (ex_is_dir files (ex_canonical p) \<or> list_ex (\<lambda>(q, _). q = ex_canonical p) files)"

definition ex_os :: "ex_files \<Rightarrow> os_env" where
  "ex_os files = \<lparr>os_canonicalize = (\<lambda>p. if ex_exists files p then Inr (ex_canonical p) else Inl ''No such file or directory''),
     os_exists = ex_exists files, os_current_dir = Some ''/''\<rparr>"

definition ex_fs :: "ex_files fs_env" where
  "ex_fs = \<lparr>fs_os = ex_os,
     fs_metadata = (\<lambda>p files. if ex_is_dir files (ex_canonical p) then Inr KindDir else case map_of files (ex_canonical p) of Some _ \<Rightarrow> Inr KindFile | None \<Rightarrow> Inl ''No such file''),
     fs_read_to_string = (\<lambda>p files. ok_or (map_of files (ex_canonical p)) ''No such file''),
     fs_read = (\<lambda>p files. ok_or (map_of files (ex_canonical p)) ''No such file''),
     fs_read_dir = (\<lambda>p files. Inr (map (\<lambda>(q, _). Inr (drop (length p + 1) q)) (filter (\<lambda>(q, _). starts_with q (p @ [slash])) files))),
     fs_nanos = (\<lambda>_. 7),
     fs_write = (\<lambda>p c files. (Inr (), (ex_canonical p, c) # files)),
     fs_rename = (\<lambda>p q files. (Inr (), files)),
     fs_remove_file = (\<lambda>p files. (Inr (), filter (\<lambda>(q, _). q \<noteq> ex_canonical p) files)),
     fs_remove_dir_all = (\<lambda>p files. (Inr (), filter (\<lambda>(q, _). \<not> starts_with q (ex_canonical p)) files)),
     fs_create_dir_all = (\<lambda>p files. (Inr (), files)),
     fs_create_new = (\<lambda>p files. (Inr (), (ex_canonical p, []) # files)),
     fs_write_all = (\<lambda>p c files. (Inr (), map (\<lambda>(q, d). if q = ex_canonical p then (q, c) else (q, d)) files)),
     process_id = 1, base64_encode = (\<lambda>s. s), base64_decode = Inr\<rparr>"

definition ex_runner :: "ex_files wasm_runner" where
  "ex_runner = wasm_runner_new (workspace_mounts_for_bootstrap ''/'') [(''/shared/a'', ''one two''), (''/vault/k'', ''key'')]"

definition ex_runner_env :: "ex_files runner_env" where
  "ex_runner_env = \<lparr>re_fs = ex_fs, re_search = \<lparr>se_web =
     \<lparr>env_var = (\<lambda>_. None), parse_url = (\<lambda>_. Inl ''no url''), lookup_host = (\<lambda>_ _. Inl ''no host''), ip_text = (\<lambda>_. []),
      http_get = (\<lambda>_ w. (Inl ''down'', w)), status_text = (\<lambda>_. []), utf8_lossy = (\<lambda>s. s), html_to_text = (\<lambda>_ _. None), json_text = (\<lambda>_. [])\<rparr>,
     se_built_url = (\<lambda>_. None), se_send = (\<lambda>_ w. (Inl ''down'', w)), se_json_parse = (\<lambda>_. Inl ''no json'')\<rparr>\<rparr>"

definition ex_edit :: json where
  "ex_edit = JObj [(''path'', JStr ''/shared/a''), (''old_text'', JStr ''one''), (''new_text'', JStr ''1'')]"

lemma ex_edit_world:
  "wr_world (snd (invoke ex_runner_env 3 ''file_edit'' ProfileFileReadWrite ex_edit None ex_runner)) =
     [(''/shared/a'', ''1 two''), (''/shared/a'', ''one two''), (''/vault/k'', ''key'')]"
  by code_simp


theorem invocation_audited_witness:
  "let r' = snd (invoke ex_runner_env 3 ''file_edit'' ProfileFileReadOnly ex_edit None ex_runner) in
   wr_request_counter r' = 1 \<and> length (audit_log r') = 1 \<and> wr_world r' = wr_world ex_runner"
  using invocation_audited[OF surjective_pairing[of "invoke ex_runner_env 3 ''file_edit'' ProfileFileReadOnly ex_edit None ex_runner"]]
  by (simp add: Let_def enforce_capability_profile_def expected_capability_profile_def ex_runner_def wasm_runner_new_def audit_log_def)

theorem search_returns_witness:
  "\<exists>r. collect_search_matches ex_fs (wr_world ex_runner) ''one'' 2 ''/shared'' [] = Some r \<and> (\<forall>ms. r = Inr ms \<longrightarrow> length ms \<le> 200)"
  by (rule search_returns) code_simp

lemma ex_search_finds: "collect_search_matches ex_fs (wr_world ex_runner) ''one'' 2 ''/shared'' [] = Some (Inr [''/shared/a:1:one two''])"
  by code_simp

section \<open>Paths that pass the check and lead elsewhere\<close>

text \<open>
  The part of a path that does not exist keeps its \<open>..\<close>, and the comparison with the mounts is by components: a path that leaves the shared
  directory through a directory still to be created counts as inside. The operation then creates that directory and follows the path out.
\<close>

lemma missing_directory_escapes:
  "enforce_mounted_path (ex_os (wr_world ex_runner)) (wr_mounts ex_runner) ProfileFileReadWrite ''/shared/new/../../etc/x'' True = Inr ()"
  "ex_canonical ''/shared/new/../../etc/x'' = ''/etc/x''"
  by code_simp+

lemma missing_directory_escape_written:
  "wr_world (snd (invoke ex_runner_env 3 ''file_write_bytes'' ProfileFileReadWrite
      (JObj [(''path'', JStr ''/shared/new/../../etc/x''), (''content_base64'', JStr ''evil'')]) None ex_runner)) =
     (''/etc/x'', ''evil'') # wr_world ex_runner"
  by code_simp

text \<open>The check looks at the path without the spaces around it, the operation opens the path as it is.\<close>

lemma check_trims_path:
  "canonicalize_invocation_path os '' /shared/a '' missing = canonicalize_invocation_path os ''/shared/a'' missing"
  "components '' /shared/a '' = [Normal '' '', Normal ''shared'', Normal ''a '']"
proof -
  have "trim '' /shared/a '' = trim ''/shared/a''" by code_simp
  then show "canonicalize_invocation_path os '' /shared/a '' missing = canonicalize_invocation_path os ''/shared/a'' missing"
    by (simp add: canonicalize_invocation_path_def)
qed code_simp

text \<open>One entry that cannot be inspected, such as a dangling link, makes the whole search fail.\<close>

lemma search_fails_on_dangling_entry:
  assumes "fs_metadata fs path w = Inr KindDir" "fs_read_dir fs path w = Inr (Inr name # entries)" "fs_metadata fs (path_join path name) w = Inl e"
  shows "collect_search_matches fs w query (Suc (Suc n)) path [] = Some (Inl (''failed to inspect `'' @ path_join path name @ ''`: '' @ e))"
  using assms by (simp add: MAX_SEARCH_MATCHES_def)

end
