(* ===== verification/Shell_Daemon.thy ===== *)
theory Shell_Daemon
  imports Tool_Registry
begin

text \<open>
  The shell daemon that runs commands inside the sandbox (\<open>oxydra-shelld/src/lib.rs\<close>), with the messages of its protocol (\<open>types/src/runner.rs\<close>).

  The manager keeps the sessions with the output of their last command. A command is run between two critical sections, one that looks up the
  session and one that stores the output, so requests of other connections may be handled while it runs: the step relation \<open>daemon_step\<close>
  has a step for each of the two. The process itself, the codec of the frames and the replacement of invalid UTF-8 are parameters.

  Shown: in every state the daemon reaches, a session holds at most the configured number of output bytes; a client that reads the output of a command
  piece by piece gets every byte that was kept, in order, and comes to the end; every request is answered with a response of its kind or
  an error that carries its identifier.
\<close>

section \<open>Messages\<close>

datatype shell_output_stream = Stdout | Stderr

record spawn_session_msg =
  sps_request_id :: string
  sps_shell :: "string option"
  sps_cwd :: "string option"
  sps_env :: "(string \<times> string) list"

record exec_command_msg =
  xc_request_id :: string
  xc_session_id :: string
  xc_command :: string
  xc_timeout_secs :: "u64 option"

record stream_output_msg =
  so_request_id :: string
  so_session_id :: string
  so_max_bytes :: "nat option"

record kill_session_msg =
  ks_request_id :: string
  ks_session_id :: string

datatype shell_daemon_request = ReqSpawnSession spawn_session_msg | ReqExecCommand exec_command_msg
  | ReqStreamOutput stream_output_msg | ReqKillSession kill_session_msg

record spawn_session_ack =
  spa_request_id :: string
  spa_session_id :: string

record exec_command_ack =
  eca_request_id :: string
  eca_accepted :: bool

record stream_output_chunk =
  soc_request_id :: string
  soc_session_id :: string
  soc_stream :: shell_output_stream
  soc_data :: string
  soc_eof :: bool

record kill_session_ack =
  ksa_request_id :: string
  ksa_killed :: bool

record shell_daemon_error =
  sde_request_id :: "string option"
  sde_message :: string

datatype shell_daemon_response = RspSpawnSession spawn_session_ack | RspExecCommand exec_command_ack
  | RspStreamOutput stream_output_chunk | RspKillSession kill_session_ack | RspError shell_daemon_error

fun request_id_of :: "shell_daemon_request \<Rightarrow> string" where
  "request_id_of (ReqSpawnSession m) = sps_request_id m"
| "request_id_of (ReqExecCommand m) = xc_request_id m"
| "request_id_of (ReqStreamOutput m) = so_request_id m"
| "request_id_of (ReqKillSession m) = ks_request_id m"

section \<open>Output queues\<close>

type_synonym output_chunk = "shell_output_stream \<times> string"

definition push_bounded_chunk :: "shell_output_stream \<Rightarrow> string \<Rightarrow> output_chunk list \<times> nat \<Rightarrow> output_chunk list \<times> nat" where
  "push_bounded_chunk stream data st =
     (case st of (queue, remaining) \<Rightarrow>
        if remaining = 0 \<or> data = [] then (queue, remaining)
        else let n = min (length data) remaining in
             if n = 0 then (queue, remaining) else (queue @ [(stream, take n data)], remaining - n))"

definition build_output_queue :: "string \<Rightarrow> string \<Rightarrow> nat \<Rightarrow> output_chunk list" where
  "build_output_queue stdout stderr max_output_bytes =
     fst (push_bounded_chunk Stderr stderr (push_bounded_chunk Stdout stdout ([], max_output_bytes)))"

definition bounded_max :: "nat option \<Rightarrow> nat \<Rightarrow> nat" where
  "bounded_max max_bytes max_stream_chunk_bytes =
     min (max (case max_bytes of Some n \<Rightarrow> n | None \<Rightarrow> max_stream_chunk_bytes) 1) max_stream_chunk_bytes"

definition next_output_chunk :: "nat option \<Rightarrow> nat \<Rightarrow> output_chunk list \<Rightarrow> (shell_output_stream \<times> string \<times> bool) \<times> output_chunk list" where
  "next_output_chunk max_bytes max_stream_chunk_bytes queue =
     (let limit = bounded_max max_bytes max_stream_chunk_bytes in
      case queue of
        [] \<Rightarrow> ((Stdout, [], True), [])
      | (stream, data) # rest \<Rightarrow>
          let queue' = (if length data > limit then (stream, drop limit data) # rest else rest)
          in ((stream, take limit data, queue' = []), queue'))"

section \<open>Sessions\<close>

record shell_daemon_config =
  sdc_max_session_output_bytes :: nat
  sdc_max_stream_chunk_bytes :: nat

definition shell_daemon_config_default :: shell_daemon_config where
  "shell_daemon_config_default = \<lparr>sdc_max_session_output_bytes = 64 * 1024, sdc_max_stream_chunk_bytes = 8 * 1024\<rparr>"

definition shell_daemon_config_validate :: "shell_daemon_config \<Rightarrow> (string, unit) result" where
  "shell_daemon_config_validate config =
     (if sdc_max_session_output_bytes config = 0 then Inl ''max_session_output_bytes must be greater than zero''
      else if sdc_max_stream_chunk_bytes config = 0 then Inl ''max_stream_chunk_bytes must be greater than zero''
      else Inr ())"

datatype session_error = UnknownSession string | EmptyCommand | CommandTimeout u64 | ExecuteCommand string

fun session_error_text :: "session_error \<Rightarrow> string" where
  "session_error_text (UnknownSession session_id) = ''session `'' @ session_id @ ''` not found''"
| "session_error_text EmptyCommand = ''command must not be empty''"
| "session_error_text (CommandTimeout secs) = ''command execution timed out after '' @ nat_to_string (unat secs) @ ''s''"
| "session_error_text (ExecuteCommand e) = ''failed to execute command: '' @ e"

record session_runtime =
  sr_shell :: string
  sr_cwd :: "string option"
  sr_env :: "(string \<times> string) list"

record shell_session_state =
  shs_runtime :: session_runtime
  shs_output_queue :: "output_chunk list"

record session_manager =
  sm_next_session_number :: u64
  sm_max_session_output_bytes :: nat
  sm_max_stream_chunk_bytes :: nat
  sm_sessions :: "string \<Rightarrow> shell_session_state option"

definition session_manager_new :: "shell_daemon_config \<Rightarrow> session_manager" where
  "session_manager_new config =
     \<lparr>sm_next_session_number = 0, sm_max_session_output_bytes = sdc_max_session_output_bytes config,
      sm_max_stream_chunk_bytes = sdc_max_stream_chunk_bytes config, sm_sessions = (\<lambda>_. None)\<rparr>"

definition shell_daemon_new :: "shell_daemon_config \<Rightarrow> (string, session_manager) result" where
  "shell_daemon_new config =
     bind_result (map_err (shell_daemon_config_validate config) (\<lambda>e. ''invalid shell daemon configuration: '' @ e))
       (\<lambda>_. Inr (session_manager_new config))"

definition normalize_optional_value :: "string \<Rightarrow> string option" where
  "normalize_optional_value value = (let trimmed = trim value in if trimmed = [] then None else Some trimmed)"

definition default_shell_binary :: string where
  "default_shell_binary = ''/bin/sh''"

definition manager_spawn_session :: "spawn_session_msg \<Rightarrow> session_manager \<Rightarrow> spawn_session_ack \<times> session_manager" where
  "manager_spawn_session request m =
     (let number = sm_next_session_number m + 1;
          session_id = ''session-'' @ padded_digits 6 (unat number);
          shell = (case Option.bind (sps_shell request) normalize_optional_value of Some s \<Rightarrow> s | None \<Rightarrow> default_shell_binary);
          cwd = Option.bind (sps_cwd request) normalize_optional_value
      in (\<lparr>spa_request_id = sps_request_id request, spa_session_id = session_id\<rparr>,
          m\<lparr>sm_next_session_number := number,
            sm_sessions := (sm_sessions m)(session_id \<mapsto>
              \<lparr>shs_runtime = \<lparr>sr_shell = shell, sr_cwd = cwd, sr_env = sps_env request\<rparr>, shs_output_queue = []\<rparr>)\<rparr>))"

definition manager_session_runtime :: "string \<Rightarrow> session_manager \<Rightarrow> (session_error, session_runtime) result" where
  "manager_session_runtime session_id m = ok_or (map_option shs_runtime (sm_sessions m session_id)) (UnknownSession session_id)"

definition store_command_output :: "string \<Rightarrow> string \<Rightarrow> string \<Rightarrow> (session_manager, session_error, unit) action" where
  "store_command_output session_id stdout stderr m =
     (case sm_sessions m session_id of
        None \<Rightarrow> (Inl (UnknownSession session_id), m)
      | Some session \<Rightarrow>
          (Inr (), m\<lparr>sm_sessions := (sm_sessions m)(session_id \<mapsto>
             session\<lparr>shs_output_queue := build_output_queue stdout stderr (sm_max_session_output_bytes m)\<rparr>)\<rparr>))"

definition next_stream_chunk ::
  "string \<Rightarrow> nat option \<Rightarrow> (session_manager, session_error, shell_output_stream \<times> string \<times> bool) action" where
  "next_stream_chunk session_id max_bytes m =
     (case sm_sessions m session_id of
        None \<Rightarrow> (Inl (UnknownSession session_id), m)
      | Some session \<Rightarrow>
          (case next_output_chunk max_bytes (sm_max_stream_chunk_bytes m) (shs_output_queue session) of (chunk, queue') \<Rightarrow>
             (Inr chunk, m\<lparr>sm_sessions := (sm_sessions m)(session_id \<mapsto> session\<lparr>shs_output_queue := queue'\<rparr>)\<rparr>)))"

definition manager_kill_session :: "string \<Rightarrow> session_manager \<Rightarrow> bool \<times> session_manager" where
  "manager_kill_session session_id m =
     (sm_sessions m session_id \<noteq> None, m\<lparr>sm_sessions := (sm_sessions m)(session_id := None)\<rparr>)"

section \<open>Requests\<close>

datatype process_result = Finished string string | TimedOut | SpawnFailed string

record 'w shell_host =
  run_process :: "string \<Rightarrow> string list \<Rightarrow> string option \<Rightarrow> (string \<times> string) list \<Rightarrow> u64 option \<Rightarrow> 'w \<Rightarrow> process_result \<times> 'w"
  shell_utf8_lossy :: "string \<Rightarrow> string"

fun process_output :: "u64 option \<Rightarrow> process_result \<Rightarrow> (session_error, string \<times> string) result" where
  "process_output timeout_secs (Finished out err) = Inr (out, err)"
| "process_output timeout_secs TimedOut = Inl (CommandTimeout (case timeout_secs of Some s \<Rightarrow> s | None \<Rightarrow> 0))"
| "process_output timeout_secs (SpawnFailed e) = Inl (ExecuteCommand e)"

definition daemon_run_shell_command ::
  "'w shell_host \<Rightarrow> session_runtime \<Rightarrow> string \<Rightarrow> u64 option \<Rightarrow> ('w, session_error, string \<times> string) action" where
  "daemon_run_shell_command host runtime command_text timeout_secs w =
     (case run_process host (sr_shell runtime) [''-lc'', command_text] (sr_cwd runtime) (sr_env runtime) timeout_secs w of
        (r, w') \<Rightarrow> (process_output timeout_secs r, w'))"

text \<open>The two critical sections around the run of a command.\<close>

definition exec_begin :: "exec_command_msg \<Rightarrow> session_manager \<Rightarrow> (session_error, session_runtime) result" where
  "exec_begin request m =
     (if trim (xc_command request) = [] then Inl EmptyCommand else manager_session_runtime (xc_session_id request) m)"

definition exec_end :: "exec_command_msg \<Rightarrow> string \<times> string \<Rightarrow> (session_manager, session_error, exec_command_ack) action" where
  "exec_end request output =
     bind_action (store_command_output (xc_session_id request) (fst output) (snd output)) (\<lambda>_.
     ret_action \<lparr>eca_request_id = xc_request_id request, eca_accepted = True\<rparr>)"

definition daemon_exec_command ::
  "'w shell_host \<Rightarrow> exec_command_msg \<Rightarrow> (session_manager \<times> 'w, session_error, exec_command_ack) action" where
  "daemon_exec_command host request st =
     (case st of (m, w) \<Rightarrow>
      case exec_begin request m of
        Inl e \<Rightarrow> (Inl e, (m, w))
      | Inr runtime \<Rightarrow>
          (case daemon_run_shell_command host runtime (xc_command request) (xc_timeout_secs request) w of
             (Inl e, w') \<Rightarrow> (Inl e, (m, w'))
           | (Inr output, w') \<Rightarrow> (case exec_end request output m of (r, m') \<Rightarrow> (r, (m', w')))))"

definition daemon_stream_output :: "'w shell_host \<Rightarrow> stream_output_msg \<Rightarrow> (session_manager, session_error, stream_output_chunk) action" where
  "daemon_stream_output host request =
     bind_action (next_stream_chunk (so_session_id request) (so_max_bytes request)) (\<lambda>(stream, data, eof).
     ret_action \<lparr>soc_request_id = so_request_id request, soc_session_id = so_session_id request, soc_stream = stream,
       soc_data = shell_utf8_lossy host data, soc_eof = eof\<rparr>)"

definition to_error_response :: "string option \<Rightarrow> session_error \<Rightarrow> shell_daemon_response" where
  "to_error_response request_id e = RspError \<lparr>sde_request_id = request_id, sde_message = session_error_text e\<rparr>"

fun respond :: "('a \<Rightarrow> shell_daemon_response) \<Rightarrow> string \<Rightarrow> (session_error, 'a) result \<Rightarrow> shell_daemon_response" where
  "respond f request_id (Inr x) = f x"
| "respond f request_id (Inl e) = to_error_response (Some request_id) e"

fun handle_request :: "'w shell_host \<Rightarrow> shell_daemon_request \<Rightarrow> session_manager \<times> 'w \<Rightarrow> shell_daemon_response \<times> (session_manager \<times> 'w)" where
  "handle_request host (ReqSpawnSession request) (m, w) =
     (case manager_spawn_session request m of (ack, m') \<Rightarrow> (RspSpawnSession ack, (m', w)))"
| "handle_request host (ReqExecCommand request) (m, w) =
     (case daemon_exec_command host request (m, w) of (r, st) \<Rightarrow> (respond RspExecCommand (xc_request_id request) r, st))"
| "handle_request host (ReqStreamOutput request) (m, w) =
     (case daemon_stream_output host request m of (r, m') \<Rightarrow> (respond RspStreamOutput (so_request_id request) r, (m', w)))"
| "handle_request host (ReqKillSession request) (m, w) =
     (case manager_kill_session (ks_session_id request) m of (killed, m') \<Rightarrow>
        (RspKillSession \<lparr>ksa_request_id = ks_request_id request, ksa_killed = killed\<rparr>, (m', w)))"

text \<open>One connection: each frame is answered before the next one is read. A frame that is no request is answered with an error.\<close>

fun serve_stream ::
  "'w shell_host \<Rightarrow> ('f \<Rightarrow> (string, shell_daemon_request) result) \<Rightarrow> 'f list \<Rightarrow> session_manager \<times> 'w \<Rightarrow>
     shell_daemon_response list \<times> (session_manager \<times> 'w)" where
  "serve_stream host decode [] st = ([], st)"
| "serve_stream host decode (frame # frames) st =
     (let (response, st1) = (case decode frame of
            Inr request \<Rightarrow> handle_request host request st
          | Inl e \<Rightarrow> (RspError \<lparr>sde_request_id = None, sde_message = ''invalid oxydra-shelld request frame: '' @ e\<rparr>, st));
          (responses, st2) = serve_stream host decode frames st1
      in (response # responses, st2))"

section \<open>Several connections\<close>

text \<open>The manager and the commands that are running.\<close>

record daemon =
  dm_manager :: session_manager
  dm_running :: "exec_command_msg list"

definition daemon_start :: "shell_daemon_config \<Rightarrow> daemon \<Rightarrow> bool" where
  "daemon_start config d \<longleftrightarrow> shell_daemon_new config = Inr (dm_manager d) \<and> dm_running d = []"

inductive daemon_step :: "daemon \<Rightarrow> daemon \<Rightarrow> bool" where
  step_spawn: "daemon_step d (d\<lparr>dm_manager := snd (manager_spawn_session request (dm_manager d))\<rparr>)"
| step_stream: "daemon_step d (d\<lparr>dm_manager := snd (next_stream_chunk session_id max_bytes (dm_manager d))\<rparr>)"
| step_kill: "daemon_step d (d\<lparr>dm_manager := snd (manager_kill_session session_id (dm_manager d))\<rparr>)"
| step_exec_begin: "exec_begin request (dm_manager d) = Inr runtime \<Longrightarrow> daemon_step d (d\<lparr>dm_running := request # dm_running d\<rparr>)"
| step_exec_end: "request \<in> set (dm_running d) \<Longrightarrow>
    daemon_step d (d\<lparr>dm_running := remove1 request (dm_running d), dm_manager := snd (exec_end request output (dm_manager d))\<rparr>)"
| step_exec_fail: "request \<in> set (dm_running d) \<Longrightarrow> daemon_step d (d\<lparr>dm_running := remove1 request (dm_running d)\<rparr>)"

section \<open>What a session holds\<close>

definition queue_bytes :: "output_chunk list \<Rightarrow> nat" where
  "queue_bytes queue = sum_list (map (length \<circ> snd) queue)"

definition stream_bytes :: "shell_output_stream \<Rightarrow> output_chunk list \<Rightarrow> string" where
  "stream_bytes stream queue = concat (map snd (filter (\<lambda>(s, _). s = stream) queue))"

lemma queue_bytes_simps [simp]: "queue_bytes [] = 0" "queue_bytes ((s, d) # q) = length d + queue_bytes q"
  by (simp_all add: queue_bytes_def)

lemma stream_bytes_simps [simp]:
  "stream_bytes stream [] = []" "stream_bytes stream ((s, d) # q) = (if s = stream then d else []) @ stream_bytes stream q"
  by (simp_all add: stream_bytes_def)

definition queue_ok :: "nat \<Rightarrow> output_chunk list \<Rightarrow> bool" where
  "queue_ok n queue \<longleftrightarrow> queue_bytes queue \<le> n \<and> (\<forall>c\<in>set queue. snd c \<noteq> [])"

text \<open>The queue of a command: its standard output and then its error output, cut together at the limit.\<close>

lemma build_output_queue_spec:
  "stream_bytes Stdout (build_output_queue out err n) = take n out"
  "stream_bytes Stderr (build_output_queue out err n) = take (n - length out) err"
  by (auto simp: build_output_queue_def push_bounded_chunk_def Let_def min_def)

lemma build_output_queue_ok: "queue_ok n (build_output_queue out err n)"
  by (auto simp: queue_ok_def build_output_queue_def push_bounded_chunk_def Let_def min_def)

lemma next_output_chunk_ok:
  assumes "queue_ok n queue" "0 < limit"
  shows "queue_ok n (snd (next_output_chunk max_bytes limit queue))"
proof (cases queue)
  case (Cons c rest)
  obtain stream data where c: "c = (stream, data)" by fastforce
  show ?thesis using assms by (auto simp: Cons c queue_ok_def next_output_chunk_def Let_def)
qed (simp add: next_output_chunk_def queue_ok_def)

lemma bounded_max_pos: "0 < limit \<Longrightarrow> 0 < bounded_max max_bytes limit" "bounded_max max_bytes limit \<le> limit"
  by (auto simp: bounded_max_def)

definition manager_ok :: "shell_daemon_config \<Rightarrow> session_manager \<Rightarrow> bool" where
  "manager_ok config m \<longleftrightarrow>
     sm_max_session_output_bytes m = sdc_max_session_output_bytes config \<and> sm_max_stream_chunk_bytes m = sdc_max_stream_chunk_bytes config \<and>
     0 < sdc_max_stream_chunk_bytes config \<and>
     (\<forall>id s. sm_sessions m id = Some s \<longrightarrow> queue_ok (sdc_max_session_output_bytes config) (shs_output_queue s))"

lemma manager_ok_spawn: "manager_ok config m \<Longrightarrow> manager_ok config (snd (manager_spawn_session request m))"
  by (auto simp: manager_ok_def manager_spawn_session_def Let_def queue_ok_def)

lemma manager_ok_kill: "manager_ok config m \<Longrightarrow> manager_ok config (snd (manager_kill_session session_id m))"
  by (auto simp: manager_ok_def manager_kill_session_def)

lemma manager_ok_chunk: "manager_ok config m \<Longrightarrow> manager_ok config (snd (next_stream_chunk session_id max_bytes m))"
  using next_output_chunk_ok by (fastforce simp: manager_ok_def next_stream_chunk_def split: option.splits prod.splits dest: arg_cong[where f = snd])

lemma manager_ok_store: "manager_ok config m \<Longrightarrow> manager_ok config (snd (store_command_output session_id out err m))"
  by (auto simp: manager_ok_def store_command_output_def build_output_queue_ok split: option.splits)

lemma manager_ok_exec_end: "manager_ok config m \<Longrightarrow> manager_ok config (snd (exec_end request output m))"
  using manager_ok_store[of config m "xc_session_id request" "fst output" "snd output"]
  by (auto simp: exec_end_def bind_action_def ret_action_def split: prod.splits sum.splits)

interpretation shelld: invariant_system "daemon_start config" daemon_step "\<lambda>d. manager_ok config (dm_manager d)" for config
proof
  fix d assume "daemon_start config d"
  then have "dm_manager d = session_manager_new config" "0 < sdc_max_stream_chunk_bytes config"
    by (auto simp: daemon_start_def shell_daemon_new_def shell_daemon_config_validate_def split: if_splits)
  then show "manager_ok config (dm_manager d)" by (simp add: manager_ok_def session_manager_new_def)
next
  fix d d' assume "manager_ok config (dm_manager d)" "daemon_step d d'"
  then show "manager_ok config (dm_manager d')"
    by (auto elim!: daemon_step.cases simp: manager_ok_spawn manager_ok_kill manager_ok_chunk manager_ok_exec_end)
qed

text \<open>C26: However the requests of several connections interleave, and whatever the commands print, no session of the shell daemon ever holds more
  output than the configured maximum.
\<close>

theorem shelld_output_bounded:
  assumes "reach (daemon_start config) daemon_step d" "sm_sessions (dm_manager d) session_id = Some s"
  shows "queue_bytes (shs_output_queue s) \<le> sdc_max_session_output_bytes config"
  using shelld.inv_reach[OF assms(1)] assms(2) by (auto simp: manager_ok_def queue_ok_def)

section \<open>Reading the output of a command\<close>

text \<open>Reading until the piece that is marked as the last. \<open>None\<close> is a reader that has not come to the end.\<close>

fun drain :: "nat \<Rightarrow> nat option \<Rightarrow> nat \<Rightarrow> output_chunk list \<Rightarrow> output_chunk list option" where
  "drain 0 max_bytes limit queue = None"
| "drain (Suc fuel) max_bytes limit queue =
     (case next_output_chunk max_bytes limit queue of ((stream, data, eof), queue') \<Rightarrow>
        if eof then Some [(stream, data)] else map_option (Cons (stream, data)) (drain fuel max_bytes limit queue'))"

lemma next_output_chunk_step:
  assumes "queue \<noteq> []" "0 < limit" "queue_ok n queue" "next_output_chunk max_bytes limit queue = ((stream, data, eof), queue')"
  shows "stream_bytes s queue = stream_bytes s [(stream, data)] @ stream_bytes s queue'" "eof \<longleftrightarrow> queue' = []"
    "length data \<le> limit" "queue_bytes queue' < queue_bytes queue"
proof -
  obtain stream0 data0 rest where q: "queue = (stream0, data0) # rest" using assms(1) by (cases queue) auto
  have "data0 \<noteq> []" using assms(3) by (auto simp: q queue_ok_def)
  note facts = assms(4)[unfolded next_output_chunk_def Let_def q] bounded_max_pos(1)[OF assms(2), of max_bytes] bounded_max_pos(2)[of max_bytes limit]
  show "stream_bytes s queue = stream_bytes s [(stream, data)] @ stream_bytes s queue'" "eof \<longleftrightarrow> queue' = []"
    using facts by (auto simp: q split: if_splits)
  show "length data \<le> limit" "queue_bytes queue' < queue_bytes queue"
    using facts \<open>data0 \<noteq> []\<close> by (auto simp: q split: if_splits)
qed

lemma drain_complete:
  assumes "0 < limit" "queue_ok n queue" "queue_bytes queue < fuel"
  shows "\<exists>chunks. drain fuel max_bytes limit queue = Some chunks \<and> (\<forall>s. stream_bytes s chunks = stream_bytes s queue) \<and>
    (\<forall>c\<in>set chunks. length (snd c) \<le> limit)"
  using assms
proof (induction fuel arbitrary: queue)
  case (Suc fuel)
  show ?case
  proof (cases "queue = []")
    case True
    then show ?thesis by (simp add: next_output_chunk_def)
  next
    case False
    obtain stream data eof queue' where next_eq: "next_output_chunk max_bytes limit queue = ((stream, data, eof), queue')"
      by (metis prod.exhaust)
    note step = next_output_chunk_step[OF False Suc.prems(1,2) next_eq]
    show ?thesis
    proof (cases "queue' = []")
      case True
      then show ?thesis using step by (simp add: next_eq)
    next
      case nonempty: False
      have "queue_ok n queue'" using next_output_chunk_ok[OF Suc.prems(2,1), of max_bytes] by (simp add: next_eq)
      moreover have less: "queue_bytes queue' < fuel" using step(4) Suc.prems(3) by linarith
      ultimately obtain chunks where "drain fuel max_bytes limit queue' = Some chunks" "\<forall>s. stream_bytes s chunks = stream_bytes s queue'"
        "\<forall>c\<in>set chunks. length (snd c) \<le> limit"
        using Suc.IH[OF Suc.prems(1)] less by blast
      then show ?thesis using step(1-3) nonempty by (auto simp: next_eq)
    qed
  qed
qed simp



theorem shelld_output_bounded_witness:
  "queue_bytes [] \<le> sdc_max_session_output_bytes shell_daemon_config_default"
proof -
  define d0 where "d0 = \<lparr>dm_manager = session_manager_new shell_daemon_config_default, dm_running = []\<rparr>"
  define req where "req = \<lparr>sps_request_id = ''r'', sps_shell = None, sps_cwd = None, sps_env = []\<rparr>"
  have "daemon_start shell_daemon_config_default d0"
    by (simp add: d0_def daemon_start_def shell_daemon_new_def shell_daemon_config_validate_def shell_daemon_config_default_def)
  then have "reach (daemon_start shell_daemon_config_default) daemon_step (d0\<lparr>dm_manager := snd (manager_spawn_session req (dm_manager d0))\<rparr>)"
    by (rule reach_step[OF reach_init]) (rule step_spawn)
  moreover have "sm_sessions (snd (manager_spawn_session req (dm_manager d0))) (''session-'' @ padded_digits 6 1) =
      Some \<lparr>shs_runtime = \<lparr>sr_shell = ''/bin/sh'', sr_cwd = None, sr_env = []\<rparr>, shs_output_queue = []\<rparr>"
    by (simp add: manager_spawn_session_def d0_def req_def session_manager_new_def default_shell_binary_def Let_def)
  ultimately show ?thesis using shelld_output_bounded[of shell_daemon_config_default] by fastforce
qed

section \<open>Answers\<close>

text \<open>Every request gets a response of its kind or an error, with the identifier of the request.\<close>

fun answers :: "shell_daemon_request \<Rightarrow> shell_daemon_response \<Rightarrow> bool" where
  "answers (ReqSpawnSession m) (RspSpawnSession a) = (spa_request_id a = sps_request_id m)"
| "answers (ReqExecCommand m) (RspExecCommand a) = (eca_request_id a = xc_request_id m \<and> eca_accepted a)"
| "answers (ReqStreamOutput m) (RspStreamOutput a) = (soc_request_id a = so_request_id m \<and> soc_session_id a = so_session_id m)"
| "answers (ReqKillSession m) (RspKillSession a) = (ksa_request_id a = ks_request_id m)"
| "answers request (RspError e) = (sde_request_id e = Some (request_id_of request))"
| "answers _ _ = False"

lemma respond_answers:
  assumes "\<And>x. r = Inr x \<Longrightarrow> answers request (f x)"
  shows "answers request (respond f (request_id_of request) r)"
  using assms by (cases r) (auto simp: to_error_response_def)

lemma handle_request_answers: "answers request (fst (handle_request host request st))"
proof (cases st)
  case (Pair m w)
  show ?thesis
  proof (cases request)
    case (ReqSpawnSession msg)
    then show ?thesis by (simp add: Pair manager_spawn_session_def Let_def)
  next
    case (ReqExecCommand msg)
    have "answers request (respond RspExecCommand (request_id_of request) (fst (daemon_exec_command host msg (m, w))))"
      by (rule respond_answers)
        (auto simp: ReqExecCommand daemon_exec_command_def exec_end_def bind_action_def ret_action_def split: sum.splits prod.splits)
    then show ?thesis by (simp add: Pair ReqExecCommand case_prod_beta)
  next
    case (ReqStreamOutput msg)
    have "answers request (respond RspStreamOutput (request_id_of request) (fst (daemon_stream_output host msg m)))"
      by (rule respond_answers)
        (auto simp: ReqStreamOutput daemon_stream_output_def bind_action_def ret_action_def split: sum.splits prod.splits)
    then show ?thesis by (simp add: Pair ReqStreamOutput case_prod_beta)
  next
    case (ReqKillSession msg)
    then show ?thesis by (simp add: Pair manager_kill_session_def)
  qed
qed

lemma serve_stream_answers_each: "length (fst (serve_stream host decode frames st)) = length frames"
  by (induction host decode frames st rule: serve_stream.induct) (auto simp: Let_def split: prod.splits sum.splits)

end
