(* ===== verification/Shell_Session.thy ===== *)
theory Shell_Session
  imports Shell_Daemon
begin

text \<open>
  Shell sessions (\<open>tools/src/sandbox/mod.rs\<close>) and the tool \<open>shell_exec\<close> that uses them (\<open>tools/src/lib.rs\<close>): the RPC client of the daemon, the
  session over a socket with its reconnection, the session on a local process, and the loop that collects the output of a command.

  The network is the parameter \<open>net\<close>: connecting to a socket, sending a frame and receiving the next one, and the codec of the frames.
  The locale \<open>shell_output_source\<close> is what the collecting loop relies on in a session: reading takes the next piece of a queue. It is interpreted on
  both kinds of session, the one over a socket with the daemon of \<open>Shell_Daemon\<close> at its other end.

  Shown: collecting the output ends and yields all of it, over the socket and locally; a session reconnects at most once per request; what the
  states of a session are. The lemmas on findings show what the protocol loses.
\<close>

section \<open>Errors\<close>

datatype sandbox_error = InvalidConfig string | SessionUnavailable session_unavailable_reason string | SandboxEmptyCommand
  | Transport string | SerializeRequest string | DeserializeResponse string | ConnectionClosed
  | ShellDaemonErr "string option" string | UnexpectedResponse string string | ShellDaemonRejected string
  | SandboxCommandTimeout u64 | WasmInvocationFailed string string string

fun unavailable_reason_debug :: "session_unavailable_reason \<Rightarrow> string" where
  "unavailable_reason_debug MissingSidecarEndpoint = ''MissingSidecarEndpoint''"
| "unavailable_reason_debug UnsupportedTransport = ''UnsupportedTransport''"
| "unavailable_reason_debug InvalidAddress = ''InvalidAddress''"
| "unavailable_reason_debug ConnectionFailed = ''ConnectionFailed''"
| "unavailable_reason_debug ProtocolError = ''ProtocolError''"
| "unavailable_reason_debug Disabled = ''Disabled''"

fun sandbox_error_text :: "sandbox_error \<Rightarrow> string" where
  "sandbox_error_text (InvalidConfig m) = ''invalid sandbox config: '' @ m"
| "sandbox_error_text (SessionUnavailable reason detail) =
     ''shell session unavailable ('' @ unavailable_reason_debug reason @ ''): '' @ detail"
| "sandbox_error_text SandboxEmptyCommand = ''command must not be empty''"
| "sandbox_error_text (Transport e) = ''shell session request failed: '' @ e"
| "sandbox_error_text (SerializeRequest e) = ''failed to serialize oxydra-shelld request: '' @ e"
| "sandbox_error_text (DeserializeResponse e) = ''failed to decode oxydra-shelld response: '' @ e"
| "sandbox_error_text ConnectionClosed = ''oxydra-shelld connection closed before a response frame was received''"
| "sandbox_error_text (ShellDaemonErr request_id message) = ''oxydra-shelld returned error response: '' @ message"
| "sandbox_error_text (UnexpectedResponse expected actual) = ''unexpected oxydra-shelld response: expected '' @ expected @ '', got '' @ actual"
| "sandbox_error_text (ShellDaemonRejected request_id) = ''oxydra-shelld rejected request `'' @ request_id @ ''`''"
| "sandbox_error_text (SandboxCommandTimeout secs) = ''command execution timed out after '' @ nat_to_string (unat secs) @ ''s''"
| "sandbox_error_text (WasmInvocationFailed tool request_id message) =
     ''wasm tool invocation failed for `'' @ tool @ ''` request `'' @ request_id @ ''`: '' @ message"

record shell_session_config =
  ssc_shell :: "string option"
  ssc_cwd :: "string option"
  ssc_env :: "(string \<times> string) list"
  ssc_max_session_output_bytes :: nat
  ssc_max_stream_chunk_bytes :: nat

definition shell_session_config_default :: shell_session_config where
  "shell_session_config_default = \<lparr>ssc_shell = None, ssc_cwd = None, ssc_env = [], ssc_max_session_output_bytes = 64 * 1024,
     ssc_max_stream_chunk_bytes = 8 * 1024\<rparr>"

definition shell_session_config_validate :: "shell_session_config \<Rightarrow> (sandbox_error, unit) result" where
  "shell_session_config_validate config =
     (if ssc_max_session_output_bytes config = 0 then Inl (InvalidConfig ''max_session_output_bytes must be greater than zero'')
      else if ssc_max_stream_chunk_bytes config = 0 then Inl (InvalidConfig ''max_stream_chunk_bytes must be greater than zero'')
      else Inr ())"

definition shell_binary :: "shell_session_config \<Rightarrow> string" where
  "shell_binary config = (case Option.bind (ssc_shell config) normalize_optional_value of Some s \<Rightarrow> s | None \<Rightarrow> default_shell_binary)"

definition config_cwd :: "shell_session_config \<Rightarrow> string option" where
  "config_cwd config = Option.bind (ssc_cwd config) normalize_optional_value"

section \<open>The RPC client\<close>

text \<open>The bytes of a frame are the type \<open>'f\<close>: only the codec looks into them.\<close>

record ('f, 'w) net =
  net_connect :: "string \<Rightarrow> ('w, string, nat) action"
  net_send :: "nat \<Rightarrow> 'f \<Rightarrow> ('w, string, unit) action"
  net_next :: "nat \<Rightarrow> 'w \<Rightarrow> (string, 'f) result option \<times> 'w"
  encode_request :: "shell_daemon_request \<Rightarrow> (string, 'f) result"
  decode_response :: "'f \<Rightarrow> (string, shell_daemon_response) result"

record rpc_client =
  rc_connection :: nat
  rc_next_request_number :: u64

definition rpc_client_new :: "nat \<Rightarrow> rpc_client" where
  "rpc_client_new connection = \<lparr>rc_connection = connection, rc_next_request_number = 0\<rparr>"

definition rpc_next_request_id :: "string \<Rightarrow> rpc_client \<Rightarrow> string \<times> rpc_client" where
  "rpc_next_request_id pre client =
     (let n = rc_next_request_number client + 1 in (pre @ ''-'' @ padded_digits 6 (unat n), client\<lparr>rc_next_request_number := n\<rparr>))"

definition send_request :: "('f, 'w) net \<Rightarrow> nat \<Rightarrow> shell_daemon_request \<Rightarrow> ('w, sandbox_error, unit) action" where
  "send_request net conn request =
     bind_action (lift_action (map_err (encode_request net request) SerializeRequest)) (\<lambda>payload w.
       case net_send net conn payload w of (r, w') \<Rightarrow> (map_err r Transport, w'))"

definition read_response :: "('f, 'w) net \<Rightarrow> nat \<Rightarrow> ('w, sandbox_error, shell_daemon_response) action" where
  "read_response net conn w =
     (case net_next net conn w of
        (None, w') \<Rightarrow> (Inl ConnectionClosed, w')
      | (Some (Inl e), w') \<Rightarrow> (Inl (Transport e), w')
      | (Some (Inr frame), w') \<Rightarrow> (map_err (decode_response net frame) DeserializeResponse, w'))"

definition rpc_call :: "('f, 'w) net \<Rightarrow> nat \<Rightarrow> shell_daemon_request \<Rightarrow> ('w, sandbox_error, shell_daemon_response) action" where
  "rpc_call net conn request = bind_action (send_request net conn request) (\<lambda>_. read_response net conn)"

fun response_label :: "shell_daemon_response \<Rightarrow> string" where
  "response_label (RspSpawnSession _) = ''spawn_session''"
| "response_label (RspExecCommand _) = ''exec_command''"
| "response_label (RspStreamOutput _) = ''stream_output''"
| "response_label (RspKillSession _) = ''kill_session''"
| "response_label (RspError _) = ''error''"

definition daemon_error :: "shell_daemon_error \<Rightarrow> sandbox_error" where
  "daemon_error e = ShellDaemonErr (sde_request_id e) (sde_message e)"

fun spawn_answer :: "shell_daemon_response \<Rightarrow> (sandbox_error, spawn_session_ack) result" where
  "spawn_answer (RspSpawnSession ack) = Inr ack"
| "spawn_answer (RspError e) = Inl (daemon_error e)"
| "spawn_answer response = Inl (UnexpectedResponse ''spawn_session'' (response_label response))"

fun exec_answer :: "shell_daemon_response \<Rightarrow> (sandbox_error, exec_command_ack) result" where
  "exec_answer (RspExecCommand ack) = (if eca_accepted ack then Inr ack else Inl (ShellDaemonRejected (eca_request_id ack)))"
| "exec_answer (RspError e) = Inl (daemon_error e)"
| "exec_answer response = Inl (UnexpectedResponse ''exec_command'' (response_label response))"

fun stream_answer :: "shell_daemon_response \<Rightarrow> (sandbox_error, stream_output_chunk) result" where
  "stream_answer (RspStreamOutput chunk) = Inr chunk"
| "stream_answer (RspError e) = Inl (daemon_error e)"
| "stream_answer response = Inl (UnexpectedResponse ''stream_output'' (response_label response))"

fun kill_answer :: "shell_daemon_response \<Rightarrow> (sandbox_error, kill_session_ack) result" where
  "kill_answer (RspKillSession ack) = Inr ack"
| "kill_answer (RspError e) = Inl (daemon_error e)"
| "kill_answer response = Inl (UnexpectedResponse ''kill_session'' (response_label response))"

text \<open>The four calls. Each takes the next request number, whether or not it succeeds.\<close>

definition rpc_request ::
  "('f, 'w) net \<Rightarrow> string \<Rightarrow> (string \<Rightarrow> shell_daemon_request) \<Rightarrow> (shell_daemon_response \<Rightarrow> (sandbox_error, 'a) result) \<Rightarrow>
     (rpc_client \<times> 'w, sandbox_error, 'a) action" where
  "rpc_request net pre request answer st =
     (case st of (client, w) \<Rightarrow>
      case rpc_next_request_id pre client of (request_id, client') \<Rightarrow>
      case rpc_call net (rc_connection client) (request request_id) w of (r, w') \<Rightarrow> (bind_result r answer, (client', w')))"

definition rpc_spawn_session :: "('f, 'w) net \<Rightarrow> shell_session_config \<Rightarrow> (rpc_client \<times> 'w, sandbox_error, spawn_session_ack) action" where
  "rpc_spawn_session net config = rpc_request net ''spawn''
     (\<lambda>id. ReqSpawnSession \<lparr>sps_request_id = id, sps_shell = ssc_shell config, sps_cwd = config_cwd config, sps_env = ssc_env config\<rparr>) spawn_answer"

definition rpc_exec_command ::
  "('f, 'w) net \<Rightarrow> string \<Rightarrow> string \<Rightarrow> u64 option \<Rightarrow> (rpc_client \<times> 'w, sandbox_error, exec_command_ack) action" where
  "rpc_exec_command net session_id command timeout_secs = rpc_request net ''exec''
     (\<lambda>id. ReqExecCommand \<lparr>xc_request_id = id, xc_session_id = session_id, xc_command = command, xc_timeout_secs = timeout_secs\<rparr>) exec_answer"

definition rpc_stream_output :: "('f, 'w) net \<Rightarrow> string \<Rightarrow> nat option \<Rightarrow> (rpc_client \<times> 'w, sandbox_error, stream_output_chunk) action" where
  "rpc_stream_output net session_id max_bytes = rpc_request net ''stream''
     (\<lambda>id. ReqStreamOutput \<lparr>so_request_id = id, so_session_id = session_id, so_max_bytes = max_bytes\<rparr>) stream_answer"

definition rpc_kill_session :: "('f, 'w) net \<Rightarrow> string \<Rightarrow> (rpc_client \<times> 'w, sandbox_error, kill_session_ack) action" where
  "rpc_kill_session net session_id = rpc_request net ''kill''
     (\<lambda>id. ReqKillSession \<lparr>ks_request_id = id, ks_session_id = session_id\<rparr>) kill_answer"

section \<open>The session over a socket\<close>

record sidecar_endpoint =
  ep_transport :: sidecar_transport
  ep_address :: string

record vsock_session =
  vs_status :: session_status
  vs_session_id :: "string option"
  vs_client :: "rpc_client option"
  vs_reconnect_endpoint :: "sidecar_endpoint option"
  vs_reconnect_config :: shell_session_config

definition unavailable_session_status :: "session_unavailable_reason \<Rightarrow> string \<Rightarrow> session_status" where
  "unavailable_session_status reason detail = Unavailable \<lparr>su_reason = reason, su_detail = detail\<rparr>"

definition missing_sidecar_status :: session_status where
  "missing_sidecar_status = unavailable_session_status MissingSidecarEndpoint ''runner bootstrap did not provide a sidecar endpoint''"

definition sidecar_unix_bridge_path :: "string \<Rightarrow> string option" where
  "sidecar_unix_bridge_path address0 =
     (let address = trim address0 in
      if address = [] then None
      else if starts_with address ''unix://'' then (let path = drop 7 address in if path = [] then None else Some path)
      else if starts_with address ''/'' then Some address
      else None)"

fun status_error :: "session_status \<Rightarrow> sandbox_error" where
  "status_error (Unavailable u) = SessionUnavailable (su_reason u) (su_detail u)"
| "status_error (Ready _) = SessionUnavailable ProtocolError ''session runtime is not initialized''"

definition unavailable_from_status :: "session_status \<Rightarrow> vsock_session" where
  "unavailable_from_status status = \<lparr>vs_status = status, vs_session_id = None, vs_client = None, vs_reconnect_endpoint = None,
     vs_reconnect_config = shell_session_config_default\<rparr>"

definition unavailable_session :: "session_unavailable_reason \<Rightarrow> string \<Rightarrow> vsock_session" where
  "unavailable_session reason detail = unavailable_from_status (unavailable_session_status reason detail)"

definition connect_with_stream ::
  "('f, 'w) net \<Rightarrow> nat \<Rightarrow> sidecar_transport \<Rightarrow> string \<Rightarrow> shell_session_config \<Rightarrow> ('w, sandbox_error, vsock_session) action" where
  "connect_with_stream net conn transport address config =
     bind_action (lift_action (shell_session_config_validate config)) (\<lambda>_ w.
       case rpc_spawn_session net config (rpc_client_new conn, w) of
         (Inl e, (client, w')) \<Rightarrow> (Inl e, w')
       | (Inr ack, (client, w')) \<Rightarrow>
           (Inr \<lparr>vs_status = Ready (Sidecar transport address), vs_session_id = Some (spa_session_id ack), vs_client = Some client,
              vs_reconnect_endpoint = None, vs_reconnect_config = config\<rparr>, w'))"

fun transport_debug :: "sidecar_transport \<Rightarrow> string" where
  "transport_debug Unix = ''Unix''"
| "transport_debug Vsock = ''Vsock''"

definition vsock_connect :: "('f, 'w) net \<Rightarrow> sidecar_endpoint option \<Rightarrow> shell_session_config \<Rightarrow> 'w \<Rightarrow> vsock_session \<times> 'w" where
  "vsock_connect net endpoint config w =
     (case shell_session_config_validate config of
        Inl e \<Rightarrow> (unavailable_session ProtocolError (sandbox_error_text e), w)
      | Inr _ \<Rightarrow>
     (case endpoint of
        None \<Rightarrow> (unavailable_from_status missing_sidecar_status, w)
      | Some ep \<Rightarrow>
          if ep_transport ep \<noteq> Vsock
          then (unavailable_session UnsupportedTransport
                 (''expected `'' @ transport_debug Vsock @ ''` sidecar transport, got `'' @ transport_debug (ep_transport ep) @ ''`''), w)
          else case sidecar_unix_bridge_path (ep_address ep) of
            None \<Rightarrow> (unavailable_session InvalidAddress
                (''sidecar endpoint `'' @ ep_address ep @ ''` is not reachable by the WS4 client; expected unix bridge socket path''), w)
          | Some bridge_path \<Rightarrow>
              (case net_connect net bridge_path w of
                 (Inl e, w') \<Rightarrow> (unavailable_session ConnectionFailed
                     (''failed to connect to sidecar bridge socket `'' @ bridge_path @ ''`: '' @ e), w')
               | (Inr conn, w') \<Rightarrow>
                   (case connect_with_stream net conn Vsock (ep_address ep) config w' of
                      (Inl e, w'') \<Rightarrow> (unavailable_session ProtocolError (sandbox_error_text e), w'')
                    | (Inr session, w'') \<Rightarrow> (session\<lparr>vs_reconnect_endpoint := Some ep, vs_reconnect_config := config\<rparr>, w'')))))"

fun is_recoverable_desync :: "sandbox_error \<Rightarrow> bool" where
  "is_recoverable_desync (UnexpectedResponse _ _) = True"
| "is_recoverable_desync (ShellDaemonErr _ _) = True"
| "is_recoverable_desync ConnectionClosed = True"
| "is_recoverable_desync (Transport _) = True"
| "is_recoverable_desync (DeserializeResponse _) = True"
| "is_recoverable_desync _ = False"

definition vsock_reconnect :: "('f, 'w) net \<Rightarrow> (vsock_session \<times> 'w, sandbox_error, unit) action" where
  "vsock_reconnect net st =
     (case st of (s, w) \<Rightarrow>
      case vs_reconnect_endpoint s of
        None \<Rightarrow> (Inl (SessionUnavailable ProtocolError ''cannot reconnect: no sidecar endpoint stored''), (s, w))
      | Some ep \<Rightarrow>
          let s = s\<lparr>vs_client := None, vs_session_id := None\<rparr> in
          (case sidecar_unix_bridge_path (ep_address ep) of
             None \<Rightarrow> (Inl (SessionUnavailable InvalidAddress (''cannot reconnect: unable to resolve socket path from `'' @ ep_address ep @ ''`'')), (s, w))
           | Some socket_path \<Rightarrow>
               (case net_connect net socket_path w of
                  (Inl e, w') \<Rightarrow> (Inl (SessionUnavailable ConnectionFailed
                      (''reconnect failed: could not connect to `'' @ socket_path @ ''`: '' @ e)), (s, w'))
                | (Inr conn, w') \<Rightarrow>
                    (case rpc_spawn_session net (vs_reconnect_config s) (rpc_client_new conn, w') of
                       (Inl e, (client, w'')) \<Rightarrow> (Inl e, (s, w''))
                     | (Inr ack, (client, w'')) \<Rightarrow>
                         (Inr (), (s\<lparr>vs_session_id := Some (spa_session_id ack), vs_client := Some client,
                            vs_status := Ready (Sidecar (ep_transport ep) (ep_address ep))\<rparr>, w''))))))"

text \<open>A call on the client of the session, which must have a session identifier and a client.\<close>

definition on_client ::
  "(string \<Rightarrow> (rpc_client \<times> 'w, sandbox_error, 'a) action) \<Rightarrow> (vsock_session \<times> 'w, sandbox_error, 'a) action" where
  "on_client call st =
     (case st of (s, w) \<Rightarrow>
      case (vs_session_id s, vs_client s) of
        (Some session_id, Some client) \<Rightarrow>
          (case call session_id (client, w) of (r, (client', w')) \<Rightarrow> (r, (s\<lparr>vs_client := Some client'\<rparr>, w')))
      | _ \<Rightarrow> (Inl (status_error (vs_status s)), (s, w)))"

definition vsock_exec_command :: "('f, 'w) net \<Rightarrow> string \<Rightarrow> u64 option \<Rightarrow> (vsock_session \<times> 'w, sandbox_error, exec_command_ack) action" where
  "vsock_exec_command net command timeout_secs st =
     (if trim command = [] then (Inl SandboxEmptyCommand, st)
      else let call = on_client (\<lambda>session_id. rpc_exec_command net session_id command timeout_secs) in
        case call st of
          (Inr ack, st') \<Rightarrow> (Inr ack, st')
        | (Inl e, st') \<Rightarrow>
            if is_recoverable_desync e \<and> vs_reconnect_endpoint (fst st') \<noteq> None
            then bind_action (vsock_reconnect net) (\<lambda>_. call) st'
            else (Inl e, st'))"

definition output_lost :: sandbox_error where
  "output_lost = ShellDaemonErr None (''shell session was reconnected after a protocol desync; the previous command's output was lost '' @
     [CHR 0xE2, CHR 0x80, CHR 0x94] @ '' please retry the command'')"

definition vsock_stream_output :: "('f, 'w) net \<Rightarrow> nat option \<Rightarrow> (vsock_session \<times> 'w, sandbox_error, stream_output_chunk) action" where
  "vsock_stream_output net max_bytes st =
     (case on_client (\<lambda>session_id. rpc_stream_output net session_id max_bytes) st of
        (Inr chunk, st') \<Rightarrow> (Inr chunk, st')
      | (Inl e, st') \<Rightarrow>
          if is_recoverable_desync e \<and> vs_reconnect_endpoint (fst st') \<noteq> None
          then bind_action (vsock_reconnect net) (\<lambda>_. lift_action (Inl output_lost)) st'
          else (Inl e, st'))"

definition terminated_status :: session_status where
  "terminated_status = unavailable_session_status Disabled ''shell session has been terminated''"

definition vsock_kill_session :: "('f, 'w) net \<Rightarrow> (vsock_session \<times> 'w, sandbox_error, kill_session_ack) action" where
  "vsock_kill_session net st =
     (case on_client (\<lambda>session_id. rpc_kill_session net session_id) st of
        (Inl e, st') \<Rightarrow> (Inl e, st')
      | (Inr ack, (s, w)) \<Rightarrow>
          (Inr ack, (if ksa_killed ack then s\<lparr>vs_status := terminated_status, vs_session_id := None, vs_client := None\<rparr> else s, w)))"

section \<open>The session on a local process\<close>

record local_session =
  ls_status :: session_status
  ls_session_id :: string
  ls_config :: shell_session_config
  ls_output_queue :: "output_chunk list"
  ls_next_request_number :: u64

text \<open>The counter is the static \<open>NEXT_LOCAL_SESSION_NUMBER\<close>.\<close>

definition local_session_new :: "shell_session_config \<Rightarrow> u64 \<Rightarrow> (sandbox_error, local_session) result \<times> u64" where
  "local_session_new config counter =
     (case shell_session_config_validate config of
        Inl e \<Rightarrow> (Inl e, counter)
      | Inr _ \<Rightarrow>
          let session_number = counter + 1 in
          (Inr \<lparr>ls_status = Ready LocalProcess, ls_session_id = ''local-session-'' @ padded_digits 6 (unat session_number), ls_config = config,
             ls_output_queue = [], ls_next_request_number = 0\<rparr>, session_number))"

definition local_next_request_id :: "string \<Rightarrow> local_session \<Rightarrow> string \<times> local_session" where
  "local_next_request_id pre s =
     (let n = ls_next_request_number s + 1 in (pre @ ''-'' @ padded_digits 6 (unat n), s\<lparr>ls_next_request_number := n\<rparr>))"

fun local_process_output :: "u64 option \<Rightarrow> process_result \<Rightarrow> (sandbox_error, string \<times> string) result" where
  "local_process_output timeout_secs (Finished out err) = Inr (out, err)"
| "local_process_output timeout_secs TimedOut = Inl (SandboxCommandTimeout (case timeout_secs of Some s \<Rightarrow> s | None \<Rightarrow> 0))"
| "local_process_output timeout_secs (SpawnFailed e) = Inl (Transport e)"

definition local_run_shell_command ::
  "'w shell_host \<Rightarrow> shell_session_config \<Rightarrow> string \<Rightarrow> u64 option \<Rightarrow> ('w, sandbox_error, string \<times> string) action" where
  "local_run_shell_command host config command_text timeout_secs w =
     (case run_process host (shell_binary config) [''-lc'', command_text] (config_cwd config) (ssc_env config) timeout_secs w of
        (r, w') \<Rightarrow> (local_process_output timeout_secs r, w'))"

definition local_exec_command :: "'w shell_host \<Rightarrow> string \<Rightarrow> u64 option \<Rightarrow> (local_session \<times> 'w, sandbox_error, exec_command_ack) action" where
  "local_exec_command host command timeout_secs st =
     (case st of (s, w) \<Rightarrow>
      if \<not> is_ready (ls_status s) then (Inl (status_error (ls_status s)), (s, w))
      else if trim command = [] then (Inl SandboxEmptyCommand, (s, w))
      else case local_run_shell_command host (ls_config s) command timeout_secs w of
        (Inl e, w') \<Rightarrow> (Inl e, (s, w'))
      | (Inr (out, err), w') \<Rightarrow>
          (case local_next_request_id ''local-exec''
              (s\<lparr>ls_output_queue := build_output_queue out err (ssc_max_session_output_bytes (ls_config s))\<rparr>) of (request_id, s') \<Rightarrow>
             (Inr \<lparr>eca_request_id = request_id, eca_accepted = True\<rparr>, (s', w'))))"

definition local_stream_output :: "'w shell_host \<Rightarrow> nat option \<Rightarrow> (local_session \<times> 'w, sandbox_error, stream_output_chunk) action" where
  "local_stream_output host max_bytes st =
     (case st of (s, w) \<Rightarrow>
      if \<not> is_ready (ls_status s) then (Inl (status_error (ls_status s)), (s, w))
      else case local_next_request_id ''local-stream'' s of (request_id, s') \<Rightarrow>
        (case next_output_chunk max_bytes (ssc_max_stream_chunk_bytes (ls_config s')) (ls_output_queue s') of ((stream, data, eof), queue') \<Rightarrow>
           (Inr \<lparr>soc_request_id = request_id, soc_session_id = ls_session_id s', soc_stream = stream, soc_data = shell_utf8_lossy host data, soc_eof = eof\<rparr>,
            (s'\<lparr>ls_output_queue := queue'\<rparr>, w))))"

definition local_kill_session :: "(local_session \<times> 'w, sandbox_error, kill_session_ack) action" where
  "local_kill_session st =
     (case st of (s, w) \<Rightarrow>
      case local_next_request_id ''local-kill'' s of (request_id, s') \<Rightarrow>
        (Inr \<lparr>ksa_request_id = request_id, ksa_killed = is_ready (ls_status s')\<rparr>,
         (s'\<lparr>ls_status := terminated_status, ls_output_queue := []\<rparr>, w)))"

section \<open>The tool \<open>shell_exec\<close>\<close>

definition combine_command_output :: "(string \<Rightarrow> string) \<Rightarrow> string \<Rightarrow> string \<Rightarrow> string" where
  "combine_command_output lossy stdout stderr =
     (let stdout_text = trim_end (lossy stdout); stderr_text = trim_end (lossy stderr) in
      if stdout_text = [] \<and> stderr_text = [] then []
      else if stderr_text = [] then stdout_text
      else if stdout_text = [] then stderr_text
      else stdout_text @ nl @ stderr_text)"

definition no_output_text :: "string \<Rightarrow> string" where
  "no_output_text output = (if output = [] then ''command completed with no output'' else output)"

definition SHELL_COMMAND_TIMEOUT_SAFETY_MARGIN_SECS :: u64 where
  "SHELL_COMMAND_TIMEOUT_SAFETY_MARGIN_SECS = 5"

definition session_timeout_secs :: "duration \<Rightarrow> u64" where
  "session_timeout_secs timeout = max (saturating_sub (dur_secs timeout) SHELL_COMMAND_TIMEOUT_SAFETY_MARGIN_SECS) 5"

definition shell_failed :: "string \<Rightarrow> tool_error" where
  "shell_failed message = execution_failed ''shell_exec'' message"

text \<open>The loop that reads the output; \<open>None\<close> is a loop that has not come to its end.\<close>

fun collect_output ::
  "nat \<Rightarrow> (nat option \<Rightarrow> ('s, sandbox_error, stream_output_chunk) action) \<Rightarrow> string \<Rightarrow> string \<Rightarrow> 's \<Rightarrow>
     (tool_error, string \<times> string) result option \<times> 's" where
  "collect_output 0 stream stdout stderr s = (None, s)"
| "collect_output (Suc fuel) stream stdout stderr s =
     (case stream None s of
        (Inl e, s') \<Rightarrow> (Some (Inl (shell_failed (''failed to stream shell output from sidecar session: '' @ sandbox_error_text e))), s')
      | (Inr chunk, s') \<Rightarrow>
          let stdout' = (if soc_stream chunk = Stdout then stdout @ soc_data chunk else stdout);
              stderr' = (if soc_stream chunk = Stderr then stderr @ soc_data chunk else stderr)
          in if soc_eof chunk then (Some (Inr (stdout', stderr')), s') else collect_output fuel stream stdout' stderr' s')"

definition execute_with_shell_session ::
  "nat \<Rightarrow> (string \<Rightarrow> string) \<Rightarrow> (string \<Rightarrow> u64 option \<Rightarrow> ('s, sandbox_error, exec_command_ack) action) \<Rightarrow>
     (nat option \<Rightarrow> ('s, sandbox_error, stream_output_chunk) action) \<Rightarrow> string \<Rightarrow> duration \<Rightarrow> 's \<Rightarrow> (tool_error, string) result option \<times> 's" where
  "execute_with_shell_session fuel lossy exec stream command timeout s =
     (case exec command (Some (session_timeout_secs timeout)) s of
        (Inl e, s') \<Rightarrow> (Some (Inl (shell_failed (''failed to execute shell command via sidecar session: '' @ sandbox_error_text e))), s')
      | (Inr ack, s') \<Rightarrow>
          (case collect_output fuel stream [] [] s' of (out, s'') \<Rightarrow>
             (map_option (\<lambda>r. bind_result r (\<lambda>(stdout, stderr). Inr (no_output_text (combine_command_output lossy stdout stderr)))) out, s'')))"

text \<open>A command run on the host itself: the exit code, none when a signal ended it, and the two outputs.\<close>

definition host_shell_result :: "(string \<Rightarrow> string) \<Rightarrow> (string, int option \<times> string \<times> string) result \<Rightarrow> (tool_error, string) result" where
  "host_shell_result lossy r =
     bind_result (map_err r shell_failed) (\<lambda>(code, stdout, stderr).
     let combined_output = combine_command_output lossy stdout stderr in
     if code = Some 0 then Inr (no_output_text combined_output)
     else let status = (case code of None \<Rightarrow> ''terminated by signal''
                | Some c \<Rightarrow> if c < 0 then ''-'' @ nat_to_string (nat (- c)) else nat_to_string (nat c))
          in Inl (shell_failed (''command exited with status '' @ status @ (if combined_output = [] then [] else '': '' @ combined_output))))"

fun shell_disabled_message :: "session_status \<Rightarrow> string" where
  "shell_disabled_message (Unavailable u) = ''shell tool is disabled: '' @ su_detail u"
| "shell_disabled_message (Ready _) = ''shell tool is disabled''"

datatype bash_backend = BackendHost | BackendSession | BackendDisabled session_status

record 's bash_env =
  be_decode_args :: "string \<Rightarrow> (string, string) result"
  be_lossy :: "string \<Rightarrow> string"
  be_host_run :: "string \<Rightarrow> 's \<Rightarrow> (string, int option \<times> string \<times> string) result \<times> 's"
  be_exec :: "string \<Rightarrow> u64 option \<Rightarrow> ('s, sandbox_error, exec_command_ack) action"
  be_stream :: "nat option \<Rightarrow> ('s, sandbox_error, stream_output_chunk) action"

definition bash_tool_execute ::
  "'s bash_env \<Rightarrow> nat \<Rightarrow> bash_backend \<Rightarrow> duration \<Rightarrow> string \<Rightarrow> 's \<Rightarrow> (tool_error, string) result option \<times> 's" where
  "bash_tool_execute env fuel backend command_timeout args s =
     (case be_decode_args env args of
        Inl e \<Rightarrow> (Some (Inl (invalid_args ''shell_exec'' e)), s)
      | Inr command \<Rightarrow>
          (case backend of
             BackendHost \<Rightarrow> (case be_host_run env command s of (r, s') \<Rightarrow> (Some (host_shell_result (be_lossy env) r), s'))
           | BackendSession \<Rightarrow> execute_with_shell_session fuel (be_lossy env) (be_exec env) (be_stream env) command command_timeout s
           | BackendDisabled status \<Rightarrow> (Some (Inl (shell_failed (shell_disabled_message status))), s)))"

section \<open>Connecting at start-up\<close>

record ('f, 'w) dial_env =
  de_net :: "('f, 'w) net"
  de_now :: "'w \<Rightarrow> nat"
  de_sleep :: "nat \<Rightarrow> 'w \<Rightarrow> 'w"
  de_transient :: "string \<Rightarrow> bool"

definition SIDECAR_CONNECT_TIMEOUT_MS :: nat where
  "SIDECAR_CONNECT_TIMEOUT_MS = 30000"

definition SIDECAR_CONNECT_RETRY_INTERVAL_MS :: nat where
  "SIDECAR_CONNECT_RETRY_INTERVAL_MS = 500"

text \<open>The result of dialing: a session to build the tool on, or the status the tool is disabled with. \<open>None\<close>: still dialing.\<close>

type_synonym dial_result = "(vsock_session option \<times> session_status) option"

definition is_connection_failed :: "session_status \<Rightarrow> bool" where
  "is_connection_failed status = (case status of Unavailable u \<Rightarrow> su_reason u = ConnectionFailed | Ready _ \<Rightarrow> False)"

fun dial_vsock :: "('f, 'w) dial_env \<Rightarrow> sidecar_endpoint \<Rightarrow> nat \<Rightarrow> nat \<Rightarrow> 'w \<Rightarrow> dial_result \<times> 'w" where
  "dial_vsock env ep until 0 w = (None, w)"
| "dial_vsock env ep until (Suc fuel) w =
     (case vsock_connect (de_net env) (Some ep) shell_session_config_default w of (session, w') \<Rightarrow>
        let status = vs_status session in
        if is_ready status then (Some (Some session, status), w')
        else if is_connection_failed status \<and> de_now env w' < until
        then dial_vsock env ep until fuel (de_sleep env SIDECAR_CONNECT_RETRY_INTERVAL_MS w')
        else (Some (None, status), w'))"

fun dial_unix :: "('f, 'w) dial_env \<Rightarrow> sidecar_endpoint \<Rightarrow> string \<Rightarrow> nat \<Rightarrow> nat \<Rightarrow> 'w \<Rightarrow> dial_result \<times> 'w" where
  "dial_unix env ep socket_path until 0 w = (None, w)"
| "dial_unix env ep socket_path until (Suc fuel) w =
     (case net_connect (de_net env) socket_path w of
        (Inr conn, w') \<Rightarrow>
          (case connect_with_stream (de_net env) conn Unix (ep_address ep) shell_session_config_default w' of
             (Inr session, w'') \<Rightarrow>
               let session = session\<lparr>vs_reconnect_endpoint := Some ep, vs_reconnect_config := shell_session_config_default\<rparr>
               in (Some (Some session, vs_status session), w'')
           | (Inl e, w'') \<Rightarrow> (Some (None, unavailable_session_status ProtocolError
               (''failed to initialize shell session over unix sidecar transport: '' @ sandbox_error_text e)), w''))
      | (Inl e, w') \<Rightarrow>
          if de_transient env e \<and> de_now env w' < until
          then dial_unix env ep socket_path until fuel (de_sleep env SIDECAR_CONNECT_RETRY_INTERVAL_MS w')
          else (Some (None, unavailable_session_status ConnectionFailed
             (''failed to connect to unix sidecar socket `'' @ socket_path @ ''`: '' @ e)), w'))"

definition connect_sidecar_bash_tool :: "('f, 'w) dial_env \<Rightarrow> sidecar_endpoint \<Rightarrow> nat \<Rightarrow> 'w \<Rightarrow> dial_result \<times> 'w" where
  "connect_sidecar_bash_tool env ep fuel w =
     (case ep_transport ep of
        Vsock \<Rightarrow> dial_vsock env ep (de_now env w + SIDECAR_CONNECT_TIMEOUT_MS) fuel w
      | Unix \<Rightarrow>
          (case sidecar_unix_bridge_path (ep_address ep) of
             None \<Rightarrow> (Some (None, unavailable_session_status InvalidAddress
                 (''sidecar unix endpoint `'' @ ep_address ep @ ''` is not a valid unix socket path'')), w)
           | Some socket_path \<Rightarrow> dial_unix env ep socket_path (de_now env w + SIDECAR_CONNECT_TIMEOUT_MS) fuel w))"

text \<open>The shell tool of a bootstrap: what was connected, and the statuses of the shell and of the browser.\<close>

definition bootstrap_bash_tool ::
  "('f, 'w) dial_env \<Rightarrow> nat \<Rightarrow> (bootstrap_envelope \<times> sidecar_endpoint option) option \<Rightarrow> 'w \<Rightarrow>
     (vsock_session option \<times> session_status \<times> session_status) option \<times> 'w" where
  "bootstrap_bash_tool env fuel bootstrap w =
     (let disabled = (\<lambda>detail. let s = unavailable_session_status Disabled detail in (Some (None, s, s), w)) in
      case bootstrap of
        None \<Rightarrow> disabled ''runner bootstrap envelope was not provided; shell/browser tools are disabled''
      | Some (b, None) \<Rightarrow>
          disabled (if be_sandbox_tier b = Process then ''runner bootstrap indicates process tier; shell/browser tools are disabled''
            else ''runner bootstrap did not provide a sidecar endpoint; shell/browser tools are disabled'')
      | Some (b, Some ep) \<Rightarrow>
          (case connect_sidecar_bash_tool env ep fuel w of
             (None, w') \<Rightarrow> (None, w')
           | (Some (session, connected_status), w') \<Rightarrow>
               let shell_requested = (case be_startup_status b of Some s \<Rightarrow> ss_shell_available s | None \<Rightarrow> True);
                   browser_requested = (case be_startup_status b of Some s \<Rightarrow> ss_browser_available s | None \<Rightarrow> True);
                   shell_status = (if shell_requested then connected_status
                     else unavailable_session_status Disabled ''runner bootstrap indicates the shell tool is disabled for this user'');
                   browser_status = (if browser_requested then connected_status
                     else unavailable_session_status Disabled ''runner bootstrap indicates the browser tool is disabled for this user'')
               in (Some (session, shell_status, browser_status), w')))"

section \<open>Collecting the output\<close>

definition stream_text :: "(string \<Rightarrow> string) \<Rightarrow> shell_output_stream \<Rightarrow> output_chunk list \<Rightarrow> string" where
  "stream_text lossy stream chunks = concat (map (lossy \<circ> snd) (filter (\<lambda>(s, _). s = stream) chunks))"

lemma stream_text_simps [simp]:
  "stream_text lossy stream [] = []"
  "stream_text lossy stream ((s, d) # q) = (if s = stream then lossy d else []) @ stream_text lossy stream q"
  by (simp_all add: stream_text_def)

text \<open>What the loop relies on: reading takes the next piece of a queue.\<close>

locale shell_output_source =
  fixes stream :: "nat option \<Rightarrow> ('s, sandbox_error, stream_output_chunk) action"
    and queue_of :: "'s \<Rightarrow> output_chunk list"
    and usable :: "'s \<Rightarrow> bool"
    and limit :: nat
    and lossy :: "string \<Rightarrow> string"
  assumes limit_pos: "usable s \<Longrightarrow> 0 < limit"
    and stream_next: "usable s \<Longrightarrow> next_output_chunk None limit (queue_of s) = ((st, d, eof), q) \<Longrightarrow>
      \<exists>c s'. stream None s = (Inr c, s') \<and> soc_stream c = st \<and> soc_data c = lossy d \<and> soc_eof c = eof \<and> usable s' \<and> queue_of s' = q"
begin

lemma collect_drains:
  "usable s \<Longrightarrow> drain fuel None limit (queue_of s) = Some chunks \<Longrightarrow>
     \<exists>s'. collect_output fuel stream out err s = (Some (Inr (out @ stream_text lossy Stdout chunks, err @ stream_text lossy Stderr chunks)), s') \<and> usable s'"
proof (induction fuel arbitrary: s out err chunks)
  case (Suc fuel)
  obtain st d eof q where nx: "next_output_chunk None limit (queue_of s) = ((st, d, eof), q)" by (metis prod.exhaust)
  from stream_next[OF Suc.prems(1) nx] obtain c s' where
    c: "stream None s = (Inr c, s')" "soc_stream c = st" "soc_data c = lossy d" "soc_eof c = eof" "usable s'" "queue_of s' = q" by blast
  show ?case
  proof (cases eof)
    case True
    with Suc.prems(2) have "chunks = [(st, d)]" by (simp add: nx)
    with True c show ?thesis by (cases st) simp_all
  next
    case False
    with Suc.prems(2) c(6) obtain rest where rest: "drain fuel None limit (queue_of s') = Some rest" "chunks = (st, d) # rest"
      by (auto simp: nx)
    let ?out = "if st = Stdout then out @ lossy d else out" and ?err = "if st = Stderr then err @ lossy d else err"
    have "collect_output (Suc fuel) stream out err s = collect_output fuel stream ?out ?err s'" using False c by simp
    with Suc.IH[OF c(5) rest(1), of ?out ?err] show ?thesis unfolding rest(2) by (cases st) simp_all
  qed
qed simp

text \<open>All output is collected, provided the pieces are not changed on the way.\<close>

lemma collect_all:
  assumes "usable s" "queue_ok n (queue_of s)" "queue_bytes (queue_of s) < fuel"
    and plain: "\<And>chunks. drain fuel None limit (queue_of s) = Some chunks \<Longrightarrow> \<forall>c\<in>set chunks. lossy (snd c) = snd c"
  shows "\<exists>s'. collect_output fuel stream [] [] s = (Some (Inr (stream_bytes Stdout (queue_of s), stream_bytes Stderr (queue_of s))), s')"
proof -
  from drain_complete[OF limit_pos[OF assms(1)] assms(2,3)] obtain chunks where
    ch: "drain fuel None limit (queue_of s) = Some chunks" "\<forall>st. stream_bytes st chunks = stream_bytes st (queue_of s)" by blast
  have "stream_text lossy st chunks = stream_bytes st chunks" for st
    using plain[OF ch(1)] by (induction chunks) auto
  with collect_drains[OF assms(1) ch(1), of "[]" "[]"] ch(2) show ?thesis by auto
qed

end

definition ascii :: "string \<Rightarrow> bool" where
  "ascii s \<longleftrightarrow> list_all (\<lambda>c. (of_char c :: nat) < 128) s"

lemma next_chunk_ascii:
  assumes "next_output_chunk m limit q = ((st, d, eof), q')" "\<forall>c\<in>set q. ascii (snd c)"
  shows "ascii d \<and> (\<forall>c\<in>set q'. ascii (snd c))"
  using assms by (cases q) (auto simp: next_output_chunk_def Let_def ascii_def list_all_iff split: if_splits dest!: in_set_takeD in_set_dropD)

lemma drain_ascii: "drain fuel m limit q = Some chunks \<Longrightarrow> \<forall>c\<in>set q. ascii (snd c) \<Longrightarrow> \<forall>c\<in>set chunks. ascii (snd c)"
proof (induction fuel arbitrary: q chunks)
  case (Suc fuel)
  obtain st d eof q' where nx: "next_output_chunk m limit q = ((st, d, eof), q')" by (metis prod.exhaust)
  note a = next_chunk_ascii[OF nx Suc.prems(2)]
  show ?case
  proof (cases eof)
    case True
    with Suc.prems(1) a show ?thesis by (auto simp: nx)
  next
    case False
    with Suc.prems(1) obtain rest where "drain fuel m limit q' = Some rest" "chunks = (st, d) # rest" by (auto simp: nx)
    with Suc.IH a show ?thesis by auto
  qed
qed simp

lemma ascii_queue: "ascii out \<Longrightarrow> ascii err \<Longrightarrow> \<forall>c\<in>set (build_output_queue out err n). ascii (snd c)"
  by (auto simp: build_output_queue_def push_bounded_chunk_def Let_def ascii_def list_all_iff dest: in_set_takeD)

lemma build_output_queue_bytes: "queue_bytes (build_output_queue out err n) \<le> n"
  using build_output_queue_ok[of n out err] by (simp add: queue_ok_def)

section \<open>Local sessions\<close>

definition local_usable :: "nat \<Rightarrow> local_session \<times> 'w \<Rightarrow> bool" where
  "local_usable limit st \<longleftrightarrow> is_ready (ls_status (fst st)) \<and> ssc_max_stream_chunk_bytes (ls_config (fst st)) = limit \<and> 0 < limit"

interpretation local_source: shell_output_source "local_stream_output host" "\<lambda>st. ls_output_queue (fst st)" "local_usable limit" limit "shell_utf8_lossy host"
  for host limit
proof
  fix st :: "local_session \<times> 'a" and strm d eof q
  assume "local_usable limit st" "next_output_chunk None limit (ls_output_queue (fst st)) = ((strm, d, eof), q)"
  then show "\<exists>c st'. local_stream_output host None st = (Inr c, st') \<and> soc_stream c = strm \<and> soc_data c = shell_utf8_lossy host d \<and> soc_eof c = eof \<and>
      local_usable limit st' \<and> ls_output_queue (fst st') = q"
    by (cases st) (auto simp: local_usable_def local_stream_output_def local_next_request_id_def Let_def)
qed (simp add: local_usable_def)

section \<open>Sessions with the daemon at the other end\<close>

record 'f shell_codec =
  enc_request :: "shell_daemon_request \<Rightarrow> 'f"
  dec_request :: "'f \<Rightarrow> (string, shell_daemon_request) result"
  enc_response :: "shell_daemon_response \<Rightarrow> 'f"
  dec_response :: "'f \<Rightarrow> (string, shell_daemon_response) result"

definition codec_ok :: "'f shell_codec \<Rightarrow> bool" where
  "codec_ok codec \<longleftrightarrow> (\<forall>r. dec_request codec (enc_request codec r) = Inr r) \<and> (\<forall>r. dec_response codec (enc_response codec r) = Inr r)"

record ('f, 'w) daemon_world =
  dw_manager :: session_manager
  dw_host :: 'w
  dw_inbox :: "nat \<Rightarrow> 'f list"
  dw_next_connection :: nat

text \<open>A frame that is sent is served at once; its response waits in the inbox of the connection.\<close>

definition daemon_net :: "'w shell_host \<Rightarrow> 'f shell_codec \<Rightarrow> ('f, ('f, 'w) daemon_world) net" where
  "daemon_net host codec =
     \<lparr>net_connect = (\<lambda>path w. let n = dw_next_connection w in (Inr n, w\<lparr>dw_next_connection := Suc n, dw_inbox := (dw_inbox w)(n := [])\<rparr>)),
      net_send = (\<lambda>conn frame w.
        case serve_stream host (dec_request codec) [frame] (dw_manager w, dw_host w) of (responses, (m, h)) \<Rightarrow>
          (Inr (), w\<lparr>dw_manager := m, dw_host := h, dw_inbox := (dw_inbox w)(conn := dw_inbox w conn @ map (enc_response codec) responses)\<rparr>)),
      net_next = (\<lambda>conn w. case dw_inbox w conn of [] \<Rightarrow> (None, w) | f # fs \<Rightarrow> (Some (Inr f), w\<lparr>dw_inbox := (dw_inbox w)(conn := fs)\<rparr>)),
      encode_request = (\<lambda>r. Inr (enc_request codec r)),
      decode_response = dec_response codec\<rparr>"

lemma daemon_rpc_call:
  assumes "codec_ok codec" "dw_inbox w conn = []" "handle_request host request (dw_manager w, dw_host w) = (rsp, (m, h))"
  shows "rpc_call (daemon_net host codec) conn request w = (Inr rsp, w\<lparr>dw_manager := m, dw_host := h\<rparr>)"
proof -
  have "(dw_inbox w)(conn := []) = dw_inbox w" using assms(2) by (rule fun_upd_idem)
  then have "w\<lparr>dw_manager := m, dw_host := h, dw_inbox := (dw_inbox w)(conn := [])\<rparr> = w\<lparr>dw_manager := m, dw_host := h\<rparr>" by simp
  then show ?thesis using assms
    by (simp add: rpc_call_def send_request_def read_response_def daemon_net_def bind_action_def lift_action_def codec_ok_def)
qed

lemma daemon_rpc_request:
  assumes "codec_ok codec" "dw_inbox w (rc_connection client) = []"
    and "handle_request host (request (pre @ ''-'' @ padded_digits 6 (unat (rc_next_request_number client + 1)))) (dw_manager w, dw_host w) = (rsp, (m, h))"
  shows "rpc_request (daemon_net host codec) pre request answer (client, w) =
    (answer rsp, (client\<lparr>rc_next_request_number := rc_next_request_number client + 1\<rparr>, w\<lparr>dw_manager := m, dw_host := h\<rparr>))"
  using daemon_rpc_call[OF assms(1,2,3)] by (simp add: rpc_request_def rpc_next_request_id_def Let_def)

text \<open>A session that is connected to a session of the daemon, with nothing left over in the connection.\<close>

definition connected :: "'f shell_codec \<Rightarrow> nat \<Rightarrow> vsock_session \<times> ('f, 'w) daemon_world \<Rightarrow> bool" where
  "connected codec limit st \<longleftrightarrow>
     codec_ok codec \<and> 0 < limit \<and> sm_max_stream_chunk_bytes (dw_manager (snd st)) = limit \<and>
     (\<exists>id client sess. vs_session_id (fst st) = Some id \<and> vs_client (fst st) = Some client \<and> sm_sessions (dw_manager (snd st)) id = Some sess \<and>
        dw_inbox (snd st) (rc_connection client) = [])"

definition remote_queue :: "vsock_session \<times> ('f, 'w) daemon_world \<Rightarrow> output_chunk list" where
  "remote_queue st =
     (case Option.bind (vs_session_id (fst st)) (sm_sessions (dw_manager (snd st))) of Some sess \<Rightarrow> shs_output_queue sess | None \<Rightarrow> [])"

interpretation remote_source: shell_output_source "vsock_stream_output (daemon_net host codec)" remote_queue "connected codec limit" limit "shell_utf8_lossy host"
  for host codec limit
proof
  fix st :: "vsock_session \<times> ('a, 'b) daemon_world" and strm d eof q
  assume con: "connected codec limit st" and nx: "next_output_chunk None limit (remote_queue st) = ((strm, d, eof), q)"
  obtain s w where st: "st = (s, w)" by fastforce
  from con obtain id client sess where
    f: "codec_ok codec" "0 < limit" "sm_max_stream_chunk_bytes (dw_manager w) = limit" "vs_session_id s = Some id" "vs_client s = Some client"
      "sm_sessions (dw_manager w) id = Some sess" "dw_inbox w (rc_connection client) = []"
    by (auto simp: connected_def st)
  let ?rid = "''stream'' @ ''-'' @ padded_digits 6 (unat (rc_next_request_number client + 1))"
  let ?m = "(dw_manager w)\<lparr>sm_sessions := (sm_sessions (dw_manager w))(id \<mapsto> sess\<lparr>shs_output_queue := q\<rparr>)\<rparr>"
  let ?c = "\<lparr>soc_request_id = ?rid, soc_session_id = id, soc_stream = strm, soc_data = shell_utf8_lossy host d, soc_eof = eof\<rparr>"
  have "handle_request host (ReqStreamOutput \<lparr>so_request_id = ?rid, so_session_id = id, so_max_bytes = None\<rparr>) (dw_manager w, dw_host w) =
      (RspStreamOutput ?c, (?m, dw_host w))"
    using nx f by (simp add: daemon_stream_output_def next_stream_chunk_def bind_action_def ret_action_def remote_queue_def st)
  from daemon_rpc_request[where request = "\<lambda>rid. ReqStreamOutput \<lparr>so_request_id = rid, so_session_id = id, so_max_bytes = None\<rparr>" and pre = "''stream''",
      OF f(1,7) this, of stream_answer]
  have "rpc_stream_output (daemon_net host codec) id None (client, w) =
      (Inr ?c, (client\<lparr>rc_next_request_number := rc_next_request_number client + 1\<rparr>, w\<lparr>dw_manager := ?m, dw_host := dw_host w\<rparr>))"
    by (simp add: rpc_stream_output_def)
  then have "vsock_stream_output (daemon_net host codec) None st =
      (Inr ?c, (s\<lparr>vs_client := Some (client\<lparr>rc_next_request_number := rc_next_request_number client + 1\<rparr>)\<rparr>, w\<lparr>dw_manager := ?m, dw_host := dw_host w\<rparr>))"
    using f by (simp add: vsock_stream_output_def on_client_def st)
  then show "\<exists>c st'. vsock_stream_output (daemon_net host codec) None st = (Inr c, st') \<and> soc_stream c = strm \<and>
      soc_data c = shell_utf8_lossy host d \<and> soc_eof c = eof \<and> connected codec limit st' \<and> remote_queue st' = q"
    using f by (auto simp: connected_def remote_queue_def st)
qed (simp add: connected_def)

lemma handle_spawn:
  "handle_request host (ReqSpawnSession request) (m, w) =
     (RspSpawnSession (fst (manager_spawn_session request m)), (snd (manager_spawn_session request m), w))"
  by (simp add: case_prod_beta)

text \<open>Connecting to the daemon gives a session with an empty queue.\<close>

lemma spawn_connects:
  assumes "codec_ok codec" "0 < sm_max_stream_chunk_bytes (dw_manager w)" "dw_inbox w conn = []"
  shows "\<exists>ack client w'. rpc_spawn_session (daemon_net host codec) config (rpc_client_new conn, w) = (Inr ack, (client, w')) \<and>
    rc_connection client = conn \<and> dw_inbox w' conn = [] \<and> dw_host w' = dw_host w \<and> dw_next_connection w' = dw_next_connection w \<and>
    sm_max_stream_chunk_bytes (dw_manager w') = sm_max_stream_chunk_bytes (dw_manager w) \<and>
    sm_max_session_output_bytes (dw_manager w') = sm_max_session_output_bytes (dw_manager w) \<and>
    (\<exists>sess. sm_sessions (dw_manager w') (spa_session_id ack) = Some sess \<and> shs_output_queue sess = [])"
proof -
  let ?req = "\<lambda>rid. ReqSpawnSession \<lparr>sps_request_id = rid, sps_shell = ssc_shell config, sps_cwd = config_cwd config, sps_env = ssc_env config\<rparr>"
  have inbox: "dw_inbox w (rc_connection (rpc_client_new conn)) = []" using assms(3) by (simp add: rpc_client_new_def)
  show ?thesis
    using daemon_rpc_request[where request = ?req and pre = "''spawn''" and answer = spawn_answer, OF assms(1) inbox handle_spawn] assms(3)
    by (auto simp: rpc_spawn_session_def manager_spawn_session_def Let_def rpc_client_new_def)
qed

lemma vsock_connect_connected:
  assumes "codec_ok codec" "0 < sm_max_stream_chunk_bytes (dw_manager w)" "shell_session_config_validate config = Inr ()"
    and "ep_transport ep = Vsock" "sidecar_unix_bridge_path (ep_address ep) = Some path"
    and "vsock_connect (daemon_net host codec) (Some ep) config w = (s, w')"
  shows "connected codec (sm_max_stream_chunk_bytes (dw_manager w)) (s, w')" "remote_queue (s, w') = []" "is_ready (vs_status s)"
    "vs_reconnect_endpoint s = Some ep" "dw_host w' = dw_host w"
    "sm_max_session_output_bytes (dw_manager w') = sm_max_session_output_bytes (dw_manager w)"
proof -
  let ?n = "dw_next_connection w"
  let ?w1 = "w\<lparr>dw_next_connection := Suc ?n, dw_inbox := (dw_inbox w)(?n := [])\<rparr>"
  have con: "net_connect (daemon_net host codec) path w = (Inr ?n, ?w1)" by (simp add: daemon_net_def Let_def)
  obtain ack client w2 sess where sp: "rpc_spawn_session (daemon_net host codec) config (rpc_client_new ?n, ?w1) = (Inr ack, (client, w2))"
    "rc_connection client = ?n" "dw_inbox w2 ?n = []" "dw_host w2 = dw_host w"
    "sm_max_stream_chunk_bytes (dw_manager w2) = sm_max_stream_chunk_bytes (dw_manager w)"
    "sm_max_session_output_bytes (dw_manager w2) = sm_max_session_output_bytes (dw_manager w)"
    "sm_sessions (dw_manager w2) (spa_session_id ack) = Some sess" "shs_output_queue sess = []"
    using spawn_connects[of codec ?w1 ?n host config] assms(1,2) by auto
  have "s = \<lparr>vs_status = Ready (Sidecar Vsock (ep_address ep)), vs_session_id = Some (spa_session_id ack), vs_client = Some client,
      vs_reconnect_endpoint = Some ep, vs_reconnect_config = config\<rparr>" "w' = w2"
    using assms(3-6) con sp(1) by (auto simp: vsock_connect_def connect_with_stream_def bind_action_def lift_action_def)
  with sp assms(1,2) show "connected codec (sm_max_stream_chunk_bytes (dw_manager w)) (s, w')" "remote_queue (s, w') = []" "is_ready (vs_status s)"
    "vs_reconnect_endpoint s = Some ep" "dw_host w' = dw_host w"
    "sm_max_session_output_bytes (dw_manager w') = sm_max_session_output_bytes (dw_manager w)"
    by (auto simp: connected_def remote_queue_def)
qed

text \<open>A command that runs leaves its output in the queue of the session.\<close>

lemma connectedE:
  assumes "connected codec limit (s, w)"
  obtains id client sess where "codec_ok codec" "0 < limit" "sm_max_stream_chunk_bytes (dw_manager w) = limit" "vs_session_id s = Some id"
    "vs_client s = Some client" "sm_sessions (dw_manager w) id = Some sess" "dw_inbox w (rc_connection client) = []"
  using assms by (auto simp: connected_def)

lemma remote_exec:
  assumes "connected codec limit (s, w)" "trim command \<noteq> []"
    and runs: "\<And>shell cwd env. run_process host shell [''-lc'', command] cwd env timeout_secs (dw_host w) = (Finished out err, h)"
  shows "\<exists>ack st'. vsock_exec_command (daemon_net host codec) command timeout_secs (s, w) = (Inr ack, st') \<and> connected codec limit st' \<and>
    remote_queue st' = build_output_queue out err (sm_max_session_output_bytes (dw_manager w)) \<and> dw_host (snd st') = h"
proof -
  from assms(1) obtain id client sess where
    f: "codec_ok codec" "0 < limit" "sm_max_stream_chunk_bytes (dw_manager w) = limit" "vs_session_id s = Some id" "vs_client s = Some client"
      "sm_sessions (dw_manager w) id = Some sess" "dw_inbox w (rc_connection client) = []" by (rule connectedE)
  let ?req = "\<lambda>rid. ReqExecCommand \<lparr>xc_request_id = rid, xc_session_id = id, xc_command = command, xc_timeout_secs = timeout_secs\<rparr>"
  let ?rid = "''exec'' @ ''-'' @ padded_digits 6 (unat (rc_next_request_number client + 1))"
  let ?sess = "sess\<lparr>shs_output_queue := build_output_queue out err (sm_max_session_output_bytes (dw_manager w))\<rparr>"
  let ?m = "(dw_manager w)\<lparr>sm_sessions := (sm_sessions (dw_manager w))(id \<mapsto> ?sess)\<rparr>"
  let ?w = "w\<lparr>dw_manager := ?m, dw_host := h\<rparr>"
  let ?client = "client\<lparr>rc_next_request_number := rc_next_request_number client + 1\<rparr>"
  have hr: "handle_request host (?req ?rid) (dw_manager w, dw_host w) = (RspExecCommand \<lparr>eca_request_id = ?rid, eca_accepted = True\<rparr>, (?m, h))"
    using f(6) assms(2) runs
    by (simp add: daemon_exec_command_def exec_begin_def manager_session_runtime_def daemon_run_shell_command_def exec_end_def
        store_command_output_def bind_action_def ret_action_def)
  have rpc: "rpc_exec_command (daemon_net host codec) id command timeout_secs (client, w) = (Inr \<lparr>eca_request_id = ?rid, eca_accepted = True\<rparr>, (?client, ?w))"
    unfolding rpc_exec_command_def
    using daemon_rpc_request[where request = ?req and pre = "''exec''" and answer = exec_answer, OF f(1,7) hr] by simp
  have "vsock_exec_command (daemon_net host codec) command timeout_secs (s, w) =
      (Inr \<lparr>eca_request_id = ?rid, eca_accepted = True\<rparr>, (s\<lparr>vs_client := Some ?client\<rparr>, ?w))"
    using assms(2) f(4,5) rpc by (simp add: vsock_exec_command_def on_client_def Let_def)
  then show ?thesis using f by (auto simp: connected_def remote_queue_def)
qed


lemma shell_exec_local:
  assumes "local_usable limit (s, w)" "trim command \<noteq> []"
    and "\<And>shell cwd env. run_process host shell [''-lc'', command] cwd env (Some (session_timeout_secs timeout)) w = (Finished out err, h)"
    and "ascii out" "ascii err" "\<And>x. ascii x \<Longrightarrow> shell_utf8_lossy host x = x"
    and "ssc_max_session_output_bytes (ls_config s) = n" "n < fuel"
  shows "\<exists>st'. execute_with_shell_session fuel (shell_utf8_lossy host) (local_exec_command host) (local_stream_output host) command timeout (s, w) =
    (Some (Inr (no_output_text (combine_command_output (shell_utf8_lossy host) (take n out) (take (n - length out) err)))), st')"
proof -
  let ?q = "build_output_queue out err n"
  obtain ack s1 where s1: "local_exec_command host command (Some (session_timeout_secs timeout)) (s, w) = (Inr ack, (s1, h))"
    "local_usable limit (s1, h)" "ls_output_queue s1 = ?q"
    using assms(1-3,7) by (auto simp: local_exec_command_def local_run_shell_command_def local_next_request_id_def Let_def local_usable_def)
  have "\<exists>st'. collect_output fuel (local_stream_output host) [] [] (s1, h) =
      (Some (Inr (stream_bytes Stdout (ls_output_queue (fst (s1, h))), stream_bytes Stderr (ls_output_queue (fst (s1, h))))), st')"
  proof (rule local_source.collect_all[OF s1(2)])
    show "queue_ok n (ls_output_queue (fst (s1, h)))" by (simp add: s1(3) build_output_queue_ok)
    show "queue_bytes (ls_output_queue (fst (s1, h))) < fuel" using build_output_queue_bytes[of out err n] assms(8) by (simp add: s1(3))
    show "\<forall>c\<in>set chunks. shell_utf8_lossy host (snd c) = snd c" if "drain fuel None limit (ls_output_queue (fst (s1, h))) = Some chunks" for chunks
      using drain_ascii[OF that] ascii_queue[OF assms(4,5)] assms(6) by (simp add: s1(3))
  qed
  then show ?thesis by (auto simp: execute_with_shell_session_def s1(1,3) build_output_queue_spec)
qed

section \<open>Example\<close>

definition ex_shell_codec :: "(shell_daemon_request + shell_daemon_response) shell_codec" where
  "ex_shell_codec = \<lparr>enc_request = Inl, dec_request = (\<lambda>f. case f of Inl r \<Rightarrow> Inr r | Inr _ \<Rightarrow> Inl ''response''),
     enc_response = Inr, dec_response = (\<lambda>f. case f of Inr r \<Rightarrow> Inr r | Inl _ \<Rightarrow> Inl ''request'')\<rparr>"

lemma ex_shell_codec_ok: "codec_ok ex_shell_codec"
  by (simp add: codec_ok_def ex_shell_codec_def)

text \<open>A host that counts the commands it runs: \<open>sleep\<close> times out, everything else prints \<open>hi\<close>.\<close>

definition ex_shell_host :: "nat shell_host" where
  "ex_shell_host = \<lparr>run_process = (\<lambda>_ args _ _ _ n. (if args = [''-lc'', ''sleep''] then TimedOut else Finished ''hi'' [], Suc n)), shell_utf8_lossy = (\<lambda>s. s)\<rparr>"

definition ex_daemon_world :: "(shell_daemon_request + shell_daemon_response, nat) daemon_world" where
  "ex_daemon_world = \<lparr>dw_manager = session_manager_new shell_daemon_config_default, dw_host = 0, dw_inbox = (\<lambda>_. []), dw_next_connection = 0\<rparr>"

definition ex_endpoint :: sidecar_endpoint where
  "ex_endpoint = \<lparr>ep_transport = Vsock, ep_address = ''/run/shelld''\<rparr>"

definition ex_session :: "vsock_session \<times> (shell_daemon_request + shell_daemon_response, nat) daemon_world" where
  "ex_session = vsock_connect (daemon_net ex_shell_host ex_shell_codec) (Some ex_endpoint) shell_session_config_default ex_daemon_world"

lemma ex_endpoint_path: "sidecar_unix_bridge_path (ep_address ex_endpoint) = Some ''/run/shelld''"
  by code_simp

lemma ex_session_connected:
  "connected ex_shell_codec 8192 ex_session" "vs_reconnect_endpoint (fst ex_session) = Some ex_endpoint" "dw_host (snd ex_session) = 0"
  "sm_max_session_output_bytes (dw_manager (snd ex_session)) = 65536"
proof -
  have pre: "0 < sm_max_stream_chunk_bytes (dw_manager ex_daemon_world)" "shell_session_config_validate shell_session_config_default = Inr ()"
    "ep_transport ex_endpoint = Vsock" "sm_max_stream_chunk_bytes (dw_manager ex_daemon_world) = 8192"
    "sm_max_session_output_bytes (dw_manager ex_daemon_world) = 65536" "dw_host ex_daemon_world = 0"
    by (simp_all add: ex_daemon_world_def session_manager_new_def shell_daemon_config_default_def shell_session_config_validate_def
        shell_session_config_default_def ex_endpoint_def)
  obtain s w where st: "vsock_connect (daemon_net ex_shell_host ex_shell_codec) (Some ex_endpoint) shell_session_config_default ex_daemon_world = (s, w)"
    by fastforce
  from vsock_connect_connected[OF ex_shell_codec_ok pre(1-3) ex_endpoint_path this] pre(4-6)
  show "connected ex_shell_codec 8192 ex_session" "vs_reconnect_endpoint (fst ex_session) = Some ex_endpoint" "dw_host (snd ex_session) = 0"
    "sm_max_session_output_bytes (dw_manager (snd ex_session)) = 65536"
    by (simp_all add: ex_session_def st)
qed


section \<open>Dialing ends\<close>

text \<open>Time goes on while a connection is made and by at least the given time in a sleep.\<close>

definition clock_ok :: "('f, 'w) dial_env \<Rightarrow> bool" where
  "clock_ok env \<longleftrightarrow>
     (\<forall>ms w. de_now env w + ms \<le> de_now env (de_sleep env ms w)) \<and>
     (\<forall>ep w. de_now env w \<le> de_now env (snd (vsock_connect (de_net env) (Some ep) shell_session_config_default w))) \<and>
     (\<forall>path w. de_now env w \<le> de_now env (snd (net_connect (de_net env) path w)))"

lemma dial_vsock_ends:
  "clock_ok env \<Longrightarrow> until < de_now env w + 500 * fuel \<Longrightarrow> fst (dial_vsock env ep until (Suc fuel) w) \<noteq> None"
proof (induction fuel arbitrary: w)
  case 0
  obtain s w' where c: "vsock_connect (de_net env) (Some ep) shell_session_config_default w = (s, w')" by fastforce
  then have "de_now env w \<le> de_now env w'" using 0(1) by (metis clock_ok_def snd_conv)
  with 0(2) show ?case by (simp add: c Let_def)
next
  case (Suc fuel)
  obtain s w' where c: "vsock_connect (de_net env) (Some ep) shell_session_config_default w = (s, w')" by fastforce
  have "de_now env w \<le> de_now env w'" using c Suc.prems(1) by (metis clock_ok_def snd_conv)
  moreover have "de_now env w' + 500 \<le> de_now env (de_sleep env 500 w')" using Suc.prems(1) by (simp add: clock_ok_def)
  ultimately have "until < de_now env (de_sleep env 500 w') + 500 * fuel" using Suc.prems(2) by simp
  from Suc.IH[OF Suc.prems(1) this] show ?case by (simp add: c Let_def SIDECAR_CONNECT_RETRY_INTERVAL_MS_def)
qed

lemma dial_unix_ends:
  "clock_ok env \<Longrightarrow> until < de_now env w + 500 * fuel \<Longrightarrow> fst (dial_unix env ep path until (Suc fuel) w) \<noteq> None"
proof (induction fuel arbitrary: w)
  case 0
  obtain r w' where c: "net_connect (de_net env) path w = (r, w')" by fastforce
  then have "de_now env w \<le> de_now env w'" using 0(1) by (metis clock_ok_def snd_conv)
  with 0(2) show ?case by (simp add: c Let_def split: sum.splits prod.splits)
next
  case (Suc fuel)
  obtain r w' where c: "net_connect (de_net env) path w = (r, w')" by fastforce
  have "de_now env w \<le> de_now env w'" using c Suc.prems(1) by (metis clock_ok_def snd_conv)
  moreover have "de_now env w' + 500 \<le> de_now env (de_sleep env 500 w')" using Suc.prems(1) by (simp add: clock_ok_def)
  ultimately have "until < de_now env (de_sleep env 500 w') + 500 * fuel" using Suc.prems(2) by simp
  from Suc.IH[OF Suc.prems(1) this] show ?case by (simp add: c Let_def SIDECAR_CONNECT_RETRY_INTERVAL_MS_def split: sum.splits prod.splits)
qed

text \<open>Start-up does not hang on the sidecar: whatever the endpoint and however its socket behaves, connecting comes to a result within 62 attempts.
\<close>

theorem sidecar_dial_ends:
  assumes "clock_ok env"
  shows "\<exists>r w'. connect_sidecar_bash_tool env ep 62 w = (Some r, w')"
proof -
  have "fst (dial_vsock env ep (de_now env w + SIDECAR_CONNECT_TIMEOUT_MS) (Suc 61) w) \<noteq> None"
    "fst (dial_unix env ep path (de_now env w + SIDECAR_CONNECT_TIMEOUT_MS) (Suc 61) w) \<noteq> None" for path
    by (rule dial_vsock_ends[OF assms], simp add: SIDECAR_CONNECT_TIMEOUT_MS_def) (rule dial_unix_ends[OF assms], simp add: SIDECAR_CONNECT_TIMEOUT_MS_def)
  then have "fst (connect_sidecar_bash_tool env ep 62 w) \<noteq> None"
    by (simp add: connect_sidecar_bash_tool_def split: sidecar_transport.splits option.splits del: dial_vsock.simps dial_unix.simps)
  then show ?thesis by (cases "connect_sidecar_bash_tool env ep 62 w") auto
qed

text \<open>A world that is a clock, and a socket nobody listens on.\<close>

definition ex_dial :: "(nat, nat) dial_env" where
  "ex_dial = \<lparr>de_net = \<lparr>net_connect = (\<lambda>_ t. (Inl ''refused'', t)), net_send = (\<lambda>_ _ t. (Inr (), t)), net_next = (\<lambda>_ t. (None, t)),
     encode_request = (\<lambda>_. Inr 0), decode_response = (\<lambda>_. Inl ''none'')\<rparr>, de_now = (\<lambda>t. t), de_sleep = (+), de_transient = (\<lambda>e. e = ''refused'')\<rparr>"

theorem sidecar_dial_ends_witness: "\<exists>r w'. connect_sidecar_bash_tool ex_dial ex_endpoint 62 0 = (Some r, w')"
  by (rule sidecar_dial_ends)
    (auto simp: clock_ok_def ex_dial_def vsock_connect_def shell_session_config_validate_def shell_session_config_default_def Let_def split: option.splits)

section \<open>What the protocol loses\<close>

text \<open>
  A timeout of a command is an error response of the daemon, which counts as a sign of a broken connection: the session reconnects and sends the command again, so it
  is run twice.
\<close>

lemma remote_exec_timeout:
  assumes "connected codec limit (s, w)" "trim command \<noteq> []"
    and runs: "\<And>shell cwd env. run_process host shell [''-lc'', command] cwd env timeout_secs (dw_host w) = (TimedOut, h)"
  shows "\<exists>e s' w'. on_client (\<lambda>id. rpc_exec_command (daemon_net host codec) id command timeout_secs) (s, w) = (Inl (daemon_error e), (s', w')) \<and>
    dw_host w' = h \<and> vs_reconnect_endpoint s' = vs_reconnect_endpoint s \<and> sm_max_stream_chunk_bytes (dw_manager w') = limit"
proof -
  from assms(1) obtain id client sess where
    f: "codec_ok codec" "0 < limit" "sm_max_stream_chunk_bytes (dw_manager w) = limit" "vs_session_id s = Some id" "vs_client s = Some client"
      "sm_sessions (dw_manager w) id = Some sess" "dw_inbox w (rc_connection client) = []" by (rule connectedE)
  let ?req = "\<lambda>rid. ReqExecCommand \<lparr>xc_request_id = rid, xc_session_id = id, xc_command = command, xc_timeout_secs = timeout_secs\<rparr>"
  let ?rid = "''exec'' @ ''-'' @ padded_digits 6 (unat (rc_next_request_number client + 1))"
  have hr: "\<exists>e. handle_request host (?req ?rid) (dw_manager w, dw_host w) = (RspError e, (dw_manager w, h))"
    using f(6) assms(2) runs
    by (simp add: daemon_exec_command_def exec_begin_def manager_session_runtime_def daemon_run_shell_command_def to_error_response_def)
  then obtain e where "handle_request host (?req ?rid) (dw_manager w, dw_host w) = (RspError e, (dw_manager w, h))" by blast
  from daemon_rpc_request[where request = ?req and pre = "''exec''" and answer = exec_answer, OF f(1,7) this] f(3,4,5)
  show ?thesis by (auto simp: on_client_def rpc_exec_command_def)
qed

lemma vsock_reconnect_connected:
  assumes "codec_ok codec" "0 < sm_max_stream_chunk_bytes (dw_manager w)"
    and "vs_reconnect_endpoint s = Some ep" "sidecar_unix_bridge_path (ep_address ep) = Some path"
  shows "\<exists>s' w'. vsock_reconnect (daemon_net host codec) (s, w) = (Inr (), (s', w')) \<and>
    connected codec (sm_max_stream_chunk_bytes (dw_manager w)) (s', w') \<and> dw_host w' = dw_host w"
proof -
  let ?n = "dw_next_connection w"
  let ?w1 = "w\<lparr>dw_next_connection := Suc ?n, dw_inbox := (dw_inbox w)(?n := [])\<rparr>"
  have con: "net_connect (daemon_net host codec) path w = (Inr ?n, ?w1)" by (simp add: daemon_net_def Let_def)
  obtain ack client w2 sess where sp: "rpc_spawn_session (daemon_net host codec) (vs_reconnect_config s) (rpc_client_new ?n, ?w1) = (Inr ack, (client, w2))"
    "rc_connection client = ?n" "dw_inbox w2 ?n = []" "dw_host w2 = dw_host w"
    "sm_max_stream_chunk_bytes (dw_manager w2) = sm_max_stream_chunk_bytes (dw_manager w)"
    "sm_sessions (dw_manager w2) (spa_session_id ack) = Some sess"
    using spawn_connects[of codec ?w1 ?n host "vs_reconnect_config s"] assms(1,2) by auto
  then show ?thesis using assms con by (simp add: vsock_reconnect_def Let_def connected_def)
qed

lemma timed_out_command_runs_twice:
  assumes con: "connected codec limit (s, w)" and "trim command \<noteq> []" and ep: "vs_reconnect_endpoint s = Some ep" "sidecar_unix_bridge_path (ep_address ep) = Some path"
    and first: "\<And>shell cwd env. run_process host shell [''-lc'', command] cwd env timeout_secs (dw_host w) = (TimedOut, h1)"
    and second: "\<And>shell cwd env. run_process host shell [''-lc'', command] cwd env timeout_secs h1 = (TimedOut, h2)"
  shows "dw_host (snd (snd (vsock_exec_command (daemon_net host codec) command timeout_secs (s, w)))) = h2"
proof -
  let ?call = "on_client (\<lambda>id. rpc_exec_command (daemon_net host codec) id command timeout_secs)"
  from con have codec: "codec_ok codec" "0 < limit" by (auto elim: connectedE)
  from remote_exec_timeout[OF con assms(2) first] obtain e1 s1 w1 where
    one: "?call (s, w) = (Inl (daemon_error e1), (s1, w1))" "dw_host w1 = h1" "vs_reconnect_endpoint s1 = Some ep"
      "sm_max_stream_chunk_bytes (dw_manager w1) = limit" using ep(1) by auto
  from vsock_reconnect_connected[OF codec(1), of w1 s1 ep path host] codec(2) one ep(2) obtain s2 w2 where
    re: "vsock_reconnect (daemon_net host codec) (s1, w1) = (Inr (), (s2, w2))" "connected codec limit (s2, w2)" "dw_host w2 = h1" by auto
  from remote_exec_timeout[OF re(2) assms(2)] second re(3) obtain e2 s3 w3 where
    two: "?call (s2, w2) = (Inl (daemon_error e2), (s3, w3))" "dw_host w3 = h2" by metis
  show ?thesis using assms(2) one re(1) two
    by (simp add: vsock_exec_command_def Let_def bind_action_def daemon_error_def)
qed

text \<open>The response is taken for the answer whatever request it answers.\<close>

lemma response_not_correlated:
  assumes "net_send net conn f w = (Inr (), w1)" "encode_request net request = Inr f"
    and "net_next net conn w1 = (Some (Inr stale), w2)" "decode_response net stale = Inr (RspStreamOutput chunk)"
  shows "bind_result (fst (rpc_call net conn request w)) stream_answer = Inr chunk"
  using assms by (simp add: rpc_call_def send_request_def read_response_def bind_action_def lift_action_def)

text \<open>A character of several bytes that lies across the end of a piece is replaced in both pieces.\<close>

lemma split_character_lost:
  assumes "lossy [CHR ''a'', CHR 0xC3] = CHR ''a'' # rep" "lossy [CHR 0xA9] = rep"
  shows "map_option (stream_text lossy Stdout) (drain 4 None 2 (build_output_queue [CHR ''a'', CHR 0xC3, CHR 0xA9] [] 100)) = Some (CHR ''a'' # rep @ rep)"
proof -
  have "drain 4 None 2 (build_output_queue [CHR ''a'', CHR 0xC3, CHR 0xA9] [] 100) = Some [(Stdout, [CHR ''a'', CHR 0xC3]), (Stdout, [CHR 0xA9])]"
    by code_simp
  with assms show ?thesis by simp
qed

text \<open>For a tool timeout of at most ten seconds the timeout of the command is not below it by the margin, for one of at most five seconds not below it at all.\<close>

lemma short_timeout_not_before_tool:
  assumes "unat (dur_secs timeout) \<le> 5"
  shows "dur_secs timeout \<le> session_timeout_secs timeout"
proof -
  have "dur_secs timeout \<le> 5" using assms by (simp add: word_le_nat_alt)
  also have "\<dots> \<le> session_timeout_secs timeout" by (simp add: session_timeout_secs_def)
  finally show ?thesis .
qed

end
