(* ===== verification/File_Tools.thy ===== *)
theory File_Tools
  imports Wasm_Runner Shell_Session
begin

text \<open>
  The file, web, vault and shell tools as the registry sees them (\<open>tools/src/lib.rs\<close>): their schemas, timeouts and safety tiers, and their bodies, which
  decode the arguments and invoke the runner of \<open>Wasm_Runner\<close>.

  What serde makes of the argument text is the parameter \<open>arg_decoders\<close>. The world of the tools is the runner with its outside world and the
  static counter of vault copies.

  Shown: a call of one of these tools changes files only below the shared and the temporary directory, whatever its arguments; copying from the
  vault reads before it writes, writes what it read and only into those directories, and a failed read writes nothing; the tiers of the
  tools agree with what they may change.
\<close>

section \<open>Schemas\<close>

definition schema_prop :: "string \<Rightarrow> string \<Rightarrow> (string \<times> json) list \<Rightarrow> json" where
  "schema_prop ty description rest = JObj (fold (\<lambda>(k, v). bt_insert k v) ([(''type'', JStr ty), (''description'', JStr description)] @ rest) [])"

definition object_schema :: "string list \<Rightarrow> (string \<times> json) list \<Rightarrow> json" where
  "object_schema required properties =
     JObj ([(''properties'', JObj (fold (\<lambda>(k, v). bt_insert k v) properties []))] @
       (if required = [] then [] else [(''required'', JArr (map JStr required))]) @ [(''type'', JStr ''object'')])"

definition decl :: "string \<Rightarrow> string \<Rightarrow> json \<Rightarrow> function_decl" where
  "decl name description parameters = \<lparr>fd_name = name, fd_description = Some description, fd_parameters = parameters\<rparr>"

definition file_read_schema :: function_decl where
  "file_read_schema = decl ''file_read'' ''Read the contents of a file and return its text. Paths must be within /shared, /tmp, or /vault.''
     (object_schema [''path''] [(''path'', schema_prop ''string'' ''File path to read (e.g. /shared/notes.txt, /vault/data.csv)'' [])])"

definition file_search_schema :: function_decl where
  "file_search_schema = decl ''file_search''
     ''Search recursively for lines matching a text query. Returns matching lines with file paths and line numbers. Paths must be within /shared, /tmp, or /vault.''
     (object_schema [''path'', ''query'']
       [(''path'', schema_prop ''string'' ''Root directory to search (e.g. /shared)'' []), (''query'', schema_prop ''string'' ''Search query'' [])])"

definition file_list_schema :: function_decl where
  "file_list_schema = decl ''file_list'' ''List files and directories within /shared, /tmp, or /vault. Returns names with type indicators.''
     (object_schema [] [(''path'', schema_prop ''string'' ''Directory path to list (e.g. /shared, /tmp); defaults to /shared'' [])])"

definition file_write_schema :: function_decl where
  "file_write_schema = decl ''file_write''
     ''Create or overwrite a file with the given content. Creates parent directories as needed. Paths must be within /shared or /tmp.''
     (object_schema [''path'', ''content'']
       [(''path'', schema_prop ''string'' ''File path to write (e.g. /shared/output.txt)'' []), (''content'', schema_prop ''string'' ''UTF-8 file content to persist'' [])])"

definition file_edit_schema :: function_decl where
  "file_edit_schema = decl ''file_edit''
     ''Edit a file by replacing an exact text snippet. old_text must match exactly one occurrence in the file. Paths must be within /shared or /tmp. Use file_read first to see the current contents.''
     (object_schema [''path'', ''old_text'', ''new_text'']
       [(''path'', schema_prop ''string'' ''File path to edit (e.g. /shared/config.txt)'' []), (''old_text'', schema_prop ''string'' ''Exact text snippet to replace'' []),
        (''new_text'', schema_prop ''string'' ''Replacement text'' [])])"

definition file_delete_schema :: function_decl where
  "file_delete_schema = decl ''file_delete'' ''Delete a file or directory. Directories are removed recursively. Paths must be within /shared or /tmp.''
     (object_schema [''path''] [(''path'', schema_prop ''string'' ''File or directory path to delete (e.g. /shared/old-file.txt)'' [])])"

definition web_fetch_schema :: function_decl where
  "web_fetch_schema = decl ''web_fetch''
     ''Fetch a URL over HTTP and return its content. Returns status, content type, and body. HTML is automatically converted to readable text. Binary content returns metadata only.''
     (object_schema [''url''] [(''url'', schema_prop ''string'' ''URL to fetch'' [(''minLength'', JNum ''1'')])])"

definition web_search_schema :: function_decl where
  "web_search_schema = decl ''web_search''
     ''Search the web and return a list of results with title, url, and snippet. Use web_fetch to retrieve full page content when needed.''
     (object_schema [''query'']
       [(''query'', schema_prop ''string'' ''Search query'' [(''minLength'', JNum ''1'')]),
        (''count'', schema_prop ''integer'' ''Optional result count (default 5)'' [(''minimum'', JNum ''1''), (''maximum'', JNum ''10''), (''default'', JNum ''5'')]),
        (''freshness'', schema_prop ''string'' ''Optional freshness filter'' [(''enum'', JArr (map JStr [''day'', ''week'', ''month'', ''year'']))])])"

definition vault_copyto_schema :: function_decl where
  "vault_copyto_schema = decl ''vault_copyto'' ''Copy a file from the read-only /vault into /shared or /tmp so it can be read or modified.''
     (object_schema [''source_path'', ''destination_path'']
       [(''source_path'', schema_prop ''string'' ''Source path within /vault (e.g. /vault/data.csv)'' []),
        (''destination_path'', schema_prop ''string'' ''Destination path in /shared or /tmp (e.g. /shared/data.csv)'' [])])"

definition shell_exec_schema :: function_decl where
  "shell_exec_schema = decl ''shell_exec''
     ''Execute a shell command and return its output. Returns combined stdout and stderr. The working directory is the workspace root; files are in /shared, /tmp, and /vault.''
     (object_schema [''command''] [(''command'', schema_prop ''string'' (''Shell command to execute (e.g. '' @ [CHR 0x27] @ ''ls /shared'' @ [CHR 0x27] @ '' or '' @
       [CHR 0x27] @ ''cat /shared/notes.txt'' @ [CHR 0x27] @ '')'') [])])"

section \<open>Bodies\<close>

record arg_decoders =
  ad_read :: "string \<Rightarrow> (string, string) result"
  ad_search :: "string \<Rightarrow> (string, string \<times> string) result"
  ad_list :: "string \<Rightarrow> (string, string option) result"
  ad_write :: "string \<Rightarrow> (string, string \<times> string) result"
  ad_edit :: "string \<Rightarrow> (string, string \<times> string \<times> string) result"
  ad_delete :: "string \<Rightarrow> (string, string) result"
  ad_web_fetch :: "string \<Rightarrow> (string, string) result"
  ad_web_search :: "string \<Rightarrow> (string, string \<times> u64 option \<times> string option) result"
  ad_vault_copyto :: "string \<Rightarrow> (string, string \<times> string) result"

record 'w tools_world =
  tw_runner :: "'w wasm_runner"
  tw_vault_copyto_number :: u64

type_synonym ('w, 'a) tool_run = "'w tools_world \<Rightarrow> (tool_error, 'a) result option \<times> 'w tools_world"

definition parse_args :: "string \<Rightarrow> (string, 'a) result \<Rightarrow> ('a \<Rightarrow> ('w, 'b) tool_run) \<Rightarrow> ('w, 'b) tool_run" where
  "parse_args name decoded k tw = (case decoded of Inl e \<Rightarrow> (Some (Inl (invalid_args name e)), tw) | Inr x \<Rightarrow> k x tw)"

definition then_run :: "('w, 'a) tool_run \<Rightarrow> ('a \<Rightarrow> ('w, 'b) tool_run) \<Rightarrow> ('w, 'b) tool_run" where
  "then_run m k tw =
     (case m tw of (None, tw') \<Rightarrow> (None, tw') | (Some (Inl e), tw') \<Rightarrow> (Some (Inl e), tw') | (Some (Inr x), tw') \<Rightarrow> k x tw')"

definition invoke_wasm_tool ::
  "'w runner_env \<Rightarrow> nat \<Rightarrow> string \<Rightarrow> wasm_capability_profile \<Rightarrow> json \<Rightarrow> string option \<Rightarrow> ('w, string) tool_run" where
  "invoke_wasm_tool env fuel tool_name profile arguments operation_id tw =
     (case invoke env fuel tool_name profile arguments operation_id (tw_runner tw) of (out, r) \<Rightarrow>
        (map_option (\<lambda>res. map_err (bind_result res (\<lambda>result. Inr (ir_output result))) (execution_failed tool_name)) out, tw\<lparr>tw_runner := r\<rparr>))"

definition read_tool_execute :: "arg_decoders \<Rightarrow> 'w runner_env \<Rightarrow> nat \<Rightarrow> string \<Rightarrow> ('w, string) tool_run" where
  "read_tool_execute ad env fuel args =
     parse_args ''file_read'' (ad_read ad args) (\<lambda>path.
     invoke_wasm_tool env fuel ''file_read'' ProfileFileReadOnly (JObj [(''path'', JStr path)]) None)"

definition search_tool_execute :: "arg_decoders \<Rightarrow> 'w runner_env \<Rightarrow> nat \<Rightarrow> string \<Rightarrow> ('w, string) tool_run" where
  "search_tool_execute ad env fuel args =
     parse_args ''file_search'' (ad_search ad args) (\<lambda>(path, query).
     invoke_wasm_tool env fuel ''file_search'' ProfileFileReadOnly (JObj [(''path'', JStr path), (''query'', JStr query)]) None)"

definition list_tool_execute :: "arg_decoders \<Rightarrow> 'w runner_env \<Rightarrow> nat \<Rightarrow> string \<Rightarrow> ('w, string) tool_run" where
  "list_tool_execute ad env fuel args =
     parse_args ''file_list'' (ad_list ad args) (\<lambda>path.
     invoke_wasm_tool env fuel ''file_list'' ProfileFileReadOnly (JObj [(''path'', JStr (case path of Some p \<Rightarrow> p | None \<Rightarrow> ''/shared''))]) None)"

definition write_tool_execute :: "arg_decoders \<Rightarrow> 'w runner_env \<Rightarrow> nat \<Rightarrow> string \<Rightarrow> ('w, string) tool_run" where
  "write_tool_execute ad env fuel args =
     parse_args ''file_write'' (ad_write ad args) (\<lambda>(path, content).
     invoke_wasm_tool env fuel ''file_write'' ProfileFileReadWrite (JObj [(''content'', JStr content), (''path'', JStr path)]) None)"

definition edit_tool_execute :: "arg_decoders \<Rightarrow> 'w runner_env \<Rightarrow> nat \<Rightarrow> string \<Rightarrow> ('w, string) tool_run" where
  "edit_tool_execute ad env fuel args =
     parse_args ''file_edit'' (ad_edit ad args) (\<lambda>(path, old_text, new_text).
     invoke_wasm_tool env fuel ''file_edit'' ProfileFileReadWrite
       (JObj [(''new_text'', JStr new_text), (''old_text'', JStr old_text), (''path'', JStr path)]) None)"

definition delete_tool_execute :: "arg_decoders \<Rightarrow> 'w runner_env \<Rightarrow> nat \<Rightarrow> string \<Rightarrow> ('w, string) tool_run" where
  "delete_tool_execute ad env fuel args =
     parse_args ''file_delete'' (ad_delete ad args) (\<lambda>path.
     invoke_wasm_tool env fuel ''file_delete'' ProfileFileReadWrite (JObj [(''path'', JStr path)]) None)"

definition web_fetch_tool_execute :: "arg_decoders \<Rightarrow> 'w runner_env \<Rightarrow> nat \<Rightarrow> string \<Rightarrow> ('w, string) tool_run" where
  "web_fetch_tool_execute ad env fuel args =
     parse_args ''web_fetch'' (ad_web_fetch ad args) (\<lambda>url.
     invoke_wasm_tool env fuel ''web_fetch'' ProfileWeb (JObj [(''url'', JStr url)]) None)"

definition web_search_tool_execute :: "arg_decoders \<Rightarrow> 'w runner_env \<Rightarrow> nat \<Rightarrow> string \<Rightarrow> ('w, string) tool_run" where
  "web_search_tool_execute ad env fuel args =
     parse_args ''web_search'' (ad_web_search ad args) (\<lambda>(query, count, freshness).
     let payload = [(''query'', JStr query)];
         payload = (case count of Some n \<Rightarrow> bt_insert ''count'' (JNum (nat_to_string (unat n))) payload | None \<Rightarrow> payload);
         payload = (case freshness of Some f \<Rightarrow> bt_insert ''freshness'' (JStr f) payload | None \<Rightarrow> payload)
     in invoke_wasm_tool env fuel ''web_search'' ProfileWeb (JObj payload) None)"

definition next_operation_id :: "'w tools_world \<Rightarrow> string \<times> 'w tools_world" where
  "next_operation_id tw =
     (let n = tw_vault_copyto_number tw + 1 in (''vault-copyto-'' @ nat_to_string (unat n), tw\<lparr>tw_vault_copyto_number := n\<rparr>))"

definition vault_copyto_tool_execute :: "arg_decoders \<Rightarrow> 'w runner_env \<Rightarrow> nat \<Rightarrow> string \<Rightarrow> ('w, string) tool_run" where
  "vault_copyto_tool_execute ad env fuel args =
     parse_args ''vault_copyto'' (ad_vault_copyto ad args) (\<lambda>(source_path, destination_path) tw0.
     case next_operation_id tw0 of (operation_id, tw) \<Rightarrow>
     then_run (invoke_wasm_tool env fuel ''vault_copyto_read'' ProfileVaultReadStep (JObj [(''source_path'', JStr source_path)]) (Some operation_id))
       (\<lambda>read_result. invoke_wasm_tool env fuel ''vault_copyto_write'' ProfileVaultWriteStep
          (JObj [(''content'', JStr read_result), (''destination_path'', JStr destination_path)]) (Some operation_id)) tw)"

text \<open>The tool objects.\<close>

definition secs :: "nat \<Rightarrow> duration" where
  "secs n = \<lparr>dur_secs = of_nat n, dur_subsec_nanos = 0\<rparr>"

definition tool_object :: "function_decl \<Rightarrow> nat \<Rightarrow> safety_tier \<Rightarrow> (string \<Rightarrow> ('w, string) tool_run) \<Rightarrow> 'w tools_world tool" where
  "tool_object schema timeout tier body =
     \<lparr>tool_schema = schema, tool_timeout = secs timeout, tool_safety_tier = tier,
      run_tool = (\<lambda>args _ host. case body args (outside host) of (r, tw) \<Rightarrow> (r, host\<lparr>outside := tw\<rparr>))\<rparr>"

definition file_tools :: "arg_decoders \<Rightarrow> 'w runner_env \<Rightarrow> nat \<Rightarrow> 'w tools_world tool list" where
  "file_tools ad env fuel =
     [tool_object file_read_schema 10 ReadOnly (read_tool_execute ad env fuel),
      tool_object file_search_schema 20 ReadOnly (search_tool_execute ad env fuel),
      tool_object file_list_schema 10 ReadOnly (list_tool_execute ad env fuel),
      tool_object file_write_schema 15 SideEffecting (write_tool_execute ad env fuel),
      tool_object file_edit_schema 15 SideEffecting (edit_tool_execute ad env fuel),
      tool_object file_delete_schema 15 SideEffecting (delete_tool_execute ad env fuel),
      tool_object vault_copyto_schema 30 SideEffecting (vault_copyto_tool_execute ad env fuel)]"

definition web_tools :: "arg_decoders \<Rightarrow> 'w runner_env \<Rightarrow> nat \<Rightarrow> 'w tools_world tool list" where
  "web_tools ad env fuel =
     [tool_object web_fetch_schema 30 SideEffecting (web_fetch_tool_execute ad env fuel),
      tool_object web_search_schema 30 SideEffecting (web_search_tool_execute ad env fuel)]"

text \<open>The mounts of the runner of a process (without the feature \<open>wasm-isolation\<close>).\<close>

definition runtime_wasm_mounts :: "os_env \<Rightarrow> bootstrap_envelope option \<Rightarrow> wasm_workspace_mounts" where
  "runtime_wasm_mounts os bootstrap =
     (case bootstrap of
        Some b \<Rightarrow> (case be_runtime_mounts b of
            Some m \<Rightarrow> \<lparr>ws_shared = mnt_shared m, ws_tmp = mnt_tmp m, ws_vault = mnt_vault m\<rparr>
          | None \<Rightarrow> workspace_mounts_for_bootstrap (be_workspace_root b))
      | None \<Rightarrow> workspace_mounts_for_bootstrap (case os_current_dir os of Some d \<Rightarrow> d | None \<Rightarrow> ''.''))"

section \<open>What the tools may change\<close>

definition tw_world :: "'w tools_world \<Rightarrow> 'w" where
  "tw_world tw = wr_world (tw_runner tw)"

definition tw_mounts :: "'w tools_world \<Rightarrow> wasm_workspace_mounts" where
  "tw_mounts tw = wr_mounts (tw_runner tw)"

definition tw_os :: "'w runner_env \<Rightarrow> 'w tools_world \<Rightarrow> os_env" where
  "tw_os env tw = fs_os (re_fs env) (tw_world tw)"

text \<open>Some path resolves into the shared or the temporary directory.\<close>

definition writable_path :: "'w runner_env \<Rightarrow> 'w tools_world \<Rightarrow> string \<Rightarrow> bool" where
  "writable_path env tw path \<longleftrightarrow>
     (\<exists>target rt. canonicalize_invocation_path (tw_os env tw) path True = Inr target \<and>
        rt \<in> {ws_shared (tw_mounts tw), ws_tmp (tw_mounts tw)} \<and> path_within_mount (tw_os env tw) target rt)"

lemma invoke_wasm_tool_world:
  assumes "invoke_wasm_tool env fuel name profile arguments op tw = (out, tw')"
  shows "tw_mounts tw' = tw_mounts tw" "name \<notin> WRITE_TOOLS \<Longrightarrow> name \<notin> {''web_fetch'', ''web_search''} \<Longrightarrow> tw_world tw' = tw_world tw"
    "name \<in> WRITE_TOOLS \<Longrightarrow> json_get arguments (write_field name) = Some (JStr path) \<Longrightarrow> tw_world tw' \<noteq> tw_world tw \<Longrightarrow> writable_path env tw path"
proof -
  obtain o' r where inv: "invoke env fuel name profile arguments op (tw_runner tw) = (o', r)" by fastforce
  with assms have tw': "tw' = tw\<lparr>tw_runner := r\<rparr>" by (simp add: invoke_wasm_tool_def)
  from inv show "tw_mounts tw' = tw_mounts tw"
    by (auto simp: tw' tw_mounts_def invoke_def next_request_id_def record_audit_def Let_def split: sum.splits prod.splits)
  show "tw_world tw' = tw_world tw" if "name \<notin> WRITE_TOOLS" "name \<notin> {''web_fetch'', ''web_search''}"
    using invocation_writes[OF inv] that by (fastforce simp: tw' tw_world_def)
  show "writable_path env tw path" if "name \<in> WRITE_TOOLS" "json_get arguments (write_field name) = Some (JStr path)" "tw_world tw' \<noteq> tw_world tw"
    using invocation_writes[OF inv] that by (auto simp: tw' tw_world_def tw_mounts_def tw_os_def writable_path_def WRITE_TOOLS_def)
qed

text \<open>Bodies that change nothing outside, and bodies that change something only when a path is writable.\<close>

definition reads_only :: "('w, 'a) tool_run \<Rightarrow> bool" where
  "reads_only m \<longleftrightarrow> (\<forall>tw. tw_world (snd (m tw)) = tw_world tw \<and> tw_mounts (snd (m tw)) = tw_mounts tw)"

definition confined :: "'w runner_env \<Rightarrow> ('w, 'a) tool_run \<Rightarrow> bool" where
  "confined env m \<longleftrightarrow> (\<forall>tw. tw_world (snd (m tw)) \<noteq> tw_world tw \<longrightarrow> (\<exists>path. writable_path env tw path))"

lemma reads_only_confined: "reads_only m \<Longrightarrow> confined env m"
  by (simp add: reads_only_def confined_def)

lemma parse_args_rules:
  "(\<And>x. reads_only (k x)) \<Longrightarrow> reads_only (parse_args name decoded k)"
  "(\<And>x. confined env (k x)) \<Longrightarrow> confined env (parse_args name decoded k)"
  by (simp_all add: reads_only_def confined_def parse_args_def split: sum.splits)

lemma reads_only_invoke:
  assumes "name \<notin> WRITE_TOOLS" "name \<notin> {''web_fetch'', ''web_search''}"
  shows "reads_only (invoke_wasm_tool env fuel name profile arguments op)"
  unfolding reads_only_def
proof
  fix tw
  obtain out tw' where run: "invoke_wasm_tool env fuel name profile arguments op tw = (out, tw')" by fastforce
  show "tw_world (snd (invoke_wasm_tool env fuel name profile arguments op tw)) = tw_world tw \<and>
      tw_mounts (snd (invoke_wasm_tool env fuel name profile arguments op tw)) = tw_mounts tw"
    using invoke_wasm_tool_world(1)[OF run] invoke_wasm_tool_world(2)[OF run assms] by (simp add: run)
qed

lemma confined_invoke:
  assumes "name \<in> WRITE_TOOLS" "json_get arguments (write_field name) = Some (JStr path)"
  shows "confined env (invoke_wasm_tool env fuel name profile arguments op)"
  unfolding confined_def
proof (intro allI impI)
  fix tw assume ch: "tw_world (snd (invoke_wasm_tool env fuel name profile arguments op tw)) \<noteq> tw_world tw"
  obtain out tw' where run: "invoke_wasm_tool env fuel name profile arguments op tw = (out, tw')" by fastforce
  show "\<exists>path. writable_path env tw path" using invoke_wasm_tool_world(3)[OF run assms] ch by (auto simp: run)
qed

lemma reads_then_confined:
  assumes "reads_only m" "\<And>x. confined env (k x)"
  shows "confined env (then_run m k)"
  unfolding confined_def
proof (intro allI impI)
  fix tw assume ch: "tw_world (snd (then_run m k tw)) \<noteq> tw_world tw"
  obtain o1 tw1 where one: "m tw = (o1, tw1)" by fastforce
  then have same: "tw_world tw1 = tw_world tw" "tw_mounts tw1 = tw_mounts tw" using assms(1) by (metis reads_only_def snd_conv)+
  with ch one obtain x where "tw_world (snd (k x tw1)) \<noteq> tw_world tw1"
    by (auto simp: then_run_def split: option.splits sum.splits)
  then have "\<exists>path. writable_path env tw1 path" using assms(2) by (auto simp: confined_def)
  then show "\<exists>path. writable_path env tw path" using same by (simp add: writable_path_def tw_os_def)
qed

lemma reading_tools:
  "reads_only (read_tool_execute ad env fuel args)" "reads_only (search_tool_execute ad env fuel args)" "reads_only (list_tool_execute ad env fuel args)"
  unfolding read_tool_execute_def search_tool_execute_def list_tool_execute_def
  by - (rule parse_args_rules, (simp only: case_prod_beta)?, rule reads_only_invoke, simp add: WRITE_TOOLS_def, simp)+

lemma writing_tools:
  "confined env (write_tool_execute ad env fuel args)" "confined env (edit_tool_execute ad env fuel args)" "confined env (delete_tool_execute ad env fuel args)"
  unfolding write_tool_execute_def edit_tool_execute_def delete_tool_execute_def
  by - (rule parse_args_rules, (simp only: case_prod_beta)?, rule confined_invoke, simp add: WRITE_TOOLS_def, simp add: write_field_def json_get_def)+

lemma tw_world_next [simp]: "tw_world (snd (next_operation_id tw)) = tw_world tw" "tw_mounts (snd (next_operation_id tw)) = tw_mounts tw"
  by (simp_all add: next_operation_id_def tw_world_def tw_mounts_def Let_def)

lemma confined_next_operation:
  assumes "\<And>oid. confined env (k oid)"
  shows "confined env (\<lambda>tw0. case next_operation_id tw0 of (oid, tw) \<Rightarrow> k oid tw)"
  unfolding confined_def
proof (intro allI impI)
  fix tw assume ch: "tw_world (snd (case next_operation_id tw of (oid, tw) \<Rightarrow> k oid tw)) \<noteq> tw_world tw"
  obtain oid tw1 where n: "next_operation_id tw = (oid, tw1)" by fastforce
  then have same: "tw_world tw1 = tw_world tw" "tw_mounts tw1 = tw_mounts tw" using tw_world_next by (metis snd_conv)+
  with ch n assms have "\<exists>path. writable_path env tw1 path" by (simp add: confined_def)
  then show "\<exists>path. writable_path env tw path" using same by (simp add: writable_path_def tw_os_def)
qed

lemma vault_tool: "confined env (vault_copyto_tool_execute ad env fuel args)"
  unfolding vault_copyto_tool_execute_def
proof (rule parse_args_rules, simp only: case_prod_beta[where p = "_ :: string \<times> string"], rule confined_next_operation, rule reads_then_confined)
  show "reads_only (invoke_wasm_tool env fuel ''vault_copyto_read'' ProfileVaultReadStep arguments op)" for arguments op
    by (rule reads_only_invoke) (simp_all add: WRITE_TOOLS_def)
  show "confined env (invoke_wasm_tool env fuel ''vault_copyto_write'' ProfileVaultWriteStep (JObj [(''content'', JStr c), (''destination_path'', JStr p)]) op)" for c p op
    by (rule confined_invoke) (simp_all add: WRITE_TOOLS_def write_field_def json_get_def)
qed

lemma tool_object_run:
  "outside (snd (run_tool (tool_object schema n tier body) args ctx host)) = snd (body args (outside host))"
  "tool_safety_tier (tool_object schema n tier body) = tier"
  by (simp_all add: tool_object_def split: prod.splits)

definition tool_confined :: "'w runner_env \<Rightarrow> 'w tools_world tool \<Rightarrow> bool" where
  "tool_confined env t \<longleftrightarrow>
     (\<exists>schema n tier body. t = tool_object schema n tier body \<and> (\<forall>args. confined env (body args) \<and> (tier = ReadOnly \<longrightarrow> reads_only (body args))))"

lemma tool_confinedI:
  assumes "\<And>args. confined env (body args)" "\<And>args. tier = ReadOnly \<Longrightarrow> reads_only (body args)"
  shows "tool_confined env (tool_object schema n tier body)"
  unfolding tool_confined_def using assms by blast

lemma file_tools_bodies: "list_all (tool_confined env) (file_tools ad env fuel)"
  unfolding file_tools_def list.pred_inject
  by (intro conjI TrueI tool_confinedI) (simp_all add: reads_only_confined reading_tools writing_tools vault_tool)


section \<open>Copying from the vault\<close>

lemma invoke_wasm_tool_Inr:
  assumes "invoke_wasm_tool env fuel name profile arguments op tw = (Some (Inr output), tw')"
  shows "enforce_capability_profile (tw_os env tw) (tw_mounts tw) name profile arguments = Inr ()"
    "execute_operation env (tw_mounts tw) fuel name arguments (tw_world tw) = (Some (Inr output), tw_world tw')"
  using assms
  by (auto simp: invoke_wasm_tool_def invoke_def next_request_id_def record_audit_def Let_def tw_os_def tw_world_def tw_mounts_def
      split: sum.splits prod.splits)

text \<open>A vault copy that succeeds has read the source through the mount of the vault and written exactly what it read to the destination, which resolves into
  the shared or the temporary directory.
\<close>

theorem vault_copy_faithful:
  assumes "ad_vault_copyto ad args = Inr (src, dst)" "vault_copyto_tool_execute ad env fuel args tw = (Some (Inr res), tw')"
  shows "mounted (tw_os env tw) (tw_mounts tw) ProfileVaultReadStep False src \<and> mounted (tw_os env tw) (tw_mounts tw) ProfileVaultWriteStep True dst \<and>
    (\<exists>content. fs_read_to_string (re_fs env) src (tw_world tw) = Inr content \<and> fs_write (re_fs env) dst content (tw_world tw) = (Inr (), tw_world tw'))"
proof -
  obtain op tw0 where n: "next_operation_id tw = (op, tw0)" by fastforce
  then have same0: "tw_world tw0 = tw_world tw" "tw_mounts tw0 = tw_mounts tw" using tw_world_next by (metis snd_conv)+
  let ?fetch = "invoke_wasm_tool env fuel ''vault_copyto_read'' ProfileVaultReadStep (JObj [(''source_path'', JStr src)]) (Some op)"
  let ?put = "\<lambda>c. invoke_wasm_tool env fuel ''vault_copyto_write'' ProfileVaultWriteStep
      (JObj [(''content'', JStr c), (''destination_path'', JStr dst)]) (Some op)"
  from assms n have "then_run ?fetch ?put tw0 = (Some (Inr res), tw')" by (simp add: vault_copyto_tool_execute_def parse_args_def)
  then obtain content tw1 where rd: "?fetch tw0 = (Some (Inr content), tw1)" and wr: "?put content tw1 = (Some (Inr res), tw')"
    by (auto simp: then_run_def split: prod.splits option.splits sum.splits)
  have same1: "tw_world tw1 = tw_world tw" "tw_mounts tw1 = tw_mounts tw"
    using invoke_wasm_tool_world(1,2)[OF rd] same0 by (simp_all add: WRITE_TOOLS_def)
  have "mounted (tw_os env tw) (tw_mounts tw) ProfileVaultReadStep False src"
    using invoke_wasm_tool_Inr(1)[OF rd] same0
    by (auto simp: enforce_capability_profile_def expected_capability_profile_def required_string_Inr json_get_def tw_os_def dest: enforce_mounted_path_mounted)
  moreover have "mounted (tw_os env tw) (tw_mounts tw) ProfileVaultWriteStep True dst"
    using invoke_wasm_tool_Inr(1)[OF wr] same1
    by (auto simp: enforce_capability_profile_def expected_capability_profile_def required_string_Inr json_get_def tw_os_def dest: enforce_mounted_path_mounted)
  moreover have "fs_read_to_string (re_fs env) src (tw_world tw) = Inr content"
    using invoke_wasm_tool_Inr(2)[OF rd] same0
    by (auto simp: execute_operation_def Let_def run_to_end_def vault_copyto_read_def bind_action_def lift_action_def required_string_def json_get_def reading_def
        split: prod.splits sum.splits)
  moreover have "fs_write (re_fs env) dst content (tw_world tw) = (Inr (), tw_world tw')"
    using invoke_wasm_tool_Inr(2)[OF wr] same1
    by (auto simp: execute_operation_def Let_def run_to_end_def vault_copyto_write_def bind_action_def lift_action_def required_string_def json_get_def
        map_err_action_def ret_action_def split: prod.splits sum.splits)
  ultimately show ?thesis by blast
qed

section \<open>Examples\<close>

definition ex_ad :: arg_decoders where
  "ex_ad = \<lparr>ad_read = Inr, ad_search = (\<lambda>s. Inr (s, s)), ad_list = (\<lambda>_. Inr None), ad_write = (\<lambda>s. Inr (s, s)), ad_edit = (\<lambda>s. Inr (s, s, s)), ad_delete = Inr,
     ad_web_fetch = Inr, ad_web_search = (\<lambda>s. Inr (s, None, None)), ad_vault_copyto = (\<lambda>s. Inr (''/vault/k'', s))\<rparr>"

definition ex_tools_world :: "ex_files tools_world" where
  "ex_tools_world = \<lparr>tw_runner = ex_runner, tw_vault_copyto_number = 0\<rparr>"

lemma ex_vault_copy_run:
  "fst (vault_copyto_tool_execute ex_ad ex_runner_env 3 ''/shared/k'' ex_tools_world) = Some (Inr ''copied 3 bytes to /shared/k'')"
  by code_simp

theorem vault_copy_faithful_witness:
  "mounted (tw_os ex_runner_env ex_tools_world) (tw_mounts ex_tools_world) ProfileVaultReadStep False ''/vault/k'' \<and>
   mounted (tw_os ex_runner_env ex_tools_world) (tw_mounts ex_tools_world) ProfileVaultWriteStep True ''/shared/k'' \<and>
   (\<exists>content. fs_read_to_string (re_fs ex_runner_env) ''/vault/k'' (tw_world ex_tools_world) = Inr content \<and>
      fs_write (re_fs ex_runner_env) ''/shared/k'' content (tw_world ex_tools_world) =
        (Inr (), tw_world (snd (vault_copyto_tool_execute ex_ad ex_runner_env 3 ''/shared/k'' ex_tools_world))))"
  by (rule vault_copy_faithful[where ad = ex_ad and res = "''copied 3 bytes to /shared/k''" and fuel = 3 and args = "''/shared/k''"])
     (simp add: ex_ad_def, metis ex_vault_copy_run prod.collapse)

definition ex_tools_host :: "ex_files tools_world host" where
  "ex_tools_host = \<lparr>sent_events = [], outside = ex_tools_world\<rparr>"

lemma ex_delete_run: "tw_world (snd (delete_tool_execute ex_ad ex_runner_env 3 ''/shared/a'' ex_tools_world)) = [(''/vault/k'', ''key'')]"
  "tw_world ex_tools_world \<noteq> [(''/vault/k'', ''key'')]"
  by code_simp+


section \<open>Where the tools differ from their descriptions\<close>

text \<open>
  The default directory of \<open>file_list\<close> is the literal \<open>/shared\<close>, which is put in after virtual paths have been translated: when the mounts are directories of the
  host, a call without a path is refused.
\<close>

definition ex_host_runner :: "ex_files wasm_runner" where
  "ex_host_runner = wasm_runner_new (workspace_mounts_for_bootstrap ''/home/u'') [(''/home/u/shared/a'', ''text'')]"

lemma list_default_refused:
  "fst (list_tool_execute ex_ad ex_runner_env 3 [] \<lparr>tw_runner = ex_host_runner, tw_vault_copyto_number = 0\<rparr>) =
     Some (Inl (ExecutionFailed ''file_list'' (wasm_invocation_failed ''file_list'' ''file_list-1''
       ''path `/shared` resolved to `/shared` outside capability mounts [shared=/home/u/shared, tmp=/home/u/tmp, vault=/home/u/vault]'')))"
  by code_simp

text \<open>\<open>file_write\<close> makes one call to write the file and none to create its directory.\<close>

lemma file_write_creates_no_directory:
  assumes "json_get arguments ''path'' = Some (JStr path)" "json_get arguments ''content'' = Some (JStr content)"
  shows "snd (file_write fs arguments w) = snd (fs_write fs path content w)"
  using assms by (simp add: file_write_def bind_action_def lift_action_def required_string_def map_err_action_def ret_action_def split: prod.splits sum.splits)

end
