(* ===== verification/Sse.thy ===== *)
theory Sse
  imports Provider_Response
begin

text \<open>
  Server-sent events (crate \<open>provider\<close>, the parsers of \<open>openai.rs\<close>): the bodies of streamed answers arrive as chunks of
  bytes that are cut anywhere, and \<open>SseDataParser\<close> and \<open>SseEventParser\<close> put the events together. The loop that reads
  the chunks, hands the events to the adapter and sends the resulting items is the same in the four adapters, up to the texts
  of its errors; it is \<open>read_loop\<close> here, with the parser and the handling of one event as arguments.

  A body is the list of its chunks and, when the connection breaks, the error of the transport. The receiver is taken to stay
  until the end.
\<close>

section \<open>UTF-8 validation\<close>

text \<open>\<open>std::str::from_utf8\<close>: the length of the next character, how many bytes of it are wrong, or that the text ends inside of it.\<close>

datatype utf8_step = ValidChar nat | InvalidBytes nat | IncompleteChar

definition byte_in :: "nat \<Rightarrow> nat \<Rightarrow> char \<Rightarrow> bool" where
  "byte_in lo hi c \<longleftrightarrow> lo \<le> of_char c \<and> of_char c \<le> (hi :: nat)"

fun utf8_tail :: "nat \<Rightarrow> nat \<Rightarrow> string \<Rightarrow> utf8_step" where
  "utf8_tail seen 0 bytes = ValidChar seen"
| "utf8_tail seen (Suc n) [] = IncompleteChar"
| "utf8_tail seen (Suc n) (b # bytes) = (if is_cont b then utf8_tail (Suc seen) n bytes else InvalidBytes seen)"

definition utf8_second :: "nat \<Rightarrow> nat \<Rightarrow> nat \<Rightarrow> string \<Rightarrow> utf8_step" where
  "utf8_second lo hi n bytes =
     (case bytes of [] \<Rightarrow> IncompleteChar | b # rest \<Rightarrow> if byte_in lo hi b then utf8_tail 2 n rest else InvalidBytes 1)"

definition utf8_char :: "char \<Rightarrow> string \<Rightarrow> utf8_step" where
  "utf8_char c bytes =
     (if byte_in 0 0x7F c then ValidChar 1
      else if byte_in 0xC2 0xDF c then utf8_second 0x80 0xBF 0 bytes
      else if byte_in 0xE0 0xE0 c then utf8_second 0xA0 0xBF 1 bytes
      else if byte_in 0xED 0xED c then utf8_second 0x80 0x9F 1 bytes
      else if byte_in 0xE1 0xEF c then utf8_second 0x80 0xBF 1 bytes
      else if byte_in 0xF0 0xF0 c then utf8_second 0x90 0xBF 2 bytes
      else if byte_in 0xF4 0xF4 c then utf8_second 0x80 0x8F 2 bytes
      else if byte_in 0xF1 0xF3 c then utf8_second 0x80 0xBF 2 bytes
      else InvalidBytes 1)"

function utf8_error :: "nat \<Rightarrow> string \<Rightarrow> string option" where
  "utf8_error i [] = None"
| "utf8_error i (c # bytes) =
     (case utf8_char c bytes of
        ValidChar n \<Rightarrow> utf8_error (i + n) (drop (n - 1) bytes)
      | InvalidBytes n \<Rightarrow> Some (''invalid utf-8 sequence of '' @ nat_to_string n @ '' bytes from index '' @ nat_to_string i)
      | IncompleteChar \<Rightarrow> Some (''incomplete utf-8 byte sequence from index '' @ nat_to_string i))"
  by pat_completeness auto
termination by (relation "measure (length \<circ> snd)") auto

definition from_utf8 :: "string \<Rightarrow> (string, string) result" where
  "from_utf8 bytes = (case utf8_error 0 bytes of None \<Rightarrow> Inr bytes | Some e \<Rightarrow> Inl e)"

section \<open>The parsers\<close>

record sse_data_parser =
  sdp_line_buffer :: string
  sdp_data_lines :: "string list"

definition sse_data_parser_default :: sse_data_parser where
  "sse_data_parser_default = \<lparr>sdp_line_buffer = [], sdp_data_lines = []\<rparr>"

definition strip_cr :: "string \<Rightarrow> string" where
  "strip_cr line = (if ends_with line [CHR 0x0D] then butlast line else line)"

definition strip_prefix :: "string \<Rightarrow> string \<Rightarrow> string option" where
  "strip_prefix pre s = (if starts_with s pre then Some (drop (length pre) s) else None)"

definition strip_space :: "string \<Rightarrow> string" where
  "strip_space v = (if starts_with v '' '' then tl v else v)"

definition data_flush_event :: "sse_data_parser \<times> string list \<Rightarrow> sse_data_parser \<times> string list" where
  "data_flush_event st =
     (case st of (p, payloads) \<Rightarrow>
        if sdp_data_lines p \<noteq> [] then (p\<lparr>sdp_data_lines := []\<rparr>, payloads @ [join nl (sdp_data_lines p)]) else (p, payloads))"

definition data_process_line :: "string \<Rightarrow> (sse_data_parser \<times> string list, string, unit) action" where
  "data_process_line line0 st =
     (let line = strip_cr line0 in
      if line = [] then (Inr (), data_flush_event st)
      else if starts_with line '':'' then (Inr (), st)
      else case strip_prefix ''data:'' line of
        None \<Rightarrow> (Inr (), st)
      | Some value \<Rightarrow>
          (case from_utf8 (strip_space value) of
             Inl e \<Rightarrow> (Inl (''invalid UTF-8 in SSE data line: '' @ e), st)
           | Inr d \<Rightarrow> (Inr (), (fst st)\<lparr>sdp_data_lines := sdp_data_lines (fst st) @ [d]\<rparr>, snd st)))"

definition data_push_byte :: "char \<Rightarrow> (sse_data_parser \<times> string list, string, unit) action" where
  "data_push_byte b st =
     (case st of (p, payloads) \<Rightarrow>
        if b = CHR 0x0A then data_process_line (sdp_line_buffer p) (p\<lparr>sdp_line_buffer := []\<rparr>, payloads)
        else (Inr (), p\<lparr>sdp_line_buffer := sdp_line_buffer p @ [b]\<rparr>, payloads))"

text \<open>The loop over the bytes of a chunk; the payloads are lost when a line fails.\<close>

fun feed :: "(char \<Rightarrow> ('s, 'e, unit) action) \<Rightarrow> string \<Rightarrow> ('s, 'e, unit) action" where
  "feed push [] = ret_action ()"
| "feed push (b # bs) = bind_action (push b) (\<lambda>_. feed push bs)"

definition push_chunk :: "(char \<Rightarrow> ('p \<times> 'o list, 'e, unit) action) \<Rightarrow> string \<Rightarrow> ('p, 'e, 'o list) action" where
  "push_chunk push chunk p =
     (case feed push chunk (p, []) of (r, (p', payloads)) \<Rightarrow> (bind_result r (\<lambda>_. Inr payloads), p'))"

definition data_finish :: "sse_data_parser \<Rightarrow> (string, string list) result" where
  "data_finish p =
     (let (r, st) = (if sdp_line_buffer p \<noteq> [] then data_process_line (sdp_line_buffer p) (p\<lparr>sdp_line_buffer := []\<rparr>, [])
                     else (Inr (), (p, [])))
      in bind_result r (\<lambda>_. Inr (snd (data_flush_event st))))"

record sse_event =
  ev_event_type :: "string option"
  ev_data :: string

record sse_event_parser =
  sep_line_buffer :: string
  sep_event_type :: "string option"
  sep_data_lines :: "string list"

definition sse_event_parser_default :: sse_event_parser where
  "sse_event_parser_default = \<lparr>sep_line_buffer = [], sep_event_type = None, sep_data_lines = []\<rparr>"

definition event_flush_event :: "sse_event_parser \<times> sse_event list \<Rightarrow> sse_event_parser \<times> sse_event list" where
  "event_flush_event st =
     (case st of (p, events) \<Rightarrow>
        if sep_data_lines p \<noteq> []
        then (p\<lparr>sep_event_type := None, sep_data_lines := []\<rparr>,
              events @ [\<lparr>ev_event_type = sep_event_type p, ev_data = join nl (sep_data_lines p)\<rparr>])
        else (p\<lparr>sep_event_type := None\<rparr>, events))"

definition event_process_line :: "string \<Rightarrow> (sse_event_parser \<times> sse_event list, string, unit) action" where
  "event_process_line line0 st =
     (let line = strip_cr line0 in
      if line = [] then (Inr (), event_flush_event st)
      else if starts_with line '':'' then (Inr (), st)
      else case strip_prefix ''event:'' line of
        Some value \<Rightarrow>
          (case from_utf8 (strip_space value) of
             Inl e \<Rightarrow> (Inl (''invalid UTF-8 in SSE event line: '' @ e), st)
           | Inr v \<Rightarrow> (Inr (), (fst st)\<lparr>sep_event_type := Some v\<rparr>, snd st))
      | None \<Rightarrow>
          (case strip_prefix ''data:'' line of
             None \<Rightarrow> (Inr (), st)
           | Some value \<Rightarrow>
               (case from_utf8 (strip_space value) of
                  Inl e \<Rightarrow> (Inl (''invalid UTF-8 in SSE data line: '' @ e), st)
                | Inr d \<Rightarrow> (Inr (), (fst st)\<lparr>sep_data_lines := sep_data_lines (fst st) @ [d]\<rparr>, snd st))))"

definition event_push_byte :: "char \<Rightarrow> (sse_event_parser \<times> sse_event list, string, unit) action" where
  "event_push_byte b st =
     (case st of (p, events) \<Rightarrow>
        if b = CHR 0x0A then event_process_line (sep_line_buffer p) (p\<lparr>sep_line_buffer := []\<rparr>, events)
        else (Inr (), p\<lparr>sep_line_buffer := sep_line_buffer p @ [b]\<rparr>, events))"

definition event_finish :: "sse_event_parser \<Rightarrow> (string, sse_event list) result" where
  "event_finish p =
     (let (r, st) = (if sep_line_buffer p \<noteq> [] then event_process_line (sep_line_buffer p) (p\<lparr>sep_line_buffer := []\<rparr>, [])
                     else (Inr (), (p, [])))
      in bind_result r (\<lambda>_. Inr (snd (event_flush_event st))))"

section \<open>The loop that reads a body\<close>

type_synonym sent = "(provider_error, stream_item) result"

text \<open>Handling one event gives the items to send, the new state of the adapter and whether the stream is over.\<close>

type_synonym ('o, 'a) handler = "'o \<Rightarrow> 'a \<Rightarrow> sent list \<times> 'a \<times> bool"

fun handle_all :: "('o, 'a) handler \<Rightarrow> 'o list \<Rightarrow> 'a \<Rightarrow> sent list \<times> 'a \<times> bool" where
  "handle_all h [] a = ([], a, False)"
| "handle_all h (ev # evs) a =
     (case h ev a of
        (items, a', True) \<Rightarrow> (items, a', True)
      | (items, a', False) \<Rightarrow> (case handle_all h evs a' of (more_items, a'', stop) \<Rightarrow> (items @ more_items, a'', stop)))"

record body =
  body_chunks :: "string list"
  body_broken :: "string option"

text \<open>The texts of an adapter, and what it sends at the end of a body that did not stop the stream.\<close>

record 'a stream_texts =
  st_dropped :: "string \<Rightarrow> string"
  st_parse_error :: "string \<Rightarrow> provider_error"
  st_at_end :: "'a \<Rightarrow> sent list"

fun read_loop ::
  "(char \<Rightarrow> ('p \<times> 'o list, string, unit) action) \<Rightarrow> ('p \<Rightarrow> (string, 'o list) result) \<Rightarrow> ('o, 'a) handler \<Rightarrow> 'a stream_texts \<Rightarrow>
   string option \<Rightarrow> string list \<Rightarrow> 'p \<Rightarrow> 'a \<Rightarrow> sent list \<times> 'a" where
  "read_loop push finish h tx broken [] p a =
     (case broken of
        Some e \<Rightarrow> ([Inr (SConnectionLost (st_dropped tx e))], a)
      | None \<Rightarrow>
          (case finish p of
             Inl m \<Rightarrow> ([Inl (st_parse_error tx m)], a)
           | Inr evs \<Rightarrow>
               (case handle_all h evs a of
                  (items, a', stop) \<Rightarrow> (items @ (if stop then [] else st_at_end tx a'), a'))))"
| "read_loop push finish h tx broken (chunk # chunks) p a =
     (case push_chunk push chunk p of
        (Inl m, p') \<Rightarrow> ([Inl (st_parse_error tx m)], a)
      | (Inr evs, p') \<Rightarrow>
          (case handle_all h evs a of
             (items, a', True) \<Rightarrow> (items, a')
           | (items, a', False) \<Rightarrow>
               (case read_loop push finish h tx broken chunks p' a' of (more_items, a'') \<Rightarrow> (items @ more_items, a''))))"

section \<open>Chunks do not matter\<close>

text \<open>
  The interface between a parser and the loop: handling a byte only appends to the events found so far, whatever they are. Then the
  events of a body are those of its bytes, however they are cut.
\<close>

lemma handle_all_append:
  "handle_all h (xs @ ys) a =
     (case handle_all h xs a of
        (items, a', True) \<Rightarrow> (items, a', True)
      | (items, a', False) \<Rightarrow> (case handle_all h ys a' of (more_items, a'', stop) \<Rightarrow> (items @ more_items, a'', stop)))"
  by (induction xs arbitrary: a) (auto split: prod.splits bool.splits)

locale chunk_parser =
  fixes push :: "char \<Rightarrow> ('p \<times> 'o list, string, unit) action"
  assumes push_appends: "push b (p, out) = (case push b (p, []) of (r, p', new) \<Rightarrow> (r, p', out @ new))"
begin

lemma feed_appends: "feed push bs (p, out) = (case feed push bs (p, []) of (r, p', new) \<Rightarrow> (r, p', out @ new))"
proof (induction bs arbitrary: p out)
  case Nil
  show ?case by (simp add: ret_action_def)
next
  case (Cons b bs)
  obtain r p1 new where one: "push b (p, []) = (r, p1, new)" by (metis prod_cases3)
  obtain r2 p2 new2 where rest: "feed push bs (p1, []) = (r2, p2, new2)" by (metis prod_cases3)
  show ?case
    by (cases r) (simp_all add: bind_action_def push_appends[of b p out] one Cons.IH[of p1 "out @ new"] Cons.IH[of p1 new] rest)
qed

lemma feed_append: "feed push (as @ bs) st = bind_action (feed push as) (\<lambda>_. feed push bs) st"
  by (induction as arbitrary: st) (auto simp: bind_action_def ret_action_def split: prod.splits sum.splits)

lemma feed_then: "feed push as st = (Inr u, st') \<Longrightarrow> feed push (as @ bs) st = feed push bs st'"
  by (simp add: feed_append bind_action_def)

lemma push_chunk_append:
  "push_chunk push (as @ bs) p =
     (case push_chunk push as p of
        (Inl e, p1) \<Rightarrow> (Inl e, p1)
      | (Inr evs, p1) \<Rightarrow> (case push_chunk push bs p1 of (r, p2) \<Rightarrow> (bind_result r (\<lambda>evs'. Inr (evs @ evs')), p2)))"
proof -
  obtain r p1 new where one: "feed push as (p, []) = (r, p1, new)" by (metis prod_cases3)
  obtain r2 p2 new2 where rest: "feed push bs (p1, []) = (r2, p2, new2)" by (metis prod_cases3)
  show ?thesis
    by (cases r; cases r2) (simp_all add: push_chunk_def feed_append bind_action_def one feed_appends[of bs p1 new] rest)
qed

lemma read_loop_concat:
  assumes "push_chunk push (concat chunks) p = (Inr evs, p')"
  shows "read_loop push finish h tx broken chunks p a =
    (case handle_all h evs a of
       (items, a', True) \<Rightarrow> (items, a')
     | (items, a', False) \<Rightarrow> (case read_loop push finish h tx broken [] p' a' of (more_items, a'') \<Rightarrow> (items @ more_items, a'')))"
  using assms
proof (induction chunks arbitrary: p a evs)
  case Nil
  then show ?case by (simp add: push_chunk_def ret_action_def split: option.splits sum.splits prod.splits)
next
  case (Cons chunk chunks)
  obtain evs1 p1 evs2 where one: "push_chunk push chunk p = (Inr evs1, p1)" and rest: "push_chunk push (concat chunks) p1 = (Inr evs2, p')"
    and evs: "evs = evs1 @ evs2"
    using Cons.prems push_chunk_append[of chunk "concat chunks" p] by (auto split: prod.splits sum.splits)
  have fin: "read_loop push finish h tx broken (chunk # chunks) p a =
      (case handle_all h evs1 a of
         (items, a', True) \<Rightarrow> (items, a')
       | (items, a', False) \<Rightarrow> (case read_loop push finish h tx broken chunks p1 a' of (more_items, a'') \<Rightarrow> (items @ more_items, a'')))"
    by (simp add: one)
  show ?case
    unfolding fin evs handle_all_append using Cons.IH[OF rest] by (auto simp del: read_loop.simps split: prod.splits bool.splits)
qed

lemma read_loop_cut:
  assumes "concat chunks = concat chunks'" "is_ok (fst (push_chunk push (concat chunks) p))"
  shows "read_loop push finish h tx broken chunks p a = read_loop push finish h tx broken chunks' p a"
proof (cases "push_chunk push (concat chunks) p")
  case (Pair r p')
  with assms(2) obtain evs where "push_chunk push (concat chunks) p = (Inr evs, p')" by (cases r) auto
  note all = read_loop_concat[OF this] read_loop_concat[OF this[unfolded assms(1)]]
  show ?thesis by (simp only: all)
qed

end

locale line_parser = chunk_parser push
  for push :: "char \<Rightarrow> ('p \<times> 'o list, string, unit) action" +
  fixes buf :: "'p \<Rightarrow> string" and set_buf :: "string \<Rightarrow> 'p \<Rightarrow> 'p" and line :: "string \<Rightarrow> ('p \<times> 'o list, string, unit) action"
  assumes push_lf: "push (CHR 0x0A) (p, out) = line (buf p) (set_buf [] p, out)"
    and push_other: "b \<noteq> CHR 0x0A \<Longrightarrow> push b (p, out) = (Inr (), set_buf (buf p @ [b]) p, out)"
    and buf_laws: "buf (set_buf s p) = s" "set_buf s (set_buf t p) = set_buf s p" "set_buf (buf p) p = p"
begin

lemma feed_line:
  assumes "CHR 0x0A \<notin> set l"
  shows "feed push (l @ nl) (p, out) = line (buf p @ l) (set_buf [] p, out)"
  using assms
proof (induction l arbitrary: p)
  case Nil
  then show ?case by (auto simp: nl_def bind_action_def push_lf ret_action_def split: prod.split sum.split)
next
  case (Cons b l)
  then have "b \<noteq> CHR 0x0A" by auto
  with Cons show ?case by (simp add: bind_action_def push_other buf_laws)
qed

lemma feed_line_start:
  assumes "CHR 0x0A \<notin> set l" "buf p = []"
  shows "feed push (l @ nl) (p, out) = line l (p, out)"
  using feed_line[OF assms(1), of p out] buf_laws(3)[of p] assms(2) by simp

lemma feed_lines:
  assumes "list_all (\<lambda>l. CHR 0x0A \<notin> set l \<and> (\<forall>p out. buf p = [] \<longrightarrow> line l (p, out) = (Inr (), act l p, out) \<and> buf (act l p) = [])) ls" "buf p = []"
  shows "feed push (concat (map (\<lambda>l. l @ nl) ls)) (p, out) = (Inr (), fold act ls p, out) \<and> buf (fold act ls p) = []"
  using assms
proof (induction ls arbitrary: p)
  case Nil
  then show ?case by (simp add: ret_action_def)
next
  case (Cons l ls)
  then have "feed push (l @ nl) (p, out) = (Inr (), act l p, out)" "buf (act l p) = []" using feed_line_start[of l p out] by auto
  then show ?case using Cons.IH[of "act l p"] Cons.prems(1) feed_append[of "l @ nl" "concat (map (\<lambda>l. l @ nl) ls)" "(p, out)"]
    by (simp add: bind_action_def)
qed

end

lemma data_process_appends:
  "data_process_line line (p, out) = (case data_process_line line (p, []) of (r, p', new) \<Rightarrow> (r, p', out @ new))"
  by (simp add: data_process_line_def data_flush_event_def Let_def split: option.split sum.split)

lemma event_process_appends:
  "event_process_line line (p, out) = (case event_process_line line (p, []) of (r, p', new) \<Rightarrow> (r, p', out @ new))"
  by (simp add: event_process_line_def event_flush_event_def Let_def split: option.split sum.split)

interpretation sse_data: line_parser data_push_byte sdp_line_buffer "\<lambda>s p. p\<lparr>sdp_line_buffer := s\<rparr>" data_process_line
proof
  show "data_push_byte b (p, out) = (case data_push_byte b (p, []) of (r, p', new) \<Rightarrow> (r, p', out @ new))" for b p out
    by (simp add: data_push_byte_def data_process_appends[of _ _ out])
qed (simp_all add: data_push_byte_def)

interpretation sse_events: line_parser event_push_byte sep_line_buffer "\<lambda>s p. p\<lparr>sep_line_buffer := s\<rparr>" event_process_line
proof
  show "event_push_byte b (p, out) = (case event_push_byte b (p, []) of (r, p', new) \<Rightarrow> (r, p', out @ new))" for b p out
    by (simp add: event_push_byte_def event_process_appends[of _ _ out])
qed (simp_all add: event_push_byte_def)

section \<open>Events round trip\<close>

text \<open>
  What a server writes: an event is a list of lines, each sent as a data field, and a blank line ends it. A line that can be
  sent is valid UTF-8 without a line feed and does not end in a carriage return.
\<close>

definition sse_line :: "string \<Rightarrow> bool" where
  "sse_line l \<longleftrightarrow> CHR 0x0A \<notin> set l \<and> \<not> ends_with l [CHR 0x0D] \<and> from_utf8 l = Inr l"

definition sse_payload :: "string list \<Rightarrow> bool" where
  "sse_payload ls \<longleftrightarrow> ls \<noteq> [] \<and> list_all sse_line ls"

definition encode_data :: "string list \<Rightarrow> string" where
  "encode_data ls = concat (map (\<lambda>l. ''data: '' @ l @ nl) ls) @ nl"

definition encode_event :: "string \<times> string list \<Rightarrow> string" where
  "encode_event ev = ''event: '' @ fst ev @ nl @ encode_data (snd ev)"

lemma ends_with_char: "ends_with s [c] \<longleftrightarrow> s \<noteq> [] \<and> last s = c"
  by (auto simp: ends_with_iff intro: exI[of _ "butlast s"])

lemma sent_line:
  assumes "sse_line l" "pre \<in> {''data: '', ''event: ''}"
  shows "strip_cr (pre @ l) = pre @ l" "CHR 0x0A \<notin> set (pre @ l)"
  using assms by (auto simp: sse_line_def strip_cr_def ends_with_char)

lemma data_line:
  assumes "sse_line l"
  shows "data_process_line (''data: '' @ l) (p, out) = (Inr (), p\<lparr>sdp_data_lines := sdp_data_lines p @ [l]\<rparr>, out)"
    "event_process_line (''data: '' @ l) (q, evs) = (Inr (), q\<lparr>sep_data_lines := sep_data_lines q @ [l]\<rparr>, evs)"
    "event_process_line (''event: '' @ l) (q, evs) = (Inr (), q\<lparr>sep_event_type := Some l\<rparr>, evs)"
  using assms sent_line[OF assms, of "''data: ''"] sent_line[OF assms, of "''event: ''"]
  by (simp_all add: data_process_line_def event_process_line_def strip_prefix_def strip_space_def sse_line_def)

lemma blank_line:
  "data_process_line [] st = (Inr (), data_flush_event st)" "event_process_line [] st' = (Inr (), event_flush_event st')"
  by (simp_all add: data_process_line_def event_process_line_def strip_cr_def ends_with_char)

lemma encode_data_lines: "encode_data ls = concat (map (\<lambda>l. l @ nl) (map (\<lambda>l. ''data: '' @ l) ls)) @ nl"
  by (simp add: encode_data_def comp_def)

lemma fold_data_lines:
  "fold (\<lambda>l p. p\<lparr>sdp_data_lines := sdp_data_lines p @ [drop 6 l]\<rparr>) (map (\<lambda>l. ''data: '' @ l) ls) p = p\<lparr>sdp_data_lines := sdp_data_lines p @ ls\<rparr>"
  "fold (\<lambda>l q. q\<lparr>sep_data_lines := sep_data_lines q @ [drop 6 l]\<rparr>) (map (\<lambda>l. ''data: '' @ l) ls) q = q\<lparr>sep_data_lines := sep_data_lines q @ ls\<rparr>"
  by (induction ls arbitrary: p q) simp_all

lemma feed_payload:
  assumes "sse_payload ls" "sdp_line_buffer p = []" "sdp_data_lines p = []"
  shows "feed data_push_byte (encode_data ls) (p, out) = (Inr (), p, out @ [join nl ls])"
proof -
  let ?act = "\<lambda>l p. p\<lparr>sdp_data_lines := sdp_data_lines p @ [drop 6 l]\<rparr>"
  have "list_all (\<lambda>l. CHR 0x0A \<notin> set l \<and> (\<forall>p out. sdp_line_buffer p = [] \<longrightarrow>
      data_process_line l (p, out) = (Inr (), ?act l p, out) \<and> sdp_line_buffer (?act l p) = [])) (map (\<lambda>l. ''data: '' @ l) ls)"
    using assms(1) by (auto simp: sse_payload_def list_all_iff data_line[unfolded append_Cons append_Nil] sse_line_def)
  from sse_data.feed_lines[OF this assms(2), of out] have
    "feed data_push_byte (concat (map (\<lambda>l. l @ nl) (map (\<lambda>l. ''data: '' @ l) ls))) (p, out) = (Inr (), p\<lparr>sdp_data_lines := ls\<rparr>, out)"
    using assms(3) by (simp only: fold_data_lines append_Nil)
  moreover have "feed data_push_byte nl (p\<lparr>sdp_data_lines := ls\<rparr>, out) = (Inr (), p, out @ [join nl ls])"
    using sse_data.feed_line_start[of "[]" "p\<lparr>sdp_data_lines := ls\<rparr>" out] assms
    by (simp add: blank_line data_flush_event_def sse_payload_def)
  ultimately show ?thesis by (simp only: encode_data_lines sse_data.feed_append bind_action_def) simp
qed

lemma feed_event:
  assumes "sse_line t" "sse_payload ls" "sep_line_buffer q = []" "sep_data_lines q = []" "sep_event_type q = None"
  shows "feed event_push_byte (encode_event (t, ls)) (q, out) = (Inr (), q, out @ [\<lparr>ev_event_type = Some t, ev_data = join nl ls\<rparr>])"
proof -
  let ?act = "\<lambda>l q. q\<lparr>sep_data_lines := sep_data_lines q @ [drop 6 l]\<rparr>" and ?q = "q\<lparr>sep_event_type := Some t\<rparr>"
  have "list_all (\<lambda>l. CHR 0x0A \<notin> set l \<and> (\<forall>q out. sep_line_buffer q = [] \<longrightarrow>
      event_process_line l (q, out) = (Inr (), ?act l q, out) \<and> sep_line_buffer (?act l q) = [])) (map (\<lambda>l. ''data: '' @ l) ls)"
    using assms(2) by (auto simp: sse_payload_def list_all_iff data_line[unfolded append_Cons append_Nil] sse_line_def)
  from sse_events.feed_lines[OF this, of ?q out] assms(3,4) have
    "feed event_push_byte (concat (map (\<lambda>l. l @ nl) (map (\<lambda>l. ''data: '' @ l) ls))) (?q, out) = (Inr (), ?q\<lparr>sep_data_lines := ls\<rparr>, out)"
    by (simp only: fold_data_lines) simp
  from sse_events.feed_then[OF this, of nl] have
    "feed event_push_byte (concat (map (\<lambda>l. l @ nl) (map (\<lambda>l. ''data: '' @ l) ls)) @ nl) (?q, out) = feed event_push_byte nl (?q\<lparr>sep_data_lines := ls\<rparr>, out)" .
  moreover have "feed event_push_byte nl (?q\<lparr>sep_data_lines := ls\<rparr>, out) = (Inr (), q, out @ [\<lparr>ev_event_type = Some t, ev_data = join nl ls\<rparr>])"
    using sse_events.feed_line_start[of "[]" "?q\<lparr>sep_data_lines := ls\<rparr>" out] assms
    by (simp add: blank_line event_flush_event_def sse_payload_def)
  moreover have first: "feed event_push_byte ((''event: '' @ t) @ nl) (q, out) = (Inr (), ?q, out)"
    by (subst sse_events.feed_line_start[OF sent_line(2)[OF assms(1)] assms(3)]) (simp_all only: data_line(3)[OF assms(1)] insert_iff simp_thms)
  moreover have "encode_event (t, ls) = ((''event: '' @ t) @ nl) @ concat (map (\<lambda>l. l @ nl) (map (\<lambda>l. ''data: '' @ l) ls)) @ nl"
    by (simp add: encode_event_def encode_data_lines)
  ultimately show ?thesis by (simp only: sse_events.feed_then[OF first])
qed

lemma feed_payloads:
  assumes "list_all sse_payload payloads" "sdp_line_buffer p = []" "sdp_data_lines p = []"
  shows "feed data_push_byte (concat (map encode_data payloads)) (p, out) = (Inr (), p, out @ map (join nl) payloads)"
  using assms(1)
  by (induction payloads arbitrary: out) (simp_all add: ret_action_def sse_data.feed_append bind_action_def feed_payload assms(2,3))

lemma feed_events:
  assumes "list_all (\<lambda>ev. sse_line (fst ev) \<and> sse_payload (snd ev)) events" "sep_line_buffer q = []" "sep_data_lines q = []" "sep_event_type q = None"
  shows "feed event_push_byte (concat (map encode_event events)) (q, out) =
    (Inr (), q, out @ map (\<lambda>ev. \<lparr>ev_event_type = Some (fst ev), ev_data = join nl (snd ev)\<rparr>) events)"
  using assms(1)
proof (induction events arbitrary: out)
  case (Cons ev events)
  then show ?case by (cases ev) (simp add: sse_events.feed_append bind_action_def feed_event assms(2-4))
qed (simp add: ret_action_def)

lemma read_data_body:
  assumes "list_all sse_payload payloads" "concat chunks = concat (map encode_data payloads)"
  shows "read_loop data_push_byte data_finish h tx broken chunks sse_data_parser_default a =
      (case handle_all h (map (join nl) payloads) a of
         (items, a', stop) \<Rightarrow> if stop then (items, a') else
           (items @ (case broken of Some e \<Rightarrow> [Inr (SConnectionLost (st_dropped tx e))] | None \<Rightarrow> st_at_end tx a'), a'))"
proof -
  have "push_chunk data_push_byte (concat chunks) sse_data_parser_default = (Inr (map (join nl) payloads), sse_data_parser_default)"
    by (simp add: push_chunk_def assms(2) feed_payloads[OF assms(1)] sse_data_parser_default_def)
  from sse_data.read_loop_concat[OF this, of data_finish h tx broken a] show ?thesis
    by (auto simp: data_finish_def data_flush_event_def sse_data_parser_default_def split: prod.splits bool.splits option.splits)
qed

lemma read_event_body:
  assumes "list_all (\<lambda>ev. sse_line (fst ev) \<and> sse_payload (snd ev)) events" "concat chunks = concat (map encode_event events)"
  shows "read_loop event_push_byte event_finish h tx broken chunks sse_event_parser_default a =
      (case handle_all h (map (\<lambda>ev. \<lparr>ev_event_type = Some (fst ev), ev_data = join nl (snd ev)\<rparr>) events) a of
         (items, a', stop) \<Rightarrow> if stop then (items, a') else
           (items @ (case broken of Some e \<Rightarrow> [Inr (SConnectionLost (st_dropped tx e))] | None \<Rightarrow> st_at_end tx a'), a'))"
proof -
  have "push_chunk event_push_byte (concat chunks) sse_event_parser_default =
      (Inr (map (\<lambda>ev. \<lparr>ev_event_type = Some (fst ev), ev_data = join nl (snd ev)\<rparr>) events), sse_event_parser_default)"
    by (simp add: push_chunk_def assms(2) feed_events[OF assms(1)] sse_event_parser_default_def)
  from sse_events.read_loop_concat[OF this, of event_finish h tx broken a] show ?thesis
    by (auto simp: event_finish_def event_flush_event_def sse_event_parser_default_def split: prod.splits bool.splits option.splits)
qed


text \<open>An example: one event whose bytes are cut in the middle of a line and before its last line feed.\<close>

definition ex_stream_texts :: "nat stream_texts" where
  "ex_stream_texts = \<lparr>st_dropped = (\<lambda>e. e), st_parse_error = (\<lambda>m. ResponseParse ''p'' m), st_at_end = (\<lambda>_. [])\<rparr>"

definition ex_count_handler :: "('o \<Rightarrow> string) \<Rightarrow> ('o, nat) handler" where
  "ex_count_handler txt ev n = ([Inr (SText (txt ev))], Suc n, False)"


text \<open>
  Events that are complete are lost when a later line of the same chunk is not valid UTF-8, while they are handled when the line
  comes in a chunk of its own.
\<close>

lemma complete_events_lost:
  "read_loop data_push_byte data_finish (ex_count_handler (\<lambda>s. s)) ex_stream_texts None [encode_data [''hi''] @ ''data: '' @ [CHR 0xFF] @ nl] sse_data_parser_default 0 =
     ([Inl (ResponseParse ''p'' ''invalid UTF-8 in SSE data line: invalid utf-8 sequence of 1 bytes from index 0'')], 0)"
  "read_loop data_push_byte data_finish (ex_count_handler (\<lambda>s. s)) ex_stream_texts None [encode_data [''hi''], ''data: '' @ [CHR 0xFF] @ nl] sse_data_parser_default 0 =
     ([Inr (SText ''hi''), Inl (ResponseParse ''p'' ''invalid UTF-8 in SSE data line: invalid utf-8 sequence of 1 bytes from index 0'')], 1)"
  by code_simp+

end
