(* ===== verification/Model_Catalog.thy ===== *)
theory Model_Catalog
  imports Core_Types
begin

text \<open>
  The model catalog (crate \<open>types\<close>: \<open>model.rs\<close>, \<open>provider.rs\<close>, the provider entries of \<open>config.rs\<close>): what is known of a model,
  the capabilities derived from it, and the overrides on top of them, first for its provider and then for the model itself.

  Ordered maps are lists of keys and values that are looked up with \<open>map_of\<close>; a set of input modalities is a set. The JSON form of the
  catalog and its files are not modelled.
\<close>

section \<open>Modalities\<close>

datatype input_modality = ModImage | ModAudio | ModVideo | ModPdf | ModDocument

definition from_models_dev :: "string \<Rightarrow> input_modality option" where
  "from_models_dev value =
     (let v = to_ascii_lowercase (trim value) in
      if v = ''image'' then Some ModImage
      else if v = ''audio'' then Some ModAudio
      else if v = ''video'' then Some ModVideo
      else if v = ''pdf'' then Some ModPdf
      else if v = ''document'' \<or> v = ''file'' then Some ModDocument
      else None)"

definition from_mime_type :: "string \<Rightarrow> input_modality" where
  "from_mime_type mime_type =
     (let normalized = to_ascii_lowercase (trim mime_type) in
      if starts_with normalized ''image/'' then ModImage
      else if starts_with normalized ''audio/'' then ModAudio
      else if starts_with normalized ''video/'' then ModVideo
      else if normalized = ''application/pdf'' then ModPdf
      else ModDocument)"

fun modality_as_str :: "input_modality \<Rightarrow> string" where
  "modality_as_str ModImage = ''image''"
| "modality_as_str ModAudio = ''audio''"
| "modality_as_str ModVideo = ''video''"
| "modality_as_str ModPdf = ''pdf''"
| "modality_as_str ModDocument = ''document''"

record model_input_caps =
  mic_supports_attachments :: bool
  mic_input_modalities :: "input_modality set"

definition input_caps_default :: model_input_caps where
  "input_caps_default = \<lparr>mic_supports_attachments = False, mic_input_modalities = {}\<rparr>"

definition accepts_modality :: "model_input_caps \<Rightarrow> input_modality \<Rightarrow> bool" where
  "accepts_modality caps modality \<longleftrightarrow> mic_supports_attachments caps \<and> modality \<in> mic_input_modalities caps"

section \<open>Descriptors\<close>

record modalities =
  mod_input :: "string list"
  mod_output :: "string list"

record model_cost =
  mcost_input :: f64
  mcost_output :: f64
  mcost_cache_read :: "f64 option"
  mcost_cache_write :: "f64 option"

record model_limits =
  ml_context :: u32
  ml_output :: u32

record model_descriptor =
  md_id :: string
  md_name :: string
  md_family :: "string option"
  md_attachment :: bool
  md_reasoning :: bool
  md_tool_call :: bool
  md_interleaved :: "string option"
  md_structured_output :: bool
  md_temperature :: bool
  md_knowledge :: "string option"
  md_release_date :: "string option"
  md_last_updated :: "string option"
  md_modalities :: modalities
  md_open_weights :: bool
  md_cost :: model_cost
  md_limit :: model_limits

record unknown_model_caps =
  umc_attachment :: "bool option"
  umc_input_modalities :: "string list option"
  umc_reasoning :: "bool option"
  umc_max_input_tokens :: "u32 option"
  umc_max_output_tokens :: "u32 option"
  umc_max_context_tokens :: "u32 option"

abbreviation unwrap_or :: "'a option \<Rightarrow> 'a \<Rightarrow> 'a" where
  "unwrap_or x d \<equiv> (case x of Some v \<Rightarrow> v | None \<Rightarrow> d)"

definition default_for_unknown :: "string \<Rightarrow> unknown_model_caps \<Rightarrow> model_descriptor" where
  "default_for_unknown model_id overrides =
     (let inferred_image_model = contains (to_ascii_lowercase model_id) ''image'';
          inferred_input_modalities = (if inferred_image_model then [''image''] else []) in
      \<lparr>md_id = model_id, md_name = model_id, md_family = None,
       md_attachment = unwrap_or (umc_attachment overrides) inferred_image_model,
       md_reasoning = unwrap_or (umc_reasoning overrides) False,
       md_tool_call = (\<not> inferred_image_model), md_interleaved = None, md_structured_output = False, md_temperature = True,
       md_knowledge = None, md_release_date = None, md_last_updated = None,
       md_modalities = \<lparr>mod_input = unwrap_or (umc_input_modalities overrides) inferred_input_modalities, mod_output = []\<rparr>,
       md_open_weights = False,
       md_cost = \<lparr>mcost_input = F_Fin 0, mcost_output = F_Fin 0, mcost_cache_read = None, mcost_cache_write = None\<rparr>,
       md_limit = \<lparr>ml_context = unwrap_or (umc_max_context_tokens overrides) 128000,
                   ml_output = unwrap_or (umc_max_output_tokens overrides) 16384\<rparr>\<rparr>)"

definition positive_limit :: "u32 \<Rightarrow> u32 option" where
  "positive_limit n = (if n > 0 then Some n else None)"

definition to_provider_caps :: "model_descriptor \<Rightarrow> provider_caps" where
  "to_provider_caps m =
     \<lparr>supports_streaming = True, supports_tools = md_tool_call m, supports_json_mode = md_structured_output m,
      supports_reasoning_traces = (md_reasoning m \<or> md_interleaved m \<noteq> None),
      max_input_tokens = positive_limit (ml_context (md_limit m)), max_output_tokens = positive_limit (ml_output (md_limit m)),
      max_context_tokens = positive_limit (ml_context (md_limit m))\<rparr>"

definition parsed_modalities :: "string list \<Rightarrow> input_modality set" where
  "parsed_modalities values = set (List.map_filter from_models_dev values)"

definition to_input_caps :: "model_descriptor \<Rightarrow> model_input_caps" where
  "to_input_caps m =
     (if \<not> md_attachment m then input_caps_default
      else \<lparr>mic_supports_attachments = True, mic_input_modalities = parsed_modalities (mod_input (md_modalities m))\<rparr>)"

section \<open>Overrides\<close>

record caps_override_entry =
  co_supports_streaming :: "bool option"
  co_supports_tools :: "bool option"
  co_supports_json_mode :: "bool option"
  co_supports_reasoning_traces :: "bool option"
  co_max_input_tokens :: "u32 option"
  co_max_output_tokens :: "u32 option"
  co_max_context_tokens :: "u32 option"
  co_attachment :: "bool option"
  co_input_modalities :: "string list option"
  co_deprecated :: "bool option"

record caps_overrides =
  cov_overrides :: "(string \<times> caps_override_entry) list"
  cov_provider_defaults :: "(string \<times> caps_override_entry) list"

definition model_key :: "string \<Rightarrow> string \<Rightarrow> string" where
  "model_key catalog_provider_id model_id = catalog_provider_id @ ''/'' @ model_id"

definition is_deprecated :: "caps_overrides \<Rightarrow> string \<Rightarrow> string \<Rightarrow> bool" where
  "is_deprecated ov catalog_provider_id model_id =
     unwrap_or (Option.bind (map_of (cov_overrides ov) (model_key catalog_provider_id model_id)) co_deprecated) False"

definition apply_override :: "caps_override_entry \<Rightarrow> provider_caps \<Rightarrow> provider_caps" where
  "apply_override e caps =
     \<lparr>supports_streaming = unwrap_or (co_supports_streaming e) (supports_streaming caps),
      supports_tools = unwrap_or (co_supports_tools e) (supports_tools caps),
      supports_json_mode = unwrap_or (co_supports_json_mode e) (supports_json_mode caps),
      supports_reasoning_traces = unwrap_or (co_supports_reasoning_traces e) (supports_reasoning_traces caps),
      max_input_tokens = (if co_max_input_tokens e \<noteq> None then co_max_input_tokens e else max_input_tokens caps),
      max_output_tokens = (if co_max_output_tokens e \<noteq> None then co_max_output_tokens e else max_output_tokens caps),
      max_context_tokens = (if co_max_context_tokens e \<noteq> None then co_max_context_tokens e else max_context_tokens caps)\<rparr>"

definition apply_input_override :: "caps_override_entry \<Rightarrow> model_input_caps \<Rightarrow> model_input_caps" where
  "apply_input_override e caps =
     (let caps1 = (case co_attachment e of
            None \<Rightarrow> caps
          | Some v \<Rightarrow> caps\<lparr>mic_supports_attachments := v, mic_input_modalities := (if v then mic_input_modalities caps else {})\<rparr>)
      in case co_input_modalities e of
           None \<Rightarrow> caps1
         | Some values \<Rightarrow> caps1\<lparr>mic_input_modalities := parsed_modalities values\<rparr>)"

definition derive_caps :: "string \<Rightarrow> model_descriptor \<Rightarrow> caps_overrides \<Rightarrow> provider_caps" where
  "derive_caps catalog_provider_id m ov =
     (let caps = to_provider_caps m;
          caps = (case map_of (cov_provider_defaults ov) catalog_provider_id of Some e \<Rightarrow> apply_override e caps | None \<Rightarrow> caps)
      in case map_of (cov_overrides ov) (model_key catalog_provider_id (md_id m)) of Some e \<Rightarrow> apply_override e caps | None \<Rightarrow> caps)"

definition derive_input_caps :: "string \<Rightarrow> model_descriptor \<Rightarrow> caps_overrides \<Rightarrow> model_input_caps" where
  "derive_input_caps catalog_provider_id m ov =
     (let caps = to_input_caps m;
          caps = (case map_of (cov_provider_defaults ov) catalog_provider_id of Some e \<Rightarrow> apply_input_override e caps | None \<Rightarrow> caps)
      in case map_of (cov_overrides ov) (model_key catalog_provider_id (md_id m)) of Some e \<Rightarrow> apply_input_override e caps | None \<Rightarrow> caps)"

section \<open>The catalog\<close>

record catalog_provider =
  cp_id :: string
  cp_name :: string
  cp_env :: "string list"
  cp_api :: "string option"
  cp_doc :: "string option"
  cp_models :: "(string \<times> model_descriptor) list"

record model_catalog =
  mcat_providers :: "(string \<times> catalog_provider) list"
  mcat_caps_overrides :: caps_overrides

definition catalog_new :: "(string \<times> catalog_provider) list \<Rightarrow> model_catalog" where
  "catalog_new providers = \<lparr>mcat_providers = providers, mcat_caps_overrides = \<lparr>cov_overrides = [], cov_provider_defaults = []\<rparr>\<rparr>"

definition with_caps_overrides :: "caps_overrides \<Rightarrow> model_catalog \<Rightarrow> model_catalog" where
  "with_caps_overrides ov c = c\<lparr>mcat_caps_overrides := ov\<rparr>"

definition catalog_get :: "model_catalog \<Rightarrow> string \<Rightarrow> string \<Rightarrow> model_descriptor option" where
  "catalog_get c prov model = Option.bind (map_of (mcat_providers c) prov) (\<lambda>cp. map_of (cp_models cp) model)"

definition catalog_validate :: "model_catalog \<Rightarrow> string \<Rightarrow> string \<Rightarrow> (provider_error, model_descriptor) result" where
  "catalog_validate c prov model = ok_or (catalog_get c prov model) (UnknownModel prov model)"

definition catalog_input_caps :: "model_catalog \<Rightarrow> string \<Rightarrow> string \<Rightarrow> (provider_error, model_input_caps) result" where
  "catalog_input_caps c prov model =
     bind_result (catalog_validate c prov model) (\<lambda>m. Inr (derive_input_caps prov m (mcat_caps_overrides c)))"

definition all_models :: "model_catalog \<Rightarrow> (string \<times> string \<times> model_descriptor) list" where
  "all_models c = concat (map (\<lambda>(pid, cp). map (\<lambda>(mid, m). (pid, mid, m)) (cp_models cp)) (mcat_providers c))"

text \<open>The method \<open>capabilities\<close> every provider inherits.\<close>

definition provider_capabilities :: "model_catalog \<Rightarrow> string \<Rightarrow> string \<Rightarrow> (provider_error, provider_caps) result" where
  "provider_capabilities catalog catalog_prov model =
     bind_result (catalog_validate catalog catalog_prov model) (\<lambda>m. Inr (derive_caps catalog_prov m (mcat_caps_overrides catalog)))"

section \<open>Provider entries of the configuration\<close>

datatype provider_type = Openai | Anthropic | Gemini | OpenaiResponses

record provider_registry_entry =
  pre_provider_type :: provider_type
  pre_base_url :: "string option"
  pre_api_key :: "string option"
  pre_api_key_env :: "string option"
  pre_extra_headers :: "(string \<times> string) list option"
  pre_catalog_provider :: "string option"
  pre_attachment :: "bool option"
  pre_input_modalities :: "string list option"
  pre_reasoning :: "bool option"
  pre_max_input_tokens :: "u32 option"
  pre_max_output_tokens :: "u32 option"
  pre_max_context_tokens :: "u32 option"

definition unknown_model_caps_of :: "provider_registry_entry \<Rightarrow> unknown_model_caps" where
  "unknown_model_caps_of e =
     \<lparr>umc_attachment = pre_attachment e, umc_input_modalities = pre_input_modalities e, umc_reasoning = pre_reasoning e,
      umc_max_input_tokens = pre_max_input_tokens e, umc_max_output_tokens = pre_max_output_tokens e,
      umc_max_context_tokens = pre_max_context_tokens e\<rparr>"

definition effective_catalog_provider :: "provider_registry_entry \<Rightarrow> string" where
  "effective_catalog_provider e =
     (case pre_catalog_provider e of
        Some cp \<Rightarrow> cp
      | None \<Rightarrow> (case pre_provider_type e of Openai \<Rightarrow> ''openai'' | Anthropic \<Rightarrow> ''anthropic'' | Gemini \<Rightarrow> ''google'' | OpenaiResponses \<Rightarrow> ''openai''))"

section \<open>What the overrides amount to\<close>

text \<open>The entries that apply to a model, the strongest first; a field is that of the first entry that sets it.\<close>

definition applying_entries :: "string \<Rightarrow> model_descriptor \<Rightarrow> caps_overrides \<Rightarrow> caps_override_entry list" where
  "applying_entries prov m ov =
     List.map_filter (\<lambda>x. x) [map_of (cov_overrides ov) (model_key prov (md_id m)), map_of (cov_provider_defaults ov) prov]"

fun first_set :: "(caps_override_entry \<Rightarrow> 'a option) \<Rightarrow> caps_override_entry list \<Rightarrow> 'a option" where
  "first_set f [] = None"
| "first_set f (e # es) = (case f e of Some v \<Rightarrow> Some v | None \<Rightarrow> first_set f es)"

lemma derive_caps_first_set:
  "derive_caps prov m ov =
     (let es = applying_entries prov m ov; base = to_provider_caps m in
      \<lparr>supports_streaming = unwrap_or (first_set co_supports_streaming es) (supports_streaming base),
       supports_tools = unwrap_or (first_set co_supports_tools es) (supports_tools base),
       supports_json_mode = unwrap_or (first_set co_supports_json_mode es) (supports_json_mode base),
       supports_reasoning_traces = unwrap_or (first_set co_supports_reasoning_traces es) (supports_reasoning_traces base),
       max_input_tokens = (case first_set co_max_input_tokens es of Some v \<Rightarrow> Some v | None \<Rightarrow> max_input_tokens base),
       max_output_tokens = (case first_set co_max_output_tokens es of Some v \<Rightarrow> Some v | None \<Rightarrow> max_output_tokens base),
       max_context_tokens = (case first_set co_max_context_tokens es of Some v \<Rightarrow> Some v | None \<Rightarrow> max_context_tokens base)\<rparr>)"
  by (cases "map_of (cov_overrides ov) (model_key prov (md_id m))"; cases "map_of (cov_provider_defaults ov) prov")
     (rule provider_caps.equality; simp add: derive_caps_def applying_entries_def apply_override_def List.map_filter_simps Let_def split: option.split)+

text \<open>
  Enabling attachments for a model that the catalog lists without them has no effect unless the override also lists the modalities:
  the modalities of the catalog entry were dropped before the override was looked at.
\<close>

lemma attachment_override_accepts_nothing:
  assumes "\<not> md_attachment m" "map_of (cov_provider_defaults ov) prov = None"
    "map_of (cov_overrides ov) (model_key prov (md_id m)) = Some e" "co_attachment e = Some True" "co_input_modalities e = None"
  shows "mic_supports_attachments (derive_input_caps prov m ov)" "\<not> accepts_modality (derive_input_caps prov m ov) modality"
  using assms
  by (simp_all add: derive_input_caps_def to_input_caps_def input_caps_default_def apply_input_override_def accepts_modality_def)

end
