(* ===== verification/Provider_Adapters.thy ===== *)
theory Provider_Adapters
  imports Sse Model_Catalog
begin

text \<open>
  What the adapters of the language models share (crate \<open>provider\<close>, \<open>lib.rs\<close>): the API key, the base URL, the checks of a context against
  the catalog, and the texts of HTTP errors. The requests themselves are in the theories of the four adapters.

  HTTP is the parameter \<open>post\<close>, a function of the request and the outside world; the JSON decoders are parameters too, one for
  each type the code decodes. The environment is a function from names to values.
\<close>

section \<open>Keys and URLs\<close>

definition provider_non_empty :: "string \<Rightarrow> string option" where
  "provider_non_empty value = (let trimmed = trim value in if trimmed = [] then None else Some trimmed)"

definition or_else :: "'a option \<Rightarrow> 'a option \<Rightarrow> 'a option" where
  "or_else a b = (case a of Some v \<Rightarrow> Some v | None \<Rightarrow> b)"

definition resolve_api_key_from_sources :: "string option \<Rightarrow> string option \<Rightarrow> string option \<Rightarrow> string option" where
  "resolve_api_key_from_sources explicit_api_key provider_specific_env_key fallback_env_key =
     or_else (Option.bind explicit_api_key provider_non_empty)
       (or_else (Option.bind provider_specific_env_key provider_non_empty) (Option.bind fallback_env_key provider_non_empty))"

fun provider_env_name :: "provider_type \<Rightarrow> string" where
  "provider_env_name Openai = ''OPENAI_API_KEY''"
| "provider_env_name OpenaiResponses = ''OPENAI_API_KEY''"
| "provider_env_name Anthropic = ''ANTHROPIC_API_KEY''"
| "provider_env_name Gemini = ''GEMINI_API_KEY''"

definition resolve_api_key_for_entry :: "(string \<Rightarrow> string option) \<Rightarrow> provider_registry_entry \<Rightarrow> string option" where
  "resolve_api_key_for_entry getenv entry =
     (let provider_env = getenv (provider_env_name (pre_provider_type entry));
          custom_env = Option.bind (pre_api_key_env entry) getenv
      in resolve_api_key_from_sources (pre_api_key entry) (or_else custom_env provider_env) (getenv ''API_KEY''))"

definition normalize_base_url_or_default :: "string \<Rightarrow> string \<Rightarrow> string" where
  "normalize_base_url_or_default base_url default_base_url =
     (let trimmed = trim base_url in
      if trimmed = [] then default_base_url else rev (dropWhile (\<lambda>c. c = CHR ''/'') (rev trimmed)))"

section \<open>An adapter\<close>

record adapter =
  ap_provider_id :: string
  ap_catalog_provider_id :: string
  ap_model_catalog :: model_catalog
  ap_base_url :: string
  ap_api_key :: string
  ap_extra_headers :: "(string \<times> string) list"

definition format_supported_modalities :: "input_modality list \<Rightarrow> string" where
  "format_supported_modalities modalities = (if modalities = [] then ''none'' else join '', '' (map modality_as_str modalities))"

text \<open>The two nested loops over messages and attachments.\<close>

fun check_attachments ::
  "llm_context \<Rightarrow> string \<Rightarrow> model_input_caps \<Rightarrow> input_modality list \<Rightarrow> nat \<Rightarrow> inline_media list \<Rightarrow> (provider_error, unit) result" where
  "check_attachments ctx prov caps transport i [] = Inr ()"
| "check_attachments ctx prov caps transport i (a # as) =
     (let modality = from_mime_type (im_mime_type a) in
      if \<not> accepts_modality caps modality
      then Inl (RequestFailed prov (''model `'' @ ctx_model ctx @ ''` does not support '' @ modality_as_str modality @ '' attachments (mime `'' @
             im_mime_type a @ ''`) at message index '' @ nat_to_string i))
      else if modality \<notin> set transport
      then Inl (RequestFailed prov (''provider `'' @ prov @ ''` endpoint does not support '' @ modality_as_str modality @ '' attachments (mime `'' @
             im_mime_type a @ ''`); supported: '' @ format_supported_modalities transport))
      else check_attachments ctx prov caps transport i as)"

fun check_messages ::
  "llm_context \<Rightarrow> string \<Rightarrow> model_input_caps \<Rightarrow> input_modality list \<Rightarrow> nat \<Rightarrow> message list \<Rightarrow> (provider_error, unit) result" where
  "check_messages ctx prov caps transport i [] = Inr ()"
| "check_messages ctx prov caps transport i (m # ms) =
     bind_result (check_attachments ctx prov caps transport i (msg_attachments m)) (\<lambda>_. check_messages ctx prov caps transport (Suc i) ms)"

definition validate_context_attachments ::
  "llm_context \<Rightarrow> string \<Rightarrow> string \<Rightarrow> model_catalog \<Rightarrow> input_modality list \<Rightarrow> (provider_error, unit) result" where
  "validate_context_attachments ctx prov catalog_prov catalog transport =
     (if list_all (\<lambda>m. msg_attachments m = []) (ctx_messages ctx) then Inr ()
      else bind_result (catalog_input_caps catalog catalog_prov (ctx_model ctx)) (\<lambda>caps.
        if \<not> mic_supports_attachments caps
        then Inl (RequestFailed prov (''model `'' @ ctx_model ctx @ ''` does not support attachments''))
        else check_messages ctx prov caps transport 0 (ctx_messages ctx)))"

definition validate_context :: "input_modality list \<Rightarrow> ('z adapter_scheme) \<Rightarrow> llm_context \<Rightarrow> (provider_error, unit) result" where
  "validate_context transport ap ctx =
     (if ctx_provider ctx \<noteq> ap_provider_id ap
      then Inl (RequestFailed (ap_provider_id ap)
             (''context provider `'' @ ctx_provider ctx @ ''` does not match provider `'' @ ap_provider_id ap @ ''`''))
      else bind_result (catalog_validate (ap_model_catalog ap) (ap_catalog_provider_id ap) (ctx_model ctx)) (\<lambda>_.
        validate_context_attachments ctx (ap_provider_id ap) (ap_catalog_provider_id ap) (ap_model_catalog ap) transport))"

section \<open>HTTP\<close>

record 'b http_request =
  hq_url :: string
  hq_headers :: "(string \<times> string) list"
  hq_body :: 'b

record http_reply =
  hr_status :: nat
  hr_text :: "(string, string) result"
  hr_body :: body

definition is_success :: "nat \<Rightarrow> bool" where
  "is_success status \<longleftrightarrow> 200 \<le> status \<and> status < 300"

text \<open>
  The decoders of the three error envelopes: \<open>None\<close> when the text is not one. The message of the first is required, the others are
  optional fields.
\<close>

record error_decoders =
  ed_openai :: "string \<Rightarrow> string option"
  ed_anthropic :: "string \<Rightarrow> (string option option \<times> string option) option"
  ed_gemini :: "string \<Rightarrow> string option option option"

definition truncate_message :: "string \<Rightarrow> string" where
  "truncate_message message = (if char_count message \<le> 512 then message else take_chars 512 message @ ''...'')"

definition envelope_message :: "error_decoders \<Rightarrow> string \<Rightarrow> string option" where
  "envelope_message ed body =
     or_else (Option.bind (ed_openai ed body) provider_non_empty)
       (or_else (Option.bind (ed_anthropic ed body) (\<lambda>(err, message).
          or_else (Option.bind (Option.bind err (\<lambda>m. m)) provider_non_empty) (Option.bind message provider_non_empty)))
         (Option.bind (Option.bind (Option.bind (ed_gemini ed body) (\<lambda>err. err)) (\<lambda>m. m)) provider_non_empty))"

definition extract_http_error_message :: "error_decoders \<Rightarrow> string \<Rightarrow> string" where
  "extract_http_error_message ed body =
     (case envelope_message ed body of
        Some message \<Rightarrow> truncate_message message
      | None \<Rightarrow> let trimmed = trim body in if trimmed = [] then ''empty error response from provider'' else truncate_message trimmed)"

definition http_status_error :: "error_decoders \<Rightarrow> string \<Rightarrow> http_reply \<Rightarrow> provider_error" where
  "http_status_error ed prov reply =
     HttpStatus prov (hr_status reply)
       (extract_http_error_message ed (case hr_text reply of Inr t \<Rightarrow> t | Inl e \<Rightarrow> ''unable to read error body: '' @ e))"

text \<open>Sending a request and checking the status, which the adapters for OpenAI, Anthropic and Gemini do alike.\<close>

definition send_checked ::
  "error_decoders \<Rightarrow> string \<Rightarrow> ('b http_request \<Rightarrow> 'w \<Rightarrow> (string, http_reply) result \<times> 'w) \<Rightarrow> 'b http_request \<Rightarrow>
   ('w, provider_error, http_reply) action" where
  "send_checked ed prov post request w =
     (case post request w of
        (Inl e, w') \<Rightarrow> (Inl (Transport prov e), w')
      | (Inr reply, w') \<Rightarrow> if is_success (hr_status reply) then (Inr reply, w') else (Inl (http_status_error ed prov reply), w'))"

section \<open>What the checks ensure\<close>

lemma check_attachments_iff:
  "check_attachments ctx prov caps transport i as = Inr () \<longleftrightarrow>
     list_all (\<lambda>a. accepts_modality caps (from_mime_type (im_mime_type a)) \<and> from_mime_type (im_mime_type a) \<in> set transport) as"
  by (induction as) (auto simp: Let_def)

lemma check_messages_iff:
  "check_messages ctx prov caps transport i ms = Inr () \<longleftrightarrow>
     list_all (\<lambda>m. list_all (\<lambda>a. accepts_modality caps (from_mime_type (im_mime_type a)) \<and> from_mime_type (im_mime_type a) \<in> set transport)
       (msg_attachments m)) ms"
  by (induction ms arbitrary: i) (auto simp: check_attachments_iff bind_result_Inr)

text \<open>The attachments of a context pass exactly when each is of a kind that both the model and the endpoint accept.\<close>

lemma context_attachments_accepted:
  "validate_context_attachments ctx prov catalog_prov catalog transport = Inr () \<longleftrightarrow>
     list_all (\<lambda>m. msg_attachments m = []) (ctx_messages ctx) \<or>
     (\<exists>caps. catalog_input_caps catalog catalog_prov (ctx_model ctx) = Inr caps \<and>
        list_all (\<lambda>m. list_all (\<lambda>a. accepts_modality caps (from_mime_type (im_mime_type a)) \<and> from_mime_type (im_mime_type a) \<in> set transport)
          (msg_attachments m)) (ctx_messages ctx))"
proof (cases "list_all (\<lambda>m. msg_attachments m = []) (ctx_messages ctx)")
  case False
  then obtain m where "m \<in> set (ctx_messages ctx)" "hd (msg_attachments m) \<in> set (msg_attachments m)" by (auto simp: list_all_iff)
  then have "mic_supports_attachments caps" if "list_all (\<lambda>m. list_all (\<lambda>a. accepts_modality caps (from_mime_type (im_mime_type a)) \<and>
      from_mime_type (im_mime_type a) \<in> set transport) (msg_attachments m)) (ctx_messages ctx)" for caps
    using that by (auto simp: list_all_iff accepts_modality_def)
  with False show ?thesis by (auto simp: validate_context_attachments_def bind_result_Inr check_messages_iff)
qed (simp add: validate_context_attachments_def)

text \<open>The key that is used is the first one that is not blank, without the blanks around it.\<close>

lemma provider_non_empty_Some: "provider_non_empty v = Some k \<longleftrightarrow> k = trim v \<and> k \<noteq> []"
  by (auto simp: provider_non_empty_def Let_def)

lemma api_key_first_source:
  "resolve_api_key_from_sources a b c =
     (case filter (\<lambda>v. trim v \<noteq> []) (List.map_filter (\<lambda>x. x) [a, b, c]) of [] \<Rightarrow> None | v # _ \<Rightarrow> Some (trim v))"
  by (cases a; cases b; cases c)
     (simp_all add: resolve_api_key_from_sources_def or_else_def provider_non_empty_def List.map_filter_simps Let_def)

text \<open>A custom variable that is set but blank hides the variable of the provider, although a blank value counts as no key everywhere else.\<close>

lemma blank_custom_variable_hides_key:
  assumes "pre_api_key e = None" "pre_api_key_env e = Some ''MY_KEY''" "getenv ''MY_KEY'' = Some []" "getenv ''API_KEY'' = None"
  shows "resolve_api_key_for_entry getenv e = None"
proof -
  have "trim [] = []" by code_simp
  then show ?thesis using assms by (simp add: resolve_api_key_for_entry_def resolve_api_key_from_sources_def or_else_def provider_non_empty_def)
qed

end
