(* ===== verification/OpenAI_Adapter.thy ===== *)
theory OpenAI_Adapter
  imports Provider_Adapters
begin

text \<open>
  The adapter for OpenAI chat completions (crate \<open>provider\<close>, \<open>openai.rs\<close>): the request built from a context, the schemas of the tools in
  strict mode, the answer of a completion, and the items of a streamed completion. \<open>b64\<close> is the base64 encoder, \<open>codec\<close> the JSON parser
  and printer, and the decoders of the responses are parameters. The JSON text of a request is not modelled, its fields are.
\<close>

section \<open>Requests\<close>

definition OPENAI_DEFAULT_BASE_URL :: string where
  "OPENAI_DEFAULT_BASE_URL = ''https://api.openai.com''"

definition OPENAI_CHAT_COMPLETIONS_PATH :: string where
  "OPENAI_CHAT_COMPLETIONS_PATH = ''/v1/chat/completions''"

record openai_request_tool_call =
  ort_id :: string
  ort_kind :: string
  ort_name :: string
  ort_arguments :: string

record openai_chat_message_request =
  ocm_role :: string
  ocm_content :: "json option"
  ocm_tool_calls :: "openai_request_tool_call list"
  ocm_tool_call_id :: "string option"

record openai_request_tool_definition =
  otd_kind :: string
  otd_name :: string
  otd_description :: "string option"
  otd_parameters :: json

record openai_chat_request =
  ocr_model :: string
  ocr_messages :: "openai_chat_message_request list"
  ocr_tools :: "openai_request_tool_definition list"
  ocr_tool_choice :: "string option"
  ocr_stream :: bool
  ocr_include_usage :: "bool option"

fun message_role_to_openai_role :: "message_role \<Rightarrow> string" where
  "message_role_to_openai_role RSystem = ''system''"
| "message_role_to_openai_role RUser = ''user''"
| "message_role_to_openai_role RAssistant = ''assistant''"
| "message_role_to_openai_role RTool = ''tool''"

definition openai_role_to_message_role :: "string \<Rightarrow> message_role option" where
  "openai_role_to_message_role role =
     (if role = ''system'' then Some RSystem
      else if role = ''user'' then Some RUser
      else if role = ''assistant'' then Some RAssistant
      else if role = ''tool'' then Some RTool
      else None)"

text \<open>Collecting an iterator of results: the first error, or all values.\<close>

fun collect_results :: "('e, 'a) result list \<Rightarrow> ('e, 'a list) result" where
  "collect_results [] = Inr []"
| "collect_results (r # rs) = bind_result r (\<lambda>x. bind_result (collect_results rs) (\<lambda>xs. Inr (x # xs)))"

definition data_url :: "(string \<Rightarrow> string) \<Rightarrow> inline_media \<Rightarrow> string" where
  "data_url b64 a = ''data:'' @ im_mime_type a @ '';base64,'' @ b64 (im_data a)"

definition image_attachments :: "message \<Rightarrow> inline_media list" where
  "image_attachments m = filter (\<lambda>a. starts_with (im_mime_type a) ''image/'') (msg_attachments m)"

definition openai_content :: "(string \<Rightarrow> string) \<Rightarrow> message \<Rightarrow> json option" where
  "openai_content b64 m =
     (if image_attachments m = [] then map_option JStr (msg_content m)
      else Some (JArr
        ((case msg_content m of None \<Rightarrow> [] | Some t \<Rightarrow> [JObj [(''text'', JStr t), (''type'', JStr ''text'')]]) @
         map (\<lambda>a. JObj [(''image_url'', JObj [(''url'', JStr (data_url b64 a))]), (''type'', JStr ''image_url'')]) (image_attachments m))))"

definition openai_request_tool_call_of :: "json_codec \<Rightarrow> tool_call \<Rightarrow> (provider_error, openai_request_tool_call) result" where
  "openai_request_tool_call_of codec tc =
     bind_result (map_err (to_json_string codec (tc_arguments tc)) ProviderSerialization) (\<lambda>arguments.
       Inr \<lparr>ort_id = tc_id tc, ort_kind = ''function'', ort_name = tc_name tc, ort_arguments = arguments\<rparr>)"

definition openai_message_of :: "json_codec \<Rightarrow> (string \<Rightarrow> string) \<Rightarrow> message \<Rightarrow> (provider_error, openai_chat_message_request) result" where
  "openai_message_of codec b64 m =
     bind_result (collect_results (map (openai_request_tool_call_of codec) (msg_tool_calls m))) (\<lambda>calls.
       Inr \<lparr>ocm_role = message_role_to_openai_role (msg_role m), ocm_content = openai_content b64 m, ocm_tool_calls = calls,
            ocm_tool_call_id = msg_tool_call_id m\<rparr>)"

subsection \<open>Schemas in strict mode\<close>

definition require_keys :: "string list \<Rightarrow> json list \<Rightarrow> json list" where
  "require_keys ks xs = fold (\<lambda>k xs. if JStr k \<in> set xs then xs else xs @ [JStr k]) ks xs"

definition property_keys :: "(string \<times> json) list \<Rightarrow> string list" where
  "property_keys kvs = (case Option.bind (map_of kvs ''properties'') as_object of Some ps \<Rightarrow> map fst ps | None \<Rightarrow> [])"

definition strict_object :: "(string \<times> json) list \<Rightarrow> (string \<times> json) list" where
  "strict_object kvs =
     (let all_keys = property_keys kvs;
          kvs1 = bt_insert ''additionalProperties'' (JBool False) kvs;
          required = (case map_of kvs1 ''required'' of Some r \<Rightarrow> r | None \<Rightarrow> JArr [])
      in bt_insert ''required'' (case required of JArr xs \<Rightarrow> JArr (require_keys all_keys xs) | r \<Rightarrow> r) kvs1)"

definition is_object_schema :: "(string \<times> json) list \<Rightarrow> bool" where
  "is_object_schema kvs \<longleftrightarrow> Option.bind (map_of kvs ''type'') as_str = Some ''object''"

definition mark_strict :: "(string \<times> json) list \<Rightarrow> (string \<times> json) list" where
  "mark_strict kvs = (if is_object_schema kvs then strict_object kvs else kvs)"

lemma mark_strict_lookup: "k \<notin> {''additionalProperties'', ''required''} \<Longrightarrow> map_of (mark_strict kvs) k = map_of kvs k"
  by (auto simp: mark_strict_def strict_object_def Let_def map_of_bt_insert)

lemma member_smaller: "map_of kvs k = Some j \<Longrightarrow> size j < size (JObj kvs)"
  by (induction kvs) (auto split: if_splits)

lemma property_smaller: "map_of kvs k = Some (JObj ps) \<Longrightarrow> (k', v) \<in> set ps \<Longrightarrow> size v < size (JObj kvs)"
proof -
  assume "map_of kvs k = Some (JObj ps)" "(k', v) \<in> set ps"
  moreover have "(k', v) \<in> set ps \<Longrightarrow> size v < size (JObj ps)" by (induction ps) auto
  ultimately show ?thesis using member_smaller[of kvs k "JObj ps"] by simp
qed

definition replace_member :: "string \<Rightarrow> json option \<Rightarrow> (string \<times> json) list \<Rightarrow> (string \<times> json) list" where
  "replace_member k v kvs = (case v of Some j \<Rightarrow> bt_insert k j kvs | None \<Rightarrow> kvs)"

function sanitize_schema_strict :: "json \<Rightarrow> json" where
  "sanitize_schema_strict (JObj kvs) =
     (let kvs1 = mark_strict kvs in
      JObj (replace_member ''items''
        (case map_of kvs1 ''items'' of Some items \<Rightarrow> Some (sanitize_schema_strict items) | None \<Rightarrow> None)
        (replace_member ''properties''
          (case map_of kvs1 ''properties'' of
             Some (JObj ps) \<Rightarrow> Some (JObj (map (\<lambda>(k, v). (k, sanitize_schema_strict v)) ps))
           | _ \<Rightarrow> None) kvs1)))"
| "sanitize_schema_strict JNull = JNull"
| "sanitize_schema_strict (JBool b) = JBool b"
| "sanitize_schema_strict (JNum n) = JNum n"
| "sanitize_schema_strict (JStr s) = JStr s"
| "sanitize_schema_strict (JArr xs) = JArr xs"
  by pat_completeness auto
termination
proof (relation "measure size")
  show "wf (measure (size :: json \<Rightarrow> nat))" by simp
  show "(v, JObj kvs) \<in> measure size"
    if "x = mark_strict kvs" "map_of x ''properties'' = Some y" "y = JObj ps" "z \<in> set ps" "(k, v) = z" for kvs x y ps z k v
    using that property_smaller[of kvs "''properties''" ps k v] by (simp add: mark_strict_lookup)
  show "(items, JObj kvs) \<in> measure size" if "x = mark_strict kvs" "map_of x ''items'' = Some items" for kvs x items
    using that member_smaller[of kvs "''items''" items] by (simp add: mark_strict_lookup)
qed

definition openai_tool_definition_of :: "function_decl \<Rightarrow> openai_request_tool_definition" where
  "openai_tool_definition_of d =
     \<lparr>otd_kind = ''function'', otd_name = fd_name d, otd_description = fd_description d,
      otd_parameters = sanitize_schema_strict (fd_parameters d)\<rparr>"

definition openai_request_of :: "json_codec \<Rightarrow> (string \<Rightarrow> string) \<Rightarrow> llm_context \<Rightarrow> bool \<Rightarrow> (provider_error, openai_chat_request) result" where
  "openai_request_of codec b64 ctx stream =
     bind_result (collect_results (map (openai_message_of codec b64) (ctx_messages ctx))) (\<lambda>messages.
       let tools = map openai_tool_definition_of (ctx_tools ctx) in
       Inr \<lparr>ocr_model = ctx_model ctx, ocr_messages = messages, ocr_tools = tools,
            ocr_tool_choice = (if tools \<noteq> [] then Some ''auto'' else None), ocr_stream = stream,
            ocr_include_usage = (if stream then Some True else None)\<rparr>)"

section \<open>Responses\<close>

record openai_usage =
  ou_prompt_tokens :: "u64 option"
  ou_completion_tokens :: "u64 option"
  ou_total_tokens :: "u64 option"

record openai_response_tool_call =
  ortc_id :: string
  ortc_kind :: string
  ortc_name :: string
  ortc_arguments :: string

record openai_chat_message_response =
  omr_role :: string
  omr_content :: "string option"
  omr_tool_calls :: "openai_response_tool_call list"

record openai_choice =
  oc_message :: openai_chat_message_response
  oc_finish_reason :: "string option"

record openai_chat_response =
  ocs_choices :: "openai_choice list"
  ocs_usage :: "openai_usage option"

definition openai_usage_update :: "openai_usage \<Rightarrow> usage_update" where
  "openai_usage_update u =
     \<lparr>prompt_tokens = ou_prompt_tokens u, completion_tokens = ou_completion_tokens u, total_tokens = ou_total_tokens u\<rparr>"

definition normalize_openai_tool_call :: "json_codec \<Rightarrow> string \<Rightarrow> openai_response_tool_call \<Rightarrow> (provider_error, tool_call) result" where
  "normalize_openai_tool_call codec prov tc =
     (if ortc_kind tc \<noteq> ''function''
      then Inl (ResponseParse prov (''unsupported OpenAI tool call type `'' @ ortc_kind tc @ ''`''))
      else bind_result (map_err (from_str codec (ortc_arguments tc))
             (\<lambda>e. ResponseParse prov (''invalid OpenAI tool call arguments for `'' @ ortc_id tc @ ''`: '' @ e))) (\<lambda>arguments.
             Inr \<lparr>tc_id = ortc_id tc, tc_name = ortc_name tc, tc_arguments = arguments, tc_metadata = None\<rparr>))"

definition normalize_openai_message :: "json_codec \<Rightarrow> string \<Rightarrow> openai_chat_message_response \<Rightarrow> (provider_error, message) result" where
  "normalize_openai_message codec prov m =
     bind_result (ok_or (openai_role_to_message_role (omr_role m))
       (ResponseParse prov (''unsupported OpenAI role `'' @ omr_role m @ ''`''))) (\<lambda>role.
     bind_result (collect_results (map (normalize_openai_tool_call codec prov) (omr_tool_calls m))) (\<lambda>calls.
     Inr \<lparr>msg_role = role, msg_content = omr_content m, msg_tool_calls = calls, msg_tool_call_id = None, msg_attachments = []\<rparr>))"

definition normalize_openai_response :: "json_codec \<Rightarrow> string \<Rightarrow> openai_chat_response \<Rightarrow> (provider_error, response) result" where
  "normalize_openai_response codec prov r =
     (case ocs_choices r of
        [] \<Rightarrow> Inl (ResponseParse prov ''OpenAI response did not contain any choices'')
      | choice # _ \<Rightarrow>
          bind_result (normalize_openai_message codec prov (oc_message choice)) (\<lambda>message.
            Inr \<lparr>rsp_message = message, rsp_tool_calls = msg_tool_calls message, rsp_finish_reason = oc_finish_reason choice,
                 rsp_usage = map_option openai_usage_update (ocs_usage r)\<rparr>))"

section \<open>Streams\<close>

record openai_stream_tool_call_delta =
  osd_index :: nat
  osd_id :: "string option"
  osd_name :: "string option"
  osd_arguments :: "string option"

record openai_stream_choice =
  osc_content :: "string option"
  osc_reasoning :: "string option"
  osc_tool_calls :: "openai_stream_tool_call_delta list"
  osc_finish_reason :: "string option"

record openai_stream_chunk =
  osk_choices :: "openai_stream_choice list"
  osk_usage :: "openai_usage option"

record openai_accumulator_entry =
  oae_id :: "string option"
  oae_name :: "string option"
  oae_arguments :: string

type_synonym openai_accumulator = "(nat \<times> openai_accumulator_entry) list"

definition openai_accumulator_merge :: "openai_stream_tool_call_delta \<Rightarrow> openai_accumulator \<Rightarrow> tool_call_delta \<times> openai_accumulator" where
  "openai_accumulator_merge d acc =
     (let e = (case map_of acc (osd_index d) of Some e \<Rightarrow> e | None \<Rightarrow> \<lparr>oae_id = None, oae_name = None, oae_arguments = []\<rparr>);
          e = (case osd_id d of Some i \<Rightarrow> e\<lparr>oae_id := Some i\<rparr> | None \<Rightarrow> e);
          e = (case osd_name d of Some n \<Rightarrow> e\<lparr>oae_name := Some n\<rparr> | None \<Rightarrow> e);
          e = (case osd_arguments d of Some a \<Rightarrow> e\<lparr>oae_arguments := oae_arguments e @ a\<rparr> | None \<Rightarrow> e)
      in (\<lparr>tcd_index = osd_index d, tcd_id = oae_id e, tcd_name = oae_name e, tcd_arguments = osd_arguments d, tcd_metadata = None\<rparr>,
          bt_insert (osd_index d) e acc))"

fun openai_delta_items :: "openai_stream_tool_call_delta list \<Rightarrow> openai_accumulator \<Rightarrow> stream_item list \<times> openai_accumulator" where
  "openai_delta_items [] acc = ([], acc)"
| "openai_delta_items (d # ds) acc =
     (if osd_id d = None \<and> osd_name d = None \<and> osd_arguments d = None then openai_delta_items ds acc
      else case openai_accumulator_merge d acc of
        (delta, acc') \<Rightarrow> (case openai_delta_items ds acc' of (items, acc'') \<Rightarrow> (SToolCallDelta delta # items, acc'')))"

definition non_empty_item :: "(string \<Rightarrow> stream_item) \<Rightarrow> string option \<Rightarrow> stream_item list" where
  "non_empty_item f t = (case t of Some s \<Rightarrow> if s = [] then [] else [f s] | None \<Rightarrow> [])"

fun openai_choice_items :: "openai_stream_choice list \<Rightarrow> openai_accumulator \<Rightarrow> stream_item list \<times> openai_accumulator" where
  "openai_choice_items [] acc = ([], acc)"
| "openai_choice_items (c # cs) acc =
     (case openai_delta_items (osc_tool_calls c) acc of
        (deltas, acc') \<Rightarrow>
          (case openai_choice_items cs acc' of
             (items, acc'') \<Rightarrow>
               (non_empty_item SText (osc_content c) @ non_empty_item SReasoningDelta (osc_reasoning c) @ deltas @
                non_empty_item SFinishReason (osc_finish_reason c) @ items, acc'')))"

definition normalize_openai_stream_chunk :: "openai_stream_chunk \<Rightarrow> openai_accumulator \<Rightarrow> stream_item list \<times> openai_accumulator" where
  "normalize_openai_stream_chunk chunk acc =
     (case openai_choice_items (osk_choices chunk) acc of
        (items, acc') \<Rightarrow> ((case osk_usage chunk of Some u \<Rightarrow> [SUsageUpdate (openai_usage_update u)] | None \<Rightarrow> []) @ items, acc'))"

definition parse_openai_stream_payload ::
  "(string \<Rightarrow> (string, openai_stream_chunk) result) \<Rightarrow> string \<Rightarrow> string \<Rightarrow> (provider_error, openai_stream_chunk option) result" where
  "parse_openai_stream_payload decode prov payload =
     (let trimmed = trim payload in
      if trimmed = [] then Inr (Some \<lparr>osk_choices = [], osk_usage = None\<rparr>)
      else if trimmed = ''[DONE]'' then Inr None
      else bind_result (map_err (decode trimmed) (\<lambda>e. ResponseParse prov (''failed to parse OpenAI streaming payload: '' @ e))) (\<lambda>chunk. Inr (Some chunk)))"

definition openai_handle :: "(string \<Rightarrow> (string, openai_stream_chunk) result) \<Rightarrow> string \<Rightarrow> (string, openai_accumulator) handler" where
  "openai_handle decode prov payload acc =
     (case parse_openai_stream_payload decode prov payload of
        Inr (Some chunk) \<Rightarrow> (case normalize_openai_stream_chunk chunk acc of (items, acc') \<Rightarrow> (map Inr items, acc', False))
      | Inr None \<Rightarrow> ([], acc, True)
      | Inl e \<Rightarrow> ([Inl e], acc, True))"

definition openai_texts :: "string \<Rightarrow> openai_accumulator stream_texts" where
  "openai_texts prov =
     \<lparr>st_dropped = (\<lambda>e. ''OpenAI stream transport dropped: '' @ e), st_parse_error = ResponseParse prov,
      st_at_end = (\<lambda>_. [Inr (SConnectionLost ''OpenAI stream ended before [DONE] sentinel'')])\<rparr>"

definition openai_stream_items :: "(string \<Rightarrow> (string, openai_stream_chunk) result) \<Rightarrow> string \<Rightarrow> body \<Rightarrow> sent list" where
  "openai_stream_items decode prov b =
     fst (read_loop data_push_byte data_finish (openai_handle decode prov) (openai_texts prov) (body_broken b) (body_chunks b)
            sse_data_parser_default [])"

section \<open>The provider\<close>

definition openai_new :: "string \<Rightarrow> string \<Rightarrow> string \<Rightarrow> string \<Rightarrow> (string \<times> string) list \<Rightarrow> model_catalog \<Rightarrow> adapter" where
  "openai_new provider_id catalog_provider_id api_key base_url extra_headers catalog =
     \<lparr>ap_provider_id = provider_id, ap_catalog_provider_id = catalog_provider_id, ap_model_catalog = catalog,
      ap_base_url = normalize_base_url_or_default base_url OPENAI_DEFAULT_BASE_URL, ap_api_key = api_key, ap_extra_headers = extra_headers\<rparr>"

definition chat_completions_url :: "adapter \<Rightarrow> string" where
  "chat_completions_url ap = ap_base_url ap @ OPENAI_CHAT_COMPLETIONS_PATH"

definition bearer_request :: "('z adapter_scheme) \<Rightarrow> string \<Rightarrow> 'b \<Rightarrow> 'b http_request" where
  "bearer_request ap url request =
     \<lparr>hq_url = url, hq_headers = (''authorization'', ''Bearer '' @ ap_api_key ap) # ap_extra_headers ap, hq_body = request\<rparr>"

text \<open>The libraries an adapter calls: JSON, base64, HTTP and the decoders of the error bodies.\<close>

record ('b, 'w) adapter_env =
  ae_codec :: json_codec
  ae_b64 :: "string \<Rightarrow> string"
  ae_errors :: error_decoders
  ae_post :: "'b http_request \<Rightarrow> 'w \<Rightarrow> (string, http_reply) result \<times> 'w"

definition openai_complete ::
  "(openai_chat_request, 'w) adapter_env \<Rightarrow> (http_reply \<Rightarrow> (string, openai_chat_response) result) \<Rightarrow> adapter \<Rightarrow> llm_context \<Rightarrow>
   ('w, provider_error, response) action" where
  "openai_complete env decode ap ctx =
     bind_action (lift_action (validate_context [ModImage] ap ctx)) (\<lambda>_.
     bind_action (lift_action (openai_request_of (ae_codec env) (ae_b64 env) ctx False)) (\<lambda>request.
     bind_action (send_checked (ae_errors env) (ap_provider_id ap) (ae_post env) (bearer_request ap (chat_completions_url ap) request)) (\<lambda>reply.
     lift_action (bind_result (map_err (decode reply) (ResponseParse (ap_provider_id ap)))
       (normalize_openai_response (ae_codec env) (ap_provider_id ap))))))"

definition openai_stream ::
  "(openai_chat_request, 'w) adapter_env \<Rightarrow> (string \<Rightarrow> (string, openai_stream_chunk) result) \<Rightarrow> adapter \<Rightarrow> llm_context \<Rightarrow>
   ('w, provider_error, sent list) action" where
  "openai_stream env decode ap ctx =
     bind_action (lift_action (validate_context [ModImage] ap ctx)) (\<lambda>_.
     bind_action (lift_action (openai_request_of (ae_codec env) (ae_b64 env) ctx True)) (\<lambda>request.
     bind_action (send_checked (ae_errors env) (ap_provider_id ap) (ae_post env) (bearer_request ap (chat_completions_url ap) request)) (\<lambda>reply.
     ret_action (openai_stream_items decode (ap_provider_id ap) (hr_body reply)))))"

section \<open>Schemas sent are strict\<close>

text \<open>The schemas inside a schema, as far as the adapter looks for them: below properties and items.\<close>

inductive subschema :: "json \<Rightarrow> json \<Rightarrow> bool" for j where
  sub_self: "subschema j j"
| sub_property: "subschema j (JObj kvs) \<Longrightarrow> map_of kvs ''properties'' = Some (JObj ps) \<Longrightarrow> (k, v) \<in> set ps \<Longrightarrow> subschema j v"
| sub_items: "subschema j (JObj kvs) \<Longrightarrow> map_of kvs ''items'' = Some v \<Longrightarrow> subschema j v"

lemma replace_member_lookup: "map_of (replace_member k v kvs) k' = (if k' = k \<and> v \<noteq> None then v else map_of kvs k')"
  by (auto simp: replace_member_def map_of_bt_insert split: option.splits)

text \<open>
  The two adapters that rewrite schemas walk through them alike: an object is first marked, then its properties and its items are
  rewritten. The marks may not touch the two members of the walk.
\<close>

locale schema_walk =
  fixes mark :: "(string \<times> json) list \<Rightarrow> (string \<times> json) list"
    and sanitize :: "json \<Rightarrow> json"
  assumes walk_object: "sanitize (JObj kvs) =
      JObj (replace_member ''items'' (case map_of (mark kvs) ''items'' of Some items \<Rightarrow> Some (sanitize items) | None \<Rightarrow> None)
        (replace_member ''properties'' (case map_of (mark kvs) ''properties'' of
             Some (JObj ps) \<Rightarrow> Some (JObj (map (\<lambda>(k, v). (k, sanitize v)) ps)) | _ \<Rightarrow> None) (mark kvs)))"
    and walk_other: "sanitize j = JObj kvs' \<Longrightarrow> \<exists>kvs. j = JObj kvs"
    and mark_keeps: "k \<in> {''items'', ''properties''} \<Longrightarrow> map_of (mark kvs) k = map_of kvs k"
begin

lemma sanitize_object:
  obtains kvs' where "sanitize (JObj kvs) = JObj kvs'"
    "map_of kvs' ''items'' = map_option sanitize (map_of kvs ''items'')"
    "map_of kvs' ''properties'' = (case map_of kvs ''properties'' of
       Some (JObj ps) \<Rightarrow> Some (JObj (map (\<lambda>(k, v). (k, sanitize v)) ps)) | x \<Rightarrow> x)"
    "\<And>k. k \<notin> {''items'', ''properties''} \<Longrightarrow> map_of kvs' k = map_of (mark kvs) k"
  by (rule that, rule walk_object)
     (auto simp: replace_member_lookup mark_keeps split: option.splits json.splits)

lemma subschema_sanitize:
  assumes "subschema (sanitize j) s"
  shows "\<exists>t. subschema j t \<and> s = sanitize t"
  using assms
proof induction
  case sub_self
  then show ?case using subschema.sub_self by blast
next
  case (sub_property kvs' ps' k v)
  then obtain kvs where t: "subschema j (JObj kvs)" "JObj kvs' = sanitize (JObj kvs)" using walk_other by metis
  obtain kvs'' where "sanitize (JObj kvs) = JObj kvs''" "map_of kvs'' ''properties'' = (case map_of kvs ''properties'' of
       Some (JObj ps) \<Rightarrow> Some (JObj (map (\<lambda>(k, v). (k, sanitize v)) ps)) | x \<Rightarrow> x)"
    by (rule sanitize_object)
  with t sub_property.hyps(2) obtain ps where "map_of kvs ''properties'' = Some (JObj ps)" "ps' = map (\<lambda>(k, v). (k, sanitize v)) ps"
    by (auto split: option.splits json.splits)
  then show ?case using sub_property.hyps(3) subschema.sub_property[OF t(1)] by auto
next
  case (sub_items kvs' v)
  then obtain kvs where t: "subschema j (JObj kvs)" "JObj kvs' = sanitize (JObj kvs)" using walk_other by metis
  obtain kvs'' where "sanitize (JObj kvs) = JObj kvs''" "map_of kvs'' ''items'' = map_option sanitize (map_of kvs ''items'')"
    by (rule sanitize_object)
  with t sub_items.hyps(2) obtain w where "map_of kvs ''items'' = Some w" "v = sanitize w" by auto
  then show ?case using subschema.sub_items[OF t(1)] by blast
qed

lemma subschema_marked:
  assumes "subschema (sanitize j) (JObj kvs)"
  obtains kvs0 where "subschema j (JObj kvs0)" "JObj kvs = sanitize (JObj kvs0)"
    "map_of kvs ''properties'' = (case map_of kvs0 ''properties'' of
       Some (JObj ps) \<Rightarrow> Some (JObj (map (\<lambda>(k, v). (k, sanitize v)) ps)) | x \<Rightarrow> x)"
    "\<And>k. k \<notin> {''items'', ''properties''} \<Longrightarrow> map_of kvs k = map_of (mark kvs0) k"
proof -
  from subschema_sanitize[OF assms] walk_other obtain kvs0 where t: "subschema j (JObj kvs0)" "JObj kvs = sanitize (JObj kvs0)" by metis
  show ?thesis by (rule sanitize_object[of kvs0], rule that[OF t]) (simp_all add: t(2)[symmetric])
qed

lemma property_keys_sanitized:
  assumes "map_of kvs' ''properties'' = (case map_of kvs ''properties'' of
       Some (JObj ps) \<Rightarrow> Some (JObj (map (\<lambda>(k, v). (k, sanitize v)) ps)) | x \<Rightarrow> x)"
  shows "property_keys kvs' = property_keys kvs"
  using assms by (auto simp: property_keys_def comp_def case_prod_beta split: option.splits json.splits)

end

interpretation strict: schema_walk mark_strict sanitize_schema_strict
proof
  show "\<exists>kvs. j = JObj kvs" if "sanitize_schema_strict j = JObj kvs'" for j kvs' using that by (cases j) auto
qed (auto simp: mark_strict_lookup Let_def)

lemma require_keys_set: "set (require_keys ks xs) = set xs \<union> JStr ` set ks"
  unfolding require_keys_def by (induction ks arbitrary: xs) auto

text \<open>Every schema of a tool that is sent to OpenAI is in strict form, at every depth that the adapter reaches: an object schema forbids
  additional properties and lists all of its properties as required (unless it has a field of this name that is not a list), and it
  has the properties it had before.\<close>

theorem openai_schemas_strict:
  assumes "openai_request_of codec b64 ctx stream = Inr request" "t \<in> set (ocr_tools request)"
    "subschema (otd_parameters t) (JObj kvs)" "is_object_schema kvs"
  shows "map_of kvs ''additionalProperties'' = Some (JBool False) \<and>
    (\<exists>r. map_of kvs ''required'' = Some r \<and> (case r of JArr xs \<Rightarrow> JStr ` set (property_keys kvs) \<subseteq> set xs | _ \<Rightarrow> True)) \<and>
    (\<exists>d kvs0. d \<in> set (ctx_tools ctx) \<and> otd_name t = fd_name d \<and> subschema (fd_parameters d) (JObj kvs0) \<and> is_object_schema kvs0 \<and>
       property_keys kvs = property_keys kvs0)"
proof -
  from assms(1,2) obtain d where d: "d \<in> set (ctx_tools ctx)" "t = openai_tool_definition_of d"
    by (auto simp: openai_request_of_def bind_result_Inr Let_def)
  from assms(3) have "subschema (sanitize_schema_strict (fd_parameters d)) (JObj kvs)" by (simp add: d(2) openai_tool_definition_of_def)
  then obtain kvs0 where t: "subschema (fd_parameters d) (JObj kvs0)"
    and props: "map_of kvs ''properties'' = (case map_of kvs0 ''properties'' of
       Some (JObj ps) \<Rightarrow> Some (JObj (map (\<lambda>(k, v). (k, sanitize_schema_strict v)) ps)) | x \<Rightarrow> x)"
    and other: "\<And>k. k \<notin> {''items'', ''properties''} \<Longrightarrow> map_of kvs k = map_of (mark_strict kvs0) k"
    by (rule strict.subschema_marked) blast
  have obj: "is_object_schema kvs0" using assms(4) other[of "''type''"] by (simp add: is_object_schema_def mark_strict_lookup)
  note keys = strict.property_keys_sanitized[OF props]
  have "map_of kvs ''additionalProperties'' = Some (JBool False)"
    using other[of "''additionalProperties''"] obj by (simp add: mark_strict_def strict_object_def Let_def map_of_bt_insert)
  moreover have "\<exists>r. map_of kvs ''required'' = Some r \<and> (case r of JArr xs \<Rightarrow> JStr ` set (property_keys kvs) \<subseteq> set xs | _ \<Rightarrow> True)"
    using other[of "''required''"] obj keys
    by (auto simp: mark_strict_def strict_object_def Let_def map_of_bt_insert require_keys_set split: option.splits json.splits)
  moreover have "otd_name t = fd_name d" by (simp add: d(2) openai_tool_definition_of_def)
  ultimately show ?thesis using t obj keys d(1) by blast
qed

section \<open>A streamed completion is put together completely\<close>

text \<open>A fragment as the server sent it, without the id and name the adapter has seen before.\<close>

definition raw_delta :: "openai_stream_tool_call_delta \<Rightarrow> tool_call_delta" where
  "raw_delta d = \<lparr>tcd_index = osd_index d, tcd_id = osd_id d, tcd_name = osd_name d, tcd_arguments = osd_arguments d, tcd_metadata = None\<rparr>"

definition delta_present :: "openai_stream_tool_call_delta \<Rightarrow> bool" where
  "delta_present d \<longleftrightarrow> osd_id d \<noteq> None \<or> osd_name d \<noteq> None \<or> osd_arguments d \<noteq> None"

text \<open>The adapter and the runtime have seen the same ids and names.\<close>

definition same_calls :: "openai_accumulator \<Rightarrow> accumulator \<Rightarrow> bool" where
  "same_calls acc acc' \<longleftrightarrow>
     (\<forall>i. map_option (\<lambda>e. (oae_id e, oae_name e)) (map_of acc i) = map_option (\<lambda>e. (ae_id e, ae_name e)) (map_of acc' i))"

lemma openai_accumulator_merge_eq:
  "openai_accumulator_merge d acc =
     (let old = (case map_of acc (osd_index d) of Some e \<Rightarrow> (oae_id e, oae_name e, oae_arguments e) | None \<Rightarrow> (None, None, []));
          i = or_else (osd_id d) (fst old); n = or_else (osd_name d) (fst (snd old));
          a = snd (snd old) @ (case osd_arguments d of Some a \<Rightarrow> a | None \<Rightarrow> [])
      in (\<lparr>tcd_index = osd_index d, tcd_id = i, tcd_name = n, tcd_arguments = osd_arguments d, tcd_metadata = None\<rparr>,
          bt_insert (osd_index d) \<lparr>oae_id = i, oae_name = n, oae_arguments = a\<rparr> acc))"
proof (cases "map_of acc (osd_index d)")
  case None
  then show ?thesis by (simp add: openai_accumulator_merge_def or_else_def Let_def split: option.split)
next
  case (Some e)
  then show ?thesis
    by (cases e; cases "osd_id d"; cases "osd_name d"; cases "osd_arguments d") (simp_all add: openai_accumulator_merge_def or_else_def Let_def)
qed

lemma merge_entry_eq:
  "merge_entry d e =
     \<lparr>ae_id = or_else (tcd_id d) (ae_id e), ae_name = or_else (tcd_name d) (ae_name e),
      ae_arguments = ae_arguments e @ (case tcd_arguments d of Some a \<Rightarrow> a | None \<Rightarrow> []), ae_metadata = or_else (ae_metadata e) (tcd_metadata d)\<rparr>"
  by (simp add: merge_entry_def or_else_def)

lemma or_else_idem: "or_else (or_else a b) b = or_else a b" "or_else a None = a"
  by (simp_all add: or_else_def split: option.splits)

lemma merge_transparent:
  assumes "same_calls acc acc'" "openai_accumulator_merge d acc = (delta, acc2)"
  shows "accumulator_merge delta acc' = accumulator_merge (raw_delta d) acc' \<and> same_calls acc2 (accumulator_merge (raw_delta d) acc')"
proof -
  let ?i = "osd_index d"
  have "map_option (\<lambda>e. (oae_id e, oae_name e)) (map_of acc ?i) = map_option (\<lambda>e. (ae_id e, ae_name e)) (map_of acc' ?i)"
    using assms(1) by (simp add: same_calls_def)
  then consider "map_of acc ?i = None" "map_of acc' ?i = None"
    | e e' where "map_of acc ?i = Some e" "map_of acc' ?i = Some e'" "oae_id e = ae_id e'" "oae_name e = ae_name e'"
    by (cases "map_of acc ?i"; cases "map_of acc' ?i") auto
  then show ?thesis
    using assms
    by cases (auto simp: openai_accumulator_merge_eq accumulator_merge_def merge_entry_eq raw_delta_def default_entry_def same_calls_def
        map_of_bt_insert or_else_idem Let_def)
qed

lemma deltas_transparent:
  assumes "same_calls acc acc'" "openai_delta_items ds acc = (items, acc2)"
  shows "fold accumulator_merge (deltas_of items) acc' = fold accumulator_merge (map raw_delta (filter delta_present ds)) acc' \<and>
    same_calls acc2 (fold accumulator_merge (map raw_delta (filter delta_present ds)) acc') \<and> list_all (\<lambda>it. \<exists>d. it = SToolCallDelta d) items"
  using assms
proof (induction ds arbitrary: acc acc' items)
  case Nil
  then show ?case by (simp add: deltas_of_def List.map_filter_simps)
next
  case (Cons d ds)
  show ?case
  proof (cases "delta_present d")
    case False
    then show ?thesis using Cons by (simp add: delta_present_def)
  next
    case True
    obtain delta acc1 where one: "openai_accumulator_merge d acc = (delta, acc1)" by fastforce
    obtain items1 where rest: "openai_delta_items ds acc1 = (items1, acc2)" "items = SToolCallDelta delta # items1"
      using True Cons.prems(2) by (auto simp: delta_present_def one split: prod.splits)
    note step = merge_transparent[OF Cons.prems(1) one]
    show ?thesis using Cons.IH[OF conjunct2[OF step] rest(1)] step rest(2) True by (simp add: deltas_of_def List.map_filter_simps)
  qed
qed

lemma last_some_append: "last_some (xs @ ys) = (case last_some ys of Some r \<Rightarrow> Some r | None \<Rightarrow> last_some xs)"
  by (induction xs) (auto split: option.splits)

lemma parts_append:
  "deltas_of (xs @ ys) = deltas_of xs @ deltas_of ys" "texts_of (xs @ ys) = texts_of xs @ texts_of ys"
  "finish_of (xs @ ys) = (case finish_of ys of Some r \<Rightarrow> Some r | None \<Rightarrow> finish_of xs)"
  unfolding deltas_of_def texts_of_def finish_of_def map_filter_def by (simp_all add: last_some_append)

lemma parts_deltas:
  "list_all (\<lambda>it. \<exists>d. it = SToolCallDelta d) items \<Longrightarrow> texts_of items = [] \<and> finish_of items = None \<and> list_all (\<lambda>it. \<not> is_lost it) items"
  by (induction items) (auto simp: texts_of_def finish_of_def List.map_filter_simps)

lemma parts_non_empty:
  "texts_of (non_empty_item SText t) = (case t of Some s \<Rightarrow> if s = [] then [] else [s] | None \<Rightarrow> [])" "deltas_of (non_empty_item SText t) = []"
  "finish_of (non_empty_item SText t) = None"
  "texts_of (non_empty_item SReasoningDelta t) = []" "deltas_of (non_empty_item SReasoningDelta t) = []" "finish_of (non_empty_item SReasoningDelta t) = None"
  "texts_of (non_empty_item SFinishReason t) = []" "deltas_of (non_empty_item SFinishReason t) = []"
  "finish_of (non_empty_item SFinishReason t) = (case t of Some s \<Rightarrow> if s = [] then None else Some s | None \<Rightarrow> None)"
  by (auto simp: non_empty_item_def texts_of_def deltas_of_def finish_of_def List.map_filter_simps split: option.splits)

definition choice_text :: "openai_stream_choice \<Rightarrow> string" where
  "choice_text c = (case osc_content c of Some t \<Rightarrow> t | None \<Rightarrow> [])"

definition choice_finish :: "openai_stream_choice \<Rightarrow> string option" where
  "choice_finish c = (case osc_finish_reason c of Some s \<Rightarrow> if s = [] then None else Some s | None \<Rightarrow> None)"

definition sent_fragments :: "openai_stream_choice list \<Rightarrow> tool_call_delta list" where
  "sent_fragments cs = map raw_delta (filter delta_present (concat (map osc_tool_calls cs)))"

lemma choices_parts:
  assumes "same_calls acc acc'" "openai_choice_items cs acc = (items, acc2)"
  shows "concat (texts_of items) = concat (map choice_text cs) \<and> finish_of items = last_some (map choice_finish cs) \<and>
    fold accumulator_merge (deltas_of items) acc' = fold accumulator_merge (sent_fragments cs) acc' \<and>
    same_calls acc2 (fold accumulator_merge (sent_fragments cs) acc') \<and> list_all (\<lambda>it. \<not> is_lost it) items"
  using assms
proof (induction cs arbitrary: acc acc' items)
  case Nil
  then show ?case by (simp add: texts_of_def finish_of_def deltas_of_def sent_fragments_def List.map_filter_simps)
next
  case (Cons c cs)
  obtain deltas acc1 items1 where one: "openai_delta_items (osc_tool_calls c) acc = (deltas, acc1)" and rest: "openai_choice_items cs acc1 = (items1, acc2)"
    and items: "items = non_empty_item SText (osc_content c) @ non_empty_item SReasoningDelta (osc_reasoning c) @ deltas @
                non_empty_item SFinishReason (osc_finish_reason c) @ items1"
    using Cons.prems(2) by (auto split: prod.splits)
  note d = deltas_transparent[OF Cons.prems(1) one]
  note p = parts_deltas[OF conjunct2[OF conjunct2[OF d]]]
  note IH = Cons.IH[OF conjunct1[OF conjunct2[OF d]] rest]
  have lost: "list_all (\<lambda>it. \<not> is_lost it) (non_empty_item SText t @ non_empty_item SReasoningDelta t' @ non_empty_item SFinishReason t'')" for t t' t''
    by (auto simp: non_empty_item_def split: option.splits)
  show ?case
    using d p IH lost[of "osc_content c" "osc_reasoning c" "osc_finish_reason c"] unfolding items
    by (auto simp: parts_append parts_non_empty choice_text_def choice_finish_def sent_fragments_def split: option.splits)
qed

fun openai_items :: "openai_stream_chunk list \<Rightarrow> openai_accumulator \<Rightarrow> stream_item list \<times> openai_accumulator" where
  "openai_items [] acc = ([], acc)"
| "openai_items (c # cs) acc =
     (case normalize_openai_stream_chunk c acc of (items, acc') \<Rightarrow> (case openai_items cs acc' of (items', acc'') \<Rightarrow> (items @ items', acc'')))"

definition stream_choices :: "openai_stream_chunk list \<Rightarrow> openai_stream_choice list" where
  "stream_choices cs = concat (map osk_choices cs)"

lemma items_parts:
  assumes "same_calls acc acc'" "openai_items cs acc = (items, acc2)"
  shows "concat (texts_of items) = concat (map choice_text (stream_choices cs)) \<and> finish_of items = last_some (map choice_finish (stream_choices cs)) \<and>
    fold accumulator_merge (deltas_of items) acc' = fold accumulator_merge (sent_fragments (stream_choices cs)) acc' \<and>
    list_all (\<lambda>it. \<not> is_lost it) items"
  using assms
proof (induction cs arbitrary: acc acc' items)
  case Nil
  then show ?case by (simp add: texts_of_def finish_of_def deltas_of_def sent_fragments_def stream_choices_def List.map_filter_simps)
next
  case (Cons c cs)
  obtain its acc1 items1 where one: "openai_choice_items (osk_choices c) acc = (its, acc1)" and rest: "openai_items cs acc1 = (items1, acc2)"
    and items: "items = (case osk_usage c of Some u \<Rightarrow> [SUsageUpdate (openai_usage_update u)] | None \<Rightarrow> []) @ its @ items1"
    using Cons.prems(2) by (auto simp: normalize_openai_stream_chunk_def split: prod.splits)
  note c = choices_parts[OF Cons.prems(1) one]
  have s: "same_calls acc1 (fold accumulator_merge (sent_fragments (osk_choices c)) acc')" using c by simp
  have u: "texts_of [SUsageUpdate x] = []" "deltas_of [SUsageUpdate x] = []" "finish_of [SUsageUpdate x] = None"
    "texts_of [] = []" "deltas_of [] = []" "finish_of [] = None" for x
    by (simp_all add: texts_of_def deltas_of_def finish_of_def List.map_filter_simps)
  show ?case
    using c Cons.IH[OF s rest] unfolding items
    by (auto simp: parts_append u sent_fragments_def stream_choices_def last_some_append split: option.splits)
qed

lemma handle_payloads:
  assumes "list_all2 (\<lambda>p c. parse_openai_stream_payload decode prov p = Inr (Some c)) ps cs"
  shows "handle_all (openai_handle decode prov) (ps @ [''[DONE]'']) acc = (map Inr (fst (openai_items cs acc)), snd (openai_items cs acc), True)"
  using assms
proof (induction arbitrary: acc rule: list_all2_induct)
  case Nil
  have "trim ''[DONE]'' = ''[DONE]''" by code_simp
  then show ?case by (simp add: openai_handle_def parse_openai_stream_payload_def)
next
  case (Cons p ps c cs)
  then show ?case by (simp add: openai_handle_def split: prod.splits)
qed

text \<open>What the runtime makes of the items an adapter sends, when none of them says that the connection is lost.\<close>

lemma collect_sent:
  assumes "list_all (\<lambda>it. \<not> is_lost it) items"
  shows "collect_stream listening (map Done (map Inr items)) collected_empty w =
    (Inr \<lparr>col_text = concat (texts_of items), col_calls = fold accumulator_merge (deltas_of items) [],
          col_finish = finish_of items, col_usage = fold usage_step items None\<rparr>,
     w\<lparr>sent_events := sent_events w @ (if listening then filter provider_item items else [])\<rparr>)"
  using collect_complete[of items listening collected_empty w] assms
  by (cases "finish_of items") (simp_all add: comp_def list_all_iff collected_empty_def)

text \<open>C33: What OpenAI streams is what the runtime collects. When the body carries the chunks of a completion and the sentinel, cut into
  pieces anywhere, the runtime ends with the text of all chunks in order, with the tool calls put together from the fragments
  as the server sent them (the ids and names the adapter repeats change nothing), and with the last finish reason; the
  connection does not count as lost, even if it breaks after the sentinel.\<close>

theorem openai_stream_collected:
  assumes "list_all2 (\<lambda>p c. parse_openai_stream_payload decode prov (join nl p) = Inr (Some c)) payloads cs" "list_all sse_payload payloads"
    "concat (body_chunks b) = concat (map encode_data (payloads @ [[''[DONE]'']]))"
  shows "\<exists>usage w'. collect_stream listening (map Done (openai_stream_items decode prov b)) collected_empty w =
    (Inr \<lparr>col_text = concat (map choice_text (stream_choices cs)),
          col_calls = fold accumulator_merge (sent_fragments (stream_choices cs)) [],
          col_finish = last_some (map choice_finish (stream_choices cs)), col_usage = usage\<rparr>, w')"
proof -
  have "sse_line ''[DONE]''" by code_simp
  then have all: "list_all sse_payload (payloads @ [[''[DONE]'']])" using assms(2) by (simp add: sse_payload_def)
  have "list_all2 (\<lambda>p c. parse_openai_stream_payload decode prov p = Inr (Some c)) (map (join nl) payloads) cs"
    using assms(1) by (simp add: list.rel_map)
  note h = handle_payloads[OF this, of "[]"]
  obtain items acc2 where it: "openai_items cs [] = (items, acc2)" by fastforce
  note p = items_parts[of "[]" "[]", OF _ it]
  have "openai_stream_items decode prov b = map Inr items"
    using h by (simp add: openai_stream_items_def read_data_body[OF all assms(3)] it)
  moreover have "list_all (\<lambda>it. \<not> is_lost it) items" using p by (auto simp: same_calls_def)
  ultimately have "collect_stream listening (map Done (openai_stream_items decode prov b)) collected_empty w =
      (Inr \<lparr>col_text = concat (texts_of items), col_calls = fold accumulator_merge (deltas_of items) [],
          col_finish = finish_of items, col_usage = fold usage_step items None\<rparr>,
       w\<lparr>sent_events := sent_events w @ (if listening then filter provider_item items else [])\<rparr>)"
    by (simp only: collect_sent)
  then show ?thesis using p by (auto simp: same_calls_def)
qed

section \<open>Examples\<close>

definition ex_schema :: json where
  "ex_schema = JObj [(''properties'', JObj [(''path'', JObj [(''type'', JStr ''string'')])]), (''type'', JStr ''object'')]"

definition ex_tool_context :: llm_context where
  "ex_tool_context = \<lparr>ctx_provider = ''p'', ctx_model = ''m'', ctx_tools = [\<lparr>fd_name = ''read'', fd_description = None, fd_parameters = ex_schema\<rparr>],
     ctx_messages = [plain_message RUser ''hi'']\<rparr>"

definition ex_strict :: "(string \<times> json) list" where
  "ex_strict = [(''additionalProperties'', JBool False), (''properties'', JObj [(''path'', JObj [(''type'', JStr ''string'')])]),
     (''required'', JArr [JStr ''path'']), (''type'', JStr ''object'')]"

lemma ex_sanitized: "sanitize_schema_strict ex_schema = JObj ex_strict" "is_object_schema ex_strict"
  by code_simp+

theorem openai_schemas_strict_witness:
  "map_of ex_strict ''additionalProperties'' = Some (JBool False) \<and>
    (\<exists>r. map_of ex_strict ''required'' = Some r \<and> (case r of JArr xs \<Rightarrow> JStr ` set (property_keys ex_strict) \<subseteq> set xs | _ \<Rightarrow> True)) \<and>
    (\<exists>d kvs0. d \<in> set (ctx_tools ex_tool_context) \<and> ''read'' = fd_name d \<and> subschema (fd_parameters d) (JObj kvs0) \<and> is_object_schema kvs0 \<and>
       property_keys ex_strict = property_keys kvs0)"
proof -
  let ?t = "openai_tool_definition_of \<lparr>fd_name = ''read'', fd_description = None, fd_parameters = ex_schema\<rparr>"
  obtain request where "openai_request_of ex_codec (\<lambda>s. s) ex_tool_context True = Inr request" "?t \<in> set (ocr_tools request)"
    by (simp add: openai_request_of_def ex_tool_context_def openai_message_of_def plain_message_def Let_def)
  moreover have "subschema (otd_parameters ?t) (JObj ex_strict)"
    using subschema.sub_self[of "JObj ex_strict"] by (simp add: openai_tool_definition_of_def ex_sanitized)
  moreover have "otd_name ?t = ''read''" by (simp add: openai_tool_definition_of_def)
  ultimately show ?thesis using openai_schemas_strict[of ex_codec "\<lambda>s. s" ex_tool_context True request ?t ex_strict] ex_sanitized(2) by simp
qed

definition ex_stream_decode :: "string \<Rightarrow> (string, openai_stream_chunk) result" where
  "ex_stream_decode s =
     (if s = ''{1}'' then Inr \<lparr>osk_choices = [\<lparr>osc_content = Some ''Hel'', osc_reasoning = None,
          osc_tool_calls = [\<lparr>osd_index = 0, osd_id = Some ''c1'', osd_name = Some ''read'', osd_arguments = Some ''{''\<rparr>], osc_finish_reason = None\<rparr>], osk_usage = None\<rparr>
      else if s = ''{2}'' then Inr \<lparr>osk_choices = [\<lparr>osc_content = Some ''lo'', osc_reasoning = None,
          osc_tool_calls = [\<lparr>osd_index = 0, osd_id = None, osd_name = None, osd_arguments = Some ''}''\<rparr>], osc_finish_reason = Some ''stop''\<rparr>], osk_usage = None\<rparr>
      else Inl ''bad'')"

theorem openai_stream_collected_witness:
  "\<exists>usage w'. collect_stream True (map Done (openai_stream_items ex_stream_decode ''p''
      \<lparr>body_chunks = [''data: {1}'' @ nl @ nl @ ''da'', ''ta: {2}'' @ nl, nl @ ''data: [DONE]'' @ nl @ nl], body_broken = Some ''reset''\<rparr>)) collected_empty
      \<lparr>sent_events = [], outside = ()\<rparr> =
    (Inr \<lparr>col_text = ''Hello'', col_calls = [(0, \<lparr>ae_id = Some ''c1'', ae_name = Some ''read'', ae_arguments = ''{}'', ae_metadata = None\<rparr>)],
          col_finish = Some ''stop'', col_usage = usage\<rparr>, w')"
proof -
  define cs where "cs = map (\<lambda>s. case ex_stream_decode s of Inr c \<Rightarrow> c) [''{1}'', ''{2}'']"
  have parsed: "list_all2 (\<lambda>p c. parse_openai_stream_payload ex_stream_decode ''p'' (join nl p) = Inr (Some c)) [[''{1}''], [''{2}'']] cs"
    unfolding cs_def by code_simp
  have lines: "list_all sse_payload [[''{1}''], [''{2}'']]" by code_simp
  have bytes: "concat (body_chunks \<lparr>body_chunks = [''data: {1}'' @ nl @ nl @ ''da'', ''ta: {2}'' @ nl, nl @ ''data: [DONE]'' @ nl @ nl], body_broken = Some ''reset''\<rparr>) =
      concat (map encode_data ([[''{1}''], [''{2}'']] @ [[''[DONE]'']]))"
    by (simp add: encode_data_def)
  have sums: "concat (map choice_text (stream_choices cs)) = ''Hello''" "last_some (map choice_finish (stream_choices cs)) = Some ''stop''"
    "fold accumulator_merge (sent_fragments (stream_choices cs)) [] = [(0, \<lparr>ae_id = Some ''c1'', ae_name = Some ''read'', ae_arguments = ''{}'', ae_metadata = None\<rparr>)]"
    unfolding cs_def by code_simp+
  from openai_stream_collected[OF parsed lines bytes] show ?thesis unfolding sums by blast
qed

text \<open>
  The check of a context compares the kind of an attachment without regard to case, the request takes only lower-case image types: an
  image of type \<open>IMAGE/PNG\<close> passes the check and is then left out of the request without an error.
\<close>

lemma image_with_capital_type_dropped:
  "from_mime_type ''IMAGE/PNG'' = ModImage"
  "image_attachments (plain_message RUser ''see''\<lparr>msg_attachments := [\<lparr>im_mime_type = ''IMAGE/PNG'', im_data = ''x''\<rparr>]\<rparr>) = []"
  by code_simp+

text \<open>The adapter does not look below \<open>anyOf\<close>: an object schema there stays as it is.\<close>

lemma schema_below_any_of_not_strict:
  "sanitize_schema_strict (JObj [(''anyOf'', JArr [ex_schema])]) = JObj [(''anyOf'', JArr [ex_schema])]"
  by code_simp

end
