(* ===== verification/Anthropic_Adapter.thy ===== *)
theory Anthropic_Adapter
  imports OpenAI_Adapter
begin

text \<open>
  The adapter for the Anthropic messages API (crate \<open>provider\<close>, \<open>anthropic.rs\<close>): the request built from a context, the answer of a
  completion, and the items of a stream, whose tool calls are numbered by content blocks and have to be renumbered. The decoders of
  the event types are the parameter \<open>anthropic_decoders\<close>.
\<close>

section \<open>Requests\<close>

definition ANTHROPIC_DEFAULT_BASE_URL :: string where
  "ANTHROPIC_DEFAULT_BASE_URL = ''https://api.anthropic.com''"

definition ANTHROPIC_MESSAGES_PATH :: string where
  "ANTHROPIC_MESSAGES_PATH = ''/v1/messages''"

definition ANTHROPIC_VERSION :: string where
  "ANTHROPIC_VERSION = ''2023-06-01''"

definition DEFAULT_ANTHROPIC_MAX_TOKENS :: u32 where
  "DEFAULT_ANTHROPIC_MAX_TOKENS = 1024"

record anthropic_base64_source =
  abs_kind :: string
  abs_media_type :: string
  abs_data :: string

datatype anthropic_block = TextBlock string | ToolUseBlock string string json | ToolResultBlock string string
  | ImageBlock anthropic_base64_source | DocumentBlock anthropic_base64_source

record anthropic_message_request =
  amr_role :: string
  amr_content :: "anthropic_block list"

record anthropic_tool_definition =
  atd_name :: string
  atd_description :: "string option"
  atd_input_schema :: json

record anthropic_messages_request =
  amq_model :: string
  amq_max_tokens :: u32
  amq_system :: "string option"
  amq_messages :: "anthropic_message_request list"
  amq_tools :: "anthropic_tool_definition list"
  amq_tool_choice :: "string option"
  amq_stream :: bool

fun message_role_to_anthropic_role :: "message_role \<Rightarrow> string" where
  "message_role_to_anthropic_role RUser = ''user''"
| "message_role_to_anthropic_role RTool = ''user''"
| "message_role_to_anthropic_role RAssistant = ''assistant''"
| "message_role_to_anthropic_role RSystem = ''user''"

fun role_debug :: "message_role \<Rightarrow> string" where
  "role_debug RSystem = ''System''"
| "role_debug RUser = ''User''"
| "role_debug RAssistant = ''Assistant''"
| "role_debug RTool = ''Tool''"

definition attachment_block :: "(string \<Rightarrow> string) \<Rightarrow> inline_media \<Rightarrow> anthropic_block option" where
  "attachment_block b64 a =
     (let source = \<lparr>abs_kind = ''base64'', abs_media_type = im_mime_type a, abs_data = b64 (im_data a)\<rparr> in
      case from_mime_type (im_mime_type a) of ModImage \<Rightarrow> Some (ImageBlock source) | ModPdf \<Rightarrow> Some (DocumentBlock source) | _ \<Rightarrow> None)"

definition turn_blocks :: "(string \<Rightarrow> string) \<Rightarrow> message \<Rightarrow> anthropic_block list" where
  "turn_blocks b64 m =
     (case Option.bind (msg_content m) provider_non_empty of Some t \<Rightarrow> [TextBlock t] | None \<Rightarrow> []) @
     (if msg_role m = RUser then List.map_filter (attachment_block b64) (msg_attachments m) else []) @
     map (\<lambda>tc. ToolUseBlock (tc_id tc) (tc_name tc) (tc_arguments tc)) (msg_tool_calls m)"

definition anthropic_message_of :: "(string \<Rightarrow> string) \<Rightarrow> string \<Rightarrow> message \<Rightarrow> (provider_error, anthropic_message_request) result" where
  "anthropic_message_of b64 prov m =
     (if msg_role m = RTool
      then bind_result (ok_or (msg_tool_call_id m) (RequestFailed prov ''tool message is missing tool_call_id for Anthropic payload'')) (\<lambda>tool_use_id.
             Inr \<lparr>amr_role = ''user'', amr_content = [ToolResultBlock tool_use_id (case msg_content m of Some c \<Rightarrow> c | None \<Rightarrow> [])]\<rparr>)
      else let content = turn_blocks b64 m in
           if content = []
           then Inl (RequestFailed prov (''cannot convert '' @ role_debug (msg_role m) @ '' message with empty content and no tool calls to Anthropic payload''))
           else Inr \<lparr>amr_role = message_role_to_anthropic_role (msg_role m), amr_content = content\<rparr>)"

text \<open>The loop over the messages: the chunks of the system prompt and the messages sent.\<close>

fun anthropic_messages_of :: "(string \<Rightarrow> string) \<Rightarrow> string \<Rightarrow> message list \<Rightarrow> (provider_error, string list \<times> anthropic_message_request list) result" where
  "anthropic_messages_of b64 prov [] = Inr ([], [])"
| "anthropic_messages_of b64 prov (m # ms) =
     (if msg_role m = RSystem
      then bind_result (anthropic_messages_of b64 prov ms) (\<lambda>(system, messages).
             Inr ((case Option.bind (msg_content m) provider_non_empty of Some t \<Rightarrow> [t] | None \<Rightarrow> []) @ system, messages))
      else bind_result (anthropic_message_of b64 prov m) (\<lambda>message.
             bind_result (anthropic_messages_of b64 prov ms) (\<lambda>(system, messages). Inr (system, message # messages))))"

definition anthropic_tool_definition_of :: "function_decl \<Rightarrow> anthropic_tool_definition" where
  "anthropic_tool_definition_of d = \<lparr>atd_name = fd_name d, atd_description = fd_description d, atd_input_schema = fd_parameters d\<rparr>"

definition anthropic_request_of :: "(string \<Rightarrow> string) \<Rightarrow> llm_context \<Rightarrow> u32 \<Rightarrow> bool \<Rightarrow> (provider_error, anthropic_messages_request) result" where
  "anthropic_request_of b64 ctx max_tokens stream =
     bind_result (anthropic_messages_of b64 (ctx_provider ctx) (ctx_messages ctx)) (\<lambda>(system, messages).
       let tools = map anthropic_tool_definition_of (ctx_tools ctx) in
       if messages = [] then Inl (RequestFailed (ctx_provider ctx) ''Anthropic request requires at least one non-system message'')
       else Inr \<lparr>amq_model = ctx_model ctx, amq_max_tokens = max max_tokens 1,
                 amq_system = (if system \<noteq> [] then Some (join (nl @ nl) system) else None), amq_messages = messages, amq_tools = tools,
                 amq_tool_choice = (if tools \<noteq> [] then Some ''auto'' else None), amq_stream = stream\<rparr>)"

section \<open>Responses\<close>

record anthropic_usage =
  au_input_tokens :: "u64 option"
  au_output_tokens :: "u64 option"

record anthropic_response_block =
  arb_kind :: string
  arb_text :: "string option"
  arb_id :: "string option"
  arb_name :: "string option"
  arb_input :: "json option"

record anthropic_messages_response =
  ams_role :: string
  ams_content :: "anthropic_response_block list"
  ams_stop_reason :: "string option"
  ams_usage :: "anthropic_usage option"

definition anthropic_role_to_message_role :: "string \<Rightarrow> message_role option" where
  "anthropic_role_to_message_role role = (if role = ''user'' then Some RUser else if role = ''assistant'' then Some RAssistant else None)"

definition token_sum :: "u64 option \<Rightarrow> u64 option \<Rightarrow> u64 option" where
  "token_sum a b = (case (a, b) of (Some i, Some o') \<Rightarrow> Some (saturating_add i o') | _ \<Rightarrow> None)"

definition anthropic_tool_call_of :: "string \<Rightarrow> anthropic_response_block \<Rightarrow> (provider_error, tool_call) result" where
  "anthropic_tool_call_of prov b =
     bind_result (ok_or (arb_id b) (ResponseParse prov ''Anthropic tool_use block missing id'')) (\<lambda>i.
     bind_result (ok_or (arb_name b) (ResponseParse prov (''Anthropic tool_use block `'' @ i @ ''` missing name''))) (\<lambda>n.
     bind_result (ok_or (arb_input b) (ResponseParse prov (''Anthropic tool_use block `'' @ i @ ''` missing input''))) (\<lambda>arguments.
     Inr \<lparr>tc_id = i, tc_name = n, tc_arguments = arguments, tc_metadata = None\<rparr>)))"

fun anthropic_blocks_of :: "string \<Rightarrow> anthropic_response_block list \<Rightarrow> (provider_error, string list \<times> tool_call list) result" where
  "anthropic_blocks_of prov [] = Inr ([], [])"
| "anthropic_blocks_of prov (b # bs) =
     (if arb_kind b = ''text''
      then bind_result (anthropic_blocks_of prov bs) (\<lambda>(texts, calls).
             Inr ((case Option.bind (arb_text b) provider_non_empty of Some t \<Rightarrow> [t] | None \<Rightarrow> []) @ texts, calls))
      else if arb_kind b = ''tool_use''
      then bind_result (anthropic_tool_call_of prov b) (\<lambda>call.
             bind_result (anthropic_blocks_of prov bs) (\<lambda>(texts, calls). Inr (texts, call # calls)))
      else anthropic_blocks_of prov bs)"

definition normalize_anthropic_response :: "string \<Rightarrow> anthropic_messages_response \<Rightarrow> (provider_error, response) result" where
  "normalize_anthropic_response prov r =
     bind_result (ok_or (anthropic_role_to_message_role (ams_role r)) (ResponseParse prov (''unsupported Anthropic role `'' @ ams_role r @ ''`''))) (\<lambda>role.
     bind_result (anthropic_blocks_of prov (ams_content r)) (\<lambda>(texts, calls).
     Inr \<lparr>rsp_message = \<lparr>msg_role = role, msg_content = (if texts \<noteq> [] then Some (join nl texts) else None), msg_tool_calls = calls,
            msg_tool_call_id = None, msg_attachments = []\<rparr>,
          rsp_tool_calls = calls, rsp_finish_reason = ams_stop_reason r,
          rsp_usage = map_option (\<lambda>u. \<lparr>prompt_tokens = au_input_tokens u, completion_tokens = au_output_tokens u,
            total_tokens = token_sum (au_input_tokens u) (au_output_tokens u)\<rparr>) (ams_usage r)\<rparr>))"

section \<open>Tool calls of a stream\<close>

record anthropic_tool_entry =
  ate_id :: "string option"
  ate_name :: "string option"
  ate_arguments :: string

record anthropic_accumulator =
  aa_by_block_index :: "(nat \<times> anthropic_tool_entry) list"
  aa_block_to_ordinal :: "(nat \<times> nat) list"
  aa_next_ordinal :: nat

definition anthropic_accumulator_default :: anthropic_accumulator where
  "anthropic_accumulator_default = \<lparr>aa_by_block_index = [], aa_block_to_ordinal = [], aa_next_ordinal = 0\<rparr>"

definition start_tool :: "nat \<Rightarrow> string option \<Rightarrow> string option \<Rightarrow> anthropic_accumulator \<Rightarrow> tool_call_delta \<times> anthropic_accumulator" where
  "start_tool block_index i n acc =
     (let ordinal = aa_next_ordinal acc in
      (\<lparr>tcd_index = ordinal, tcd_id = i, tcd_name = n, tcd_arguments = None, tcd_metadata = None\<rparr>,
       \<lparr>aa_by_block_index = bt_insert block_index \<lparr>ate_id = i, ate_name = n, ate_arguments = []\<rparr> (aa_by_block_index acc),
        aa_block_to_ordinal = bt_insert block_index ordinal (aa_block_to_ordinal acc), aa_next_ordinal = Suc ordinal\<rparr>))"

definition append_json :: "nat \<Rightarrow> string \<Rightarrow> anthropic_accumulator \<Rightarrow> tool_call_delta \<times> anthropic_accumulator" where
  "append_json block_index partial_json acc =
     (let (ordinal, acc1) = (case map_of (aa_block_to_ordinal acc) block_index of
            Some k \<Rightarrow> (k, acc)
          | None \<Rightarrow> (aa_next_ordinal acc, acc\<lparr>aa_block_to_ordinal := bt_insert block_index (aa_next_ordinal acc) (aa_block_to_ordinal acc),
              aa_next_ordinal := Suc (aa_next_ordinal acc)\<rparr>));
          e0 = (case map_of (aa_by_block_index acc1) block_index of Some e \<Rightarrow> e | None \<Rightarrow> \<lparr>ate_id = None, ate_name = None, ate_arguments = []\<rparr>);
          e = e0\<lparr>ate_arguments := ate_arguments e0 @ partial_json\<rparr>
      in (\<lparr>tcd_index = ordinal, tcd_id = ate_id e, tcd_name = ate_name e,
           tcd_arguments = (if partial_json = [] then None else Some partial_json), tcd_metadata = None\<rparr>,
          acc1\<lparr>aa_by_block_index := bt_insert block_index e (aa_by_block_index acc1)\<rparr>))"

section \<open>Events of a stream\<close>

record anthropic_block_start =
  cbs_index :: nat
  cbs_kind :: string
  cbs_id :: "string option"
  cbs_name :: "string option"

record anthropic_block_delta =
  cbd_index :: nat
  cbd_kind :: string
  cbd_text :: "string option"
  cbd_partial_json :: "string option"
  cbd_thinking :: "string option"

record anthropic_message_delta =
  amd_stop_reason :: "string option"
  amd_usage :: "u64 option option"

record anthropic_decoders =
  dec_envelope :: "string \<Rightarrow> (string, string) result"
  dec_message_start :: "string \<Rightarrow> (string, anthropic_usage option) result"
  dec_block_start :: "string \<Rightarrow> (string, anthropic_block_start) result"
  dec_block_delta :: "string \<Rightarrow> (string, anthropic_block_delta) result"
  dec_message_delta :: "string \<Rightarrow> (string, anthropic_message_delta) result"
  dec_stream_error :: "string \<Rightarrow> (string, string option) result"

datatype anthropic_action = AnthropicItems "stream_item list" | AnthropicDone | AnthropicError provider_error

record anthropic_stream_state =
  ass_accumulator :: anthropic_accumulator
  ass_input_tokens :: "u64 option"
  ass_received_error :: bool
  ass_stream_done :: bool

definition anthropic_stream_start :: anthropic_stream_state where
  "anthropic_stream_start = \<lparr>ass_accumulator = anthropic_accumulator_default, ass_input_tokens = None, ass_received_error = False, ass_stream_done = False\<rparr>"

definition parse_failed :: "string \<Rightarrow> string \<Rightarrow> string \<Rightarrow> anthropic_action" where
  "parse_failed prov what err = AnthropicError (ResponseParse prov (''failed to parse Anthropic '' @ what @ '': '' @ err))"

definition parse_message_start :: "anthropic_decoders \<Rightarrow> string \<Rightarrow> string \<Rightarrow> anthropic_stream_state \<Rightarrow> anthropic_action \<times> anthropic_stream_state" where
  "parse_message_start dec prov payload st =
     (case dec_message_start dec payload of
        Inl err \<Rightarrow> (parse_failed prov ''message_start event'' err, st)
      | Inr usage \<Rightarrow>
          let prompt = Option.bind usage au_input_tokens in
          if prompt \<noteq> None
          then (AnthropicItems [SUsageUpdate \<lparr>prompt_tokens = prompt, completion_tokens = None, total_tokens = None\<rparr>], st\<lparr>ass_input_tokens := prompt\<rparr>)
          else (AnthropicItems [], st))"

definition parse_content_block_start :: "anthropic_decoders \<Rightarrow> string \<Rightarrow> string \<Rightarrow> anthropic_stream_state \<Rightarrow> anthropic_action \<times> anthropic_stream_state" where
  "parse_content_block_start dec prov payload st =
     (case dec_block_start dec payload of
        Inl err \<Rightarrow> (parse_failed prov ''content_block_start event'' err, st)
      | Inr event \<Rightarrow>
          if cbs_kind event = ''tool_use''
          then (case start_tool (cbs_index event) (cbs_id event) (cbs_name event) (ass_accumulator st) of
                  (delta, acc) \<Rightarrow> (AnthropicItems [SToolCallDelta delta], st\<lparr>ass_accumulator := acc\<rparr>))
          else (AnthropicItems [], st))"

definition parse_content_block_delta :: "anthropic_decoders \<Rightarrow> string \<Rightarrow> string \<Rightarrow> anthropic_stream_state \<Rightarrow> anthropic_action \<times> anthropic_stream_state" where
  "parse_content_block_delta dec prov payload st =
     (case dec_block_delta dec payload of
        Inl err \<Rightarrow> (parse_failed prov ''content_block_delta event'' err, st)
      | Inr event \<Rightarrow>
          if cbd_kind event = ''text_delta'' then (AnthropicItems (non_empty_item SText (cbd_text event)), st)
          else if cbd_kind event = ''input_json_delta''
          then (case cbd_partial_json event of
                  Some partial \<Rightarrow>
                    (case append_json (cbd_index event) partial (ass_accumulator st) of
                       (delta, acc) \<Rightarrow> (AnthropicItems [SToolCallDelta delta], st\<lparr>ass_accumulator := acc\<rparr>))
                | None \<Rightarrow> (AnthropicItems [], st))
          else if cbd_kind event = ''thinking_delta'' then (AnthropicItems (non_empty_item SReasoningDelta (cbd_thinking event)), st)
          else (AnthropicItems [], st))"

definition parse_message_delta :: "anthropic_decoders \<Rightarrow> string \<Rightarrow> string \<Rightarrow> anthropic_stream_state \<Rightarrow> anthropic_action \<times> anthropic_stream_state" where
  "parse_message_delta dec prov payload st =
     (case dec_message_delta dec payload of
        Inl err \<Rightarrow> (parse_failed prov ''message_delta event'' err, st)
      | Inr event \<Rightarrow>
          (AnthropicItems (non_empty_item SFinishReason (amd_stop_reason event) @
             (case amd_usage event of
                Some output_tokens \<Rightarrow> [SUsageUpdate \<lparr>prompt_tokens = ass_input_tokens st, completion_tokens = output_tokens,
                  total_tokens = token_sum (ass_input_tokens st) output_tokens\<rparr>]
              | None \<Rightarrow> [])), st))"

definition parse_error_event :: "anthropic_decoders \<Rightarrow> string \<Rightarrow> string \<Rightarrow> anthropic_action" where
  "parse_error_event dec prov payload =
     (case dec_stream_error dec payload of
        Inl err \<Rightarrow> parse_failed prov ''error event'' err
      | Inr message \<Rightarrow> AnthropicError (ResponseParse prov (case message of Some m \<Rightarrow> m | None \<Rightarrow> ''unknown streaming error from Anthropic'')))"

definition parse_anthropic_stream_payload ::
  "anthropic_decoders \<Rightarrow> string \<Rightarrow> string \<Rightarrow> anthropic_stream_state \<Rightarrow> anthropic_action \<times> anthropic_stream_state" where
  "parse_anthropic_stream_payload dec prov payload st =
     (let trimmed = trim payload in
      if trimmed = [] then (AnthropicItems [], st)
      else case dec_envelope dec trimmed of
        Inl err \<Rightarrow> (parse_failed prov ''stream event envelope'' err, st)
      | Inr kind \<Rightarrow>
          if kind = ''ping'' \<or> kind = ''content_block_stop'' then (AnthropicItems [], st)
          else if kind = ''message_stop'' then (AnthropicDone, st)
          else if kind = ''message_start'' then parse_message_start dec prov trimmed st
          else if kind = ''content_block_start'' then parse_content_block_start dec prov trimmed st
          else if kind = ''content_block_delta'' then parse_content_block_delta dec prov trimmed st
          else if kind = ''message_delta'' then parse_message_delta dec prov trimmed st
          else if kind = ''error'' then (parse_error_event dec prov trimmed, st)
          else (AnthropicItems [], st))"

definition anthropic_handle :: "anthropic_decoders \<Rightarrow> string \<Rightarrow> (string, anthropic_stream_state) handler" where
  "anthropic_handle dec prov payload st =
     (case parse_anthropic_stream_payload dec prov payload st of
        (AnthropicItems items, st') \<Rightarrow> (map Inr items, st', False)
      | (AnthropicDone, st') \<Rightarrow> ([], st'\<lparr>ass_stream_done := True\<rparr>, True)
      | (AnthropicError e, st') \<Rightarrow> ([Inl e], st'\<lparr>ass_received_error := True\<rparr>, True))"

definition anthropic_texts :: "string \<Rightarrow> anthropic_stream_state stream_texts" where
  "anthropic_texts prov =
     \<lparr>st_dropped = (\<lambda>e. ''Anthropic stream transport dropped: '' @ e), st_parse_error = ResponseParse prov,
      st_at_end = (\<lambda>st. if \<not> ass_stream_done st \<and> \<not> ass_received_error st
        then [Inr (SConnectionLost ''Anthropic stream ended before message_stop'')] else [])\<rparr>"

definition anthropic_stream_items :: "anthropic_decoders \<Rightarrow> string \<Rightarrow> body \<Rightarrow> sent list" where
  "anthropic_stream_items dec prov b =
     fst (read_loop data_push_byte data_finish (anthropic_handle dec prov) (anthropic_texts prov) (body_broken b) (body_chunks b)
            sse_data_parser_default anthropic_stream_start)"

section \<open>The provider\<close>

record anthropic_adapter = adapter +
  ap_max_tokens :: u32

definition anthropic_new :: "string \<Rightarrow> string \<Rightarrow> string \<Rightarrow> string \<Rightarrow> (string \<times> string) list \<Rightarrow> model_catalog \<Rightarrow> anthropic_adapter" where
  "anthropic_new provider_id catalog_provider_id api_key base_url extra_headers catalog =
     \<lparr>ap_provider_id = provider_id, ap_catalog_provider_id = catalog_provider_id, ap_model_catalog = catalog,
      ap_base_url = normalize_base_url_or_default base_url ANTHROPIC_DEFAULT_BASE_URL, ap_api_key = api_key, ap_extra_headers = extra_headers,
      ap_max_tokens = DEFAULT_ANTHROPIC_MAX_TOKENS\<rparr>"

definition anthropic_http_request :: "anthropic_adapter \<Rightarrow> 'b \<Rightarrow> 'b http_request" where
  "anthropic_http_request ap request =
     \<lparr>hq_url = ap_base_url ap @ ANTHROPIC_MESSAGES_PATH,
      hq_headers = (''x-api-key'', ap_api_key ap) # (''anthropic-version'', ANTHROPIC_VERSION) # ap_extra_headers ap, hq_body = request\<rparr>"

definition anthropic_complete ::
  "(anthropic_messages_request, 'w) adapter_env \<Rightarrow> (http_reply \<Rightarrow> (string, anthropic_messages_response) result) \<Rightarrow> anthropic_adapter \<Rightarrow> llm_context \<Rightarrow>
   ('w, provider_error, response) action" where
  "anthropic_complete env decode ap ctx =
     bind_action (lift_action (validate_context [ModImage, ModPdf] ap ctx)) (\<lambda>_.
     bind_action (lift_action (anthropic_request_of (ae_b64 env) ctx (ap_max_tokens ap) False)) (\<lambda>request.
     bind_action (send_checked (ae_errors env) (ap_provider_id ap) (ae_post env) (anthropic_http_request ap request)) (\<lambda>reply.
     lift_action (bind_result (map_err (decode reply) (ResponseParse (ap_provider_id ap))) (normalize_anthropic_response (ap_provider_id ap))))))"

definition anthropic_stream ::
  "(anthropic_messages_request, 'w) adapter_env \<Rightarrow> anthropic_decoders \<Rightarrow> anthropic_adapter \<Rightarrow> llm_context \<Rightarrow> ('w, provider_error, sent list) action" where
  "anthropic_stream env dec ap ctx =
     bind_action (lift_action (validate_context [ModImage, ModPdf] ap ctx)) (\<lambda>_.
     bind_action (lift_action (anthropic_request_of (ae_b64 env) ctx (ap_max_tokens ap) True)) (\<lambda>request.
     bind_action (send_checked (ae_errors env) (ap_provider_id ap) (ae_post env) (anthropic_http_request ap request)) (\<lambda>reply.
     ret_action (anthropic_stream_items dec (ap_provider_id ap) (hr_body reply)))))"

section \<open>Tool calls keep their order and their pieces\<close>

text \<open>
  The events of a stream, as far as they matter for the answer, and the list of tool calls they describe: the block of a call, its id, its
  name and its arguments so far.
\<close>

datatype anthropic_event = EText string | EStart nat "string option" "string option" | EJson nat string | EFinish string | EStop | EOther

type_synonym block_call = "nat \<times> string option \<times> string option \<times> string"

fun call_step :: "anthropic_event \<Rightarrow> block_call list \<Rightarrow> block_call list" where
  "call_step (EStart b i n) cs = cs @ [(b, i, n, [])]"
| "call_step (EJson b s) cs = map (\<lambda>(b', i, n, a). (b', i, n, if b' = b then a @ s else a)) cs"
| "call_step ev cs = cs"

text \<open>A block is started once, before its arguments.\<close>

fun blocks_started :: "anthropic_event list \<Rightarrow> nat set \<Rightarrow> bool" where
  "blocks_started [] S = True"
| "blocks_started (EStart b i n # evs) S = (b \<notin> S \<and> blocks_started evs (insert b S))"
| "blocks_started (EJson b s # evs) S = (b \<in> S \<and> blocks_started evs S)"
| "blocks_started (ev # evs) S = blocks_started evs S"

definition call_entry :: "block_call \<Rightarrow> accumulator_entry" where
  "call_entry c = (case c of (b, i, n, a) \<Rightarrow> \<lparr>ae_id = i, ae_name = n, ae_arguments = a, ae_metadata = None\<rparr>)"

definition calls_known :: "anthropic_accumulator \<Rightarrow> block_call list \<Rightarrow> bool" where
  "calls_known acc cs \<longleftrightarrow>
     distinct (map fst cs) \<and> aa_next_ordinal acc = length cs \<and>
     (\<forall>k b i n a. k < length cs \<longrightarrow> cs ! k = (b, i, n, a) \<longrightarrow>
        map_of (aa_block_to_ordinal acc) b = Some k \<and> (\<exists>args. map_of (aa_by_block_index acc) b = Some \<lparr>ate_id = i, ate_name = n, ate_arguments = args\<rparr>))"

definition calls_collected :: "accumulator \<Rightarrow> block_call list \<Rightarrow> bool" where
  "calls_collected acc cs \<longleftrightarrow> (\<forall>k. map_of acc k = (if k < length cs then Some (call_entry (cs ! k)) else None))"

lemma start_tool_step:
  assumes "calls_known acc cs" "calls_collected racc cs" "b \<notin> set (map fst cs)" "start_tool b i n acc = (delta, acc')"
  shows "calls_known acc' (cs @ [(b, i, n, [])]) \<and> calls_collected (accumulator_merge delta racc) (cs @ [(b, i, n, [])])"
proof
  have b: "fst (cs ! k) \<noteq> b" if "k < length cs" for k using assms(3) that by (metis length_map nth_map nth_mem)
  show "calls_known acc' (cs @ [(b, i, n, [])])"
    using assms(1,3,4) b
    by (fastforce simp: calls_known_def start_tool_def Let_def map_of_bt_insert nth_append less_Suc_eq split: if_splits)
  show "calls_collected (accumulator_merge delta racc) (cs @ [(b, i, n, [])])"
    using assms(1,2,4)
    by (auto simp: calls_known_def calls_collected_def start_tool_def Let_def accumulator_merge_def merge_entry_eq default_entry_def map_of_bt_insert
        nth_append call_entry_def or_else_idem less_Suc_eq)
qed

lemma append_json_step:
  assumes "calls_known acc cs" "calls_collected racc cs" "b \<in> set (map fst cs)" "append_json b s acc = (delta, acc')"
  shows "calls_known acc' (call_step (EJson b s) cs) \<and> calls_collected (accumulator_merge delta racc) (call_step (EJson b s) cs)"
proof -
  let ?cs = "call_step (EJson b s) cs"
  obtain k i n a where k: "k < length cs" "cs ! k = (b, i, n, a)" using assms(3) by (auto simp: in_set_conv_nth)
  from k assms(1) obtain args where known: "map_of (aa_block_to_ordinal acc) b = Some k"
    "map_of (aa_by_block_index acc) b = Some \<lparr>ate_id = i, ate_name = n, ate_arguments = args\<rparr>" unfolding calls_known_def by blast
  have delta: "delta = \<lparr>tcd_index = k, tcd_id = i, tcd_name = n, tcd_arguments = (if s = [] then None else Some s), tcd_metadata = None\<rparr>"
    and acc': "acc' = acc\<lparr>aa_by_block_index := bt_insert b \<lparr>ate_id = i, ate_name = n, ate_arguments = args @ s\<rparr> (aa_by_block_index acc)\<rparr>"
    using assms(4) known by (auto simp: append_json_def)
  have other: "fst (cs ! j) \<noteq> b" if "j < length cs" "j \<noteq> k" for j
    using nth_eq_iff_index_eq[of "map fst cs" j k] assms(1) that k by (auto simp: calls_known_def)
  have nth: "?cs ! j = (if j = k then (b, i, n, a @ s) else cs ! j)" if "j < length cs" for j
    using that k other[OF that] by (auto split: prod.splits)
  have len: "length ?cs = length cs" "map fst ?cs = map fst cs" by (simp_all add: case_prod_beta)
  have "calls_known acc' ?cs"
    using assms(1) nth k other unfolding calls_known_def len by (auto simp: acc' map_of_bt_insert split: if_splits) (metis fst_conv)+
  moreover have "calls_collected (accumulator_merge delta racc) ?cs"
    using assms(2) nth k unfolding calls_collected_def len
    by (auto simp: delta accumulator_merge_def merge_entry_eq map_of_bt_insert call_entry_def or_else_def split: option.splits)
  ultimately show ?thesis by blast
qed

text \<open>What a payload says, by its decoders; \<open>None\<close> when a decoder fails or the payload is an error of the server.\<close>

definition payload_event :: "anthropic_decoders \<Rightarrow> string \<Rightarrow> anthropic_event option" where
  "payload_event dec payload =
     (let t = trim payload in
      if t = [] then Some EOther
      else case dec_envelope dec t of
        Inl err \<Rightarrow> None
      | Inr kind \<Rightarrow>
          if kind = ''message_stop'' then Some EStop
          else if kind = ''message_start'' then (case dec_message_start dec t of Inl err \<Rightarrow> None | Inr u \<Rightarrow> Some EOther)
          else if kind = ''content_block_start''
          then (case dec_block_start dec t of
                  Inl err \<Rightarrow> None
                | Inr e \<Rightarrow> Some (if cbs_kind e = ''tool_use'' then EStart (cbs_index e) (cbs_id e) (cbs_name e) else EOther))
          else if kind = ''content_block_delta''
          then (case dec_block_delta dec t of
                  Inl err \<Rightarrow> None
                | Inr e \<Rightarrow> Some (if cbd_kind e = ''text_delta'' \<and> cbd_text e \<noteq> None then EText (the (cbd_text e))
                    else if cbd_kind e = ''input_json_delta'' \<and> cbd_partial_json e \<noteq> None then EJson (cbd_index e) (the (cbd_partial_json e))
                    else EOther))
          else if kind = ''message_delta''
          then (case dec_message_delta dec t of
                  Inl err \<Rightarrow> None
                | Inr e \<Rightarrow> Some (case amd_stop_reason e of Some r \<Rightarrow> if r = [] then EOther else EFinish r | None \<Rightarrow> EOther))
          else if kind = ''error'' then None
          else Some EOther)"

fun event_text :: "anthropic_event \<Rightarrow> string" where
  "event_text (EText t) = t"
| "event_text ev = []"

fun event_finish_reason :: "anthropic_event \<Rightarrow> string option" where
  "event_finish_reason (EFinish r) = Some r"
| "event_finish_reason ev = None"

lemma quiet_item:
  "finish_of [SUsageUpdate u] = None" "texts_of [SUsageUpdate u] = []" "deltas_of [SUsageUpdate u] = []"
  "finish_of [SToolCallDelta d] = None" "texts_of [SToolCallDelta d] = []" "deltas_of [SToolCallDelta d] = [d]"
  "finish_of [] = None" "texts_of [] = []" "deltas_of [] = []"
  by (simp_all add: finish_of_def texts_of_def deltas_of_def List.map_filter_simps)

lemma non_empty_not_lost: "list_all (\<lambda>it. \<not> is_lost it) (non_empty_item SText t)" "list_all (\<lambda>it. \<not> is_lost it) (non_empty_item SReasoningDelta t)"
  "list_all (\<lambda>it. \<not> is_lost it) (non_empty_item SFinishReason t)"
  by (auto simp: non_empty_item_def split: option.splits)

text \<open>A result without text, finish reason or tool call.\<close>

definition quiet_result :: "anthropic_stream_state \<Rightarrow> anthropic_action \<times> anthropic_stream_state \<Rightarrow> bool" where
  "quiet_result st r \<longleftrightarrow> (\<exists>t us st'. r = (AnthropicItems (non_empty_item SReasoningDelta t @ us), st') \<and> ass_accumulator st' = ass_accumulator st \<and>
     us \<in> {[]} \<union> range (\<lambda>u. [SUsageUpdate u]))"

lemma quiet_results:
  "quiet_result st (AnthropicItems [], st)"
  "quiet_result st (AnthropicItems [SUsageUpdate u], st)" "quiet_result st (AnthropicItems [SUsageUpdate u], st\<lparr>ass_input_tokens := x\<rparr>)"
  "quiet_result st (AnthropicItems (non_empty_item SReasoningDelta t), st)"
  "r \<noteq> [] \<Longrightarrow> quiet_result st (AnthropicItems [SReasoningDelta r], st)"
  by (auto simp: quiet_result_def non_empty_item_def intro: exI[of _ None] exI[of _ t] exI[of _ "Some r"])

lemma quiet_message_start: "dec_message_start dec t = Inr u \<Longrightarrow> quiet_result st (parse_message_start dec prov t st)"
  by (simp add: parse_message_start_def Let_def quiet_results)

lemma quiet_block_start: "dec_block_start dec t = Inr e \<Longrightarrow> cbs_kind e \<noteq> ''tool_use'' \<Longrightarrow> quiet_result st (parse_content_block_start dec prov t st)"
  by (simp add: parse_content_block_start_def quiet_results)

lemma quiet_block_delta:
  assumes "dec_block_delta dec t = Inr e" "\<not> (cbd_kind e = ''text_delta'' \<and> cbd_text e \<noteq> None)" "\<not> (cbd_kind e = ''input_json_delta'' \<and> cbd_partial_json e \<noteq> None)"
  shows "quiet_result st (parse_content_block_delta dec prov t st)"
  using assms by (auto simp: parse_content_block_delta_def quiet_results non_empty_item_def split: option.splits)

lemma quiet_message_delta:
  "dec_message_delta dec t = Inr e \<Longrightarrow> amd_stop_reason e \<in> {None, Some []} \<Longrightarrow> quiet_result st (parse_message_delta dec prov t st)"
  by (auto simp: parse_message_delta_def quiet_results non_empty_item_def split: option.splits)

lemma quiet_other: "payload_event dec p = Some EOther \<Longrightarrow> quiet_result st (parse_anthropic_stream_payload dec prov p st)"
  unfolding payload_event_def parse_anthropic_stream_payload_def Let_def
  by (auto simp: quiet_results intro: quiet_message_start quiet_block_start quiet_block_delta quiet_message_delta split: if_splits sum.splits option.splits)

lemma event_step:
  assumes "payload_event dec p = Some ev" "ev \<noteq> EStop" "calls_known (ass_accumulator st) cs" "calls_collected racc cs" "blocks_started [ev] (set (map fst cs))"
  shows "\<exists>items st'. parse_anthropic_stream_payload dec prov p st = (AnthropicItems items, st') \<and> concat (texts_of items) = event_text ev \<and>
    finish_of items = event_finish_reason ev \<and> list_all (\<lambda>it. \<not> is_lost it) items \<and> calls_known (ass_accumulator st') (call_step ev cs) \<and>
    calls_collected (fold accumulator_merge (deltas_of items) racc) (call_step ev cs)"
proof (cases ev)
  case (EStart b i n)
  then have b: "b \<notin> set (map fst cs)" using assms(5) by simp
  obtain delta acc' where d: "start_tool b i n (ass_accumulator st) = (delta, acc')" by fastforce
  have "parse_anthropic_stream_payload dec prov p st = (AnthropicItems [SToolCallDelta delta], st\<lparr>ass_accumulator := acc'\<rparr>)"
    using assms(1) EStart d
    by (auto simp: payload_event_def parse_anthropic_stream_payload_def parse_content_block_start_def Let_def split: if_splits sum.splits option.splits)
  then show ?thesis using start_tool_step[OF assms(3,4) b d] EStart by (simp add: quiet_item)
next
  case (EJson b s)
  then have b: "b \<in> set (map fst cs)" using assms(5) by simp
  obtain delta acc' where d: "append_json b s (ass_accumulator st) = (delta, acc')" by fastforce
  have "parse_anthropic_stream_payload dec prov p st = (AnthropicItems [SToolCallDelta delta], st\<lparr>ass_accumulator := acc'\<rparr>)"
    using assms(1) EJson d
    by (auto simp: payload_event_def parse_anthropic_stream_payload_def parse_content_block_delta_def Let_def split: if_splits sum.splits option.splits)
  then show ?thesis using append_json_step[OF assms(3,4) b d] EJson by (simp add: quiet_item)
next
  case (EText t)
  have "parse_anthropic_stream_payload dec prov p st = (AnthropicItems (non_empty_item SText (Some t)), st)"
    using assms(1) EText
    by (auto simp: payload_event_def parse_anthropic_stream_payload_def parse_content_block_delta_def Let_def split: if_splits sum.splits option.splits)
  then show ?thesis using assms(3,4) EText by (auto simp: parts_non_empty non_empty_not_lost)
next
  case (EFinish r)
  have "\<exists>us. parse_anthropic_stream_payload dec prov p st = (AnthropicItems (non_empty_item SFinishReason (Some r) @ us), st) \<and> r \<noteq> [] \<and> us \<in> {[]} \<union> range (\<lambda>u. [SUsageUpdate u])"
    using assms(1) EFinish
    by (auto simp: payload_event_def parse_anthropic_stream_payload_def parse_message_delta_def Let_def split: if_splits sum.splits option.splits)
  then show ?thesis using assms(3,4) EFinish by (auto simp: parts_append parts_non_empty non_empty_not_lost quiet_item)
next
  case EOther
  then have "quiet_result st (parse_anthropic_stream_payload dec prov p st)" using assms(1) quiet_other by blast
  then show ?thesis using assms(3,4) EOther unfolding quiet_result_def by (auto simp: parts_append parts_non_empty non_empty_not_lost quiet_item)
next
  case EStop
  then show ?thesis using assms(2) by simp
qed

lemma handle_events:
  assumes "list_all2 (\<lambda>p ev. payload_event dec p = Some ev \<and> ev \<noteq> EStop) ps evs" "calls_known (ass_accumulator st) cs" "calls_collected racc cs"
    "blocks_started evs (set (map fst cs))"
  shows "\<exists>items st'. (\<forall>rest. handle_all (anthropic_handle dec prov) (ps @ rest) st =
      (case handle_all (anthropic_handle dec prov) rest st' of (its, st'', stop) \<Rightarrow> (map Inr items @ its, st'', stop))) \<and>
    concat (texts_of items) = concat (map event_text evs) \<and> finish_of items = last_some (map event_finish_reason evs) \<and>
    list_all (\<lambda>it. \<not> is_lost it) items \<and> calls_collected (fold accumulator_merge (deltas_of items) racc) (fold call_step evs cs)"
  using assms
proof (induction arbitrary: st cs racc rule: list_all2_induct)
  case Nil
  then show ?case by (intro exI[of _ "[]"] exI[of _ st]) (simp add: quiet_item)
next
  case (Cons p ps ev evs)
  have first: "blocks_started [ev] (set (map fst cs))" "blocks_started evs (set (map fst (call_step ev cs)))"
    using Cons.prems(3) by (cases ev; simp add: case_prod_beta comp_def)+
  from Cons.hyps(1) have ev: "payload_event dec p = Some ev" "ev \<noteq> EStop" by simp_all
  from event_step[OF ev Cons.prems(1,2) first(1), of prov] obtain items st1 where
    one: "parse_anthropic_stream_payload dec prov p st = (AnthropicItems items, st1)" "concat (texts_of items) = event_text ev"
      "finish_of items = event_finish_reason ev" "list_all (\<lambda>it. \<not> is_lost it) items" "calls_known (ass_accumulator st1) (call_step ev cs)"
      "calls_collected (fold accumulator_merge (deltas_of items) racc) (call_step ev cs)" by blast
  from Cons.IH[OF one(5,6) first(2)] obtain items1 st' where
    rest: "\<And>rest. handle_all (anthropic_handle dec prov) (ps @ rest) st1 =
      (case handle_all (anthropic_handle dec prov) rest st' of (its, st'', stop) \<Rightarrow> (map Inr items1 @ its, st'', stop))"
      "concat (texts_of items1) = concat (map event_text evs)" "finish_of items1 = last_some (map event_finish_reason evs)"
      "list_all (\<lambda>it. \<not> is_lost it) items1"
      "calls_collected (fold accumulator_merge (deltas_of items1) (fold accumulator_merge (deltas_of items) racc)) (fold call_step evs (call_step ev cs))"
    by blast
  have "anthropic_handle dec prov p st = (map Inr items, st1, False)" by (simp add: anthropic_handle_def one(1))
  then show ?case
    using one(2-4) rest by (intro exI[of _ "items @ items1"] exI[of _ st']) (auto simp: parts_append split: prod.splits option.splits)
qed

text \<open>What Anthropic streams is what the runtime collects. When the body carries the events of an answer and the event that ends it, cut into
  pieces anywhere, the runtime ends with all text in order, with the last finish reason, and with one tool call per tool block in the order
  the blocks were started, numbered from zero whatever other blocks lie between them, each with its id, its name and all pieces of its
  arguments.\<close>

theorem anthropic_stream_collected:
  assumes "list_all2 (\<lambda>p ev. payload_event dec (join nl p) = Some ev \<and> ev \<noteq> EStop) payloads evs" "payload_event dec (join nl stop) = Some EStop"
    "blocks_started evs {}" "list_all sse_payload (payloads @ [stop])" "concat (body_chunks b) = concat (map encode_data (payloads @ [stop]))"
  shows "\<exists>c w'. collect_stream listening (map Done (anthropic_stream_items dec prov b)) collected_empty w = (Inr c, w') \<and>
    col_text c = concat (map event_text evs) \<and> col_finish c = last_some (map event_finish_reason evs) \<and>
    (let calls = fold call_step evs [] in
     \<forall>k. map_of (col_calls c) k = (if k < length calls then Some (call_entry (calls ! k)) else None))"
proof -
  have start: "calls_known (ass_accumulator anthropic_stream_start) []" "calls_collected [] []"
    by (simp_all add: calls_known_def calls_collected_def anthropic_stream_start_def anthropic_accumulator_default_def)
  have "list_all2 (\<lambda>p ev. payload_event dec p = Some ev \<and> ev \<noteq> EStop) (map (join nl) payloads) evs"
    using assms(1) by (simp add: list.rel_map)
  from handle_events[OF this start, of prov] assms(3) obtain items st' where
    h: "\<And>rest. handle_all (anthropic_handle dec prov) (map (join nl) payloads @ rest) anthropic_stream_start =
      (case handle_all (anthropic_handle dec prov) rest st' of (its, st'', stop) \<Rightarrow> (map Inr items @ its, st'', stop))"
    and parts: "concat (texts_of items) = concat (map event_text evs)" "finish_of items = last_some (map event_finish_reason evs)"
      "list_all (\<lambda>it. \<not> is_lost it) items" "calls_collected (fold accumulator_merge (deltas_of items) []) (fold call_step evs [])"
    by auto
  have "parse_anthropic_stream_payload dec prov (join nl stop) st' = (AnthropicDone, st')"
    using assms(2) by (auto simp: payload_event_def parse_anthropic_stream_payload_def Let_def split: if_splits sum.splits option.splits)
  then have "anthropic_stream_items dec prov b = map Inr items"
    using h[of "[join nl stop]"] by (simp add: anthropic_stream_items_def read_data_body[OF assms(4,5)] anthropic_handle_def)
  then have run: "collect_stream listening (map Done (anthropic_stream_items dec prov b)) collected_empty w =
      collect_stream listening (map (\<lambda>it. Done (Inr it)) items) collected_empty w" by (simp add: comp_def)
  show ?thesis
    unfolding run using parts
    by (subst collect_complete) (auto simp: list_all_iff collected_empty_def calls_collected_def Let_def split: option.splits)
qed

section \<open>Requests keep calls and results\<close>

definition block_calls :: "anthropic_block list \<Rightarrow> (string \<times> string \<times> json) list" where
  "block_calls bs = List.map_filter (\<lambda>b. case b of ToolUseBlock i n a \<Rightarrow> Some (i, n, a) | _ \<Rightarrow> None) bs"

definition block_results :: "anthropic_block list \<Rightarrow> (string \<times> string) list" where
  "block_results bs = List.map_filter (\<lambda>b. case b of ToolResultBlock i c \<Rightarrow> Some (i, c) | _ \<Rightarrow> None) bs"

definition message_calls :: "message \<Rightarrow> (string \<times> string \<times> json) list" where
  "message_calls m = (if msg_role m \<in> {RUser, RAssistant} then map (\<lambda>tc. (tc_id tc, tc_name tc, tc_arguments tc)) (msg_tool_calls m) else [])"

definition message_results :: "message \<Rightarrow> (string \<times> string) list" where
  "message_results m = (if msg_role m = RTool then [(the (msg_tool_call_id m), case msg_content m of Some c \<Rightarrow> c | None \<Rightarrow> [])] else [])"

lemma turn_blocks_parts:
  "block_calls (turn_blocks b64 m) = map (\<lambda>tc. (tc_id tc, tc_name tc, tc_arguments tc)) (msg_tool_calls m)" "block_results (turn_blocks b64 m) = []"
proof -
  have att: "block_calls (List.map_filter (attachment_block b64) as) = []" "block_results (List.map_filter (attachment_block b64) as) = []" for as
    by (induction as) (auto simp: block_calls_def block_results_def attachment_block_def List.map_filter_simps Let_def split: option.splits input_modality.splits)
  have app: "block_calls (xs @ ys) = block_calls xs @ block_calls ys" "block_results (xs @ ys) = block_results xs @ block_results ys" for xs ys
    by (simp_all add: block_calls_def block_results_def map_filter_def)
  have calls: "block_calls (map (\<lambda>tc. ToolUseBlock (tc_id tc) (tc_name tc) (tc_arguments tc)) tcs) = map (\<lambda>tc. (tc_id tc, tc_name tc, tc_arguments tc)) tcs"
    "block_results (map (\<lambda>tc. ToolUseBlock (tc_id tc) (tc_name tc) (tc_arguments tc)) tcs) = []" for tcs
    by (induction tcs) (simp_all add: block_calls_def block_results_def List.map_filter_simps)
  have one: "block_calls [TextBlock t] = []" "block_results [TextBlock t] = []" "block_calls [] = []" "block_results [] = []" for t
    by (simp_all add: block_calls_def block_results_def List.map_filter_simps)
  show "block_calls (turn_blocks b64 m) = map (\<lambda>tc. (tc_id tc, tc_name tc, tc_arguments tc)) (msg_tool_calls m)" "block_results (turn_blocks b64 m) = []"
    by (auto simp: turn_blocks_def app att calls one split: option.splits)
qed

lemma anthropic_message_parts:
  assumes "anthropic_message_of b64 prov m = Inr r" "msg_role m \<noteq> RSystem"
  shows "amr_content r \<noteq> [] \<and> block_calls (amr_content r) = message_calls m \<and> block_results (amr_content r) = message_results m"
proof (cases "msg_role m = RTool")
  case True
  then show ?thesis using assms(1)
    by (auto simp: anthropic_message_of_def message_calls_def message_results_def block_calls_def block_results_def List.map_filter_simps ok_or_Inr)
next
  case False
  then have "msg_role m \<in> {RUser, RAssistant}" using assms(2) by (cases "msg_role m") auto
  then show ?thesis using assms(1) False
    by (auto simp: anthropic_message_of_def message_calls_def message_results_def turn_blocks_parts Let_def split: if_splits)
qed

lemma anthropic_messages_parts:
  "anthropic_messages_of b64 prov ms = Inr (system, rs) \<Longrightarrow>
     list_all (\<lambda>r. amr_content r \<noteq> []) rs \<and> concat (map (block_calls \<circ> amr_content) rs) = concat (map message_calls ms) \<and>
     concat (map (block_results \<circ> amr_content) rs) = concat (map message_results ms)"
proof (induction ms arbitrary: system rs)
  case (Cons m ms)
  show ?case
  proof (cases "msg_role m = RSystem")
    case True
    then show ?thesis using Cons by (auto simp: message_calls_def message_results_def)
  next
    case False
    then obtain r rs' system' where "anthropic_message_of b64 prov m = Inr r" "anthropic_messages_of b64 prov ms = Inr (system', rs')" "rs = r # rs'"
      using Cons.prems by auto
    then show ?thesis using Cons.IH anthropic_message_parts[OF _ False] by auto
  qed
qed simp

text \<open>A request has no empty message and carries the calls and the results of the context, each once and in order.\<close>

lemma anthropic_request_complete:
  assumes "anthropic_request_of b64 ctx max_tokens stream = Inr request"
  shows "amq_messages request \<noteq> []" "list_all (\<lambda>r. amr_content r \<noteq> []) (amq_messages request)" "0 < amq_max_tokens request"
    "concat (map (block_calls \<circ> amr_content) (amq_messages request)) = concat (map message_calls (ctx_messages ctx))"
    "concat (map (block_results \<circ> amr_content) (amq_messages request)) = concat (map message_results (ctx_messages ctx))"
proof -
  from assms obtain system rs where ok: "anthropic_messages_of b64 (ctx_provider ctx) (ctx_messages ctx) = Inr (system, rs)" "rs \<noteq> []"
    and r: "amq_messages request = rs" "amq_max_tokens request = max max_tokens 1"
    by (auto simp: anthropic_request_of_def bind_result_Inr Let_def split: if_splits)
  show "amq_messages request \<noteq> []" "list_all (\<lambda>r. amr_content r \<noteq> []) (amq_messages request)"
    "concat (map (block_calls \<circ> amr_content) (amq_messages request)) = concat (map message_calls (ctx_messages ctx))"
    "concat (map (block_results \<circ> amr_content) (amq_messages request)) = concat (map message_results (ctx_messages ctx))"
    using anthropic_messages_parts[OF ok(1)] ok(2) r(1) by auto
  have "(0 :: u32) < 1" by simp
  then show "0 < amq_max_tokens request" unfolding r(2) by (meson less_le_trans max.cobounded2)
qed

section \<open>Examples and differences\<close>

definition ex_anthropic_decoders :: anthropic_decoders where
  "ex_anthropic_decoders = \<lparr>dec_envelope = (\<lambda>s. Inr (if s = ''s'' then ''content_block_start'' else if s = ''x'' then ''message_stop'' else ''content_block_delta'')),
     dec_message_start = (\<lambda>_. Inr None), dec_block_start = (\<lambda>_. Inr \<lparr>cbs_index = 1, cbs_kind = ''tool_use'', cbs_id = Some ''c1'', cbs_name = Some ''read''\<rparr>),
     dec_block_delta = (\<lambda>s. Inr (if s = ''t'' then \<lparr>cbd_index = 0, cbd_kind = ''text_delta'', cbd_text = Some ''Hi'', cbd_partial_json = None, cbd_thinking = None\<rparr>
        else \<lparr>cbd_index = 1, cbd_kind = ''input_json_delta'', cbd_text = None, cbd_partial_json = Some s, cbd_thinking = None\<rparr>)),
     dec_message_delta = (\<lambda>_. Inr \<lparr>amd_stop_reason = None, amd_usage = None\<rparr>), dec_stream_error = (\<lambda>_. Inr None)\<rparr>"

theorem anthropic_stream_collected_witness:
  "\<exists>c w'. collect_stream False (map Done (anthropic_stream_items ex_anthropic_decoders ''p''
      \<lparr>body_chunks = [''data: t'' @ nl, nl @ ''data: s'' @ nl @ nl @ ''data: {'', nl @ nl @ ''data: }'' @ nl @ nl @ ''data: x'' @ nl @ nl], body_broken = None\<rparr>)) collected_empty
      \<lparr>sent_events = [], outside = ()\<rparr> = (Inr c, w') \<and> col_text c = ''Hi'' \<and> col_finish c = None \<and>
    map_of (col_calls c) 0 = Some \<lparr>ae_id = Some ''c1'', ae_name = Some ''read'', ae_arguments = ''{}'', ae_metadata = None\<rparr> \<and> map_of (col_calls c) 1 = None"
proof -
  let ?evs = "[EText ''Hi'', EStart 1 (Some ''c1'') (Some ''read''), EJson 1 ''{'', EJson 1 ''}'']"
  let ?b = "\<lparr>body_chunks = [''data: t'' @ nl, nl @ ''data: s'' @ nl @ nl @ ''data: {'', nl @ nl @ ''data: }'' @ nl @ nl @ ''data: x'' @ nl @ nl], body_broken = None\<rparr>"
  have events: "list_all2 (\<lambda>p ev. payload_event ex_anthropic_decoders (join nl p) = Some ev \<and> ev \<noteq> EStop) [[''t''], [''s''], [''{''], [''}'']] ?evs"
    "payload_event ex_anthropic_decoders (join nl [''x'']) = Some EStop" by code_simp+
  have started: "blocks_started ?evs {}" by simp
  have lines: "list_all sse_payload ([[''t''], [''s''], [''{''], [''}'']] @ [[''x'']])" by code_simp
  have bytes: "concat (body_chunks ?b) = concat (map encode_data ([[''t''], [''s''], [''{''], [''}'']] @ [[''x'']]))" by (simp add: encode_data_def)
  from anthropic_stream_collected[OF events started lines bytes, of False "''p''" "\<lparr>sent_events = [], outside = ()\<rparr>"]
  show ?thesis by (auto simp: Let_def call_entry_def)
qed

text \<open>
  The comment on \<open>append_json\<close> says that the delta has all arguments received so far. It has the last piece only (which is what the
  runtime expects).
\<close>

lemma delta_has_last_piece_only:
  "tcd_arguments (fst (append_json 1 ''}'' (snd (append_json 1 ''{'' anthropic_accumulator_default)))) = Some ''}''"
  by code_simp

text \<open>
  A turn without text, attachments and calls, such as an empty answer that was stored, makes every later request of the session fail.
\<close>

lemma empty_turn_blocks_requests:
  assumes "m \<in> set (ctx_messages ctx)" "msg_role m = RAssistant" "msg_content m = None" "msg_tool_calls m = []"
  shows "\<not> is_ok (anthropic_request_of b64 ctx max_tokens stream)"
proof -
  have "anthropic_message_of b64 prov m = Inl e \<Longrightarrow> m \<in> set ms \<Longrightarrow> \<not> is_ok (anthropic_messages_of b64 prov ms)" for prov e ms
  proof (induction ms)
    case (Cons m' ms)
    then show ?case using assms(2)
      by (cases "anthropic_message_of b64 prov m'"; cases "anthropic_messages_of b64 prov ms") (auto split: prod.splits)
  qed simp
  moreover obtain e where "anthropic_message_of b64 (ctx_provider ctx) m = Inl e"
    using assms(2-4) by (simp add: anthropic_message_of_def turn_blocks_def)
  ultimately have "\<not> is_ok (anthropic_messages_of b64 (ctx_provider ctx) (ctx_messages ctx))" using assms(1) by blast
  then show ?thesis by (cases "anthropic_messages_of b64 (ctx_provider ctx) (ctx_messages ctx)") (simp_all add: anthropic_request_of_def)
qed

end
