(* ===== verification/Gemini_Adapter.thy ===== *)
theory Gemini_Adapter
  imports Anthropic_Adapter
begin

text \<open>
  The adapter for Gemini (crate \<open>provider\<close>, \<open>gemini.rs\<close>): the request built from a context, the answer of a completion, and the items of a
  stream. Gemini does not number its function calls, so the adapter makes up ids: \<open>fresh\<close> is the sequence of random ids, read with a counter. The
  decoders and the base64 encoder and decoder are parameters.
\<close>

section \<open>Requests\<close>

definition GEMINI_DEFAULT_BASE_URL :: string where
  "GEMINI_DEFAULT_BASE_URL = ''https://generativelanguage.googleapis.com''"

record gemini_function_call =
  gfc_name :: string
  gfc_args :: json

record gemini_function_response =
  gfr_name :: string
  gfr_response :: json

record gemini_inline_data =
  gid_mime_type :: string
  gid_data :: string

record gemini_part =
  gp_text :: "string option"
  gp_function_call :: "gemini_function_call option"
  gp_function_response :: "gemini_function_response option"
  gp_thought_signature :: "string option"
  gp_inline_data :: "gemini_inline_data option"

record gemini_content =
  gc_role :: string
  gc_parts :: "gemini_part list"

record gemini_function_declaration =
  gfd_name :: string
  gfd_description :: "string option"
  gfd_parameters :: json

record gemini_request =
  gr_contents :: "gemini_content list"
  gr_system_instruction :: "gemini_content option"
  gr_tools :: "gemini_function_declaration list list option"

definition empty_part :: gemini_part where
  "empty_part = \<lparr>gp_text = None, gp_function_call = None, gp_function_response = None, gp_thought_signature = None, gp_inline_data = None\<rparr>"

definition text_part :: "string \<Rightarrow> gemini_part" where
  "text_part t = empty_part\<lparr>gp_text := Some t\<rparr>"

definition function_call_part :: "string \<Rightarrow> json \<Rightarrow> string option \<Rightarrow> gemini_part" where
  "function_call_part n args sig = empty_part\<lparr>gp_function_call := Some \<lparr>gfc_name = n, gfc_args = args\<rparr>, gp_thought_signature := sig\<rparr>"

definition function_response_part :: "string \<Rightarrow> json \<Rightarrow> gemini_part" where
  "function_response_part n r = empty_part\<lparr>gp_function_response := Some \<lparr>gfr_name = n, gfr_response = r\<rparr>\<rparr>"

definition inline_data_part :: "(string \<Rightarrow> string) \<Rightarrow> inline_media \<Rightarrow> gemini_part" where
  "inline_data_part b64 a = empty_part\<lparr>gp_inline_data := Some \<lparr>gid_mime_type = im_mime_type a, gid_data = b64 (im_data a)\<rparr>\<rparr>"

definition gemini_text_parts :: "message \<Rightarrow> gemini_part list" where
  "gemini_text_parts m = (case msg_content m of Some t \<Rightarrow> if trim t = [] then [] else [text_part t] | None \<Rightarrow> [])"

definition tool_call_names :: "message list \<Rightarrow> (string \<times> string) list" where
  "tool_call_names ms =
     fold (\<lambda>m names. if msg_role m = RAssistant then fold (\<lambda>tc names. bt_insert (tc_id tc) (tc_name tc) names) (msg_tool_calls m) names else names) ms []"

definition thought_signature_of :: "tool_call \<Rightarrow> string option" where
  "thought_signature_of tc = Option.bind (Option.bind (tc_metadata tc) (\<lambda>j. json_get j ''thought_signature'')) as_str"

definition response_value :: "json_codec \<Rightarrow> message \<Rightarrow> json" where
  "response_value codec m =
     (case Option.bind (msg_content m) (\<lambda>c. case from_str codec c of Inr (JObj kvs) \<Rightarrow> Some (JObj kvs) | _ \<Rightarrow> None) of
        Some v \<Rightarrow> v
      | None \<Rightarrow> JObj [(''result'', JStr (case msg_content m of Some c \<Rightarrow> c | None \<Rightarrow> []))])"

definition response_name :: "(string \<times> string) list \<Rightarrow> message \<Rightarrow> string" where
  "response_name names m =
     (case or_else (Option.bind (msg_tool_call_id m) (map_of names)) (msg_tool_call_id m) of Some n \<Rightarrow> n | None \<Rightarrow> ''unknown_function'')"

text \<open>The contents one message is sent as.\<close>

definition gemini_contents_of :: "json_codec \<Rightarrow> (string \<Rightarrow> string) \<Rightarrow> (string \<times> string) list \<Rightarrow> message \<Rightarrow> gemini_content list" where
  "gemini_contents_of codec b64 names m =
     (case msg_role m of
        RSystem \<Rightarrow> []
      | RUser \<Rightarrow>
          let parts = gemini_text_parts m @ map (inline_data_part b64) (msg_attachments m) in
          if parts = [] then [] else [\<lparr>gc_role = ''user'', gc_parts = parts\<rparr>]
      | RAssistant \<Rightarrow>
          let parts = (if msg_tool_calls m = [] then gemini_text_parts m else []) @
            map (\<lambda>tc. function_call_part (tc_name tc) (tc_arguments tc) (thought_signature_of tc)) (msg_tool_calls m) in
          if parts = [] then [] else [\<lparr>gc_role = ''model'', gc_parts = parts\<rparr>]
      | RTool \<Rightarrow> [\<lparr>gc_role = ''user'', gc_parts = [function_response_part (response_name names m) (response_value codec m)]\<rparr>])"

function sanitize_schema_for_gemini :: "json \<Rightarrow> json" where
  "sanitize_schema_for_gemini (JObj kvs) =
     (let kvs1 = bt_remove ''additionalProperties'' kvs in
      JObj (replace_member ''items''
        (case map_of kvs1 ''items'' of Some items \<Rightarrow> Some (sanitize_schema_for_gemini items) | None \<Rightarrow> None)
        (replace_member ''properties''
          (case map_of kvs1 ''properties'' of
             Some (JObj ps) \<Rightarrow> Some (JObj (map (\<lambda>(k, v). (k, sanitize_schema_for_gemini v)) ps))
           | _ \<Rightarrow> None) kvs1)))"
| "sanitize_schema_for_gemini JNull = JNull"
| "sanitize_schema_for_gemini (JBool b) = JBool b"
| "sanitize_schema_for_gemini (JNum n) = JNum n"
| "sanitize_schema_for_gemini (JStr s) = JStr s"
| "sanitize_schema_for_gemini (JArr xs) = JArr xs"
  by pat_completeness auto
termination
proof (relation "measure size")
  show "wf (measure (size :: json \<Rightarrow> nat))" by simp
  show "(v, JObj kvs) \<in> measure size"
    if "x = bt_remove ''additionalProperties'' kvs" "map_of x ''properties'' = Some y" "y = JObj ps" "z \<in> set ps" "(k, v) = z" for kvs x y ps z k v
    using that property_smaller[of kvs "''properties''" ps k v] by (simp add: map_of_bt_remove)
  show "(items, JObj kvs) \<in> measure size" if "x = bt_remove ''additionalProperties'' kvs" "map_of x ''items'' = Some items" for kvs x items
    using that member_smaller[of kvs "''items''" items] by (simp add: map_of_bt_remove)
qed

definition gemini_function_declaration_of :: "function_decl \<Rightarrow> gemini_function_declaration" where
  "gemini_function_declaration_of d =
     \<lparr>gfd_name = fd_name d, gfd_description = fd_description d, gfd_parameters = sanitize_schema_for_gemini (fd_parameters d)\<rparr>"

definition gemini_request_of :: "json_codec \<Rightarrow> (string \<Rightarrow> string) \<Rightarrow> llm_context \<Rightarrow> (provider_error, gemini_request) result" where
  "gemini_request_of codec b64 ctx =
     (let names = tool_call_names (ctx_messages ctx);
          system_parts = concat (map gemini_text_parts (filter (\<lambda>m. msg_role m = RSystem) (ctx_messages ctx)));
          contents = concat (map (gemini_contents_of codec b64 names) (ctx_messages ctx)) in
      if contents = [] then Inl (RequestFailed (ctx_provider ctx) ''Gemini request requires at least one non-system message'')
      else Inr \<lparr>gr_contents = contents,
                gr_system_instruction = (if system_parts = [] then None else Some \<lparr>gc_role = ''user'', gc_parts = system_parts\<rparr>),
                gr_tools = (if ctx_tools ctx = [] then None else Some [map gemini_function_declaration_of (ctx_tools ctx)])\<rparr>)"

section \<open>Responses\<close>

record gemini_candidate =
  gcd_content :: "gemini_content option"
  gcd_finish_reason :: "string option"

record gemini_usage =
  gu_prompt_token_count :: "u64 option"
  gu_candidates_token_count :: "u64 option"
  gu_total_token_count :: "u64 option"

record gemini_response =
  grs_candidates :: "gemini_candidate list"
  grs_usage_metadata :: "gemini_usage option"

definition candidate_parts :: "gemini_candidate \<Rightarrow> gemini_part list" where
  "candidate_parts c = (case gcd_content c of Some content \<Rightarrow> gc_parts content | None \<Rightarrow> [])"

definition part_text :: "gemini_part \<Rightarrow> string list" where
  "part_text p = (case gp_text p of Some t \<Rightarrow> if t = [] then [] else [t] | None \<Rightarrow> [])"

definition signature_metadata :: "gemini_part \<Rightarrow> json option" where
  "signature_metadata p = map_option (\<lambda>s. JObj [(''thought_signature'', JStr s)]) (gp_thought_signature p)"

definition gemini_usage_update :: "gemini_usage \<Rightarrow> usage_update" where
  "gemini_usage_update u =
     \<lparr>prompt_tokens = gu_prompt_token_count u, completion_tokens = gu_candidates_token_count u, total_tokens = gu_total_token_count u\<rparr>"

fun gemini_parts_of ::
  "(string \<Rightarrow> (string, string) result) \<Rightarrow> (nat \<Rightarrow> string) \<Rightarrow> string \<Rightarrow> nat \<Rightarrow> gemini_part list \<Rightarrow>
   (provider_error, string list \<times> tool_call list \<times> inline_media list) result" where
  "gemini_parts_of b64_decode fresh prov n [] = Inr ([], [], [])"
| "gemini_parts_of b64_decode fresh prov n (p # ps) =
     (let (calls, n') = (case gp_function_call p of
            Some fc \<Rightarrow> ([\<lparr>tc_id = fresh n, tc_name = gfc_name fc, tc_arguments = gfc_args fc, tc_metadata = signature_metadata p\<rparr>], Suc n)
          | None \<Rightarrow> ([], n)) in
      bind_result (case gp_inline_data p of
             None \<Rightarrow> Inr []
           | Some d \<Rightarrow> bind_result (map_err (b64_decode (gid_data d)) (\<lambda>e. ResponseParse prov (''failed to decode Gemini inlineData attachment: '' @ e)))
               (\<lambda>bytes. Inr [\<lparr>im_mime_type = gid_mime_type d, im_data = bytes\<rparr>])) (\<lambda>media.
      bind_result (gemini_parts_of b64_decode fresh prov n' ps) (\<lambda>(texts, calls', media').
        Inr (part_text p @ texts, calls @ calls', media @ media'))))"

definition normalize_gemini_response ::
  "(string \<Rightarrow> (string, string) result) \<Rightarrow> (nat \<Rightarrow> string) \<Rightarrow> string \<Rightarrow> gemini_response \<Rightarrow> (provider_error, response) result" where
  "normalize_gemini_response b64_decode fresh prov r =
     (case grs_candidates r of
        [] \<Rightarrow> Inl (ResponseParse prov ''Gemini response did not contain any candidates'')
      | candidate # _ \<Rightarrow>
          bind_result (gemini_parts_of b64_decode fresh prov 0 (candidate_parts candidate)) (\<lambda>(texts, calls, media).
            Inr \<lparr>rsp_message = \<lparr>msg_role = RAssistant, msg_content = (if texts = [] then None else Some (concat texts)), msg_tool_calls = calls,
                   msg_tool_call_id = None, msg_attachments = media\<rparr>,
                 rsp_tool_calls = calls, rsp_finish_reason = gcd_finish_reason candidate,
                 rsp_usage = map_option gemini_usage_update (grs_usage_metadata r)\<rparr>))"

section \<open>Streams\<close>

definition args_text :: "json_codec \<Rightarrow> json \<Rightarrow> string" where
  "args_text codec j = (case to_json_string codec j of Inr s \<Rightarrow> s | Inl _ \<Rightarrow> [])"

text \<open>The items of the parts; \<open>i\<close> is \<open>tool_call_index\<close>, \<open>n\<close> the number of ids drawn so far.\<close>

fun gemini_part_items :: "json_codec \<Rightarrow> (nat \<Rightarrow> string) \<Rightarrow> gemini_part list \<Rightarrow> nat \<Rightarrow> nat \<Rightarrow> stream_item list \<times> nat \<times> nat" where
  "gemini_part_items codec fresh [] i n = ([], i, n)"
| "gemini_part_items codec fresh (p # ps) i n =
     (case gp_function_call p of
        None \<Rightarrow> (case gemini_part_items codec fresh ps i n of (items, r) \<Rightarrow> (map SText (part_text p) @ items, r))
      | Some fc \<Rightarrow>
          (case gemini_part_items codec fresh ps (Suc i) (Suc n) of
             (items, r) \<Rightarrow> (map SText (part_text p) @
               SToolCallDelta \<lparr>tcd_index = i, tcd_id = Some (fresh n), tcd_name = Some (gfc_name fc), tcd_arguments = Some (args_text codec (gfc_args fc)),
                 tcd_metadata = signature_metadata p\<rparr> # items, r)))"

fun gemini_candidate_items :: "json_codec \<Rightarrow> (nat \<Rightarrow> string) \<Rightarrow> gemini_candidate list \<Rightarrow> nat \<Rightarrow> nat \<Rightarrow> stream_item list \<times> nat \<times> nat" where
  "gemini_candidate_items codec fresh [] i n = ([], i, n)"
| "gemini_candidate_items codec fresh (c # cs) i n =
     (case gemini_part_items codec fresh (candidate_parts c) i n of
        (items, i', n') \<Rightarrow>
          (case gemini_candidate_items codec fresh cs i' n' of
             (items', r) \<Rightarrow> (items @ non_empty_item SFinishReason (gcd_finish_reason c) @ items', r)))"

definition normalize_gemini_stream_chunk :: "json_codec \<Rightarrow> (nat \<Rightarrow> string) \<Rightarrow> gemini_response \<Rightarrow> nat \<Rightarrow> stream_item list \<times> nat" where
  "normalize_gemini_stream_chunk codec fresh chunk n =
     (case gemini_candidate_items codec fresh (grs_candidates chunk) 0 n of
        (items, i, n') \<Rightarrow>
          (items @ (case grs_usage_metadata chunk of Some u \<Rightarrow> [SUsageUpdate (gemini_usage_update u)] | None \<Rightarrow> []), n'))"

definition parse_gemini_stream_payload ::
  "json_codec \<Rightarrow> (nat \<Rightarrow> string) \<Rightarrow> (string \<Rightarrow> (string, gemini_response) result) \<Rightarrow> string \<Rightarrow> string \<Rightarrow> nat \<Rightarrow> (provider_error, stream_item list) result \<times> nat" where
  "parse_gemini_stream_payload codec fresh decode prov payload n =
     (let trimmed = trim payload in
      if trimmed = [] then (Inr [], n)
      else case decode trimmed of
        Inl e \<Rightarrow> (Inl (ResponseParse prov (''failed to parse Gemini streaming payload: '' @ e)), n)
      | Inr chunk \<Rightarrow> (case normalize_gemini_stream_chunk codec fresh chunk n of (items, n') \<Rightarrow> (Inr items, n')))"

fun is_finish :: "stream_item \<Rightarrow> bool" where
  "is_finish (SFinishReason r) = True"
| "is_finish _ = False"

record gemini_stream_state =
  gss_received_finish :: bool
  gss_ids_drawn :: nat

definition gemini_handle ::
  "json_codec \<Rightarrow> (nat \<Rightarrow> string) \<Rightarrow> (string \<Rightarrow> (string, gemini_response) result) \<Rightarrow> string \<Rightarrow> (string, gemini_stream_state) handler" where
  "gemini_handle codec fresh decode prov payload st =
     (case parse_gemini_stream_payload codec fresh decode prov payload (gss_ids_drawn st) of
        (Inr items, n) \<Rightarrow> (map Inr items, \<lparr>gss_received_finish = (gss_received_finish st \<or> list_ex is_finish items), gss_ids_drawn = n\<rparr>, False)
      | (Inl e, n) \<Rightarrow> ([Inl e], st\<lparr>gss_ids_drawn := n\<rparr>, True))"

definition gemini_texts :: "string \<Rightarrow> gemini_stream_state stream_texts" where
  "gemini_texts prov =
     \<lparr>st_dropped = (\<lambda>e. ''Gemini stream transport dropped: '' @ e), st_parse_error = ResponseParse prov,
      st_at_end = (\<lambda>st. if gss_received_finish st then [] else [Inr (SConnectionLost ''Gemini stream ended before finish_reason'')])\<rparr>"

definition gemini_stream_items :: "json_codec \<Rightarrow> (nat \<Rightarrow> string) \<Rightarrow> (string \<Rightarrow> (string, gemini_response) result) \<Rightarrow> string \<Rightarrow> body \<Rightarrow> sent list" where
  "gemini_stream_items codec fresh decode prov b =
     fst (read_loop data_push_byte data_finish (gemini_handle codec fresh decode prov) (gemini_texts prov) (body_broken b) (body_chunks b)
            sse_data_parser_default \<lparr>gss_received_finish = False, gss_ids_drawn = 0\<rparr>)"

section \<open>The provider\<close>

definition gemini_new :: "string \<Rightarrow> string \<Rightarrow> string \<Rightarrow> string \<Rightarrow> (string \<times> string) list \<Rightarrow> model_catalog \<Rightarrow> adapter" where
  "gemini_new provider_id catalog_provider_id api_key base_url extra_headers catalog =
     \<lparr>ap_provider_id = provider_id, ap_catalog_provider_id = catalog_provider_id, ap_model_catalog = catalog,
      ap_base_url = normalize_base_url_or_default base_url GEMINI_DEFAULT_BASE_URL, ap_api_key = api_key, ap_extra_headers = extra_headers\<rparr>"

definition generate_content_url :: "adapter \<Rightarrow> string \<Rightarrow> string" where
  "generate_content_url ap model = ap_base_url ap @ ''/v1beta/models/'' @ model @ '':generateContent''"

definition stream_generate_content_url :: "adapter \<Rightarrow> string \<Rightarrow> string" where
  "stream_generate_content_url ap model = ap_base_url ap @ ''/v1beta/models/'' @ model @ '':streamGenerateContent?alt=sse''"

definition gemini_http_request :: "adapter \<Rightarrow> string \<Rightarrow> 'b \<Rightarrow> 'b http_request" where
  "gemini_http_request ap url request = \<lparr>hq_url = url, hq_headers = (''x-goog-api-key'', ap_api_key ap) # ap_extra_headers ap, hq_body = request\<rparr>"

definition gemini_modalities :: "input_modality list" where
  "gemini_modalities = [ModImage, ModAudio, ModVideo, ModPdf, ModDocument]"

definition gemini_complete ::
  "(gemini_request, 'w) adapter_env \<Rightarrow> (string \<Rightarrow> (string, string) result) \<Rightarrow> (nat \<Rightarrow> string) \<Rightarrow> (http_reply \<Rightarrow> (string, gemini_response) result) \<Rightarrow>
   adapter \<Rightarrow> llm_context \<Rightarrow> ('w, provider_error, response) action" where
  "gemini_complete env b64_decode fresh decode ap ctx =
     bind_action (lift_action (validate_context gemini_modalities ap ctx)) (\<lambda>_.
     bind_action (lift_action (gemini_request_of (ae_codec env) (ae_b64 env) ctx)) (\<lambda>request.
     bind_action (send_checked (ae_errors env) (ap_provider_id ap) (ae_post env) (gemini_http_request ap (generate_content_url ap (ctx_model ctx)) request)) (\<lambda>reply.
     lift_action (bind_result (map_err (decode reply) (ResponseParse (ap_provider_id ap))) (normalize_gemini_response b64_decode fresh (ap_provider_id ap))))))"

definition gemini_stream ::
  "(gemini_request, 'w) adapter_env \<Rightarrow> (nat \<Rightarrow> string) \<Rightarrow> (string \<Rightarrow> (string, gemini_response) result) \<Rightarrow> adapter \<Rightarrow> llm_context \<Rightarrow>
   ('w, provider_error, sent list) action" where
  "gemini_stream env fresh decode ap ctx =
     bind_action (lift_action (validate_context gemini_modalities ap ctx)) (\<lambda>_.
     bind_action (lift_action (gemini_request_of (ae_codec env) (ae_b64 env) ctx)) (\<lambda>request.
     bind_action (send_checked (ae_errors env) (ap_provider_id ap) (ae_post env)
       (gemini_http_request ap (stream_generate_content_url ap (ctx_model ctx)) request)) (\<lambda>reply.
     ret_action (gemini_stream_items (ae_codec env) fresh decode (ap_provider_id ap) (hr_body reply)))))"

section \<open>Schemas sent have no additional properties\<close>

interpretation gemini_schema: schema_walk "bt_remove ''additionalProperties''" sanitize_schema_for_gemini
proof
  show "\<exists>kvs. j = JObj kvs" if "sanitize_schema_for_gemini j = JObj kvs'" for j kvs' using that by (cases j) auto
qed (auto simp: map_of_bt_remove Let_def)

text \<open>Gemini refuses schemas with \<open>additionalProperties\<close>: no schema of a tool that is sent has this member, at any depth the adapter reaches.\<close>

lemma gemini_schemas_clean:
  assumes "gemini_request_of codec b64 ctx = Inr request" "gr_tools request = Some ts" "t \<in> set (concat ts)" "subschema (gfd_parameters t) (JObj kvs)"
  shows "map_of kvs ''additionalProperties'' = None"
proof -
  from assms(1-3) obtain d where "t = gemini_function_declaration_of d" by (auto simp: gemini_request_of_def Let_def split: if_splits)
  with assms(4) have "subschema (sanitize_schema_for_gemini (fd_parameters d)) (JObj kvs)" by (simp add: gemini_function_declaration_of_def)
  then show ?thesis by (rule gemini_schema.subschema_marked) (simp add: map_of_bt_remove)
qed

section \<open>A streamed answer is put together\<close>

text \<open>The function calls of a chunk, each with the signature of its part, and the deltas they are sent as.\<close>

definition part_calls :: "gemini_part list \<Rightarrow> (gemini_function_call \<times> json option) list" where
  "part_calls ps = concat (map (\<lambda>p. case gp_function_call p of Some fc \<Rightarrow> [(fc, signature_metadata p)] | None \<Rightarrow> []) ps)"

definition chunk_parts :: "gemini_response \<Rightarrow> gemini_part list" where
  "chunk_parts c = concat (map candidate_parts (grs_candidates c))"

definition chunk_finish :: "gemini_response \<Rightarrow> string option" where
  "chunk_finish c = last_some (map (\<lambda>k. case gcd_finish_reason k of Some s \<Rightarrow> if s = [] then None else Some s | None \<Rightarrow> None) (grs_candidates c))"

definition call_delta :: "json_codec \<Rightarrow> (nat \<Rightarrow> string) \<Rightarrow> nat \<Rightarrow> nat \<Rightarrow> gemini_function_call \<times> json option \<Rightarrow> tool_call_delta" where
  "call_delta codec fresh i n c =
     \<lparr>tcd_index = i, tcd_id = Some (fresh n), tcd_name = Some (gfc_name (fst c)), tcd_arguments = Some (args_text codec (gfc_args (fst c))),
      tcd_metadata = snd c\<rparr>"

fun call_deltas :: "json_codec \<Rightarrow> (nat \<Rightarrow> string) \<Rightarrow> nat \<Rightarrow> nat \<Rightarrow> (gemini_function_call \<times> json option) list \<Rightarrow> tool_call_delta list" where
  "call_deltas codec fresh i n [] = []"
| "call_deltas codec fresh i n (c # cs) = call_delta codec fresh i n c # call_deltas codec fresh (Suc i) (Suc n) cs"

lemma call_deltas_append:
  "call_deltas codec fresh i n (cs @ ds) = call_deltas codec fresh i n cs @ call_deltas codec fresh (i + length cs) (n + length cs) ds"
  by (induction cs arbitrary: i n) simp_all

lemma call_deltas_at:
  "filter (\<lambda>d. tcd_index d = k) (call_deltas codec fresh i n cs) =
     (if i \<le> k \<and> k < i + length cs then [call_delta codec fresh k (n + (k - i)) (cs ! (k - i))] else [])"
proof (induction cs arbitrary: i n)
  case (Cons c cs)
  have "k - i = Suc (k - Suc i)" "Suc (n + k - Suc i) = n + k - i" if "Suc i \<le> k" using that by simp_all
  then show ?case by (auto simp: Cons.IH call_delta_def)
qed simp

text \<open>What a list of items is made of: its texts, its deltas, its finish reason, and no lost connection.\<close>

definition items_are :: "stream_item list \<Rightarrow> string list \<Rightarrow> tool_call_delta list \<Rightarrow> string option \<Rightarrow> bool" where
  "items_are items ts ds f \<longleftrightarrow>
     texts_of items = ts \<and> deltas_of items = ds \<and> finish_of items = f \<and> list_all (\<lambda>it. \<not> is_lost it) items \<and> (list_ex is_finish items \<longleftrightarrow> f \<noteq> None)"

lemma items_are_append:
  "items_are xs ts ds f \<Longrightarrow> items_are ys ts' ds' f' \<Longrightarrow> items_are (xs @ ys) (ts @ ts') (ds @ ds') (case f' of Some r \<Rightarrow> Some r | None \<Rightarrow> f)"
  by (auto simp: items_are_def parts_append split: option.splits)

lemma items_are_basic:
  "items_are [] [] [] None" "items_are [SToolCallDelta d] [] [d] None" "items_are [SUsageUpdate u] [] [] None"
  "items_are (map SText (part_text p)) (part_text p) [] None"
  "items_are (non_empty_item SFinishReason r) [] [] (case r of Some s \<Rightarrow> if s = [] then None else Some s | None \<Rightarrow> None)"
  by (auto simp: items_are_def quiet_item part_text_def non_empty_item_def texts_of_def deltas_of_def finish_of_def List.map_filter_simps split: option.splits)

lemma part_items:
  "\<exists>items. gemini_part_items codec fresh ps i n = (items, i + length (part_calls ps), n + length (part_calls ps)) \<and>
     items_are items (concat (map part_text ps)) (call_deltas codec fresh i n (part_calls ps)) None"
proof (induction ps arbitrary: i n)
  case Nil
  show ?case by (simp add: part_calls_def items_are_basic)
next
  case (Cons p ps)
  show ?case
  proof (cases "gp_function_call p")
    case None
    with Cons.IH[of i n] items_are_append[OF items_are_basic(4)[of p]] show ?thesis by (fastforce simp: part_calls_def)
  next
    case (Some fc)
    let ?d = "call_delta codec fresh i n (fc, signature_metadata p)"
    from Cons.IH[of "Suc i" "Suc n"] obtain items where rest: "gemini_part_items codec fresh ps (Suc i) (Suc n) =
        (items, Suc i + length (part_calls ps), Suc n + length (part_calls ps))"
      "items_are items (concat (map part_text ps)) (call_deltas codec fresh (Suc i) (Suc n) (part_calls ps)) None" by auto
    have "items_are (map SText (part_text p) @ [SToolCallDelta ?d] @ items) (part_text p @ [] @ concat (map part_text ps))
        ([] @ [?d] @ call_deltas codec fresh (Suc i) (Suc n) (part_calls ps)) None"
      using items_are_append[OF items_are_basic(4)[of p] items_are_append[OF items_are_basic(2)[of ?d] rest(2)]] by simp
    then show ?thesis using rest(1) Some by (simp add: part_calls_def call_delta_def)
  qed
qed

lemma candidate_items:
  "\<exists>items. gemini_candidate_items codec fresh cs i n = (items, i + length (part_calls (concat (map candidate_parts cs))), n + length (part_calls (concat (map candidate_parts cs)))) \<and>
     items_are items (concat (map part_text (concat (map candidate_parts cs)))) (call_deltas codec fresh i n (part_calls (concat (map candidate_parts cs))))
       (last_some (map (\<lambda>k. case gcd_finish_reason k of Some s \<Rightarrow> if s = [] then None else Some s | None \<Rightarrow> None) cs))"
proof (induction cs arbitrary: i n)
  case Nil
  show ?case by (simp add: part_calls_def items_are_basic)
next
  case (Cons c cs)
  have app: "part_calls (ps @ qs) = part_calls ps @ part_calls qs" for ps qs by (simp add: part_calls_def)
  from part_items[of codec fresh "candidate_parts c" i n] obtain its where one:
    "gemini_part_items codec fresh (candidate_parts c) i n = (its, i + length (part_calls (candidate_parts c)), n + length (part_calls (candidate_parts c)))"
    "items_are its (concat (map part_text (candidate_parts c))) (call_deltas codec fresh i n (part_calls (candidate_parts c))) None" by blast
  from Cons.IH[of "i + length (part_calls (candidate_parts c))" "n + length (part_calls (candidate_parts c))"] obtain items where rest:
    "gemini_candidate_items codec fresh cs (i + length (part_calls (candidate_parts c))) (n + length (part_calls (candidate_parts c))) =
       (items, i + length (part_calls (candidate_parts c)) + length (part_calls (concat (map candidate_parts cs))),
        n + length (part_calls (candidate_parts c)) + length (part_calls (concat (map candidate_parts cs))))"
    "items_are items (concat (map part_text (concat (map candidate_parts cs))))
       (call_deltas codec fresh (i + length (part_calls (candidate_parts c))) (n + length (part_calls (candidate_parts c))) (part_calls (concat (map candidate_parts cs))))
       (last_some (map (\<lambda>k. case gcd_finish_reason k of Some s \<Rightarrow> if s = [] then None else Some s | None \<Rightarrow> None) cs))" by blast
  show ?case
    using items_are_append[OF one(2) items_are_append[OF items_are_basic(5)[of "gcd_finish_reason c"] rest(2)]]
    by (auto simp: one(1) rest(1) app call_deltas_append split: option.splits)
qed

lemma chunk_items:
  "\<exists>items. normalize_gemini_stream_chunk codec fresh c n = (items, n + length (part_calls (chunk_parts c))) \<and>
     items_are items (concat (map part_text (chunk_parts c))) (call_deltas codec fresh 0 n (part_calls (chunk_parts c))) (chunk_finish c)"
proof -
  from candidate_items[of codec fresh "grs_candidates c" 0 n] obtain items where one:
    "gemini_candidate_items codec fresh (grs_candidates c) 0 n = (items, length (part_calls (chunk_parts c)), n + length (part_calls (chunk_parts c)))"
    "items_are items (concat (map part_text (chunk_parts c))) (call_deltas codec fresh 0 n (part_calls (chunk_parts c))) (chunk_finish c)"
    by (auto simp: chunk_parts_def chunk_finish_def)
  have "items_are (items @ us) (concat (map part_text (chunk_parts c))) (call_deltas codec fresh 0 n (part_calls (chunk_parts c))) (chunk_finish c)"
    if "us = [] \<or> (\<exists>u. us = [SUsageUpdate u])" for us
    using that items_are_append[OF one(2) items_are_basic(1)] items_are_append[OF one(2) items_are_basic(3)] by auto
  then show ?thesis by (auto simp: normalize_gemini_stream_chunk_def one(1) split: option.splits)
qed

text \<open>The deltas of all chunks; every chunk numbers its calls from zero, while the ids go on.\<close>

fun stream_deltas :: "json_codec \<Rightarrow> (nat \<Rightarrow> string) \<Rightarrow> nat \<Rightarrow> gemini_response list \<Rightarrow> tool_call_delta list" where
  "stream_deltas codec fresh n [] = []"
| "stream_deltas codec fresh n (c # cs) =
     call_deltas codec fresh 0 n (part_calls (chunk_parts c)) @ stream_deltas codec fresh (n + length (part_calls (chunk_parts c))) cs"

definition carries_chunk :: "(string \<Rightarrow> (string, gemini_response) result) \<Rightarrow> string \<Rightarrow> gemini_response \<Rightarrow> bool" where
  "carries_chunk decode p c \<longleftrightarrow> trim p \<noteq> [] \<and> decode (trim p) = Inr c"

lemma handle_chunks:
  assumes "list_all2 (carries_chunk decode) ps cs"
  shows "\<exists>items n'. handle_all (gemini_handle codec fresh decode prov) ps \<lparr>gss_received_finish = f, gss_ids_drawn = n\<rparr> =
      (map Inr items, \<lparr>gss_received_finish = (f \<or> last_some (map chunk_finish cs) \<noteq> None), gss_ids_drawn = n'\<rparr>, False) \<and>
    items_are items (concat (map (\<lambda>c. concat (map part_text (chunk_parts c))) cs)) (stream_deltas codec fresh n cs) (last_some (map chunk_finish cs))"
  using assms
proof (induction arbitrary: f n rule: list_all2_induct)
  case Nil
  show ?case by (simp add: items_are_basic)
next
  case (Cons p ps c cs)
  from chunk_items[of codec fresh c n] obtain items where one: "normalize_gemini_stream_chunk codec fresh c n = (items, n + length (part_calls (chunk_parts c)))"
    "items_are items (concat (map part_text (chunk_parts c))) (call_deltas codec fresh 0 n (part_calls (chunk_parts c))) (chunk_finish c)" by blast
  from Cons.IH[of "f \<or> chunk_finish c \<noteq> None" "n + length (part_calls (chunk_parts c))"] obtain rest n' where more:
    "handle_all (gemini_handle codec fresh decode prov) ps \<lparr>gss_received_finish = (f \<or> chunk_finish c \<noteq> None), gss_ids_drawn = n + length (part_calls (chunk_parts c))\<rparr> =
      (map Inr rest, \<lparr>gss_received_finish = ((f \<or> chunk_finish c \<noteq> None) \<or> last_some (map chunk_finish cs) \<noteq> None), gss_ids_drawn = n'\<rparr>, False)"
    "items_are rest (concat (map (\<lambda>c. concat (map part_text (chunk_parts c))) cs)) (stream_deltas codec fresh (n + length (part_calls (chunk_parts c))) cs)
      (last_some (map chunk_finish cs))" by blast
  have "gemini_handle codec fresh decode prov p \<lparr>gss_received_finish = f, gss_ids_drawn = n\<rparr> =
      (map Inr items, \<lparr>gss_received_finish = (f \<or> chunk_finish c \<noteq> None), gss_ids_drawn = n + length (part_calls (chunk_parts c))\<rparr>, False)"
    using Cons.hyps(1) one by (simp add: gemini_handle_def parse_gemini_stream_payload_def carries_chunk_def items_are_def Let_def)
  then show ?case
    using items_are_append[OF one(2) more(2)] more(1) by (intro exI[of _ "items @ rest"] exI[of _ n']) (auto split: option.splits)
qed

lemma stream_deltas_none: "list_all (\<lambda>c. part_calls (chunk_parts c) = []) cs \<Longrightarrow> stream_deltas codec fresh n cs = []"
  by (induction cs arbitrary: n) simp_all

lemma stream_deltas_one:
  assumes "length (filter (\<lambda>c. part_calls (chunk_parts c) \<noteq> []) cs) \<le> 1"
  shows "stream_deltas codec fresh n cs = call_deltas codec fresh 0 n (concat (map (\<lambda>c. part_calls (chunk_parts c)) cs))"
  using assms
proof (induction cs)
  case (Cons c cs)
  show ?case
  proof (cases "part_calls (chunk_parts c) = []")
    case False
    then have none: "list_all (\<lambda>c. part_calls (chunk_parts c) = []) cs" using Cons.prems by (simp add: filter_empty_conv list_all_iff)
    then have none_concat: "concat (map (\<lambda>c. part_calls (chunk_parts c)) cs) = []" by (simp add: list_all_iff)
    show ?thesis unfolding list.map concat.simps none_concat stream_deltas.simps stream_deltas_none[OF none] by simp
  qed (use Cons in simp)
qed simp

text \<open>What Gemini streams is what the runtime collects, as long as all function calls come in one chunk. When the body carries the chunks of
  an answer, cut into pieces anywhere, one of them has a finish reason and the connection does not break, the runtime ends with all text in order, the last finish reason, and
  one tool call for each function call, in their order and with ids of their own.\<close>

theorem gemini_stream_collected:
  assumes "list_all2 (\<lambda>p c. carries_chunk decode (join nl p) c) payloads cs" "list_all sse_payload payloads"
    "concat (body_chunks b) = concat (map encode_data payloads)" "body_broken b = None" "last_some (map chunk_finish cs) \<noteq> None"
    "length (filter (\<lambda>c. part_calls (chunk_parts c) \<noteq> []) cs) \<le> 1"
  shows "\<exists>c w'. collect_stream listening (map Done (gemini_stream_items codec fresh decode prov b)) collected_empty w = (Inr c, w') \<and>
    col_text c = concat (concat (map part_text (concat (map chunk_parts cs)))) \<and> col_finish c = last_some (map chunk_finish cs) \<and>
    (let calls = concat (map (\<lambda>c. part_calls (chunk_parts c)) cs) in
     \<forall>k. map_of (col_calls c) k = (if k < length calls
       then Some \<lparr>ae_id = Some (fresh k), ae_name = Some (gfc_name (fst (calls ! k))),
         ae_arguments = args_text codec (gfc_args (fst (calls ! k))), ae_metadata = snd (calls ! k)\<rparr> else None))"
proof -
  have "list_all2 (carries_chunk decode) (map (join nl) payloads) cs" using assms(1) by (simp add: list.rel_map)
  from handle_chunks[OF this, of codec fresh prov False 0] obtain items n' where h:
    "handle_all (gemini_handle codec fresh decode prov) (map (join nl) payloads) \<lparr>gss_received_finish = False, gss_ids_drawn = 0\<rparr> =
      (map Inr items, \<lparr>gss_received_finish = True, gss_ids_drawn = n'\<rparr>, False)"
    and parts: "items_are items (concat (map (\<lambda>c. concat (map part_text (chunk_parts c))) cs)) (stream_deltas codec fresh 0 cs) (last_some (map chunk_finish cs))"
    using assms(5) by auto
  have "gemini_stream_items codec fresh decode prov b = map Inr items"
    using h assms(4) by (simp add: gemini_stream_items_def read_data_body[OF assms(2,3)] gemini_texts_def)
  then have run: "collect_stream listening (map Done (gemini_stream_items codec fresh decode prov b)) collected_empty w =
      collect_stream listening (map (\<lambda>it. Done (Inr it)) items) collected_empty w" by (simp add: comp_def)
  have all_text: "concat (concat (map (\<lambda>c. concat (map part_text (chunk_parts c))) cs)) = concat (concat (map part_text (concat (map chunk_parts cs))))"
    by (induction cs) simp_all
  let ?calls = "concat (map (\<lambda>c. part_calls (chunk_parts c)) cs)"
  have "map_of (fold accumulator_merge (stream_deltas codec fresh 0 cs) []) k = (if k < length ?calls
       then Some \<lparr>ae_id = Some (fresh k), ae_name = Some (gfc_name (fst (?calls ! k))),
         ae_arguments = args_text codec (gfc_args (fst (?calls ! k))), ae_metadata = snd (?calls ! k)\<rparr> else None)" for k
    by (simp add: stream_deltas_one[OF assms(6)] accumulator_lookup call_deltas_at assembled_def call_delta_def split: option.splits)
  then show ?thesis
    unfolding run using parts all_text
    by (subst collect_complete) (auto simp: items_are_def list_all_iff collected_empty_def Let_def split: option.splits)
qed

section \<open>Examples\<close>

definition ex_gemini_chunk :: "gemini_part list \<Rightarrow> string option \<Rightarrow> gemini_response" where
  "ex_gemini_chunk ps r = \<lparr>grs_candidates = [\<lparr>gcd_content = Some \<lparr>gc_role = ''model'', gc_parts = ps\<rparr>, gcd_finish_reason = r\<rparr>], grs_usage_metadata = None\<rparr>"

definition ex_gemini_decode :: "string \<Rightarrow> (string, gemini_response) result" where
  "ex_gemini_decode s =
     (if s = ''{1}'' then Inr (ex_gemini_chunk [text_part ''hi''] None)
      else if s = ''{2}'' then Inr (ex_gemini_chunk [function_call_part ''read'' (JObj []) None] None)
      else if s = ''{3}'' then Inr (ex_gemini_chunk [function_call_part ''list'' (JObj []) None] (Some ''STOP''))
      else Inl ''bad'')"

definition ex_fresh :: "nat \<Rightarrow> string" where
  "ex_fresh n = ''call'' @ nat_to_string n"

definition ex_gemini_body :: "string list \<Rightarrow> body" where
  "ex_gemini_body ps = \<lparr>body_chunks = map (\<lambda>p. encode_data [p]) ps, body_broken = None\<rparr>"

theorem gemini_stream_collected_witness:
  "\<exists>c w'. collect_stream True (map Done (gemini_stream_items ex_codec ex_fresh ex_gemini_decode ''p'' (ex_gemini_body [''{1}'', ''{3}'']))) collected_empty
      \<lparr>sent_events = [], outside = ()\<rparr> = (Inr c, w') \<and> col_text c = ''hi'' \<and> col_finish c = Some ''STOP'' \<and>
    map_of (col_calls c) 0 = Some \<lparr>ae_id = Some ''call0'', ae_name = Some ''list'', ae_arguments = args_text ex_codec (JObj []), ae_metadata = None\<rparr> \<and>
    map_of (col_calls c) 1 = None"
proof -
  define cs where "cs = [ex_gemini_chunk [text_part ''hi''] None, ex_gemini_chunk [function_call_part ''list'' (JObj []) None] (Some ''STOP'')]"
  define calls where "calls = [(\<lparr>gfc_name = ''list'', gfc_args = JObj []\<rparr>, None :: json option)]"
  have parsed: "list_all2 (\<lambda>p c. carries_chunk ex_gemini_decode (join nl p) c) [[''{1}''], [''{3}'']] cs" unfolding cs_def by code_simp
  have lines: "list_all sse_payload [[''{1}''], [''{3}'']]" by code_simp
  have bytes: "concat (body_chunks (ex_gemini_body [''{1}'', ''{3}''])) = concat (map encode_data [[''{1}''], [''{3}'']])"
    "body_broken (ex_gemini_body [''{1}'', ''{3}'']) = None" by (simp_all add: ex_gemini_body_def)
  have vals: "last_some (map chunk_finish cs) = Some ''STOP''" "concat (concat (map part_text (concat (map chunk_parts cs)))) = ''hi''"
    "concat (map (\<lambda>c. part_calls (chunk_parts c)) cs) = calls"
    "length (filter (\<lambda>c. part_calls (chunk_parts c) \<noteq> []) cs) \<le> 1" "ex_fresh 0 = ''call0''"
    unfolding cs_def calls_def by code_simp+
  have some: "last_some (map chunk_finish cs) \<noteq> None" by (simp add: vals(1))
  obtain c w' where "collect_stream True (map Done (gemini_stream_items ex_codec ex_fresh ex_gemini_decode ''p'' (ex_gemini_body [''{1}'', ''{3}'']))) collected_empty
      \<lparr>sent_events = [], outside = ()\<rparr> = (Inr c, w')" "col_text c = ''hi''" "col_finish c = Some ''STOP''"
    "\<forall>k. map_of (col_calls c) k = (if k < length calls
       then Some \<lparr>ae_id = Some (ex_fresh k), ae_name = Some (gfc_name (fst (calls ! k))),
         ae_arguments = args_text ex_codec (gfc_args (fst (calls ! k))),
         ae_metadata = snd (calls ! k)\<rparr> else None)"
    using gemini_stream_collected[OF parsed lines bytes some vals(4), of True ex_codec ex_fresh "''p''" "\<lparr>sent_events = [], outside = ()\<rparr>"]
    unfolding vals(1-3) Let_def by blast
  then show ?thesis by (simp add: vals(5) calls_def)
qed

text \<open>
  Every chunk numbers its calls from zero, so the calls of two chunks share their numbers: the runtime makes one call of them, with the id and
  name of the second and the arguments of both one after the other.
\<close>

lemma calls_of_two_chunks_merged:
  "fold accumulator_merge (stream_deltas ex_codec ex_fresh 0 (map (\<lambda>s. projr (ex_gemini_decode s)) [''{2}'', ''{3}''])) [] =
     [(0, \<lparr>ae_id = Some ''call1'', ae_name = Some ''list'', ae_arguments = args_text ex_codec (JObj []) @ args_text ex_codec (JObj []), ae_metadata = None\<rparr>)]"
  by code_simp

text \<open>A completion returns the inline data of an answer as attachments, a stream has no item for it: the same part gives nothing.\<close>

lemma streamed_inline_data_dropped:
  assumes "b64_decode d = Inr bytes"
  shows "gemini_parts_of b64_decode fresh prov n [empty_part\<lparr>gp_inline_data := Some \<lparr>gid_mime_type = mime, gid_data = d\<rparr>\<rparr>] =
      Inr ([], [], [\<lparr>im_mime_type = mime, im_data = bytes\<rparr>])"
    "gemini_part_items codec fresh [empty_part\<lparr>gp_inline_data := Some \<lparr>gid_mime_type = mime, gid_data = d\<rparr>\<rparr>] i n = ([], i, n)"
  using assms by (simp_all add: empty_part_def part_text_def)

end
