(* ===== verification/Responses_Adapter.thy ===== *)
theory Responses_Adapter
  imports Gemini_Adapter
begin

text \<open>
  The adapter for the OpenAI Responses API (crate \<open>provider\<close>, \<open>responses.rs\<close>). The server keeps the conversation: a request may name the
  previous response and then carries only the messages that are new. What the adapter remembers for this, the id of the last
  response and the number of messages sent, is its chaining state; an operation is an action on it and the outside world. The JSON
  decoders are parameters.
\<close>

section \<open>Requests\<close>

definition OPENAI_RESPONSES_PATH :: string where
  "OPENAI_RESPONSES_PATH = ''/v1/responses''"

datatype responses_input_item =
    InputMessage string json
  | InputFunctionCall string string string
  | InputFunctionCallOutput string string

record responses_tool_declaration =
  rtd_type :: string
  rtd_name :: string
  rtd_description :: "string option"
  rtd_parameters :: json
  rtd_strict :: "bool option"

record responses_api_request =
  rar_model :: string
  rar_input :: "responses_input_item list"
  rar_previous_response_id :: "string option"
  rar_instructions :: "string option"
  rar_tools :: "responses_tool_declaration list"
  rar_store :: bool
  rar_stream :: bool

text \<open>The file has its own copy of the function of \<open>openai.rs\<close>, with the same body.\<close>

definition responses_sanitize_schema_strict :: "json \<Rightarrow> json" where
  "responses_sanitize_schema_strict = sanitize_schema_strict"

definition responses_tool_declaration_of :: "function_decl \<Rightarrow> responses_tool_declaration" where
  "responses_tool_declaration_of d =
     \<lparr>rtd_type = ''function'', rtd_name = fd_name d, rtd_description = fd_description d,
      rtd_parameters = responses_sanitize_schema_strict (fd_parameters d), rtd_strict = None\<rparr>"

definition non_blank_content :: "message \<Rightarrow> string list" where
  "non_blank_content m = (case msg_content m of Some t \<Rightarrow> if trim t = [] then [] else [t] | None \<Rightarrow> [])"

definition responses_user_content :: "(string \<Rightarrow> string) \<Rightarrow> message \<Rightarrow> json" where
  "responses_user_content b64 m =
     (if image_attachments m = [] then JStr (case msg_content m of Some t \<Rightarrow> t | None \<Rightarrow> [])
      else JArr ((case msg_content m of Some t \<Rightarrow> [JObj [(''text'', JStr t), (''type'', JStr ''input_text'')]] | None \<Rightarrow> []) @
        map (\<lambda>a. JObj [(''image_url'', JStr (data_url b64 a)), (''type'', JStr ''input_image'')]) (image_attachments m)))"

text \<open>The input items one message is sent as.\<close>

definition responses_items_of :: "json_codec \<Rightarrow> (string \<Rightarrow> string) \<Rightarrow> message \<Rightarrow> responses_input_item list" where
  "responses_items_of codec b64 m =
     (case msg_role m of
        RSystem \<Rightarrow> []
      | RUser \<Rightarrow>
          if non_blank_content m \<noteq> [] \<or> image_attachments m \<noteq> [] then [InputMessage ''user'' (responses_user_content b64 m)] else []
      | RAssistant \<Rightarrow>
          map (\<lambda>t. InputMessage ''assistant'' (JStr t)) (non_blank_content m) @
          map (\<lambda>tc. InputFunctionCall (tc_id tc) (tc_name tc) (args_text codec (tc_arguments tc))) (msg_tool_calls m)
      | RTool \<Rightarrow>
          [InputFunctionCallOutput (case msg_tool_call_id m of Some i \<Rightarrow> i | None \<Rightarrow> []) (case msg_content m of Some c \<Rightarrow> c | None \<Rightarrow> [])])"

record chaining =
  ch_previous_response_id :: "string option"
  ch_last_input_count :: nat

definition chaining_new :: chaining where
  "chaining_new = \<lparr>ch_previous_response_id = None, ch_last_input_count = 0\<rparr>"

definition start_index :: "chaining \<Rightarrow> llm_context \<Rightarrow> nat" where
  "start_index ch ctx =
     (if ch_previous_response_id ch \<noteq> None \<and> 0 < ch_last_input_count ch then min (ch_last_input_count ch) (length (ctx_messages ctx)) else 0)"

text \<open>\<open>from_context_with_stream\<close>, whose two arguments on the conversation so far are the fields of \<open>ch\<close>.\<close>

definition responses_request_of :: "json_codec \<Rightarrow> (string \<Rightarrow> string) \<Rightarrow> llm_context \<Rightarrow> chaining \<Rightarrow> bool \<Rightarrow> responses_api_request" where
  "responses_request_of codec b64 ctx ch stream =
     (let messages = drop (start_index ch ctx) (ctx_messages ctx);
          system_instructions = concat (map non_blank_content (filter (\<lambda>m. msg_role m = RSystem) messages)) in
      \<lparr>rar_model = ctx_model ctx, rar_input = concat (map (responses_items_of codec b64) messages),
       rar_previous_response_id = ch_previous_response_id ch,
       rar_instructions = (if start_index ch ctx = 0 \<and> system_instructions \<noteq> [] then Some (join nl system_instructions) else None),
       rar_tools = map responses_tool_declaration_of (ctx_tools ctx), rar_store = True, rar_stream = stream\<rparr>)"

section \<open>Responses\<close>

datatype responses_output_content = OutputText string

datatype responses_output_block =
    OutputMessage string "responses_output_content list"
  | OutputFunctionCall string string string

record responses_usage =
  rus_input_tokens :: "u64 option"
  rus_output_tokens :: "u64 option"
  rus_total_tokens :: "u64 option"

record responses_api_response =
  rap_id :: "string option"
  rap_output :: "responses_output_block list"
  rap_status :: "string option"
  rap_usage :: "responses_usage option"

record normalized_responses =
  nr_response :: response
  nr_response_id :: "string option"

definition responses_usage_update :: "responses_usage \<Rightarrow> usage_update" where
  "responses_usage_update u =
     \<lparr>prompt_tokens = rus_input_tokens u, completion_tokens = rus_output_tokens u, total_tokens = rus_total_tokens u\<rparr>"

fun block_texts :: "responses_output_block \<Rightarrow> string list" where
  "block_texts (OutputMessage role content) = concat (map (\<lambda>c. case c of OutputText t \<Rightarrow> if t = [] then [] else [t]) content)"
| "block_texts (OutputFunctionCall call_id n arguments) = []"

fun block_tool_calls :: "json_codec \<Rightarrow> responses_output_block \<Rightarrow> tool_call list" where
  "block_tool_calls codec (OutputMessage role content) = []"
| "block_tool_calls codec (OutputFunctionCall call_id n arguments) =
     [\<lparr>tc_id = call_id, tc_name = n, tc_arguments = (case from_str codec arguments of Inr j \<Rightarrow> j | Inl _ \<Rightarrow> JStr arguments), tc_metadata = None\<rparr>]"

definition normalize_responses_response ::
  "json_codec \<Rightarrow> string \<Rightarrow> responses_api_response \<Rightarrow> (provider_error, normalized_responses) result" where
  "normalize_responses_response codec prov r =
     (let texts = concat (map block_texts (rap_output r)); calls = concat (map (block_tool_calls codec) (rap_output r)) in
      if rap_output r = [] then Inl (ResponseParse prov ''Responses API response contained no output items'')
      else Inr \<lparr>nr_response =
          \<lparr>rsp_message = \<lparr>msg_role = RAssistant, msg_content = (if texts = [] then None else Some (concat texts)), msg_tool_calls = calls,
             msg_tool_call_id = None, msg_attachments = []\<rparr>,
           rsp_tool_calls = calls, rsp_finish_reason = rap_status r, rsp_usage = map_option responses_usage_update (rap_usage r)\<rparr>,
        nr_response_id = rap_id r\<rparr>)"

section \<open>Streams\<close>

record responses_output_item_added =
  roi_type :: "string option"
  roi_call_id :: "string option"
  roi_name :: "string option"

text \<open>The decoders of the data of an event, one for each type of event that carries data the adapter reads.\<close>

record responses_decoders =
  rdc_text_delta :: "string \<Rightarrow> (string, string) result"
  rdc_args_delta :: "string \<Rightarrow> (string, u32 \<times> string) result"
  rdc_item_added :: "string \<Rightarrow> (string, u32 \<times> responses_output_item_added) result"
  rdc_completed :: "string \<Rightarrow> (string, responses_api_response) result"
  rdc_failed :: "string \<Rightarrow> (string, string option) result"

datatype responses_event_action =
    ResponsesItems "stream_item list"
  | ResponsesCompleted string "stream_item list"
  | ResponsesFailure provider_error

record responses_call_state =
  rcs_id :: "string option"
  rcs_name :: "string option"
  rcs_arguments :: string
  rcs_ordinal :: "u32 option"

record responses_accumulator =
  rac_calls :: "(u32 \<times> responses_call_state) list"
  rac_next_ordinal :: u32
  rac_streamed_argument_deltas :: bool
  rac_streamed_text_deltas :: bool

definition responses_accumulator_default :: responses_accumulator where
  "responses_accumulator_default =
     \<lparr>rac_calls = [], rac_next_ordinal = 0, rac_streamed_argument_deltas = False, rac_streamed_text_deltas = False\<rparr>"

definition call_or_default :: "u32 \<Rightarrow> responses_accumulator \<Rightarrow> responses_call_state" where
  "call_or_default oi acc =
     (case map_of (rac_calls acc) oi of Some e \<Rightarrow> e | None \<Rightarrow> \<lparr>rcs_id = None, rcs_name = None, rcs_arguments = [], rcs_ordinal = None\<rparr>)"

text \<open>Both methods of the accumulator first see to it that the entry has an ordinal.\<close>

definition ensure_ordinal :: "u32 \<Rightarrow> responses_accumulator \<Rightarrow> responses_accumulator" where
  "ensure_ordinal oi acc =
     (if rcs_ordinal (call_or_default oi acc) = None
      then acc\<lparr>rac_next_ordinal := rac_next_ordinal acc + 1,
               rac_calls := bt_insert oi ((call_or_default oi acc)\<lparr>rcs_ordinal := Some (rac_next_ordinal acc)\<rparr>) (rac_calls acc)\<rparr>
      else acc)"

definition register_output_item :: "u32 \<Rightarrow> string option \<Rightarrow> string option \<Rightarrow> responses_accumulator \<Rightarrow> responses_accumulator" where
  "register_output_item oi call_id n acc =
     (let acc = ensure_ordinal oi acc;
          e = call_or_default oi acc;
          e = (if call_id \<noteq> None then e\<lparr>rcs_id := call_id\<rparr> else e);
          e = (if n \<noteq> None then e\<lparr>rcs_name := n\<rparr> else e)
      in acc\<lparr>rac_calls := bt_insert oi e (rac_calls acc)\<rparr>)"

text \<open>The two unwraps of \<open>append_arguments\<close> cannot fail: the entry exists and has an ordinal after \<open>ensure_ordinal\<close>.\<close>

definition append_arguments :: "u32 \<Rightarrow> string \<Rightarrow> responses_accumulator \<Rightarrow> stream_item option \<times> responses_accumulator" where
  "append_arguments oi delta acc =
     (let acc = (ensure_ordinal oi acc)\<lparr>rac_streamed_argument_deltas := True\<rparr>;
          e = call_or_default oi acc;
          e = e\<lparr>rcs_arguments := rcs_arguments e @ delta\<rparr>
      in (map_option (\<lambda>ordinal. SToolCallDelta \<lparr>tcd_index = unat ordinal, tcd_id = rcs_id e, tcd_name = rcs_name e,
            tcd_arguments = (if delta = [] then None else Some delta), tcd_metadata = None\<rparr>) (rcs_ordinal e),
          acc\<lparr>rac_calls := bt_insert oi e (rac_calls acc)\<rparr>))"

definition completed_call_deltas :: "json_codec \<Rightarrow> tool_call list \<Rightarrow> stream_item list" where
  "completed_call_deltas codec calls =
     map (\<lambda>(i, tc). SToolCallDelta \<lparr>tcd_index = i, tcd_id = Some (tc_id tc), tcd_name = Some (tc_name tc),
       tcd_arguments = Some (args_text codec (tc_arguments tc)), tcd_metadata = None\<rparr>) (enumerate 0 calls)"

definition completed_items :: "json_codec \<Rightarrow> response \<Rightarrow> responses_accumulator \<Rightarrow> stream_item list" where
  "completed_items codec r acc =
     (case msg_content (rsp_message r) of Some c \<Rightarrow> if \<not> rac_streamed_text_deltas acc then [SText c] else [] | None \<Rightarrow> []) @
     (if \<not> rac_streamed_argument_deltas acc then completed_call_deltas codec (rsp_tool_calls r) else []) @
     (case rsp_usage r of Some u \<Rightarrow> [SUsageUpdate u] | None \<Rightarrow> []) @
     (case rsp_finish_reason r of Some reason \<Rightarrow> [SFinishReason reason] | None \<Rightarrow> [])"

definition parse_text_delta where
  "parse_text_delta dec prov data acc =
     (case rdc_text_delta dec data of
        Inl e \<Rightarrow> (Inl (ResponseParse prov (''failed to parse output_text.delta: '' @ e)), acc)
      | Inr delta \<Rightarrow>
          if delta = [] then (Inr (ResponsesItems []), acc)
          else (Inr (ResponsesItems [SText delta]), acc\<lparr>rac_streamed_text_deltas := True\<rparr>))"

definition parse_args_delta where
  "parse_args_delta dec prov data acc =
     (case rdc_args_delta dec data of
        Inl e \<Rightarrow> (Inl (ResponseParse prov (''failed to parse function_call_arguments.delta: '' @ e)), acc)
      | Inr (oi, delta) \<Rightarrow>
          (case append_arguments oi delta acc of
             (Some item, acc') \<Rightarrow> (Inr (ResponsesItems [item]), acc')
           | (None, acc') \<Rightarrow> (Inr (ResponsesItems []), acc')))"

definition parse_item_added where
  "parse_item_added dec prov data acc =
     (case rdc_item_added dec data of
        Inl e \<Rightarrow> (Inl (ResponseParse prov (''failed to parse output_item.added: '' @ e)), acc)
      | Inr (oi, item) \<Rightarrow> (Inr (ResponsesItems []), register_output_item oi (roi_call_id item) (roi_name item) acc))"

definition parse_completed where
  "parse_completed codec dec prov data acc =
     (case rdc_completed dec data of
        Inl e \<Rightarrow> (Inl (ResponseParse prov (''failed to parse response.completed: '' @ e)), acc)
      | Inr r \<Rightarrow>
          (case normalize_responses_response codec prov r of
             Inl e \<Rightarrow> (Inl e, acc)
           | Inr n \<Rightarrow>
               let items = completed_items codec (nr_response n) acc in
               (Inr (case nr_response_id n of Some response_id \<Rightarrow> ResponsesCompleted response_id items | None \<Rightarrow> ResponsesItems items), acc)))"

definition parse_failed_event where
  "parse_failed_event dec prov data acc =
     (case rdc_failed dec data of
        Inl e \<Rightarrow> (Inl (ResponseParse prov (''failed to parse response.failed: '' @ e)), acc)
      | Inr err \<Rightarrow> (Inr (ResponsesFailure (RequestFailed prov (case err of Some m \<Rightarrow> m | None \<Rightarrow> ''Responses API failed''))), acc))"

definition parse_responses_stream_event ::
  "json_codec \<Rightarrow> responses_decoders \<Rightarrow> string \<Rightarrow> sse_event \<Rightarrow> responses_accumulator \<Rightarrow>
   (provider_error, responses_event_action) result \<times> responses_accumulator" where
  "parse_responses_stream_event codec dec prov ev acc =
     (let event_type = (case ev_event_type ev of Some t \<Rightarrow> t | None \<Rightarrow> []) in
      if event_type = [] then (Inr (ResponsesItems []), acc)
      else if event_type = ''response.output_text.delta'' then parse_text_delta dec prov (ev_data ev) acc
      else if event_type = ''response.function_call_arguments.delta'' then parse_args_delta dec prov (ev_data ev) acc
      else if event_type = ''response.output_item.added'' then parse_item_added dec prov (ev_data ev) acc
      else if event_type = ''response.completed'' then parse_completed codec dec prov (ev_data ev) acc
      else if event_type = ''response.failed'' then parse_failed_event dec prov (ev_data ev) acc
      else (Inr (ResponsesItems []), acc))"

record responses_stream_state =
  rss_accumulator :: responses_accumulator
  rss_chaining :: chaining

text \<open>The body of the loop of \<open>process_responses_events\<close>; the flag says that the stream is over.\<close>

definition responses_handle ::
  "json_codec \<Rightarrow> responses_decoders \<Rightarrow> string \<Rightarrow> nat \<Rightarrow> (sse_event, responses_stream_state) handler" where
  "responses_handle codec dec prov message_count ev st =
     (case parse_responses_stream_event codec dec prov ev (rss_accumulator st) of
        (Inl e, acc) \<Rightarrow> ([Inl e], st\<lparr>rss_accumulator := acc\<rparr>, True)
      | (Inr (ResponsesItems items), acc) \<Rightarrow> (map Inr items, st\<lparr>rss_accumulator := acc\<rparr>, False)
      | (Inr (ResponsesCompleted response_id items), acc) \<Rightarrow>
          (map Inr items, \<lparr>rss_accumulator = acc,
             rss_chaining = \<lparr>ch_previous_response_id = Some response_id, ch_last_input_count = message_count\<rparr>\<rparr>, True)
      | (Inr (ResponsesFailure e), acc) \<Rightarrow> ([Inl e], st\<lparr>rss_accumulator := acc\<rparr>, True))"

definition responses_texts :: "string \<Rightarrow> responses_stream_state stream_texts" where
  "responses_texts prov =
     \<lparr>st_dropped = (\<lambda>e. ''Responses stream transport dropped: '' @ e), st_parse_error = ResponseParse prov,
      st_at_end = (\<lambda>_. [Inr (SConnectionLost ''Responses stream ended before response.completed'')])\<rparr>"

text \<open>The task of a stream: what it sends and the chaining state it leaves.\<close>

definition responses_stream_task ::
  "json_codec \<Rightarrow> responses_decoders \<Rightarrow> string \<Rightarrow> nat \<Rightarrow> body \<Rightarrow> chaining \<Rightarrow> sent list \<times> chaining" where
  "responses_stream_task codec dec prov message_count b ch =
     (case read_loop event_push_byte event_finish (responses_handle codec dec prov message_count) (responses_texts prov) (body_broken b) (body_chunks b)
             sse_event_parser_default \<lparr>rss_accumulator = responses_accumulator_default, rss_chaining = ch\<rparr> of
        (items, st) \<Rightarrow> (items, rss_chaining st))"

section \<open>The provider\<close>

definition responses_new :: "string \<Rightarrow> string \<Rightarrow> string \<Rightarrow> string \<Rightarrow> (string \<times> string) list \<Rightarrow> model_catalog \<Rightarrow> adapter \<times> chaining" where
  "responses_new provider_id catalog_provider_id api_key base_url extra_headers catalog =
     (\<lparr>ap_provider_id = provider_id, ap_catalog_provider_id = catalog_provider_id, ap_model_catalog = catalog,
       ap_base_url = normalize_base_url_or_default base_url OPENAI_DEFAULT_BASE_URL, ap_api_key = api_key, ap_extra_headers = extra_headers\<rparr>,
      chaining_new)"

definition responses_url :: "adapter \<Rightarrow> string" where
  "responses_url ap = ap_base_url ap @ OPENAI_RESPONSES_PATH"

text \<open>
  The loop that sends a request. A client error on a request that names a previous response drops the chaining state and sends the whole
  context once more.
\<close>

function responses_send ::
  "(responses_api_request, 'w) adapter_env \<Rightarrow> adapter \<Rightarrow> llm_context \<Rightarrow> bool \<Rightarrow> bool \<Rightarrow> responses_api_request \<Rightarrow>
   (chaining \<times> 'w, provider_error, http_reply) action" where
  "responses_send env ap ctx stream attempted_with_chaining request (ch, w) =
     (case ae_post env (bearer_request ap (responses_url ap) request) w of
        (Inl e, w') \<Rightarrow> (Inl (Transport (ap_provider_id ap) e), ch, w')
      | (Inr reply, w') \<Rightarrow>
          if is_success (hr_status reply) then (Inr reply, ch, w')
          else if attempted_with_chaining \<and> 400 \<le> hr_status reply \<and> hr_status reply < 500
          then responses_send env ap ctx stream False (responses_request_of (ae_codec env) (ae_b64 env) ctx chaining_new stream) (chaining_new, w')
          else (Inl (http_status_error (ae_errors env) (ap_provider_id ap) reply), ch, w'))"
  by pat_completeness auto
termination by (relation "measure (\<lambda>(env, ap, ctx, stream, attempted, request, st). if attempted then 1 else 0)") auto

definition responses_request ::
  "(responses_api_request, 'w) adapter_env \<Rightarrow> adapter \<Rightarrow> llm_context \<Rightarrow> bool \<Rightarrow> (chaining \<times> 'w, provider_error, http_reply) action" where
  "responses_request env ap ctx stream st =
     (let request = responses_request_of (ae_codec env) (ae_b64 env) ctx (fst st) stream in
      responses_send env ap ctx stream (rar_previous_response_id request \<noteq> None) request st)"

definition update_chaining_state :: "string option \<Rightarrow> nat \<Rightarrow> (chaining \<times> 'w, provider_error, unit) action" where
  "update_chaining_state response_id message_count st =
     (case response_id of
        Some i \<Rightarrow> (Inr (), \<lparr>ch_previous_response_id = Some i, ch_last_input_count = message_count\<rparr>, snd st)
      | None \<Rightarrow> (Inr (), st))"

definition responses_complete ::
  "(responses_api_request, 'w) adapter_env \<Rightarrow> (http_reply \<Rightarrow> (string, responses_api_response) result) \<Rightarrow> adapter \<Rightarrow> llm_context \<Rightarrow>
   (chaining \<times> 'w, provider_error, response) action" where
  "responses_complete env decode ap ctx =
     bind_action (lift_action (validate_context [ModImage] ap ctx)) (\<lambda>_.
     bind_action (responses_request env ap ctx False) (\<lambda>reply.
     bind_action (lift_action (bind_result (map_err (decode reply) (ResponseParse (ap_provider_id ap)))
       (normalize_responses_response (ae_codec env) (ap_provider_id ap)))) (\<lambda>n.
     bind_action (update_chaining_state (nr_response_id n) (length (ctx_messages ctx))) (\<lambda>_.
     ret_action (nr_response n)))))"

text \<open>The stream with its task run to the end; the task sets the chaining state before it sends the last items.\<close>

definition responses_stream ::
  "(responses_api_request, 'w) adapter_env \<Rightarrow> responses_decoders \<Rightarrow> adapter \<Rightarrow> llm_context \<Rightarrow> (chaining \<times> 'w, provider_error, sent list) action" where
  "responses_stream env dec ap ctx =
     bind_action (lift_action (validate_context [ModImage] ap ctx)) (\<lambda>_.
     bind_action (responses_request env ap ctx True) (\<lambda>reply (ch, w).
       case responses_stream_task (ae_codec env) dec (ap_provider_id ap) (length (ctx_messages ctx)) (hr_body reply) ch of
         (items, ch') \<Rightarrow> (Inr items, ch', w)))"

section \<open>Building a provider\<close>

datatype built_provider =
    BuiltOpenAI adapter
  | BuiltAnthropic anthropic_adapter
  | BuiltGemini adapter
  | BuiltResponses adapter chaining

definition build_provider ::
  "(string \<Rightarrow> string option) \<Rightarrow> string \<Rightarrow> provider_registry_entry \<Rightarrow> model_catalog \<Rightarrow> (provider_error, built_provider) result" where
  "build_provider getenv provider_id entry catalog =
     bind_result (ok_or (resolve_api_key_for_entry getenv entry) (MissingApiKey provider_id)) (\<lambda>api_key.
       let catalog_provider_id = effective_catalog_provider entry;
           base_url = unwrap_or (pre_base_url entry) [];
           extra_headers = unwrap_or (pre_extra_headers entry) []
       in Inr (case pre_provider_type entry of
            Openai \<Rightarrow> BuiltOpenAI (openai_new provider_id catalog_provider_id api_key base_url extra_headers catalog)
          | Anthropic \<Rightarrow> BuiltAnthropic (anthropic_new provider_id catalog_provider_id api_key base_url extra_headers catalog)
          | Gemini \<Rightarrow> BuiltGemini (gemini_new provider_id catalog_provider_id api_key base_url extra_headers catalog)
          | OpenaiResponses \<Rightarrow>
              (case responses_new provider_id catalog_provider_id api_key base_url extra_headers catalog of (ap, ch) \<Rightarrow> BuiltResponses ap ch)))"

section \<open>A refused chain\<close>

text \<open>A chain the server does not accept costs one request and nothing else: when the first request names a previous response and is
  answered by a client error, the completion goes on, and ends, exactly as a provider without any chain would from there, and so does a stream. In
  particular the whole context is sent, and there is no third request.\<close>

theorem responses_chain_refused:
  assumes "validate_context [ModImage] ap ctx = Inr ()" "ch_previous_response_id ch \<noteq> None"
    "ae_post env (bearer_request ap (responses_url ap) (responses_request_of (ae_codec env) (ae_b64 env) ctx ch False)) w = (Inr reply, w1)"
    "400 \<le> hr_status reply" "hr_status reply < 500"
    "ae_post env (bearer_request ap (responses_url ap) (responses_request_of (ae_codec env) (ae_b64 env) ctx ch True)) w = (Inr reply', w2)"
    "400 \<le> hr_status reply'" "hr_status reply' < 500"
  shows "responses_complete env decode ap ctx (ch, w) = responses_complete env decode ap ctx (chaining_new, w1) \<and>
    responses_stream env dec ap ctx (ch, w) = responses_stream env dec ap ctx (chaining_new, w2)"
proof -
  have "responses_request env ap ctx stream (ch, v) = responses_request env ap ctx stream (chaining_new, v')"
    if "ae_post env (bearer_request ap (responses_url ap) (responses_request_of (ae_codec env) (ae_b64 env) ctx ch stream)) v = (Inr r, v')"
      "400 \<le> hr_status r" "hr_status r < 500" for stream v r v'
  proof -
    have "rar_previous_response_id (responses_request_of (ae_codec env) (ae_b64 env) ctx ch stream) \<noteq> None"
      using assms(2) by (simp add: responses_request_of_def Let_def)
    moreover have "rar_previous_response_id (responses_request_of (ae_codec env) (ae_b64 env) ctx chaining_new stream) = None"
      by (simp add: responses_request_of_def chaining_new_def Let_def)
    ultimately show ?thesis
      unfolding responses_request_def Let_def fst_conv by (subst responses_send.simps) (use that in \<open>simp add: is_success_def del: responses_send.simps\<close>)
  qed
  from this[OF assms(3-5)] this[OF assms(6-8)] show ?thesis
    by (simp add: responses_complete_def responses_stream_def assms(1) bind_action_def lift_action_def split: prod.splits)
qed

section \<open>A streamed answer is put together\<close>

text \<open>
  The events of a stream as far as they matter, and the output items they describe: the number of an item in the output, its id, its name, and its arguments
  once a piece of them has come.
\<close>

datatype responses_event = RText string | RArgs u32 string | RAdded u32 "string option" "string option" | ROther

type_synonym output_call = "u32 \<times> string option \<times> string option \<times> string option"

definition event_says :: "responses_decoders \<Rightarrow> sse_event \<Rightarrow> responses_event option" where
  "event_says dec ev =
     (let t = (case ev_event_type ev of Some t \<Rightarrow> t | None \<Rightarrow> []) in
      if t = ''response.output_text.delta''
      then (case rdc_text_delta dec (ev_data ev) of Inr s \<Rightarrow> Some (RText s) | Inl _ \<Rightarrow> None)
      else if t = ''response.function_call_arguments.delta''
      then (case rdc_args_delta dec (ev_data ev) of Inr (oi, s) \<Rightarrow> Some (RArgs oi s) | Inl _ \<Rightarrow> None)
      else if t = ''response.output_item.added''
      then (case rdc_item_added dec (ev_data ev) of Inr (oi, item) \<Rightarrow> Some (RAdded oi (roi_call_id item) (roi_name item)) | Inl _ \<Rightarrow> None)
      else if t \<in> {''response.completed'', ''response.failed''} then None
      else Some ROther)"

fun output_step :: "responses_event \<Rightarrow> output_call list \<Rightarrow> output_call list" where
  "output_step (RAdded oi i n) cs = cs @ [(oi, i, n, None)]"
| "output_step (RArgs oi s) cs =
     map (\<lambda>(oi', i, n, a). (oi', i, n, if oi' = oi then Some ((case a of Some p \<Rightarrow> p | None \<Rightarrow> []) @ s) else a)) cs"
| "output_step ev cs = cs"

text \<open>An item is added once, before its arguments.\<close>

fun items_added :: "responses_event list \<Rightarrow> u32 set \<Rightarrow> bool" where
  "items_added [] S = True"
| "items_added (RAdded oi i n # evs) S = (oi \<notin> S \<and> items_added evs (insert oi S))"
| "items_added (RArgs oi s # evs) S = (oi \<in> S \<and> items_added evs S)"
| "items_added (ev # evs) S = items_added evs S"

fun delta_text :: "responses_event \<Rightarrow> string" where
  "delta_text (RText s) = s"
| "delta_text ev = []"

fun has_args :: "responses_event \<Rightarrow> bool" where
  "has_args (RArgs oi s) = True"
| "has_args ev = False"

definition output_entry :: "output_call \<Rightarrow> accumulator_entry option" where
  "output_entry c = (case c of (oi, i, n, a) \<Rightarrow> map_option (\<lambda>s. \<lparr>ae_id = i, ae_name = n, ae_arguments = s, ae_metadata = None\<rparr>) a)"

definition outputs_known :: "responses_accumulator \<Rightarrow> output_call list \<Rightarrow> bool" where
  "outputs_known acc cs \<longleftrightarrow>
     distinct (map fst cs) \<and> rac_next_ordinal acc = of_nat (length cs) \<and> (\<forall>oi. oi \<notin> set (map fst cs) \<longrightarrow> map_of (rac_calls acc) oi = None) \<and>
     (\<forall>k oi i n a. k < length cs \<longrightarrow> cs ! k = (oi, i, n, a) \<longrightarrow>
        (\<exists>args. map_of (rac_calls acc) oi = Some \<lparr>rcs_id = i, rcs_name = n, rcs_arguments = args, rcs_ordinal = Some (of_nat k)\<rparr>))"

definition outputs_collected :: "accumulator \<Rightarrow> output_call list \<Rightarrow> bool" where
  "outputs_collected acc cs \<longleftrightarrow> (\<forall>k. map_of acc k = (if k < length cs then output_entry (cs ! k) else None))"

lemma register_step:
  assumes "outputs_known acc cs" "outputs_collected racc cs" "oi \<notin> set (map fst cs)"
  shows "outputs_known (register_output_item oi i n acc) (cs @ [(oi, i, n, None)]) \<and> outputs_collected racc (cs @ [(oi, i, n, None)])"
proof
  let ?e = "\<lparr>rcs_id = i, rcs_name = n, rcs_arguments = [], rcs_ordinal = Some (of_nat (length cs))\<rparr>"
  have acc': "rac_calls (register_output_item oi i n acc) = bt_insert oi ?e (bt_insert oi \<lparr>rcs_id = None, rcs_name = None, rcs_arguments = [], rcs_ordinal = Some (of_nat (length cs))\<rparr> (rac_calls acc))"
    "rac_next_ordinal (register_output_item oi i n acc) = of_nat (length cs) + 1"
    using assms(1,3) by (auto simp: outputs_known_def register_output_item_def ensure_ordinal_def call_or_default_def Let_def map_of_bt_insert)
  have other: "fst (cs ! k) \<noteq> oi" if "k < length cs" for k using assms(3) that by (metis length_map nth_map nth_mem)
  show "outputs_known (register_output_item oi i n acc) (cs @ [(oi, i, n, None)])"
    using assms(1,3) other unfolding outputs_known_def acc'
    by (fastforce simp: map_of_bt_insert nth_append less_Suc_eq split: if_splits)
  show "outputs_collected racc (cs @ [(oi, i, n, None)])"
    using assms(2) by (auto simp: outputs_collected_def nth_append output_entry_def less_Suc_eq)
qed

lemma append_step:
  assumes "outputs_known acc cs" "outputs_collected racc cs" "oi \<in> set (map fst cs)" "length cs < 2 ^ 32"
  shows "\<exists>d acc'. append_arguments oi s acc = (Some (SToolCallDelta d), acc') \<and> outputs_known acc' (output_step (RArgs oi s) cs) \<and>
    outputs_collected (accumulator_merge d racc) (output_step (RArgs oi s) cs) \<and> rac_streamed_argument_deltas acc' \<and>
    rac_streamed_text_deltas acc' = rac_streamed_text_deltas acc"
proof -
  let ?cs = "output_step (RArgs oi s) cs"
  obtain k i n a where k: "k < length cs" "cs ! k = (oi, i, n, a)" using assms(3) by (auto simp: in_set_conv_nth)
  from k assms(1) obtain args where known: "map_of (rac_calls acc) oi = Some \<lparr>rcs_id = i, rcs_name = n, rcs_arguments = args, rcs_ordinal = Some (of_nat k)\<rparr>"
    unfolding outputs_known_def by blast
  have unat: "unat (of_nat k :: u32) = k" using k(1) assms(4) by (simp add: unat_of_nat take_bit_nat_eq_self)
  let ?d = "\<lparr>tcd_index = k, tcd_id = i, tcd_name = n, tcd_arguments = (if s = [] then None else Some s), tcd_metadata = None\<rparr>"
  let ?acc = "acc\<lparr>rac_streamed_argument_deltas := True,
    rac_calls := bt_insert oi \<lparr>rcs_id = i, rcs_name = n, rcs_arguments = args @ s, rcs_ordinal = Some (of_nat k)\<rparr> (rac_calls acc)\<rparr>"
  have call: "append_arguments oi s acc = (Some (SToolCallDelta ?d), ?acc)"
    by (simp add: append_arguments_def ensure_ordinal_def call_or_default_def known unat Let_def)
  have other: "fst (cs ! j) \<noteq> oi" if "j < length cs" "j \<noteq> k" for j
    using nth_eq_iff_index_eq[of "map fst cs" j k] assms(1) that k by (auto simp: outputs_known_def)
  have nth: "?cs ! j = (if j = k then (oi, i, n, Some ((case a of Some p \<Rightarrow> p | None \<Rightarrow> []) @ s)) else cs ! j)" if "j < length cs" for j
    using that k other[OF that] by (auto split: prod.splits)
  have len: "length ?cs = length cs" "map fst ?cs = map fst cs" by (simp_all add: case_prod_beta)
  have "outputs_known ?acc ?cs" unfolding outputs_known_def len
  proof (intro conjI allI impI)
    fix j oj ij nj aj assume j: "j < length cs" "?cs ! j = (oj, ij, nj, aj)"
    show "\<exists>args. map_of (rac_calls ?acc) oj = Some \<lparr>rcs_id = ij, rcs_name = nj, rcs_arguments = args, rcs_ordinal = Some (of_nat j)\<rparr>"
    proof (cases "j = k")
      case True
      then show ?thesis using j nth[OF j(1)] by (simp add: map_of_bt_insert)
    next
      case False
      then have cj: "cs ! j = (oj, ij, nj, aj)" using j(2) nth[OF j(1)] by (simp del: output_step.simps)
      then have "oj \<noteq> oi" using other[OF j(1) False] by simp
      then show ?thesis using assms(1) j(1) cj by (simp add: outputs_known_def map_of_bt_insert)
    qed
  qed (use assms(1,3) in \<open>auto simp: outputs_known_def map_of_bt_insert\<close>)
  moreover have "outputs_collected (accumulator_merge ?d racc) ?cs"
    using assms(2) nth k unfolding outputs_collected_def len
    by (auto simp: accumulator_merge_def merge_entry_eq default_entry_def map_of_bt_insert output_entry_def or_else_def split: option.splits)
  ultimately show ?thesis using call by auto
qed

definition streamed_known :: "responses_accumulator \<Rightarrow> output_call list \<Rightarrow> string \<Rightarrow> bool \<Rightarrow> bool" where
  "streamed_known acc cs so_far args \<longleftrightarrow>
     outputs_known acc cs \<and> (rac_streamed_text_deltas acc \<longleftrightarrow> so_far \<noteq> []) \<and> (rac_streamed_argument_deltas acc \<longleftrightarrow> args)"

lemma response_event_step:
  assumes "event_says dec ev = Some e" "streamed_known acc cs so_far args" "outputs_collected racc cs" "items_added [e] (set (map fst cs))" "length cs < 2 ^ 32"
  shows "\<exists>items acc'. parse_responses_stream_event codec dec prov ev acc = (Inr (ResponsesItems items), acc') \<and> concat (texts_of items) = delta_text e \<and>
    finish_of items = None \<and> list_all (\<lambda>it. \<not> is_lost it) items \<and> streamed_known acc' (output_step e cs) (so_far @ delta_text e) (args \<or> has_args e) \<and>
    outputs_collected (fold accumulator_merge (deltas_of items) racc) (output_step e cs)"
proof (cases e)
  case (RText s)
  have "parse_responses_stream_event codec dec prov ev acc =
      (Inr (ResponsesItems (non_empty_item SText (Some s))), if s = [] then acc else acc\<lparr>rac_streamed_text_deltas := True\<rparr>)"
    using assms(1) RText
    by (auto simp: event_says_def parse_responses_stream_event_def parse_text_delta_def non_empty_item_def Let_def split: if_splits sum.splits)
  then show ?thesis using assms(2,3) RText
    by (auto simp: parts_non_empty non_empty_not_lost streamed_known_def outputs_known_def)
next
  case (RArgs oi s)
  then have "oi \<in> set (map fst cs)" "outputs_known acc cs" using assms(2,4) by (simp_all add: streamed_known_def)
  from append_step[OF this(2) assms(3) this(1) assms(5), of s] obtain d acc' where
    d: "append_arguments oi s acc = (Some (SToolCallDelta d), acc')" "outputs_known acc' (output_step (RArgs oi s) cs)"
      "outputs_collected (accumulator_merge d racc) (output_step (RArgs oi s) cs)" "rac_streamed_argument_deltas acc'"
      "rac_streamed_text_deltas acc' = rac_streamed_text_deltas acc" by blast
  have "parse_responses_stream_event codec dec prov ev acc = (Inr (ResponsesItems [SToolCallDelta d]), acc')"
    using assms(1) RArgs d(1)
    by (auto simp: event_says_def parse_responses_stream_event_def parse_args_delta_def Let_def split: if_splits sum.splits)
  then show ?thesis using assms(2) d(2-5) RArgs by (simp add: quiet_item streamed_known_def del: output_step.simps)
next
  case (RAdded oi i n)
  then have "oi \<notin> set (map fst cs)" "outputs_known acc cs" using assms(2,4) by (simp_all add: streamed_known_def)
  note r = register_step[OF this(2) assms(3) this(1), of i n]
  have "parse_responses_stream_event codec dec prov ev acc = (Inr (ResponsesItems []), register_output_item oi i n acc)"
    using assms(1) RAdded
    by (auto simp: event_says_def parse_responses_stream_event_def parse_item_added_def Let_def split: if_splits sum.splits)
  moreover have "rac_streamed_argument_deltas (register_output_item oi i n acc) = rac_streamed_argument_deltas acc"
    "rac_streamed_text_deltas (register_output_item oi i n acc) = rac_streamed_text_deltas acc"
    by (simp_all add: register_output_item_def ensure_ordinal_def Let_def)
  ultimately show ?thesis using assms(2) r RAdded by (simp add: quiet_item streamed_known_def)
next
  case ROther
  have "parse_responses_stream_event codec dec prov ev acc = (Inr (ResponsesItems []), acc)"
    using assms(1) ROther by (auto simp: event_says_def parse_responses_stream_event_def Let_def split: if_splits sum.splits)
  then show ?thesis using assms(2,3) ROther by (simp add: quiet_item)
qed

lemma handle_response_events:
  assumes "list_all2 (\<lambda>ev e. event_says dec ev = Some e) evs es" "streamed_known (rss_accumulator st) cs so_far args" "outputs_collected racc cs"
    "items_added es (set (map fst cs))" "length cs + length es < 2 ^ 32"
  shows "\<exists>items acc. (\<forall>rest. handle_all (responses_handle codec dec prov m) (evs @ rest) st =
      (case handle_all (responses_handle codec dec prov m) rest (st\<lparr>rss_accumulator := acc\<rparr>) of (its, st', stop) \<Rightarrow> (map Inr items @ its, st', stop))) \<and>
    concat (texts_of items) = concat (map delta_text es) \<and> finish_of items = None \<and> list_all (\<lambda>it. \<not> is_lost it) items \<and>
    streamed_known acc (fold output_step es cs) (so_far @ concat (map delta_text es)) (args \<or> list_ex has_args es) \<and>
    outputs_collected (fold accumulator_merge (deltas_of items) racc) (fold output_step es cs)"
  using assms
proof (induction arbitrary: st cs so_far args racc rule: list_all2_induct)
  case Nil
  then show ?case by (intro exI[of _ "[]"] exI[of _ "rss_accumulator st"]) (simp add: quiet_item)
next
  case (Cons ev evs e es)
  have first: "items_added [e] (set (map fst cs))" "items_added es (set (map fst (output_step e cs)))" "length (output_step e cs) \<le> Suc (length cs)"
    using Cons.prems(3) by (cases e; simp add: case_prod_beta comp_def)+
  from response_event_step[OF Cons.hyps(1) Cons.prems(1,2) first(1)] Cons.prems(4) obtain items acc1 where
    one: "parse_responses_stream_event codec dec prov ev (rss_accumulator st) = (Inr (ResponsesItems items), acc1)" "concat (texts_of items) = delta_text e"
      "finish_of items = None" "list_all (\<lambda>it. \<not> is_lost it) items" "streamed_known acc1 (output_step e cs) (so_far @ delta_text e) (args \<or> has_args e)"
      "outputs_collected (fold accumulator_merge (deltas_of items) racc) (output_step e cs)" by force
  have "streamed_known (rss_accumulator (st\<lparr>rss_accumulator := acc1\<rparr>)) (output_step e cs) (so_far @ delta_text e) (args \<or> has_args e)" using one(5) by simp
  from Cons.IH[OF this one(6) first(2)] first(3) Cons.prems(4) obtain items1 acc where
    rest: "\<And>rest. handle_all (responses_handle codec dec prov m) (evs @ rest) (st\<lparr>rss_accumulator := acc1\<rparr>) =
      (case handle_all (responses_handle codec dec prov m) rest (st\<lparr>rss_accumulator := acc\<rparr>) of (its, st', stop) \<Rightarrow> (map Inr items1 @ its, st', stop))"
      "concat (texts_of items1) = concat (map delta_text es)" "finish_of items1 = None" "list_all (\<lambda>it. \<not> is_lost it) items1"
      "streamed_known acc (fold output_step es (output_step e cs)) ((so_far @ delta_text e) @ concat (map delta_text es)) ((args \<or> has_args e) \<or> list_ex has_args es)"
      "outputs_collected (fold accumulator_merge (deltas_of items1) (fold accumulator_merge (deltas_of items) racc)) (fold output_step es (output_step e cs))"
    by (auto simp del: output_step.simps)
  have "responses_handle codec dec prov m ev st = (map Inr items, st\<lparr>rss_accumulator := acc1\<rparr>, False)" by (simp add: responses_handle_def one(1))
  then show ?case
    using one(2-4) rest by (intro exI[of _ "items @ items1"] exI[of _ acc]) (auto simp: parts_append disj_assoc split: prod.splits option.splits)
qed

text \<open>The items of the event that ends a stream.\<close>

lemma enumerate_deltas:
  "deltas_of (completed_call_deltas codec calls) =
     map (\<lambda>(i, tc). \<lparr>tcd_index = i, tcd_id = Some (tc_id tc), tcd_name = Some (tc_name tc),
       tcd_arguments = Some (args_text codec (tc_arguments tc)), tcd_metadata = None\<rparr>) (enumerate 0 calls)"
  by (simp add: deltas_of_def completed_call_deltas_def map_filter_def comp_def case_prod_beta)

lemma call_items_quiet:
  "texts_of (completed_call_deltas codec calls) = []" "finish_of (completed_call_deltas codec calls) = None"
  "list_all (\<lambda>it. \<not> is_lost it) (completed_call_deltas codec calls)"
proof -
  have "list_all (\<lambda>it. \<exists>d. it = SToolCallDelta d) (completed_call_deltas codec calls)" by (auto simp: completed_call_deltas_def list_all_iff)
  from parts_deltas[OF this] show "texts_of (completed_call_deltas codec calls) = []" "finish_of (completed_call_deltas codec calls) = None"
    "list_all (\<lambda>it. \<not> is_lost it) (completed_call_deltas codec calls)" by simp_all
qed

lemma enumerate_filter: "filter (\<lambda>p. fst p = k) (enumerate n xs) = (if n \<le> k \<and> k < n + length xs then [(k, xs ! (k - n))] else [])"
proof (induction xs arbitrary: n)
  case (Cons x xs)
  have "k - n = Suc (k - Suc n)" if "Suc n \<le> k" using that by simp
  then show ?case by (auto simp: Cons.IH)
qed simp

lemma completed_lookup:
  "map_of (fold accumulator_merge (deltas_of (completed_call_deltas codec calls)) []) k =
     (if k < length calls then Some \<lparr>ae_id = Some (tc_id (calls ! k)), ae_name = Some (tc_name (calls ! k)),
        ae_arguments = args_text codec (tc_arguments (calls ! k)), ae_metadata = None\<rparr> else None)"
  by (simp add: accumulator_lookup enumerate_deltas filter_map comp_def case_prod_beta enumerate_filter[of k 0, simplified] assembled_def Let_def)

lemma no_args_no_entries:
  assumes "\<not> list_ex has_args es" "list_all (\<lambda>c. output_entry c = None) cs"
  shows "list_all (\<lambda>c. output_entry c = None) (fold output_step es cs)"
  using assms
proof (induction es arbitrary: cs)
  case (Cons e es)
  then have "list_all (\<lambda>c. output_entry c = None) (output_step e cs)" by (cases e) (simp_all add: output_entry_def)
  then show ?case using Cons by simp
qed simp

lemma no_args_no_calls:
  assumes "outputs_collected racc (fold output_step es [])" "\<not> list_ex has_args es"
  shows "racc = []"
proof -
  have "map_of racc k = None" for k
    using assms(1) no_args_no_entries[OF assms(2), of "[]"] by (auto simp: outputs_collected_def list_all_length)
  then show ?thesis by (metis map_of_eq_empty_iff)
qed

lemma completed_parts:
  "concat (texts_of (completed_items codec r acc)) =
     (if rac_streamed_text_deltas acc then [] else case msg_content (rsp_message r) of Some t \<Rightarrow> t | None \<Rightarrow> [])"
  "finish_of (completed_items codec r acc) = rsp_finish_reason r" "list_all (\<lambda>it. \<not> is_lost it) (completed_items codec r acc)"
  "deltas_of (completed_items codec r acc) = (if rac_streamed_argument_deltas acc then [] else deltas_of (completed_call_deltas codec (rsp_tool_calls r)))"
proof -
  have one: "finish_of [SFinishReason f] = Some f" "texts_of [SFinishReason f] = []" "deltas_of [SFinishReason f] = []"
    "finish_of [SText f] = None" "texts_of [SText f] = [f]" "deltas_of [SText f] = []" for f
    by (simp_all add: finish_of_def texts_of_def deltas_of_def List.map_filter_simps)
  show "concat (texts_of (completed_items codec r acc)) =
     (if rac_streamed_text_deltas acc then [] else case msg_content (rsp_message r) of Some t \<Rightarrow> t | None \<Rightarrow> [])"
    "finish_of (completed_items codec r acc) = rsp_finish_reason r" "list_all (\<lambda>it. \<not> is_lost it) (completed_items codec r acc)"
    "deltas_of (completed_items codec r acc) = (if rac_streamed_argument_deltas acc then [] else deltas_of (completed_call_deltas codec (rsp_tool_calls r)))"
    by (auto simp: completed_items_def parts_append quiet_item one call_items_quiet split: option.splits)
qed

text \<open>C34: What the Responses API streams is what the runtime collects. When the body carries the events of an answer and the event that
  completes it, cut into pieces anywhere, the runtime ends with the streamed text, or with the text of the complete response if none
  was streamed; with the status as finish reason; and with one tool call for each output item whose arguments were streamed, with its id, its name and all
  pieces, or with the calls of the complete response if no arguments were streamed. The next request is chained to this response.\<close>

theorem responses_stream_collected:
  assumes "list_all2 (\<lambda>ev e. event_says dec \<lparr>ev_event_type = Some (fst ev), ev_data = join nl (snd ev)\<rparr> = Some e) events es"
    "items_added es {}" "length es < 2 ^ 32"
    "rdc_completed dec (join nl final) = Inr r" "rap_id r = Some response_id" "rap_output r \<noteq> []"
    "list_all (\<lambda>ev. sse_line (fst ev) \<and> sse_payload (snd ev)) (events @ [(''response.completed'', final)])"
    "concat (body_chunks b) = concat (map encode_event (events @ [(''response.completed'', final)]))"
  shows "\<exists>items c w'. responses_stream_task codec dec prov message_count b ch =
      (items, \<lparr>ch_previous_response_id = Some response_id, ch_last_input_count = message_count\<rparr>) \<and>
    collect_stream listening (map Done items) collected_empty w = (Inr c, w') \<and>
    col_text c = (if concat (map delta_text es) \<noteq> [] then concat (map delta_text es) else concat (concat (map block_texts (rap_output r)))) \<and>
    col_finish c = rap_status r \<and>
    (let calls = fold output_step es []; complete_calls = concat (map (block_tool_calls codec) (rap_output r)) in
     \<forall>k. map_of (col_calls c) k =
       (if list_ex has_args es then if k < length calls then output_entry (calls ! k) else None
        else if k < length complete_calls then Some \<lparr>ae_id = Some (tc_id (complete_calls ! k)), ae_name = Some (tc_name (complete_calls ! k)),
          ae_arguments = args_text codec (tc_arguments (complete_calls ! k)), ae_metadata = None\<rparr> else None))"
proof -
  let ?evs = "map (\<lambda>ev. \<lparr>ev_event_type = Some (fst ev), ev_data = join nl (snd ev)\<rparr>)" and ?start = "\<lparr>rss_accumulator = responses_accumulator_default, rss_chaining = ch\<rparr>"
  have says: "list_all2 (\<lambda>ev e. event_says dec ev = Some e) (?evs events) es" using assms(1) by (simp add: list.rel_map)
  have start: "streamed_known (rss_accumulator ?start) [] [] False" "outputs_collected [] []"
    by (simp_all add: streamed_known_def outputs_known_def outputs_collected_def responses_accumulator_default_def)
  from handle_response_events[OF says start, of codec prov message_count] assms(2,3) obtain items acc where
    h: "\<And>rest. handle_all (responses_handle codec dec prov message_count) (?evs events @ rest) ?start =
      (case handle_all (responses_handle codec dec prov message_count) rest (?start\<lparr>rss_accumulator := acc\<rparr>) of (its, st', stop) \<Rightarrow> (map Inr items @ its, st', stop))"
    and parts: "concat (texts_of items) = concat (map delta_text es)" "finish_of items = None" "list_all (\<lambda>it. \<not> is_lost it) items"
      "streamed_known acc (fold output_step es []) (concat (map delta_text es)) (list_ex has_args es)"
      "outputs_collected (fold accumulator_merge (deltas_of items) []) (fold output_step es [])" by auto
  obtain n where n: "normalize_responses_response codec prov r = Inr n" "nr_response_id n = Some response_id"
    "rsp_tool_calls (nr_response n) = concat (map (block_tool_calls codec) (rap_output r))" "rsp_finish_reason (nr_response n) = rap_status r"
    "(case msg_content (rsp_message (nr_response n)) of Some t \<Rightarrow> t | None \<Rightarrow> []) = concat (concat (map block_texts (rap_output r)))"
    using assms(5,6) by (auto simp: normalize_responses_response_def Let_def)
  let ?all = "items @ completed_items codec (nr_response n) acc"
  have "handle_all (responses_handle codec dec prov message_count) (?evs (events @ [(''response.completed'', final)])) ?start =
      (map Inr ?all, \<lparr>rss_accumulator = acc, rss_chaining = \<lparr>ch_previous_response_id = Some response_id, ch_last_input_count = message_count\<rparr>\<rparr>, True)"
    using h[of "[\<lparr>ev_event_type = Some ''response.completed'', ev_data = join nl final\<rparr>]"] assms(4) n(1,2)
    by (simp add: responses_handle_def parse_responses_stream_event_def parse_completed_def)
  then have run: "responses_stream_task codec dec prov message_count b ch =
      (map Inr ?all, \<lparr>ch_previous_response_id = Some response_id, ch_last_input_count = message_count\<rparr>)"
    by (simp add: responses_stream_task_def read_event_body[OF assms(7,8)])
  have calls: "map_of (fold accumulator_merge (deltas_of ?all) []) k =
       (if list_ex has_args es then if k < length (fold output_step es []) then output_entry (fold output_step es [] ! k) else None
        else map_of (fold accumulator_merge (deltas_of (completed_call_deltas codec (rsp_tool_calls (nr_response n)))) []) k)" for k
    using parts(4,5) no_args_no_calls[OF parts(5)] by (auto simp: parts_append completed_parts streamed_known_def outputs_collected_def)
  have "list_all (\<lambda>it. \<not> is_lost it) ?all" using parts(3) completed_parts(3)[of codec "nr_response n" acc] by simp
  note collect = collect_sent[OF this, of listening w]
  have whole: "concat (texts_of ?all) = (if concat (map delta_text es) \<noteq> [] then concat (map delta_text es) else concat (concat (map block_texts (rap_output r))))"
    using parts(1,4) n(5) by (auto simp: parts_append completed_parts streamed_known_def)
  have fin: "finish_of ?all = rap_status r" using parts(2) n(4) by (auto simp: parts_append completed_parts split: option.splits)
  show ?thesis
    unfolding Let_def by (intro exI conjI allI, rule run, rule collect)
      (simp_all only: whole fin calls[unfolded completed_lookup n(3)] collected.select_convs)
qed

section \<open>Examples\<close>

definition ex_responses_decoders :: responses_decoders where
  "ex_responses_decoders =
     \<lparr>rdc_text_delta = (\<lambda>s. Inr s), rdc_args_delta = (\<lambda>s. if s = ''0'' then Inr (0, ''{}'') else Inl ''bad''),
      rdc_item_added = (\<lambda>s. Inr (if s = ''0'' then (0, \<lparr>roi_type = None, roi_call_id = Some ''c0'', roi_name = Some ''read''\<rparr>)
         else (1, \<lparr>roi_type = None, roi_call_id = Some ''c1'', roi_name = Some ''list''\<rparr>))),
      rdc_completed = (\<lambda>s. Inr \<lparr>rap_id = Some ''r1'', rap_output = [OutputFunctionCall ''c0'' ''read'' ''{}'', OutputFunctionCall ''c1'' ''list'' ''{}''],
         rap_status = Some ''completed'', rap_usage = None\<rparr>),
      rdc_failed = (\<lambda>s. Inr None)\<rparr>"

definition ex_response_events :: "(string \<times> string list) list" where
  "ex_response_events = [(''response.output_text.delta'', [''hi'']), (''response.output_item.added'', [''0'']),
     (''response.output_item.added'', [''1'']), (''response.function_call_arguments.delta'', [''0''])]"

definition ex_response_body :: body where
  "ex_response_body = \<lparr>body_chunks = map encode_event (ex_response_events @ [(''response.completed'', [''{}''])]), body_broken = None\<rparr>"

definition ex_response_says :: "responses_event list" where
  "ex_response_says = [RText ''hi'', RAdded 0 (Some ''c0'') (Some ''read''), RAdded 1 (Some ''c1'') (Some ''list''), RArgs 0 ''{}'']"

text \<open>
  The second call of this stream has no arguments and so no piece of them; it is only in the complete response, whose calls
  are skipped because pieces of the first call have come. The runtime never learns of it.
\<close>

theorem responses_stream_collected_witness:
  "\<exists>items c w'. responses_stream_task ex_codec ex_responses_decoders ''p'' 3 ex_response_body chaining_new =
      (items, \<lparr>ch_previous_response_id = Some ''r1'', ch_last_input_count = 3\<rparr>) \<and>
    collect_stream True (map Done items) collected_empty \<lparr>sent_events = [], outside = ()\<rparr> = (Inr c, w') \<and>
    col_text c = ''hi'' \<and> col_finish c = Some ''completed'' \<and>
    map_of (col_calls c) 0 = Some \<lparr>ae_id = Some ''c0'', ae_name = Some ''read'', ae_arguments = ''{}'', ae_metadata = None\<rparr> \<and> map_of (col_calls c) 1 = None"
proof -
  let ?r = "\<lparr>rap_id = Some ''r1'', rap_output = [OutputFunctionCall ''c0'' ''read'' ''{}'', OutputFunctionCall ''c1'' ''list'' ''{}''],
         rap_status = Some ''completed'', rap_usage = None\<rparr>"
  have says: "list_all2 (\<lambda>ev e. event_says ex_responses_decoders \<lparr>ev_event_type = Some (fst ev), ev_data = join nl (snd ev)\<rparr> = Some e) ex_response_events ex_response_says"
    by code_simp
  have added: "items_added ex_response_says {}" "length ex_response_says < 2 ^ 32" by (simp_all add: ex_response_says_def)
  have final: "rdc_completed ex_responses_decoders (join nl [''{}'']) = Inr ?r" "rap_id ?r = Some ''r1''" "rap_output ?r \<noteq> []"
    by (simp_all add: ex_responses_decoders_def)
  have lines: "list_all (\<lambda>ev. sse_line (fst ev) \<and> sse_payload (snd ev)) (ex_response_events @ [(''response.completed'', [''{}''])])" by code_simp
  have bytes: "concat (body_chunks ex_response_body) = concat (map encode_event (ex_response_events @ [(''response.completed'', [''{}''])]))"
    by (simp add: ex_response_body_def)
  have vals: "concat (map delta_text ex_response_says) = ''hi''" "list_ex has_args ex_response_says"
    "fold output_step ex_response_says [] = [(0, Some ''c0'', Some ''read'', Some ''{}''), (1, Some ''c1'', Some ''list'', None)]" by code_simp+
  from responses_stream_collected[OF says added final lines bytes, of ex_codec "''p''" 3 chaining_new True "\<lparr>sent_events = [], outside = ()\<rparr>"]
  show ?thesis by (fastforce simp: vals Let_def output_entry_def)
qed

definition ex_responses_env :: "(responses_api_request, responses_api_request list) adapter_env" where
  "ex_responses_env = \<lparr>ae_codec = ex_codec, ae_b64 = (\<lambda>s. s), ae_errors = \<lparr>ed_openai = (\<lambda>_. None), ed_anthropic = (\<lambda>_. None), ed_gemini = (\<lambda>_. None)\<rparr>,
     ae_post = (\<lambda>q w. (Inr \<lparr>hr_status = (if rar_previous_response_id (hq_body q) = None then 200 else 404), hr_text = Inr [],
        hr_body = ex_response_body\<rparr>, w @ [hq_body q]))\<rparr>"

definition ex_responses_adapter :: adapter where
  "ex_responses_adapter = \<lparr>ap_provider_id = ''p'', ap_catalog_provider_id = ''openai'', ap_model_catalog = catalog_new [(''openai'', \<lparr>cp_id = ''openai'', cp_name = ''OpenAI'', cp_env = [], cp_api = None, cp_doc = None,
       cp_models = [(''m'', default_for_unknown ''m'' \<lparr>umc_attachment = None, umc_input_modalities = None, umc_reasoning = None, umc_max_input_tokens = None, umc_max_output_tokens = None, umc_max_context_tokens = None\<rparr>)]\<rparr>)],
     ap_base_url = ''https://x'', ap_api_key = ''k'', ap_extra_headers = []\<rparr>"

definition ex_chat :: "string list \<Rightarrow> llm_context" where
  "ex_chat ts = \<lparr>ctx_provider = ''p'', ctx_model = ''m'', ctx_tools = [], ctx_messages = plain_message RSystem ''be brief'' # map (plain_message RUser) ts\<rparr>"

definition ex_chained :: chaining where
  "ex_chained = \<lparr>ch_previous_response_id = Some ''r0'', ch_last_input_count = 1\<rparr>"

lemma ex_validated: "validate_context [ModImage] ex_responses_adapter (ex_chat [''hi'']) = Inr ()"
  by (simp add: validate_context_def ex_responses_adapter_def ex_chat_def plain_message_def catalog_validate_def catalog_get_def catalog_new_def
      validate_context_attachments_def)

theorem responses_chain_refused_witness:
  "responses_complete ex_responses_env (\<lambda>_. rdc_completed ex_responses_decoders []) ex_responses_adapter (ex_chat [''hi'']) (ex_chained, []) =
     responses_complete ex_responses_env (\<lambda>_. rdc_completed ex_responses_decoders []) ex_responses_adapter (ex_chat [''hi''])
       (chaining_new, [responses_request_of ex_codec (\<lambda>s. s) (ex_chat [''hi'']) ex_chained False]) \<and>
   responses_stream ex_responses_env ex_responses_decoders ex_responses_adapter (ex_chat [''hi'']) (ex_chained, []) =
     responses_stream ex_responses_env ex_responses_decoders ex_responses_adapter (ex_chat [''hi''])
       (chaining_new, [responses_request_of ex_codec (\<lambda>s. s) (ex_chat [''hi'']) ex_chained True])"
proof -
  have post: "ae_post ex_responses_env (bearer_request ex_responses_adapter (responses_url ex_responses_adapter)
      (responses_request_of (ae_codec ex_responses_env) (ae_b64 ex_responses_env) (ex_chat [''hi'']) ex_chained stream)) [] =
     (Inr \<lparr>hr_status = 404, hr_text = Inr [], hr_body = ex_response_body\<rparr>, [responses_request_of ex_codec (\<lambda>s. s) (ex_chat [''hi'']) ex_chained stream])" for stream
    by (simp add: ex_responses_env_def bearer_request_def responses_request_of_def ex_chained_def Let_def)
  have "ch_previous_response_id ex_chained \<noteq> None" by (simp add: ex_chained_def)
  from responses_chain_refused[OF ex_validated this post _ _ post] show ?thesis by simp
qed

text \<open>
  The chaining state belongs to the provider and not to a conversation: after a completion of one conversation, the request for another one names the
  response of the first and leaves out as many of its own messages as the first had, its system prompt among them.
\<close>

lemma chain_crosses_conversations:
  "fst (snd (responses_complete ex_responses_env (\<lambda>_. rdc_completed ex_responses_decoders []) ex_responses_adapter (ex_chat [''hi'', ''you'']) (chaining_new, []))) =
     \<lparr>ch_previous_response_id = Some ''r1'', ch_last_input_count = 3\<rparr>"
  "responses_request_of ex_codec (\<lambda>s. s) (ex_chat [''other'', ''and'', ''more'']) \<lparr>ch_previous_response_id = Some ''r1'', ch_last_input_count = 3\<rparr> False =
     \<lparr>rar_model = ''m'', rar_input = [InputMessage ''user'' (JStr ''more'')], rar_previous_response_id = Some ''r1'', rar_instructions = None, rar_tools = [],
      rar_store = True, rar_stream = False\<rparr>"
  by code_simp+

text \<open>
  The number of messages is taken before the answer is added to the conversation, so the answer, which the server has stored under the id the
  next request names, is sent once more.
\<close>

lemma answer_sent_again:
  "rar_input (responses_request_of ex_codec (\<lambda>s. s)
     (ex_chat [''hi'']\<lparr>ctx_messages := ctx_messages (ex_chat [''hi'']) @ [plain_message RAssistant ''hello'', plain_message RUser ''next'']\<rparr>)
     \<lparr>ch_previous_response_id = Some ''r1'', ch_last_input_count = 2\<rparr> False) =
   [InputMessage ''assistant'' (JStr ''hello''), InputMessage ''user'' (JStr ''next'')]"
  by code_simp

text \<open>A complete response without an id does not end the stream: the runtime gets a finish reason and then a lost connection.\<close>

lemma completed_without_id_counts_as_lost:
  assumes "rdc_completed dec d = Inr r" "rap_output r \<noteq> []" "rap_id r = None"
  shows "snd (snd (responses_handle codec dec prov m \<lparr>ev_event_type = Some ''response.completed'', ev_data = d\<rparr> st)) = False"
  using assms by (simp add: responses_handle_def parse_responses_stream_event_def parse_completed_def normalize_responses_response_def Let_def)

end
