(* ===== verification/Scheduler_Tools.thy ===== *)
theory Scheduler_Tools
  imports Scheduler File_Tools Model_Catalog
begin

text \<open>
  The tools with which the agent manages the schedules of its user (crate \<open>tools\<close>, \<open>scheduler_tools.rs\<close>), on the store of \<open>Scheduler_Store\<close>.

  A tool run is a function of the database; it may panic. What serde makes of the arguments is a parameter, as are the clock (\<open>now n\<close> is its \<open>n\<close>-th
  reading in a run), the random id of a new schedule and the order in which a hash set is listed.

  Shown: a run changes only schedules and runs of its own user and answers only about them, the limit on schedules per user holds, an output is delivered
  completely when it is read page by page.
\<close>

section \<open>Schemas\<close>

definition enum_of :: "string list \<Rightarrow> string \<times> json" where
  "enum_of vs = (''enum'', JArr (map JStr vs))"

definition min_length_1 :: "string \<times> json" where
  "min_length_1 = (''minLength'', JNum ''1'')"

definition schedule_create_schema :: function_decl where
  "schedule_create_schema = decl ''schedule_create''
     (''Create a new scheduled task. The task will run automatically according to the specified cadence (cron expression, one-time timestamp, or fixed interval). '' @
      ''Use this when the user wants something done periodically or at a specific future time.'')
     (object_schema [''goal'', ''cadence_type'', ''cadence_value'']
       [(''name'', schema_prop ''string'' ''Optional human-readable name for the schedule'' []),
        (''goal'', schema_prop ''string'' ''What the scheduled task should accomplish (the prompt for each run)'' [min_length_1]),
        (''cadence_type'', schema_prop ''string'' ''Type of schedule cadence'' [enum_of [''cron'', ''once'', ''interval'']]),
        (''cadence_value'', schema_prop ''string'' ''Cadence value: cron expression (5-field), RFC3339 timestamp for once, or interval in seconds'' [min_length_1]),
        (''timezone'', schema_prop ''string'' (''IANA timezone for cron schedules (e.g. '' @ [CHR 0x27] @ ''America/New_York'' @ [CHR 0x27] @ ''). Defaults to server config.'') []),
        (''notification'', schema_prop ''string'' ''When to notify the user about results. Default: always'' [enum_of [''always'', ''conditional'', ''never'']])])"

definition schedule_search_schema :: function_decl where
  "schedule_search_schema = decl ''schedule_search''
     ''Search and list your scheduled tasks. Use this to find schedules by name, status, cadence type, or notification policy. Returns paginated results.''
     (object_schema []
       [(''name'', schema_prop ''string'' ''Filter by schedule name (substring match)'' []),
        (''status'', schema_prop ''string'' ''Filter by schedule status'' [enum_of [''active'', ''paused'', ''completed'', ''disabled'']]),
        (''cadence_type'', schema_prop ''string'' ''Filter by cadence type'' [enum_of [''cron'', ''once'', ''interval'']]),
        (''notification'', schema_prop ''string'' ''Filter by notification policy'' [enum_of [''always'', ''conditional'', ''never'']]),
        (''limit'', schema_prop ''integer'' ''Max results to return (default 20, max 50)'' [(''minimum'', JNum ''1''), (''maximum'', JNum ''50''), (''default'', JNum ''20'')]),
        (''offset'', schema_prop ''integer'' ''Number of results to skip (default 0)'' [(''minimum'', JNum ''0''), (''default'', JNum ''0'')])])"

definition schedule_edit_schema :: function_decl where
  "schedule_edit_schema = decl ''schedule_edit''
     (''Edit an existing scheduled task. You can update the name, goal, cadence, timezone, notification policy, or status (active/paused). '' @
      ''If changing the cadence, provide both cadence_type and cadence_value.'')
     (object_schema [''schedule_id'']
       [(''schedule_id'', schema_prop ''string'' ''ID of the schedule to edit'' [min_length_1]),
        (''name'', schema_prop ''string'' ''New name for the schedule'' []),
        (''goal'', schema_prop ''string'' ''New goal/prompt for the scheduled task'' []),
        (''cadence_type'', schema_prop ''string'' ''New cadence type (must also provide cadence_value)'' [enum_of [''cron'', ''once'', ''interval'']]),
        (''cadence_value'', schema_prop ''string'' ''New cadence value (must also provide cadence_type)'' []),
        (''timezone'', schema_prop ''string'' ''New IANA timezone for cron schedules'' []),
        (''notification'', schema_prop ''string'' ''New notification policy'' [enum_of [''always'', ''conditional'', ''never'']]),
        (''status'', schema_prop ''string'' ''Set status to active (resume) or paused'' [enum_of [''active'', ''paused'']])])"

definition schedule_delete_schema :: function_decl where
  "schedule_delete_schema = decl ''schedule_delete''
     ''Delete a scheduled task permanently. Use schedule_search to find the schedule_id first. This action cannot be undone.''
     (object_schema [''schedule_id''] [(''schedule_id'', schema_prop ''string'' ''ID of the schedule to delete'' [min_length_1])])"

definition schedule_runs_schema :: function_decl where
  "schedule_runs_schema = decl ''schedule_runs''
     (''List recent run history for a scheduled task. Returns metadata per run (timestamps, status, summary) without full output. '' @
      ''Use schedule_run_output to retrieve the complete output of a specific run.'')
     (object_schema [''schedule_id'']
       [(''schedule_id'', schema_prop ''string'' ''ID of the schedule to list runs for'' [min_length_1]),
        (''limit'', schema_prop ''integer'' ''Max runs to return (default 5, max 20)'' [(''minimum'', JNum ''1''), (''maximum'', JNum ''20''), (''default'', JNum ''5'')])])"

definition schedule_run_output_schema :: function_decl where
  "schedule_run_output_schema = decl ''schedule_run_output''
     ''Retrieve the full output of a specific schedule run, with optional chunking to avoid truncation. Use schedule_runs first to get the run_id.''
     (object_schema [''run_id'']
       [(''run_id'', schema_prop ''string'' ''ID of the run to get output for'' [min_length_1]),
        (''offset'', schema_prop ''integer'' ''Character offset to start from (default 0)'' [(''minimum'', JNum ''0''), (''default'', JNum ''0'')]),
        (''max_chars'', schema_prop ''integer'' ''Maximum characters to return (default 4000, max 8000)''
           [(''minimum'', JNum ''200''), (''maximum'', JNum ''8000''), (''default'', JNum ''4000'')])])"

section \<open>Arguments and helpers\<close>

record schedule_create_args =
  sca_name :: "string option"
  sca_goal :: string
  sca_cadence_type :: string
  sca_cadence_value :: string
  sca_timezone :: "string option"
  sca_notification :: "string option"

record schedule_search_args =
  ssa_name :: "string option"
  ssa_status :: "string option"
  ssa_cadence_type :: "string option"
  ssa_notification :: "string option"
  ssa_limit :: "nat option"
  ssa_offset :: "nat option"

record schedule_edit_args =
  sea_schedule_id :: string
  sea_name :: "string option"
  sea_goal :: "string option"
  sea_cadence_type :: "string option"
  sea_cadence_value :: "string option"
  sea_timezone :: "string option"
  sea_notification :: "string option"
  sea_status :: "string option"

record schedule_arg_decoders =
  sad_create :: "string \<Rightarrow> (string, schedule_create_args) result"
  sad_search :: "string \<Rightarrow> (string, schedule_search_args) result"
  sad_edit :: "string \<Rightarrow> (string, schedule_edit_args) result"
  sad_delete :: "string \<Rightarrow> (string, string) result"
  sad_runs :: "string \<Rightarrow> (string, string \<times> nat option) result"
  sad_run_output :: "string \<Rightarrow> (string, string \<times> nat option \<times> nat option) result"

text \<open>What the tools call: the decoders of their arguments, the JSON printer, the codec of the store, the libraries of the cadences, the clock, the
  random id of a run, the order of a hash set, and the text of a float.\<close>

record schedule_tool_env =
  ste_args :: schedule_arg_decoders
  ste_json :: json_codec
  ste_codec :: sched_codec
  ste_cadence :: cadence_libs
  ste_now :: "nat \<Rightarrow> datetime"
  ste_uuid :: string
  ste_hash_order :: "string set \<Rightarrow> string list"
  ste_f64_json :: "f64 \<Rightarrow> json"

type_synonym 'a sched_run = "sched_db \<Rightarrow> (tool_error, 'a) result may_panic \<times> sched_db"

definition then_sched :: "'a sched_run \<Rightarrow> ('a \<Rightarrow> 'b sched_run) \<Rightarrow> 'b sched_run" where
  "then_sched m k d =
     (case m d of (Panic, d') \<Rightarrow> (Panic, d') | (Ret (Inl e), d') \<Rightarrow> (Ret (Inl e), d') | (Ret (Inr x), d') \<Rightarrow> k x d')"

definition pure_run :: "(tool_error, 'a) result \<Rightarrow> 'a sched_run" where
  "pure_run r d = (Ret r, d)"

definition panic_run :: "(tool_error, 'a) result may_panic \<Rightarrow> 'a sched_run" where
  "panic_run r d = (r, d)"

text \<open>A call of the store, its error turned into an error of the tool.\<close>

definition scheduler_failed :: "string \<Rightarrow> scheduler_error \<Rightarrow> tool_error" where
  "scheduler_failed name e = execution_failed name (scheduler_error_display e)"

definition store_call :: "string \<Rightarrow> (sched_db, scheduler_error, 'a) action \<Rightarrow> 'a sched_run" where
  "store_call name m d = (case m d of (r, d') \<Rightarrow> (Ret (map_err r (scheduler_failed name)), d'))"

definition parsed_args :: "string \<Rightarrow> (string, 'a) result \<Rightarrow> 'a sched_run" where
  "parsed_args name decoded = pure_run (map_err decoded (invalid_args name))"

definition resolve_user_id :: "'w tool_execution_context \<Rightarrow> string \<Rightarrow> (tool_error, string) result" where
  "resolve_user_id ctx name = ok_or (te_user_id ctx) (execution_failed name ''user context is not available'')"

definition parse_notification_policy :: "string \<Rightarrow> string \<Rightarrow> (tool_error, notification_policy) result" where
  "parse_notification_policy s name =
     (if s = ''always'' then Inr NotifyAlways
      else if s = ''conditional'' then Inr NotifyConditional
      else if s = ''never'' then Inr NotifyNever
      else Inl (invalid_args name (''invalid notification value: '' @ s @ ''; expected always, conditional, or never'')))"

definition parse_schedule_status :: "string \<Rightarrow> string \<Rightarrow> (tool_error, schedule_status) result" where
  "parse_schedule_status s name =
     (if s = ''active'' then Inr SchedActive
      else if s = ''paused'' then Inr SchedPaused
      else Inl (invalid_args name (''invalid status value: '' @ s @ ''; expected active or paused'')))"

definition json_opt :: "string option \<Rightarrow> json" where
  "json_opt v = (case v of Some s \<Rightarrow> JStr s | None \<Rightarrow> JNull)"

definition json_nat :: "nat \<Rightarrow> json" where
  "json_nat n = JNum (nat_to_string n)"

fun cadence_json :: "schedule_cadence \<Rightarrow> json" where
  "cadence_json (Once ts) = JObj [(''at'', JStr ts), (''type'', JStr ''once'')]"
| "cadence_json (Cron expression timezone) = JObj [(''expression'', JStr expression), (''timezone'', JStr timezone), (''type'', JStr ''cron'')]"
| "cadence_json (Interval every_secs) = JObj [(''every_secs'', json_nat (unat every_secs)), (''type'', JStr ''interval'')]"

definition schedule_to_json :: "cadence_libs \<Rightarrow> schedule_definition \<Rightarrow> json" where
  "schedule_to_json cl def =
     (let next_run_local = Option.bind (sd_next_run_at def) (\<lambda>ts. format_in_timezone cl ts (sd_cadence def)) in
      JObj [(''cadence'', cadence_json (sd_cadence def)), (''consecutive_failures'', json_nat (unat (sd_consecutive_failures def))),
        (''created_at'', JStr (sd_created_at def)), (''goal'', JStr (sd_goal def)), (''last_run_at'', json_opt (sd_last_run_at def)),
        (''last_run_status'', json_opt (map_option run_status_to_str (sd_last_run_status def))), (''name'', json_opt (sd_name def)),
        (''next_run_at'', json_opt (sd_next_run_at def)), (''next_run_local'', json_opt next_run_local),
        (''notification_policy'', JStr (notification_policy_to_str (sd_notification_policy def))), (''schedule_id'', JStr (sd_schedule_id def)),
        (''status'', JStr (schedule_status_to_str (sd_status def))), (''updated_at'', JStr (sd_updated_at def))])"

definition reply :: "schedule_tool_env \<Rightarrow> string \<Rightarrow> json \<Rightarrow> string sched_run" where
  "reply env name j = pure_run (map_err (to_json_string (ste_json env) j) (execution_failed name))"

definition check_owner :: "string \<Rightarrow> string \<Rightarrow> string \<Rightarrow> schedule_definition \<Rightarrow> unit sched_run" where
  "check_owner name user_id schedule_id schedule =
     pure_run (if sd_user_id schedule \<noteq> user_id then Inl (execution_failed name (''schedule '' @ schedule_id @ '' does not belong to you'')) else Inr ())"

section \<open>Creating and searching\<close>

record schedule_create_tool =
  sct_max_schedules_per_user :: nat
  sct_min_interval_secs :: u64
  sct_default_timezone :: string

text \<open>The policy a schedule inherits from the run that creates it.\<close>

definition inherited_policy :: "(string set \<Rightarrow> string list) \<Rightarrow> effective_run_policy \<Rightarrow> run_policy_input" where
  "inherited_policy order p =
     \<lparr>rp_max_runtime = map_option (\<lambda>d.
        let secs = num_seconds (d - started_at p) in \<lparr>dur_secs = (if 0 < secs then word_of_int secs else 0), dur_subsec_nanos = 0\<rparr>) (deadline p),
      rp_max_budget_microusd = (if 0 < initial_budget_microusd p then Some (initial_budget_microusd p) else None),
      rp_max_turns = pol_max_turns p,
      rp_tool_policy = Some \<lparr>tp_toolset = Some (map fd_name (toolset p)), tp_auto_approve_tools = Some (order (auto_approve_tools p)),
        tp_disallowed_tools = Some (order (disallowed_tools p))\<rparr>\<rparr>"

definition parsed_cadence :: "schedule_tool_env \<Rightarrow> string \<Rightarrow> u64 \<Rightarrow> string \<Rightarrow> string \<Rightarrow> string \<Rightarrow> schedule_cadence sched_run" where
  "parsed_cadence env name min_interval_secs cadence_type cadence_value timezone =
     pure_run (map_err (bind_result (parse_cadence cadence_type cadence_value timezone) (\<lambda>cadence.
       bind_result (validate_cadence (ste_cadence env) (ste_now env 0) cadence min_interval_secs) (\<lambda>_. Inr cadence))) (scheduler_failed name))"

definition computed_next_run :: "schedule_tool_env \<Rightarrow> string \<Rightarrow> schedule_cadence \<Rightarrow> datetime option sched_run" where
  "computed_next_run env name cadence =
     panic_run (bind_panic (next_run_for_cadence (ste_cadence env) cadence (ste_now env 1)) (\<lambda>r. Ret (map_err r (scheduler_failed name))))"

definition schedule_create_execute :: "schedule_tool_env \<Rightarrow> schedule_create_tool \<Rightarrow> 'w tool_execution_context \<Rightarrow> string \<Rightarrow> string sched_run" where
  "schedule_create_execute env tool ctx args =
     (let name = ''schedule_create''; rfc = cl_to_rfc3339 (ste_cadence env) in
      then_sched (parsed_args name (sad_create (ste_args env) args)) (\<lambda>request.
      then_sched (pure_run (resolve_user_id ctx name)) (\<lambda>user_id.
      then_sched (store_call name (count_schedules user_id)) (\<lambda>count.
      then_sched (pure_run (if sct_max_schedules_per_user tool \<le> count
          then Inl (execution_failed name (''you have reached the maximum number of schedules ('' @ nat_to_string count @ ''/'' @
            nat_to_string (sct_max_schedules_per_user tool) @ '')'')) else Inr ())) (\<lambda>_.
      then_sched (parsed_cadence env name (sct_min_interval_secs tool) (sca_cadence_type request) (sca_cadence_value request)
          (unwrap_or (sca_timezone request) (sct_default_timezone tool))) (\<lambda>cadence.
      then_sched (computed_next_run env name cadence) (\<lambda>next_run.
      then_sched (pure_run (case sca_notification request of Some n \<Rightarrow> parse_notification_policy n name | None \<Rightarrow> Inr NotifyAlways)) (\<lambda>notification.
      let now = rfc (ste_now env 2);
          def = \<lparr>sd_schedule_id = ste_uuid env, sd_user_id = user_id, sd_name = sca_name request, sd_goal = sca_goal request, sd_cadence = cadence,
            sd_notification_policy = notification, sd_status = SchedActive, sd_created_at = now, sd_updated_at = now,
            sd_next_run_at = map_option rfc next_run, sd_last_run_at = None, sd_last_run_status = None, sd_consecutive_failures = 0,
            sd_channel_id = te_channel_id ctx, sd_channel_context_id = te_channel_context_id ctx,
            sd_policy = map_option (inherited_policy (ste_hash_order env)) (te_policy ctx)\<rparr>
      in then_sched (store_call name (create_schedule (ste_codec env) def)) (\<lambda>_.
      reply env name (schedule_to_json (ste_cadence env) def))))))))))"

definition SEARCH_DEFAULT_LIMIT :: nat where
  "SEARCH_DEFAULT_LIMIT = 20"

definition SEARCH_MAX_LIMIT :: nat where
  "SEARCH_MAX_LIMIT = 50"

definition status_filter :: "string \<Rightarrow> (tool_error, schedule_status) result" where
  "status_filter s =
     (if s = ''active'' then Inr SchedActive
      else if s = ''paused'' then Inr SchedPaused
      else if s = ''completed'' then Inr SchedCompleted
      else if s = ''disabled'' then Inr SchedDisabled
      else Inl (invalid_args ''schedule_search'' (''invalid status filter: '' @ s)))"

definition schedule_search_execute :: "schedule_tool_env \<Rightarrow> 'w tool_execution_context \<Rightarrow> string \<Rightarrow> string sched_run" where
  "schedule_search_execute env ctx args =
     (let name = ''schedule_search'' in
      then_sched (parsed_args name (sad_search (ste_args env) args)) (\<lambda>request.
      then_sched (pure_run (resolve_user_id ctx name)) (\<lambda>user_id.
      let limit = min (unwrap_or (ssa_limit request) SEARCH_DEFAULT_LIMIT) SEARCH_MAX_LIMIT; offset = unwrap_or (ssa_offset request) 0 in
      then_sched (pure_run (option_result status_filter (ssa_status request))) (\<lambda>status.
      then_sched (pure_run (option_result (\<lambda>n. parse_notification_policy n name) (ssa_notification request))) (\<lambda>notification.
      then_sched (store_call name (search_schedules (ste_codec env) user_id
          \<lparr>sf_name_contains = ssa_name request, sf_status = status, sf_cadence_type = ssa_cadence_type request, sf_notification_policy = notification,
           sf_limit = limit, sf_offset = offset\<rparr>)) (\<lambda>found.
      let schedules = map (schedule_to_json (ste_cadence env)) (ss_schedules found);
          remaining = ss_total_count found - (offset + length schedules)
      in reply env name (JObj ((if 0 < remaining
             then [(''hint'', JStr (''Use offset='' @ nat_to_string (offset + limit) @ '' to see the next page.''))] else []) @
           [(''limit'', json_nat limit), (''offset'', json_nat offset), (''remaining'', json_nat remaining), (''schedules'', JArr schedules),
            (''total'', json_nat (ss_total_count found))]))))))))"

section \<open>Editing and deleting\<close>

record schedule_edit_tool =
  set_min_interval_secs :: u64
  set_default_timezone :: string

definition edited_cadence :: "schedule_tool_env \<Rightarrow> schedule_edit_tool \<Rightarrow> schedule_edit_args \<Rightarrow> schedule_definition \<Rightarrow> schedule_cadence option sched_run" where
  "edited_cadence env tool request existing =
     (let parsed = (\<lambda>ct cv tz. then_sched (parsed_cadence env ''schedule_edit'' (set_min_interval_secs tool) ct cv tz) (\<lambda>c. pure_run (Inr (Some c)))) in
      case (sea_cadence_type request, sea_cadence_value request) of
        (Some ct, Some cv) \<Rightarrow> parsed ct cv (unwrap_or (sea_timezone request) (set_default_timezone tool))
      | (None, None) \<Rightarrow>
          (case (sea_timezone request, sd_cadence existing) of
             (Some tz, Cron expression tz0) \<Rightarrow> parsed ''cron'' expression tz
           | _ \<Rightarrow> pure_run (Inr None))
      | _ \<Rightarrow> pure_run (Inl (invalid_args ''schedule_edit'' ''cadence_type and cadence_value must both be provided when changing cadence'')))"

definition edited_next_run ::
  "schedule_tool_env \<Rightarrow> schedule_definition \<Rightarrow> schedule_cadence option \<Rightarrow> schedule_status option \<Rightarrow> string option option sched_run" where
  "edited_next_run env existing new_cadence new_status =
     (case unwrap_or new_status (sd_status existing) of
        SchedPaused \<Rightarrow> pure_run (Inr (Some None))
      | SchedActive \<Rightarrow>
          if new_cadence \<noteq> None \<or> new_status \<noteq> None
          then then_sched (computed_next_run env ''schedule_edit'' (unwrap_or new_cadence (sd_cadence existing))) (\<lambda>next_run.
            pure_run (Inr (Some (map_option (cl_to_rfc3339 (ste_cadence env)) next_run))))
          else pure_run (Inr None)
      | _ \<Rightarrow> pure_run (Inr None))"

definition schedule_edit_execute :: "schedule_tool_env \<Rightarrow> schedule_edit_tool \<Rightarrow> 'w tool_execution_context \<Rightarrow> string \<Rightarrow> string sched_run" where
  "schedule_edit_execute env tool ctx args =
     (let name = ''schedule_edit''; rfc = cl_to_rfc3339 (ste_cadence env) in
      then_sched (parsed_args name (sad_edit (ste_args env) args)) (\<lambda>request.
      then_sched (pure_run (resolve_user_id ctx name)) (\<lambda>user_id.
      then_sched (store_call name (get_schedule (ste_codec env) (sea_schedule_id request))) (\<lambda>existing.
      then_sched (check_owner name user_id (sea_schedule_id request) existing) (\<lambda>_.
      then_sched (pure_run (option_result (\<lambda>n. parse_notification_policy n name) (sea_notification request))) (\<lambda>notification.
      then_sched (edited_cadence env tool request existing) (\<lambda>new_cadence.
      then_sched (pure_run (option_result (\<lambda>s. parse_schedule_status s name) (sea_status request))) (\<lambda>new_status.
      then_sched (edited_next_run env existing new_cadence new_status) (\<lambda>next_run_at.
      then_sched (store_call name (update_schedule (ste_codec env) (rfc (ste_now env 3)) (sea_schedule_id request)
          \<lparr>sp_name = map_option Some (sea_name request), sp_goal = sea_goal request, sp_cadence = new_cadence, sp_notification_policy = notification,
           sp_status = new_status, sp_next_run_at = next_run_at, sp_updated_at = Some (rfc (ste_now env 2)), sp_consecutive_failures = None\<rparr>)) (\<lambda>updated.
      reply env name (schedule_to_json (ste_cadence env) updated)))))))))))"

definition schedule_delete_execute :: "schedule_tool_env \<Rightarrow> 'w tool_execution_context \<Rightarrow> string \<Rightarrow> string sched_run" where
  "schedule_delete_execute env ctx args =
     (let name = ''schedule_delete'' in
      then_sched (parsed_args name (sad_delete (ste_args env) args)) (\<lambda>schedule_id.
      then_sched (pure_run (resolve_user_id ctx name)) (\<lambda>user_id.
      then_sched (store_call name (get_schedule (ste_codec env) schedule_id)) (\<lambda>existing.
      then_sched (check_owner name user_id schedule_id existing) (\<lambda>_.
      then_sched (store_call name (delete_schedule schedule_id)) (\<lambda>deleted.
      then_sched (pure_run (if deleted then Inr () else Inl (execution_failed name (''schedule '' @ schedule_id @ '' not found'')))) (\<lambda>_.
      reply env name (JObj [(''message'', JStr ''Schedule deleted successfully.''), (''schedule_id'', JStr schedule_id)]))))))))"

section \<open>Runs and their outputs\<close>

definition run_to_json :: "schedule_tool_env \<Rightarrow> schedule_run_record \<Rightarrow> json" where
  "run_to_json env r =
     JObj [(''cost'', ste_f64_json env (rr_cost r)), (''finished_at'', JStr (rr_finished_at r)), (''notified'', JBool (rr_notified r)),
       (''output_summary'', json_opt (rr_output_summary r)), (''run_id'', JStr (rr_run_id r)), (''started_at'', JStr (rr_started_at r)),
       (''status'', JStr (run_status_to_str (rr_status r))), (''turn_count'', json_nat (unat (rr_turn_count r)))]"

definition schedule_runs_execute :: "schedule_tool_env \<Rightarrow> 'w tool_execution_context \<Rightarrow> string \<Rightarrow> string sched_run" where
  "schedule_runs_execute env ctx args =
     (let name = ''schedule_runs'' in
      then_sched (parsed_args name (sad_runs (ste_args env) args)) (\<lambda>(schedule_id, limit0).
      then_sched (pure_run (resolve_user_id ctx name)) (\<lambda>user_id.
      then_sched (store_call name (get_schedule (ste_codec env) schedule_id)) (\<lambda>schedule.
      then_sched (check_owner name user_id schedule_id schedule) (\<lambda>_.
      then_sched (store_call name (get_run_history schedule_id (min (unwrap_or limit0 5) 20))) (\<lambda>runs.
      reply env name (JObj [(''count'', json_nat (length runs)), (''runs'', JArr (map (run_to_json env) runs)), (''schedule_id'', JStr schedule_id)])))))))"

text \<open>The loop that steps back to the start of a character, not before the offset.\<close>

fun back_to_boundary :: "string \<Rightarrow> nat \<Rightarrow> nat \<Rightarrow> nat" where
  "back_to_boundary s offset e = (if offset < e \<and> \<not> is_char_boundary s e then back_to_boundary s offset (e - 1) else e)"

declare back_to_boundary.simps [simp del]

definition clamp_page :: "nat \<Rightarrow> nat" where
  "clamp_page n = max 200 (min n 8000)"

text \<open>The part of an output from an offset before its end, and how much remains after it; slicing inside a character panics.\<close>

definition output_page :: "string \<Rightarrow> nat \<Rightarrow> nat \<Rightarrow> (string \<times> nat) may_panic" where
  "output_page full offset max_chars =
     (let total_len = length full;
          last_byte = min (offset + max_chars) total_len;
          safe_end = back_to_boundary full offset last_byte
      in if is_char_boundary full offset \<and> is_char_boundary full safe_end
         then Ret (take (safe_end - offset) (drop offset full), total_len - safe_end) else Panic)"

definition page_json :: "string \<Rightarrow> nat \<Rightarrow> nat \<Rightarrow> string \<Rightarrow> nat \<Rightarrow> nat \<Rightarrow> json" where
  "page_json run_id offset max_chars chunk remaining total_len =
     JObj [(''chunk'', JStr chunk), (''max_chars'', json_nat max_chars), (''offset'', json_nat offset), (''remaining'', json_nat remaining),
       (''run_id'', JStr run_id), (''total_length'', json_nat total_len)]"

definition schedule_run_output_execute :: "schedule_tool_env \<Rightarrow> 'w tool_execution_context \<Rightarrow> string \<Rightarrow> string sched_run" where
  "schedule_run_output_execute env ctx args =
     (let name = ''schedule_run_output'' in
      then_sched (parsed_args name (sad_run_output (ste_args env) args)) (\<lambda>(run_id, offset0, max_chars0).
      then_sched (pure_run (resolve_user_id ctx name)) (\<lambda>user_id.
      then_sched (store_call name (get_run_by_id run_id)) (\<lambda>run.
      then_sched (store_call name (get_schedule (ste_codec env) (rr_schedule_id run))) (\<lambda>schedule.
      then_sched (check_owner name user_id (rr_schedule_id run) schedule) (\<lambda>_.
      case rr_output run of
        None \<Rightarrow> reply env name (JObj [(''message'', JStr ''No output stored for this run.''), (''run_id'', JStr run_id)])
      | Some full_output \<Rightarrow>
          let offset = unwrap_or offset0 0; max_chars = clamp_page (unwrap_or max_chars0 4000); total_len = length full_output in
          if total_len \<le> offset then reply env name (page_json run_id offset max_chars [] 0 total_len)
          else then_sched (panic_run (bind_panic (output_page full_output offset max_chars) (\<lambda>p. Ret (Inr p)))) (\<lambda>(chunk, remaining).
            reply env name (page_json run_id offset max_chars chunk remaining total_len))))))))"

section \<open>Only the schedules of the user\<close>

text \<open>The schedules of other users, and the runs of these schedules.\<close>

definition others :: "string option \<Rightarrow> sched_db \<Rightarrow> schedule_row list \<times> run_row list" where
  "others user d =
     (filter (\<lambda>r. Some (row_user_id r) \<noteq> user) (db_schedules d),
      filter (\<lambda>q. \<exists>r\<in>set (db_schedules d). row_schedule_id r = run_schedule_id q \<and> Some (row_user_id r) \<noteq> user) (db_runs d))"

text \<open>A run that only reads: the database is the same, up to the faults to come.\<close>

definition tables :: "sched_db \<Rightarrow> sched_db" where
  "tables d = d\<lparr>db_faults := []\<rparr>"

definition only_selects :: "'a sched_run \<Rightarrow> bool" where
  "only_selects m \<longleftrightarrow> (\<forall>d. tables (snd (m d)) = tables d)"

definition spares :: "string option \<Rightarrow> (sched_db \<Rightarrow> bool) \<Rightarrow> 'a sched_run \<Rightarrow> bool" where
  "spares user P m \<longleftrightarrow> (\<forall>d. P (tables d) \<longrightarrow> others user (snd (m d)) = others user d)"

lemma others_tables: "others user (tables d) = others user d"
  by (simp add: others_def tables_def)

lemma then_sched_pure [simp]: "then_sched (pure_run r) k = (case r of Inl e \<Rightarrow> pure_run (Inl e) | Inr x \<Rightarrow> k x)"
  by (auto simp: then_sched_def pure_run_def fun_eq_iff split: sum.splits)

lemma then_sched_Inr: "then_sched (pure_run (Inr x)) k = k x"
  by simp

lemma only_selects_basic [intro]:
  "only_selects (pure_run r)" "only_selects (panic_run p)" "only_selects (parsed_args name dec)" "only_selects (reply env name j)"
  "only_selects (parsed_cadence env name n ct cv tz)" "only_selects (computed_next_run env name c)"
  by (simp_all add: only_selects_def pure_run_def panic_run_def parsed_args_def reply_def parsed_cadence_def computed_next_run_def)

lemma then_sched_cases:
  obtains (stops) r d' where "m d = (r, d')" "snd (then_sched m k d) = d'" | (goes) x d' where "m d = (Ret (Inr x), d')" "then_sched m k d = k x d'"
proof (cases "m d")
  case (Pair r d')
  then show ?thesis using that by (cases "\<exists>x. r = Ret (Inr x)") (auto simp: then_sched_def split: may_panic.splits sum.splits)
qed

lemma only_selects_then [intro]:
  assumes "only_selects m" "\<And>x. only_selects (k x)"
  shows "only_selects (then_sched m k)"
  unfolding only_selects_def
proof
  fix d
  have m: "tables (snd (m d)) = tables d" using assms(1) by (simp add: only_selects_def)
  show "tables (snd (then_sched m k d)) = tables d"
    by (cases rule: then_sched_cases[of m d k]) (use m assms(2) in \<open>auto simp: only_selects_def\<close>)
qed

text \<open>A call of the store that only selects.\<close>

lemma sql_select: "tables (snd (sql (\<lambda>d. Inr (f d, d)) d)) = tables d"
  by (auto simp: sql_def tables_def Let_def split: list.splits option.splits)

lemma only_selects_store:
  assumes "\<And>d. tables (snd (m d)) = tables d"
  shows "only_selects (store_call name m)"
  using assms by (simp add: only_selects_def store_call_def case_prod_beta)

lemma tables_bind:
  assumes "\<And>d. tables (snd (m d)) = tables d" "\<And>x d. tables (snd (k x d)) = tables d"
  shows "tables (snd (bind_action m k d)) = tables d"
  using assms(1)[of d] assms(2) by (auto simp: bind_action_def split: prod.splits sum.splits)

lemma tables_pure: "tables (snd (lift_action r d)) = tables d" "tables (snd (ret_action x d)) = tables d"
  by (simp_all add: lift_action_def ret_action_def)

lemma selects:
  "tables (snd (get_schedule codec sid d)) = tables d" "tables (snd (count_schedules u d)) = tables d"
  "tables (snd (search_schedules codec u fs d)) = tables d" "tables (snd (get_run_history sid n d)) = tables d"
  "tables (snd (get_run_by_id rid d)) = tables d"
  unfolding get_schedule_def count_schedules_def search_schedules_def get_run_history_def get_run_by_id_def select_schedules_def Let_def
  by (auto intro!: tables_bind sql_select simp: tables_pure split: list.split)

lemma spares_only_selects: "only_selects m \<Longrightarrow> spares user P m"
  by (metis others_tables only_selects_def spares_def)

lemma spares_then:
  assumes "only_selects m" "\<And>x. spares user P (k x)"
  shows "spares user P (then_sched m k)"
  unfolding spares_def
proof (intro allI impI)
  fix d assume P: "P (tables d)"
  have m: "tables (snd (m d)) = tables d" using assms(1) by (simp add: only_selects_def)
  then have o: "others user (snd (m d)) = others user d" by (metis others_tables)
  show "others user (snd (then_sched m k d)) = others user d"
  proof (cases rule: then_sched_cases[of m d k])
    case (goes x d')
    then show ?thesis using P m o assms(2)[of x] by (simp add: spares_def)
  qed (use o in simp)
qed

lemma only_selects_calls [intro]:
  "only_selects (store_call name (get_schedule codec sid))" "only_selects (store_call name (count_schedules u))"
  "only_selects (store_call name (search_schedules codec u fs))" "only_selects (store_call name (get_run_history sid n))"
  "only_selects (store_call name (get_run_by_id rid))"
  by (rule only_selects_store, rule selects)+

text \<open>All rows with an id are rows of the user.\<close>

definition owned :: "string \<Rightarrow> string \<Rightarrow> sched_db \<Rightarrow> bool" where
  "owned user schedule_id d \<longleftrightarrow> (\<forall>r\<in>set (db_schedules d). row_schedule_id r = schedule_id \<longrightarrow> row_user_id r = user)"

lemma tables_select [simp]: "db_schedules (tables d) = db_schedules d" "db_runs (tables d) = db_runs d" "db_wf codec (tables d) = db_wf codec d"
  by (simp_all add: tables_def)

lemma owned_tables [simp]: "owned user sid (tables d) = owned user sid d"
  by (simp add: owned_def)

lemma distinct_key_unique: "distinct (map f xs) \<Longrightarrow> x \<in> set xs \<Longrightarrow> y \<in> set xs \<Longrightarrow> f x = f y \<Longrightarrow> x = y"
  by (auto simp: distinct_map dest: inj_onD)

lemma get_schedule_owned:
  assumes "get_schedule codec sid d = (Inr sch, d')" "db_wf codec d"
  shows "owned (sd_user_id sch) sid d"
proof -
  from assms(1) obtain rows d1 where "sql (select_schedules (\<lambda>r. row_schedule_id r = sid)) d = (Inr rows, d1)"
    and row: "(case rows of [] \<Rightarrow> lift_action (Inl (SchedNotFound sid)) | row # x \<Rightarrow> lift_action (schedule_from_row codec row)) d1 = (Inr sch, d')"
    by (auto simp: get_schedule_def bind_action_Inr)
  then have "rows = filter (\<lambda>r. row_schedule_id r = sid) (db_schedules d)" by (auto simp: select_schedules_def dest!: sql_Inr)
  with row obtain r rs where r: "filter (\<lambda>r. row_schedule_id r = sid) (db_schedules d) = r # rs" "schedule_from_row codec r = Inr sch"
    by (cases "filter (\<lambda>r. row_schedule_id r = sid) (db_schedules d)") (auto simp: lift_action_def)
  then have "r \<in> set (filter (\<lambda>r. row_schedule_id r = sid) (db_schedules d))" by simp
  then have in_d: "r \<in> set (db_schedules d)" "row_schedule_id r = sid" by auto
  have "distinct (map row_schedule_id (db_schedules d))" using assms(2) by (simp add: db_wf_def tables_wf_def)
  then have "q = r" if "q \<in> set (db_schedules d)" "row_schedule_id q = sid" for q using that in_d distinct_key_unique by metis
  then show ?thesis using r(2) by (auto simp: owned_def schedule_from_row_def)
qed

text \<open>What comes after the check of the owner works on schedules of the user.\<close>

lemma tables_eqD:
  assumes "tables d' = tables d"
  shows "db_schedules d' = db_schedules d" "db_runs d' = db_runs d" "db_wf codec d' = db_wf codec d" "owned user sid d' = owned user sid d"
    "others u d' = others u d"
  using assms tables_select owned_tables others_tables by metis+

lemma spares_owned:
  assumes "\<And>sch. spares (Some user) (\<lambda>d. db_wf codec d \<and> owned user sid d) (k sch)"
  shows "spares (Some user) (db_wf codec) (then_sched (store_call name (get_schedule codec sid)) (\<lambda>sch. then_sched (check_owner name user sid sch) (\<lambda>_. k sch)))"
  unfolding spares_def
proof (intro allI impI)
  fix d assume wf: "db_wf codec (tables d)"
  let ?m = "store_call name (get_schedule codec sid)" and ?k = "\<lambda>sch. then_sched (check_owner name user sid sch) (\<lambda>_. k sch)"
  have t: "tables (snd (?m d)) = tables d" using only_selects_calls(1) unfolding only_selects_def by blast
  show "others (Some user) (snd (then_sched ?m ?k d)) = others (Some user) d"
  proof (cases rule: then_sched_cases[of ?m d ?k])
    case (goes sch d')
    then have "get_schedule codec sid d = (Inr sch, d')" by (auto simp: store_call_def split: prod.splits)
    with wf have own: "owned (sd_user_id sch) sid d" by (simp add: get_schedule_owned)
    have t': "tables d' = tables d" using t goes(1) by simp
    show ?thesis
      using goes(2) wf own tables_eqD[OF t'] assms[of sch] by (cases "sd_user_id sch = user") (auto simp: check_owner_def pure_run_def spares_def)
  next
    case (stops r d')
    then show ?thesis using t tables_eqD(5) by (metis snd_conv)
  qed
qed

lemma spares_create:
  assumes "sd_user_id def = user"
  shows "spares (Some user) P (store_call name (create_schedule codec def))"
  using assms
  by (auto simp: spares_def store_call_def create_schedule_def bind_action_def lift_action_def sql_def insert_schedule_def others_def row_of_schedule_def
      Let_def split: prod.splits sum.splits list.splits option.splits if_splits)

lemma patched_row_keys [simp]:
  "row_schedule_id (patched_row patch cj now r) = row_schedule_id r" "row_user_id (patched_row patch cj now r) = row_user_id r"
  by (simp_all add: patched_row_def set_if_def split: option.splits)

lemma filter_map_same: "(\<And>x. x \<in> set xs \<Longrightarrow> P (f x) = P x) \<Longrightarrow> (\<And>x. x \<in> set xs \<Longrightarrow> P x \<Longrightarrow> f x = x) \<Longrightarrow> filter P (map f xs) = filter P xs"
  by (induction xs) auto

lemma others_faults [simp]: "others user (d\<lparr>db_faults := x\<rparr>) = others user d" "owned u sid (d\<lparr>db_faults := x\<rparr>) = owned u sid d"
  by (simp_all add: others_def owned_def)

lemma others_update:
  assumes "owned user sid d"
  shows "others (Some user) (d\<lparr>db_schedules := map (\<lambda>r. if row_schedule_id r = sid then patched_row patch cj now r else r) (db_schedules d)\<rparr>) = others (Some user) d"
proof -
  let ?f = "\<lambda>r. if row_schedule_id r = sid then patched_row patch cj now r else r"
  have rows: "filter (\<lambda>r. row_user_id r \<noteq> user) (map ?f (db_schedules d)) = filter (\<lambda>r. row_user_id r \<noteq> user) (db_schedules d)"
    using assms by (intro filter_map_same) (auto simp: owned_def)
  have "row_schedule_id (?f r) = row_schedule_id r" "row_user_id (?f r) = row_user_id r" for r by simp_all
  then have "(\<exists>r\<in>set (map ?f (db_schedules d)). row_schedule_id r = q \<and> row_user_id r \<noteq> user) =
      (\<exists>r\<in>set (db_schedules d). row_schedule_id r = q \<and> row_user_id r \<noteq> user)" for q by (simp only: set_map bex_simps)
  with rows show ?thesis by (simp add: others_def del: set_map)
qed

lemma sql_spares:
  assumes "\<And>d0 x d1. owned user sid d0 \<Longrightarrow> stmt d0 = Inr (x, d1) \<Longrightarrow> others (Some user) d1 = others (Some user) d0" "owned user sid d"
  shows "others (Some user) (snd (sql stmt d)) = others (Some user) d"
proof -
  have "others (Some user) d1 = others (Some user) d" if "stmt (d\<lparr>db_faults := tl (db_faults d)\<rparr>) = Inr (x, d1)" for x d1
    using assms(1)[OF _ that] assms(2) by simp
  then show ?thesis by (auto simp: sql_def Let_def split: list.splits option.splits sum.splits)
qed

lemma spares_update: "spares (Some user) (\<lambda>d. db_wf codec d \<and> owned user sid d) (store_call name (update_schedule codec now sid patch))"
proof -
  have up: "others (Some user) (snd (sql (update_rows (\<lambda>r. row_schedule_id r = sid) (patched_row patch cj now)) d)) = others (Some user) d"
    if "owned user sid d" for d cj
    using that by (rule sql_spares[rotated]) (auto simp: update_rows_def others_update)
  have get: "others (Some user) (snd (get_schedule codec sid d)) = others (Some user) d" for d by (rule tables_eqD(5)[OF selects(1)])
  show ?thesis
    unfolding spares_def store_call_def update_schedule_def
    using up get by (auto simp: bind_action_def lift_action_def split: prod.splits sum.splits) (metis snd_conv)+
qed

lemma others_delete:
  assumes "owned user sid d"
  shows "others (Some user) (d\<lparr>db_schedules := filter (\<lambda>r. row_schedule_id r \<noteq> sid) (db_schedules d),
         db_runs := filter (\<lambda>r. run_schedule_id r \<noteq> sid) (db_runs d)\<rparr>) = others (Some user) d"
    "others (Some user) (d\<lparr>db_schedules := filter (\<lambda>r. row_schedule_id r \<noteq> sid) (db_schedules d)\<rparr>) = others (Some user) d"
  using assms unfolding others_def owned_def by (auto intro!: filter_cong)

lemma spares_delete: "spares (Some user) (\<lambda>d. db_wf codec d \<and> owned user sid d) (store_call name (delete_schedule sid))"
  unfolding spares_def store_call_def delete_schedule_def case_prod_beta snd_conv
  by (intro allI impI sql_spares) (auto simp: others_delete)

lemma spares_then_read:
  assumes "spares user P m" "\<And>x. only_selects (k x)"
  shows "spares user P (then_sched m k)"
  unfolding spares_def
proof (intro allI impI)
  fix d assume "P (tables d)"
  then have m: "others user (snd (m d)) = others user d" using assms(1) by (simp add: spares_def)
  show "others user (snd (then_sched m k d)) = others user d"
  proof (cases rule: then_sched_cases[of m d k])
    case (goes x d')
    have "tables (snd (k x d')) = tables d'" using assms(2) by (simp add: only_selects_def)
    then have "others user (snd (k x d')) = others user d'" by (rule tables_eqD(5))
    then show ?thesis using goes m by simp
  qed (use m in simp)
qed

lemma only_selects_check [intro]: "only_selects (check_owner name user sid sch)"
  by (auto simp: check_owner_def)

lemma only_selects_edited [intro]: "only_selects (edited_cadence env tool request existing)" "only_selects (edited_next_run env existing c st)"
  unfolding edited_cadence_def edited_next_run_def Let_def
  by (auto split: option.split schedule_cadence.split schedule_status.split)

text \<open>The tools that write.\<close>

lemma spares_resolve:
  assumes "\<And>user. te_user_id ctx = Some user \<Longrightarrow> spares (Some user) P (k user)"
  shows "spares (te_user_id ctx) P (then_sched (pure_run (resolve_user_id ctx name)) k)"
  using assms by (cases "te_user_id ctx") (auto simp: resolve_user_id_def intro: spares_only_selects)

lemma create_spares: "spares (te_user_id ctx) P (schedule_create_execute env tool ctx args)"
  unfolding schedule_create_execute_def Let_def
  by (intro spares_then spares_resolve spares_then_read spares_create only_selects_basic only_selects_calls) simp

lemma edit_spares: "spares (te_user_id ctx) (db_wf (ste_codec env)) (schedule_edit_execute env tool ctx args)"
  unfolding schedule_edit_execute_def Let_def
  by (rule spares_then[OF only_selects_basic(3)], rule spares_resolve, rule spares_owned)
    (intro spares_then spares_then_read spares_update only_selects_basic only_selects_edited)

lemma delete_spares: "spares (te_user_id ctx) (db_wf (ste_codec env)) (schedule_delete_execute env ctx args)"
  unfolding schedule_delete_execute_def Let_def
  by (rule spares_then[OF only_selects_basic(3)], rule spares_resolve, rule spares_owned)
    (intro spares_then_read only_selects_then spares_delete only_selects_basic)

text \<open>The tools that only read.\<close>

lemma search_only_selects: "only_selects (schedule_search_execute env ctx args)"
  unfolding schedule_search_execute_def Let_def by (intro only_selects_then only_selects_basic only_selects_calls)

lemma runs_only_selects: "only_selects (schedule_runs_execute env ctx args)"
  unfolding schedule_runs_execute_def Let_def by (auto intro!: only_selects_then simp del: then_sched_pure)

lemma run_output_only_selects: "only_selects (schedule_run_output_execute env ctx args)"
  unfolding schedule_run_output_execute_def Let_def by (auto intro!: only_selects_then split: option.split prod.split simp del: then_sched_pure)

text \<open>What a tool did before it answered: the user was known, the schedule found and the owner checked.\<close>

lemma then_sched_answered:
  assumes "fst (then_sched m k d) = Ret (Inr y)"
  obtains x d' where "m d = (Ret (Inr x), d')" "fst (k x d') = Ret (Inr y)"
  using assms that by (auto simp: then_sched_def split: prod.splits may_panic.splits sum.splits)

lemma owner_checked:
  assumes "fst (then_sched (store_call name (get_schedule codec sid)) (\<lambda>sch. then_sched (check_owner name user sid sch) (k sch)) d) = Ret (Inr y)"
    "db_wf codec d"
  shows "owned user sid d"
proof -
  from assms(1) obtain sch d' where get: "store_call name (get_schedule codec sid) d = (Ret (Inr sch), d')"
    and "fst (then_sched (check_owner name user sid sch) (k sch) d') = Ret (Inr y)" by (rule then_sched_answered)
  then have "sd_user_id sch = user" by (auto simp: check_owner_def pure_run_def split: if_splits)
  moreover have "get_schedule codec sid d = (Inr sch, d')" using get by (auto simp: store_call_def split: prod.splits)
  ultimately show ?thesis using get_schedule_owned assms(2) by metis
qed

lemma by_id_answered:
  assumes "fst (then_sched (parsed_args name dec) (\<lambda>a. then_sched (pure_run (resolve_user_id ctx name)) (\<lambda>user.
      then_sched (store_call name (get_schedule codec (g a))) (\<lambda>sch. then_sched (check_owner name user (g a) sch) (k a user sch)))) d) = Ret (Inr y)"
    "db_wf codec d"
  shows "\<exists>a user. dec = Inr a \<and> te_user_id ctx = Some user \<and> owned user (g a) d"
proof -
  from assms(1) obtain a d' where "parsed_args name dec d = (Ret (Inr a), d')"
    and k: "fst (then_sched (pure_run (resolve_user_id ctx name)) (\<lambda>user.
      then_sched (store_call name (get_schedule codec (g a))) (\<lambda>sch. then_sched (check_owner name user (g a) sch) (k a user sch))) d') = Ret (Inr y)"
    by (rule then_sched_answered)
  then have a: "dec = Inr a" "d' = d" by (auto simp: parsed_args_def pure_run_def split: sum.splits)
  obtain user where "te_user_id ctx = Some user"
    using k by (cases "te_user_id ctx") (auto simp: resolve_user_id_def pure_run_def)
  then show ?thesis using k a owner_checked[OF _ assms(2)] by (fastforce simp: resolve_user_id_def)
qed

text \<open>C22: A schedule tool touches only the schedules of its own user. Whatever the arguments, the decoders and the outcome (an answer, an error, a panic, a
  failing connection), a run of any of the six tools leaves every schedule of another user, and every run of such a schedule, exactly as it was; the
  three tools that look things up change nothing at all.\<close>

theorem schedule_tools_own_only:
  assumes "db_wf (ste_codec env) d"
  shows "others (te_user_id ctx) (snd (schedule_create_execute env create_tool ctx args d)) = others (te_user_id ctx) d \<and>
    others (te_user_id ctx) (snd (schedule_edit_execute env edit_tool ctx args d)) = others (te_user_id ctx) d \<and>
    others (te_user_id ctx) (snd (schedule_delete_execute env ctx args d)) = others (te_user_id ctx) d \<and>
    tables (snd (schedule_search_execute env ctx args d)) = tables d \<and> tables (snd (schedule_runs_execute env ctx args d)) = tables d \<and>
    tables (snd (schedule_run_output_execute env ctx args d)) = tables d"
  using assms create_spares[of ctx "\<lambda>_. True" env create_tool args] edit_spares[of ctx env edit_tool args] delete_spares[of ctx env args]
    search_only_selects[of env ctx args] runs_only_selects[of env ctx args] run_output_only_selects[of env ctx args]
  by (simp add: spares_def only_selects_def)

definition ex_user :: "string \<Rightarrow> unit tool_execution_context" where
  "ex_user user = \<lparr>te_user_id = Some user, te_session_id = None, te_provider = None, te_model = None, te_channel_capabilities = None,
     te_event_sender = None, te_channel_id = None, te_channel_context_id = None, te_inbound_attachments = None, te_policy = None,
     te_permission_handler = None, te_turn = None, te_remaining_budget = None\<rparr>"

definition ex_schedule_env :: schedule_tool_env where
  "ex_schedule_env =
     \<lparr>ste_args = \<lparr>sad_create = (\<lambda>s. Inl s), sad_search = (\<lambda>s. Inl s), sad_edit = (\<lambda>s. Inl s), sad_delete = Inr,
        sad_runs = (\<lambda>s. Inr (s, None)), sad_run_output = (\<lambda>s. Inr (s, None, None))\<rparr>,
      ste_json = \<lparr>from_str = (\<lambda>s. Inl s), to_json_string = (\<lambda>_. Inr ''{}'')\<rparr>, ste_codec = ex_sched_codec, ste_cadence = ex_cadence_libs,
      ste_now = (\<lambda>_. 0), ste_uuid = ''s9'', ste_hash_order = (\<lambda>_. []), ste_f64_json = (\<lambda>_. JNull)\<rparr>"

definition ex_schedule_db :: sched_db where
  "ex_schedule_db = (empty_db [])\<lparr>db_schedules := [row_of_schedule ex_schedule ''o2030'' None]\<rparr>"

lemma ex_schedule_db_wf: "db_wf ex_sched_codec ex_schedule_db"
  by (auto simp: db_wf_def tables_wf_def ex_schedule_db_def empty_db_def row_ok_def row_of_schedule_def ex_schedule_def ex_sched_codec_def
      intro: range_eqI[of _ notification_policy_to_str NotifyAlways] range_eqI[of _ schedule_status_to_str SchedActive])

theorem schedule_tools_own_only_witness:
  "others (Some ''mallory'') (snd (schedule_delete_execute ex_schedule_env (ex_user ''mallory'') ''s1'' ex_schedule_db)) = (db_schedules ex_schedule_db, [])"
proof -
  have "ste_codec ex_schedule_env = ex_sched_codec" by (simp add: ex_schedule_env_def)
  then have "others (Some ''mallory'') (snd (schedule_delete_execute ex_schedule_env (ex_user ''mallory'') ''s1'' ex_schedule_db)) =
      others (Some ''mallory'') ex_schedule_db"
    using schedule_tools_own_only[of ex_schedule_env ex_schedule_db "ex_user ''mallory''"] ex_schedule_db_wf by (simp add: ex_user_def)
  then show ?thesis by (simp add: others_def ex_schedule_db_def empty_db_def row_of_schedule_def ex_schedule_def)
qed

text \<open>The tools that take the id of a schedule answer its owner only: when one of them succeeds, the user of the run is known and all rows with that id are
  rows of this user.\<close>

theorem schedule_tools_answer_owner:
  assumes "db_wf (ste_codec env) d"
  shows "(fst (schedule_edit_execute env edit_tool ctx args d) = Ret (Inr out) \<longrightarrow>
      (\<exists>request user. sad_edit (ste_args env) args = Inr request \<and> te_user_id ctx = Some user \<and> owned user (sea_schedule_id request) d)) \<and>
    (fst (schedule_delete_execute env ctx args d) = Ret (Inr out) \<longrightarrow>
      (\<exists>sid user. sad_delete (ste_args env) args = Inr sid \<and> te_user_id ctx = Some user \<and> owned user sid d)) \<and>
    (fst (schedule_runs_execute env ctx args d) = Ret (Inr out) \<longrightarrow>
      (\<exists>sid limit user. sad_runs (ste_args env) args = Inr (sid, limit) \<and> te_user_id ctx = Some user \<and> owned user sid d))"
proof (intro conjI impI)
  assume "fst (schedule_edit_execute env edit_tool ctx args d) = Ret (Inr out)"
  then show "\<exists>request user. sad_edit (ste_args env) args = Inr request \<and> te_user_id ctx = Some user \<and> owned user (sea_schedule_id request) d"
    unfolding schedule_edit_execute_def Let_def by (rule by_id_answered) (rule assms)
next
  assume "fst (schedule_delete_execute env ctx args d) = Ret (Inr out)"
  then show "\<exists>sid user. sad_delete (ste_args env) args = Inr sid \<and> te_user_id ctx = Some user \<and> owned user sid d"
    unfolding schedule_delete_execute_def Let_def by (rule by_id_answered) (rule assms)
next
  assume "fst (schedule_runs_execute env ctx args d) = Ret (Inr out)"
  then show "\<exists>sid limit user. sad_runs (ste_args env) args = Inr (sid, limit) \<and> te_user_id ctx = Some user \<and> owned user sid d"
    unfolding schedule_runs_execute_def Let_def case_prod_beta using by_id_answered[OF _ assms, where g = fst] by fastforce
qed

section \<open>The limit on schedules\<close>

definition schedules_of :: "string \<Rightarrow> sched_db \<Rightarrow> nat" where
  "schedules_of user d = length (filter (\<lambda>r. row_user_id r = user) (db_schedules d))"

lemma schedules_of_tables: "tables d' = tables d \<Longrightarrow> schedules_of user d' = schedules_of user d"
  unfolding schedules_of_def by (drule tables_eqD(1)) simp

text \<open>A run that adds at most one schedule of the user.\<close>

definition adds_one :: "string \<Rightarrow> 'a sched_run \<Rightarrow> bool" where
  "adds_one user m \<longleftrightarrow> (\<forall>d. schedules_of user (snd (m d)) \<le> Suc (schedules_of user d))"

lemma adds_one_then:
  assumes "only_selects m" "\<And>x. adds_one user (k x)"
  shows "adds_one user (then_sched m k)"
  unfolding adds_one_def
proof
  fix d
  have m: "schedules_of user (snd (m d)) = schedules_of user d" using assms(1) by (intro schedules_of_tables) (simp add: only_selects_def)
  show "schedules_of user (snd (then_sched m k d)) \<le> Suc (schedules_of user d)"
    by (cases rule: then_sched_cases[of m d k]) (use m assms(2) in \<open>auto simp: adds_one_def\<close>, metis)
qed

lemma adds_one_then_read:
  assumes "adds_one user m" "\<And>x. only_selects (k x)"
  shows "adds_one user (then_sched m k)"
  unfolding adds_one_def
proof
  fix d
  have m: "schedules_of user (snd (m d)) \<le> Suc (schedules_of user d)" using assms(1) by (simp add: adds_one_def)
  show "schedules_of user (snd (then_sched m k d)) \<le> Suc (schedules_of user d)"
  proof (cases rule: then_sched_cases[of m d k])
    case (goes x d')
    have "schedules_of user (snd (k x d')) = schedules_of user d'" using assms(2)[of x] by (intro schedules_of_tables) (simp add: only_selects_def)
    then show ?thesis using goes m by simp
  qed (use m in simp)
qed

lemma adds_one_create: "adds_one user (store_call name (create_schedule codec def))"
  by (auto simp: adds_one_def store_call_def create_schedule_def bind_action_def lift_action_def sql_def insert_schedule_def schedules_of_def
      Let_def split: prod.splits sum.splits list.splits option.splits if_splits)

lemma counted:
  assumes "store_call name (count_schedules user) d = (Ret (Inr n), d')"
  shows "n = schedules_of user d" "schedules_of user d' = schedules_of user d"
proof -
  have c: "count_schedules user d = (Inr n, d')" using assms by (auto simp: store_call_def split: prod.splits)
  then show "n = schedules_of user d"
    by (auto simp: count_schedules_def bind_action_Inr select_schedules_def schedules_of_def ret_action_def dest!: sql_Inr)
  show "schedules_of user d' = schedules_of user d" using c selects(2)[of user d] by (intro schedules_of_tables) simp
qed

lemma stops_at_limit:
  assumes "adds_one user m"
  shows "schedules_of user (snd (then_sched (store_call name (count_schedules user))
      (\<lambda>count. then_sched (pure_run (if limit \<le> count then Inl (e count) else Inr ())) (\<lambda>_. m)) d)) \<le> max (schedules_of user d) limit"
proof (cases rule: then_sched_cases[of "store_call name (count_schedules user)" d "\<lambda>count. then_sched (pure_run (if limit \<le> count then Inl (e count) else Inr ())) (\<lambda>_. m)"])
  case (goes n d')
  have "schedules_of user (snd (m d')) \<le> Suc (schedules_of user d')" using assms by (simp add: adds_one_def)
  then show ?thesis using goes(2) counted[OF goes(1)] by (auto simp: pure_run_def)
next
  case (stops r d')
  have "tables d' = tables d" using stops(1) only_selects_calls(2) unfolding only_selects_def by (metis snd_conv)
  then show ?thesis using stops(2) schedules_of_tables[of d' d user] by simp
qed

text \<open>The limit on schedules per user holds. A run of \<open>schedule_create\<close>, whatever its outcome, leaves the user with at most the configured number of
  schedules, or with no more than before when there were more already.\<close>

theorem schedule_limit_kept:
  assumes "te_user_id ctx = Some user"
  shows "schedules_of user (snd (schedule_create_execute env tool ctx args d)) \<le> max (schedules_of user d) (sct_max_schedules_per_user tool)"
proof (cases "sad_create (ste_args env) args")
  case (Inl e)
  then show ?thesis by (simp add: schedule_create_execute_def Let_def parsed_args_def) (simp add: pure_run_def)
next
  case (Inr request)
  show ?thesis
    unfolding schedule_create_execute_def Let_def parsed_args_def Inr
    by (simp only: map_err.simps then_sched_Inr resolve_user_id_def assms ok_or.simps)
      (intro stops_at_limit adds_one_then adds_one_then_read adds_one_create only_selects_basic)
qed

theorem schedule_limit_kept_witness:
  "schedules_of ''alice'' (snd (schedule_create_execute ex_schedule_env
      \<lparr>sct_max_schedules_per_user = 1, sct_min_interval_secs = 60, sct_default_timezone = ''UTC''\<rparr> (ex_user ''alice'') ''{}'' ex_schedule_db)) \<le> 1"
proof -
  have "schedules_of ''alice'' ex_schedule_db = 1"
    by (simp add: schedules_of_def ex_schedule_db_def empty_db_def row_of_schedule_def ex_schedule_def)
  then show ?thesis
    using schedule_limit_kept[of "ex_user ''alice''" "''alice''" ex_schedule_env
        "\<lparr>sct_max_schedules_per_user = 1, sct_min_interval_secs = 60, sct_default_timezone = ''UTC''\<rparr>" "''{}''" ex_schedule_db]
    by (simp add: ex_user_def)
qed

section \<open>Reading an output page by page\<close>

lemma back_to_boundary_props:
  assumes "is_char_boundary s offset" "offset \<le> e"
  shows "is_char_boundary s (back_to_boundary s offset e) \<and> offset \<le> back_to_boundary s offset e \<and> back_to_boundary s offset e \<le> e \<and>
    (\<forall>i. offset \<le> i \<and> i \<le> e \<and> is_char_boundary s i \<longrightarrow> i \<le> back_to_boundary s offset e)"
  using assms
proof (induction s offset e rule: back_to_boundary.induct)
  case (1 s offset e)
  show ?case
  proof (cases "offset < e \<and> \<not> is_char_boundary s e")
    case True
    then have eq: "back_to_boundary s offset e = back_to_boundary s offset (e - 1)" by (simp add: back_to_boundary.simps)
    have IH: "is_char_boundary s (back_to_boundary s offset (e - 1)) \<and> offset \<le> back_to_boundary s offset (e - 1) \<and>
      back_to_boundary s offset (e - 1) \<le> e - 1 \<and>
      (\<forall>i. offset \<le> i \<and> i \<le> e - 1 \<and> is_char_boundary s i \<longrightarrow> i \<le> back_to_boundary s offset (e - 1))" using 1 True by auto
    moreover have "i \<le> e - 1" if "i \<le> e" "is_char_boundary s i" for i using that True by (cases "i = e") auto
    ultimately show ?thesis unfolding eq by auto
  next
    case False
    then have "back_to_boundary s offset e = e" by (subst back_to_boundary.simps) auto
    with False 1(2,3) show ?thesis by (cases "offset = e") auto
  qed
qed

text \<open>In an encoded text the next boundary after one is at most four bytes away.\<close>

lemma next_boundary:
  assumes "is_char_boundary s i" "i < length s" "\<forall>c\<in>set (chars s). length c \<le> 4"
  obtains j where "is_char_boundary s j" "i < j" "j \<le> i + 4" "j \<le> length s"
proof -
  obtain k where k: "k \<le> length (chars s)" "i = length (concat (take k (chars s)))" using assms(1) by (auto simp: is_char_boundary_iff)
  have "concat (chars s) = s" by simp
  then have "k < length (chars s)" using k assms(2) by (cases "k = length (chars s)") auto
  then have t: "take (Suc k) (chars s) = take k (chars s) @ [chars s ! k]" and c: "chars s ! k \<in> set (chars s)" by (simp_all add: take_Suc_conv_app_nth)
  let ?j = "length (concat (take (Suc k) (chars s)))"
  have j: "?j = i + length (chars s ! k)" using k t by simp
  have "0 < length (chars s ! k)" "length (chars s ! k) \<le> 4" using c chars_nonempty[OF c] assms(3) by auto
  moreover have "is_char_boundary s ?j" using \<open>k < length (chars s)\<close> by (auto simp: is_char_boundary_iff intro!: exI[of _ "Suc k"])
  moreover have "?j \<le> length s" using \<open>is_char_boundary s ?j\<close> unfolding is_char_boundary_def by linarith
  ultimately show thesis using that[of ?j] j by auto
qed

text \<open>A page from a boundary is not empty, ends at a boundary, and says how much remains.\<close>

lemma output_page_progress:
  assumes "is_char_boundary s i" "i < length s" "\<forall>c\<in>set (chars s). length c \<le> 4" "4 \<le> n"
  obtains j where "output_page s i n = Ret (take (j - i) (drop i s), length s - j)" "is_char_boundary s j" "i < j" "j \<le> length s" "j \<le> i + n"
proof -
  let ?e = "min (i + n) (length s)" and ?j = "back_to_boundary s i (min (i + n) (length s))"
  have p: "is_char_boundary s ?j \<and> i \<le> ?j \<and> ?j \<le> ?e \<and> (\<forall>k. i \<le> k \<and> k \<le> ?e \<and> is_char_boundary s k \<longrightarrow> k \<le> ?j)"
    using assms(1,2) by (intro back_to_boundary_props) auto
  obtain k where k: "is_char_boundary s k" "i < k" "k \<le> i + 4" "k \<le> length s" using assms(1,2,3) by (rule next_boundary)
  then have "i \<le> k" "k \<le> ?e" using assms(4) by auto
  then have "k \<le> ?j" using p k(1) by blast
  then show thesis using that[of ?j] p k assms(1) by (simp add: output_page_def Let_def)
qed

text \<open>The reader that asks for the next page where the last one ended.\<close>

fun read_pages :: "nat \<Rightarrow> string \<Rightarrow> nat \<Rightarrow> nat \<Rightarrow> string list option" where
  "read_pages 0 full max_chars offset = None"
| "read_pages (Suc fuel) full max_chars offset =
     (if length full \<le> offset then Some []
      else case output_page full offset max_chars of
        Panic \<Rightarrow> None
      | Ret (chunk, remaining) \<Rightarrow> map_option ((#) chunk) (read_pages fuel full max_chars (offset + length chunk)))"

lemma read_pages_from:
  assumes "is_char_boundary s i" "i \<le> length s" "\<forall>c\<in>set (chars s). length c \<le> 4" "4 \<le> n" "length s - i < fuel"
  shows "\<exists>pages. read_pages fuel s n i = Some pages \<and> concat pages = drop i s \<and> (\<forall>p\<in>set pages. p \<noteq> [] \<and> length p \<le> n)"
  using assms
proof (induction fuel arbitrary: i)
  case (Suc fuel)
  show ?case
  proof (cases "i < length s")
    case True
    obtain j where j: "output_page s i n = Ret (take (j - i) (drop i s), length s - j)" "is_char_boundary s j" "i < j" "j \<le> length s" "j \<le> i + n"
      using Suc.prems True output_page_progress by metis
    obtain pages where "read_pages fuel s n j = Some pages" "concat pages = drop j s" "\<forall>p\<in>set pages. p \<noteq> [] \<and> length p \<le> n"
      using Suc.IH[OF j(2,4) Suc.prems(3,4)] Suc.prems(5) j(3) True by (metis Suc_less_eq diff_less_mono2 less_Suc_eq_le order_less_le_trans)
    moreover have "take (j - i) (drop i s) @ drop j s = drop i s" using j(3) by (metis append_take_drop_id drop_drop le_add_diff_inverse2 less_imp_le)
    ultimately show ?thesis using True j by auto
  qed simp
qed simp



text \<open>An offset is a number of bytes, though the schema calls it a character offset: one inside a character panics.\<close>

lemma offset_inside_character_panics: "output_page [CHR ''a'', CHR 0xC3, CHR 0xA9, CHR ''b''] 2 200 = Panic"
  by code_simp

end
