(* ===== verification/Memory_Store.thy ===== *)
theory Memory_Store
  imports Scheduler_Store Web_Egress Model_Catalog
begin

text \<open>
  The memory of conversations and notes (crate \<open>memory\<close>: \<open>lib.rs\<close>, \<open>indexing.rs\<close>, \<open>connection.rs\<close>, \<open>errors.rs\<close>).

  The database is a record of its tables with their keys and cascades (the files under \<open>migrations/\<close>), and a script: for each statement to come, whether it
  fails and what \<open>CURRENT_TIMESTAMP\<close> reads. Every operation opens its own connection; a transaction that is not committed leaves the tables as they were.
  The JSON codec, the hash, the embedding model, the vector index and the full-text index are parameters.

  The theorems are in \<open>Memory_Properties\<close> and \<open>Memory_Search\<close>.
\<close>

section \<open>Tables and statements\<close>

record mem_event =
  me_session :: string
  me_sequence :: int
  me_payload :: string

record mem_file =
  mf_file_id :: int
  mf_session :: string
  mf_source_uri :: string
  mf_content_hash :: string
  mf_metadata :: string

record mem_chunk =
  mc_chunk_id :: string
  mc_session :: string
  mc_file_id :: "int option"
  mc_sequence_start :: "int option"
  mc_sequence_end :: "int option"
  mc_text :: string
  mc_metadata :: string
  mc_content_hash :: string
  mc_updated_at :: string

record mem_vec =
  mv_chunk_id :: string
  mv_embedding :: string
  mv_model :: string

record mem_tables =
  mt_sessions :: "(string \<times> string) list"
  mt_events :: "mem_event list"
  mt_states :: "(string \<times> string) list"
  mt_files :: "mem_file list"
  mt_chunks :: "mem_chunk list"
  mt_vecs :: "mem_vec list"

record mem_db =
  md_tables :: mem_tables
  md_script :: "(string option \<times> string) list"

type_synonym 'a mem_action = "(mem_db, memory_error, 'a) action"

text \<open>A statement gets the time and the tables; its error is turned into one of the crate.\<close>

definition statement :: "(string \<Rightarrow> memory_error) \<Rightarrow> (string \<Rightarrow> mem_tables \<Rightarrow> (string, 'a \<times> mem_tables) result) \<Rightarrow> 'a mem_action" where
  "statement err stmt d =
     (let d0 = d\<lparr>md_script := tl (md_script d)\<rparr>;
          (fault, now) = (case md_script d of [] \<Rightarrow> (None, []) | s # _ \<Rightarrow> s)
      in case fault of
           Some e \<Rightarrow> (Inl (err e), d0)
         | None \<Rightarrow> (case stmt now (md_tables d) of Inl e \<Rightarrow> (Inl (err e), d0) | Inr (x, t) \<Rightarrow> (Inr x, d0\<lparr>md_tables := t\<rparr>)))"

abbreviation select :: "(mem_tables \<Rightarrow> 'a) \<Rightarrow> 'a mem_action" where
  "select f \<equiv> statement MemQuery (\<lambda>_ t. Inr (f t, t))"

abbreviation execute :: "(string \<Rightarrow> mem_tables \<Rightarrow> mem_tables) \<Rightarrow> unit mem_action" where
  "execute f \<equiv> statement MemQuery (\<lambda>now t. Inr ((), f now t))"

text \<open>Opening a connection, and the two pragmas that every connection gets.\<close>

definition connect :: "unit mem_action" where
  "connect = statement MemConnection (\<lambda>_ t. Inr ((), t))"

definition enable_foreign_keys :: "unit mem_action" where
  "enable_foreign_keys =
     bind_action (statement MemInitialization (\<lambda>_ t. Inr ((), t))) (\<lambda>_. statement MemInitialization (\<lambda>_ t. Inr ((), t)))"

definition on_connection :: "'a mem_action \<Rightarrow> 'a mem_action" where
  "on_connection m = bind_action connect (\<lambda>_. bind_action enable_foreign_keys (\<lambda>_. m))"

text \<open>A transaction: rolled back when its body fails, and dropped with the connection when the commit fails.\<close>

definition transaction :: "'a mem_action \<Rightarrow> 'a mem_action" where
  "transaction body =
     bind_action (execute (\<lambda>_ t. t)) (\<lambda>_ d.
       case body d of
         (Inl e, d1) \<Rightarrow> (Inl e, (snd (execute (\<lambda>_ t. t) d1))\<lparr>md_tables := md_tables d\<rparr>)
       | (Inr x, d1) \<Rightarrow>
           (case execute (\<lambda>_ t. t) d1 of (Inl e, d2) \<Rightarrow> (Inl e, d2\<lparr>md_tables := md_tables d\<rparr>) | (Inr _, d2) \<Rightarrow> (Inr x, d2)))"

section \<open>Parameters\<close>

record 'e memory_env =
  mx_json :: json_codec
  mx_message :: "json \<Rightarrow> (string, message) result"
  mx_hash :: "string \<Rightarrow> string"
  mx_lowercase :: "string \<Rightarrow> string"
  mx_zero :: 'e
  mx_finite :: "'e \<Rightarrow> bool"
  mx_embedding_json :: "'e list \<Rightarrow> (string, string) result"
  mx_vector_top_k :: "mem_vec list \<Rightarrow> string \<Rightarrow> nat \<Rightarrow> string list"
  mx_distance :: "string \<Rightarrow> string \<Rightarrow> f64"
  mx_fts :: "mem_chunk list \<Rightarrow> string \<Rightarrow> string \<Rightarrow> f64 option"
  mx_now :: string
  mx_rfc3339_error :: "string \<Rightarrow> string option"
  mx_f64_text :: "f64 \<Rightarrow> string"

definition encode_json :: "'e memory_env \<Rightarrow> json \<Rightarrow> (memory_error, string) result" where
  "encode_json env j = map_err (to_json_string (mx_json env) j) MemSerialization"

text \<open>\<open>json_extract(text, '$.key')\<close> of the database; a text that is no JSON fails the statement.\<close>

definition json_extract :: "'e memory_env \<Rightarrow> string \<Rightarrow> string \<Rightarrow> (string, json option) result" where
  "json_extract env source key = bind_result (from_str (mx_json env) source) (\<lambda>j. Inr (json_get j key))"

section \<open>Embeddings\<close>

definition INDEX_CHUNK_MAX_CHARS :: nat where "INDEX_CHUNK_MAX_CHARS = 640"

definition INDEX_CHUNK_OVERLAP_CHARS :: nat where "INDEX_CHUNK_OVERLAP_CHARS = 96"

definition INDEX_VECTOR_DIMENSIONS :: nat where "INDEX_VECTOR_DIMENSIONS = 512"

datatype model2vec_model = Potion8m | Potion32m

datatype memory_embedding_backend = BackendModel2vec | BackendDeterministic

record memory_config =
  mcf_enabled :: bool
  mcf_remote_url :: "string option"
  mcf_auth_token :: "string option"
  mcf_embedding_backend :: memory_embedding_backend
  mcf_model2vec_model :: model2vec_model
  mcf_retrieval :: retrieval_limits

text \<open>An adapter has the name of its model and the function that embeds a batch of texts: the deterministic one of the crate (arithmetic of \<open>f32\<close> on
  hashes, a parameter here) or a loaded model.\<close>

record 'e embedding_adapter =
  ea_model :: string
  ea_encode :: "string list \<Rightarrow> 'e list list"

definition DETERMINISTIC_EMBEDDING_MODEL :: string where "DETERMINISTIC_EMBEDDING_MODEL = ''deterministic-hash-v1''"

definition deterministic_adapter :: "(string \<Rightarrow> 'e list) \<Rightarrow> 'e embedding_adapter" where
  "deterministic_adapter deterministic_embedding = \<lparr>ea_model = DETERMINISTIC_EMBEDDING_MODEL, ea_encode = map deterministic_embedding\<rparr>"

definition model2vec_id :: "model2vec_model \<Rightarrow> string" where
  "model2vec_id m = (case m of Potion8m \<Rightarrow> ''minishlab/potion-base-8M'' | Potion32m \<Rightarrow> ''minishlab/potion-base-32M'')"

definition model2vec_adapter ::
  "(string \<Rightarrow> (string, string list \<Rightarrow> 'e list list) result) \<Rightarrow> model2vec_model \<Rightarrow> (memory_error, 'e embedding_adapter) result" where
  "model2vec_adapter from_pretrained m =
     (let model_id = model2vec_id m in
      bind_result (map_err (from_pretrained model_id) (\<lambda>e. MemInitialization (''model2vec initialization failed for `'' @ model_id @ ''`: '' @ e))) (\<lambda>loaded.
      Inr \<lparr>ea_model = model_id, ea_encode = loaded\<rparr>))"

definition from_memory_config ::
  "(string \<Rightarrow> 'e list) \<Rightarrow> (string \<Rightarrow> (string, string list \<Rightarrow> 'e list list) result) \<Rightarrow> memory_config \<Rightarrow> (memory_error, 'e embedding_adapter) result" where
  "from_memory_config deterministic_embedding from_pretrained config =
     (case mcf_embedding_backend config of
        BackendDeterministic \<Rightarrow> Inr (deterministic_adapter deterministic_embedding)
      | BackendModel2vec \<Rightarrow> model2vec_adapter from_pretrained (mcf_model2vec_model config))"

definition normalize_embedding_dimensions :: "'e memory_env \<Rightarrow> 'e list \<Rightarrow> (memory_error, 'e list) result" where
  "normalize_embedding_dimensions env embedding =
     (if length embedding \<le> INDEX_VECTOR_DIMENSIONS
      then Inr (embedding @ replicate (INDEX_VECTOR_DIMENSIONS - length embedding) (mx_zero env))
      else Inl (MemQuery (''embedding dimension '' @ nat_to_string (length embedding) @ '' exceeds indexed dimension '' @ nat_to_string INDEX_VECTOR_DIMENSIONS)))"

definition embed_batch :: "'e memory_env \<Rightarrow> 'e embedding_adapter \<Rightarrow> string list \<Rightarrow> (memory_error, 'e list list) result" where
  "embed_batch env adapter texts =
     (if texts = [] then Inr [] else all_results (normalize_embedding_dimensions env) (ea_encode adapter texts))"

definition normalize_text_for_indexing :: "string \<Rightarrow> string" where
  "normalize_text_for_indexing input = join '' '' (split_whitespace input)"

definition embed_query :: "'e memory_env \<Rightarrow> 'e embedding_adapter \<Rightarrow> string \<Rightarrow> (memory_error, 'e list) result" where
  "embed_query env adapter query =
     (let normalized = normalize_text_for_indexing query in
      if normalized = [] then Inr (replicate INDEX_VECTOR_DIMENSIONS (mx_zero env))
      else bind_result (embed_batch env adapter [normalized]) (\<lambda>vectors.
        case vectors of [] \<Rightarrow> Inl (MemQuery ''query embedding batch unexpectedly empty'') | v # _ \<Rightarrow> Inr v))"

section \<open>Indexing\<close>

record indexable_payload =
  ip_normalized_text :: string
  ip_role :: string
  ip_source :: string
  ip_tool_call_id :: "string option"

record prepared_chunk =
  pc_chunk_id :: string
  pc_content_hash :: string
  pc_chunk_text :: string
  pc_metadata_json :: string
  pc_note_id :: "string option"
  pc_sequence_start :: int
  pc_sequence_end :: int
  pc_embedding_json :: string

record prepared_index_document =
  pd_source_uri :: string
  pd_content_hash :: string
  pd_metadata_json :: string
  pd_embedding_model :: string
  pd_chunks :: "prepared_chunk list"

definition format_tool_call_arguments :: "'e memory_env \<Rightarrow> json \<Rightarrow> string" where
  "format_tool_call_arguments env arguments =
     (case arguments of
        JNull \<Rightarrow> []
      | JStr value \<Rightarrow> value
      | _ \<Rightarrow> (case to_json_string (mx_json env) arguments of Inr t \<Rightarrow> t | Inl _ \<Rightarrow> []))"

definition message_role_name :: "message_role \<Rightarrow> string" where
  "message_role_name role = (case role of RSystem \<Rightarrow> ''system'' | RUser \<Rightarrow> ''user'' | RAssistant \<Rightarrow> ''assistant'' | RTool \<Rightarrow> ''tool'')"

definition message_source_name :: "message \<Rightarrow> string" where
  "message_source_name m =
     (case msg_role m of
        RTool \<Rightarrow> ''tool_output''
      | RAssistant \<Rightarrow> if msg_tool_calls m \<noteq> [] then ''assistant_tool_call'' else ''assistant_message''
      | RUser \<Rightarrow> ''user_message''
      | RSystem \<Rightarrow> ''system_message'')"

definition call_component :: "'e memory_env \<Rightarrow> tool_call \<Rightarrow> string" where
  "call_component env tc =
     (let arguments = format_tool_call_arguments env (tc_arguments tc) in
      if arguments = [] then ''tool '' @ tc_name tc @ '' invocation'' else ''tool '' @ tc_name tc @ '' arguments '' @ arguments)"

definition extract_indexable_payload :: "'e memory_env \<Rightarrow> json \<Rightarrow> indexable_payload option" where
  "extract_indexable_payload env payload =
     (case mx_message env payload of
        Inl _ \<Rightarrow> None
      | Inr m \<Rightarrow>
          let content = trim (unwrap_or (msg_content m) []);
              components = (if content = [] then [] else [content]) @ map (call_component env) (msg_tool_calls m);
              normalized_text = normalize_text_for_indexing (join nl components)
          in if components = [] \<or> normalized_text = [] then None
             else Some \<lparr>ip_normalized_text = normalized_text, ip_role = message_role_name (msg_role m), ip_source = message_source_name m,
               ip_tool_call_id = msg_tool_call_id m\<rparr>)"

text \<open>The windows of the loop of \<open>split_text_into_chunks\<close>, on the characters of the text.\<close>

function chunk_windows :: "string list \<Rightarrow> nat \<Rightarrow> string list list" where
  "chunk_windows cs start =
     (if start < length cs
      then (let last = min (start + INDEX_CHUNK_MAX_CHARS) (length cs);
                window = take (last - start) (drop start cs)
            in if last = length cs then [window]
               else window # (let start' = last - INDEX_CHUNK_OVERLAP_CHARS in if last \<le> start' then [] else chunk_windows cs start'))
      else [])"
  by pat_completeness auto
termination
  by (relation "measure (\<lambda>(cs, start). length cs - start)") (auto simp: INDEX_CHUNK_MAX_CHARS_def INDEX_CHUNK_OVERLAP_CHARS_def)

declare chunk_windows.simps [simp del]

definition split_text_into_chunks :: "string \<Rightarrow> string list" where
  "split_text_into_chunks source =
     (let trimmed = trim source in
      if trimmed = [] then []
      else filter (\<lambda>c. c \<noteq> []) (map (\<lambda>w. normalize_text_for_indexing (concat w)) (chunk_windows (chars trimmed) 0)))"

definition mem_nat :: "nat \<Rightarrow> json" where
  "mem_nat n = JNum (nat_to_string n)"

definition int_text :: "int \<Rightarrow> string" where
  "int_text i = (if i < 0 then CHR ''-'' # nat_to_string (nat (- i)) else nat_to_string (nat i))"

definition mem_int :: "int \<Rightarrow> json" where
  "mem_int i = JNum (int_text i)"

definition opt_str :: "string option \<Rightarrow> json" where
  "opt_str v = (case v of Some s \<Rightarrow> JStr s | None \<Rightarrow> JNull)"

definition chunk_metadata :: "indexable_payload \<Rightarrow> int \<Rightarrow> nat \<Rightarrow> nat \<Rightarrow> json option \<Rightarrow> (string \<times> json) list" where
  "chunk_metadata p sequence chunk_index chunk_count extra =
     fold (\<lambda>(k, v). bt_insert k v) (case Option.bind extra as_object of Some kvs \<Rightarrow> kvs | None \<Rightarrow> [])
       [(''chunk_count'', mem_nat chunk_count), (''chunk_index'', mem_nat chunk_index), (''role'', JStr (ip_role p)),
        (''sequence_end'', mem_int sequence), (''sequence_start'', mem_int sequence), (''source'', JStr (ip_source p)),
        (''tool_call_id'', opt_str (ip_tool_call_id p))]"

definition prepared_chunk_of ::
  "'e memory_env \<Rightarrow> string \<Rightarrow> int \<Rightarrow> indexable_payload \<Rightarrow> json option \<Rightarrow> nat \<Rightarrow> nat \<times> string \<times> 'e list \<Rightarrow> (memory_error, prepared_chunk) result" where
  "prepared_chunk_of env session_id sequence p extra chunk_count =
     (\<lambda>(chunk_index, chunk_text, embedding).
        let content_hash = mx_hash env chunk_text;
            metadata = chunk_metadata p sequence chunk_index chunk_count extra;
            note_id = Option.bind (map_of metadata ''note_id'') as_str
        in bind_result (encode_json env (JObj metadata)) (\<lambda>metadata_json.
           bind_result (map_err (mx_embedding_json env embedding) MemSerialization) (\<lambda>embedding_json.
           Inr \<lparr>pc_chunk_id = ''chunk:'' @ session_id @ '':'' @ int_text sequence @ '':'' @ nat_to_string chunk_index @ '':'' @ take 16 content_hash,
                pc_content_hash = content_hash, pc_chunk_text = chunk_text, pc_metadata_json = metadata_json, pc_note_id = note_id,
                pc_sequence_start = sequence, pc_sequence_end = sequence, pc_embedding_json = embedding_json\<rparr>)))"

definition prepare_index_document_with_extra_metadata ::
  "'e memory_env \<Rightarrow> 'e embedding_adapter \<Rightarrow> string \<Rightarrow> int \<Rightarrow> json \<Rightarrow> json option \<Rightarrow> (memory_error, prepared_index_document option) result" where
  "prepare_index_document_with_extra_metadata env adapter session_id sequence payload extra =
     (case extract_indexable_payload env payload of
        None \<Rightarrow> Inr None
      | Some p \<Rightarrow>
          let chunk_texts = split_text_into_chunks (ip_normalized_text p); chunk_count = length chunk_texts in
          if chunk_texts = [] then Inr None
          else bind_result (embed_batch env adapter chunk_texts) (\<lambda>vectors.
            if length vectors \<noteq> chunk_count
            then Inl (MemQuery (''embedding count mismatch: expected '' @ nat_to_string chunk_count @ '', got '' @ nat_to_string (length vectors)))
            else bind_result (encode_json env (JObj [(''role'', JStr (ip_role p)), (''sequence'', mem_int sequence), (''source'', JStr (ip_source p))]))
              (\<lambda>file_metadata_json.
            bind_result (all_results (prepared_chunk_of env session_id sequence p extra chunk_count) (zip [0..<chunk_count] (zip chunk_texts vectors))) (\<lambda>chunks.
            Inr (Some \<lparr>pd_source_uri = ''conversation://'' @ session_id @ ''/'' @ ip_source p, pd_content_hash = mx_hash env (ip_normalized_text p),
              pd_metadata_json = file_metadata_json, pd_embedding_model = ea_model adapter, pd_chunks = chunks\<rparr>)))))"

definition prepare_index_document ::
  "'e memory_env \<Rightarrow> 'e embedding_adapter \<Rightarrow> string \<Rightarrow> int \<Rightarrow> json \<Rightarrow> (memory_error, prepared_index_document option) result" where
  "prepare_index_document env adapter session_id sequence payload =
     prepare_index_document_with_extra_metadata env adapter session_id sequence payload None"

text \<open>The session row: inserted, or its time set.\<close>

definition upsert_session :: "string \<Rightarrow> string \<Rightarrow> mem_tables \<Rightarrow> mem_tables" where
  "upsert_session session_id now t =
     t\<lparr>mt_sessions := (if session_id \<in> fst ` set (mt_sessions t)
        then map (\<lambda>(s, u). if s = session_id then (s, now) else (s, u)) (mt_sessions t) else mt_sessions t @ [(session_id, now)])\<rparr>"

definition insert_event :: "mem_event \<Rightarrow> mem_tables \<Rightarrow> (string, unit \<times> mem_tables) result" where
  "insert_event e t =
     (if \<exists>x\<in>set (mt_events t). me_session x = me_session e \<and> me_sequence x = me_sequence e
      then Inl ''UNIQUE constraint failed: conversation_events.session_id, conversation_events.sequence''
      else if me_session e \<notin> fst ` set (mt_sessions t) then Inl ''FOREIGN KEY constraint failed''
      else Inr ((), t\<lparr>mt_events := mt_events t @ [e]\<rparr>))"

definition upsert_state :: "string \<Rightarrow> string \<Rightarrow> mem_tables \<Rightarrow> (string, unit \<times> mem_tables) result" where
  "upsert_state session_id state_json t =
     (if session_id \<notin> fst ` set (mt_sessions t) then Inl ''FOREIGN KEY constraint failed''
      else Inr ((), t\<lparr>mt_states := (session_id, state_json) # filter (\<lambda>(s, _). s \<noteq> session_id) (mt_states t)\<rparr>))"

definition same_file :: "string \<Rightarrow> prepared_index_document \<Rightarrow> mem_file \<Rightarrow> bool" where
  "same_file session_id doc f \<longleftrightarrow> mf_session f = session_id \<and> mf_source_uri f = pd_source_uri doc \<and> mf_content_hash f = pd_content_hash doc"

definition insert_file :: "string \<Rightarrow> prepared_index_document \<Rightarrow> mem_tables \<Rightarrow> (string, unit \<times> mem_tables) result" where
  "insert_file session_id doc t =
     (if list_ex (same_file session_id doc) (mt_files t)
      then Inr ((), t\<lparr>mt_files := map (\<lambda>f. if same_file session_id doc f then f\<lparr>mf_metadata := pd_metadata_json doc\<rparr> else f) (mt_files t)\<rparr>)
      else if session_id \<notin> fst ` set (mt_sessions t) then Inl ''FOREIGN KEY constraint failed''
      else Inr ((), t\<lparr>mt_files := mt_files t @ [\<lparr>mf_file_id = fold max (map mf_file_id (mt_files t)) 0 + 1, mf_session = session_id,
        mf_source_uri = pd_source_uri doc, mf_content_hash = pd_content_hash doc, mf_metadata = pd_metadata_json doc\<rparr>]\<rparr>))"

definition upsert_index_file :: "string \<Rightarrow> prepared_index_document \<Rightarrow> int mem_action" where
  "upsert_index_file session_id doc =
     bind_action (statement MemQuery (\<lambda>_. insert_file session_id doc)) (\<lambda>_.
     bind_action (select (\<lambda>t. filter (same_file session_id doc) (mt_files t))) (\<lambda>rows.
     case rows of
       [] \<Rightarrow> lift_action (Inl (MemQuery ''failed to resolve file_id for indexed content''))
     | f # _ \<Rightarrow> ret_action (mf_file_id f)))"

text \<open>Whether the metadata of a chunk carry the note id, or none when none is asked for.\<close>

definition carries_note :: "'e memory_env \<Rightarrow> string option \<Rightarrow> mem_chunk \<Rightarrow> (string, bool) result" where
  "carries_note env note_id c =
     bind_result (json_extract env (mc_metadata c) ''note_id'') (\<lambda>v.
     Inr (case note_id of None \<Rightarrow> v = None \<or> v = Some JNull | Some n \<Rightarrow> v = Some (JStr n)))"

fun rows_where :: "('r \<Rightarrow> (string, bool) result) \<Rightarrow> 'r list \<Rightarrow> (string, 'r list) result" where
  "rows_where P [] = Inr []"
| "rows_where P (r # rs) = bind_result (P r) (\<lambda>b. bind_result (rows_where P rs) (\<lambda>xs. Inr (if b then r # xs else xs)))"

definition newest_first :: "mem_chunk list \<Rightarrow> mem_chunk list" where
  "newest_first cs = rev (sort_key mc_updated_at (rev (sort_key mc_chunk_id cs)))"

definition find_existing_chunk_id :: "'e memory_env \<Rightarrow> string \<Rightarrow> string \<Rightarrow> string option \<Rightarrow> string option mem_action" where
  "find_existing_chunk_id env session_id content_hash note_id =
     statement MemQuery (\<lambda>_ t.
       bind_result (rows_where (carries_note env note_id)
         (filter (\<lambda>c. mc_session c = session_id \<and> mc_content_hash c = content_hash) (mt_chunks t))) (\<lambda>rows.
       Inr (case newest_first rows of [] \<Rightarrow> None | c # _ \<Rightarrow> Some (mc_chunk_id c), t)))"

definition touched_chunk :: "int \<Rightarrow> string option \<Rightarrow> string \<Rightarrow> mem_chunk \<Rightarrow> mem_chunk" where
  "touched_chunk sequence metadata_json now c =
     c\<lparr>mc_sequence_end := (case mc_sequence_end c of None \<Rightarrow> Some sequence | Some e \<Rightarrow> if e < sequence then Some sequence else Some e),
       mc_metadata := unwrap_or metadata_json (mc_metadata c), mc_updated_at := now\<rparr>"

definition touch_existing_chunk :: "string \<Rightarrow> int \<Rightarrow> string option \<Rightarrow> unit mem_action" where
  "touch_existing_chunk chunk_id sequence metadata_json =
     execute (\<lambda>now t. t\<lparr>mt_chunks := map (\<lambda>c. if mc_chunk_id c = chunk_id then touched_chunk sequence metadata_json now c else c) (mt_chunks t)\<rparr>)"

definition insert_chunk :: "string \<Rightarrow> int \<Rightarrow> prepared_chunk \<Rightarrow> string \<Rightarrow> mem_tables \<Rightarrow> (string, unit \<times> mem_tables) result" where
  "insert_chunk session_id file_id c now t =
     (if pc_chunk_id c \<in> mc_chunk_id ` set (mt_chunks t) then Inl ''UNIQUE constraint failed: chunks.chunk_id''
      else if session_id \<notin> fst ` set (mt_sessions t) \<or> file_id \<notin> mf_file_id ` set (mt_files t) then Inl ''FOREIGN KEY constraint failed''
      else Inr ((), t\<lparr>mt_chunks := mt_chunks t @ [\<lparr>mc_chunk_id = pc_chunk_id c, mc_session = session_id, mc_file_id = Some file_id,
        mc_sequence_start = Some (pc_sequence_start c), mc_sequence_end = Some (pc_sequence_end c), mc_text = pc_chunk_text c,
        mc_metadata = pc_metadata_json c, mc_content_hash = pc_content_hash c, mc_updated_at = now\<rparr>]\<rparr>))"

definition upsert_vec :: "string \<Rightarrow> prepared_chunk \<Rightarrow> mem_tables \<Rightarrow> (string, unit \<times> mem_tables) result" where
  "upsert_vec model c t =
     (if pc_chunk_id c \<notin> mc_chunk_id ` set (mt_chunks t) then Inl ''FOREIGN KEY constraint failed''
      else Inr ((), t\<lparr>mt_vecs := filter (\<lambda>v. mv_chunk_id v \<noteq> pc_chunk_id c) (mt_vecs t) @
        [\<lparr>mv_chunk_id = pc_chunk_id c, mv_embedding = pc_embedding_json c, mv_model = model\<rparr>]\<rparr>))"

fun index_chunks :: "'e memory_env \<Rightarrow> string \<Rightarrow> int \<Rightarrow> string \<Rightarrow> int \<Rightarrow> prepared_chunk list \<Rightarrow> unit mem_action" where
  "index_chunks env session_id sequence model file_id [] = ret_action ()"
| "index_chunks env session_id sequence model file_id (c # cs) =
     bind_action (find_existing_chunk_id env session_id (pc_content_hash c) (pc_note_id c)) (\<lambda>existing.
     bind_action (case existing of
         Some chunk_id \<Rightarrow> touch_existing_chunk chunk_id sequence (map_option (\<lambda>_. pc_metadata_json c) (pc_note_id c))
       | None \<Rightarrow> bind_action (statement MemQuery (insert_chunk session_id file_id c)) (\<lambda>_. statement MemQuery (\<lambda>_. upsert_vec model c))) (\<lambda>_.
     index_chunks env session_id sequence model file_id cs))"

definition index_prepared_document :: "'e memory_env \<Rightarrow> string \<Rightarrow> int \<Rightarrow> prepared_index_document \<Rightarrow> unit mem_action" where
  "index_prepared_document env session_id sequence doc =
     bind_action (upsert_index_file session_id doc) (\<lambda>file_id.
     index_chunks env session_id sequence (pd_embedding_model doc) file_id (pd_chunks doc))"

section \<open>Conversations\<close>

definition i64_of :: "u64 \<Rightarrow> string \<Rightarrow> (memory_error, int) result" where
  "i64_of n what = (if unat n < 2 ^ 63 then Inr (uint n) else Inl (MemQuery (what @ '' exceeds sqlite integer range'')))"

definition max_sequence :: "string \<Rightarrow> mem_tables \<Rightarrow> int" where
  "max_sequence session_id t = fold max (map me_sequence (filter (\<lambda>e. me_session e = session_id) (mt_events t))) (- 1)"

definition ensure_monotonic_sequence :: "string \<Rightarrow> int \<Rightarrow> unit mem_action" where
  "ensure_monotonic_sequence session_id sequence =
     bind_action (select (max_sequence session_id)) (\<lambda>largest.
     if 0 \<le> largest \<and> sequence \<le> largest
     then lift_action (Inl (MemQuery (''store sequence '' @ int_text sequence @ '' must be greater than existing max sequence '' @ int_text largest @
       '' for session `'' @ session_id @ ''`'')))
     else ret_action ())"

definition load_session_state_map :: "'e memory_env \<Rightarrow> string \<Rightarrow> (string \<times> json) list option mem_action" where
  "load_session_state_map env session_id =
     bind_action (select (\<lambda>t. map_of (mt_states t) session_id)) (\<lambda>row.
     case row of
       None \<Rightarrow> ret_action None
     | Some state_json \<Rightarrow> lift_action (
         bind_result (map_err (from_str (mx_json env) state_json)
           (\<lambda>e. MemQuery (''session_state for session `'' @ session_id @ ''` is not valid JSON: '' @ e))) (\<lambda>value.
         bind_result (ok_or (as_object value) (MemQuery (''session_state for session `'' @ session_id @ ''` must be a JSON object''))) (\<lambda>kvs.
         Inr (Some kvs)))))"

definition save_session_state :: "'e memory_env \<Rightarrow> string \<Rightarrow> (string \<times> json) list \<Rightarrow> unit mem_action" where
  "save_session_state env session_id state =
     bind_action (lift_action (encode_json env (JObj state))) (\<lambda>state_json. statement MemQuery (\<lambda>_. upsert_state session_id state_json))"

definition index_if_prepared :: "'e memory_env \<Rightarrow> string \<Rightarrow> int \<Rightarrow> prepared_index_document option \<Rightarrow> unit mem_action" where
  "index_if_prepared env session_id sequence prepared =
     (case prepared of None \<Rightarrow> ret_action () | Some doc \<Rightarrow> index_prepared_document env session_id sequence doc)"

text \<open>\<open>Memory::store\<close>: the statements of its transaction, and the whole.\<close>

definition store_statements ::
  "'e memory_env \<Rightarrow> string \<Rightarrow> u64 \<Rightarrow> int \<Rightarrow> string \<Rightarrow> prepared_index_document option \<Rightarrow> unit mem_action" where
  "store_statements env session_id sequence_u64 sequence payload_json prepared =
     bind_action (ensure_monotonic_sequence session_id sequence) (\<lambda>_.
     bind_action (execute (upsert_session session_id)) (\<lambda>_.
     bind_action (statement MemQuery (\<lambda>_. insert_event \<lparr>me_session = session_id, me_sequence = sequence, me_payload = payload_json\<rparr>)) (\<lambda>_.
     bind_action (load_session_state_map env session_id) (\<lambda>state.
     bind_action (save_session_state env session_id (bt_insert ''last_sequence'' (mem_nat (unat sequence_u64)) (unwrap_or state []))) (\<lambda>_.
     index_if_prepared env session_id sequence prepared)))))"

definition memory_store :: "'e memory_env \<Rightarrow> 'e embedding_adapter \<Rightarrow> string \<Rightarrow> u64 \<Rightarrow> json \<Rightarrow> memory_record mem_action" where
  "memory_store env adapter session_id sequence_u64 payload = on_connection (
     bind_action (lift_action (encode_json env payload)) (\<lambda>payload_json.
     bind_action (lift_action (i64_of sequence_u64 ''store sequence'')) (\<lambda>sequence.
     bind_action (lift_action (prepare_index_document env adapter session_id sequence payload)) (\<lambda>prepared.
     bind_action (transaction (store_statements env session_id sequence_u64 sequence payload_json prepared)) (\<lambda>_.
     ret_action \<lparr>mr_sequence = sequence_u64, mr_payload = payload\<rparr>)))))"

definition record_of_row :: "'e memory_env \<Rightarrow> mem_event \<Rightarrow> (memory_error, memory_record) result" where
  "record_of_row env e =
     (if me_sequence e < 0 then Inl (MemQuery ''stored sequence is negative'')
      else bind_result (map_err (from_str (mx_json env) (me_payload e)) MemSerialization) (\<lambda>payload.
        Inr \<lparr>mr_sequence = word_of_int (me_sequence e), mr_payload = payload\<rparr>))"

text \<open>\<open>Memory::recall\<close>: with a limit, the newest rows are selected and put back in order.\<close>

definition recall_rows :: "string \<Rightarrow> int option \<Rightarrow> mem_tables \<Rightarrow> mem_event list" where
  "recall_rows session_id limit t =
     (let rows = sort_key me_sequence (filter (\<lambda>e. me_session e = session_id) (mt_events t)) in
      case limit of None \<Rightarrow> rows | Some n \<Rightarrow> take (nat n) (rev rows))"

definition memory_recall :: "'e memory_env \<Rightarrow> string \<Rightarrow> u64 option \<Rightarrow> memory_record list mem_action" where
  "memory_recall env session_id limit = on_connection (
     bind_action (lift_action (option_result (\<lambda>n. i64_of n ''recall limit'') limit)) (\<lambda>limit64.
     bind_action (select (recall_rows session_id limit64)) (\<lambda>rows.
     bind_action (lift_action (all_results (record_of_row env) rows)) (\<lambda>records.
     if records = [] then lift_action (Inl (MemNotFound session_id))
     else ret_action (if limit = None then records else rev records)))))"

text \<open>\<open>Memory::forget\<close>; the rows of the other tables go with the session.\<close>

definition delete_session :: "string \<Rightarrow> mem_tables \<Rightarrow> mem_tables" where
  "delete_session session_id t =
     (let gone = mc_chunk_id ` set (filter (\<lambda>c. mc_session c = session_id) (mt_chunks t));
          gone_files = mf_file_id ` set (filter (\<lambda>f. mf_session f = session_id) (mt_files t))
      in t\<lparr>mt_sessions := filter (\<lambda>(s, _). s \<noteq> session_id) (mt_sessions t), mt_events := filter (\<lambda>e. me_session e \<noteq> session_id) (mt_events t),
        mt_states := filter (\<lambda>(s, _). s \<noteq> session_id) (mt_states t), mt_files := filter (\<lambda>f. mf_session f \<noteq> session_id) (mt_files t),
        mt_vecs := filter (\<lambda>v. mv_chunk_id v \<notin> gone) (mt_vecs t),
        mt_chunks := map (\<lambda>c. c\<lparr>mc_file_id := (case mc_file_id c of Some f \<Rightarrow> if f \<in> gone_files then None else Some f | None \<Rightarrow> None)\<rparr>)
          (filter (\<lambda>c. mc_session c \<noteq> session_id) (mt_chunks t))\<rparr>)"

definition memory_forget :: "string \<Rightarrow> unit mem_action" where
  "memory_forget session_id = on_connection (transaction (
     bind_action (statement MemQuery (\<lambda>_ t. Inr (session_id \<in> fst ` set (mt_sessions t), delete_session session_id t))) (\<lambda>deleted.
     if deleted then ret_action () else lift_action (Inl (MemNotFound session_id)))))"

definition list_sessions :: "u64 option \<Rightarrow> string list mem_action" where
  "list_sessions limit = on_connection (
     bind_action (lift_action (option_result (\<lambda>n. i64_of n ''session listing limit'') limit)) (\<lambda>limit64.
     select (\<lambda>t. let rows = rev (sort_key snd (rev (sort_key fst (mt_sessions t)))) in
       map fst (case limit64 of None \<Rightarrow> rows | Some n \<Rightarrow> take (nat n) rows))))"

section \<open>Summaries\<close>

definition summary_field :: "string \<Rightarrow> (string \<times> json) list \<Rightarrow> string \<Rightarrow> (memory_error, json) result" where
  "summary_field session_id state name =
     ok_or (map_of state name) (MemQuery (''summary_state for session `'' @ session_id @ ''` is missing `'' @ name @ ''`''))"

definition read_summary_u64_field :: "string \<Rightarrow> (string \<times> json) list \<Rightarrow> string \<Rightarrow> (memory_error, u64) result" where
  "read_summary_u64_field session_id state name =
     bind_result (summary_field session_id state name) (\<lambda>value.
     bind_result (ok_or (json_as_u64 value)
       (MemQuery (''summary_state field `'' @ name @ ''` for session `'' @ session_id @ ''` must be an unsigned integer''))) (\<lambda>n. Inr (of_nat n)))"

definition read_summary_string_field :: "string \<Rightarrow> (string \<times> json) list \<Rightarrow> string \<Rightarrow> (memory_error, string) result" where
  "read_summary_string_field session_id state name =
     bind_result (summary_field session_id state name) (\<lambda>value.
     ok_or (as_str value) (MemQuery (''summary_state field `'' @ name @ ''` for session `'' @ session_id @ ''` must be a string'')))"

record summary_state =
  sus_epoch :: u64
  sus_upper_sequence :: u64
  sus_summary :: string
  sus_metadata :: "json option"

definition read_summary_state_from_map :: "string \<Rightarrow> (string \<times> json) list \<Rightarrow> (memory_error, summary_state option) result" where
  "read_summary_state_from_map session_id state =
     (case map_of state ''summary_state'' of
        None \<Rightarrow> Inr None
      | Some value \<Rightarrow>
          if value = JNull then Inr None
          else bind_result (ok_or (as_object value) (MemQuery (''summary_state for session `'' @ session_id @ ''` must be a JSON object''))) (\<lambda>kvs.
            bind_result (read_summary_u64_field session_id kvs ''epoch'') (\<lambda>epoch.
            bind_result (read_summary_u64_field session_id kvs ''upper_sequence'') (\<lambda>upper_sequence.
            bind_result (read_summary_string_field session_id kvs ''summary'') (\<lambda>summary.
            Inr (Some \<lparr>sus_epoch = epoch, sus_upper_sequence = upper_sequence, sus_summary = summary,
              sus_metadata = (case map_of kvs ''metadata'' of Some v \<Rightarrow> if v = JNull then None else Some v | None \<Rightarrow> None)\<rparr>))))))"

definition read_summary_state :: "'e memory_env \<Rightarrow> string \<Rightarrow> summary_state option mem_action" where
  "read_summary_state env session_id = on_connection (
     bind_action (load_session_state_map env session_id) (\<lambda>state.
     lift_action (case state of None \<Rightarrow> Inr None | Some kvs \<Rightarrow> read_summary_state_from_map session_id kvs)))"

record summary_write_request =
  swr_session_id :: string
  swr_expected_epoch :: u64
  swr_next_epoch :: u64
  swr_upper_sequence :: u64
  swr_summary :: string
  swr_metadata :: "json option"

record summary_write_result =
  swt_applied :: bool
  swt_current_epoch :: u64

definition summary_value :: "summary_write_request \<Rightarrow> json" where
  "summary_value r =
     JObj [(''epoch'', mem_nat (unat (swr_next_epoch r))), (''metadata'', unwrap_or (swr_metadata r) JNull), (''summary'', JStr (swr_summary r)),
       (''upper_sequence'', mem_nat (unat (swr_upper_sequence r)))]"

definition apply_summary :: "'e memory_env \<Rightarrow> summary_write_request \<Rightarrow> (string \<times> json) list \<Rightarrow> summary_write_result mem_action" where
  "apply_summary env r state =
     bind_action (save_session_state env (swr_session_id r) (bt_insert ''summary_state'' (summary_value r) state)) (\<lambda>_.
     ret_action \<lparr>swt_applied = True, swt_current_epoch = swr_next_epoch r\<rparr>)"

definition summary_statements :: "'e memory_env \<Rightarrow> summary_write_request \<Rightarrow> summary_write_result mem_action" where
  "summary_statements env r =
     (let session_id = swr_session_id r in
      bind_action (execute (upsert_session session_id)) (\<lambda>_.
      bind_action (load_session_state_map env session_id) (\<lambda>loaded.
      bind_action (lift_action (read_summary_state_from_map session_id (unwrap_or loaded []))) (\<lambda>existing.
      let current_epoch = (case existing of Some s \<Rightarrow> sus_epoch s | None \<Rightarrow> 0) in
      if current_epoch \<noteq> swr_expected_epoch r then ret_action \<lparr>swt_applied = False, swt_current_epoch = current_epoch\<rparr>
      else case existing of
        Some s \<Rightarrow>
          if swr_upper_sequence r < sus_upper_sequence s
          then lift_action (Inl (MemQuery (''summary write upper_sequence must be monotonic; got '' @ nat_to_string (unat (swr_upper_sequence r)) @
            '' but existing upper_sequence is '' @ nat_to_string (unat (sus_upper_sequence s)))))
          else apply_summary env r (unwrap_or loaded [])
      | None \<Rightarrow> apply_summary env r (unwrap_or loaded [])))))"

definition write_summary_state :: "'e memory_env \<Rightarrow> summary_write_request \<Rightarrow> summary_write_result mem_action" where
  "write_summary_state env r =
     (if swr_next_epoch r \<le> swr_expected_epoch r
      then lift_action (Inl (MemQuery (''summary write next_epoch must be greater than expected_epoch; got expected_epoch='' @
        nat_to_string (unat (swr_expected_epoch r)) @ '' next_epoch='' @ nat_to_string (unat (swr_next_epoch r)))))
      else on_connection (transaction (summary_statements env r)))"

section \<open>Notes\<close>

definition NOTE_TAG_MAX_COUNT :: nat where "NOTE_TAG_MAX_COUNT = 16"

definition NOTE_TAG_MAX_CHARS :: nat where "NOTE_TAG_MAX_CHARS = 64"

definition normalize_note_source :: "string option \<Rightarrow> string" where
  "normalize_note_source source = (case source of Some s \<Rightarrow> if trim s \<noteq> [] then trim s else ''memory_save'' | None \<Rightarrow> ''memory_save'')"

fun normalized_tags :: "'e memory_env \<Rightarrow> string list \<Rightarrow> string list \<Rightarrow> string list" where
  "normalized_tags env [] normalized = normalized"
| "normalized_tags env (raw # tags) normalized =
     (if NOTE_TAG_MAX_COUNT \<le> length normalized then normalized
      else let trimmed = trim raw; bounded = take_chars NOTE_TAG_MAX_CHARS (mx_lowercase env trimmed) in
        if trimmed = [] \<or> bounded = [] \<or> bounded \<in> set normalized then normalized_tags env tags normalized
        else normalized_tags env tags (normalized @ [bounded]))"

definition normalize_note_tags :: "'e memory_env \<Rightarrow> string list option \<Rightarrow> string list" where
  "normalize_note_tags env tags = normalized_tags env (unwrap_or tags []) []"

definition next_event_sequence :: "string \<Rightarrow> u64 mem_action" where
  "next_event_sequence session_id =
     bind_action (select (max_sequence session_id)) (\<lambda>largest.
     if largest < 0 then ret_action 1
     else lift_action (ok_or (checked_add (word_of_int largest) 1) (MemQuery ''event sequence overflow'')))"

record note_store_request =
  nsr_session_id :: string
  nsr_note_id :: string
  nsr_content :: string
  nsr_source :: "string option"
  nsr_tags :: "string list option"

definition note_payload :: "note_store_request \<Rightarrow> json" where
  "note_payload r = JObj [(''content'', JStr (nsr_content r)), (''role'', JStr ''user''), (''tool_call_id'', JStr (nsr_note_id r))]"

definition note_metadata :: "'e memory_env \<Rightarrow> note_store_request \<Rightarrow> json" where
  "note_metadata env r =
     JObj [(''created_at'', JStr (mx_now env)), (''note_id'', JStr (nsr_note_id r)), (''schema_version'', mem_nat 1),
       (''source'', JStr (normalize_note_source (nsr_source r))), (''tags'', JArr (map JStr (normalize_note_tags env (nsr_tags r)))),
       (''updated_at'', JStr (mx_now env))]"

definition store_note :: "'e memory_env \<Rightarrow> 'e embedding_adapter \<Rightarrow> note_store_request \<Rightarrow> unit mem_action" where
  "store_note env adapter r =
     (let session_id = nsr_session_id r in
      if trim session_id = [] then lift_action (Inl (MemQuery ''note session_id must not be empty''))
      else if trim (nsr_note_id r) = [] then lift_action (Inl (MemQuery ''note note_id must not be empty''))
      else if trim (nsr_content r) = [] then lift_action (Inl (MemQuery ''note content must not be empty''))
      else on_connection (
        bind_action (lift_action (encode_json env (note_payload r))) (\<lambda>payload_json.
        bind_action (next_event_sequence session_id) (\<lambda>next_sequence.
        bind_action (lift_action (i64_of next_sequence ''note sequence'')) (\<lambda>sequence.
        bind_action (lift_action (prepare_index_document_with_extra_metadata env adapter session_id sequence (note_payload r) (Some (note_metadata env r)))) (\<lambda>prepared.
        transaction (
          bind_action (execute (upsert_session session_id)) (\<lambda>_.
          bind_action (statement MemQuery (\<lambda>_. insert_event \<lparr>me_session = session_id, me_sequence = sequence, me_payload = payload_json\<rparr>)) (\<lambda>_.
          index_if_prepared env session_id sequence prepared)))))))))"

definition find_chunk_ids_by_note_id :: "'e memory_env \<Rightarrow> string \<Rightarrow> string \<Rightarrow> string list mem_action" where
  "find_chunk_ids_by_note_id env session_id note_id =
     statement MemQuery (\<lambda>_ t.
       bind_result (rows_where (carries_note env (Some note_id)) (filter (\<lambda>c. mc_session c = session_id) (mt_chunks t))) (\<lambda>rows.
       Inr (map mc_chunk_id rows, t)))"

definition delete_chunk :: "string \<Rightarrow> string \<Rightarrow> mem_tables \<Rightarrow> mem_tables" where
  "delete_chunk session_id chunk_id t =
     (if \<exists>c\<in>set (mt_chunks t). mc_chunk_id c = chunk_id \<and> mc_session c = session_id
      then t\<lparr>mt_chunks := filter (\<lambda>c. \<not> (mc_chunk_id c = chunk_id \<and> mc_session c = session_id)) (mt_chunks t),
             mt_vecs := filter (\<lambda>v. mv_chunk_id v \<noteq> chunk_id) (mt_vecs t)\<rparr>
      else t)"

fun delete_chunks :: "string \<Rightarrow> string list \<Rightarrow> unit mem_action" where
  "delete_chunks session_id [] = ret_action ()"
| "delete_chunks session_id (c # cs) = bind_action (execute (\<lambda>_. delete_chunk session_id c)) (\<lambda>_. delete_chunks session_id cs)"

definition event_of_note :: "'e memory_env \<Rightarrow> string \<Rightarrow> mem_event \<Rightarrow> (string, bool) result" where
  "event_of_note env note_id e = bind_result (json_extract env (me_payload e) ''tool_call_id'') (\<lambda>v. Inr (v = Some (JStr note_id)))"

definition delete_note_events :: "'e memory_env \<Rightarrow> string \<Rightarrow> string \<Rightarrow> nat mem_action" where
  "delete_note_events env session_id note_id =
     statement MemQuery (\<lambda>_ t.
       bind_result (rows_where (event_of_note env note_id) (filter (\<lambda>e. me_session e = session_id) (mt_events t))) (\<lambda>rows.
       Inr (length rows, t\<lparr>mt_events := filter (\<lambda>e. e \<notin> set rows) (mt_events t)\<rparr>)))"

definition delete_note :: "'e memory_env \<Rightarrow> string \<Rightarrow> string \<Rightarrow> bool mem_action" where
  "delete_note env session_id note_id = on_connection (transaction (
     bind_action (find_chunk_ids_by_note_id env session_id note_id) (\<lambda>chunk_ids.
     bind_action (delete_chunks session_id chunk_ids) (\<lambda>_.
     bind_action (delete_note_events env session_id note_id) (\<lambda>deleted_events.
     ret_action (chunk_ids \<noteq> [] \<or> 0 < deleted_events))))))"

section \<open>Scratchpads\<close>

definition SCRATCHPAD_MAX_ITEMS :: nat where "SCRATCHPAD_MAX_ITEMS = 32"

definition SCRATCHPAD_MAX_ITEM_CHARS :: nat where "SCRATCHPAD_MAX_ITEM_CHARS = 240"

definition SCRATCHPAD_MAX_BYTES :: nat where "SCRATCHPAD_MAX_BYTES = 8 * 1024"

record scratchpad_state =
  sps_items :: "string list"
  sps_updated_at :: string

fun normalized_items :: "nat \<Rightarrow> string list \<Rightarrow> (memory_error, string list) result" where
  "normalized_items index [] = Inr []"
| "normalized_items index (raw # items) =
     (let trimmed = trim raw in
      if trimmed = [] then normalized_items (Suc index) items
      else if SCRATCHPAD_MAX_ITEM_CHARS < char_count trimmed
      then Inl (MemQuery (''scratchpad item at index '' @ nat_to_string index @ '' exceeds max character length '' @ nat_to_string SCRATCHPAD_MAX_ITEM_CHARS))
      else bind_result (normalized_items (Suc index) items) (\<lambda>rest. Inr (trimmed # rest)))"

definition normalize_scratchpad_items :: "string list \<Rightarrow> (memory_error, string list) result" where
  "normalize_scratchpad_items items =
     (if SCRATCHPAD_MAX_ITEMS < length items
      then Inl (MemQuery (''scratchpad item count '' @ nat_to_string (length items) @ '' exceeds max '' @ nat_to_string SCRATCHPAD_MAX_ITEMS))
      else bind_result (normalized_items 0 items) (\<lambda>normalized.
        if normalized = [] then Inl (MemQuery ''scratchpad items must contain at least one non-empty item'') else Inr normalized))"

definition scratchpad_value :: "string \<Rightarrow> string list \<Rightarrow> json" where
  "scratchpad_value now items = JObj [(''items'', JArr (map JStr items)), (''schema_version'', mem_nat 1), (''updated_at'', JStr now)]"

definition ensure_scratchpad_size_limit :: "'e memory_env \<Rightarrow> json \<Rightarrow> (memory_error, unit) result" where
  "ensure_scratchpad_size_limit env state =
     bind_result (encode_json env state) (\<lambda>encoded.
     if SCRATCHPAD_MAX_BYTES < length encoded
     then Inl (MemQuery (''scratchpad payload size '' @ nat_to_string (length encoded) @ '' bytes exceeds max '' @ nat_to_string SCRATCHPAD_MAX_BYTES @ '' bytes''))
     else Inr ())"

fun stored_items :: "string \<Rightarrow> nat \<Rightarrow> json list \<Rightarrow> (memory_error, string list) result" where
  "stored_items session_id index [] = Inr []"
| "stored_items session_id index (item # items) =
     (let where_text = ''scratchpad state item at index '' @ nat_to_string index @ '' for session `'' @ session_id in
      bind_result (ok_or (as_str item) (MemQuery (where_text @ ''` must be a string''))) (\<lambda>value.
      if SCRATCHPAD_MAX_ITEM_CHARS < char_count value
      then Inl (MemQuery (where_text @ ''` exceeds max character length '' @ nat_to_string SCRATCHPAD_MAX_ITEM_CHARS))
      else bind_result (stored_items session_id (Suc index) items) (\<lambda>rest. Inr (value # rest))))"

definition read_scratchpad_state_from_map :: "'e memory_env \<Rightarrow> string \<Rightarrow> (string \<times> json) list \<Rightarrow> (memory_error, scratchpad_state option) result" where
  "read_scratchpad_state_from_map env session_id state =
     (let of_session = ''scratchpad state for session `'' @ session_id in
      case map_of state ''scratchpad_state'' of
        None \<Rightarrow> Inr None
      | Some value \<Rightarrow>
          if value = JNull then Inr None
          else bind_result (ok_or (as_object value) (MemQuery (of_session @ ''` must be a JSON object''))) (\<lambda>kvs.
            bind_result (ok_or (map_of kvs ''items'') (MemQuery (of_session @ ''` is missing `items`''))) (\<lambda>items_value.
            bind_result (ok_or (as_array items_value) (MemQuery (''scratchpad state field `items` for session `'' @ session_id @ ''` must be an array''))) (\<lambda>items_array.
            if SCRATCHPAD_MAX_ITEMS < length items_array
            then Inl (MemQuery (of_session @ ''` exceeds max item count '' @ nat_to_string SCRATCHPAD_MAX_ITEMS @ ''; found '' @ nat_to_string (length items_array)))
            else bind_result (stored_items session_id 0 items_array) (\<lambda>items.
            bind_result (ok_or (Option.bind (map_of kvs ''updated_at'') as_str) (MemQuery (of_session @ ''` is missing `updated_at`''))) (\<lambda>updated_at.
            case mx_rfc3339_error env updated_at of
              Some e \<Rightarrow> Inl (MemQuery (''scratchpad state field `updated_at` for session `'' @ session_id @ ''` must be RFC3339: '' @ e))
            | None \<Rightarrow> Inr (Some \<lparr>sps_items = items, sps_updated_at = updated_at\<rparr>)))))))"

definition read_scratchpad :: "'e memory_env \<Rightarrow> string \<Rightarrow> scratchpad_state option mem_action" where
  "read_scratchpad env session_id = on_connection (
     bind_action (load_session_state_map env session_id) (\<lambda>state.
     lift_action (case state of None \<Rightarrow> Inr None | Some kvs \<Rightarrow> read_scratchpad_state_from_map env session_id kvs)))"

definition scratchpad_statements :: "'e memory_env \<Rightarrow> string \<Rightarrow> json \<Rightarrow> nat \<Rightarrow> (bool \<times> nat) mem_action" where
  "scratchpad_statements env session_id state item_count =
     bind_action (execute (upsert_session session_id)) (\<lambda>_.
     bind_action (load_session_state_map env session_id) (\<lambda>loaded.
     let kvs = unwrap_or loaded []; updated = (map_of kvs ''scratchpad_state'' \<noteq> Some state) in
     bind_action (save_session_state env session_id (bt_insert ''scratchpad_state'' state kvs)) (\<lambda>_.
     ret_action (updated, item_count))))"

definition write_scratchpad :: "'e memory_env \<Rightarrow> string \<Rightarrow> string list \<Rightarrow> (bool \<times> nat) mem_action" where
  "write_scratchpad env session_id items =
     (if trim session_id = [] then lift_action (Inl (MemQuery ''scratchpad session_id must not be empty''))
      else bind_action (lift_action (normalize_scratchpad_items items)) (\<lambda>normalized.
        let state = scratchpad_value (mx_now env) normalized in
        bind_action (lift_action (ensure_scratchpad_size_limit env state)) (\<lambda>_.
        on_connection (transaction (scratchpad_statements env session_id state (length normalized))))))"

definition clear_scratchpad :: "'e memory_env \<Rightarrow> string \<Rightarrow> bool mem_action" where
  "clear_scratchpad env session_id =
     (if trim session_id = [] then lift_action (Inl (MemQuery ''scratchpad session_id must not be empty''))
      else on_connection (transaction (
        bind_action (load_session_state_map env session_id) (\<lambda>loaded.
        case loaded of
          None \<Rightarrow> ret_action False
        | Some kvs \<Rightarrow>
            if map_of kvs ''scratchpad_state'' = None then ret_action False
            else bind_action (save_session_state env session_id (bt_remove ''scratchpad_state'' kvs)) (\<lambda>_. ret_action True)))))"

section \<open>Search\<close>

definition f64_neg :: "f64 \<Rightarrow> f64" where
  "f64_neg a = (case a of F_NaN \<Rightarrow> F_NaN | F_PInf \<Rightarrow> F_NInf | F_NInf \<Rightarrow> F_PInf | F_Fin x \<Rightarrow> F_Fin (- x))"

definition f64_sub :: "f64 \<Rightarrow> f64 \<Rightarrow> f64" where
  "f64_sub a b = f64_add a (f64_neg b)"

definition f64_abs :: "f64 \<Rightarrow> f64" where
  "f64_abs a = (if f64_less a (F_Fin 0) then f64_neg a else a)"

definition f64_min :: "f64 \<Rightarrow> f64 \<Rightarrow> f64" where
  "f64_min a b = (if a = F_NaN then b else if f64_less b a then b else a)"

definition f64_max :: "f64 \<Rightarrow> f64 \<Rightarrow> f64" where
  "f64_max a b = (if a = F_NaN then b else if f64_less a b then b else a)"

text \<open>\<open>f64::total_cmp\<close>; a NaN comes last.\<close>

definition f64_total_less :: "f64 \<Rightarrow> f64 \<Rightarrow> bool" where
  "f64_total_less a b \<longleftrightarrow> f64_less a b \<or> (a \<noteq> F_NaN \<and> b = F_NaN)"

definition RETRIEVAL_WEIGHT_SUM_EPSILON :: f64 where "RETRIEVAL_WEIGHT_SUM_EPSILON = f64_round (1 / 1000000)"

definition RETRIEVAL_CANDIDATE_MULTIPLIER :: nat where "RETRIEVAL_CANDIDATE_MULTIPLIER = 4"

definition default_retrieval :: retrieval_limits where
  "default_retrieval = \<lparr>rl_top_k = 8, rl_vector_weight = f64_round (7 / 10), rl_fts_weight = f64_round (3 / 10)\<rparr>"

record 'e hybrid_query_request =
  hq_session_id :: string
  hq_query :: string
  hq_tags :: "string list option"
  hq_query_embedding :: "'e list option"
  hq_top_k :: "nat option"
  hq_vector_weight :: "f64 option"
  hq_fts_weight :: "f64 option"

record hybrid_candidate_row =
  hr_chunk_id :: string
  hr_session_id :: string
  hr_text :: string
  hr_file_id :: "int option"
  hr_sequence_start :: "u64 option"
  hr_sequence_end :: "u64 option"
  hr_metadata :: "json option"
  hr_recency_sequence :: u64

record merged_hybrid_candidate =
  hc_row :: hybrid_candidate_row
  hc_score :: f64
  hc_vector_score :: f64
  hc_fts_score :: f64

definition is_weight :: "f64 \<Rightarrow> bool" where
  "is_weight w \<longleftrightarrow> f64_is_finite w \<and> f64_le (F_Fin 0) w \<and> f64_le w (F_Fin 1)"

definition validate_hybrid_weights :: "'e memory_env \<Rightarrow> f64 \<Rightarrow> f64 \<Rightarrow> (memory_error, unit) result" where
  "validate_hybrid_weights env vector_weight fts_weight =
     (if \<not> is_weight vector_weight
      then Inl (MemQuery (''hybrid query vector_weight must be within [0.0, 1.0]; got '' @ mx_f64_text env vector_weight))
      else if \<not> is_weight fts_weight then Inl (MemQuery (''hybrid query fts_weight must be within [0.0, 1.0]; got '' @ mx_f64_text env fts_weight))
      else if f64_less RETRIEVAL_WEIGHT_SUM_EPSILON (f64_abs (f64_sub (f64_add vector_weight fts_weight) (F_Fin 1)))
      then Inl (MemQuery (''hybrid query weights must sum to 1.0; got vector_weight='' @ mx_f64_text env vector_weight @ '' fts_weight='' @
        mx_f64_text env fts_weight))
      else Inr ())"

definition validate_query_embedding :: "'e memory_env \<Rightarrow> 'e list \<Rightarrow> (memory_error, unit) result" where
  "validate_query_embedding env embedding =
     (if embedding = [] then Inl (MemQuery ''hybrid query embedding must contain at least one dimension'')
      else if \<not> list_all (mx_finite env) embedding then Inl (MemQuery ''hybrid query embedding must contain only finite f32 values'')
      else Inr ())"

definition read_optional_u64 :: "string \<Rightarrow> int option \<Rightarrow> (memory_error, u64 option) result" where
  "read_optional_u64 name value =
     option_result (\<lambda>raw. if raw < 0 then Inl (MemQuery (''stored '' @ name @ '' value '' @ int_text raw @ '' is negative and cannot be converted to u64''))
       else Inr (word_of_int raw)) value"

definition hybrid_candidate_from_row :: "'e memory_env \<Rightarrow> mem_chunk \<Rightarrow> (memory_error, hybrid_candidate_row) result" where
  "hybrid_candidate_from_row env c =
     bind_result (read_optional_u64 ''sequence_start'' (mc_sequence_start c)) (\<lambda>sequence_start.
     bind_result (read_optional_u64 ''sequence_end'' (mc_sequence_end c)) (\<lambda>sequence_end.
     bind_result (map_err (from_str (mx_json env) (mc_metadata c)) MemSerialization) (\<lambda>metadata.
     Inr \<lparr>hr_chunk_id = mc_chunk_id c, hr_session_id = mc_session c, hr_text = mc_text c, hr_file_id = mc_file_id c,
       hr_sequence_start = sequence_start, hr_sequence_end = sequence_end, hr_metadata = (if metadata = JNull then None else Some metadata),
       hr_recency_sequence = (case sequence_end of Some e \<Rightarrow> e | None \<Rightarrow> unwrap_or sequence_start 0)\<rparr>)))"

text \<open>Sorting by a comparison; a lexicographic comparison is the list of its levels, each with whether the first is smaller and whether it is greater.\<close>

fun insert_row :: "('r \<Rightarrow> 'r \<Rightarrow> bool) \<Rightarrow> 'r \<Rightarrow> 'r list \<Rightarrow> 'r list" where
  "insert_row before x [] = [x]"
| "insert_row before x (y # ys) = (if before y x then y # insert_row before x ys else x # y # ys)"

definition sort_rows :: "('r \<Rightarrow> 'r \<Rightarrow> bool) \<Rightarrow> 'r list \<Rightarrow> 'r list" where
  "sort_rows before xs = foldr (insert_row before) xs []"

fun lexed :: "(bool \<times> bool) list \<Rightarrow> bool" where
  "lexed [] = False"
| "lexed ((lt, gt) # levels) = (lt \<or> (\<not> gt \<and> lexed levels))"

definition opt_less :: "int option \<Rightarrow> int option \<Rightarrow> bool" where
  "opt_less a b = (case (a, b) of (None, Some _) \<Rightarrow> True | (Some x, Some y) \<Rightarrow> x < y | _ \<Rightarrow> False)"

text \<open>\<open>ORDER BY score DESC, sequence_end DESC, sequence_start DESC, chunk_id ASC\<close>.\<close>

definition scored_before :: "f64 \<times> mem_chunk \<Rightarrow> f64 \<times> mem_chunk \<Rightarrow> bool" where
  "scored_before = (\<lambda>(s, c) (s', c'). lexed
     [(f64_total_less s' s, f64_total_less s s'), (opt_less (mc_sequence_end c') (mc_sequence_end c), opt_less (mc_sequence_end c) (mc_sequence_end c')),
      (opt_less (mc_sequence_start c') (mc_sequence_start c), opt_less (mc_sequence_start c) (mc_sequence_start c')),
      (mc_chunk_id c < mc_chunk_id c', mc_chunk_id c' < mc_chunk_id c)])"

text \<open>The tags of a chunk are an array of strings in its metadata.\<close>

definition has_tag :: "'e memory_env \<Rightarrow> mem_chunk \<Rightarrow> string \<Rightarrow> (string, bool) result" where
  "has_tag env c tag =
     bind_result (json_extract env (mc_metadata c) ''tags'') (\<lambda>v. Inr (case v of Some (JArr xs) \<Rightarrow> JStr tag \<in> set xs | _ \<Rightarrow> False))"

definition has_all_tags :: "'e memory_env \<Rightarrow> string list option \<Rightarrow> mem_chunk \<Rightarrow> (string, bool) result" where
  "has_all_tags env tags c = bind_result (all_results (has_tag env c) (unwrap_or tags [])) (\<lambda>bs. Inr (list_all id bs))"

definition candidates_of :: "'e memory_env \<Rightarrow> (string \<Rightarrow> memory_error) \<Rightarrow> (mem_tables \<Rightarrow> (f64 \<times> mem_chunk) list) \<Rightarrow> nat \<Rightarrow> string list option \<Rightarrow>
    (hybrid_candidate_row \<times> f64) list mem_action" where
  "candidates_of env err found limit tags =
     bind_action (statement err (\<lambda>_ t.
       bind_result (rows_where (\<lambda>(s, c). has_all_tags env tags c) (found t)) (\<lambda>rows. Inr (take limit (sort_rows scored_before rows), t)))) (\<lambda>rows.
     lift_action (all_results (\<lambda>(s, c). bind_result (hybrid_candidate_from_row env c) (\<lambda>r. Inr (r, s))) rows))"

definition CHUNKS_VECTOR_INDEX_NAME :: string where "CHUNKS_VECTOR_INDEX_NAME = ''idx_chunks_vec_embedding_ann''"

definition vector_failed :: "string \<Rightarrow> memory_error" where
  "vector_failed e = MemQuery (''native libsql vector query failed for index `'' @ CHUNKS_VECTOR_INDEX_NAME @ ''`: '' @ e)"

text \<open>The index is asked for the nearest rows of all sessions; those of the session are kept.\<close>

definition vector_matches :: "'e memory_env \<Rightarrow> string \<Rightarrow> string \<Rightarrow> nat \<Rightarrow> mem_tables \<Rightarrow> (f64 \<times> mem_chunk) list" where
  "vector_matches env session_id query_json limit t =
     concat (map (\<lambda>i. concat (map (\<lambda>v. map (\<lambda>c. (f64_neg (mx_distance env (mv_embedding v) query_json), c))
         (filter (\<lambda>c. mc_chunk_id c = mv_chunk_id v \<and> mc_session c = session_id) (mt_chunks t)))
       (filter (\<lambda>v. mv_chunk_id v = i) (mt_vecs t)))) (mx_vector_top_k env (mt_vecs t) query_json limit))"

definition fits_i64 :: "nat \<Rightarrow> (memory_error, unit) result" where
  "fits_i64 n = (if n < 2 ^ 63 then Inr () else Inl (MemQuery ''hybrid candidate limit exceeds sqlite range''))"

definition vector_search :: "'e memory_env \<Rightarrow> string \<Rightarrow> 'e list \<Rightarrow> nat \<Rightarrow> string list option \<Rightarrow> (hybrid_candidate_row \<times> f64) list mem_action" where
  "vector_search env session_id query_embedding limit tags = on_connection (
     bind_action (lift_action (fits_i64 limit)) (\<lambda>_.
     bind_action (lift_action (normalize_embedding_dimensions env query_embedding)) (\<lambda>normalized.
     bind_action (lift_action (map_err (mx_embedding_json env normalized) MemSerialization)) (\<lambda>query_json.
     candidates_of env vector_failed (vector_matches env session_id query_json limit) limit tags))))"

fun double_quotes :: "string \<Rightarrow> string" where
  "double_quotes [] = []"
| "double_quotes (c # s) = (if c = CHR 0x22 then [c, c] else [c]) @ double_quotes s"

definition format_fts_match_query :: "string \<Rightarrow> string" where
  "format_fts_match_query query = CHR 0x22 # double_quotes query @ [CHR 0x22]"

definition fts_matches :: "'e memory_env \<Rightarrow> string \<Rightarrow> string \<Rightarrow> mem_tables \<Rightarrow> (f64 \<times> mem_chunk) list" where
  "fts_matches env session_id match_query t =
     concat (map (\<lambda>c. case mx_fts env (mt_chunks t) match_query (mc_text c) of
         Some bm25 \<Rightarrow> if mc_session c = session_id then [(f64_neg bm25, c)] else [] | None \<Rightarrow> []) (mt_chunks t))"

definition fts_search :: "'e memory_env \<Rightarrow> string \<Rightarrow> string \<Rightarrow> nat \<Rightarrow> string list option \<Rightarrow> (hybrid_candidate_row \<times> f64) list mem_action" where
  "fts_search env session_id query limit tags = on_connection (
     bind_action (lift_action (fits_i64 limit)) (\<lambda>_.
     candidates_of env MemQuery (fts_matches env session_id (format_fts_match_query query)) limit tags))"

definition normalize_scores :: "(hybrid_candidate_row \<times> f64) list \<Rightarrow> (string \<times> f64) list" where
  "normalize_scores candidates =
     (let least = fold (\<lambda>(_, s) m. f64_min m s) candidates F_PInf;
          largest = fold (\<lambda>(_, s) m. f64_max m s) candidates F_NInf;
          width = f64_sub largest least
      in rev (map (\<lambda>(r, s). (hr_chunk_id r, if f64_le (f64_abs width) RETRIEVAL_WEIGHT_SUM_EPSILON then F_Fin 1 else f64_div (f64_sub s least) width)) candidates))"

text \<open>The hash map of merged candidates, as the list of its values; a chunk that is there keeps its row.\<close>

definition merge_candidates :: "(merged_hybrid_candidate \<Rightarrow> f64 \<Rightarrow> merged_hybrid_candidate) \<Rightarrow> (hybrid_candidate_row \<times> f64) list \<Rightarrow>
    merged_hybrid_candidate list \<Rightarrow> merged_hybrid_candidate list" where
  "merge_candidates set_score candidates merged =
     (let scores = normalize_scores candidates in
      fold (\<lambda>(row, _) m.
        let score = unwrap_or (map_of scores (hr_chunk_id row)) (F_Fin 0);
            m' = (if hr_chunk_id row \<in> (hr_chunk_id \<circ> hc_row) ` set m then m
                  else m @ [\<lparr>hc_row = row, hc_score = F_Fin 0, hc_vector_score = F_Fin 0, hc_fts_score = F_Fin 0\<rparr>])
        in map (\<lambda>x. if hr_chunk_id (hc_row x) = hr_chunk_id row then set_score x score else x) m') candidates merged)"

definition ranked_before :: "merged_hybrid_candidate \<Rightarrow> merged_hybrid_candidate \<Rightarrow> bool" where
  "ranked_before a b = lexed
     [(f64_total_less (hc_score b) (hc_score a), f64_total_less (hc_score a) (hc_score b)),
      (hr_recency_sequence (hc_row b) < hr_recency_sequence (hc_row a), hr_recency_sequence (hc_row a) < hr_recency_sequence (hc_row b)),
      (hr_chunk_id (hc_row a) < hr_chunk_id (hc_row b), hr_chunk_id (hc_row b) < hr_chunk_id (hc_row a))]"

definition rank_candidates :: "f64 \<Rightarrow> f64 \<Rightarrow> nat \<Rightarrow> (hybrid_candidate_row \<times> f64) list \<Rightarrow> (hybrid_candidate_row \<times> f64) list \<Rightarrow> merged_hybrid_candidate list" where
  "rank_candidates vector_weight fts_weight top_k vector_candidates fts_candidates =
     (let merged = merge_candidates (\<lambda>x s. x\<lparr>hc_fts_score := s\<rparr>) fts_candidates
            (merge_candidates (\<lambda>x s. x\<lparr>hc_vector_score := s\<rparr>) vector_candidates []);
          scored = map (\<lambda>x. x\<lparr>hc_score := f64_add (f64_mul vector_weight (hc_vector_score x)) (f64_mul fts_weight (hc_fts_score x))\<rparr>) merged
      in take top_k (sort_rows ranked_before scored))"

definition execute_hybrid_query :: "'e memory_env \<Rightarrow> 'e embedding_adapter \<Rightarrow> 'e hybrid_query_request \<Rightarrow> merged_hybrid_candidate list mem_action" where
  "execute_hybrid_query env adapter r =
     (let query = trim (hq_query r);
          top_k = unwrap_or (hq_top_k r) (rl_top_k default_retrieval);
          vector_weight = unwrap_or (hq_vector_weight r) (rl_vector_weight default_retrieval);
          fts_weight = unwrap_or (hq_fts_weight r) (rl_fts_weight default_retrieval);
          tags = normalize_note_tags env (hq_tags r);
          tag_filters = (if tags \<noteq> [] then Some tags else None);
          limit = top_k * RETRIEVAL_CANDIDATE_MULTIPLIER
      in if query = [] then lift_action (Inl (MemQuery ''hybrid query must include a non-empty query string''))
         else if top_k = 0 then lift_action (Inl (MemQuery ''hybrid query `top_k` must be greater than zero''))
         else bind_action (lift_action (validate_hybrid_weights env vector_weight fts_weight)) (\<lambda>_.
           bind_action (lift_action (case hq_query_embedding r of Some e \<Rightarrow> Inr e | None \<Rightarrow> embed_query env adapter query)) (\<lambda>query_embedding.
           bind_action (lift_action (validate_query_embedding env query_embedding)) (\<lambda>_.
           bind_action (lift_action (if limit < 2 ^ 64 then Inr () else Inl (MemQuery ''hybrid query top_k is too large''))) (\<lambda>_.
           bind_action (vector_search env (hq_session_id r) query_embedding limit tag_filters) (\<lambda>vector_candidates.
           bind_action (fts_search env (hq_session_id r) query limit tag_filters) (\<lambda>fts_candidates.
           ret_action (rank_candidates vector_weight fts_weight top_k vector_candidates fts_candidates))))))))"

section \<open>Opening\<close>

datatype connection_strategy = ConnLocal string | ConnRemote string string

definition strategy_from_config :: "memory_config \<Rightarrow> (memory_error, connection_strategy option) result" where
  "strategy_from_config config =
     (if \<not> mcf_enabled config then Inr None
      else case mcf_remote_url config of
        Some raw \<Rightarrow>
          (let url = trim raw in
           if url = [] then Inr None
           else case mcf_auth_token config of
             Some token \<Rightarrow>
               if trim token = [] then Inl (MemInitialization (''remote memory mode requires auth_token when remote_url is set ('' @ url @ '')''))
               else Inr (Some (ConnRemote url (trim token)))
           | None \<Rightarrow> Inl (MemInitialization (''remote memory mode requires auth_token when remote_url is set ('' @ url @ '')'')))
      | None \<Rightarrow> Inr None)"

definition needs_local_db :: "memory_config \<Rightarrow> bool" where
  "needs_local_db config \<longleftrightarrow> mcf_enabled config \<and> (case mcf_remote_url config of None \<Rightarrow> True | Some u \<Rightarrow> trim u = [])"

definition upsert_chunks :: "(memory_error, nat \<times> nat) result" where
  "upsert_chunks = Inl (MemQuery ''chunk upsert API is not implemented yet for libsql memory'')"

definition backend_unavailable :: memory_error where
  "backend_unavailable = MemInitialization ''memory backend is not configured; explicit local/remote selection is required''"

end
