(* ===== verification/Memory_Properties.thy ===== *)
theory Memory_Properties
  imports Memory_Store
begin

text \<open>
  Properties of the memory of conversations and notes: no short phrase is lost between two chunks of a text, an operation that fails changes nothing, keys stay
  unique, the conversation log is an append-only list, a summary is replaced only by the next epoch, a scratchpad is read back as it was written.
\<close>

section \<open>Chunks of a text\<close>

text \<open>A phrase that starts and ends with a visible character is found, with its whitespace normalized, in the normalized text around it.\<close>

abbreviation spaced :: "string list \<Rightarrow> string" where
  "spaced cs \<equiv> join '' '' (words_of cs)"

lemma spaced_Cons: "\<exists>x. spaced (c # r) = x @ spaced r"
proof (cases "ws_char c \<or> r = []")
  case False
  then obtain d s where r: "r = d # s" by (cases r) auto
  show ?thesis
  proof (cases "ws_char d")
    case True
    have "spaced (c # r) = c @ (if words_of s = [] then [] else '' '') @ spaced r" using False True r by (cases "words_of s") auto
    then show ?thesis by (metis append_assoc)
  next
    case nonws: False
    have "spaced (c # r) = c @ spaced r" using False nonws r by (cases "words_of (dropWhile (\<lambda>d. \<not> ws_char d) s)") auto
    then show ?thesis by blast
  qed
qed auto

lemma spaced_before: "\<exists>x. spaced (as @ r) = x @ spaced r"
proof (induction as)
  case (Cons a as)
  then show ?case using spaced_Cons[of a "as @ r"] by (metis append_Cons append_assoc)
qed simp

lemma join_Cons_nonempty: "ws \<noteq> [] \<Longrightarrow> join sep (w # ws) = w @ sep @ join sep ws"
  by (cases ws) simp_all

lemma spaced_after: "p \<noteq> [] \<Longrightarrow> \<not> ws_char (last p) \<Longrightarrow> \<exists>y. spaced (p @ b) = spaced p @ y"
proof (induction p rule: words_of.induct)
  case (2 c cs)
  let ?n = "\<lambda>d. \<not> ws_char d"
  show ?case
  proof (cases "ws_char c")
    case True
    then have "cs \<noteq> []" "\<not> ws_char (last cs)" using 2(4) by (auto split: if_splits)
    then show ?thesis using 2(1)[OF True] True by simp
  next
    case c: False
    show ?thesis
    proof (cases "list_all ?n cs")
      case True
      then have w: "takeWhile ?n cs = cs" "dropWhile ?n cs = []" by (auto simp: list_all_iff takeWhile_eq_all_conv dropWhile_eq_Nil_conv)
      have "takeWhile ?n (cs @ b) = cs @ takeWhile ?n b" "dropWhile ?n (cs @ b) = dropWhile ?n b"
        using True by (auto simp: list_all_iff takeWhile_append2 dropWhile_append2)
      then have "words_of ((c # cs) @ b) = (concat (c # cs) @ concat (takeWhile ?n b)) # words_of (dropWhile ?n b)" using c by simp
      moreover have "words_of (c # cs) = [concat (c # cs)]" by (simp only: words_of.simps w c if_False concat.simps)
      ultimately show ?thesis by (cases "words_of (dropWhile ?n b)") auto
    next
      case False
      then obtain x where x: "x \<in> set cs" "ws_char x" by (auto simp: list_all_iff)
      have tw: "takeWhile ?n (cs @ b) = takeWhile ?n cs" using x by (auto intro: takeWhile_append1)
      have dw: "dropWhile ?n (cs @ b) = dropWhile ?n cs @ b" using x by (auto intro: dropWhile_append1)
      have ne: "dropWhile ?n cs \<noteq> []" using x by (auto simp: dropWhile_eq_Nil_conv)
      have "cs \<noteq> []" using x by auto
      then have nonws: "\<not> ws_char (last (dropWhile ?n cs))" using 2(4) ne by (metis last_ConsR last_appendR takeWhile_dropWhile_id)
      then obtain y where y: "spaced (dropWhile ?n cs @ b) = spaced (dropWhile ?n cs) @ y" using 2(2)[OF c ne] by blast
      have "words_of (dropWhile ?n cs) \<noteq> []" "words_of (dropWhile ?n cs @ b) \<noteq> []"
        using nonws last_in_set[OF ne] unfolding words_of_Nil_iff set_append by blast+
      then show ?thesis using c tw dw y by (simp add: join_Cons_nonempty)
    qed
  qed
qed simp

lemma spaced_within:
  assumes "p \<noteq> []" "\<not> ws_char (last p)"
  shows "\<exists>x y. spaced (a @ p @ b) = x @ spaced p @ y"
  using spaced_before[of a "p @ b"] spaced_after[OF assms] by metis

text \<open>The windows overlap by 96 characters, so a phrase of up to 97 characters lies in one of them.\<close>

lemma windows_cover:
  "start \<le> i \<Longrightarrow> i + n \<le> length cs \<Longrightarrow> 0 < n \<Longrightarrow> n \<le> INDEX_CHUNK_OVERLAP_CHARS + 1 \<Longrightarrow>
    \<exists>w\<in>set (chunk_windows cs start). \<exists>a b. w = a @ take n (drop i cs) @ b"
proof (induction cs start rule: chunk_windows.induct)
  case (1 cs start)
  let ?last = "min (start + INDEX_CHUNK_MAX_CHARS) (length cs)"
  let ?w = "take (?last - start) (drop start cs)"
  have start: "start < length cs" using 1 by linarith
  show ?case
  proof (cases "i + n \<le> ?last")
    case True
    have "?w = take (i - start) ?w @ take n (drop (i - start) ?w) @ drop n (drop (i - start) ?w)" by (simp only: append_take_drop_id)
    moreover have "take n (drop (i - start) ?w) = take n (drop i cs)"
      using True 1(2) by (simp add: drop_take min_def add.commute)
    moreover have "?w \<in> set (chunk_windows cs start)" using start by (subst chunk_windows.simps) (simp add: Let_def)
    ultimately show ?thesis by metis
  next
    case False
    then have last: "?last = start + INDEX_CHUNK_MAX_CHARS" "?last \<noteq> length cs" using 1(3) by (auto simp: min_def split: if_splits)
    let ?s = "?last - INDEX_CHUNK_OVERLAP_CHARS"
    have s: "?s \<le> i" "\<not> ?last \<le> ?s" using False 1(5) last by (auto simp: INDEX_CHUNK_MAX_CHARS_def INDEX_CHUNK_OVERLAP_CHARS_def)
    have "\<exists>w\<in>set (chunk_windows cs ?s). \<exists>a b. w = a @ take n (drop i cs) @ b"
      using 1(1)[OF start refl refl last(2) refl s(2) s(1) 1(3,4,5)] .
    moreover have "set (chunk_windows cs ?s) \<subseteq> set (chunk_windows cs start)"
      using start last(2) s(2) by (subst (2) chunk_windows.simps) (auto simp: Let_def)
    ultimately show ?thesis by blast
  qed
qed

text \<open>A chunk is not longer than its window.\<close>

lemma char_count_append_le: "char_count (a @ b) \<le> char_count a + char_count b"
proof (induction a rule: chars.induct)
  case (2 c cs)
  show ?case
  proof (cases "dropWhile is_cont cs = []")
    case True
    then have "takeWhile is_cont (cs @ b) = cs @ takeWhile is_cont b" "dropWhile is_cont (cs @ b) = dropWhile is_cont b"
      by (auto simp: dropWhile_eq_Nil_conv takeWhile_append2 dropWhile_append2)
    moreover have "length (chars (dropWhile is_cont b)) \<le> length (chars b)"
    proof (cases b)
      case (Cons x xs)
      then show ?thesis by (cases "is_cont x") auto
    qed simp
    ultimately show ?thesis using True by (simp add: char_count_def)
  next
    case False
    then have "\<exists>x\<in>set cs. \<not> is_cont x" by (auto simp: dropWhile_eq_Nil_conv)
    then have "dropWhile is_cont (cs @ b) = dropWhile is_cont cs @ b" by (auto intro: dropWhile_append1)
    then show ?thesis using 2 by (simp add: char_count_def)
  qed
qed (simp add: char_count_def)

lemma char_count_concat_le: "(\<forall>c\<in>set cs. char_count c \<le> 1) \<Longrightarrow> char_count (concat cs) \<le> length cs"
proof (induction cs)
  case (Cons c cs)
  then show ?case using char_count_append_le[of c "concat cs"] by auto
qed (simp add: char_count_def)

lemma spaced_length:
  "\<forall>c\<in>set w. char_count c \<le> 1 \<Longrightarrow> char_count (spaced w) \<le> length w \<and> (w \<noteq> [] \<and> ws_char (hd w) \<longrightarrow> char_count (spaced w) < length w)"
proof (induction w rule: words_of.induct)
  case (2 c cs)
  let ?n = "\<lambda>d. \<not> ws_char d"
  show ?case
  proof (cases "ws_char c")
    case False
    let ?t = "takeWhile ?n cs" and ?d = "dropWhile ?n cs"
    have sub: "\<forall>x\<in>set (c # ?t). char_count x \<le> 1" "\<forall>x\<in>set ?d. char_count x \<le> 1" using 2(3) by (auto dest: set_takeWhileD set_dropWhileD)
    have first: "char_count (concat (c # ?t)) \<le> Suc (length ?t)" using char_count_concat_le[OF sub(1)] by simp
    have len: "length ?t + length ?d = length cs" by (metis length_append takeWhile_dropWhile_id)
    show ?thesis
    proof (cases "words_of ?d = []")
      case True
      then show ?thesis using False first len by simp
    next
      case ne: False
      have d0: "?d \<noteq> []" using ne by (intro notI) (simp only: words_of.simps)
      have d: "?d \<noteq> []" "ws_char (hd ?d)" using d0 hd_dropWhile[OF d0] by simp_all
      have "char_count (spaced ?d) < length ?d" using 2(2)[OF False sub(2)] d by blast
      moreover have "char_count '' '' = 1" by code_simp
      moreover have "char_count (concat (c # ?t) @ '' '' @ spaced ?d) \<le> char_count (concat (c # ?t)) + (char_count '' '' + char_count (spaced ?d))"
        using char_count_append_le[of "concat (c # ?t)" "'' '' @ spaced ?d"] char_count_append_le[of "'' ''" "spaced ?d"] by linarith
      moreover have "spaced (c # cs) = concat (c # ?t) @ '' '' @ spaced ?d" using False ne by (simp add: join_Cons_nonempty)
      ultimately show ?thesis using first len False by simp
    qed
  qed (use 2 in \<open>auto simp: less_Suc_eq_le\<close>)
qed (simp add: char_count_def)

lemma windows_of: "w \<in> set (chunk_windows cs start) \<Longrightarrow> \<exists>a b. cs = a @ w @ b \<and> length w \<le> INDEX_CHUNK_MAX_CHARS"
proof (induction cs start rule: chunk_windows.induct)
  case (1 cs start)
  let ?last = "min (start + INDEX_CHUNK_MAX_CHARS) (length cs)"
  let ?w = "take (?last - start) (drop start cs)"
  have "cs = take start cs @ ?w @ drop (?last - start) (drop start cs)" by (simp only: append_take_drop_id)
  moreover have "length ?w \<le> INDEX_CHUNK_MAX_CHARS" by simp
  moreover have "start < length cs" using 1(2) by (subst (asm) chunk_windows.simps) (auto split: if_splits)
  moreover have "w = ?w \<or> (?last \<noteq> length cs \<and> \<not> ?last \<le> ?last - INDEX_CHUNK_OVERLAP_CHARS \<and> w \<in> set (chunk_windows cs (?last - INDEX_CHUNK_OVERLAP_CHARS)))"
    using 1(2) by (subst (asm) chunk_windows.simps) (auto simp: Let_def split: if_splits)
  ultimately show ?case using 1(1)[OF _ refl refl _ refl] by blast
qed

lemma char_count_chars: "c \<in> set (chars s) \<Longrightarrow> char_count c \<le> 1"
proof (induction s rule: chars.induct)
  case (2 b bs)
  have "dropWhile is_cont (takeWhile is_cont bs) = []" by (auto simp: dropWhile_eq_Nil_conv dest: set_takeWhileD)
  then have "char_count (b # takeWhile is_cont bs) = 1" by (simp add: char_count_def)
  with 2 show ?case by auto
qed simp

text \<open>C21: Indexing loses no phrase at the border of two chunks. Every phrase of up to 97 characters of a text, starting and ending with a visible character, is
  found whole (with its whitespace normalized) in one of the chunks of the text, and no chunk has more than 640 characters.\<close>

theorem chunks_keep_phrases:
  assumes "0 < n" "n \<le> 97" "i + n \<le> length (chars (trim source))"
    and "\<not> ws_char (chars (trim source) ! (i + n - 1))"
  shows "(\<exists>chunk\<in>set (split_text_into_chunks source).
      contains chunk (normalize_text_for_indexing (concat (take n (drop i (chars (trim source))))))) \<and>
    (\<forall>chunk\<in>set (split_text_into_chunks source). char_count chunk \<le> 640)"
proof
  let ?cs = "chars (trim source)" let ?p = "take n (drop i ?cs)"
  obtain w a b where w: "w \<in> set (chunk_windows ?cs 0)" "w = a @ ?p @ b"
    using windows_cover[of 0 i n ?cs] assms by (auto simp: INDEX_CHUNK_OVERLAP_CHARS_def)
  have len: "length ?p = n" using assms(3) by simp
  then have p: "?p \<noteq> []" using assms(1) by auto
  have "last ?p = ?cs ! (i + n - 1)" using assms(1,3) len by (simp add: last_conv_nth[OF p])
  note p = p this
  obtain x y where xy: "spaced w = x @ spaced ?p @ y" using spaced_within[of ?p a b] p assms(4) w(2) by auto
  have chars: "chars (concat v) = v" if "?cs = u @ v @ z" for u v z using chars_prefix[OF chars_suffix[OF that]] .
  obtain u z where "?cs = u @ w @ z" using windows_of[OF w(1)] by blast
  then have cw: "chars (concat w) = w" by (rule chars)
  have "?cs = take i ?cs @ ?p @ drop n (drop i ?cs)" by (simp only: append_take_drop_id)
  then have cp: "chars (concat ?p) = ?p" by (rule chars)
  let ?chunk = "normalize_text_for_indexing (concat w)"
  have "contains ?chunk (normalize_text_for_indexing (concat ?p))"
    using xy cw cp by (auto simp: normalize_text_for_indexing_def split_whitespace_def contains_iff)
  moreover have "normalize_text_for_indexing (concat ?p) \<noteq> []"
  proof -
    have "words_of ?p \<noteq> []" using p assms(4) last_in_set[OF p(1)] by (auto simp: words_of_Nil_iff)
    moreover have "\<forall>v\<in>set (words_of ?p). v \<noteq> []" using words_of_nonempty chars_nonempty by (metis in_set_dropD in_set_takeD)
    ultimately have "spaced ?p \<noteq> []" by (cases "words_of ?p"; cases "tl (words_of ?p)") auto
    then show ?thesis by (simp add: normalize_text_for_indexing_def split_whitespace_def cp)
  qed
  moreover have "trim source \<noteq> []" using assms(1,3) by auto
  ultimately show "\<exists>chunk\<in>set (split_text_into_chunks source). contains chunk (normalize_text_for_indexing (concat ?p))"
    using w(1) unfolding split_text_into_chunks_def by (auto simp: Let_def contains_iff intro!: bexI[of _ w])
next
  show "\<forall>chunk\<in>set (split_text_into_chunks source). char_count chunk \<le> 640"
  proof
    fix chunk assume "chunk \<in> set (split_text_into_chunks source)"
    then obtain w where w: "w \<in> set (chunk_windows (chars (trim source)) 0)" "chunk = normalize_text_for_indexing (concat w)"
      by (auto simp: split_text_into_chunks_def Let_def split: if_splits)
    then obtain a b where cs: "chars (trim source) = a @ w @ b" "length w \<le> 640" using windows_of by (metis INDEX_CHUNK_MAX_CHARS_def)
    have "chars (concat w) = w" using chars_prefix[OF chars_suffix[OF cs(1)]] .
    moreover have "\<forall>c\<in>set w. char_count c \<le> 1" using char_count_chars cs(1) by (metis Un_iff set_append)
    ultimately show "char_count chunk \<le> 640" using spaced_length[of w] cs(2) w(2) by (simp add: normalize_text_for_indexing_def split_whitespace_def)
  qed
qed

theorem chunks_keep_phrases_witness:
  "\<exists>chunk\<in>set (split_text_into_chunks '' tea  at   noon ''). contains chunk ''at noon''"
proof -
  let ?s = "'' tea  at   noon ''"
  have "i + n \<le> length (chars (trim ?s)) \<and> \<not> ws_char (chars (trim ?s) ! (i + n - 1)) \<and>
      normalize_text_for_indexing (concat (take n (drop i (chars (trim ?s))))) = ''at noon''" if "n = 9" "i = 5" for n i
    unfolding that by code_simp
  from this[OF refl refl] show ?thesis using chunks_keep_phrases[of 9 5 ?s] by auto
qed

section \<open>Statements and transactions\<close>

lemma statement_cases:
  obtains (fails) e d' where "statement err f d = (Inl e, d')" "md_tables d' = md_tables d"
    | (works) now x d' where "statement err f d = (Inr x, d')" "f now (md_tables d) = Inr (x, md_tables d')"
proof -
  obtain fault now where s: "(case md_script d of [] \<Rightarrow> (None, []) | s # _ \<Rightarrow> s) = (fault, now)" by fastforce
  show ?thesis
  proof (cases fault)
    case (Some e)
    then show ?thesis using fails s by (simp add: statement_def Let_def)
  next
    case None
    then show ?thesis using fails works s by (cases "f now (md_tables d)") (auto simp: statement_def Let_def)
  qed
qed

lemma statement_works: "md_script d = [] \<Longrightarrow> statement err f d =
    (case f [] (md_tables d) of Inl e \<Rightarrow> (Inl (err e), d) | Inr (x, t) \<Rightarrow> (Inr x, d\<lparr>md_tables := t\<rparr>))"
  by (cases d) (auto simp: statement_def split: sum.split)

text \<open>What holds of the tables after an action, for every step of which it is kept.\<close>

lemma maintains_statement [maintains_intros]:
  assumes "\<And>now t x t'. P t \<Longrightarrow> f now t = Inr (x, t') \<Longrightarrow> P t'"
  shows "maintains (\<lambda>d. P (md_tables d)) (statement err f)"
  unfolding maintains_def
proof (intro allI impI)
  fix d :: mem_db assume "P (md_tables d)"
  then show "P (md_tables (snd (statement err f d)))" by (cases rule: statement_cases[of err f d]) (use assms in auto)
qed

lemma maintains_transaction [maintains_intros]:
  assumes "maintains (\<lambda>d. P (md_tables d)) body"
  shows "maintains (\<lambda>d. P (md_tables d)) (transaction body)"
  unfolding transaction_def
proof (intro maintains_bind maintains_statement)
  let ?e = "execute (\<lambda>_ t. t)"
  have e: "md_tables (snd (?e d)) = md_tables d" for d by (cases rule: statement_cases[of MemQuery "\<lambda>now t. Inr ((), t)" d]) auto
  show "maintains (\<lambda>d. P (md_tables d)) (\<lambda>d. case body d of
         (Inl e, d1) \<Rightarrow> (Inl e, (snd (?e d1))\<lparr>md_tables := md_tables d\<rparr>)
       | (Inr y, d1) \<Rightarrow> (case ?e d1 of (Inl e, d2) \<Rightarrow> (Inl e, d2\<lparr>md_tables := md_tables d\<rparr>) | (Inr _, d2) \<Rightarrow> (Inr y, d2)))" for x
    unfolding maintains_def
  proof (intro allI impI)
    fix d :: mem_db assume P: "P (md_tables d)"
    then have "P (md_tables (snd (body d)))" using assms by (simp add: maintains_def)
    then show "P (md_tables (snd (case body d of
         (Inl e, d1) \<Rightarrow> (Inl e, (snd (?e d1))\<lparr>md_tables := md_tables d\<rparr>)
       | (Inr y, d1) \<Rightarrow> (case ?e d1 of (Inl e, d2) \<Rightarrow> (Inl e, d2\<lparr>md_tables := md_tables d\<rparr>) | (Inr _, d2) \<Rightarrow> (Inr y, d2)))))"
      using P e[of "snd (body d)"] by (auto split: prod.split sum.split)
  qed
qed simp

lemma maintains_connection [maintains_intros]:
  "maintains (\<lambda>d. P (md_tables d)) m \<Longrightarrow> maintains (\<lambda>d. P (md_tables d)) (on_connection m)"
  unfolding on_connection_def connect_def enable_foreign_keys_def by (intro maintains_intros) auto

text \<open>An action that fails leaves the tables alone.\<close>

definition all_or_nothing :: "'a mem_action \<Rightarrow> bool" where
  "all_or_nothing m \<longleftrightarrow> (\<forall>d e d'. m d = (Inl e, d') \<longrightarrow> md_tables d' = md_tables d)"

definition reads :: "'a mem_action \<Rightarrow> bool" where
  "reads m \<longleftrightarrow> (\<forall>d. md_tables (snd (m d)) = md_tables d)"

named_theorems atomic_intros

lemma reads_statement [atomic_intros]: "(\<And>now t x t'. f now t = Inr (x, t') \<Longrightarrow> t' = t) \<Longrightarrow> reads (statement err f)"
  unfolding reads_def by (metis snd_conv statement_cases)

lemma reads_basic [atomic_intros]: "reads (lift_action r)" "reads (ret_action x)"
  by (simp_all add: reads_def lift_action_def ret_action_def)

lemma reads_bind [atomic_intros]: "reads m \<Longrightarrow> (\<And>x. reads (k x)) \<Longrightarrow> reads (bind_action m k)"
  unfolding reads_def bind_action_def by (auto split: prod.splits sum.splits) (metis snd_conv)+

lemma reads_connection [atomic_intros]: "reads m \<Longrightarrow> reads (on_connection m)"
  unfolding on_connection_def connect_def enable_foreign_keys_def by (intro atomic_intros) auto

lemma atomic_statement [atomic_intros]: "all_or_nothing (statement err f)"
  unfolding all_or_nothing_def by (metis Inl_Inr_False prod.inject statement_cases)

lemma atomic_reads: "reads m \<Longrightarrow> all_or_nothing m"
  unfolding all_or_nothing_def reads_def by (metis snd_conv)

lemma atomic_bind [atomic_intros]:
  assumes "reads m" "\<And>x. all_or_nothing (k x)"
  shows "all_or_nothing (bind_action m k)"
  unfolding all_or_nothing_def
proof (intro allI impI)
  fix d e d' assume run: "bind_action m k d = (Inl e, d')"
  obtain r d1 where m: "m d = (r, d1)" by fastforce
  then have "md_tables d1 = md_tables d" using assms(1) by (metis reads_def snd_conv)
  then show "md_tables d' = md_tables d" using run m assms(2) by (cases r) (auto simp: bind_action_def all_or_nothing_def)
qed

lemma atomic_transaction [atomic_intros]: "all_or_nothing (transaction body)"
  unfolding transaction_def
proof (rule atomic_bind)
  show "reads (execute (\<lambda>_ t. t))" by (intro atomic_intros) simp
qed (auto simp: all_or_nothing_def split: prod.splits sum.splits)

lemma atomic_then_ret [atomic_intros]: "all_or_nothing m \<Longrightarrow> all_or_nothing (bind_action m (\<lambda>x. ret_action (f x)))"
  unfolding all_or_nothing_def bind_action_def ret_action_def by (auto split: prod.splits sum.splits)

lemma atomic_connection [atomic_intros]: "all_or_nothing m \<Longrightarrow> all_or_nothing (on_connection m)"
  unfolding on_connection_def connect_def enable_foreign_keys_def by (intro atomic_intros) auto

lemma reads_sequence [atomic_intros]: "reads (next_event_sequence sid)"
  unfolding next_event_sequence_def by (intro atomic_intros) (auto intro: atomic_intros)


section \<open>Keys\<close>

text \<open>Primary keys are unique and foreign keys are met; sequences are numbers of the database that are not negative.\<close>

definition session_ids :: "mem_tables \<Rightarrow> string set" where
  "session_ids t = fst ` set (mt_sessions t)"

definition chunk_ids :: "mem_tables \<Rightarrow> string set" where
  "chunk_ids t = mc_chunk_id ` set (mt_chunks t)"

definition mem_keys :: "mem_tables \<Rightarrow> bool" where
  "mem_keys t \<longleftrightarrow>
     distinct (map fst (mt_sessions t)) \<and> distinct (map (\<lambda>e. (me_session e, me_sequence e)) (mt_events t)) \<and>
     distinct (map fst (mt_states t)) \<and> distinct (map mf_file_id (mt_files t)) \<and> distinct (map mc_chunk_id (mt_chunks t)) \<and>
     distinct (map mv_chunk_id (mt_vecs t)) \<and>
     (\<forall>e\<in>set (mt_events t). me_session e \<in> session_ids t \<and> 0 \<le> me_sequence e \<and> me_sequence e < 2 ^ 63) \<and>
     (\<forall>(s, _)\<in>set (mt_states t). s \<in> session_ids t) \<and> (\<forall>f\<in>set (mt_files t). mf_session f \<in> session_ids t) \<and>
     (\<forall>c\<in>set (mt_chunks t). mc_session c \<in> session_ids t) \<and> (\<forall>v\<in>set (mt_vecs t). mv_chunk_id v \<in> chunk_ids t)"

lemma ids_kept [simp]:
  "session_ids (t\<lparr>mt_events := e\<rparr>) = session_ids t" "session_ids (t\<lparr>mt_states := s\<rparr>) = session_ids t" "session_ids (t\<lparr>mt_files := f\<rparr>) = session_ids t"
  "session_ids (t\<lparr>mt_chunks := c\<rparr>) = session_ids t" "session_ids (t\<lparr>mt_vecs := v\<rparr>) = session_ids t"
  "chunk_ids (t\<lparr>mt_sessions := x\<rparr>) = chunk_ids t" "chunk_ids (t\<lparr>mt_events := e\<rparr>) = chunk_ids t" "chunk_ids (t\<lparr>mt_states := s\<rparr>) = chunk_ids t"
  "chunk_ids (t\<lparr>mt_files := f\<rparr>) = chunk_ids t" "chunk_ids (t\<lparr>mt_vecs := v\<rparr>) = chunk_ids t" "chunk_ids (t\<lparr>mt_chunks := c\<rparr>) = mc_chunk_id ` set c"
  "session_ids (t\<lparr>mt_sessions := x\<rparr>) = fst ` set x"
  by (simp_all add: session_ids_def chunk_ids_def)

lemmas folded_ids = session_ids_def[symmetric] chunk_ids_def[symmetric]

lemma upsert_session_simps [simp]:
  "mt_events (upsert_session sid now t) = mt_events t" "mt_states (upsert_session sid now t) = mt_states t"
  "mt_files (upsert_session sid now t) = mt_files t" "mt_chunks (upsert_session sid now t) = mt_chunks t" "mt_vecs (upsert_session sid now t) = mt_vecs t"
  "chunk_ids (upsert_session sid now t) = chunk_ids t"
  by (simp_all add: upsert_session_def)

lemma upsert_session_ids [simp]: "session_ids (upsert_session sid now t) = insert sid (session_ids t)"
  by (force simp: upsert_session_def session_ids_def split: if_splits)

lemma keys_session: "mem_keys t \<Longrightarrow> mem_keys (upsert_session sid now t)"
proof -
  assume t: "mem_keys t"
  have "map fst (map (\<lambda>(s, u). if s = sid then (s, now) else (s, u)) xs) = map fst xs" for xs :: "(string \<times> string) list"
    by (induction xs) auto
  then have "distinct (map fst (mt_sessions (upsert_session sid now t)))" using t by (auto simp: mem_keys_def upsert_session_def simp del: map_map)
  then show ?thesis using t by (auto simp: mem_keys_def)
qed

lemma keys_event:
  assumes "mem_keys t" "insert_event e t = Inr (x, t')" "0 \<le> me_sequence e" "me_sequence e < 2 ^ 63"
  shows "mem_keys t'"
proof -
  have "(me_session e, me_sequence e) \<notin> set (map (\<lambda>e. (me_session e, me_sequence e)) (mt_events t))" "me_session e \<in> session_ids t"
    "t' = t\<lparr>mt_events := mt_events t @ [e]\<rparr>"
    using assms(2) by (auto simp: insert_event_def folded_ids split: if_splits)
  then show ?thesis using assms(1,3,4) by (simp add: mem_keys_def)
qed

lemma distinct_filter: "distinct (map f xs) \<Longrightarrow> distinct (map f (filter P xs))"
  by (rule distinct_map_filter)

lemma keys_state: "mem_keys t \<Longrightarrow> upsert_state sid s t = Inr (x, t') \<Longrightarrow> mem_keys t'"
  by (auto simp: mem_keys_def upsert_state_def folded_ids distinct_filter split: if_splits)

lemma fold_max_start: "(a::int) \<le> fold max xs a"
  by (induction xs arbitrary: a) (auto, metis max.bounded_iff)

lemma fold_max_ge: "(i::int) \<in> set xs \<Longrightarrow> i \<le> fold max xs a"
  by (induction xs arbitrary: a) (auto intro: order_trans[OF _ fold_max_start])

lemma ball_same_map: "map f xs = map f ys \<Longrightarrow> (\<forall>x\<in>set xs. P (f x)) \<longleftrightarrow> (\<forall>y\<in>set ys. P (f y))"
  by (metis (mono_tags, lifting) imageE image_eqI set_map)

lemma keys_same_files:
  assumes "mem_keys t" "map mf_file_id fs = map mf_file_id (mt_files t)" "map mf_session fs = map mf_session (mt_files t)"
  shows "mem_keys (t\<lparr>mt_files := fs\<rparr>)"
  using assms ball_same_map[OF assms(3), of "\<lambda>s. s \<in> session_ids t"] by (simp add: mem_keys_def)

lemma keys_same_chunks:
  assumes "mem_keys t" "map mc_chunk_id cs = map mc_chunk_id (mt_chunks t)" "map mc_session cs = map mc_session (mt_chunks t)"
  shows "mem_keys (t\<lparr>mt_chunks := cs\<rparr>)"
proof -
  have "mc_chunk_id ` set cs = chunk_ids t" unfolding chunk_ids_def using assms(2) by (metis set_map)
  then show ?thesis using assms ball_same_map[OF assms(3), of "\<lambda>s. s \<in> session_ids t"] by (simp add: mem_keys_def)
qed

lemma keys_file:
  assumes "mem_keys t" "insert_file sid doc t = Inr (x, t')"
  shows "mem_keys t'"
proof (cases "list_ex (same_file sid doc) (mt_files t)")
  case True
  let ?f = "\<lambda>f. if same_file sid doc f then f\<lparr>mf_metadata := pd_metadata_json doc\<rparr> else f"
  have "t' = t\<lparr>mt_files := map ?f (mt_files t)\<rparr>" using assms(2) True by (simp add: insert_file_def)
  then show ?thesis using assms(1) by (simp add: keys_same_files)
next
  case False
  let ?n = "fold max (map mf_file_id (mt_files t)) 0 + 1"
  have "?n \<notin> set (map mf_file_id (mt_files t))" using fold_max_ge[of ?n "map mf_file_id (mt_files t)" 0] by auto
  then show ?thesis using assms False by (auto simp: insert_file_def mem_keys_def folded_ids split: if_splits)
qed

lemma touched_keys [simp]: "mc_chunk_id (touched_chunk n m now c) = mc_chunk_id c" "mc_session (touched_chunk n m now c) = mc_session c"
  by (simp_all add: touched_chunk_def)

lemma keys_touch: "mem_keys t \<Longrightarrow> mem_keys (t\<lparr>mt_chunks := map (\<lambda>c. if mc_chunk_id c = cid then touched_chunk n m now c else c) (mt_chunks t)\<rparr>)"
  by (rule keys_same_chunks) simp_all

lemma keys_chunk: "mem_keys t \<Longrightarrow> insert_chunk sid f c now t = Inr (x, t') \<Longrightarrow> mem_keys t'"
  by (auto simp: mem_keys_def insert_chunk_def folded_ids split: if_splits)

lemma keys_vec: "mem_keys t \<Longrightarrow> upsert_vec model c t = Inr (x, t') \<Longrightarrow> mem_keys t'"
  by (auto simp: mem_keys_def upsert_vec_def distinct_filter folded_ids split: if_splits)

lemma keys_delete_chunk: "mem_keys t \<Longrightarrow> mem_keys (delete_chunk sid c t)"
  by (auto simp: mem_keys_def delete_chunk_def distinct_filter chunk_ids_def)

lemma keys_delete_events: "mem_keys t \<Longrightarrow> mem_keys (t\<lparr>mt_events := filter P (mt_events t)\<rparr>)"
  by (simp add: mem_keys_def distinct_filter)

lemma keys_delete_session:
  assumes "mem_keys t"
  shows "mem_keys (delete_session sid t)"
proof -
  let ?cs = "filter (\<lambda>c. mc_session c \<noteq> sid) (mt_chunks t)"
  have ids: "fst ` {x \<in> set (mt_sessions t). case x of (s, _) \<Rightarrow> s \<noteq> sid} = session_ids t - {sid}" by (force simp: session_ids_def)
  have kept: "x \<in> mc_chunk_id ` {c \<in> set (mt_chunks t). mc_session c \<noteq> sid}"
    if "x \<in> chunk_ids t" "x \<notin> mc_chunk_id ` {c \<in> set (mt_chunks t). mc_session c = sid}" for x using that by (auto simp: chunk_ids_def)
  let ?g = "\<lambda>gone c. c\<lparr>mc_file_id := (case mc_file_id c of Some f \<Rightarrow> if f \<in> gone then None else Some f | None \<Rightarrow> None)\<rparr>"
  have "mem_keys (t\<lparr>mt_sessions := filter (\<lambda>(s, _). s \<noteq> sid) (mt_sessions t), mt_events := filter (\<lambda>e. me_session e \<noteq> sid) (mt_events t),
        mt_states := filter (\<lambda>(s, _). s \<noteq> sid) (mt_states t), mt_files := filter (\<lambda>f. mf_session f \<noteq> sid) (mt_files t), mt_chunks := ?cs,
        mt_vecs := filter (\<lambda>v. mv_chunk_id v \<notin> mc_chunk_id ` set (filter (\<lambda>c. mc_session c = sid) (mt_chunks t))) (mt_vecs t)\<rparr>)"
    using assms ids kept unfolding mem_keys_def by (auto simp: distinct_filter)
  then have "mem_keys ((t\<lparr>mt_sessions := filter (\<lambda>(s, _). s \<noteq> sid) (mt_sessions t), mt_events := filter (\<lambda>e. me_session e \<noteq> sid) (mt_events t),
        mt_states := filter (\<lambda>(s, _). s \<noteq> sid) (mt_states t), mt_files := filter (\<lambda>f. mf_session f \<noteq> sid) (mt_files t), mt_chunks := ?cs,
        mt_vecs := filter (\<lambda>v. mv_chunk_id v \<notin> mc_chunk_id ` set (filter (\<lambda>c. mc_session c = sid) (mt_chunks t))) (mt_vecs t)\<rparr>)\<lparr>mt_chunks := map (?g gone) ?cs\<rparr>)" for gone
    by (rule keys_same_chunks) simp_all
  then show ?thesis by (simp add: delete_session_def Let_def)
qed

abbreviation keys_kept :: "'a mem_action \<Rightarrow> bool" where
  "keys_kept m \<equiv> maintains (\<lambda>d. mem_keys (md_tables d)) m"

lemma keys_reads: "reads m \<Longrightarrow> maintains (\<lambda>d. P (md_tables d)) m"
  by (simp add: maintains_def reads_def)

lemma i64_of_range: "i64_of n what = Inr i \<Longrightarrow> 0 \<le> i \<and> i < 2 ^ 63"
proof -
  have "uint n < 2 ^ 63" if "unat n < 2 ^ 63"
  proof -
    have "int (unat n) < int (2 ^ 63)" using that by (simp only: of_nat_less_iff)
    then show ?thesis by (simp only: uint_nat of_nat_power of_nat_numeral)
  qed
  then show "i64_of n what = Inr i \<Longrightarrow> 0 \<le> i \<and> i < 2 ^ 63" by (auto simp: i64_of_def split: if_splits)
qed

lemma keys_upsert_file: "keys_kept (upsert_index_file sid doc)"
  unfolding upsert_index_file_def by (intro maintains_intros) (auto intro: keys_file)

lemma reads_find [atomic_intros]: "reads (find_existing_chunk_id env sid h note)"
  unfolding find_existing_chunk_id_def by (intro atomic_intros) auto

lemma keys_index_chunks: "keys_kept (index_chunks env sid n model f cs)"
proof (induction cs)
  case (Cons c cs)
  have "keys_kept (case ex of
         Some cid \<Rightarrow> touch_existing_chunk cid n (map_option (\<lambda>_. pc_metadata_json c) (pc_note_id c))
       | None \<Rightarrow> bind_action (statement MemQuery (insert_chunk sid f c)) (\<lambda>_. statement MemQuery (\<lambda>_. upsert_vec model c)))" for ex
    unfolding touch_existing_chunk_def by (cases ex) (auto intro!: maintains_intros intro: keys_chunk keys_vec keys_touch)
  then show ?case unfolding index_chunks.simps by (intro maintains_bind keys_reads[OF reads_find] Cons)
qed (simp add: maintains_intros)

lemma keys_index: "keys_kept (index_if_prepared env sid n prepared)"
  unfolding index_if_prepared_def index_prepared_document_def
  by (cases prepared) (auto intro!: maintains_bind maintains_pure keys_upsert_file keys_index_chunks)

lemma reads_load [atomic_intros]: "reads (load_session_state_map env sid)"
  unfolding load_session_state_map_def by (intro atomic_intros) (auto intro!: atomic_intros split: option.split)

lemma keys_save: "keys_kept (save_session_state env sid st)"
  unfolding save_session_state_def by (intro maintains_intros) (rule keys_state)

lemma reads_monotonic [atomic_intros]: "reads (ensure_monotonic_sequence sid n)"
  unfolding ensure_monotonic_sequence_def by (intro atomic_intros) (auto intro: atomic_intros)

lemma keys_upsert: "keys_kept (execute (upsert_session sid))"
  by (rule maintains_statement) (auto intro: keys_session)

lemma keys_store: "keys_kept (memory_store env adapter sid n payload)"
proof -
  have event: "keys_kept (statement MemQuery (\<lambda>_. insert_event \<lparr>me_session = sid, me_sequence = i, me_payload = p\<rparr>))" if "i64_of n w = Inr i" for i p w
    using i64_of_range[OF that] by (intro maintains_statement) (erule (1) keys_event, simp_all)
  show ?thesis
    unfolding memory_store_def store_statements_def
    by (intro maintains_connection maintains_lift_bind maintains_bind maintains_transaction maintains_pure keys_save keys_index
        keys_reads[OF reads_load] keys_reads[OF reads_monotonic] keys_upsert) (auto intro: event)
qed

lemma keys_forget: "keys_kept (memory_forget sid)"
  unfolding memory_forget_def by (intro maintains_intros) (auto intro: keys_delete_session)

lemma keys_write_summary: "keys_kept (write_summary_state env r)"
  unfolding write_summary_state_def summary_statements_def apply_summary_def Let_def
  by (intro maintains_if maintains_pure maintains_connection maintains_transaction maintains_bind keys_upsert keys_reads[OF reads_load])
    (auto intro!: maintains_bind maintains_pure keys_save split: option.split)

lemma keys_insert_event:
  "i64_of n w = Inr i \<Longrightarrow> keys_kept (statement MemQuery (\<lambda>_. insert_event \<lparr>me_session = sid, me_sequence = i, me_payload = p\<rparr>))"
  using i64_of_range by (intro maintains_statement) (erule (1) keys_event, auto)

lemma keys_store_note: "keys_kept (store_note env adapter r)"
  unfolding store_note_def Let_def
  by (intro maintains_if maintains_pure maintains_connection maintains_lift_bind maintains_bind maintains_transaction keys_upsert keys_index
      keys_reads[OF reads_sequence] keys_insert_event)

lemma keys_delete_chunks: "keys_kept (delete_chunks sid cs)"
  by (induction cs) (auto intro!: maintains_intros intro: keys_delete_chunk)

lemma reads_find_note [atomic_intros]: "reads (find_chunk_ids_by_note_id env sid note)"
  unfolding find_chunk_ids_by_note_id_def by (intro atomic_intros) auto

lemma keys_delete_note: "keys_kept (delete_note env sid note)"
  unfolding delete_note_def delete_note_events_def
  by (intro maintains_connection maintains_transaction maintains_bind maintains_pure keys_reads[OF reads_find_note] keys_delete_chunks maintains_statement)
    (auto intro: keys_delete_events)

lemma keys_write_scratchpad: "keys_kept (write_scratchpad env sid items)"
  unfolding write_scratchpad_def scratchpad_statements_def Let_def
  by (intro maintains_if maintains_pure maintains_connection maintains_transaction maintains_bind keys_upsert keys_reads[OF reads_load] keys_save)

lemma keys_clear_scratchpad: "keys_kept (clear_scratchpad env sid)"
  unfolding clear_scratchpad_def
  by (intro maintains_if maintains_pure maintains_connection maintains_transaction maintains_bind keys_reads[OF reads_load])
    (auto intro!: maintains_bind maintains_pure keys_save split: option.split)

text \<open>The operations of all clients, one after another, from an empty database.\<close>

inductive memory_step :: "'e memory_env \<Rightarrow> 'e embedding_adapter \<Rightarrow> mem_db \<Rightarrow> mem_db \<Rightarrow> bool" for env adapter where
  step_store: "memory_step env adapter d (snd (memory_store env adapter sid n payload d))"
| step_forget: "memory_step env adapter d (snd (memory_forget sid d))"
| step_summary: "memory_step env adapter d (snd (write_summary_state env r d))"
| step_note: "memory_step env adapter d (snd (store_note env adapter note d))"
| step_delete_note: "memory_step env adapter d (snd (delete_note env sid note_id d))"
| step_scratchpad: "memory_step env adapter d (snd (write_scratchpad env sid items d))"
| step_clear: "memory_step env adapter d (snd (clear_scratchpad env sid d))"

definition no_rows :: mem_tables where
  "no_rows = \<lparr>mt_sessions = [], mt_events = [], mt_states = [], mt_files = [], mt_chunks = [], mt_vecs = []\<rparr>"

definition memory_start :: "mem_db \<Rightarrow> bool" where
  "memory_start d \<longleftrightarrow> md_tables d = no_rows"

interpretation memory: invariant_system memory_start "memory_step env adapter" "\<lambda>d. mem_keys (md_tables d)" for env :: "'e memory_env" and adapter
proof
  show "memory_start d \<Longrightarrow> mem_keys (md_tables d)" for d by (simp add: memory_start_def no_rows_def mem_keys_def)
  show "mem_keys (md_tables d) \<Longrightarrow> memory_step env adapter d d' \<Longrightarrow> mem_keys (md_tables d')" for d d'
    by (erule memory_step.cases)
      (auto intro: maintainsD[OF keys_store] maintainsD[OF keys_forget] maintainsD[OF keys_write_summary] maintainsD[OF keys_store_note]
        maintainsD[OF keys_delete_note] maintainsD[OF keys_write_scratchpad] maintainsD[OF keys_clear_scratchpad])
qed

section \<open>The conversation log\<close>

lemma keeps_statement [keeps_intros]:
  assumes "\<And>now t x t'. f now t = Inr (x, t') \<Longrightarrow> g t' = g t"
  shows "keeps (\<lambda>d. g (md_tables d)) (statement err f)"
  unfolding keeps_def
proof
  fix d :: mem_db
  show "g (md_tables (snd (statement err f d))) = g (md_tables d)" by (cases rule: statement_cases[of err f d]) (use assms in auto)
qed

lemma keeps_reads: "reads m \<Longrightarrow> keeps (\<lambda>d. g (md_tables d)) m"
  by (simp add: keeps_def reads_def)

text \<open>What a successful connection or transaction did to the tables.\<close>

lemma on_connection_Inr:
  assumes "on_connection m d = (Inr x, d')"
  obtains d0 where "md_tables d0 = md_tables d" "m d0 = (Inr x, d')"
proof -
  have "reads connect" "reads enable_foreign_keys"
    unfolding connect_def enable_foreign_keys_def by (intro atomic_intros; simp)+
  then show ?thesis using assms that unfolding on_connection_def bind_action_Inr reads_def by (metis snd_conv)
qed

lemma transaction_Inr:
  assumes "transaction body d = (Inr x, d')"
  obtains d0 d1 where "md_tables d0 = md_tables d" "body d0 = (Inr x, d1)" "md_tables d' = md_tables d1"
proof -
  have e: "md_tables (snd (execute (\<lambda>_ t. t) d)) = md_tables d" for d
    using reads_statement[of "\<lambda>now t. Inr ((), t)" MemQuery] by (simp add: reads_def)
  from assms obtain u d0 where d0: "execute (\<lambda>_ t. t) d = (Inr u, d0)"
    and run: "(case body d0 of
         (Inl e, d1) \<Rightarrow> (Inl e, (snd (execute (\<lambda>_ t. t) d1))\<lparr>md_tables := md_tables d0\<rparr>)
       | (Inr y, d1) \<Rightarrow> (case execute (\<lambda>_ t. t) d1 of (Inl e, d2) \<Rightarrow> (Inl e, d2\<lparr>md_tables := md_tables d0\<rparr>) | (Inr _, d2) \<Rightarrow> (Inr y, d2))) = (Inr x, d')"
    unfolding transaction_def bind_action_Inr by blast
  then obtain d1 v where d1: "body d0 = (Inr x, d1)" "execute (\<lambda>_ t. t) d1 = (Inr v, d')" by (auto split: prod.splits sum.splits)
  show ?thesis using that[of d0 d1] e[of d] e[of d1] d0 d1 by simp
qed

lemma execute_Inr: "execute f d = (Inr x, d') \<Longrightarrow> \<exists>now. md_tables d' = f now (md_tables d)"
  using statement_cases[of MemQuery "\<lambda>now t. Inr ((), f now t)" d] by (metis Inl_Inr_False Inr_inject Pair_inject)

lemma statement_Inr: "statement err f d = (Inr x, d') \<Longrightarrow> \<exists>now. f now (md_tables d) = Inr (x, md_tables d')"
  using statement_cases[of err f d] by (metis Inl_Inr_False Inr_inject Pair_inject)

text \<open>Indexing and the session state do not touch the events.\<close>

abbreviation events_kept :: "'a mem_action \<Rightarrow> bool" where
  "events_kept m \<equiv> keeps (\<lambda>d. mt_events (md_tables d)) m"

lemma events_kept_index_chunks: "events_kept (index_chunks env sid n model f cs)"
proof (induction cs)
  case (Cons c cs)
  have "events_kept (case ex of
         Some cid \<Rightarrow> touch_existing_chunk cid n (map_option (\<lambda>_. pc_metadata_json c) (pc_note_id c))
       | None \<Rightarrow> bind_action (statement MemQuery (insert_chunk sid f c)) (\<lambda>_. statement MemQuery (\<lambda>_. upsert_vec model c)))" for ex
    unfolding touch_existing_chunk_def
    by (cases ex) (auto intro!: keeps_intros simp: insert_chunk_def upsert_vec_def split: if_splits)
  then show ?case unfolding index_chunks.simps by (intro keeps_bind keeps_reads[OF reads_find] Cons)
qed (simp add: keeps_intros)

lemma events_kept_index: "events_kept (index_if_prepared env sid n prepared)"
  unfolding index_if_prepared_def index_prepared_document_def upsert_index_file_def
  by (cases prepared) (auto intro!: keeps_intros events_kept_index_chunks simp: insert_file_def split: if_splits list.split)

lemma events_kept_state: "events_kept (save_session_state env sid st)"
  unfolding save_session_state_def by (intro keeps_intros) (auto simp: upsert_state_def split: if_splits)

lemma monotonic_Inr: "ensure_monotonic_sequence sid n d = (Inr u, d') \<Longrightarrow> max_sequence sid (md_tables d) < 0 \<or> max_sequence sid (md_tables d) < n"
  unfolding ensure_monotonic_sequence_def bind_action_Inr by (auto simp: lift_action_def ret_action_def dest!: statement_Inr split: if_splits)

text \<open>Storing appends the event to the events, after all others of its session.\<close>

lemma insert_event_Inr: "insert_event e t = Inr (x, t') \<Longrightarrow> mt_events t' = mt_events t @ [e]"
  by (auto simp: insert_event_def split: if_splits)

lemma store_statements_event:
  assumes "store_statements env sid n i p prep d = (Inr u, d')"
  shows "mt_events (md_tables d') = mt_events (md_tables d) @ [\<lparr>me_session = sid, me_sequence = i, me_payload = p\<rparr>]"
    "max_sequence sid (md_tables d) < 0 \<or> max_sequence sid (md_tables d) < i"
proof -
  let ?rest = "bind_action (load_session_state_map env sid) (\<lambda>state.
       bind_action (save_session_state env sid (bt_insert ''last_sequence'' (mem_nat (unat n)) (unwrap_or state []))) (\<lambda>_.
       index_if_prepared env sid i prep))"
  from assms obtain a d4 b d5 c d6 where s: "ensure_monotonic_sequence sid i d = (Inr a, d4)" "execute (upsert_session sid) d4 = (Inr b, d5)"
    "statement MemQuery (\<lambda>_. insert_event \<lparr>me_session = sid, me_sequence = i, me_payload = p\<rparr>) d5 = (Inr c, d6)" "?rest d6 = (Inr u, d')"
    unfolding store_statements_def bind_action_Inr by blast
  have "events_kept ?rest" by (intro keeps_bind keeps_reads[OF reads_load] events_kept_state events_kept_index)
  then have e3: "mt_events (md_tables d') = mt_events (md_tables d6)" using s(4) by (rule keepsD)
  have "md_tables d4 = md_tables d" using s(1) reads_monotonic by (metis reads_def snd_conv)
  then show "mt_events (md_tables d') = mt_events (md_tables d) @ [\<lparr>me_session = sid, me_sequence = i, me_payload = p\<rparr>]"
    using execute_Inr[OF s(2)] statement_Inr[OF s(3)] e3 by (auto dest: insert_event_Inr)
  show "max_sequence sid (md_tables d) < 0 \<or> max_sequence sid (md_tables d) < i" by (rule monotonic_Inr[OF s(1)])
qed

lemma memory_store_event:
  assumes "memory_store env adapter sid n payload d = (Inr r, d')"
  obtains p where "to_json_string (mx_json env) payload = Inr p" "r = \<lparr>mr_sequence = n, mr_payload = payload\<rparr>" "unat n < 2 ^ 63"
    "mt_events (md_tables d') = mt_events (md_tables d) @ [\<lparr>me_session = sid, me_sequence = uint n, me_payload = p\<rparr>]"
    "max_sequence sid (md_tables d) < 0 \<or> max_sequence sid (md_tables d) < uint n"
proof -
  obtain d0 p i prep u d1 where d0: "md_tables d0 = md_tables d" and p: "encode_json env payload = Inr p" "i64_of n ''store sequence'' = Inr i"
    and tr: "transaction (store_statements env sid n i p prep) d0 = (Inr u, d1)" and r: "r = \<lparr>mr_sequence = n, mr_payload = payload\<rparr>" "d' = d1"
    using assms unfolding memory_store_def by (rule on_connection_Inr) (auto simp: bind_action_Inr lift_action_eq ret_action_eq)
  obtain d2 d3 where d2: "md_tables d2 = md_tables d0" "md_tables d1 = md_tables d3" and body: "store_statements env sid n i p prep d2 = (Inr u, d3)"
    using tr by (rule transaction_Inr)
  have "i = uint n" "unat n < 2 ^ 63" using p(2) by (simp_all add: i64_of_def split: if_splits)
  then show thesis using that[of p] p(1) r d2 d0 store_statements_event[OF body] by (simp add: encode_json_def)
qed

text \<open>The log of a session: its records in the order of their sequence.\<close>

definition conversation :: "'e memory_env \<Rightarrow> string \<Rightarrow> mem_tables \<Rightarrow> (memory_error, memory_record list) result" where
  "conversation env sid t = all_results (record_of_row env) (recall_rows sid None t)"

lemma all_results_append:
  "all_results f (xs @ ys) = bind_result (all_results f xs) (\<lambda>a. bind_result (all_results f ys) (\<lambda>b. Inr (a @ b)))"
proof (induction xs)
  case Nil
  show ?case by (cases "all_results f ys") simp_all
next
  case (Cons x xs)
  then show ?case by (cases "f x"; cases "all_results f xs"; cases "all_results f ys") simp_all
qed

lemma all_results_elem: "all_results f xs = Inr ys \<Longrightarrow> y \<in> set ys \<Longrightarrow> \<exists>x\<in>set xs. f x = Inr y"
  by (induction xs arbitrary: ys) auto

lemma insort_key_snoc: "f a \<le> f x \<Longrightarrow> insort_key f a (ys @ [x]) = insort_key f a ys @ [x]"
  by (induction ys) auto

lemma sort_key_snoc: "\<forall>y\<in>set xs. f y < f x \<Longrightarrow> sort_key f (xs @ [x]) = sort_key f xs @ [x]"
  by (induction xs) (auto simp: insort_key_snoc less_imp_le)

lemma recall_rows_snoc:
  assumes "mt_events t' = mt_events t @ [e]" "mem_keys t" "max_sequence (me_session e) t < 0 \<or> max_sequence (me_session e) t < me_sequence e"
  shows "recall_rows sid None t' = recall_rows sid None t @ (if sid = me_session e then [e] else [])"
proof (cases "sid = me_session e")
  case True
  have "me_sequence y < me_sequence e" if "y \<in> set (mt_events t)" "me_session y = sid" for y
  proof -
    have "me_sequence y \<le> max_sequence sid t" unfolding max_sequence_def using that by (intro fold_max_ge) auto
    moreover have "0 \<le> me_sequence y" using assms(2) that(1) by (auto simp: mem_keys_def)
    ultimately show ?thesis using assms(3) True by auto
  qed
  then show ?thesis using assms(1) True by (simp add: recall_rows_def sort_key_snoc)
qed (use assms(1) in \<open>simp add: recall_rows_def\<close>)

text \<open>Reading on a connection that works.\<close>

lemma on_connection_works: "md_script d = [] \<Longrightarrow> on_connection m d = m d"
  by (simp add: on_connection_def connect_def enable_foreign_keys_def bind_action_def statement_works)

lemma recall_works:
  assumes "md_script d = []" "conversation env sid (md_tables d) = Inr rs"
  shows "memory_recall env sid None d = (if rs = [] then (Inl (MemNotFound sid), d) else (Inr rs, d))"
  using assms
  by (simp add: memory_recall_def on_connection_works option_result_def bind_action_def lift_action_def ret_action_def statement_works conversation_def)

text \<open>What the JSON codec promises: a text that it wrote is read back.\<close>

definition codec_reads_back :: "'e memory_env \<Rightarrow> bool" where
  "codec_reads_back env \<longleftrightarrow> (\<forall>j s. to_json_string (mx_json env) j = Inr s \<longrightarrow> from_str (mx_json env) s = Inr j)"

text \<open>C17: A stored conversation is recalled completely and in order. After any history of the database, a store that succeeds appends its record to the log of its
  session and leaves the logs of all other sessions alone; a recall on a connection that works then answers the whole log, oldest first. A record whose
  sequence is not larger than all stored ones is never accepted.\<close>

theorem conversation_recalled:
  assumes "reach memory_start (memory_step env adapter) d" "codec_reads_back env" "conversation env sid (md_tables d) = Inr rs"
    and "memory_store env adapter sid n payload d = (Inr r, d')"
  shows "r = \<lparr>mr_sequence = n, mr_payload = payload\<rparr> \<and> conversation env sid (md_tables d') = Inr (rs @ [r]) \<and>
    (\<forall>s. s \<noteq> sid \<longrightarrow> conversation env s (md_tables d') = conversation env s (md_tables d)) \<and>
    (md_script d' = [] \<longrightarrow> memory_recall env sid None d' = (Inr (rs @ [r]), d')) \<and> (\<forall>x\<in>set rs. mr_sequence x < n)"
proof -
  have keys: "mem_keys (md_tables d)" using assms(1) by (rule memory.inv_reach)
  obtain p where p: "to_json_string (mx_json env) payload = Inr p" "r = \<lparr>mr_sequence = n, mr_payload = payload\<rparr>" "unat n < 2 ^ 63"
    "mt_events (md_tables d') = mt_events (md_tables d) @ [\<lparr>me_session = sid, me_sequence = uint n, me_payload = p\<rparr>]"
    "max_sequence sid (md_tables d) < 0 \<or> max_sequence sid (md_tables d) < uint n"
    using assms(4) by (rule memory_store_event)
  let ?e = "\<lparr>me_session = sid, me_sequence = uint n, me_payload = p\<rparr>"
  have rows: "recall_rows s None (md_tables d') = recall_rows s None (md_tables d) @ (if s = sid then [?e] else [])" for s
    using recall_rows_snoc[OF p(4) keys, of s] p(5) by simp
  have "record_of_row env ?e = Inr r" using assms(2) p(1,2) by (simp add: record_of_row_def codec_reads_back_def)
  then have conv: "conversation env sid (md_tables d') = Inr (rs @ [r])" using assms(3) rows[of sid] by (simp add: conversation_def all_results_append)
  moreover have "conversation env s (md_tables d') = conversation env s (md_tables d)" if "s \<noteq> sid" for s using rows[of s] that by (simp add: conversation_def)
  moreover have "mr_sequence x < n" if x: "x \<in> set rs" for x
  proof -
    obtain e where e: "e \<in> set (recall_rows sid None (md_tables d))" "record_of_row env e = Inr x"
      using all_results_elem[OF assms(3)[unfolded conversation_def] x] by blast
    then have in_d: "e \<in> set (mt_events (md_tables d))" "me_session e = sid" by (auto simp: recall_rows_def)
    have "me_sequence e \<le> max_sequence sid (md_tables d)" unfolding max_sequence_def using in_d by (intro fold_max_ge) auto
    moreover have r: "0 \<le> me_sequence e" using keys in_d by (auto simp: mem_keys_def)
    ultimately have "me_sequence e < uint n" using p(5) by auto
    then have "uint (word_of_int (me_sequence e) :: u64) < uint n" using r uint_lt2p[of n] by (simp add: word_of_int_inverse uint_word_of_int_eq take_bit_int_eq_self)
    then show ?thesis using e(2) by (auto simp: record_of_row_def word_less_def split: if_splits)
  qed
  ultimately show ?thesis using p(2) recall_works[OF _ conv] by simp
qed

text \<open>A codec that knows the texts of a table, for examples.\<close>

definition table_codec :: "(string \<times> json) list \<Rightarrow> json_codec" where
  "table_codec tbl = \<lparr>from_str = (\<lambda>s. ok_or (map_of tbl s) ''unknown text''),
     to_json_string = (\<lambda>j. ok_or (map_option fst (List.find (\<lambda>(_, j'). j' = j) tbl)) ''unsupported value'')\<rparr>"

definition ex_memory_env :: "(string \<times> json) list \<Rightarrow> nat memory_env" where
  "ex_memory_env tbl = \<lparr>mx_json = table_codec tbl, mx_message = (\<lambda>_. Inl ''no message''), mx_hash = (\<lambda>s. s), mx_lowercase = (\<lambda>s. s), mx_zero = 0,
     mx_finite = (\<lambda>_. True), mx_embedding_json = (\<lambda>_. Inr ''[]''), mx_vector_top_k = (\<lambda>_ _ _. []), mx_distance = (\<lambda>_ _. F_Fin 0), mx_fts = (\<lambda>_ _ _. None),
     mx_now = ''2026'', mx_rfc3339_error = (\<lambda>_. None), mx_f64_text = (\<lambda>_. [])\<rparr>"

lemma table_codec_reads_back:
  assumes "distinct (map fst tbl)"
  shows "codec_reads_back (ex_memory_env tbl)"
  unfolding codec_reads_back_def
proof (intro allI impI)
  fix j s assume "to_json_string (mx_json (ex_memory_env tbl)) j = Inr s"
  then have "(s, j) \<in> set tbl" by (auto simp: ex_memory_env_def table_codec_def find_Some_iff in_set_conv_nth)
  then show "from_str (mx_json (ex_memory_env tbl)) s = Inr j" using assms by (simp add: ex_memory_env_def table_codec_def)
qed

definition ex_texts :: "(string \<times> json) list" where
  "ex_texts = [(''hi'', JStr ''hi''), (''one'', JObj [(''last_sequence'', JNum ''1'')])]"

definition ex_adapter :: "nat embedding_adapter" where
  "ex_adapter = deterministic_adapter (\<lambda>_. [0])"

definition ex_memory_db :: mem_db where
  "ex_memory_db = \<lparr>md_tables = no_rows, md_script = []\<rparr>"

lemma nat_to_string_1 [simp]: "nat_to_string (Suc 0) = ''1''" "nat_to_string 1 = ''1''"
  by code_simp+

lemma ex_memory_stored:
  "memory_store (ex_memory_env ex_texts) ex_adapter ''s'' 1 (JStr ''hi'') ex_memory_db =
     (Inr \<lparr>mr_sequence = 1, mr_payload = JStr ''hi''\<rparr>, ex_memory_db\<lparr>md_tables := no_rows\<lparr>mt_sessions := [(''s'', [])],
       mt_events := [\<lparr>me_session = ''s'', me_sequence = 1, me_payload = ''hi''\<rparr>], mt_states := [(''s'', ''one'')]\<rparr>\<rparr>)"
  by (simp add: memory_store_def store_statements_def transaction_def on_connection_works statement_works bind_action_def lift_action_def ret_action_def
      ex_memory_db_def ex_memory_env_def table_codec_def ex_texts_def encode_json_def i64_of_def prepare_index_document_def prepare_index_document_with_extra_metadata_def
      extract_indexable_payload_def ensure_monotonic_sequence_def max_sequence_def no_rows_def upsert_session_def insert_event_def load_session_state_map_def
      save_session_state_def mem_nat_def upsert_state_def index_if_prepared_def)

theorem conversation_recalled_witness:
  "memory_recall (ex_memory_env ex_texts) ''s'' None (snd (memory_store (ex_memory_env ex_texts) ex_adapter ''s'' 1 (JStr ''hi'') ex_memory_db)) =
     (Inr [\<lparr>mr_sequence = 1, mr_payload = JStr ''hi''\<rparr>], snd (memory_store (ex_memory_env ex_texts) ex_adapter ''s'' 1 (JStr ''hi'') ex_memory_db))"
proof -
  have "reach memory_start (memory_step (ex_memory_env ex_texts) ex_adapter) ex_memory_db" by (rule reach_init) (simp add: memory_start_def ex_memory_db_def)
  moreover have "conversation (ex_memory_env ex_texts) ''s'' (md_tables ex_memory_db) = Inr []" by (simp add: conversation_def recall_rows_def ex_memory_db_def no_rows_def)
  ultimately show ?thesis
    using conversation_recalled[OF _ table_codec_reads_back _ ex_memory_stored] by (simp add: ex_memory_stored) (simp add: ex_memory_db_def ex_texts_def)
qed

section \<open>Session state: summaries and scratchpads\<close>

text \<open>The state object of a session as the tables hold it.\<close>

definition state_map :: "'e memory_env \<Rightarrow> string \<Rightarrow> mem_tables \<Rightarrow> (memory_error, (string \<times> json) list option) result" where
  "state_map env sid t =
     (case map_of (mt_states t) sid of
        None \<Rightarrow> Inr None
      | Some s \<Rightarrow> bind_result (map_err (from_str (mx_json env) s)
           (\<lambda>e. MemQuery (''session_state for session `'' @ sid @ ''` is not valid JSON: '' @ e))) (\<lambda>value.
         bind_result (ok_or (as_object value) (MemQuery (''session_state for session `'' @ sid @ ''` must be a JSON object''))) (\<lambda>kvs. Inr (Some kvs))))"

definition summary_at :: "'e memory_env \<Rightarrow> string \<Rightarrow> mem_tables \<Rightarrow> (memory_error, summary_state option) result" where
  "summary_at env sid t = bind_result (state_map env sid t) (\<lambda>kvs. read_summary_state_from_map sid (unwrap_or kvs []))"

definition scratchpad_at :: "'e memory_env \<Rightarrow> string \<Rightarrow> mem_tables \<Rightarrow> (memory_error, scratchpad_state option) result" where
  "scratchpad_at env sid t = bind_result (state_map env sid t) (\<lambda>kvs. read_scratchpad_state_from_map env sid (unwrap_or kvs []))"

lemma load_Inr: "load_session_state_map env sid d = (Inr kvs, d') \<Longrightarrow> state_map env sid (md_tables d) = Inr kvs"
  unfolding load_session_state_map_def bind_action_Inr state_map_def
  by (auto simp: lift_action_def ret_action_def dest!: statement_Inr split: option.splits)

lemma state_map_upsert_session [simp]: "state_map env s (upsert_session sid now t) = state_map env s t"
  by (simp add: state_map_def)

lemma upsert_state_Inr: "upsert_state sid s t = Inr (x, t') \<Longrightarrow> mt_states t' = (sid, s) # filter (\<lambda>(k, _). k \<noteq> sid) (mt_states t)"
  by (auto simp: upsert_state_def split: if_splits)

lemma save_Inr:
  assumes "save_session_state env sid st d = (Inr u, d')" "codec_reads_back env"
  shows "state_map env s (md_tables d') = (if s = sid then Inr (Some st) else state_map env s (md_tables d))"
proof -
  obtain wr x where e: "to_json_string (mx_json env) (JObj st) = Inr wr" and u: "upsert_state sid wr (md_tables d) = Inr (x, md_tables d')"
    using assms(1) unfolding save_session_state_def bind_action_Inr
    by (fastforce simp: lift_action_def encode_json_def dest!: statement_Inr)
  have "map_of (filter (\<lambda>(k, _). k \<noteq> sid) xs) s = map_of xs s" if "s \<noteq> sid" for xs :: "(string \<times> string) list"
    using that by (induction xs) auto
  then have "map_of (mt_states (md_tables d')) s = (if s = sid then Some wr else map_of (mt_states (md_tables d)) s)"
    using upsert_state_Inr[OF u] by simp
  then show ?thesis using e assms(2) by (simp add: state_map_def codec_reads_back_def)
qed

lemma digits_read_back: "foldl (\<lambda>a c. a * 10 + (of_char c - 48)) 0 (nat_to_string n) = n \<and> list_all is_ascii_digit (nat_to_string n)"
proof (induction n rule: nat_to_string.induct)
  case (1 n)
  have digit: "(of_char (char_of (48 + k) :: char) :: nat) = 48 + k" "is_ascii_digit (char_of (48 + k))" if "k < 10" for k
    using that by (auto simp: is_ascii_digit_def code_of_def)
  show ?case
  proof (cases "n < 10")
    case True
    then show ?thesis using digit[of n] by (subst (1 2) nat_to_string.simps) simp
  next
    case False
    then show ?thesis using 1[OF False] digit[of "n mod 10"] by (subst (1 2) nat_to_string.simps) simp
  qed
qed

lemma json_as_u64_mem_nat [simp]: "json_as_u64 (mem_nat (unat (w :: u64))) = Some (unat w)"
proof -
  have "unat w < 2 ^ LENGTH(64)" by (rule unsigned_less)
  then have "unat w < 2 ^ 64" by simp
  then show ?thesis using digits_read_back[of "unat w"] unfolding mem_nat_def json_as_u64.simps Let_def by simp
qed

definition new_summary :: "summary_write_request \<Rightarrow> summary_state" where
  "new_summary r = \<lparr>sus_epoch = swr_next_epoch r, sus_upper_sequence = swr_upper_sequence r, sus_summary = swr_summary r,
     sus_metadata = (case swr_metadata r of Some v \<Rightarrow> if v = JNull then None else Some v | None \<Rightarrow> None)\<rparr>"

lemma read_written_summary: "read_summary_state_from_map sid (bt_insert ''summary_state'' (summary_value r) kvs) = Inr (Some (new_summary r))"
  by (simp add: read_summary_state_from_map_def map_of_bt_insert summary_value_def read_summary_u64_field_def read_summary_string_field_def summary_field_def
      new_summary_def split: option.split)

lemma upserted_and_loaded:
  assumes "bind_action (execute (upsert_session sid)) (\<lambda>_. bind_action (load_session_state_map env sid) k) d = (Inr y, d')"
  obtains kvs d0 where "state_map env sid (md_tables d) = Inr kvs" "k kvs d0 = (Inr y, d')" "\<And>s. state_map env s (md_tables d0) = state_map env s (md_tables d)"
proof -
  from assms obtain u d1 kvs d0 where s: "execute (upsert_session sid) d = (Inr u, d1)" "load_session_state_map env sid d1 = (Inr kvs, d0)" "k kvs d0 = (Inr y, d')"
    unfolding bind_action_Inr by blast
  have "md_tables d0 = md_tables d1" using s(2) reads_load by (metis reads_def snd_conv)
  moreover have "state_map env s (md_tables d1) = state_map env s (md_tables d)" for s using execute_Inr[OF s(1)] by (metis state_map_upsert_session)
  ultimately show ?thesis using that[of kvs d0] load_Inr[OF s(2)] s(3) by simp
qed

lemma apply_summary_Inr:
  assumes "codec_reads_back env" "apply_summary env r (unwrap_or kvs []) d = (Inr result, d')"
  shows "result = \<lparr>swt_applied = True, swt_current_epoch = swr_next_epoch r\<rparr>"
    "summary_at env (swr_session_id r) (md_tables d') = Inr (Some (new_summary r))"
    "s \<noteq> swr_session_id r \<Longrightarrow> summary_at env s (md_tables d') = summary_at env s (md_tables d)"
proof -
  obtain u where sv: "save_session_state env (swr_session_id r) (bt_insert ''summary_state'' (summary_value r) (unwrap_or kvs [])) d = (Inr u, d')"
    and res: "result = \<lparr>swt_applied = True, swt_current_epoch = swr_next_epoch r\<rparr>"
    using assms(2) unfolding apply_summary_def bind_action_Inr by (auto simp: ret_action_def)
  note st = save_Inr[OF sv assms(1)]
  show "result = \<lparr>swt_applied = True, swt_current_epoch = swr_next_epoch r\<rparr>" by (rule res)
  show "summary_at env (swr_session_id r) (md_tables d') = Inr (Some (new_summary r))" by (simp add: summary_at_def st read_written_summary)
  show "summary_at env s (md_tables d') = summary_at env s (md_tables d)" if "s \<noteq> swr_session_id r" using that by (simp add: summary_at_def st)
qed

lemma summary_statements_result:
  assumes "codec_reads_back env" "summary_statements env r d = (Inr result, d')" "\<not> swr_next_epoch r \<le> swr_expected_epoch r"
  shows "\<exists>old. summary_at env (swr_session_id r) (md_tables d) = Inr old \<and>
    (let current = (case old of Some s \<Rightarrow> sus_epoch s | None \<Rightarrow> 0) in
     if current = swr_expected_epoch r
     then result = \<lparr>swt_applied = True, swt_current_epoch = swr_next_epoch r\<rparr> \<and> current < swr_next_epoch r \<and>
       (\<forall>s. old = Some s \<longrightarrow> sus_upper_sequence s \<le> swr_upper_sequence r) \<and>
       summary_at env (swr_session_id r) (md_tables d') = Inr (Some (new_summary r))
     else result = \<lparr>swt_applied = False, swt_current_epoch = current\<rparr> \<and> summary_at env (swr_session_id r) (md_tables d') = Inr old) \<and>
    (\<forall>s. s \<noteq> swr_session_id r \<longrightarrow> summary_at env s (md_tables d') = summary_at env s (md_tables d))"
proof -
  obtain kvs d0 where kvs: "state_map env (swr_session_id r) (md_tables d) = Inr kvs"
    and run: "bind_action (lift_action (read_summary_state_from_map (swr_session_id r) (unwrap_or kvs []))) (\<lambda>existing.
      let current_epoch = (case existing of Some s \<Rightarrow> sus_epoch s | None \<Rightarrow> 0) in
      if current_epoch \<noteq> swr_expected_epoch r then ret_action \<lparr>swt_applied = False, swt_current_epoch = current_epoch\<rparr>
      else case existing of
        Some s \<Rightarrow>
          if swr_upper_sequence r < sus_upper_sequence s
          then lift_action (Inl (MemQuery (''summary write upper_sequence must be monotonic; got '' @ nat_to_string (unat (swr_upper_sequence r)) @
            '' but existing upper_sequence is '' @ nat_to_string (unat (sus_upper_sequence s)))))
          else apply_summary env r (unwrap_or kvs [])
      | None \<Rightarrow> apply_summary env r (unwrap_or kvs [])) d0 = (Inr result, d')"
    and same: "\<And>s. state_map env s (md_tables d0) = state_map env s (md_tables d)"
    using assms(2) unfolding summary_statements_def Let_def by (rule upserted_and_loaded) blast
  from run obtain old where old: "read_summary_state_from_map (swr_session_id r) (unwrap_or kvs []) = Inr old"
    by (auto simp: bind_action_Inr lift_action_eq)
  then have at_d: "summary_at env (swr_session_id r) (md_tables d) = Inr old" using kvs by (simp add: summary_at_def)
  have same': "summary_at env s (md_tables d0) = summary_at env s (md_tables d)" for s by (simp add: summary_at_def same)
  show ?thesis
  proof (cases "(case old of Some s \<Rightarrow> sus_epoch s | None \<Rightarrow> 0) = swr_expected_epoch r")
    case False
    then show ?thesis using run old at_d same' by (auto simp: Let_def ret_action_def)
  next
    case True
    then have ap: "apply_summary env r (unwrap_or kvs []) d0 = (Inr result, d')" "\<forall>s. old = Some s \<longrightarrow> sus_upper_sequence s \<le> swr_upper_sequence r"
      using run old by (auto simp: Let_def lift_action_def split: option.splits if_splits)
    show ?thesis using True ap(2) apply_summary_Inr[OF assms(1) ap(1)] at_d same' assms(3) by (auto simp: Let_def)
  qed
qed

text \<open>C19: A summary is replaced only by the next epoch of what its writer has seen. A write that succeeds either finds another epoch than the expected one, then it reports
  the epoch it found and changes no summary; or it puts the new summary in place, with a larger epoch and an upper sequence that is not smaller. The summaries
  of other sessions stay as they are.\<close>

theorem summary_compare_and_set:
  assumes "codec_reads_back env" "write_summary_state env r d = (Inr result, d')"
  shows "\<exists>old. summary_at env (swr_session_id r) (md_tables d) = Inr old \<and>
    (let current = (case old of Some s \<Rightarrow> sus_epoch s | None \<Rightarrow> 0) in
     if current = swr_expected_epoch r
     then result = \<lparr>swt_applied = True, swt_current_epoch = swr_next_epoch r\<rparr> \<and> current < swr_next_epoch r \<and>
       (\<forall>s. old = Some s \<longrightarrow> sus_upper_sequence s \<le> swr_upper_sequence r) \<and>
       summary_at env (swr_session_id r) (md_tables d') = Inr (Some (new_summary r))
     else result = \<lparr>swt_applied = False, swt_current_epoch = current\<rparr> \<and> summary_at env (swr_session_id r) (md_tables d') = Inr old) \<and>
    (\<forall>s. s \<noteq> swr_session_id r \<longrightarrow> summary_at env s (md_tables d') = summary_at env s (md_tables d))"
proof -
  have epochs: "\<not> swr_next_epoch r \<le> swr_expected_epoch r"
    using assms(2) by (auto simp: write_summary_state_def lift_action_def split: if_splits)
  then have "on_connection (transaction (summary_statements env r)) d = (Inr result, d')" using assms(2) by (simp add: write_summary_state_def)
  then obtain d0 where d0: "md_tables d0 = md_tables d" "transaction (summary_statements env r) d0 = (Inr result, d')" by (rule on_connection_Inr)
  from d0(2) obtain d1 d2 where d1: "md_tables d1 = md_tables d0" "summary_statements env r d1 = (Inr result, d2)" "md_tables d' = md_tables d2"
    by (rule transaction_Inr)
  have t: "md_tables d1 = md_tables d" using d0(1) d1(1) by simp
  show ?thesis unfolding d1(3) t[symmetric] by (rule summary_statements_result[OF assms(1) d1(2) epochs])
qed

definition ex_summary_write :: summary_write_request where
  "ex_summary_write = \<lparr>swr_session_id = ''s'', swr_expected_epoch = 0, swr_next_epoch = 1, swr_upper_sequence = 1, swr_summary = ''greetings'', swr_metadata = None\<rparr>"

definition ex_summary_texts :: "(string \<times> json) list" where
  "ex_summary_texts = [(''sum'', JObj [(''summary_state'', summary_value ex_summary_write)])]"

lemma ex_summary_written:
  "write_summary_state (ex_memory_env ex_summary_texts) ex_summary_write ex_memory_db =
     (Inr \<lparr>swt_applied = True, swt_current_epoch = 1\<rparr>,
      ex_memory_db\<lparr>md_tables := no_rows\<lparr>mt_sessions := [(''s'', [])], mt_states := [(''s'', ''sum'')]\<rparr>\<rparr>)"
  by (simp add: write_summary_state_def summary_statements_def apply_summary_def transaction_def on_connection_works statement_works bind_action_def lift_action_def
      ret_action_def ex_memory_db_def no_rows_def upsert_session_def load_session_state_map_def read_summary_state_from_map_def save_session_state_def encode_json_def
      upsert_state_def ex_memory_env_def table_codec_def ex_summary_texts_def Let_def) (simp add: ex_summary_write_def)

theorem summary_compare_and_set_witness:
  "summary_at (ex_memory_env ex_summary_texts) ''s'' (md_tables (snd (write_summary_state (ex_memory_env ex_summary_texts) ex_summary_write ex_memory_db))) =
     Inr (Some \<lparr>sus_epoch = 1, sus_upper_sequence = 1, sus_summary = ''greetings'', sus_metadata = None\<rparr>)"
proof -
  have "codec_reads_back (ex_memory_env ex_summary_texts)" by (rule table_codec_reads_back) (simp add: ex_summary_texts_def)
  moreover have "summary_at (ex_memory_env ex_summary_texts) ''s'' (md_tables ex_memory_db) = Inr None"
    by (simp add: summary_at_def state_map_def ex_memory_db_def no_rows_def read_summary_state_from_map_def)
  ultimately show ?thesis
    using summary_compare_and_set[OF _ ex_summary_written] unfolding ex_summary_written
    by (auto simp: ex_summary_write_def new_summary_def Let_def split: if_splits)
qed

text \<open>Scratchpads.\<close>

lemma normalized_items_bounds:
  "normalized_items i items = Inr ns \<Longrightarrow> length ns \<le> length items \<and> (\<forall>n\<in>set ns. n \<noteq> [] \<and> char_count n \<le> SCRATCHPAD_MAX_ITEM_CHARS)"
proof (induction items arbitrary: i ns)
  case (Cons raw items)
  show ?case
  proof (cases "trim raw = []")
    case True
    then show ?thesis using Cons.IH[of "Suc i" ns] Cons.prems by simp
  next
    case False
    then obtain rest where "normalized_items (Suc i) items = Inr rest" "ns = trim raw # rest" "char_count (trim raw) \<le> SCRATCHPAD_MAX_ITEM_CHARS"
      using Cons.prems by (auto simp: Let_def split: if_splits)
    then show ?thesis using Cons.IH[of "Suc i" rest] False by simp
  qed
qed simp

lemma normalized_bounds:
  assumes "normalize_scratchpad_items items = Inr ns"
  shows "ns \<noteq> []" "length ns \<le> SCRATCHPAD_MAX_ITEMS" "\<forall>n\<in>set ns. n \<noteq> [] \<and> char_count n \<le> SCRATCHPAD_MAX_ITEM_CHARS"
proof -
  have n: "normalized_items 0 items = Inr ns" "ns \<noteq> []" "length items \<le> SCRATCHPAD_MAX_ITEMS"
    using assms by (auto simp: normalize_scratchpad_items_def split: if_splits)
  then show "ns \<noteq> []" "length ns \<le> SCRATCHPAD_MAX_ITEMS" "\<forall>n\<in>set ns. n \<noteq> [] \<and> char_count n \<le> SCRATCHPAD_MAX_ITEM_CHARS"
    using normalized_items_bounds[OF n(1)] by auto
qed

lemma stored_items_read: "\<forall>n\<in>set ns. char_count n \<le> SCRATCHPAD_MAX_ITEM_CHARS \<Longrightarrow> stored_items sid i (map JStr ns) = Inr ns"
  by (induction ns arbitrary: i) (auto simp: Let_def)

lemma read_written_scratchpad:
  assumes "normalize_scratchpad_items items = Inr ns" "mx_rfc3339_error env now = None"
  shows "read_scratchpad_state_from_map env sid (bt_insert ''scratchpad_state'' (scratchpad_value now ns) kvs) = Inr (Some \<lparr>sps_items = ns, sps_updated_at = now\<rparr>)"
  using normalized_bounds[OF assms(1)] assms(2)
  by (simp add: read_scratchpad_state_from_map_def map_of_bt_insert scratchpad_value_def stored_items_read Let_def)

lemma summary_kept_by_scratchpad: "read_summary_state_from_map sid (bt_insert ''scratchpad_state'' v kvs) = read_summary_state_from_map sid kvs"
  by (simp add: read_summary_state_from_map_def map_of_bt_insert)

text \<open>A scratchpad is read back as it was written. A write that succeeds leaves between one and 32 items, each trimmed, not empty and of at most 240 characters, and
  what is then read is these items; the summary of the session and the state of other sessions are as before.\<close>

theorem scratchpad_read_back:
  assumes "codec_reads_back env" "mx_rfc3339_error env (mx_now env) = None" "write_scratchpad env sid items d = (Inr (updated, count), d')"
  shows "\<exists>ns. normalize_scratchpad_items items = Inr ns \<and> count = length ns \<and> 0 < count \<and> count \<le> 32 \<and> (\<forall>n\<in>set ns. n \<noteq> [] \<and> char_count n \<le> 240) \<and>
    (md_script d' = [] \<longrightarrow> read_scratchpad env sid d' = (Inr (Some \<lparr>sps_items = ns, sps_updated_at = mx_now env\<rparr>), d')) \<and>
    summary_at env sid (md_tables d') = summary_at env sid (md_tables d) \<and>
    (\<forall>s. s \<noteq> sid \<longrightarrow> state_map env s (md_tables d') = state_map env s (md_tables d))"
proof -
  obtain ns where ns: "normalize_scratchpad_items items = Inr ns"
    and "on_connection (transaction (scratchpad_statements env sid (scratchpad_value (mx_now env) ns) (length ns))) d = (Inr (updated, count), d')"
    using assms(3) by (auto simp: write_scratchpad_def lift_action_eq bind_action_Inr Let_def split: if_splits)
  then obtain d0 where d0: "md_tables d0 = md_tables d"
    "transaction (scratchpad_statements env sid (scratchpad_value (mx_now env) ns) (length ns)) d0 = (Inr (updated, count), d')"
    by (elim on_connection_Inr)
  from d0(2) obtain d1 d2 where d1: "md_tables d1 = md_tables d0" "md_tables d' = md_tables d2"
    and body: "scratchpad_statements env sid (scratchpad_value (mx_now env) ns) (length ns) d1 = (Inr (updated, count), d2)"
    by (rule transaction_Inr)
  obtain kvs d3 where kvs: "state_map env sid (md_tables d1) = Inr kvs"
    and run: "bind_action (save_session_state env sid (bt_insert ''scratchpad_state'' (scratchpad_value (mx_now env) ns) (unwrap_or kvs []))) (\<lambda>_.
     ret_action (map_of (unwrap_or kvs []) ''scratchpad_state'' \<noteq> Some (scratchpad_value (mx_now env) ns), length ns)) d3 = (Inr (updated, count), d2)"
    and same: "\<And>s. state_map env s (md_tables d3) = state_map env s (md_tables d1)"
    using body unfolding scratchpad_statements_def Let_def by (rule upserted_and_loaded) blast
  from run obtain u where sv: "save_session_state env sid (bt_insert ''scratchpad_state'' (scratchpad_value (mx_now env) ns) (unwrap_or kvs [])) d3 = (Inr u, d2)"
    and c: "count = length ns" by (auto simp: bind_action_Inr ret_action_def)
  note st = save_Inr[OF sv assms(1)]
  have "map_of (mt_states (md_tables d2)) sid \<noteq> None" using st[of sid] by (auto simp: state_map_def split: option.splits)
  then have rd: "read_scratchpad env sid d' = (Inr (Some \<lparr>sps_items = ns, sps_updated_at = mx_now env\<rparr>), d')" if "md_script d' = []"
    using that st[of sid] read_written_scratchpad[OF ns assms(2)] d1(2)
    by (auto simp: read_scratchpad_def on_connection_works load_session_state_map_def bind_action_def statement_works lift_action_def state_map_def)
  have "summary_at env sid (md_tables d') = summary_at env sid (md_tables d)"
    using st[of sid] kvs d0(1) d1 by (simp add: summary_at_def summary_kept_by_scratchpad)
  moreover have "state_map env s (md_tables d') = state_map env s (md_tables d)" if "s \<noteq> sid" for s using that st[of s] same[of s] d0(1) d1 by simp
  ultimately show ?thesis using ns c rd normalized_bounds[OF ns] by (auto simp: SCRATCHPAD_MAX_ITEMS_def SCRATCHPAD_MAX_ITEM_CHARS_def)
qed

definition ex_scratchpad_texts :: "(string \<times> json) list" where
  "ex_scratchpad_texts = [(''pad'', scratchpad_value ''2026'' [''tea'']), (''state'', JObj [(''scratchpad_state'', scratchpad_value ''2026'' [''tea''])])]"

lemma ex_items_normalized [simp]: "normalize_scratchpad_items ['' tea '', ''  ''] = Inr [''tea'']" "trim ''s'' = ''s''"
  by code_simp+

lemma ex_scratchpad_written:
  "write_scratchpad (ex_memory_env ex_scratchpad_texts) ''s'' ['' tea '', ''  ''] ex_memory_db =
     (Inr (True, 1), ex_memory_db\<lparr>md_tables := no_rows\<lparr>mt_sessions := [(''s'', [])], mt_states := [(''s'', ''state'')]\<rparr>\<rparr>)"
  by (simp add: write_scratchpad_def ensure_scratchpad_size_limit_def scratchpad_statements_def transaction_def on_connection_works statement_works bind_action_def
      lift_action_def ret_action_def ex_memory_db_def no_rows_def upsert_session_def load_session_state_map_def save_session_state_def encode_json_def
      upsert_state_def ex_memory_env_def table_codec_def ex_scratchpad_texts_def SCRATCHPAD_MAX_BYTES_def scratchpad_value_def Let_def)

theorem scratchpad_read_back_witness:
  "fst (read_scratchpad (ex_memory_env ex_scratchpad_texts) ''s''
     (snd (write_scratchpad (ex_memory_env ex_scratchpad_texts) ''s'' ['' tea '', ''  ''] ex_memory_db))) =
   Inr (Some \<lparr>sps_items = [''tea''], sps_updated_at = ''2026''\<rparr>)"
proof -
  have "codec_reads_back (ex_memory_env ex_scratchpad_texts)" by (rule table_codec_reads_back) (simp add: ex_scratchpad_texts_def)
  moreover have "mx_rfc3339_error (ex_memory_env ex_scratchpad_texts) (mx_now (ex_memory_env ex_scratchpad_texts)) = None" "mx_now (ex_memory_env ex_scratchpad_texts) = ''2026''"
    by (simp_all add: ex_memory_env_def)
  moreover have "md_script (snd (write_scratchpad (ex_memory_env ex_scratchpad_texts) ''s'' ['' tea '', ''  ''] ex_memory_db)) = []"
    unfolding ex_scratchpad_written by (simp add: ex_memory_db_def)
  ultimately show ?thesis using scratchpad_read_back[OF _ _ ex_scratchpad_written] unfolding ex_scratchpad_written by auto
qed

end
