(* ===== verification/Memory_Search.thy ===== *)
theory Memory_Search
  imports Memory_Properties "HOL-Library.Product_Lexorder" "HOL-Library.Multiset"
begin

text \<open>
  The search of the memory (\<open>execute_hybrid_query\<close>, \<open>vector_search\<close> and \<open>fts_search\<close> of \<open>lib.rs\<close>): its two sorts are sorts by a key of a linear
  order, its results are chunks of the session with all tags asked for, each once and the best first.
\<close>

section \<open>The order of the results\<close>

lemma sort_rows_key:
  assumes "\<And>a b. before a b \<longleftrightarrow> key a < (key b :: 'k :: linorder)"
  shows "sort_rows before xs = sort_key key xs"
proof -
  have "insert_row before x ys = insort_key key x ys" for x ys by (induction ys) (auto simp: assms)
  then have "insert_row before = insort_key key" by blast
  then show ?thesis by (simp add: sort_rows_def sort_key_def)
qed

text \<open>The place of a number in a descending order, and the keys of the two sorts.\<close>

definition place_desc :: "f64 \<Rightarrow> int \<times> rat" where
  "place_desc a = (case a of F_NaN \<Rightarrow> (0, 0) | F_PInf \<Rightarrow> (1, 0) | F_Fin x \<Rightarrow> (2, - x) | F_NInf \<Rightarrow> (3, 0))"

lemma place_desc_less [simp]: "place_desc a < place_desc b \<longleftrightarrow> f64_total_less b a"
  by (cases a; cases b) (auto simp: place_desc_def f64_total_less_def)

lemma place_desc_le [simp]: "place_desc a \<le> place_desc b \<longleftrightarrow> \<not> f64_total_less a b"
  by (metis not_less place_desc_less)

definition rank_key :: "merged_hybrid_candidate \<Rightarrow> (int \<times> rat) \<times> int \<times> string" where
  "rank_key x = (place_desc (hc_score x), - uint (hr_recency_sequence (hc_row x)), hr_chunk_id (hc_row x))"

lemma ranked_before_key: "ranked_before a b \<longleftrightarrow> rank_key a < rank_key b"
  by (auto simp: ranked_before_def rank_key_def word_less_def not_less)

lemma ranking_sorts: "sort_rows ranked_before xs = sort_key rank_key xs"
  by (rule sort_rows_key) (rule ranked_before_key)

section \<open>Merging\<close>

abbreviation merged_id :: "merged_hybrid_candidate \<Rightarrow> string" where
  "merged_id x \<equiv> hr_chunk_id (hc_row x)"

lemma merge_keeps:
  assumes "\<And>x s. hc_row (f x s) = hc_row x" "distinct (map merged_id m)"
  shows "distinct (map merged_id (merge_candidates f cs m))"
    "hc_row ` set (merge_candidates f cs m) \<subseteq> fst ` set cs \<union> hc_row ` set m"
proof -
  let ?step = "\<lambda>scores. \<lambda>(row, _ :: f64) m.
        let score = unwrap_or (map_of scores (hr_chunk_id row)) (F_Fin 0);
            m' = (if hr_chunk_id row \<in> (hr_chunk_id \<circ> hc_row) ` set m then m
                  else m @ [\<lparr>hc_row = row, hc_score = F_Fin 0, hc_vector_score = F_Fin 0, hc_fts_score = F_Fin 0\<rparr>])
        in map (\<lambda>x. if hr_chunk_id (hc_row x) = hr_chunk_id row then f x score else x) m'"
  have same: "map hc_row (map (\<lambda>x. if P x then f x s else x) xs) = map hc_row xs" for P s xs using assms(1) by simp
  have rows: "map merged_id (map (\<lambda>x. if P x then f x s else x) xs) = map merged_id xs"
    "hc_row ` set (map (\<lambda>x. if P x then f x s else x) xs) = hc_row ` set xs" for P s xs
    using assms(1) arg_cong[OF same, of set P s xs] by (simp, simp only: set_map)
  have "distinct (map merged_id (fold (?step scores) cs m)) \<and> hc_row ` set (fold (?step scores) cs m) \<subseteq> fst ` set cs \<union> hc_row ` set m" for scores
    using assms(2)
  proof (induction cs arbitrary: m)
    case (Cons c cs)
    obtain row s where c: "c = (row, s)" by (cases c)
    obtain m1 where m1: "m1 = ?step scores c m" by blast
    have d: "distinct (map merged_id m1)" "hc_row ` set m1 \<subseteq> insert row (hc_row ` set m)"
      using Cons.prems unfolding m1 c Let_def prod.case rows by (auto simp: image_iff)
    obtain F where F: "F = fold (?step scores) (c # cs) m" by blast
    have "F = fold (?step scores) cs m1" by (simp add: F m1)
    then have "distinct (map merged_id F) \<and> hc_row ` set F \<subseteq> fst ` set cs \<union> hc_row ` set m1" using Cons.IH[OF d(1)] by (simp only:)
    moreover have "fst ` set (c # cs) = insert row (fst ` set cs)" by (simp add: c)
    ultimately show ?case unfolding F[symmetric] using d(2) by blast
  qed simp
  then show "distinct (map merged_id (merge_candidates f cs m))" "hc_row ` set (merge_candidates f cs m) \<subseteq> fst ` set cs \<union> hc_row ` set m"
    by (simp_all add: merge_candidates_def)
qed

lemma rank_candidates_ok:
  "length (rank_candidates vw fw k vs fs) \<le> k"
  "distinct (map merged_id (rank_candidates vw fw k vs fs))"
  "sorted_wrt (\<lambda>a b. rank_key a \<le> rank_key b) (rank_candidates vw fw k vs fs)"
  "hc_row ` set (rank_candidates vw fw k vs fs) \<subseteq> fst ` set vs \<union> fst ` set fs"
proof -
  define merged where "merged = merge_candidates (\<lambda>x s. x\<lparr>hc_fts_score := s\<rparr>) fs (merge_candidates (\<lambda>x s. x\<lparr>hc_vector_score := s\<rparr>) vs [])"
  define scored where "scored = map (\<lambda>x. x\<lparr>hc_score := f64_add (f64_mul vw (hc_vector_score x)) (f64_mul fw (hc_fts_score x))\<rparr>) merged"
  have r: "rank_candidates vw fw k vs fs = take k (sort_key rank_key scored)"
    by (simp add: rank_candidates_def merged_def scored_def ranking_sorts Let_def)
  have m: "distinct (map merged_id merged)" "hc_row ` set merged \<subseteq> fst ` set vs \<union> fst ` set fs"
    using merge_keeps[where f = "\<lambda>x s. x\<lparr>hc_vector_score := s\<rparr>" and m = "[]" and cs = vs]
      merge_keeps[where f = "\<lambda>x s. x\<lparr>hc_fts_score := s\<rparr>" and cs = fs and m = "merge_candidates (\<lambda>x s. x\<lparr>hc_vector_score := s\<rparr>) vs []"]
    unfolding merged_def by (simp, simp) (blast intro: order_trans)
  have s: "map merged_id scored = map merged_id merged" "hc_row ` set scored = hc_row ` set merged" by (auto simp: scored_def image_iff)
  show "length (rank_candidates vw fw k vs fs) \<le> k" by (simp add: r)
  have "mset (map merged_id (sort_key rank_key scored)) = mset (map merged_id merged)" unfolding s(1)[symmetric] mset_map by simp
  then have "distinct (map merged_id (sort_key rank_key scored))" using m(1) by (metis mset_eq_imp_distinct_iff)
  then show "distinct (map merged_id (rank_candidates vw fw k vs fs))" unfolding r take_map[symmetric] by (rule distinct_take)
  show "sorted_wrt (\<lambda>a b. rank_key a \<le> rank_key b) (rank_candidates vw fw k vs fs)"
    using sorted_sort_key[of rank_key scored] unfolding r by (simp add: sorted_map sorted_wrt_take)
  show "hc_row ` set (rank_candidates vw fw k vs fs) \<subseteq> fst ` set vs \<union> fst ` set fs"
    using m(2) s(2) set_take_subset[of k "sort_key rank_key scored"] unfolding r set_sort by blast
qed

section \<open>Where the results come from\<close>

text \<open>A row that a search returns is a chunk of the session that carries the tags.\<close>

definition row_of :: "'e memory_env \<Rightarrow> string \<Rightarrow> string list option \<Rightarrow> mem_tables \<Rightarrow> hybrid_candidate_row \<Rightarrow> bool" where
  "row_of env sid tags t row \<longleftrightarrow> (\<exists>c\<in>set (mt_chunks t). mc_chunk_id c = hr_chunk_id row \<and> mc_text c = hr_text row \<and> mc_session c = sid \<and>
     hr_session_id row = sid \<and> (\<forall>tag\<in>set (unwrap_or tags []). has_tag env c tag = Inr True))"

lemma rows_where_elem: "rows_where P rs = Inr xs \<Longrightarrow> x \<in> set xs \<Longrightarrow> x \<in> set rs \<and> P x = Inr True"
proof (induction rs arbitrary: xs)
  case (Cons r rs)
  then obtain b ys where "P r = Inr b" "rows_where P rs = Inr ys" "xs = (if b then r # ys else ys)" by auto
  then show ?case using Cons.IH[of ys] Cons.prems by (auto split: if_splits)
qed simp

lemma has_all_tags_each: "has_all_tags env tags c = Inr True \<Longrightarrow> tag \<in> set (unwrap_or tags []) \<Longrightarrow> has_tag env c tag = Inr True"
proof -
  assume all: "has_all_tags env tags c = Inr True" and tag: "tag \<in> set (unwrap_or tags [])"
  then obtain bs where bs: "all_results (has_tag env c) (unwrap_or tags []) = Inr bs" "list_all id bs" by (auto simp: has_all_tags_def)
  moreover obtain i where "i < length (unwrap_or tags [])" "unwrap_or tags [] ! i = tag" using tag by (auto simp: in_set_conv_nth)
  ultimately have "i < length bs" "has_tag env c tag = Inr (bs ! i)" unfolding all_results_Inr by (auto simp: list_all2_conv_all_nth)
  then show ?thesis using bs(2) by (simp add: list_all_length)
qed

lemma insert_row_set [simp]: "set (insert_row before x ys) = insert x (set ys)"
  by (induction ys) auto

lemma sort_rows_set [simp]: "set (sort_rows before xs) = set xs"
  unfolding sort_rows_def by (induction xs) auto

lemma candidates_rows:
  assumes "candidates_of env err found limit tags d = (Inr cs, d')" "(row, s) \<in> set cs"
    "\<And>s c. (s, c) \<in> set (found (md_tables d)) \<Longrightarrow> c \<in> set (mt_chunks (md_tables d)) \<and> mc_session c = sid"
  shows "row_of env sid tags (md_tables d) row"
proof -
  obtain rows where rows: "rows_where (\<lambda>(s, c). has_all_tags env tags c) (found (md_tables d)) = Inr rows"
    and cs: "all_results (\<lambda>(s, c). bind_result (hybrid_candidate_from_row env c) (\<lambda>r. Inr (r, s))) (take limit (sort_rows scored_before rows)) = Inr cs"
    using assms(1) unfolding candidates_of_def bind_action_Inr by (fastforce simp: lift_action_def dest!: statement_Inr)
  obtain c where c: "(s, c) \<in> set rows" "hybrid_candidate_from_row env c = Inr row"
    using all_results_elem[OF cs assms(2)] by (auto dest!: in_set_takeD)
  then have "has_all_tags env tags c = Inr True" "c \<in> set (mt_chunks (md_tables d))" "mc_session c = sid"
    using rows_where_elem[OF rows c(1)] assms(3) by auto
  moreover have "mc_chunk_id c = hr_chunk_id row" "mc_text c = hr_text row" "hr_session_id row = mc_session c"
    using c(2) by (auto simp: hybrid_candidate_from_row_def)
  ultimately show ?thesis unfolding row_of_def using has_all_tags_each by metis
qed

lemma reads_candidates [atomic_intros]: "reads (candidates_of env err found limit tags)"
  unfolding candidates_of_def by (intro atomic_intros) auto

lemma reads_search [atomic_intros]: "reads (vector_search env sid q limit tags)" "reads (fts_search env sid query limit tags)"
  unfolding vector_search_def fts_search_def by (intro atomic_intros)+

lemma search_rows:
  "vector_search env sid q limit tags d = (Inr cs, d') \<Longrightarrow> (row, s) \<in> set cs \<Longrightarrow> row_of env sid tags (md_tables d) row"
  "fts_search env sid query limit tags d = (Inr cs, d') \<Longrightarrow> (row, s) \<in> set cs \<Longrightarrow> row_of env sid tags (md_tables d) row"
proof -
  assume r: "(row, s) \<in> set cs"
  { assume "vector_search env sid q limit tags d = (Inr cs, d')"
    then obtain d0 json d1 where "md_tables d0 = md_tables d" and "candidates_of env vector_failed (vector_matches env sid json limit) limit tags d0 = (Inr cs, d1)"
      unfolding vector_search_def by (elim on_connection_Inr) (auto simp: bind_action_Inr lift_action_eq)
    then show "row_of env sid tags (md_tables d) row" using candidates_rows[OF _ r, of env _ _ _ _ d0 _ sid] by (fastforce simp: vector_matches_def) }
  { assume "fts_search env sid query limit tags d = (Inr cs, d')"
    then obtain d0 d1 where "md_tables d0 = md_tables d"
      and "candidates_of env MemQuery (fts_matches env sid (format_fts_match_query query)) limit tags d0 = (Inr cs, d1)"
      unfolding fts_search_def by (elim on_connection_Inr) (auto simp: bind_action_Inr lift_action_eq)
    then show "row_of env sid tags (md_tables d) row"
      using candidates_rows[OF _ r, of env _ _ _ _ d0 _ sid] by (fastforce simp: fts_matches_def split: option.splits if_splits) }
qed

lemma query_parts:
  assumes "execute_hybrid_query env adapter r d = (Inr results, d')"
  obtains q limit d1 vs fs vw fw where
    "vector_search env (hq_session_id r) q limit (if normalize_note_tags env (hq_tags r) \<noteq> [] then Some (normalize_note_tags env (hq_tags r)) else None) d = (Inr vs, d1)"
    "fts_search env (hq_session_id r) (trim (hq_query r)) limit (if normalize_note_tags env (hq_tags r) \<noteq> [] then Some (normalize_note_tags env (hq_tags r)) else None) d1 =
       (Inr fs, d')"
    "results = rank_candidates vw fw (unwrap_or (hq_top_k r) (rl_top_k default_retrieval)) vs fs"
  using assms unfolding execute_hybrid_query_def Let_def
  by (auto simp: bind_action_Inr lift_action_eq ret_action_def split: if_splits)

text \<open>C20: A search returns at most as many results as asked for, eight when nothing is said, each chunk once, the best first (score, then the newer one, then the
  chunk id). Every result is the text of a stored chunk of the session that carries all the tags asked for. The tables are left as they are.\<close>

theorem search_results_sound:
  assumes "execute_hybrid_query env adapter r d = (Inr results, d')"
  shows "length results \<le> unwrap_or (hq_top_k r) 8 \<and> distinct (map (\<lambda>x. hr_chunk_id (hc_row x)) results) \<and>
    sorted_wrt (\<lambda>a b. \<not> ranked_before b a) results \<and> md_tables d' = md_tables d \<and>
    (\<forall>x\<in>set results. hr_session_id (hc_row x) = hq_session_id r \<and>
       (\<exists>c\<in>set (mt_chunks (md_tables d)). mc_session c = hq_session_id r \<and> mc_chunk_id c = hr_chunk_id (hc_row x) \<and> mc_text c = hr_text (hc_row x) \<and>
          (\<forall>tag\<in>set (normalize_note_tags env (hq_tags r)). has_tag env c tag = Inr True)))"
proof -
  let ?tags = "if normalize_note_tags env (hq_tags r) \<noteq> [] then Some (normalize_note_tags env (hq_tags r)) else None"
  obtain q limit d1 vs fs vw fw where
    v: "vector_search env (hq_session_id r) q limit ?tags d = (Inr vs, d1)" and f: "fts_search env (hq_session_id r) (trim (hq_query r)) limit ?tags d1 = (Inr fs, d')"
    and res: "results = rank_candidates vw fw (unwrap_or (hq_top_k r) (rl_top_k default_retrieval)) vs fs"
    using assms by (rule query_parts)
  have t: "md_tables d1 = md_tables d" "md_tables d' = md_tables d1"
    using v f reads_search[unfolded reads_def] by (metis snd_conv)+
  have tags: "unwrap_or ?tags [] = normalize_note_tags env (hq_tags r)" by simp
  have "row_of env (hq_session_id r) ?tags (md_tables d) (hc_row x)" if "x \<in> set results" for x
  proof -
    have "hc_row x \<in> fst ` set vs \<union> fst ` set fs" using that rank_candidates_ok(4) unfolding res by blast
    then show ?thesis using search_rows(1)[OF v] search_rows(2)[OF f] t(1) by fastforce
  qed
  then have "\<forall>x\<in>set results. hr_session_id (hc_row x) = hq_session_id r \<and>
       (\<exists>c\<in>set (mt_chunks (md_tables d)). mc_session c = hq_session_id r \<and> mc_chunk_id c = hr_chunk_id (hc_row x) \<and> mc_text c = hr_text (hc_row x) \<and>
          (\<forall>tag\<in>set (normalize_note_tags env (hq_tags r)). has_tag env c tag = Inr True))"
    unfolding row_of_def tags by blast
  moreover have "length results \<le> unwrap_or (hq_top_k r) 8" unfolding res using rank_candidates_ok(1) by (metis default_retrieval_def retrieval_limits.select_convs(1))
  moreover have "sorted_wrt (\<lambda>a b. \<not> ranked_before b a) results" using rank_candidates_ok(3) unfolding res ranked_before_key not_less .
  ultimately show ?thesis using rank_candidates_ok(2) t unfolding res by simp
qed

definition ex_search_texts :: "(string \<times> json) list" where
  "ex_search_texts = [(''m'', JObj [(''tags'', JArr [JStr ''home''])]), (''n'', JObj [])]"

definition ex_search_env :: "nat memory_env" where
  "ex_search_env = (ex_memory_env ex_search_texts)\<lparr>mx_vector_top_k := (\<lambda>vs _ n. map mv_chunk_id (take n vs))\<rparr>"

definition ex_chunk :: "string \<Rightarrow> string \<Rightarrow> string \<Rightarrow> mem_chunk" where
  "ex_chunk i sid metadata = \<lparr>mc_chunk_id = i, mc_session = sid, mc_file_id = None, mc_sequence_start = Some 1, mc_sequence_end = Some 1, mc_text = ''tea'',
     mc_metadata = metadata, mc_content_hash = [], mc_updated_at = []\<rparr>"

definition ex_search_db :: mem_db where
  "ex_search_db = ex_memory_db\<lparr>md_tables := no_rows\<lparr>mt_sessions := [(''s'', []), (''u'', [])],
     mt_chunks := [ex_chunk ''a'' ''s'' ''m'', ex_chunk ''b'' ''s'' ''n'', ex_chunk ''c'' ''u'' ''m''],
     mt_vecs := map (\<lambda>i. \<lparr>mv_chunk_id = i, mv_embedding = [], mv_model = []\<rparr>) [''a'', ''b'', ''c'']\<rparr>\<rparr>"

definition ex_query :: "nat hybrid_query_request" where
  "ex_query = \<lparr>hq_session_id = ''s'', hq_query = ''tea'', hq_tags = Some [''home''], hq_query_embedding = Some [0], hq_top_k = None,
     hq_vector_weight = Some (F_Fin 1), hq_fts_weight = Some (F_Fin 0)\<rparr>"

lemma f64_round_nonneg: "0 \<le> x \<Longrightarrow> f64_less (f64_round x) (F_Fin 0) = False" "0 \<le> x \<Longrightarrow> f64_le (F_Fin 0) (f64_round x)"
proof -
  assume x: "0 \<le> x"
  have p: "0 < pow2 e" for e by (simp add: pow2_def)
  have "0 \<le> round_half_even (x / pow2 e)" for e
    using x p[of e] by (auto simp: round_half_even_def Let_def intro: add_nonneg_nonneg)
  then have "0 \<le> of_int (round_half_even (x / pow2 e)) * pow2 e" for e using p[of e] by (simp add: zero_le_mult_iff)
  then obtain y where y: "0 \<le> y" "f64_round x = (if x = 0 then F_Fin 0 else if pow2 1024 \<le> y then F_PInf else if y \<le> - pow2 1024 then F_NInf else F_Fin y)"
    unfolding f64_round_def Let_def by blast
  have "\<not> y \<le> - pow2 1024" using y(1) p[of 1024] by linarith
  then show "f64_less (f64_round x) (F_Fin 0) = False" "f64_le (F_Fin 0) (f64_round x)" unfolding y(2) using y(1) by (auto simp: f64_le_def)
qed

lemma epsilon_positive [simp]: "f64_less RETRIEVAL_WEIGHT_SUM_EPSILON (F_Fin 0) = False" "f64_le (F_Fin 0) RETRIEVAL_WEIGHT_SUM_EPSILON"
  by (simp_all add: RETRIEVAL_WEIGHT_SUM_EPSILON_def f64_round_nonneg)

lemma f64_round_0_1 [simp]: "f64_round 0 = F_Fin 0" "f64_round 1 = F_Fin 1"
  using f64_round_nat[of 0] f64_round_nat[of 1] by simp_all

lemma ex_search_found:
  "vector_matches ex_search_env ''s'' ''[]'' 32 (md_tables ex_search_db) = [(F_Fin 0, ex_chunk ''a'' ''s'' ''m''), (F_Fin 0, ex_chunk ''b'' ''s'' ''n'')]"
  "fts_matches ex_search_env ''s'' q (md_tables ex_search_db) = []"
  by (simp_all add: vector_matches_def fts_matches_def ex_search_env_def ex_memory_env_def ex_search_db_def ex_memory_db_def no_rows_def ex_chunk_def f64_neg_def)

lemma ex_search_candidates:
  "vector_search ex_search_env ''s'' [0] 32 (Some [''home'']) ex_search_db =
     (Inr [(\<lparr>hr_chunk_id = ''a'', hr_session_id = ''s'', hr_text = ''tea'', hr_file_id = None, hr_sequence_start = Some 1, hr_sequence_end = Some 1,
        hr_metadata = Some (JObj [(''tags'', JArr [JStr ''home''])]), hr_recency_sequence = 1\<rparr>, F_Fin 0)], ex_search_db)"
  "fts_search ex_search_env ''s'' q 32 (Some [''home'']) ex_search_db = (Inr [], ex_search_db)"
proof -
  have script: "md_script ex_search_db = []" by (simp add: ex_search_db_def ex_memory_db_def)
  have json: "mx_embedding_json ex_search_env v = Inr ''[]''" for v by (simp add: ex_search_env_def ex_memory_env_def)
  have tags: "has_all_tags ex_search_env (Some [''home'']) (ex_chunk ''a'' ''s'' ''m'') = Inr True" "has_all_tags ex_search_env (Some [''home'']) (ex_chunk ''b'' ''s'' ''n'') = Inr False"
    by (simp_all add: has_all_tags_def has_tag_def json_extract_def json_get_def ex_search_env_def ex_memory_env_def table_codec_def ex_search_texts_def ex_chunk_def)
  have row: "hybrid_candidate_from_row ex_search_env (ex_chunk ''a'' ''s'' ''m'') = Inr \<lparr>hr_chunk_id = ''a'', hr_session_id = ''s'', hr_text = ''tea'', hr_file_id = None,
      hr_sequence_start = Some 1, hr_sequence_end = Some 1, hr_metadata = Some (JObj [(''tags'', JArr [JStr ''home''])]), hr_recency_sequence = 1\<rparr>"
    by (simp add: hybrid_candidate_from_row_def read_optional_u64_def option_result_def ex_search_env_def ex_memory_env_def table_codec_def ex_search_texts_def ex_chunk_def)
  show "vector_search ex_search_env ''s'' [0] 32 (Some [''home'']) ex_search_db =
     (Inr [(\<lparr>hr_chunk_id = ''a'', hr_session_id = ''s'', hr_text = ''tea'', hr_file_id = None, hr_sequence_start = Some 1, hr_sequence_end = Some 1,
        hr_metadata = Some (JObj [(''tags'', JArr [JStr ''home''])]), hr_recency_sequence = 1\<rparr>, F_Fin 0)], ex_search_db)"
    by (simp add: vector_search_def candidates_of_def on_connection_works[OF script] statement_works[OF script] bind_action_def lift_action_def fits_i64_def
        normalize_embedding_dimensions_def INDEX_VECTOR_DIMENSIONS_def json ex_search_found tags row sort_rows_def)
  show "fts_search ex_search_env ''s'' q 32 (Some [''home'']) ex_search_db = (Inr [], ex_search_db)"
    by (simp add: fts_search_def candidates_of_def on_connection_works[OF script] statement_works[OF script] bind_action_def lift_action_def fits_i64_def
        ex_search_found sort_rows_def)
qed

lemma ex_query_answered:
  "execute_hybrid_query ex_search_env adapter ex_query ex_search_db =
     (Inr [\<lparr>hc_row = \<lparr>hr_chunk_id = ''a'', hr_session_id = ''s'', hr_text = ''tea'', hr_file_id = None, hr_sequence_start = Some 1, hr_sequence_end = Some 1,
        hr_metadata = Some (JObj [(''tags'', JArr [JStr ''home''])]), hr_recency_sequence = 1\<rparr>, hc_score = F_Fin 1, hc_vector_score = F_Fin 1, hc_fts_score = F_Fin 0\<rparr>],
      ex_search_db)"
proof -
  have tags: "normalize_note_tags ex_search_env (Some [''home'']) = [''home'']" "trim ''tea'' = ''tea''"
    by (simp add: ex_search_env_def ex_memory_env_def ex_search_texts_def) code_simp+
  have weights: "validate_hybrid_weights ex_search_env (F_Fin 1) (F_Fin 0) = Inr ()" "validate_query_embedding ex_search_env [0] = Inr ()"
    by (simp_all add: validate_hybrid_weights_def is_weight_def f64_is_finite_def f64_le_def f64_sub_def f64_neg_def f64_abs_def validate_query_embedding_def
        ex_search_env_def ex_memory_env_def)
  have limit: "8 * RETRIEVAL_CANDIDATE_MULTIPLIER = 32" by (simp add: RETRIEVAL_CANDIDATE_MULTIPLIER_def)
  show ?thesis
    by (simp add: execute_hybrid_query_def ex_query_def Let_def default_retrieval_def limit tags weights ex_search_candidates bind_action_def lift_action_def ret_action_def
        rank_candidates_def merge_candidates_def normalize_scores_def f64_min_def f64_max_def f64_sub_def f64_neg_def f64_abs_def sort_rows_def)
qed

theorem search_results_sound_witness:
  "length (case fst (execute_hybrid_query ex_search_env ex_adapter ex_query ex_search_db) of Inr results \<Rightarrow> results | Inl _ \<Rightarrow> []) = 1 \<and>
   (\<exists>c. c \<in> set (mt_chunks (md_tables ex_search_db)) \<and> mc_session c = ''s'' \<and> mc_chunk_id c = ''a'' \<and> has_tag ex_search_env c ''home'' = Inr True)"
proof -
  have "normalize_note_tags ex_search_env (hq_tags ex_query) = [''home'']" "hq_session_id ex_query = ''s''"
    by (simp add: ex_query_def ex_search_env_def ex_memory_env_def ex_search_texts_def, code_simp) (simp add: ex_query_def)
  then show ?thesis using search_results_sound[OF ex_query_answered[of ex_adapter]] unfolding ex_query_answered by auto
qed

section \<open>Chunks of other sessions\<close>

text \<open>The vector index is asked for the nearest chunks of all sessions and the chunks of other sessions are dropped afterwards: when those are nearer, the search by
  vectors finds nothing, whatever the session holds.\<close>

lemma other_sessions_crowd_out:
  assumes "\<forall>i\<in>set (mx_vector_top_k env (mt_vecs t) q limit). \<forall>c\<in>set (mt_chunks t). mc_chunk_id c = i \<longrightarrow> mc_session c \<noteq> sid"
  shows "vector_matches env sid q limit t = []"
  using assms by (auto simp: vector_matches_def)

end
