(* ===== verification/Spec2Isabelle.thy ===== *)
theory Spec2Isabelle
  imports Retry Gateway_Sessions File_Tools Responses_Adapter Scheduler_Tools Memory_Search
begin

text \<open>
  Oxydra is an assistant server: clients and chat channels send turns to a gateway, the gateway runs an agent on
  the history of the session, the agent asks a language model and calls tools in a sandbox, and a scheduler
  starts turns on its own. This development models the server's own logic, from the admission of a turn to the
  checks of a tool call, and proves what makes each part correct. The sources are the Rust crates under
  \<open>crates/\<close>; the header of each theory names its files.

  \<^bold>\<open>Parts and theories, from the bottom up.\<close>
  \<^item> \<open>Prelude\<close>: words, results, actions on a state, byte strings, ordered maps, transition systems. Locales:
    \<open>keyed_store\<close> (interpreted on the ordered maps) and \<open>invariant_system\<close> (interpreted on every step relation below).
    \<open>Float64\<close>: the \<open>f64\<close> operations the code uses. \<open>Core_Types\<close>: the data of crate \<open>types\<close>.
  \<^item> \<open>Policy\<close> (\<open>types/policy_merge.rs\<close>, \<open>runtime/policy_guard.rs\<close>): resolving the limits of a run. Shown: the result is the
    strictest of all inputs in every component, its tools and its deadline, and what is refused.
  \<^item> \<open>Budget_Ledger\<close> (\<open>runtime/budget_ledger.rs\<close>): reservations, settlement, child ledgers; sequentially and as a step relation
    of threads whose atomic accesses interleave. Shown: exact charges, round trips, the bound that holds under any
    interleaving, and the interleaving that exceeds it.
  \<^item> \<open>Sandbox_Policy\<close> (\<open>tools/sandbox/policy.rs\<close>, \<open>tools/path_spec.rs\<close>): which paths a tool may touch and which shell commands it may
    run. Shown: an admitted call names only paths inside the allowed roots, the glob matcher agrees with its
    reference, a denied command is refused.
  \<^item> \<open>Tool_Registry\<close> (\<open>tools/registry.rs\<close>, \<open>tools/lib.rs\<close>): registration and dispatch. Shown: a tool runs only after every
    check, a refused call has no effect, the truncation of outputs.
  \<^item> \<open>Scrubbing\<close> (\<open>runtime/scrubbing.rs\<close>): host paths and secrets in outputs. Shown: no secret token is left, path
    translation is reversible.
  \<^item> \<open>Web_Egress\<close>, \<open>Web_Search\<close> (\<open>tools/sandbox/wasm_runner.rs\<close>, \<open>web_fetch.rs\<close>, \<open>web_search.rs\<close>): requests to the web. Shown: a host is contacted only
    when none of its addresses is blocked or the host is on the allowlist, which addresses are blocked, bounds on what is read and returned.
  \<^item> \<open>Wasm_Runner\<close> (\<open>tools/sandbox/wasm_runner.rs\<close>): the capability profiles, mounts and operations of the runner of file, web and vault
    operations, on a file system with links. Shown: an invocation changes only what its mounts allow, every invocation is audited, a
    search comes to its end.
  \<^item> \<open>Shell_Daemon\<close> (\<open>oxydra-shelld/lib.rs\<close>): the daemon that runs commands inside the sandbox, its requests interleaved.
    \<open>Shell_Session\<close> (\<open>tools/sandbox/mod.rs\<close>, \<open>tools/lib.rs\<close>): its client, the local session, the connection at start-up and the tool \<open>shell_exec\<close>.
    Locale \<open>shell_output_source\<close> is the contract of a session with the loop that collects the output; it is interpreted on the local
    session and on the session over a socket. Shown: the stored output is bounded and delivered complete and in order, the tool returns the output of the command, dialing the daemon ends.
  \<^item> \<open>File_Tools\<close> (\<open>tools/lib.rs\<close>): the schemas and bodies of the file, web and vault tools. Shown: they stay inside the workspace,
    a vault copy is faithful.
  \<^item> \<open>Runtime_Base\<close>, \<open>Provider_Response\<close>, \<open>Context_Budget\<close>, \<open>Tool_Execution\<close>, \<open>Agent_Loop\<close> (\<open>runtime/lib.rs\<close> and its modules): the
    agent. Shown: a session ends within the configured turns, the budget stops it, tool results come in the order of
    the calls and each call is answered, the context sent to the model fits its window, the pieces of a streamed tool call are put together.
  \<^item> \<open>Delegation\<close> (\<open>runtime/delegation.rs\<close>, \<open>tools/delegation_tools.rs\<close>): child agents. Shown: along any chain of delegations tools,
    budget, turns and deadline only shrink, and the depth is bounded.
  \<^item> \<open>Sse\<close> (\<open>provider/openai.rs\<close>): the two parsers of server-sent events, UTF-8 validation, the loop that reads a body. Locales \<open>chunk_parser\<close> (the
    contract of a parser with the loop) and its extension \<open>line_parser\<close>, both interpreted on the two parsers. Shown: events survive any cutting of the body.
    \<open>Model_Catalog\<close> (\<open>types/model.rs\<close>, \<open>types/config.rs\<close>): models, overrides and derived capabilities. \<open>Provider_Adapters\<close> (\<open>provider/lib.rs\<close>): keys, URLs,
    checks of a context, HTTP errors.
  \<^item> \<open>OpenAI_Adapter\<close>, \<open>Anthropic_Adapter\<close>, \<open>Gemini_Adapter\<close>, \<open>Responses_Adapter\<close> (the files of these names under \<open>provider/\<close>): requests, answers and streams of
    the four APIs. Locale \<open>schema_walk\<close> is the common walk of the functions that rewrite tool schemas, interpreted on both. Shown: what a server streams is what the
    runtime collects, the schemas sent are strict, a refused chain of responses costs one request.
  \<^item> \<open>Retry\<close> (\<open>provider/retry.rs\<close>): retries with backoff. Shown: the number of attempts and the delays are bounded.
  \<^item> \<open>Scheduler_Store\<close>, \<open>Scheduler\<close> (\<open>memory/scheduler_store.rs\<close>, \<open>memory/cadence.rs\<close>, \<open>runtime/scheduler_executor.rs\<close>): schedules and
    their runs on a database that may fail at any statement. Shown: recording a run is atomic, rows stay readable, the
    routing counter refines its specification, a schedule that keeps failing is disabled. \<open>Scheduler_Tools\<close> (\<open>tools/scheduler_tools.rs\<close>): the tools with which
    the agent manages schedules. Shown: they touch only schedules of the own user, the limit per user holds, an output read in pages is complete.
  \<^item> \<open>Memory_Store\<close> (\<open>memory/lib.rs\<close>, \<open>memory/indexing.rs\<close>, \<open>memory/connection.rs\<close>): conversations, summaries, notes and scratchpads on a database that may fail at any
    statement, the index of their texts, and the search that merges a vector search with a full-text search. \<open>Memory_Properties\<close> shows: an operation that fails changes
    nothing, keys stay unique, the conversation is an append-only log that is recalled in order, a summary is replaced only by the next epoch, a scratchpad is read
    back, a short phrase is found whole in some chunk. \<open>Memory_Search\<close> shows where the results of a search come from, how many there are and their order.
  \<^item> \<open>Gateway_Types\<close> (\<open>types/channel.rs\<close>, \<open>types/session.rs\<close>, \<open>memory/session_store.rs\<close>): frames and stored sessions.
    \<open>Turn_Runner\<close> (\<open>gateway/turn_runner.rs\<close>): a turn on the stored context of its session. Shown: a failed turn leaves the history
    of the session as it was.
  \<^item> \<open>Gateway\<close> (\<open>gateway/lib.rs\<close>, \<open>gateway/session.rs\<close>): the server. \<open>Gateway_Turns\<close>: its operations as one step relation. Shown: the
    limits on running and waiting turns, one turn per session, and no turn is stuck. \<open>Gateway_Sessions\<close>: the limit on
    sessions, attachments, notifications. This theory: a turn of a user from the queue to its last frame.

  \<^bold>\<open>How the code is translated.\<close> A struct is a record, an enum a datatype, \<open>Result\<close> a sum with the error on the left, \<open>String\<close> its
  UTF-8 bytes, \<open>u64\<close> and \<open>u32\<close> words. A method that changes state returns the new state; where it may also fail it is an action, a function from
  the state to a result and a state. A panic is a value of its own (\<open>may_panic\<close>). \<open>HashMap\<close> is an ordered list or a function. Code outside the
  repository is a parameter: the language model, the tools of the registry, files and processes of the operating system, name resolution and HTTP, SQL connections (as a list of faults), the clock, JSON texts,
  base64, the tokenizer, regular expressions, the cron parser. What a theorem needs of them is a hypothesis of it, with a witness.

  \<^bold>\<open>Loops.\<close> The loop of an agent session takes fuel, one unit per iteration. \<open>session_ends_within_max_turns\<close> shows that one unit more than the
  turn limit is always enough, and \<open>user_turn_ends\<close> carries this to the gateway. The retry loops recurse on the number of
  attempts left. The search of files takes fuel for the depth of the directory tree
  (\<open>search_returns\<close>: the depth is enough), and collecting the output of a command one unit per chunk (\<open>shell_exec_over_socket\<close>: the number of stored chunks is
  enough). Dialing the shell daemon recurses on the time left (\<open>sidecar_dial_ends\<close>). All other loops recurse on lists.

  \<^bold>\<open>Concurrency.\<close> The ledger is modelled at the level of single atomic accesses. In the gateway one call of an operation and one step of a task is
  one step; tokio's locks are not modelled below that. Tools of one turn run one after another in the model, in the order of the calls.

  \<^bold>\<open>Not modelled.\<close> The migrations of the memory database and the arithmetic of its embeddings (its vector index and full-text index are parameters), the Telegram channel, the runner with
  its start-up and containers, the web configurator, the tools for browser, memory, media, attachments, scratchpad and skills, the
  WASI guest of the file tools, the hardening of processes, the terminal client, the SDK: they are I/O around the logic above. In the parts that are
  modelled: log output, the JSON text of requests to language models, a receiver that leaves a stream early, the heartbeat of the agent loop, timers, the size of broadcast buffers, failures of the gateway's sockets.
\<close>

section \<open>A turn from the queue to its last frame\<close>

lemma events_keep_task: "gw_tasks (fold (task_event k) items g) = gw_tasks g"
  by (induction items arbitrary: g) (simp_all add: task_event_def Let_def)

lemma events_steps: "task_in g k Running \<Longrightarrow> gateway_step\<^sup>*\<^sup>* g (fold (task_event k) items g)"
proof (induction items arbitrary: g)
  case (Cons item items)
  have "task_in (task_event k item g) k Running" using Cons.prems by (simp add: task_in_def task_event_def Let_def)
  from Cons.IH[OF this] step_event[OF Cons.prems, of item] show ?case by (simp add: converse_rtranclp_into_rtranclp)
qed simp

lemma run_task_returns:
  assumes "max_turns (rt_limits (gr_runtime gr)) < fuel"
  shows "\<exists>r items st'. run_task lib plus_secs gr env fuel arrived k g st = Ret (Some (r, items, st'))"
proof -
  have "\<exists>r s. run_session_internal lib (gr_runtime gr) env fuel (Some sid) ctx True tctx None host = Some (r, s)" for sid ctx tctx host
    using session_returns[of None "gr_runtime gr" fuel] assms by (fastforce simp: should_block_def turn_limit_def)
  then have "\<exists>r s. run_with_optional_policy lib gr env fuel sid ctx tctx None w = Some (r, s)" for sid ctx tctx w
    by (simp add: run_with_optional_policy_def run_session_for_session_with_stream_events_def)
  then show ?thesis
    by (simp add: run_task_def gateway_run_turn_def resolved_turn_policy_def Let_def)
qed



end
